(* ===== verification/Sysio_Prelude.thy ===== *)
theory Sysio_Prelude
  imports Main "HOL-Library.Word"
begin

text \<open>
  Shared vocabulary of the development: the C integer types, the run-time faults C leaves
  undefined (or that abort the process), the sequencing of steps that may fault, bounds-checked
  array accesses, the character classification of the C locale, and the two external devices
  the code talks to (the allocator and a file descriptor that is written to).
\<close>

unbundle bit_operations_syntax

section \<open>Integer types\<close>

type_synonym u8 = "8 word"
type_synonym u16 = "16 word"
type_synonym u32 = "32 word"
type_synonym u64 = "64 word"

lemma xor_cancel_right: "a XOR k = b XOR k \<Longrightarrow> a = b" for a b k :: "'a::len word"
proof -
  assume "a XOR k = b XOR k"
  then have "(a XOR k) XOR k = (b XOR k) XOR k" by simp
  then show "a = b" by (simp add: xor.assoc)
qed

lemma xor_cancel_left: "k XOR a = k XOR b \<Longrightarrow> a = b" for a b k :: "'a::len word"
  using xor_cancel_right [of a k b] by (simp add: xor.commute)

lemma bit_below: "x < 2 ^ n \<Longrightarrow> bit x i \<Longrightarrow> i < n" for x :: "'a::len word"
  by (metis bit_take_bit_iff less_mask_eq take_bit_eq_mask word_size)

section \<open>Faults and their sequencing\<close>

text \<open>
  A value of type \<open>'a run\<close> is what a piece of C code does: \<open>Inr v\<close> when it returns
  \<open>v\<close>, \<open>Inl c\<close> when it performs an access that C leaves undefined or fails an \<open>assert\<close>.
  The error codes of the library itself are ordinary return values, never an \<open>Inl\<close>.
\<close>

datatype crash =
    NullPointer       \<comment> \<open>access through a NULL pointer\<close>
  | OutOfBounds       \<comment> \<open>read or write outside the object\<close>
  | UseAfterFree      \<comment> \<open>access through a pointer to freed memory\<close>
  | OverlappingCopy   \<comment> \<open>memcpy between regions that overlap\<close>
  | AssertFailed      \<comment> \<open>assert (false)\<close>
  | DivisionByZero    \<comment> \<open>integer division by zero\<close>
  | MissingReturn     \<comment> \<open>end of a function without its value\<close>

type_synonym 'a run = "crash + 'a"

fun cbind :: "'a run \<Rightarrow> ('a \<Rightarrow> 'b run) \<Rightarrow> 'b run" where
  "cbind (Inl c) f = Inl c"
| "cbind (Inr v) f = f v"

lemma cbind_assoc: "cbind (cbind m f) g = cbind m (\<lambda>x. cbind (f x) g)"
  by (cases m) auto

lemma cbind_Inr_iff: "cbind m f = Inr y \<longleftrightarrow> (\<exists>x. m = Inr x \<and> f x = Inr y)"
  by (cases m) auto

lemma cbind_Inl_iff: "cbind m f = Inl c \<longleftrightarrow> m = Inl c \<or> (\<exists>x. m = Inr x \<and> f x = Inl c)"
  by (cases m) auto

lemma cbind_cong [fundef_cong]:
  "m = m' \<Longrightarrow> (\<And>x. m' = Inr x \<Longrightarrow> f x = f' x) \<Longrightarrow> cbind m f = cbind m' f'"
  by (cases m') auto

text \<open>Dereferencing a pointer that owns its target: NULL is \<open>None\<close>.\<close>

definition deref :: "'a option \<Rightarrow> 'a run" where
  "deref p = (case p of None \<Rightarrow> Inl NullPointer | Some v \<Rightarrow> Inr v)"

lemma deref_simps [simp]: "deref None = Inl NullPointer" "deref (Some v) = Inr v"
  by (simp_all add: deref_def)

section \<open>Arrays\<close>

definition rd :: "'a list \<Rightarrow> nat \<Rightarrow> 'a run" where
  "rd xs i = (if i < length xs then Inr (xs ! i) else Inl OutOfBounds)"

definition wr :: "'a list \<Rightarrow> nat \<Rightarrow> 'a \<Rightarrow> 'a list run" where
  "wr xs i v = (if i < length xs then Inr (xs[i := v]) else Inl OutOfBounds)"

text \<open>\<open>memcpy (dst + d, src + s, n)\<close> between two distinct objects.\<close>

definition copy_into :: "'a list \<Rightarrow> nat \<Rightarrow> 'a list \<Rightarrow> nat \<Rightarrow> nat \<Rightarrow> 'a list run" where
  "copy_into dst d src s n =
     (if s + n \<le> length src \<and> d + n \<le> length dst
      then Inr (take d dst @ take n (drop s src) @ drop (d + n) dst)
      else Inl OutOfBounds)"

lemma rd_ok [simp]: "i < length xs \<Longrightarrow> rd xs i = Inr (xs ! i)"
  by (simp add: rd_def)

lemma rd_middle: "n = length xs \<Longrightarrow> rd (xs @ x # ys) n = Inr x"
  by simp

lemma rd_oob [simp]: "\<not> i < length xs \<Longrightarrow> rd xs i = Inl OutOfBounds"
  by (simp add: rd_def)

lemma wr_ok [simp]: "i < length xs \<Longrightarrow> wr xs i v = Inr (xs[i := v])"
  by (simp add: wr_def)

lemma wr_oob [simp]: "\<not> i < length xs \<Longrightarrow> wr xs i v = Inl OutOfBounds"
  by (simp add: wr_def)

lemma rd_Inr_iff: "rd xs i = Inr v \<longleftrightarrow> i < length xs \<and> v = xs ! i"
  by (auto simp: rd_def)

lemma wr_Inr_iff: "wr xs i v = Inr ys \<longleftrightarrow> i < length xs \<and> ys = xs[i := v]"
  by (auto simp: wr_def)

lemma copy_into_Inr_iff:
  "copy_into dst d src s n = Inr r \<longleftrightarrow>
     s + n \<le> length src \<and> d + n \<le> length dst \<and>
     r = take d dst @ take n (drop s src) @ drop (d + n) dst"
  by (auto simp: copy_into_def)

lemma copy_into_length: "copy_into dst d src s n = Inr r \<Longrightarrow> length r = length dst"
  by (auto simp: copy_into_Inr_iff)

lemma copy_into_middle:
  "\<lbrakk>s = length h; n = length x; n \<le> length dst\<rbrakk> \<Longrightarrow>
     copy_into dst 0 (h @ x @ t) s n = Inr (x @ drop n dst)"
  by (simp add: copy_into_def)

lemma take_update_last: "n < length xs \<Longrightarrow> take (Suc n) (xs[n := v]) = take n xs @ [v]"
  by (simp add: take_Suc_conv_app_nth)

lemma upt_step: "[j..<j + Suc k] = j # [Suc j..<Suc j + k]"
  by (simp add: upt_conv_Cons del: upt_Suc)

section \<open>Characters of the C locale\<close>

definition isdigit :: "u8 \<Rightarrow> bool" where
  "isdigit c = (0x30 \<le> c \<and> c \<le> 0x39)"

definition isupper :: "u8 \<Rightarrow> bool" where
  "isupper c = (0x41 \<le> c \<and> c \<le> 0x5A)"

definition islower :: "u8 \<Rightarrow> bool" where
  "islower c = (0x61 \<le> c \<and> c \<le> 0x7A)"

definition isalnum :: "u8 \<Rightarrow> bool" where
  "isalnum c = (isdigit c \<or> isupper c \<or> islower c)"

definition isxdigit :: "u8 \<Rightarrow> bool" where
  "isxdigit c = (isdigit c \<or> (0x41 \<le> c \<and> c \<le> 0x46) \<or> (0x61 \<le> c \<and> c \<le> 0x66))"

definition toupper :: "u8 \<Rightarrow> u8" where
  "toupper c = (if islower c then c - 0x20 else c)"

lemma toupper_upper: "\<not> islower c \<Longrightarrow> toupper c = c"
  by (simp add: toupper_def)

text \<open>The decimal digits \<open>sprintf\<close> prints for \<open>%d\<close> on a non-negative value.\<close>

fun dec_digits :: "nat \<Rightarrow> u8 list" where
  "dec_digits n =
     (if n < 10 then [0x30 + of_nat n] else dec_digits (n div 10) @ [0x30 + of_nat (n mod 10)])"

declare dec_digits.simps [simp del]

definition c_decimal :: "int \<Rightarrow> u8 list" where
  "c_decimal n = (if n < 0 then 0x2D # dec_digits (nat (- n)) else dec_digits (nat n))"

text \<open>The hexadecimal digits that \<open>sprintf\<close> prints for \<open>%X\<close>, \<open>%02X\<close> and \<open>%04X\<close>.\<close>

definition hex_digit :: "nat \<Rightarrow> u8" where
  "hex_digit n = (if n < 10 then 0x30 + of_nat n else 0x37 + of_nat n)"

definition hex2 :: "u8 \<Rightarrow> u8 list" where
  "hex2 b = [hex_digit (unat b div 16), hex_digit (unat b mod 16)]"

definition hex4 :: "u16 \<Rightarrow> u8 list" where
  "hex4 w = map (\<lambda>i. hex_digit (unat w div 16 ^ i mod 16)) [3, 2, 1, 0]"

section \<open>Strings\<close>

text \<open>
  A C string is the bytes from its address to the end of the object that holds them;
  \<open>strlen\<close> and \<open>strncpy\<close> stop at the first NUL and fault when there is none within
  the object (within the bound, for \<open>strncpy\<close>).
\<close>

fun c_strlen :: "u8 list \<Rightarrow> nat run" where
  "c_strlen [] = Inl OutOfBounds"
| "c_strlen (c # cs) = (if c = 0 then Inr 0 else cbind (c_strlen cs) (\<lambda>n. Inr (Suc n)))"

fun c_strncpy :: "nat \<Rightarrow> u8 list \<Rightarrow> u8 list run" where
  "c_strncpy 0 cs = Inr []"
| "c_strncpy (Suc n) [] = Inl OutOfBounds"
| "c_strncpy (Suc n) (c # cs) =
     (if c = 0 then Inr (replicate (Suc n) 0)
      else cbind (c_strncpy n cs) (\<lambda>r. Inr (c # r)))"

lemma c_strncpy_length: "c_strncpy n cs = Inr r \<Longrightarrow> length r = n"
  by (induction n cs arbitrary: r rule: c_strncpy.induct) (auto split: if_splits simp: cbind_Inr_iff)

lemma c_strncpy_long: "n \<le> length cs \<Longrightarrow> 0 \<notin> set (take n cs) \<Longrightarrow> c_strncpy n cs = Inr (take n cs)"
  by (induction n cs rule: c_strncpy.induct) auto

lemma c_strncpy_short:
  "0 \<notin> set xs \<Longrightarrow> length xs < n \<Longrightarrow>
     c_strncpy n (xs @ 0 # ys) = Inr (xs @ replicate (n - length xs) 0)"
proof (induction xs arbitrary: n)
  case Nil
  then show ?case by (cases n) auto
next
  case (Cons x xs)
  then obtain m where n: "n = Suc m" by (cases n) auto
  with Cons have "c_strncpy m (xs @ 0 # ys) = Inr (xs @ replicate (m - length xs) 0)" by simp
  with Cons.prems n show ?case by simp
qed

lemma c_strlen_app: "0 \<notin> set xs \<Longrightarrow> c_strlen (xs @ 0 # ys) = Inr (length xs)"
  by (induction xs) auto

section \<open>The allocator and an output descriptor\<close>

text \<open>
  \<open>malloc\<close> succeeds or returns NULL: the plan lists the outcome of the next calls, and a
  call past its end succeeds.  Likewise \<open>write (fd, &c, 1)\<close> returns \<open>-1\<close>, \<open>0\<close> or
  \<open>1\<close>: the plan of the descriptor gives the next results, which may go on for ever (with nothing but
  0, say), and a call past its end writes its byte.  Only a call that returns \<open>1\<close> has sent the byte.
\<close>

record mem =
  mplan :: "bool list"
  live :: int           \<comment> \<open>blocks allocated and not yet freed\<close>

fun malloc :: "mem \<Rightarrow> bool \<times> mem" where
  "malloc m =
     (case mplan m of
        [] \<Rightarrow> (True, m\<lparr>live := live m + 1\<rparr>)
      | b # bs \<Rightarrow> (b, m\<lparr>mplan := bs, live := (if b then live m + 1 else live m)\<rparr>))"

definition free :: "'a option \<Rightarrow> mem \<Rightarrow> mem" where
  "free p m = (case p of None \<Rightarrow> m | Some _ \<Rightarrow> m\<lparr>live := live m - 1\<rparr>)"

lemma malloc_ok [simp]: "mplan m = [] \<Longrightarrow> malloc m = (True, m\<lparr>live := live m + 1\<rparr>)"
  by simp

lemma malloc_live: "malloc m = (b, m') \<Longrightarrow> live m' = live m + (if b then 1 else 0)"
  by (auto split: list.splits)

declare malloc.simps [simp del]

lemma free_simps [simp]: "free None m = m" "free (Some v) m = m\<lparr>live := live m - 1\<rparr>"
  by (simp_all add: free_def)

text \<open>The results of the calls to come, possibly without end; past their end calls succeed.\<close>

codatatype (answers_in: 'a) answers = Granted | Answer 'a "'a answers"

primrec script :: "'a list \<Rightarrow> 'a answers" where
  "script [] = Granted"
| "script (r # rs) = Answer r (script rs)"

primcorec always :: "'a \<Rightarrow> 'a answers" where
  "always r = Answer r (always r)"

primrec later :: "nat \<Rightarrow> 'a answers \<Rightarrow> 'a answers" where
  "later 0 p = p"
| "later (Suc n) p = (case p of Granted \<Rightarrow> Granted | Answer _ q \<Rightarrow> later n q)"

text \<open>There is a call whose result is not 0.\<close>

inductive answered :: "int answers \<Rightarrow> bool" where
  answered_granted: "answered Granted"
| answered_now: "r \<noteq> 0 \<Longrightarrow> answered (Answer r p)"
| answered_later: "answered p \<Longrightarrow> answered (Answer 0 p)"

inductive_simps answered_simps [simp]: "answered Granted" "answered (Answer r p)"

lemma answers_in_script [simp]: "answers_in (script rs) = set rs"
  by (induction rs) simp_all

lemma answered_script [simp]: "answered (script rs)"
  by (induction rs) simp_all

lemma later_script: "\<exists>qs. later n (script rs) = script qs"
  by (induction n arbitrary: rs) (auto split: answers.split intro: exI [of _ "[]"], metis answers.distinct(1) answers.inject list.exhaust script.simps)

lemma always_stalls: "\<not> answered (always 0)"
proof
  assume "answered (always 0)"
  then show False
    by (induction "always 0 :: int answers") (subst (asm) always.code, simp)+
qed

record wdev =
  sent :: "u8 list"
  plan :: "int answers"

fun write1 :: "u8 \<Rightarrow> wdev \<Rightarrow> int \<times> wdev" where
  "write1 c d =
     (case plan d of
        Granted \<Rightarrow> (1, d\<lparr>sent := sent d @ [c]\<rparr>)
      | Answer r rs \<Rightarrow>
          if r > 0 then (1, d\<lparr>sent := sent d @ [c], plan := rs\<rparr>)
          else (if r = 0 then 0 else -1, d\<lparr>plan := rs\<rparr>))"

lemma write1_ok [simp]: "plan d = Granted \<Longrightarrow> write1 c d = (1, d\<lparr>sent := sent d @ [c]\<rparr>)"
  by simp

declare write1.simps [simp del]

end
