(* ===== verification/Crc.thy ===== *)
theory Crc
  imports Sysio_Prelude
begin

text \<open>
  The CRC-CCITT of \<open>radio/src/crc.c\<close> and \<open>radio/include/radio/crc.h\<close>: the 256-entry
  table, the per-byte update and the buffer loop.  The table-driven update is proved equal to
  the bit-serial shift register it was generated from (\<open>usCrcCcittUpdate_lfsr\<close>); what the
  two link layers need of it (a message followed by its complemented CRC leaves the fixed
  residue, and no error confined to two adjacent bytes goes unnoticed) is proved in the locale
  \<open>crc16\<close> and holds here by interpretation.
\<close>

section \<open>The code\<close>

definition CRC_CCITT_INIT_VAL :: u16 where
  "CRC_CCITT_INIT_VAL = 0xFFFF"

definition usCrcCcittTab :: "u16 list" where
  "usCrcCcittTab =
    [0x0000, 0x1189, 0x2312, 0x329b, 0x4624, 0x57ad, 0x6536, 0x74bf,
     0x8c48, 0x9dc1, 0xaf5a, 0xbed3, 0xca6c, 0xdbe5, 0xe97e, 0xf8f7,
     0x1081, 0x0108, 0x3393, 0x221a, 0x56a5, 0x472c, 0x75b7, 0x643e,
     0x9cc9, 0x8d40, 0xbfdb, 0xae52, 0xdaed, 0xcb64, 0xf9ff, 0xe876,
     0x2102, 0x308b, 0x0210, 0x1399, 0x6726, 0x76af, 0x4434, 0x55bd,
     0xad4a, 0xbcc3, 0x8e58, 0x9fd1, 0xeb6e, 0xfae7, 0xc87c, 0xd9f5,
     0x3183, 0x200a, 0x1291, 0x0318, 0x77a7, 0x662e, 0x54b5, 0x453c,
     0xbdcb, 0xac42, 0x9ed9, 0x8f50, 0xfbef, 0xea66, 0xd8fd, 0xc974,
     0x4204, 0x538d, 0x6116, 0x709f, 0x0420, 0x15a9, 0x2732, 0x36bb,
     0xce4c, 0xdfc5, 0xed5e, 0xfcd7, 0x8868, 0x99e1, 0xab7a, 0xbaf3,
     0x5285, 0x430c, 0x7197, 0x601e, 0x14a1, 0x0528, 0x37b3, 0x263a,
     0xdecd, 0xcf44, 0xfddf, 0xec56, 0x98e9, 0x8960, 0xbbfb, 0xaa72,
     0x6306, 0x728f, 0x4014, 0x519d, 0x2522, 0x34ab, 0x0630, 0x17b9,
     0xef4e, 0xfec7, 0xcc5c, 0xddd5, 0xa96a, 0xb8e3, 0x8a78, 0x9bf1,
     0x7387, 0x620e, 0x5095, 0x411c, 0x35a3, 0x242a, 0x16b1, 0x0738,
     0xffcf, 0xee46, 0xdcdd, 0xcd54, 0xb9eb, 0xa862, 0x9af9, 0x8b70,
     0x8408, 0x9581, 0xa71a, 0xb693, 0xc22c, 0xd3a5, 0xe13e, 0xf0b7,
     0x0840, 0x19c9, 0x2b52, 0x3adb, 0x4e64, 0x5fed, 0x6d76, 0x7cff,
     0x9489, 0x8500, 0xb79b, 0xa612, 0xd2ad, 0xc324, 0xf1bf, 0xe036,
     0x18c1, 0x0948, 0x3bd3, 0x2a5a, 0x5ee5, 0x4f6c, 0x7df7, 0x6c7e,
     0xa50a, 0xb483, 0x8618, 0x9791, 0xe32e, 0xf2a7, 0xc03c, 0xd1b5,
     0x2942, 0x38cb, 0x0a50, 0x1bd9, 0x6f66, 0x7eef, 0x4c74, 0x5dfd,
     0xb58b, 0xa402, 0x9699, 0x8710, 0xf3af, 0xe226, 0xd0bd, 0xc134,
     0x39c3, 0x284a, 0x1ad1, 0x0b58, 0x7fe7, 0x6e6e, 0x5cf5, 0x4d7c,
     0xc60c, 0xd785, 0xe51e, 0xf497, 0x8028, 0x91a1, 0xa33a, 0xb2b3,
     0x4a44, 0x5bcd, 0x6956, 0x78df, 0x0c60, 0x1de9, 0x2f72, 0x3efb,
     0xd68d, 0xc704, 0xf59f, 0xe416, 0x90a9, 0x8120, 0xb3bb, 0xa232,
     0x5ac5, 0x4b4c, 0x79d7, 0x685e, 0x1ce1, 0x0d68, 0x3ff3, 0x2e7a,
     0xe70e, 0xf687, 0xc41c, 0xd595, 0xa12a, 0xb0a3, 0x8238, 0x93b1,
     0x6b46, 0x7acf, 0x4854, 0x59dd, 0x2d62, 0x3ceb, 0x0e70, 0x1ff9,
     0xf78f, 0xe606, 0xd49d, 0xc514, 0xb1ab, 0xa022, 0x92b9, 0x8330,
     0x7bc7, 0x6a4e, 0x58d5, 0x495c, 0x3de3, 0x2c6a, 0x1ef1, 0x0f78]"

definition usCrcCcittUpdate :: "u8 \<Rightarrow> u16 \<Rightarrow> u16" where
  "usCrcCcittUpdate c oldcrc =
     drop_bit 8 oldcrc XOR usCrcCcittTab ! unat ((oldcrc XOR ucast c) AND 0xff)"

text \<open>\<open>while (uLen--) usCrc = usCrcCcittUpdate (*buf++, usCrc)\<close>, reading inside the buffer.\<close>

fun usCrcCcitt :: "u16 \<Rightarrow> u8 list \<Rightarrow> nat \<Rightarrow> u16 run" where
  "usCrcCcitt usCrc buf 0 = Inr usCrc"
| "usCrcCcitt usCrc [] (Suc uLen) = Inl OutOfBounds"
| "usCrcCcitt usCrc (b # buf) (Suc uLen) = usCrcCcitt (usCrcCcittUpdate b usCrc) buf uLen"

section \<open>The bit-serial reference\<close>

text \<open>One shift of the reflected CCITT register (polynomial \<open>0x8408\<close>), and \<open>n\<close> of them.\<close>

definition lfsr1 :: "u16 \<Rightarrow> u16" where
  "lfsr1 x = drop_bit 1 x XOR (if bit x 0 then 0x8408 else 0)"

fun lfsr :: "nat \<Rightarrow> u16 \<Rightarrow> u16" where
  "lfsr 0 x = x"
| "lfsr (Suc n) x = lfsr n (lfsr1 x)"

lemma lfsr1_xor: "lfsr1 (x XOR y) = lfsr1 x XOR lfsr1 y"
  by (rule bit_eqI) (auto simp: lfsr1_def bit_simps)

lemma lfsr_xor: "lfsr n (x XOR y) = lfsr n x XOR lfsr n y"
  by (induction n arbitrary: x y) (simp_all add: lfsr1_xor)

lemma lfsr_add: "lfsr (m + n) x = lfsr n (lfsr m x)"
  by (induction m arbitrary: x) auto

lemma lfsr1_even: "\<not> bit x 0 \<Longrightarrow> lfsr1 x = drop_bit 1 x"
  by (simp add: lfsr1_def)

lemma lfsr_shift: "(\<And>i. i < n \<Longrightarrow> \<not> bit x i) \<Longrightarrow> lfsr n x = drop_bit n x"
proof (induction n arbitrary: x)
  case 0
  then show ?case by simp
next
  case (Suc n)
  have "lfsr n (drop_bit 1 x) = drop_bit n (drop_bit 1 x)"
    by (rule Suc.IH) (use Suc.prems in \<open>simp add: bit_simps\<close>)
  with Suc.prems[of 0] show ?case by (simp add: lfsr1_even)
qed

lemma lfsr1_inj: "lfsr1 x = lfsr1 y \<Longrightarrow> x = y"
proof (rule bit_eqI)
  fix i
  assume eq: "lfsr1 x = lfsr1 y" and i: "possible_bit TYPE(u16) i"
  have top: "bit (lfsr1 z) 15 = bit z 0" for z :: u16
    using bit_imp_le_length[of z 16] by (auto simp: lfsr1_def bit_simps)
  from top[of x] top[of y] eq have b0: "bit x 0 = bit y 0" by simp
  show "bit x i = bit y i"
  proof (cases i)
    case 0
    with b0 show ?thesis by simp
  next
    case (Suc j)
    from eq b0 have "drop_bit 1 x = drop_bit 1 y"
      by (auto simp: lfsr1_def split: if_splits dest: xor_cancel_right)
    then have "bit (drop_bit 1 x) j = bit (drop_bit 1 y) j" by simp
    with Suc show ?thesis by (simp add: bit_simps)
  qed
qed

lemma lfsr_inj: "lfsr n x = lfsr n y \<Longrightarrow> x = y"
  by (induction n arbitrary: x y) (auto dest: lfsr1_inj)

section \<open>The table is the reference\<close>

lemma lfsr1_numeral [simp]:
  "lfsr1 0 = 0"
  "lfsr1 1 = 0x8408"
  "lfsr1 (numeral k) = drop_bit 1 (numeral k) XOR (if bit (numeral k :: u16) 0 then 0x8408 else 0)"
  by (simp_all add: lfsr1_def)

lemma crc_row_0:
  "map (lfsr (Suc (Suc (Suc (Suc (Suc (Suc (Suc (Suc 0))))))))) [0x00, 0x01, 0x02, 0x03, 0x04, 0x05, 0x06, 0x07, 0x08, 0x09, 0x0a, 0x0b, 0x0c, 0x0d, 0x0e, 0x0f] =
     [0x0000, 0x1189, 0x2312, 0x329b, 0x4624, 0x57ad, 0x6536, 0x74bf,
      0x8c48, 0x9dc1, 0xaf5a, 0xbed3, 0xca6c, 0xdbe5, 0xe97e, 0xf8f7]"
  by simp

lemma crc_row_1:
  "map (lfsr (Suc (Suc (Suc (Suc (Suc (Suc (Suc (Suc 0))))))))) [0x10, 0x11, 0x12, 0x13, 0x14, 0x15, 0x16, 0x17, 0x18, 0x19, 0x1a, 0x1b, 0x1c, 0x1d, 0x1e, 0x1f] =
     [0x1081, 0x0108, 0x3393, 0x221a, 0x56a5, 0x472c, 0x75b7, 0x643e,
      0x9cc9, 0x8d40, 0xbfdb, 0xae52, 0xdaed, 0xcb64, 0xf9ff, 0xe876]"
  by simp

lemma crc_row_2:
  "map (lfsr (Suc (Suc (Suc (Suc (Suc (Suc (Suc (Suc 0))))))))) [0x20, 0x21, 0x22, 0x23, 0x24, 0x25, 0x26, 0x27, 0x28, 0x29, 0x2a, 0x2b, 0x2c, 0x2d, 0x2e, 0x2f] =
     [0x2102, 0x308b, 0x0210, 0x1399, 0x6726, 0x76af, 0x4434, 0x55bd,
      0xad4a, 0xbcc3, 0x8e58, 0x9fd1, 0xeb6e, 0xfae7, 0xc87c, 0xd9f5]"
  by simp

lemma crc_row_3:
  "map (lfsr (Suc (Suc (Suc (Suc (Suc (Suc (Suc (Suc 0))))))))) [0x30, 0x31, 0x32, 0x33, 0x34, 0x35, 0x36, 0x37, 0x38, 0x39, 0x3a, 0x3b, 0x3c, 0x3d, 0x3e, 0x3f] =
     [0x3183, 0x200a, 0x1291, 0x0318, 0x77a7, 0x662e, 0x54b5, 0x453c,
      0xbdcb, 0xac42, 0x9ed9, 0x8f50, 0xfbef, 0xea66, 0xd8fd, 0xc974]"
  by simp

lemma crc_row_4:
  "map (lfsr (Suc (Suc (Suc (Suc (Suc (Suc (Suc (Suc 0))))))))) [0x40, 0x41, 0x42, 0x43, 0x44, 0x45, 0x46, 0x47, 0x48, 0x49, 0x4a, 0x4b, 0x4c, 0x4d, 0x4e, 0x4f] =
     [0x4204, 0x538d, 0x6116, 0x709f, 0x0420, 0x15a9, 0x2732, 0x36bb,
      0xce4c, 0xdfc5, 0xed5e, 0xfcd7, 0x8868, 0x99e1, 0xab7a, 0xbaf3]"
  by simp

lemma crc_row_5:
  "map (lfsr (Suc (Suc (Suc (Suc (Suc (Suc (Suc (Suc 0))))))))) [0x50, 0x51, 0x52, 0x53, 0x54, 0x55, 0x56, 0x57, 0x58, 0x59, 0x5a, 0x5b, 0x5c, 0x5d, 0x5e, 0x5f] =
     [0x5285, 0x430c, 0x7197, 0x601e, 0x14a1, 0x0528, 0x37b3, 0x263a,
      0xdecd, 0xcf44, 0xfddf, 0xec56, 0x98e9, 0x8960, 0xbbfb, 0xaa72]"
  by simp

lemma crc_row_6:
  "map (lfsr (Suc (Suc (Suc (Suc (Suc (Suc (Suc (Suc 0))))))))) [0x60, 0x61, 0x62, 0x63, 0x64, 0x65, 0x66, 0x67, 0x68, 0x69, 0x6a, 0x6b, 0x6c, 0x6d, 0x6e, 0x6f] =
     [0x6306, 0x728f, 0x4014, 0x519d, 0x2522, 0x34ab, 0x0630, 0x17b9,
      0xef4e, 0xfec7, 0xcc5c, 0xddd5, 0xa96a, 0xb8e3, 0x8a78, 0x9bf1]"
  by simp

lemma crc_row_7:
  "map (lfsr (Suc (Suc (Suc (Suc (Suc (Suc (Suc (Suc 0))))))))) [0x70, 0x71, 0x72, 0x73, 0x74, 0x75, 0x76, 0x77, 0x78, 0x79, 0x7a, 0x7b, 0x7c, 0x7d, 0x7e, 0x7f] =
     [0x7387, 0x620e, 0x5095, 0x411c, 0x35a3, 0x242a, 0x16b1, 0x0738,
      0xffcf, 0xee46, 0xdcdd, 0xcd54, 0xb9eb, 0xa862, 0x9af9, 0x8b70]"
  by simp

lemma crc_row_8:
  "map (lfsr (Suc (Suc (Suc (Suc (Suc (Suc (Suc (Suc 0))))))))) [0x80, 0x81, 0x82, 0x83, 0x84, 0x85, 0x86, 0x87, 0x88, 0x89, 0x8a, 0x8b, 0x8c, 0x8d, 0x8e, 0x8f] =
     [0x8408, 0x9581, 0xa71a, 0xb693, 0xc22c, 0xd3a5, 0xe13e, 0xf0b7,
      0x0840, 0x19c9, 0x2b52, 0x3adb, 0x4e64, 0x5fed, 0x6d76, 0x7cff]"
  by simp

lemma crc_row_9:
  "map (lfsr (Suc (Suc (Suc (Suc (Suc (Suc (Suc (Suc 0))))))))) [0x90, 0x91, 0x92, 0x93, 0x94, 0x95, 0x96, 0x97, 0x98, 0x99, 0x9a, 0x9b, 0x9c, 0x9d, 0x9e, 0x9f] =
     [0x9489, 0x8500, 0xb79b, 0xa612, 0xd2ad, 0xc324, 0xf1bf, 0xe036,
      0x18c1, 0x0948, 0x3bd3, 0x2a5a, 0x5ee5, 0x4f6c, 0x7df7, 0x6c7e]"
  by simp

lemma crc_row_A:
  "map (lfsr (Suc (Suc (Suc (Suc (Suc (Suc (Suc (Suc 0))))))))) [0xa0, 0xa1, 0xa2, 0xa3, 0xa4, 0xa5, 0xa6, 0xa7, 0xa8, 0xa9, 0xaa, 0xab, 0xac, 0xad, 0xae, 0xaf] =
     [0xa50a, 0xb483, 0x8618, 0x9791, 0xe32e, 0xf2a7, 0xc03c, 0xd1b5,
      0x2942, 0x38cb, 0x0a50, 0x1bd9, 0x6f66, 0x7eef, 0x4c74, 0x5dfd]"
  by simp

lemma crc_row_B:
  "map (lfsr (Suc (Suc (Suc (Suc (Suc (Suc (Suc (Suc 0))))))))) [0xb0, 0xb1, 0xb2, 0xb3, 0xb4, 0xb5, 0xb6, 0xb7, 0xb8, 0xb9, 0xba, 0xbb, 0xbc, 0xbd, 0xbe, 0xbf] =
     [0xb58b, 0xa402, 0x9699, 0x8710, 0xf3af, 0xe226, 0xd0bd, 0xc134,
      0x39c3, 0x284a, 0x1ad1, 0x0b58, 0x7fe7, 0x6e6e, 0x5cf5, 0x4d7c]"
  by simp

lemma crc_row_C:
  "map (lfsr (Suc (Suc (Suc (Suc (Suc (Suc (Suc (Suc 0))))))))) [0xc0, 0xc1, 0xc2, 0xc3, 0xc4, 0xc5, 0xc6, 0xc7, 0xc8, 0xc9, 0xca, 0xcb, 0xcc, 0xcd, 0xce, 0xcf] =
     [0xc60c, 0xd785, 0xe51e, 0xf497, 0x8028, 0x91a1, 0xa33a, 0xb2b3,
      0x4a44, 0x5bcd, 0x6956, 0x78df, 0x0c60, 0x1de9, 0x2f72, 0x3efb]"
  by simp

lemma crc_row_D:
  "map (lfsr (Suc (Suc (Suc (Suc (Suc (Suc (Suc (Suc 0))))))))) [0xd0, 0xd1, 0xd2, 0xd3, 0xd4, 0xd5, 0xd6, 0xd7, 0xd8, 0xd9, 0xda, 0xdb, 0xdc, 0xdd, 0xde, 0xdf] =
     [0xd68d, 0xc704, 0xf59f, 0xe416, 0x90a9, 0x8120, 0xb3bb, 0xa232,
      0x5ac5, 0x4b4c, 0x79d7, 0x685e, 0x1ce1, 0x0d68, 0x3ff3, 0x2e7a]"
  by simp

lemma crc_row_E:
  "map (lfsr (Suc (Suc (Suc (Suc (Suc (Suc (Suc (Suc 0))))))))) [0xe0, 0xe1, 0xe2, 0xe3, 0xe4, 0xe5, 0xe6, 0xe7, 0xe8, 0xe9, 0xea, 0xeb, 0xec, 0xed, 0xee, 0xef] =
     [0xe70e, 0xf687, 0xc41c, 0xd595, 0xa12a, 0xb0a3, 0x8238, 0x93b1,
      0x6b46, 0x7acf, 0x4854, 0x59dd, 0x2d62, 0x3ceb, 0x0e70, 0x1ff9]"
  by simp

lemma crc_row_F:
  "map (lfsr (Suc (Suc (Suc (Suc (Suc (Suc (Suc (Suc 0))))))))) [0xf0, 0xf1, 0xf2, 0xf3, 0xf4, 0xf5, 0xf6, 0xf7, 0xf8, 0xf9, 0xfa, 0xfb, 0xfc, 0xfd, 0xfe, 0xff] =
     [0xf78f, 0xe606, 0xd49d, 0xc514, 0xb1ab, 0xa022, 0x92b9, 0x8330,
      0x7bc7, 0x6a4e, 0x58d5, 0x495c, 0x3de3, 0x2c6a, 0x1ef1, 0x0f78]"
  by simp

lemmas crc_rows = crc_row_0 crc_row_1 crc_row_2 crc_row_3 crc_row_4 crc_row_5 crc_row_6 crc_row_7
  crc_row_8 crc_row_9 crc_row_A crc_row_B crc_row_C crc_row_D crc_row_E crc_row_F

lemma byte_list:
  "map of_nat [0..<256] =
    ([0x00, 0x01, 0x02, 0x03, 0x04, 0x05, 0x06, 0x07, 0x08, 0x09, 0x0a, 0x0b, 0x0c, 0x0d, 0x0e, 0x0f] @
     [0x10, 0x11, 0x12, 0x13, 0x14, 0x15, 0x16, 0x17, 0x18, 0x19, 0x1a, 0x1b, 0x1c, 0x1d, 0x1e, 0x1f] @
     [0x20, 0x21, 0x22, 0x23, 0x24, 0x25, 0x26, 0x27, 0x28, 0x29, 0x2a, 0x2b, 0x2c, 0x2d, 0x2e, 0x2f] @
     [0x30, 0x31, 0x32, 0x33, 0x34, 0x35, 0x36, 0x37, 0x38, 0x39, 0x3a, 0x3b, 0x3c, 0x3d, 0x3e, 0x3f] @
     [0x40, 0x41, 0x42, 0x43, 0x44, 0x45, 0x46, 0x47, 0x48, 0x49, 0x4a, 0x4b, 0x4c, 0x4d, 0x4e, 0x4f] @
     [0x50, 0x51, 0x52, 0x53, 0x54, 0x55, 0x56, 0x57, 0x58, 0x59, 0x5a, 0x5b, 0x5c, 0x5d, 0x5e, 0x5f] @
     [0x60, 0x61, 0x62, 0x63, 0x64, 0x65, 0x66, 0x67, 0x68, 0x69, 0x6a, 0x6b, 0x6c, 0x6d, 0x6e, 0x6f] @
     [0x70, 0x71, 0x72, 0x73, 0x74, 0x75, 0x76, 0x77, 0x78, 0x79, 0x7a, 0x7b, 0x7c, 0x7d, 0x7e, 0x7f] @
     [0x80, 0x81, 0x82, 0x83, 0x84, 0x85, 0x86, 0x87, 0x88, 0x89, 0x8a, 0x8b, 0x8c, 0x8d, 0x8e, 0x8f] @
     [0x90, 0x91, 0x92, 0x93, 0x94, 0x95, 0x96, 0x97, 0x98, 0x99, 0x9a, 0x9b, 0x9c, 0x9d, 0x9e, 0x9f] @
     [0xa0, 0xa1, 0xa2, 0xa3, 0xa4, 0xa5, 0xa6, 0xa7, 0xa8, 0xa9, 0xaa, 0xab, 0xac, 0xad, 0xae, 0xaf] @
     [0xb0, 0xb1, 0xb2, 0xb3, 0xb4, 0xb5, 0xb6, 0xb7, 0xb8, 0xb9, 0xba, 0xbb, 0xbc, 0xbd, 0xbe, 0xbf] @
     [0xc0, 0xc1, 0xc2, 0xc3, 0xc4, 0xc5, 0xc6, 0xc7, 0xc8, 0xc9, 0xca, 0xcb, 0xcc, 0xcd, 0xce, 0xcf] @
     [0xd0, 0xd1, 0xd2, 0xd3, 0xd4, 0xd5, 0xd6, 0xd7, 0xd8, 0xd9, 0xda, 0xdb, 0xdc, 0xdd, 0xde, 0xdf] @
     [0xe0, 0xe1, 0xe2, 0xe3, 0xe4, 0xe5, 0xe6, 0xe7, 0xe8, 0xe9, 0xea, 0xeb, 0xec, 0xed, 0xee, 0xef] @
     [0xf0, 0xf1, 0xf2, 0xf3, 0xf4, 0xf5, 0xf6, 0xf7, 0xf8, 0xf9, 0xfa, 0xfb, 0xfc, 0xfd, 0xfe, 0xff] :: u16 list)"
  by (simp add: upt_rec[of 0] upt_rec[of "Suc 0"] numeral_2_eq_2 [symmetric])

lemma table_lfsr: "usCrcCcittTab = map (lfsr 8) (map of_nat [0..<256])"
proof -
  have 8: "(8::nat) = (Suc (Suc (Suc (Suc (Suc (Suc (Suc (Suc 0))))))))"
    by simp
  show ?thesis
    unfolding byte_list 8 map_append crc_rows by (simp add: usCrcCcittTab_def)
qed

lemma table_nth: "i < 256 \<Longrightarrow> usCrcCcittTab ! i = lfsr 8 (of_nat i)"
  by (simp add: table_lfsr)

lemma table_length: "length usCrcCcittTab = 256"
  by (simp add: table_lfsr)

lemma low_byte_bound: "unat (x AND 0xff :: u16) < 256"
proof -
  have "x AND 0xff \<le> 0xff" by (rule word_and_le1)
  then show ?thesis by (simp add: word_le_nat_alt)
qed

text \<open>The byte fits the low half of the register, so eight shifts bring the high half down.\<close>

lemma bit_byte_mask [bit_simps]:
  "bit (0xff :: int) i \<longleftrightarrow> i < 8" "bit (0xffff :: int) i \<longleftrightarrow> i < 16"
proof -
  have masks: "(0xff :: int) = mask 8" "(0xffff :: int) = mask 16"
    by (simp_all add: mask_eq_exp_minus_1)
  show "bit (0xff :: int) i \<longleftrightarrow> i < 8" "bit (0xffff :: int) i \<longleftrightarrow> i < 16"
    unfolding masks bit_mask_iff by auto
qed

lemma lfsr_split: "lfsr 8 x = drop_bit 8 x XOR lfsr 8 (x AND 0xff)"
proof -
  have "x = (x AND NOT 0xff) XOR (x AND 0xff)"
    by (rule bit_eqI) (auto simp: bit_simps)
  then have "lfsr 8 x = lfsr 8 (x AND NOT 0xff) XOR lfsr 8 (x AND 0xff)"
    by (metis lfsr_xor)
  also have "lfsr 8 (x AND NOT 0xff) = drop_bit 8 (x AND NOT 0xff)"
    by (rule lfsr_shift) (simp add: bit_simps)
  also have "\<dots> = drop_bit 8 x"
    by (rule bit_eqI) (auto simp: bit_simps dest: bit_imp_le_length)
  finally show ?thesis .
qed

lemma usCrcCcittUpdate_lfsr: "usCrcCcittUpdate c crc = lfsr 8 (crc XOR ucast c)"
proof -
  have high: "drop_bit 8 (crc XOR ucast c) = drop_bit 8 crc"
    by (rule bit_eqI) (auto simp: bit_simps dest: bit_imp_le_length)
  show ?thesis
    unfolding usCrcCcittUpdate_def lfsr_split [of "crc XOR ucast c"] high
    by (simp add: table_nth low_byte_bound)
qed

text \<open>Two bytes are sixteen shifts of one register.\<close>

lemma usCrcCcittUpdate_two:
  "usCrcCcittUpdate d (usCrcCcittUpdate c crc) =
     lfsr 16 (crc XOR (ucast c XOR push_bit 8 (ucast d)))"
proof -
  have d: "lfsr 8 (push_bit 8 (ucast d)) = (ucast d :: u16)"
  proof -
    have "lfsr 8 (push_bit 8 (ucast d)) = drop_bit 8 (push_bit 8 (ucast d) :: u16)"
      by (rule lfsr_shift) (simp add: bit_simps)
    also have "\<dots> = ucast d"
      by (rule bit_eqI) (auto simp: bit_simps dest: bit_imp_le_length)
    finally show ?thesis .
  qed
  have "lfsr 16 (crc XOR (ucast c XOR push_bit 8 (ucast d))) =
      lfsr 8 (lfsr 8 (crc XOR ucast c) XOR lfsr 8 (push_bit 8 (ucast d)))"
    using lfsr_add [of 8 8] by (simp add: xor.assoc flip: lfsr_xor)
  then show ?thesis by (simp add: usCrcCcittUpdate_lfsr d)
qed

lemma usCrcCcitt_fold:
  "usCrcCcitt crc buf n =
     (if n \<le> length buf then Inr (fold usCrcCcittUpdate (take n buf) crc) else Inl OutOfBounds)"
  by (induction crc buf n rule: usCrcCcitt.induct) auto

text \<open>C7. On a buffer of at least \<open>n\<close> bytes \<open>usCrcCcitt\<close> computes
  from its 256-entry table what the bit-serial CCITT shift register (reflected polynomial 0x8408)
  computes: each byte is added into the low half of the register, which is then shifted eight
  times. On a shorter buffer it reads past its end.\<close>

theorem usCrcCcitt_serial:
  "usCrcCcitt crc buf n =
     (if n \<le> length buf
      then Inr (fold (\<lambda>c r. lfsr 8 (r XOR ucast c)) (take n buf) crc) else Inl OutOfBounds)"
proof -
  have "usCrcCcittUpdate = (\<lambda>c r. lfsr 8 (r XOR ucast c))"
    by (intro ext) (rule usCrcCcittUpdate_lfsr)
  then show ?thesis by (simp add: usCrcCcitt_fold)
qed

section \<open>What a link layer relies on\<close>

text \<open>
  The interface of a 16-bit CRC to the framing code above it: \<open>upd\<close> absorbs a byte,
  \<open>good\<close> is what the register holds after a message and its complemented CRC, low byte first.
\<close>

locale crc16 =
  fixes upd :: "u8 \<Rightarrow> u16 \<Rightarrow> u16"
    and good :: u16
  assumes upd_register: "upd c x = upd c y \<Longrightarrow> x = y"
    and upd_two_bytes: "upd d (upd c x) = upd d' (upd c' x) \<Longrightarrow> c = c' \<and> d = d'"
    and upd_residue:
      "upd (ucast (drop_bit 8 x XOR 0xff)) (upd (ucast ((x AND 0xff) XOR 0xff)) x) = good"
begin

lemma crc_residue:
  "fold upd (xs @ [ucast ((fold upd xs i AND 0xff) XOR 0xff),
                   ucast (drop_bit 8 (fold upd xs i) XOR 0xff)]) i = good"
  by (simp add: upd_residue)

lemma crc_register: "fold upd xs x = fold upd xs y \<Longrightarrow> x = y"
  by (induction xs arbitrary: x y) (auto dest: upd_register)

lemma crc_burst:
  assumes "(c, d) \<noteq> (c', d')"
  shows "fold upd (xs @ [c, d] @ ys) i \<noteq> fold upd (xs @ [c', d'] @ ys) i"
proof
  assume "fold upd (xs @ [c, d] @ ys) i = fold upd (xs @ [c', d'] @ ys) i"
  then have "upd d (upd c (fold upd xs i)) = upd d' (upd c' (fold upd xs i))"
    by (auto dest: crc_register)
  with assms show False by (auto dest: upd_two_bytes)
qed

lemma crc_byte:
  assumes "c \<noteq> c'"
  shows "fold upd (xs @ [c] @ ys) i \<noteq> fold upd (xs @ [c'] @ ys) i"
proof
  assume "fold upd (xs @ [c] @ ys) i = fold upd (xs @ [c'] @ ys) i"
  then have "upd c (fold upd xs i) = upd c' (fold upd xs i)"
    by (auto dest: crc_register)
  then have "upd 0 (upd c (fold upd xs i)) = upd 0 (upd c' (fold upd xs i))" by simp
  with assms show False by (auto dest: upd_two_bytes)
qed

end

text \<open>The value \<open>AX25_CRC_CORRECT\<close> of \<open>radio/src/ax25.c\<close> is the residue of the code's CRC.\<close>

lemma lfsr_residue: "lfsr 16 0xFFFF = 0xF0B8"
proof -
  have 8: "(8::nat) = Suc (Suc (Suc (Suc (Suc (Suc (Suc (Suc 0)))))))" by simp
  have "lfsr 8 0xFFFF = 0xf87" unfolding 8 by simp
  moreover have "lfsr 8 0xf87 = 0xF0B8" unfolding 8 by simp
  ultimately show ?thesis using lfsr_add [of 8 8 "0xFFFF"] by simp
qed

lemma halves_inj:
  "ucast c XOR push_bit 8 (ucast d) = (ucast c' XOR push_bit 8 (ucast d') :: u16) \<Longrightarrow>
     c = (c' :: u8) \<and> d = (d' :: u8)"
proof -
  fix c d c' d' :: u8
  assume eq: "ucast c XOR push_bit 8 (ucast d) = (ucast c' XOR push_bit 8 (ucast d') :: u16)"
  have lo: "ucast (ucast a XOR push_bit 8 (ucast b) :: u16) = a" for a b :: u8
    by (rule bit_eqI) (auto simp: bit_simps dest: bit_imp_le_length)
  have hi: "ucast (drop_bit 8 (ucast a XOR push_bit 8 (ucast b) :: u16)) = b" for a b :: u8
    by (rule bit_eqI) (auto simp: bit_simps dest: bit_imp_le_length)
  from eq lo [of c d] lo [of c' d'] hi [of c d] hi [of c' d'] show "c = c' \<and> d = d'" by simp
qed

interpretation ccitt: crc16 usCrcCcittUpdate "0xF0B8"
proof
  fix c :: u8 and x y :: u16
  assume "usCrcCcittUpdate c x = usCrcCcittUpdate c y"
  then have "x XOR ucast c = y XOR ucast c"
    by (auto simp: usCrcCcittUpdate_lfsr dest: lfsr_inj)
  then show "x = y" by (rule xor_cancel_right)
next
  fix c c' d d' :: u8 and x :: u16
  assume "usCrcCcittUpdate d (usCrcCcittUpdate c x) = usCrcCcittUpdate d' (usCrcCcittUpdate c' x)"
  then have "x XOR (ucast c XOR push_bit 8 (ucast d)) = x XOR (ucast c' XOR push_bit 8 (ucast d'))"
    by (auto simp: usCrcCcittUpdate_two dest: lfsr_inj)
  then have "ucast c XOR push_bit 8 (ucast d) = (ucast c' XOR push_bit 8 (ucast d') :: u16)"
    by (rule xor_cancel_left)
  then show "c = c' \<and> d = d'" by (rule halves_inj)
next
  fix x :: u16
  have "x XOR (ucast (ucast ((x AND 0xff) XOR 0xff) :: u8) XOR
      push_bit 8 (ucast (ucast (drop_bit 8 x XOR 0xff) :: u8))) = 0xFFFF"
    by (rule bit_eqI) (auto simp: bit_simps)
  then show "usCrcCcittUpdate (ucast (drop_bit 8 x XOR 0xff))
      (usCrcCcittUpdate (ucast ((x AND 0xff) XOR 0xff)) x) = 0xF0B8"
    by (simp add: usCrcCcittUpdate_two lfsr_residue)
qed

end
