(* ===== verification/Byte_Receiver.thy ===== *)
theory Byte_Receiver
  imports Sysio_Prelude
begin

text \<open>
  The interface between a receiver's per-byte step and its poll loop.  The AX.25 controller and
  the TNC read one byte at a time and stop at the end of a frame; what follows from that shape
  alone is proved here once: the loop may be fed in pieces, it consumes a prefix of its input,
  and an invariant of the step is an invariant of the loop, which then cannot fault.
\<close>

locale byte_receiver =
  fixes poll :: "'s \<Rightarrow> u8 list \<Rightarrow> ('s \<times> u8 list) run"
    and step :: "'s \<Rightarrow> u8 \<Rightarrow> 's run"
    and stop :: "'s \<Rightarrow> bool"
  assumes poll_nil: "poll s [] = Inr (s, [])"
    and poll_cons:
      "poll s (c # cs) = (if stop s then Inr (s, c # cs) else cbind (step s c) (\<lambda>s'. poll s' cs))"
begin

lemma poll_stopped: "stop s \<Longrightarrow> poll s cs = Inr (s, cs)"
  by (cases cs) (simp_all add: poll_nil poll_cons)

lemma poll_step: "\<not> stop s \<Longrightarrow> step s c = Inr s' \<Longrightarrow> poll s (c # cs) = poll s' cs"
  by (simp add: poll_cons)

text \<open>Input may arrive in pieces: what the first poll leaves unread is read by the next one.\<close>

lemma poll_append: "poll s (xs @ ys) = cbind (poll s xs) (\<lambda>(s', rest). poll s' (rest @ ys))"
proof (induction xs arbitrary: s)
  case Nil
  show ?case by (simp add: poll_nil)
next
  case (Cons x xs)
  show ?case
  proof (cases "stop s")
    case True
    then show ?thesis by (simp add: poll_stopped)
  next
    case False
    then show ?thesis by (simp add: poll_cons cbind_assoc Cons.IH)
  qed
qed

lemma poll_prefix: "poll s xs = Inr (s', rest) \<Longrightarrow> \<exists>used. xs = used @ rest \<and> (stop s' \<or> rest = [])"
proof (induction xs arbitrary: s)
  case Nil
  then show ?case by (simp add: poll_nil)
next
  case (Cons x xs)
  then show ?case
    by (auto simp: poll_cons cbind_Inr_iff split: if_splits) (metis append_Cons)
qed

lemma poll_safe:
  assumes step: "\<And>s c. I s \<Longrightarrow> \<not> stop s \<Longrightarrow> \<exists>s'. step s c = Inr s' \<and> I s'"
  shows "I s \<Longrightarrow> \<exists>s' rest. poll s xs = Inr (s', rest) \<and> I s'"
proof (induction xs arbitrary: s)
  case Nil
  then show ?case by (simp add: poll_nil)
next
  case (Cons x xs)
  show ?case
  proof (cases "stop s")
    case True
    with Cons.prems show ?thesis by (simp add: poll_stopped)
  next
    case False
    with step [OF Cons.prems] obtain s1 where "step s x = Inr s1" "I s1" by blast
    with False Cons.IH show ?thesis by (simp add: poll_step)
  qed
qed

end

end
