(* ===== verification/Ax25_Frame.thy ===== *)
theory Ax25_Frame
  imports Sysio_Prelude
begin

text \<open>
  The classes \<open>xAx25Node\<close> and \<open>xAx25Frame\<close> of \<open>radio/src/ax25.c\<close>: the addresses and
  the frames the link layer sends and receives.  A pointer to a node or a frame is an option
  (\<open>None\<close> is NULL), since each node has one owner; the allocator's state counts the live
  blocks.  Theorems: every operation keeps the shape of a frame, the string conversion is safe
  exactly up to nine characters, and a frame frees all it allocated.
\<close>

section \<open>Constants and errors\<close>

definition AX25_MAX_RPT :: nat where "AX25_MAX_RPT = 8"
definition AX25_CALL_LEN :: nat where "AX25_CALL_LEN = 6"
definition AX25_INFO_LEN :: nat where "AX25_INFO_LEN = 256"

definition AX25_FRAME_BUF_LEN :: nat where
  "AX25_FRAME_BUF_LEN = (AX25_CALL_LEN + 1) * (2 + AX25_MAX_RPT) + AX25_INFO_LEN + 4"

definition AX25_CTRL_UI :: u8 where "AX25_CTRL_UI = 0x03"
definition AX25_PID_NOLAYER3 :: u8 where "AX25_PID_NOLAYER3 = 0xF0"

definition AX25_SUCCESS :: int where "AX25_SUCCESS = 0"
definition AX25_FILE_ACCESS_ERROR :: int where "AX25_FILE_ACCESS_ERROR = -1"
definition AX25_ILLEGAL_CALLSIGN :: int where "AX25_ILLEGAL_CALLSIGN = -2"
definition AX25_INVALID_FRAME :: int where "AX25_INVALID_FRAME = -3"
definition AX25_CRC_ERROR :: int where "AX25_CRC_ERROR = -4"
definition AX25_NOT_ENOUGH_MEMORY :: int where "AX25_NOT_ENOUGH_MEMORY = -5"
definition AX25_NOT_ENOUGH_REPEATER :: int where "AX25_NOT_ENOUGH_REPEATER = -6"
definition AX25_OBJECT_NOT_FOUND :: int where "AX25_OBJECT_NOT_FOUND = -7"
definition AX25_FILE_NOT_FOUND :: int where "AX25_FILE_NOT_FOUND = -8"
definition AX25_ILLEGAL_REPEATER :: int where "AX25_ILLEGAL_REPEATER = -9"
definition AX25_NO_FRAME_RECEIVED :: int where "AX25_NO_FRAME_RECEIVED = -10"

lemmas ax25_consts = AX25_MAX_RPT_def AX25_CALL_LEN_def AX25_INFO_LEN_def AX25_FRAME_BUF_LEN_def
  AX25_CTRL_UI_def AX25_PID_NOLAYER3_def

lemmas ax25_errors = AX25_SUCCESS_def AX25_FILE_ACCESS_ERROR_def AX25_ILLEGAL_CALLSIGN_def
  AX25_INVALID_FRAME_def AX25_CRC_ERROR_def AX25_NOT_ENOUGH_MEMORY_def
  AX25_NOT_ENOUGH_REPEATER_def AX25_OBJECT_NOT_FOUND_def AX25_FILE_NOT_FOUND_def
  AX25_ILLEGAL_REPEATER_def AX25_NO_FRAME_RECEIVED_def

definition cErrorMsg :: "string list" where
  "cErrorMsg = map (\<lambda>s. s @ [CHR 0x0A])
     [''File access error'', ''Illegal callsign'', ''Invalid frame'', ''CRC error'',
      ''Not enough memory'', ''Not enough repeater'', ''Object not found'', ''File not found'',
      ''Illegal repeater'', ''No frame received'']"

definition prvcMsg :: "int \<Rightarrow> string" where
  "prvcMsg iError =
     (let iIndex = \<bar>iError\<bar> - 1
      in if iIndex > 0 \<and> iIndex < int (length cErrorMsg) then cErrorMsg ! nat iIndex else '''')"

text \<open>\<open>prviError\<close> logs the message of a negative code and returns the code.\<close>

definition prviError :: "int \<Rightarrow> int \<times> string option" where
  "prviError iError = (iError, if iError < AX25_SUCCESS then Some (prvcMsg iError) else None)"

abbreviation ax25_err :: "int \<Rightarrow> int" where
  "ax25_err e \<equiv> fst (prviError e)"

lemma ax25_err [simp]: "ax25_err e = e"
  by (simp add: prviError_def)

section \<open>xAx25Node\<close>

record xAx25Node =
  nd_callsign :: "u8 list"   \<comment> \<open>\<open>char callsign[AX25_CALL_LEN + 1]\<close>\<close>
  nd_ssid :: u8
  nd_flag :: bool

definition node0 :: xAx25Node where
  "node0 = \<lparr>nd_callsign = replicate (AX25_CALL_LEN + 1) 0, nd_ssid = 0, nd_flag = False\<rparr>"

definition iAx25NodeClear :: "xAx25Node option \<Rightarrow> int \<times> xAx25Node option" where
  "iAx25NodeClear p =
     (case p of
        None \<Rightarrow> (ax25_err AX25_OBJECT_NOT_FOUND, None)
      | Some _ \<Rightarrow> (AX25_SUCCESS, Some node0))"

definition xAx25NodeNew :: "mem \<Rightarrow> xAx25Node option \<times> mem" where
  "xAx25NodeNew m =
     (let (ok, m1) = malloc m
      in (if ok then snd (iAx25NodeClear (Some node0)) else None, m1))"

definition vAx25NodeDelete :: "xAx25Node option \<Rightarrow> mem \<Rightarrow> mem" where
  "vAx25NodeDelete n m = free n m"

text \<open>\<open>strncpy (p->callsign, callsign, 6); p->callsign[6] = 0\<close>.\<close>

definition iAx25NodeSetCallsign ::
    "xAx25Node option \<Rightarrow> u8 list \<Rightarrow> (int \<times> xAx25Node option) run" where
  "iAx25NodeSetCallsign p cs =
     (case p of
        None \<Rightarrow> Inr (ax25_err AX25_OBJECT_NOT_FOUND, None)
      | Some n \<Rightarrow>
          cbind (c_strncpy AX25_CALL_LEN cs) (\<lambda>r.
            Inr (AX25_SUCCESS, Some (n\<lparr>nd_callsign := r @ [0]\<rparr>))))"

definition NODE_STRLEN :: nat where "NODE_STRLEN = AX25_CALL_LEN + 4"

definition FRAME_STRLEN :: "nat \<Rightarrow> nat \<Rightarrow> nat" where
  "FRAME_STRLEN r l = NODE_STRLEN * (r + 2) + l + 3"

text \<open>
  The characters \<open>xAx25NodeToStr\<close> stores, in order: the call sign up to its NUL, \<open>-ssid\<close>
  when the ssid is not zero, a star when the flag is set.  With the final NUL they go into a
  block of \<open>NODE_STRLEN\<close> bytes.
\<close>

definition node_chars :: "xAx25Node \<Rightarrow> u8 list" where
  "node_chars n =
     takeWhile (\<lambda>c. c \<noteq> 0) (take AX25_CALL_LEN (nd_callsign n)) @
     (if nd_ssid n \<noteq> 0 then 0x2D # dec_digits (unat (nd_ssid n)) else []) @
     (if nd_flag n then [0x2A] else [])"

definition xAx25NodeToStr :: "xAx25Node option \<Rightarrow> mem \<Rightarrow> (u8 list option \<times> mem) run" where
  "xAx25NodeToStr n m =
     (case n of
        None \<Rightarrow> Inr (None, m)
      | Some nd \<Rightarrow>
          let (ok, m1) = malloc m
          in if \<not> ok then Inr (None, m1)
             else if length (node_chars nd) + 1 \<le> NODE_STRLEN
                  then Inr (Some (node_chars nd), m1)
                  else Inl OutOfBounds)"

text \<open>\<open>out\<close> is the text written to the stream so far.\<close>

definition iAx25NodeFilePrint ::
    "xAx25Node option \<Rightarrow> u8 list option \<Rightarrow> mem \<Rightarrow> (int \<times> u8 list option \<times> mem) run" where
  "iAx25NodeFilePrint p f m =
     (case p of
        None \<Rightarrow> Inr (ax25_err AX25_OBJECT_NOT_FOUND, f, m)
      | Some _ \<Rightarrow>
          (case f of
             None \<Rightarrow> Inr (ax25_err AX25_FILE_NOT_FOUND, f, m)
           | Some out \<Rightarrow>
               cbind (xAx25NodeToStr p m) (\<lambda>(s, m1).
                 case s of
                   None \<Rightarrow> Inr (ax25_err AX25_NOT_ENOUGH_MEMORY, f, m1)
                 | Some str \<Rightarrow> Inr (AX25_SUCCESS, Some (out @ str), free s m1))))"

section \<open>xAx25Frame\<close>

record xAx25Frame =
  fr_dst :: "xAx25Node option"
  fr_src :: "xAx25Node option"
  fr_repeaters :: "xAx25Node option list"   \<comment> \<open>\<open>xAx25Node *repeaters[AX25_MAX_RPT]\<close>\<close>
  fr_repeaters_len :: u8
  fr_ctrl :: u8
  fr_pid :: u8
  fr_info :: "u8 list"                      \<comment> \<open>\<open>uint8_t info[AX25_FRAME_BUF_LEN + 1]\<close>\<close>
  fr_info_len :: nat

text \<open>\<open>for (i = 0; i < repeaters_len; i++) { vAx25NodeDelete (repeaters[i]); repeaters[i] = 0; }\<close>\<close>

fun clear_repeaters ::
    "nat list \<Rightarrow> xAx25Node option list \<Rightarrow> mem \<Rightarrow> (xAx25Node option list \<times> mem) run" where
  "clear_repeaters [] rs m = Inr (rs, m)"
| "clear_repeaters (i # is) rs m =
     cbind (rd rs i) (\<lambda>r.
     cbind (wr rs i None) (\<lambda>rs'. clear_repeaters is rs' (vAx25NodeDelete r m)))"

definition iAx25FrameClear :: "xAx25Frame option \<Rightarrow> mem \<Rightarrow> (int \<times> xAx25Frame option \<times> mem) run" where
  "iAx25FrameClear p m =
     (case p of
        None \<Rightarrow> Inr (ax25_err AX25_OBJECT_NOT_FOUND, None, m)
      | Some f \<Rightarrow>
          cbind (copy_into (fr_info f) 0 (replicate AX25_FRAME_BUF_LEN 0) 0 AX25_FRAME_BUF_LEN) (\<lambda>i.
          cbind (clear_repeaters [0..<unat (fr_repeaters_len f)] (fr_repeaters f) m) (\<lambda>(rs, m1).
            Inr (AX25_SUCCESS,
                 Some (f\<lparr>fr_ctrl := AX25_CTRL_UI, fr_pid := AX25_PID_NOLAYER3,
                         fr_info := i, fr_info_len := 0,
                         fr_src := snd (iAx25NodeClear (fr_src f)),
                         fr_dst := snd (iAx25NodeClear (fr_dst f)),
                         fr_repeaters := rs, fr_repeaters_len := 0\<rparr>), m1))))"

text \<open>The fields \<open>malloc\<close> leaves unset and \<open>iAx25FrameClear\<close> overwrites; \<open>junk\<close> is the
  one byte of \<open>info\<close> it does not clear.\<close>

definition xAx25FrameNew :: "u8 \<Rightarrow> mem \<Rightarrow> (xAx25Frame option \<times> mem) run" where
  "xAx25FrameNew junk m =
     (let (ok, m1) = malloc m
      in if \<not> ok then Inr (None, m1)
         else
           let (s, m2) = xAx25NodeNew m1; (d, m3) = xAx25NodeNew m2
           in cbind (iAx25FrameClear
                (Some \<lparr>fr_dst = d, fr_src = s, fr_repeaters = replicate AX25_MAX_RPT None,
                       fr_repeaters_len = 0, fr_ctrl = junk, fr_pid = junk,
                       fr_info = replicate (AX25_FRAME_BUF_LEN + 1) junk, fr_info_len = 0\<rparr>) m3)
                (\<lambda>(_, f, m4). Inr (f, m4)))"

fun delete_repeaters :: "nat list \<Rightarrow> xAx25Node option list \<Rightarrow> mem \<Rightarrow> mem run" where
  "delete_repeaters [] rs m = Inr m"
| "delete_repeaters (i # is) rs m =
     cbind (rd rs i) (\<lambda>r. delete_repeaters is rs (vAx25NodeDelete r m))"

definition vAx25FrameDelete :: "xAx25Frame option \<Rightarrow> mem \<Rightarrow> mem run" where
  "vAx25FrameDelete p m =
     (case p of
        None \<Rightarrow> Inr (free p m)
      | Some f \<Rightarrow>
          cbind (delete_repeaters [0..<unat (fr_repeaters_len f)] (fr_repeaters f)
                  (vAx25NodeDelete (fr_dst f) (vAx25NodeDelete (fr_src f) m)))
            (\<lambda>m1. Inr (free p m1)))"

text \<open>\<open>iAx25NodeSetCallsign (n, callsign); n->ssid = ssid\<close>, as the frame does on its nodes.\<close>

definition set_address ::
    "xAx25Node option \<Rightarrow> u8 list \<Rightarrow> u8 \<Rightarrow> xAx25Node option run" where
  "set_address n cs ssid =
     cbind (iAx25NodeSetCallsign n cs) (\<lambda>(_, n').
     cbind (deref n') (\<lambda>nd. Inr (Some (nd\<lparr>nd_ssid := ssid\<rparr>))))"

definition iAx25FrameSetSrc ::
    "xAx25Frame option \<Rightarrow> u8 list \<Rightarrow> u8 \<Rightarrow> (int \<times> xAx25Frame option) run" where
  "iAx25FrameSetSrc p cs ssid =
     (case p of
        None \<Rightarrow> Inr (ax25_err AX25_OBJECT_NOT_FOUND, None)
      | Some f \<Rightarrow>
          cbind (set_address (fr_src f) cs ssid) (\<lambda>n.
            Inr (AX25_SUCCESS, Some (f\<lparr>fr_src := n\<rparr>))))"

definition iAx25FrameSetDst ::
    "xAx25Frame option \<Rightarrow> u8 list \<Rightarrow> u8 \<Rightarrow> (int \<times> xAx25Frame option) run" where
  "iAx25FrameSetDst p cs ssid =
     (case p of
        None \<Rightarrow> Inr (ax25_err AX25_OBJECT_NOT_FOUND, None)
      | Some f \<Rightarrow>
          cbind (set_address (fr_dst f) cs ssid) (\<lambda>n.
            Inr (AX25_SUCCESS, Some (f\<lparr>fr_dst := n\<rparr>))))"

definition iAx25FrameAddRepeater ::
    "xAx25Frame option \<Rightarrow> u8 list \<Rightarrow> u8 \<Rightarrow> mem \<Rightarrow> (int \<times> xAx25Frame option \<times> mem) run" where
  "iAx25FrameAddRepeater p cs ssid m =
     (case p of
        None \<Rightarrow> Inr (ax25_err AX25_OBJECT_NOT_FOUND, None, m)
      | Some f \<Rightarrow>
          if unat (fr_repeaters_len f) \<ge> AX25_MAX_RPT
          then Inr (ax25_err AX25_ILLEGAL_REPEATER, Some f, m)
          else
            let index = unat (fr_repeaters_len f); (n, m1) = xAx25NodeNew m
            in cbind (set_address n cs ssid) (\<lambda>n'.
               cbind (wr (fr_repeaters f) index n') (\<lambda>rs.
                 Inr (int index,
                      Some (f\<lparr>fr_repeaters := rs, fr_repeaters_len := fr_repeaters_len f + 1\<rparr>),
                      m1))))"

definition iAx25FrameSetRepeaterFlag ::
    "xAx25Frame option \<Rightarrow> u8 \<Rightarrow> bool \<Rightarrow> (int \<times> xAx25Frame option) run" where
  "iAx25FrameSetRepeaterFlag p index flag =
     (case p of
        None \<Rightarrow> Inr (ax25_err AX25_OBJECT_NOT_FOUND, None)
      | Some f \<Rightarrow>
          if index \<ge> fr_repeaters_len f
          then Inr (ax25_err AX25_ILLEGAL_REPEATER, Some f)
          else
            cbind (rd (fr_repeaters f) (unat index)) (\<lambda>r.
            cbind (deref r) (\<lambda>nd.
            cbind (wr (fr_repeaters f) (unat index) (Some (nd\<lparr>nd_flag := flag\<rparr>))) (\<lambda>rs.
              Inr (AX25_SUCCESS, Some (f\<lparr>fr_repeaters := rs\<rparr>))))))"

definition iAx25FrameSetInfo ::
    "xAx25Frame option \<Rightarrow> u8 list option \<Rightarrow> nat \<Rightarrow> (int \<times> xAx25Frame option) run" where
  "iAx25FrameSetInfo p info info_len =
     (case (p, info) of
        (Some f, Some src) \<Rightarrow>
          let n = min info_len AX25_FRAME_BUF_LEN
          in cbind (copy_into (fr_info f) 0 src 0 n) (\<lambda>i.
             cbind (wr i n 0) (\<lambda>i'.
               Inr (AX25_SUCCESS, Some (f\<lparr>fr_info := i', fr_info_len := n\<rparr>))))
      | _ \<Rightarrow> Inr (ax25_err AX25_OBJECT_NOT_FOUND, p))"


text \<open>
  \<open>copyStrNode (p, n)\<close> appends the text of a node, and nothing when the conversion returns
  NULL.  The characters of the frame are collected first and checked against the size of the
  block afterwards: they are stored at increasing addresses, so the block overflows exactly
  when their number and the final NUL exceed it.
\<close>

definition copyStrNode :: "u8 list \<Rightarrow> xAx25Node option \<Rightarrow> mem \<Rightarrow> (u8 list \<times> mem) run" where
  "copyStrNode dst n m =
     cbind (xAx25NodeToStr n m) (\<lambda>(s, m1).
       Inr (case s of None \<Rightarrow> (dst, m1) | Some str \<Rightarrow> (dst @ str, free s m1)))"

fun copy_repeaters ::
    "nat list \<Rightarrow> xAx25Node option list \<Rightarrow> u8 list \<Rightarrow> mem \<Rightarrow> (u8 list \<times> mem) run" where
  "copy_repeaters [] rs dst m = Inr (dst, m)"
| "copy_repeaters (i # is) rs dst m =
     cbind (rd rs i) (\<lambda>r.
     cbind (copyStrNode (dst @ [0x2C]) r m) (\<lambda>(dst', m1). copy_repeaters is rs dst' m1))"

definition xAx25FrameToStr :: "xAx25Frame option \<Rightarrow> mem \<Rightarrow> (u8 list option \<times> mem) run" where
  "xAx25FrameToStr p m =
     (case p of
        None \<Rightarrow> Inr (None, m)
      | Some f \<Rightarrow>
          let r = unat (fr_repeaters_len f); (ok, m0) = malloc m
          in if \<not> ok then Inr (None, m0)
             else
               cbind (copyStrNode [] (fr_dst f) m0) (\<lambda>(s1, m1).
               cbind (copyStrNode (s1 @ [0x3E]) (fr_src f) m1) (\<lambda>(s2, m2).
               cbind (copy_repeaters [0..<r] (fr_repeaters f) s2 m2) (\<lambda>(s3, m3).
                 if fr_info_len f \<le> length (fr_info f)
                 then
                   let s4 = s3 @ [0x3A] @ take (fr_info_len f) (fr_info f)
                   in if length s4 + 1 \<le> FRAME_STRLEN r (fr_info_len f)
                      then Inr (Some s4, m3) else Inl OutOfBounds
                 else Inl OutOfBounds))))"

text \<open>\<open>fprintf (f, "%s", str)\<close> prints up to the first NUL of \<open>str\<close>.\<close>

definition iAx25FrameFilePrint ::
    "xAx25Frame option \<Rightarrow> u8 list option \<Rightarrow> mem \<Rightarrow> (int \<times> u8 list option \<times> mem) run" where
  "iAx25FrameFilePrint p f m =
     (case p of
        None \<Rightarrow> Inr (ax25_err AX25_OBJECT_NOT_FOUND, f, m)
      | Some _ \<Rightarrow>
          (case f of
             None \<Rightarrow> Inr (ax25_err AX25_FILE_NOT_FOUND, f, m)
           | Some out \<Rightarrow>
               cbind (xAx25FrameToStr p m) (\<lambda>(s, m1).
                 case s of
                   None \<Rightarrow> Inr (ax25_err AX25_NOT_ENOUGH_MEMORY, f, m1)
                 | Some str \<Rightarrow>
                     Inr (AX25_SUCCESS, Some (out @ takeWhile (\<lambda>c. c \<noteq> 0) str), free s m1))))"

section \<open>Shape of a frame\<close>

definition node_ok :: "xAx25Node \<Rightarrow> bool" where
  "node_ok n \<longleftrightarrow> length (nd_callsign n) = AX25_CALL_LEN + 1 \<and> nd_callsign n ! AX25_CALL_LEN = 0"

definition node_ptr_ok :: "xAx25Node option \<Rightarrow> bool" where
  "node_ptr_ok p \<longleftrightarrow> (\<exists>n. p = Some n \<and> node_ok n)"

definition frame_ok :: "xAx25Frame \<Rightarrow> bool" where
  "frame_ok f \<longleftrightarrow>
     node_ptr_ok (fr_dst f) \<and> node_ptr_ok (fr_src f) \<and>
     length (fr_repeaters f) = AX25_MAX_RPT \<and> unat (fr_repeaters_len f) \<le> AX25_MAX_RPT \<and>
     (\<forall>i < unat (fr_repeaters_len f). node_ptr_ok (fr_repeaters f ! i)) \<and>
     length (fr_info f) = AX25_FRAME_BUF_LEN + 1 \<and> fr_info_len f \<le> AX25_FRAME_BUF_LEN"

text \<open>A source string the setters can read: six bytes, or a NUL before.\<close>

definition call_readable :: "u8 list \<Rightarrow> bool" where
  "call_readable cs \<longleftrightarrow> AX25_CALL_LEN \<le> length cs \<or> 0 \<in> set cs"

lemma c_strncpy_readable: "n \<le> length cs \<or> 0 \<in> set cs \<Longrightarrow> \<exists>r. c_strncpy n cs = Inr r"
  by (induction n cs rule: c_strncpy.induct) auto

lemma node_ok_node0 [simp]: "node_ok node0"
  by (simp add: node_ok_def node0_def ax25_consts)

lemma node_ptr_ok_simps [simp]:
  "\<not> node_ptr_ok None" "node_ptr_ok (Some n) = node_ok n"
  by (auto simp: node_ptr_ok_def)

lemma node_ok_fields [simp]:
  "node_ok (n\<lparr>nd_ssid := s\<rparr>) = node_ok n" "node_ok (n\<lparr>nd_flag := b\<rparr>) = node_ok n"
  by (simp_all add: node_ok_def)

lemma iAx25NodeClear_ok: "node_ptr_ok p \<Longrightarrow> node_ptr_ok (snd (iAx25NodeClear p))"
  by (auto simp: node_ptr_ok_def iAx25NodeClear_def)

lemma set_address_ok:
  assumes "node_ptr_ok p" "call_readable cs"
  obtains n where "set_address p cs ssid = Inr (Some n)" "node_ok n" "nd_ssid n = ssid"
proof -
  from assms(1) obtain n0 where p: "p = Some n0" by (auto simp: node_ptr_ok_def)
  from c_strncpy_readable [of AX25_CALL_LEN cs] assms(2)
  obtain r where r: "c_strncpy AX25_CALL_LEN cs = Inr r" by (auto simp: call_readable_def)
  from c_strncpy_length [OF r] have "node_ok (n0\<lparr>nd_callsign := r @ [0], nd_ssid := ssid\<rparr>)"
    by (simp add: node_ok_def nth_append)
  with that p r show thesis
    by (simp add: set_address_def iAx25NodeSetCallsign_def)
qed


section \<open>The life of a frame\<close>

datatype frame_op =
    OpClear
  | OpSetSrc "u8 list" u8
  | OpSetDst "u8 list" u8
  | OpAddRepeater "u8 list" u8
  | OpSetRepeaterFlag u8 bool
  | OpSetInfo "u8 list" nat

fun frame_step :: "frame_op \<Rightarrow> xAx25Frame option \<Rightarrow> mem \<Rightarrow> (xAx25Frame option \<times> mem) run" where
  "frame_step OpClear p m = cbind (iAx25FrameClear p m) (\<lambda>(_, p', m'). Inr (p', m'))"
| "frame_step (OpSetSrc cs s) p m = cbind (iAx25FrameSetSrc p cs s) (\<lambda>(_, p'). Inr (p', m))"
| "frame_step (OpSetDst cs s) p m = cbind (iAx25FrameSetDst p cs s) (\<lambda>(_, p'). Inr (p', m))"
| "frame_step (OpAddRepeater cs s) p m =
     cbind (iAx25FrameAddRepeater p cs s m) (\<lambda>(_, p', m'). Inr (p', m'))"
| "frame_step (OpSetRepeaterFlag i b) p m =
     cbind (iAx25FrameSetRepeaterFlag p i b) (\<lambda>(_, p'). Inr (p', m))"
| "frame_step (OpSetInfo src n) p m =
     cbind (iAx25FrameSetInfo p (Some src) n) (\<lambda>(_, p'). Inr (p', m))"

fun frame_steps :: "frame_op list \<Rightarrow> xAx25Frame option \<Rightarrow> mem \<Rightarrow> (xAx25Frame option \<times> mem) run" where
  "frame_steps [] p m = Inr (p, m)"
| "frame_steps (x # xs) p m = cbind (frame_step x p m) (\<lambda>(p', m'). frame_steps xs p' m')"

text \<open>What the caller owes: readable call signs, and an information field as long as announced.\<close>

fun op_ok :: "frame_op \<Rightarrow> bool" where
  "op_ok (OpSetSrc cs s) = call_readable cs"
| "op_ok (OpSetDst cs s) = call_readable cs"
| "op_ok (OpAddRepeater cs s) = call_readable cs"
| "op_ok (OpSetInfo src n) = (min n AX25_FRAME_BUF_LEN \<le> length src)"
| "op_ok _ = True"

text \<open>
  The frame is well formed, allocation does not fail any more, and beyond the \<open>b\<close> blocks that
  were live before there are the frame, its two nodes and one node per repeater.
\<close>

definition frame_owned :: "int \<Rightarrow> xAx25Frame \<Rightarrow> mem \<Rightarrow> bool" where
  "frame_owned b f m \<longleftrightarrow>
     frame_ok f \<and> mplan m = [] \<and> live m = b + 3 + int (unat (fr_repeaters_len f))"

lemma clear_repeaters_ok:
  "\<lbrakk>j + k \<le> length rs; \<forall>i. j \<le> i \<and> i < j + k \<longrightarrow> rs ! i \<noteq> None\<rbrakk> \<Longrightarrow>
     \<exists>rs' m'. clear_repeaters [j..<j + k] rs m = Inr (rs', m') \<and> length rs' = length rs \<and>
       mplan m' = mplan m \<and> live m' = live m - int k"
proof (induction k arbitrary: j rs m)
  case 0
  then show ?case by simp
next
  case (Suc k)
  from Suc.prems(1) have j: "j < length rs" by simp
  from Suc.prems(2) j obtain n where n: "rs ! j = Some n" by force
  let ?m = "vAx25NodeDelete (rs ! j) m"
  from Suc.prems have "\<exists>rs' m'. clear_repeaters [Suc j..<Suc j + k] (rs[j := None]) ?m = Inr (rs', m')
      \<and> length rs' = length (rs[j := None]) \<and> mplan m' = mplan ?m \<and> live m' = live ?m - int k"
    by (intro Suc.IH) (auto simp: nth_list_update)
  with j n show ?case
    unfolding upt_step by (auto simp: vAx25NodeDelete_def simp del: upt_Suc)
qed

lemma delete_repeaters_ok:
  "\<lbrakk>j + k \<le> length rs; \<forall>i. j \<le> i \<and> i < j + k \<longrightarrow> rs ! i \<noteq> None\<rbrakk> \<Longrightarrow>
     \<exists>m'. delete_repeaters [j..<j + k] rs m = Inr m' \<and> live m' = live m - int k"
proof (induction k arbitrary: j m)
  case 0
  then show ?case by simp
next
  case (Suc k)
  from Suc.prems(1) have j: "j < length rs" by simp
  from Suc.prems(2) j obtain n where n: "rs ! j = Some n" by force
  let ?m = "vAx25NodeDelete (rs ! j) m"
  from Suc.prems have "\<exists>m'. delete_repeaters [Suc j..<Suc j + k] rs ?m = Inr m' \<and> live m' = live ?m - int k"
    by (intro Suc.IH) auto
  with j n show ?case
    unfolding upt_step by (auto simp: vAx25NodeDelete_def simp del: upt_Suc)
qed

lemma iAx25FrameClear_owned:
  assumes "frame_owned b f m"
  obtains f' m' where "iAx25FrameClear (Some f) m = Inr (AX25_SUCCESS, Some f', m')"
    "frame_owned b f' m'" "fr_repeaters_len f' = 0" "fr_ctrl f' = AX25_CTRL_UI"
    "fr_pid f' = AX25_PID_NOLAYER3"
proof -
  let ?r = "unat (fr_repeaters_len f)"
  from assms have ok: "frame_ok f" and m: "mplan m = []" "live m = b + 3 + int ?r"
    by (auto simp: frame_owned_def)
  from ok have "0 + ?r \<le> length (fr_repeaters f)"
    "\<forall>i. 0 \<le> i \<and> i < 0 + ?r \<longrightarrow> fr_repeaters f ! i \<noteq> None"
    by (auto simp: frame_ok_def node_ptr_ok_def)
  from clear_repeaters_ok [OF this, of m] obtain rs' m' where
    rs: "clear_repeaters [0..<?r] (fr_repeaters f) m = Inr (rs', m')" "length rs' = length (fr_repeaters f)"
    "mplan m' = mplan m" "live m' = live m - int ?r" by auto
  from ok obtain i where
    i: "copy_into (fr_info f) 0 (replicate AX25_FRAME_BUF_LEN 0) 0 AX25_FRAME_BUF_LEN = Inr i"
    by (auto simp: frame_ok_def copy_into_def)
  from copy_into_length [OF i] ok have "length i = AX25_FRAME_BUF_LEN + 1" by (simp add: frame_ok_def)
  with that i rs m ok show thesis
    by (fastforce simp: iAx25FrameClear_def frame_owned_def frame_ok_def iAx25NodeClear_ok)
qed

lemma xAx25NodeNew_ok: "mplan m = [] \<Longrightarrow> xAx25NodeNew m = (Some node0, m\<lparr>live := live m + 1\<rparr>)"
  by (simp add: xAx25NodeNew_def iAx25NodeClear_def)

lemma xAx25FrameNew_owned:
  assumes "mplan m = []"
  obtains f m' where "xAx25FrameNew junk m = Inr (Some f, m')" "frame_owned (live m) f m'"
    "fr_repeaters_len f = 0"
proof -
  let ?f = "\<lparr>fr_dst = Some node0, fr_src = Some node0, fr_repeaters = replicate AX25_MAX_RPT None,
      fr_repeaters_len = 0, fr_ctrl = junk, fr_pid = junk,
      fr_info = replicate (AX25_FRAME_BUF_LEN + 1) junk, fr_info_len = 0\<rparr>"
  let ?m = "m\<lparr>live := 3 + live m\<rparr>"
  have "frame_owned (live m) ?f ?m"
    using assms by (simp add: frame_owned_def frame_ok_def)
  from iAx25FrameClear_owned [OF this] obtain f' m' where
    "iAx25FrameClear (Some ?f) ?m = Inr (AX25_SUCCESS, Some f', m')"
    "frame_owned (live m) f' m'" "fr_repeaters_len f' = 0" by metis
  with that assms show thesis
    by (simp add: xAx25FrameNew_def xAx25NodeNew_ok)
qed


lemma iAx25FrameSetSrc_owned:
  assumes "frame_owned b f m" "call_readable cs"
  obtains f' where "iAx25FrameSetSrc (Some f) cs s = Inr (AX25_SUCCESS, Some f')" "frame_owned b f' m"
proof -
  from assms(1) have "node_ptr_ok (fr_src f)" by (simp add: frame_owned_def frame_ok_def)
  from set_address_ok [OF this assms(2)] obtain n where
    "set_address (fr_src f) cs s = Inr (Some n)" "node_ok n" by metis
  with that assms show thesis
    by (auto simp: iAx25FrameSetSrc_def frame_owned_def frame_ok_def)
qed

lemma iAx25FrameSetDst_owned:
  assumes "frame_owned b f m" "call_readable cs"
  obtains f' where "iAx25FrameSetDst (Some f) cs s = Inr (AX25_SUCCESS, Some f')" "frame_owned b f' m"
proof -
  from assms(1) have "node_ptr_ok (fr_dst f)" by (simp add: frame_owned_def frame_ok_def)
  from set_address_ok [OF this assms(2)] obtain n where
    "set_address (fr_dst f) cs s = Inr (Some n)" "node_ok n" by metis
  with that assms show thesis
    by (auto simp: iAx25FrameSetDst_def frame_owned_def frame_ok_def)
qed

lemma unat_Suc_len: "unat (n :: u8) \<le> 8 \<Longrightarrow> unat (n + 1) = Suc (unat n)"
  by (simp add: unat_word_ariths)

lemma iAx25FrameAddRepeater_owned:
  assumes own: "frame_owned b f m" and cs: "call_readable cs"
  obtains c f' m' where "iAx25FrameAddRepeater (Some f) cs s m = Inr (c, Some f', m')"
    "frame_owned b f' m'"
proof (cases "unat (fr_repeaters_len f) \<ge> AX25_MAX_RPT")
  case True
  with that own show thesis by (simp add: iAx25FrameAddRepeater_def)
next
  case False
  from own have m: "mplan m = []" and ok: "frame_ok f" by (auto simp: frame_owned_def)
  obtain n where n: "set_address (Some node0) cs s = Inr (Some n)" "node_ok n"
    by (rule set_address_ok [of "Some node0" cs s]) (use cs in auto)
  have len: "unat (fr_repeaters_len f + 1) = Suc (unat (fr_repeaters_len f))"
    using ok by (intro unat_Suc_len) (simp add: frame_ok_def ax25_consts)
  let ?f = "f\<lparr>fr_repeaters := (fr_repeaters f)[unat (fr_repeaters_len f) := Some n],
      fr_repeaters_len := fr_repeaters_len f + 1\<rparr>"
  have "frame_owned b ?f (m\<lparr>live := live m + 1\<rparr>)"
    using own False n len
    by (auto simp: frame_owned_def frame_ok_def nth_list_update less_Suc_eq)
  moreover have "iAx25FrameAddRepeater (Some f) cs s m =
      Inr (int (unat (fr_repeaters_len f)), Some ?f, m\<lparr>live := live m + 1\<rparr>)"
    using False ok n m by (simp add: iAx25FrameAddRepeater_def xAx25NodeNew_ok frame_ok_def)
  ultimately show thesis using that by blast
qed

lemma iAx25FrameSetRepeaterFlag_owned:
  assumes own: "frame_owned b f m"
  obtains c f' where "iAx25FrameSetRepeaterFlag (Some f) i fl = Inr (c, Some f')" "frame_owned b f' m"
proof (cases "i \<ge> fr_repeaters_len f")
  case True
  with that own show thesis by (simp add: iAx25FrameSetRepeaterFlag_def)
next
  case False
  then have i: "unat i < unat (fr_repeaters_len f)" by (simp add: not_le word_less_nat_alt)
  with own obtain n where n: "fr_repeaters f ! unat i = Some n" "node_ok n"
    by (force simp: frame_owned_def frame_ok_def node_ptr_ok_def)
  from own i have "unat i < length (fr_repeaters f)" by (simp add: frame_owned_def frame_ok_def)
  with that own False n show thesis
    by (auto simp: iAx25FrameSetRepeaterFlag_def frame_owned_def frame_ok_def nth_list_update)
qed

lemma iAx25FrameSetInfo_owned:
  assumes own: "frame_owned b f m" and src: "min k AX25_FRAME_BUF_LEN \<le> length src"
  obtains f' where "iAx25FrameSetInfo (Some f) (Some src) k = Inr (AX25_SUCCESS, Some f')"
    "frame_owned b f' m" "fr_info_len f' = min k AX25_FRAME_BUF_LEN"
    "take (fr_info_len f') (fr_info f') = take k (take AX25_FRAME_BUF_LEN src)"
proof -
  let ?n = "min k AX25_FRAME_BUF_LEN"
  from own have len: "length (fr_info f) = AX25_FRAME_BUF_LEN + 1"
    by (simp add: frame_owned_def frame_ok_def)
  let ?i = "take ?n src @ drop ?n (fr_info f)"
  have i: "copy_into (fr_info f) 0 src 0 ?n = Inr ?i"
    using src len by (simp add: copy_into_def)
  have "?n < length ?i" using src len by simp
  moreover have "length ?i = AX25_FRAME_BUF_LEN + 1" using src len by simp
  ultimately show thesis
    using that [of "f\<lparr>fr_info := ?i[?n := 0], fr_info_len := ?n\<rparr>"] own i src
    by (simp add: iAx25FrameSetInfo_def Let_def frame_owned_def frame_ok_def take_update_cancel min.commute)
qed

lemma frame_step_owned:
  assumes "frame_owned b f m" "op_ok x"
  obtains f' m' where "frame_step x (Some f) m = Inr (Some f', m')" "frame_owned b f' m'"
proof (cases x)
  case OpClear
  with that assms show thesis by (auto elim: iAx25FrameClear_owned)
next
  case (OpSetSrc cs s)
  with that assms show thesis by (auto elim: iAx25FrameSetSrc_owned [of b f m cs s])
next
  case (OpSetDst cs s)
  with that assms show thesis by (auto elim: iAx25FrameSetDst_owned [of b f m cs s])
next
  case (OpAddRepeater cs s)
  with that assms show thesis by (auto elim: iAx25FrameAddRepeater_owned [of b f m cs s])
next
  case (OpSetRepeaterFlag i fl)
  with that assms show thesis by (auto elim: iAx25FrameSetRepeaterFlag_owned [of b f m i fl])
next
  case (OpSetInfo src k)
  with that assms show thesis by (auto elim: iAx25FrameSetInfo_owned [of b f m k src])
qed

lemma frame_steps_owned:
  "\<lbrakk>frame_owned b f m; list_all op_ok xs\<rbrakk> \<Longrightarrow>
     \<exists>f' m'. frame_steps xs (Some f) m = Inr (Some f', m') \<and> frame_owned b f' m'"
proof (induction xs arbitrary: f m)
  case Nil
  then show ?case by simp
next
  case (Cons x xs)
  from Cons.prems obtain f1 m1 where
    "frame_step x (Some f) m = Inr (Some f1, m1)" "frame_owned b f1 m1"
    by (auto elim: frame_step_owned)
  with Cons show ?case by simp
qed

lemma vAx25FrameDelete_owned:
  assumes "frame_owned b f m"
  obtains m' where "vAx25FrameDelete (Some f) m = Inr m'" "live m' = b"
proof -
  let ?r = "unat (fr_repeaters_len f)"
  let ?m = "vAx25NodeDelete (fr_dst f) (vAx25NodeDelete (fr_src f) m)"
  from assms have "0 + ?r \<le> length (fr_repeaters f)"
    "\<forall>i. 0 \<le> i \<and> i < 0 + ?r \<longrightarrow> fr_repeaters f ! i \<noteq> None"
    by (auto simp: frame_owned_def frame_ok_def node_ptr_ok_def)
  from delete_repeaters_ok [OF this, of ?m] obtain m' where
    "delete_repeaters [0..<?r] (fr_repeaters f) ?m = Inr m'" "live m' = live ?m - int ?r" by auto
  moreover have "live ?m = live m - 2"
    using assms by (auto simp: frame_owned_def frame_ok_def node_ptr_ok_def vAx25NodeDelete_def)
  ultimately show thesis
    using that assms by (auto simp: vAx25FrameDelete_def frame_owned_def)
qed


text \<open>C8. As long as memory does not run out (\<open>mplan m = []\<close>: every \<open>malloc\<close> succeeds; the code does
  not test what it gets for a repeater), a frame that \<open>xAx25FrameNew\<close> returns, taken through any sequence
  of clears, address settings, repeater additions, repeater flags and information fields (whatever
  their arguments, as long as the call signs are readable strings and an information field is as
  long as announced), never faults, keeps its shape (at most eight repeaters, all of them
  allocated, terminated call signs, an information length within the buffer), and
  \<open>vAx25FrameDelete\<close> then frees exactly the blocks the frame had allocated.\<close>

theorem frame_lifecycle:
  assumes "mplan m = []" and "list_all op_ok ops"
  shows "\<exists>f m1 f' m2 m3. xAx25FrameNew junk m = Inr (Some f, m1) \<and>
    frame_steps ops (Some f) m1 = Inr (Some f', m2) \<and> frame_ok f' \<and>
    vAx25FrameDelete (Some f') m2 = Inr m3 \<and> live m3 = live m"
proof -
  obtain f m1 where new: "xAx25FrameNew junk m = Inr (Some f, m1)" "frame_owned (live m) f m1"
    by (rule xAx25FrameNew_owned [OF assms(1)])
  from frame_steps_owned [OF new(2) assms(2)] obtain f' m2 where
    run: "frame_steps ops (Some f) m1 = Inr (Some f', m2)" "frame_owned (live m) f' m2" by blast
  obtain m3 where "vAx25FrameDelete (Some f') m2 = Inr m3" "live m3 = live m"
    by (rule vAx25FrameDelete_owned [OF run(2)])
  with new run show ?thesis by (auto simp: frame_owned_def)
qed

theorem frame_lifecycle_witness:
  "\<exists>f m1 f' m2 m3. xAx25FrameNew 0xAA \<lparr>mplan = [], live = 0\<rparr> = Inr (Some f, m1) \<and>
    frame_steps [OpSetDst [0x41, 0x50, 0] 0, OpAddRepeater [0x57, 0] 1, OpSetRepeaterFlag 0 True,
      OpSetInfo [1, 2, 3] 3, OpClear, OpAddRepeater [0x58, 0] 2] (Some f) m1 = Inr (Some f', m2) \<and>
    frame_ok f' \<and> vAx25FrameDelete (Some f') m2 = Inr m3 \<and> live m3 = live \<lparr>mplan = [], live = 0\<rparr>"
  by (rule frame_lifecycle) (simp_all add: call_readable_def)

section \<open>Text of a frame\<close>

lemma dec_digits_length:
  "n < 256 \<Longrightarrow> length (dec_digits n) = (if n < 10 then 1 else if n < 100 then 2 else 3)"
  by (subst dec_digits.simps, subst dec_digits.simps, subst dec_digits.simps) auto

text \<open>The ten bytes \<open>xAx25NodeToStr\<close> allocates hold the text of a
  node exactly when call sign, ssid suffix and star take at most nine characters together; a
  longer text (a six-letter call sign with a two-digit ssid that was repeated, say) writes past
  the block.\<close>

theorem xAx25NodeToStr_bound:
  assumes "mplan m = []"
  shows "xAx25NodeToStr (Some n) m =
    (if length (takeWhile (\<lambda>c. c \<noteq> 0) (take AX25_CALL_LEN (nd_callsign n))) +
        (if nd_ssid n = 0 then 0 else if nd_ssid n < 10 then 2 else if nd_ssid n < 100 then 3 else 4) +
        (if nd_flag n then 1 else 0) \<le> 9
     then Inr (Some (node_chars n), m\<lparr>live := live m + 1\<rparr>)
     else Inl OutOfBounds)"
proof -
  have ssid: "length (dec_digits (unat (nd_ssid n))) =
      (if nd_ssid n < 10 then 1 else if nd_ssid n < 100 then 2 else 3)"
    using dec_digits_length [of "unat (nd_ssid n)"] unsigned_less [of "nd_ssid n", where 'a = nat]
    by (simp add: word_less_nat_alt)
  show ?thesis
    using assms by (auto simp: xAx25NodeToStr_def node_chars_def NODE_STRLEN_def ax25_consts ssid)
qed

theorem xAx25NodeToStr_bound_witness:
  "xAx25NodeToStr (Some \<lparr>nd_callsign = [0x41, 0x42, 0x43, 0x44, 0x45, 0x46, 0], nd_ssid = 15,
     nd_flag = True\<rparr>) \<lparr>mplan = [], live = 0\<rparr> = Inl OutOfBounds"
  by (subst xAx25NodeToStr_bound) (simp_all add: ax25_consts)

definition node_fits :: "xAx25Node option \<Rightarrow> bool" where
  "node_fits p \<longleftrightarrow> (case p of None \<Rightarrow> False | Some n \<Rightarrow> length (node_chars n) \<le> 9)"

definition node_text :: "xAx25Node option \<Rightarrow> u8 list" where
  "node_text p = (case p of None \<Rightarrow> [] | Some n \<Rightarrow> node_chars n)"

lemma copyStrNode_fits:
  "mplan m = [] \<Longrightarrow> node_fits p \<Longrightarrow> copyStrNode dst p m = Inr (dst @ node_text p, m)"
  by (auto simp: copyStrNode_def xAx25NodeToStr_def node_fits_def node_text_def NODE_STRLEN_def
      ax25_consts split: option.splits)

lemma node_text_length: "node_fits p \<Longrightarrow> length (node_text p) \<le> 9"
  by (auto simp: node_fits_def node_text_def split: option.splits)

abbreviation rpt_text :: "xAx25Node option list \<Rightarrow> nat list \<Rightarrow> u8 list" where
  "rpt_text rs is \<equiv> concat (map (\<lambda>i. 0x2C # node_text (rs ! i)) is)"

lemma copy_repeaters_fits:
  "mplan m = [] \<Longrightarrow> \<forall>i \<in> set is. i < length rs \<and> node_fits (rs ! i) \<Longrightarrow>
     copy_repeaters is rs dst m = Inr (dst @ rpt_text rs is, m)"
  by (induction "is" arbitrary: dst) (auto simp: copyStrNode_fits)

lemma rpt_text_length:
  "\<forall>i \<in> set is. node_fits (rs ! i) \<Longrightarrow> length (rpt_text rs is) \<le> 10 * length is"
  by (induction "is") (auto dest!: node_text_length)

text \<open>C11. When the text of each node of a well-formed frame takes at most
  nine characters (a longer one is written past the block of ten bytes it gets) and memory does not run out,
  \<open>xAx25FrameToStr\<close> stays within its block and returns the TNC-2 line: the
  destination, \<open>>\<close>, the source, each repeater after a comma, a colon and the information
  field.\<close>

theorem xAx25FrameToStr_text:
  assumes "mplan m = []" and ok: "frame_ok f" and ends: "node_fits (fr_dst f)" "node_fits (fr_src f)"
    and rpt: "\<forall>i < unat (fr_repeaters_len f). node_fits (fr_repeaters f ! i)"
  shows "xAx25FrameToStr (Some f) m =
    Inr (Some (node_text (fr_dst f) @ 0x3E # node_text (fr_src f) @
           rpt_text (fr_repeaters f) [0..<unat (fr_repeaters_len f)] @
           0x3A # take (fr_info_len f) (fr_info f)),
         m\<lparr>live := live m + 1\<rparr>)"
proof -
  let ?r = "unat (fr_repeaters_len f)"
  have "length (rpt_text (fr_repeaters f) [0..<?r]) \<le> 10 * ?r"
    using rpt_text_length [of "[0..<?r]" "fr_repeaters f"] rpt by simp
  moreover have "fr_info_len f \<le> length (fr_info f)" using ok by (simp add: frame_ok_def)
  moreover have "\<forall>i \<in> set [0..<?r]. i < length (fr_repeaters f) \<and> node_fits (fr_repeaters f ! i)"
    using ok rpt by (auto simp: frame_ok_def)
  moreover note node_text_length [OF ends(1)] node_text_length [OF ends(2)]
  ultimately show ?thesis
    using assms(1) ends
    by (simp add: xAx25FrameToStr_def Let_def copyStrNode_fits copy_repeaters_fits FRAME_STRLEN_def
        NODE_STRLEN_def ax25_consts)
qed

theorem xAx25FrameToStr_text_witness:
  "xAx25FrameToStr (Some \<lparr>fr_dst = Some node0, fr_src = Some (node0\<lparr>nd_callsign := [0x41,0,0,0,0,0,0]\<rparr>),
     fr_repeaters = replicate 8 None, fr_repeaters_len = 0, fr_ctrl = 3, fr_pid = 0xF0,
     fr_info = replicate 331 0x55, fr_info_len = 2\<rparr>) \<lparr>mplan = [], live = 0\<rparr> =
   Inr (Some (0x3E # 0x41 # 0x3A # replicate 2 0x55), \<lparr>mplan = [], live = 1\<rparr>)"
  by (subst xAx25FrameToStr_text)
    (simp_all add: frame_ok_def node_ok_def node0_def node_fits_def node_text_def node_chars_def
      ax25_consts)

text \<open>\<open>prvcMsg\<close> finds a message for the codes -2 to -10 but none for
  -1, whose message \<open>File access error\<close> stands first in the table.\<close>

theorem prvcMsg_messages:
  "prvcMsg AX25_FILE_ACCESS_ERROR = [] \<and>
   (prvcMsg e \<noteq> [] \<longleftrightarrow> 2 \<le> \<bar>e\<bar> \<and> \<bar>e\<bar> \<le> 10)"
proof (cases "2 \<le> \<bar>e\<bar> \<and> \<bar>e\<bar> \<le> 10")
  case True
  define k where "k = nat (\<bar>e\<bar> - 1)"
  with True have "1 \<le> k" "k \<le> 9" by auto
  then have "k \<in> {1,2,3,4,5,6,7,8,9}" by auto
  then have "cErrorMsg ! nat (\<bar>e\<bar> - 1) \<noteq> []"
    unfolding k_def [symmetric] by (elim insertE emptyE) (simp_all add: cErrorMsg_def)
  with True show ?thesis
    by (auto simp: prvcMsg_def cErrorMsg_def Let_def ax25_errors)
next
  case False
  then show ?thesis
    by (auto simp: prvcMsg_def cErrorMsg_def Let_def ax25_errors)
qed

end
