(* ===== verification/Ax25_Link.thy ===== *)
theory Ax25_Link
  imports Ax25_Frame Crc Byte_Receiver
begin

text \<open>
  The controller \<open>xAx25\<close> of \<open>radio/src/ax25.c\<close>: byte stuffing and checksum on the way out
  (\<open>prvvPutChar\<close>, \<open>prviSendCall\<close>, \<open>iAx25Send\<close>), the per-byte receiver on the way in
  (\<open>bAx25Poll\<close>) and the decoding of a received buffer into a frame (\<open>prviDecode\<close>,
  \<open>iAx25Read\<close>).
\<close>

section \<open>State\<close>

definition HDLC_FLAG :: u8 where "HDLC_FLAG = 0x7E"
definition HDLC_RESET :: u8 where "HDLC_RESET = 0x7F"
definition AX25_ESC :: u8 where "AX25_ESC = 0x1B"
definition AX25_MIN_FRAME_LEN :: nat where "AX25_MIN_FRAME_LEN = 18"
definition AX25_CRC_CORRECT :: u16 where "AX25_CRC_CORRECT = 0xF0B8"

lemmas hdlc_consts = HDLC_FLAG_def HDLC_RESET_def AX25_ESC_def

record xAx25 =
  ax_fin :: int
  ax_fout :: int
  ax_buf :: "u8 list"      \<comment> \<open>\<open>uint8_t buf[AX25_FRAME_BUF_LEN]\<close>\<close>
  ax_len :: nat
  ax_crc_in :: u16
  ax_crc_out :: u16
  ax_sync :: bool
  ax_escape :: bool
  ax_frm_recv :: bool
  ax_error :: int

definition prviSetError :: "xAx25 option \<Rightarrow> int \<Rightarrow> (int \<times> xAx25 option) run" where
  "prviSetError p iError =
     cbind (deref p) (\<lambda>x. Inr (ax25_err iError, Some (x\<lparr>ax_error := iError\<rparr>)))"

definition iAx25Clear :: "xAx25 option \<Rightarrow> int \<times> xAx25 option" where
  "iAx25Clear p =
     (case p of
        None \<Rightarrow> (ax25_err AX25_OBJECT_NOT_FOUND, None)
      | Some _ \<Rightarrow>
          (AX25_SUCCESS,
           Some \<lparr>ax_fin = 0, ax_fout = 0, ax_buf = replicate AX25_FRAME_BUF_LEN 0, ax_len = 0,
                 ax_crc_in = CRC_CCITT_INIT_VAL, ax_crc_out = CRC_CCITT_INIT_VAL,
                 ax_sync = False, ax_escape = False, ax_frm_recv = False, ax_error = 0\<rparr>))"

text \<open>\<open>junk\<close> is what \<open>malloc\<close> leaves in the object before it is cleared.\<close>

definition xAx25New :: "xAx25 \<Rightarrow> mem \<Rightarrow> xAx25 option \<times> mem" where
  "xAx25New junk m =
     (let (ok, m1) = malloc m in (if ok then snd (iAx25Clear (Some junk)) else None, m1))"

definition vAx25Delete :: "xAx25 option \<Rightarrow> mem \<Rightarrow> mem" where
  "vAx25Delete p m = free p m"

definition iAx25Error :: "xAx25 option \<Rightarrow> int" where
  "iAx25Error p = (case p of None \<Rightarrow> - (2 ^ 31) | Some x \<Rightarrow> ax_error x)"

text \<open>\<open>getfl fd\<close> is what \<open>fcntl (fd, F_GETFL)\<close> returns: the open flags, or -1.\<close>

definition O_RDONLY :: int where "O_RDONLY = 0"
definition O_WRONLY :: int where "O_WRONLY = 1"
definition O_RDWR :: int where "O_RDWR = 2"
definition O_ACCMODE :: int where "O_ACCMODE = 3"

definition prvxOpenFile :: "(int \<Rightarrow> int) \<Rightarrow> int \<Rightarrow> int \<Rightarrow> int" where
  "prvxOpenFile getfl fd mode =
     (if getfl fd \<noteq> -1
      then let flag = getfl fd AND O_ACCMODE in if flag \<noteq> mode \<and> flag \<noteq> O_RDWR then -1 else fd
      else fd)"

definition iAx25SetFdin :: "(int \<Rightarrow> int) \<Rightarrow> xAx25 option \<Rightarrow> int \<Rightarrow> (int \<times> xAx25 option) run" where
  "iAx25SetFdin getfl p fd =
     (case p of
        None \<Rightarrow> prviSetError p AX25_OBJECT_NOT_FOUND
      | Some x \<Rightarrow>
          prviSetError (Some (x\<lparr>ax_fin := prvxOpenFile getfl fd O_RDONLY\<rparr>)) AX25_SUCCESS)"

definition iAx25SetFdout :: "(int \<Rightarrow> int) \<Rightarrow> xAx25 option \<Rightarrow> int \<Rightarrow> (int \<times> xAx25 option) run" where
  "iAx25SetFdout getfl p fd =
     (case p of
        None \<Rightarrow> prviSetError p AX25_OBJECT_NOT_FOUND
      | Some x \<Rightarrow>
          prviSetError (Some (x\<lparr>ax_fout := prvxOpenFile getfl fd O_WRONLY\<rparr>)) AX25_SUCCESS)"

section \<open>Sending\<close>

text \<open>\<open>prviPutc\<close> ignores what \<open>write\<close> returns.\<close>

definition prviPutc :: "u8 \<Rightarrow> wdev \<Rightarrow> wdev" where
  "prviPutc c d = snd (write1 c d)"

definition special :: "u8 \<Rightarrow> bool" where
  "special c \<longleftrightarrow> c = HDLC_FLAG \<or> c = HDLC_RESET \<or> c = AX25_ESC"

definition prvvPutChar :: "xAx25 \<Rightarrow> u8 \<Rightarrow> wdev \<Rightarrow> xAx25 \<times> wdev" where
  "prvvPutChar p c d =
     (let d1 = (if special c then prviPutc AX25_ESC d else d)
      in (p\<lparr>ax_crc_out := usCrcCcittUpdate c (ax_crc_out p)\<rparr>, prviPutc c d1))"

fun put_chars :: "xAx25 \<Rightarrow> u8 list \<Rightarrow> wdev \<Rightarrow> xAx25 \<times> wdev" where
  "put_chars p [] d = (p, d)"
| "put_chars p (c # cs) d = (let (p1, d1) = prvvPutChar p c d in put_chars p1 cs d1)"

text \<open>The loop over the call sign, which gives up at the first character that is not allowed.\<close>

fun send_call :: "xAx25 \<Rightarrow> u8 list \<Rightarrow> wdev \<Rightarrow> bool \<times> xAx25 \<times> wdev" where
  "send_call p [] d = (True, p, d)"
| "send_call p (c # cs) d =
     (if \<not> (isalnum c \<or> c = 0x20) then (False, p, d)
      else let (p1, d1) = prvvPutChar p (push_bit 1 (toupper c)) d in send_call p1 cs d1)"

definition ssid_byte :: "xAx25Node \<Rightarrow> bool \<Rightarrow> u8" where
  "ssid_byte n islast =
     0x60 OR (if nd_flag n then 0x80 else 0) OR push_bit 1 (nd_ssid n) OR (if islast then 0x01 else 0)"

definition prviSendCall ::
    "xAx25 \<Rightarrow> xAx25Node option \<Rightarrow> bool \<Rightarrow> wdev \<Rightarrow> (int \<times> xAx25 \<times> wdev) run" where
  "prviSendCall p np islast d =
     cbind (deref np) (\<lambda>n.
     cbind (c_strlen (nd_callsign n)) (\<lambda>sl.
       let len = min AX25_CALL_LEN sl;
           (ok, p1, d1) = send_call p (take len (nd_callsign n)) d
       in if \<not> ok then Inr (AX25_ILLEGAL_CALLSIGN, p1\<lparr>ax_error := AX25_ILLEGAL_CALLSIGN\<rparr>, d1)
          else
            let (p2, d2) = put_chars p1 (replicate (AX25_CALL_LEN - len) (push_bit 1 0x20)) d1;
                (p3, d3) = prvvPutChar p2 (ssid_byte n islast) d2
            in Inr (AX25_SUCCESS, p3\<lparr>ax_error := AX25_SUCCESS\<rparr>, d3)))"

text \<open>The repeaters, from index \<open>i\<close> to the last; a code other than \<open>AX25_SUCCESS\<close> ends it.\<close>

fun send_repeaters ::
    "xAx25 \<Rightarrow> xAx25Frame \<Rightarrow> nat list \<Rightarrow> wdev \<Rightarrow> (int \<times> xAx25 \<times> wdev) run" where
  "send_repeaters p f [] d = Inr (AX25_SUCCESS, p, d)"
| "send_repeaters p f (i # is) d =
     cbind (rd (fr_repeaters f) i) (\<lambda>r.
     cbind (prviSendCall p r (i + 1 = unat (fr_repeaters_len f)) d) (\<lambda>(e, p1, d1).
       if e \<noteq> 0 then Inr (e, p1, d1) else send_repeaters p1 f is d1))"

definition iAx25Send ::
    "xAx25 option \<Rightarrow> xAx25Frame option \<Rightarrow> wdev \<Rightarrow> (int \<times> xAx25 option \<times> wdev) run" where
  "iAx25Send pp fp d =
     (case pp of
        None \<Rightarrow> Inr (ax25_err AX25_OBJECT_NOT_FOUND, None, d)
      | Some p \<Rightarrow>
          if ax_fout p = 0 then Inr (AX25_FILE_NOT_FOUND, Some p, d)
          else (case fp of
            None \<Rightarrow> Inr (AX25_INVALID_FRAME, Some (p\<lparr>ax_error := AX25_INVALID_FRAME\<rparr>), d)
          | Some f \<Rightarrow>
              let p0 = p\<lparr>ax_crc_out := CRC_CCITT_INIT_VAL\<rparr>; d0 = prviPutc HDLC_FLAG d
              in cbind (prviSendCall p0 (fr_dst f) False d0) (\<lambda>(e1, p1, d1).
                 if e1 \<noteq> 0 then Inr (e1, Some p1, d1) else
                 cbind (prviSendCall p1 (fr_src f) (fr_repeaters_len f = 0) d1) (\<lambda>(e2, p2, d2).
                 if e2 \<noteq> 0 then Inr (e2, Some p2, d2) else
                 cbind (send_repeaters p2 f [0..<unat (fr_repeaters_len f)] d2) (\<lambda>(e3, p3, d3).
                 if e3 \<noteq> 0 then Inr (e3, Some p3, d3) else
                 if \<not> fr_info_len f \<le> length (fr_info f) then Inl OutOfBounds else
                 let (p4, d4) = prvvPutChar p3 (fr_ctrl f) d3;
                     (p5, d5) = prvvPutChar p4 (fr_pid f) d4;
                     (p6, d6) = put_chars p5 (take (fr_info_len f) (fr_info f)) d5;
                     crcl = ucast ((ax_crc_out p6 AND 0xff) XOR 0xff) :: u8;
                     crch = ucast (drop_bit 8 (ax_crc_out p6) XOR 0xff) :: u8;
                     (p7, d7) = prvvPutChar p6 crcl d6;
                     (p8, d8) = prvvPutChar p7 crch d7
                 in if ax_crc_out p8 \<noteq> AX25_CRC_CORRECT
                    then Inr (AX25_CRC_ERROR, Some (p8\<lparr>ax_error := AX25_CRC_ERROR\<rparr>), d8)
                    else Inr (AX25_SUCCESS, Some (p8\<lparr>ax_error := AX25_SUCCESS\<rparr>),
                              prviPutc HDLC_FLAG d8))))))"

section \<open>Receiving\<close>

text \<open>One turn of the loop of \<open>bAx25Poll\<close>, for the byte \<open>c\<close> just read.\<close>

definition ax25_rx :: "xAx25 \<Rightarrow> u8 \<Rightarrow> xAx25 run" where
  "ax25_rx p c =
     (if \<not> ax_escape p \<and> c = HDLC_FLAG then
        if ax_len p \<ge> AX25_MIN_FRAME_LEN \<and> ax_crc_in p = AX25_CRC_CORRECT
        then Inr (p\<lparr>ax_frm_recv := True\<rparr>)
        else Inr (p\<lparr>ax_sync := True, ax_crc_in := CRC_CCITT_INIT_VAL, ax_len := 0\<rparr>)
      else if \<not> ax_escape p \<and> c = HDLC_RESET then Inr (p\<lparr>ax_sync := False\<rparr>)
      else if \<not> ax_escape p \<and> c = AX25_ESC then Inr (p\<lparr>ax_escape := True\<rparr>)
      else
        cbind (if ax_sync p then
                 if ax_len p < AX25_FRAME_BUF_LEN then
                   cbind (wr (ax_buf p) (ax_len p) c) (\<lambda>b.
                     Inr (p\<lparr>ax_buf := b, ax_len := ax_len p + 1,
                            ax_crc_in := usCrcCcittUpdate c (ax_crc_in p)\<rparr>))
                 else Inr (p\<lparr>ax_sync := False\<rparr>)
               else Inr p)
          (\<lambda>p1. Inr (p1\<lparr>ax_escape := False\<rparr>)))"

fun ax25_poll_loop :: "xAx25 \<Rightarrow> u8 list \<Rightarrow> (xAx25 \<times> u8 list) run" where
  "ax25_poll_loop p [] = Inr (p, [])"
| "ax25_poll_loop p (c # cs) =
     (if ax_frm_recv p then Inr (p, c # cs)
      else cbind (ax25_rx p c) (\<lambda>p1. ax25_poll_loop p1 cs))"

text \<open>\<open>input\<close> is what can be read from \<open>fin\<close> before \<open>prviGetc\<close> returns EOF; the bytes
  that were not read are returned.\<close>

definition bAx25Poll :: "xAx25 \<Rightarrow> u8 list \<Rightarrow> (bool \<times> xAx25 \<times> u8 list) run" where
  "bAx25Poll p input =
     (if ax_fin p = 0 then Inr (False, p, input)
      else cbind (ax25_poll_loop p input) (\<lambda>(p1, rest). Inr (ax_frm_recv p1, p1, rest)))"

section \<open>Decoding\<close>

text \<open>Six characters of \<open>buf\<close> from \<open>pos\<close>, shifted back, blanks turned into NUL.\<close>

definition prvxExtractCallsign :: "u8 list \<Rightarrow> nat \<Rightarrow> (u8 list \<times> nat) run" where
  "prvxExtractCallsign buf pos =
     (if pos + AX25_CALL_LEN \<le> length buf
      then Inr (map (\<lambda>b. if drop_bit 1 b = 0x20 then 0 else drop_bit 1 b)
                  (take AX25_CALL_LEN (drop pos buf)), pos + AX25_CALL_LEN)
      else Inl OutOfBounds)"

text \<open>
  \<open>for (index = 0; !(*buf++ & 1) && (index < AX25_MAX_RPT); index++)\<close>, where \<open>k\<close> is
  \<open>AX25_MAX_RPT - index\<close>: the ssid byte at \<open>pos\<close> tells whether an address follows.
\<close>

fun decode_repeaters ::
    "u8 list \<Rightarrow> nat \<Rightarrow> nat \<Rightarrow> xAx25Frame option \<Rightarrow> mem \<Rightarrow> (nat \<times> xAx25Frame option \<times> mem) run" where
  "decode_repeaters buf pos k f m =
     cbind (rd buf pos) (\<lambda>b.
       if bit b 0 then Inr (pos + 1, f, m)
       else (case k of
         0 \<Rightarrow> Inr (pos + 1, f, m)
       | Suc k' \<Rightarrow>
           cbind (prvxExtractCallsign buf (pos + 1)) (\<lambda>(cs, pos1).
           cbind (rd buf pos1) (\<lambda>s.
           cbind (iAx25FrameAddRepeater f cs (drop_bit 1 s AND 0x0F) m) (\<lambda>(_, f1, m1).
           cbind (iAx25FrameSetRepeaterFlag f1 (of_nat (AX25_MAX_RPT - k)) (s AND 0x80 \<noteq> 0))
             (\<lambda>(_, f2). decode_repeaters buf pos1 k' f2 m1))))))"

declare decode_repeaters.simps [simp del]

definition prviDecode ::
    "xAx25 \<Rightarrow> xAx25Frame option \<Rightarrow> mem \<Rightarrow> (int \<times> xAx25 \<times> xAx25Frame option \<times> mem) run" where
  "prviDecode p f m =
     (let buf = ax_buf p in
      cbind (iAx25FrameClear f m) (\<lambda>(_, f0, m0).
      cbind (prvxExtractCallsign buf 0) (\<lambda>(dcs, i1).
      cbind (rd buf i1) (\<lambda>db.
      cbind (iAx25FrameSetDst f0 dcs (drop_bit 1 db AND 0x0F)) (\<lambda>(_, f1).
      cbind (prvxExtractCallsign buf (i1 + 1)) (\<lambda>(scs, i2).
      cbind (rd buf i2) (\<lambda>sb.
      cbind (iAx25FrameSetSrc f1 scs (drop_bit 1 sb AND 0x0F)) (\<lambda>(_, f2).
      cbind (decode_repeaters buf i2 AX25_MAX_RPT f2 m0) (\<lambda>(i3, f3, m3).
      cbind (deref f3) (\<lambda>fr.
      cbind (rd buf i3) (\<lambda>ctrl.
        let fr1 = fr\<lparr>fr_ctrl := ctrl\<rparr>
        in if ctrl \<noteq> AX25_CTRL_UI then Inr (AX25_INVALID_FRAME, p, Some fr1, m3) else
           cbind (rd buf (i3 + 1)) (\<lambda>pid.
             let fr2 = fr1\<lparr>fr_pid := pid\<rparr>
             in if pid \<noteq> AX25_PID_NOLAYER3 then Inr (AX25_INVALID_FRAME, p, Some fr2, m3) else
                let n = unat ((of_nat (ax_len p) :: u64) - 2 - of_nat (i3 + 2))
                in cbind (copy_into (fr_info fr2) 0 buf (i3 + 2) n) (\<lambda>info.
                     Inr (AX25_SUCCESS,
                          p\<lparr>ax_sync := False, ax_crc_in := CRC_CCITT_INIT_VAL, ax_len := 0,
                            ax_escape := False, ax_frm_recv := False\<rparr>,
                          Some (fr2\<lparr>fr_info := info, fr_info_len := n\<rparr>), m3))))))))))))))"

definition iAx25Read ::
    "xAx25 option \<Rightarrow> xAx25Frame option \<Rightarrow> mem \<Rightarrow>
       (int \<times> xAx25 option \<times> xAx25Frame option \<times> mem) run" where
  "iAx25Read pp f m =
     (case (pp, f) of
        (Some p, Some _) \<Rightarrow>
          if \<not> ax_frm_recv p then Inr (AX25_NO_FRAME_RECEIVED, pp, f, m)
          else cbind (prviDecode (p\<lparr>ax_error := AX25_SUCCESS\<rparr>) f m)
                 (\<lambda>(e, p1, f1, m1). Inr (e, Some p1, f1, m1))
      | _ \<Rightarrow> Inr (ax25_err AX25_OBJECT_NOT_FOUND, pp, f, m))"

end
