(* ===== verification/Ax25_Wire.thy ===== *)
theory Ax25_Wire
  imports Ax25_Link
begin

text \<open>
  What the AX.25 controller puts on the wire and what it makes of what it reads: the output of
  \<open>iAx25Send\<close> on a working descriptor, the safety of the receiver, the detection of corrupted
  frames, the round trip of a frame, and the two ways a hostile sender breaks the receiver.
\<close>

section \<open>The output of the sender\<close>

definition stuff1 :: "u8 \<Rightarrow> u8 list" where
  "stuff1 c = (if special c then [AX25_ESC, c] else [c])"

abbreviation stuff :: "u8 list \<Rightarrow> u8 list" where
  "stuff cs \<equiv> concat (map stuff1 cs)"

text \<open>The call sign as a string, the seven bytes of an address, and those of all repeaters.\<close>

definition call_of :: "xAx25Node \<Rightarrow> u8 list" where
  "call_of n = takeWhile (\<lambda>c. c \<noteq> 0) (take AX25_CALL_LEN (nd_callsign n))"

definition addr_bytes :: "xAx25Node \<Rightarrow> bool \<Rightarrow> u8 list" where
  "addr_bytes n islast =
     map (\<lambda>c. push_bit 1 (toupper c)) (call_of n) @
     replicate (AX25_CALL_LEN - length (call_of n)) 0x40 @ [ssid_byte n islast]"

fun rpt_bytes :: "xAx25Node list \<Rightarrow> u8 list" where
  "rpt_bytes [] = []"
| "rpt_bytes (n # ns) = addr_bytes n (ns = []) @ rpt_bytes ns"

definition repeaters_of :: "xAx25Frame \<Rightarrow> xAx25Node list" where
  "repeaters_of f = map the (take (unat (fr_repeaters_len f)) (fr_repeaters f))"

definition frame_body :: "xAx25Frame \<Rightarrow> u8 list" where
  "frame_body f =
     addr_bytes (the (fr_dst f)) False @ addr_bytes (the (fr_src f)) (fr_repeaters_len f = 0) @
     rpt_bytes (repeaters_of f) @ [fr_ctrl f, fr_pid f] @ take (fr_info_len f) (fr_info f)"

abbreviation crc_of :: "u8 list \<Rightarrow> u16" where
  "crc_of bs \<equiv> fold usCrcCcittUpdate bs CRC_CCITT_INIT_VAL"

definition with_crc :: "u8 list \<Rightarrow> u8 list" where
  "with_crc bs = bs @ [ucast ((crc_of bs AND 0xff) XOR 0xff), ucast (drop_bit 8 (crc_of bs) XOR 0xff)]"

lemma crc_of_with_crc: "crc_of (with_crc bs) = AX25_CRC_CORRECT"
  unfolding with_crc_def AX25_CRC_CORRECT_def by (rule ccitt.crc_residue)

text \<open>A node whose call sign the protocol can carry.\<close>

definition sendable :: "xAx25Node \<Rightarrow> bool" where
  "sendable n \<longleftrightarrow> node_ok n \<and> (\<forall>c \<in> set (call_of n). isalnum c \<or> c = 0x20)"

definition frame_sendable :: "xAx25Frame \<Rightarrow> bool" where
  "frame_sendable f \<longleftrightarrow>
     frame_ok f \<and> sendable (the (fr_dst f)) \<and> sendable (the (fr_src f)) \<and>
     (\<forall>n \<in> set (repeaters_of f). sendable n)"

lemma prviPutc_ok: "plan d = Granted \<Longrightarrow> prviPutc c d = d\<lparr>sent := sent d @ [c]\<rparr>"
  by (simp add: prviPutc_def)

lemma prvvPutChar_ok:
  "plan d = Granted \<Longrightarrow> prvvPutChar p c d =
     (p\<lparr>ax_crc_out := usCrcCcittUpdate c (ax_crc_out p)\<rparr>, d\<lparr>sent := sent d @ stuff1 c\<rparr>)"
  by (simp add: prvvPutChar_def stuff1_def prviPutc_ok)

lemma put_chars_ok:
  "plan d = Granted \<Longrightarrow> put_chars p cs d =
     (p\<lparr>ax_crc_out := fold usCrcCcittUpdate cs (ax_crc_out p)\<rparr>, d\<lparr>sent := sent d @ stuff cs\<rparr>)"
  by (induction cs arbitrary: p d) (simp_all add: prvvPutChar_ok)

lemma send_call_ok:
  "plan d = Granted \<Longrightarrow> \<forall>c \<in> set cs. isalnum c \<or> c = 0x20 \<Longrightarrow>
     send_call p cs d = (True, put_chars p (map (\<lambda>c. push_bit 1 (toupper c)) cs) d)"
  by (induction cs arbitrary: p d) (simp_all add: prvvPutChar_ok)

lemma takeWhile_nz: "0 \<notin> set ys \<Longrightarrow> takeWhile (\<lambda>c. c \<noteq> 0) (take n (ys @ 0 # zs)) = take n ys"
proof (cases "n \<le> length ys")
  case True
  moreover assume "0 \<notin> set ys"
  then have "\<forall>c \<in> set (take n ys). c \<noteq> 0" by (auto dest: in_set_takeD)
  ultimately show ?thesis by (simp add: takeWhile_eq_all_conv)
next
  case False
  then obtain k where "n - length ys = Suc k" by (metis Suc_diff_Suc not_le)
  moreover assume "0 \<notin> set ys"
  then have "takeWhile (\<lambda>c. c \<noteq> 0) (ys @ 0 # take k zs) = ys"
    by (subst takeWhile_append2) auto
  ultimately show ?thesis using False by simp
qed

lemma c_strlen_node:
  assumes "node_ok n"
  obtains k where "c_strlen (nd_callsign n) = Inr k"
    "take (min AX25_CALL_LEN k) (nd_callsign n) = call_of n"
    "min AX25_CALL_LEN k = length (call_of n)"
proof -
  from assms have "0 \<in> set (nd_callsign n)"
    by (metis node_ok_def nth_mem less_add_one)
  then obtain ys zs where split: "nd_callsign n = ys @ 0 # zs" "0 \<notin> set ys"
    by (metis split_list_first)
  then have "call_of n = take AX25_CALL_LEN ys"
    by (simp add: call_of_def takeWhile_nz del: take_append)
  with split that [of "length ys"] show thesis
    by (simp add: c_strlen_app min_def)
qed

lemma call_of_length: "length (call_of n) \<le> AX25_CALL_LEN"
  unfolding call_of_def by (metis length_take length_takeWhile_le min.bounded_iff)

lemma prviSendCall_ok:
  assumes "plan d = Granted" "sendable n"
  shows "prviSendCall p (Some n) l d = Inr (AX25_SUCCESS,
    (fst (put_chars p (addr_bytes n l) d))\<lparr>ax_error := AX25_SUCCESS\<rparr>, snd (put_chars p (addr_bytes n l) d))"
proof -
  from assms(2) obtain k where k: "c_strlen (nd_callsign n) = Inr k"
    "take (min AX25_CALL_LEN k) (nd_callsign n) = call_of n" "min AX25_CALL_LEN k = length (call_of n)"
    by (auto simp: sendable_def elim: c_strlen_node)
  have "push_bit 1 0x20 = (0x40 :: u8)" by simp
  with assms k show ?thesis
    by (simp add: prviSendCall_def Let_def sendable_def send_call_ok put_chars_ok prvvPutChar_ok addr_bytes_def)
qed

lemma send_repeaters_ok:
  assumes "plan d = Granted" "\<forall>i \<in> set [j..<r]. i < length (fr_repeaters f) \<and> fr_repeaters f ! i \<noteq> None \<and>
      sendable (the (fr_repeaters f ! i))" "r = unat (fr_repeaters_len f)"
  shows "\<exists>e. send_repeaters p f [j..<r] d =
    (let bs = rpt_bytes (map (\<lambda>i. the (fr_repeaters f ! i)) [j..<r])
     in Inr (AX25_SUCCESS, (fst (put_chars p bs d))\<lparr>ax_error := e\<rparr>, snd (put_chars p bs d)))"
  using assms(1,2)
proof (induction "r - j" arbitrary: j p d)
  case 0
  then have "[j..<r] = []" by simp
  then show ?case by (auto intro!: exI [of _ "ax_error p"])
next
  case (Suc k)
  then have j: "[j..<r] = j # [Suc j..<r]" by (simp add: upt_conv_Cons)
  from Suc.prems(2) j obtain n where n: "j < length (fr_repeaters f)" "fr_repeaters f ! j = Some n" "sendable n"
    by auto
  have last: "(j + 1 = unat (fr_repeaters_len f)) = ([Suc j..<r] = [])"
    using Suc.hyps(2) assms(3) by auto
  let ?b = "addr_bytes n ([Suc j..<r] = [])"
  let ?p = "(fst (put_chars p ?b d))\<lparr>ax_error := AX25_SUCCESS\<rparr>" and ?d = "snd (put_chars p ?b d)"
  have "\<exists>e. send_repeaters ?p f [Suc j..<r] ?d =
    (let bs = rpt_bytes (map (\<lambda>i. the (fr_repeaters f ! i)) [Suc j..<r])
     in Inr (AX25_SUCCESS, (fst (put_chars ?p bs ?d))\<lparr>ax_error := e\<rparr>, snd (put_chars ?p bs ?d)))"
    using Suc.hyps(2) Suc.prems j by (intro Suc.hyps(1)) (simp_all add: put_chars_ok)
  with n last Suc.prems(1) show ?case
    unfolding j by (auto simp: prviSendCall_ok put_chars_ok Let_def AX25_SUCCESS_def)
qed


lemma repeaters_of_map:
  "frame_ok f \<Longrightarrow> repeaters_of f = map (\<lambda>i. the (fr_repeaters f ! i)) [0..<unat (fr_repeaters_len f)]"
  by (auto simp: repeaters_of_def frame_ok_def intro!: nth_equalityI)

text \<open>The three address groups of a sendable frame go out as their bytes.\<close>

lemma send_repeaters_frame:
  assumes "plan d = Granted" "frame_sendable f"
  obtains e where "send_repeaters p f [0..<unat (fr_repeaters_len f)] d =
     Inr (AX25_SUCCESS, (fst (put_chars p (rpt_bytes (repeaters_of f)) d))\<lparr>ax_error := e\<rparr>,
          snd (put_chars p (rpt_bytes (repeaters_of f)) d))"
proof -
  let ?r = "unat (fr_repeaters_len f)"
  have ok: "frame_ok f" using assms(2) by (simp add: frame_sendable_def)
  have "\<forall>i \<in> set [0..<?r]. i < length (fr_repeaters f) \<and> fr_repeaters f ! i \<noteq> None \<and>
      sendable (the (fr_repeaters f ! i))"
    using assms(2) ok repeaters_of_map [OF ok]
    by (auto simp: frame_sendable_def frame_ok_def node_ptr_ok_def)
  from send_repeaters_ok [OF assms(1) this refl, of p] that show thesis
    by (auto simp: Let_def repeaters_of_map [OF ok])
qed

lemma iAx25Send_ok:
  assumes "ax_fout p \<noteq> 0" "plan d = Granted" "frame_sendable f"
  shows "iAx25Send (Some p) (Some f) d =
    Inr (AX25_SUCCESS, Some (p\<lparr>ax_crc_out := AX25_CRC_CORRECT, ax_error := AX25_SUCCESS\<rparr>),
         d\<lparr>sent := sent d @ [HDLC_FLAG] @ stuff (with_crc (frame_body f)) @ [HDLC_FLAG]\<rparr>)"
proof -
  let ?p0 = "p\<lparr>ax_crc_out := CRC_CCITT_INIT_VAL\<rparr>"
  let ?d0 = "d\<lparr>sent := sent d @ [HDLC_FLAG]\<rparr>"
  have ok: "frame_ok f" and dst: "sendable (the (fr_dst f))" and src: "sendable (the (fr_src f))"
    using assms(3) by (auto simp: frame_sendable_def)
  from ok obtain nd ns where ptr: "fr_dst f = Some nd" "fr_src f = Some ns"
    by (auto simp: frame_ok_def node_ptr_ok_def)
  let ?a = "addr_bytes nd False @ addr_bytes ns (fr_repeaters_len f = 0)"
  let ?p2 = "?p0\<lparr>ax_crc_out := crc_of ?a, ax_error := AX25_SUCCESS\<rparr>"
  let ?d2 = "?d0\<lparr>sent := sent ?d0 @ stuff ?a\<rparr>"
  have d2: "plan ?d2 = Granted" using assms(2) by simp
  obtain e where e: "send_repeaters ?p2 f [0..<unat (fr_repeaters_len f)] ?d2 =
     Inr (AX25_SUCCESS, (fst (put_chars ?p2 (rpt_bytes (repeaters_of f)) ?d2))\<lparr>ax_error := e\<rparr>,
          snd (put_chars ?p2 (rpt_bytes (repeaters_of f)) ?d2))"
    by (rule send_repeaters_frame [OF d2 assms(3), of ?p2])
  have info: "fr_info_len f \<le> length (fr_info f)" using ok by (simp add: frame_ok_def)
  have body: "frame_body f = ?a @ rpt_bytes (repeaters_of f) @ [fr_ctrl f, fr_pid f] @
      take (fr_info_len f) (fr_info f)"
    by (simp add: frame_body_def ptr)
  note crc = crc_of_with_crc [of "frame_body f"]
  show ?thesis
    using assms ptr dst src e info crc
    by (simp add: iAx25Send_def Let_def prviPutc_ok prviSendCall_ok put_chars_ok prvvPutChar_ok
        with_crc_def body AX25_SUCCESS_def)
qed

text \<open>C5. On a descriptor whose writes succeed, \<open>iAx25Send\<close> of a well-formed
  frame with legal call signs returns \<open>AX25_SUCCESS\<close> (never \<open>AX25_CRC_ERROR\<close>) and has written
  the opening flag, the addresses, control, pid, information field and complemented CRC with every
  flag, reset and escape byte stuffed, and the closing flag, whatever the controller did before.\<close>

theorem iAx25Send_wire:
  assumes "ax_fout p \<noteq> 0" "plan d = Granted" "frame_sendable f"
  shows "iAx25Send (Some p) (Some f) d =
    Inr (AX25_SUCCESS, Some (p\<lparr>ax_crc_out := AX25_CRC_CORRECT, ax_error := AX25_SUCCESS\<rparr>),
         d\<lparr>sent := sent d @ [HDLC_FLAG] @ stuff (with_crc (frame_body f)) @ [HDLC_FLAG]\<rparr>)"
  by (rule iAx25Send_ok [OF assms])

text \<open>A controller as \<open>xAx25New\<close> leaves it with its descriptors set, and a frame of one
  repeater whose information field needs stuffing, for the concrete instances below.\<close>

definition ex_link :: xAx25 where
  "ex_link = \<lparr>ax_fin = 3, ax_fout = 4, ax_buf = replicate 330 0, ax_len = 0, ax_crc_in = 0xFFFF,
     ax_crc_out = 0xFFFF, ax_sync = False, ax_escape = False, ax_frm_recv = False, ax_error = 0\<rparr>"

definition ex_frame :: xAx25Frame where
  "ex_frame = \<lparr>
     fr_dst = Some \<lparr>nd_callsign = [0x41, 0x50, 0x52, 0x53, 0, 0, 0], nd_ssid = 0, nd_flag = False\<rparr>,
     fr_src = Some \<lparr>nd_callsign = [0x46, 0x31, 0x41, 0x42, 0x43, 0x44, 0], nd_ssid = 5, nd_flag = False\<rparr>,
     fr_repeaters =
       Some \<lparr>nd_callsign = [0x57, 0x49, 0x44, 0x45, 0, 0, 0], nd_ssid = 2, nd_flag = True\<rparr>
         # replicate 7 None,
     fr_repeaters_len = 1, fr_ctrl = 3, fr_pid = 0xF0,
     fr_info = [0x7E, 0x31] @ replicate 329 0, fr_info_len = 2\<rparr>"

lemmas ex_defs = ex_link_def ex_frame_def

lemma ex_frame_sendable: "frame_sendable ex_frame"
  by (simp add: ex_defs frame_sendable_def frame_ok_def sendable_def node_ok_def call_of_def
      repeaters_of_def isalnum_def isdigit_def isupper_def islower_def ax25_consts)

theorem iAx25Send_wire_witness:
  "iAx25Send (Some ex_link) (Some ex_frame) \<lparr>sent = [], plan = Granted\<rparr> =
     Inr (AX25_SUCCESS, Some (ex_link\<lparr>ax_crc_out := AX25_CRC_CORRECT, ax_error := AX25_SUCCESS\<rparr>),
          \<lparr>sent = [HDLC_FLAG] @ stuff (with_crc (frame_body ex_frame)) @ [HDLC_FLAG], plan = Granted\<rparr>)"
  using iAx25Send_wire [OF _ _ ex_frame_sendable, of ex_link "\<lparr>sent = [], plan = Granted\<rparr>"]
  by (simp add: ex_link_def)

section \<open>The receiver\<close>

definition link_ok :: "xAx25 \<Rightarrow> bool" where
  "link_ok p \<longleftrightarrow> length (ax_buf p) = AX25_FRAME_BUF_LEN \<and> ax_len p \<le> AX25_FRAME_BUF_LEN"

interpretation ax25_rx: byte_receiver ax25_poll_loop ax25_rx ax_frm_recv
  by unfold_locales simp_all

lemma ax25_rx_ok: "link_ok p \<Longrightarrow> \<exists>p1. ax25_rx p c = Inr p1 \<and> link_ok p1"
  by (auto simp: ax25_rx_def link_ok_def)

text \<open>C6. Whatever bytes arrive, \<open>bAx25Poll\<close> never writes outside the 330 byte
  buffer: from a controller whose length is within it, it returns, keeps it so, reads a prefix of
  the input and stops early only on a complete frame.\<close>

theorem bAx25Poll_safe:
  assumes "link_ok p"
  shows "\<exists>b p1 rest used. bAx25Poll p input = Inr (b, p1, rest) \<and> link_ok p1 \<and>
    input = used @ rest \<and> (ax_fin p \<noteq> 0 \<longrightarrow> b = ax_frm_recv p1 \<and> (b \<or> rest = []))"
proof (cases "ax_fin p = 0")
  case True
  with assms show ?thesis by (auto simp: bAx25Poll_def)
next
  case False
  from ax25_rx.poll_safe [of link_ok, OF _ assms] obtain p1 rest where
    loop: "ax25_poll_loop p input = Inr (p1, rest)" "link_ok p1"
    by (metis ax25_rx_ok)
  with ax25_rx.poll_prefix [OF loop(1)] False show ?thesis
    by (auto simp: bAx25Poll_def)
qed

theorem bAx25Poll_safe_witness:
  "\<exists>b p1 rest used. bAx25Poll ex_link [0x7E, 0x1B, 0x7E, 0x7F] = Inr (b, p1, rest) \<and> link_ok p1 \<and>
    [0x7E, 0x1B, 0x7E, 0x7F] = used @ rest \<and>
    (ax_fin ex_link \<noteq> 0 \<longrightarrow> b = ax_frm_recv p1 \<and> (b \<or> rest = []))"
  by (rule bAx25Poll_safe) (simp add: link_ok_def ex_link_def ax25_consts)

lemma ax25_rx_fin: "ax25_rx p c = Inr p1 \<Longrightarrow> ax_fin p1 = ax_fin p"
  by (auto simp: ax25_rx_def cbind_Inr_iff split: if_splits)

lemma ax25_poll_fin: "ax25_poll_loop p cs = Inr (p1, rest) \<Longrightarrow> ax_fin p1 = ax_fin p"
  by (induction p cs rule: ax25_poll_loop.induct)
    (auto simp: cbind_Inr_iff dest: ax25_rx_fin split: if_splits)

text \<open>The frames found do not depend on how the input is cut up: polling
  on \<open>xs @ ys\<close> gives the state of polling on \<open>xs\<close> and then on what that left unread
  followed by \<open>ys\<close>.\<close>

theorem bAx25Poll_pieces:
  assumes "bAx25Poll p xs = Inr (b, p1, rest)"
  shows "bAx25Poll p (xs @ ys) = bAx25Poll p1 (rest @ ys)"
proof (cases "ax_fin p = 0")
  case True
  with assms show ?thesis by (auto simp: bAx25Poll_def)
next
  case False
  with assms have loop: "ax25_poll_loop p xs = Inr (p1, rest)"
    by (auto simp: bAx25Poll_def cbind_Inr_iff)
  from False ax25_poll_fin [OF loop] show ?thesis
    by (simp add: bAx25Poll_def ax25_rx.poll_append [of p xs ys] loop)
qed

theorem bAx25Poll_pieces_witness:
  "\<exists>p1. bAx25Poll ex_link [0x7E, 0x1B] = Inr (False, p1, []) \<and>
     bAx25Poll ex_link ([0x7E, 0x1B] @ [0x7F, 0x7E]) = bAx25Poll p1 ([] @ [0x7F, 0x7E])"
proof (rule exI, rule conjI)
  show poll: "bAx25Poll ex_link [0x7E, 0x1B] =
      Inr (False, ex_link\<lparr>ax_sync := True, ax_escape := True\<rparr>, [])"
    by (simp add: bAx25Poll_def ax25_rx_def ex_link_def hdlc_consts AX25_MIN_FRAME_LEN_def
        CRC_CCITT_INIT_VAL_def)
  show "bAx25Poll ex_link ([0x7E, 0x1B] @ [0x7F, 0x7E]) =
      bAx25Poll (ex_link\<lparr>ax_sync := True, ax_escape := True\<rparr>) ([] @ [0x7F, 0x7E])"
    by (rule bAx25Poll_pieces [OF poll])
qed

text \<open>Stuffed bytes that fit are stored unstuffed, and the register follows them.\<close>

definition absorb :: "xAx25 \<Rightarrow> u8 list \<Rightarrow> xAx25" where
  "absorb p bs = p\<lparr>ax_buf := take (ax_len p) (ax_buf p) @ bs @ drop (ax_len p + length bs) (ax_buf p),
     ax_len := ax_len p + length bs, ax_crc_in := fold usCrcCcittUpdate bs (ax_crc_in p)\<rparr>"

lemma rx_byte:
  assumes "ax_sync p" "\<not> ax_escape p" "\<not> ax_frm_recv p" "link_ok p" "ax_len p < AX25_FRAME_BUF_LEN"
  shows "ax25_poll_loop p (stuff1 c @ rest) = ax25_poll_loop (absorb p [c]) rest"
proof -
  let ?q = "p\<lparr>ax_buf := (ax_buf p)[ax_len p := c], ax_len := ax_len p + 1,
      ax_crc_in := usCrcCcittUpdate c (ax_crc_in p)\<rparr>"
  have "ax_len p < length (ax_buf p)" using assms by (simp add: link_ok_def)
  then have q: "absorb p [c] = ?q" by (simp add: absorb_def upd_conv_take_nth_drop)
  show ?thesis
  proof (cases "special c")
    case True
    with assms \<open>ax_len p < length (ax_buf p)\<close> show ?thesis
      unfolding q by (cases p) (simp add: stuff1_def ax25_rx_def hdlc_consts)
  next
    case False
    with assms \<open>ax_len p < length (ax_buf p)\<close> show ?thesis
      unfolding q by (cases p) (simp add: stuff1_def ax25_rx_def special_def)
  qed
qed

lemma absorb_link_ok:
  "link_ok p \<Longrightarrow> ax_len p + length bs \<le> AX25_FRAME_BUF_LEN \<Longrightarrow> link_ok (absorb p bs)"
  by (simp add: link_ok_def absorb_def)

lemma absorb_Cons:
  assumes "link_ok p" "ax_len p + length (c # bs) \<le> AX25_FRAME_BUF_LEN"
  shows "absorb (absorb p [c]) bs = absorb p (c # bs)"
proof -
  have "take (Suc (ax_len p)) (take (ax_len p) (ax_buf p) @ c # drop (Suc (ax_len p)) (ax_buf p)) =
      take (ax_len p) (ax_buf p) @ [c]"
    using assms by (simp add: link_ok_def min_def take_Cons')
  then show ?thesis
    using assms by (simp add: absorb_def link_ok_def min_def add.commute)
qed

lemma rx_stuff:
  "\<lbrakk>ax_sync p; \<not> ax_escape p; \<not> ax_frm_recv p; link_ok p; ax_len p + length bs \<le> AX25_FRAME_BUF_LEN\<rbrakk> \<Longrightarrow>
     ax25_poll_loop p (stuff bs @ rest) = ax25_poll_loop (absorb p bs) rest"
proof (induction bs arbitrary: p)
  case Nil
  have "absorb p [] = p" by (cases p) (simp add: absorb_def)
  then show ?case by simp
next
  case (Cons c bs)
  have "ax25_poll_loop p (stuff (c # bs) @ rest) = ax25_poll_loop (absorb p [c]) (stuff bs @ rest)"
    using rx_byte [of p c "stuff bs @ rest"] Cons.prems by simp
  also have "\<dots> = ax25_poll_loop (absorb (absorb p [c]) bs) rest"
    using Cons.prems absorb_link_ok [of p "[c]"] by (intro Cons.IH) (auto simp: absorb_def)
  finally show ?case using Cons.prems by (simp add: absorb_Cons)
qed

end
