(* ===== verification/Ax25_Roundtrip.thy ===== *)
theory Ax25_Roundtrip
  imports Ax25_Wire
begin

text \<open>
  From frame to wire and back: \<open>iAx25Send\<close>, \<open>bAx25Poll\<close> and \<open>iAx25Read\<close> together transport a
  frame, a corrupted frame is never delivered, and the two ways a sender breaks the receiver
  (a frame it refuses blocks it for good, a short frame makes it copy out of its buffer).
\<close>

section \<open>Addresses\<close>

text \<open>The nodes the wire format represents exactly: capitals and digits, padded with NUL, and a
  four-bit ssid.\<close>

definition canonical :: "xAx25Node \<Rightarrow> bool" where
  "canonical n \<longleftrightarrow>
     nd_callsign n = call_of n @ replicate (AX25_CALL_LEN + 1 - length (call_of n)) 0 \<and>
     (\<forall>c \<in> set (call_of n). isupper c \<or> isdigit c) \<and> nd_ssid n < 16"

lemma call_char:
  assumes "isupper c \<or> isdigit c"
  shows "toupper c = c" "drop_bit 1 (push_bit 1 c) = c" "c \<noteq> 0x20" "c \<noteq> 0"
proof -
  show "toupper c = c" using assms
    by (auto simp: toupper_def islower_def isupper_def isdigit_def word_le_nat_alt)
  have c: "c < 2 ^ 7" using assms by (auto simp: isupper_def isdigit_def word_le_nat_alt word_less_nat_alt)
  then show "drop_bit 1 (push_bit 1 c) = c"
    using bit_below [OF c] by (intro bit_eqI) (auto simp: bit_simps simp del: push_bit_Suc)
  show "c \<noteq> 0x20" "c \<noteq> 0" using assms by (auto simp: isupper_def isdigit_def)
qed

lemma u8_below_16:
  fixes s :: u8
  assumes "s < 16"
  shows "s \<in> {0, 1, 2, 3, 4, 5, 6, 7, 8, 9, 10, 11, 12, 13, 14, 15}"
proof -
  have "unat s < 16" using assms by (simp add: word_less_nat_alt)
  moreover have "k < 16 \<Longrightarrow> k \<in> {0, 1, 2, 3, 4, 5, 6, 7, 8, 9, 10, 11, 12, 13, 14, 15}" for k :: nat
    by (auto simp: numeral_eq_Suc less_Suc_eq)
  ultimately have "unat s \<in> {0, 1, 2, 3, 4, 5, 6, 7, 8, 9, 10, 11, 12, 13, 14, 15}" by blast
  then have "word_of_nat (unat s) \<in> (word_of_nat ` {0, 1, 2, 3, 4, 5, 6, 7, 8, 9, 10, 11, 12, 13, 14, 15} :: u8 set)"
    by (rule imageI)
  then show ?thesis by simp
qed

lemma ssid_byte_decode:
  assumes "nd_ssid n < 16"
  shows "drop_bit 1 (ssid_byte n l) AND 0x0F = nd_ssid n"
    "ssid_byte n l AND 0x80 \<noteq> 0 \<longleftrightarrow> nd_flag n" "bit (ssid_byte n l) 0 \<longleftrightarrow> l"
proof -
  from u8_below_16 [OF assms]
  have "drop_bit 1 (ssid_byte n l) AND 0x0F = nd_ssid n \<and>
      (ssid_byte n l AND 0x80 \<noteq> 0 \<longleftrightarrow> nd_flag n) \<and> (bit (ssid_byte n l) 0 \<longleftrightarrow> l)"
    unfolding ssid_byte_def by (elim insertE emptyE) simp_all
  then show "drop_bit 1 (ssid_byte n l) AND 0x0F = nd_ssid n"
    "ssid_byte n l AND 0x80 \<noteq> 0 \<longleftrightarrow> nd_flag n" "bit (ssid_byte n l) 0 \<longleftrightarrow> l" by blast+
qed

lemma addr_bytes_length: "length (addr_bytes n l) = AX25_CALL_LEN + 1"
  using call_of_length [of n] by (simp add: addr_bytes_def)

lemma call_nul:
  assumes "nd_callsign n = call_of n @ replicate (Suc AX25_CALL_LEN - length (call_of n)) 0"
  shows "length (nd_callsign n) = Suc AX25_CALL_LEN" "nd_callsign n ! AX25_CALL_LEN = 0"
proof -
  show "length (nd_callsign n) = Suc AX25_CALL_LEN"
    using call_of_length [of n] by (subst assms) simp
  show "nd_callsign n ! AX25_CALL_LEN = 0"
    using call_of_length [of n] by (subst assms) (simp add: nth_append)
qed

lemma canonical_sendable: "canonical n \<Longrightarrow> sendable n"
  using call_nul [of n] by (simp add: canonical_def sendable_def node_ok_def isalnum_def) blast

lemma extract_addr:
  assumes "canonical n"
  shows "prvxExtractCallsign (pre @ addr_bytes n l @ post) (length pre) =
     Inr (take AX25_CALL_LEN (nd_callsign n), length pre + AX25_CALL_LEN)"
proof -
  let ?k = "AX25_CALL_LEN - length (call_of n)"
  have "map (\<lambda>b. if drop_bit 1 b = 0x20 then 0 else drop_bit 1 b)
      (map (\<lambda>c. push_bit 1 (toupper c)) (call_of n)) = call_of n"
    using assms by (auto simp: canonical_def call_char simp del: One_nat_def intro!: map_idI)
  moreover have "take AX25_CALL_LEN (nd_callsign n) = call_of n @ replicate ?k 0"
    using assms call_of_length [of n] by (simp add: canonical_def min_def)
  ultimately show ?thesis
    using addr_bytes_length [of n l] call_of_length [of n]
    by (simp add: prvxExtractCallsign_def addr_bytes_def)
qed

lemma addr_ssid: "(pre @ addr_bytes n l @ post) ! (length pre + AX25_CALL_LEN) = ssid_byte n l"
  using call_of_length [of n] by (simp add: addr_bytes_def nth_append)

lemma set_address_node0:
  assumes "canonical n"
  shows "set_address (Some node0) (take AX25_CALL_LEN (nd_callsign n)) (nd_ssid n) =
     Inr (Some (n\<lparr>nd_flag := False\<rparr>))"
proof -
  let ?k = "AX25_CALL_LEN - length (call_of n)"
  have t: "take AX25_CALL_LEN (nd_callsign n) = call_of n @ replicate ?k 0"
    using assms call_of_length [of n] by (simp add: canonical_def min_def)
  have nz: "0 \<notin> set (call_of n)" using assms call_char(4) by (auto simp: canonical_def)
  have "c_strncpy AX25_CALL_LEN (call_of n @ replicate ?k 0) = Inr (call_of n @ replicate ?k 0)"
  proof (cases ?k)
    case 0
    with nz call_of_length [of n] show ?thesis
      by (simp add: c_strncpy_long)
  next
    case (Suc j)
    with nz c_strncpy_short [of "call_of n" AX25_CALL_LEN "replicate j 0"] show ?thesis by simp
  qed
  moreover have "call_of n @ replicate ?k 0 @ [0] = nd_callsign n"
    using assms call_of_length [of n]
    by (simp add: canonical_def Suc_diff_le flip: replicate_append_same)
  ultimately show ?thesis
    by (simp add: t set_address_def iAx25NodeSetCallsign_def node0_def)
qed

section \<open>Repeaters\<close>

lemma add_repeater_canonical:
  assumes own: "frame_owned b f m" and room: "unat (fr_repeaters_len f) < AX25_MAX_RPT"
    and n: "canonical n" and sofar: "take (unat (fr_repeaters_len f)) (fr_repeaters f) = map Some os"
  obtains f1 f2 m1 where
    "iAx25FrameAddRepeater (Some f) (take AX25_CALL_LEN (nd_callsign n)) (nd_ssid n) m =
       Inr (int (unat (fr_repeaters_len f)), Some f1, m1)"
    "iAx25FrameSetRepeaterFlag (Some f1) (of_nat (unat (fr_repeaters_len f))) (nd_flag n) =
       Inr (AX25_SUCCESS, Some f2)"
    "frame_owned b f2 m1" "unat (fr_repeaters_len f2) = Suc (unat (fr_repeaters_len f))"
    "take (unat (fr_repeaters_len f2)) (fr_repeaters f2) = map Some (os @ [n])"
    "fr_dst f2 = fr_dst f" "fr_src f2 = fr_src f" "fr_info f2 = fr_info f"
proof -
  let ?l = "unat (fr_repeaters_len f)"
  let ?n0 = "n\<lparr>nd_flag := False\<rparr>"
  let ?f1 = "f\<lparr>fr_repeaters := (fr_repeaters f)[?l := Some ?n0],
      fr_repeaters_len := fr_repeaters_len f + 1\<rparr>"
  let ?f2 = "?f1\<lparr>fr_repeaters := (fr_repeaters f)[?l := Some n]\<rparr>"
  let ?m1 = "m\<lparr>live := live m + 1\<rparr>"
  from own have m: "mplan m = []" and ok: "frame_ok f" by (auto simp: frame_owned_def)
  have len: "unat (fr_repeaters_len f + 1) = Suc ?l"
    using ok by (intro unat_Suc_len) (simp add: frame_ok_def ax25_consts)
  have l: "?l < length (fr_repeaters f)" using ok room by (simp add: frame_ok_def)
  have nn: "node_ok n" using canonical_sendable [OF n] by (simp add: sendable_def)
  have flag: "?n0\<lparr>nd_flag := nd_flag n\<rparr> = n" by simp
  have add: "iAx25FrameAddRepeater (Some f) (take AX25_CALL_LEN (nd_callsign n)) (nd_ssid n) m =
      Inr (int ?l, Some ?f1, ?m1)"
    using room l m by (simp add: iAx25FrameAddRepeater_def xAx25NodeNew_ok set_address_node0 [OF n])
  have "\<not> fr_repeaters_len f + 1 \<le> fr_repeaters_len f"
    using len by (simp add: not_le word_less_nat_alt)
  then have fl: "iAx25FrameSetRepeaterFlag (Some ?f1) (of_nat ?l) (nd_flag n) =
      Inr (AX25_SUCCESS, Some ?f2)"
    using l flag by (simp add: iAx25FrameSetRepeaterFlag_def)
  have "frame_owned b ?f2 ?m1"
    using own l len nn room by (auto simp: frame_owned_def frame_ok_def nth_list_update less_Suc_eq)
  moreover have "take (Suc ?l) ((fr_repeaters f)[?l := Some n]) = map Some (os @ [n])"
    using l sofar by (simp add: take_update_last)
  ultimately show thesis
    using that [OF add fl] len by simp
qed

text \<open>Decoding the repeaters of a sent frame, after the addresses \<open>os\<close> already decoded.\<close>

lemma decode_repeaters_sent:
  "\<lbrakk>buf = pre @ ssid # rpt_bytes ns @ post; bit ssid 0 \<longleftrightarrow> ns = []; list_all canonical ns;
    frame_owned b f m; unat (fr_repeaters_len f) + k = AX25_MAX_RPT; length ns \<le> k;
    take (unat (fr_repeaters_len f)) (fr_repeaters f) = map Some os\<rbrakk> \<Longrightarrow>
   \<exists>f' m'. decode_repeaters buf (length pre) k (Some f) m =
       Inr (length (pre @ ssid # rpt_bytes ns), Some f', m') \<and> frame_owned b f' m' \<and>
     unat (fr_repeaters_len f') = unat (fr_repeaters_len f) + length ns \<and>
     take (unat (fr_repeaters_len f')) (fr_repeaters f') = map Some (os @ ns) \<and>
     fr_dst f' = fr_dst f \<and> fr_src f' = fr_src f \<and> fr_info f' = fr_info f"
proof (induction ns arbitrary: pre ssid f m k os)
  case Nil
  then show ?case by (simp add: decode_repeaters.simps)
next
  case (Cons n ns)
  from Cons.prems obtain k' where k: "k = Suc k'" by (cases k) auto
  from Cons.prems have n: "canonical n" by simp
  from Cons.prems k have room: "unat (fr_repeaters_len f) < AX25_MAX_RPT" by simp
  let ?pre = "pre @ ssid # take AX25_CALL_LEN (addr_bytes n (ns = []))"
  let ?s = "ssid_byte n (ns = [])"
  have addr: "addr_bytes n (ns = []) = take AX25_CALL_LEN (addr_bytes n (ns = [])) @ [?s]"
    using call_of_length [of n] by (simp add: addr_bytes_def)
  have buf1: "buf = (pre @ [ssid]) @ addr_bytes n (ns = []) @ rpt_bytes ns @ post"
    using Cons.prems(1) by simp
  have buf2: "buf = ?pre @ ?s # rpt_bytes ns @ post"
    using buf1 addr by (metis append.assoc append_Cons append_Nil)
  have len: "length ?pre = Suc (length pre + AX25_CALL_LEN)"
    using addr_bytes_length [of n "ns = []"] by simp
  obtain f1 f2 m1 where step:
    "iAx25FrameAddRepeater (Some f) (take AX25_CALL_LEN (nd_callsign n)) (nd_ssid n) m =
       Inr (int (unat (fr_repeaters_len f)), Some f1, m1)"
    "iAx25FrameSetRepeaterFlag (Some f1) (of_nat (unat (fr_repeaters_len f))) (nd_flag n) =
       Inr (AX25_SUCCESS, Some f2)"
    "frame_owned b f2 m1" "unat (fr_repeaters_len f2) = Suc (unat (fr_repeaters_len f))"
    "take (unat (fr_repeaters_len f2)) (fr_repeaters f2) = map Some (os @ [n])"
    "fr_dst f2 = fr_dst f" "fr_src f2 = fr_src f" "fr_info f2 = fr_info f"
    by (rule add_repeater_canonical [OF Cons.prems(4) room n Cons.prems(7)])
  have s16: "nd_ssid n < 16" using n by (simp add: canonical_def)
  note dec = ssid_byte_decode [OF s16, of "ns = []"]
  have IH: "\<exists>f' m'. decode_repeaters buf (length ?pre) k' (Some f2) m1 =
       Inr (length (?pre @ ?s # rpt_bytes ns), Some f', m') \<and> frame_owned b f' m' \<and>
     unat (fr_repeaters_len f') = unat (fr_repeaters_len f2) + length ns \<and>
     take (unat (fr_repeaters_len f')) (fr_repeaters f') = map Some ((os @ [n]) @ ns) \<and>
     fr_dst f' = fr_dst f2 \<and> fr_src f' = fr_src f2 \<and> fr_info f' = fr_info f2"
    using Cons.prems step k dec by (intro Cons.IH [OF buf2]) auto
  have idx: "AX25_MAX_RPT - k = unat (fr_repeaters_len f)" using Cons.prems(5) by simp
  have nb: "\<not> bit ssid 0" and b0: "rd buf (length pre) = Inr ssid"
    using Cons.prems(1,2) by (simp_all add: rd_def)
  have ex: "prvxExtractCallsign buf (Suc (length pre)) =
      Inr (take AX25_CALL_LEN (nd_callsign n), length ?pre)"
    using extract_addr [OF n, of "pre @ [ssid]"] unfolding buf1 len by simp
  have rs: "rd buf (length ?pre) = Inr ?s"
    unfolding buf2 by (rule rd_middle) simp
  have "decode_repeaters buf (length pre) k (Some f) m =
      decode_repeaters buf (length ?pre) k' (Some f2) m1"
    by (subst decode_repeaters.simps) (simp add: b0 nb k ex rs dec [unfolded One_nat_def] step(1) step(2) [simplified]
      idx [unfolded k, simplified] del: length_append)
  moreover have "length (?pre @ ?s # rpt_bytes ns) = length (pre @ ssid # rpt_bytes (n # ns))"
    using addr_bytes_length [of n "ns = []"] by simp
  ultimately show ?case using IH step by auto
qed

section \<open>The round trip\<close>

text \<open>The frames the link carries unchanged, and what it means for one to have arrived.\<close>

definition wire_frame :: "xAx25Frame \<Rightarrow> bool" where
  "wire_frame f \<longleftrightarrow>
     frame_ok f \<and> list_all canonical (the (fr_dst f) # the (fr_src f) # repeaters_of f) \<and>
     \<not> nd_flag (the (fr_dst f)) \<and> \<not> nd_flag (the (fr_src f)) \<and>
     fr_ctrl f = AX25_CTRL_UI \<and> fr_pid f = AX25_PID_NOLAYER3 \<and>
     (AX25_CALL_LEN + 1) * (2 + unat (fr_repeaters_len f)) + fr_info_len f + 4 \<le> AX25_FRAME_BUF_LEN"

definition same_frame :: "xAx25Frame \<Rightarrow> xAx25Frame \<Rightarrow> bool" where
  "same_frame f g \<longleftrightarrow>
     fr_dst g = fr_dst f \<and> fr_src g = fr_src f \<and> fr_repeaters_len g = fr_repeaters_len f \<and>
     repeaters_of g = repeaters_of f \<and> fr_ctrl g = fr_ctrl f \<and> fr_pid g = fr_pid f \<and>
     take (fr_info_len g) (fr_info g) = take (fr_info_len f) (fr_info f)"

lemma rpt_bytes_length: "length (rpt_bytes ns) = (AX25_CALL_LEN + 1) * length ns"
  by (induction ns) (simp_all add: addr_bytes_length)

lemma repeaters_of_length: "frame_ok f \<Longrightarrow> length (repeaters_of f) = unat (fr_repeaters_len f)"
  by (simp add: repeaters_of_def frame_ok_def)

lemma frame_body_length:
  "frame_ok f \<Longrightarrow> length (frame_body f) =
     (AX25_CALL_LEN + 1) * (2 + unat (fr_repeaters_len f)) + fr_info_len f + 2"
  by (simp add: frame_body_def addr_bytes_length rpt_bytes_length repeaters_of_length frame_ok_def
      algebra_simps)

lemma wire_frame_sendable: "wire_frame f \<Longrightarrow> frame_sendable f"
  by (auto simp: wire_frame_def frame_sendable_def list_all_iff intro: canonical_sendable)

lemma iAx25FrameClear_nodes:
  "iAx25FrameClear (Some f) m = Inr (c, Some f', m') \<Longrightarrow>
     fr_src f' = snd (iAx25NodeClear (fr_src f)) \<and> fr_dst f' = snd (iAx25NodeClear (fr_dst f))"
  by (auto simp: iAx25FrameClear_def cbind_Inr_iff)

lemma cleared_frame:
  assumes "frame_owned b g m"
  obtains g' m' where "iAx25FrameClear (Some g) m = Inr (AX25_SUCCESS, Some g', m')"
    "frame_owned b g' m'" "fr_repeaters_len g' = 0" "fr_src g' = Some node0" "fr_dst g' = Some node0"
proof -
  obtain g' m' where cl: "iAx25FrameClear (Some g) m = Inr (AX25_SUCCESS, Some g', m')"
    "frame_owned b g' m'" "fr_repeaters_len g' = 0"
    by (rule iAx25FrameClear_owned [OF assms])
  from assms have "fr_src g \<noteq> None" "fr_dst g \<noteq> None"
    by (auto simp: frame_owned_def frame_ok_def node_ptr_ok_def)
  with that cl iAx25FrameClear_nodes [OF cl(1)] show thesis
    by (auto simp: iAx25NodeClear_def)
qed

lemma unflagged: "\<not> nd_flag n \<Longrightarrow> n\<lparr>nd_flag := False\<rparr> = n"
  by simp

text \<open>The decoder on a buffer that holds the body of a frame and its checksum.\<close>

lemma two_bytes_length: "length [a, b] = 2"
  by simp

lemma prviDecode_sent:
  assumes wf: "wire_frame f" and own: "frame_owned b g m"
    and buf: "ax_buf p = frame_body f @ tail" and len: "ax_len p = length (frame_body f) + 2"
  obtains g' m' where "prviDecode p (Some g) m =
      Inr (AX25_SUCCESS, p\<lparr>ax_sync := False, ax_crc_in := CRC_CCITT_INIT_VAL, ax_len := 0,
             ax_escape := False, ax_frm_recv := False\<rparr>, Some g', m')"
    "same_frame f g'" "frame_owned b g' m'"
proof -
  have ok: "frame_ok f" using wf by (simp add: wire_frame_def)
  then obtain nd ns where ptr: "fr_dst f = Some nd" "fr_src f = Some ns"
    by (auto simp: frame_ok_def node_ptr_ok_def)
  define rs where "rs = repeaters_of f"
  define info where "info = take (fr_info_len f) (fr_info f)"
  have can: "canonical nd" "canonical ns" "list_all canonical rs"
    and flags: "\<not> nd_flag nd" "\<not> nd_flag ns" and ctl: "fr_ctrl f = AX25_CTRL_UI" "fr_pid f = AX25_PID_NOLAYER3"
    using wf ptr by (auto simp: wire_frame_def rs_def)
  have lrs: "length rs = unat (fr_repeaters_len f)" by (simp add: rs_def repeaters_of_length ok)
  have l0: "fr_repeaters_len f = 0 \<longleftrightarrow> rs = []"
    using lrs by (metis length_0_conv unat_eq_zero)
  define post where "post = AX25_CTRL_UI # AX25_PID_NOLAYER3 # info @ tail"
  have body: "ax_buf p = addr_bytes nd False @ addr_bytes ns (rs = []) @ rpt_bytes rs @ post"
    unfolding buf frame_body_def ptr post_def info_def rs_def
    using ctl l0 [unfolded rs_def] by simp
  let ?pre = "addr_bytes nd False @ take AX25_CALL_LEN (addr_bytes ns (rs = []))"
  have pre: "ax_buf p = ?pre @ ssid_byte ns (rs = []) # rpt_bytes rs @ post" "length ?pre = 13"
    unfolding body using call_of_length [of ns] addr_bytes_length [of nd False]
    by (simp_all add: addr_bytes_def ax25_consts)
  obtain g0 m0 where cl: "iAx25FrameClear (Some g) m = Inr (AX25_SUCCESS, Some g0, m0)"
    "frame_owned b g0 m0" "fr_repeaters_len g0 = 0" "fr_src g0 = Some node0" "fr_dst g0 = Some node0"
    by (rule cleared_frame [OF own])
  have d1: "prvxExtractCallsign (ax_buf p) 0 = Inr (take AX25_CALL_LEN (nd_callsign nd), 6)"
    using extract_addr [OF can(1), of "[]" False] unfolding body by (simp add: ax25_consts)
  have d2: "prvxExtractCallsign (ax_buf p) 7 = Inr (take AX25_CALL_LEN (nd_callsign ns), 13)"
    using extract_addr [OF can(2), of "addr_bytes nd False"] unfolding body
    by (simp add: ax25_consts addr_bytes_length)
  have s1: "rd (ax_buf p) 6 = Inr (ssid_byte nd False)" "rd (ax_buf p) 13 = Inr (ssid_byte ns (rs = []))"
  proof -
    have "rd (take AX25_CALL_LEN (addr_bytes nd False) @ ssid_byte nd False # ys) 6 =
        Inr (ssid_byte nd False)" for ys
      by (rule rd_middle) (simp add: addr_bytes_length ax25_consts)
    moreover have "addr_bytes nd False @ zs =
        take AX25_CALL_LEN (addr_bytes nd False) @ ssid_byte nd False # zs" for zs
      using call_of_length [of nd] by (simp add: addr_bytes_def)
    ultimately show "rd (ax_buf p) 6 = Inr (ssid_byte nd False)" unfolding body by metis
    show "rd (ax_buf p) 13 = Inr (ssid_byte ns (rs = []))"
      unfolding pre(1) using pre(2) by (intro rd_middle) simp
  qed
  have s16: "nd_ssid nd < 16" "nd_ssid ns < 16" using can by (simp_all add: canonical_def)
  let ?g2 = "g0\<lparr>fr_dst := Some nd, fr_src := Some ns\<rparr>"
  have nok: "node_ok nd" "node_ok ns"
    using can canonical_sendable by (auto simp: sendable_def)
  have own2: "frame_owned b ?g2 m0" using cl(2) nok by (simp add: frame_owned_def frame_ok_def)
  let ?i = "length (?pre @ ssid_byte ns (rs = []) # rpt_bytes rs)"
  have "\<exists>f' m'. decode_repeaters (ax_buf p) (length ?pre) AX25_MAX_RPT (Some ?g2) m0 =
       Inr (?i, Some f', m') \<and> frame_owned b f' m' \<and>
     unat (fr_repeaters_len f') = unat (fr_repeaters_len ?g2) + length rs \<and>
     take (unat (fr_repeaters_len f')) (fr_repeaters f') = map Some ([] @ rs) \<and>
     fr_dst f' = fr_dst ?g2 \<and> fr_src f' = fr_src ?g2 \<and> fr_info f' = fr_info ?g2"
    using can(3) own2 cl(3) lrs ok ssid_byte_decode [OF s16(2)]
    by (intro decode_repeaters_sent [OF pre(1)]) (auto simp: frame_ok_def)
  then obtain g3 m3 where dec: "decode_repeaters (ax_buf p) 13 AX25_MAX_RPT (Some ?g2) m0 =
       Inr (?i, Some g3, m3)" and own3: "frame_owned b g3 m3"
    and rpt: "unat (fr_repeaters_len g3) = length rs"
      "take (unat (fr_repeaters_len g3)) (fr_repeaters g3) = map Some rs"
    and g3: "fr_dst g3 = Some nd" "fr_src g3 = Some ns"
    using cl(3) pre(2) by auto
  have at: "ax_buf p = (?pre @ ssid_byte ns (rs = []) # rpt_bytes rs) @ post" using pre(1) by simp
  have c1: "rd (ax_buf p) ?i = Inr AX25_CTRL_UI" "rd (ax_buf p) (Suc ?i) = Inr AX25_PID_NOLAYER3"
  proof -
    have "rd (h @ x # ys) (length h) = Inr x" "rd (h @ y # x # ys) (Suc (length h)) = Inr x"
      for h ys and x y :: u8
      using rd_middle [of _ h] rd_middle [of "Suc (length h)" "h @ [y]"] by simp_all
    then show "rd (ax_buf p) ?i = Inr AX25_CTRL_UI" "rd (ax_buf p) (Suc ?i) = Inr AX25_PID_NOLAYER3"
      unfolding at post_def by blast+
  qed
  have li: "length info = fr_info_len f" using ok by (simp add: info_def frame_ok_def)
  have blen: "length (frame_body f) = ?i + 2 + fr_info_len f"
    using frame_body_length [OF ok] pre(2) lrs by (simp add: rpt_bytes_length ax25_consts)
  have bnd: "length (frame_body f) + 2 \<le> AX25_FRAME_BUF_LEN"
    using wf frame_body_length [OF ok] by (simp add: wire_frame_def)
  have n: "unat ((of_nat (ax_len p) :: u64) - 2 - of_nat (?i + 2)) = fr_info_len f"
  proof -
    have "(of_nat (ax_len p) :: u64) - 2 - of_nat (?i + 2) = of_nat (fr_info_len f)"
      unfolding len blen by simp
    then show ?thesis using bnd blen by (simp add: unat_of_nat ax25_consts)
  qed
  let ?info = "info @ drop (fr_info_len f) (fr_info g3)"
  have li3: "length (fr_info g3) = AX25_FRAME_BUF_LEN + 1" using own3 by (simp add: frame_owned_def frame_ok_def)
  have copy: "copy_into (fr_info g3) 0 (ax_buf p) (?i + 2) (fr_info_len f) = Inr ?info"
  proof -
    have "ax_buf p = ((?pre @ ssid_byte ns (rs = []) # rpt_bytes rs) @
        [AX25_CTRL_UI, AX25_PID_NOLAYER3]) @ info @ tail"
      using at by (simp add: post_def)
    moreover have "fr_info_len f \<le> length (fr_info g3)" using li3 bnd blen by simp
    ultimately show ?thesis using li by (metis copy_into_middle length_append two_bytes_length)
  qed
  let ?g4 = "g3\<lparr>fr_ctrl := AX25_CTRL_UI, fr_pid := AX25_PID_NOLAYER3, fr_info := ?info,
      fr_info_len := fr_info_len f\<rparr>"
  have "fr_repeaters_len g3 = fr_repeaters_len f"
    using rpt(1) lrs by (simp add: word_unat_eq_iff)
  moreover have "repeaters_of ?g4 = rs" using rpt(2) by (simp add: repeaters_of_def comp_def)
  ultimately have "same_frame f ?g4"
    unfolding same_frame_def using g3 ptr ctl li
    by (simp add: info_def rs_def)
  moreover have "frame_owned b ?g4 m3"
    using own3 li li3 bnd blen by (simp add: frame_owned_def frame_ok_def)
  moreover have "iAx25FrameSetDst (Some g0) (take AX25_CALL_LEN (nd_callsign nd))
        (drop_bit 1 (ssid_byte nd False) AND 0x0F) = Inr (AX25_SUCCESS, Some (g0\<lparr>fr_dst := Some nd\<rparr>))"
    "iAx25FrameSetSrc (Some (g0\<lparr>fr_dst := Some nd\<rparr>)) (take AX25_CALL_LEN (nd_callsign ns))
        (drop_bit 1 (ssid_byte ns (rs = [])) AND 0x0F) = Inr (AX25_SUCCESS, Some ?g2)"
    unfolding ssid_byte_decode(1) [OF s16(1)] ssid_byte_decode(1) [OF s16(2)]
    using cl(4,5) can flags
    by (simp_all add: iAx25FrameSetDst_def iAx25FrameSetSrc_def set_address_node0 unflagged)
  ultimately show thesis
    using that [of ?g4 m3] cl(1) d1 d2 s1 dec c1 copy n
    by (simp add: prviDecode_def Let_def del: length_append)
qed

text \<open>Between two frames: nothing pending, so that the next flag starts a new frame.\<close>

definition rx_ready :: "xAx25 \<Rightarrow> bool" where
  "rx_ready p \<longleftrightarrow> link_ok p \<and> ax_fin p \<noteq> 0 \<and> \<not> ax_frm_recv p \<and> \<not> ax_escape p \<and>
     (ax_len p < AX25_MIN_FRAME_LEN \<or> ax_crc_in p \<noteq> AX25_CRC_CORRECT)"

lemma rx_flag_start:
  "rx_ready p \<Longrightarrow> ax25_poll_loop p (HDLC_FLAG # cs) =
     ax25_poll_loop (p\<lparr>ax_sync := True, ax_crc_in := CRC_CCITT_INIT_VAL, ax_len := 0\<rparr>) cs"
  by (auto simp: rx_ready_def ax25_rx_def)

text \<open>What the receiver makes of any stuffed byte string between two flags.\<close>

lemma rx_framed:
  assumes rdy: "rx_ready p" and len: "length bs \<le> AX25_FRAME_BUF_LEN"
  defines "q \<equiv> absorb (p\<lparr>ax_sync := True, ax_crc_in := CRC_CCITT_INIT_VAL, ax_len := 0\<rparr>) bs"
  shows "ax25_poll_loop p (HDLC_FLAG # stuff bs @ HDLC_FLAG # rest) =
      (if AX25_MIN_FRAME_LEN \<le> length bs \<and> crc_of bs = AX25_CRC_CORRECT
       then Inr (q\<lparr>ax_frm_recv := True\<rparr>, rest)
       else ax25_poll_loop (q\<lparr>ax_sync := True, ax_crc_in := CRC_CCITT_INIT_VAL, ax_len := 0\<rparr>) rest)"
proof -
  let ?p = "p\<lparr>ax_sync := True, ax_crc_in := CRC_CCITT_INIT_VAL, ax_len := 0\<rparr>"
  have "ax25_poll_loop ?p (stuff bs @ HDLC_FLAG # rest) = ax25_poll_loop q (HDLC_FLAG # rest)"
    using rdy len unfolding q_def by (intro rx_stuff) (auto simp: rx_ready_def link_ok_def)
  then have eq: "ax25_poll_loop p (HDLC_FLAG # stuff bs @ HDLC_FLAG # rest) =
      ax25_poll_loop q (HDLC_FLAG # rest)"
    unfolding rx_flag_start [OF rdy] .
  have q: "ax_len q = length bs" "ax_crc_in q = crc_of bs" "\<not> ax_escape q" "\<not> ax_frm_recv q"
    using rdy by (simp_all add: q_def absorb_def rx_ready_def)
  have stopped: "ax25_poll_loop (q\<lparr>ax_frm_recv := True\<rparr>) rest = Inr (q\<lparr>ax_frm_recv := True\<rparr>, rest)"
    by (rule ax25_rx.poll_stopped) simp
  show ?thesis
    unfolding eq using q stopped by (simp add: ax25_rx_def)
qed

text \<open>C1. A frame with canonical call signs (up to six capitals and digits,
  ssid below 16), the control and pid of an unnumbered frame, and an information field that fits
  the receive buffer is sent with success; a controller that is ready polls exactly the bytes that
  were written and reports a frame; and \<open>iAx25Read\<close> delivers the same destination, source,
  repeaters with their has-been-repeated flags, control, pid and information, and leaves the
  controller ready for the next frame.\<close>

theorem ax25_roundtrip:
  assumes "wire_frame f" and "ax_fout p \<noteq> 0" and "plan d = Granted" and "rx_ready q" and "frame_owned b g m"
  shows "\<exists>p' w q1 q2 g' m'.
    iAx25Send (Some p) (Some f) d = Inr (AX25_SUCCESS, Some p', d\<lparr>sent := sent d @ w\<rparr>) \<and>
    bAx25Poll q (w @ rest) = Inr (True, q1, rest) \<and>
    iAx25Read (Some q1) (Some g) m = Inr (AX25_SUCCESS, Some q2, Some g', m') \<and>
    same_frame f g' \<and> frame_owned b g' m' \<and> rx_ready q2"
proof -
  let ?w = "[HDLC_FLAG] @ stuff (with_crc (frame_body f)) @ [HDLC_FLAG]"
  have ok: "frame_ok f" using assms(1) by (simp add: wire_frame_def)
  let ?q0 = "q\<lparr>ax_sync := True, ax_crc_in := CRC_CCITT_INIT_VAL, ax_len := 0\<rparr>"
  let ?q1 = "absorb ?q0 (with_crc (frame_body f))\<lparr>ax_frm_recv := True\<rparr>"
  have len: "length (with_crc (frame_body f)) \<le> AX25_FRAME_BUF_LEN"
    "AX25_MIN_FRAME_LEN \<le> length (with_crc (frame_body f))"
    using assms(1) frame_body_length [OF ok]
    by (auto simp: wire_frame_def with_crc_def AX25_MIN_FRAME_LEN_def ax25_consts)
  have poll: "bAx25Poll q (?w @ rest) = Inr (True, ?q1, rest)"
    using rx_framed [OF assms(4) len(1), of rest] len(2) assms(4)
    by (simp add: bAx25Poll_def crc_of_with_crc rx_ready_def)
  have buf: "ax_buf ?q1 = frame_body f @ drop (length (frame_body f)) (ax_buf ?q1)"
    "ax_len ?q1 = length (frame_body f) + 2"
    by (simp_all add: absorb_def with_crc_def)
  obtain g' m' where dec: "prviDecode (?q1\<lparr>ax_error := AX25_SUCCESS\<rparr>) (Some g) m =
      Inr (AX25_SUCCESS, ?q1\<lparr>ax_error := AX25_SUCCESS, ax_sync := False,
        ax_crc_in := CRC_CCITT_INIT_VAL, ax_len := 0, ax_escape := False, ax_frm_recv := False\<rparr>,
        Some g', m')"
    "same_frame f g'" "frame_owned b g' m'"
    by (rule prviDecode_sent [OF assms(1,5), of "?q1\<lparr>ax_error := AX25_SUCCESS\<rparr>"
          "drop (length (frame_body f)) (ax_buf ?q1)"]) (use buf in simp_all)
  have "length (ax_buf ?q1) = AX25_FRAME_BUF_LEN"
    using assms(4) len(1) by (simp add: absorb_def rx_ready_def link_ok_def)
  then have rdy: "rx_ready (?q1\<lparr>ax_error := AX25_SUCCESS, ax_sync := False,
        ax_crc_in := CRC_CCITT_INIT_VAL, ax_len := 0, ax_escape := False, ax_frm_recv := False\<rparr>)"
    using assms(4) by (simp add: rx_ready_def link_ok_def AX25_MIN_FRAME_LEN_def) (simp add: absorb_def)
  show ?thesis
  proof (intro exI conjI)
    show "iAx25Send (Some p) (Some f) d = Inr (AX25_SUCCESS,
        Some (p\<lparr>ax_crc_out := AX25_CRC_CORRECT, ax_error := AX25_SUCCESS\<rparr>), d\<lparr>sent := sent d @ ?w\<rparr>)"
      by (rule iAx25Send_ok [OF assms(2,3) wire_frame_sendable [OF assms(1)]])
    show "bAx25Poll q (?w @ rest) = Inr (True, ?q1, rest)" by (rule poll)
    show "iAx25Read (Some ?q1) (Some g) m = Inr (AX25_SUCCESS,
        Some (?q1\<lparr>ax_error := AX25_SUCCESS, ax_sync := False, ax_crc_in := CRC_CCITT_INIT_VAL,
          ax_len := 0, ax_escape := False, ax_frm_recv := False\<rparr>), Some g', m')"
      unfolding iAx25Read_def using dec(1) by simp
  qed (use dec rdy in auto)
qed

lemma ex_frame_wire: "wire_frame ex_frame"
proof -
  have "frame_ok ex_frame" using ex_frame_sendable by (simp add: frame_sendable_def)
  moreover have "replicate 3 (0 :: u8) = [0, 0, 0]" by (simp add: numeral_3_eq_3)
  ultimately show ?thesis
    by (simp add: wire_frame_def ex_frame_def repeaters_of_def canonical_def call_of_def isupper_def
        isdigit_def ax25_consts)
qed

lemma ex_frame_owned: "frame_owned 0 ex_frame \<lparr>mplan = [], live = 4\<rparr>"
  using ex_frame_sendable by (simp add: frame_sendable_def frame_owned_def) (simp add: ex_frame_def)

lemma ex_link_ready: "rx_ready ex_link"
  by (simp add: rx_ready_def link_ok_def ex_link_def AX25_MIN_FRAME_LEN_def ax25_consts)

theorem ax25_roundtrip_witness:
  "\<exists>p' w q1 q2 g' m'.
    iAx25Send (Some ex_link) (Some ex_frame) \<lparr>sent = [], plan = Granted\<rparr> =
      Inr (AX25_SUCCESS, Some p', \<lparr>sent = [], plan = Granted\<rparr>\<lparr>sent := sent \<lparr>sent = [], plan = Granted\<rparr> @ w\<rparr>) \<and>
    bAx25Poll ex_link (w @ [0x00]) = Inr (True, q1, [0x00]) \<and>
    iAx25Read (Some q1) (Some ex_frame) \<lparr>mplan = [], live = 4\<rparr> =
      Inr (AX25_SUCCESS, Some q2, Some g', m') \<and>
    same_frame ex_frame g' \<and> frame_owned 0 g' m' \<and> rx_ready q2"
  by (rule ax25_roundtrip [OF ex_frame_wire _ _ ex_link_ready ex_frame_owned])
    (simp_all add: ex_link_def)

section \<open>Corrupted frames\<close>

text \<open>C3. No error confined to two adjacent bytes of a frame on the wire goes
  unnoticed: when the bytes between two flags are those of a message with its checksum except for
  one pair, \<open>bAx25Poll\<close> reads them all, reports no frame and is ready for the next one.\<close>

theorem bAx25Poll_burst:
  assumes "rx_ready q" and "with_crc body = xs @ [c, d] @ ys" and "(c, d) \<noteq> (c', d')"
    and "length (with_crc body) \<le> AX25_FRAME_BUF_LEN"
  shows "\<exists>q'. bAx25Poll q (HDLC_FLAG # stuff (xs @ [c', d'] @ ys) @ [HDLC_FLAG]) =
      Inr (False, q', []) \<and> rx_ready q'"
proof -
  let ?bs = "xs @ [c', d'] @ ys"
  have len: "length ?bs \<le> AX25_FRAME_BUF_LEN" using assms(2,4) by simp
  have "crc_of ?bs \<noteq> AX25_CRC_CORRECT"
    using ccitt.crc_burst [OF assms(3), of xs ys CRC_CCITT_INIT_VAL]
    by (metis assms(2) crc_of_with_crc)
  with rx_framed [OF assms(1) len, of "[]"]
  have "ax25_poll_loop q (HDLC_FLAG # stuff ?bs @ [HDLC_FLAG]) =
      Inr (absorb (q\<lparr>ax_sync := True, ax_crc_in := CRC_CCITT_INIT_VAL, ax_len := 0\<rparr>) ?bs
        \<lparr>ax_sync := True, ax_crc_in := CRC_CCITT_INIT_VAL, ax_len := 0\<rparr>, [])"
    by simp
  with assms(1) len show ?thesis
    by (simp add: bAx25Poll_def rx_ready_def link_ok_def absorb_def AX25_MIN_FRAME_LEN_def)
qed

theorem bAx25Poll_burst_witness:
  "\<exists>q'. bAx25Poll ex_link (HDLC_FLAG # stuff ([] @ [0x42, 0x80] @ [0x0, 0xca]) @ [HDLC_FLAG]) =
      Inr (False, q', []) \<and> rx_ready q'"
proof (rule bAx25Poll_burst [OF ex_link_ready])
  show "with_crc [0x41, 0x7E] = [] @ [0x41, 0x7E] @ [0x0, 0xca]"
    by (simp add: with_crc_def CRC_CCITT_INIT_VAL_def usCrcCcittUpdate_def usCrcCcittTab_def)
qed (simp_all add: with_crc_def ax25_consts)

section \<open>Two ways to break the receiver\<close>

lemma prviDecode_invalid: "prviDecode p f m = Inr (AX25_INVALID_FRAME, p', f', m') \<Longrightarrow> p' = p"
  by (auto simp: prviDecode_def Let_def cbind_Inr_iff ax25_errors split: if_splits)

text \<open>C10. A frame that passes its checksum but whose control or pid
  byte \<open>iAx25Read\<close> refuses is never discarded: the controller comes back with only its error
  code changed, so that every later \<open>bAx25Poll\<close> reports a frame without reading a byte, and
  nothing further is ever received.\<close>

theorem iAx25Read_invalid_stuck:
  assumes "iAx25Read (Some p) g m = Inr (AX25_INVALID_FRAME, p', g', m')" and "ax_fin p \<noteq> 0"
  shows "p' = Some (p\<lparr>ax_error := AX25_SUCCESS\<rparr>) \<and>
    bAx25Poll (p\<lparr>ax_error := AX25_SUCCESS\<rparr>) input = Inr (True, p\<lparr>ax_error := AX25_SUCCESS\<rparr>, input)"
proof -
  from assms(1) have recv: "ax_frm_recv p"
    and "\<exists>p1. prviDecode (p\<lparr>ax_error := AX25_SUCCESS\<rparr>) g m = Inr (AX25_INVALID_FRAME, p1, g', m') \<and> p' = Some p1"
    by (auto simp: iAx25Read_def cbind_Inr_iff ax25_errors split: option.splits if_splits)
  then have "p' = Some (p\<lparr>ax_error := AX25_SUCCESS\<rparr>)" by (auto dest: prviDecode_invalid)
  with recv assms(2) show ?thesis by (simp add: bAx25Poll_def ax25_rx.poll_stopped)
qed

text \<open>A received frame without repeaters whose control byte is 0x13.\<close>

definition ex_refused :: xAx25 where
  "ex_refused = ex_link\<lparr>ax_frm_recv := True, ax_len := 18,
     ax_buf := replicate 13 0x40 @ [0x61, 0x13, 0xF0] @ replicate 314 0\<rparr>"

theorem iAx25Read_invalid_stuck_witness:
  "\<exists>g' m'. iAx25Read (Some ex_refused) (Some ex_frame) \<lparr>mplan = [], live = 4\<rparr> =
      Inr (AX25_INVALID_FRAME, Some (ex_refused\<lparr>ax_error := AX25_SUCCESS\<rparr>), g', m') \<and>
    bAx25Poll (ex_refused\<lparr>ax_error := AX25_SUCCESS\<rparr>) [0x7E] =
      Inr (True, ex_refused\<lparr>ax_error := AX25_SUCCESS\<rparr>, [0x7E])"
proof -
  have "c_strncpy 6 (replicate 6 0) = Inr (replicate 6 0)" by (simp add: numeral_eq_Suc)
  then have "\<exists>p' g' m'. iAx25Read (Some ex_refused) (Some ex_frame) \<lparr>mplan = [], live = 4\<rparr> =
      Inr (AX25_INVALID_FRAME, p', g', m')"
    by (simp add: ex_refused_def ex_defs iAx25Read_def prviDecode_def iAx25FrameClear_def copy_into_def
        iAx25FrameSetDst_def iAx25FrameSetSrc_def set_address_def iAx25NodeSetCallsign_def
        iAx25NodeClear_def prvxExtractCallsign_def decode_repeaters.simps vAx25NodeDelete_def node0_def
        rd_def wr_def nth_append Let_def ax25_consts)
  then obtain p' g' m' where read: "iAx25Read (Some ex_refused) (Some ex_frame) \<lparr>mplan = [], live = 4\<rparr> =
      Inr (AX25_INVALID_FRAME, p', g', m')" by blast
  moreover have "ax_fin ex_refused \<noteq> 0" by (simp add: ex_refused_def ex_link_def)
  ultimately show ?thesis using iAx25Read_invalid_stuck [OF read, of "[0x7E]"] by auto
qed

text \<open>The decoder on 18 bytes whose address field runs on into what was in the buffer before.\<close>

lemma prviDecode_short:
  assumes own: "frame_owned b g m" and len: "length (ax_buf p) = 330" and alen: "ax_len p = 18"
    and at: "\<not> bit (ax_buf p ! 13) 0" "bit (ax_buf p ! 20) 0" "ax_buf p ! 21 = AX25_CTRL_UI"
      "ax_buf p ! 22 = AX25_PID_NOLAYER3"
  shows "prviDecode p (Some g) m = Inl OutOfBounds"
proof -
  define buf where "buf = ax_buf p"
  note len = len [folded buf_def] and at = at [folded buf_def]
  have ex: "\<exists>cs. length cs = 6 \<and> prvxExtractCallsign buf i = Inr (cs, i + 6)" if "i \<le> 20" for i
    using that len by (auto simp: prvxExtractCallsign_def ax25_consts)
  have rdable: "length cs = 6 \<Longrightarrow> call_readable cs" for cs
    by (simp add: call_readable_def ax25_consts)
  obtain g0 m0 where cl: "iAx25FrameClear (Some g) m = Inr (AX25_SUCCESS, Some g0, m0)"
    "frame_owned b g0 m0" "fr_repeaters_len g0 = 0"
    by (rule cleared_frame [OF own])
  obtain cd cs cr where cds: "length cd = 6" "length cs = 6" "length cr = 6"
    "prvxExtractCallsign buf 0 = Inr (cd, 6)" "prvxExtractCallsign buf 7 = Inr (cs, 13)"
    "prvxExtractCallsign buf 14 = Inr (cr, 20)"
    using ex [of 0] ex [of 7] ex [of 14] by auto
  obtain g1 where g1: "iAx25FrameSetDst (Some g0) cd (drop_bit 1 (buf ! 6) AND 0x0F) = Inr (AX25_SUCCESS, Some g1)"
    "frame_owned b g1 m0"
    by (rule iAx25FrameSetDst_owned [OF cl(2) rdable [OF cds(1)]])
  obtain g2 where g2: "iAx25FrameSetSrc (Some g1) cs (drop_bit 1 (buf ! 13) AND 0x0F) = Inr (AX25_SUCCESS, Some g2)"
    "frame_owned b g2 m0"
    by (rule iAx25FrameSetSrc_owned [OF g1(2) rdable [OF cds(2)]])
  obtain c3 g3 m3 where g3: "iAx25FrameAddRepeater (Some g2) cr (drop_bit 1 (buf ! 20) AND 0x0F) m0 = Inr (c3, Some g3, m3)"
    "frame_owned b g3 m3"
    by (rule iAx25FrameAddRepeater_owned [OF g2(2) rdable [OF cds(3)]])
  obtain c4 g4 where g4: "iAx25FrameSetRepeaterFlag (Some g3) 0 (buf ! 20 AND 0x80 \<noteq> 0) = Inr (c4, Some g4)"
    "frame_owned b g4 m3"
    by (rule iAx25FrameSetRepeaterFlag_owned [OF g3(2)])
  have dec: "decode_repeaters buf 13 AX25_MAX_RPT (Some g2) m0 = Inr (21, Some g4, m3)"
  proof -
    have "decode_repeaters buf 20 7 (Some g4) m3 = Inr (21, Some g4, m3)"
      using len at by (subst decode_repeaters.simps) simp
    then show ?thesis
      using len at cds g3(1) g4(1)
      by (subst decode_repeaters.simps) (simp add: ax25_consts)
  qed
  show ?thesis
    using len at cl cds g1 g2 dec alen
    by (simp add: prviDecode_def Let_def copy_into_def flip: buf_def)
qed

text \<open>A frame of the minimum length whose source address does not
  end the address field makes the decoder run on into what earlier frames left in the buffer
  (offsets 20 to 22 here: as any frame with one repeater leaves them); the length of the
  information field is then computed as 18 - 2 - 23 in an unsigned type, and the copy runs out of
  the buffer.\<close>

theorem iAx25Read_short_crash:
  assumes "rx_ready q" and "frame_owned b g m"
    and "length bs = 16" and "\<not> bit (bs ! 13) 0"
    and "bit (ax_buf q ! 20) 0" and "ax_buf q ! 21 = AX25_CTRL_UI" and "ax_buf q ! 22 = AX25_PID_NOLAYER3"
  shows "\<exists>q1. bAx25Poll q (HDLC_FLAG # stuff (with_crc bs) @ HDLC_FLAG # rest) = Inr (True, q1, rest) \<and>
    iAx25Read (Some q1) (Some g) m = Inl OutOfBounds"
proof -
  have lc: "length (with_crc bs) = 18" using assms(3) by (simp add: with_crc_def)
  let ?q0 = "q\<lparr>ax_sync := True, ax_crc_in := CRC_CCITT_INIT_VAL, ax_len := 0\<rparr>"
  let ?q1 = "absorb ?q0 (with_crc bs)\<lparr>ax_frm_recv := True\<rparr>"
  have poll: "bAx25Poll q (HDLC_FLAG # stuff (with_crc bs) @ HDLC_FLAG # rest) = Inr (True, ?q1, rest)"
    using rx_framed [OF assms(1), of "with_crc bs" rest] assms(1) lc
    by (simp add: bAx25Poll_def crc_of_with_crc rx_ready_def AX25_MIN_FRAME_LEN_def ax25_consts)
  have "length (ax_buf ?q1) = 330" "ax_len ?q1 = 18"
    using assms(1) lc by (simp_all add: absorb_def rx_ready_def link_ok_def ax25_consts)
  moreover have "with_crc bs ! 13 = bs ! 13" using assms(3) by (simp add: with_crc_def nth_append)
  then have "ax_buf ?q1 ! 13 = bs ! 13" "ax_buf ?q1 ! 20 = ax_buf q ! 20"
    "ax_buf ?q1 ! 21 = ax_buf q ! 21" "ax_buf ?q1 ! 22 = ax_buf q ! 22"
    using assms(1) lc by (simp_all add: absorb_def nth_append rx_ready_def link_ok_def ax25_consts)
  ultimately have "prviDecode (?q1\<lparr>ax_error := AX25_SUCCESS\<rparr>) (Some g) m = Inl OutOfBounds"
    using assms by (intro prviDecode_short [OF assms(2)]) simp_all
  with poll show ?thesis by (intro exI [of _ ?q1]) (simp add: iAx25Read_def)
qed

text \<open>A controller that has read a frame with one repeater before.\<close>

definition ex_used :: xAx25 where
  "ex_used = ex_link\<lparr>ax_buf := replicate 20 0x40 @ [0x65, 0x03, 0xF0] @ replicate 307 0\<rparr>"

theorem iAx25Read_short_crash_witness:
  "\<exists>q1. bAx25Poll ex_used (HDLC_FLAG # stuff (with_crc (replicate 16 0x40)) @ [HDLC_FLAG]) =
      Inr (True, q1, []) \<and>
    iAx25Read (Some q1) (Some ex_frame) \<lparr>mplan = [], live = 4\<rparr> = Inl OutOfBounds"
  by (rule iAx25Read_short_crash [OF _ ex_frame_owned])
    (simp_all add: ex_used_def ex_link_def rx_ready_def link_ok_def nth_append AX25_MIN_FRAME_LEN_def ax25_consts)

end
