(* ===== verification/Driver_Monad.thy ===== *)
theory Driver_Monad
  imports Sysio_Prelude
begin

text \<open>
  Vocabulary of the device drivers.  A driver function works on a state, returns an \<open>int\<close> that is
  negative on error, may fault, and may wait for the hardware in a loop.  Its outcome is a value of
  \<open>'a out\<close>: \<open>None\<close> when it never returns, \<open>Some (Inl c)\<close> when it faults, \<open>Some (Inr v)\<close> when it
  returns \<open>v\<close>.  The theory holds the sequencing of such functions, the error propagation of the
  \<open>TRY_INT\<close> macros, the waiting loop all drivers share, and a predicate \<open>safe\<close> with which invariants
  are carried through a driver without looking at the hardware.
\<close>

section \<open>Outcomes\<close>

type_synonym 'a out = "'a run option"

definition ret :: "'a \<Rightarrow> 'a out" where
  "ret x = Some (Inr x)"

definition obind :: "'a out \<Rightarrow> ('a \<Rightarrow> 'b out) \<Rightarrow> 'b out" where
  "obind m f = Option.bind m (\<lambda>r. case r of Inl c \<Rightarrow> Some (Inl c) | Inr v \<Rightarrow> f v)"

lemma obind_simps [simp]:
  "obind None f = None" "obind (Some (Inl c)) f = Some (Inl c)" "obind (Some (Inr v)) f = f v"
  "obind (ret v) f = f v"
  by (simp_all add: obind_def ret_def)

lemma obind_ret [simp]: "obind m ret = m"
  by (cases m) (auto simp: obind_def ret_def split: sum.split)

lemma obind_assoc: "obind (obind m f) g = obind m (\<lambda>x. obind (f x) g)"
  by (auto simp: obind_def split: option.split sum.split bind_split)

lemma obind_mono [partial_function_mono]:
  assumes "mono_option m" and "\<And>x. mono_option (\<lambda>f. g x f)"
  shows "mono_option (\<lambda>f. obind (m f) (\<lambda>x. g x f))"
proof -
  have "mono_option (\<lambda>f. case r of Inl c \<Rightarrow> Some (Inl c) | Inr x \<Rightarrow> g x f)" for r :: "crash + 'c"
    using assms(2) by (cases r) (simp_all add: option.const_mono)
  then show ?thesis
    unfolding obind_def by (intro bind_mono assms(1))
qed

section \<open>Errors as negative results\<close>

text \<open>\<open>TRY_INT (op)\<close>, \<open>TRY_INT_VAL (op, val)\<close> and \<open>TRY_INT_VOID (op)\<close>: a negative result ends the
  function with that result, with \<open>val\<close>, or without one.  What comes after the macro is the argument
  \<open>k\<close>, which gets the result.\<close>

definition try_int :: "(int \<times> 's) out \<Rightarrow> (int \<Rightarrow> 's \<Rightarrow> (int \<times> 's) out) \<Rightarrow> (int \<times> 's) out" where
  "try_int m k = obind m (\<lambda>(r, s). if r < 0 then ret (r, s) else k r s)"

definition try_int_val :: "(int \<times> 's) out \<Rightarrow> 'v \<Rightarrow> (int \<Rightarrow> 's \<Rightarrow> ('v \<times> 's) out) \<Rightarrow> ('v \<times> 's) out" where
  "try_int_val m v k = obind m (\<lambda>(r, s). if r < 0 then ret (v, s) else k r s)"

definition try_int_void :: "(int \<times> 's) out \<Rightarrow> (int \<Rightarrow> 's \<Rightarrow> 's out) \<Rightarrow> 's out" where
  "try_int_void m k = obind m (\<lambda>(r, s). if r < 0 then ret s else k r s)"

text \<open>The value of the assignment \<open>x = op\<close> when \<open>x\<close> is an \<open>uint8_t\<close> or a \<open>bool\<close>: the result has
  been converted to the type of \<open>x\<close>.\<close>

definition as_u8 :: "(int \<times> 's) out \<Rightarrow> (int \<times> 's) out" where
  "as_u8 m = obind m (\<lambda>(r, s). ret (uint (word_of_int r :: u8), s))"

definition as_bool :: "(int \<times> 's) out \<Rightarrow> (int \<times> 's) out" where
  "as_bool m = obind m (\<lambda>(r, s). ret (if r = 0 then 0 else 1, s))"

text \<open>Consequently the macros never see an error of such an assignment.\<close>

lemma try_as_u8 [simp]: "try_int (as_u8 m) k = obind m (\<lambda>(r, s). k (uint (word_of_int r :: u8)) s)"
  by (simp add: try_int_def as_u8_def obind_assoc case_prod_unfold not_less)

lemma try_val_as_u8 [simp]: "try_int_val (as_u8 m) v k = obind m (\<lambda>(r, s). k (uint (word_of_int r :: u8)) s)"
  by (simp add: try_int_val_def as_u8_def obind_assoc case_prod_unfold not_less)

lemma try_void_as_u8 [simp]: "try_int_void (as_u8 m) k = obind m (\<lambda>(r, s). k (uint (word_of_int r :: u8)) s)"
  by (simp add: try_int_void_def as_u8_def obind_assoc case_prod_unfold not_less)

lemma try_as_bool [simp]: "try_int (as_bool m) k = obind m (\<lambda>(r, s). k (if r = 0 then 0 else 1) s)"
  by (simp add: try_int_def as_bool_def obind_assoc case_prod_unfold if_distrib [of "\<lambda>x. x < 0"] cong: if_cong)

lemma try_int_mono [partial_function_mono]:
  assumes "mono_option m" and "\<And>r s. mono_option (\<lambda>f. k r s f)"
  shows "mono_option (\<lambda>f. try_int (m f) (\<lambda>r s. k r s f))"
  unfolding try_int_def case_prod_unfold by (intro partial_function_mono assms)

section \<open>Waiting\<close>

text \<open>\<open>do body while (again)\<close>: the body tells whether it is run again.\<close>

partial_function (option) wait_loop :: "('s \<Rightarrow> (bool \<times> 's) out) \<Rightarrow> 's \<Rightarrow> 's out" where
  "wait_loop body s = obind (body s) (\<lambda>(again, s1). if again then wait_loop body s1 else ret s1)"

text \<open>A loop whose measure decreases with every turn ends.\<close>

lemma wait_loop_ends:
  fixes f :: "'s \<Rightarrow> nat"
  assumes "P s"
    and "\<And>s. P s \<Longrightarrow> \<exists>r. body s = Some r \<and> (\<forall>s1. r = Inr (True, s1) \<longrightarrow> P s1 \<and> f s1 < f s)"
  shows "\<exists>r. wait_loop body s = Some r"
  using assms(1)
proof (induction "f s" arbitrary: s rule: less_induct)
  case less
  from assms(2) [OF less.prems] obtain r where r: "body s = Some r"
    "\<And>s1. r = Inr (True, s1) \<Longrightarrow> P s1 \<and> f s1 < f s" by blast
  show ?case
  proof (cases "\<exists>s1. r = Inr (True, s1)")
    case True
    then obtain s1 where "r = Inr (True, s1)" by blast
    with r less.hyps [of s1] show ?thesis by (subst wait_loop.simps) simp
  next
    case False
    with r(1) show ?thesis by (subst wait_loop.simps) (cases r; auto simp: ret_def)
  qed
qed

section \<open>Invariants\<close>

text \<open>The outcome is no fault, and if the function returns, its result satisfies \<open>Q\<close>.\<close>

definition safe :: "'a out \<Rightarrow> ('a \<Rightarrow> bool) \<Rightarrow> bool" where
  "safe m Q \<longleftrightarrow> (case m of None \<Rightarrow> True | Some (Inl c) \<Rightarrow> False | Some (Inr v) \<Rightarrow> Q v)"

named_theorems safe_simps "\<open>safe\<close> of the constructs of a driver"

lemma safe_ret [safe_simps]: "safe (ret v) Q = Q v" "safe (Some (Inr v)) Q = Q v"
  by (simp_all add: safe_def ret_def)

lemma safe_obind [safe_simps]: "safe (obind m f) Q = safe m (\<lambda>x. safe (f x) Q)"
  by (auto simp: safe_def obind_def split: option.split sum.split)

lemma safe_try [safe_simps]:
  "safe (try_int m k) Q = safe m (\<lambda>(r, s). if r < 0 then Q (r, s) else safe (k r s) Q)"
  by (auto simp: safe_def ret_def obind_def try_int_def case_prod_unfold split: option.split sum.split)

lemma safe_try_void [safe_simps]:
  "safe (try_int_void m k) Q = safe m (\<lambda>(r, s). if r < 0 then Q s else safe (k r s) Q)"
  by (auto simp: safe_def ret_def obind_def try_int_void_def case_prod_unfold split: option.split sum.split)

lemma safe_as [safe_simps]:
  "safe (as_u8 m) Q = safe m (\<lambda>(r, s). Q (uint (word_of_int r :: u8), s))"
  "safe (as_bool m) Q = safe m (\<lambda>(r, s). Q (if r = 0 then 0 else 1, s))"
  by (auto simp: safe_def ret_def obind_def as_u8_def as_bool_def case_prod_unfold split: option.split sum.split)

lemma safe_val [safe_simps]:
  "safe (try_int_val m v k) Q = safe m (\<lambda>(r, s). if r < 0 then Q (v, s) else safe (k r s) Q)"
  by (auto simp: safe_def ret_def obind_def try_int_val_def case_prod_unfold split: option.split sum.split)

lemma safe_mono: "safe m P \<Longrightarrow> (\<And>x. P x \<Longrightarrow> Q x) \<Longrightarrow> safe m Q"
  by (auto simp: safe_def split: option.splits sum.splits)

lemma safe_result: "safe m Q \<Longrightarrow> m = Some r \<Longrightarrow> \<exists>v. r = Inr v \<and> Q v"
  by (auto simp: safe_def split: sum.splits)

lemma safe_wait_loop:
  fixes s :: 's
  assumes "I s" and "\<And>s. I s \<Longrightarrow> safe (body s) (\<lambda>(again, s1). if again then I s1 else Q s1)"
  shows "safe (wait_loop body s) Q"
proof -
  define P where "P b s r \<longleftrightarrow> (b = body \<longrightarrow> I s \<longrightarrow> (\<exists>v. r = Inr v \<and> Q v))" for b and s :: 's and r :: "'s run"
  have "P body s r" if "wait_loop body s = Some r" for r
  proof (rule wait_loop.raw_induct [OF _ that])
    fix g b s r
    assume IH: "\<And>b s r. g b s = Some r \<Longrightarrow> P b s r"
      and turn: "obind (b s) (\<lambda>(again, s1). if again then g b s1 else ret s1) = Some r"
    show "P b s r"
      unfolding P_def
    proof (intro impI)
      assume "b = body" "I s"
      then have safe: "safe (b s) (\<lambda>(again, s1). if again then I s1 else Q s1)" using assms(2) by simp
      obtain o1 where o1: "b s = Some o1" using turn by (cases "b s") auto
      obtain again s1 where s1: "o1 = Inr (again, s1)" "if again then I s1 else Q s1"
        using safe_result [OF safe o1] by auto
      show "\<exists>v. r = Inr v \<and> Q v"
      proof (cases again)
        case True
        with turn o1 s1 have "g b s1 = Some r" "I s1" by simp_all
        with IH [of b s1 r] \<open>b = body\<close> show ?thesis by (simp add: P_def)
      qed (use turn o1 s1 in \<open>auto simp: ret_def\<close>)
    qed
  qed
  with assms(1) show ?thesis by (auto simp: P_def safe_def split: option.splits sum.splits)
qed

section \<open>Total correctness\<close>

text \<open>The function returns, and its result satisfies \<open>Q\<close>.\<close>

definition returns :: "'a out \<Rightarrow> ('a \<Rightarrow> bool) \<Rightarrow> bool" where
  "returns m Q \<longleftrightarrow> (\<exists>v. m = ret v \<and> Q v)"

named_theorems returns_simps "\<open>returns\<close> of the constructs of a driver"

lemma returns_ret [returns_simps]: "returns (ret v) Q = Q v" "returns (Some (Inr v)) Q = Q v"
  by (auto simp: returns_def ret_def)

lemma returns_obind [returns_simps]: "returns (obind m f) Q = returns m (\<lambda>x. returns (f x) Q)"
  by (cases m) (auto simp: returns_def ret_def obind_def split: sum.split)

lemma returns_try [returns_simps]:
  "returns (try_int m k) Q = returns m (\<lambda>(r, s). if r < 0 then Q (r, s) else returns (k r s) Q)"
  "returns (try_int_void m k') Q' = returns m (\<lambda>(r, s). if r < 0 then Q' s else returns (k' r s) Q')"
  by (auto simp: try_int_def try_int_void_def returns_simps case_prod_unfold if_distrib [of "\<lambda>m. returns m Q"]
      if_distrib [of "\<lambda>m. returns m Q'"])

lemma returns_try_val [returns_simps]:
  "returns (try_int_val m v k) Q = returns m (\<lambda>(r, s). if r < 0 then Q (v, s) else returns (k r s) Q)"
  by (auto simp: try_int_val_def returns_simps case_prod_unfold if_distrib [of "\<lambda>m. returns m Q"])

lemma returns_as [returns_simps]:
  "returns (as_u8 m) P = returns m (\<lambda>(r, s). P (uint (word_of_int r :: u8), s))"
  "returns (as_bool m) P = returns m (\<lambda>(r, s). P (if r = 0 then 0 else 1, s))"
  by (auto simp: as_u8_def as_bool_def returns_simps case_prod_unfold)

lemma returns_mono: "returns m P \<Longrightarrow> (\<And>x. P x \<Longrightarrow> Q x) \<Longrightarrow> returns m Q"
  by (auto simp: returns_def)

lemma returns_tryI:
  assumes "returns m (\<lambda>(r, s). 0 \<le> r \<and> returns (k r s) Q)"
  shows "returns (try_int m k) Q"
  unfolding returns_try by (rule returns_mono [OF assms]) auto

lemma returns_try_boolI:
  "returns m (\<lambda>(r, s). returns (k (if r = 0 then 0 else 1) s) Q) \<Longrightarrow> returns (try_int (as_bool m) k) Q"
  by (simp add: returns_obind case_prod_unfold)

end
