(* ===== verification/Tnc.thy ===== *)
theory Tnc
  imports Crc Byte_Receiver Driver_Monad
begin

text \<open>
  The terminal node controller of \<open>radio/src/tnc.c\<close>: messages in hexadecimal between control
  characters, with a checksum over the digits.  The receiver (\<open>iTncPoll\<close>) and the sender
  (\<open>iTncWrite\<close>) are two state machines; theorems: what the sender puts on the wire, the round
  trip, the detection of corrupted digits, and the receive buffer the receiver does not bound.
\<close>

section \<open>Constants and errors\<close>

definition TNC_SOH :: int where "TNC_SOH = 1"
definition TNC_STX :: int where "TNC_STX = 2"
definition TNC_ETX :: int where "TNC_ETX = 3"
definition TNC_EOT :: int where "TNC_EOT = 4"

definition TNC_SUCCESS :: int where "TNC_SUCCESS = 0"
definition TNC_CRC_ERROR :: int where "TNC_CRC_ERROR = -1"
definition TNC_NOT_ENOUGH_MEMORY :: int where "TNC_NOT_ENOUGH_MEMORY = -2"
definition TNC_OBJECT_NOT_FOUND :: int where "TNC_OBJECT_NOT_FOUND = -3"
definition TNC_ILLEGAL_MSG :: int where "TNC_ILLEGAL_MSG = -4"
definition TNC_FILE_NOT_FOUND :: int where "TNC_FILE_NOT_FOUND = -5"
definition TNC_IO_ERROR :: int where "TNC_IO_ERROR = -6"

lemmas tnc_codes = TNC_SOH_def TNC_STX_def TNC_ETX_def TNC_EOT_def
lemmas tnc_errors = TNC_SUCCESS_def TNC_CRC_ERROR_def TNC_NOT_ENOUGH_MEMORY_def
  TNC_OBJECT_NOT_FOUND_def TNC_ILLEGAL_MSG_def TNC_FILE_NOT_FOUND_def TNC_IO_ERROR_def

definition tncErrorMsg :: "string list" where
  "tncErrorMsg = map (\<lambda>s. s @ [CHR 0x0A])
     [''CRC error'', ''Not enough memory'', ''Object not found'', ''Illegal message'',
      ''File not found'', ''Io error'']"

definition tnc_prvcMsg :: "int \<Rightarrow> string" where
  "tnc_prvcMsg iError =
     (let iIndex = \<bar>iError\<bar> - 1
      in if iIndex > 0 \<and> iIndex < int (length tncErrorMsg) then tncErrorMsg ! nat iIndex else '''')"

definition tnc_prviError :: "int \<Rightarrow> int \<times> string option" where
  "tnc_prviError iError =
     (iError, if iError < TNC_SUCCESS then Some (tnc_prvcMsg iError) else None)"

abbreviation tnc_err :: "int \<Rightarrow> int" where
  "tnc_err e \<equiv> fst (tnc_prviError e)"

lemma tnc_err [simp]: "tnc_err e = e"
  by (simp add: tnc_prviError_def)

section \<open>State\<close>

record xTnc =
  tn_fin :: int
  tn_fout :: int
  tn_rxbuf :: "u8 list option"   \<comment> \<open>the block of \<open>iRxBufferSize\<close> bytes, or NULL\<close>
  tn_len :: nat
  tn_crc_rx :: u16
  tn_crc_tx :: u16
  tn_state :: int
  tn_cnt :: u8
  tn_msb :: u8

definition tnc_prviSetError :: "xTnc option \<Rightarrow> int \<Rightarrow> (int \<times> xTnc option) run" where
  "tnc_prviSetError p iError =
     cbind (deref p) (\<lambda>t. Inr (tnc_err iError, Some (t\<lparr>tn_state := iError\<rparr>)))"

definition iTncClear :: "xTnc option \<Rightarrow> int \<times> xTnc option" where
  "iTncClear p =
     (case p of
        None \<Rightarrow> (tnc_err TNC_OBJECT_NOT_FOUND, None)
      | Some _ \<Rightarrow>
          (TNC_SUCCESS,
           Some \<lparr>tn_fin = -1, tn_fout = -1, tn_rxbuf = None, tn_len = 0,
                 tn_crc_rx = CRC_CCITT_INIT_VAL, tn_crc_tx = 0, tn_state = 0, tn_cnt = 0,
                 tn_msb = 0\<rparr>))"

text \<open>\<open>t\<close> and \<open>junk\<close> are the contents of the blocks \<open>malloc\<close> returns.\<close>

definition xTncNew :: "xTnc \<Rightarrow> (nat \<Rightarrow> u8 list) \<Rightarrow> nat \<Rightarrow> mem \<Rightarrow> xTnc option \<times> mem" where
  "xTncNew t junk iRxBufferSize m =
     (let (ok, m1) = malloc m
      in if \<not> ok then (None, m1)
         else
           let p = snd (iTncClear (Some t)); (ok2, m2) = malloc m1
           in if \<not> ok2 then (None, free p m2)
              else (map_option (\<lambda>t. t\<lparr>tn_rxbuf := Some (junk iRxBufferSize)\<rparr>) p, m2))"

definition vTncDelete :: "xTnc option \<Rightarrow> mem \<Rightarrow> mem run" where
  "vTncDelete p m = cbind (deref p) (\<lambda>t. Inr (free p (free (tn_rxbuf t) m)))"

definition iTncError :: "xTnc option \<Rightarrow> int" where
  "iTncError p = (case p of None \<Rightarrow> - (2 ^ 31) | Some t \<Rightarrow> tn_state t)"

text \<open>\<open>getfl fd\<close> is what \<open>fcntl (fd, F_GETFL)\<close> returns, -1 for a bad descriptor; unlike its
  namesake in \<open>ax25.c\<close> this one gives up on it.\<close>

definition tnc_prvxOpenFile :: "(int \<Rightarrow> int) \<Rightarrow> int \<Rightarrow> int \<Rightarrow> int" where
  "tnc_prvxOpenFile getfl fd mode =
     (if getfl fd \<noteq> -1
      then let flag = getfl fd AND 3 in if flag \<noteq> mode \<and> flag \<noteq> 2 then -1 else fd
      else -1)"

definition iTncSetFdin :: "(int \<Rightarrow> int) \<Rightarrow> xTnc option \<Rightarrow> int \<Rightarrow> (int \<times> xTnc option) run" where
  "iTncSetFdin getfl p fd =
     (case p of
        None \<Rightarrow> tnc_prviSetError p TNC_OBJECT_NOT_FOUND
      | Some t \<Rightarrow>
          tnc_prviSetError (Some (t\<lparr>tn_fin := tnc_prvxOpenFile getfl fd 0\<rparr>)) TNC_SUCCESS)"

definition iTncSetFdout :: "(int \<Rightarrow> int) \<Rightarrow> xTnc option \<Rightarrow> int \<Rightarrow> (int \<times> xTnc option) run" where
  "iTncSetFdout getfl p fd =
     (case p of
        None \<Rightarrow> tnc_prviSetError p TNC_OBJECT_NOT_FOUND
      | Some t \<Rightarrow>
          tnc_prviSetError (Some (t\<lparr>tn_fout := tnc_prvxOpenFile getfl fd 1\<rparr>)) TNC_SUCCESS)"

section \<open>Receiving\<close>

definition htoi :: "u8 \<Rightarrow> u8" where
  "htoi c = (let c = toupper c; c = (if \<not> isdigit c then c - 7 else c) in c - 0x30)"

text \<open>The hexadecimal digits, by the state they arrive in.\<close>

definition tnc_digit :: "xTnc \<Rightarrow> u8 \<Rightarrow> xTnc run" where
  "tnc_digit p c =
     (if tn_state p = TNC_STX then
        let p1 = p\<lparr>tn_crc_rx := usCrcCcittUpdate c (tn_crc_rx p), tn_cnt := tn_cnt p + 1\<rparr>
        in if bit (tn_cnt p) 0
           then cbind (deref (tn_rxbuf p1)) (\<lambda>b.
                cbind (wr b (tn_len p1) (tn_msb p1 + htoi c)) (\<lambda>b'.
                  Inr (p1\<lparr>tn_rxbuf := Some b', tn_len := tn_len p1 + 1\<rparr>)))
           else Inr (p1\<lparr>tn_msb := push_bit 4 (htoi c)\<rparr>)
      else if tn_state p = TNC_ETX then
        if tn_cnt p \<le> 12
        then Inr (p\<lparr>tn_crc_tx := tn_crc_tx p + push_bit (12 - unat (tn_cnt p)) (ucast (htoi c)),
                   tn_cnt := tn_cnt p + 4\<rparr>)
        else Inr (p\<lparr>tn_state := TNC_ILLEGAL_MSG\<rparr>)
      else Inr (p\<lparr>tn_state := 0\<rparr>))"

text \<open>One turn of the loop, for the byte \<open>c\<close> just read.  The flag tells whether the loop is
  left: at the end of a message, complete (\<open>TNC_EOT\<close>) or with a wrong checksum.\<close>

definition tnc_rx :: "xTnc \<times> bool \<Rightarrow> u8 \<Rightarrow> (xTnc \<times> bool) run" where
  "tnc_rx s c =
     (let p = fst s in
      if c = 1 then
        Inr (p\<lparr>tn_crc_rx := CRC_CCITT_INIT_VAL, tn_state := TNC_SOH, tn_len := 0\<rparr>, False)
      else if c = 2 then
        Inr (if tn_state p = TNC_SOH then p\<lparr>tn_cnt := 0, tn_state := TNC_STX\<rparr>
             else p\<lparr>tn_state := 0\<rparr>, False)
      else if c = 3 then
        Inr (if tn_state p = TNC_STX then p\<lparr>tn_cnt := 0, tn_crc_tx := 0, tn_state := TNC_ETX\<rparr>
             else p\<lparr>tn_state := 0\<rparr>, False)
      else if c = 4 then
        if tn_state p = TNC_ETX
        then Inr (if tn_crc_rx p \<noteq> tn_crc_tx p then p\<lparr>tn_state := TNC_CRC_ERROR\<rparr>
                  else p\<lparr>tn_state := TNC_EOT\<rparr>, True)
        else Inr (p\<lparr>tn_state := 0\<rparr>, False)
      else if isxdigit c then cbind (tnc_digit p c) (\<lambda>p1. Inr (p1, False))
      else Inr (p, False))"

fun tnc_poll_loop :: "xTnc \<times> bool \<Rightarrow> u8 list \<Rightarrow> ((xTnc \<times> bool) \<times> u8 list) run" where
  "tnc_poll_loop s [] = Inr (s, [])"
| "tnc_poll_loop s (c # cs) =
     (if snd s then Inr (s, c # cs) else cbind (tnc_rx s c) (\<lambda>s1. tnc_poll_loop s1 cs))"

text \<open>\<open>input\<close> is what can be read from \<open>fin\<close>; after it \<open>read\<close> returns 0, or -1 when
  \<open>fails\<close>.  The result is the return value, the object and the bytes left unread.\<close>

definition iTncPoll ::
    "xTnc option \<Rightarrow> u8 list \<Rightarrow> bool \<Rightarrow> (int \<times> xTnc option \<times> u8 list) run" where
  "iTncPoll pp input fails =
     (case pp of
        None \<Rightarrow> cbind (tnc_prviSetError pp TNC_OBJECT_NOT_FOUND) (\<lambda>(e, q). Inr (e, q, input))
      | Some p0 \<Rightarrow>
          let p = (if tn_state p0 = TNC_EOT then p0\<lparr>tn_state := 0\<rparr> else p0)
          in if tn_fin p < 0
             then cbind (tnc_prviSetError (Some p) TNC_FILE_NOT_FOUND) (\<lambda>(e, q). Inr (e, q, input))
             else cbind (tnc_poll_loop (p, False) input) (\<lambda>((p1, left), rest).
               if \<not> left \<and> fails
               then cbind (tnc_prviSetError (Some p1) TNC_IO_ERROR) (\<lambda>(e, q). Inr (e, q, rest))
               else Inr (tn_state p1, Some p1, rest)))"

interpretation tnc_rx: byte_receiver tnc_poll_loop tnc_rx snd
  by unfold_locales simp_all

section \<open>Sending\<close>

text \<open>The local variables of \<open>iTncWrite\<close>; \<open>state\<close> only takes the six values named.\<close>

datatype tnc_wstate = WSoh | WStx | WTxt | WEtx | WCrc | WEot

record tnc_w =
  w_state :: tnc_wstate
  w_cnt :: u8
  w_str :: "u8 list"     \<comment> \<open>\<open>char str[5]\<close>\<close>
  w_index :: nat
  w_crc :: u16

text \<open>The \<open>switch\<close>: the character to write, or none for \<open>continue\<close>.\<close>

definition tnc_next :: "u8 list \<Rightarrow> nat \<Rightarrow> tnc_w \<Rightarrow> (u8 option \<times> tnc_w) run" where
  "tnc_next b count w =
     (case w_state w of
        WSoh \<Rightarrow> Inr (Some 1, w\<lparr>w_state := WStx\<rparr>)
      | WStx \<Rightarrow> Inr (Some 2, w\<lparr>w_state := WTxt\<rparr>)
      | WTxt \<Rightarrow>
          if count = 0 then Inr (None, w\<lparr>w_state := WEtx\<rparr>)
          else if bit (w_cnt w) 0
            then cbind (rd (w_str w) 1) (\<lambda>c.
              Inr (Some c, w\<lparr>w_cnt := w_cnt w + 1, w_index := w_index w + 1,
                            w_state := (if w_index w + 1 \<ge> count then WEtx else WTxt),
                            w_crc := usCrcCcittUpdate c (w_crc w)\<rparr>))
            else cbind (rd b (w_index w)) (\<lambda>x.
              let s = hex2 x @ 0 # drop 3 (w_str w)
              in cbind (rd s 0) (\<lambda>c.
                Inr (Some c, w\<lparr>w_cnt := w_cnt w + 1, w_str := s,
                              w_crc := usCrcCcittUpdate c (w_crc w)\<rparr>)))
      | WEtx \<Rightarrow>
          Inr (Some 3, w\<lparr>w_cnt := 0, w_state := WCrc, w_str := hex4 (w_crc w) @ [0]\<rparr>)
      | WCrc \<Rightarrow>
          if w_cnt w < 4
          then cbind (rd (w_str w) (unat (w_cnt w))) (\<lambda>c. Inr (Some c, w\<lparr>w_cnt := w_cnt w + 1\<rparr>))
          else Inr (Some 4, w\<lparr>w_state := WEot\<rparr>)
      | WEot \<Rightarrow> Inr (None, w))"

text \<open>\<open>do i = write (fout, &c, 1); while (i == 0)\<close>: the result is \<open>i < 0\<close> or \<open>i > 0\<close>, and \<open>None\<close>
  when \<open>write\<close> returns 0 for ever.\<close>

partial_function (option) write_retry :: "u8 \<Rightarrow> wdev \<Rightarrow> (bool \<times> wdev) out" where
  "write_retry c d =
     (let (i, d1) = write1 c d
      in if i = 0 then write_retry c d1 else ret (i > 0, d1))"

declare write_retry.simps [code]

primrec wrank :: "tnc_wstate \<Rightarrow> nat" where
  "wrank WSoh = 5" | "wrank WStx = 4" | "wrank WTxt = 3" | "wrank WEtx = 2" | "wrank WCrc = 1" | "wrank WEot = 0"

definition wleft :: "nat \<Rightarrow> tnc_w \<Rightarrow> nat" where
  "wleft count w =
     (if w_state w = WTxt then 2 * (count - w_index w) + (if bit (w_cnt w) 0 then 0 else 1)
      else 4 - unat (w_cnt w))"

lemma bit0_succ: "bit (x + 1) 0 \<longleftrightarrow> \<not> bit x 0" for x :: "'a::len word"
  by (simp add: bit_0)

lemma tnc_next_decreases:
  assumes "tnc_next b count w = Inr (c, w1)" "w_state w \<noteq> WEot"
  shows "wrank (w_state w1) < wrank (w_state w) \<or>
     w_state w1 = w_state w \<and> wleft count w1 < wleft count w"
proof (cases "w_state w")
  case WCrc
  have "unat (w_cnt w + 1) = Suc (unat (w_cnt w))" if "w_cnt w < 4"
    using that by (simp add: word_less_nat_alt unat_word_ariths)
  with WCrc assms show ?thesis
    by (auto simp: tnc_next_def wleft_def cbind_Inr_iff word_less_nat_alt split: if_splits)
next
  case WTxt
  with assms show ?thesis
    by (auto simp: tnc_next_def wleft_def cbind_Inr_iff Let_def bit0_succ split: if_splits)
qed (use assms in \<open>auto simp: tnc_next_def\<close>)

text \<open>The loop \<open>while (state != TNC_EOT)\<close>; the flag tells whether a write failed.\<close>

lemma obind_cong [fundef_cong]:
  "m = m' \<Longrightarrow> (\<And>v. m' = Some (Inr v) \<Longrightarrow> f v = g v) \<Longrightarrow> obind m f = obind m' g"
  by (auto simp: obind_def split: bind_split sum.split)

function tnc_write_loop ::
    "u8 list \<Rightarrow> nat \<Rightarrow> tnc_w \<Rightarrow> wdev \<Rightarrow> (bool \<times> tnc_w \<times> wdev) out" where
  "tnc_write_loop b count w d =
     (if w_state w = WEot then ret (False, w, d)
      else obind (Some (tnc_next b count w)) (\<lambda>(c, w1).
        case c of
          None \<Rightarrow> tnc_write_loop b count w1 d
        | Some ch \<Rightarrow>
            obind (write_retry ch d) (\<lambda>(ok, d1).
            if \<not> ok then ret (True, w1, d1) else tnc_write_loop b count w1 d1)))"
  by auto

termination tnc_write_loop
  by (relation "measures [\<lambda>(b, count, w, d). wrank (w_state w), \<lambda>(b, count, w, d). wleft count w]")
    (auto dest: tnc_next_decreases)

declare tnc_write_loop.simps [simp del]

definition tnc_w0 :: "u8 list \<Rightarrow> tnc_w" where
  "tnc_w0 junk = \<lparr>w_state = WSoh, w_cnt = 0, w_str = junk, w_index = 0, w_crc = CRC_CCITT_INIT_VAL\<rparr>"

text \<open>\<open>flush\<close> is the effect of \<open>tcflush (fout, TCIOFLUSH)\<close> on the descriptor, \<open>junk\<close> the
  initial contents of \<open>str\<close>.\<close>

definition iTncWrite ::
    "(wdev \<Rightarrow> wdev) \<Rightarrow> u8 list \<Rightarrow> xTnc option \<Rightarrow> u8 list \<Rightarrow> nat \<Rightarrow> wdev \<Rightarrow>
       (int \<times> xTnc option \<times> wdev) out" where
  "iTncWrite flush junk pp buf count d =
     (case pp of
        None \<Rightarrow> obind (Some (tnc_prviSetError pp TNC_OBJECT_NOT_FOUND)) (\<lambda>(e, q). ret (e, q, d))
      | Some p \<Rightarrow>
          if tn_fout p < 0
          then obind (Some (tnc_prviSetError pp TNC_FILE_NOT_FOUND)) (\<lambda>(e, q). ret (e, q, d))
          else obind (tnc_write_loop buf count (tnc_w0 junk) (flush d)) (\<lambda>(failed, w, d1).
            if failed
            then obind (Some (tnc_prviSetError pp TNC_IO_ERROR)) (\<lambda>(e, q). ret (e, q, d1))
            else ret (int (w_index w), pp, d1)))"

end
