(* ===== verification/Tnc_Wire.thy ===== *)
theory Tnc_Wire
  imports Tnc
begin

text \<open>
  What \<open>iTncWrite\<close> sends, whatever the descriptor does with its writes, and what
  \<open>iTncPoll\<close> makes of it: the round trip, corrupted digits, and messages longer than the
  receive buffer.
\<close>

section \<open>The sender\<close>

abbreviation text_of :: "u8 list \<Rightarrow> u8 list" where
  "text_of bs \<equiv> concat (map hex2 bs)"

abbreviation text_crc :: "u8 list \<Rightarrow> u16" where
  "text_crc cs \<equiv> fold usCrcCcittUpdate cs CRC_CCITT_INIT_VAL"

definition tnc_wire :: "u8 list \<Rightarrow> u8 list" where
  "tnc_wire bs = [1, 2] @ text_of bs @ [3] @ hex4 (text_crc (text_of bs)) @ [4]"

text \<open>The characters the state machine goes on to produce, and its final state, without the
  descriptor.\<close>

function tnc_chars :: "u8 list \<Rightarrow> nat \<Rightarrow> tnc_w \<Rightarrow> (u8 list \<times> tnc_w) run" where
  "tnc_chars b count w =
     (if w_state w = WEot then Inr ([], w)
      else cbind (tnc_next b count w) (\<lambda>(c, w1).
           cbind (tnc_chars b count w1) (\<lambda>(cs, v).
             Inr (case c of None \<Rightarrow> cs | Some ch \<Rightarrow> ch # cs, v))))"
  by auto

termination tnc_chars
  by (relation "measures [\<lambda>(b, count, w). wrank (w_state w), \<lambda>(b, count, w). wleft count w]")
    (auto dest: tnc_next_decreases)

declare tnc_chars.simps [simp del]

text \<open>No write fails; and no call is met by nothing but writes of zero bytes from then on.\<close>

definition never_fails :: "wdev \<Rightarrow> bool" where
  "never_fails d \<longleftrightarrow> (\<forall>r \<in> answers_in (plan d). 0 \<le> r)"

definition never_stalls :: "wdev \<Rightarrow> bool" where
  "never_stalls d \<longleftrightarrow> (\<forall>n. answered (later n (plan d)))"

lemma never_stalls_next: "never_stalls d \<Longrightarrow> plan d = Answer r q \<Longrightarrow> never_stalls (d\<lparr>sent := bs, plan := q\<rparr>)"
  unfolding never_stalls_def by (auto dest: spec [of _ "Suc _"])

lemma never_stalls_script: "plan d = script rs \<Longrightarrow> never_stalls d"
  using later_script by (metis never_stalls_def answered_script)

text \<open>A write that is retried until it is answered, and one that never is.\<close>

lemma write_retry_answered:
  "answered (plan d) \<Longrightarrow> \<exists>ok d1. write_retry c d = ret (ok, d1) \<and> sent d1 = sent d @ (if ok then [c] else []) \<and>
     (never_fails d \<longrightarrow> ok \<and> never_fails d1) \<and> (never_stalls d \<longrightarrow> never_stalls d1)"
proof (induction "plan d" arbitrary: d rule: answered.induct)
  case answered_granted
  note p = answered_granted [symmetric]
  have "write_retry c d = ret (True, d\<lparr>sent := sent d @ [c]\<rparr>)"
    using p by (subst write_retry.simps) simp
  then show ?case
    by (intro exI [of _ True] exI [of _ "d\<lparr>sent := sent d @ [c]\<rparr>"]) (simp add: never_fails_def never_stalls_def)
next
  case (answered_now r q)
  note p = answered_now(2) [symmetric]
  have stall: "never_stalls d \<longrightarrow> never_stalls (d\<lparr>plan := q\<rparr>)" "never_stalls d \<longrightarrow> never_stalls (d\<lparr>sent := sent d @ [c], plan := q\<rparr>)"
    using never_stalls_next [OF _ p, of "sent d"] never_stalls_next [OF _ p, of "sent d @ [c]"] by simp_all
  have run: "write_retry c d = (if r > 0 then ret (True, d\<lparr>sent := sent d @ [c], plan := q\<rparr>) else ret (False, d\<lparr>plan := q\<rparr>))"
    using answered_now(1) p by (subst write_retry.simps) (simp add: write1.simps)
  show ?case
  proof (cases "r > 0")
    case True
    then show ?thesis using run stall(2) p
      by (intro exI [of _ True] exI [of _ "d\<lparr>sent := sent d @ [c], plan := q\<rparr>"]) (simp add: never_fails_def)
  next
    case False
    then show ?thesis using run stall(1) p answered_now(1)
      by (intro exI [of _ False] exI [of _ "d\<lparr>plan := q\<rparr>"]) (simp add: never_fails_def)
  qed
next
  case (answered_later q)
  note p = answered_later(3) [symmetric]
  have stall: "never_stalls d \<longrightarrow> never_stalls (d\<lparr>plan := q\<rparr>)" using never_stalls_next [OF _ p, of "sent d"] by simp
  have run: "write_retry c d = write_retry c (d\<lparr>plan := q\<rparr>)"
    using p by (subst write_retry.simps) (simp add: write1.simps)
  have fails: "never_fails d \<longrightarrow> never_fails (d\<lparr>plan := q\<rparr>)" using p by (simp add: never_fails_def)
  have "q = plan (d\<lparr>plan := q\<rparr>)" by simp
  from answered_later(2) [OF this] obtain ok d1 where
    "write_retry c (d\<lparr>plan := q\<rparr>) = ret (ok, d1)" "sent d1 = sent (d\<lparr>plan := q\<rparr>) @ (if ok then [c] else [])"
    "never_fails (d\<lparr>plan := q\<rparr>) \<longrightarrow> ok \<and> never_fails d1" "never_stalls (d\<lparr>plan := q\<rparr>) \<longrightarrow> never_stalls d1"
    by (elim exE conjE)
  with run stall fails show ?case by (intro exI [of _ ok] exI [of _ d1]) simp
qed

lemma write_retry_stalled:
  assumes "\<not> answered (plan d)"
  shows "write_retry c d = None"
proof -
  have "answered (plan d)" if "write_retry c d = Some r" for r
  proof (rule write_retry.raw_induct [OF _ that], goal_cases)
    case (1 f c d r)
    from 1(1) [of c "d\<lparr>plan := q\<rparr>" for q] 1(2) show ?case
      by (auto simp: write1.simps Let_def split: answers.splits if_splits)
  qed
  with assms show ?thesis by (cases "write_retry c d") auto
qed

text \<open>The loop sends the characters in order up to the first failing write, or to the one that is never answered.\<close>

lemma tnc_write_loop_sent:
  "tnc_chars b count w = Inr (cs, v) \<Longrightarrow>
   (\<exists>failed k w1 d1. tnc_write_loop b count w d = ret (failed, w1, d1) \<and>
     sent d1 = sent d @ take k cs \<and> (failed \<longrightarrow> k < length cs) \<and>
     (\<not> failed \<longrightarrow> k = length cs \<and> w1 = v) \<and> (never_fails d \<longrightarrow> \<not> failed)) \<or>
   tnc_write_loop b count w d = None \<and> \<not> never_stalls d"
proof (induction b count w d arbitrary: cs rule: tnc_write_loop.induct)
  case (1 b count w d)
  show ?case
  proof (cases "w_state w = WEot")
    case True
    with "1.prems" show ?thesis
      by (subst (1 2) tnc_write_loop.simps) (auto simp: tnc_chars.simps [of b count w])
  next
    case False
    from "1.prems" False obtain c w1 cs1 where n: "tnc_next b count w = Inr (c, w1)"
      "tnc_chars b count w1 = Inr (cs1, v)" "cs = (case c of None \<Rightarrow> cs1 | Some ch \<Rightarrow> ch # cs1)"
      by (subst (asm) tnc_chars.simps) (auto simp: cbind_Inr_iff)
    show ?thesis
    proof (cases c)
      case None
      then have "tnc_write_loop b count w d = tnc_write_loop b count w1 d"
        using False n(1) by (subst tnc_write_loop.simps) simp
      with "1.IH"(1) [OF False _ refl None n(2)] n None show ?thesis by simp
    next
      case (Some ch)
      show ?thesis
      proof (cases "answered (plan d)")
        case False
        then have "\<not> never_stalls d" unfolding never_stalls_def by (metis later.simps(1))
        moreover have "tnc_write_loop b count w d = None"
          using \<open>w_state w \<noteq> WEot\<close> n(1) Some write_retry_stalled [OF False] by (subst tnc_write_loop.simps) simp
        ultimately show ?thesis by blast
      next
        case True
        from write_retry_answered [OF this, of ch] obtain ok d1 where wr: "write_retry ch d = ret (ok, d1)"
          and wc: "sent d1 = sent d @ (if ok then [ch] else [])" "never_fails d \<longrightarrow> ok \<and> never_fails d1"
            "never_stalls d \<longrightarrow> never_stalls d1" by blast
        show ?thesis
        proof (cases ok)
          case False
          then have "tnc_write_loop b count w d = ret (True, w1, d1)"
            using \<open>w_state w \<noteq> WEot\<close> n(1) Some wr by (subst tnc_write_loop.simps) simp
          with False n(3) Some wc show ?thesis
            by (intro disjI1 exI [of _ True] exI [of _ 0] exI [of _ w1] exI [of _ d1]) auto
        next
          case True
          have step: "tnc_write_loop b count w d = tnc_write_loop b count w1 d1"
            using \<open>w_state w \<noteq> WEot\<close> n(1) Some wr True by (subst tnc_write_loop.simps) simp
          have wr1: "write_retry ch d = Some (Inr (ok, d1))" using wr by (simp add: ret_def)
          from "1.IH"(2) [OF False _ refl Some wr1 refl _ n(2)] n(1) True
          consider failed k w2 d2 where "tnc_write_loop b count w1 d1 = ret (failed, w2, d2)"
            "sent d2 = sent d1 @ take k cs1" "failed \<longrightarrow> k < length cs1"
            "\<not> failed \<longrightarrow> k = length cs1 \<and> w2 = v" "never_fails d1 \<longrightarrow> \<not> failed"
          | "tnc_write_loop b count w1 d1 = None" "\<not> never_stalls d1" by auto
          then show ?thesis
          proof cases
            case l: 1
            have "sent d2 = sent d @ take (Suc k) cs" using l(2) wc True n(3) Some by simp
            with step l wc True n(3) Some show ?thesis
              by (intro disjI1 exI [of _ failed] exI [of _ "Suc k"] exI [of _ w2] exI [of _ d2]) auto
          next
            case 2
            with step wc show ?thesis by auto
          qed
        qed
      qed
    qed
  qed
qed

lemma tnc_chars_char:
  "\<lbrakk>w_state w \<noteq> WEot; tnc_next b count w = Inr (Some ch, w1); tnc_chars b count w1 = Inr (cs, v)\<rbrakk> \<Longrightarrow>
     tnc_chars b count w = Inr (ch # cs, v)"
  by (subst tnc_chars.simps) simp

lemma hex4_length [simp]: "length (hex4 x) = 4"
  by (simp add: hex4_def)

text \<open>The trailer: \<open>ETX\<close>, four digits of the checksum, \<open>EOT\<close>.\<close>

lemma tnc_chars_crc:
  "\<lbrakk>w_state w = WCrc; w_str w = hex4 x @ [0]; unat (w_cnt w) + n = 4\<rbrakk> \<Longrightarrow>
     \<exists>v. tnc_chars b count w = Inr (drop (unat (w_cnt w)) (hex4 x) @ [4], v) \<and> w_index v = w_index w"
proof (induction n arbitrary: w)
  case 0
  have "tnc_chars b count (w\<lparr>w_state := WEot\<rparr>) = Inr ([], w\<lparr>w_state := WEot\<rparr>)"
    by (subst tnc_chars.simps) simp
  with 0 have "tnc_chars b count w = Inr ([4], w\<lparr>w_state := WEot\<rparr>)"
    by (intro tnc_chars_char) (auto simp: tnc_next_def word_less_nat_alt)
  with 0 show ?case by simp
next
  case (Suc n)
  let ?w = "w\<lparr>w_cnt := w_cnt w + 1\<rparr>"
  from Suc.prems have lt: "unat (w_cnt w) < 4" by simp
  then have cnt: "unat (w_cnt w + 1) = Suc (unat (w_cnt w))" by (simp add: unat_word_ariths)
  from Suc.IH [of ?w] Suc.prems cnt obtain v where
    v: "tnc_chars b count ?w = Inr (drop (Suc (unat (w_cnt w))) (hex4 x) @ [4], v)" "w_index v = w_index w"
    by auto
  have "tnc_next b count w = Inr (Some (hex4 x ! unat (w_cnt w)), ?w)"
    using Suc.prems lt by (simp add: tnc_next_def word_less_nat_alt nth_append)
  from tnc_chars_char [OF _ this v(1)] Suc.prems(1)
  have "tnc_chars b count w =
      Inr (hex4 x ! unat (w_cnt w) # drop (Suc (unat (w_cnt w))) (hex4 x) @ [4], v)" by simp
  with lt v(2) show ?case by (simp add: Cons_nth_drop_Suc flip: append_Cons)
qed

lemma tnc_chars_etx:
  assumes "w_state w = WEtx"
  shows "\<exists>v. tnc_chars b count w = Inr (3 # hex4 (w_crc w) @ [4], v) \<and> w_index v = w_index w"
proof -
  let ?w = "w\<lparr>w_cnt := 0, w_state := WCrc, w_str := hex4 (w_crc w) @ [0]\<rparr>"
  have "\<exists>v. tnc_chars b count ?w = Inr (drop (unat (w_cnt ?w)) (hex4 (w_crc w)) @ [4], v) \<and>
      w_index v = w_index ?w"
    by (rule tnc_chars_crc [where n = 4]) simp_all
  then obtain v where v: "tnc_chars b count ?w = Inr (hex4 (w_crc w) @ [4], v)" "w_index v = w_index w"
    by auto
  have "tnc_next b count w = Inr (Some 3, ?w)" using assms by (simp add: tnc_next_def)
  from tnc_chars_char [OF _ this v(1)] assms v(2) show ?thesis by simp
qed

text \<open>One byte of the buffer: two digits.\<close>

lemma tnc_chars_byte:
  assumes w: "w_state w = WTxt" "\<not> bit (w_cnt w) 0" "w_index w < count" "count \<le> length b"
  obtains w2 where "w_state w2 = (if w_index w + 1 \<ge> count then WEtx else WTxt)" "\<not> bit (w_cnt w2) 0"
    "w_index w2 = Suc (w_index w)"
    "w_crc w2 = fold usCrcCcittUpdate (hex2 (b ! w_index w)) (w_crc w)"
    "\<forall>cs v. tnc_chars b count w2 = Inr (cs, v) \<longrightarrow>
       tnc_chars b count w = Inr (hex2 (b ! w_index w) @ cs, v)"
proof -
  let ?x = "b ! w_index w"
  obtain h l where hl: "hex2 ?x = [h, l]" by (simp add: hex2_def)
  let ?w1 = "w\<lparr>w_cnt := w_cnt w + 1, w_str := [h, l, 0] @ drop 3 (w_str w),
      w_crc := usCrcCcittUpdate h (w_crc w)\<rparr>"
  let ?w2 = "?w1\<lparr>w_cnt := w_cnt ?w1 + 1, w_index := w_index w + 1,
      w_state := (if w_index w + 1 \<ge> count then WEtx else WTxt),
      w_crc := usCrcCcittUpdate l (w_crc ?w1)\<rparr>"
  have n1: "tnc_next b count w = Inr (Some h, ?w1)"
    using w hl by (simp add: tnc_next_def)
  have n2: "tnc_next b count ?w1 = Inr (Some l, ?w2)"
    using w by (simp add: tnc_next_def bit0_succ)
  show thesis
  proof (rule that [of ?w2])
    show "\<not> bit (w_cnt ?w2) 0" using w(2) bit0_succ [of "w_cnt w"] bit0_succ [of "w_cnt w + 1"] by simp
    have "tnc_chars b count w = Inr (hex2 ?x @ cs, v)" if "tnc_chars b count ?w2 = Inr (cs, v)" for cs v
      using tnc_chars_char [OF _ n1 tnc_chars_char [OF _ n2 that]] w(1) hl by simp
    then show "\<forall>cs v. tnc_chars b count ?w2 = Inr (cs, v) \<longrightarrow>
        tnc_chars b count w = Inr (hex2 ?x @ cs, v)" by blast
  qed (simp_all add: hl)
qed

lemma tnc_chars_txt:
  "\<lbrakk>w_state w = WTxt; \<not> bit (w_cnt w) 0; w_index w + Suc n = count; count \<le> length b\<rbrakk> \<Longrightarrow>
   \<exists>v. tnc_chars b count w =
       Inr (text_of (take (Suc n) (drop (w_index w) b)) @
            3 # hex4 (fold usCrcCcittUpdate (text_of (take (Suc n) (drop (w_index w) b))) (w_crc w)) @ [4], v) \<and>
     w_index v = count"
proof (induction n arbitrary: w)
  case (0 w)
  then have lt: "w_index w < count" by simp
  obtain w2 where w2: "w_state w2 = (if w_index w + 1 \<ge> count then WEtx else WTxt)"
    "\<not> bit (w_cnt w2) 0" "w_index w2 = Suc (w_index w)" "w_crc w2 = fold usCrcCcittUpdate (hex2 (b ! w_index w)) (w_crc w)"
    "\<forall>cs v. tnc_chars b count w2 = Inr (cs, v) \<longrightarrow>
       tnc_chars b count w = Inr (hex2 (b ! w_index w) @ cs, v)"
    by (rule tnc_chars_byte [OF 0(1,2) lt 0(4)])
  have "w_state w2 = WEtx" using w2(1) 0 by simp
  from tnc_chars_etx [OF this] obtain v where
    "tnc_chars b count w2 = Inr (3 # hex4 (w_crc w2) @ [4], v)" "w_index v = w_index w2" by auto
  moreover have "take (Suc 0) (drop (w_index w) b) = [b ! w_index w]"
    using 0 by (simp add: take_Suc_conv_app_nth)
  ultimately show ?case using w2 0 by auto
next
  case (Suc n w)
  then have lt: "w_index w < count" by simp
  obtain w2 where w2: "w_state w2 = (if w_index w + 1 \<ge> count then WEtx else WTxt)"
    "\<not> bit (w_cnt w2) 0" "w_index w2 = Suc (w_index w)"
    "w_crc w2 = fold usCrcCcittUpdate (hex2 (b ! w_index w)) (w_crc w)"
    "\<forall>cs v. tnc_chars b count w2 = Inr (cs, v) \<longrightarrow>
       tnc_chars b count w = Inr (hex2 (b ! w_index w) @ cs, v)"
    by (rule tnc_chars_byte [OF Suc.prems(1,2) lt Suc.prems(4)])
  have st: "w_state w2 = WTxt" using w2(1) Suc.prems by simp
  have ix: "w_index w2 + Suc n = count" using w2(3) Suc.prems by simp
  from Suc.IH [OF st w2(2) ix Suc.prems(4)] obtain v where
    "tnc_chars b count w2 = Inr (text_of (take (Suc n) (drop (w_index w2) b)) @
       3 # hex4 (fold usCrcCcittUpdate (text_of (take (Suc n) (drop (w_index w2) b))) (w_crc w2)) @ [4], v)"
    "w_index v = count" by auto
  moreover have "take (Suc (Suc n)) (drop (w_index w) b) =
      b ! w_index w # take (Suc n) (drop (Suc (w_index w)) b)"
    using Suc.prems by (subst Cons_nth_drop_Suc [symmetric]) auto
  ultimately show ?case using w2 by auto
qed

lemma tnc_chars_frame:
  assumes "count \<le> length b"
  shows "\<exists>v. tnc_chars b count (tnc_w0 junk) = Inr (tnc_wire (take count b), v) \<and> w_index v = count"
proof -
  let ?w1 = "(tnc_w0 junk)\<lparr>w_state := WStx\<rparr>"
  let ?w2 = "(tnc_w0 junk)\<lparr>w_state := WTxt\<rparr>"
  have n: "tnc_next b count (tnc_w0 junk) = Inr (Some 1, ?w1)" "tnc_next b count ?w1 = Inr (Some 2, ?w2)"
    by (simp_all add: tnc_next_def tnc_w0_def)
  have "\<exists>v. tnc_chars b count ?w2 =
      Inr (text_of (take count b) @ 3 # hex4 (text_crc (text_of (take count b))) @ [4], v) \<and> w_index v = count"
  proof (cases count)
    case 0
    let ?w3 = "?w2\<lparr>w_state := WEtx\<rparr>"
    have "tnc_next b count ?w2 = Inr (None, ?w3)" using 0 by (simp add: tnc_next_def)
    moreover have "\<exists>v. tnc_chars b count ?w3 = Inr (3 # hex4 (w_crc ?w3) @ [4], v) \<and> w_index v = w_index ?w3"
      by (rule tnc_chars_etx) simp
    ultimately show ?thesis using 0 by (subst tnc_chars.simps) (auto simp: tnc_w0_def)
  next
    case (Suc n)
    with tnc_chars_txt [of ?w2 n count b] assms show ?thesis by (auto simp: tnc_w0_def)
  qed
  then obtain v where v: "tnc_chars b count ?w2 =
      Inr (text_of (take count b) @ 3 # hex4 (text_crc (text_of (take count b))) @ [4], v)" "w_index v = count"
    by blast
  from tnc_chars_char [OF _ n(1) tnc_chars_char [OF _ n(2) v(1)]] v(2) show ?thesis
    by (simp add: tnc_wire_def tnc_w0_def)
qed

lemma iTncWrite_sent:
  assumes "tn_fout p \<ge> 0" and "count \<le> length buf"
  shows "(\<exists>e q d1. iTncWrite flush junk (Some p) buf count d = ret (e, Some q, d1) \<and>
      (e = int count \<and> q = p \<and> sent d1 = sent (flush d) @ tnc_wire (take count buf) \<or>
       e = TNC_IO_ERROR \<and> q = p\<lparr>tn_state := TNC_IO_ERROR\<rparr> \<and> \<not> never_fails (flush d) \<and>
         (\<exists>k < length (tnc_wire (take count buf)).
            sent d1 = sent (flush d) @ take k (tnc_wire (take count buf))))) \<or>
    iTncWrite flush junk (Some p) buf count d = None \<and> \<not> never_stalls (flush d)"
proof -
  obtain v where v: "tnc_chars buf count (tnc_w0 junk) = Inr (tnc_wire (take count buf), v)" "w_index v = count"
    using tnc_chars_frame [OF assms(2)] by blast
  from tnc_write_loop_sent [OF v(1), of "flush d"] consider failed k w1 d1 where
    "tnc_write_loop buf count (tnc_w0 junk) (flush d) = ret (failed, w1, d1)"
    "sent d1 = sent (flush d) @ take k (tnc_wire (take count buf))"
    "failed \<longrightarrow> k < length (tnc_wire (take count buf))"
    "\<not> failed \<longrightarrow> k = length (tnc_wire (take count buf)) \<and> w1 = v" "never_fails (flush d) \<longrightarrow> \<not> failed"
  | "tnc_write_loop buf count (tnc_w0 junk) (flush d) = None" "\<not> never_stalls (flush d)" by (elim disjE exE conjE) blast+
  then show ?thesis
  proof cases
    case 1
    with v(2) assms(1) show ?thesis
      by (cases failed) (auto simp: iTncWrite_def tnc_prviSetError_def)
  next
    case 2
    with assms(1) show ?thesis by (simp add: iTncWrite_def)
  qed
qed


definition ex_tnc :: xTnc where
  "ex_tnc = \<lparr>tn_fin = 5, tn_fout = 6, tn_rxbuf = Some [0, 0, 0], tn_len = 0,
     tn_crc_rx = 0xFFFF, tn_crc_tx = 0, tn_state = 0, tn_cnt = 0, tn_msb = 0\<rparr>"


section \<open>The receiver\<close>

lemma hex_digit_xdigit:
  assumes "n < 16"
  shows "isxdigit (hex_digit n)" "htoi (hex_digit n) = of_nat n" "hex_digit n \<noteq> 1" "hex_digit n \<noteq> 2"
    "hex_digit n \<noteq> 3" "hex_digit n \<noteq> 4"
proof -
  have "n \<in> {0, 1, 2, 3, 4, 5, 6, 7, 8, 9, 10, 11, 12, 13, 14, 15}"
    using assms by (auto simp: numeral_eq_Suc less_Suc_eq)
  then have "isxdigit (hex_digit n) \<and> htoi (hex_digit n) = of_nat n \<and> hex_digit n \<notin> {1, 2, 3, 4}"
    unfolding hex_digit_def htoi_def isxdigit_def isdigit_def toupper_def islower_def Let_def
    by (elim insertE emptyE) simp_all
  then show "isxdigit (hex_digit n)" "htoi (hex_digit n) = of_nat n" "hex_digit n \<noteq> 1" "hex_digit n \<noteq> 2"
    "hex_digit n \<noteq> 3" "hex_digit n \<noteq> 4" by auto
qed

text \<open>The digits of a text in pairs, and the byte a pair stands for.\<close>

abbreviation digits_of :: "(u8 \<times> u8) list \<Rightarrow> u8 list" where
  "digits_of ps \<equiv> concat (map (\<lambda>(c, d). [c, d]) ps)"

definition pair_byte :: "u8 \<times> u8 \<Rightarrow> u8" where
  "pair_byte p = push_bit 4 (htoi (fst p)) + htoi (snd p)"

abbreviation xpair :: "u8 \<times> u8 \<Rightarrow> bool" where
  "xpair p \<equiv> isxdigit (fst p) \<and> isxdigit (snd p)"

lemma isxdigit_not_ctl: "isxdigit c \<Longrightarrow> c \<noteq> 1 \<and> c \<noteq> 2 \<and> c \<noteq> 3 \<and> c \<noteq> 4"
  by (auto simp: isxdigit_def isdigit_def word_le_nat_alt)

lemma rx_digit:
  "isxdigit c \<Longrightarrow> tnc_poll_loop (p, False) (c # cs) =
     cbind (tnc_digit p c) (\<lambda>p1. tnc_poll_loop (p1, False) cs)"
  using isxdigit_not_ctl [of c] by (simp add: tnc_rx_def cbind_assoc)

text \<open>A pair of digits in the text: stored, or out of the buffer.\<close>

lemma rx_pair:
  assumes "xpair (c, d)" "tn_state p = TNC_STX" "\<not> bit (tn_cnt p) 0" "tn_rxbuf p = Some b"
  shows "tnc_poll_loop (p, False) (c # d # cs) =
    (if tn_len p < length b
     then tnc_poll_loop (p\<lparr>tn_msb := push_bit 4 (htoi c), tn_crc_rx := fold usCrcCcittUpdate [c, d] (tn_crc_rx p),
            tn_cnt := tn_cnt p + 2, tn_rxbuf := Some (b[tn_len p := pair_byte (c, d)]),
            tn_len := Suc (tn_len p)\<rparr>, False) cs
     else Inl OutOfBounds)"
  using assms bit0_succ [of "tn_cnt p"]
  by (simp add: rx_digit tnc_digit_def TNC_STX_def Let_def pair_byte_def add.commute [of 2]
      del: tnc_poll_loop.simps)

definition rx_text :: "xTnc \<Rightarrow> (u8 \<times> u8) list \<Rightarrow> u8 list \<Rightarrow> xTnc \<Rightarrow> bool" where
  "rx_text p ps b q \<longleftrightarrow>
     tn_state q = TNC_STX \<and> \<not> bit (tn_cnt q) 0 \<and> tn_fin q = tn_fin p \<and> tn_fout q = tn_fout p \<and>
     tn_len q = tn_len p + length ps \<and> tn_crc_rx q = fold usCrcCcittUpdate (digits_of ps) (tn_crc_rx p) \<and>
     tn_rxbuf q = Some (take (tn_len p) b @ map pair_byte ps @ drop (tn_len p + length ps) b)"

lemma rx_pairs:
  "\<lbrakk>list_all xpair ps; tn_state p = TNC_STX; \<not> bit (tn_cnt p) 0; tn_rxbuf p = Some b;
    tn_len p + length ps \<le> length b\<rbrakk> \<Longrightarrow>
   \<exists>q. tnc_poll_loop (p, False) (digits_of ps @ cs) = tnc_poll_loop (q, False) cs \<and> rx_text p ps b q"
proof (induction ps arbitrary: p b)
  case Nil
  then show ?case by (intro exI [of _ p]) (simp add: rx_text_def)
next
  case (Cons x ps)
  obtain c d where x: "x = (c, d)" by fastforce
  let ?b = "b[tn_len p := pair_byte (c, d)]"
  let ?p = "p\<lparr>tn_msb := push_bit 4 (htoi c), tn_crc_rx := fold usCrcCcittUpdate [c, d] (tn_crc_rx p),
            tn_cnt := tn_cnt p + 2, tn_rxbuf := Some ?b, tn_len := Suc (tn_len p)\<rparr>"
  have ev: "\<not> bit (tn_cnt p + 2) 0"
    using Cons.prems(3) bit0_succ [of "tn_cnt p"] bit0_succ [of "tn_cnt p + 1"] by (simp add: add.assoc)
  from Cons.IH [of ?p ?b] Cons.prems ev obtain q where
    q: "tnc_poll_loop (?p, False) (digits_of ps @ cs) = tnc_poll_loop (q, False) cs" "rx_text ?p ps ?b q"
    by auto
  have "tnc_poll_loop (p, False) (digits_of (x # ps) @ cs) = tnc_poll_loop (?p, False) (digits_of ps @ cs)"
    using rx_pair [of c d p b "digits_of ps @ cs"] Cons.prems x by simp
  moreover have "rx_text p (x # ps) b q"
    using q(2) Cons.prems x by (auto simp: rx_text_def take_update_last)
  ultimately show ?case using q(1) by auto
qed

lemma rx_pairs_overflow:
  "\<lbrakk>list_all xpair ps; tn_state p = TNC_STX; \<not> bit (tn_cnt p) 0; tn_rxbuf p = Some b;
    tn_len p \<le> length b; length b < tn_len p + length ps\<rbrakk> \<Longrightarrow>
   tnc_poll_loop (p, False) (digits_of ps @ cs) = Inl OutOfBounds"
proof -
  assume a: "list_all xpair ps" "tn_state p = TNC_STX" "\<not> bit (tn_cnt p) 0" "tn_rxbuf p = Some b"
    "tn_len p \<le> length b" "length b < tn_len p + length ps"
  let ?k = "length b - tn_len p"
  obtain x qs where split: "ps = take ?k ps @ x # qs"
    using id_take_nth_drop [of ?k ps] a(5,6) by fastforce
  have "list_all xpair (take ?k ps)" and x: "xpair x"
    using a(1) unfolding list_all_iff by (metis in_set_takeD, metis split in_set_conv_decomp)
  from rx_pairs [OF this(1) a(2-4), of "digits_of (x # qs) @ cs"] a(5,6) obtain q where
    q: "tnc_poll_loop (p, False) (digits_of (take ?k ps) @ digits_of (x # qs) @ cs) =
         tnc_poll_loop (q, False) (digits_of (x # qs) @ cs)" "rx_text p (take ?k ps) b q" by auto
  obtain c d where cd: "x = (c, d)" by fastforce
  from q(2) a(5,6) obtain b' where "tn_rxbuf q = Some b'" "length b' = length b" "tn_len q = length b"
    by (auto simp: rx_text_def)
  with rx_pair [of c d q b' "digits_of qs @ cs"] q(2) x cd
  have "tnc_poll_loop (q, False) (digits_of (x # qs) @ cs) = Inl OutOfBounds"
    by (simp add: rx_text_def)
  with q(1) show ?thesis by (subst split) simp
qed

text \<open>The trailer: the register that was sent, and the verdict.\<close>

definition crc_value :: "u8 list \<Rightarrow> u16" where
  "crc_value ks = push_bit 12 (ucast (htoi (ks ! 0))) + push_bit 8 (ucast (htoi (ks ! 1))) +
     push_bit 4 (ucast (htoi (ks ! 2))) + ucast (htoi (ks ! 3))"

lemma rx_trailer:
  assumes "length ks = 4" "list_all isxdigit ks" "tn_state p = TNC_STX"
  shows "tnc_poll_loop (p, False) (3 # ks @ 4 # rest) =
    Inr ((p\<lparr>tn_cnt := 16, tn_crc_tx := crc_value ks,
            tn_state := (if tn_crc_rx p = crc_value ks then TNC_EOT else TNC_CRC_ERROR)\<rparr>, True), rest)"
proof -
  obtain k0 k1 k2 k3 where ks: "ks = [k0, k1, k2, k3]"
    using assms(1) by (auto simp: numeral_eq_Suc length_Suc_conv)
  have st: "tnc_poll_loop (p, False) (3 # ks @ 4 # rest) =
      tnc_poll_loop (p\<lparr>tn_cnt := 0, tn_crc_tx := 0, tn_state := TNC_ETX\<rparr>, False) (ks @ 4 # rest)"
    using assms(3) by (simp add: tnc_rx_def)
  have dig: "tnc_digit q c = Inr (q\<lparr>tn_crc_tx := tn_crc_tx q + push_bit (12 - unat (tn_cnt q)) (ucast (htoi c)),
      tn_cnt := tn_cnt q + 4\<rparr>)" if "tn_state q = TNC_ETX" "tn_cnt q \<le> 12" for q c
    using that by (simp add: tnc_digit_def tnc_codes)
  have eot: "tnc_poll_loop (q, False) (4 # rest) =
      Inr ((if tn_crc_rx q \<noteq> tn_crc_tx q then q\<lparr>tn_state := TNC_CRC_ERROR\<rparr> else q\<lparr>tn_state := TNC_EOT\<rparr>, True), rest)"
    if "tn_state q = TNC_ETX" for q
    using that by (simp add: tnc_rx_def tnc_rx.poll_stopped)
  show ?thesis
    unfolding st unfolding ks using assms(2) ks
    by (simp add: rx_digit dig eot crc_value_def del: tnc_poll_loop.simps)
qed

text \<open>What the receiver makes of a message of hexadecimal pairs, in any state it may be in.\<close>

lemma rx_message:
  assumes ps: "list_all xpair ps" and ks: "length ks = 4" "list_all isxdigit ks"
    and buf: "tn_rxbuf p = Some b" "length ps \<le> length b"
  obtains q where "tnc_poll_loop (p, False) (1 # 2 # digits_of ps @ 3 # ks @ 4 # rest) = Inr ((q, True), rest)"
    "tn_state q = (if text_crc (digits_of ps) = crc_value ks then TNC_EOT else TNC_CRC_ERROR)"
    "tn_len q = length ps" "tn_rxbuf q = Some (map pair_byte ps @ drop (length ps) b)"
    "tn_fin q = tn_fin p" "tn_fout q = tn_fout p"
proof -
  let ?p = "p\<lparr>tn_crc_rx := CRC_CCITT_INIT_VAL, tn_len := 0, tn_cnt := 0, tn_state := TNC_STX\<rparr>"
  have "tnc_poll_loop (p, False) (1 # 2 # digits_of ps @ 3 # ks @ 4 # rest) =
      tnc_poll_loop (?p, False) (digits_of ps @ 3 # ks @ 4 # rest)"
    by (simp add: tnc_rx_def)
  moreover obtain q where q: "tnc_poll_loop (?p, False) (digits_of ps @ 3 # ks @ 4 # rest) =
      tnc_poll_loop (q, False) (3 # ks @ 4 # rest)" "rx_text ?p ps b q"
    using rx_pairs [OF ps, of ?p b "3 # ks @ 4 # rest"] buf by (auto simp del: tnc_poll_loop.simps)
  moreover have "tn_state q = TNC_STX" using q(2) by (simp add: rx_text_def)
  note tr = rx_trailer [OF ks this, of rest]
  ultimately show thesis
    using q(2) that [of "q\<lparr>tn_cnt := 16, tn_crc_tx := crc_value ks,
            tn_state := (if tn_crc_rx q = crc_value ks then TNC_EOT else TNC_CRC_ERROR)\<rparr>"]
    by (simp add: rx_text_def)
qed

text \<open>The digits \<open>snprintf\<close> prints are read back.\<close>

definition hex_pair :: "u8 \<Rightarrow> u8 \<times> u8" where
  "hex_pair x = (hex_digit (unat x div 16), hex_digit (unat x mod 16))"

lemma text_digits: "text_of bs = digits_of (map hex_pair bs)"
  by (induction bs) (simp_all add: hex_pair_def hex2_def)

lemma hex_pair_xpair: "xpair (hex_pair x)"
  using unsigned_less [of x, where 'a = nat] by (simp add: hex_pair_def hex_digit_xdigit)

lemma pair_byte_hex: "pair_byte (hex_pair x) = x"
proof -
  have lt: "unat x div 16 < 16" using unsigned_less [of x, where 'a = nat] by simp
  have "pair_byte (hex_pair x) = of_nat (unat x div 16) * 16 + of_nat (unat x mod 16)"
    using lt by (simp add: pair_byte_def hex_pair_def hex_digit_xdigit push_bit_eq_mult)
  also have "\<dots> = of_nat (unat x div 16 * 16 + unat x mod 16)"
    by (simp only: of_nat_add of_nat_mult of_nat_numeral)
  finally show ?thesis by simp
qed

lemma hex_expand:
  assumes "n < (65536 :: nat)"
  shows "n div 4096 mod 16 * 4096 + n div 256 mod 16 * 256 + n div 16 mod 16 * 16 + n mod 16 = n"
proof -
  have eq: "n div 256 = n div 16 div 16" "n div 4096 = n div 16 div 16 div 16"
    by (simp_all flip: div_mult2_eq)
  have "n div 16 div 16 div 16 mod 16 = n div 16 div 16 div 16" using assms by simp
  moreover note div_mult_mod_eq [of n 16] div_mult_mod_eq [of "n div 16" 16]
    div_mult_mod_eq [of "n div 16 div 16" 16]
  ultimately show ?thesis unfolding eq by linarith
qed

lemma crc_value_hex4: "crc_value (hex4 w) = w"
proof -
  have lt: "unat w < 65536" using unsigned_less [of w, where 'a = nat] by simp
  have h: "ucast (of_nat n :: u8) = (of_nat n :: u16)" if "n < 16" for n
  proof -
    have "n \<in> {0, 1, 2, 3, 4, 5, 6, 7, 8, 9, 10, 11, 12, 13, 14, 15}"
      using that by (auto simp: numeral_eq_Suc less_Suc_eq)
    then show ?thesis by (elim insertE emptyE) simp_all
  qed
  have d: "ucast (htoi (hex_digit n)) = (of_nat n :: u16)" if "n < 16" for n
    using that by (simp add: hex_digit_xdigit h)
  have "crc_value (hex4 w) = of_nat (unat w div 4096 mod 16) * 4096 + of_nat (unat w div 256 mod 16) * 256 +
      of_nat (unat w div 16 mod 16) * 16 + of_nat (unat w mod 16)"
    by (simp add: crc_value_def hex4_def d push_bit_eq_mult)
  also have "\<dots> = of_nat (unat w div 4096 mod 16 * 4096 + unat w div 256 mod 16 * 256 +
      unat w div 16 mod 16 * 16 + unat w mod 16)"
    by (simp only: of_nat_add of_nat_mult of_nat_numeral)
  also have "unat w div 4096 mod 16 * 4096 + unat w div 256 mod 16 * 256 +
      unat w div 16 mod 16 * 16 + unat w mod 16 = unat w"
    using hex_expand [OF lt] .
  finally show ?thesis by simp
qed

lemma hex4_xdigits: "list_all isxdigit (hex4 w)"
  by (simp add: hex4_def hex_digit_xdigit)

section \<open>Properties of the link\<close>

lemma poll_message:
  assumes "list_all xpair ps" "length ks = 4" "list_all isxdigit ks"
    and "tn_fin p \<ge> 0" "tn_rxbuf p = Some b" "length ps \<le> length b"
  obtains q where "iTncPoll (Some p) (1 # 2 # digits_of ps @ 3 # ks @ 4 # rest) fails =
      Inr (tn_state q, Some q, rest)"
    "tn_state q = (if text_crc (digits_of ps) = crc_value ks then TNC_EOT else TNC_CRC_ERROR)"
    "tn_len q = length ps" "tn_rxbuf q = Some (map pair_byte ps @ drop (length ps) b)"
    "tn_fin q = tn_fin p" "tn_fout q = tn_fout p"
proof -
  let ?p = "if tn_state p = TNC_EOT then p\<lparr>tn_state := 0\<rparr> else p"
  have p: "tn_rxbuf ?p = Some b" "tn_fin ?p = tn_fin p" "tn_fout ?p = tn_fout p" using assms(5) by auto
  obtain q where q: "tnc_poll_loop (?p, False) (1 # 2 # digits_of ps @ 3 # ks @ 4 # rest) = Inr ((q, True), rest)"
    "tn_state q = (if text_crc (digits_of ps) = crc_value ks then TNC_EOT else TNC_CRC_ERROR)"
    "tn_len q = length ps" "tn_rxbuf q = Some (map pair_byte ps @ drop (length ps) b)"
    "tn_fin q = tn_fin ?p" "tn_fout q = tn_fout ?p"
    by (rule rx_message [OF assms(1-3) p(1) assms(6)])
  have "iTncPoll (Some p) (1 # 2 # digits_of ps @ 3 # ks @ 4 # rest) fails = Inr (tn_state q, Some q, rest)"
    unfolding iTncPoll_def using q(1) assms(4) p(2)
    by (simp add: Let_def not_less del: tnc_poll_loop.simps)
  with that q p show thesis by simp
qed

text \<open>C2. A message of up to as many bytes as the receive buffer holds, written
  to a descriptor none of whose writes fails or is put off for ever, is read back by a controller in any state (in the
  middle of another message too): \<open>iTncPoll\<close> consumes exactly the characters that were sent,
  returns \<open>TNC_EOT\<close> and has the bytes at the start of its buffer.\<close>

theorem tnc_roundtrip:
  assumes "tn_fout p \<ge> 0" and "count \<le> length buf" and "never_fails (flush d)" "never_stalls (flush d)"
    and "tn_fin q \<ge> 0" and "tn_rxbuf q = Some b" and "count \<le> length b"
  shows "\<exists>d1 w q1. iTncWrite flush junk (Some p) buf count d = ret (int count, Some p, d1) \<and>
    sent d1 = sent (flush d) @ w \<and>
    iTncPoll (Some q) (w @ rest) fails = Inr (TNC_EOT, Some q1, rest) \<and>
    tn_len q1 = count \<and> tn_rxbuf q1 = Some (take count buf @ drop count b)"
proof -
  let ?ps = "map hex_pair (take count buf)"
  let ?ks = "hex4 (text_crc (text_of (take count buf)))"
  have "list_all xpair ?ps" by (simp add: list_all_iff hex_pair_xpair)
  moreover have "length ?ps \<le> length b" using assms(2,7) by simp
  ultimately obtain q1 where q1:
    "iTncPoll (Some q) (1 # 2 # digits_of ?ps @ 3 # ?ks @ 4 # rest) fails = Inr (tn_state q1, Some q1, rest)"
    "tn_state q1 = (if text_crc (digits_of ?ps) = crc_value ?ks then TNC_EOT else TNC_CRC_ERROR)"
    "tn_len q1 = length ?ps" "tn_rxbuf q1 = Some (map pair_byte ?ps @ drop (length ?ps) b)"
    by (rule poll_message [OF _ hex4_length hex4_xdigits assms(5,6)])
  obtain d1 where d1: "iTncWrite flush junk (Some p) buf count d = ret (int count, Some p, d1)"
    "sent d1 = sent (flush d) @ tnc_wire (take count buf)"
    using iTncWrite_sent [OF assms(1,2), of flush junk d] assms(3,4) by blast
  have st: "tn_state q1 = TNC_EOT" using q1(2) by (simp add: crc_value_hex4 text_digits)
  have w: "tnc_wire (take count buf) @ rest = 1 # 2 # digits_of ?ps @ 3 # ?ks @ 4 # rest"
    by (simp add: tnc_wire_def text_digits)
  have bytes: "map pair_byte ?ps = take count buf" by (simp add: comp_def pair_byte_hex)
  have len: "length ?ps = count" using assms(2) by simp
  show ?thesis
  proof (intro exI conjI)
    show "iTncPoll (Some q) (tnc_wire (take count buf) @ rest) fails = Inr (TNC_EOT, Some q1, rest)"
      unfolding w using q1(1) st by simp
    show "tn_rxbuf q1 = Some (take count buf @ drop count b)"
      using q1(4) unfolding bytes len .
  qed (use d1 q1(3) len in simp_all)
qed

text \<open>A controller in the middle of another message.\<close>

definition ex_tnc_busy :: xTnc where
  "ex_tnc_busy = ex_tnc\<lparr>tn_state := TNC_ETX, tn_len := 2, tn_cnt := 8\<rparr>"

theorem tnc_roundtrip_witness:
  "\<exists>d1 w q1. iTncWrite id [] (Some ex_tnc) [0xA5, 0x04] 2 \<lparr>sent = [], plan = script [0]\<rparr> =
      ret (int 2, Some ex_tnc, d1) \<and>
    sent d1 = sent (id \<lparr>sent = [], plan = script [0]\<rparr>) @ w \<and>
    iTncPoll (Some ex_tnc_busy) (w @ [0x01]) False = Inr (TNC_EOT, Some q1, [0x01]) \<and>
    tn_len q1 = 2 \<and> tn_rxbuf q1 = Some (take 2 [0xA5, 0x04] @ drop 2 [0, 0, 0])"
  by (rule tnc_roundtrip) (simp_all add: ex_tnc_def ex_tnc_busy_def never_fails_def never_stalls_script [of _ "[0]"])

text \<open>C9. A message whose text was corrupted in one pair of adjacent digits on
  the way (into other digits) is answered with \<open>TNC_CRC_ERROR\<close>, at its end and not before.\<close>

theorem tnc_detects:
  assumes "length cs = 4" "list_all isxdigit cs" and "text_crc (digits_of (ps @ (c, d) # qs)) = crc_value cs"
    and "(c, d) \<noteq> (c', d')" and "list_all xpair (ps @ (c', d') # qs)"
    and "tn_fin q \<ge> 0" and "tn_rxbuf q = Some b" and "length ps + length qs < length b"
  shows "\<exists>q1. iTncPoll (Some q) (1 # 2 # digits_of (ps @ (c', d') # qs) @ 3 # cs @ 4 # rest) fails =
      Inr (TNC_CRC_ERROR, Some q1, rest) \<and> tn_state q1 = TNC_CRC_ERROR"
proof -
  have "text_crc (digits_of ps @ [c, d] @ digits_of qs) \<noteq> text_crc (digits_of ps @ [c', d'] @ digits_of qs)"
    by (rule ccitt.crc_burst [OF assms(4)])
  with assms(3) have "text_crc (digits_of (ps @ (c', d') # qs)) \<noteq> crc_value cs" by simp
  moreover have "length (ps @ (c', d') # qs) \<le> length b" using assms(8) by simp
  ultimately show ?thesis
    using poll_message [OF assms(5,1,2,6,7), of rest fails] by metis
qed

theorem tnc_detects_witness:
  "\<exists>q1. iTncPoll (Some ex_tnc) (1 # 2 # digits_of ([] @ (0x42, 0x31) # []) @
      3 # hex4 (text_crc [0x41, 0x31]) @ 4 # []) False =
    Inr (TNC_CRC_ERROR, Some q1, []) \<and> tn_state q1 = TNC_CRC_ERROR"
  by (rule tnc_detects [where c = "0x41" and d = "0x31" and b = "[0, 0, 0]"])
    (simp_all add: ex_tnc_def isxdigit_def isdigit_def hex4_xdigits crc_value_hex4)

text \<open>\<open>iTncPoll\<close> never compares \<open>len\<close> with the size \<open>xTncNew\<close>
  was given: a message of more bytes than the receive buffer holds is written past its end, from
  any state of the controller.\<close>

theorem tnc_overflow:
  assumes "list_all xpair ps" and "tn_fin q \<ge> 0" and "tn_rxbuf q = Some b" and "length b < length ps"
  shows "iTncPoll (Some q) (1 # 2 # digits_of ps @ rest) fails = Inl OutOfBounds"
proof -
  let ?q = "if tn_state q = TNC_EOT then q\<lparr>tn_state := 0\<rparr> else q"
  let ?p = "?q\<lparr>tn_crc_rx := CRC_CCITT_INIT_VAL, tn_len := 0, tn_cnt := 0, tn_state := TNC_STX\<rparr>"
  have "tnc_poll_loop (?q, False) (1 # 2 # digits_of ps @ rest) = tnc_poll_loop (?p, False) (digits_of ps @ rest)"
    by (simp add: tnc_rx_def)
  also have "\<dots> = Inl OutOfBounds"
    using assms by (intro rx_pairs_overflow) auto
  finally show ?thesis
    unfolding iTncPoll_def using assms(2) by (simp add: Let_def not_less del: tnc_poll_loop.simps)
qed

theorem tnc_overflow_witness:
  "iTncPoll (Some ex_tnc) (1 # 2 # digits_of [(0x30, 0x30), (0x30, 0x31), (0x30, 0x32), (0x30, 0x33)] @ [])
     False = Inl OutOfBounds"
  by (rule tnc_overflow [where b = "[0, 0, 0]"]) (simp_all add: ex_tnc_def isxdigit_def isdigit_def)

end
