(* ===== verification/Xbee_Packet.thy ===== *)
theory Xbee_Packet
  imports Sysio_Prelude
begin

text \<open>
  The packets of \<open>src/src/xbee.c\<close>, \<open>xbee1.c\<close>, \<open>xbee2.c\<close> and \<open>xbee_private.h\<close>: their
  packed layouts as byte offsets, the checksum, and the accessors an application calls on a packet
  it received.  A packet is the block of bytes it occupies; a pointer into it is an offset.
  Theorems: what the accessors return on a packet whose length field describes its block, and
  where they leave it.
\<close>

section \<open>Layout\<close>

text \<open>Big-endian values, as \<open>ntohs\<close>, \<open>ntohl\<close> and \<open>ntohll\<close> read them.\<close>

definition be_val :: "u8 list \<Rightarrow> nat" where
  "be_val bs = foldl (\<lambda>a b. 256 * a + unat b) 0 bs"

definition ntohs :: "u8 list \<Rightarrow> u16" where "ntohs bs = of_nat (be_val bs)"
definition ntohl :: "u8 list \<Rightarrow> u32" where "ntohl bs = of_nat (be_val bs)"
definition ntohll :: "u8 list \<Rightarrow> u64" where "ntohll bs = of_nat (be_val bs)"

definition htons :: "nat \<Rightarrow> u8 list" where
  "htons n = [of_nat (n div 256), of_nat n]"

definition XBEE_PKT_TYPE_ATCMD :: u8 where "XBEE_PKT_TYPE_ATCMD = 0x08"
definition XBEE_PKT_TYPE_QATCMD :: u8 where "XBEE_PKT_TYPE_QATCMD = 0x09"
definition XBEE_PKT_TYPE_REMOTE_ATCMD :: u8 where "XBEE_PKT_TYPE_REMOTE_ATCMD = 0x17"
definition XBEE_PKT_TYPE_ATCMD_RESP :: u8 where "XBEE_PKT_TYPE_ATCMD_RESP = 0x88"
definition XBEE_PKT_TYPE_MODEM_STATUS :: u8 where "XBEE_PKT_TYPE_MODEM_STATUS = 0x8a"
definition XBEE_PKT_TYPE_REMOTE_ATCMD_RESP :: u8 where "XBEE_PKT_TYPE_REMOTE_ATCMD_RESP = 0x97"
definition XBEE_PKT_TYPE_TX64 :: u8 where "XBEE_PKT_TYPE_TX64 = 0x00"
definition XBEE_PKT_TYPE_TX16 :: u8 where "XBEE_PKT_TYPE_TX16 = 0x01"
definition XBEE_PKT_TYPE_RX64 :: u8 where "XBEE_PKT_TYPE_RX64 = 0x80"
definition XBEE_PKT_TYPE_RX16 :: u8 where "XBEE_PKT_TYPE_RX16 = 0x81"
definition XBEE_PKT_TYPE_RX64_IO :: u8 where "XBEE_PKT_TYPE_RX64_IO = 0x82"
definition XBEE_PKT_TYPE_RX16_IO :: u8 where "XBEE_PKT_TYPE_RX16_IO = 0x83"
definition XBEE_PKT_TYPE_TX_STATUS :: u8 where "XBEE_PKT_TYPE_TX_STATUS = 0x89"
definition XBEE_PKT_TYPE_ZB_TX_REQ :: u8 where "XBEE_PKT_TYPE_ZB_TX_REQ = 0x10"
definition XBEE_PKT_TYPE_ZB_TX_STATUS :: u8 where "XBEE_PKT_TYPE_ZB_TX_STATUS = 0x8b"
definition XBEE_PKT_TYPE_ZB_RX :: u8 where "XBEE_PKT_TYPE_ZB_RX = 0x90"
definition XBEE_PKT_TYPE_ZB_RX_IO :: u8 where "XBEE_PKT_TYPE_ZB_RX_IO = 0x92"
definition XBEE_PKT_TYPE_ZB_RX_SENSOR :: u8 where "XBEE_PKT_TYPE_ZB_RX_SENSOR = 0x94"
definition XBEE_PKT_TYPE_ZB_NODE_IDENT :: u8 where "XBEE_PKT_TYPE_ZB_NODE_IDENT = 0x95"

lemmas xbee_types = XBEE_PKT_TYPE_ATCMD_def XBEE_PKT_TYPE_QATCMD_def XBEE_PKT_TYPE_REMOTE_ATCMD_def
  XBEE_PKT_TYPE_ATCMD_RESP_def XBEE_PKT_TYPE_MODEM_STATUS_def XBEE_PKT_TYPE_REMOTE_ATCMD_RESP_def
  XBEE_PKT_TYPE_TX64_def XBEE_PKT_TYPE_TX16_def XBEE_PKT_TYPE_RX64_def XBEE_PKT_TYPE_RX16_def
  XBEE_PKT_TYPE_RX64_IO_def XBEE_PKT_TYPE_RX16_IO_def XBEE_PKT_TYPE_TX_STATUS_def
  XBEE_PKT_TYPE_ZB_TX_REQ_def XBEE_PKT_TYPE_ZB_TX_STATUS_def XBEE_PKT_TYPE_ZB_RX_def
  XBEE_PKT_TYPE_ZB_RX_IO_def XBEE_PKT_TYPE_ZB_RX_SENSOR_def XBEE_PKT_TYPE_ZB_NODE_IDENT_def

text \<open>The sizes of the packed structures, without their trailing array.\<close>

definition sizeof_xXBeePktHdr :: nat where "sizeof_xXBeePktHdr = 3"
definition sizeof_xXBeeAtCmdPkt :: nat where "sizeof_xXBeeAtCmdPkt = 3 + 1 + 1 + 2"
definition sizeof_xXBeeAtCmdRespPkt :: nat where "sizeof_xXBeeAtCmdRespPkt = 3 + 1 + 1 + 2 + 1"
definition sizeof_xXBeeRemoteAtCmdPkt :: nat where
  "sizeof_xXBeeRemoteAtCmdPkt = 3 + 1 + 1 + 8 + 2 + 1 + 2"
definition sizeof_xXBeeRemoteAtCmdRespPkt :: nat where
  "sizeof_xXBeeRemoteAtCmdRespPkt = 3 + 1 + 1 + 8 + 2 + 2 + 1"
definition sizeof_xXBeeZbTxReqPkt :: nat where "sizeof_xXBeeZbTxReqPkt = 3 + 1 + 1 + 8 + 2 + 1 + 1"
definition sizeof_xXBeeZbRxPkt :: nat where "sizeof_xXBeeZbRxPkt = 3 + 1 + 8 + 2 + 1"
definition sizeof_xXBeeZbRxIoPkt :: nat where "sizeof_xXBeeZbRxIoPkt = 3 + 1 + 8 + 2 + 1 + 1 + 2 + 1"
definition sizeof_xXBeeTxReq64Pkt :: nat where "sizeof_xXBeeTxReq64Pkt = 3 + 1 + 1 + 8 + 1"
definition sizeof_xXBeeRx64Pkt :: nat where "sizeof_xXBeeRx64Pkt = 3 + 1 + 8 + 1 + 1"
definition sizeof_xXBeeTxReq16Pkt :: nat where "sizeof_xXBeeTxReq16Pkt = 3 + 1 + 1 + 2 + 1"
definition sizeof_xXBeeRx16Pkt :: nat where "sizeof_xXBeeRx16Pkt = 3 + 1 + 2 + 1 + 1"
definition sizeof_xXBeeRxIo64Pkt :: nat where "sizeof_xXBeeRxIo64Pkt = 3 + 1 + 8 + 1 + 1 + 1 + 2"
definition sizeof_xXBeeRxIo16Pkt :: nat where "sizeof_xXBeeRxIo16Pkt = 3 + 1 + 2 + 1 + 1 + 1 + 2"

lemmas xbee_sizes = sizeof_xXBeePktHdr_def sizeof_xXBeeAtCmdPkt_def sizeof_xXBeeAtCmdRespPkt_def
  sizeof_xXBeeRemoteAtCmdPkt_def sizeof_xXBeeRemoteAtCmdRespPkt_def sizeof_xXBeeZbTxReqPkt_def
  sizeof_xXBeeZbRxPkt_def sizeof_xXBeeZbRxIoPkt_def sizeof_xXBeeTxReq64Pkt_def
  sizeof_xXBeeRx64Pkt_def sizeof_xXBeeTxReq16Pkt_def sizeof_xXBeeRx16Pkt_def
  sizeof_xXBeeRxIo64Pkt_def sizeof_xXBeeRxIo16Pkt_def

text \<open>\<open>n\<close> bytes at offset \<open>i\<close>.\<close>

definition rdn :: "u8 list \<Rightarrow> nat \<Rightarrow> nat \<Rightarrow> u8 list run" where
  "rdn pkt i n = (if i + n \<le> length pkt then Inr (take n (drop i pkt)) else Inl OutOfBounds)"

definition ucXBeePktType :: "u8 list \<Rightarrow> u8 run" where
  "ucXBeePktType pkt = rd pkt 3"

definition usXBeePktLength :: "u8 list \<Rightarrow> u16 run" where
  "usXBeePktLength pkt = cbind (rdn pkt 1 2) (\<lambda>l. Inr (ntohs l))"

text \<open>A \<open>switch\<close> on the type of a packet with one constant per case.\<close>

definition switch_type :: "u8 list \<Rightarrow> (u8 \<times> 'a) list \<Rightarrow> 'a option run" where
  "switch_type pkt cases = cbind (ucXBeePktType pkt) (\<lambda>t. Inr (map_of cases t))"

text \<open>A one-byte field at the offset the packet type gives, -1 for the other types.\<close>

definition field_or_error :: "u8 list \<Rightarrow> (u8 \<times> nat) list \<Rightarrow> int run" where
  "field_or_error pkt cases =
     cbind (switch_type pkt cases) (\<lambda>c.
       case c of None \<Rightarrow> Inr (-1) | Some i \<Rightarrow> cbind (rd pkt i) (\<lambda>b. Inr (uint b)))"

section \<open>Checksum\<close>

text \<open>
  \<open>for (i = 0; i < ntohs (len); i++) crc += *(pkt_data++)\<close>, complemented: the length comes from
  the header, whatever the size of the block.
\<close>

fun sum_bytes :: "u8 list \<Rightarrow> nat \<Rightarrow> u8 \<Rightarrow> u8 run" where
  "sum_bytes bs 0 crc = Inr crc"
| "sum_bytes [] (Suc n) crc = Inl OutOfBounds"
| "sum_bytes (b # bs) (Suc n) crc = sum_bytes bs n (crc + b)"

definition ucXBeeCrc :: "u8 list \<Rightarrow> u8 run" where
  "ucXBeeCrc pkt =
     cbind (usXBeePktLength pkt) (\<lambda>n.
     cbind (sum_bytes (drop sizeof_xXBeePktHdr pkt) (unat n) 0) (\<lambda>crc. Inr (NOT crc)))"

section \<open>Accessors\<close>

definition pucXBeePktAddrSrc64 :: "u8 list \<Rightarrow> nat option run" where
  "pucXBeePktAddrSrc64 pkt = switch_type pkt
     [(XBEE_PKT_TYPE_REMOTE_ATCMD_RESP, 5), (XBEE_PKT_TYPE_RX64, 4), (XBEE_PKT_TYPE_RX64_IO, 4),
      (XBEE_PKT_TYPE_ZB_RX, 4), (XBEE_PKT_TYPE_ZB_RX_IO, 4), (XBEE_PKT_TYPE_ZB_RX_SENSOR, 4),
      (XBEE_PKT_TYPE_ZB_NODE_IDENT, 4)]"

definition pucXBeePktAddrSrc16 :: "u8 list \<Rightarrow> nat option run" where
  "pucXBeePktAddrSrc16 pkt = switch_type pkt
     [(XBEE_PKT_TYPE_REMOTE_ATCMD_RESP, 13), (XBEE_PKT_TYPE_RX16, 4), (XBEE_PKT_TYPE_RX16_IO, 4),
      (XBEE_PKT_TYPE_ZB_RX, 12), (XBEE_PKT_TYPE_ZB_RX_IO, 12), (XBEE_PKT_TYPE_ZB_RX_SENSOR, 12),
      (XBEE_PKT_TYPE_ZB_NODE_IDENT, 12)]"

definition pucXBeePktData :: "u8 list \<Rightarrow> nat option run" where
  "pucXBeePktData pkt = switch_type pkt
     [(XBEE_PKT_TYPE_RX64, sizeof_xXBeeRx64Pkt), (XBEE_PKT_TYPE_RX64_IO, sizeof_xXBeeRxIo64Pkt),
      (XBEE_PKT_TYPE_RX16, sizeof_xXBeeRx16Pkt), (XBEE_PKT_TYPE_RX16_IO, sizeof_xXBeeRxIo16Pkt),
      (XBEE_PKT_TYPE_ZB_RX, sizeof_xXBeeZbRxPkt), (XBEE_PKT_TYPE_ZB_RX_IO, sizeof_xXBeeZbRxIoPkt)]"

text \<open>\<open>usXBeePktLength (pkt) + 3 - sizeof\<close> of the type, -1 for the other types.\<close>

definition len_less_size :: "u8 list \<Rightarrow> (u8 \<times> nat) list \<Rightarrow> int run" where
  "len_less_size pkt cases =
     cbind (usXBeePktLength pkt) (\<lambda>l.
     cbind (switch_type pkt cases) (\<lambda>c.
       case c of None \<Rightarrow> Inr (-1) | Some s \<Rightarrow> Inr (uint l + 3 - int s)))"

definition iXBeePktDataLen :: "u8 list \<Rightarrow> int run" where
  "iXBeePktDataLen pkt = len_less_size pkt
     [(XBEE_PKT_TYPE_RX64, sizeof_xXBeeRx64Pkt), (XBEE_PKT_TYPE_RX64_IO, sizeof_xXBeeRxIo64Pkt),
      (XBEE_PKT_TYPE_RX16, sizeof_xXBeeRx16Pkt), (XBEE_PKT_TYPE_RX16_IO, sizeof_xXBeeRxIo16Pkt),
      (XBEE_PKT_TYPE_ZB_RX, sizeof_xXBeeZbRxPkt), (XBEE_PKT_TYPE_ZB_RX_IO, sizeof_xXBeeZbRxIoPkt)]"

definition iXBeePktFrameId :: "u8 list \<Rightarrow> int run" where
  "iXBeePktFrameId pkt = field_or_error pkt
     [(XBEE_PKT_TYPE_ATCMD, 4), (XBEE_PKT_TYPE_ATCMD_RESP, 4), (XBEE_PKT_TYPE_REMOTE_ATCMD, 4),
      (XBEE_PKT_TYPE_REMOTE_ATCMD_RESP, 4), (XBEE_PKT_TYPE_TX64, 4), (XBEE_PKT_TYPE_TX16, 4),
      (XBEE_PKT_TYPE_TX_STATUS, 4), (XBEE_PKT_TYPE_ZB_TX_REQ, 4), (XBEE_PKT_TYPE_ZB_TX_STATUS, 4)]"

definition iXBeePktStatus :: "u8 list \<Rightarrow> int run" where
  "iXBeePktStatus pkt = field_or_error pkt
     [(XBEE_PKT_TYPE_ATCMD_RESP, 7), (XBEE_PKT_TYPE_REMOTE_ATCMD_RESP, 17),
      (XBEE_PKT_TYPE_MODEM_STATUS, 4), (XBEE_PKT_TYPE_TX_STATUS, 5), (XBEE_PKT_TYPE_ZB_TX_STATUS, 8)]"

definition iXBeePktDiscovery :: "u8 list \<Rightarrow> int run" where
  "iXBeePktDiscovery pkt = field_or_error pkt [(XBEE_PKT_TYPE_ZB_TX_STATUS, 9)]"

definition iXBeePktRetry :: "u8 list \<Rightarrow> int run" where
  "iXBeePktRetry pkt = field_or_error pkt [(XBEE_PKT_TYPE_ZB_TX_STATUS, 7)]"

definition iXBeePktDst16 :: "u8 list \<Rightarrow> nat option run" where
  "iXBeePktDst16 pkt = switch_type pkt [(XBEE_PKT_TYPE_ZB_TX_STATUS, 5)]"

definition pcXBeePktCommand :: "u8 list \<Rightarrow> nat option run" where
  "pcXBeePktCommand pkt = switch_type pkt
     [(XBEE_PKT_TYPE_ATCMD, 5), (XBEE_PKT_TYPE_QATCMD, 5), (XBEE_PKT_TYPE_ATCMD_RESP, 5),
      (XBEE_PKT_TYPE_REMOTE_ATCMD, 16), (XBEE_PKT_TYPE_REMOTE_ATCMD_RESP, 15)]"

definition iXBeePktParamLen :: "u8 list \<Rightarrow> int run" where
  "iXBeePktParamLen pkt = len_less_size pkt
     [(XBEE_PKT_TYPE_ATCMD, sizeof_xXBeeAtCmdPkt), (XBEE_PKT_TYPE_QATCMD, sizeof_xXBeeAtCmdPkt),
      (XBEE_PKT_TYPE_ATCMD_RESP, sizeof_xXBeeAtCmdRespPkt),
      (XBEE_PKT_TYPE_REMOTE_ATCMD, sizeof_xXBeeRemoteAtCmdPkt),
      (XBEE_PKT_TYPE_REMOTE_ATCMD_RESP, sizeof_xXBeeRemoteAtCmdRespPkt)]"

definition pucXBeePktParam :: "u8 list \<Rightarrow> nat option run" where
  "pucXBeePktParam pkt = switch_type pkt
     [(XBEE_PKT_TYPE_ATCMD, sizeof_xXBeeAtCmdPkt), (XBEE_PKT_TYPE_QATCMD, sizeof_xXBeeAtCmdPkt),
      (XBEE_PKT_TYPE_ATCMD_RESP, sizeof_xXBeeAtCmdRespPkt),
      (XBEE_PKT_TYPE_REMOTE_ATCMD, sizeof_xXBeeRemoteAtCmdPkt),
      (XBEE_PKT_TYPE_REMOTE_ATCMD_RESP, sizeof_xXBeeRemoteAtCmdRespPkt)]"

text \<open>\<open>dst\<close> is the caller's array, of at least \<open>iDestSize\<close> bytes.\<close>

definition iXBeePktParamGetStr :: "u8 list \<Rightarrow> u8 list \<Rightarrow> int \<Rightarrow> (int \<times> u8 list) run" where
  "iXBeePktParamGetStr dst pkt iDestSize =
     cbind (iXBeePktParamLen pkt) (\<lambda>pl.
       let iLen = min pl iDestSize
       in if iLen \<ge> 0 then
            cbind (pucXBeePktParam pkt) (\<lambda>q.
            cbind (deref q) (\<lambda>off.
            cbind (c_strncpy (nat iLen) (drop off pkt)) (\<lambda>s.
            cbind (copy_into dst 0 s 0 (nat iLen)) (\<lambda>d1.
              if iLen < iDestSize
              then cbind (wr d1 (nat iLen) 0) (\<lambda>d2. Inr (iLen + 1, d2))
              else Inr (iLen, d1)))))
          else Inr (-1, dst))"

text \<open>
  The four readers of a big-endian parameter of \<open>size\<close> bytes.  \<open>iLen >= sizeof (...)\<close> compares
  an \<open>int\<close> with a \<open>size_t\<close>: a negative \<open>iLen\<close> is a large unsigned value.
\<close>

definition ge_size :: "int \<Rightarrow> nat \<Rightarrow> bool" where
  "ge_size iLen n \<longleftrightarrow> iLen < 0 \<or> iLen \<ge> int n"

definition param_bytes :: "nat \<Rightarrow> u8 list \<Rightarrow> int \<Rightarrow> u8 list option run" where
  "param_bytes n pkt iOffset =
     cbind (iXBeePktParamLen pkt) (\<lambda>pl.
       if ge_size (pl - iOffset) n
       then cbind (pucXBeePktParam pkt) (\<lambda>q.
            cbind (deref q) (\<lambda>off.
              if int off + iOffset < 0 then Inl OutOfBounds
              else cbind (rdn pkt (nat (int off + iOffset)) n) (\<lambda>bs. Inr (Some bs))))
       else Inr None)"

definition iXBeePktParamGetULong :: "u8 list \<Rightarrow> int \<Rightarrow> (int \<times> u32 option) run" where
  "iXBeePktParamGetULong pkt iOffset =
     cbind (param_bytes 4 pkt iOffset) (\<lambda>r.
       Inr (case r of Some bs \<Rightarrow> (0, Some (ntohl bs)) | None \<Rightarrow> (-1, None)))"

definition iXBeePktParamGetULongLong :: "u8 list \<Rightarrow> int \<Rightarrow> (int \<times> u64 option) run" where
  "iXBeePktParamGetULongLong pkt iOffset =
     cbind (param_bytes 8 pkt iOffset) (\<lambda>r.
       Inr (case r of Some bs \<Rightarrow> (0, Some (ntohll bs)) | None \<Rightarrow> (-1, None)))"

definition iXBeePktParamGetUShort :: "u8 list \<Rightarrow> int \<Rightarrow> (int \<times> u16 option) run" where
  "iXBeePktParamGetUShort pkt iOffset =
     cbind (param_bytes 2 pkt iOffset) (\<lambda>r.
       Inr (case r of Some bs \<Rightarrow> (0, Some (ntohs bs)) | None \<Rightarrow> (-1, None)))"

definition iXBeePktParamGetUByte :: "u8 list \<Rightarrow> int \<Rightarrow> (int \<times> u8 option) run" where
  "iXBeePktParamGetUByte pkt iOffset =
     cbind (param_bytes 1 pkt iOffset) (\<lambda>r.
       Inr (case r of Some bs \<Rightarrow> (0, Some (hd bs)) | None \<Rightarrow> (-1, None)))"

definition iXBeePktRadius :: "u8 list \<Rightarrow> int run" where
  "iXBeePktRadius pkt = field_or_error pkt [(XBEE_PKT_TYPE_ZB_TX_REQ, 15)]"

definition iXBeePktApply :: "u8 list \<Rightarrow> int run" where
  "iXBeePktApply pkt = field_or_error pkt [(XBEE_PKT_TYPE_REMOTE_ATCMD, 15)]"

definition iXBeePktRssi :: "u8 list \<Rightarrow> int run" where
  "iXBeePktRssi pkt = field_or_error pkt
     [(XBEE_PKT_TYPE_RX64, 12), (XBEE_PKT_TYPE_RX16, 6), (XBEE_PKT_TYPE_RX64_IO, 12),
      (XBEE_PKT_TYPE_RX16_IO, 6)]"

definition iXBeePktOptions :: "u8 list \<Rightarrow> int run" where
  "iXBeePktOptions pkt = field_or_error pkt
     [(XBEE_PKT_TYPE_TX64, 13), (XBEE_PKT_TYPE_RX64, 13), (XBEE_PKT_TYPE_TX16, 7),
      (XBEE_PKT_TYPE_RX16, 7), (XBEE_PKT_TYPE_RX64_IO, 13), (XBEE_PKT_TYPE_RX16_IO, 7),
      (XBEE_PKT_TYPE_ZB_TX_REQ, 16), (XBEE_PKT_TYPE_ZB_RX, 14), (XBEE_PKT_TYPE_ZB_RX_IO, 14),
      (XBEE_PKT_TYPE_ZB_RX_SENSOR, 14), (XBEE_PKT_TYPE_ZB_NODE_IDENT, 14)]"

definition XBEE_RX_FLAG_ADDR_BCAST :: int where "XBEE_RX_FLAG_ADDR_BCAST = 0x02"

definition iXBeePktIsBroadcast :: "u8 list \<Rightarrow> int run" where
  "iXBeePktIsBroadcast pkt =
     cbind (iXBeePktOptions pkt) (\<lambda>iOpt.
       if iOpt \<ge> 0 then Inr (if iOpt AND XBEE_RX_FLAG_ADDR_BCAST \<noteq> 0 then 1 else 0) else Inr iOpt)"

definition bXBeePktAddressIsEqual :: "u8 list \<Rightarrow> u8 list \<Rightarrow> nat \<Rightarrow> bool run" where
  "bXBeePktAddressIsEqual a1 a2 len =
     cbind (rdn a1 0 len) (\<lambda>x. cbind (rdn a2 0 len) (\<lambda>y. Inr (x = y)))"

definition pucXBeeAddr16Unknown :: "u8 list" where "pucXBeeAddr16Unknown = [0xFF, 0xFE]"
definition pucXBeeAddr64Unknown :: "u8 list" where "pucXBeeAddr64Unknown = replicate 8 0xFF"
definition pucXBeeAddr64Coordinator :: "u8 list" where "pucXBeeAddr64Coordinator = replicate 8 0"
definition pucXBeeAddr64Broadcast :: "u8 list" where
  "pucXBeeAddr64Broadcast = replicate 6 0 @ [0xFF, 0xFF]"

section \<open>Node identification (S2)\<close>

definition pucXBeePktAddrRemote64 :: "u8 list \<Rightarrow> nat option run" where
  "pucXBeePktAddrRemote64 pkt = switch_type pkt [(XBEE_PKT_TYPE_ZB_NODE_IDENT, 17)]"

definition pucXBeePktAddrRemote16 :: "u8 list \<Rightarrow> nat option run" where
  "pucXBeePktAddrRemote16 pkt = switch_type pkt [(XBEE_PKT_TYPE_ZB_NODE_IDENT, 15)]"

definition pcXBeePktNiString :: "u8 list \<Rightarrow> nat option run" where
  "pcXBeePktNiString pkt = switch_type pkt [(XBEE_PKT_TYPE_ZB_NODE_IDENT, 25)]"

text \<open>\<open>ni + strlen (ni) + 1\<close>: where the fixed fields after the name start.\<close>

definition pxXBeeZbNodeIdPktTail :: "u8 list \<Rightarrow> nat run" where
  "pxXBeeZbNodeIdPktTail pkt =
     cbind (pcXBeePktNiString pkt) (\<lambda>q.
     cbind (deref q) (\<lambda>ni.
     cbind (c_strlen (drop ni pkt)) (\<lambda>n. Inr (ni + n + 1))))"

text \<open>\<open>f\<close> of the tail of a node identification packet, \<open>e\<close> for other types.\<close>

definition node_tail :: "u8 list \<Rightarrow> 'a \<Rightarrow> (nat \<Rightarrow> 'a run) \<Rightarrow> 'a run" where
  "node_tail pkt e f =
     cbind (ucXBeePktType pkt) (\<lambda>t.
       if t = XBEE_PKT_TYPE_ZB_NODE_IDENT then cbind (pxXBeeZbNodeIdPktTail pkt) f else Inr e)"

definition pucXBeePktAddrParent16 :: "u8 list \<Rightarrow> nat option run" where
  "pucXBeePktAddrParent16 pkt = node_tail pkt None (\<lambda>i. Inr (Some i))"

definition eXBeePktDeviceType :: "u8 list \<Rightarrow> int run" where
  "eXBeePktDeviceType pkt = node_tail pkt (-1) (\<lambda>i. cbind (rd pkt (i + 2)) (\<lambda>b. Inr (uint b)))"

definition eXBeePktSourceEvent :: "u8 list \<Rightarrow> int run" where
  "eXBeePktSourceEvent pkt = node_tail pkt (-1) (\<lambda>i. cbind (rd pkt (i + 3)) (\<lambda>b. Inr (uint b)))"

definition iXBeePktProfileId :: "u8 list \<Rightarrow> int run" where
  "iXBeePktProfileId pkt =
     node_tail pkt (-1) (\<lambda>i. cbind (rdn pkt (i + 4) 2) (\<lambda>bs. Inr (uint (ntohs bs))))"

definition iXBeePktManufacturerId :: "u8 list \<Rightarrow> int run" where
  "iXBeePktManufacturerId pkt =
     node_tail pkt (-1) (\<lambda>i. cbind (rdn pkt (i + 6) 2) (\<lambda>bs. Inr (uint (ntohs bs))))"

section \<open>Samples (S1)\<close>

text \<open>The tests after the first look at \<open>len\<close>, not at \<open>mask\<close>.\<close>

definition sample_len_from_mask :: "u16 \<Rightarrow> u8" where
  "sample_len_from_mask msk =
     foldl (\<lambda>len b. if ucast len AND b \<noteq> 0 then len + 1 else len)
       (if msk AND 0x1ff \<noteq> 0 then 1 else 0) [0x0200 :: u16, 0x0400, 0x0800, 0x1000, 0x2000]"

text \<open>The offsets of \<open>num_samples\<close>, \<open>ch_mask\<close> and \<open>data\<close> in the two I/O packets.\<close>

definition io_layout :: "u8 \<Rightarrow> (nat \<times> nat \<times> nat) option" where
  "io_layout t =
     (if t = XBEE_PKT_TYPE_RX16_IO then Some (8, 9, sizeof_xXBeeRxIo16Pkt)
      else if t = XBEE_PKT_TYPE_RX64_IO then Some (14, 15, sizeof_xXBeeRxIo64Pkt)
      else None)"

text \<open>\<open>ntohs (data[i])\<close> for the \<open>uint16_t\<close> array at \<open>base\<close>.\<close>

definition io_data :: "u8 list \<Rightarrow> nat \<Rightarrow> nat \<Rightarrow> u16 run" where
  "io_data pkt base i = cbind (rdn pkt (base + 2 * i) 2) (\<lambda>bs. Inr (ntohs bs))"

definition iXBeePktDigital :: "u8 list \<Rightarrow> nat \<Rightarrow> (int \<times> int list) run" where
  "iXBeePktDigital pkt index =
     cbind (ucXBeePktType pkt) (\<lambda>t.
       case io_layout t of
         None \<Rightarrow> Inr (-1, replicate 9 (-1))
       | Some (n, c, d) \<Rightarrow>
           cbind (rdn pkt c 2) (\<lambda>m.
             let msk = ntohs m; samp_len = unat (sample_len_from_mask msk)
             in cbind (if msk AND 0x1ff \<noteq> 0
                       then cbind (rd pkt n) (\<lambda>num.
                              if index < unat num then io_data pkt d (index * samp_len) else Inr 0)
                       else Inr 0) (\<lambda>pin_vals.
                  Inr (int (length (filter (bit msk) [0..<9])),
                       map (\<lambda>i. if bit msk i then if bit pin_vals i then 1 else 0 else -1) [0..<9]))))"

text \<open>The six analog channels from \<open>i\<close> on, with the running position and count.\<close>

fun analog_from ::
    "u8 list \<Rightarrow> u16 \<Rightarrow> nat \<Rightarrow> nat \<Rightarrow> nat list \<Rightarrow> nat \<Rightarrow> nat \<Rightarrow> (nat \<times> int list) run" where
  "analog_from pkt msk base start [] pos npins = Inr (npins, [])"
| "analog_from pkt msk base start (i # is) pos npins =
     (if msk AND push_bit i 0x200 \<noteq> 0
      then cbind (io_data pkt base (start + pos)) (\<lambda>v.
           cbind (analog_from pkt msk base start is (pos + 1) (npins + 1)) (\<lambda>(n, vs).
             Inr (n, uint v # vs)))
      else cbind (analog_from pkt msk base start is pos npins) (\<lambda>(n, vs). Inr (n, -1 # vs)))"

definition iXBeePktAnalog :: "u8 list \<Rightarrow> nat \<Rightarrow> (int \<times> int list) run" where
  "iXBeePktAnalog pkt index =
     cbind (ucXBeePktType pkt) (\<lambda>t.
       case io_layout t of
         None \<Rightarrow> Inr (-1, replicate 6 (-1))
       | Some (n, c, d) \<Rightarrow>
           cbind (rdn pkt c 2) (\<lambda>m.
             let msk = ntohs m; samp_len = unat (sample_len_from_mask msk)
             in cbind (analog_from pkt msk d (index * samp_len) [0..<6]
                         (if msk AND 0x1ff \<noteq> 0 then 1 else 0) 0) (\<lambda>(k, vs). Inr (int k, vs))))"

text \<open>Both branches read the 16-bit layout.\<close>

definition iXBeePktSamples :: "u8 list \<Rightarrow> int run" where
  "iXBeePktSamples pkt = field_or_error pkt [(XBEE_PKT_TYPE_RX16_IO, 8), (XBEE_PKT_TYPE_RX64_IO, 8)]"

section \<open>Status texts\<close>

definition sUnknownStatus :: string where "sUnknownStatus = ''Unknown status''"

definition association_texts :: "(u8 \<times> string) list" where
  "association_texts =
     [(0x00, ''Successfully formed or joined a network.''),
      (0x21, ''Scan found no PANs'' @ [CHR 0xEF, CHR 0x80, CHR 0xA0]),
      (0x22, ''Scan found no valid PANs based on current SC and ID settings'' @ [CHR 0xEF, CHR 0x80, CHR 0xA0]),
      (0x23, ''Valid Coordinator or Routers found, but they are not allowing joining (NJ expired)''),
      (0x24, ''No joinable beacons were found''),
      (0x25, ''Unexpected state, node should not be attempting to join at this time''),
      (0x27, ''Node Joining attempt failed (typically due to incompatible security settings)''),
      (0x2A, ''Coordinator Start attempt failed''),
      (0x2B, ''Checking for an existing coordinator''),
      (0x2C, ''Attempt to leave the network failed''),
      (0xAB, ''Attempted to join a device that did not respond.''),
      (0xAC, ''Secure join error - network security key received unsecured''),
      (0xAD, ''Secure join error - network security key not received''),
      (0xAF, ''Secure join error - joining device does not have the right preconfigured link key''),
      (0xFF, ''Scanning for a ZigBee network'')]"

definition sXBeeAssociationStatusToString :: "u8 \<Rightarrow> string" where
  "sXBeeAssociationStatusToString status =
     (case map_of association_texts status of Some s \<Rightarrow> s | None \<Rightarrow> sUnknownStatus)"

definition transmit_texts :: "(u8 \<times> string) list" where
  "transmit_texts =
     [(0x01, ''MAC ACK Failure''),
      (0x02, ''CCA Failure''),
      (0x15, ''Invalid destination endpoint''),
      (0x21, ''Network ACK Failure''),
      (0x22, ''Not Joined to Network''),
      (0x23, ''Self-addressed''),
      (0x24, ''Address Not Found''),
      (0x25, ''Route Not Found''),
      (0x26, ''Broadcast source failed to hear a neighbor relay the message''),
      (0x2B, ''Invalid binding table index''),
      (0x2C, ''Resource error lack of free buffers, timers, etc.''),
      (0x2D, ''Attempted broadcast with APS transmission''),
      (0x2E, ''Attempted unicast with APS transmission, but EE=0''),
      (0x32, ''Resource error lack of free buffers, timers, etc.''),
      (0x74, ''Data payload too large'')]"

definition sXBeeTransmitStatusToString :: "u8 \<Rightarrow> string" where
  "sXBeeTransmitStatusToString status =
     (case map_of transmit_texts status of Some s \<Rightarrow> s | None \<Rightarrow> sUnknownStatus)"

definition modem_texts :: "(u8 \<times> string) list" where
  "modem_texts =
     [(0, ''Hardware reset''),
      (1, ''Watchdog timer reset''),
      (2, ''Joined network''),
      (3, ''Disassociated''),
      (6, ''Coordinator started''),
      (7, ''Network security key was updated''),
      (0x0D, ''Voltage supply limit exceeded''),
      (0x11, ''Modem configuration changed while join in progress'')]"

definition sXBeeModemStatusToString :: "u8 \<Rightarrow> string" where
  "sXBeeModemStatusToString status =
     (case map_of modem_texts status of
        Some s \<Rightarrow> s
      | None \<Rightarrow> if status \<ge> 0x80 then ''Stack error'' else sUnknownStatus)"

end
