(* ===== verification/Xbee_Link.thy ===== *)
theory Xbee_Link
  imports Xbee_Packet Byte_Receiver Driver_Monad
begin

text \<open>
  The context \<open>xXBee\<close> of \<open>src/src/xbee_private.h\<close> and the code that moves packets through it
  (\<open>xbee.c\<close>, \<open>xbee1.c\<close>, \<open>xbee2.c\<close>): the receiver \<open>vXBeeIn\<close> with its fall-through switch,
  the dispatch to the callbacks, and the functions that build and send packets.
\<close>

section \<open>State\<close>

definition XBEE_PKT_START :: u8 where "XBEE_PKT_START = 0x7e"
definition XBEE_MAX_RF_PAYLOAD :: nat where "XBEE_MAX_RF_PAYLOAD = 255"
definition XBEE_MAX_DATA_LEN :: nat where "XBEE_MAX_DATA_LEN = XBEE_MAX_RF_PAYLOAD - 4"
definition ENOMEM :: int where "ENOMEM = 12"
definition EINVAL :: int where "EINVAL = 22"

lemmas xbee_consts = XBEE_PKT_START_def XBEE_MAX_RF_PAYLOAD_def XBEE_MAX_DATA_LEN_def

text \<open>The kinds of callback, ordered by their values in C.\<close>

datatype eXBeeCbType =
    XBEE_CB_UNKNOWN | XBEE_CB_AT_LOCAL | XBEE_CB_AT_REMOTE | XBEE_CB_DATA | XBEE_CB_IO
  | XBEE_CB_TX_STATUS | XBEE_CB_MODEM_STATUS | XBEE_CB_SENSOR | XBEE_CB_NODE_IDENT

fun cb_value :: "eXBeeCbType \<Rightarrow> int" where
  "cb_value XBEE_CB_UNKNOWN = -1"
| "cb_value XBEE_CB_AT_LOCAL = 0"
| "cb_value XBEE_CB_AT_REMOTE = 1"
| "cb_value XBEE_CB_DATA = 2"
| "cb_value XBEE_CB_IO = 3"
| "cb_value XBEE_CB_TX_STATUS = 4"
| "cb_value XBEE_CB_MODEM_STATUS = 5"
| "cb_value XBEE_CB_SENSOR = 6"
| "cb_value XBEE_CB_NODE_IDENT = 7"

lemma cb_value_inj: "cb_value a = cb_value b \<Longrightarrow> a = b"
  by (cases a; cases b; simp)

instantiation eXBeeCbType :: linorder
begin

definition less_eq_eXBeeCbType :: "eXBeeCbType \<Rightarrow> eXBeeCbType \<Rightarrow> bool" where
  "less_eq_eXBeeCbType a b \<longleftrightarrow> cb_value a \<le> cb_value b"

definition less_eXBeeCbType :: "eXBeeCbType \<Rightarrow> eXBeeCbType \<Rightarrow> bool" where
  "less_eXBeeCbType a b \<longleftrightarrow> cb_value a < cb_value b"

instance
  by standard (auto simp: less_eq_eXBeeCbType_def less_eXBeeCbType_def intro: cb_value_inj)

end

abbreviation XBEE_CB_FIRST :: eXBeeCbType where "XBEE_CB_FIRST \<equiv> XBEE_CB_AT_LOCAL"
abbreviation XBEE_CB_LAST :: eXBeeCbType where "XBEE_CB_LAST \<equiv> XBEE_CB_NODE_IDENT"

text \<open>A pointer to a packet: NULL, a block, or a block that was freed.\<close>

datatype pkt_ptr = NoPkt | Pkt "u8 list" | FreedPkt

fun pkt_deref :: "pkt_ptr \<Rightarrow> u8 list run" where
  "pkt_deref NoPkt = Inl NullPointer"
| "pkt_deref (Pkt b) = Inr b"
| "pkt_deref FreedPkt = Inl UseAfterFree"

text \<open>A callback is known by a number; the environment says what it does.\<close>

record xXBee =
  xb_bytes_left :: u8
  xb_bytes_rcvd :: u8
  xb_packet :: pkt_ptr
  xb_hdr :: "u8 list"               \<comment> \<open>\<open>uint8_t hdr_data[3]\<close>\<close>
  xb_user_cb :: "nat option list"   \<comment> \<open>\<open>iXBeeRxCB user_cb[8]\<close>\<close>
  xb_frame_id :: u8
  xb_series :: int
  xb_fd :: int
  xb_user_context :: nat

definition XBEE_SERIES_S1 :: int where "XBEE_SERIES_S1 = 1"
definition XBEE_SERIES_S2 :: int where "XBEE_SERIES_S2 = 2"
definition XBEE_SERIES_S2B :: int where "XBEE_SERIES_S2B = 3"

lemmas xbee_series = XBEE_SERIES_S1_def XBEE_SERIES_S2_def XBEE_SERIES_S2B_def

text \<open>\<open>fd\<close> is what \<open>iSerialOpen\<close> returns.\<close>

definition xXBeeOpen :: "int \<Rightarrow> int \<Rightarrow> mem \<Rightarrow> (xXBee option \<times> mem) run" where
  "xXBeeOpen fd series m =
     (let (ok, m1) = malloc m
      in if \<not> ok then Inl AssertFailed
         else
           let x = \<lparr>xb_bytes_left = 0, xb_bytes_rcvd = 0, xb_packet = NoPkt, xb_hdr = [0, 0, 0],
                    xb_user_cb = replicate 8 None, xb_frame_id = 0, xb_series = 0, xb_fd = fd,
                    xb_user_context = 0\<rparr>
           in if fd \<ge> 0 then Inr (Some (x\<lparr>xb_series := series\<rparr>), m1)
              else Inr (None, free (Some x) m1))"

definition iXBeeClose :: "xXBee option \<Rightarrow> mem \<Rightarrow> int \<times> mem" where
  "iXBeeClose p m = (case p of Some _ \<Rightarrow> (0, free p m) | None \<Rightarrow> (-1, m))"

definition vXBeeSetCB :: "xXBee \<Rightarrow> eXBeeCbType \<Rightarrow> nat option \<Rightarrow> xXBee" where
  "vXBeeSetCB p cb_type cb =
     (if cb_type \<ge> XBEE_CB_FIRST \<and> cb_type \<le> XBEE_CB_LAST
      then p\<lparr>xb_user_cb := (xb_user_cb p)[nat (cb_value cb_type) := cb]\<rparr> else p)"

definition pvXBeeGetUserContext :: "xXBee \<Rightarrow> nat" where
  "pvXBeeGetUserContext p = xb_user_context p"

definition vXBeeSetUserContext :: "xXBee \<Rightarrow> nat \<Rightarrow> xXBee" where
  "vXBeeSetUserContext p c = p\<lparr>xb_user_context := c\<rparr>"

section \<open>Dispatch\<close>

text \<open>The callback for a packet type in a series, none where the code returns -1.\<close>

definition callback_of :: "int \<Rightarrow> u8 \<Rightarrow> eXBeeCbType option" where
  "callback_of series t =
     (if t = XBEE_PKT_TYPE_ATCMD_RESP then Some XBEE_CB_AT_LOCAL
      else if t = XBEE_PKT_TYPE_REMOTE_ATCMD_RESP then Some XBEE_CB_AT_REMOTE
      else if t = XBEE_PKT_TYPE_MODEM_STATUS then Some XBEE_CB_MODEM_STATUS
      else if series = XBEE_SERIES_S1 then
        if t = XBEE_PKT_TYPE_TX_STATUS then Some XBEE_CB_TX_STATUS
        else if t = XBEE_PKT_TYPE_RX16 \<or> t = XBEE_PKT_TYPE_RX64 then Some XBEE_CB_DATA
        else if t = XBEE_PKT_TYPE_RX16_IO \<or> t = XBEE_PKT_TYPE_RX64_IO then Some XBEE_CB_IO
        else None
      else if series = XBEE_SERIES_S2 \<or> series = XBEE_SERIES_S2B then
        if t = XBEE_PKT_TYPE_ZB_TX_STATUS then Some XBEE_CB_TX_STATUS
        else if t = XBEE_PKT_TYPE_ZB_RX then Some XBEE_CB_DATA
        else if t = XBEE_PKT_TYPE_ZB_RX_IO then Some XBEE_CB_IO
        else if t = XBEE_PKT_TYPE_ZB_RX_SENSOR then Some XBEE_CB_SENSOR
        else if t = XBEE_PKT_TYPE_ZB_NODE_IDENT then Some XBEE_CB_NODE_IDENT
        else None
      else None)"

text \<open>
  \<open>call cb pkt len e\<close> is what callback \<open>cb\<close> does with a packet in the application state
  \<open>e\<close>: its return value, what is left of the packet (it may have freed it) and the new state.
  The receive half of the context is opaque to applications, so a callback leaves it alone.
\<close>

type_synonym 'e callbacks = "nat \<Rightarrow> u8 list \<Rightarrow> u8 \<Rightarrow> 'e \<Rightarrow> int \<times> pkt_ptr \<times> 'e"

definition iXBeeRecvPktCB ::
    "'e callbacks \<Rightarrow> xXBee \<Rightarrow> u8 list \<Rightarrow> u8 \<Rightarrow> 'e \<Rightarrow> (int \<times> pkt_ptr \<times> 'e) run" where
  "iXBeeRecvPktCB call p pkt len e =
     cbind (ucXBeePktType pkt) (\<lambda>t.
       case callback_of (xb_series p) t of
         None \<Rightarrow> Inr (-1, Pkt pkt, e)
       | Some cb \<Rightarrow>
           cbind (rd (xb_user_cb p) (nat (cb_value cb))) (\<lambda>f.
             case f of None \<Rightarrow> Inr (-1, Pkt pkt, e) | Some g \<Rightarrow> Inr (call g pkt len e)))"

section \<open>Receiving\<close>

text \<open>The loop state of \<open>vXBeeIn\<close>: context, allocator, application, the bytes from \<open>data\<close>
  on and \<open>len\<close>; and how a part of the switch ends.\<close>

type_synonym 'e rx = "xXBee \<times> mem \<times> 'e \<times> u8 list \<times> nat"

datatype flow = Return | Continue | Through

definition thru :: "(flow \<times> 's) run \<Rightarrow> ('s \<Rightarrow> (flow \<times> 's) run) \<Rightarrow> (flow \<times> 's) run" where
  "thru r f = cbind r (\<lambda>(fl, s). if fl = Through then f s else Inr (fl, s))"

definition next_byte :: "u8 list \<Rightarrow> (u8 \<times> u8 list) run" where
  "next_byte data = (case data of [] \<Rightarrow> Inl OutOfBounds | c # cs \<Rightarrow> Inr (c, cs))"

text \<open>\<open>hdr_data[bytes_rcvd++] = c\<close>.\<close>

definition store_hdr :: "xXBee \<Rightarrow> u8 \<Rightarrow> xXBee run" where
  "store_hdr p c =
     cbind (wr (xb_hdr p) (unat (xb_bytes_rcvd p)) c) (\<lambda>h.
       Inr (p\<lparr>xb_hdr := h, xb_bytes_rcvd := xb_bytes_rcvd p + 1\<rparr>))"

text \<open>\<open>while (*data != XBEE_PKT_START) { if (--len == 0) return; data++; }\<close>.\<close>

fun hunt :: "u8 list \<Rightarrow> nat \<Rightarrow> (bool \<times> u8 list \<times> nat) run" where
  "hunt [] len = Inl OutOfBounds"
| "hunt (c # cs) len =
     (if c = XBEE_PKT_START then Inr (True, c # cs, len)
      else if len - 1 = 0 then Inr (False, c # cs, 0) else hunt cs (len - 1))"

definition rx_case0 :: "'e rx \<Rightarrow> (flow \<times> 'e rx) run" where
  "rx_case0 s =
     (case s of (p, m, e, data, len) \<Rightarrow>
        cbind (hunt data len) (\<lambda>(found, data1, len1).
          if \<not> found then Inr (Return, p, m, e, data1, len1)
          else cbind (next_byte data1) (\<lambda>(c, data2).
               cbind (store_hdr p c) (\<lambda>p1.
                 Inr (if len1 - 1 = 0 then Return else Through, p1, m, e, data2, len1 - 1)))))"

definition rx_case1 :: "'e rx \<Rightarrow> (flow \<times> 'e rx) run" where
  "rx_case1 s =
     (case s of (p, m, e, data, len) \<Rightarrow>
        cbind (next_byte data) (\<lambda>(c, data1).
        cbind (store_hdr p c) (\<lambda>p1.
          Inr (if len - 1 = 0 then Return else Through, p1, m, e, data1, len - 1))))"

text \<open>On a length it does not take the code leaves \<open>bytes_rcvd\<close> at 3 and does not count the byte.\<close>

definition rx_case2 :: "u8 \<Rightarrow> 'e rx \<Rightarrow> (flow \<times> 'e rx) run" where
  "rx_case2 junk s =
     (case s of (p, m, e, data, len) \<Rightarrow>
        cbind (next_byte data) (\<lambda>(c, data1).
        cbind (store_hdr p c) (\<lambda>p1.
        cbind (rdn (xb_hdr p1) 1 2) (\<lambda>l.
          let left = ucast (ntohs l) :: u8
          in if unat left > XBEE_MAX_DATA_LEN
             then Inr (Continue, p1\<lparr>xb_bytes_left := 0\<rparr>, m, e, data1, len)
             else
               let (ok, m1) = malloc m
               in if \<not> ok
                  then Inr (Continue, p1\<lparr>xb_packet := NoPkt, xb_bytes_left := 0\<rparr>, m1, e, data1, len)
                  else cbind (copy_into (replicate (unat (left + 4)) junk) 0 (xb_hdr p1) 0 3) (\<lambda>b.
                         Inr (if len - 1 = 0 then Return else Through,
                              p1\<lparr>xb_packet := Pkt b, xb_bytes_left := left + 1\<rparr>, m1, e, data1, len - 1))))))"

text \<open>\<open>while (bytes_left--) { packet[bytes_rcvd++] = *data++; if (!--len && bytes_left) return; }\<close>,
  by the value of \<open>bytes_left\<close>.\<close>

fun rx_fill :: "nat \<Rightarrow> 'e rx \<Rightarrow> (flow \<times> 'e rx) run" where
  "rx_fill 0 (p, m, e, data, len) = Inr (Through, p\<lparr>xb_bytes_left := -1\<rparr>, m, e, data, len)"
| "rx_fill (Suc k) (p, m, e, data, len) =
     cbind (pkt_deref (xb_packet p)) (\<lambda>b.
     cbind (next_byte data) (\<lambda>(c, data1).
     cbind (wr b (unat (xb_bytes_rcvd p)) c) (\<lambda>b1.
       let p1 = p\<lparr>xb_bytes_left := of_nat k, xb_packet := Pkt b1, xb_bytes_rcvd := xb_bytes_rcvd p + 1\<rparr>
       in if len - 1 = 0 \<and> k \<noteq> 0 then Inr (Return, p1, m, e, data1, len - 1)
          else rx_fill k (p1, m, e, data1, len - 1))))"

definition rx_default :: "'e rx \<Rightarrow> (flow \<times> 'e rx) run" where
  "rx_default s = rx_fill (unat (xb_bytes_left (fst s))) s"

text \<open>Freeing what is left of a packet; a callback that freed it has freed one block already.\<close>

fun pkt_free :: "pkt_ptr \<Rightarrow> mem \<Rightarrow> (pkt_ptr \<times> mem) run" where
  "pkt_free NoPkt m = Inr (NoPkt, m)"
| "pkt_free (Pkt b) m = Inr (FreedPkt, m\<lparr>live := live m - 1\<rparr>)"
| "pkt_free FreedPkt m = Inl UseAfterFree"

definition rx_check :: "'e callbacks \<Rightarrow> 'e rx \<Rightarrow> (flow \<times> 'e rx) run" where
  "rx_check call s =
     (case s of (p, m, e, data, len) \<Rightarrow>
        cbind (pkt_deref (xb_packet p)) (\<lambda>b.
        cbind (ucXBeeCrc b) (\<lambda>crc.
        cbind (rd b (unat (xb_bytes_rcvd p) - 1)) (\<lambda>last.
          if crc \<noteq> last then Inr (Continue, p\<lparr>xb_bytes_rcvd := 0\<rparr>, m, e, data, len)
          else cbind (iXBeeRecvPktCB call p b (xb_bytes_rcvd p) e) (\<lambda>(r, q, e1).
                 let m1 = (if q = FreedPkt then m\<lparr>live := live m - 1\<rparr> else m)
                 in cbind (if r = -1 then pkt_free q m1 else Inr (q, m1)) (\<lambda>(q1, m2).
                      Inr (Continue, p\<lparr>xb_packet := q1, xb_bytes_rcvd := 0\<rparr>, m2, e1, data, len)))))))"

definition rx_turn :: "u8 \<Rightarrow> 'e callbacks \<Rightarrow> 'e rx \<Rightarrow> (flow \<times> 'e rx) run" where
  "rx_turn junk call s =
     (let n = unat (xb_bytes_rcvd (fst s)) in
      thru (thru (thru (thru
        (if n = 0 then rx_case0 s else Inr (Through, s))
        (\<lambda>s. if n \<le> 1 then rx_case1 s else Inr (Through, s)))
        (\<lambda>s. if n \<le> 2 then rx_case2 junk s else Inr (Through, s)))
        rx_default)
        (rx_check call))"

subsection \<open>The loop ends\<close>

abbreviation rlen :: "'e rx \<Rightarrow> nat" where
  "rlen s \<equiv> snd (snd (snd (snd s)))"

abbreviation rrcvd :: "'e rx \<Rightarrow> nat" where
  "rrcvd s \<equiv> unat (xb_bytes_rcvd (fst s))"

lemma thru_Inr_iff:
  "thru r f = Inr (fl, s) \<longleftrightarrow>
     (\<exists>s1. r = Inr (Through, s1) \<and> f s1 = Inr (fl, s)) \<or> (fl \<noteq> Through \<and> r = Inr (fl, s))"
  by (cases r) (auto simp: thru_def split: if_splits)

lemma hunt_len: "hunt data len = Inr (True, d, l) \<Longrightarrow> l \<le> len \<and> (0 < len \<longrightarrow> 0 < l)"
  by (induction data len rule: hunt.induct) (auto split: if_splits)

lemma rx_case0_len: "rx_case0 s = Inr (fl, s1) \<Longrightarrow> fl \<noteq> Return \<Longrightarrow> 0 < rlen s \<Longrightarrow> fl = Through \<and> rlen s1 < rlen s"
  by (auto simp: rx_case0_def cbind_Inr_iff split: prod.splits if_splits dest!: hunt_len)

lemma rx_case1_len: "rx_case1 s = Inr (fl, s1) \<Longrightarrow> fl \<noteq> Return \<Longrightarrow> fl = Through \<and> rlen s1 = rlen s - 1"
  by (auto simp: rx_case1_def cbind_Inr_iff split: prod.splits if_splits)

lemma rx_case2_len:
  "rx_case2 junk s = Inr (fl, s1) \<Longrightarrow> fl \<noteq> Return \<Longrightarrow>
     (fl = Through \<and> rlen s1 = rlen s - 1) \<or>
     (fl = Continue \<and> rlen s1 = rlen s \<and> xb_bytes_rcvd (fst s1) = xb_bytes_rcvd (fst s) + 1)"
  by (auto simp: rx_case2_def store_hdr_def cbind_Inr_iff Let_def split: prod.splits if_splits)

lemma rx_fill_len: "rx_fill k s = Inr (fl, s1) \<Longrightarrow> fl \<noteq> Return \<Longrightarrow> fl = Through \<and> rlen s1 \<le> rlen s"
proof (induction k s rule: rx_fill.induct)
  case (1 p m e data len)
  then show ?case by auto
next
  case (2 k p m e data len)
  from "2.prems" obtain b c data1 b1 where
    *: "pkt_deref (xb_packet p) = Inr b" "next_byte data = Inr (c, data1)"
    "wr b (unat (xb_bytes_rcvd p)) c = Inr b1"
    and r: "rx_fill k (p\<lparr>xb_bytes_left := of_nat k, xb_packet := Pkt b1, xb_bytes_rcvd := xb_bytes_rcvd p + 1\<rparr>,
         m, e, data1, len - 1) = Inr (fl, s1)"
    by (auto simp: cbind_Inr_iff Let_def split: if_splits)
  have "\<not> (len - 1 = 0 \<and> k \<noteq> 0)" using "2.prems" * by (auto simp: Let_def split: if_splits)
  from "2.IH" [OF *(1) *(2) refl *(3) refl this] r "2.prems"(2) show ?case by auto
qed

lemma rx_check_len: "rx_check call s = Inr (fl, s1) \<Longrightarrow> fl = Continue \<and> rlen s1 = rlen s \<and> rrcvd s1 = 0"
  by (auto simp: rx_check_def cbind_Inr_iff split: prod.splits if_splits)

definition rx_rank :: "nat \<Rightarrow> nat" where
  "rx_rank n = (if n = 2 then 2 else if n \<ge> 3 then 1 else 0)"

lemma thru_assoc: "thru (thru r f) g = thru r (\<lambda>s. thru (f s) g)"
  by (cases r) (auto simp: thru_def)

lemma thru_Through [simp]: "thru (Inr (Through, s)) f = f s"
  by (simp add: thru_def)

text \<open>One turn of the loop, by the bytes received so far.\<close>

definition rx_last :: "'e callbacks \<Rightarrow> 'e rx \<Rightarrow> (flow \<times> 'e rx) run" where
  "rx_last call s = thru (rx_default s) (rx_check call)"

lemma rx_turn_cases:
  "rrcvd s = 0 \<Longrightarrow> rx_turn junk call s =
     thru (rx_case0 s) (\<lambda>s. thru (rx_case1 s) (\<lambda>s. thru (rx_case2 junk s) (rx_last call)))"
  "rrcvd s = 1 \<Longrightarrow> rx_turn junk call s =
     thru (rx_case1 s) (\<lambda>s. thru (rx_case2 junk s) (rx_last call))"
  "rrcvd s = 2 \<Longrightarrow> rx_turn junk call s = thru (rx_case2 junk s) (rx_last call)"
  "3 \<le> rrcvd s \<Longrightarrow> rx_turn junk call s = rx_last call s"
  by (simp_all add: rx_turn_def Let_def thru_assoc rx_last_def [abs_def])

lemma rx_last_len:
  "rx_last call s = Inr (fl, s1) \<Longrightarrow> fl \<noteq> Return \<Longrightarrow> rlen s1 \<le> rlen s \<and> rrcvd s1 = 0"
  by (auto simp: rx_last_def thru_Inr_iff rx_default_def dest!: rx_fill_len rx_check_len)

lemma rx_turn_2_len:
  assumes "thru (rx_case2 junk s) (rx_last call) = Inr (fl, s1)" "fl \<noteq> Return" "rrcvd s = 2"
  shows "rlen s1 \<le> rlen s \<and> (rlen s1 = rlen s \<longrightarrow> 0 < rlen s \<longrightarrow> rrcvd s1 = 3)"
proof -
  consider t where "rx_case2 junk s = Inr (Through, t)" "rx_last call t = Inr (fl, s1)"
    | "rx_case2 junk s = Inr (fl, s1)" "fl \<noteq> Through"
    using assms(1) by (auto simp: thru_Inr_iff)
  then show ?thesis
  proof cases
    case 1
    from rx_case2_len [OF 1(1)] rx_last_len [OF 1(2) assms(2)] show ?thesis by auto
  next
    case 2
    from rx_case2_len [OF 2(1) assms(2)] 2(2) assms(3) show ?thesis by (auto simp: unat_word_ariths)
  qed
qed

lemma rx_turn_12_len:
  assumes "thru (rx_case1 s) (\<lambda>s. thru (rx_case2 junk s) (rx_last call)) = Inr (fl, s1)" "fl \<noteq> Return"
  shows "rlen s1 \<le> rlen s - 1"
proof -
  from assms obtain t where t: "rx_case1 s = Inr (Through, t)" "thru (rx_case2 junk t) (rx_last call) = Inr (fl, s1)"
    by (auto simp: thru_Inr_iff dest: rx_case1_len)
  have "rlen s1 \<le> rlen t"
    using t(2) assms(2) by (auto simp: thru_Inr_iff dest!: rx_case2_len rx_last_len)
  with rx_case1_len [OF t(1)] show ?thesis by simp
qed

lemma rx_turn_decreases:
  assumes turn: "rx_turn junk call s = Inr (fl, s1)" "fl \<noteq> Return" "0 < rlen s"
  shows "rlen s1 < rlen s \<or> rlen s1 = rlen s \<and> rx_rank (rrcvd s1) < rx_rank (rrcvd s)"
proof -
  consider "rrcvd s = 0" | "rrcvd s = 1" | "rrcvd s = 2" | "rrcvd s \<ge> 3" by linarith
  then show ?thesis
  proof cases
    case 1
    then obtain a where a: "rx_case0 s = Inr (Through, a)"
      and rest: "thru (rx_case1 a) (\<lambda>s. thru (rx_case2 junk s) (rx_last call)) = Inr (fl, s1)"
      using turn by (auto simp: rx_turn_cases(1) thru_Inr_iff dest: rx_case0_len)
    have "rlen s1 < rlen s"
      using rx_case0_len [OF a flow.simps(4) turn(3)] rx_turn_12_len [OF rest turn(2)] by linarith
    then show ?thesis by simp
  next
    case 2
    with turn have "rlen s1 \<le> rlen s - 1"
      by (intro rx_turn_12_len [of s junk call fl s1]) (simp_all add: rx_turn_cases(2))
    with turn(3) have "rlen s1 < rlen s" by linarith
    then show ?thesis by simp
  next
    case 3
    with turn have "rlen s1 \<le> rlen s \<and> (rlen s1 = rlen s \<longrightarrow> 0 < rlen s \<longrightarrow> rrcvd s1 = 3)"
      by (intro rx_turn_2_len [of junk s call fl s1]) (simp_all add: rx_turn_cases(3))
    with 3 turn(3) show ?thesis by (auto simp: rx_rank_def)
  next
    case 4
    with turn rx_last_len [of call s fl s1] show ?thesis
      by (auto simp: rx_turn_cases(4) rx_rank_def)
  qed
qed

function xb_loop :: "u8 \<Rightarrow> 'e callbacks \<Rightarrow> 'e rx \<Rightarrow> (xXBee \<times> mem \<times> 'e) run" where
  "xb_loop junk call s =
     (if rlen s = 0 then Inr (fst s, fst (snd s), fst (snd (snd s)))
      else cbind (rx_turn junk call s) (\<lambda>(fl, s1).
        if fl = Return then Inr (fst s1, fst (snd s1), fst (snd (snd s1))) else xb_loop junk call s1))"
  by auto

termination xb_loop
  by (relation "measures [\<lambda>(junk, call, s). rlen s, \<lambda>(junk, call, s). rx_rank (rrcvd s)]")
    (auto dest: rx_turn_decreases)

declare xb_loop.simps [simp del]

definition vXBeeIn ::
    "u8 \<Rightarrow> 'e callbacks \<Rightarrow> xXBee \<Rightarrow> mem \<Rightarrow> 'e \<Rightarrow> u8 list \<Rightarrow> u8 \<Rightarrow> (xXBee \<times> mem \<times> 'e) run" where
  "vXBeeIn junk call p m e buf len = xb_loop junk call (p, m, e, buf, unat len)"

text \<open>\<open>avail\<close> is what \<open>iSerialPoll\<close> returns, \<open>input\<close> the bytes \<open>read\<close> finds, none when
  it fails.\<close>

definition iXBeePoll ::
    "u8 \<Rightarrow> 'e callbacks \<Rightarrow> xXBee \<Rightarrow> mem \<Rightarrow> 'e \<Rightarrow> int \<Rightarrow> u8 list option \<Rightarrow> (int \<times> xXBee \<times> mem \<times> 'e) run" where
  "iXBeePoll junk call p m e avail input =
     (if avail > 0 then
        (case input of
           None \<Rightarrow> Inr (-1, p, m, e)
         | Some bs \<Rightarrow>
             let ucBuffer = take (min (nat avail) XBEE_MAX_RF_PAYLOAD) bs
             in if length ucBuffer > 0
                then cbind (vXBeeIn junk call p m e ucBuffer (of_nat (length ucBuffer))) (\<lambda>(p1, m1, e1).
                       Inr (0, p1, m1, e1))
                else Inr (0, p, m, e))
      else Inr (avail, p, m, e))"

section \<open>Sending\<close>

definition ucXBeeNextFrameId :: "xXBee \<Rightarrow> u8 \<times> xXBee" where
  "ucXBeeNextFrameId p =
     (let i = xb_frame_id p + 1; i = (if i = 0 then i + 1 else i)
      in (i, p\<lparr>xb_frame_id := i\<rparr>))"

text \<open>\<open>write (fd, buf, n)\<close>: the plan gives the next results, a call past its end writes all.\<close>

definition write_n :: "u8 list \<Rightarrow> wdev \<Rightarrow> int \<times> wdev" where
  "write_n bs d =
     (case plan d of
        Granted \<Rightarrow> (int (length bs), d\<lparr>sent := sent d @ bs\<rparr>)
      | Answer r rs \<Rightarrow>
          if r < 0 then (-1, d\<lparr>plan := rs\<rparr>)
          else (int (min (nat r) (length bs)),
                d\<lparr>sent := sent d @ take (nat r) bs, plan := rs\<rparr>))"

text \<open>The loop of \<open>iXBeeOut\<close>: \<open>pkt\<close> points to structures of four bytes, so that
  \<open>&pkt[iDataWrite]\<close> is at offset \<open>4 * iDataWrite\<close>; the flag tells whether all was written.  The loop does
  not end when \<open>write\<close> returns 0 for ever.\<close>

partial_function (option) out_loop :: "u8 list \<Rightarrow> nat \<Rightarrow> nat \<Rightarrow> wdev \<Rightarrow> (bool \<times> wdev) out" where
  "out_loop pkt iDataWrite len d =
     (if len = 0 then ret (True, d)
      else obind (Some (rdn pkt (4 * iDataWrite) len)) (\<lambda>bs.
        let (r, d1) = write_n bs d
        in if r < 0 then ret (False, d1) else out_loop pkt (nat r) (len - nat r) d1))"

declare out_loop.simps [code]

text \<open>On success the packet is freed here; on failure it is left to the caller.\<close>

definition iXBeeOut :: "u8 list \<Rightarrow> u8 \<Rightarrow> mem \<Rightarrow> wdev \<Rightarrow> (int \<times> mem \<times> wdev) out" where
  "iXBeeOut pkt len m d =
     obind (out_loop pkt 0 (unat len) d) (\<lambda>(ok, d1).
       ret (if ok then (0, free (Some pkt) m, d1) else (-1, m, d1)))"

text \<open>Stores into a packet, in order.\<close>

fun puts :: "(nat \<times> u8 list) list \<Rightarrow> u8 list \<Rightarrow> u8 list run" where
  "puts [] pkt = Inr pkt"
| "puts ((i, bs) # xs) pkt = cbind (copy_into pkt i bs 0 (length bs)) (puts xs)"

text \<open>\<open>XBEE_HDR_INIT\<close>.\<close>

definition hdr_init :: "nat \<Rightarrow> u8 list" where
  "hdr_init data_len = XBEE_PKT_START # htons data_len"

text \<open>Checksum at offset \<open>i\<close>, output, and the common end of the senders.\<close>

definition seal :: "nat \<Rightarrow> u8 list \<Rightarrow> u8 list run" where
  "seal i pkt = cbind (ucXBeeCrc pkt) (\<lambda>crc. wr pkt i crc)"

definition iXBeeSendAt ::
    "u8 \<Rightarrow> xXBee \<Rightarrow> u8 list \<Rightarrow> u8 list option \<Rightarrow> u8 \<Rightarrow> mem \<Rightarrow> wdev \<Rightarrow> (int \<times> xXBee \<times> mem \<times> wdev) out" where
  "iXBeeSendAt junk p cmd params param_len m d =
     (let (ok, m1) = malloc m; n = unat param_len; size = unat (param_len + 8) in
      if \<not> ok then ret (- ENOMEM, p, m1, d)
      else
        let (frame_id, p1) = ucXBeeNextFrameId p
        in obind (Some (rdn cmd 0 2)) (\<lambda>command.
           obind (Some (puts [(0, hdr_init (n + 4)), (3, [XBEE_PKT_TYPE_ATCMD]), (4, [frame_id]), (5, command)]
                    (replicate size junk))) (\<lambda>b1.
           obind (Some (if params \<noteq> None \<and> n \<noteq> 0
                  then copy_into b1 sizeof_xXBeeAtCmdPkt (the params) 0 n else Inr b1)) (\<lambda>b2.
           obind (Some (seal (sizeof_xXBeeAtCmdPkt + n) b2)) (\<lambda>b3.
           obind (iXBeeOut b3 (of_nat (sizeof_xXBeeAtCmdPkt + n + 1)) m1 d) (\<lambda>(r, m2, d1).
             if r \<ge> 0 then ret (uint frame_id, p1, m2, d1)
             else ret (r, p1, free (Some b3) m2, d1)))))))"

definition iXBeeSendRemoteAt ::
    "u8 \<Rightarrow> xXBee \<Rightarrow> u8 list \<Rightarrow> u8 list \<Rightarrow> u8 \<Rightarrow> u8 list \<Rightarrow> u8 list \<Rightarrow> u8 \<Rightarrow> mem \<Rightarrow> wdev \<Rightarrow>
       (int \<times> xXBee \<times> mem \<times> wdev) out" where
  "iXBeeSendRemoteAt junk p cmd params param_len addr64 addr16 apply m d =
     (let (ok, m1) = malloc m; n = unat param_len; size = unat (param_len + 19) in
      if \<not> ok then ret (- ENOMEM, p, m1, d)
      else
        let (frame_id, p1) = ucXBeeNextFrameId p
        in obind (Some (rdn addr64 0 8)) (\<lambda>a64.
           obind (Some (rdn addr16 0 2)) (\<lambda>a16.
           obind (Some (rdn cmd 0 2)) (\<lambda>command.
           obind (Some (puts [(0, hdr_init (n + 15)), (3, [XBEE_PKT_TYPE_REMOTE_ATCMD]), (4, [frame_id]),
                        (5, a64), (13, a16), (15, [if apply \<noteq> 0 then 2 else 0]), (16, command)]
                    (replicate size junk))) (\<lambda>b1.
           obind (Some (copy_into b1 sizeof_xXBeeRemoteAtCmdPkt params 0 n)) (\<lambda>b2.
           obind (Some (seal (sizeof_xXBeeRemoteAtCmdPkt + n) b2)) (\<lambda>b3.
           obind (iXBeeOut b3 (of_nat (sizeof_xXBeeRemoteAtCmdPkt + n + 1)) m1 d) (\<lambda>(r, m2, d1).
             if r = 0 then ret (uint frame_id, p1, m2, d1)
             else ret (r, p1, free (Some b3) m2, d1)))))))))"

definition iXBeeSend64 ::
    "u8 \<Rightarrow> xXBee \<Rightarrow> u8 list \<Rightarrow> u8 \<Rightarrow> u8 list \<Rightarrow> u8 \<Rightarrow> mem \<Rightarrow> wdev \<Rightarrow> (int \<times> xXBee \<times> mem \<times> wdev) out" where
  "iXBeeSend64 junk p data len addr opt m d =
     (let (ok, m1) = malloc m; n = unat len; size = unat (len + 15) in
      if \<not> ok then ret (- ENOMEM, p, m1, d)
      else
        let (frame_id, p1) = ucXBeeNextFrameId p
        in obind (Some (rdn addr 0 8)) (\<lambda>a.
           obind (Some (puts [(0, hdr_init (n + 11)), (3, [XBEE_PKT_TYPE_TX64]), (5, a), (13, [opt]), (4, [frame_id])]
                    (replicate size junk))) (\<lambda>b1.
           obind (Some (copy_into b1 sizeof_xXBeeTxReq64Pkt data 0 n)) (\<lambda>b2.
           obind (Some (seal (sizeof_xXBeeTxReq64Pkt + n) b2)) (\<lambda>b3.
           obind (iXBeeOut b3 (of_nat (n + sizeof_xXBeeTxReq64Pkt + 1)) m1 d) (\<lambda>(r, m2, d1).
             if r \<ge> 0 then ret (uint frame_id, p1, m2, d1)
             else ret (r, p1, free (Some b3) m2, d1)))))))"

definition iXBeeSend16 ::
    "u8 \<Rightarrow> xXBee \<Rightarrow> u8 list \<Rightarrow> u8 \<Rightarrow> u8 list \<Rightarrow> u8 \<Rightarrow> mem \<Rightarrow> wdev \<Rightarrow> (int \<times> xXBee \<times> mem \<times> wdev) out" where
  "iXBeeSend16 junk p data len addr opt m d =
     (let (ok, m1) = malloc m; n = unat len; size = unat (len + 9) in
      if \<not> ok then ret (- ENOMEM, p, m1, d)
      else
        let (frame_id, p1) = ucXBeeNextFrameId p
        in obind (Some (rdn addr 0 2)) (\<lambda>a.
           obind (Some (puts [(0, hdr_init (n + 5)), (3, [XBEE_PKT_TYPE_TX16]), (5, a), (7, [opt]), (4, [frame_id])]
                    (replicate size junk))) (\<lambda>b1.
           obind (Some (copy_into b1 sizeof_xXBeeTxReq16Pkt data 0 n)) (\<lambda>b2.
           obind (Some (seal (sizeof_xXBeeTxReq16Pkt + n) b2)) (\<lambda>b3.
           obind (iXBeeOut b3 (of_nat (n + sizeof_xXBeeTxReq16Pkt + 1)) m1 d) (\<lambda>(r, m2, d1).
             if r \<ge> 0 then ret (uint frame_id, p1, m2, d1)
             else ret (r, p1, free (Some b3) m2, d1)))))))"

text \<open>The packet is not freed when the output fails.\<close>

definition iXBeeZbSend ::
    "u8 \<Rightarrow> xXBee option \<Rightarrow> u8 list option \<Rightarrow> u8 \<Rightarrow> u8 list option \<Rightarrow> u8 list option \<Rightarrow> u8 \<Rightarrow> u8 \<Rightarrow>
       mem \<Rightarrow> wdev \<Rightarrow> (int \<times> xXBee option \<times> mem \<times> wdev) out" where
  "iXBeeZbSend junk pp datap len addr64 addr16 opt radius m d =
     (case (pp, datap, addr64, addr16) of
        (Some p, Some data, Some a64p, Some a16p) \<Rightarrow>
          (let n = unat len; pkt_size = n + sizeof_xXBeeZbTxReqPkt + 1; (ok, m1) = malloc m in
           if \<not> ok then ret (- ENOMEM, pp, m1, d)
           else
             let (frame_id, p1) = ucXBeeNextFrameId p
             in obind (Some (rdn a64p 0 8)) (\<lambda>a64.
                obind (Some (rdn a16p 0 2)) (\<lambda>a16.
                obind (Some (puts [(0, hdr_init (pkt_size - 4)), (3, [XBEE_PKT_TYPE_ZB_TX_REQ]), (5, a64), (13, a16),
                             (16, [opt]), (15, [radius]), (4, [frame_id])]
                         (replicate (unat (of_nat pkt_size :: u8)) junk))) (\<lambda>b1.
                obind (Some (copy_into b1 sizeof_xXBeeZbTxReqPkt data 0 n)) (\<lambda>b2.
                obind (Some (seal (sizeof_xXBeeZbTxReqPkt + n) b2)) (\<lambda>b3.
                obind (iXBeeOut b3 (of_nat pkt_size) m1 d) (\<lambda>(r, m2, d1).
                  ret (if r = 0 then uint frame_id else r, Some p1, m2, d1))))))))
      | _ \<Rightarrow> ret (- EINVAL, pp, m, d))"

definition iXBeeZbSendToCoordinator ::
    "u8 \<Rightarrow> xXBee option \<Rightarrow> u8 list option \<Rightarrow> u8 \<Rightarrow> mem \<Rightarrow> wdev \<Rightarrow> (int \<times> xXBee option \<times> mem \<times> wdev) out" where
  "iXBeeZbSendToCoordinator junk pp data len m d =
     iXBeeZbSend junk pp data len (Some pucXBeeAddr64Coordinator) (Some pucXBeeAddr16Unknown) 0 0 m d"

definition iXBeeZbSendBroadcast ::
    "u8 \<Rightarrow> xXBee option \<Rightarrow> u8 list option \<Rightarrow> u8 \<Rightarrow> mem \<Rightarrow> wdev \<Rightarrow> (int \<times> xXBee option \<times> mem \<times> wdev) out" where
  "iXBeeZbSendBroadcast junk pp data len m d =
     iXBeeZbSend junk pp data len (Some pucXBeeAddr64Broadcast) (Some pucXBeeAddr16Unknown) 0 0 m d"

end
