(* ===== verification/Xbee_Recv.thy ===== *)
theory Xbee_Recv
  imports Xbee_Link
begin

text \<open>
  The loop of \<open>vXBeeIn\<close> implements a receiver that takes one byte at a time: however the bytes
  of the line are cut into buffers, the outcome is the same.
\<close>

section \<open>Ahead of the data\<close>

text \<open>Once \<open>len\<close> promises more bytes than there are, the loop reads past the end of the buffer.\<close>

definition ahead :: "'e rx \<Rightarrow> bool" where
  "ahead s \<longleftrightarrow> length (fst (snd (snd (snd s)))) < rlen s"

lemma next_byte_Inr: "next_byte data = Inr (c, cs) \<longleftrightarrow> data = c # cs"
  by (auto simp: next_byte_def split: list.splits)

lemma hunt_ahead:
  "hunt data len = Inr (found, d, l) \<Longrightarrow> length data < len \<Longrightarrow> found \<and> length d < l"
  by (induction data len rule: hunt.induct) (auto split: if_splits)

lemma rx_case0_ahead: "rx_case0 s = Inr (fl, s1) \<Longrightarrow> ahead s \<Longrightarrow> fl = Through \<and> ahead s1"
  by (auto simp: rx_case0_def ahead_def cbind_Inr_iff next_byte_Inr split: prod.splits if_splits
      dest!: hunt_ahead)

lemma rx_case1_ahead: "rx_case1 s = Inr (fl, s1) \<Longrightarrow> ahead s \<Longrightarrow> fl = Through \<and> ahead s1"
  by (auto simp: rx_case1_def ahead_def cbind_Inr_iff next_byte_Inr split: prod.splits if_splits)

lemma rx_case2_ahead: "rx_case2 junk s = Inr (fl, s1) \<Longrightarrow> ahead s \<Longrightarrow> fl \<noteq> Return \<and> ahead s1"
  by (auto simp: rx_case2_def ahead_def cbind_Inr_iff next_byte_Inr Let_def split: prod.splits if_splits)

lemma rx_fill_ahead: "rx_fill k s = Inr (fl, s1) \<Longrightarrow> ahead s \<Longrightarrow> fl = Through \<and> ahead s1"
proof (induction k s rule: rx_fill.induct)
  case (1 p m e data len)
  then show ?case by (auto simp: ahead_def)
next
  case (2 k p m e data len)
  from "2.prems" obtain b c data1 b1 where
    *: "pkt_deref (xb_packet p) = Inr b" "next_byte data = Inr (c, data1)"
    "wr b (unat (xb_bytes_rcvd p)) c = Inr b1"
    by (auto simp: cbind_Inr_iff)
  from "2.prems"(2) *(2) have "len - 1 \<noteq> 0" by (auto simp: ahead_def next_byte_Inr)
  then have "\<not> (len - 1 = 0 \<and> k \<noteq> 0)" by simp
  from "2.IH" [OF *(1) *(2) refl *(3) refl this] "2.prems" * \<open>len - 1 \<noteq> 0\<close> show ?case
    by (auto simp: ahead_def next_byte_Inr Let_def)
qed

lemma rx_check_ahead: "rx_check call s = Inr (fl, s1) \<Longrightarrow> ahead s \<Longrightarrow> fl = Continue \<and> ahead s1"
  by (auto simp: rx_check_def ahead_def cbind_Inr_iff split: prod.splits if_splits)

lemma rx_last_ahead: "rx_last call s = Inr (fl, s1) \<Longrightarrow> ahead s \<Longrightarrow> fl \<noteq> Return \<and> ahead s1"
  by (auto simp: rx_last_def rx_default_def thru_Inr_iff dest: rx_fill_ahead rx_check_ahead)

lemma rx_turn_ahead:
  assumes "rx_turn junk call s = Inr (fl, s1)" "ahead s"
  shows "fl \<noteq> Return \<and> ahead s1"
proof -
  have two: "fl \<noteq> Return \<and> ahead t1"
    if "thru (rx_case2 junk t) (rx_last call) = Inr (fl, t1)" "ahead t" for t t1 fl
    using that by (auto simp: thru_Inr_iff dest: rx_case2_ahead rx_last_ahead)
  have one: "fl \<noteq> Return \<and> ahead t1"
    if "thru (rx_case1 t) (\<lambda>s. thru (rx_case2 junk s) (rx_last call)) = Inr (fl, t1)" "ahead t" for t t1 fl
    using that two by (subst (asm) thru_Inr_iff) (blast dest: rx_case1_ahead)
  consider "rrcvd s = 0" | "rrcvd s = 1" | "rrcvd s = 2" | "rrcvd s \<ge> 3" by linarith
  then show ?thesis
  proof cases
    case 1
    with assms(1) consider a where "rx_case0 s = Inr (Through, a)"
        "thru (rx_case1 a) (\<lambda>s. thru (rx_case2 junk s) (rx_last call)) = Inr (fl, s1)"
      | "rx_case0 s = Inr (fl, s1)" "fl \<noteq> Through"
      unfolding rx_turn_cases(1) [OF 1] by (subst (asm) thru_Inr_iff) blast
    then show ?thesis using one assms(2) by cases (blast dest: rx_case0_ahead)+
  next
    case 2
    with assms one show ?thesis unfolding rx_turn_cases(2) [OF 2] by blast
  next
    case 3
    with assms two show ?thesis unfolding rx_turn_cases(3) [OF 3] by blast
  next
    case 4
    with assms show ?thesis unfolding rx_turn_cases(4) [OF 4] by (blast dest: rx_last_ahead)
  qed
qed

lemma xb_loop_ahead: "ahead s \<Longrightarrow> \<exists>c. xb_loop junk call s = Inl c"
proof (induction junk call s rule: xb_loop.induct)
  case (1 junk call s)
  from "1.prems" have nz: "rlen s \<noteq> 0" by (auto simp: ahead_def)
  show ?case
  proof (cases "rx_turn junk call s")
    case (Inl c)
    with nz show ?thesis by (subst xb_loop.simps) simp
  next
    case (Inr r)
    obtain fl s1 where r: "r = (fl, s1)" by (cases r)
    with Inr rx_turn_ahead "1.prems" have a: "fl \<noteq> Return" "ahead s1" by blast+
    from "1.IH" [OF nz Inr r [symmetric] a] obtain c where "xb_loop junk call s1 = Inl c" ..
    with Inr r a nz show ?thesis by (subst xb_loop.simps) simp
  qed
qed

section \<open>Byte by byte\<close>

text \<open>The effect of one byte on the context, the allocator and the application.\<close>

type_synonym 'e xb = "xXBee \<times> mem \<times> 'e"

definition xb_state :: "'e rx \<Rightarrow> 'e xb" where
  "xb_state s = (fst s, fst (snd s), fst (snd (snd s)))"

fun xb_step :: "u8 \<Rightarrow> 'e callbacks \<Rightarrow> 'e xb \<Rightarrow> u8 \<Rightarrow> 'e xb run" where
  "xb_step junk call (p, m, e) c =
     (let n = unat (xb_bytes_rcvd p) in
      if n = 0 \<and> c \<noteq> XBEE_PKT_START then Inr (p, m, e)
      else if n \<le> 1 then cbind (store_hdr p c) (\<lambda>p1. Inr (p1, m, e))
      else if n = 2 then
        cbind (rx_case2 junk (p, m, e, [c], 1)) (\<lambda>(fl, s).
          if fl = Continue then Inl OutOfBounds else Inr (xb_state s))
      else
        cbind (pkt_deref (xb_packet p)) (\<lambda>b.
        cbind (wr b n c) (\<lambda>b1.
          let k = unat (xb_bytes_left p) - 1;
              p1 = p\<lparr>xb_bytes_left := of_nat k, xb_packet := Pkt b1, xb_bytes_rcvd := xb_bytes_rcvd p + 1\<rparr>
          in if k \<noteq> 0 then Inr (p1, m, e)
             else cbind (rx_check call (p1\<lparr>xb_bytes_left := -1\<rparr>, m, e, [], 0)) (\<lambda>(fl, s).
                    Inr (xb_state s)))))"

fun xb_steps :: "u8 \<Rightarrow> 'e callbacks \<Rightarrow> 'e xb \<Rightarrow> u8 list \<Rightarrow> ('e xb \<times> u8 list) run" where
  "xb_steps junk call s [] = Inr (s, [])"
| "xb_steps junk call s (c # cs) = cbind (xb_step junk call s c) (\<lambda>s1. xb_steps junk call s1 cs)"

interpretation xb_rx: byte_receiver "xb_steps junk call" "xb_step junk call" "\<lambda>_. False"
  for junk :: u8 and call :: "'e callbacks"
  by unfold_locales simp_all

text \<open>A context between two calls: in a packet, the block is there and exactly large enough.\<close>

definition xb_wf :: "xXBee \<Rightarrow> bool" where
  "xb_wf p \<longleftrightarrow> length (xb_hdr p) = 3 \<and>
     (3 \<le> unat (xb_bytes_rcvd p) \<longrightarrow> (\<exists>b. xb_packet p = Pkt b \<and> 0 < unat (xb_bytes_left p) \<and>
        length b = unat (xb_bytes_rcvd p) + unat (xb_bytes_left p) \<and> length b \<le> 255))"

text \<open>Equal results, where the kind of a fault does not matter.\<close>

definition same_run :: "'a run \<Rightarrow> 'a run \<Rightarrow> bool" where
  "same_run r r' \<longleftrightarrow> (case r of Inl _ \<Rightarrow> (case r' of Inl _ \<Rightarrow> True | Inr _ \<Rightarrow> False) | Inr x \<Rightarrow> r' = Inr x)"

lemma same_run_refl [simp]: "same_run r r"
  by (cases r) (simp_all add: same_run_def)

lemma same_run_trans: "same_run a b \<Longrightarrow> same_run b c \<Longrightarrow> same_run a c"
  by (auto simp: same_run_def split: sum.splits)

lemma same_run_cbind: "(\<And>x. r = Inr x \<Longrightarrow> same_run (f x) (g x)) \<Longrightarrow> same_run (cbind r f) (cbind r g)"
  by (cases r) (simp_all add: same_run_def)

definition xb_cont :: "u8 \<Rightarrow> 'e callbacks \<Rightarrow> (flow \<times> 'e rx) run \<Rightarrow> 'e xb run" where
  "xb_cont junk call r = cbind r (\<lambda>(fl, s1). if fl = Return then Inr (xb_state s1) else xb_loop junk call s1)"

lemma xb_loop_turn: "rlen s \<noteq> 0 \<Longrightarrow> xb_loop junk call s = xb_cont junk call (rx_turn junk call s)"
  unfolding xb_cont_def xb_state_def by (subst xb_loop.simps) simp

lemma xb_loop_end [simp]: "xb_loop junk call (p, m, e, data, 0) = Inr (p, m, e)"
  by (subst xb_loop.simps) simp

lemma xb_cont_Return [simp]: "xb_cont junk call (Inr (Return, s)) = Inr (xb_state s)"
  by (simp add: xb_cont_def)

lemma xb_cont_Continue [simp]: "xb_cont junk call (Inr (Continue, s)) = xb_loop junk call s"
  by (simp add: xb_cont_def)

lemma xb_cont_thru_Return [simp]:
  "xb_cont junk call (thru (Inr (Return, s)) f) = Inr (xb_state s)"
  by (simp add: thru_def)

lemma store_hdr_ok:
  "length (xb_hdr p) = 3 \<Longrightarrow> unat (xb_bytes_rcvd p) \<le> 2 \<Longrightarrow>
     store_hdr p c = Inr (p\<lparr>xb_hdr := (xb_hdr p)[unat (xb_bytes_rcvd p) := c],
       xb_bytes_rcvd := xb_bytes_rcvd p + 1\<rparr>)"
  by (simp add: store_hdr_def)

lemma rcvd_Suc: "unat (x :: u8) < 255 \<Longrightarrow> unat (x + 1) = Suc (unat x)"
  by (simp add: unat_word_ariths)

text \<open>The length byte: the same with any data after it.\<close>

lemma rx_case2_cons:
  "rx_case2 junk (p, m, e, c # cs, Suc (length cs)) =
     cbind (rx_case2 junk (p, m, e, [c], 1)) (\<lambda>(fl, s).
       Inr (if fl = Continue then Continue else if cs = [] then Return else Through,
            fst s, fst (snd s), fst (snd (snd s)), cs,
            if fl = Continue then Suc (length cs) else length cs))"
proof (cases "store_hdr p c")
  case Inl
  then show ?thesis by (simp add: rx_case2_def next_byte_def)
next
  case (Inr p1)
  note store = Inr
  show ?thesis
  proof (cases "rdn (xb_hdr p1) 1 2")
    case Inl
    with store show ?thesis by (simp add: rx_case2_def next_byte_def)
  next
    case (Inr l)
    obtain ok m1 where m: "malloc m = (ok, m1)" by (cases "malloc m")
    show ?thesis
      by (cases "copy_into (replicate (unat ((ucast (ntohs l) :: u8) + 4)) junk) 0 (xb_hdr p1) 0 3")
        (use store Inr m in \<open>simp_all add: rx_case2_def next_byte_def Let_def\<close>)
  qed
qed

lemma rx_check_data:
  "rx_check call (p, m, e, data, len) = cbind (rx_check call (p, m, e, [], 0)) (\<lambda>(fl, s).
     Inr (Continue, fst s, fst (snd s), fst (snd (snd s)), data, len))"
proof (cases "pkt_deref (xb_packet p)")
  case Inl
  then show ?thesis by (simp add: rx_check_def)
next
  case (Inr b)
  note b = Inr
  show ?thesis
  proof (cases "cbind (ucXBeeCrc b) (\<lambda>crc. cbind (rd b (unat (xb_bytes_rcvd p) - 1)) (\<lambda>last. Inr (crc, last)))")
    case Inl
    with b show ?thesis by (auto simp: rx_check_def cbind_Inl_iff)
  next
    case (Inr x)
    then obtain crc last where c: "ucXBeeCrc b = Inr crc" "rd b (unat (xb_bytes_rcvd p) - 1) = Inr last"
      by (auto simp: cbind_Inr_iff)
    show ?thesis
    proof (cases "iXBeeRecvPktCB call p b (xb_bytes_rcvd p) e")
      case Inl
      with b c show ?thesis by (simp add: rx_check_def)
    next
      case (Inr y)
      obtain r q e1 where y: "y = (r, q, e1)" by (cases y)
      let ?m = "if q = FreedPkt then m\<lparr>live := live m - 1\<rparr> else m"
      show ?thesis
        by (cases "if r = -1 then pkt_free q ?m else Inr (q, ?m)")
          (use b c Inr y in \<open>auto simp: rx_check_def Let_def\<close>)
    qed
  qed
qed

lemma cont_case2:
  assumes wf: "xb_wf p" and n: "unat (xb_bytes_rcvd p) = 2"
  shows "same_run (xb_cont junk call (thru (rx_case2 junk (p, m, e, c # cs, Suc (length cs))) (rx_last call)))
    (cbind (xb_step junk call (p, m, e) c) (\<lambda>(p1, m1, e1). xb_loop junk call (p1, m1, e1, cs, length cs)))"
proof (cases "rx_case2 junk (p, m, e, [c], 1)")
  case Inl
  with n show ?thesis by (simp add: rx_case2_cons thru_def xb_cont_def)
next
  case (Inr r)
  obtain fl p1 m1 e1 d l where r: "r = (fl, p1, m1, e1, d, l)" by (cases r)
  have rc: "unat (xb_bytes_rcvd p1) = 3"
  proof -
    have "xb_bytes_rcvd p1 = xb_bytes_rcvd p + 1"
      using Inr r by (auto simp: rx_case2_def store_hdr_def cbind_Inr_iff Let_def split: prod.splits if_splits)
    then show ?thesis using n rcvd_Suc [of "xb_bytes_rcvd p"] by simp
  qed
  have "fl \<noteq> Through"
    using Inr r by (auto simp: rx_case2_def cbind_Inr_iff Let_def split: prod.splits if_splits)
  then consider "fl = Continue" | "fl = Return" "cs = []" | "fl \<noteq> Continue" "cs \<noteq> []" by (cases fl) auto
  then show ?thesis
  proof cases
    case 1
    have "\<exists>k. xb_loop junk call (p1, m1, e1, cs, Suc (length cs)) = Inl k"
      by (rule xb_loop_ahead) (simp add: ahead_def)
    with 1 Inr r n show ?thesis
      by (auto simp: rx_case2_cons thru_def same_run_def)
  next
    case 2
    with Inr r n show ?thesis
      by (simp add: rx_case2_cons xb_state_def)
  next
    case 3
    have "xb_loop junk call (p1, m1, e1, cs, length cs) =
        xb_cont junk call (rx_last call (p1, m1, e1, cs, length cs))"
      using 3(2) rc by (subst xb_loop_turn) (simp_all add: rx_turn_cases(4))
    with 3 Inr r n show ?thesis
      by (simp add: rx_case2_cons xb_state_def)
  qed
qed

lemma cont_last:
  assumes wf: "xb_wf p" and n: "3 \<le> unat (xb_bytes_rcvd p)"
  shows "xb_cont junk call (rx_last call (p, m, e, c # cs, Suc (length cs))) =
    cbind (xb_step junk call (p, m, e) c) (\<lambda>(p1, m1, e1). xb_loop junk call (p1, m1, e1, cs, length cs))"
proof -
  obtain b where b: "xb_packet p = Pkt b" "0 < unat (xb_bytes_left p)"
    "length b = unat (xb_bytes_rcvd p) + unat (xb_bytes_left p)" "length b \<le> 255"
    using wf n by (auto simp: xb_wf_def)
  obtain k where k: "unat (xb_bytes_left p) = Suc k" using b(2) by (cases "unat (xb_bytes_left p)") auto
  have k255: "k < 255" using k unsigned_less [of "xb_bytes_left p", where 'a = nat] by simp
  let ?p1 = "p\<lparr>xb_bytes_left := of_nat k, xb_packet := Pkt (b[unat (xb_bytes_rcvd p) := c]),
      xb_bytes_rcvd := xb_bytes_rcvd p + 1\<rparr>"
  have left: "unat (xb_bytes_left ?p1) = k" using k255 by (simp add: unat_of_nat)
  have rc: "unat (xb_bytes_rcvd ?p1) = Suc (unat (xb_bytes_rcvd p))"
    using b k rcvd_Suc [of "xb_bytes_rcvd p"] by simp
  have fill: "rx_fill (Suc k) (p, m, e, c # cs, Suc (length cs)) =
      (if cs = [] \<and> k \<noteq> 0 then Inr (Return, ?p1, m, e, cs, length cs) else rx_fill k (?p1, m, e, cs, length cs))"
    using b k by (simp add: next_byte_def Let_def)
  consider "k \<noteq> 0" "cs = []" | "k \<noteq> 0" "cs \<noteq> []" | "k = 0" by blast
  then show ?thesis
  proof cases
    case 1
    with b k fill n show ?thesis
      by (simp add: rx_last_def rx_default_def xb_state_def)
  next
    case 2
    have "xb_loop junk call (?p1, m, e, cs, length cs) = xb_cont junk call (rx_last call (?p1, m, e, cs, length cs))"
      using 2(2) rc n by (subst xb_loop_turn) (simp_all add: rx_turn_cases(4))
    moreover have "rx_last call (p, m, e, c # cs, Suc (length cs)) = rx_last call (?p1, m, e, cs, length cs)"
      using 2 k fill left by (simp add: rx_last_def rx_default_def)
    ultimately show ?thesis using 2(1) b k n by simp
  next
    case 3
    let ?p2 = "?p1\<lparr>xb_bytes_left := -1\<rparr>"
    have "rx_last call (p, m, e, c # cs, Suc (length cs)) = rx_check call (?p2, m, e, cs, length cs)"
      using 3 k fill by (simp add: rx_last_def rx_default_def)
    also have "\<dots> = cbind (rx_check call (?p2, m, e, [], 0)) (\<lambda>(fl, s).
        Inr (Continue, fst s, fst (snd s), fst (snd (snd s)), cs, length cs))"
      by (rule rx_check_data)
    finally show ?thesis
      using 3 b k n by (simp add: xb_cont_def cbind_assoc xb_state_def case_prod_unfold)
  qed
qed

lemma cont_case1:
  assumes wf: "xb_wf p" and n: "unat (xb_bytes_rcvd p) = 1"
  shows "xb_cont junk call (thru (rx_case1 (p, m, e, c # cs, Suc (length cs)))
      (\<lambda>s. thru (rx_case2 junk s) (rx_last call))) =
    cbind (xb_step junk call (p, m, e) c) (\<lambda>(p1, m1, e1). xb_loop junk call (p1, m1, e1, cs, length cs))"
proof -
  let ?p1 = "p\<lparr>xb_hdr := (xb_hdr p)[1 := c], xb_bytes_rcvd := xb_bytes_rcvd p + 1\<rparr>"
  have store: "store_hdr p c = Inr ?p1"
    using store_hdr_ok [of p c] wf n by (simp add: xb_wf_def)
  have rc: "unat (xb_bytes_rcvd ?p1) = 2" using n rcvd_Suc [of "xb_bytes_rcvd p"] by simp
  have step: "xb_step junk call (p, m, e) c = Inr (?p1, m, e)" using store n by simp
  have one: "rx_case1 (p, m, e, c # cs, Suc (length cs)) =
      Inr (if cs = [] then Return else Through, ?p1, m, e, cs, length cs)"
    using store by (simp add: rx_case1_def next_byte_def)
  show ?thesis
  proof (cases "cs = []")
    case True
    then show ?thesis unfolding one step by (simp add: xb_state_def)
  next
    case False
    then have "xb_loop junk call (?p1, m, e, cs, length cs) =
        xb_cont junk call (thru (rx_case2 junk (?p1, m, e, cs, length cs)) (rx_last call))"
      using rc by (subst xb_loop_turn) (simp_all add: rx_turn_cases(3))
    with False show ?thesis unfolding one step by simp
  qed
qed

lemma cont_case0:
  assumes wf: "xb_wf p" and n: "unat (xb_bytes_rcvd p) = 0"
  shows "xb_loop junk call (p, m, e, c # cs, Suc (length cs)) =
    cbind (xb_step junk call (p, m, e) c) (\<lambda>(p1, m1, e1). xb_loop junk call (p1, m1, e1, cs, length cs))"
proof -
  let ?rest = "\<lambda>s. thru (rx_case1 s) (\<lambda>s. thru (rx_case2 junk s) (rx_last call))"
  have loop: "xb_loop junk call (p, m, e, data, len) = xb_cont junk call (thru (rx_case0 (p, m, e, data, len)) ?rest)"
    if "len \<noteq> 0" for data len
    using that n by (subst xb_loop_turn) (simp_all add: rx_turn_cases(1))
  show ?thesis
  proof (cases "c = XBEE_PKT_START")
    case False
    then have step: "xb_step junk call (p, m, e) c = Inr (p, m, e)" using n by simp
    show ?thesis
    proof (cases "cs = []")
      case True
      with False have "rx_case0 (p, m, e, c # cs, Suc (length cs)) = Inr (Return, p, m, e, [c], 0)"
        by (simp add: rx_case0_def)
      with True step show ?thesis by (simp add: loop xb_state_def)
    next
      case nz: False
      with False have "rx_case0 (p, m, e, c # cs, Suc (length cs)) = rx_case0 (p, m, e, cs, length cs)"
        by (simp add: rx_case0_def)
      with nz step show ?thesis by (simp add: loop)
    qed
  next
    case True
    let ?p1 = "p\<lparr>xb_hdr := (xb_hdr p)[0 := c], xb_bytes_rcvd := xb_bytes_rcvd p + 1\<rparr>"
    have store: "store_hdr p c = Inr ?p1"
      using store_hdr_ok [of p c] wf n by (simp add: xb_wf_def)
    have rc: "unat (xb_bytes_rcvd ?p1) = 1" using n rcvd_Suc [of "xb_bytes_rcvd p"] by simp
    have step: "xb_step junk call (p, m, e) c = Inr (?p1, m, e)" using store n True by simp
    have zero: "rx_case0 (p, m, e, c # cs, Suc (length cs)) =
        Inr (if cs = [] then Return else Through, ?p1, m, e, cs, length cs)"
      using store True by (simp add: rx_case0_def next_byte_def)
    show ?thesis
    proof (cases "cs = []")
      case True
      then show ?thesis unfolding step loop [OF Suc_not_Zero] zero by (simp add: xb_state_def)
    next
      case False
      then have "xb_loop junk call (?p1, m, e, cs, length cs) =
          xb_cont junk call (?rest (?p1, m, e, cs, length cs))"
        using rc by (subst xb_loop_turn) (simp_all add: rx_turn_cases(2))
      with False show ?thesis unfolding step loop [OF Suc_not_Zero] zero by simp
    qed
  qed
qed

lemma xb_loop_cons:
  assumes "xb_wf p"
  shows "same_run (xb_loop junk call (p, m, e, c # cs, Suc (length cs)))
    (cbind (xb_step junk call (p, m, e) c) (\<lambda>(p1, m1, e1). xb_loop junk call (p1, m1, e1, cs, length cs)))"
proof -
  let ?n = "unat (xb_bytes_rcvd p)" and ?s = "(p, m, e, c # cs, Suc (length cs))"
  have loop: "xb_loop junk call ?s = xb_cont junk call (rx_turn junk call ?s)"
    by (subst xb_loop_turn) simp_all
  consider "?n = 0" | "?n = 1" | "?n = 2" | "?n \<ge> 3" by linarith
  then show ?thesis
  proof cases
    case 1
    from cont_case0 [OF assms 1, of junk call m e c cs] show ?thesis by simp
  next
    case 2
    from cont_case1 [OF assms 2, of junk call m e c cs] 2 loop show ?thesis
      by (simp add: rx_turn_cases(2))
  next
    case 3
    from cont_case2 [OF assms 3, of junk call m e c cs] 3 loop show ?thesis
      by (simp add: rx_turn_cases(3) del: xb_step.simps)
  next
    case 4
    from cont_last [OF assms 4, of junk call m e c cs] 4 loop show ?thesis
      by (simp add: rx_turn_cases(4) del: xb_step.simps)
  qed
qed

lemma case2_wf:
  assumes wf: "xb_wf p" and n: "unat (xb_bytes_rcvd p) = 2"
    and r: "rx_case2 junk (p, m, e, [c], 1) = Inr (fl, s)" "fl \<noteq> Continue"
  shows "xb_wf (fst s)"
proof -
  have store: "store_hdr p c = Inr (p\<lparr>xb_hdr := (xb_hdr p)[2 := c], xb_bytes_rcvd := xb_bytes_rcvd p + 1\<rparr>)"
    using store_hdr_ok [of p c] wf n by (simp add: xb_wf_def)
  from r store obtain l b where l: "unat (ucast (ntohs l) :: u8) \<le> XBEE_MAX_DATA_LEN"
    and b: "copy_into (replicate (unat ((ucast (ntohs l) :: u8) + 4)) junk) 0 ((xb_hdr p)[2 := c]) 0 3 = Inr b"
    and s: "fst s = p\<lparr>xb_hdr := (xb_hdr p)[2 := c], xb_bytes_rcvd := xb_bytes_rcvd p + 1,
        xb_packet := Pkt b, xb_bytes_left := (ucast (ntohs l) :: u8) + 1\<rparr>"
    by (auto simp: rx_case2_def next_byte_def cbind_Inr_iff Let_def not_less split: prod.splits if_splits)
  let ?x = "ucast (ntohs l) :: u8"
  have x: "unat ?x \<le> 251" using l by (simp add: xbee_consts)
  have "unat (?x + 4) = unat ?x + 4" "unat (?x + 1) = unat ?x + 1"
    using x by (simp_all add: unat_word_ariths)
  moreover have "length b = unat (?x + 4)" using copy_into_length [OF b] by simp
  moreover have "unat (xb_bytes_rcvd p + 1) = 3" using n rcvd_Suc [of "xb_bytes_rcvd p"] by simp
  ultimately show ?thesis using wf x unfolding s by (simp add: xb_wf_def)
qed

lemma rx_check_ctx:
  "rx_check call (p, m, e, d, l) = Inr (fl, s) \<Longrightarrow> \<exists>q. fst s = p\<lparr>xb_packet := q, xb_bytes_rcvd := 0\<rparr>"
proof -
  assume a: "rx_check call (p, m, e, d, l) = Inr (fl, s)"
  then have "fst s = p\<lparr>xb_bytes_rcvd := 0\<rparr> \<or> fst s = p\<lparr>xb_packet := xb_packet (fst s), xb_bytes_rcvd := 0\<rparr>"
    by (auto simp: rx_check_def cbind_Inr_iff split: prod.splits if_splits)
  moreover have "p\<lparr>xb_bytes_rcvd := 0\<rparr> = p\<lparr>xb_packet := xb_packet p, xb_bytes_rcvd := 0\<rparr>" by simp
  ultimately show ?thesis by metis
qed

lemma rx_check_hdr:
  "rx_check call (p, m, e, d, l) = Inr (fl, s) \<Longrightarrow> xb_hdr (fst s) = xb_hdr p \<and> xb_bytes_rcvd (fst s) = 0"
  by (drule rx_check_ctx) auto

lemma xb_step_wf:
  assumes wf: "xb_wf p" and step: "xb_step junk call (p, m, e) c = Inr (p1, m1, e1)"
  shows "xb_wf p1"
proof -
  let ?n = "unat (xb_bytes_rcvd p)"
  consider "?n = 0" "c \<noteq> XBEE_PKT_START" | "?n \<le> 1" "\<not> (?n = 0 \<and> c \<noteq> XBEE_PKT_START)" | "?n = 2" | "3 \<le> ?n"
    by linarith
  then show ?thesis
  proof cases
    case 1
    with assms show ?thesis by simp
  next
    case 2
    then have "store_hdr p c = Inr (p\<lparr>xb_hdr := (xb_hdr p)[?n := c], xb_bytes_rcvd := xb_bytes_rcvd p + 1\<rparr>)"
      using store_hdr_ok [of p c] wf by (simp add: xb_wf_def)
    moreover have "unat (xb_bytes_rcvd p + 1) = Suc ?n" using 2 by (intro rcvd_Suc) simp
    ultimately show ?thesis using 2 step wf by (auto simp: xb_wf_def)
  next
    case 3
    with step obtain fl s where "rx_case2 junk (p, m, e, [c], 1) = Inr (fl, s)" "fl \<noteq> Continue" "p1 = fst s"
      by (auto simp: cbind_Inr_iff xb_state_def split: if_splits)
    then show ?thesis using case2_wf [OF wf 3] by metis
  next
    case 4
    then obtain b where b: "xb_packet p = Pkt b" "0 < unat (xb_bytes_left p)"
      "length b = ?n + unat (xb_bytes_left p)" "length b \<le> 255"
      using wf by (auto simp: xb_wf_def)
    let ?k = "unat (xb_bytes_left p) - 1"
    have k: "unat (of_nat ?k :: u8) = ?k"
      using unsigned_less [of "xb_bytes_left p", where 'a = nat] by (simp add: unat_of_nat)
    have rc: "unat (xb_bytes_rcvd p + 1) = Suc ?n" using b by (intro rcvd_Suc) linarith
    show ?thesis
    proof (cases "?k = 0")
      case True
      with 4 step b obtain q fl s where "rx_check call (q, m, e, [], 0) = Inr (fl, s)" "p1 = fst s"
        "length (xb_hdr q) = 3"
        using wf by (auto simp: cbind_Inr_iff xb_state_def xb_wf_def)
      with rx_check_hdr show ?thesis by (fastforce simp: xb_wf_def)
    next
      case False
      with 4 step b have "p1 = p\<lparr>xb_bytes_left := of_nat ?k, xb_packet := Pkt (b[?n := c]),
          xb_bytes_rcvd := xb_bytes_rcvd p + 1\<rparr>" by (auto simp: Let_def)
      with False 4 b k rc wf show ?thesis by (auto simp: xb_wf_def)
    qed
  qed
qed

text \<open>The loop of \<open>vXBeeIn\<close> implements the byte-wise receiver.\<close>

lemma xb_loop_steps:
  "xb_wf p \<Longrightarrow> same_run (xb_loop junk call (p, m, e, data, length data))
     (cbind (xb_steps junk call (p, m, e) data) (\<lambda>(s, rest). Inr s))"
proof (induction data arbitrary: p m e)
  case Nil
  then show ?case by simp
next
  case (Cons c cs)
  have "same_run (cbind (xb_step junk call (p, m, e) c) (\<lambda>(p1, m1, e1). xb_loop junk call (p1, m1, e1, cs, length cs)))
      (cbind (xb_step junk call (p, m, e) c) (\<lambda>s1. cbind (xb_steps junk call s1 cs) (\<lambda>(s, rest). Inr s)))"
    by (rule same_run_cbind) (auto intro!: Cons.IH dest: xb_step_wf [OF Cons.prems] simp del: xb_step.simps)
  then show ?case
    using xb_loop_cons [OF Cons.prems, of junk call m e c cs]
    by (auto intro: same_run_trans simp: cbind_assoc simp del: xb_step.simps)
qed

lemma xb_steps_wf:
  "xb_wf (fst s) \<Longrightarrow> xb_steps junk call s data = Inr (s1, rest) \<Longrightarrow> xb_wf (fst s1) \<and> rest = []"
proof (induction data arbitrary: s)
  case Nil
  then show ?case by simp
next
  case (Cons c cs)
  obtain p m e where s: "s = (p, m, e)" by (cases s)
  from Cons.prems(2) obtain s2 where s2: "xb_step junk call s c = Inr s2" "xb_steps junk call s2 cs = Inr (s1, rest)"
    by (auto simp: cbind_Inr_iff simp del: xb_step.simps)
  from s2(1) Cons.prems(1) have "xb_wf (fst s2)"
    unfolding s by (cases s2) (auto dest: xb_step_wf simp del: xb_step.simps)
  with Cons.IH s2(2) show ?case by blast
qed

lemma u8_of_nat: "n < 256 \<Longrightarrow> unat (of_nat n :: u8) = n"
  by (simp add: unat_of_nat)

lemma vXBeeIn_Inr:
  assumes "xb_wf p" "length data \<le> 255"
  shows "vXBeeIn junk call p m e data (of_nat (length data)) = Inr s \<longleftrightarrow>
    xb_steps junk call (p, m, e) data = Inr (s, [])"
proof -
  have "vXBeeIn junk call p m e data (of_nat (length data)) = xb_loop junk call (p, m, e, data, length data)"
    using assms(2) by (simp add: vXBeeIn_def u8_of_nat)
  then show ?thesis
    using xb_loop_steps [OF assms(1), of junk call m e data] xb_steps_wf [of "(p, m, e)" junk call data] assms(1)
    by (auto simp: same_run_def cbind_Inr_iff split: sum.splits)
qed

text \<open>Consecutive calls, one for each buffer read from the line.\<close>

fun in_chunks :: "u8 \<Rightarrow> 'e callbacks \<Rightarrow> 'e xb \<Rightarrow> u8 list list \<Rightarrow> 'e xb run" where
  "in_chunks junk call s [] = Inr s"
| "in_chunks junk call (p, m, e) (c # cs) =
     cbind (vXBeeIn junk call p m e c (of_nat (length c))) (\<lambda>s1. in_chunks junk call s1 cs)"

lemma in_chunks_Inr:
  "xb_wf (fst s) \<Longrightarrow> \<forall>c \<in> set cs. length c \<le> 255 \<Longrightarrow>
     in_chunks junk call s cs = Inr s1 \<longleftrightarrow> xb_steps junk call s (concat cs) = Inr (s1, [])"
proof (induction cs arbitrary: s)
  case Nil
  then show ?case by auto
next
  case (Cons c cs)
  obtain p m e where s: "s = (p, m, e)" by (cases s)
  have "in_chunks junk call s2 cs = Inr s1 \<longleftrightarrow> xb_steps junk call s2 (concat cs) = Inr (s1, [])"
    if "xb_steps junk call s c = Inr (s2, [])" for s2
    using Cons.IH [of s2] Cons.prems xb_steps_wf [OF _ that] by simp
  then have "(\<exists>s2. xb_steps junk call s c = Inr (s2, []) \<and> in_chunks junk call s2 cs = Inr s1) \<longleftrightarrow>
      (\<exists>s2. xb_steps junk call s c = Inr (s2, []) \<and> xb_steps junk call s2 (concat cs) = Inr (s1, []))"
    by blast
  moreover have "in_chunks junk call s (c # cs) = Inr s1 \<longleftrightarrow>
      (\<exists>s2. xb_steps junk call s c = Inr (s2, []) \<and> in_chunks junk call s2 cs = Inr s1)"
    using Cons.prems by (simp add: s cbind_Inr_iff vXBeeIn_Inr)
  moreover have "xb_steps junk call s (concat (c # cs)) = Inr (s1, []) \<longleftrightarrow>
      (\<exists>s2. xb_steps junk call s c = Inr (s2, []) \<and> xb_steps junk call s2 (concat cs) = Inr (s1, []))"
    using xb_steps_wf [OF Cons.prems(1), of junk call c]
    by (fastforce simp: xb_rx.poll_append [of junk call s c "concat cs"] cbind_Inr_iff)
  ultimately show ?case by simp
qed

lemma same_runI: "(\<And>s. a = Inr s \<longleftrightarrow> b = Inr s) \<Longrightarrow> same_run a b"
  by (cases a; cases b) (auto simp: same_run_def)

text \<open>The way the bytes of the line are cut into buffers does not matter to
  \<open>vXBeeIn\<close>: from a context between two calls, any two ways to cut the same bytes have the same
  outcome (the same context, allocator and application state, or a fault in both).\<close>

theorem vXBeeIn_chunks:
  assumes "xb_wf p" "concat cs = concat ds" "\<forall>c \<in> set cs. length c \<le> 255" "\<forall>d \<in> set ds. length d \<le> 255"
  shows "same_run (in_chunks junk call (p, m, e) cs) (in_chunks junk call (p, m, e) ds)"
  using assms by (intro same_runI) (simp add: in_chunks_Inr)

definition ex_xbee :: xXBee where
  "ex_xbee = \<lparr>xb_bytes_left = 0, xb_bytes_rcvd = 0, xb_packet = NoPkt, xb_hdr = [0, 0, 0],
     xb_user_cb = (replicate 8 None)[2 := Some 7], xb_frame_id = 0, xb_series = XBEE_SERIES_S1, xb_fd = 3,
     xb_user_context = 0\<rparr>"

theorem vXBeeIn_chunks_witness:
  "same_run
     (in_chunks 0 (\<lambda>g w len e. (-1, Pkt w, e + 1)) (ex_xbee, \<lparr>mplan = [], live = 0\<rparr>, 0 :: nat) [[0x7E, 0, 2, 0x8A], [6, 0x6F]])
     (in_chunks 0 (\<lambda>g w len e. (-1, Pkt w, e + 1)) (ex_xbee, \<lparr>mplan = [], live = 0\<rparr>, 0) [[0x7E], [], [0, 2, 0x8A, 6, 0x6F]])"
  by (rule vXBeeIn_chunks) (simp_all add: ex_xbee_def xb_wf_def)

end
