(* ===== verification/Xbee_Delivery.thy ===== *)
theory Xbee_Delivery
  imports Xbee_Recv
begin

text \<open>
  What \<open>vXBeeIn\<close> does with whole packets: one with a correct length and checksum reaches its
  callback exactly once, whatever noise precedes it; one with a wrong checksum never does, but its
  block is not freed; one whose length field is above 251 makes it read out of bounds.
\<close>

section \<open>The header\<close>

definition xbee_wire :: "u8 list \<Rightarrow> u8 list" where
  "xbee_wire payload = XBEE_PKT_START # htons (length payload) @ payload @ [NOT (sum_list payload)]"

text \<open>A context that is filling the block \<open>b\<close>, at offset \<open>n\<close> with \<open>k\<close> bytes to come.\<close>

definition filling :: "xXBee \<Rightarrow> nat \<Rightarrow> u8 list \<Rightarrow> nat \<Rightarrow> xXBee" where
  "filling p k b n = p\<lparr>xb_bytes_left := of_nat k, xb_packet := Pkt b, xb_bytes_rcvd := of_nat n\<rparr>"

lemma filling_sel [simp]:
  "xb_bytes_left (filling p k b n) = of_nat k" "xb_packet (filling p k b n) = Pkt b"
  "xb_bytes_rcvd (filling p k b n) = of_nat n" "xb_hdr (filling p k b n) = xb_hdr p"
  "xb_series (filling p k b n) = xb_series p" "xb_user_cb (filling p k b n) = xb_user_cb p"
  by (simp_all add: filling_def)

lemma be_val_pair: "be_val [h, l] = 256 * unat h + unat l"
  by (simp add: be_val_def)

lemma ntohs_pair: "unat (ntohs [h, l]) = 256 * unat h + unat l"
proof -
  have "unat h < 256" "unat l < 256" using unsigned_less [of h, where 'a = nat] unsigned_less [of l, where 'a = nat] by simp_all
  then show ?thesis unfolding ntohs_def be_val_pair unat_of_nat by simp
qed

lemma ntohs_low: "ucast (ntohs [h, l]) = (l :: u8)"
proof (rule word_unat_eq_iff [THEN iffD2])
  have "unat (ucast (ntohs [h, l]) :: u8) = unat (ntohs [h, l]) mod 256"
    by (simp add: unsigned_ucast_eq take_bit_eq_mod)
  also have "\<dots> = unat l"
    using unsigned_less [of l, where 'a = nat] by (simp add: ntohs_pair)
  finally show "unat (ucast (ntohs [h, l]) :: u8) = unat l" .
qed

lemma three: "length xs = 3 \<Longrightarrow> \<exists>a b c. xs = [a, b, c]"
  by (auto simp: numeral_eq_Suc length_Suc_conv)

lemma rdn_len: "rdn [a, h, l] (Suc 0) 2 = Inr [h, l]"
  by (simp add: rdn_def)

lemma xb_noise:
  "xb_bytes_rcvd p = 0 \<Longrightarrow> XBEE_PKT_START \<notin> set noise \<Longrightarrow>
     xb_steps junk call (p, m, e) noise = Inr ((p, m, e), [])"
  by (induction noise) auto

lemma xb_header:
  assumes wf: "xb_wf p" and idle: "xb_bytes_rcvd p = 0" and alloc: "mplan m = []"
  shows "xb_steps junk call (p, m, e) [XBEE_PKT_START, h, l] =
    (if 251 < unat l then Inl OutOfBounds
     else Inr ((filling (p\<lparr>xb_hdr := [XBEE_PKT_START, h, l]\<rparr>) (unat l + 1)
       ([XBEE_PKT_START, h, l] @ replicate (unat l + 1) junk) 3, m\<lparr>live := live m + 1\<rparr>, e), []))"
proof -
  have "length (xb_hdr p) = 3" using wf by (simp add: xb_wf_def)
  then obtain a b c where hdr: "xb_hdr p = [a, b, c]" using three by blast
  let ?p2 = "p\<lparr>xb_hdr := [XBEE_PKT_START, h, c], xb_bytes_rcvd := 2\<rparr>"
  have two: "xb_steps junk call (p, m, e) [XBEE_PKT_START, h, l] = xb_steps junk call (?p2, m, e) [l]"
    using idle hdr by (simp add: store_hdr_def Let_def)
  show ?thesis
  proof (cases "251 < unat l")
    case True
    then show ?thesis unfolding two
      by (simp add: rx_case2_def next_byte_def store_hdr_def rdn_len ntohs_low xbee_consts Let_def)
  next
    case False
    then have "unat (l + 4) = unat l + 4" "l + 1 = of_nat (unat l + 1)"
      by (simp_all add: unat_word_ariths)
    moreover have "replicate (unat l + 4) junk = [junk, junk, junk] @ replicate (unat l + 1) junk"
      by (simp add: numeral_eq_Suc)
    ultimately show ?thesis using False alloc unfolding two
      by (simp add: rx_case2_def next_byte_def store_hdr_def rdn_len ntohs_low XBEE_MAX_DATA_LEN_def
          XBEE_MAX_RF_PAYLOAD_def Let_def copy_into_def xb_state_def filling_def)
  qed
qed

section \<open>The body\<close>

lemma xb_fill:
  "\<lbrakk>n = length h; 3 \<le> n; length gap = length xs + Suc k; n + length gap \<le> 255\<rbrakk> \<Longrightarrow>
     xb_steps junk call (filling p (length gap) (h @ gap) n, m, e) xs =
     Inr ((filling p (Suc k) (h @ xs @ drop (length xs) gap) (n + length xs), m, e), [])"
proof (induction xs arbitrary: n h gap)
  case Nil
  then show ?case by simp
next
  case (Cons x xs)
  obtain g gs where gap: "gap = g # gs" using Cons.prems(3) by (cases gap) auto
  have "h \<noteq> []" using Cons.prems by auto
  have n: "unat (of_nat n :: u8) = n" using Cons.prems by (intro u8_of_nat) simp
  have l: "unat (of_nat (length gap) :: u8) = length gap" using Cons.prems by (intro u8_of_nat) simp
  have "xb_step junk call (filling p (length gap) (h @ gap) n, m, e) x =
      Inr (filling p (length gs) ((h @ [x]) @ gs) (Suc n), m, e)"
    using Cons.prems n l gap \<open>h \<noteq> []\<close>
    by (simp add: filling_def list_update_append Let_def add.commute)
  with Cons.IH [of "Suc n" "h @ [x]" gs] Cons.prems gap show ?case
    by (simp del: xb_step.simps)
qed

lemma xb_last_step:
  assumes rc: "unat (of_nat n :: u8) = n" and n: "3 \<le> n" "n < length b" "b[n := c] = w"
    and q: "(filling p 0 w n)\<lparr>xb_bytes_left := 0, xb_packet := Pkt w,
        xb_bytes_rcvd := of_nat n + 1, xb_bytes_left := -1\<rparr> = q"
  shows "xb_steps junk call (filling p 1 b n, m, e) [c] =
    cbind (rx_check call (q, m, e, [], 0)) (\<lambda>(fl, s). Inr (xb_state s, []))"
proof -
  have "n \<noteq> 0" "\<not> n \<le> 1" "n \<noteq> 2" using n(1) by auto
  moreover have "(filling p 1 b n)\<lparr>xb_bytes_left := 0, xb_packet := Pkt w,
        xb_bytes_rcvd := of_nat n + 1, xb_bytes_left := -1\<rparr> = q"
    unfolding q [symmetric] filling_def by simp
  ultimately show ?thesis
    using n rc by (simp add: Let_def cbind_assoc case_prod_unfold)
qed

lemma sum_bytes_ok: "n \<le> length bs \<Longrightarrow> sum_bytes bs n c = Inr (c + sum_list (take n bs))"
  by (induction bs n c rule: sum_bytes.induct) (auto simp: add.assoc)

lemma sum_bytes_oob: "length bs < n \<Longrightarrow> sum_bytes bs n c = Inl OutOfBounds"
  by (induction bs n c rule: sum_bytes.induct) auto

lemma crc_block:
  "ucXBeeCrc (x # h # l # bs) =
     (if 256 * unat h + unat l \<le> length bs then Inr (NOT (sum_list (take (256 * unat h + unat l) bs)))
      else Inl OutOfBounds)"
  by (simp add: ucXBeeCrc_def usXBeePktLength_def rdn_def ntohs_pair sizeof_xXBeePktHdr_def
      sum_bytes_ok sum_bytes_oob)

text \<open>From the header to the check.\<close>

lemma xb_packet_steps:
  assumes wf: "xb_wf p" and idle: "xb_bytes_rcvd p = 0" and alloc: "mplan m = []"
    and len: "unat l \<le> 251" "length body = unat l"
    and w: "w = XBEE_PKT_START # h # l # body @ [c]"
  shows "xb_steps junk call (p, m, e) w =
    cbind (rx_check call (p\<lparr>xb_bytes_left := -1, xb_bytes_rcvd := of_nat (length w), xb_packet := Pkt w,
        xb_hdr := take 3 w\<rparr>, m\<lparr>live := live m + 1\<rparr>, e, [], 0)) (\<lambda>(fl, s). Inr (xb_state s, []))"
proof -
  let ?h = "[XBEE_PKT_START, h, l]" and ?n = "unat l"
  let ?p = "p\<lparr>xb_hdr := ?h\<rparr>" and ?m = "m\<lparr>live := live m + 1\<rparr>"
  let ?q = "p\<lparr>xb_bytes_left := -1, xb_bytes_rcvd := of_nat (length w), xb_packet := Pkt w, xb_hdr := take 3 w\<rparr>"
  have gap: "drop ?n (replicate (?n + 1) junk) = [junk]" by (simp only: drop_replicate) simp
  have "xb_steps junk call (p, m, e) (?h @ body) =
      Inr ((filling ?p 1 (?h @ body @ [junk]) (3 + ?n), ?m, e), [])"
  proof -
    have "xb_steps junk call (filling ?p (?n + 1) (?h @ replicate (?n + 1) junk) 3, ?m, e) body =
        Inr ((filling ?p 1 (?h @ body @ [junk]) (3 + ?n), ?m, e), [])"
      using xb_fill [of 3 ?h "replicate (?n + 1) junk" body 0 junk call ?p ?m e, unfolded len(2) gap length_replicate]
        len(1) by simp
    then show ?thesis
      using xb_header [OF wf idle alloc, of junk call e h l] len(1)
      unfolding xb_rx.poll_append [of junk call _ ?h body]
      by (simp only: cbind.simps split: if_splits) simp
  qed
  moreover have "xb_steps junk call (filling ?p 1 (?h @ body @ [junk]) (3 + ?n), ?m, e) [c] =
      cbind (rx_check call (?q, ?m, e, [], 0)) (\<lambda>(fl, s). Inr (xb_state s, []))"
  proof -
    have rc: "unat (of_nat (3 + ?n) :: u8) = 3 + ?n" using len by (intro u8_of_nat) simp
    have "(?h @ body @ [junk])[3 + ?n := c] = w"
      using len unfolding w by (simp add: list_update_append)
    moreover have "filling ?p 0 w (3 + ?n)\<lparr>xb_bytes_left := 0, xb_packet := Pkt w,
        xb_bytes_rcvd := of_nat (3 + ?n) + 1, xb_bytes_left := -1\<rparr> = ?q"
      using len by (cases p) (simp add: filling_def w)
    ultimately show ?thesis
      using len(1) by (intro xb_last_step [OF rc]) (simp_all add: len(2))
  qed
  moreover have "w = (?h @ body) @ [c]" by (simp add: w)
  then have "xb_steps junk call (p, m, e) w =
      cbind (xb_steps junk call (p, m, e) (?h @ body)) (\<lambda>(s1, rest). xb_steps junk call s1 (rest @ [c]))"
    by (simp only: xb_rx.poll_append [of junk call _ "?h @ body" "[c]"])
  ultimately show ?thesis by (simp only: cbind.simps split_conv append_Nil)
qed

section \<open>Whole packets\<close>

definition xb_idle :: "xXBee \<Rightarrow> bool" where
  "xb_idle p \<longleftrightarrow> xb_wf p \<and> xb_bytes_rcvd p = 0 \<and> length (xb_user_cb p) = 8"

text \<open>The context after the packet \<open>w\<close>, when \<open>q\<close> is left of its block.\<close>

definition received :: "xXBee \<Rightarrow> u8 list \<Rightarrow> pkt_ptr \<Rightarrow> xXBee" where
  "received p w q = p\<lparr>xb_bytes_left := -1, xb_bytes_rcvd := 0, xb_packet := q, xb_hdr := take 3 w\<rparr>"

definition handler :: "xXBee \<Rightarrow> u8 list \<Rightarrow> nat option" where
  "handler p payload =
     (case callback_of (xb_series p) (hd payload) of
        None \<Rightarrow> None | Some cb \<Rightarrow> xb_user_cb p ! nat (cb_value cb))"

lemma callback_of_range: "callback_of series t = Some cb \<Longrightarrow> nat (cb_value cb) < 8"
  by (auto simp: callback_of_def split: if_splits)

lemma xb_idle_open [simp]:
  "xb_idle \<lparr>xb_bytes_left = 0, xb_bytes_rcvd = 0, xb_packet = NoPkt, xb_hdr = [0, 0, 0],
     xb_user_cb = replicate 8 None, xb_frame_id = 0, xb_series = s, xb_fd = fd, xb_user_context = 0\<rparr>"
  by (simp add: xb_idle_def xb_wf_def)

lemma xb_idle_received: "xb_idle p \<Longrightarrow> 3 \<le> length w \<Longrightarrow> xb_idle (received p w q)"
  by (simp add: xb_idle_def received_def xb_wf_def)

lemma handler_received [simp]: "handler (received p w q) = handler p"
  by (simp add: fun_eq_iff handler_def received_def split: option.split)

lemma received_twice [simp]: "received (received p w q) w' q' = received p w' q'"
  by (cases p) (simp add: received_def)

lemma xbee_wire_length [simp]: "length (xbee_wire payload) = length payload + 4"
  by (simp add: xbee_wire_def htons_def)

lemma dispatch:
  assumes "xb_idle p" "xb_user_cb p' = xb_user_cb p" "xb_series p' = xb_series p" "w = a # b # c # payload @ d" "payload \<noteq> []"
  shows "iXBeeRecvPktCB call p' w len e =
    (case handler p payload of None \<Rightarrow> Inr (-1, Pkt w, e) | Some g \<Rightarrow> Inr (call g w len e))"
proof -
  have "ucXBeePktType w = Inr (hd payload)"
    using assms(4,5) by (cases payload) (simp_all add: ucXBeePktType_def)
  with assms(1-3) show ?thesis
    by (auto simp: iXBeeRecvPktCB_def handler_def xb_idle_def dest!: callback_of_range split: option.splits)
qed

text \<open>The check at the end of a packet whose length byte is right, for any last byte.\<close>

lemma xb_packet_checked:
  assumes idle: "xb_idle p" and alloc: "mplan m = []" and noise: "XBEE_PKT_START \<notin> set noise"
    and len: "0 < length payload" "length payload \<le> 251"
    and w: "w = XBEE_PKT_START # htons (length payload) @ payload @ [c]"
  shows "xb_steps junk call (p, m, e) (noise @ w) =
    (if c \<noteq> NOT (sum_list payload) then Inr ((received p w (Pkt w), m\<lparr>live := live m + 1\<rparr>, e), [])
     else case handler p payload of
       None \<Rightarrow> Inr ((received p w FreedPkt, m\<lparr>live := live m\<rparr>, e), [])
     | Some g \<Rightarrow>
         (case call g w (of_nat (length w)) e of (r, q, e1) \<Rightarrow>
            if r = -1 \<and> q = FreedPkt then Inl UseAfterFree
            else Inr ((received p w (if r = -1 \<and> q \<noteq> NoPkt then FreedPkt else q),
              m\<lparr>live := live m + (if q = FreedPkt \<or> (r = -1 \<and> q \<noteq> NoPkt) then 0 else 1)\<rparr>, e1), [])))"
proof -
  let ?l = "of_nat (length payload) :: u8" and ?m = "m\<lparr>live := live m + 1\<rparr>"
  let ?p = "p\<lparr>xb_bytes_left := -1, xb_bytes_rcvd := of_nat (length w), xb_packet := Pkt w, xb_hdr := take 3 w\<rparr>"
  have l: "unat ?l = length payload" using len by (intro u8_of_nat) simp
  have w': "w = XBEE_PKT_START # 0 # ?l # payload @ [c]" using len by (simp add: w htons_def)
  have n: "unat (of_nat (length w) :: u8) = length w" using len by (intro u8_of_nat) (simp add: w')
  have ctx: "?p\<lparr>xb_bytes_rcvd := 0\<rparr> = received p w (Pkt w)" "?p\<lparr>xb_packet := q, xb_bytes_rcvd := 0\<rparr> = received p w q" for q
    by (cases p, simp add: received_def)+
  have crc: "ucXBeeCrc w = Inr (NOT (sum_list payload))"
    unfolding w' crc_block by (simp add: l)
  have last: "rd w (length w - 1) = Inr c" by (simp add: w' nth_append)
  have disp: "iXBeeRecvPktCB call ?p w len e =
      (case handler p payload of None \<Rightarrow> Inr (-1, Pkt w, e) | Some g \<Rightarrow> Inr (call g w len e))" for len
    using len by (intro dispatch [OF idle _ _ w']) auto
  have "xb_steps junk call (p, m, e) (noise @ w) = xb_steps junk call (p, m, e) w"
    using idle noise by (simp add: xb_rx.poll_append [of junk call _ noise] xb_noise xb_idle_def)
  also have "\<dots> = cbind (rx_check call (?p, ?m, e, [], 0)) (\<lambda>(fl, s). Inr (xb_state s, []))"
    using idle len by (intro xb_packet_steps [OF _ _ alloc _ _ w']) (simp_all add: l xb_idle_def)
  finally have eq: "xb_steps junk call (p, m, e) (noise @ w) = \<dots>" .
  show ?thesis
  proof (cases "c = NOT (sum_list payload)")
    case False
    have "rx_check call (?p, ?m, e, [], 0) = Inr (Continue, received p w (Pkt w), ?m, e, [], 0)"
      unfolding rx_check_def using False crc last n by (simp add: ctx)
    with eq False show ?thesis by (simp add: xb_state_def)
  next
    case True
    show ?thesis
    proof (cases "handler p payload")
      case None
      have "rx_check call (?p, ?m, e, [], 0) = Inr (Continue, received p w FreedPkt, m\<lparr>live := live m\<rparr>, e, [], 0)"
        unfolding rx_check_def using True crc last n disp None ctx(2) by simp
      with eq True None show ?thesis by (simp add: xb_state_def)
    next
      case (Some g)
      obtain r q e1 where call: "call g w (of_nat (length w)) e = (r, q, e1)" by (cases "call g w (of_nat (length w)) e")
      have "rx_check call (?p, ?m, e, [], 0) =
          (if r = -1 \<and> q = FreedPkt then Inl UseAfterFree
           else Inr (Continue, received p w (if r = -1 \<and> q \<noteq> NoPkt then FreedPkt else q),
              m\<lparr>live := live m + (if q = FreedPkt \<or> (r = -1 \<and> q \<noteq> NoPkt) then 0 else 1)\<rparr>, e1, [], 0))"
        unfolding rx_check_def using True crc last n disp Some call ctx(2) by (cases q) (simp_all add: Let_def)
      with eq True Some call show ?thesis by (simp add: xb_state_def)
    qed
  qed
qed

section \<open>Delivery\<close>

lemma in_chunks_steps: "xb_idle p \<Longrightarrow> \<forall>c \<in> set cs. length c \<le> 255 \<Longrightarrow>
    xb_steps junk call (p, m, e) (concat cs) = Inr (s, []) \<Longrightarrow> in_chunks junk call (p, m, e) cs = Inr s"
  by (simp add: in_chunks_Inr xb_idle_def)

lemma in_chunks_fault: "xb_idle p \<Longrightarrow> \<forall>c \<in> set cs. length c \<le> 255 \<Longrightarrow>
    xb_steps junk call (p, m, e) (concat cs) = Inl f \<Longrightarrow> \<exists>f. in_chunks junk call (p, m, e) cs = Inl f"
  by (cases "in_chunks junk call (p, m, e) cs") (simp_all add: in_chunks_Inr xb_idle_def)

text \<open>A packet with a correct length field and checksum, after any noise
  without a start byte and however it is cut into buffers, makes \<open>vXBeeIn\<close> call the callback
  registered for its type exactly once, with the bytes of the packet and their number: its effect is
  the only change of the application's state.  When the callback returns -1 the block is freed,
  otherwise the application owns it; the context waits for the next packet.\<close>

theorem vXBeeIn_delivers:
  assumes "xb_idle p" "mplan m = []" "XBEE_PKT_START \<notin> set noise"
    and "0 < length payload" "length payload \<le> XBEE_MAX_DATA_LEN" "handler p payload = Some g"
    and call: "call g (xbee_wire payload) (of_nat (length payload + 4)) e = (r, Pkt b, e1)"
    and chunks: "concat cs = noise @ xbee_wire payload" "\<forall>c \<in> set cs. length c \<le> 255"
  defines "w \<equiv> xbee_wire payload"
  shows "in_chunks junk call (p, m, e) cs =
    Inr (received p w (if r = -1 then FreedPkt else Pkt b),
      m\<lparr>live := live m + (if r = -1 then 0 else 1)\<rparr>, e1)"
proof (rule in_chunks_steps [OF assms(1) chunks(2)])
  have w: "w = XBEE_PKT_START # htons (length payload) @ payload @ [NOT (sum_list payload)]"
    by (simp add: w_def xbee_wire_def)
  have "call g w (of_nat (length w)) e = (r, Pkt b, e1)" using call by (simp add: w_def)
  then show "xb_steps junk call (p, m, e) (concat cs) = Inr ((received p w (if r = -1 then FreedPkt else Pkt b),
      m\<lparr>live := live m + (if r = -1 then 0 else 1)\<rparr>, e1), [])"
    using xb_packet_checked [OF assms(1-4) _ w, of junk call e] assms(5,6) chunks(1)
    by (simp add: xbee_consts w_def)
qed

lemma ex_xbee_idle: "xb_idle ex_xbee"
  by (simp add: xb_idle_def xb_wf_def ex_xbee_def)

theorem vXBeeIn_delivers_witness:
  "in_chunks 0 (\<lambda>g w len e. (0, Pkt w, e @ [(g, w, len)])) (ex_xbee, \<lparr>mplan = [], live = 0\<rparr>, [])
     [[1, 2], xbee_wire [0x81, 0, 9, 40, 0, 65]] =
   Inr (received ex_xbee (xbee_wire [0x81, 0, 9, 40, 0, 65]) (Pkt (xbee_wire [0x81, 0, 9, 40, 0, 65])),
     \<lparr>mplan = [], live = 1\<rparr>, [(7, xbee_wire [0x81, 0, 9, 40, 0, 65], 10)])"
  using vXBeeIn_delivers [OF ex_xbee_idle, where m = "\<lparr>mplan = [], live = 0\<rparr>" and noise = "[1, 2]" and g = 7
      and payload = "[0x81, 0, 9, 40, 0, 65]" and call = "\<lambda>g w len e. (0, Pkt w, e @ [(g, w, len)])" and junk = 0 and e = "[]"
      and cs = "[[1, 2], xbee_wire [0x81, 0, 9, 40, 0, 65]]"]
  by (simp add: xbee_consts handler_def ex_xbee_def callback_of_def xbee_types xbee_series)

text \<open>C14. A packet whose checksum is wrong never reaches a callback: the
  application's state is unchanged and the context waits for the next packet.  But the block
  allocated for it is not freed: every such packet leaks one block.\<close>

theorem vXBeeIn_bad_crc:
  assumes "xb_idle p" "mplan m = []" "0 < length payload" "length payload \<le> XBEE_MAX_DATA_LEN"
    and "c \<noteq> NOT (sum_list payload)"
  defines "w \<equiv> XBEE_PKT_START # htons (length payload) @ payload @ [c]"
  shows "\<exists>p1. vXBeeIn junk call p m e w (of_nat (length w)) = Inr (p1, m\<lparr>live := live m + 1\<rparr>, e) \<and> xb_idle p1"
proof -
  have "xb_steps junk call (p, m, e) ([] @ w) = Inr ((received p w (Pkt w), m\<lparr>live := live m + 1\<rparr>, e), [])"
    using xb_packet_checked [OF assms(1,2) _ assms(3) _ w_def [THEN meta_eq_to_obj_eq], of "[]" junk call e] assms(4,5)
    by (simp add: xbee_consts)
  moreover have "length w \<le> 255" using assms(4) by (simp add: w_def htons_def xbee_consts)
  ultimately have "vXBeeIn junk call p m e w (of_nat (length w)) = Inr (received p w (Pkt w), m\<lparr>live := live m + 1\<rparr>, e)"
    using assms(1) by (simp add: vXBeeIn_Inr xb_idle_def)
  then show ?thesis
    using xb_idle_received [OF assms(1), of w] by (simp add: w_def htons_def)
qed

theorem vXBeeIn_bad_crc_witness:
  "\<exists>p1. vXBeeIn 0 (\<lambda>g w len e. (0, Pkt w, e @ [w])) ex_xbee \<lparr>mplan = [], live = 0\<rparr> []
      (XBEE_PKT_START # htons (length [0x89 :: u8, 5]) @ [0x89, 5] @ [0x70])
      (of_nat (length (XBEE_PKT_START # htons (length [0x89 :: u8, 5]) @ [0x89, 5] @ [0x70]))) =
    Inr (p1, \<lparr>mplan = [], live = 0\<rparr>\<lparr>live := live \<lparr>mplan = [], live = 0\<rparr> + 1\<rparr>, []) \<and> xb_idle p1"
  by (rule vXBeeIn_bad_crc [OF ex_xbee_idle]) (simp_all add: xbee_consts)

text \<open>A packet whose length field is above \<open>XBEE_MAX_DATA_LEN\<close> makes
  \<open>vXBeeIn\<close> read outside its buffers, whatever bytes the sender puts in it and however they are
  cut: at once when the low byte is above 251 (the code goes on without having counted the byte), and
  in the checksum, which takes all 16 bits of the length, otherwise.\<close>

theorem vXBeeIn_bad_length:
  assumes "xb_idle p" "mplan m = []" "XBEE_MAX_DATA_LEN < 256 * unat h + unat l" "length body = unat l + 1"
    and chunks: "concat cs = XBEE_PKT_START # h # l # body" "\<forall>c \<in> set cs. length c \<le> 255"
  shows "\<exists>f. in_chunks junk call (p, m, e) cs = Inl f"
proof -
  let ?w = "XBEE_PKT_START # h # l # body"
  have "\<exists>f. xb_steps junk call (p, m, e) ?w = Inl f"
  proof (cases "251 < unat l")
    case True
    with assms(1,2) show ?thesis
      by (simp only: xb_rx.poll_append [of junk call _ "[XBEE_PKT_START, h, l]" body, simplified append.simps]
          xb_header xb_idle_def) simp
  next
    case False
    have "h \<noteq> 0" using False assms(3) by (auto simp: xbee_consts)
    then have "0 < unat h" by (simp add: unat_gt_0)
    then have n: "256 * unat h + unat l > length body" using assms(4) by linarith
    have body: "body = butlast body @ [last body]" "length (butlast body) = unat l"
      using assms(4) by (cases "body = []", simp_all)+
    have w: "?w = XBEE_PKT_START # h # l # butlast body @ [last body]" using body(1) by simp
    have "ucXBeeCrc ?w = Inl OutOfBounds" using n unfolding crc_block by simp
    then have "xb_steps junk call (p, m, e) ?w = Inl OutOfBounds"
      using False assms(1,2) body(2) by (subst xb_packet_steps [OF _ _ _ _ _ w]) (simp_all add: xb_idle_def rx_check_def)
    then show ?thesis by blast
  qed
  then show ?thesis using in_chunks_fault [OF assms(1) chunks(2)] chunks(1) by auto
qed

theorem vXBeeIn_bad_length_witness:
  "\<exists>f. in_chunks 0 (\<lambda>g w len e. (0, Pkt w, e)) (ex_xbee, \<lparr>mplan = [], live = 0\<rparr>, ()) [[0x7E, 1, 2], [0x89, 5, 0]] = Inl f"
  by (rule vXBeeIn_bad_length [OF ex_xbee_idle, where h = 1 and l = 2 and body = "[0x89, 5, 0]"])
    (simp_all add: xbee_consts)

section \<open>A stream of packets\<close>

text \<open>A packet handed to the callback \<open>h\<close> has for it: what happens to the number of blocks that stay allocated and to
  the application.  The callback may keep the packet, free it (as \<open>xbee.h\<close> asks), or return -1 to have it
  freed; one that frees it and returns -1 would have it freed twice.\<close>

definition delivered :: "'e callbacks \<Rightarrow> (u8 list \<Rightarrow> nat option) \<Rightarrow> u8 list \<Rightarrow> int \<times> 'e \<Rightarrow> int \<times> 'e" where
  "delivered call h pl s =
     (case h pl of
        None \<Rightarrow> s
      | Some g \<Rightarrow>
          (case call g (xbee_wire pl) (of_nat (length pl + 4)) (snd s) of (r, q, e) \<Rightarrow>
             (fst s + (if q = FreedPkt \<or> (r = -1 \<and> q \<noteq> NoPkt) then 0 else 1), e)))"

definition frees_once :: "'e callbacks \<Rightarrow> bool" where
  "frees_once call \<longleftrightarrow> (\<forall>g w len e r q e1. call g w len e = (r, q, e1) \<longrightarrow> r = -1 \<longrightarrow> q \<noteq> FreedPkt)"

lemma delivered_from: "delivered call h pl (n, e) = (n + fst (delivered call h pl (0, e)), snd (delivered call h pl (0, e)))"
  by (simp add: delivered_def split: option.split prod.split)

lemma fold_delivered_from:
  "fold (delivered call h) pls (n, e) =
     (n + fst (fold (delivered call h) pls (0, e)), snd (fold (delivered call h) pls (0, e)))"
proof (induction pls arbitrary: n e)
  case (Cons pl pls)
  from Cons.IH [of "n + fst (delivered call h pl (0, e))" "snd (delivered call h pl (0, e))"]
    Cons.IH [of "fst (delivered call h pl (0, e))" "snd (delivered call h pl (0, e))"]
  show ?case by (simp add: delivered_from [of call h pl n])
qed simp

lemma fold_delivered_frees:
  "\<forall>g w len e. fst (snd (call g w len e)) = FreedPkt \<Longrightarrow> fst (fold (delivered call h) pls (n, e)) = n"
proof (induction pls arbitrary: n e)
  case (Cons pl pls)
  have "fst (delivered call h pl (n, e)) = n"
  proof (cases "h pl")
    case (Some g)
    have "fst (snd (call g (xbee_wire pl) (of_nat (length pl + 4)) e)) = FreedPkt" using Cons.prems by blast
    with Some show ?thesis by (simp add: delivered_def case_prod_beta)
  qed (simp add: delivered_def)
  with Cons show ?case by (cases "delivered call h pl (n, e)") simp
qed simp

lemma xb_stream:
  assumes call: "frees_once call"
  shows "xb_idle p \<Longrightarrow> mplan m = [] \<Longrightarrow> \<forall>pl \<in> set pls. 0 < length pl \<and> length pl \<le> 251 \<Longrightarrow>
    \<exists>p1. xb_steps junk call (p, m, e) (concat (map xbee_wire pls)) =
      Inr ((p1, m\<lparr>live := live m + fst (fold (delivered call (handler p)) pls (0, e))\<rparr>,
        snd (fold (delivered call (handler p)) pls (0, e))), []) \<and> xb_idle p1"
proof (induction pls arbitrary: p m e)
  case Nil
  then show ?case by auto
next
  case (Cons pl pls)
  let ?w = "xbee_wire pl" and ?d = "delivered call (handler p) pl (0, e)"
  have len: "length ?w = length pl + 4" by simp
  obtain q where first: "xb_steps junk call (p, m, e) ?w = Inr ((received p ?w q, m\<lparr>live := live m + fst ?d\<rparr>, snd ?d), [])"
  proof (cases "handler p pl")
    case None
    then show ?thesis
      using xb_packet_checked [OF Cons.prems(1,2), of "[]" pl ?w "NOT (sum_list pl)" junk call e] Cons.prems(3) that
      by (simp add: xbee_wire_def delivered_def)
  next
    case (Some g)
    obtain r q e1 where g: "call g ?w (of_nat (length ?w)) e = (r, q, e1)" by (cases "call g ?w (of_nat (length ?w)) e")
    then have "\<not> (r = -1 \<and> q = FreedPkt)" using call unfolding frees_once_def by blast
    then show ?thesis
      using xb_packet_checked [OF Cons.prems(1,2), of "[]" pl ?w "NOT (sum_list pl)" junk call e] Cons.prems(3) that Some
        g g [unfolded len]
      by (simp add: xbee_wire_def [symmetric] delivered_def)
  qed
  have idle: "xb_idle (received p ?w q)" using Cons.prems(1) by (intro xb_idle_received) simp_all
  from Cons.IH [OF idle, of "m\<lparr>live := live m + fst ?d\<rparr>" "snd ?d"] Cons.prems(2,3) first show ?case
    using fold_delivered_from [of call "handler p" pls "fst ?d" "snd ?d"]
    by (simp add: xb_rx.poll_append [of junk call _ ?w] add.assoc del: xb_steps.simps)
qed

text \<open>C12. A stream of packets, cut into buffers in any way, when memory does not run out: their
  callbacks run in the order of the packets, each once and with the state the one before left, whatever each of them
  returns (one that returns -1 must not have freed its packet), packets without a callback are dropped, and exactly
  the blocks that the callbacks neither freed nor refused stay allocated: none when they all free
  their packet, as the header asks.\<close>

theorem vXBeeIn_stream:
  assumes call: "frees_once call"
    and "xb_idle p" "mplan m = []" "\<forall>pl \<in> set pls. 0 < length pl \<and> length pl \<le> XBEE_MAX_DATA_LEN"
    and "concat cs = concat (map xbee_wire pls)" "\<forall>c \<in> set cs. length c \<le> 255"
  shows "\<exists>p1 n e1. in_chunks junk call (p, m, e) cs = Inr (p1, m\<lparr>live := live m + n\<rparr>, e1) \<and>
    (n, e1) = fold (delivered call (handler p)) pls (0, e) \<and> xb_idle p1 \<and>
    ((\<forall>g w len e. fst (snd (call g w len e)) = FreedPkt) \<longrightarrow> n = 0)"
proof -
  obtain p1 where "xb_steps junk call (p, m, e) (concat cs) =
      Inr ((p1, m\<lparr>live := live m + fst (fold (delivered call (handler p)) pls (0, e))\<rparr>,
        snd (fold (delivered call (handler p)) pls (0, e))), [])" and idle: "xb_idle p1"
    using xb_stream [OF call assms(2,3), of pls junk e] assms(4,5) by (auto simp: xbee_consts)
  from in_chunks_steps [OF assms(2,6) this(1)] idle fold_delivered_frees [of call "handler p" pls 0 e] show ?thesis
    by (metis prod.collapse)
qed

text \<open>A callback that frees its packet, and one that refuses those of some length.\<close>

definition ex_call :: "u8 list list callbacks" where
  "ex_call g w len e = (if len = 10 then (0, FreedPkt, e @ [w]) else (-1, Pkt w, e))"

theorem vXBeeIn_stream_witness:
  "\<exists>p1 n e1. in_chunks 0 ex_call (ex_xbee, \<lparr>mplan = [], live = 0\<rparr>, [])
      [xbee_wire [0x81, 0, 9, 40, 0, 65] @ xbee_wire [0x81, 0, 9], xbee_wire [0x8A, 6]] =
      Inr (p1, \<lparr>mplan = [], live = 0\<rparr>\<lparr>live := live \<lparr>mplan = [], live = 0\<rparr> + n\<rparr>, e1) \<and>
    n = 0 \<and> e1 = [xbee_wire [0x81, 0, 9, 40, 0, 65]]"
proof -
  let ?pls = "[[0x81, 0, 9, 40, 0, 65], [0x81, 0, 9], [0x8A, 6]]"
  have "frees_once ex_call" by (simp add: frees_once_def ex_call_def)
  from vXBeeIn_stream [OF this ex_xbee_idle, where m = "\<lparr>mplan = [], live = 0\<rparr>" and junk = 0 and e = "[]" and pls = ?pls
      and cs = "[xbee_wire [0x81, 0, 9, 40, 0, 65] @ xbee_wire [0x81, 0, 9], xbee_wire [0x8A, 6]]"]
  obtain p1 n e1 where run: "in_chunks 0 ex_call (ex_xbee, \<lparr>mplan = [], live = 0\<rparr>, [])
      [xbee_wire [0x81, 0, 9, 40, 0, 65] @ xbee_wire [0x81, 0, 9], xbee_wire [0x8A, 6]] =
        Inr (p1, \<lparr>mplan = [], live = 0\<rparr>\<lparr>live := live \<lparr>mplan = [], live = 0\<rparr> + n\<rparr>, e1)"
      "(n, e1) = fold (delivered ex_call (handler ex_xbee)) ?pls (0, [])"
    by (auto simp only: xbee_consts list.simps) (auto simp: xbee_consts)
  moreover have "fold (delivered ex_call (handler ex_xbee)) ?pls (0, []) = (0, [xbee_wire [0x81, 0, 9, 40, 0, 65]])"
    by (simp add: delivered_def ex_call_def handler_def ex_xbee_def callback_of_def xbee_types xbee_series)
  ultimately show ?thesis by (metis prod.inject)
qed

end
