(* ===== verification/Xbee_Send.thy ===== *)
theory Xbee_Send
  imports Xbee_Delivery
begin

text \<open>
  What the send functions of \<open>xbee.c\<close>, \<open>xbee1.c\<close> and \<open>xbee2.c\<close> put on the serial line:
  exactly the packet of their documentation, on a device that takes a packet in one write; frame
  identifiers are never 0; a short write, or a length that wraps the 8-bit size of the block, is
  an access out of bounds.
\<close>

section \<open>Frame identifiers\<close>

lemma next_frame_id_value:
  "unat (fst (ucXBeeNextFrameId p)) = unat (xb_frame_id p) mod 255 + 1"
proof (cases "unat (xb_frame_id p) = 255")
  case True
  then have "xb_frame_id p = 255" by (simp add: word_unat_eq_iff)
  then show ?thesis by (simp add: ucXBeeNextFrameId_def)
next
  case False
  then have lt: "unat (xb_frame_id p) < 255" using unsigned_less [of "xb_frame_id p", where 'a = nat] by simp
  then have "unat (xb_frame_id p + 1) = unat (xb_frame_id p) + 1" by (simp add: unat_word_ariths)
  moreover from this have "xb_frame_id p + 1 \<noteq> 0" by (metis add_is_0 unat_0 zero_neq_one)
  ultimately show ?thesis using lt by (simp add: ucXBeeNextFrameId_def Let_def)
qed

lemma next_frame_id_state: "xb_frame_id (snd (ucXBeeNextFrameId p)) = fst (ucXBeeNextFrameId p)"
  by (simp add: ucXBeeNextFrameId_def Let_def)

text \<open>The identifiers of \<open>n\<close> requests in a row.\<close>

fun frame_ids :: "nat \<Rightarrow> xXBee \<Rightarrow> u8 list" where
  "frame_ids 0 p = []"
| "frame_ids (Suc n) p = (case ucXBeeNextFrameId p of (i, p1) \<Rightarrow> i # frame_ids n p1)"

lemma frame_ids_length: "length (frame_ids n p) = n"
  by (induction n arbitrary: p) (auto split: prod.split)

lemma frame_ids_nth: "k < n \<Longrightarrow> unat (frame_ids n p ! k) = (unat (xb_frame_id p) + k) mod 255 + 1"
proof (induction n arbitrary: p k)
  case 0
  then show ?case by simp
next
  case (Suc n)
  obtain i p1 where i: "ucXBeeNextFrameId p = (i, p1)" by (cases "ucXBeeNextFrameId p")
  show ?case
  proof (cases k)
    case 0
    then show ?thesis using i next_frame_id_value [of p] by simp
  next
    case (Suc j)
    have "xb_frame_id p1 = i" "unat i = unat (xb_frame_id p) mod 255 + 1"
      using next_frame_id_state [of p] next_frame_id_value [of p] i by simp_all
    moreover have "Suc (f mod 255 + j) mod 255 = Suc (f + j) mod 255" for f :: nat
      by (metis mod_Suc_eq mod_add_left_eq)
    ultimately show ?thesis using Suc.IH [of j p1] Suc.prems Suc i by simp
  qed
qed

lemma mod_shift_inj: "(f + i) mod q = (f + j) mod q \<Longrightarrow> i \<le> j \<Longrightarrow> j < q \<Longrightarrow> i = j" for f :: nat
proof -
  assume a: "(f + i) mod q = (f + j) mod q" "i \<le> j" "j < q"
  then have "q dvd (f + j) - (f + i)" by (intro mod_eq_dvd_iff_nat [THEN iffD1]) simp_all
  with a(2,3) show ?thesis by (cases "j = i") (auto dest: dvd_imp_le)
qed

text \<open>The frame identifiers \<open>ucXBeeNextFrameId\<close> hands out are never
  0, the value for which the module sends no response, and any 255 in a row are distinct: a response
  can be matched with the only outstanding request of its identifier.\<close>

theorem frame_ids_distinct:
  assumes "n \<le> 255"
  shows "distinct (frame_ids n p) \<and> 0 \<notin> set (frame_ids n p)"
proof
  have "i = j" if "i < n" "j < n" "frame_ids n p ! i = frame_ids n p ! j" for i j
  proof -
    have "(unat (xb_frame_id p) + i) mod 255 = (unat (xb_frame_id p) + j) mod 255"
      using that frame_ids_nth [of i n p] frame_ids_nth [of j n p] by simp
    moreover have "i < 255" "j < 255" using that(1,2) assms by simp_all
    ultimately show ?thesis using mod_shift_inj [of _ i 255 j] mod_shift_inj [of _ j 255 i] by (metis nat_le_linear)
  qed
  then show "distinct (frame_ids n p)" by (simp add: distinct_conv_nth frame_ids_length) blast
  show "0 \<notin> set (frame_ids n p)"
  proof
    assume "0 \<in> set (frame_ids n p)"
    then obtain k where "k < n" "frame_ids n p ! k = 0" by (auto simp: in_set_conv_nth frame_ids_length)
    with frame_ids_nth [of k n p] show False by simp
  qed
qed

theorem frame_ids_distinct_witness:
  "distinct (frame_ids 255 (ex_xbee\<lparr>xb_frame_id := 200\<rparr>)) \<and> 0 \<notin> set (frame_ids 255 (ex_xbee\<lparr>xb_frame_id := 200\<rparr>))"
  by (rule frame_ids_distinct) simp

section \<open>The output loop\<close>

text \<open>A device that takes \<open>k\<close> bytes in one write, possibly after some writes of nothing.\<close>

definition whole_writes :: "wdev \<Rightarrow> nat \<Rightarrow> bool" where
  "whole_writes d k \<longleftrightarrow> answered (plan d) \<and> (\<forall>r \<in> answers_in (plan d). r = 0 \<or> int k \<le> r)"

lemma whole_writes_script: "plan d = script rs \<Longrightarrow> \<forall>r \<in> set rs. r = 0 \<or> int k \<le> r \<Longrightarrow> whole_writes d k"
  by (simp add: whole_writes_def)

lemma out_loop_empty [simp]: "out_loop pkt i 0 d = ret (True, d)"
  by (subst out_loop.simps) simp

lemma out_loop_first:
  "pkt \<noteq> [] \<Longrightarrow> out_loop pkt 0 (length pkt) d =
     (let (r, d1) = write_n pkt d in if r < 0 then ret (False, d1) else out_loop pkt (nat r) (length pkt - nat r) d1)"
  by (subst out_loop.simps) (simp add: rdn_def)

lemma out_loop_answered:
  "answered (plan d) \<Longrightarrow> \<forall>r \<in> answers_in (plan d). r = 0 \<or> int (length pkt) \<le> r \<Longrightarrow>
     \<exists>d1. out_loop pkt 0 (length pkt) d = ret (True, d1) \<and> sent d1 = sent d @ pkt"
proof (induction "plan d" arbitrary: d rule: answered.induct)
  case answered_granted
  then show ?case
    by (cases "pkt = []") (simp_all add: out_loop_first write_n_def ret_def flip: answered_granted)
next
  case (answered_now r q)
  note p = answered_now(2) [symmetric]
  with answered_now(1,3) have "int (length pkt) \<le> r" by simp
  with p show ?case
    by (cases "pkt = []") (simp_all add: out_loop_first write_n_def min_def ret_def)
next
  case (answered_later q)
  note p = answered_later(3) [symmetric]
  show ?case
  proof (cases "pkt = []")
    case False
    then have "out_loop pkt 0 (length pkt) d = out_loop pkt 0 (length pkt) (d\<lparr>plan := q\<rparr>)"
      using p by (simp add: out_loop_first write_n_def)
    with answered_later(2) [of "d\<lparr>plan := q\<rparr>"] answered_later(4) p show ?thesis by simp
  qed (simp add: ret_def)
qed

lemma out_loop_whole:
  "whole_writes d (length pkt) \<Longrightarrow> \<exists>d1. out_loop pkt 0 (length pkt) d = ret (True, d1) \<and> sent d1 = sent d @ pkt"
  unfolding whole_writes_def by (blast intro: out_loop_answered)

text \<open>When the device takes only a part of the packet,
  \<open>iXBeeOut\<close> goes on at four times the offset it means to, and reads past the end of the packet:
  the first write that is short (not empty, not whole) is an access out of bounds.\<close>

theorem iXBeeOut_short_write:
  assumes "length pkt = unat len" "plan d = Answer r rs" "0 < r" "r < int (length pkt)"
  shows "iXBeeOut pkt len m d = Some (Inl OutOfBounds)"
proof -
  have "nat r < length pkt" "0 < nat r" using assms(3,4) by (simp_all add: nat_less_iff)
  with assms show ?thesis
    by (simp add: iXBeeOut_def out_loop.simps [of pkt] out_loop.simps [of pkt "nat r"] rdn_def write_n_def)
qed

theorem iXBeeOut_short_write_witness:
  "iXBeeOut [0x7E, 0, 2, 0x8A, 6, 0x6F] 6 \<lparr>mplan = [], live = 1\<rparr> \<lparr>sent = [], plan = script [2]\<rparr> = Some (Inl OutOfBounds)"
  by (rule iXBeeOut_short_write [where r = 2 and rs = Granted]) simp_all

text \<open>A device that takes nothing for ever keeps the caller for ever.\<close>

theorem iXBeeOut_stalled:
  assumes "length pkt = unat len" "0 < len" "plan d = always 0"
  shows "iXBeeOut pkt len m d = None"
proof -
  have "answered (plan d)" if "out_loop pkt 0 (length pkt) d = Some r" "pkt \<noteq> []" for d r
  proof -
    have "i = 0 \<and> n = length pkt \<longrightarrow> pkt \<noteq> [] \<longrightarrow> answered (plan d)" if "out_loop pkt i n d = Some r" for pkt i n d r
    proof (rule out_loop.raw_induct [OF _ that], goal_cases)
      case (1 f pkt i n d r)
      from 1(1) [of pkt 0 "length pkt" "d\<lparr>plan := q\<rparr>" for q] 1(2) show ?case
        by (auto simp: write_n_def rdn_def Let_def split: answers.splits if_splits)
    qed
    with that show ?thesis by blast
  qed
  moreover have "pkt \<noteq> []" using assms(1,2) by (auto simp: word_less_nat_alt)
  ultimately have "out_loop pkt 0 (length pkt) d = None"
    using assms(3) always_stalls by (metis option.exhaust)
  with assms(1) show ?thesis by (simp add: iXBeeOut_def)
qed

section \<open>The senders\<close>

lemma iXBeeOut_whole:
  "length pkt = unat len \<Longrightarrow> whole_writes d (length pkt) \<Longrightarrow>
     \<exists>d1. iXBeeOut pkt len m d = ret (0, m\<lparr>live := live m - 1\<rparr>, d1) \<and> sent d1 = sent d @ pkt"
  using out_loop_whole [of d pkt] by (auto simp: iXBeeOut_def)

lemma htons_value: "L < 65536 \<Longrightarrow> \<exists>h l. htons L = [h, l] \<and> 256 * unat h + unat l = L"
  by (auto simp: htons_def unat_of_nat)

lemma htons_length [simp]: "length (htons n) = 2"
  by (simp add: htons_def)

lemma copy_gap:
  "n \<le> length data \<Longrightarrow> copy_into (H @ replicate (n + 1) junk) (length H) data 0 n = Inr (H @ take n data @ [junk])"
  by (simp add: copy_into_def del: replicate_Suc) simp

lemma fill_seal:
  assumes "L = length rest + n" "L < 65536" "n \<le> length data" "s = length rest + 3"
  shows "cbind (copy_into (XBEE_PKT_START # htons L @ rest @ replicate (n + 1) junk) s data 0 n) (seal (s + n)) =
    Inr (xbee_wire (rest @ take n data))"
proof -
  let ?b = "XBEE_PKT_START # htons L @ rest @ take n data @ [junk]"
  obtain h l where hl: "htons L = [h, l]" "256 * unat h + unat l = L" using htons_value [OF assms(2)] by blast
  have "copy_into (XBEE_PKT_START # htons L @ rest @ replicate (n + 1) junk) s data 0 n = Inr ?b"
    using copy_gap [OF assms(3), of "XBEE_PKT_START # h # l # rest" junk] assms(4)
    by (simp add: hl(1) numeral_3_eq_3 del: replicate_Suc)
  moreover have "ucXBeeCrc ?b = Inr (NOT (sum_list (rest @ take n data)))"
    unfolding hl(1) append.simps crc_block hl(2) using assms(1,3) by simp
  ultimately show ?thesis
    using list_update_length [of "XBEE_PKT_START # h # l # rest @ take n data" junk "[]"] assms(1,3,4) hl(1)
    by (simp add: seal_def xbee_wire_def min_absorb2 numeral_3_eq_3)
qed

lemma copy_none: "d \<le> length dst \<Longrightarrow> copy_into dst d src 0 0 = Inr dst"
  by (simp add: copy_into_def)

lemma replicate_num: "replicate (numeral v) x = x # replicate (pred_numeral v) x"
  by (simp add: numeral_eq_Suc)

text \<open>From the filled header to the line.\<close>

lemma obind_run: "obind (Some m) (\<lambda>x. obind (Some (g x)) f) = obind (Some (cbind m g)) f"
  by (cases m) simp_all

lemma send_rest:
  assumes "L = length rest + n" "n \<le> length data" "s = length rest + 3" "s + n + 1 \<le> 255"
    and "whole_writes d (s + n + 1)" "len = of_nat (s + n + 1)"
  shows "\<exists>d1. sent d1 = sent d @ xbee_wire (rest @ take n data) \<and>
    (\<forall>f :: u8 list \<Rightarrow> int \<times> mem \<times> wdev \<Rightarrow> 'b out.
      obind (Some (copy_into (XBEE_PKT_START # htons L @ rest @ replicate (n + 1) junk) s data 0 n)) (\<lambda>b2.
      obind (Some (seal (s + n) b2)) (\<lambda>b3. obind (iXBeeOut b3 len m d) (f b3))) =
    f (xbee_wire (rest @ take n data)) (0, m\<lparr>live := live m - 1\<rparr>, d1))"
proof -
  let ?w = "xbee_wire (rest @ take n data)"
  have "unat len = s + n + 1" unfolding assms(6) using assms(4) by (intro u8_of_nat) simp
  moreover have w: "length ?w = s + n + 1" using assms(2,3) by simp
  ultimately have "length ?w = unat len" "whole_writes d (length ?w)"
    unfolding w using assms(5) by simp_all
  then obtain d1 where "iXBeeOut ?w len m d = ret (0, m\<lparr>live := live m - 1\<rparr>, d1)" "sent d1 = sent d @ ?w"
    using iXBeeOut_whole [of ?w len d m] by auto
  then show ?thesis
    using fill_seal [OF assms(1) _ assms(2,3), of junk] assms(1,3,4)
    by (intro exI [of _ d1]) (simp add: obind_run)
qed

text \<open>\<open>iXBeeSendAt\<close> on a device that takes the packet in one write:
  the line carries one local AT command packet with the next frame identifier, the two letters of the
  command and the parameters; the identifier is returned and no block stays allocated.\<close>

theorem iXBeeSendAt_wire:
  assumes "mplan m = []" "2 \<le> length cmd" "unat param_len \<le> length ps" "unat param_len \<le> 247"
    and "whole_writes d (unat param_len + 8)" "ucXBeeNextFrameId p = (fid, p1)"
  shows "\<exists>d1. iXBeeSendAt junk p cmd (Some ps) param_len m d = ret (uint fid, p1, m, d1) \<and>
    sent d1 = sent d @ xbee_wire ([XBEE_PKT_TYPE_ATCMD, fid] @ take 2 cmd @ take (unat param_len) ps)"
proof -
  let ?n = "unat param_len"
  obtain c1 c2 cs where cmd: "cmd = c1 # c2 # cs" using assms(2) by (cases cmd; cases "tl cmd") auto
  let ?rest = "[XBEE_PKT_TYPE_ATCMD, fid, c1, c2]"
  have size: "unat (param_len + 8) = ?n + 8" using assms(4) by (simp add: unat_word_ariths)
  have gap: "replicate (?n + 8) junk = replicate 7 junk @ replicate (?n + 1) junk"
    using replicate_add [of 7 "?n + 1" junk] by (simp add: add.commute)
  obtain h l where hl: "htons (?n + 4) = [h, l]" using htons_def by blast
  have puts: "puts [(0, hdr_init (?n + 4)), (3, [XBEE_PKT_TYPE_ATCMD]), (4, [fid]), (5, [c1, c2])]
      (replicate (?n + 8) junk) = Inr (XBEE_PKT_START # htons (?n + 4) @ ?rest @ replicate (?n + 1) junk)"
    unfolding gap by (simp add: hdr_init_def hl copy_into_def replicate_num)
  have "7 + ?n + 1 \<le> 255" "whole_writes d (7 + ?n + 1)" using assms(4,5) by (simp_all add: add.commute)
  then obtain d1 where d1: "sent d1 = sent d @ xbee_wire (?rest @ take ?n ps)"
    "\<forall>f :: u8 list \<Rightarrow> int \<times> mem \<times> wdev \<Rightarrow> (int \<times> xXBee \<times> mem \<times> wdev) out.
      obind (Some (copy_into (XBEE_PKT_START # htons (?n + 4) @ ?rest @ replicate (?n + 1) junk) 7 ps 0 ?n)) (\<lambda>b2.
      obind (Some (seal (7 + ?n) b2)) (\<lambda>b3. obind (iXBeeOut b3 (of_nat (7 + ?n + 1)) (m\<lparr>live := live m + 1\<rparr>) d) (f b3))) =
      f (xbee_wire (?rest @ take ?n ps)) (0, m, d1)"
    using send_rest [of "?n + 4" ?rest ?n ps 7 d "of_nat (7 + ?n + 1)" junk "m\<lparr>live := live m + 1\<rparr>"] assms(3)
    by auto
  then show ?thesis
    using assms(1,6) size puts
    by (intro exI [of _ d1], cases "?n = 0") (simp_all add: iXBeeSendAt_def copy_none cmd rdn_def hl sizeof_xXBeeAtCmdPkt_def del: replicate_Suc puts.simps)
qed

theorem iXBeeSendAt_wire_witness:
  "\<exists>d1. iXBeeSendAt 0 ex_xbee [0x4E, 0x49] (Some [0x41, 0x42]) 2 \<lparr>mplan = [], live = 0\<rparr> \<lparr>sent = [], plan = script [0]\<rparr> =
      ret (uint (1 :: u8), ex_xbee\<lparr>xb_frame_id := 1\<rparr>, \<lparr>mplan = [], live = 0\<rparr>, d1) \<and>
    sent d1 = sent \<lparr>sent = [], plan = script [0]\<rparr> @ xbee_wire ([XBEE_PKT_TYPE_ATCMD, 1] @ take 2 [0x4E, 0x49] @ take (unat (2 :: u8)) [0x41, 0x42])"
  by (rule iXBeeSendAt_wire) (simp_all add: whole_writes_def ucXBeeNextFrameId_def ex_xbee_def)

text \<open>\<open>iXBeeSendRemoteAt\<close> on a device that takes the packet in one
  write: the line carries one remote AT command packet with the next frame identifier, the 64-bit and the
  16-bit address of the module, the apply flag, the command and its parameters; the identifier is
  returned and no block stays allocated.\<close>

theorem iXBeeSendRemoteAt_wire:
  assumes "mplan m = []" "2 \<le> length cmd" "8 \<le> length addr64" "2 \<le> length addr16"
    and "unat param_len \<le> length ps" "unat param_len \<le> 236"
    and "whole_writes d (unat param_len + 19)" "ucXBeeNextFrameId p = (fid, p1)"
  shows "\<exists>d1. iXBeeSendRemoteAt junk p cmd ps param_len addr64 addr16 apply m d = ret (uint fid, p1, m, d1) \<and>
    sent d1 = sent d @ xbee_wire ([XBEE_PKT_TYPE_REMOTE_ATCMD, fid] @ take 8 addr64 @ take 2 addr16 @
      [if apply \<noteq> 0 then 2 else 0] @ take 2 cmd @ take (unat param_len) ps)"
proof -
  let ?n = "unat param_len" and ?a = "take 8 addr64" and ?b = "take 2 addr16" and ?c = "take 2 cmd"
  let ?o = "if apply \<noteq> 0 then 2 else 0 :: u8"
  let ?rest = "[XBEE_PKT_TYPE_REMOTE_ATCMD, fid] @ ?a @ ?b @ [?o] @ ?c"
  have len: "length ?a = 8" "length ?b = 2" "length ?c = 2" using assms(2-4) by simp_all
  have size: "unat (param_len + 19) = ?n + 19" using assms(6) by (simp add: unat_word_ariths)
  have gap: "replicate (?n + 19) junk = replicate 18 junk @ replicate (?n + 1) junk"
    using replicate_add [of 18 "?n + 1" junk] by (simp add: add.commute)
  have puts: "puts [(0, hdr_init (?n + 15)), (3, [XBEE_PKT_TYPE_REMOTE_ATCMD]), (4, [fid]), (5, ?a), (13, ?b),
        (15, [?o]), (16, ?c)] (replicate (?n + 19) junk) =
      Inr (XBEE_PKT_START # htons (?n + 15) @ ?rest @ replicate (?n + 1) junk)"
  proof -
    obtain a b c h l where v: "?a = a" "?b = b" "?c = c" "htons (?n + 15) = [h, l]" using htons_def by blast
    show ?thesis
      using len unfolding gap v by (simp add: hdr_init_def v copy_into_def replicate_num)
  qed
  have "18 + ?n + 1 \<le> 255" "whole_writes d (18 + ?n + 1)" using assms(6,7) by (simp_all add: add.commute)
  then obtain d1 where d1: "sent d1 = sent d @ xbee_wire (?rest @ take ?n ps)"
    "\<forall>f :: u8 list \<Rightarrow> int \<times> mem \<times> wdev \<Rightarrow> (int \<times> xXBee \<times> mem \<times> wdev) out.
      obind (Some (copy_into (XBEE_PKT_START # htons (?n + 15) @ ?rest @ replicate (?n + 1) junk) 18 ps 0 ?n)) (\<lambda>b2.
      obind (Some (seal (18 + ?n) b2)) (\<lambda>b3. obind (iXBeeOut b3 (of_nat (18 + ?n + 1)) (m\<lparr>live := live m + 1\<rparr>) d) (f b3))) =
      f (xbee_wire (?rest @ take ?n ps)) (0, m, d1)"
    using send_rest [of "?n + 15" ?rest ?n ps 18 d "of_nat (18 + ?n + 1)" junk "m\<lparr>live := live m + 1\<rparr>"] assms(5) len
    by auto
  then show ?thesis
    using assms(1-4,8) size puts
    by (intro exI [of _ d1]) (simp add: iXBeeSendRemoteAt_def rdn_def sizeof_xXBeeRemoteAtCmdPkt_def
        del: replicate_Suc puts.simps)
qed

theorem iXBeeSendRemoteAt_wire_witness:
  "\<exists>d1. iXBeeSendRemoteAt 0 ex_xbee [0x44, 0x31] [5] 1 [0, 0x13, 0xA2, 0, 1, 2, 3, 4] [0xFF, 0xFE] 1
        \<lparr>mplan = [], live = 0\<rparr> \<lparr>sent = [], plan = script []\<rparr> =
      ret (uint (1 :: u8), ex_xbee\<lparr>xb_frame_id := 1\<rparr>, \<lparr>mplan = [], live = 0\<rparr>, d1) \<and>
    sent d1 = sent \<lparr>sent = [], plan = script []\<rparr> @ xbee_wire ([XBEE_PKT_TYPE_REMOTE_ATCMD, 1] @
      take 8 [0, 0x13, 0xA2, 0, 1, 2, 3, 4] @ take 2 [0xFF, 0xFE] @ [if (1 :: u8) \<noteq> 0 then 2 else 0] @
      take 2 [0x44, 0x31] @ take (unat (1 :: u8)) [5])"
  by (rule iXBeeSendRemoteAt_wire) (simp_all add: whole_writes_def ucXBeeNextFrameId_def ex_xbee_def)

text \<open>\<open>iXBeeSend64\<close> (series 1) on a device that takes the packet in one
  write: the line carries one transmit request with the next frame identifier, the 64-bit address, the
  options and the data; the identifier is returned and no block stays allocated.\<close>

theorem iXBeeSend64_wire:
  assumes "mplan m = []" "8 \<le> length addr" "unat len \<le> length data" "unat len \<le> 240"
    and "whole_writes d (unat len + 15)" "ucXBeeNextFrameId p = (fid, p1)"
  shows "\<exists>d1. iXBeeSend64 junk p data len addr opt m d = ret (uint fid, p1, m, d1) \<and>
    sent d1 = sent d @ xbee_wire ([XBEE_PKT_TYPE_TX64, fid] @ take 8 addr @ [opt] @ take (unat len) data)"
proof -
  let ?n = "unat len" and ?a = "take 8 addr"
  let ?rest = "[XBEE_PKT_TYPE_TX64, fid] @ ?a @ [opt]"
  have len: "length ?a = 8" using assms(2) by simp
  have size: "unat (len + 15) = ?n + 15" using assms(4) by (simp add: unat_word_ariths)
  have gap: "replicate (?n + 15) junk = replicate 14 junk @ replicate (?n + 1) junk"
    using replicate_add [of 14 "?n + 1" junk] by (simp add: add.commute)
  have puts: "puts [(0, hdr_init (?n + 11)), (3, [XBEE_PKT_TYPE_TX64]), (5, ?a), (13, [opt]), (4, [fid])]
      (replicate (?n + 15) junk) = Inr (XBEE_PKT_START # htons (?n + 11) @ ?rest @ replicate (?n + 1) junk)"
  proof -
    obtain a h l where v: "?a = a" "htons (?n + 11) = [h, l]" using htons_def by blast
    show ?thesis
      using len unfolding gap v by (simp add: hdr_init_def v copy_into_def replicate_num)
  qed
  have "14 + ?n + 1 \<le> 255" "whole_writes d (14 + ?n + 1)" using assms(4,5) by (simp_all add: add.commute)
  then obtain d1 where d1: "sent d1 = sent d @ xbee_wire (?rest @ take ?n data)"
    "\<forall>f :: u8 list \<Rightarrow> int \<times> mem \<times> wdev \<Rightarrow> (int \<times> xXBee \<times> mem \<times> wdev) out.
      obind (Some (copy_into (XBEE_PKT_START # htons (?n + 11) @ ?rest @ replicate (?n + 1) junk) 14 data 0 ?n)) (\<lambda>b2.
      obind (Some (seal (14 + ?n) b2)) (\<lambda>b3. obind (iXBeeOut b3 (of_nat (14 + ?n + 1)) (m\<lparr>live := live m + 1\<rparr>) d) (f b3))) =
      f (xbee_wire (?rest @ take ?n data)) (0, m, d1)"
    using send_rest [of "?n + 11" ?rest ?n data 14 d "of_nat (14 + ?n + 1)" junk "m\<lparr>live := live m + 1\<rparr>"] assms(3) len
    by auto
  then show ?thesis
    using assms(1,2,6) size puts
    by (intro exI [of _ d1]) (simp add: iXBeeSend64_def rdn_def sizeof_xXBeeTxReq64Pkt_def add.commute
        del: replicate_Suc puts.simps)
qed

theorem iXBeeSend64_wire_witness:
  "\<exists>d1. iXBeeSend64 0 ex_xbee [0x68, 0x69] 2 [0, 0x13, 0xA2, 0, 1, 2, 3, 4] 1 \<lparr>mplan = [], live = 0\<rparr> \<lparr>sent = [], plan = script []\<rparr> =
      ret (uint (1 :: u8), ex_xbee\<lparr>xb_frame_id := 1\<rparr>, \<lparr>mplan = [], live = 0\<rparr>, d1) \<and>
    sent d1 = sent \<lparr>sent = [], plan = script []\<rparr> @ xbee_wire ([XBEE_PKT_TYPE_TX64, 1] @ take 8 [0, 0x13, 0xA2, 0, 1, 2, 3, 4] @ [1] @
      take (unat (2 :: u8)) [0x68, 0x69])"
  by (rule iXBeeSend64_wire) (simp_all add: whole_writes_def ucXBeeNextFrameId_def ex_xbee_def)

text \<open>\<open>iXBeeSend16\<close> (series 1) on a device that takes the packet in one
  write: the line carries one transmit request with the next frame identifier, the 16-bit address, the
  options and the data; the identifier is returned and no block stays allocated.\<close>

theorem iXBeeSend16_wire:
  assumes "mplan m = []" "2 \<le> length addr" "unat len \<le> length data" "unat len \<le> 246"
    and "whole_writes d (unat len + 9)" "ucXBeeNextFrameId p = (fid, p1)"
  shows "\<exists>d1. iXBeeSend16 junk p data len addr opt m d = ret (uint fid, p1, m, d1) \<and>
    sent d1 = sent d @ xbee_wire ([XBEE_PKT_TYPE_TX16, fid] @ take 2 addr @ [opt] @ take (unat len) data)"
proof -
  let ?n = "unat len" and ?a = "take 2 addr"
  let ?rest = "[XBEE_PKT_TYPE_TX16, fid] @ ?a @ [opt]"
  have len: "length ?a = 2" using assms(2) by simp
  have size: "unat (len + 9) = ?n + 9" using assms(4) by (simp add: unat_word_ariths)
  have gap: "replicate (?n + 9) junk = replicate 8 junk @ replicate (?n + 1) junk"
    using replicate_add [of 8 "?n + 1" junk] by (simp add: add.commute)
  have puts: "puts [(0, hdr_init (?n + 5)), (3, [XBEE_PKT_TYPE_TX16]), (5, ?a), (7, [opt]), (4, [fid])]
      (replicate (?n + 9) junk) = Inr (XBEE_PKT_START # htons (?n + 5) @ ?rest @ replicate (?n + 1) junk)"
  proof -
    obtain a h l where v: "?a = a" "htons (?n + 5) = [h, l]" using htons_def by blast
    show ?thesis
      using len unfolding gap v by (simp add: hdr_init_def v copy_into_def replicate_num)
  qed
  have "8 + ?n + 1 \<le> 255" "whole_writes d (8 + ?n + 1)" using assms(4,5) by (simp_all add: add.commute)
  then obtain d1 where d1: "sent d1 = sent d @ xbee_wire (?rest @ take ?n data)"
    "\<forall>f :: u8 list \<Rightarrow> int \<times> mem \<times> wdev \<Rightarrow> (int \<times> xXBee \<times> mem \<times> wdev) out.
      obind (Some (copy_into (XBEE_PKT_START # htons (?n + 5) @ ?rest @ replicate (?n + 1) junk) 8 data 0 ?n)) (\<lambda>b2.
      obind (Some (seal (8 + ?n) b2)) (\<lambda>b3. obind (iXBeeOut b3 (of_nat (8 + ?n + 1)) (m\<lparr>live := live m + 1\<rparr>) d) (f b3))) =
      f (xbee_wire (?rest @ take ?n data)) (0, m, d1)"
    using send_rest [of "?n + 5" ?rest ?n data 8 d "of_nat (8 + ?n + 1)" junk "m\<lparr>live := live m + 1\<rparr>"] assms(3) len
    by auto
  then show ?thesis
    using assms(1,2,6) size puts
    by (intro exI [of _ d1]) (simp add: iXBeeSend16_def rdn_def sizeof_xXBeeTxReq16Pkt_def add.commute
        del: replicate_Suc puts.simps)
qed

theorem iXBeeSend16_wire_witness:
  "\<exists>d1. iXBeeSend16 0 ex_xbee [0x68, 0x69] 2 [0x50, 1] 1 \<lparr>mplan = [], live = 0\<rparr> \<lparr>sent = [], plan = script []\<rparr> =
      ret (uint (1 :: u8), ex_xbee\<lparr>xb_frame_id := 1\<rparr>, \<lparr>mplan = [], live = 0\<rparr>, d1) \<and>
    sent d1 = sent \<lparr>sent = [], plan = script []\<rparr> @ xbee_wire ([XBEE_PKT_TYPE_TX16, 1] @ take 2 [0x50, 1] @ [1] @
      take (unat (2 :: u8)) [0x68, 0x69])"
  by (rule iXBeeSend16_wire) (simp_all add: whole_writes_def ucXBeeNextFrameId_def ex_xbee_def)

text \<open>The packet of \<open>iXBeeZbSend\<close>, up to its output.\<close>

lemma iXBeeZbSend_packet:
  fixes opt radius :: u8
  assumes "mplan m = []" "8 \<le> length addr64" "2 \<le> length addr16" "unat len \<le> length data" "unat len \<le> 237"
    and "ucXBeeNextFrameId p = (fid, p1)"
  defines "w \<equiv> xbee_wire ([XBEE_PKT_TYPE_ZB_TX_REQ, fid] @ take 8 addr64 @ take 2 addr16 @ [radius, opt] @
      take (unat len) data)"
  shows "length w = unat len + 18"
    and "iXBeeZbSend junk (Some p) (Some data) len (Some addr64) (Some addr16) opt radius m d =
      obind (iXBeeOut w (of_nat (unat len + 18)) (m\<lparr>live := live m + 1\<rparr>) d) (\<lambda>(r, m2, d1).
        ret (if r = 0 then uint fid else r, Some p1, m2, d1))"
proof -
  let ?n = "unat len" and ?a = "take 8 addr64" and ?b = "take 2 addr16"
  let ?rest = "[XBEE_PKT_TYPE_ZB_TX_REQ, fid] @ ?a @ ?b @ [radius, opt]"
  have len: "length ?a = 8" "length ?b = 2" using assms(2,3) by simp_all
  show "length w = ?n + 18" using assms(4) len by (simp add: w_def)
  have size: "unat (of_nat (?n + 18) :: u8) = ?n + 18" using assms(5) by (intro u8_of_nat) simp
  have gap: "replicate (?n + 18) junk = replicate 17 junk @ replicate (?n + 1) junk"
    using replicate_add [of 17 "?n + 1" junk] by (simp add: add.commute)
  have puts: "puts [(0, hdr_init (?n + 14)), (3, [XBEE_PKT_TYPE_ZB_TX_REQ]), (5, ?a), (13, ?b), (16, [opt]),
        (15, [radius]), (4, [fid])] (replicate (?n + 18) junk) =
      Inr (XBEE_PKT_START # htons (?n + 14) @ ?rest @ replicate (?n + 1) junk)"
  proof -
    obtain a b h l where v: "?a = a" "?b = b" "htons (?n + 14) = [h, l]" using htons_def by blast
    show ?thesis
      using len unfolding gap v by (simp add: hdr_init_def v copy_into_def replicate_num)
  qed
  have "obind (Some (copy_into (XBEE_PKT_START # htons (?n + 14) @ ?rest @ replicate (?n + 1) junk) 17 data 0 ?n))
      (\<lambda>b2. obind (Some (seal (17 + ?n) b2)) f) = f w" for f :: "u8 list \<Rightarrow> (int \<times> xXBee option \<times> mem \<times> wdev) out"
    using fill_seal [of "?n + 14" ?rest ?n data 17 junk] assms(4,5) len
    by (simp add: obind_run w_def)
  then show "iXBeeZbSend junk (Some p) (Some data) len (Some addr64) (Some addr16) opt radius m d =
      obind (iXBeeOut w (of_nat (?n + 18)) (m\<lparr>live := live m + 1\<rparr>) d) (\<lambda>(r, m2, d1).
        ret (if r = 0 then uint fid else r, Some p1, m2, d1))"
    using assms(1-3,6) size puts
    by (simp add: iXBeeZbSend_def rdn_def sizeof_xXBeeZbTxReqPkt_def Let_def add.commute
        del: replicate_Suc puts.simps)
qed



section \<open>Errors\<close>

lemma iXBeeOut_fails:
  "pkt \<noteq> [] \<Longrightarrow> length pkt = unat len \<Longrightarrow> plan d = Answer r rs \<Longrightarrow> r < 0 \<Longrightarrow>
     iXBeeOut pkt len m d = ret (-1, m, d\<lparr>plan := rs\<rparr>)"
  by (cases "unat len") (simp_all add: iXBeeOut_def out_loop.simps [of pkt] rdn_def write_n_def)

text \<open>When the write fails, \<open>iXBeeZbSend\<close> returns -1 having used up a
  frame identifier, and the packet it allocated is never freed.\<close>

theorem iXBeeZbSend_leak:
  assumes "mplan m = []" "8 \<le> length addr64" "2 \<le> length addr16" "unat len \<le> length data" "unat len \<le> 237"
    and "ucXBeeNextFrameId p = (fid, p1)" "plan d = Answer r rs" "r < 0"
  shows "iXBeeZbSend junk (Some p) (Some data) len (Some addr64) (Some addr16) opt radius m d =
    ret (-1, Some p1, m\<lparr>live := live m + 1\<rparr>, d\<lparr>plan := rs\<rparr>)"
proof -
  note packet = iXBeeZbSend_packet [OF assms(1-6), where opt = opt and radius = radius]
  have size: "unat (of_nat (unat len + 18) :: u8) = unat len + 18" using assms(5) by (intro u8_of_nat) simp
  show ?thesis
    unfolding packet(2)
    by (subst iXBeeOut_fails [OF _ trans [OF packet(1) size [symmetric]] assms(7,8)]) (simp_all add: xbee_wire_def)
qed

theorem iXBeeZbSend_leak_witness:
  "iXBeeZbSend 0 (Some ex_xbee) (Some [0x68]) 1 (Some pucXBeeAddr64Coordinator) (Some pucXBeeAddr16Unknown) 0 0
      \<lparr>mplan = [], live = 0\<rparr> \<lparr>sent = [], plan = script [-1]\<rparr> =
    ret (-1, Some (ex_xbee\<lparr>xb_frame_id := 1\<rparr>), \<lparr>mplan = [], live = 0\<rparr>\<lparr>live := live \<lparr>mplan = [], live = 0\<rparr> + 1\<rparr>,
      \<lparr>sent = [], plan = script [-1]\<rparr>\<lparr>plan := Granted\<rparr>)"
  by (rule iXBeeZbSend_leak [where fid = 1 and r = "-1"])
    (simp_all add: ucXBeeNextFrameId_def ex_xbee_def pucXBeeAddr64Coordinator_def pucXBeeAddr16Unknown_def)

lemma copy_into_cases:
  "copy_into b i x s n = Inl OutOfBounds \<or> (\<exists>b1. copy_into b i x s n = Inr b1 \<and> length b1 = length b)"
  by (auto simp: copy_into_def)

lemma puts_cases: "puts xs b = Inl OutOfBounds \<or> (\<exists>b1. puts xs b = Inr b1 \<and> length b1 = length b)"
proof (induction xs b rule: puts.induct)
  case (1 b)
  then show ?case by simp
next
  case (2 i bs xs b)
  from copy_into_cases [of b i bs 0 "length bs"] show ?case
  proof
    assume "copy_into b i bs 0 (length bs) = Inl OutOfBounds"
    then show ?thesis by simp
  next
    assume "\<exists>b1. copy_into b i bs 0 (length bs) = Inr b1 \<and> length b1 = length b"
    with "2.IH" show ?thesis by auto
  qed
qed

text \<open>The size of the block is computed in 8 bits: with 248 or more
  bytes of parameters \<open>iXBeeSendAt\<close> allocates at most 7 bytes and writes past them.\<close>

theorem iXBeeSendAt_too_long:
  assumes "mplan m = []" "248 \<le> unat param_len"
  shows "iXBeeSendAt junk p cmd (Some ps) param_len m d = Some (Inl OutOfBounds)"
proof -
  have "unat param_len < 256" using unsigned_less [of param_len, where 'a = nat] by simp
  then have size: "unat (param_len + 8) \<le> 7"
    using assms(2) by (simp add: unat_word_ariths le_mod_geq)
  have "obind (Some (puts xs (replicate (unat (param_len + 8)) junk))) (\<lambda>b1. obind (Some (copy_into b1 7 ps 0 (unat param_len))) f) =
      Some (Inl OutOfBounds)" for xs and f :: "u8 list \<Rightarrow> 'a out"
    using puts_cases [of xs "replicate (unat (param_len + 8)) junk"] size assms(2)
    by (auto simp: copy_into_def)
  then show ?thesis
    using assms by (auto simp: iXBeeSendAt_def sizeof_xXBeeAtCmdPkt_def rdn_def Let_def simp del: puts.simps split: prod.split)
qed

theorem iXBeeSendAt_too_long_witness:
  "iXBeeSendAt 0 ex_xbee [0x4E, 0x49] (Some (replicate 250 0x41)) 250 \<lparr>mplan = [], live = 0\<rparr> \<lparr>sent = [], plan = script []\<rparr> =
     Some (Inl OutOfBounds)"
  by (rule iXBeeSendAt_too_long) simp_all

end
