(* ===== verification/Xbee_Access.thy ===== *)
theory Xbee_Access
  imports Xbee_Send
begin

text \<open>
  What an application reads from a packet it was handed: the data and the addresses of a received
  frame, the parameter of a command response; and where the accessors go wrong: an offset past the
  parameter, the number of samples of an I/O packet.
\<close>

section \<open>Received data\<close>

text \<open>The payloads a module reports received data with: 64-bit and 16-bit addresses (series 1), and
  both (ZigBee).\<close>

definition rx64_payload :: "u8 list \<Rightarrow> u8 \<Rightarrow> u8 \<Rightarrow> u8 list \<Rightarrow> u8 list" where
  "rx64_payload addr rssi opt data = XBEE_PKT_TYPE_RX64 # addr @ [rssi, opt] @ data"

definition rx16_payload :: "u8 list \<Rightarrow> u8 \<Rightarrow> u8 \<Rightarrow> u8 list \<Rightarrow> u8 list" where
  "rx16_payload addr rssi opt data = XBEE_PKT_TYPE_RX16 # addr @ [rssi, opt] @ data"

definition zbrx_payload :: "u8 list \<Rightarrow> u8 list \<Rightarrow> u8 \<Rightarrow> u8 list \<Rightarrow> u8 list" where
  "zbrx_payload addr64 addr16 opt data = XBEE_PKT_TYPE_ZB_RX # addr64 @ addr16 @ [opt] @ data"

lemma type_of_wire: "ucXBeePktType (xbee_wire (t # rest)) = Inr t"
  by (simp add: ucXBeePktType_def xbee_wire_def htons_def)

lemma switch_wire: "switch_type (xbee_wire (t # rest)) cases = Inr (map_of cases t)"
  by (simp add: switch_type_def type_of_wire)

lemma length_of_wire:
  assumes "length payload < 65536"
  shows "usXBeePktLength (xbee_wire payload) = Inr (of_nat (length payload))"
proof -
  obtain h l where hl: "htons (length payload) = [h, l]" "256 * unat h + unat l = length payload"
    using htons_value [OF assms] by blast
  then show ?thesis
    by (simp add: usXBeePktLength_def xbee_wire_def hl(1) rdn_def ntohs_def be_val_pair del: of_nat_add of_nat_mult)
qed

lemma len_less_size_wire:
  assumes "length (t # rest) < 65536"
  shows "len_less_size (xbee_wire (t # rest)) cases =
    Inr (case map_of cases t of None \<Rightarrow> -1 | Some s \<Rightarrow> int (length rest) + 4 - int s)"
proof -
  have "uint (of_nat (length (t # rest)) :: u16) = int (length (t # rest))"
    using assms by (simp add: uint_nat unat_of_nat del: of_nat_Suc)
  then show ?thesis
    using assms by (simp add: len_less_size_def length_of_wire switch_wire split: option.split)
qed

lemma wire_slice: "i = length pre + 3 \<Longrightarrow> n = length xs \<Longrightarrow> take n (drop i (xbee_wire (pre @ xs @ post))) = xs"
  by (simp add: xbee_wire_def htons_def numeral_3_eq_3)

lemma rx64_access:
  fixes rssi opt :: u8
  assumes "length a64 = 8" "length data \<le> 65000"
  defines "pkt \<equiv> xbee_wire (rx64_payload a64 rssi opt data)"
  shows "pucXBeePktData pkt = Inr (Some 14)" "iXBeePktDataLen pkt = Inr (int (length data))"
    "take (length data) (drop 14 pkt) = data" "pucXBeePktAddrSrc64 pkt = Inr (Some 4)"
    "pucXBeePktAddrSrc16 pkt = Inr None" "take 8 (drop 4 pkt) = a64"
  using assms(1,2)
    wire_slice [of 14 "XBEE_PKT_TYPE_RX64 # a64 @ [rssi, opt]" "length data" data "[]"]
    wire_slice [of 4 "[XBEE_PKT_TYPE_RX64]" 8 a64 "[rssi, opt] @ data"]
  by (simp_all add: pkt_def rx64_payload_def pucXBeePktData_def iXBeePktDataLen_def pucXBeePktAddrSrc64_def
      pucXBeePktAddrSrc16_def switch_wire len_less_size_wire xbee_types xbee_sizes)

lemma rx16_access:
  fixes rssi opt :: u8
  assumes "length a16 = 2" "length data \<le> 65000"
  defines "pkt \<equiv> xbee_wire (rx16_payload a16 rssi opt data)"
  shows "pucXBeePktData pkt = Inr (Some 8)" "iXBeePktDataLen pkt = Inr (int (length data))"
    "take (length data) (drop 8 pkt) = data" "pucXBeePktAddrSrc64 pkt = Inr None"
    "pucXBeePktAddrSrc16 pkt = Inr (Some 4)" "take 2 (drop 4 pkt) = a16"
  using assms(1,2)
    wire_slice [of 8 "XBEE_PKT_TYPE_RX16 # a16 @ [rssi, opt]" "length data" data "[]"]
    wire_slice [of 4 "[XBEE_PKT_TYPE_RX16]" 2 a16 "[rssi, opt] @ data"]
  by (simp_all add: pkt_def rx16_payload_def pucXBeePktData_def iXBeePktDataLen_def pucXBeePktAddrSrc64_def
      pucXBeePktAddrSrc16_def switch_wire len_less_size_wire xbee_types xbee_sizes)

lemma zbrx_access:
  fixes opt :: u8
  assumes "length a64 = 8" "length a16 = 2" "length data \<le> 65000"
  defines "pkt \<equiv> xbee_wire (zbrx_payload a64 a16 opt data)"
  shows "pucXBeePktData pkt = Inr (Some 15)" "iXBeePktDataLen pkt = Inr (int (length data))"
    "take (length data) (drop 15 pkt) = data" "pucXBeePktAddrSrc64 pkt = Inr (Some 4)"
    "pucXBeePktAddrSrc16 pkt = Inr (Some 12)" "take 8 (drop 4 pkt) = a64" "take 2 (drop 12 pkt) = a16"
  using assms(1-3)
    wire_slice [of 15 "XBEE_PKT_TYPE_ZB_RX # a64 @ a16 @ [opt]" "length data" data "[]"]
    wire_slice [of 4 "[XBEE_PKT_TYPE_ZB_RX]" 8 a64 "a16 @ [opt] @ data"]
    wire_slice [of 12 "XBEE_PKT_TYPE_ZB_RX # a64" 2 a16 "[opt] @ data"]
  by (simp_all add: pkt_def zbrx_payload_def pucXBeePktData_def iXBeePktDataLen_def pucXBeePktAddrSrc64_def
      pucXBeePktAddrSrc16_def switch_wire len_less_size_wire xbee_types xbee_sizes)

text \<open>From a received data packet (of either series) the accessors return
  exactly the data the sender put in and their number, whatever the bytes, and the addresses of the
  sender the packet carries.\<close>

theorem xbee_rx_data:
  assumes "length a64 = 8" "length a16 = 2" "length data \<le> 65000"
    and "pkt \<in> {xbee_wire (rx64_payload a64 rssi opt data), xbee_wire (rx16_payload a16 rssi opt data),
      xbee_wire (zbrx_payload a64 a16 opt data)}"
  shows "(\<exists>off. pucXBeePktData pkt = Inr (Some off) \<and> iXBeePktDataLen pkt = Inr (int (length data)) \<and>
      take (length data) (drop off pkt) = data) \<and>
    (\<exists>q r. pucXBeePktAddrSrc64 pkt = Inr q \<and> pucXBeePktAddrSrc16 pkt = Inr r \<and> (q \<noteq> None \<or> r \<noteq> None) \<and>
      (case q of None \<Rightarrow> True | Some i \<Rightarrow> take 8 (drop i pkt) = a64) \<and>
      (case r of None \<Rightarrow> True | Some i \<Rightarrow> take 2 (drop i pkt) = a16))"
  using assms(4) rx64_access [OF assms(1,3), of rssi opt] rx16_access [OF assms(2,3), of rssi opt]
    zbrx_access [OF assms(1-3), of opt]
  by auto

theorem xbee_rx_data_witness:
  "(\<exists>off. pucXBeePktData (xbee_wire (rx16_payload [0x50, 1] 40 0 [0x68, 0x69])) = Inr (Some off) \<and>
      iXBeePktDataLen (xbee_wire (rx16_payload [0x50, 1] 40 0 [0x68, 0x69])) = Inr (int (length [0x68 :: u8, 0x69])) \<and>
      take (length [0x68 :: u8, 0x69]) (drop off (xbee_wire (rx16_payload [0x50, 1] 40 0 [0x68, 0x69]))) = [0x68, 0x69]) \<and>
    (\<exists>q r. pucXBeePktAddrSrc64 (xbee_wire (rx16_payload [0x50, 1] 40 0 [0x68, 0x69])) = Inr q \<and>
      pucXBeePktAddrSrc16 (xbee_wire (rx16_payload [0x50, 1] 40 0 [0x68, 0x69])) = Inr r \<and> (q \<noteq> None \<or> r \<noteq> None) \<and>
      (case q of None \<Rightarrow> True | Some i \<Rightarrow>
        take 8 (drop i (xbee_wire (rx16_payload [0x50, 1] 40 0 [0x68, 0x69]))) = replicate 8 0) \<and>
      (case r of None \<Rightarrow> True | Some i \<Rightarrow>
        take 2 (drop i (xbee_wire (rx16_payload [0x50, 1] 40 0 [0x68, 0x69]))) = [0x50, 1]))"
  by (rule xbee_rx_data [where rssi = 40 and opt = 0]) simp_all

section \<open>Command parameters\<close>

definition at_response :: "u8 \<Rightarrow> u8 list \<Rightarrow> u8 \<Rightarrow> u8 list \<Rightarrow> u8 list" where
  "at_response fid cmd status param = [XBEE_PKT_TYPE_ATCMD_RESP, fid] @ cmd @ [status] @ param"

lemma at_response_access:
  fixes fid status :: u8
  assumes "length cmd = 2" "length param \<le> 65000"
  defines "pkt \<equiv> xbee_wire (at_response fid cmd status param)"
  shows "iXBeePktParamLen pkt = Inr (int (length param))" "pucXBeePktParam pkt = Inr (Some 8)"
    "length pkt = length param + 9"
  using assms(1,2)
  by (simp_all add: pkt_def at_response_def iXBeePktParamLen_def pucXBeePktParam_def switch_wire len_less_size_wire
      xbee_types xbee_sizes)

lemma param_bytes_at_response:
  assumes "length cmd = 2" "length param \<le> 65000" "i + n \<le> length param"
  shows "param_bytes n (xbee_wire (at_response fid cmd status param)) (int i) = Inr (Some (take n (drop i param)))"
proof -
  let ?pkt = "xbee_wire (at_response fid cmd status param)"
  have "take (length param) (drop 8 ?pkt) = param"
    using wire_slice [of 8 "[XBEE_PKT_TYPE_ATCMD_RESP, fid] @ cmd @ [status]" "length param" param "[]"] assms(1)
    by (simp add: at_response_def)
  then have "take n (drop i (take (length param) (drop 8 ?pkt))) = take n (drop i param)" by simp
  then have "take n (drop (8 + i) ?pkt) = take n (drop i param)"
    using assms(3) min_absorb1 [of n "length param - i"] by (simp add: drop_take add.commute)
  moreover have "nat (8 + int i) = 8 + i" by simp
  ultimately show ?thesis
    using at_response_access [OF assms(1,2), of fid status] assms(3)
    by (simp add: param_bytes_def ge_size_def rdn_def)
qed

text \<open>The readers of a command response return the big-endian value of the
  1, 2, 4 or 8 bytes at the offset, when they lie in the parameter.  But an offset past the parameter
  is not refused: the difference, negative, is compared as an unsigned number, and the reader goes on
  past the end of the packet.\<close>

theorem xbee_param_read:
  fixes fid status :: u8
  assumes "length cmd = 2" "length param \<le> 65000"
  defines "pkt \<equiv> xbee_wire (at_response fid cmd status param)"
  shows "(i + 1 \<le> length param \<longrightarrow> iXBeePktParamGetUByte pkt (int i) = Inr (0, Some (param ! i))) \<and>
    (i + 2 \<le> length param \<longrightarrow> iXBeePktParamGetUShort pkt (int i) = Inr (0, Some (ntohs (take 2 (drop i param))))) \<and>
    (i + 4 \<le> length param \<longrightarrow> iXBeePktParamGetULong pkt (int i) = Inr (0, Some (ntohl (take 4 (drop i param))))) \<and>
    (i + 8 \<le> length param \<longrightarrow> iXBeePktParamGetULongLong pkt (int i) = Inr (0, Some (ntohll (take 8 (drop i param))))) \<and>
    (length param < i \<longrightarrow> iXBeePktParamGetULong pkt (int i) = Inl OutOfBounds)"
proof (intro conjI impI)
  assume "i + 1 \<le> length param"
  with param_bytes_at_response [OF assms(1,2) this]
  show "iXBeePktParamGetUByte pkt (int i) = Inr (0, Some (param ! i))"
    by (simp add: iXBeePktParamGetUByte_def pkt_def hd_drop_conv_nth)
next
  assume "length param < i"
  then show "iXBeePktParamGetULong pkt (int i) = Inl OutOfBounds"
    using at_response_access [OF assms(1,2), of fid status]
    by (simp add: iXBeePktParamGetULong_def param_bytes_def ge_size_def rdn_def pkt_def)
qed (simp_all add: iXBeePktParamGetUShort_def iXBeePktParamGetULong_def iXBeePktParamGetULongLong_def pkt_def
    param_bytes_at_response [OF assms(1,2)])

theorem xbee_param_read_witness:
  "iXBeePktParamGetUShort (xbee_wire (at_response 1 [0x53, 0x4C] 0 [1, 2, 3])) 1 = Inr (0, Some 0x0203) \<and>
   iXBeePktParamGetULong (xbee_wire (at_response 1 [0x53, 0x4C] 0 [1, 2, 3])) 4 = Inl OutOfBounds"
  using xbee_param_read [of "[0x53, 0x4C]" "[1, 2, 3]" 1 1 0] xbee_param_read [of "[0x53, 0x4C]" "[1, 2, 3]" 4 1 0]
  by (simp add: ntohs_def be_val_def)

section \<open>Samples\<close>

text \<open>The words of one sample of an I/O packet are one for the digital lines
  and one for each analog channel of the mask; \<open>sample_len_from_mask\<close> returns 1 or 0 for every mask,
  because it tests its own result instead of the mask: the analog channels are never counted.\<close>

theorem sample_len_wrong: "sample_len_from_mask msk = (if msk AND 0x1ff \<noteq> 0 then 1 else 0)"
  by (simp add: sample_len_from_mask_def)

end
