(* ===== verification/Sequence.thy ===== *)
theory Sequence
  imports Sysio_Prelude
begin

text \<open>
  The contract the library's containers share: a state that stands for a list, and an operation
  that adds at its end.  What follows for a run of additions is proved once and holds of the dynamic
  array (\<open>vector.c\<close>) and of the doubly linked list (\<open>dlist.c\<close>).
\<close>

fun add_all :: "('s \<Rightarrow> 'a \<Rightarrow> 's run) \<Rightarrow> 's \<Rightarrow> 'a list \<Rightarrow> 's run" where
  "add_all add s [] = Inr s"
| "add_all add s (x # xs) = cbind (add s x) (\<lambda>s1. add_all add s1 xs)"

locale sequence =
  fixes inv :: "'s \<Rightarrow> bool"
    and seq_of :: "'s \<Rightarrow> 'a list"
    and add :: "'s \<Rightarrow> 'a \<Rightarrow> 's run"
  assumes add_ok: "inv s \<Longrightarrow> \<exists>s1. add s x = Inr s1 \<and> inv s1 \<and> seq_of s1 = seq_of s @ [x]"
begin

lemma add_all_ok: "inv s \<Longrightarrow> \<exists>s1. add_all add s xs = Inr s1 \<and> inv s1 \<and> seq_of s1 = seq_of s @ xs"
proof (induction xs arbitrary: s)
  case Nil
  then show ?case by simp
next
  case (Cons x xs)
  from add_ok [OF Cons.prems, of x] obtain s1 where "add s x = Inr s1" "inv s1" "seq_of s1 = seq_of s @ [x]"
    by blast
  with Cons.IH [of s1] show ?case by auto
qed

end

end
