(* ===== verification/Vector.thy ===== *)
theory Vector
  imports Sequence
begin

text \<open>
  The dynamic array of \<open>src/src/vector.c\<close>.  The array of pointers is a list of optional
  addresses (NULL is \<open>None\<close>); the functions the user registers act on a state \<open>'w\<close> of the
  application.  The lemmas describe its loops and its resizing; \<open>Vector_Laws\<close> has the theorems.
\<close>

section \<open>State\<close>

type_synonym elt = "nat option"

record 'w xVector =
  v_data :: "elt list option"
  v_size :: int
  v_alloc :: int
  v_growth :: int
  v_malloc :: bool
  v_fnew :: "('w \<Rightarrow> elt \<times> 'w) option"
  v_fdestroy :: "(nat \<Rightarrow> 'w \<Rightarrow> 'w) option"
  v_fkey :: "(nat \<Rightarrow> nat) option"
  v_fmatch :: "(nat \<Rightarrow> nat \<Rightarrow> int) option"

type_synonym 'w vec = "'w xVector option \<times> mem \<times> 'w"

text \<open>\<open>memset (v, 0, sizeof (xVector))\<close>.\<close>

definition vector_zero :: "'w xVector" where
  "vector_zero = \<lparr>v_data = None, v_size = 0, v_alloc = 0, v_growth = 0, v_malloc = False,
     v_fnew = None, v_fdestroy = None, v_fkey = None, v_fmatch = None\<rparr>"

definition iVectorInit ::
    "'w xVector option \<Rightarrow> int \<Rightarrow> ('w \<Rightarrow> elt \<times> 'w) option \<Rightarrow> (nat \<Rightarrow> 'w \<Rightarrow> 'w) option \<Rightarrow> int \<times> 'w xVector option" where
  "iVectorInit vp growth fnew fdestroy =
     (case vp of
        None \<Rightarrow> (-1, None)
      | Some _ \<Rightarrow>
          (0, Some (vector_zero\<lparr>v_growth := (if growth \<le> 1 then 1 else growth), v_fnew := fnew,
             v_fdestroy := fdestroy\<rparr>)))"

definition iVectorInitSearch ::
    "'w xVector option \<Rightarrow> (nat \<Rightarrow> nat) option \<Rightarrow> (nat \<Rightarrow> nat \<Rightarrow> int) option \<Rightarrow> int \<times> 'w xVector option" where
  "iVectorInitSearch vp fkey fmatch =
     (case vp of None \<Rightarrow> (-1, None) | Some v \<Rightarrow> (0, Some (v\<lparr>v_fkey := fkey, v_fmatch := fmatch\<rparr>)))"

section \<open>Array accesses\<close>

definition slot :: "'w xVector \<Rightarrow> int \<Rightarrow> elt run" where
  "slot v i = cbind (deref (v_data v)) (\<lambda>b. if i < 0 then Inl OutOfBounds else rd b (nat i))"

definition put :: "'w xVector \<Rightarrow> int \<Rightarrow> elt \<Rightarrow> 'w xVector run" where
  "put v i e =
     cbind (deref (v_data v)) (\<lambda>b.
       if i < 0 then Inl OutOfBounds
       else cbind (wr b (nat i) e) (\<lambda>b1. Inr (v\<lparr>v_data := Some b1\<rparr>)))"

text \<open>
  \<open>realloc (data, n * sizeof (void *))\<close>: like \<open>malloc\<close> for NULL; with \<open>n = 0\<close> it frees the
  block and returns NULL; otherwise the block keeps its first elements, what follows is
  \<open>junk\<close>, or the call fails and leaves the block alone.
\<close>

definition realloc :: "elt \<Rightarrow> elt list option \<Rightarrow> nat \<Rightarrow> mem \<Rightarrow> elt list option \<times> mem" where
  "realloc junk data n m =
     (case data of
        None \<Rightarrow> (let (ok, m1) = malloc m in (if ok then Some (replicate n junk) else None, m1))
      | Some b \<Rightarrow>
          if n = 0 then (None, free (Some b) m)
          else let (ok, m1) = malloc m
               in if ok then (Some (take n b @ replicate (n - length b) junk), free (Some b) m1)
                  else (None, m1))"

section \<open>Resizing\<close>

text \<open>The loop that destroys the elements in excess, and the one that fills the new slots, over
  their indices.\<close>

fun drop_elts :: "(nat \<Rightarrow> 'w \<Rightarrow> 'w) \<Rightarrow> int list \<Rightarrow> 'w xVector \<Rightarrow> 'w \<Rightarrow> ('w xVector \<times> 'w) run" where
  "drop_elts d [] v w = Inr (v, w)"
| "drop_elts d (i # is) v w =
     cbind (slot v i) (\<lambda>p.
       case p of
         None \<Rightarrow> drop_elts d is v w
       | Some a \<Rightarrow> cbind (put v i None) (\<lambda>v1. drop_elts d is v1 (d a w)))"

fun new_elts :: "int list \<Rightarrow> 'w xVector \<Rightarrow> 'w \<Rightarrow> ('w xVector \<times> 'w) run" where
  "new_elts [] v w = Inr (v, w)"
| "new_elts (i # is) v w =
     (let (p, w1) = (case v_fnew v of Some f \<Rightarrow> f w | None \<Rightarrow> (None, w))
      in cbind (put v i p) (\<lambda>v1. new_elts is v1 w1))"

text \<open>The size of the array for \<open>n\<close> elements: the next multiple of \<open>growth\<close>.\<close>

definition new_alloc :: "int \<Rightarrow> int \<Rightarrow> int" where
  "new_alloc growth n =
     (let a = (n div growth) * growth in if n - a > 0 then a + growth else a)"

definition resize_array :: "elt \<Rightarrow> int \<Rightarrow> 'w xVector \<Rightarrow> mem \<Rightarrow> ('w xVector \<times> mem) run" where
  "resize_array junk a v m =
     (if a = v_alloc v then Inr (v, m)
      else case realloc junk (v_data v) (nat a) m of
             (None, m1) \<Rightarrow> Inl AssertFailed
           | (Some b, m1) \<Rightarrow> Inr (v\<lparr>v_alloc := a, v_data := Some b\<rparr>, m1))"

definition iVectorResize :: "elt \<Rightarrow> 'w vec \<Rightarrow> int \<Rightarrow> (int \<times> 'w vec) run" where
  "iVectorResize junk s new_size =
     (case s of
        (None, m, w) \<Rightarrow> Inr (-1, s)
      | (Some v, m, w) \<Rightarrow>
          if new_size = v_size v then Inr (0, s)
          else if new_size \<ge> 0 then
            if v_growth v = 0 then Inl DivisionByZero
            else
              cbind (case v_fdestroy v of
                       None \<Rightarrow> Inr (v, w)
                     | Some d \<Rightarrow> drop_elts d (rev [new_size..v_size v - 1]) v w) (\<lambda>(v1, w1).
              cbind (resize_array junk (new_alloc (v_growth v1) new_size) v1 m) (\<lambda>(v2, m1).
              cbind (new_elts [v_size v2..new_size - 1] v2 w1) (\<lambda>(v3, w2).
                Inr (0, Some (v3\<lparr>v_size := new_size\<rparr>), m1, w2))))
          else Inr (-1, s))"

section \<open>Elements\<close>

definition iVectorSize :: "'w xVector option \<Rightarrow> int" where
  "iVectorSize vp = (case vp of None \<Rightarrow> -1 | Some v \<Rightarrow> v_size v)"

definition pvVectorGet :: "'w xVector option \<Rightarrow> int \<Rightarrow> elt run" where
  "pvVectorGet vp index =
     (case vp of
        None \<Rightarrow> Inr None
      | Some v \<Rightarrow> if index \<ge> v_size v \<or> index < 0 then Inr None else slot v index)"

definition iVectorReplace :: "'w xVector option \<Rightarrow> int \<Rightarrow> elt \<Rightarrow> (int \<times> 'w xVector option) run" where
  "iVectorReplace vp index e =
     (case vp of
        None \<Rightarrow> Inr (-1, None)
      | Some v \<Rightarrow>
          if index < 0 \<or> index > v_size v then Inr (-1, vp)
          else cbind (put v index e) (\<lambda>v1. Inr (0, Some v1)))"

definition iVectorAppend :: "elt \<Rightarrow> 'w vec \<Rightarrow> elt \<Rightarrow> (int \<times> 'w vec) run" where
  "iVectorAppend junk s e =
     (case s of
        (None, m, w) \<Rightarrow> Inr (-1, s)
      | (Some v, m, w) \<Rightarrow>
          cbind (iVectorResize junk s (v_size v + 1)) (\<lambda>(r, vp1, m1, w1).
            if r \<noteq> 0 then Inr (-1, vp1, m1, w1)
            else case vp1 of
                   None \<Rightarrow> Inl NullPointer
                 | Some v1 \<Rightarrow> cbind (put v1 (v_size v1 - 1) e) (\<lambda>v2. Inr (0, Some v2, m1, w1))))"

text \<open>\<open>memcpy\<close> inside the array: the source and the destination must not overlap.\<close>

definition shift_left :: "'w xVector \<Rightarrow> int \<Rightarrow> 'w xVector run" where
  "shift_left v index =
     cbind (deref (v_data v)) (\<lambda>b.
       let i = nat index; n = nat (v_size v - index - 1)
       in if i + 1 + n > length b then Inl OutOfBounds
          else if n > 1 then Inl OverlappingCopy
          else Inr (v\<lparr>v_data := Some (take i b @ take n (drop (i + 1) b) @ drop (i + n) b)\<rparr>))"

definition iVectorRemove :: "elt \<Rightarrow> 'w vec \<Rightarrow> int \<Rightarrow> (int \<times> 'w vec) run" where
  "iVectorRemove junk s index =
     (case s of
        (None, m, w) \<Rightarrow> Inr (-1, s)
      | (Some v, m, w) \<Rightarrow>
          if index < v_size v \<and> index \<ge> 0 then
            cbind (case v_fdestroy v of
                     None \<Rightarrow> Inr w
                   | Some d \<Rightarrow> cbind (slot v index) (\<lambda>p.
                       Inr (case p of None \<Rightarrow> w | Some a \<Rightarrow> d a w))) (\<lambda>w1.
            cbind (if v_size v > 1 then shift_left v index else Inr v) (\<lambda>v1.
              let v2 = v1\<lparr>v_size := v_size v1 - 1\<rparr>
              in if v_alloc v2 - v_size v2 \<ge> v_growth v2
                 then let (d, m1) = realloc junk (v_data v2) (nat (v_size v2)) m
                      in Inr (0, Some (v2\<lparr>v_data := d, v_alloc := v_size v2\<rparr>), m1, w1)
                 else Inr (0, Some v2, m, w1)))
          else Inr (-1, s))"

section \<open>Searching\<close>

text \<open>The loop of the two search functions, from index \<open>i\<close> on; \<open>n\<close> counts the slots left.\<close>

fun find_from :: "(nat \<Rightarrow> nat) \<Rightarrow> (nat \<Rightarrow> nat \<Rightarrow> int) \<Rightarrow> 'w xVector \<Rightarrow> nat \<Rightarrow> nat \<Rightarrow> int \<Rightarrow> (int \<times> nat) option run" where
  "find_from key mtch v k 0 i = Inr None"
| "find_from key mtch v k (Suc n) i =
     cbind (slot v i) (\<lambda>p.
       case p of
         Some a \<Rightarrow> if mtch k (key a) = 0 then Inr (Some (i, a)) else find_from key mtch v k n (i + 1)
       | None \<Rightarrow> find_from key mtch v k n (i + 1))"

definition find_elt :: "'w xVector \<Rightarrow> nat \<Rightarrow> (int \<times> nat) option run" where
  "find_elt v k =
     (case (v_fkey v, v_fmatch v) of
        (Some key, Some mtch) \<Rightarrow> find_from key mtch v k (nat (iVectorSize (Some v))) 0
      | _ \<Rightarrow> Inr None)"

definition pvVectorFindFirst :: "'w xVector option \<Rightarrow> nat \<Rightarrow> elt run" where
  "pvVectorFindFirst vp k =
     (case vp of
        None \<Rightarrow> Inr None
      | Some v \<Rightarrow> cbind (find_elt v k) (\<lambda>r. Inr (map_option snd r)))"

definition iVectorFindFirstIndex :: "'w xVector option \<Rightarrow> nat \<Rightarrow> int run" where
  "iVectorFindFirstIndex vp k =
     (case vp of
        None \<Rightarrow> Inr (-2)
      | Some v \<Rightarrow> cbind (find_elt v k) (\<lambda>r. Inr (case r of None \<Rightarrow> -1 | Some (i, a) \<Rightarrow> i)))"

section \<open>Clearing\<close>

lemma find_from_Some:
  "find_from key mtch v k n i = Inr (Some (j, a)) \<Longrightarrow> slot v j = Inr (Some a)"
  by (induction n arbitrary: i) (auto simp: cbind_Inr_iff split: option.splits if_splits)

definition marked :: "'w xVector \<Rightarrow> nat" where
  "marked v = (case v_data v of None \<Rightarrow> 0 | Some b \<Rightarrow> length (filter (\<lambda>x. x \<noteq> None) b))"

lemma filter_update_None:
  "i < length b \<Longrightarrow> b ! i \<noteq> None \<Longrightarrow>
     length (filter (\<lambda>x. x \<noteq> None) (b[i := None])) < length (filter (\<lambda>x. x \<noteq> None) b)"
  by (induction b arbitrary: i) (auto split: nat.splits)

lemma put_None_marked: "slot v i = Inr (Some a) \<Longrightarrow> put v i None = Inr v1 \<Longrightarrow> marked v1 < marked v"
proof (cases "v_data v")
  case (Some b)
  moreover assume "slot v i = Inr (Some a)" "put v i None = Inr v1"
  ultimately have "nat i < length b" "b ! nat i = Some a" "v1 = v\<lparr>v_data := Some (b[nat i := None])\<rparr>"
    by (auto simp: slot_def put_def cbind_Inr_iff rd_Inr_iff wr_Inr_iff split: if_splits)
  with Some filter_update_None [of "nat i" b] show ?thesis by (simp add: marked_def)
qed (simp add: slot_def)

text \<open>\<open>while ((dup = iVectorFindFirstIndex (v, p)) != -1) v->data[dup] = NULL\<close>: the pointer of the
  element that was destroyed is looked up as if it were a key.\<close>

function tag_copies :: "'w xVector \<Rightarrow> nat \<Rightarrow> 'w xVector run" where
  "tag_copies v p =
     cbind (find_elt v p) (\<lambda>r.
       case r of None \<Rightarrow> Inr v | Some (dup, a) \<Rightarrow> cbind (put v dup None) (\<lambda>v1. tag_copies v1 p))"
  by auto

termination tag_copies
  by (relation "measure (\<lambda>(v, p). marked v)")
    (auto simp: find_elt_def split: option.splits dest!: find_from_Some put_None_marked)

declare tag_copies.simps [simp del]

fun clear_elts :: "(nat \<Rightarrow> 'w \<Rightarrow> 'w) \<Rightarrow> int list \<Rightarrow> 'w xVector \<Rightarrow> 'w \<Rightarrow> ('w xVector \<times> 'w) run" where
  "clear_elts d [] v w = Inr (v, w)"
| "clear_elts d (i # is) v w =
     cbind (slot v i) (\<lambda>p.
       case p of
         None \<Rightarrow> clear_elts d is v w
       | Some a \<Rightarrow>
           cbind (put v i None) (\<lambda>v1.
           cbind (tag_copies v1 a) (\<lambda>v2. clear_elts d is v2 (d a w))))"

definition iVectorClear :: "'w vec \<Rightarrow> (int \<times> 'w vec) run" where
  "iVectorClear s =
     (case s of
        (None, m, w) \<Rightarrow> Inr (-1, s)
      | (Some v, m, w) \<Rightarrow>
          cbind (case v_fdestroy v of
                   None \<Rightarrow> Inr (v, w)
                 | Some d \<Rightarrow> clear_elts d [0..v_size v - 1] v w) (\<lambda>(v1, w1).
            Inr (0, Some (v1\<lparr>v_data := None, v_size := 0, v_alloc := 0\<rparr>), free (v_data v1) m, w1)))"

text \<open>A vector of the caller is left zeroed, one with \<open>malloc\<close> set is freed.\<close>

definition vVectorDestroy :: "'w vec \<Rightarrow> 'w vec run" where
  "vVectorDestroy s =
     (case s of
        (None, m, w) \<Rightarrow> Inr s
      | (Some v, m, w) \<Rightarrow>
          cbind (iVectorClear s) (\<lambda>(r, vp1, m1, w1).
            Inr (if r = 0 then
                   case vp1 of
                     Some v1 \<Rightarrow> if v_malloc v1 then (None, free (Some v1) m1, w1) else (Some vector_zero, m1, w1)
                   | None \<Rightarrow> (None, m1, w1)
                 else (vp1, m1, w1))))"

section \<open>What a vector stands for\<close>

definition v_wf :: "'w xVector \<Rightarrow> bool" where
  "v_wf v \<longleftrightarrow> 1 \<le> v_growth v \<and> 0 \<le> v_size v \<and> v_size v \<le> v_alloc v \<and>
     (case v_data v of None \<Rightarrow> v_alloc v = 0 | Some b \<Rightarrow> int (length b) = v_alloc v \<and> 0 < v_alloc v)"

definition elts :: "'w xVector \<Rightarrow> elt list" where
  "elts v = (case v_data v of None \<Rightarrow> [] | Some b \<Rightarrow> take (nat (v_size v)) b)"

fun somes :: "'a option list \<Rightarrow> 'a list" where
  "somes [] = []"
| "somes (None # xs) = somes xs"
| "somes (Some x # xs) = x # somes xs"

lemma somes_append [simp]: "somes (xs @ ys) = somes xs @ somes ys"
  by (induction xs rule: somes.induct) auto

lemma elts_length: "v_wf v \<Longrightarrow> int (length (elts v)) = v_size v"
  by (auto simp: v_wf_def elts_def split: option.splits)

lemma slot_elts: "v_wf v \<Longrightarrow> 0 \<le> i \<Longrightarrow> i < v_size v \<Longrightarrow> slot v i = Inr (elts v ! nat i)"
  by (auto simp: v_wf_def elts_def slot_def split: option.splits)

lemma ints_upt: "[int a..int b - 1] = map int [a..<b]"
proof (induction b)
  case 0
  then show ?case by simp
next
  case (Suc b)
  show ?case
  proof (cases "a \<le> b")
    case True
    then have "[int a..int b] = [int a..int b - 1] @ [int b]" by (intro upto_rec2) simp
    with Suc True show ?thesis by simp
  qed simp
qed

section \<open>The loops\<close>

lemma drop_elts_spec:
  "v_data v = Some b \<Longrightarrow> \<forall>i \<in> set is. i < length b \<Longrightarrow> distinct is \<Longrightarrow>
     \<exists>b1. drop_elts d (map int is) v w = Inr (v\<lparr>v_data := Some b1\<rparr>, fold d (somes (map ((!) b) is)) w) \<and>
       length b1 = length b \<and> (\<forall>j. j \<notin> set is \<longrightarrow> b1 ! j = b ! j)"
proof (induction "is" arbitrary: v b w)
  case Nil
  then show ?case by (intro exI [of _ b]) simp
next
  case (Cons i "is")
  show ?case
  proof (cases "b ! i")
    case None
    with Cons.IH [of v b w] Cons.prems show ?thesis by (auto simp: slot_def)
  next
    case (Some a)
    let ?v = "v\<lparr>v_data := Some (b[i := None])\<rparr>"
    have "map ((!) (b[i := None])) is = map ((!) b) is" using Cons.prems by (auto simp: nth_list_update)
    with Cons.IH [of ?v "b[i := None]" "d a w"] Cons.prems Some show ?thesis
      by (auto simp: slot_def put_def) 
  qed
qed

text \<open>What \<open>fnew\<close> makes of \<open>n\<close> calls.\<close>

fun fresh_elts :: "('w \<Rightarrow> elt \<times> 'w) option \<Rightarrow> nat \<Rightarrow> 'w \<Rightarrow> elt list \<times> 'w" where
  "fresh_elts f 0 w = ([], w)"
| "fresh_elts f (Suc n) w =
     (let (p, w1) = (case f of Some g \<Rightarrow> g w | None \<Rightarrow> (None, w)); (ps, w2) = fresh_elts f n w1
      in (p # ps, w2))"

lemma fresh_elts_length: "length (fst (fresh_elts f n w)) = n"
  by (induction n arbitrary: w) (auto simp: Let_def split: prod.splits, metis fst_conv)

lemma new_elts_spec:
  "v_data v = Some (b @ old) \<Longrightarrow> length old = n + r \<Longrightarrow> fresh_elts (v_fnew v) n w = (ps, w1) \<Longrightarrow>
     new_elts (map int [length b..<length b + n]) v w = Inr (v\<lparr>v_data := Some (b @ ps @ drop n old)\<rparr>, w1)"
proof (induction n arbitrary: v b old w ps)
  case 0
  then show ?case by (cases v) simp
next
  case (Suc n)
  obtain o1 os where old: "old = o1 # os" using Suc.prems(2) by (cases old) auto
  obtain p w2 where p: "(case v_fnew v of Some g \<Rightarrow> g w | None \<Rightarrow> (None, w)) = (p, w2)" by (cases "case v_fnew v of Some g \<Rightarrow> g w | None \<Rightarrow> (None, w)")
  obtain ps2 where ps: "ps = p # ps2" "fresh_elts (v_fnew v) n w2 = (ps2, w1)"
    using Suc.prems(3) p by (auto simp: Let_def split: prod.splits)
  let ?v = "v\<lparr>v_data := Some ((b @ [p]) @ os)\<rparr>"
  have "new_elts (map int [length (b @ [p])..<length (b @ [p]) + n]) ?v w2 =
      Inr (?v\<lparr>v_data := Some ((b @ [p]) @ ps2 @ drop n os)\<rparr>, w1)"
    using Suc.prems ps(2) old by (intro Suc.IH) simp_all
  moreover have "put v (int (length b)) p = Inr ?v"
    using Suc.prems(1) old by (simp add: put_def list_update_append)
  moreover have "[length b..<length b + Suc n] = length b # [length (b @ [p])..<length (b @ [p]) + n]"
    by (simp add: upt_conv_Cons del: upt_Suc)
  ultimately show ?case using p ps old by (simp del: upt_Suc)
qed

section \<open>Resizing\<close>

abbreviation block :: "'w xVector \<Rightarrow> elt list" where
  "block v \<equiv> (case v_data v of None \<Rightarrow> [] | Some b \<Rightarrow> b)"

lemma elts_block: "elts v = take (nat (v_size v)) (block v)"
  by (simp add: elts_def split: option.split)

lemma new_alloc_bounds:
  assumes "1 \<le> g" "0 \<le> n"
  shows "n \<le> new_alloc g n" "new_alloc g n < n + g" "new_alloc g n mod g = 0"
proof -
  obtain q where q: "n div g * g = q" by blast
  have "n = q + n mod g" "0 \<le> n mod g" "n mod g < g" using assms by (simp_all flip: q)
  then show "n \<le> new_alloc g n" "new_alloc g n < n + g" by (auto simp: new_alloc_def Let_def q)
  show "new_alloc g n mod g = 0" by (simp add: new_alloc_def Let_def)
qed

lemma resize_array_ok:
  assumes "int (length (block v)) = v_alloc v" "v_data v = None \<longleftrightarrow> v_alloc v = 0" "1 \<le> a" "mplan m = []"
  shows "\<exists>b1 m1. resize_array junk a v m = Inr (v\<lparr>v_alloc := a, v_data := Some b1\<rparr>, m1) \<and> int (length b1) = a \<and>
    (\<forall>k. k \<le> length (block v) \<longrightarrow> int k \<le> a \<longrightarrow> take k b1 = take k (block v)) \<and> mplan m1 = [] \<and>
    live m1 = live m + (if v_data v = None then 1 else 0)"
proof (cases "a = v_alloc v")
  case True
  then obtain b where "v_data v = Some b" using assms(2,3) by auto
  moreover from this True have "v = v\<lparr>v_alloc := a, v_data := Some b\<rparr>" by simp
  ultimately show ?thesis using True assms by (intro exI [of _ b] exI [of _ m]) (auto simp: resize_array_def)
next
  case False
  show ?thesis
  proof (cases "v_data v")
    case None
    with False assms show ?thesis
      by (intro exI [of _ "replicate (nat a) junk"]) (auto simp: resize_array_def realloc_def)
  next
    case (Some b)
    with False assms show ?thesis
      by (intro exI [of _ "take (nat a) b @ replicate (nat a - length b) junk"])
        (auto simp: resize_array_def realloc_def min_def)
  qed
qed

text \<open>The functions and parameters the user has set.\<close>

definition same_setup :: "'w xVector \<Rightarrow> 'w xVector \<Rightarrow> bool" where
  "same_setup v v1 \<longleftrightarrow> v1 = v\<lparr>v_data := v_data v1, v_size := v_size v1, v_alloc := v_alloc v1\<rparr>"

lemma same_setup_sel:
  "same_setup v v1 \<Longrightarrow> v_growth v1 = v_growth v \<and> v_malloc v1 = v_malloc v \<and> v_fnew v1 = v_fnew v \<and>
     v_fdestroy v1 = v_fdestroy v \<and> v_fkey v1 = v_fkey v \<and> v_fmatch v1 = v_fmatch v"
  unfolding same_setup_def by (cases v, cases v1) simp

lemma resize_grow:
  assumes wf: "v_wf v" and alloc: "mplan m = []" and n: "v_size v < n"
    and fresh: "fresh_elts (v_fnew v) (nat (n - v_size v)) w = (ps, w1)"
  shows "\<exists>v1 m1. iVectorResize junk (Some v, m, w) n = Inr (0, Some v1, m1, w1) \<and> v_wf v1 \<and> same_setup v v1 \<and>
    v_size v1 = n \<and> elts v1 = elts v @ ps \<and> mplan m1 = [] \<and>
    live m1 = live m + (if v_data v = None then 1 else 0)"
proof -
  let ?a = "new_alloc (v_growth v) n" and ?k = "nat (v_size v)" and ?d = "nat (n - v_size v)"
  have size: "0 \<le> v_size v" "1 \<le> v_growth v" using wf by (simp_all add: v_wf_def)
  have a: "n \<le> ?a" using new_alloc_bounds [of "v_growth v" n] size n by simp
  have blk: "int (length (block v)) = v_alloc v" "v_data v = None \<longleftrightarrow> v_alloc v = 0" "?k \<le> length (block v)"
    using wf by (auto simp: v_wf_def split: option.splits)
  obtain b1 m1 where r: "resize_array junk ?a v m = Inr (v\<lparr>v_alloc := ?a, v_data := Some b1\<rparr>, m1)"
    "int (length b1) = ?a" "take ?k b1 = elts v" "mplan m1 = []" "live m1 = live m + (if v_data v = None then 1 else 0)"
  proof -
    have "1 \<le> ?a" using a n size by simp
    from resize_array_ok [OF blk(1,2) this alloc, of junk] obtain b1 m1 where
      r: "resize_array junk ?a v m = Inr (v\<lparr>v_alloc := ?a, v_data := Some b1\<rparr>, m1)" "int (length b1) = ?a"
      "\<forall>k. k \<le> length (block v) \<longrightarrow> int k \<le> ?a \<longrightarrow> take k b1 = take k (block v)" "mplan m1 = []"
      "live m1 = live m + (if v_data v = None then 1 else 0)"
      by blast
    moreover have "int ?k \<le> ?a" using a n size by simp
    ultimately have "take ?k b1 = elts v" using blk(3) by (simp only: elts_block)
    with r show thesis by (intro that)
  qed
  let ?v = "v\<lparr>v_alloc := ?a, v_data := Some b1\<rparr>"
  have len: "length (elts v) = ?k" using elts_length [OF wf] by simp
  have old: "b1 = elts v @ drop ?k b1" using r(3) by (metis append_take_drop_id)
  have "new_elts (map int [length (elts v)..<length (elts v) + ?d]) ?v w =
      Inr (?v\<lparr>v_data := Some (elts v @ ps @ drop ?d (drop ?k b1))\<rparr>, w1)"
    using old fresh r(2) a n size by (intro new_elts_spec [where r = "nat (?a - n)"]) auto
  moreover have "[v_size v..n - 1] = map int [length (elts v)..<length (elts v) + ?d]"
    using ints_upt [of ?k "nat n"] size n by (simp add: len nat_diff_distrib)
  moreover have "drop_elts d (rev [n..v_size v - 1]) v w = Inr (v, w)" for d using n by simp
  ultimately have step: "iVectorResize junk (Some v, m, w) n =
      Inr (0, Some (?v\<lparr>v_data := Some (elts v @ ps @ drop ?d (drop ?k b1)), v_size := n\<rparr>), m1, w1)"
    using n size r(1) by (auto simp: iVectorResize_def split: option.split)
  have "length ps = ?d" using fresh fresh_elts_length [of "v_fnew v" ?d w] by simp
  with r n size len a show ?thesis
    unfolding step
    by (intro exI conjI) (rule refl, auto simp: v_wf_def same_setup_def elts_def)
qed

lemma resize_shrink:
  fixes w :: 'w and v :: "'w xVector"
  assumes wf: "v_wf v" and alloc: "mplan m = []" and n: "0 < n" "n < v_size v"
  defines "w1 \<equiv> (case v_fdestroy v of None \<Rightarrow> w | Some d \<Rightarrow> fold d (somes (rev (drop (nat n) (elts v)))) w)"
  shows "\<exists>v1 m1. iVectorResize junk (Some v, m, w) n = Inr (0, Some v1, m1, w1) \<and> v_wf v1 \<and> same_setup v v1 \<and>
    v_size v1 = n \<and> elts v1 = take (nat n) (elts v) \<and> mplan m1 = [] \<and> live m1 = live m"
proof -
  let ?a = "new_alloc (v_growth v) n"
  have size: "0 \<le> v_size v" "1 \<le> v_growth v" using wf by (simp_all add: v_wf_def)
  have a: "n \<le> ?a" using new_alloc_bounds [of "v_growth v" n] size n by simp
  obtain b where b: "v_data v = Some b" "int (length b) = v_alloc v" "v_size v \<le> v_alloc v"
    using wf n by (auto simp: v_wf_def split: option.splits)
  let ?is = "rev [nat n..<nat (v_size v)]"
  have idx: "rev [n..v_size v - 1] = map int ?is" using ints_upt [of "nat n" "nat (v_size v)"] n size by (simp add: rev_map)
  have "map ((!) b) ?is = rev (map ((!) b) [nat n..<nat (v_size v)])" by (simp add: rev_map)
  also have "map ((!) b) [nat n..<nat (v_size v)] = drop (nat n) (elts v)"
    using b n by (intro nth_equalityI) (auto simp: elts_def)
  finally have vals: "map ((!) b) ?is = rev (drop (nat n) (elts v))" .
  obtain b1 where b1: "(case v_fdestroy v of None \<Rightarrow> Inr (v, w) | Some d \<Rightarrow> drop_elts d (map int ?is) v w) =
      Inr (v\<lparr>v_data := Some b1\<rparr>, w1)" "length b1 = length b" "\<forall>j. j \<notin> set ?is \<longrightarrow> b1 ! j = b ! j"
  proof (cases "v_fdestroy v")
    case None
    then show thesis using b by (intro that [of b]) (simp_all add: w1_def)
  next
    case (Some d)
    have "\<exists>b1. drop_elts d (map int ?is) v w = Inr (v\<lparr>v_data := Some b1\<rparr>, fold d (somes (map ((!) b) ?is)) w) \<and>
       length b1 = length b \<and> (\<forall>j. j \<notin> set ?is \<longrightarrow> b1 ! j = b ! j)"
      using b by (intro drop_elts_spec) auto
    with Some vals show thesis by (auto intro: that simp: w1_def)
  qed
  have keep: "take (nat n) b1 = take (nat n) b" using b1(2,3) b n by (intro nth_equalityI) auto
  let ?v = "v\<lparr>v_data := Some b1\<rparr>"
  obtain b2 m1 where r: "resize_array junk ?a ?v m = Inr (?v\<lparr>v_alloc := ?a, v_data := Some b2\<rparr>, m1)"
    "int (length b2) = ?a" "take (nat n) b2 = take (nat n) b1" "mplan m1 = []" "live m1 = live m"
    using resize_array_ok [of ?v ?a m junk] alloc a n b b1(2) by auto
  have step: "iVectorResize junk (Some v, m, w) n =
      Inr (0, Some (v\<lparr>v_data := Some b2, v_alloc := ?a, v_size := n\<rparr>), m1, w1)"
    using n size r(1) b1(1) idx by (simp add: iVectorResize_def split: option.splits)
  show ?thesis
    unfolding step using r n size a b keep
    by (intro exI conjI) (rule refl, auto simp: v_wf_def same_setup_def elts_def min_def)
qed

end
