(* ===== verification/Vector_Laws.thy ===== *)
theory Vector_Laws
  imports Vector
begin

text \<open>
  What the operations of \<open>vector.c\<close> do to the list of elements a vector stands for: appending,
  resizing, replacing, removing, searching and clearing, with the inputs on which they go wrong.
\<close>

section \<open>The operations on the list of elements\<close>

lemma put_elts:
  "v_wf v \<Longrightarrow> 0 \<le> i \<Longrightarrow> i < v_size v \<Longrightarrow>
     \<exists>v1. put v i e = Inr v1 \<and> v_wf v1 \<and> same_setup v v1 \<and> v_size v1 = v_size v \<and> v_alloc v1 = v_alloc v \<and>
       (v_data v1 = None \<longleftrightarrow> v_data v = None) \<and> elts v1 = (elts v)[nat i := e]"
proof -
  assume a: "v_wf v" "0 \<le> i" "i < v_size v"
  then obtain b where b: "v_data v = Some b" "int (length b) = v_alloc v" "v_size v \<le> v_alloc v"
    by (auto simp: v_wf_def split: option.splits)
  with a show ?thesis
    by (intro exI [of _ "v\<lparr>v_data := Some (b[nat i := e])\<rparr>"])
      (auto simp: v_wf_def elts_def put_def same_setup_def take_update_swap)
qed

lemma same_setup_trans: "same_setup a b \<Longrightarrow> same_setup b c \<Longrightarrow> same_setup a c"
  by (cases a, cases b, cases c) (simp add: same_setup_def)

lemma append_ok:
  assumes wf: "v_wf v" and alloc: "mplan m = []"
  shows "\<exists>v1 m1. iVectorAppend junk (Some v, m, w) e =
      Inr (0, Some v1, m1, case v_fnew v of None \<Rightarrow> w | Some f \<Rightarrow> snd (f w)) \<and>
    v_wf v1 \<and> same_setup v v1 \<and> elts v1 = elts v @ [e] \<and> mplan m1 = [] \<and>
    live m1 = live m + (if v_data v = None then 1 else 0)"
proof -
  obtain p w1 where p: "(case v_fnew v of Some g \<Rightarrow> g w | None \<Rightarrow> (None, w)) = (p, w1)"
    by (cases "case v_fnew v of Some g \<Rightarrow> g w | None \<Rightarrow> (None, w)")
  have w1: "w1 = (case v_fnew v of None \<Rightarrow> w | Some f \<Rightarrow> snd (f w))" using p by (cases "v_fnew v") auto
  have "nat (v_size v + 1 - v_size v) = Suc 0" by simp
  then have "fresh_elts (v_fnew v) (nat (v_size v + 1 - v_size v)) w = ([p], w1)" using p by simp
  from resize_grow [OF wf alloc _ this, of junk] obtain v1 m1 where
    r: "iVectorResize junk (Some v, m, w) (v_size v + 1) = Inr (0, Some v1, m1, w1)" "v_wf v1" "same_setup v v1"
    "v_size v1 = v_size v + 1" "elts v1 = elts v @ [p]" "mplan m1 = []"
    "live m1 = live m + (if v_data v = None then 1 else 0)"
    by auto
  have size: "0 \<le> v_size v" "length (elts v) = nat (v_size v)"
    using wf elts_length [OF wf] by (simp_all add: v_wf_def)
  from put_elts [OF r(2), of "v_size v" e] r(4) size obtain v2 where
    v2: "put v1 (v_size v1 - 1) e = Inr v2" "v_wf v2" "same_setup v1 v2" "elts v2 = (elts v1)[nat (v_size v) := e]"
    by auto
  have "elts v2 = elts v @ [e]" using v2(4) r(5) size(2) by (simp add: list_update_append)
  with r v2 w1 same_setup_trans [OF r(3) v2(3)] show ?thesis by (auto simp: iVectorAppend_def)
qed

definition vec_inv :: "'w vec \<Rightarrow> bool" where
  "vec_inv s \<longleftrightarrow> (case s of (Some v, m, w) \<Rightarrow> v_wf v \<and> mplan m = [] | _ \<Rightarrow> False)"

definition vec_elts :: "'w vec \<Rightarrow> elt list" where
  "vec_elts s = (case fst s of Some v \<Rightarrow> elts v | None \<Rightarrow> [])"

definition vec_add :: "elt \<Rightarrow> 'w vec \<Rightarrow> elt \<Rightarrow> 'w vec run" where
  "vec_add junk s e = cbind (iVectorAppend junk s e) (\<lambda>(r, s1). Inr s1)"

interpretation vec_seq: sequence vec_inv vec_elts "vec_add junk" for junk :: elt
proof
  fix s :: "'w vec" and x
  assume "vec_inv s"
  then obtain v m w where s: "s = (Some v, m, w)" "v_wf v" "mplan m = []"
    by (cases s) (auto simp: vec_inv_def split: option.splits)
  from append_ok [OF s(2,3), of junk w x] show
    "\<exists>s1. vec_add junk s x = Inr s1 \<and> vec_inv s1 \<and> vec_elts s1 = vec_elts s @ [x]"
    unfolding s(1) vec_add_def by (auto simp: vec_inv_def vec_elts_def)
qed

lemma get_elts: "v_wf v \<Longrightarrow> pvVectorGet (Some v) i = Inr (if 0 \<le> i \<and> i < v_size v then elts v ! nat i else None)"
  by (simp add: pvVectorGet_def slot_elts)

text \<open>A vector initialised with any growth and filled with
  \<open>iVectorAppend\<close> holds exactly the elements appended, in order: \<open>iVectorSize\<close> is their
  number and \<open>pvVectorGet\<close> returns the element of each index and NULL outside.\<close>

theorem vector_append_get:
  assumes init: "iVectorInit (Some old) growth fnew fdestroy = (r, vp)" and alloc: "mplan m = []"
  shows "\<exists>v m1 w1. add_all (vec_add junk) (vp, m, w) es = Inr (Some v, m1, w1) \<and>
    iVectorSize (Some v) = int (length es) \<and>
    (\<forall>i. pvVectorGet (Some v) i = Inr (if 0 \<le> i \<and> i < int (length es) then es ! nat i else None))"
proof -
  obtain v1 where v1: "vp = Some v1" "v_wf v1" "elts v1 = []"
    using init by (auto simp: iVectorInit_def vector_zero_def v_wf_def elts_def)
  have "vec_inv (vp, m, w)" "vec_elts (vp, m, w) = []" using v1 alloc by (simp_all add: vec_inv_def vec_elts_def)
  with vec_seq.add_all_ok [of "(vp, m, w)" junk es] obtain s where
    s: "add_all (vec_add junk) (vp, m, w) es = Inr s" "vec_inv s" "vec_elts s = es" by auto
  obtain v m1 w1 where v: "s = (Some v, m1, w1)" "v_wf v" "elts v = es"
    using s(2,3) by (cases s) (auto simp: vec_inv_def vec_elts_def split: option.splits)
  show ?thesis
    using s(1) v elts_length [OF v(2)] get_elts [OF v(2)] by (auto simp: iVectorSize_def)
qed

theorem vector_append_get_witness:
  "\<exists>v m1 w1. add_all (vec_add None) (Some (vector_zero\<lparr>v_growth := 3\<rparr>), \<lparr>mplan = [], live = 0\<rparr>, ()) [Some 5, None, Some 7, Some 9] =
      Inr (Some v, m1, w1) \<and>
    iVectorSize (Some v) = int (length [Some 5, None, Some 7, Some (9 :: nat)]) \<and>
    (\<forall>i. pvVectorGet (Some v) i =
      Inr (if 0 \<le> i \<and> i < int (length [Some 5, None, Some 7, Some (9 :: nat)]) then [Some 5, None, Some 7, Some 9] ! nat i else None))"
  by (rule vector_append_get [where old = vector_zero and growth = 3 and fnew = None and fdestroy = None and r = 0])
    (simp_all add: iVectorInit_def vector_zero_def)

text \<open>C15. \<open>iVectorResize\<close> to a positive size keeps the elements up to it,
  hands the others to the destroy function, from the last to the first and without the NULL ones, and
  fills new slots with what the new function returns (NULL without one); the array has room for the
  elements, and no block is lost.\<close>

theorem vector_resize:
  fixes w :: 'w and v :: "'w xVector"
  assumes "v_wf v" "mplan m = []" "0 < n" "n \<noteq> v_size v"
    and "fresh_elts (v_fnew v) (nat (n - v_size v)) w = (ps, w2)"
  shows "\<exists>v1 m1 w1. iVectorResize junk (Some v, m, w) n = Inr (0, Some v1, m1, w1) \<and> v_wf v1 \<and>
    elts v1 = take (nat n) (elts v) @ ps \<and> same_setup v v1 \<and>
    w1 = (if n > v_size v then w2
          else case v_fdestroy v of None \<Rightarrow> w | Some d \<Rightarrow> fold d (somes (rev (drop (nat n) (elts v)))) w) \<and>
    live m1 = live m + (if v_data v = None then 1 else 0)"
proof (cases "n > v_size v")
  case True
  have "take (nat n) (elts v) = elts v" using elts_length [OF assms(1)] True by simp
  then show ?thesis
    using resize_grow [OF assms(1,2) True assms(5), of junk] True by fastforce
next
  case False
  then have n: "n < v_size v" using assms(4) by simp
  moreover from this have "v_data v \<noteq> None" using assms(1,3) by (auto simp: v_wf_def split: option.splits)
  moreover have "ps = []" using assms(5) n by simp
  ultimately show ?thesis
    using resize_shrink [OF assms(1-3) n, of junk w] by fastforce
qed

definition ex_vector :: "nat list xVector" where
  "ex_vector = vector_zero\<lparr>v_data := Some [Some 5, None, Some 7, Some 8], v_size := 3, v_alloc := 4, v_growth := 2,
     v_fdestroy := Some (\<lambda>a w. w @ [a])\<rparr>"

lemma ex_vector_wf: "v_wf ex_vector"
  by (simp add: ex_vector_def vector_zero_def v_wf_def)

theorem vector_resize_witness:
  "\<exists>v1 m1 w1. iVectorResize None (Some ex_vector, \<lparr>mplan = [], live = 1\<rparr>, []) 1 = Inr (0, Some v1, m1, w1) \<and> v_wf v1 \<and>
    elts v1 = [Some 5] \<and> w1 = [7]"
  using vector_resize [OF ex_vector_wf, of "\<lparr>mplan = [], live = 1\<rparr>" 1 "[]" "[]" "[]" None]
  by (auto simp: ex_vector_def vector_zero_def elts_def)

section \<open>Replacing and removing\<close>

text \<open>\<open>iVectorReplace\<close> changes the element of an index inside the vector
  and nothing else, and refuses a negative index or one above the size.  But it lets the size itself
  through: then it writes behind the last element, out of the array when there is no room left (or
  through NULL when there is no array), and otherwise returns success without any effect on the
  elements.\<close>

theorem vector_replace:
  assumes "v_wf v"
  shows "(0 \<le> i \<and> i < v_size v \<longrightarrow> (\<exists>v1. iVectorReplace (Some v) i e = Inr (0, Some v1) \<and> v_wf v1 \<and>
      elts v1 = (elts v)[nat i := e] \<and> same_setup v v1)) \<and>
    (i < 0 \<or> i > v_size v \<longrightarrow> iVectorReplace (Some v) i e = Inr (-1, Some v)) \<and>
    (i = v_size v \<longrightarrow>
       (if v_size v = v_alloc v
        then iVectorReplace (Some v) i e = Inl (if v_data v = None then NullPointer else OutOfBounds)
        else \<exists>v1. iVectorReplace (Some v) i e = Inr (0, Some v1) \<and> elts v1 = elts v \<and> v_size v1 = v_size v))"
proof (intro conjI impI)
  assume i: "0 \<le> i \<and> i < v_size v"
  from put_elts [OF assms, of i e] i show "\<exists>v1. iVectorReplace (Some v) i e = Inr (0, Some v1) \<and> v_wf v1 \<and>
      elts v1 = (elts v)[nat i := e] \<and> same_setup v v1"
    by (auto simp: iVectorReplace_def)
next
  assume i: "i = v_size v"
  show "if v_size v = v_alloc v
        then iVectorReplace (Some v) i e = Inl (if v_data v = None then NullPointer else OutOfBounds)
        else \<exists>v1. iVectorReplace (Some v) i e = Inr (0, Some v1) \<and> elts v1 = elts v \<and> v_size v1 = v_size v"
    using assms i by (cases "v_data v") (auto simp: iVectorReplace_def put_def v_wf_def elts_def)
qed (use assms in \<open>auto simp: iVectorReplace_def\<close>)

theorem vector_replace_witness:
  "(\<exists>v1. iVectorReplace (Some ex_vector) 1 (Some 6) = Inr (0, Some v1) \<and> elts v1 = [Some 5, Some 6, Some 7]) \<and>
   iVectorReplace (Some (ex_vector\<lparr>v_data := Some [Some 5, None, Some 7], v_alloc := 3\<rparr>)) 3 None = Inl OutOfBounds"
  using vector_replace [OF ex_vector_wf, of 1 "Some 6"]
    vector_replace [of "ex_vector\<lparr>v_data := Some [Some 5, None, Some 7], v_alloc := 3\<rparr>" 3 None]
  by (auto simp: ex_vector_def vector_zero_def v_wf_def elts_def)

lemma gap_ok:
  fixes w :: 'w and v :: "'w xVector"
  assumes wf: "v_wf v" and alloc: "mplan m = []" and i: "0 \<le> i" "i < v_size v"
  shows "if v_size v - i \<le> 2
    then \<exists>v1 m1. iVectorRemove junk (Some v, m, w) i = Inr (0, Some v1, m1,
          case (v_fdestroy v, elts v ! nat i) of (Some d, Some a) \<Rightarrow> d a w | _ \<Rightarrow> w) \<and>
        v_wf v1 \<and> elts v1 = take (nat i) (elts v) @ drop (nat i + 1) (elts v) \<and> same_setup v v1 \<and> mplan m1 = []
    else iVectorRemove junk (Some v, m, w) i = Inl OverlappingCopy"
proof -
  obtain b where b: "v_data v = Some b" "int (length b) = v_alloc v" "v_size v \<le> v_alloc v" "1 \<le> v_growth v"
    using wf i by (auto simp: v_wf_def split: option.splits)
  define w1 where "w1 = (case (v_fdestroy v, elts v ! nat i) of (Some d, Some a) \<Rightarrow> d a w | _ \<Rightarrow> w)"
  have dest: "(case v_fdestroy v of None \<Rightarrow> Inr w | Some d \<Rightarrow> cbind (slot v i) (\<lambda>p.
      Inr (case p of None \<Rightarrow> w | Some a \<Rightarrow> d a w))) = Inr w1"
    using slot_elts [OF wf i] by (simp add: w1_def split: option.split)
  show ?thesis
  proof (cases "v_size v - i \<le> 2")
    case False
    then have "shift_left v i = Inl OverlappingCopy"
      using b i by (auto simp: shift_left_def Let_def)
    with False i dest show ?thesis by (auto simp: iVectorRemove_def)
  next
    case True
    let ?b = "if v_size v > 1 then take (nat i) b @ take (nat (v_size v - i - 1)) (drop (nat i + 1) b) @
        drop (nat i + nat (v_size v - i - 1)) b else b"
    have shift: "(if v_size v > 1 then shift_left v i else Inr v) = Inr (v\<lparr>v_data := Some ?b\<rparr>)"
      using True b i by (auto simp: shift_left_def Let_def)
    have len: "length ?b = length b" using True b i by auto
    have keep: "take (nat (v_size v - 1)) ?b = take (nat i) (elts v) @ drop (nat i + 1) (elts v)"
    proof (cases "i = v_size v - 1")
      case True
      then show ?thesis using b i by (auto simp: elts_def min_def nat_diff_distrib)
    next
      case False
      then have "v_size v = i + 2" using True i by linarith
      then have "nat (v_size v) = nat i + 2" "nat (v_size v - 1) = nat i + 1" "nat (v_size v - i - 1) = 1"
        using i by simp_all
      then show ?thesis using b i \<open>v_size v = i + 2\<close>
        by (auto simp: elts_def drop_take min_def take_Suc_conv_app_nth)
    qed
    let ?v = "v\<lparr>v_data := Some ?b, v_size := v_size v - 1\<rparr>"
    have rm: "iVectorRemove junk (Some v, m, w) i =
        (if v_alloc v - (v_size v - 1) \<ge> v_growth v
         then let (d, m1) = realloc junk (Some ?b) (nat (v_size v - 1)) m
              in Inr (0, Some (?v\<lparr>v_data := d, v_alloc := v_size v - 1\<rparr>), m1, w1)
         else Inr (0, Some ?v, m, w1))"
      using i dest shift by (simp add: iVectorRemove_def Let_def)
    show ?thesis
    proof (cases "v_alloc v - (v_size v - 1) \<ge> v_growth v")
      case False
      with True rm keep len b i show ?thesis
        unfolding w1_def [symmetric] by (auto simp: alloc v_wf_def same_setup_def elts_def)
    next
      case shrink: True
      show ?thesis
      proof (cases "v_size v = 1")
        case True
        with shrink rm keep b i show ?thesis
          unfolding w1_def [symmetric] by (auto simp: alloc realloc_def v_wf_def same_setup_def elts_def)
      next
        case False
        let ?b1 = "take (nat (v_size v - 1)) ?b"
        have "realloc junk (Some ?b) (nat (v_size v - 1)) m =
            (Some ?b1, free (Some ?b) (m\<lparr>live := live m + 1\<rparr>))"
          using False i b len alloc by (simp add: realloc_def)
        with rm shrink have "iVectorRemove junk (Some v, m, w) i =
            Inr (0, Some (?v\<lparr>v_data := Some ?b1, v_alloc := v_size v - 1\<rparr>), free (Some ?b) (m\<lparr>live := live m + 1\<rparr>), w1)"
          by simp
        moreover have "length ?b1 = nat (v_size v - 1)" using b i len by simp
        ultimately show ?thesis
          using True keep b i False unfolding w1_def [symmetric]
          by (auto simp: alloc v_wf_def same_setup_def elts_def)
      qed
    qed
  qed
qed

text \<open>\<open>iVectorRemove\<close> destroys the element of the index (unless it is
  NULL) and closes the gap, when at most one element follows it.  When two or more follow, the ranges
  it hands to \<open>memcpy\<close> overlap, which C leaves undefined.\<close>

theorem vector_remove:
  fixes w :: 'w and v :: "'w xVector"
  assumes wf: "v_wf v" and alloc: "mplan m = []" and i: "0 \<le> i" "i < v_size v"
  shows "if v_size v - i \<le> 2
    then \<exists>v1 m1. iVectorRemove junk (Some v, m, w) i = Inr (0, Some v1, m1,
          case (v_fdestroy v, elts v ! nat i) of (Some d, Some a) \<Rightarrow> d a w | _ \<Rightarrow> w) \<and>
        v_wf v1 \<and> elts v1 = take (nat i) (elts v) @ drop (nat i + 1) (elts v) \<and> same_setup v v1
    else iVectorRemove junk (Some v, m, w) i = Inl OverlappingCopy"
  using gap_ok [OF assms, of junk w] by (auto split: if_splits)

theorem vector_remove_witness:
  "(\<exists>v1 m1. iVectorRemove None (Some ex_vector, \<lparr>mplan = [], live = 1\<rparr>, []) 2 = Inr (0, Some v1, m1, [7]) \<and>
      elts v1 = [Some 5, None]) \<and>
   iVectorRemove None (Some ex_vector, \<lparr>mplan = [], live = 1\<rparr>, []) 0 = Inl OverlappingCopy"
  using vector_remove [OF ex_vector_wf, of "\<lparr>mplan = [], live = 1\<rparr>" 2 None "[]"]
    vector_remove [OF ex_vector_wf, of "\<lparr>mplan = [], live = 1\<rparr>" 0 None "[]"]
  by (auto simp: ex_vector_def vector_zero_def elts_def)

section \<open>Searching and clearing\<close>

definition hit :: "(nat \<Rightarrow> nat) \<Rightarrow> (nat \<Rightarrow> nat \<Rightarrow> int) \<Rightarrow> nat \<Rightarrow> elt \<Rightarrow> bool" where
  "hit key mtch k p \<longleftrightarrow> (case p of None \<Rightarrow> False | Some a \<Rightarrow> mtch k (key a) = 0)"

lemma find_from_spec:
  "v_wf v \<Longrightarrow> i + n = length (elts v) \<Longrightarrow>
     find_from key mtch v k n (int i) = Inr (let j = i + length (takeWhile (\<lambda>p. \<not> hit key mtch k p) (drop i (elts v)))
       in if j < length (elts v) then Some (int j, the (elts v ! j)) else None)"
proof (induction n arbitrary: i)
  case 0
  then show ?case by simp
next
  case (Suc n)
  have d: "drop i (elts v) = elts v ! i # drop (Suc i) (elts v)" using Suc.prems by (simp add: Cons_nth_drop_Suc)
  have s: "slot v (int i) = Inr (elts v ! i)" using Suc.prems elts_length [OF Suc.prems(1)] by (simp add: slot_elts)
  have i1: "int (Suc i) = int i + 1" by simp
  show ?case
  proof (cases "hit key mtch k (elts v ! i)")
    case True
    then obtain a where "elts v ! i = Some a" "mtch k (key a) = 0" by (auto simp: hit_def split: option.splits)
    with True d s Suc.prems show ?thesis by simp
  next
    case False
    then have "find_from key mtch v k (Suc n) (int i) = find_from key mtch v k n (int (Suc i))"
      unfolding i1 using s by (auto simp: hit_def split: option.splits)
    with Suc.IH [of "Suc i"] Suc.prems False d show ?thesis by (simp add: Let_def)
  qed
qed

text \<open>Both search functions stop at the first element that is not NULL and whose
  key matches: \<open>iVectorFindFirstIndex\<close> returns its index and \<open>pvVectorFindFirst\<close> the element;
  without one, or without the user's functions, they return -1 and NULL.\<close>

theorem vector_find:
  assumes "v_wf v"
  shows "case (v_fkey v, v_fmatch v) of
      (Some key, Some mtch) \<Rightarrow>
        (let j = length (takeWhile (\<lambda>p. \<not> hit key mtch k p) (elts v)) in
         if j < length (elts v)
         then iVectorFindFirstIndex (Some v) k = Inr (int j) \<and> pvVectorFindFirst (Some v) k = Inr (elts v ! j) \<and>
           elts v ! j \<noteq> None
         else iVectorFindFirstIndex (Some v) k = Inr (-1) \<and> pvVectorFindFirst (Some v) k = Inr None)
    | _ \<Rightarrow> iVectorFindFirstIndex (Some v) k = Inr (-1) \<and> pvVectorFindFirst (Some v) k = Inr None"
proof (cases "v_fkey v = None \<or> v_fmatch v = None")
  case True
  then show ?thesis
    by (auto simp: iVectorFindFirstIndex_def pvVectorFindFirst_def find_elt_def split: option.splits)
next
  case False
  then obtain key mtch where f: "v_fkey v = Some key" "v_fmatch v = Some mtch" by auto
  let ?j = "length (takeWhile (\<lambda>p. \<not> hit key mtch k p) (elts v))"
  have r: "find_elt v k = Inr (if ?j < length (elts v) then Some (int ?j, the (elts v ! ?j)) else None)"
    using f find_from_spec [OF assms, of 0 "length (elts v)" key mtch k] elts_length [OF assms, symmetric]
    by (simp add: find_elt_def iVectorSize_def Let_def)
  have "elts v ! ?j \<noteq> None" if "?j < length (elts v)"
    using nth_length_takeWhile [OF that] by (auto simp: hit_def split: option.splits)
  then show ?thesis
    using f r by (auto simp: iVectorFindFirstIndex_def pvVectorFindFirst_def Let_def)
qed

theorem vector_find_witness:
  "iVectorFindFirstIndex (Some (ex_vector\<lparr>v_fkey := Some (\<lambda>a. a mod 4), v_fmatch := Some (\<lambda>x y. int x - int y)\<rparr>)) 3 = Inr 2"
  using vector_find [of "ex_vector\<lparr>v_fkey := Some (\<lambda>a. a mod 4), v_fmatch := Some (\<lambda>x y. int x - int y)\<rparr>" 3]
  by (simp add: ex_vector_def vector_zero_def v_wf_def elts_def hit_def)

lemma tag_copies_nosearch: "v_fkey v = None \<or> v_fmatch v = None \<Longrightarrow> tag_copies v p = Inr v"
  by (subst tag_copies.simps) (auto simp: find_elt_def split: option.splits)

lemma put_search: "put v i e = Inr v1 \<Longrightarrow> v_fkey v1 = v_fkey v \<and> v_fmatch v1 = v_fmatch v"
  by (auto simp: put_def cbind_Inr_iff split: if_splits)

lemma clear_elts_nosearch:
  "v_fkey v = None \<or> v_fmatch v = None \<Longrightarrow> clear_elts d is v w = drop_elts d is v w"
proof (induction d "is" v w rule: clear_elts.induct)
  case (1 d v w)
  then show ?case by simp
next
  case (2 d i "is" v w)
  show ?case
  proof (cases "slot v i")
    case Inl
    then show ?thesis by simp
  next
    case (Inr p)
    show ?thesis
    proof (cases p)
      case None
      with Inr 2 show ?thesis by simp
    next
      case (Some a)
      show ?thesis
      proof (cases "put v i None")
        case Inl
        with Inr Some show ?thesis by simp
      next
        case (Inr v1)
        then have v1: "v_fkey v1 = None \<or> v_fmatch v1 = None" using put_search 2(3) by metis
        from tag_copies_nosearch [OF this] have "tag_copies v1 a = Inr v1" .
        with "2.IH"(2) [OF \<open>slot v i = Inr p\<close> Some Inr this v1] Some Inr \<open>slot v i = Inr p\<close> show ?thesis by simp
      qed
    qed
  qed
qed

text \<open>Without search functions, \<open>iVectorClear\<close> hands every element that is
  not NULL to the destroy function, in order, once for each slot that holds it, frees the array and
  leaves an empty vector with the same setup.  So an element that is stored twice is destroyed twice:
  the code meant to prevent that looks the pointer up as a key, and needs the search functions.\<close>

theorem vector_clear:
  fixes w :: 'w and v :: "'w xVector"
  assumes "v_wf v" "v_fkey v = None \<or> v_fmatch v = None"
  shows "\<exists>v1. iVectorClear (Some v, m, w) =
      Inr (0, Some v1, free (v_data v) m,
        case v_fdestroy v of None \<Rightarrow> w | Some d \<Rightarrow> fold d (somes (elts v)) w) \<and>
    v_wf v1 \<and> same_setup v v1 \<and> elts v1 = [] \<and> v_data v1 = None"
proof -
  let ?v1 = "v\<lparr>v_data := None, v_size := 0, v_alloc := 0\<rparr>"
  have res: "v_wf ?v1 \<and> same_setup v ?v1 \<and> elts ?v1 = [] \<and> v_data ?v1 = None"
    using assms(1) by (simp add: v_wf_def same_setup_def elts_def)
  show ?thesis
  proof (cases "v_fdestroy v")
    case None
    with res show ?thesis by (auto simp: iVectorClear_def)
  next
    case (Some d)
    show ?thesis
    proof (cases "v_data v")
      case None
      then have "v_size v = 0" using assms(1) by (simp add: v_wf_def)
      with None Some res show ?thesis by (auto simp: iVectorClear_def elts_def)
    next
      case data: (Some b)
      have size: "0 \<le> v_size v" "nat (v_size v) \<le> length b" using assms(1) data by (auto simp: v_wf_def)
      have idx: "[0..v_size v - 1] = map int [0..<nat (v_size v)]" using ints_upt [of 0 "nat (v_size v)"] size by simp
      have vals: "map ((!) b) [0..<nat (v_size v)] = elts v"
        using size data by (intro nth_equalityI) (auto simp: elts_def)
      obtain b1 where "clear_elts d [0..v_size v - 1] v w = Inr (v\<lparr>v_data := Some b1\<rparr>, fold d (somes (elts v)) w)"
        using drop_elts_spec [OF data, of "[0..<nat (v_size v)]" d w] size clear_elts_nosearch [OF assms(2)]
        unfolding idx vals by auto
      with Some data res show ?thesis by (auto simp: iVectorClear_def free_def)
    qed
  qed
qed

theorem vector_clear_witness:
  "\<exists>v1. iVectorClear (Some (ex_vector\<lparr>v_data := Some [Some 5, None, Some 5, Some 8]\<rparr>), \<lparr>mplan = [], live = 1\<rparr>, []) =
    Inr (0, Some v1, \<lparr>mplan = [], live = 0\<rparr>, [5, 5]) \<and> elts v1 = []"
  using vector_clear [of "ex_vector\<lparr>v_data := Some [Some 5, None, Some 5, Some 8]\<rparr>" "\<lparr>mplan = [], live = 1\<rparr>" "[]"]
  by (auto simp: ex_vector_def vector_zero_def v_wf_def elts_def)

text \<open>\<open>iVectorResize\<close> of a vector that has elements to size 0 calls
  \<open>realloc\<close> with size 0, which frees the array and returns NULL, and the assertion that follows
  aborts the program.\<close>

theorem vector_resize_zero:
  fixes w :: 'w and v :: "'w xVector"
  assumes "v_wf v" "0 < v_size v"
  shows "iVectorResize junk (Some v, m, w) 0 = Inl AssertFailed"
proof -
  obtain b where b: "v_data v = Some b" "int (length b) = v_alloc v" "v_size v \<le> v_alloc v" "1 \<le> v_growth v"
    using assms by (auto simp: v_wf_def split: option.splits)
  have idx: "rev [0..v_size v - 1] = map int (rev [0..<nat (v_size v)])"
    using ints_upt [of 0 "nat (v_size v)"] assms(2) by (simp add: rev_map)
  obtain b1 w1 where d: "(case v_fdestroy v of None \<Rightarrow> Inr (v, w) | Some d \<Rightarrow> drop_elts d (rev [0..v_size v - 1]) v w) =
      Inr (v\<lparr>v_data := Some b1\<rparr>, w1)"
  proof (cases "v_fdestroy v")
    case None
    with b show thesis by (intro that [of b w]) simp
  next
    case (Some d)
    have "\<forall>i \<in> set (rev [0..<nat (v_size v)]). i < length b" using b by auto
    from drop_elts_spec [OF b(1) this, of d w]
    obtain b2 w2 where "drop_elts d (rev [0..v_size v - 1]) v w = Inr (v\<lparr>v_data := Some b2\<rparr>, w2)"
      unfolding idx by auto
    with Some show thesis by (intro that [of b2 w2]) simp
  qed
  have "resize_array junk (new_alloc (v_growth v) 0) (v\<lparr>v_data := Some b1\<rparr>) m = Inl AssertFailed"
    using b assms(2) by (simp add: resize_array_def new_alloc_def realloc_def)
  with d b assms(2) show ?thesis by (simp add: iVectorResize_def)
qed

theorem vector_resize_zero_witness:
  "iVectorResize None (Some ex_vector, \<lparr>mplan = [], live = 1\<rparr>, []) 0 = Inl AssertFailed"
  by (rule vector_resize_zero [OF ex_vector_wf]) (simp add: ex_vector_def)

end
