(* ===== verification/DList.thy ===== *)
theory DList
  imports Sequence
begin

text \<open>
  The doubly linked list of \<open>src/src/dlist.c\<close>: cells in a heap, linked through their addresses.
  An invariant ties the heap to the list of addresses it represents; the lemmas say what insertion,
  removal, search and destruction do to that list.
\<close>

section \<open>State\<close>

text \<open>\<open>xDListElmt\<close>; addresses are numbers, NULL is \<open>None\<close>.\<close>

record xDListElmt =
  e_data :: "nat option"
  e_prev :: "nat option"
  e_next :: "nat option"

record 'w xDList =
  l_size :: int
  l_match :: "(nat \<Rightarrow> nat \<Rightarrow> int) option"
  l_key :: "(xDListElmt \<Rightarrow> nat) option"
  l_destroy :: "(nat option \<Rightarrow> 'w \<Rightarrow> 'w) option"
  l_head :: "nat option"
  l_tail :: "nat option"

text \<open>The heap: its cells, the next fresh address, the outcome of the next calls to \<open>malloc\<close>.\<close>

record heap =
  cells :: "nat \<Rightarrow> xDListElmt option"
  fresh :: nat
  hplan :: "bool list"

definition cell :: "heap \<Rightarrow> nat option \<Rightarrow> xDListElmt run" where
  "cell h p =
     cbind (deref p) (\<lambda>a. case cells h a of None \<Rightarrow> Inl UseAfterFree | Some e \<Rightarrow> Inr e)"

definition set_cell :: "nat option \<Rightarrow> (xDListElmt \<Rightarrow> xDListElmt) \<Rightarrow> heap \<Rightarrow> heap run" where
  "set_cell p f h =
     cbind (cell h p) (\<lambda>e. Inr (h\<lparr>cells := (cells h)(the p \<mapsto> f e)\<rparr>))"

text \<open>A new cell with arbitrary contents, or NULL.\<close>

definition new_cell :: "xDListElmt \<Rightarrow> heap \<Rightarrow> nat option \<times> heap" where
  "new_cell junk h =
     (case hplan h of
        False # bs \<Rightarrow> (None, h\<lparr>hplan := bs\<rparr>)
      | bs \<Rightarrow> (Some (fresh h), h\<lparr>cells := (cells h)(fresh h \<mapsto> junk), fresh := fresh h + 1, hplan := tl bs\<rparr>))"

definition free_cell :: "nat option \<Rightarrow> heap \<Rightarrow> heap" where
  "free_cell p h = (case p of None \<Rightarrow> h | Some a \<Rightarrow> h\<lparr>cells := (cells h)(a := None)\<rparr>)"

section \<open>Operations\<close>

definition dlist_zero :: "'w xDList" where
  "dlist_zero = \<lparr>l_size = 0, l_match = None, l_key = None, l_destroy = None, l_head = None, l_tail = None\<rparr>"

definition iDListInit :: "'w xDList option \<Rightarrow> (nat option \<Rightarrow> 'w \<Rightarrow> 'w) option \<Rightarrow> int \<times> 'w xDList option" where
  "iDListInit lp destroy =
     (case lp of None \<Rightarrow> (-1, None) | Some _ \<Rightarrow> (0, Some (dlist_zero\<lparr>l_destroy := destroy\<rparr>)))"

definition iDListInitSearch ::
    "'w xDList option \<Rightarrow> (xDListElmt \<Rightarrow> nat) option \<Rightarrow> (nat \<Rightarrow> nat \<Rightarrow> int) option \<Rightarrow> int \<times> 'w xDList option" where
  "iDListInitSearch lp fkey fmatch =
     (case lp of None \<Rightarrow> (-1, None) | Some l \<Rightarrow> (0, Some (l\<lparr>l_key := fkey, l_match := fmatch\<rparr>)))"

definition iDListSize :: "'w xDList option \<Rightarrow> int" where
  "iDListSize lp = (case lp of None \<Rightarrow> -1 | Some l \<Rightarrow> l_size l)"

definition pxDListHead :: "'w xDList option \<Rightarrow> nat option" where
  "pxDListHead lp = (case lp of None \<Rightarrow> None | Some l \<Rightarrow> l_head l)"

definition pxDListTail :: "'w xDList option \<Rightarrow> nat option" where
  "pxDListTail lp = (case lp of None \<Rightarrow> None | Some l \<Rightarrow> l_tail l)"

definition pvDListElmtData :: "heap \<Rightarrow> nat option \<Rightarrow> nat option run" where
  "pvDListElmtData h p = (case p of None \<Rightarrow> Inr None | Some _ \<Rightarrow> cbind (cell h p) (\<lambda>e. Inr (e_data e)))"

definition pxDListElmtNext :: "heap \<Rightarrow> nat option \<Rightarrow> nat option run" where
  "pxDListElmtNext h p = (case p of None \<Rightarrow> Inr None | Some _ \<Rightarrow> cbind (cell h p) (\<lambda>e. Inr (e_next e)))"

definition pxDListElmtPrev :: "heap \<Rightarrow> nat option \<Rightarrow> nat option run" where
  "pxDListElmtPrev h p = (case p of None \<Rightarrow> Inr None | Some _ \<Rightarrow> cbind (cell h p) (\<lambda>e. Inr (e_prev e)))"

text \<open>The -1 returned for NULL is true as a \<open>bool\<close>.\<close>

definition bDListElmtIsHead :: "heap \<Rightarrow> nat option \<Rightarrow> bool run" where
  "bDListElmtIsHead h p = (case p of None \<Rightarrow> Inr True | Some _ \<Rightarrow> cbind (cell h p) (\<lambda>e. Inr (e_prev e = None)))"

definition bDListElmtIsTail :: "heap \<Rightarrow> nat option \<Rightarrow> bool run" where
  "bDListElmtIsTail h p = (case p of None \<Rightarrow> Inr True | Some _ \<Rightarrow> cbind (cell h p) (\<lambda>e. Inr (e_next e = None)))"

text \<open>The third component of the result is what \<open>*data\<close> is set to.\<close>

definition iDListRemove ::
    "'w xDList option \<Rightarrow> nat option \<Rightarrow> heap \<Rightarrow> (int \<times> 'w xDList option \<times> nat option option \<times> heap) run" where
  "iDListRemove lp element h =
     (case lp of
        None \<Rightarrow> Inr (-1, None, None, h)
      | Some l \<Rightarrow>
          if element = None \<or> iDListSize (Some l) = 0 then Inr (-1, lp, None, h)
          else
            cbind (cell h element) (\<lambda>e.
            cbind (if element = l_head l then
                     let l1 = l\<lparr>l_head := e_next e\<rparr> in
                     if l_head l1 = None then Inr (l1\<lparr>l_tail := None\<rparr>, h)
                     else cbind (set_cell (e_next e) (\<lambda>x. x\<lparr>e_prev := None\<rparr>) h) (\<lambda>h1. Inr (l1, h1))
                   else
                     cbind (set_cell (e_prev e) (\<lambda>x. x\<lparr>e_next := e_next e\<rparr>) h) (\<lambda>h1.
                       if e_next e = None then Inr (l\<lparr>l_tail := e_prev e\<rparr>, h1)
                       else cbind (set_cell (e_next e) (\<lambda>x. x\<lparr>e_prev := e_prev e\<rparr>) h1) (\<lambda>h2. Inr (l, h2)))) (\<lambda>(l2, h2).
              Inr (0, Some (l2\<lparr>l_size := l_size l2 - 1\<rparr>), Some (e_data e), free_cell element h2))))"

text \<open>The first cell of an empty list, common to both insertions.\<close>

definition insert_first :: "nat option \<Rightarrow> 'w xDList \<Rightarrow> heap \<Rightarrow> ('w xDList \<times> heap) run" where
  "insert_first new l h =
     cbind (set_cell new (\<lambda>x. x\<lparr>e_prev := None\<rparr>) h) (\<lambda>h1.
     cbind (set_cell new (\<lambda>x. x\<lparr>e_next := None\<rparr>) h1) (\<lambda>h2.
       Inr (l\<lparr>l_head := new, l_tail := new\<rparr>, h2)))"

definition iDListInsertAfter ::
    "xDListElmt \<Rightarrow> 'w xDList option \<Rightarrow> nat option \<Rightarrow> nat option \<Rightarrow> heap \<Rightarrow> (int \<times> 'w xDList option \<times> heap) run" where
  "iDListInsertAfter junk lp element data h =
     (case lp of
        None \<Rightarrow> Inr (-1, None, h)
      | Some l \<Rightarrow>
          if element = None \<and> iDListSize (Some l) \<noteq> 0 then Inr (-1, lp, h)
          else
            case new_cell junk h of
              (None, h0) \<Rightarrow> Inr (-1, lp, h0)
            | (new, h0) \<Rightarrow>
                cbind (set_cell new (\<lambda>x. x\<lparr>e_data := data\<rparr>) h0) (\<lambda>h1.
                cbind (if iDListSize (Some l) = 0 then insert_first new l h1
                       else
                         cbind (cell h1 element) (\<lambda>e.
                         cbind (set_cell new (\<lambda>x. x\<lparr>e_next := e_next e\<rparr>) h1) (\<lambda>h2.
                         cbind (set_cell new (\<lambda>x. x\<lparr>e_prev := element\<rparr>) h2) (\<lambda>h3.
                         cbind (if e_next e = None then Inr (l\<lparr>l_tail := new\<rparr>, h3)
                                else cbind (set_cell (e_next e) (\<lambda>x. x\<lparr>e_prev := new\<rparr>) h3) (\<lambda>h4. Inr (l, h4))) (\<lambda>(l1, h4).
                         cbind (set_cell element (\<lambda>x. x\<lparr>e_next := new\<rparr>) h4) (\<lambda>h5. Inr (l1, h5))))))) (\<lambda>(l2, h6).
                  Inr (0, Some (l2\<lparr>l_size := l_size l2 + 1\<rparr>), h6))))"

definition iDListInsertBefore ::
    "xDListElmt \<Rightarrow> 'w xDList option \<Rightarrow> nat option \<Rightarrow> nat option \<Rightarrow> heap \<Rightarrow> (int \<times> 'w xDList option \<times> heap) run" where
  "iDListInsertBefore junk lp element data h =
     (case lp of
        None \<Rightarrow> Inr (-1, None, h)
      | Some l \<Rightarrow>
          if element = None \<and> iDListSize (Some l) \<noteq> 0 then Inr (-1, lp, h)
          else
            case new_cell junk h of
              (None, h0) \<Rightarrow> Inr (-1, lp, h0)
            | (new, h0) \<Rightarrow>
                cbind (set_cell new (\<lambda>x. x\<lparr>e_data := data\<rparr>) h0) (\<lambda>h1.
                cbind (if iDListSize (Some l) = 0 then insert_first new l h1
                       else
                         cbind (set_cell new (\<lambda>x. x\<lparr>e_next := element\<rparr>) h1) (\<lambda>h2.
                         cbind (cell h2 element) (\<lambda>e.
                         cbind (set_cell new (\<lambda>x. x\<lparr>e_prev := e_prev e\<rparr>) h2) (\<lambda>h3.
                         cbind (if e_prev e = None then Inr (l\<lparr>l_head := new\<rparr>, h3)
                                else cbind (set_cell (e_prev e) (\<lambda>x. x\<lparr>e_next := new\<rparr>) h3) (\<lambda>h4. Inr (l, h4))) (\<lambda>(l1, h4).
                         cbind (set_cell element (\<lambda>x. x\<lparr>e_prev := new\<rparr>) h4) (\<lambda>h5. Inr (l1, h5))))))) (\<lambda>(l2, h6).
                  Inr (0, Some (l2\<lparr>l_size := l_size l2 + 1\<rparr>), h6))))"

definition iDListPrepend ::
    "xDListElmt \<Rightarrow> 'w xDList option \<Rightarrow> nat option \<Rightarrow> heap \<Rightarrow> (int \<times> 'w xDList option \<times> heap) run" where
  "iDListPrepend junk lp data h =
     (case lp of None \<Rightarrow> Inr (-1, None, h) | Some l \<Rightarrow> iDListInsertBefore junk lp (pxDListHead lp) data h)"

definition iDListAppend ::
    "xDListElmt \<Rightarrow> 'w xDList option \<Rightarrow> nat option \<Rightarrow> heap \<Rightarrow> (int \<times> 'w xDList option \<times> heap) run" where
  "iDListAppend junk lp data h =
     (case lp of None \<Rightarrow> Inr (-1, None, h) | Some l \<Rightarrow> iDListInsertAfter junk lp (pxDListTail lp) data h)"

text \<open>The two loops may run for ever on a damaged list: \<open>None\<close> stands for not returning.\<close>

partial_function (option) destroy_loop ::
    "'w xDList option \<Rightarrow> heap \<Rightarrow> 'w \<Rightarrow> ('w xDList option \<times> heap \<times> 'w) run option" where
  "destroy_loop lp h w =
     (if iDListSize lp > 0 then
        case iDListRemove lp (pxDListTail lp) h of
          Inl c \<Rightarrow> Some (Inl c)
        | Inr (r, lp1, d, h1) \<Rightarrow>
            destroy_loop lp1 h1
              (case (r = 0, lp1, d) of
                 (True, Some l1, Some data) \<Rightarrow> (case l_destroy l1 of Some f \<Rightarrow> f data w | None \<Rightarrow> w)
               | _ \<Rightarrow> w)
      else Some (Inr (lp, h, w)))"

definition iDListDestroy ::
    "'w xDList option \<Rightarrow> heap \<Rightarrow> 'w \<Rightarrow> (int \<times> 'w xDList option \<times> heap \<times> 'w) run option" where
  "iDListDestroy lp h w =
     (case lp of
        None \<Rightarrow> Some (Inr (-1, None, h, w))
      | Some l \<Rightarrow>
          (case destroy_loop lp h w of
             None \<Rightarrow> None
           | Some r \<Rightarrow> Some (cbind r (\<lambda>(lp1, h1, w1). Inr (0, Some dlist_zero, h1, w1)))))"

partial_function (option) find_loop ::
    "(xDListElmt \<Rightarrow> nat) \<Rightarrow> (nat \<Rightarrow> nat \<Rightarrow> int) \<Rightarrow> nat \<Rightarrow> heap \<Rightarrow> nat option \<Rightarrow> nat option run option" where
  "find_loop key mtch k h p =
     (case cell h p of
        Inl c \<Rightarrow> Some (Inl c)
      | Inr e \<Rightarrow>
          if mtch k (key e) = 0 then Some (Inr p)
          else if e_next e \<noteq> None then find_loop key mtch k h (e_next e) else Some (Inr None))"

definition pxDListFindFirst :: "'w xDList option \<Rightarrow> nat \<Rightarrow> heap \<Rightarrow> nat option run option" where
  "pxDListFindFirst lp k h =
     (case lp of
        None \<Rightarrow> Some (Inr None)
      | Some l \<Rightarrow>
          (case (l_key l, l_match l) of
             (Some key, Some mtch) \<Rightarrow>
               if iDListSize lp \<noteq> 0 then find_loop key mtch k h (pxDListHead lp) else Some (Inr None)
           | _ \<Rightarrow> Some (Inr None)))"

section \<open>The invariant\<close>

definition first_or :: "nat option \<Rightarrow> nat list \<Rightarrow> nat option" where
  "first_or n as = (case as of [] \<Rightarrow> n | a # _ \<Rightarrow> Some a)"

definition last_or :: "nat option \<Rightarrow> nat list \<Rightarrow> nat option" where
  "last_or p as = (if as = [] then p else Some (last as))"

text \<open>The cells at \<open>as\<close> are linked in both directions, between \<open>p\<close> and \<open>n\<close>.\<close>

fun linked :: "(nat \<Rightarrow> xDListElmt option) \<Rightarrow> nat option \<Rightarrow> nat list \<Rightarrow> nat option \<Rightarrow> bool" where
  "linked c p [] n = True"
| "linked c p (a # as) n =
     (case c a of None \<Rightarrow> False
      | Some e \<Rightarrow> e_prev e = p \<and> e_next e = first_or n as \<and> linked c (Some a) as n)"

definition dl_inv :: "'w xDList \<Rightarrow> heap \<Rightarrow> nat list \<Rightarrow> bool" where
  "dl_inv l h as \<longleftrightarrow> distinct as \<and> linked (cells h) None as None \<and> l_head l = first_or None as \<and>
     l_tail l = last_or None as \<and> l_size l = int (length as) \<and> (\<forall>a. cells h a \<noteq> None \<longrightarrow> a < fresh h)"

definition data_of :: "heap \<Rightarrow> nat list \<Rightarrow> nat option list" where
  "data_of h as = map (\<lambda>a. e_data (the (cells h a))) as"

lemma first_or_simps [simp]: "first_or n [] = n" "first_or n (a # as) = Some a"
  by (simp_all add: first_or_def)

lemma last_or_simps [simp]: "last_or p [] = p" "last_or p (a # as) = last_or (Some a) as"
  "last_or p (as @ [a]) = Some a"
  by (simp_all add: last_or_def)

lemma first_or_append: "first_or n (xs @ ys) = first_or (first_or n ys) xs"
  by (cases xs) simp_all

lemma last_or_append [simp]: "last_or p (xs @ ys) = last_or (last_or p xs) ys"
  by (simp add: last_or_def)

lemma linked_append:
  "linked c p (xs @ ys) n \<longleftrightarrow> linked c p xs (first_or n ys) \<and> linked c (last_or p xs) ys n"
  by (induction xs arbitrary: p) (auto simp: first_or_append split: option.splits)

lemma linked_upd: "a \<notin> set as \<Longrightarrow> linked (c(a := v)) p as n = linked c p as n"
  by (induction as arbitrary: p) (auto split: option.splits)

text \<open>Redirecting the links at the ends of a segment.\<close>

lemma linked_set_prev:
  "linked c p (b # bs) n \<Longrightarrow> b \<notin> set bs \<Longrightarrow> c b = Some e \<Longrightarrow> linked (c(b \<mapsto> e\<lparr>e_prev := q\<rparr>)) q (b # bs) n"
  by (simp add: linked_upd)

lemma linked_set_next:
  "linked c p (bs @ [b]) n \<Longrightarrow> b \<notin> set bs \<Longrightarrow> c b = Some e \<Longrightarrow> linked (c(b \<mapsto> e\<lparr>e_next := q\<rparr>)) p (bs @ [b]) q"
  by (simp add: linked_append linked_upd)

lemma linked_cells: "linked c p as n \<Longrightarrow> a \<in> set as \<Longrightarrow> c a \<noteq> None"
  by (induction as arbitrary: p) (auto split: option.splits)

lemma cell_Some [simp]: "cell h (Some a) = (case cells h a of None \<Rightarrow> Inl UseAfterFree | Some e \<Rightarrow> Inr e)"
  by (simp add: cell_def)

lemma set_cell_Some: "cells h a = Some e \<Longrightarrow> set_cell (Some a) f h = Inr (h\<lparr>cells := (cells h)(a \<mapsto> f e)\<rparr>)"
  by (simp add: set_cell_def)

lemma new_cell_ok [simp]:
  "hplan h = [] \<Longrightarrow> new_cell junk h = (Some (fresh h), h\<lparr>cells := (cells h)(fresh h \<mapsto> junk), fresh := fresh h + 1, hplan := []\<rparr>)"
  by (simp add: new_cell_def)

text \<open>The user's part of a list, and the elements' data, are untouched.\<close>

definition same_user :: "'w xDList \<Rightarrow> 'w xDList \<Rightarrow> bool" where
  "same_user l l1 \<longleftrightarrow> l_match l1 = l_match l \<and> l_key l1 = l_key l \<and> l_destroy l1 = l_destroy l"

lemma dl_inv_fresh: "dl_inv l h as \<Longrightarrow> cells h (fresh h) = None"
  by (auto simp: dl_inv_def)

lemma dl_inv_cell: "dl_inv l h (xs @ a # ys) \<Longrightarrow> \<exists>e. cells h a = Some e \<and> e_prev e = last_or None xs \<and> e_next e = first_or None ys"
  by (auto simp: dl_inv_def linked_append split: option.splits)

lemma dl_inv_notin: "dl_inv l h as \<Longrightarrow> fresh h \<notin> set as"
  using linked_cells by (fastforce simp: dl_inv_def)

lemma insert_after_ok:
  assumes inv: "dl_inv l h (xs @ a # ys)" and plan: "hplan h = []"
  shows "\<exists>l1 h1. iDListInsertAfter junk (Some l) (Some a) d h = Inr (0, Some l1, h1) \<and>
    dl_inv l1 h1 (xs @ a # fresh h # ys) \<and> hplan h1 = [] \<and> same_user l l1 \<and>
    data_of h1 (xs @ a # fresh h # ys) = data_of h (xs @ [a]) @ d # data_of h ys"
proof -
  let ?k = "fresh h"
  obtain e where e: "cells h a = Some e" "e_prev e = last_or None xs" "e_next e = first_or None ys"
    using dl_inv_cell [OF inv] by blast
  have k: "cells h ?k = None" "?k \<notin> set (xs @ a # ys)" using dl_inv_fresh [OF inv] dl_inv_notin [OF inv] by simp_all
  have ne: "a \<noteq> ?k" using e k by auto
  have size: "l_size l \<noteq> 0" using inv by (simp add: dl_inv_def)
  show ?thesis
  proof (cases ys)
    case Nil
    then show ?thesis
      using inv plan e k ne size
      by (auto simp: iDListInsertAfter_def iDListSize_def set_cell_def dl_inv_def linked_append linked_upd same_user_def
          first_or_append data_of_def)
  next
    case (Cons b bs)
    have "b \<noteq> a" "b \<noteq> ?k" "b \<notin> set xs" "b \<notin> set bs" using inv k Cons by (auto simp: dl_inv_def)
    moreover obtain eb where "cells h b = Some eb"
      using dl_inv_cell [of l h "xs @ [a]" b bs] inv Cons by auto
    ultimately show ?thesis
      using inv plan e k ne size Cons
      by (auto simp: iDListInsertAfter_def iDListSize_def set_cell_def dl_inv_def linked_append linked_upd same_user_def
          first_or_append data_of_def)
  qed
qed

lemma insert_before_ok:
  assumes inv: "dl_inv l h (xs @ a # ys)" and plan: "hplan h = []"
  shows "\<exists>l1 h1. iDListInsertBefore junk (Some l) (Some a) d h = Inr (0, Some l1, h1) \<and>
    dl_inv l1 h1 (xs @ fresh h # a # ys) \<and> hplan h1 = [] \<and> same_user l l1 \<and>
    data_of h1 (xs @ fresh h # a # ys) = data_of h xs @ d # data_of h (a # ys)"
proof -
  let ?k = "fresh h"
  obtain e where e: "cells h a = Some e" "e_prev e = last_or None xs" "e_next e = first_or None ys"
    using dl_inv_cell [OF inv] by blast
  have k: "cells h ?k = None" "?k \<notin> set (xs @ a # ys)" using dl_inv_fresh [OF inv] dl_inv_notin [OF inv] by simp_all
  have ne: "a \<noteq> ?k" using e k by auto
  have size: "l_size l \<noteq> 0" using inv by (simp add: dl_inv_def)
  show ?thesis
  proof (cases xs rule: rev_cases)
    case Nil
    then show ?thesis
      using inv plan e k ne size
      by (auto simp: iDListInsertBefore_def iDListSize_def set_cell_def dl_inv_def linked_append linked_upd same_user_def
          first_or_append data_of_def last_or_def)
  next
    case (snoc bs b)
    have "b \<noteq> a" "b \<noteq> ?k" "b \<notin> set ys" "b \<notin> set bs" using inv k snoc by (auto simp: dl_inv_def)
    moreover obtain eb where "cells h b = Some eb"
      using dl_inv_cell [of l h bs b "a # ys"] inv snoc by auto
    ultimately show ?thesis
      using inv plan e k ne size snoc
      by (auto simp: iDListInsertBefore_def iDListSize_def set_cell_def dl_inv_def linked_append linked_upd same_user_def
          first_or_append data_of_def last_or_def split: if_splits)
  qed
qed

lemma insert_empty_ok:
  assumes inv: "dl_inv l h []" and plan: "hplan h = []"
  shows "\<exists>l1 h1. iDListInsertBefore junk (Some l) p d h = Inr (0, Some l1, h1) \<and>
      iDListInsertAfter junk (Some l) p d h = Inr (0, Some l1, h1) \<and>
    dl_inv l1 h1 [fresh h] \<and> hplan h1 = [] \<and> same_user l l1 \<and> data_of h1 [fresh h] = [d]"
  using assms
  by (auto simp: iDListInsertBefore_def iDListInsertAfter_def insert_first_def iDListSize_def set_cell_def dl_inv_def
      same_user_def data_of_def)

lemma remove_ok:
  assumes inv: "dl_inv l h (xs @ a # ys)"
  shows "\<exists>l1 h1. iDListRemove (Some l) (Some a) h = Inr (0, Some l1, Some (e_data (the (cells h a))), h1) \<and>
    dl_inv l1 h1 (xs @ ys) \<and> same_user l l1 \<and> data_of h1 (xs @ ys) = data_of h (xs @ ys) \<and>
    cells h1 a = None \<and> hplan h1 = hplan h \<and> fresh h1 = fresh h \<and>
    (\<forall>b. b \<notin> set (xs @ a # ys) \<longrightarrow> cells h1 b = cells h b)"
proof -
  obtain e where e: "cells h a = Some e" "e_prev e = last_or None xs" "e_next e = first_or None ys"
    using dl_inv_cell [OF inv] by blast
  have size: "l_size l \<noteq> 0" using inv by (simp add: dl_inv_def)
  have head: "l_head l = first_or (Some a) xs" "a \<notin> set xs" "a \<notin> set ys"
    using inv by (auto simp: dl_inv_def first_or_append)
  show ?thesis
  proof (cases xs rule: rev_cases)
    case Nil
    note xs = Nil
    show ?thesis
    proof (cases ys)
      case Nil
      with xs show ?thesis
        using inv e size
        by (auto simp: iDListRemove_def iDListSize_def set_cell_def dl_inv_def same_user_def data_of_def free_cell_def Let_def)
    next
      case (Cons b bs)
      moreover obtain eb where "cells h b = Some eb" using dl_inv_cell [of l h "[a]" b bs] inv Cons xs by auto
      moreover have "b \<noteq> a" "b \<notin> set bs" using inv Cons by (auto simp: dl_inv_def)
      ultimately show ?thesis
        using inv e size xs
        by (auto simp: iDListRemove_def iDListSize_def set_cell_def dl_inv_def same_user_def data_of_def free_cell_def Let_def
            linked_upd last_or_def)
    qed
  next
    case (snoc bs b)
    have b: "b \<noteq> a" "b \<notin> set ys" "b \<notin> set bs" using inv snoc by (auto simp: dl_inv_def)
    obtain eb where eb: "cells h b = Some eb" using dl_inv_cell [of l h bs b "a # ys"] inv snoc by auto
    have nothead: "Some a \<noteq> l_head l" using head snoc by (cases bs) auto
    show ?thesis
    proof (cases ys)
      case Nil
      with snoc b eb nothead show ?thesis
        using inv e size head
        by (auto simp: iDListRemove_def iDListSize_def set_cell_def dl_inv_def same_user_def data_of_def free_cell_def
            linked_upd linked_append first_or_append)
    next
      case (Cons c cs)
      moreover obtain ec where "cells h c = Some ec" using dl_inv_cell [of l h "xs @ [a]" c cs] inv Cons by auto
      moreover have "c \<noteq> a" "c \<noteq> b" "c \<notin> set cs" "c \<notin> set bs" using inv Cons snoc by (auto simp: dl_inv_def)
      ultimately show ?thesis
        using inv e size snoc b eb nothead head
        by (auto simp: iDListRemove_def iDListSize_def set_cell_def dl_inv_def same_user_def data_of_def free_cell_def
            linked_upd linked_append first_or_append last_or_def)
    qed
  qed
qed

section \<open>Walking the list\<close>

text \<open>At most \<open>n\<close> steps of an accessor, from \<open>p\<close> on.\<close>

fun walk :: "(heap \<Rightarrow> nat option \<Rightarrow> nat option run) \<Rightarrow> heap \<Rightarrow> nat \<Rightarrow> nat option \<Rightarrow> nat list run" where
  "walk step h 0 p = Inr []"
| "walk step h (Suc n) p =
     (case p of
        None \<Rightarrow> Inr []
      | Some a \<Rightarrow> cbind (step h p) (\<lambda>q. cbind (walk step h n q) (\<lambda>as. Inr (a # as))))"

lemma walk_next: "linked (cells h) p as None \<Longrightarrow> length as \<le> n \<Longrightarrow> walk pxDListElmtNext h n (first_or None as) = Inr as"
proof (induction as arbitrary: p n)
  case Nil
  then show ?case by (cases n) simp_all
next
  case (Cons a as)
  obtain k where "n = Suc k" using Cons.prems(2) by (cases n) auto
  moreover from Cons.prems(1) obtain e where "cells h a = Some e" "e_next e = first_or None as"
    "linked (cells h) (Some a) as None" by (auto split: option.splits)
  ultimately show ?case using Cons.IH [of "Some a" k] Cons.prems(2) by (simp add: pxDListElmtNext_def)
qed

lemma walk_prev: "linked (cells h) None as q \<Longrightarrow> length as \<le> n \<Longrightarrow> walk pxDListElmtPrev h n (last_or None as) = Inr (rev as)"
proof (induction as arbitrary: q n rule: rev_induct)
  case Nil
  then show ?case by (cases n) simp_all
next
  case (snoc a as)
  obtain k where "n = Suc k" using snoc.prems(2) by (cases n) auto
  moreover from snoc.prems(1) obtain e where "cells h a = Some e" "e_prev e = last_or None as"
    "linked (cells h) None as (Some a)" by (auto simp: linked_append split: option.splits)
  ultimately show ?case using snoc.IH [of "Some a" k] snoc.prems(2) by (simp add: pxDListElmtPrev_def)
qed

section \<open>Appending and prepending\<close>

text \<open>The cells of a list, as a program finds them by following \<open>next\<close>.\<close>

definition dl_cells :: "'w xDList \<Rightarrow> heap \<Rightarrow> nat list" where
  "dl_cells l h = (case walk pxDListElmtNext h (nat (l_size l)) (l_head l) of Inl c \<Rightarrow> [] | Inr as \<Rightarrow> as)"

lemma dl_cells_inv: "dl_inv l h as \<Longrightarrow> dl_cells l h = as"
  using walk_next [of h None as "nat (l_size l)"] by (simp add: dl_cells_def dl_inv_def)

type_synonym 'w dl = "'w xDList option \<times> heap"

definition dl_ok :: "'w dl \<Rightarrow> bool" where
  "dl_ok s \<longleftrightarrow> (case s of (Some l, h) \<Rightarrow> dl_inv l h (dl_cells l h) \<and> hplan h = [] | _ \<Rightarrow> False)"

definition dl_data :: "'w dl \<Rightarrow> nat option list" where
  "dl_data s = (case s of (Some l, h) \<Rightarrow> data_of h (dl_cells l h) | _ \<Rightarrow> [])"

definition dl_append :: "xDListElmt \<Rightarrow> 'w dl \<Rightarrow> nat option \<Rightarrow> 'w dl run" where
  "dl_append junk s d = cbind (iDListAppend junk (fst s) d (snd s)) (\<lambda>(r, s1). Inr s1)"

definition dl_prepend :: "xDListElmt \<Rightarrow> 'w dl \<Rightarrow> nat option \<Rightarrow> 'w dl run" where
  "dl_prepend junk s d = cbind (iDListPrepend junk (fst s) d (snd s)) (\<lambda>(r, s1). Inr s1)"

lemma dl_okI: "dl_inv l h as \<Longrightarrow> hplan h = [] \<Longrightarrow> dl_ok (Some l, h) \<and> dl_data (Some l, h) = data_of h as"
  by (simp add: dl_ok_def dl_data_def dl_cells_inv)

lemma dl_okE:
  assumes "dl_ok s"
  obtains l h as where "s = (Some l, h)" "dl_inv l h as" "hplan h = []" "dl_data s = data_of h as"
  using assms by (cases s) (auto simp: dl_ok_def dl_data_def split: option.splits)

lemma dl_append_ok:
  assumes "dl_ok s"
  shows "\<exists>s1. dl_append junk s d = Inr s1 \<and> dl_ok s1 \<and> dl_data s1 = dl_data s @ [d]"
proof -
  obtain l h as where s: "s = (Some l, h)" "dl_inv l h as" "hplan h = []" "dl_data s = data_of h as"
    using dl_okE [OF assms] .
  obtain l1 h1 as1 where r: "iDListAppend junk (Some l) d h = Inr (0, Some l1, h1)" "dl_inv l1 h1 as1" "hplan h1 = []"
    "data_of h1 as1 = data_of h as @ [d]"
  proof (cases as rule: rev_cases)
    case Nil
    then show thesis
      using insert_empty_ok [of l h junk "l_tail l" d] s that by (auto simp: iDListAppend_def pxDListTail_def data_of_def)
  next
    case (snoc xs a)
    moreover from this s(2) have "l_tail l = Some a" by (simp add: dl_inv_def)
    ultimately show thesis
      using insert_after_ok [of l h xs a "[]" junk d] s that by (auto simp: iDListAppend_def pxDListTail_def data_of_def)
  qed
  then show ?thesis using dl_okI [OF r(2,3)] s by (simp add: dl_append_def)
qed

lemma dl_prepend_ok:
  assumes "dl_ok s"
  shows "\<exists>s1. dl_prepend junk s d = Inr s1 \<and> dl_ok s1 \<and> dl_data s1 = d # dl_data s"
proof -
  obtain l h as where s: "s = (Some l, h)" "dl_inv l h as" "hplan h = []" "dl_data s = data_of h as"
    using dl_okE [OF assms] .
  obtain l1 h1 as1 where r: "iDListPrepend junk (Some l) d h = Inr (0, Some l1, h1)" "dl_inv l1 h1 as1" "hplan h1 = []"
    "data_of h1 as1 = d # data_of h as"
  proof (cases as)
    case Nil
    then show thesis
      using insert_empty_ok [of l h junk "l_head l" d] s that by (auto simp: iDListPrepend_def pxDListHead_def data_of_def)
  next
    case (Cons a xs)
    moreover from this s(2) have "l_head l = Some a" by (simp add: dl_inv_def)
    ultimately show thesis
      using insert_before_ok [of l h "[]" a xs junk d] s that by (auto simp: iDListPrepend_def pxDListHead_def data_of_def)
  qed
  then show ?thesis using dl_okI [OF r(2,3)] s by (simp add: dl_prepend_def)
qed

text \<open>The list is a sequence in both directions: prepending adds at the end of its reverse.\<close>

interpretation dl_seq: sequence dl_ok dl_data "dl_append junk" for junk :: xDListElmt
  by unfold_locales (rule dl_append_ok)

interpretation dl_rev: sequence dl_ok "rev \<circ> dl_data" "dl_prepend junk" for junk :: xDListElmt
proof
  fix s :: "'a dl" and d
  assume "dl_ok s"
  from dl_prepend_ok [OF this, of junk d] show
    "\<exists>s1. dl_prepend junk s d = Inr s1 \<and> dl_ok s1 \<and> (rev \<circ> dl_data) s1 = (rev \<circ> dl_data) s @ [d]"
    by auto
qed

definition dlist_new :: "(nat option \<Rightarrow> 'w \<Rightarrow> 'w) option \<Rightarrow> heap \<Rightarrow> 'w dl" where
  "dlist_new destroy h = (snd (iDListInit (Some dlist_zero) destroy), h)"

lemma dlist_new_ok:
  assumes "\<forall>a. cells h a \<noteq> None \<longrightarrow> a < fresh h" "hplan h = []"
  shows "dl_ok (dlist_new destroy h) \<and> dl_data (dlist_new destroy h) = []"
proof -
  have "dl_inv (dlist_zero\<lparr>l_destroy := destroy\<rparr>) h []" using assms(1) by (simp add: dl_inv_def dlist_zero_def)
  from dl_okI [OF this assms(2)] show ?thesis by (simp add: dlist_new_def iDListInit_def data_of_def)
qed

text \<open>A list filled with \<open>iDListAppend\<close> holds the data in order, one filled with
  \<open>iDListPrepend\<close> in reverse order; \<open>iDListSize\<close> is their number, following \<open>pxDListElmtNext\<close>
  from \<open>pxDListHead\<close> visits them in this order and following \<open>pxDListElmtPrev\<close> from
  \<open>pxDListTail\<close> in the opposite one.\<close>

theorem dlist_build:
  assumes "\<forall>a. cells h a \<noteq> None \<longrightarrow> a < fresh h" "hplan h = []"
    and "(add, data) \<in> {(dl_append junk, ds), (dl_prepend junk, rev ds)}"
  shows "\<exists>lp h1 as. add_all add (dlist_new destroy h) ds = Inr (lp, h1) \<and>
    data_of h1 as = data \<and> iDListSize lp = int (length ds) \<and>
    walk pxDListElmtNext h1 (length ds) (pxDListHead lp) = Inr as \<and>
    walk pxDListElmtPrev h1 (length ds) (pxDListTail lp) = Inr (rev as)"
proof -
  have new: "dl_ok (dlist_new destroy h)" "dl_data (dlist_new destroy h) = []" using dlist_new_ok [OF assms(1,2), of destroy] by simp_all
  obtain s where s: "add_all add (dlist_new destroy h) ds = Inr s" "dl_ok s" "dl_data s = data"
    using dl_seq.add_all_ok [OF new(1), of junk ds] dl_rev.add_all_ok [OF new(1), of junk ds] assms(3) new(2)
    by (auto simp: rev_swap)
  obtain l h1 as where l: "s = (Some l, h1)" "dl_inv l h1 as" "dl_data s = data_of h1 as" using dl_okE [OF s(2)] .
  have "length data = length as" using l(3) s(3) by (simp add: data_of_def)
  moreover have "length data = length ds" using assms(3) by auto
  ultimately have len: "length as = length ds" by simp
  from l(2) show ?thesis
    using s l len walk_next [of h1 None as "length ds"] walk_prev [of h1 as None "length ds"]
    by (auto simp: dl_inv_def iDListSize_def pxDListHead_def pxDListTail_def)
qed

theorem dlist_build_witness:
  "\<exists>lp h1 as. add_all (dl_prepend \<lparr>e_data = None, e_prev = None, e_next = None\<rparr>)
      (dlist_new None \<lparr>cells = \<lambda>_. None, fresh = 1, hplan = []\<rparr> :: unit dl) [Some 7, None, Some 9] = Inr (lp, h1) \<and>
    data_of h1 as = [Some 9, None, Some 7] \<and> iDListSize lp = int (length [Some 7, None, Some (9 :: nat)]) \<and>
    walk pxDListElmtNext h1 (length [Some 7, None, Some (9 :: nat)]) (pxDListHead lp) = Inr as \<and>
    walk pxDListElmtPrev h1 (length [Some 7, None, Some (9 :: nat)]) (pxDListTail lp) = Inr (rev as)"
  by (rule dlist_build [where junk = "\<lparr>e_data = None, e_prev = None, e_next = None\<rparr>"]) simp_all

text \<open>C16. At any position of a list, \<open>iDListInsertAfter\<close> and
  \<open>iDListInsertBefore\<close> insert the data right after and right before the element, and
  \<open>iDListRemove\<close> takes the element out, hands back its data and frees its cell; all the other
  elements keep their cells, their data and their order, and the links stay consistent in both
  directions.\<close>

theorem dlist_positions:
  assumes inv: "dl_inv l h (xs @ a # ys)" and plan: "hplan h = []"
  shows "(\<exists>l1 h1. iDListInsertAfter junk (Some l) (Some a) d h = Inr (0, Some l1, h1) \<and>
      dl_inv l1 h1 (xs @ a # fresh h # ys) \<and>
      data_of h1 (xs @ a # fresh h # ys) = data_of h (xs @ [a]) @ d # data_of h ys) \<and>
    (\<exists>l1 h1. iDListInsertBefore junk (Some l) (Some a) d h = Inr (0, Some l1, h1) \<and>
      dl_inv l1 h1 (xs @ fresh h # a # ys) \<and>
      data_of h1 (xs @ fresh h # a # ys) = data_of h xs @ d # data_of h (a # ys)) \<and>
    (\<exists>l1 h1. iDListRemove (Some l) (Some a) h = Inr (0, Some l1, Some (e_data (the (cells h a))), h1) \<and>
      dl_inv l1 h1 (xs @ ys) \<and> data_of h1 (xs @ ys) = data_of h (xs @ ys) \<and> cells h1 a = None)"
  using insert_after_ok [OF assms, of junk d] insert_before_ok [OF assms, of junk d] remove_ok [OF inv] by blast

definition ex_heap :: heap where
  "ex_heap = \<lparr>cells = [1 \<mapsto> \<lparr>e_data = Some 7, e_prev = None, e_next = Some 2\<rparr>,
     2 \<mapsto> \<lparr>e_data = Some 8, e_prev = Some 1, e_next = None\<rparr>], fresh = 3, hplan = []\<rparr>"

definition ex_dlist :: "nat option list xDList" where
  "ex_dlist = dlist_zero\<lparr>l_size := 2, l_head := Some 1, l_tail := Some 2, l_destroy := Some (\<lambda>d w. w @ [d])\<rparr>"

lemma ex_dlist_inv: "dl_inv ex_dlist ex_heap ([] @ 1 # [2])"
  by (auto simp: dl_inv_def ex_dlist_def ex_heap_def dlist_zero_def)

theorem dlist_positions_witness:
  "(\<exists>l1 h1. iDListInsertAfter \<lparr>e_data = None, e_prev = None, e_next = None\<rparr> (Some ex_dlist) (Some 1) (Some 9) ex_heap =
        Inr (0, Some l1, h1) \<and>
      dl_inv l1 h1 [1, 3, 2] \<and> data_of h1 [1, 3, 2] = [Some 7, Some 9, Some 8]) \<and>
   (\<exists>l1 h1. iDListRemove (Some ex_dlist) (Some 1) ex_heap = Inr (0, Some l1, Some (Some 7), h1) \<and> dl_inv l1 h1 [2])"
  using dlist_positions [OF ex_dlist_inv, of "\<lparr>e_data = None, e_prev = None, e_next = None\<rparr>" "Some 9"]
  by (auto simp: ex_heap_def data_of_def)

section \<open>Destruction\<close>

lemma data_of_snoc: "data_of h (as @ [a]) = data_of h as @ [e_data (the (cells h a))]"
  by (simp add: data_of_def)

lemma destroy_loop_ok:
  "dl_inv l h as \<Longrightarrow>
     \<exists>l1 h1. destroy_loop (Some l) h w = Some (Inr (Some l1, h1,
         case l_destroy l of None \<Rightarrow> w | Some f \<Rightarrow> fold f (rev (data_of h as)) w)) \<and>
       (\<forall>a \<in> set as. cells h1 a = None) \<and> (\<forall>b. b \<notin> set as \<longrightarrow> cells h1 b = cells h b)"
proof (induction as arbitrary: l h w rule: rev_induct)
  case Nil
  then show ?case
    by (subst destroy_loop.simps) (auto simp: dl_inv_def iDListSize_def data_of_def split: option.splits)
next
  case (snoc a as)
  then have size: "iDListSize (Some l) > 0" "l_tail l = Some a" by (simp_all add: dl_inv_def iDListSize_def)
  obtain l1 h1 where r: "iDListRemove (Some l) (Some a) h = Inr (0, Some l1, Some (e_data (the (cells h a))), h1)"
    "dl_inv l1 h1 as" "same_user l l1" "data_of h1 as = data_of h as" "cells h1 a = None"
    "\<forall>b. b \<notin> set (as @ [a]) \<longrightarrow> cells h1 b = cells h b"
    using remove_ok [of l h as a "[]"] snoc.prems by auto
  have a: "a \<notin> set as" using snoc.prems by (simp add: dl_inv_def)
  let ?w = "case l_destroy l of None \<Rightarrow> w | Some f \<Rightarrow> f (e_data (the (cells h a))) w"
  have "destroy_loop (Some l) h w = destroy_loop (Some l1) h1 ?w"
    using size r(1,3) by (subst destroy_loop.simps) (auto simp: pxDListTail_def same_user_def split: option.splits)
  with snoc.IH [OF r(2), of ?w] r(3-6) a show ?case
    by (auto simp: same_user_def data_of_snoc split: option.splits)
qed

text \<open>C17. \<open>iDListDestroy\<close> returns, hands the data of every element to the
  destroy function, from the tail to the head and each once, frees exactly the cells of the list and
  leaves it zeroed.\<close>

theorem dlist_destroy:
  assumes "dl_inv l h as"
  shows "\<exists>h1. iDListDestroy (Some l) h w = Some (Inr (0, Some dlist_zero, h1,
      case l_destroy l of None \<Rightarrow> w | Some f \<Rightarrow> fold f (rev (data_of h as)) w)) \<and>
    (\<forall>a. cells h1 a = (if a \<in> set as then None else cells h a))"
  using destroy_loop_ok [OF assms, of w] by (auto simp: iDListDestroy_def)

theorem dlist_destroy_witness:
  "\<exists>h1. iDListDestroy (Some ex_dlist) ex_heap [] = Some (Inr (0, Some dlist_zero, h1, [Some 8, Some 7])) \<and> cells h1 1 = None"
  using dlist_destroy [OF ex_dlist_inv, of "[]"] by (auto simp: ex_heap_def ex_dlist_def data_of_def)

section \<open>Search\<close>

lemma find_loop_ok:
  "linked (cells h) p as None \<Longrightarrow> as \<noteq> [] \<Longrightarrow>
     find_loop key mtch k h (first_or None as) =
     Some (Inr (find (\<lambda>a. mtch k (key (the (cells h a))) = 0) as))"
proof (induction as arbitrary: p)
  case Nil
  then show ?case by simp
next
  case (Cons a as)
  from Cons.prems(1) obtain e where e: "cells h a = Some e" "e_next e = first_or None as"
    "linked (cells h) (Some a) as None" by (auto split: option.splits)
  show ?case
  proof (cases "as = []")
    case True
    then show ?thesis using e by (subst find_loop.simps) simp
  next
    case False
    then have "first_or None as \<noteq> None" by (cases as) simp_all
    with Cons.IH [OF e(3) False] e show ?thesis by (subst find_loop.simps) simp
  qed
qed

text \<open>\<open>pxDListFindFirst\<close> returns, with the first element whose key matches, or
  NULL when there is none or a function is missing.\<close>

theorem dlist_find:
  assumes "dl_inv l h as"
  shows "pxDListFindFirst (Some l) k h = Some (Inr
    (case (l_key l, l_match l) of
       (Some key, Some mtch) \<Rightarrow> find (\<lambda>a. mtch k (key (the (cells h a))) = 0) as
     | _ \<Rightarrow> None))"
proof -
  have "linked (cells h) None as None" "l_head l = first_or None as" "l_size l = int (length as)"
    using assms by (simp_all add: dl_inv_def)
  with find_loop_ok [of h None as _ _ k] show ?thesis
    by (cases as) (auto simp: pxDListFindFirst_def iDListSize_def pxDListHead_def split: option.splits)
qed

theorem dlist_find_witness:
  "pxDListFindFirst (Some (ex_dlist\<lparr>l_key := Some (\<lambda>e. the (e_data e)), l_match := Some (\<lambda>x y. int x - int y)\<rparr>)) 8 ex_heap =
    Some (Inr (Some 2))"
  using dlist_find [of "ex_dlist\<lparr>l_key := Some (\<lambda>e. the (e_data e)), l_match := Some (\<lambda>x y. int x - int y)\<rparr>" ex_heap "[1, 2]" 8]
    ex_dlist_inv
  by (simp add: dl_inv_def ex_heap_def)

end
