(* ===== verification/Spi.thy ===== *)
theory Spi
  imports Driver_Monad
begin

text \<open>
  The SPI bus (\<open>src/src/spi/spi.c\<close>).  The kernel's spidev driver is the parameter \<open>'w spidev\<close>: its
  calls act on a world \<open>'w\<close> that holds the bus, the chips behind it and whatever else they depend on.
  A transfer answers a result and the bytes clocked in, as a function of the position.
\<close>

section \<open>The kernel\<close>

datatype spi_ioc = IocMode | IocLsbFirst | IocBitsPerWord | IocMaxSpeed

record 'w spidev =
  s_open :: "u8 list \<Rightarrow> 'w \<Rightarrow> int \<times> 'w"
  s_close :: "int \<Rightarrow> 'w \<Rightarrow> int \<times> 'w"
  s_message :: "int \<Rightarrow> u8 list \<Rightarrow> 'w \<Rightarrow> int \<times> (nat \<Rightarrow> u8) \<times> 'w"
  s_get :: "int \<Rightarrow> spi_ioc \<Rightarrow> 'w \<Rightarrow> int \<times> nat \<times> 'w"
  s_set :: "int \<Rightarrow> spi_ioc \<Rightarrow> nat \<Rightarrow> 'w \<Rightarrow> int \<times> 'w"

section \<open>Configuration\<close>

record xSpiIos =
  ios_mode :: int
  ios_lsb :: int
  ios_bits :: u8
  ios_speed :: u32

definition eSpiModeNotSet :: int where "eSpiModeNotSet = -1"
definition eSpiNumberingMsb :: int where "eSpiNumberingMsb = 0"
definition eSpiNumberingLsb :: int where "eSpiNumberingLsb = 1"
definition eSpiNumberingNotSet :: int where "eSpiNumberingNotSet = -1"
definition eSpiBits8 :: int where "eSpiBits8 = 8"
definition eSpiBitsNotSet :: int where "eSpiBitsNotSet = -1"

lemmas spi_enums = eSpiModeNotSet_def eSpiNumberingMsb_def eSpiNumberingLsb_def eSpiNumberingNotSet_def
  eSpiBits8_def eSpiBitsNotSet_def

text \<open>\<open>SPI_LSB_FIRST\<close> of \<open>linux/spi/spi.h\<close>.\<close>

definition SPI_LSB_FIRST :: u8 where "SPI_LSB_FIRST = 8"

definition iSpiOpen :: "'w spidev \<Rightarrow> u8 list \<Rightarrow> 'w \<Rightarrow> int \<times> 'w" where
  "iSpiOpen k device w = s_open k device w"

definition iSpiClose :: "'w spidev \<Rightarrow> int \<Rightarrow> 'w \<Rightarrow> int \<times> 'w" where
  "iSpiClose k fd w = s_close k fd w"

definition iSpiGetConfig :: "'w spidev \<Rightarrow> int \<Rightarrow> xSpiIos \<Rightarrow> 'w \<Rightarrow> int \<times> xSpiIos \<times> 'w" where
  "iSpiGetConfig k fd config w =
     (let (r, x, w) = s_get k fd IocMode w in
      if r < 0 then (r, config, w)
      else let config = config\<lparr>ios_mode := uint (of_nat x :: u8)\<rparr>; (r, x, w) = s_get k fd IocLsbFirst w in
      if r < 0 then (r, config, w)
      else let config = config\<lparr>ios_lsb := (if (of_nat x :: u8) = SPI_LSB_FIRST then eSpiNumberingLsb else eSpiNumberingMsb)\<rparr>;
               (r, x, w) = s_get k fd IocBitsPerWord w in
      if r < 0 then (r, config, w)
      else let config = config\<lparr>ios_bits := (if (of_nat x :: u8) = 0 then word_of_int eSpiBits8 else of_nat x)\<rparr>;
               (r, x, w) = s_get k fd IocMaxSpeed w in
      if r < 0 then (r, config, w)
      else (0, config\<lparr>ios_speed := of_nat x\<rparr>, w))"

text \<open>One of the four settings: written when it differs from the present one and is asked for.  The
  first argument is the result so far: after a failure nothing more is done.\<close>

definition set_one :: "'w spidev \<Rightarrow> int \<Rightarrow> spi_ioc \<Rightarrow> bool \<Rightarrow> nat \<Rightarrow> int \<times> 'w \<Rightarrow> int \<times> 'w" where
  "set_one k fd ioc change x rw =
     (if fst rw < 0 \<or> \<not> change then rw else s_set k fd ioc x (snd rw))"

definition iSpiSetConfig :: "'w spidev \<Rightarrow> int \<Rightarrow> xSpiIos \<Rightarrow> xSpiIos \<Rightarrow> 'w \<Rightarrow> int \<times> 'w" where
  "iSpiSetConfig k fd junk new w =
     (let (r, config, w) = iSpiGetConfig k fd junk w in
      if r < 0 then (r, w)
      else
        set_one k fd IocMaxSpeed (ios_speed config \<noteq> ios_speed new \<and> ios_speed new \<noteq> 0) (unat (ios_speed new))
       (set_one k fd IocBitsPerWord (ios_bits config \<noteq> ios_bits new \<and> uint (ios_bits new) \<noteq> eSpiBitsNotSet)
          (if uint (ios_bits new) = eSpiBits8 then 0 else unat (ios_bits new))
       (set_one k fd IocLsbFirst (ios_lsb config \<noteq> ios_lsb new \<and> ios_lsb new \<noteq> eSpiNumberingNotSet)
          (if ios_lsb new = eSpiNumberingLsb then unat SPI_LSB_FIRST else 0)
       (set_one k fd IocMode (ios_mode config \<noteq> ios_mode new \<and> ios_mode new \<noteq> eSpiModeNotSet)
          (unat (word_of_int (ios_mode new) :: u8)) (r, w)))))"

section \<open>Transfers\<close>

text \<open>\<open>rx_len\<close> is ignored: the kernel fills the first \<open>tx_len\<close> bytes of the receive buffer.\<close>

definition iSpiXfer ::
    "'w spidev \<Rightarrow> int \<Rightarrow> u8 list \<Rightarrow> u8 \<Rightarrow> u8 list \<Rightarrow> u8 \<Rightarrow> 'w \<Rightarrow> (int \<times> u8 list \<times> 'w) run" where
  "iSpiXfer k fd tx_buffer tx_len rx_buffer rx_len w =
     (let n = unat tx_len in
      if n \<le> length tx_buffer \<and> n \<le> length rx_buffer
      then let (r, rx, w1) = s_message k fd (take n tx_buffer) w
           in Inr (r, map rx [0..<n] @ drop n rx_buffer, w1)
      else Inl OutOfBounds)"

text \<open>Without a transmit buffer the kernel shifts out zeros.\<close>

definition iSpiRead :: "'w spidev \<Rightarrow> int \<Rightarrow> u8 list \<Rightarrow> u8 \<Rightarrow> 'w \<Rightarrow> (int \<times> u8 list \<times> 'w) run" where
  "iSpiRead k fd rx_buffer rx_len w =
     (let n = unat rx_len in
      if n \<le> length rx_buffer
      then let (r, rx, w1) = s_message k fd (replicate n 0) w
           in Inr (r, map rx [0..<n] @ drop n rx_buffer, w1)
      else Inl OutOfBounds)"

definition iSpiWrite :: "'w spidev \<Rightarrow> int \<Rightarrow> u8 list \<Rightarrow> u8 \<Rightarrow> 'w \<Rightarrow> (int \<times> 'w) run" where
  "iSpiWrite k fd tx_buffer tx_len w =
     (let n = unat tx_len in
      if n \<le> length tx_buffer
      then let (r, _, w1) = s_message k fd (take n tx_buffer) w in Inr (r, w1)
      else Inl OutOfBounds)"

section \<open>Registers\<close>

text \<open>The first byte of a message is the register, with bit 7 set for a write.\<close>

definition rd_addr :: "u8 \<Rightarrow> u8" where "rd_addr r = r AND NOT 0x80"
definition wr_addr :: "u8 \<Rightarrow> u8" where "wr_addr r = r OR 0x80"

definition iSpiReadReg8 :: "'w spidev \<Rightarrow> int \<Rightarrow> u8 \<Rightarrow> 'w \<Rightarrow> (int \<times> 'w) run" where
  "iSpiReadReg8 k fd r w =
     (let b = [rd_addr r, 0] in
      cbind (iSpiXfer k fd b 2 b 2 w) (\<lambda>(n, b1, w1).
        if n \<ge> 0 then cbind (rd b1 1) (\<lambda>x. Inr (uint x, w1)) else Inr (n, w1)))"

definition lSpiReadReg16 :: "'w spidev \<Rightarrow> int \<Rightarrow> u8 \<Rightarrow> 'w \<Rightarrow> (int \<times> 'w) run" where
  "lSpiReadReg16 k fd r w =
     (let b = [rd_addr r, 0, 0] in
      cbind (iSpiXfer k fd b 3 b 3 w) (\<lambda>(n, b1, w1).
        if n \<ge> 0 then cbind (rd b1 1) (\<lambda>x. cbind (rd b1 2) (\<lambda>y. Inr (256 * uint x + uint y, w1)))
        else Inr (n, w1)))"

definition iSpiWriteReg8 :: "'w spidev \<Rightarrow> int \<Rightarrow> u8 \<Rightarrow> u8 \<Rightarrow> 'w \<Rightarrow> (int \<times> 'w) run" where
  "iSpiWriteReg8 k fd r data w =
     (let b = [wr_addr r, data] in
      cbind (iSpiXfer k fd b 2 b 2 w) (\<lambda>(n, _, w1). Inr (n - 1, w1)))"

definition iSpiWriteReg16 :: "'w spidev \<Rightarrow> int \<Rightarrow> u8 \<Rightarrow> u16 \<Rightarrow> 'w \<Rightarrow> (int \<times> 'w) run" where
  "iSpiWriteReg16 k fd r data w =
     (let b = [wr_addr r, ucast (drop_bit 8 data), ucast (data AND 0xFF)] in
      cbind (iSpiXfer k fd b 3 b 3 w) (\<lambda>(n, _, w1). Inr (n - 1, w1)))"

text \<open>The block functions work on a copy of one byte more than the block, \<open>calloc (1, ++len)\<close> with
  \<open>len\<close> an \<open>uint8_t\<close>.  The reader copies as many bytes as the kernel says it has received, less one.
  \<open>buf\<close> is the object the block is read to, from its start.\<close>

definition iSpiReadRegBlock ::
    "'w spidev \<Rightarrow> int \<Rightarrow> u8 \<Rightarrow> u8 list \<Rightarrow> u8 \<Rightarrow> mem \<times> 'w \<Rightarrow> (int \<times> u8 list \<times> mem \<times> 'w) run" where
  "iSpiReadRegBlock k fd r buf len s =
     (let len = len + 1; (ok, m) = malloc (fst s) in
      if \<not> ok then Inl AssertFailed
      else
        cbind (wr (replicate (unat len) 0) 0 (rd_addr r)) (\<lambda>b.
        cbind (iSpiXfer k fd b len b len (snd s)) (\<lambda>(n, b1, w1).
          if n \<ge> 0
          then if n = 0 then Inl OutOfBounds
               else cbind (copy_into buf 0 b1 1 (nat (n - 1))) (\<lambda>buf1. Inr (n - 1, buf1, free (Some b1) m, w1))
          else Inr (n, buf, free (Some b1) m, w1))))"

definition iSpiWriteRegBlock ::
    "'w spidev \<Rightarrow> int \<Rightarrow> u8 \<Rightarrow> u8 list \<Rightarrow> u8 \<Rightarrow> mem \<times> 'w \<Rightarrow> (int \<times> mem \<times> 'w) run" where
  "iSpiWriteRegBlock k fd r buf len s =
     (let len = len + 1; (ok, m) = malloc (fst s) in
      if \<not> ok then Inl AssertFailed
      else
        cbind (wr (replicate (unat len) 0) 0 (wr_addr r)) (\<lambda>b.
        cbind (copy_into b 1 buf 0 (unat len - 1)) (\<lambda>b.
        cbind (iSpiXfer k fd b len b len (snd s)) (\<lambda>(n, b1, w1).
          Inr (if n > 0 then n - 1 else n, free (Some b1) m, w1)))))"

end
