(* ===== verification/Timer.thy ===== *)
theory Timer
  imports Driver_Monad "HOL-Library.Signed_Division"
begin

text \<open>
  The timers (\<open>src/src/unix/timer.c\<close>) on the timerfd and epoll calls of Linux, which are the parameter
  \<open>'w timerfd\<close>: a call acts on a world \<open>'w\<close>.  A timer is a record; the callback thread reaches timers
  through the addresses registered with epoll, so it works on a heap of timers.
\<close>

section \<open>The kernel\<close>

record itimerspec =
  it_interval :: "int \<times> int"   \<comment> \<open>seconds and nanoseconds\<close>
  it_value :: "int \<times> int"

record 'w timerfd =
  t_create :: "'w \<Rightarrow> int \<times> 'w"
  t_settime :: "int \<Rightarrow> itimerspec \<Rightarrow> 'w \<Rightarrow> int \<times> 'w"
  t_gettime :: "int \<Rightarrow> 'w \<Rightarrow> int \<times> itimerspec \<times> 'w"
  t_read :: "int \<Rightarrow> 'w \<Rightarrow> int \<times> nat \<times> 'w"
  t_close :: "int \<Rightarrow> 'w \<Rightarrow> int \<times> 'w"
  t_epoll_create :: "'w \<Rightarrow> int \<times> 'w"
  t_pthread_create :: "'w \<Rightarrow> int \<times> 'w"
  t_epoll_add :: "int \<Rightarrow> int \<Rightarrow> nat \<Rightarrow> 'w \<Rightarrow> int \<times> 'w"
  t_epoll_del :: "int \<Rightarrow> int \<Rightarrow> 'w \<Rightarrow> int \<times> bool \<times> 'w"   \<comment> \<open>the flag: \<open>errno == ENOENT\<close>\<close>

section \<open>Timers\<close>

text \<open>Callbacks and user data are known by numbers.\<close>

record xTimer =
  tm_fd :: int
  tm_interval :: int
  tm_callback :: "nat option"
  tm_udata :: "nat option"
  tm_singleshot :: bool
  tm_active :: bool

definition timer_zero :: xTimer where
  "timer_zero = \<lparr>tm_fd = 0, tm_interval = 0, tm_callback = None, tm_udata = None, tm_singleshot = False, tm_active = False\<rparr>"

text \<open>The result of \<open>calloc\<close> is not tested.\<close>

definition xTimerNew :: "'w timerfd \<Rightarrow> mem \<times> 'w \<Rightarrow> (xTimer option \<times> mem \<times> 'w) run" where
  "xTimerNew k s =
     (let (fd, w) = t_create k (snd s) in
      if fd \<noteq> -1
      then let (ok, m) = malloc (fst s) in
           cbind (deref (if ok then Some timer_zero else None)) (\<lambda>t.
             Inr (Some (t\<lparr>tm_fd := fd, tm_singleshot := True\<rparr>), m, w))
      else Inr (None, fst s, w))"

definition bTimerIsActive :: "xTimer \<Rightarrow> bool" where "bTimerIsActive t = tm_active t"
definition lTimerInterval :: "xTimer \<Rightarrow> int" where "lTimerInterval t = tm_interval t"
definition bTimerIsSingleShot :: "xTimer \<Rightarrow> bool" where "bTimerIsSingleShot t = tm_singleshot t"
definition pvTimerUserData :: "xTimer \<Rightarrow> nat option" where "pvTimerUserData t = tm_udata t"

definition vTimerSetInterval :: "xTimer \<Rightarrow> int \<Rightarrow> xTimer" where
  "vTimerSetInterval t ms = t\<lparr>tm_interval := ms\<rparr>"

definition vTimerSetSingleShot :: "xTimer \<Rightarrow> bool \<Rightarrow> xTimer" where
  "vTimerSetSingleShot t b = t\<lparr>tm_singleshot := b\<rparr>"

definition iTimerStop :: "'w timerfd \<Rightarrow> xTimer \<Rightarrow> 'w \<Rightarrow> int \<times> xTimer \<times> 'w" where
  "iTimerStop k t w =
     (if tm_active t
      then let (r, w1) = t_settime k (tm_fd t) \<lparr>it_interval = (0, 0), it_value = (0, 0)\<rparr> w
           in (r, t\<lparr>tm_active := (r = 0)\<rparr>, w1)
      else (0, t, w))"

definition timer_spec :: "xTimer \<Rightarrow> itimerspec" where
  "timer_spec t =
     (let sec = tm_interval t sdiv 1000; nsec = (tm_interval t smod 1000) * 1000000
      in \<lparr>it_interval = (if tm_singleshot t then (0, 0) else (sec, nsec)), it_value = (sec, nsec)\<rparr>)"

definition iTimerStart :: "'w timerfd \<Rightarrow> xTimer \<Rightarrow> 'w \<Rightarrow> int \<times> xTimer \<times> 'w" where
  "iTimerStart k t w =
     (let (r, t1, w1) = iTimerStop k t w in
      if r = 0
      then let (r, w2) = t_settime k (tm_fd t1) (timer_spec t1) w1
           in (r, t1\<lparr>tm_active := (r = 0)\<rparr>, w2)
      else (r, t1, w1))"

definition iTimerDelete :: "'w timerfd \<Rightarrow> xTimer \<Rightarrow> mem \<times> 'w \<Rightarrow> int \<times> mem \<times> 'w" where
  "iTimerDelete k t s =
     (let (_, t1, w1) = iTimerStop k t (snd s); (r, w2) = t_close k (tm_fd t1) w1
      in (r, if r = 0 then free (Some t1) (fst s) else fst s, w2))"

definition lTimerRemainingTime :: "'w timerfd \<Rightarrow> xTimer \<Rightarrow> 'w \<Rightarrow> int \<times> 'w" where
  "lTimerRemainingTime k t w =
     (if tm_active t
      then let (r, ts, w1) = t_gettime k (tm_fd t) w
           in (if r = 0 then fst (it_value ts) * 1000 + snd (it_value ts) sdiv 1000000 else r, w1)
      else (-1, w))"

definition bTimerIsTimeout :: "'w timerfd \<Rightarrow> xTimer \<Rightarrow> 'w \<Rightarrow> bool \<times> 'w" where
  "bTimerIsTimeout k t w = (let (r, w1) = lTimerRemainingTime k t w in (r = 0, w1))"

text \<open>\<open>read\<close> returns 8 with the number of expirations, which is cut to an \<open>int\<close>.\<close>

definition iTimerWait :: "'w timerfd \<Rightarrow> xTimer \<Rightarrow> 'w \<Rightarrow> int \<times> 'w" where
  "iTimerWait k t w =
     (let (r, res, w1) = t_read k (tm_fd t) w
      in (if r = 8 then sint (of_nat res :: u32) else r, w1))"

section \<open>Callbacks\<close>

record xTimerContext =
  c_epfd :: int
  c_run :: bool

definition iCreateThread :: "'w timerfd \<Rightarrow> xTimerContext \<times> 'w \<Rightarrow> int \<times> xTimerContext \<times> 'w" where
  "iCreateThread k s =
     (let (c, w) = s in
      if c_epfd c = 0
      then let (r, w1) = t_epoll_create k w in
           if r \<ge> 0 then let (r1, w2) = t_pthread_create k w1 in (r1, c\<lparr>c_epfd := r, c_run := True\<rparr>, w2)
           else (r, c, w1)
      else (0, c, w))"

definition iTimerSetCallback ::
    "'w timerfd \<Rightarrow> nat \<Rightarrow> xTimer \<Rightarrow> nat option \<Rightarrow> nat option \<Rightarrow> xTimerContext \<times> 'w \<Rightarrow> int \<times> xTimer \<times> xTimerContext \<times> 'w" where
  "iTimerSetCallback k addr t callback udata s =
     (let (r, c, w) = iCreateThread k s in
      if r = 0
      then let (r, enoent, w1) = t_epoll_del k (c_epfd c) (tm_fd t) w in
           if r = -1 \<and> enoent
           then let t1 = t\<lparr>tm_callback := callback, tm_udata := udata\<rparr>;
                    (r, w2) = t_epoll_add k (c_epfd c) (tm_fd t1) addr w1
                in (r, t1, c, w2)
           else (r, t, c, w1)
      else (r, t, c, w))"

definition iTimerUnsetCallback ::
    "'w timerfd \<Rightarrow> xTimer \<Rightarrow> xTimerContext \<times> 'w \<Rightarrow> int \<times> xTimer \<times> xTimerContext \<times> 'w" where
  "iTimerUnsetCallback k t s =
     (let (c, w) = s in
      if c_epfd c \<noteq> 0
      then let (r, _, w1) = t_epoll_del k (c_epfd c) (tm_fd t) w
           in (r, if r = 0 then t\<lparr>tm_callback := None, tm_udata := None\<rparr> else t, c, w1)
      else (0, t, c, w))"

text \<open>The callback thread handles the events of one \<open>epoll_wait\<close>: \<open>ev\<close> is the array of
  \<open>MAX_EVENTS\<close> entries from index \<open>i\<close> on, of which the kernel has filled the first ones, and \<open>n\<close> is the
  variable \<open>ret\<close>.  A callback may change timers and the world.\<close>

type_synonym timers = "nat \<Rightarrow> xTimer option"
type_synonym 'w callback = "nat \<Rightarrow> nat \<Rightarrow> timers \<times> 'w \<Rightarrow> timers \<times> 'w"

definition timer_at :: "timers \<Rightarrow> nat \<Rightarrow> xTimer run" where
  "timer_at h a = (case h a of None \<Rightarrow> Inl UseAfterFree | Some t \<Rightarrow> Inr t)"

fun call_times :: "'w callback \<Rightarrow> nat \<Rightarrow> nat \<Rightarrow> timers \<times> 'w \<Rightarrow> (timers \<times> 'w) run" where
  "call_times call a 0 s = Inr s"
| "call_times call a (Suc j) s =
     cbind (timer_at (fst s) a) (\<lambda>t.
       call_times call a j (case tm_callback t of None \<Rightarrow> s | Some f \<Rightarrow> call f a s))"

fun thread_batch ::
    "'w timerfd \<Rightarrow> 'w callback \<Rightarrow> nat option list \<Rightarrow> int \<Rightarrow> int \<Rightarrow> timers \<times> 'w \<Rightarrow> (timers \<times> 'w) run" where
  "thread_batch k call [] i n s = (if i < n then Inl OutOfBounds else Inr s)"
| "thread_batch k call (p # ev) i n s =
     (if i < n then
        case p of
          None \<Rightarrow> thread_batch k call ev (i + 1) n s
        | Some a \<Rightarrow>
            cbind (timer_at (fst s) a) (\<lambda>t.
              let (n1, res, w1) = t_read k (tm_fd t) (snd s); s1 = (fst s, w1)
              in cbind (if n1 = 8 \<and> res > 0 then call_times call a res s1 else Inr s1) (\<lambda>s2.
                   thread_batch k call ev (i + 1) n1 s2))
      else Inr s)"

end
