(* ===== verification/Rf69_Registers.thy ===== *)
theory Rf69_Registers
  imports Driver_Monad
begin

text \<open>
  The registers of the RFM69 radio module and the values of their fields
  (\<open>src/src/spi/rf69_registers.h\<close>), as far as the driver uses them.  The collection \<open>rf69_regs\<close>
  replaces them by their numbers.
\<close>

section \<open>Registers and field values\<close>

definition REG_FIFO :: u8 where "REG_FIFO = 0x00"
definition REG_OPMODE :: u8 where "REG_OPMODE = 0x01"
definition REG_DATAMODUL :: u8 where "REG_DATAMODUL = 0x02"
definition REG_BITRATEMSB :: u8 where "REG_BITRATEMSB = 0x03"
definition REG_BITRATELSB :: u8 where "REG_BITRATELSB = 0x04"
definition REG_FDEVMSB :: u8 where "REG_FDEVMSB = 0x05"
definition REG_FDEVLSB :: u8 where "REG_FDEVLSB = 0x06"
definition REG_FRFMSB :: u8 where "REG_FRFMSB = 0x07"
definition REG_FRFLSB :: u8 where "REG_FRFLSB = 0x09"
definition REG_OSC1 :: u8 where "REG_OSC1 = 0x0A"
definition REG_PALEVEL :: u8 where "REG_PALEVEL = 0x11"
definition REG_OCP :: u8 where "REG_OCP = 0x13"
definition REG_RXBW :: u8 where "REG_RXBW = 0x19"
definition REG_RSSICONFIG :: u8 where "REG_RSSICONFIG = 0x23"
definition REG_RSSIVALUE :: u8 where "REG_RSSIVALUE = 0x24"
definition REG_DIOMAPPING1 :: u8 where "REG_DIOMAPPING1 = 0x25"
definition REG_DIOMAPPING2 :: u8 where "REG_DIOMAPPING2 = 0x26"
definition REG_IRQFLAGS1 :: u8 where "REG_IRQFLAGS1 = 0x27"
definition REG_IRQFLAGS2 :: u8 where "REG_IRQFLAGS2 = 0x28"
definition REG_RSSITHRESH :: u8 where "REG_RSSITHRESH = 0x29"
definition REG_SYNCCONFIG :: u8 where "REG_SYNCCONFIG = 0x2E"
definition REG_SYNCVALUE1 :: u8 where "REG_SYNCVALUE1 = 0x2F"
definition REG_SYNCVALUE2 :: u8 where "REG_SYNCVALUE2 = 0x30"
definition REG_PACKETCONFIG1 :: u8 where "REG_PACKETCONFIG1 = 0x37"
definition REG_PAYLOADLENGTH :: u8 where "REG_PAYLOADLENGTH = 0x38"
definition REG_NODEADRS :: u8 where "REG_NODEADRS = 0x39"
definition REG_BROADCASTADRS :: u8 where "REG_BROADCASTADRS = 0x3A"
definition REG_FIFOTHRESH :: u8 where "REG_FIFOTHRESH = 0x3C"
definition REG_PACKETCONFIG2 :: u8 where "REG_PACKETCONFIG2 = 0x3D"
definition REG_AESKEY1 :: u8 where "REG_AESKEY1 = 0x3E"
definition REG_TEMP1 :: u8 where "REG_TEMP1 = 0x4E"
definition REG_TEMP2 :: u8 where "REG_TEMP2 = 0x4F"
definition REG_TESTPA1 :: u8 where "REG_TESTPA1 = 0x5A"
definition REG_TESTPA2 :: u8 where "REG_TESTPA2 = 0x5C"
definition REG_TESTDAGC :: u8 where "REG_TESTDAGC = 0x6F"
definition RF_BITRATEMSB_55555 :: u8 where "RF_BITRATEMSB_55555 = 0x02"
definition RF_BITRATELSB_55555 :: u8 where "RF_BITRATELSB_55555 = 0x40"
definition RF_FDEVMSB_50000 :: u8 where "RF_FDEVMSB_50000 = 0x03"
definition RF_FDEVLSB_50000 :: u8 where "RF_FDEVLSB_50000 = 0x33"
definition RF_OPMODE_SEQUENCER_ON :: u8 where "RF_OPMODE_SEQUENCER_ON = 0x00"
definition RF_OPMODE_LISTEN_OFF :: u8 where "RF_OPMODE_LISTEN_OFF = 0x00"
definition RF_OPMODE_SLEEP :: u8 where "RF_OPMODE_SLEEP = 0x00"
definition RF_OPMODE_STANDBY :: u8 where "RF_OPMODE_STANDBY = 0x04"
definition RF_OPMODE_SYNTHESIZER :: u8 where "RF_OPMODE_SYNTHESIZER = 0x08"
definition RF_OPMODE_RECEIVER :: u8 where "RF_OPMODE_RECEIVER = 0x10"
definition RF_OPMODE_TRANSMITTER :: u8 where "RF_OPMODE_TRANSMITTER = 0x0C"
definition RF_DATAMODUL_DATAMODE_PACKET :: u8 where "RF_DATAMODUL_DATAMODE_PACKET = 0x00"
definition RF_DATAMODUL_MODULATIONTYPE_FSK :: u8 where "RF_DATAMODUL_MODULATIONTYPE_FSK = 0x00"
definition RF_DATAMODUL_MODULATIONSHAPING_00 :: u8 where "RF_DATAMODUL_MODULATIONSHAPING_00 = 0x00"
definition RF_OSC1_RCCAL_START :: u8 where "RF_OSC1_RCCAL_START = 0x80"
definition RF_OSC1_RCCAL_DONE :: u8 where "RF_OSC1_RCCAL_DONE = 0x40"
definition RF_PALEVEL_PA0_ON :: u8 where "RF_PALEVEL_PA0_ON = 0x80"
definition RF_PALEVEL_PA1_ON :: u8 where "RF_PALEVEL_PA1_ON = 0x40"
definition RF_PALEVEL_PA2_ON :: u8 where "RF_PALEVEL_PA2_ON = 0x20"
definition RF_OCP_OFF :: u8 where "RF_OCP_OFF = 0x0F"
definition RF_OCP_ON :: u8 where "RF_OCP_ON = 0x1A"
definition RF_RXBW_DCCFREQ_010 :: u8 where "RF_RXBW_DCCFREQ_010 = 0x40"
definition RF_RXBW_MANT_16 :: u8 where "RF_RXBW_MANT_16 = 0x00"
definition RF_RXBW_EXP_2 :: u8 where "RF_RXBW_EXP_2 = 0x02"
definition RF_RSSI_START :: u8 where "RF_RSSI_START = 0x01"
definition RF_RSSI_DONE :: u8 where "RF_RSSI_DONE = 0x02"
definition RF_DIOMAPPING1_DIO0_01 :: u8 where "RF_DIOMAPPING1_DIO0_01 = 0x40"
definition RF_DIOMAPPING2_CLKOUT_OFF :: u8 where "RF_DIOMAPPING2_CLKOUT_OFF = 0x07"
definition RF_IRQFLAGS1_MODEREADY :: u8 where "RF_IRQFLAGS1_MODEREADY = 0x80"
definition RF_IRQFLAGS2_FIFOOVERRUN :: u8 where "RF_IRQFLAGS2_FIFOOVERRUN = 0x10"
definition RF_IRQFLAGS2_PAYLOADREADY :: u8 where "RF_IRQFLAGS2_PAYLOADREADY = 0x04"
definition RF_SYNC_ON :: u8 where "RF_SYNC_ON = 0x80"
definition RF_SYNC_FIFOFILL_AUTO :: u8 where "RF_SYNC_FIFOFILL_AUTO = 0x00"
definition RF_SYNC_SIZE_2 :: u8 where "RF_SYNC_SIZE_2 = 0x08"
definition RF_SYNC_TOL_0 :: u8 where "RF_SYNC_TOL_0 = 0x00"
definition RF_PACKET1_FORMAT_VARIABLE :: u8 where "RF_PACKET1_FORMAT_VARIABLE = 0x80"
definition RF_PACKET1_DCFREE_OFF :: u8 where "RF_PACKET1_DCFREE_OFF = 0x00"
definition RF_PACKET1_CRC_ON :: u8 where "RF_PACKET1_CRC_ON = 0x10"
definition RF_PACKET1_CRCAUTOCLEAR_ON :: u8 where "RF_PACKET1_CRCAUTOCLEAR_ON = 0x00"
definition RF_PACKET1_ADRSFILTERING_OFF :: u8 where "RF_PACKET1_ADRSFILTERING_OFF = 0x00"
definition RF_PACKET1_ADRSFILTERING_NODEBROADCAST :: u8 where "RF_PACKET1_ADRSFILTERING_NODEBROADCAST = 0x04"
definition RF_FIFOTHRESH_TXSTART_FIFONOTEMPTY :: u8 where "RF_FIFOTHRESH_TXSTART_FIFONOTEMPTY = 0x80"
definition RF_FIFOTHRESH_VALUE :: u8 where "RF_FIFOTHRESH_VALUE = 0x0F"
definition RF_PACKET2_RXRESTARTDELAY_2BITS :: u8 where "RF_PACKET2_RXRESTARTDELAY_2BITS = 0x10"
definition RF_PACKET2_RXRESTART :: u8 where "RF_PACKET2_RXRESTART = 0x04"
definition RF_PACKET2_AUTORXRESTART_ON :: u8 where "RF_PACKET2_AUTORXRESTART_ON = 0x02"
definition RF_PACKET2_AES_ON :: u8 where "RF_PACKET2_AES_ON = 0x01"
definition RF_PACKET2_AES_OFF :: u8 where "RF_PACKET2_AES_OFF = 0x00"
definition RF_TEMP1_MEAS_START :: u8 where "RF_TEMP1_MEAS_START = 0x08"
definition RF_TEMP1_MEAS_RUNNING :: u8 where "RF_TEMP1_MEAS_RUNNING = 0x04"
definition RF_DAGC_IMPROVED_LOWBETA0 :: u8 where "RF_DAGC_IMPROVED_LOWBETA0 = 0x30"
definition RF_FIFO_SIZE :: nat where "RF_FIFO_SIZE = 66"

lemmas rf69_regs =
  REG_FIFO_def REG_OPMODE_def REG_DATAMODUL_def REG_BITRATEMSB_def REG_BITRATELSB_def REG_FDEVMSB_def
  REG_FDEVLSB_def REG_FRFMSB_def REG_FRFLSB_def REG_OSC1_def REG_PALEVEL_def REG_OCP_def REG_RXBW_def
  REG_RSSICONFIG_def REG_RSSIVALUE_def REG_DIOMAPPING1_def REG_DIOMAPPING2_def REG_IRQFLAGS1_def
  REG_IRQFLAGS2_def REG_RSSITHRESH_def REG_SYNCCONFIG_def REG_SYNCVALUE1_def REG_SYNCVALUE2_def
  REG_PACKETCONFIG1_def REG_PAYLOADLENGTH_def REG_NODEADRS_def REG_BROADCASTADRS_def REG_FIFOTHRESH_def
  REG_PACKETCONFIG2_def REG_AESKEY1_def REG_TEMP1_def REG_TEMP2_def REG_TESTPA1_def REG_TESTPA2_def
  REG_TESTDAGC_def RF_BITRATEMSB_55555_def RF_BITRATELSB_55555_def RF_FDEVMSB_50000_def
  RF_FDEVLSB_50000_def RF_OPMODE_SEQUENCER_ON_def RF_OPMODE_LISTEN_OFF_def RF_OPMODE_SLEEP_def
  RF_OPMODE_STANDBY_def RF_OPMODE_SYNTHESIZER_def RF_OPMODE_RECEIVER_def RF_OPMODE_TRANSMITTER_def
  RF_DATAMODUL_DATAMODE_PACKET_def RF_DATAMODUL_MODULATIONTYPE_FSK_def
  RF_DATAMODUL_MODULATIONSHAPING_00_def RF_OSC1_RCCAL_START_def RF_OSC1_RCCAL_DONE_def
  RF_PALEVEL_PA0_ON_def RF_PALEVEL_PA1_ON_def RF_PALEVEL_PA2_ON_def RF_OCP_OFF_def RF_OCP_ON_def
  RF_RXBW_DCCFREQ_010_def RF_RXBW_MANT_16_def RF_RXBW_EXP_2_def RF_RSSI_START_def RF_RSSI_DONE_def
  RF_DIOMAPPING1_DIO0_01_def RF_DIOMAPPING2_CLKOUT_OFF_def RF_IRQFLAGS1_MODEREADY_def
  RF_IRQFLAGS2_FIFOOVERRUN_def RF_IRQFLAGS2_PAYLOADREADY_def RF_SYNC_ON_def RF_SYNC_FIFOFILL_AUTO_def
  RF_SYNC_SIZE_2_def RF_SYNC_TOL_0_def RF_PACKET1_FORMAT_VARIABLE_def RF_PACKET1_DCFREE_OFF_def
  RF_PACKET1_CRC_ON_def RF_PACKET1_CRCAUTOCLEAR_ON_def RF_PACKET1_ADRSFILTERING_OFF_def
  RF_PACKET1_ADRSFILTERING_NODEBROADCAST_def RF_FIFOTHRESH_TXSTART_FIFONOTEMPTY_def
  RF_FIFOTHRESH_VALUE_def RF_PACKET2_RXRESTARTDELAY_2BITS_def RF_PACKET2_RXRESTART_def
  RF_PACKET2_AUTORXRESTART_ON_def RF_PACKET2_AES_ON_def RF_PACKET2_AES_OFF_def RF_TEMP1_MEAS_START_def
  RF_TEMP1_MEAS_RUNNING_def RF_DAGC_IMPROVED_LOWBETA0_def RF_FIFO_SIZE_def

end
