(* ===== verification/Rf69.thy ===== *)
theory Rf69
  imports Rf69_Registers Spi Timer
begin

text \<open>
  The driver of the RFM69 radio module (\<open>src/src/spi/rf69.c\<close>) and its Linux part
  (\<open>src/src/spi/rf69_sysio.c\<close>): registers over SPI, an interrupt line, and timers that bound the waits.
  The functions are in the order of their calls.  The mutexes are left out: the functions run one after
  the other, the interrupt routine between them.
\<close>

section \<open>State\<close>

text \<open>What the driver stands on: the SPI bus, the timers, and the input the module's interrupt line is
  connected to.\<close>

record 'w board =
  b_spi :: "'w spidev"
  b_timer :: "'w timerfd"
  b_din_open :: "int \<Rightarrow> 'w \<Rightarrow> bool \<times> 'w"
  b_din_close :: "'w \<Rightarrow> 'w"
  b_din_callback :: "'w \<Rightarrow> int \<times> 'w"
  b_din_read :: "'w \<Rightarrow> int \<times> 'w"

record xRf69 =
  rf_data :: "u8 list"          \<comment> \<open>\<open>uint8_t data[RF_FIFO_SIZE]\<close>\<close>
  rf_data_len :: u8
  rf_payload_len :: u8
  rf_dest :: u8
  rf_sender :: u8
  rf_ctl :: u8
  rf_rssi :: int
  rf_mode :: u8
  rf_promiscuous :: bool
  rf_hw :: bool                 \<comment> \<open>\<open>is_rfm69hw\<close>\<close>
  rf_open :: bool
  rf_node_id :: u8
  rf_power_level :: u8
  rf_fd :: int

record 'w drv =
  rf :: xRf69
  heap :: mem
  wld :: 'w

definition rf69_zero :: xRf69 where
  "rf69_zero = \<lparr>rf_data = replicate RF_FIFO_SIZE 0, rf_data_len = 0, rf_payload_len = 0, rf_dest = 0, rf_sender = 0,
     rf_ctl = 0, rf_rssi = 0, rf_mode = 0, rf_promiscuous = False, rf_hw = False, rf_open = False, rf_node_id = 0,
     rf_power_level = 0, rf_fd = 0\<rparr>"

definition eRf69ModeSleep :: u8 where "eRf69ModeSleep = 0"
definition eRf69ModeStandby :: u8 where "eRf69ModeStandby = 1"
definition eRf69ModeSynth :: u8 where "eRf69ModeSynth = 2"
definition eRf69ModeRx :: u8 where "eRf69ModeRx = 3"
definition eRf69ModeTx :: u8 where "eRf69ModeTx = 4"

definition RF69_ACK :: u8 where "RF69_ACK = 0x80"
definition RF69_ACKREQ :: u8 where "RF69_ACKREQ = 0x40"
definition RF69_BROADCAST_ADDR :: u8 where "RF69_BROADCAST_ADDR = 255"
definition RF69_HEADER_SIZE :: nat where "RF69_HEADER_SIZE = 4"
definition RF69_MAX_DATA_LEN :: nat where "RF69_MAX_DATA_LEN = RF_FIFO_SIZE - 5"
definition RF69_CSMA_TIMEOUT_MS :: int where "RF69_CSMA_TIMEOUT_MS = 1000"
definition RF69_CSMA_MIN_LEVEL_DBM :: int where "RF69_CSMA_MIN_LEVEL_DBM = -90"
definition RF69_TX_TIMEOUT_MS :: int where "RF69_TX_TIMEOUT_MS = 1000"
definition RF69_DEFAULT_POWER :: int where "RF69_DEFAULT_POWER = 18"
definition RF69_TEMP_CAL :: int where "RF69_TEMP_CAL = 150"
definition INT_MAX :: int where "INT_MAX = 2147483647"

lemmas rf69_modes = eRf69ModeSleep_def eRf69ModeStandby_def eRf69ModeSynth_def eRf69ModeRx_def eRf69ModeTx_def

lemmas rf69_settings = RF69_ACK_def RF69_ACKREQ_def RF69_BROADCAST_ADDR_def RF69_HEADER_SIZE_def RF69_MAX_DATA_LEN_def
  RF69_CSMA_TIMEOUT_MS_def RF69_CSMA_MIN_LEVEL_DBM_def RF69_TX_TIMEOUT_MS_def RF69_DEFAULT_POWER_def RF69_TEMP_CAL_def
  INT_MAX_def

abbreviation upd :: "(xRf69 \<Rightarrow> xRf69) \<Rightarrow> 'w drv \<Rightarrow> 'w drv" where
  "upd f s \<equiv> s\<lparr>rf := f (rf s)\<rparr>"

section \<open>The Linux part: registers, timers, interrupt line\<close>

definition iRf69WriteReg :: "'w board \<Rightarrow> u8 \<Rightarrow> u8 \<Rightarrow> 'w drv \<Rightarrow> (int \<times> 'w drv) out" where
  "iRf69WriteReg B reg data s =
     obind (Some (iSpiWriteReg8 (b_spi B) (rf_fd (rf s)) reg data (wld s))) (\<lambda>(r, w). ret (r, s\<lparr>wld := w\<rparr>))"

definition iRf69ReadReg :: "'w board \<Rightarrow> u8 \<Rightarrow> 'w drv \<Rightarrow> (int \<times> 'w drv) out" where
  "iRf69ReadReg B reg s =
     obind (Some (iSpiReadReg8 (b_spi B) (rf_fd (rf s)) reg (wld s))) (\<lambda>(r, w). ret (r, s\<lparr>wld := w\<rparr>))"

definition iRf69WriteBlock :: "'w board \<Rightarrow> u8 \<Rightarrow> u8 list \<Rightarrow> u8 \<Rightarrow> 'w drv \<Rightarrow> (int \<times> 'w drv) out" where
  "iRf69WriteBlock B reg buf len s =
     obind (Some (iSpiWriteRegBlock (b_spi B) (rf_fd (rf s)) reg buf len (heap s, wld s))) (\<lambda>(r, m, w).
       ret (r, s\<lparr>heap := m, wld := w\<rparr>))"

text \<open>The block is read to the start of the object \<open>buf\<close>, which is returned.\<close>

definition iRf69ReadBlock :: "'w board \<Rightarrow> u8 \<Rightarrow> u8 list \<Rightarrow> u8 \<Rightarrow> 'w drv \<Rightarrow> (int \<times> u8 list \<times> 'w drv) out" where
  "iRf69ReadBlock B reg buf len s =
     obind (Some (iSpiReadRegBlock (b_spi B) (rf_fd (rf s)) reg buf len (heap s, wld s))) (\<lambda>(r, buf1, m, w).
       ret (r, buf1, s\<lparr>heap := m, wld := w\<rparr>))"

definition iRf69WriteConstElmt :: "'w board \<Rightarrow> u8 \<times> u8 \<Rightarrow> 'w drv \<Rightarrow> (int \<times> 'w drv) out" where
  "iRf69WriteConstElmt B config s =
     (if fst config \<noteq> 255 then iRf69WriteReg B (fst config) (snd config) s else ret (0, s))"

definition xRf69TimerNew :: "'w board \<Rightarrow> 'w drv \<Rightarrow> (xTimer option \<times> 'w drv) out" where
  "xRf69TimerNew B s =
     obind (Some (xTimerNew (b_timer B) (heap s, wld s))) (\<lambda>(t, m, w). ret (t, s\<lparr>heap := m, wld := w\<rparr>))"

definition vRf69TimerStart :: "'w board \<Rightarrow> xTimer option \<Rightarrow> int \<Rightarrow> 'w drv \<Rightarrow> (xTimer \<times> 'w drv) out" where
  "vRf69TimerStart B tp timeout s =
     obind (Some (deref tp)) (\<lambda>t.
       let (_, t1, w) = iTimerStart (b_timer B) (vTimerSetInterval t timeout) (wld s) in ret (t1, s\<lparr>wld := w\<rparr>))"

definition vRf69TimerStop :: "'w board \<Rightarrow> xTimer \<Rightarrow> 'w drv \<Rightarrow> xTimer \<times> 'w drv" where
  "vRf69TimerStop B t s = (let (_, t1, w) = iTimerStop (b_timer B) t (wld s) in (t1, s\<lparr>wld := w\<rparr>))"

definition vRf69TimerDelete :: "'w board \<Rightarrow> xTimer \<Rightarrow> 'w drv \<Rightarrow> 'w drv" where
  "vRf69TimerDelete B t s =
     (let (_, m, w) = iTimerDelete (b_timer B) t (heap s, wld s) in s\<lparr>heap := m, wld := w\<rparr>)"

definition bRf69TimerTimeout :: "'w board \<Rightarrow> xTimer \<Rightarrow> 'w drv \<Rightarrow> bool \<times> 'w drv" where
  "bRf69TimerTimeout B t s = (let (z, w) = bTimerIsTimeout (b_timer B) t (wld s) in (z, s\<lparr>wld := w\<rparr>))"

definition iRf69ReadIrqPin :: "'w board \<Rightarrow> 'w drv \<Rightarrow> (int \<times> 'w drv) out" where
  "iRf69ReadIrqPin B s = (let (r, w) = b_din_read B (wld s) in ret (r, s\<lparr>wld := w\<rparr>))"

text \<open>\<open>uint8_t b; TRY_INT (b = iRf69ReadReg (rf, reg))\<close>\<close>

definition read_u8 :: "'w board \<Rightarrow> u8 \<Rightarrow> 'w drv \<Rightarrow> (u8 \<Rightarrow> 'w drv \<Rightarrow> (int \<times> 'w drv) out) \<Rightarrow> (int \<times> 'w drv) out" where
  "read_u8 B reg s k = try_int (as_u8 (iRf69ReadReg B reg s)) (\<lambda>b s. k (word_of_int b) s)"

section \<open>Waits\<close>

text \<open>One turn of \<open>do { TRY_INT (x = op); } while (again (x) && ! timeout);\<close>.  The state of the loop
  is the result the function returns early with, the variable \<open>x\<close>, and the driver.\<close>

definition turn ::
    "'w board \<Rightarrow> ('w drv \<Rightarrow> (int \<times> 'w drv) out) \<Rightarrow> (int \<Rightarrow> bool) \<Rightarrow> xTimer \<Rightarrow>
     int option \<times> int \<times> 'w drv \<Rightarrow> (bool \<times> int option \<times> int \<times> 'w drv) out" where
  "turn B op again t c =
     (case c of (_, _, s) \<Rightarrow>
        obind (op s) (\<lambda>(r, s1).
          if r < 0 then ret (False, Some r, r, s1)
          else if again r
          then let (timeout, s2) = bRf69TimerTimeout B t s1 in ret (\<not> timeout, None, r, s2)
          else ret (False, None, r, s1)))"

text \<open>The loop with its timer started, deleted only when the loop ends by itself.\<close>

definition timed ::
    "'w board \<Rightarrow> ('w drv \<Rightarrow> (int \<times> 'w drv) out) \<Rightarrow> (int \<Rightarrow> bool) \<Rightarrow> xTimer \<Rightarrow> 'w drv \<Rightarrow> (int \<Rightarrow> int) \<Rightarrow> (int \<times> 'w drv) out" where
  "timed B op again t s result =
     obind (wait_loop (turn B op again t) (None, 0, s)) (\<lambda>(early, x, s1).
       case early of Some r \<Rightarrow> ret (r, s1) | None \<Rightarrow> ret (result x, vRf69TimerDelete B t s1))"

definition with_timer :: "'w board \<Rightarrow> int \<Rightarrow> 'w drv \<Rightarrow> (xTimer \<Rightarrow> 'w drv \<Rightarrow> 'a out) \<Rightarrow> 'a out" where
  "with_timer B timeout s k =
     obind (xRf69TimerNew B s) (\<lambda>(tp, s). obind (vRf69TimerStart B tp timeout s) (\<lambda>(t, s). k t s))"

definition iRf69WaitIrq :: "'w board \<Rightarrow> int \<Rightarrow> 'w drv \<Rightarrow> (int \<times> 'w drv) out" where
  "iRf69WaitIrq B timeout s =
     with_timer B timeout s (\<lambda>t s.
       timed B (\<lambda>s. as_bool (iRf69ReadIrqPin B s)) (\<lambda>b. b = 0) t s (\<lambda>b. b))"

definition mode_ready :: "int \<Rightarrow> bool" where
  "mode_ready b \<longleftrightarrow> (word_of_int b :: u8) AND RF_IRQFLAGS1_MODEREADY \<noteq> 0"

definition iRf69WaitForReady :: "'w board \<Rightarrow> int \<Rightarrow> 'w drv \<Rightarrow> (int \<times> 'w drv) out" where
  "iRf69WaitForReady B timeout s =
     with_timer B timeout s (\<lambda>t s.
       timed B (\<lambda>s. as_u8 (iRf69ReadReg B REG_IRQFLAGS1 s)) (\<lambda>b. \<not> mode_ready b) t s
         (\<lambda>b. if mode_ready b then 1 else 0))"

definition iRf69WriteRegWithCheck :: "'w board \<Rightarrow> u8 \<Rightarrow> u8 \<Rightarrow> int \<Rightarrow> 'w drv \<Rightarrow> (int \<times> 'w drv) out" where
  "iRf69WriteRegWithCheck B reg data timeout s =
     with_timer B timeout s (\<lambda>t s.
       timed B (\<lambda>s. try_int (iRf69WriteReg B reg data s) (\<lambda>_ s. as_u8 (iRf69ReadReg B reg s)))
         (\<lambda>b. b \<noteq> uint data) t s (\<lambda>b. if b = uint data then 1 else 0))"

section \<open>Modes and reception\<close>

definition iRf69SetHighPowerRegs :: "'w board \<Rightarrow> bool \<Rightarrow> 'w drv \<Rightarrow> (int \<times> 'w drv) out" where
  "iRf69SetHighPowerRegs B on s =
     try_int (iRf69WriteReg B REG_TESTPA1 (if on then 0x5D else 0x55) s) (\<lambda>_ s.
     try_int (iRf69WriteReg B REG_TESTPA2 (if on then 0x7C else 0x70) s) (\<lambda>_ s. ret (0, s)))"

text \<open>The wait after a sleep is tried once, its result ignored.\<close>

definition iRf69SetMode :: "'w board \<Rightarrow> u8 \<Rightarrow> 'w drv \<Rightarrow> (int \<times> 'w drv) out" where
  "iRf69SetMode B m s =
     (if m \<noteq> rf_mode (rf s) then
        read_u8 B REG_OPMODE s (\<lambda>b s.
          let b = b AND 0xE3;
              write = (\<lambda>v k. try_int (iRf69WriteReg B REG_OPMODE (b OR v) s) (\<lambda>_ s. k s));
              finish = (\<lambda>s.
                obind (if rf_mode (rf s) = eRf69ModeSleep then obind (iRf69WaitForReady B 50 s) (\<lambda>(_, s). ret s)
                       else ret s) (\<lambda>s. ret (0, upd (\<lambda>p. p\<lparr>rf_mode := m\<rparr>) s)));
              power = (\<lambda>on s.
                if rf_hw (rf s) then try_int (iRf69SetHighPowerRegs B on s) (\<lambda>_ s. finish s) else finish s)
          in if m = eRf69ModeTx then write RF_OPMODE_TRANSMITTER (power True)
             else if m = eRf69ModeRx then write RF_OPMODE_RECEIVER (power False)
             else if m = eRf69ModeSynth then write RF_OPMODE_SYNTHESIZER finish
             else if m = eRf69ModeStandby then write RF_OPMODE_STANDBY finish
             else if m = eRf69ModeSleep then write RF_OPMODE_SLEEP finish
             else ret (-1, s))
      else ret (0, s))"

definition iRf69AvoidRxDeadLocks :: "'w board \<Rightarrow> 'w drv \<Rightarrow> (int \<times> 'w drv) out" where
  "iRf69AvoidRxDeadLocks B s =
     read_u8 B REG_PACKETCONFIG2 s (\<lambda>b s.
     try_int (iRf69WriteReg B REG_PACKETCONFIG2 ((b AND 0xFB) OR RF_PACKET2_RXRESTART) s) (\<lambda>_ s. ret (0, s)))"

definition iRf69StartReceiving :: "'w board \<Rightarrow> 'w drv \<Rightarrow> (int \<times> 'w drv) out" where
  "iRf69StartReceiving B s =
     (let s = upd (\<lambda>p. p\<lparr>rf_data_len := 0, rf_sender := 0, rf_dest := 0, rf_payload_len := 0, rf_ctl := 0,
                        rf_rssi := 0\<rparr>) s
      in try_int (iRf69AvoidRxDeadLocks B s) (\<lambda>_ s.
         read_u8 B REG_DIOMAPPING1 s (\<lambda>b s.
         try_int (iRf69WriteReg B REG_DIOMAPPING1 (b OR RF_DIOMAPPING1_DIO0_01) s) (\<lambda>_ s.
           iRf69SetMode B eRf69ModeRx s))))"

definition iRf69ReceiveDone :: "'w board \<Rightarrow> 'w drv \<Rightarrow> (int \<times> 'w drv) out" where
  "iRf69ReceiveDone B s =
     (if rf_mode (rf s) = eRf69ModeRx then
        if rf_payload_len (rf s) > 0
        then obind (iRf69SetMode B eRf69ModeStandby s) (\<lambda>(r, s). ret (if r = 0 then 1 else r, s))
        else ret (0, s)
      else obind (iRf69StartReceiving B s) (\<lambda>(r, s). ret (if r = 0 then 0 else r, s)))"

text \<open>The loop on the trigger has no timer.\<close>

definition iRf69Rssi :: "'w board \<Rightarrow> bool \<Rightarrow> 'w drv \<Rightarrow> (int \<times> 'w drv) out" where
  "iRf69Rssi B force s =
     (let value = (\<lambda>s. try_int_val (as_u8 (iRf69ReadReg B REG_RSSIVALUE s)) INT_MAX (\<lambda>b s. ret (- (b div 2), s)))
      in if force then
           try_int_val (iRf69WriteReg B REG_RSSICONFIG RF_RSSI_START s) INT_MAX (\<lambda>_ s.
             obind (wait_loop (\<lambda>(early, s).
                 obind (as_u8 (iRf69ReadReg B REG_RSSICONFIG s)) (\<lambda>(b, s).
                   if b < 0 then ret (False, Some INT_MAX, s)
                   else ret ((word_of_int b :: u8) AND RF_RSSI_DONE = 0, None, s))) (None, s))
               (\<lambda>(early, s). case early of Some r \<Rightarrow> ret (r, s) | None \<Rightarrow> value s))
         else value s)"

text \<open>The interrupt routine, from its end: the data of a packet, a packet that is for this node, a packet
  dropped.  The flag of \<open>isr_data\<close> tells whether the routine goes on.\<close>

definition isr_data :: "'w board \<Rightarrow> 'w drv \<Rightarrow> (bool \<times> 'w drv) out" where
  "isr_data B s =
     (if rf_data_len (rf s) > 0 then
        obind (iRf69ReadBlock B REG_FIFO (rf_data (rf s)) (rf_data_len (rf s)) s) (\<lambda>(r, d, s).
          let s = upd (\<lambda>p. p\<lparr>rf_data := d\<rparr>) s
          in if r < 0 then ret (False, s)
             else if unat (rf_data_len (rf s)) < RF69_MAX_DATA_LEN
             then obind (Some (wr (rf_data (rf s)) (unat (rf_data_len (rf s))) 0)) (\<lambda>d.
                    ret (True, upd (\<lambda>p. p\<lparr>rf_data := d\<rparr>) s))
             else ret (True, s))
      else ret (True, s))"

definition isr_accept :: "'w board \<Rightarrow> 'w drv \<Rightarrow> 'w drv out" where
  "isr_accept B s =
     obind (isr_data B (upd (\<lambda>p. p\<lparr>rf_data_len := min (rf_payload_len p) (of_nat RF_FIFO_SIZE) - 3\<rparr>) s)) (\<lambda>(go, s).
       if \<not> go then ret s
       else
         try_int_void (iRf69SetMode B eRf69ModeRx s) (\<lambda>_ s.
         obind (iRf69Rssi B False s) (\<lambda>(rssi, s).
           ret (if rssi \<noteq> INT_MAX then upd (\<lambda>p. p\<lparr>rf_rssi := rssi\<rparr>) s else s))))"

definition isr_drop :: "'w board \<Rightarrow> 'w drv \<Rightarrow> 'w drv out" where
  "isr_drop B s = obind (iRf69StartReceiving B (upd (\<lambda>p. p\<lparr>rf_payload_len := 0\<rparr>) s)) (\<lambda>(_, s). ret s)"

definition isr_packet :: "'w board \<Rightarrow> 'w drv \<Rightarrow> 'w drv out" where
  "isr_packet B s =
     obind (iRf69ReadReg B REG_FIFO s) (\<lambda>(n, s).
       if n \<ge> int RF69_HEADER_SIZE - 1 then
         let s = upd (\<lambda>p. p\<lparr>rf_payload_len := word_of_int n\<rparr>) s in
         obind (iRf69ReadBlock B REG_FIFO [rf_dest (rf s), rf_sender (rf s), rf_ctl (rf s)]
                  (of_nat (RF69_HEADER_SIZE - 1)) s) (\<lambda>(r, h, s).
         let s = upd (\<lambda>p. p\<lparr>rf_dest := h ! 0, rf_sender := h ! 1, rf_ctl := h ! 2\<rparr>) s in
         if r < 0 then ret s
         else if rf_promiscuous (rf s) \<or> rf_dest (rf s) = rf_node_id (rf s) \<or> rf_dest (rf s) = RF69_BROADCAST_ADDR
         then isr_accept B s
         else isr_drop B s)
       else isr_drop B s)"

definition vRf69Isr :: "'w board \<Rightarrow> 'w drv \<Rightarrow> 'w drv out" where
  "vRf69Isr B s =
     (if rf_mode (rf s) = eRf69ModeRx then
        try_int_void (as_u8 (iRf69ReadReg B REG_IRQFLAGS2 s)) (\<lambda>irqflags s.
        if (word_of_int irqflags :: u8) AND RF_IRQFLAGS2_PAYLOADREADY \<noteq> 0
        then try_int_void (iRf69SetMode B eRf69ModeStandby s) (\<lambda>_ s. isr_packet B s)
        else ret s)
      else ret s)"

end
