(* ===== verification/Rf69_Api.thy ===== *)
theory Rf69_Api
  imports Rf69
begin

text \<open>
  The functions of the RFM69 driver the application calls: sending, settings, opening
  (\<open>src/src/spi/rf69.c\<close>, \<open>src/src/spi/rf69_sysio.c\<close>).
\<close>

section \<open>Sending\<close>

definition iRf69CanSend :: "'w board \<Rightarrow> 'w drv \<Rightarrow> (int \<times> 'w drv) out" where
  "iRf69CanSend B s =
     obind (iRf69Rssi B False s) (\<lambda>(rssi, s).
       if rssi = INT_MAX then ret (-1, s)
       else if rf_mode (rf s) = eRf69ModeRx \<and> rf_payload_len (rf s) = 0 \<and> rssi < RF69_CSMA_MIN_LEVEL_DBM
       then try_int (iRf69SetMode B eRf69ModeStandby s) (\<lambda>_ s. ret (1, s))
       else ret (0, s))"

definition iRf69WaitToSend :: "'w board \<Rightarrow> int \<Rightarrow> 'w drv \<Rightarrow> (int \<times> 'w drv) out" where
  "iRf69WaitToSend B timeout s =
     with_timer B timeout s (\<lambda>t s.
       try_int (iRf69AvoidRxDeadLocks B s) (\<lambda>_ s.
         timed B (\<lambda>s. try_int (as_bool (iRf69CanSend B s)) (\<lambda>b s.
                    if b = 0 then try_int (iRf69ReceiveDone B s) (\<lambda>_ s. ret (b, s)) else ret (b, s)))
           (\<lambda>b. b = 0) t s (\<lambda>b. b)))"

text \<open>The frame: length, destination, sender, control byte, data.  \<open>bRequestACK\<close> is not used.\<close>

definition fill_frame :: "u8 \<Rightarrow> u8 list \<Rightarrow> u8 \<Rightarrow> bool \<Rightarrow> xRf69 \<Rightarrow> u8 list run" where
  "fill_frame toAddress tx_buffer tx_len bSendAck p =
     cbind (wr (rf_data p) 0 (tx_len + of_nat RF69_HEADER_SIZE - 1)) (\<lambda>d.
     cbind (wr d 1 toAddress) (\<lambda>d.
     cbind (wr d 2 (rf_node_id p)) (\<lambda>d.
     cbind (wr d 3 (if bSendAck then RF69_ACK else RF69_ACKREQ)) (\<lambda>d.
       copy_into d 4 tx_buffer 0 (unat tx_len)))))"

definition iRf69SendFrame ::
    "'w board \<Rightarrow> u8 \<Rightarrow> u8 list \<Rightarrow> u8 \<Rightarrow> bool \<Rightarrow> bool \<Rightarrow> 'w drv \<Rightarrow> (int \<times> 'w drv) out" where
  "iRf69SendFrame B toAddress tx_buffer tx_len bRequestACK bSendAck s =
     try_int (iRf69SetMode B eRf69ModeStandby s) (\<lambda>_ s.
     try_int (as_bool (iRf69WaitForReady B 50 s)) (\<lambda>ok s.
     if ok \<noteq> 0 then
       read_u8 B REG_DIOMAPPING1 s (\<lambda>b s.
       try_int (iRf69WriteReg B REG_DIOMAPPING1 (b AND NOT RF_DIOMAPPING1_DIO0_01) s) (\<lambda>_ s.
       let n = min tx_len (of_nat RF69_MAX_DATA_LEN) in
       obind (Some (fill_frame toAddress tx_buffer n bSendAck (rf s))) (\<lambda>d.
       let s = upd (\<lambda>p. p\<lparr>rf_data := d\<rparr>) s in
       try_int (iRf69WriteBlock B REG_FIFO (rf_data (rf s)) (of_nat RF69_HEADER_SIZE + n) s) (\<lambda>_ s.
       try_int (iRf69SetMode B eRf69ModeTx s) (\<lambda>_ s.
       try_int (as_bool (iRf69WaitIrq B RF69_TX_TIMEOUT_MS s)) (\<lambda>ok s.
       try_int (iRf69SetMode B eRf69ModeStandby s) (\<lambda>_ s. ret (ok, s))))))))
     else ret (ok, s)))"

definition iRf69Send :: "'w board \<Rightarrow> u8 \<Rightarrow> u8 list \<Rightarrow> u8 \<Rightarrow> bool \<Rightarrow> 'w drv \<Rightarrow> (int \<times> 'w drv) out" where
  "iRf69Send B toAddress tx_buffer tx_len bRequestAck s =
     obind (iRf69WaitToSend B RF69_CSMA_TIMEOUT_MS s) (\<lambda>(r, s).
       if r = 1 then iRf69SendFrame B toAddress tx_buffer tx_len bRequestAck False s else ret (r, s))"

definition iRf69SendAck :: "'w board \<Rightarrow> u8 list \<Rightarrow> u8 \<Rightarrow> 'w drv \<Rightarrow> (int \<times> 'w drv) out" where
  "iRf69SendAck B tx_buffer tx_len s =
     (let s = upd (\<lambda>p. p\<lparr>rf_ctl := rf_ctl p AND NOT RF69_ACKREQ\<rparr>) s;
          sender = rf_sender (rf s); rssi = rf_rssi (rf s)
      in obind (iRf69WaitToSend B RF69_CSMA_TIMEOUT_MS s) (\<lambda>(r, s).
         obind (if r = 1
                then iRf69SendFrame B sender tx_buffer tx_len False True (upd (\<lambda>p. p\<lparr>rf_sender := sender\<rparr>) s)
                else ret (r, s)) (\<lambda>(r, s).
           ret (r, upd (\<lambda>p. p\<lparr>rf_rssi := rssi\<rparr>) s))))"

definition iRf69AckReceived :: "'w board \<Rightarrow> u8 \<Rightarrow> 'w drv \<Rightarrow> (int \<times> 'w drv) out" where
  "iRf69AckReceived B fromNodeId s =
     obind (iRf69ReceiveDone B s) (\<lambda>(r, s).
       if r = 1
       then ret (if (rf_sender (rf s) = fromNodeId \<or> fromNodeId = RF69_BROADCAST_ADDR) \<and> rf_ctl (rf s) AND RF69_ACK \<noteq> 0
                 then 1 else 0, s)
       else ret (r, s))"

definition iRf69AckRequested :: "xRf69 \<Rightarrow> int" where
  "iRf69AckRequested p =
     (if rf_ctl p AND RF69_ACKREQ \<noteq> 0 \<and> rf_dest p \<noteq> RF69_BROADCAST_ADDR then 1 else 0)"

definition iRf69WaitAckReceived :: "'w board \<Rightarrow> u8 \<Rightarrow> int \<Rightarrow> 'w drv \<Rightarrow> (int \<times> 'w drv) out" where
  "iRf69WaitAckReceived B fromNodeId timeout s =
     with_timer B timeout s (\<lambda>t s.
       obind (wait_loop (\<lambda>(_, s).
           obind (iRf69AckReceived B fromNodeId s) (\<lambda>(r, s).
             let (z, s) = bRf69TimerTimeout B t s in ret (\<not> z \<and> r = 0, r, s))) (0, s))
         (\<lambda>(r, s). ret (r, vRf69TimerDelete B t s)))"

text \<open>The inner loop of \<open>iRf69SendWithRetry\<close> looks at the timer first.  The result of the loop is
  \<open>iAckReceived\<close>, negative when the function is left.\<close>

definition wait_ack :: "'w board \<Rightarrow> u8 \<Rightarrow> xTimer \<Rightarrow> int \<Rightarrow> 'w drv \<Rightarrow> (int \<times> 'w drv) out" where
  "wait_ack B toAddress t ack s =
     wait_loop (\<lambda>(ack, s).
       let (z, s) = bRf69TimerTimeout B t s in
       if \<not> z \<and> ack = 0
       then obind (iRf69AckReceived B toAddress s) (\<lambda>(r, s). ret (r \<ge> 0, r, s))
       else ret (False, ack, s)) (ack, s)"

fun send_retries ::
    "'w board \<Rightarrow> u8 \<Rightarrow> u8 list \<Rightarrow> u8 \<Rightarrow> int \<Rightarrow> xTimer \<Rightarrow> nat \<Rightarrow> int \<Rightarrow> 'w drv \<Rightarrow> (int \<times> xTimer \<times> 'w drv) out" where
  "send_retries B toAddress tx_buffer tx_len wait t 0 ack s = ret (ack, t, s)"
| "send_retries B toAddress tx_buffer tx_len wait t (Suc n) ack s =
     (if ack \<noteq> 0 then ret (ack, t, s)
      else
        obind (iRf69Send B toAddress tx_buffer tx_len True s) (\<lambda>(ack, s).
        if ack < 0 then ret (ack, t, s)
        else
          obind (vRf69TimerStart B (Some t) wait s) (\<lambda>(t, s).
          obind (wait_ack B toAddress t ack s) (\<lambda>(ack, s).
          if ack < 0 then ret (ack, t, s)
          else send_retries B toAddress tx_buffer tx_len wait t n ack s))))"

text \<open>A timer that could not be made is only noticed when it is started.\<close>

definition iRf69SendWithRetry ::
    "'w board \<Rightarrow> u8 \<Rightarrow> u8 list \<Rightarrow> u8 \<Rightarrow> u8 \<Rightarrow> int \<Rightarrow> 'w drv \<Rightarrow> (int \<times> 'w drv) out" where
  "iRf69SendWithRetry B toAddress tx_buffer tx_len retries retryWaitTime s =
     obind (xRf69TimerNew B s) (\<lambda>(tp, s).
     case tp of
       Some t \<Rightarrow>
         obind (send_retries B toAddress tx_buffer tx_len retryWaitTime t (unat retries) 0 s) (\<lambda>(ack, t, s).
           ret (ack, vRf69TimerDelete B t s))
     | None \<Rightarrow>
         obind (if retries = 0 then ret (0, s) else iRf69Send B toAddress tx_buffer tx_len True s) (\<lambda>_. Some (Inl NullPointer)))"

section \<open>Settings\<close>

definition iRf69DataLength :: "xRf69 \<Rightarrow> int" where "iRf69DataLength p = uint (rf_data_len p)"
definition sRf69Data :: "xRf69 \<Rightarrow> u8 list" where "sRf69Data p = rf_data p"
definition bRf69isPromiscuous :: "xRf69 \<Rightarrow> bool" where "bRf69isPromiscuous p = rf_promiscuous p"
definition bRf69isHighPower :: "xRf69 \<Rightarrow> bool" where "bRf69isHighPower p = rf_hw p"
definition iRf69SenderId :: "xRf69 \<Rightarrow> int" where "iRf69SenderId p = uint (rf_sender p)"
definition iRf69TargetId :: "xRf69 \<Rightarrow> int" where "iRf69TargetId p = uint (rf_dest p)"

definition iRf69isEncrypted :: "'w board \<Rightarrow> 'w drv \<Rightarrow> (int \<times> 'w drv) out" where
  "iRf69isEncrypted B s =
     read_u8 B REG_PACKETCONFIG2 s (\<lambda>b s. ret (if b AND RF_PACKET2_AES_ON \<noteq> 0 then 1 else 0, s))"

text \<open>The key is a C string, or NULL to end encryption.\<close>

definition iRf69SetEncryptKey :: "'w board \<Rightarrow> u8 list option \<Rightarrow> 'w drv \<Rightarrow> (int \<times> 'w drv) out" where
  "iRf69SetEncryptKey B key s =
     try_int (iRf69SetMode B eRf69ModeStandby s) (\<lambda>_ s.
     let enable = (\<lambda>s.
       read_u8 B REG_PACKETCONFIG2 s (\<lambda>b s.
       try_int (iRf69WriteReg B REG_PACKETCONFIG2
                  ((b AND 0xFE) OR (if key \<noteq> None then RF_PACKET2_AES_ON else 0)) s) (\<lambda>_ s. ret (0, s))))
     in case key of
          None \<Rightarrow> enable s
        | Some cs \<Rightarrow>
            obind (Some (c_strlen cs)) (\<lambda>n.
              if n \<noteq> 16 then ret (-1, s)
              else try_int (iRf69WriteBlock B REG_AESKEY1 cs 16 s) (\<lambda>_ s. enable s)))"

definition iRf69SetNodeId :: "'w board \<Rightarrow> u8 \<Rightarrow> 'w drv \<Rightarrow> (int \<times> 'w drv) out" where
  "iRf69SetNodeId B n s =
     try_int (iRf69WriteReg B REG_NODEADRS n s) (\<lambda>_ s. ret (0, upd (\<lambda>p. p\<lparr>rf_node_id := n\<rparr>) s))"

definition iRf69NodeId :: "'w board \<Rightarrow> 'w drv \<Rightarrow> (int \<times> 'w drv) out" where
  "iRf69NodeId B s = read_u8 B REG_NODEADRS s (\<lambda>b s. ret (uint b, s))"

definition iRf69SetNetworkId :: "'w board \<Rightarrow> u8 \<Rightarrow> 'w drv \<Rightarrow> (int \<times> 'w drv) out" where
  "iRf69SetNetworkId B n s = try_int (iRf69WriteReg B REG_SYNCVALUE2 n s) (\<lambda>_ s. ret (0, s))"

definition iRf69NetworkId :: "'w board \<Rightarrow> 'w drv \<Rightarrow> (int \<times> 'w drv) out" where
  "iRf69NetworkId B s = read_u8 B REG_SYNCVALUE2 s (\<lambda>b s. ret (uint b, s))"

text \<open>Frequencies.  \<open>RF_FSTEP\<close> is 61.03515625 = 15625/256.  The quotient \<open>freq / RF_FSTEP\<close> of an integer
  below \<open>2 ^ 30\<close> is at least 1/15625 away from an integer or equal to it, the product is exact, so the
  conversions of the doubles to \<open>long\<close> are the integer divisions below.\<close>

definition iFrfBounds :: "(int \<times> int) list" where
  "iFrfBounds = [(290000000, 340000000), (433075000, 434775000), (868000000, 870000000), (890000000, 1020000000)]"

definition bIsLicensedFreq :: "int \<Rightarrow> bool" where
  "bIsLicensedFreq f = list_ex (\<lambda>(lo, hi). f \<ge> lo \<and> f \<le> hi) iFrfBounds"

fun write_frf :: "'w board \<Rightarrow> int \<Rightarrow> (u8 \<times> nat) list \<Rightarrow> 'w drv \<Rightarrow> (int \<times> 'w drv) out" where
  "write_frf B freq [] s = ret (0, s)"
| "write_frf B freq ((reg, sr) # rs) s =
     try_int (iRf69WriteReg B reg (word_of_int (drop_bit sr freq)) s) (\<lambda>_ s. write_frf B freq rs s)"

definition frf_regs :: "(u8 \<times> nat) list" where
  "frf_regs = [(REG_FRFMSB, 16), (REG_FRFMSB + 1, 8), (REG_FRFLSB, 0)]"

definition iSetFrequencyRegs :: "'w board \<Rightarrow> int \<Rightarrow> 'w drv \<Rightarrow> (int \<times> 'w drv) out" where
  "iSetFrequencyRegs B freq s =
     (if bIsLicensedFreq freq then write_frf B (freq * 256 div 15625) frf_regs s else ret (-1, s))"

fun read_frf :: "'w board \<Rightarrow> int \<Rightarrow> (u8 \<times> nat) list \<Rightarrow> 'w drv \<Rightarrow> (int \<times> 'w drv) out" where
  "read_frf B f [] s = ret (15625 * f div 256, s)"
| "read_frf B f ((reg, ls) # rs) s = read_u8 B reg s (\<lambda>b s. read_frf B (f + push_bit ls (uint b)) rs s)"

definition lRf69Frequency :: "'w board \<Rightarrow> 'w drv \<Rightarrow> (int \<times> 'w drv) out" where
  "lRf69Frequency B s = read_frf B 0 frf_regs s"

definition iRf69SetFrequency :: "'w board \<Rightarrow> int \<Rightarrow> 'w drv \<Rightarrow> (int \<times> 'w drv) out" where
  "iRf69SetFrequency B freq s =
     (let oldMode = rf_mode (rf s);
          set = (\<lambda>s. try_int (iSetFrequencyRegs B freq s) (\<lambda>_ s.
            if oldMode = eRf69ModeRx
            then try_int (iRf69SetMode B eRf69ModeSynth s) (\<lambda>_ s. iRf69SetMode B oldMode s)
            else iRf69SetMode B oldMode s))
      in if oldMode = eRf69ModeTx then try_int (iRf69SetMode B eRf69ModeRx s) (\<lambda>_ s. set s) else set s)"

definition iRf69SetHighPower :: "'w board \<Rightarrow> bool \<Rightarrow> 'w drv \<Rightarrow> (int \<times> 'w drv) out" where
  "iRf69SetHighPower B on s =
     try_int (iRf69WriteReg B REG_OCP (if on then RF_OCP_OFF else RF_OCP_ON) s) (\<lambda>_ s.
     let finish = (\<lambda>palevel s.
       try_int (iRf69WriteReg B REG_PALEVEL palevel s) (\<lambda>_ s. ret (0, upd (\<lambda>p. p\<lparr>rf_hw := on\<rparr>) s)))
     in if on
        then read_u8 B REG_PALEVEL s (\<lambda>b s. finish ((b AND 0x1F) OR RF_PALEVEL_PA1_ON OR RF_PALEVEL_PA2_ON) s)
        else finish (RF_PALEVEL_PA0_ON OR rf_power_level (rf s)) s)"

definition iRf69SetPowerLevel :: "'w board \<Rightarrow> int \<Rightarrow> 'w drv \<Rightarrow> (int \<times> 'w drv) out" where
  "iRf69SetPowerLevel B level s =
     (let level = min level 31; level = (if rf_hw (rf s) then level sdiv 2 else level)
      in read_u8 B REG_PALEVEL s (\<lambda>b s.
         try_int (iRf69WriteReg B REG_PALEVEL (word_of_int (uint (b AND 0xE0) OR level)) s) (\<lambda>_ s.
           ret (0, upd (\<lambda>p. p\<lparr>rf_power_level := word_of_int level\<rparr>) s))))"

definition iRf69PowerLevel :: "'w board \<Rightarrow> 'w drv \<Rightarrow> (int \<times> 'w drv) out" where
  "iRf69PowerLevel B s =
     read_u8 B REG_PALEVEL s (\<lambda>b s.
       let b = b AND 0x1F in ret (uint (if rf_hw (rf s) then b * 2 else b), s))"

definition iRf69Temperature :: "'w board \<Rightarrow> int \<Rightarrow> 'w drv \<Rightarrow> (int \<times> 'w drv) out" where
  "iRf69Temperature B iCalFactor s =
     try_int_val (iRf69SetMode B eRf69ModeStandby s) INT_MAX (\<lambda>_ s.
     try_int_val (iRf69WriteReg B REG_TEMP1 RF_TEMP1_MEAS_START s) INT_MAX (\<lambda>_ s.
     obind (wait_loop (\<lambda>(early, s).
         obind (iRf69ReadReg B REG_TEMP1 s) (\<lambda>(x, s).
           if x < 0 then ret (False, Some INT_MAX, s)
           else ret ((word_of_int x :: u8) AND RF_TEMP1_MEAS_RUNNING \<noteq> 0, None, s))) (None, s))
       (\<lambda>(early, s).
          case early of
            Some r \<Rightarrow> ret (r, s)
          | None \<Rightarrow> try_int_val (iRf69ReadReg B REG_TEMP2 s) INT_MAX (\<lambda>x s.
              ret (- x + 20 + RF69_TEMP_CAL + iCalFactor, s)))))"

definition iRf69SetPromiscuous :: "'w board \<Rightarrow> bool \<Rightarrow> 'w drv \<Rightarrow> (int \<times> 'w drv) out" where
  "iRf69SetPromiscuous B on s =
     (if on \<noteq> rf_promiscuous (rf s) then
        read_u8 B REG_PACKETCONFIG1 s (\<lambda>b s.
        try_int (iRf69WriteReg B REG_PACKETCONFIG1
            ((b AND 0xF9) OR (if on then RF_PACKET1_ADRSFILTERING_OFF else RF_PACKET1_ADRSFILTERING_NODEBROADCAST)) s)
          (\<lambda>_ s. ret (0, upd (\<lambda>p. p\<lparr>rf_promiscuous := on\<rparr>) s)))
      else ret (0, s))"

definition iRf69SetDioMapping :: "'w board \<Rightarrow> u8 \<Rightarrow> u8 \<Rightarrow> 'w drv \<Rightarrow> (int \<times> 'w drv) out" where
  "iRf69SetDioMapping B dio m s =
     (if rf_open (rf s) \<and> dio \<ge> 1 \<and> dio \<le> 5 \<and> dio \<noteq> 4 \<and> m \<le> 3 then
        if dio < 5 then
          let i = unat ((3 - dio) * 2) in
          read_u8 B REG_DIOMAPPING1 s (\<lambda>b s.
          try_int (iRf69WriteReg B REG_DIOMAPPING1 ((b AND NOT (push_bit i 3)) OR push_bit i m) s) (\<lambda>_ s. ret (0, s)))
        else
          read_u8 B REG_DIOMAPPING2 s (\<lambda>b s.
          try_int (iRf69WriteReg B REG_DIOMAPPING2 ((b AND NOT (push_bit 4 3)) OR push_bit 4 m) s) (\<lambda>_ s. ret (0, s)))
      else ret (-1, s))"

definition iRf69Sleep :: "'w board \<Rightarrow> 'w drv \<Rightarrow> (int \<times> 'w drv) out" where
  "iRf69Sleep B s = iRf69SetMode B eRf69ModeSleep s"

definition iRf69RcCalibration :: "'w board \<Rightarrow> 'w drv \<Rightarrow> (int \<times> 'w drv) out" where
  "iRf69RcCalibration B s =
     try_int (iRf69WriteReg B REG_OSC1 RF_OSC1_RCCAL_START s) (\<lambda>_ s.
     obind (wait_loop (\<lambda>(early, s).
         obind (as_u8 (iRf69ReadReg B REG_OSC1 s)) (\<lambda>(b, s).
           if b < 0 then ret (False, Some b, s)
           else ret ((word_of_int b :: u8) AND RF_OSC1_RCCAL_DONE = 0, None, s))) (None, s))
       (\<lambda>(early, s). case early of Some r \<Rightarrow> ret (r, s) | None \<Rightarrow> ret (0, s)))"

section \<open>Opening\<close>

datatype eRf69Band = eRf69Band315Mhz | eRf69Band433Mhz | eRf69Band868Mhz | eRf69Band915Mhz

definition xInitConfigPgm :: "(u8 \<times> u8) list" where
  "xInitConfigPgm =
    [(REG_OPMODE, RF_OPMODE_SEQUENCER_ON OR RF_OPMODE_LISTEN_OFF OR RF_OPMODE_STANDBY),
     (REG_DATAMODUL, RF_DATAMODUL_DATAMODE_PACKET OR RF_DATAMODUL_MODULATIONTYPE_FSK OR RF_DATAMODUL_MODULATIONSHAPING_00),
     (REG_BITRATEMSB, RF_BITRATEMSB_55555), (REG_BITRATELSB, RF_BITRATELSB_55555),
     (REG_FDEVMSB, RF_FDEVMSB_50000), (REG_FDEVLSB, RF_FDEVLSB_50000),
     (REG_RXBW, RF_RXBW_DCCFREQ_010 OR RF_RXBW_MANT_16 OR RF_RXBW_EXP_2),
     (REG_DIOMAPPING1, RF_DIOMAPPING1_DIO0_01), (REG_DIOMAPPING2, RF_DIOMAPPING2_CLKOUT_OFF),
     (REG_IRQFLAGS2, RF_IRQFLAGS2_FIFOOVERRUN), (REG_RSSITHRESH, 220),
     (REG_SYNCCONFIG, RF_SYNC_ON OR RF_SYNC_FIFOFILL_AUTO OR RF_SYNC_SIZE_2 OR RF_SYNC_TOL_0),
     (REG_SYNCVALUE1, 0x2D),
     (REG_PACKETCONFIG1, RF_PACKET1_FORMAT_VARIABLE OR RF_PACKET1_DCFREE_OFF OR RF_PACKET1_CRC_ON OR
        RF_PACKET1_CRCAUTOCLEAR_ON OR RF_PACKET1_ADRSFILTERING_OFF),
     (REG_PAYLOADLENGTH, of_nat RF_FIFO_SIZE), (REG_BROADCASTADRS, RF69_BROADCAST_ADDR),
     (REG_FIFOTHRESH, RF_FIFOTHRESH_TXSTART_FIFONOTEMPTY OR RF_FIFOTHRESH_VALUE),
     (REG_PACKETCONFIG2, RF_PACKET2_RXRESTARTDELAY_2BITS OR RF_PACKET2_AUTORXRESTART_ON OR RF_PACKET2_AES_OFF),
     (REG_TESTDAGC, RF_DAGC_IMPROVED_LOWBETA0), (255, 0)]"

fun write_config :: "'w board \<Rightarrow> (u8 \<times> u8) list \<Rightarrow> 'w drv \<Rightarrow> (int \<times> 'w drv) out" where
  "write_config B [] s = Some (Inl OutOfBounds)"
| "write_config B (e # es) s =
     try_int (iRf69WriteConstElmt B e s) (\<lambda>r s. if r = 1 then write_config B es s else ret (r, s))"

definition band_frf :: "eRf69Band \<Rightarrow> int" where
  "band_frf b = (case b of eRf69Band315Mhz \<Rightarrow> 315000000 | eRf69Band433Mhz \<Rightarrow> 433925000
     | eRf69Band868Mhz \<Rightarrow> 868000000 | eRf69Band915Mhz \<Rightarrow> 915000000)"

definition iRf69Open :: "'w board \<Rightarrow> eRf69Band \<Rightarrow> u8 \<Rightarrow> u8 \<Rightarrow> 'w drv \<Rightarrow> (int \<times> 'w drv) out" where
  "iRf69Open B eBand ucNodeId ucNetId s =
     (if \<not> rf_open (rf s) then
        try_int (iRf69WriteRegWithCheck B REG_SYNCVALUE1 0xAA 50 s) (\<lambda>_ s.
        try_int (iRf69WriteRegWithCheck B REG_SYNCVALUE1 0x55 50 s) (\<lambda>_ s.
        try_int (write_config B xInitConfigPgm s) (\<lambda>_ s.
        try_int (iSetFrequencyRegs B (band_frf eBand) s) (\<lambda>_ s.
        try_int (iRf69WriteReg B REG_SYNCVALUE2 ucNetId s) (\<lambda>_ s.
        try_int (iRf69WriteReg B REG_NODEADRS ucNodeId s) (\<lambda>_ s.
        try_int (iRf69SetEncryptKey B None s) (\<lambda>_ s.
        try_int (iRf69SetHighPower B False s) (\<lambda>_ s.
        try_int (iRf69SetPowerLevel B RF69_DEFAULT_POWER s) (\<lambda>_ s.
        try_int (iRf69SetMode B eRf69ModeStandby s) (\<lambda>_ s.
        try_int (iRf69SetPromiscuous B True s) (\<lambda>_ s.
        try_int (iRf69WaitForReady B 50 s) (\<lambda>r s.
          if r = 1 then ret (0, upd (\<lambda>p. p\<lparr>rf_node_id := ucNodeId, rf_open := True\<rparr>) s) else ret (-1, s)))))))))))))
      else ret (-1, s))"

definition iRf69Close :: "'w drv \<Rightarrow> int \<times> 'w drv" where
  "iRf69Close s = (0, s)"

section \<open>Creation\<close>

datatype rf_pointer = NullRf | ValidRf xRf69 | DanglingRf

text \<open>\<open>/dev/spidev\<close>\<close>

definition spidev_name :: "int \<Rightarrow> int \<Rightarrow> u8 list" where
  "spidev_name bus device =
     [0x2F, 0x64, 0x65, 0x76, 0x2F, 0x73, 0x70, 0x69, 0x64, 0x65, 0x76] @ c_decimal bus @ [0x2E] @ c_decimal device @ [0]"

definition rf_ios :: xSpiIos where
  "rf_ios = \<lparr>ios_mode = 0, ios_lsb = eSpiNumberingMsb, ios_bits = word_of_int eSpiBits8, ios_speed = 4000000\<rparr>"

definition xRf69New :: "'w board \<Rightarrow> xSpiIos \<Rightarrow> int \<Rightarrow> int \<Rightarrow> int \<Rightarrow> mem \<times> 'w \<Rightarrow> (rf_pointer \<times> mem \<times> 'w) run" where
  "xRf69New B junk iBus iDevice iIrqPin s =
     (let (ok, m) = malloc (fst s) in
      if \<not> ok then Inl NullPointer
      else
        let name = spidev_name iBus iDevice;
            (fd, w) = iSpiOpen (b_spi B) name (snd s);
            m = free (Some name) m
        in if fd \<ge> 0 then
             let (r, w) = iSpiSetConfig (b_spi B) fd junk rf_ios w in
             if r = 0 then
               let (port, w) = b_din_open B iIrqPin w in
               if port then
                 let (ok, m) = malloc m in
                 if \<not> ok then Inl NullPointer
                 else
                   let p = rf69_zero\<lparr>rf_fd := fd\<rparr>; (r, w) = b_din_callback B w in
                   if r = 0 then Inr (ValidRf p, m, w)
                   else Inr (DanglingRf, free (Some p) m, snd (iSpiClose (b_spi B) fd (b_din_close B w)))
               else Inr (NullRf, m, snd (iSpiClose (b_spi B) fd w))
             else Inr (NullRf, m, w)
           else Inr (NullRf, m, w))"

definition vRf69Delete :: "'w board \<Rightarrow> xRf69 option \<Rightarrow> mem \<times> 'w \<Rightarrow> mem \<times> 'w" where
  "vRf69Delete B p s =
     (case p of
        None \<Rightarrow> s
      | Some q \<Rightarrow> (free p (fst s), snd (iSpiClose (b_spi B) (rf_fd q) (b_din_close B (snd s)))))"

end
