(* ===== verification/Rf69_Laws.thy ===== *)
theory Rf69_Laws
  imports Rf69_Api
begin

text \<open>
  What the settings of the RFM69 driver do to the registers of the module.  The module is known by the
  documented behaviour of its SPI interface, the predicate \<open>regs_ok\<close>: a message of two bytes reads or
  writes the register whose number is in the first one.  The registers are seen through a function \<open>reg\<close>
  of the world.
\<close>

section \<open>Registers\<close>

text \<open>The FIFO, register 0, is left out; reading a register has no effect on the others.  Anything else
  of the module, \<open>oth\<close>, such as the content of the FIFO, is kept by reading, and by writing except where
  the module restarts its receiver or clears its flags.\<close>

definition gentle :: "u8 \<Rightarrow> u8 \<Rightarrow> bool" where
  "gentle r v \<longleftrightarrow> r \<noteq> REG_PACKETCONFIG2 \<and> r \<noteq> REG_IRQFLAGS2 \<and> (r = REG_OPMODE \<longrightarrow> v AND 0x1C \<noteq> RF_OPMODE_RECEIVER)"

definition access_ok :: "'w board \<Rightarrow> ('w \<Rightarrow> u8 \<Rightarrow> u8) \<Rightarrow> ('w \<Rightarrow> 'b) \<Rightarrow> bool" where
  "access_ok B reg oth \<longleftrightarrow>
     (\<forall>fd r w. 0 < r \<longrightarrow> r < 0x80 \<longrightarrow>
        (let m = s_message (b_spi B) fd [r, 0] w
         in fst m = 2 \<and> fst (snd m) 1 = reg w r \<and> reg (snd (snd m)) = reg w \<and> oth (snd (snd m)) = oth w)) \<and>
     (\<forall>fd r v w. 0 < r \<longrightarrow> r < 0x80 \<longrightarrow>
        (let m = s_message (b_spi B) fd [r OR 0x80, v] w
         in fst m = 2 \<and> reg (snd (snd m)) = (reg w)(r := v) \<and> (gentle r v \<longrightarrow> oth (snd (snd m)) = oth w)))"

abbreviation regs_ok :: "'w board \<Rightarrow> ('w \<Rightarrow> u8 \<Rightarrow> u8) \<Rightarrow> bool" where
  "regs_ok B reg \<equiv> access_ok B reg (\<lambda>_. ())"

lemma bit_0x80: "bit (0x80 :: u8) n \<longleftrightarrow> n = 7"
  using bit_exp_iff [where 'a = "u8", of 7 n] by auto

lemma rd_addr_low: "r < 0x80 \<Longrightarrow> rd_addr r = r"
  using bit_below [of r 7] by (intro bit_eqI) (auto simp: rd_addr_def bit_simps bit_0x80 simp del: bit_numeral_word_iff)

lemma returns_read:
  assumes ok: "access_ok B reg oth" "0 < r" "r < 0x80"
    and Q: "\<And>w1. reg w1 = reg (wld s) \<Longrightarrow> oth w1 = oth (wld s) \<Longrightarrow> Q (uint (reg (wld s) r), s\<lparr>wld := w1\<rparr>)"
  shows "returns (iRf69ReadReg B r s) Q"
proof -
  let ?m = "s_message (b_spi B) (rf_fd (rf s)) [r, 0] (wld s)"
  have m: "fst ?m = 2" "fst (snd ?m) 1 = reg (wld s) r" "reg (snd (snd ?m)) = reg (wld s)"
      "oth (snd (snd ?m)) = oth (wld s)"
    using ok unfolding access_ok_def Let_def by blast+
  have "iRf69ReadReg B r s = ret (uint (fst (snd ?m) 1), s\<lparr>wld := snd (snd ?m)\<rparr>)"
    using ok(3) m(1)
    by (simp add: iRf69ReadReg_def iSpiReadReg8_def iSpiXfer_def rd_addr_low case_prod_unfold Let_def)
  with Q [OF m(3,4)] m(2) show ?thesis by (simp add: returns_simps)
qed

lemma returns_write:
  assumes ok: "access_ok B reg oth" "0 < r" "r < 0x80"
    and Q: "\<And>w1. reg w1 = (reg (wld s))(r := v) \<Longrightarrow> (gentle r v \<Longrightarrow> oth w1 = oth (wld s)) \<Longrightarrow> Q (1, s\<lparr>wld := w1\<rparr>)"
  shows "returns (iRf69WriteReg B r v s) Q"
proof -
  let ?m = "s_message (b_spi B) (rf_fd (rf s)) [r OR 0x80, v] (wld s)"
  have m: "fst ?m = 2" "reg (snd (snd ?m)) = (reg (wld s))(r := v)" "gentle r v \<Longrightarrow> oth (snd (snd ?m)) = oth (wld s)"
    using ok unfolding access_ok_def Let_def by blast+
  have "iRf69WriteReg B r v s = ret (1, s\<lparr>wld := snd (snd ?m)\<rparr>)"
    using m(1) by (simp add: iRf69WriteReg_def iSpiWriteReg8_def iSpiXfer_def wr_addr_def case_prod_unfold Let_def)
  with Q [OF m(2,3)] show ?thesis by (simp add: returns_simps)
qed

lemma returns_read_u8:
  assumes "access_ok B reg oth" "0 < r" "r < 0x80"
    and "\<And>w1. reg w1 = reg (wld s) \<Longrightarrow> oth w1 = oth (wld s) \<Longrightarrow> returns (k (reg (wld s) r) (s\<lparr>wld := w1\<rparr>)) Q"
  shows "returns (read_u8 B r s k) Q"
  by (simp add: read_u8_def returns_simps, rule returns_read [OF assms(1-3)]) (simp add: assms(4))

lemma returns_try_write:
  assumes "access_ok B reg oth" "0 < r" "r < 0x80"
    and "\<And>w1. reg w1 = (reg (wld s))(r := v) \<Longrightarrow> (gentle r v \<Longrightarrow> oth w1 = oth (wld s)) \<Longrightarrow>
      returns (k 1 (s\<lparr>wld := w1\<rparr>)) Q"
  shows "returns (try_int (iRf69WriteReg B r v s) k) Q"
  by (simp add: returns_simps, rule returns_write [OF assms(1-3)]) (simp add: assms(4))

section \<open>Mapping of the DIO pins\<close>

lemma bit_three: "bit (3 :: u8) k \<longleftrightarrow> k < 2"
  by (cases k; cases "k - 1") (auto simp: bit_simps numeral_3_eq_3)

lemma field_bits:
  fixes b m :: u8
  assumes "m \<le> 3" "i \<le> 6" "k < 8"
  shows "bit ((b AND NOT (push_bit i 3)) OR push_bit i m) k =
    (if i \<le> k \<and> k < i + 2 then bit m (k - i) else bit b k)"
proof -
  have "m < 2 ^ 2" using assms(1) by (simp add: word_le_nat_alt word_less_nat_alt)
  then have "bit m (k - i) \<Longrightarrow> k - i < 2" by (rule bit_below)
  moreover have "bit (push_bit i (3 :: u8)) k \<longleftrightarrow> i \<le> k \<and> k < i + 2"
    using assms by (auto simp: bit_push_bit_iff bit_three simp del: bit_numeral_word_iff)
  ultimately show ?thesis using assms by (auto simp: bit_or_iff bit_and_iff bit_not_iff bit_push_bit_iff)
qed

lemma rf69_dio_mapping:
  assumes ok: "regs_ok B reg" and rf: "rf_open (rf s)" and dio: "dio \<in> {1, 2, 3, 5}" and m: "m \<le> 3"
  defines "r \<equiv> (if dio = 5 then REG_DIOMAPPING2 else REG_DIOMAPPING1)"
    and "i \<equiv> (if dio = 5 then 4 else unat ((3 - dio) * 2))"
  shows "\<exists>s1 v. iRf69SetDioMapping B dio m s = ret (0, s1) \<and> rf s1 = rf s \<and>
    reg (wld s1) = (reg (wld s))(r := v) \<and>
    (\<forall>k < 8. bit v k = (if i \<le> k \<and> k < i + 2 then bit m (k - i) else bit (reg (wld s) r) k))"
proof -
  have i: "i \<le> 6" using dio by (auto simp: i_def)
  have wrote: "returns (read_u8 B q s (\<lambda>b s. try_int (iRf69WriteReg B q (f b) s) (\<lambda>_ s. ret (0, s))))
      (\<lambda>(n, s1). n = 0 \<and> rf s1 = rf s \<and> reg (wld s1) = (reg (wld s))(q := f (reg (wld s) q)))"
    if "0 < q" "q < 0x80" for q f
    by (rule returns_read_u8 [OF ok that], rule returns_try_write [OF ok that]) (simp add: returns_simps)
  have "returns (iRf69SetDioMapping B dio m s) (\<lambda>(n, s1). n = 0 \<and> rf s1 = rf s \<and>
      reg (wld s1) = (reg (wld s))(r := (reg (wld s) r AND NOT (push_bit i 3)) OR push_bit i m))"
  proof (cases "dio = 5")
    case True
    then show ?thesis
      using wrote [of REG_DIOMAPPING2] rf m unfolding r_def i_def
      by (simp add: iRf69SetDioMapping_def REG_DIOMAPPING2_def)
  next
    case False
    then have "dio < 5" "1 \<le> dio" "dio \<le> 5" "dio \<noteq> 4" using dio by auto
    then show ?thesis
      using wrote [of REG_DIOMAPPING1] rf m False unfolding r_def i_def
      by (simp add: iRf69SetDioMapping_def REG_DIOMAPPING1_def Let_def)
  qed
  then obtain s1 where "iRf69SetDioMapping B dio m s = ret (0, s1)" "rf s1 = rf s"
    "reg (wld s1) = (reg (wld s))(r := (reg (wld s) r AND NOT (push_bit i 3)) OR push_bit i m)"
    by (auto simp: returns_def)
  with field_bits [OF m i] show ?thesis by blast
qed

section \<open>Modes\<close>

lemma returns_power:
  assumes ok: "access_ok B reg oth"
    and k: "\<And>w1. reg w1 = (reg (wld s))(REG_TESTPA1 := if on then 0x5D else 0x55, REG_TESTPA2 := if on then 0x7C else 0x70) \<Longrightarrow>
      oth w1 = oth (wld s) \<Longrightarrow> returns (k 0 (s\<lparr>wld := w1\<rparr>)) Q"
  shows "returns (try_int (iRf69SetHighPowerRegs B on s) k) Q"
proof -
  have "returns (iRf69SetHighPowerRegs B on s) (\<lambda>(r, s). \<not> r < 0 \<and> returns (k r s) Q)"
    unfolding iRf69SetHighPowerRegs_def
    by (rule returns_try_write [OF ok], simp add: rf69_regs, simp add: rf69_regs,
        rule returns_try_write [OF ok], simp add: rf69_regs, simp add: rf69_regs)
      (simp add: returns_simps k gentle_def rf69_regs)
  then show ?thesis by (auto simp: returns_simps elim: returns_mono)
qed

lemma gentle_mode:
  "v AND 0x1C = v \<Longrightarrow> v \<noteq> RF_OPMODE_RECEIVER \<Longrightarrow> gentle REG_OPMODE ((b AND 0xE3) OR v)"
  by (simp add: gentle_def bit.conj_disj_distrib2 and.assoc rf69_regs)

lemma returns_mode_write:
  assumes ok: "access_ok B reg oth"
    and k: "\<And>w1. reg w1 = (reg (wld s))(REG_OPMODE := (reg (wld s) REG_OPMODE AND 0xE3) OR v) \<Longrightarrow>
      (v AND 0x1C = v \<and> v \<noteq> RF_OPMODE_RECEIVER \<Longrightarrow> oth w1 = oth (wld s)) \<Longrightarrow>
      returns (k (s\<lparr>wld := w1\<rparr>)) Q"
  shows "returns (read_u8 B REG_OPMODE s (\<lambda>b s.
    try_int (iRf69WriteReg B REG_OPMODE ((b AND 0xE3) OR v) s) (\<lambda>_ s. k s))) Q"
proof (rule returns_read_u8 [OF ok])
  fix w1
  assume w1: "reg w1 = reg (wld s)" "oth w1 = oth (wld s)"
  show "returns (try_int (iRf69WriteReg B REG_OPMODE ((reg (wld s) REG_OPMODE AND 0xE3) OR v) (s\<lparr>wld := w1\<rparr>)) (\<lambda>_ s. k s)) Q"
    by (rule returns_try_write [OF ok], simp add: rf69_regs, simp add: rf69_regs)
      (use w1 gentle_mode [of v] in \<open>auto intro!: k\<close>)
qed (simp_all add: rf69_regs)

lemma mode_cases:
  fixes m :: u8
  assumes "m \<le> 4"
  obtains "m = eRf69ModeSleep" | "m = eRf69ModeStandby" | "m = eRf69ModeSynth" | "m = eRf69ModeRx" | "m = eRf69ModeTx"
proof -
  have "unat m \<le> 4" using assms by (simp add: word_le_nat_alt)
  then have "m = 0 \<or> m = 1 \<or> m = 2 \<or> m = 3 \<or> m = 4" by (simp add: word_unat_eq_iff) linarith
  with that show ?thesis by (auto simp: rf69_modes)
qed

text \<open>The code of a mode in bits 2 to 4 of \<open>REG_OPMODE\<close>: the module counts transmission before
  reception, the driver after it.\<close>

definition mode_code :: "u8 \<Rightarrow> u8" where
  "mode_code m = (if m = eRf69ModeRx then 4 else if m = eRf69ModeTx then 3 else m)"

definition mode_regs :: "bool \<Rightarrow> u8 \<Rightarrow> (u8 \<Rightarrow> u8) \<Rightarrow> u8 \<Rightarrow> u8" where
  "mode_regs hw m g =
     (let g1 = g(REG_OPMODE := (g REG_OPMODE AND 0xE3) OR push_bit 2 (mode_code m)) in
      if hw \<and> m = eRf69ModeTx then g1(REG_TESTPA1 := 0x5D, REG_TESTPA2 := 0x7C)
      else if hw \<and> m = eRf69ModeRx then g1(REG_TESTPA1 := 0x55, REG_TESTPA2 := 0x70)
      else g1)"

lemma returns_set_mode:
  assumes ok: "access_ok B reg oth" and m: "m \<le> 4" "m \<noteq> rf_mode (rf s)" "rf_mode (rf s) \<noteq> eRf69ModeSleep"
    and Q: "\<And>w1. reg w1 = mode_regs (rf_hw (rf s)) m (reg (wld s)) \<Longrightarrow>
      (m \<noteq> eRf69ModeRx \<Longrightarrow> oth w1 = oth (wld s)) \<Longrightarrow> Q (0, s\<lparr>wld := w1, rf := (rf s)\<lparr>rf_mode := m\<rparr>\<rparr>)"
  shows "returns (iRf69SetMode B m s) Q"
  using m(1)
proof (cases m rule: mode_cases)
  case 1
  show ?thesis using m Q unfolding iRf69SetMode_def Let_def 1
    by (simp add: rf69_modes, intro returns_mode_write [OF ok])
      (simp add: rf69_modes returns_simps mode_regs_def mode_code_def RF_OPMODE_SLEEP_def RF_OPMODE_RECEIVER_def)
next
  case 2
  show ?thesis using m Q unfolding iRf69SetMode_def Let_def 2
    by (simp add: rf69_modes, intro returns_mode_write [OF ok])
      (simp add: rf69_modes returns_simps mode_regs_def mode_code_def RF_OPMODE_STANDBY_def RF_OPMODE_RECEIVER_def)
next
  case 3
  show ?thesis using m Q unfolding iRf69SetMode_def Let_def 3
    by (simp add: rf69_modes, intro returns_mode_write [OF ok])
      (simp add: rf69_modes returns_simps mode_regs_def mode_code_def RF_OPMODE_SYNTHESIZER_def RF_OPMODE_RECEIVER_def)
next
  case 4
  show ?thesis
  proof (cases "rf_hw (rf s)")
    case True
    then show ?thesis using m Q unfolding iRf69SetMode_def Let_def 4
      by (simp add: rf69_modes, intro returns_mode_write [OF ok], simp, intro returns_power [OF ok])
        (simp add: rf69_modes returns_simps mode_regs_def mode_code_def RF_OPMODE_RECEIVER_def)
  next
    case False
    then show ?thesis using m Q unfolding iRf69SetMode_def Let_def 4
      by (simp add: rf69_modes, intro returns_mode_write [OF ok])
        (simp add: rf69_modes returns_simps mode_regs_def mode_code_def RF_OPMODE_RECEIVER_def)
  qed
next
  case 5
  show ?thesis
  proof (cases "rf_hw (rf s)")
    case True
    then show ?thesis using m Q unfolding iRf69SetMode_def Let_def 5
      by (simp add: rf69_modes, intro returns_mode_write [OF ok], simp, intro returns_power [OF ok])
        (simp add: rf69_modes returns_simps mode_regs_def mode_code_def RF_OPMODE_TRANSMITTER_def RF_OPMODE_RECEIVER_def)
  next
    case False
    then show ?thesis using m Q unfolding iRf69SetMode_def Let_def 5
      by (simp add: rf69_modes, intro returns_mode_write [OF ok])
        (simp add: rf69_modes returns_simps mode_regs_def mode_code_def RF_OPMODE_TRANSMITTER_def RF_OPMODE_RECEIVER_def)
  qed
qed

text \<open>C20. \<open>iRf69SetMode\<close> with one of the five modes, from a mode other than sleep, puts
  the code of the mode in bits 2 to 4 of \<open>REG_OPMODE\<close> and keeps the other bits, sets the two amplifier
  registers on a high power module that starts to send or receive, changes no other register, and
  remembers the mode.  Another number is refused, the present mode takes no access at all.\<close>

theorem rf69_mode:
  assumes ok: "regs_ok B reg" and s: "rf_mode (rf s) \<noteq> eRf69ModeSleep"
  shows "(m \<le> 4 \<and> m \<noteq> rf_mode (rf s) \<longrightarrow>
      (\<exists>s1. iRf69SetMode B m s = ret (0, s1) \<and> rf s1 = (rf s)\<lparr>rf_mode := m\<rparr> \<and> heap s1 = heap s \<and>
        reg (wld s1) REG_OPMODE AND 0x1C = push_bit 2 (mode_code m) \<and>
        reg (wld s1) REG_OPMODE AND 0xE3 = reg (wld s) REG_OPMODE AND 0xE3 \<and>
        (rf_hw (rf s) \<and> m = eRf69ModeTx \<longrightarrow> reg (wld s1) REG_TESTPA1 = 0x5D \<and> reg (wld s1) REG_TESTPA2 = 0x7C) \<and>
        (rf_hw (rf s) \<and> m = eRf69ModeRx \<longrightarrow> reg (wld s1) REG_TESTPA1 = 0x55 \<and> reg (wld s1) REG_TESTPA2 = 0x70) \<and>
        (\<forall>r. r \<noteq> REG_OPMODE \<and> (rf_hw (rf s) \<longrightarrow> r \<noteq> REG_TESTPA1 \<and> r \<noteq> REG_TESTPA2) \<longrightarrow>
           reg (wld s1) r = reg (wld s) r))) \<and>
    (m > 4 \<and> m \<noteq> rf_mode (rf s) \<longrightarrow>
      (\<exists>s1. iRf69SetMode B m s = ret (-1, s1) \<and> rf s1 = rf s \<and> reg (wld s1) = reg (wld s))) \<and>
    iRf69SetMode B (rf_mode (rf s)) s = ret (0, s)"
proof (intro conjI impI)
  assume m: "m \<le> 4 \<and> m \<noteq> rf_mode (rf s)"
  have field: "((b AND 0xE3) OR push_bit 2 (mode_code m)) AND 0x1C = push_bit 2 (mode_code m)"
    "((b AND 0xE3) OR push_bit 2 (mode_code m)) AND 0xE3 = b AND 0xE3" for b :: u8
    using m [THEN conjunct1] by (cases m rule: mode_cases; simp add: mode_code_def rf69_modes bit.conj_disj_distrib2 and.assoc)+
  have "returns (iRf69SetMode B m s) (\<lambda>(n, s1). n = 0 \<and> rf s1 = (rf s)\<lparr>rf_mode := m\<rparr> \<and> heap s1 = heap s \<and>
      reg (wld s1) = mode_regs (rf_hw (rf s)) m (reg (wld s)))"
    using m s by (intro returns_set_mode [OF ok]) simp_all
  then obtain s1 where "iRf69SetMode B m s = ret (0, s1)" "rf s1 = (rf s)\<lparr>rf_mode := m\<rparr>" "heap s1 = heap s"
    "reg (wld s1) = mode_regs (rf_hw (rf s)) m (reg (wld s))"
    by (auto simp: returns_def)
  with field show "\<exists>s1. iRf69SetMode B m s = ret (0, s1) \<and> rf s1 = (rf s)\<lparr>rf_mode := m\<rparr> \<and> heap s1 = heap s \<and>
        reg (wld s1) REG_OPMODE AND 0x1C = push_bit 2 (mode_code m) \<and>
        reg (wld s1) REG_OPMODE AND 0xE3 = reg (wld s) REG_OPMODE AND 0xE3 \<and>
        (rf_hw (rf s) \<and> m = eRf69ModeTx \<longrightarrow> reg (wld s1) REG_TESTPA1 = 0x5D \<and> reg (wld s1) REG_TESTPA2 = 0x7C) \<and>
        (rf_hw (rf s) \<and> m = eRf69ModeRx \<longrightarrow> reg (wld s1) REG_TESTPA1 = 0x55 \<and> reg (wld s1) REG_TESTPA2 = 0x70) \<and>
        (\<forall>r. r \<noteq> REG_OPMODE \<and> (rf_hw (rf s) \<longrightarrow> r \<noteq> REG_TESTPA1 \<and> r \<noteq> REG_TESTPA2) \<longrightarrow>
           reg (wld s1) r = reg (wld s) r)"
    by (intro exI [of _ s1]) (auto simp: mode_regs_def Let_def rf69_modes REG_OPMODE_def REG_TESTPA1_def REG_TESTPA2_def)
next
  assume m: "m > 4 \<and> m \<noteq> rf_mode (rf s)"
  then have "m \<noteq> 0" "m \<noteq> 1" "m \<noteq> 2" "m \<noteq> 3" "m \<noteq> 4" by auto
  then have "returns (iRf69SetMode B m s) (\<lambda>(n, s1). n = -1 \<and> rf s1 = rf s \<and> reg (wld s1) = reg (wld s))"
    using m unfolding iRf69SetMode_def Let_def
    by (simp add: rf69_modes, intro returns_read_u8 [OF ok]) (simp_all add: returns_simps REG_OPMODE_def)
  then show "\<exists>s1. iRf69SetMode B m s = ret (-1, s1) \<and> rf s1 = rf s \<and> reg (wld s1) = reg (wld s)"
    by (auto simp: returns_def)
qed (simp add: iRf69SetMode_def)

text \<open>A module whose registers are the world.\<close>

definition reg_message :: "int \<Rightarrow> u8 list \<Rightarrow> (u8 \<Rightarrow> u8) \<Rightarrow> int \<times> (nat \<Rightarrow> u8) \<times> (u8 \<Rightarrow> u8)" where
  "reg_message fd bs w =
     (case bs of
        [r, v] \<Rightarrow> if r < 0x80 then (2, (\<lambda>_. w r), w) else (2, (\<lambda>_. 0), w(r AND 0x7F := v))
      | _ \<Rightarrow> (-1, (\<lambda>_. 0), w))"

definition idle_timer :: "'w timerfd" where
  "idle_timer = \<lparr>t_create = (\<lambda>w. (5, w)), t_settime = (\<lambda>_ _ w. (0, w)),
     t_gettime = (\<lambda>_ w. (0, \<lparr>it_interval = (0, 0), it_value = (0, 0)\<rparr>, w)), t_read = (\<lambda>_ w. (8, 1, w)),
     t_close = (\<lambda>_ w. (0, w)), t_epoll_create = (\<lambda>w. (6, w)), t_pthread_create = (\<lambda>w. (0, w)),
     t_epoll_add = (\<lambda>_ _ _ w. (0, w)), t_epoll_del = (\<lambda>_ _ w. (-1, True, w))\<rparr>"

definition board_of :: "(int \<Rightarrow> u8 list \<Rightarrow> 'w \<Rightarrow> int \<times> (nat \<Rightarrow> u8) \<times> 'w) \<Rightarrow> 'w board" where
  "board_of msg = \<lparr>b_spi = \<lparr>s_open = (\<lambda>_ w. (3, w)), s_close = (\<lambda>_ w. (0, w)), s_message = msg,
       s_get = (\<lambda>_ _ w. (0, 0, w)), s_set = (\<lambda>_ _ _ w. (0, w))\<rparr>,
     b_timer = idle_timer, b_din_open = (\<lambda>_ w. (True, w)), b_din_close = (\<lambda>w. w),
     b_din_callback = (\<lambda>w. (0, w)), b_din_read = (\<lambda>w. (1, w))\<rparr>"

lemma reg_write_addr:
  fixes r :: u8
  assumes "r < 0x80"
  shows "\<not> r OR 0x80 < 0x80" "(r OR 0x80) AND 0x7F = r"
proof -
  have r: "bit r n \<Longrightarrow> n < 7" for n using assms bit_below [of r 7] by simp
  have "bit (0x7F :: u8) n \<longleftrightarrow> n < 7" for n
    using bit_mask_iff [where 'a = u8, of 7 n] by (auto simp: mask_eq_exp_minus_1)
  then show "(r OR 0x80) AND 0x7F = r"
    using r by (intro bit_eqI) (auto simp: bit_and_iff bit_or_iff bit_0x80 simp del: bit_numeral_word_iff)
  show "\<not> r OR 0x80 < 0x80"
    using bit_below [of "r OR 0x80" 7 7] by (auto simp: bit_or_iff bit_0x80 simp del: bit_numeral_word_iff)
qed

lemma reg_board_ok: "regs_ok (board_of reg_message) (\<lambda>w. w)"
  by (simp add: access_ok_def board_of_def reg_message_def reg_write_addr)

definition ex_drv :: "(u8 \<Rightarrow> u8) drv" where
  "ex_drv = \<lparr>rf = rf69_zero\<lparr>rf_mode := 1, rf_hw := True, rf_open := True\<rparr>, heap = \<lparr>mplan = [], live = 0\<rparr>, wld = (\<lambda>_. 0xFF)\<rparr>"

theorem rf69_mode_witness:
  "(\<exists>s1. iRf69SetMode (board_of reg_message) eRf69ModeTx ex_drv = ret (0, s1) \<and> wld s1 REG_OPMODE AND 0x1C = 0x0C \<and>
      wld s1 REG_OPMODE AND 0xE3 = 0xE3 \<and> wld s1 REG_TESTPA1 = 0x5D) \<and>
   (\<exists>s1. iRf69SetMode (board_of reg_message) 7 ex_drv = ret (-1, s1) \<and> rf s1 = rf ex_drv)"
  using rf69_mode [OF reg_board_ok, of ex_drv eRf69ModeTx] rf69_mode [OF reg_board_ok, of ex_drv 7]
  by (auto simp: ex_drv_def rf69_zero_def rf69_modes mode_code_def)

end
