(* ===== verification/Rf69_Settings.thy ===== *)
theory Rf69_Settings
  imports Rf69_Laws
begin

text \<open>
  The settings of the RFM69 driver read back: frequency and power; and what the reading functions say
  when the bus is dead.
\<close>

section \<open>Frequency\<close>

lemma uint_byte: "uint (word_of_int (drop_bit n q) :: u8) = q div 2 ^ n mod 256"
  by (simp add: uint_word_of_int drop_bit_eq_div)

lemma three_bytes:
  fixes q :: int
  assumes "0 \<le> q" "q < 16777216"
  shows "q div 65536 mod 256 * 65536 + q div 256 mod 256 * 256 + q mod 256 = q"
proof -
  have "q div 65536 mod 256 = q div 65536" using assms by (intro mod_pos_pos_trivial) (auto simp: div_less_iff_less_mult)
  moreover have "q div 256 = q div 65536 * 256 + q div 256 mod 256"
    using div_mult_mod_eq [of "q div 256" 256] zdiv_zmult2_eq [of 256 q 256] by simp
  moreover have "q = q div 256 * 256 + q mod 256" by simp
  ultimately show ?thesis by linarith
qed

lemma step_error:
  fixes f :: int
  defines "q \<equiv> f * 256 div 15625"
  shows "15625 * q div 256 \<le> f" "f - 62 \<le> 15625 * q div 256"
proof -
  have q: "15625 * q \<le> f * 256" "f * 256 < 15625 * q + 15625"
    using div_mult_mod_eq [of "f * 256" 15625] pos_mod_bound [of 15625 "f * 256"] pos_mod_sign [of 15625 "f * 256"]
    unfolding q_def by linarith+
  have d: "15625 * q div 256 * 256 \<le> 15625 * q" "15625 * q < 15625 * q div 256 * 256 + 256"
    using div_mult_mod_eq [of "15625 * q" 256] pos_mod_bound [of 256 "15625 * q"] pos_mod_sign [of 256 "15625 * q"]
    by linarith+
  show "15625 * q div 256 \<le> f" "f - 62 \<le> 15625 * q div 256" using q d by linarith+
qed

definition frf_of :: "int \<Rightarrow> (u8 \<Rightarrow> u8) \<Rightarrow> u8 \<Rightarrow> u8" where
  "frf_of q g = g(7 := word_of_int (drop_bit 16 q), 8 := word_of_int (drop_bit 8 q), 9 := word_of_int q)"

lemma returns_write_frf:
  assumes ok: "regs_ok B reg" and Q: "\<And>w1. reg w1 = frf_of q (reg (wld s)) \<Longrightarrow> Q (0, s\<lparr>wld := w1\<rparr>)"
  shows "returns (write_frf B q frf_regs s) Q"
  unfolding frf_regs_def
  by (simp add: REG_FRFMSB_def REG_FRFLSB_def, rule returns_try_write [OF ok], simp, simp,
      simp, rule returns_try_write [OF ok], simp, simp, simp, rule returns_try_write [OF ok])
    (simp_all add: returns_simps Q frf_of_def)

lemma returns_frequency:
  assumes ok: "regs_ok B reg" and q: "reg (wld s) = frf_of q g" "0 \<le> q" "q < 16777216"
    and Q: "\<And>w1. reg w1 = reg (wld s) \<Longrightarrow> Q (15625 * q div 256, s\<lparr>wld := w1\<rparr>)"
  shows "returns (lRf69Frequency B s) Q"
proof -
  have b: "uint (frf_of q g 7) = q div 65536 mod 256" "uint (frf_of q g 8) = q div 256 mod 256"
      "uint (frf_of q g 9) = q mod 256"
    using uint_byte [of 16 q] uint_byte [of 8 q] uint_byte [of 0 q] by (simp_all add: frf_of_def)
  show ?thesis
    unfolding lRf69Frequency_def frf_regs_def
    by (simp add: REG_FRFMSB_def REG_FRFLSB_def, rule returns_read_u8 [OF ok], simp, simp,
        simp, rule returns_read_u8 [OF ok], simp, simp, simp, rule returns_read_u8 [OF ok])
      (simp_all add: returns_simps q(1) b push_bit_eq_mult three_bytes [OF q(2,3)] Q)
qed

text \<open>C21. A licensed frequency written by \<open>iRf69SetFrequency\<close> (outside
  transmission and reception) is read back by \<open>lRf69Frequency\<close> with an error of at most 62 Hz, one step
  of the synthesizer, downwards.  A frequency outside the four bands is refused without an access to the
  module.\<close>

theorem rf69_frequency:
  assumes ok: "regs_ok B reg" and mode: "rf_mode (rf s) \<noteq> eRf69ModeTx" "rf_mode (rf s) \<noteq> eRf69ModeRx"
  shows "if bIsLicensedFreq f
    then \<exists>s1 s2 f1. iRf69SetFrequency B f s = ret (0, s1) \<and> lRf69Frequency B s1 = ret (f1, s2) \<and>
      f - 62 \<le> f1 \<and> f1 \<le> f \<and> rf s2 = rf s
    else iRf69SetFrequency B f s = ret (-1, s)"
proof (cases "bIsLicensedFreq f")
  case False
  then show ?thesis
    using mode by (simp add: iRf69SetFrequency_def iSetFrequencyRegs_def Let_def try_int_def ret_def)
next
  case True
  let ?q = "f * 256 div 15625"
  have "0 \<le> f" "f \<le> 1020000000" using True by (auto simp: bIsLicensedFreq_def iFrfBounds_def)
  then have q: "0 \<le> ?q" "?q < 16777216" by (auto simp: div_less_iff_less_mult)
  have "returns (iRf69SetFrequency B f s) (\<lambda>(n, s1). n = 0 \<and> rf s1 = rf s \<and>
      returns (lRf69Frequency B s1) (\<lambda>(f1, s2). f1 = 15625 * ?q div 256 \<and> rf s2 = rf s))"
    using True mode
    by (simp add: iRf69SetFrequency_def iSetFrequencyRegs_def Let_def returns_simps, intro returns_write_frf [OF ok])
      (auto simp: iRf69SetMode_def returns_simps intro!: returns_frequency [OF ok _ q])
  with True step_error [of f] show ?thesis by (auto simp: returns_def)
qed

theorem rf69_frequency_witness:
  "(\<exists>s1 s2 f1. iRf69SetFrequency (board_of reg_message) 868000000 ex_drv = ret (0, s1) \<and>
      lRf69Frequency (board_of reg_message) s1 = ret (f1, s2) \<and> 867999938 \<le> f1 \<and> f1 \<le> 868000000) \<and>
   iRf69SetFrequency (board_of reg_message) 863000000 ex_drv = ret (-1, ex_drv)"
proof -
  have "bIsLicensedFreq 868000000" "\<not> bIsLicensedFreq 863000000" "rf_mode (rf ex_drv) = 1"
    by (simp_all add: bIsLicensedFreq_def iFrfBounds_def ex_drv_def)
  then show ?thesis
    using rf69_frequency [OF reg_board_ok, of ex_drv 868000000] rf69_frequency [OF reg_board_ok, of ex_drv 863000000]
    by (auto simp: rf69_modes)
qed

section \<open>Power\<close>

lemma low_bits: "unat n < 32 \<Longrightarrow> ((b AND 0xE0) OR n) AND 0x1F = n" for b n :: u8
proof -
  assume "unat n < 32"
  then have n: "bit n k \<Longrightarrow> k < 5" for k using bit_below [of n 5 k] by (simp add: word_less_nat_alt)
  have m: "bit (0x1F :: u8) k \<longleftrightarrow> k < 5" for k
    using bit_mask_iff [where 'a = u8, of 5 k] by (auto simp: mask_eq_exp_minus_1)
  have "(b AND 0xE0) AND 0x1F = 0" by (simp add: and.assoc)
  moreover have "n AND 0x1F = n" using n m by (intro bit_eqI) (auto simp: bit_and_iff simp del: bit_numeral_word_iff)
  ultimately show ?thesis by (simp add: bit.conj_disj_distrib2)
qed

text \<open>A power level of at least 0 set by \<open>iRf69SetPowerLevel\<close> is read back by
  \<open>iRf69PowerLevel\<close>, cut to 31 and, on a high power module, rounded down to an even number; the
  amplifier bits of the register are kept.\<close>

theorem rf69_power:
  assumes ok: "regs_ok B reg" and l: "0 \<le> l"
  shows "\<exists>s1 s2. iRf69SetPowerLevel B l s = ret (0, s1) \<and>
    iRf69PowerLevel B s1 = ret (if rf_hw (rf s) then min l 31 div 2 * 2 else min l 31, s2) \<and>
    reg (wld s1) REG_PALEVEL AND 0xE0 = reg (wld s) REG_PALEVEL AND 0xE0"
proof -
  obtain k where k: "k = (if rf_hw (rf s) then min l 31 sdiv 2 else min l 31)" by simp
  have half: "k = (if rf_hw (rf s) then min l 31 div 2 else min l 31)"
    using l by (simp add: k signed_divide_int_def sgn_if)
  then have bound: "0 \<le> k" "k < 32" using l by auto
  let ?n = "word_of_int k :: u8" and ?b = "reg (wld s) REG_PALEVEL"
  have un: "uint ?n = k" using bound by (simp add: uint_word_of_int)
  then have low: "unat ?n < 32" unfolding unat_eq_nat_uint using bound by linarith
  have high: "((b AND 0xE0) OR ?n) AND 0xE0 = b AND 0xE0" for b :: u8
  proof -
    have "?n AND 0x1F = ?n" using low_bits [OF low, of 0] by simp
    then have "?n AND 0xE0 = ?n AND (0x1F AND 0xE0)" by (metis and.assoc)
    then have "?n AND 0xE0 = 0" by simp
    then show ?thesis by (simp add: bit.conj_disj_distrib2 and.assoc)
  qed
  have "returns (iRf69SetPowerLevel B l s) (\<lambda>(r, s1). r = 0 \<and> rf_hw (rf s1) = rf_hw (rf s) \<and>
      reg (wld s1) REG_PALEVEL = (?b AND 0xE0) OR ?n)"
    unfolding iRf69SetPowerLevel_def Let_def k [symmetric]
    by (rule returns_read_u8 [OF ok], simp add: REG_PALEVEL_def, simp add: REG_PALEVEL_def,
        rule returns_try_write [OF ok], simp add: REG_PALEVEL_def, simp add: REG_PALEVEL_def)
      (simp add: returns_simps of_int_or_eq)
  then obtain s1 where s1: "iRf69SetPowerLevel B l s = ret (0, s1)" "rf_hw (rf s1) = rf_hw (rf s)"
      "reg (wld s1) REG_PALEVEL = (?b AND 0xE0) OR ?n"
    by (auto simp: returns_def)
  have two: "uint (?n * 2) = k * 2" using bound un by (simp add: uint_word_ariths)
  have "returns (iRf69PowerLevel B s1) (\<lambda>(r, _). r = (if rf_hw (rf s) then k * 2 else k))"
    unfolding iRf69PowerLevel_def Let_def
    by (rule returns_read_u8 [OF ok], simp add: REG_PALEVEL_def, simp add: REG_PALEVEL_def)
      (simp add: returns_simps s1 low_bits [OF low] un two)
  then obtain s2 where "iRf69PowerLevel B s1 = ret (if rf_hw (rf s) then k * 2 else k, s2)"
    by (auto simp: returns_def)
  with s1 high half show ?thesis by (intro exI [of _ s1] exI [of _ s2]) simp
qed

theorem rf69_power_witness:
  "\<exists>s1 s2. iRf69SetPowerLevel (board_of reg_message) 25 ex_drv = ret (0, s1) \<and>
     iRf69PowerLevel (board_of reg_message) s1 = ret (24, s2) \<and> wld s1 REG_PALEVEL AND 0xE0 = 0xE0"
  using rf69_power [OF reg_board_ok, of 25 ex_drv] by (simp add: ex_drv_def)

section \<open>A dead bus\<close>

lemma dead_registers:
  assumes dead: "\<And>fd bs w. fst (s_message (b_spi B) fd bs w) = -1"
  obtains f g where "\<And>q s. iRf69ReadReg B q s = ret (-1, f q s)" "\<And>q s. rf (f q s) = rf s"
    "\<And>q v s. iRf69WriteReg B q v s = ret (-2, g q v s)" "\<And>q v s. rf (g q v s) = rf s"
proof -
  let ?m = "\<lambda>bs s. s_message (b_spi B) (rf_fd (rf s)) bs (wld s)"
  let ?f = "\<lambda>q s. s\<lparr>wld := snd (snd (?m [rd_addr q, 0] s))\<rparr>"
    and ?g = "\<lambda>q v s. s\<lparr>wld := snd (snd (?m [wr_addr q, v] s))\<rparr>"
  have "iRf69ReadReg B q s = ret (-1, ?f q s)" for q s
    using dead by (simp add: iRf69ReadReg_def iSpiReadReg8_def iSpiXfer_def case_prod_unfold Let_def)
  moreover have "iRf69WriteReg B q v s = ret (-2, ?g q v s)" for q v s
    using dead by (simp add: iRf69WriteReg_def iSpiWriteReg8_def iSpiXfer_def case_prod_unfold Let_def)
  ultimately show ?thesis by (intro that [of ?f ?g]) simp_all
qed

text \<open>When no transfer works, the functions that store a register in a byte never
  say so, contrary to their documentation: the value is 255 for every register, so that the module looks
  ready, encrypted, and at an implausible frequency.  The functions that write report the failure.\<close>

theorem rf69_dead_bus:
  assumes dead: "\<And>fd bs w. fst (s_message (b_spi B) fd bs w) = -1"
  shows "returns (iRf69NodeId B s) (\<lambda>(r, _). r = 255) \<and>
    returns (iRf69NetworkId B s) (\<lambda>(r, _). r = 255) \<and>
    returns (iRf69isEncrypted B s) (\<lambda>(r, _). r = 1) \<and>
    returns (iRf69PowerLevel B s) (\<lambda>(r, _). r = (if rf_hw (rf s) then 62 else 31)) \<and>
    returns (lRf69Frequency B s) (\<lambda>(r, _). r = 1023999938) \<and>
    returns (iRf69Rssi B False s) (\<lambda>(r, _). r = -127) \<and>
    returns (iRf69SetNodeId B n s) (\<lambda>(r, s1). r = -2 \<and> rf s1 = rf s) \<and>
    returns (iRf69AvoidRxDeadLocks B s) (\<lambda>(r, _). r = -2)"
proof -
  obtain f g where rd: "\<And>q s. iRf69ReadReg B q s = ret (-1, f q s)" "\<And>q s. rf (f q s) = rf s"
    and wr: "\<And>q v s. iRf69WriteReg B q v s = ret (-2, g q v s)" "\<And>q v s. rf (g q v s) = rf s"
    using dead_registers [OF dead] by blast
  have "uint (- 1 :: u8) = 255" by (simp add: unsigned_minus_1_eq_mask mask_eq_exp_minus_1)
  then show ?thesis
    by (simp add: push_bit_eq_mult iRf69NodeId_def iRf69NetworkId_def iRf69isEncrypted_def iRf69PowerLevel_def lRf69Frequency_def
        frf_regs_def iRf69Rssi_def iRf69SetNodeId_def iRf69AvoidRxDeadLocks_def read_u8_def returns_simps rd wr
        rf69_regs try_int_def try_int_val_def)
qed

theorem rf69_dead_bus_witness:
  "returns (iRf69NodeId (board_of (\<lambda>_ _ w. (-1, \<lambda>_. 0, w))) ex_drv) (\<lambda>(r, _). r = 255) \<and>
   returns (iRf69SetNodeId (board_of (\<lambda>_ _ w. (-1, \<lambda>_. 0, w))) 9 ex_drv) (\<lambda>(r, s1). r = -2 \<and> rf s1 = rf ex_drv)"
  using rf69_dead_bus [of "board_of (\<lambda>_ _ w. (-1, \<lambda>_. 0, w))" ex_drv 9] by (simp add: board_of_def)

end
