(* ===== verification/Rf69_Safe.thy ===== *)
theory Rf69_Safe
  imports Rf69_Laws
begin

text \<open>
  The RFM69 driver on arbitrary hardware: registers may read anything and transfers may fail.  No call
  and no interrupt leaves defined C, and the driver's data stay well formed.  The hardware is only
  asked to transfer all of a message or to fail, and timers and memory are asked to be there.
\<close>

section \<open>The accesses\<close>

definition board_ok :: "'w board \<Rightarrow> bool" where
  "board_ok B \<longleftrightarrow>
     (\<forall>fd bs w. fst (s_message (b_spi B) fd bs w) \<in> {-1, int (length bs)}) \<and>
     (\<forall>w. fst (t_create (b_timer B) w) \<noteq> -1)"

text \<open>The accesses do not change the driver's record, and no allocation is bound to fail.\<close>

definition quiet :: "'w drv \<Rightarrow> 'w drv \<Rightarrow> bool" where
  "quiet s s1 \<longleftrightarrow> rf s1 = rf s \<and> mplan (heap s1) = []"

lemma quiet_refl: "mplan (heap s) = [] \<Longrightarrow> quiet s s"
  by (simp add: quiet_def)

lemma message_cases:
  assumes "board_ok B"
  obtains rx w1 where "s_message (b_spi B) fd bs w = (-1, rx, w1)"
    | rx w1 where "s_message (b_spi B) fd bs w = (int (length bs), rx, w1)"
  using assms unfolding board_ok_def by (metis insert_iff prod.collapse singletonD)

lemma safe_read:
  assumes ok: "board_ok B" and m: "mplan (heap s) = []"
    and Q: "\<And>r s1. \<lbrakk>quiet s s1; -1 \<le> r; r < 256\<rbrakk> \<Longrightarrow> Q (r, s1)"
  shows "safe (iRf69ReadReg B q s) Q"
proof -
  have "uint x < 256" "-1 \<le> uint x" for x :: u8 using uint_lt2p [of x] order_trans [of "-1" 0 "uint x"] by simp_all
  then show ?thesis
    using m by (cases rule: message_cases [OF ok, of "rf_fd (rf s)" "[rd_addr q, 0]" "wld s"])
      (auto simp: iRf69ReadReg_def iSpiReadReg8_def iSpiXfer_def safe_simps quiet_def intro!: Q)
qed

lemma safe_write:
  assumes ok: "board_ok B" and m: "mplan (heap s) = []"
    and Q: "\<And>r s1. quiet s s1 \<Longrightarrow> Q (r, s1)"
  shows "safe (iRf69WriteReg B q v s) Q"
  using m by (cases rule: message_cases [OF ok, of "rf_fd (rf s)" "[wr_addr q, v]" "wld s"])
    (auto simp: iRf69WriteReg_def iSpiWriteReg8_def iSpiXfer_def safe_simps quiet_def intro!: Q)

lemma next_len: "len < 255 \<Longrightarrow> unat (len + 1) = unat len + 1" for len :: u8
  by (simp add: unat_word_ariths word_less_nat_alt)

lemma safe_write_block:
  assumes ok: "board_ok B" and m: "mplan (heap s) = []" and len: "unat len \<le> length buf" "len < 255"
    and Q: "\<And>r s1. quiet s s1 \<Longrightarrow> Q (r, s1)"
  shows "safe (iRf69WriteBlock B q buf len s) Q"
proof -
  let ?b = "wr_addr q # take (unat len) buf"
  have "copy_into ((replicate (unat (len + 1)) 0)[0 := wr_addr q]) 1 buf 0 (unat len) = Inr ?b"
    using len by (simp add: copy_into_def next_len)
  then show ?thesis
    using m len by (cases rule: message_cases [OF ok, of "rf_fd (rf s)" ?b "wld s"])
      (auto simp: iRf69WriteBlock_def iSpiWriteRegBlock_def iSpiXfer_def safe_simps quiet_def next_len Let_def intro!: Q)
qed

lemma safe_read_block:
  assumes ok: "board_ok B" and m: "mplan (heap s) = []" and len: "unat len \<le> length buf" "len < 255"
    and Q: "\<And>r d s1. \<lbrakk>quiet s s1; length d = length buf\<rbrakk> \<Longrightarrow> Q (r, d, s1)"
  shows "safe (iRf69ReadBlock B q buf len s) Q"
proof -
  let ?b = "rd_addr q # replicate (unat len) 0"
  have "0 \<le> uint len" by simp
  then have "1 + uint len \<noteq> 0" by linarith
  moreover have b: "(replicate (unat (len + 1)) 0)[0 := rd_addr q] = ?b" using len by (simp add: next_len)
  ultimately show ?thesis
    using m len by (cases rule: message_cases [OF ok, of "rf_fd (rf s)" ?b "wld s"])
      (auto simp: iRf69ReadBlock_def iSpiReadRegBlock_def iSpiXfer_def safe_simps quiet_def next_len Let_def copy_into_def
        nat_diff_distrib intro!: Q)
qed

section \<open>Timers and waits\<close>

lemma safe_with_timer:
  assumes ok: "board_ok B" and m: "mplan (heap s) = []"
    and k: "\<And>t s1. quiet s s1 \<Longrightarrow> safe (k t s1) Q"
  shows "safe (with_timer B timeout s k) Q"
proof -
  have "fst (t_create (b_timer B) (wld s)) \<noteq> -1" using ok by (simp add: board_ok_def)
  then show ?thesis
    using m by (auto simp: with_timer_def xRf69TimerNew_def xTimerNew_def vRf69TimerStart_def safe_simps quiet_def
        case_prod_unfold Let_def intro!: k)
qed

lemma timeout_quiet: "bRf69TimerTimeout B t s = (z, s1) \<Longrightarrow> mplan (heap s) = [] \<Longrightarrow> quiet s s1"
  by (auto simp: bRf69TimerTimeout_def quiet_def split: prod.splits)

lemma delete_quiet: "mplan (heap s) = [] \<Longrightarrow> quiet s (vRf69TimerDelete B t s)"
  by (auto simp: vRf69TimerDelete_def iTimerDelete_def quiet_def free_def Let_def split: prod.splits)

lemma safe_timed:
  assumes I: "I s" and quiet: "\<And>s s1. I s \<Longrightarrow> quiet s s1 \<Longrightarrow> I s1" and m: "\<And>s. I s \<Longrightarrow> mplan (heap s) = []"
    and op: "\<And>s. I s \<Longrightarrow> safe (op s) (\<lambda>(_, s1). I s1)"
    and Q: "\<And>r s1. I s1 \<Longrightarrow> Q (r, s1)"
  shows "safe (timed B op again t s result) Q"
proof -
  have step: "safe (turn B op again t (e, x, s)) (\<lambda>(_, _, _, s1). I s1)" if "I s" for e x s
    unfolding turn_def prod.case safe_simps
    by (rule safe_mono [OF op [OF that]])
      (auto simp: safe_simps Let_def split: prod.splits intro: quiet timeout_quiet m)
  have "safe (wait_loop (turn B op again t) (None, 0, s)) (\<lambda>(_, _, s1). I s1)"
    by (rule safe_wait_loop [where I = "\<lambda>(_, _, s1). I s1"]) (use I step in \<open>auto elim!: safe_mono\<close>)
  moreover have "I (vRf69TimerDelete B t s1)" if "I s1" for s1
    by (rule quiet [OF that delete_quiet [OF m [OF that]]])
  ultimately show ?thesis
    unfolding timed_def safe_simps
    by (elim safe_mono) (auto simp: safe_simps split: option.split intro!: Q)
qed

lemma safe_quiet_op:
  assumes "board_ok B" "mplan (heap s) = []" "\<And>r s1. quiet s s1 \<Longrightarrow> Q (r, s1)"
  shows "safe (iRf69WaitForReady B timeout s) Q" "safe (iRf69WaitIrq B timeout s) Q"
    "safe (iRf69WriteRegWithCheck B q v timeout s) Q"
proof -
  have q: "quiet s s1 \<Longrightarrow> quiet s1 s2 \<Longrightarrow> quiet s s2" "quiet s s1 \<Longrightarrow> mplan (heap s1) = []" for s1 s2
    by (simp_all add: quiet_def)
  show "safe (iRf69WaitForReady B timeout s) Q"
    unfolding iRf69WaitForReady_def
    by (rule safe_with_timer [OF assms(1,2)], rule safe_timed [where I = "quiet s"])
      (auto simp: safe_simps intro: q assms intro!: safe_read)
  show "safe (iRf69WaitIrq B timeout s) Q"
    unfolding iRf69WaitIrq_def
    by (rule safe_with_timer [OF assms(1,2)], rule safe_timed [where I = "quiet s"])
      (auto simp: safe_simps iRf69ReadIrqPin_def quiet_def split: prod.split intro: q assms)
  show "safe (iRf69WriteRegWithCheck B q v timeout s) Q"
    unfolding iRf69WriteRegWithCheck_def
    by (rule safe_with_timer [OF assms(1,2)], rule safe_timed [where I = "quiet s"])
      (auto simp: safe_simps intro: q assms intro!: safe_read safe_write)
qed

section \<open>The invariant\<close>

text \<open>The buffer has its 66 bytes, the length fits in it, the mode is one of the five.\<close>

definition rf_inv :: "'w drv \<Rightarrow> bool" where
  "rf_inv s \<longleftrightarrow> length (rf_data (rf s)) = 66 \<and> rf_data_len (rf s) \<le> 63 \<and> rf_mode (rf s) \<le> 4 \<and> mplan (heap s) = []"

lemma rf_inv_plan: "rf_inv s \<Longrightarrow> mplan (heap s) = []"
  by (simp add: rf_inv_def)

lemma quiet_inv: "quiet s s1 \<Longrightarrow> rf_inv s \<Longrightarrow> rf_inv s1"
  by (simp add: quiet_def rf_inv_def)

lemma inv_read:
  "board_ok B \<Longrightarrow> rf_inv s \<Longrightarrow> (\<And>r s1. quiet s s1 \<Longrightarrow> rf_inv s1 \<Longrightarrow> Q (r, s1)) \<Longrightarrow> safe (iRf69ReadReg B q s) Q"
  by (rule safe_read) (auto intro: quiet_inv rf_inv_plan)

lemma inv_write:
  "board_ok B \<Longrightarrow> rf_inv s \<Longrightarrow> (\<And>r s1. quiet s s1 \<Longrightarrow> rf_inv s1 \<Longrightarrow> Q (r, s1)) \<Longrightarrow> safe (iRf69WriteReg B q v s) Q"
  by (rule safe_write) (auto intro: quiet_inv rf_inv_plan)

text \<open>A property of the driver that the accesses and a change of mode keep.\<close>

lemma keep_set_mode:
  assumes ok: "board_ok B" and P: "P s"
    and acc: "\<And>s s1. P s \<Longrightarrow> quiet s s1 \<Longrightarrow> P s1" and plan: "\<And>s. P s \<Longrightarrow> mplan (heap s) = []"
    and mode: "\<And>s m. P s \<Longrightarrow> m \<le> 4 \<Longrightarrow> P (upd (rf_mode_update (\<lambda>_. m)) s)"
    and Q: "\<And>r s1. P s1 \<Longrightarrow> Q (r, s1)"
  shows "safe (iRf69SetMode B m s) Q"
proof -
  have rules: "P s \<Longrightarrow> (\<And>r s1. P s1 \<Longrightarrow> R (r, s1)) \<Longrightarrow> safe (iRf69ReadReg B q s) R"
    "P s \<Longrightarrow> (\<And>r s1. P s1 \<Longrightarrow> R (r, s1)) \<Longrightarrow> safe (iRf69WriteReg B q v s) R"
    "P s \<Longrightarrow> (\<And>r s1. P s1 \<Longrightarrow> R (r, s1)) \<Longrightarrow> safe (iRf69WaitForReady B n s) R" for s q v n R
    by (blast intro: safe_read [OF ok] safe_write [OF ok] safe_quiet_op [OF ok] acc plan)+
  show ?thesis
    unfolding iRf69SetMode_def read_u8_def iRf69SetHighPowerRegs_def Let_def
    using P by (auto simp: safe_simps rf69_modes intro!: rules Q mode)
qed

lemma inv_set_mode:
  assumes ok: "board_ok B" and inv: "rf_inv s"
    and Q: "\<And>r s1. rf_inv s1 \<Longrightarrow> (rf s1)\<lparr>rf_mode := 0\<rparr> = (rf s)\<lparr>rf_mode := 0\<rparr> \<Longrightarrow> Q (r, s1)"
  shows "safe (iRf69SetMode B m s) Q"
  by (rule keep_set_mode [OF ok, where P = "\<lambda>s1. rf_inv s1 \<and> (rf s1)\<lparr>rf_mode := 0\<rparr> = (rf s)\<lparr>rf_mode := 0\<rparr>"])
    (use inv in \<open>auto simp: quiet_def rf_inv_def intro: Q\<close>)

lemma inv_avoid:
  assumes "board_ok B" "rf_inv s" "\<And>r s1. quiet s s1 \<Longrightarrow> rf_inv s1 \<Longrightarrow> Q (r, s1)"
  shows "safe (iRf69AvoidRxDeadLocks B s) Q"
  unfolding iRf69AvoidRxDeadLocks_def read_u8_def safe_simps
  by (rule inv_read [OF assms(1,2)])
    (auto simp: safe_simps quiet_def intro!: inv_write [OF assms(1)] assms(3))

lemma inv_start:
  assumes ok: "board_ok B" and inv: "rf_inv s" and Q: "\<And>r s1. rf_inv s1 \<Longrightarrow> Q (r, s1)"
  shows "safe (iRf69StartReceiving B s) Q"
proof -
  let ?s = "upd (\<lambda>p. p\<lparr>rf_data_len := 0, rf_sender := 0, rf_dest := 0, rf_payload_len := 0, rf_ctl := 0, rf_rssi := 0\<rparr>) s"
  have s: "rf_inv ?s" using inv by (simp add: rf_inv_def)
  show ?thesis
    unfolding iRf69StartReceiving_def read_u8_def Let_def safe_simps
    by (rule inv_avoid [OF ok s])
      (auto simp: safe_simps intro!: inv_read [OF ok] inv_write [OF ok] inv_set_mode [OF ok] Q)
qed

lemma inv_receive_done:
  assumes ok: "board_ok B" and "rf_inv s" "\<And>r s1. rf_inv s1 \<Longrightarrow> Q (r, s1)"
  shows "safe (iRf69ReceiveDone B s) Q"
  unfolding iRf69ReceiveDone_def
  using assms by (auto simp: safe_simps intro!: inv_set_mode [OF ok] inv_start [OF ok])

lemma inv_rssi:
  assumes ok: "board_ok B" and inv: "rf_inv s" and Q: "\<And>r s1. quiet s s1 \<Longrightarrow> rf_inv s1 \<Longrightarrow> Q (r, s1)"
  shows "safe (iRf69Rssi B force s) Q"
proof -
  have val: "safe (iRf69ReadReg B q s1) (\<lambda>x. safe (case x of (r, s) \<Rightarrow> ret (f r, s)) Q)"
    if "quiet s s1" "rf_inv s1" for q s1 f
    using that by (auto simp: safe_simps quiet_def intro!: inv_read [OF ok] Q)
  have loop: "safe (wait_loop (\<lambda>(early, s).
        obind (as_u8 (iRf69ReadReg B REG_RSSICONFIG s)) (\<lambda>(b, s).
          if b < 0 then ret (False, Some INT_MAX, s)
          else ret ((word_of_int b :: u8) AND RF_RSSI_DONE = 0, None, s))) (None, s1))
      (\<lambda>(_, s1). quiet s s1 \<and> rf_inv s1)" if "quiet s s1" "rf_inv s1" for s1
    by (rule safe_wait_loop [where I = "\<lambda>(_, s1). quiet s s1 \<and> rf_inv s1"])
      (use that in \<open>auto simp: safe_simps quiet_def intro!: inv_read [OF ok]\<close>)
  show ?thesis
    unfolding iRf69Rssi_def Let_def
    using inv by (auto simp: safe_simps intro!: val inv_write [OF ok] safe_mono [OF loop] Q quiet_refl
        intro: rf_inv_plan split: option.split)
qed

lemma upd_inv:
  "rf_inv s \<Longrightarrow> length (rf_data (f (rf s))) = 66 \<Longrightarrow> rf_data_len (f (rf s)) \<le> 63 \<Longrightarrow> rf_mode (f (rf s)) \<le> 4 \<Longrightarrow>
     rf_inv (upd f s)"
  by (simp add: rf_inv_def)

lemma min_len: "3 \<le> p \<Longrightarrow> min p 66 - 3 \<le> 63" for p :: u8
  by (auto simp: min_def word_le_nat_alt unat_sub)

lemma inv_read_block:
  assumes ok: "board_ok B" and inv: "rf_inv s" and len: "unat len \<le> length buf" "len < 255"
    and Q: "\<And>r d s1. \<lbrakk>quiet s s1; rf_inv s1; length d = length buf\<rbrakk> \<Longrightarrow> Q (r, d, s1)"
  shows "safe (iRf69ReadBlock B q buf len s) Q"
  by (rule safe_read_block [OF ok rf_inv_plan [OF inv] len]) (auto intro: Q quiet_inv [OF _ inv])

lemma inv_isr_data:
  assumes ok: "board_ok B" and inv: "rf_inv s"
  shows "safe (isr_data B s) (\<lambda>(_, s1). rf_inv s1)"
proof -
  have "unat (rf_data_len (rf s)) \<le> length (rf_data (rf s))" "rf_data_len (rf s) < 255"
    using inv by (simp_all add: rf_inv_def word_le_nat_alt word_less_nat_alt)
  then show ?thesis
    using inv unfolding isr_data_def
    by (auto simp: safe_simps Let_def quiet_def RF69_MAX_DATA_LEN_def RF_FIFO_SIZE_def rf_inv_def
        intro!: inv_read_block [OF ok inv])
qed

lemma inv_isr_accept:
  assumes ok: "board_ok B" and inv: "rf_inv s" and len: "3 \<le> rf_payload_len (rf s)"
  shows "safe (isr_accept B s) rf_inv"
proof -
  let ?s = "upd (\<lambda>p. p\<lparr>rf_data_len := min (rf_payload_len p) (of_nat RF_FIFO_SIZE) - 3\<rparr>) s"
  have "rf_inv ?s"
    using inv min_len [OF len] by (intro upd_inv) (auto simp: rf_inv_def RF_FIFO_SIZE_def)
  then show ?thesis
    unfolding isr_accept_def safe_simps
    by (intro safe_mono [OF inv_isr_data [OF ok]])
      (auto simp: safe_simps rf_inv_def intro!: inv_set_mode [OF ok] inv_rssi [OF ok])
qed

lemma inv_isr_drop: "board_ok B \<Longrightarrow> rf_inv s \<Longrightarrow> safe (isr_drop B s) rf_inv"
  unfolding isr_drop_def safe_simps
  by (rule inv_start) (auto simp: safe_simps rf_inv_def)

lemma inv_isr_packet:
  assumes ok: "board_ok B" and inv: "rf_inv s"
  shows "safe (isr_packet B s) rf_inv"
  unfolding isr_packet_def safe_simps
proof (rule safe_read [OF ok rf_inv_plan [OF inv]], unfold prod.case)
  fix r :: int and s1
  assume q: "quiet s s1" and r: "-1 \<le> r" "r < 256"
  then have inv1: "rf_inv s1" using inv by (simp add: quiet_inv)
  let ?s = "upd (\<lambda>p. p\<lparr>rf_payload_len := word_of_int r\<rparr>) s1"
  show "safe (if r \<ge> int RF69_HEADER_SIZE - 1 then
         let s = ?s in
         obind (iRf69ReadBlock B REG_FIFO [rf_dest (rf s), rf_sender (rf s), rf_ctl (rf s)]
                  (of_nat (RF69_HEADER_SIZE - 1)) s) (\<lambda>(r, h, s).
         let s = upd (\<lambda>p. p\<lparr>rf_dest := h ! 0, rf_sender := h ! 1, rf_ctl := h ! 2\<rparr>) s in
         if r < 0 then ret s
         else if rf_promiscuous (rf s) \<or> rf_dest (rf s) = rf_node_id (rf s) \<or> rf_dest (rf s) = RF69_BROADCAST_ADDR
         then isr_accept B s
         else isr_drop B s)
       else isr_drop B s1) rf_inv"
  proof (cases "r \<ge> int RF69_HEADER_SIZE - 1")
    case True
    then have "3 \<le> r" by (simp add: RF69_HEADER_SIZE_def)
    then have len: "3 \<le> (word_of_int r :: u8)" using r by (simp add: word_le_def uint_word_of_int)
    have inv2: "rf_inv ?s" using inv1 by (simp add: rf_inv_def)
    show ?thesis
      using True inv2 len
      by (auto simp: safe_simps Let_def RF69_HEADER_SIZE_def quiet_def
          intro!: inv_read_block [OF ok] inv_isr_accept [OF ok] inv_isr_drop [OF ok])
        (use inv1 in \<open>simp_all add: rf_inv_def\<close>)
  next
    case False
    with inv1 show ?thesis by (simp add: inv_isr_drop [OF ok])
  qed
qed

lemma inv_isr:
  assumes ok: "board_ok B" and inv: "rf_inv s"
  shows "safe (vRf69Isr B s) rf_inv"
  unfolding vRf69Isr_def
  using inv by (auto simp: safe_simps intro!: inv_read [OF ok] inv_set_mode [OF ok] inv_isr_packet [OF ok])

section \<open>The calls\<close>

lemma inv_send_frame:
  assumes ok: "board_ok B" and inv: "rf_inv s" and tx: "unat n \<le> length tx" and Q: "\<And>r s1. rf_inv s1 \<Longrightarrow> Q (r, s1)"
  shows "safe (iRf69SendFrame B a tx n req ack s) Q"
proof -
  let ?n = "min n (of_nat RF69_MAX_DATA_LEN)"
  have n: "unat ?n \<le> 61" "unat ?n \<le> length tx"
    using tx by (auto simp: RF69_MAX_DATA_LEN_def RF_FIFO_SIZE_def min_def word_le_nat_alt)
  then have n4: "unat (of_nat RF69_HEADER_SIZE + ?n) = 4 + unat ?n"
    by (simp add: RF69_HEADER_SIZE_def unat_word_ariths)
  have fill: "\<exists>d. fill_frame a tx ?n ack (rf s1) = Inr d \<and> length d = 66" if "rf_inv s1" for s1 :: "'a drv"
    using that n by (simp add: fill_frame_def rf_inv_def copy_into_def)
  have frame: "safe (Some (fill_frame a tx ?n ack (rf s1))) R" if "rf_inv s1" "\<And>d. length d = 66 \<Longrightarrow> R d"
    for s1 :: "'a drv" and R
    using fill [OF that(1)] that(2) by (auto simp: safe_simps)
  have wblk: "safe (iRf69WriteBlock B q d (of_nat RF69_HEADER_SIZE + ?n) s1) R"
    if "rf_inv s1" "length d = 66" "\<And>r s2. rf_inv s2 \<Longrightarrow> R (r, s2)" for q d R and s1 :: "'a drv"
    using that n n4 by (intro safe_write_block [OF ok])
      (auto simp: rf_inv_def quiet_def word_less_nat_alt)
  have wait: "safe (iRf69WaitForReady B k s1) R" "safe (iRf69WaitIrq B k s1) R"
    if "rf_inv s1" "\<And>r s2. rf_inv s2 \<Longrightarrow> R (r, s2)" for k R and s1 :: "'a drv"
    using that by (auto intro!: safe_quiet_op [OF ok] intro: rf_inv_plan quiet_inv)
  have upd: "rf_inv (upd (\<lambda>p. p\<lparr>rf_data := d\<rparr>) s1)" if "rf_inv s1" "length d = 66" for d and s1 :: "'a drv"
    using that by (simp add: rf_inv_def)
  show ?thesis
    unfolding iRf69SendFrame_def read_u8_def Let_def
    using inv by (auto simp: safe_simps intro!: inv_set_mode [OF ok] inv_read [OF ok] inv_write [OF ok] frame wblk wait upd Q)
qed

lemma inv_can_send:
  assumes ok: "board_ok B" and inv: "rf_inv s" and Q: "\<And>r s1. rf_inv s1 \<Longrightarrow> Q (r, s1)"
  shows "safe (iRf69CanSend B s) Q"
  unfolding iRf69CanSend_def using inv by (auto simp: safe_simps intro!: inv_rssi [OF ok] inv_set_mode [OF ok] Q)

lemma inv_with_timer:
  assumes "board_ok B" "rf_inv s" "\<And>t s1. rf_inv s1 \<Longrightarrow> safe (k t s1) Q"
  shows "safe (with_timer B timeout s k) Q"
  using assms by (auto intro!: safe_with_timer intro: rf_inv_plan quiet_inv)

lemma inv_timer:
  "rf_inv s \<Longrightarrow> rf_inv (vRf69TimerDelete B t s)" "rf_inv s \<Longrightarrow> rf_inv (snd (bRf69TimerTimeout B t s))"
  by (blast intro: quiet_inv delete_quiet rf_inv_plan)
    (simp add: bRf69TimerTimeout_def case_prod_unfold rf_inv_def Let_def)

lemma inv_wait_to_send:
  assumes ok: "board_ok B" and inv: "rf_inv s" and Q: "\<And>r s1. rf_inv s1 \<Longrightarrow> Q (r, s1)"
  shows "safe (iRf69WaitToSend B timeout s) Q"
proof -
  have op: "safe (try_int (as_bool (iRf69CanSend B s1)) (\<lambda>b s.
      if b = 0 then try_int (iRf69ReceiveDone B s) (\<lambda>_ s. ret (b, s)) else ret (b, s))) (\<lambda>(_, s1). rf_inv s1)"
    if "rf_inv s1" for s1
    using that by (auto simp: safe_simps intro!: inv_can_send [OF ok] inv_receive_done [OF ok])
  have loop: "safe (timed B (\<lambda>s. try_int (as_bool (iRf69CanSend B s)) (\<lambda>b s.
      if b = 0 then try_int (iRf69ReceiveDone B s) (\<lambda>_ s. ret (b, s)) else ret (b, s))) (\<lambda>b. b = 0) t s1 (\<lambda>b. b)) Q"
    if "rf_inv s1" for t s1
    using that op by (intro safe_timed [where I = rf_inv]) (auto intro: quiet_inv rf_inv_plan Q)
  show ?thesis
    unfolding iRf69WaitToSend_def
    using inv by (auto simp: safe_try simp del: try_as_bool intro!: inv_with_timer [OF ok] inv_avoid [OF ok] loop Q)
qed

lemma inv_send:
  assumes ok: "board_ok B" and inv: "rf_inv s" and tx: "unat n \<le> length tx" and Q: "\<And>r s1. rf_inv s1 \<Longrightarrow> Q (r, s1)"
  shows "safe (iRf69Send B a tx n req s) Q"
  unfolding iRf69Send_def
  using inv tx by (auto simp: safe_simps intro!: inv_wait_to_send [OF ok] inv_send_frame [OF ok] Q)

lemma inv_send_ack:
  assumes ok: "board_ok B" and inv: "rf_inv s" and tx: "unat n \<le> length tx" and Q: "\<And>r s1. rf_inv s1 \<Longrightarrow> Q (r, s1)"
  shows "safe (iRf69SendAck B tx n s) Q"
proof -
  have u: "rf_inv (s1\<lparr>rf := f (rf s1)\<rparr>)" if "rf_inv s1" "\<And>p. rf_data (f p) = rf_data p" "\<And>p. rf_data_len (f p) = rf_data_len p"
    "\<And>p. rf_mode (f p) = rf_mode p" for f and s1 :: "'a drv"
    using that by (simp add: rf_inv_def)
  show ?thesis
    unfolding iRf69SendAck_def Let_def
    using inv tx by (auto simp: safe_simps intro!: inv_wait_to_send [OF ok] inv_send_frame [OF ok] u Q)
qed

lemma inv_ack_received:
  assumes ok: "board_ok B" and inv: "rf_inv s" and Q: "\<And>r s1. rf_inv s1 \<Longrightarrow> Q (r, s1)"
  shows "safe (iRf69AckReceived B a s) Q"
  unfolding iRf69AckReceived_def using inv by (auto simp: safe_simps intro!: inv_receive_done [OF ok] Q)

lemma inv_wait_ack:
  assumes ok: "board_ok B" and inv: "rf_inv s" and Q: "\<And>r s1. rf_inv s1 \<Longrightarrow> Q (r, s1)"
  shows "safe (wait_ack B a t ack s) Q"
  unfolding wait_ack_def
  by (rule safe_wait_loop [where I = "\<lambda>(_, s1). rf_inv s1"])
    (use inv in \<open>auto simp: safe_simps Let_def case_prod_unfold intro!: inv_ack_received [OF ok] inv_timer Q\<close>)

lemma inv_timer_start:
  assumes "rf_inv s" "\<And>t1 s1. rf_inv s1 \<Longrightarrow> Q (t1, s1)"
  shows "safe (vRf69TimerStart B (Some t) wait s) Q"
  using assms by (auto simp: vRf69TimerStart_def safe_simps rf_inv_def Let_def split: prod.split)

lemma inv_send_retries:
  assumes ok: "board_ok B" and tx: "unat n \<le> length tx" and Q: "\<And>r t s1. rf_inv s1 \<Longrightarrow> Q (r, t, s1)"
  shows "rf_inv s \<Longrightarrow> safe (send_retries B a tx n wait t k ack s) Q"
proof (induction k arbitrary: t ack s)
  case 0
  then show ?case by (simp add: safe_simps Q)
next
  case (Suc k)
  then show ?case
    using tx by (auto simp: safe_simps intro!: Q inv_send [OF ok] inv_timer_start inv_wait_ack [OF ok])
qed

lemma inv_send_with_retry:
  assumes ok: "board_ok B" and inv: "rf_inv s" and tx: "unat n \<le> length tx" and Q: "\<And>r s1. rf_inv s1 \<Longrightarrow> Q (r, s1)"
  shows "safe (iRf69SendWithRetry B a tx n retries wait s) Q"
proof -
  have "fst (t_create (b_timer B) (wld s)) \<noteq> -1" using ok by (simp add: board_ok_def)
  then obtain t s1 where new: "xRf69TimerNew B s = ret (Some t, s1)" and s1: "rf_inv s1"
    using inv by (auto simp: xRf69TimerNew_def xTimerNew_def Let_def rf_inv_def case_prod_unfold)
  then show ?thesis
    unfolding iRf69SendWithRetry_def new
    by (auto simp: safe_simps intro!: inv_send_retries [OF ok tx] inv_timer Q)
qed

lemma inv_wait_ack_received:
  assumes ok: "board_ok B" and inv: "rf_inv s" and Q: "\<And>r s1. rf_inv s1 \<Longrightarrow> Q (r, s1)"
  shows "safe (iRf69WaitAckReceived B a timeout s) Q"
proof -
  have loop: "safe (wait_loop (\<lambda>(_, s). obind (iRf69AckReceived B a s) (\<lambda>(r, s).
      let (z, s) = bRf69TimerTimeout B t s in ret (\<not> z \<and> r = 0, r, s))) (0, s1)) (\<lambda>(_, s1). rf_inv s1)"
    if "rf_inv s1" for t s1
    by (rule safe_wait_loop [where I = "\<lambda>(_, s1). rf_inv s1"])
      (use that in \<open>auto simp: safe_simps Let_def case_prod_unfold intro!: inv_ack_received [OF ok] inv_timer\<close>)
  show ?thesis
    unfolding iRf69WaitAckReceived_def
    by (rule inv_with_timer [OF ok inv], unfold safe_obind, rule safe_mono [OF loop])
      (auto simp: safe_ret intro!: inv_timer Q)
qed

lemma inv_setters:
  assumes ok: "board_ok B" and inv: "rf_inv s" and Q: "\<And>r s1. rf_inv s1 \<Longrightarrow> Q (r, s1)"
  shows "safe (iRf69SetNodeId B n s) Q" "safe (iRf69SetNetworkId B n s) Q" "safe (iRf69SetHighPower B on s) Q"
    "safe (iRf69SetPowerLevel B l s) Q" "safe (iRf69SetPromiscuous B on s) Q" "safe (iRf69SetDioMapping B dio m s) Q"
proof -
  have u: "rf_inv (s1\<lparr>rf := f (rf s1)\<rparr>)" if "rf_inv s1" "\<And>p. rf_data (f p) = rf_data p" "\<And>p. rf_data_len (f p) = rf_data_len p"
    "\<And>p. rf_mode (f p) = rf_mode p" for f and s1 :: "'a drv"
    using that by (simp add: rf_inv_def)
  note rules = inv_read [OF ok] inv_write [OF ok] u Q
  show "safe (iRf69SetNodeId B n s) Q" "safe (iRf69SetNetworkId B n s) Q"
    unfolding iRf69SetNodeId_def iRf69SetNetworkId_def using inv by (auto simp: safe_simps intro!: rules)
  show "safe (iRf69SetHighPower B on s) Q"
    unfolding iRf69SetHighPower_def read_u8_def Let_def using inv by (auto simp: safe_simps intro!: rules)
  show "safe (iRf69SetPowerLevel B l s) Q"
    unfolding iRf69SetPowerLevel_def read_u8_def Let_def using inv by (auto simp: safe_simps intro!: rules)
  show "safe (iRf69SetPromiscuous B on s) Q"
    unfolding iRf69SetPromiscuous_def read_u8_def using inv by (auto simp: safe_simps intro!: rules)
  show "safe (iRf69SetDioMapping B dio m s) Q"
    unfolding iRf69SetDioMapping_def read_u8_def Let_def using inv by (auto simp: safe_simps intro!: rules)
qed

lemma inv_write_frf:
  assumes ok: "board_ok B" and Q: "\<And>r s1. rf_inv s1 \<Longrightarrow> Q (r, s1)"
  shows "rf_inv s \<Longrightarrow> safe (write_frf B f regs s) Q"
  by (induction regs arbitrary: s) (auto simp: safe_simps intro!: inv_write [OF ok] Q)

lemma inv_set_frequency:
  assumes ok: "board_ok B" and inv: "rf_inv s" and Q: "\<And>r s1. rf_inv s1 \<Longrightarrow> Q (r, s1)"
  shows "safe (iRf69SetFrequency B f s) Q" "safe (iSetFrequencyRegs B f s) Q"
proof -
  have frf: "safe (iSetFrequencyRegs B f s1) R" if "rf_inv s1" "\<And>r s1. rf_inv s1 \<Longrightarrow> R (r, s1)" for R s1
    unfolding iSetFrequencyRegs_def using that by (auto simp: safe_simps intro!: inv_write_frf [OF ok])
  show "safe (iSetFrequencyRegs B f s) Q" by (intro frf inv Q)
  show "safe (iRf69SetFrequency B f s) Q"
    unfolding iRf69SetFrequency_def Let_def
    using inv by (auto simp: safe_simps intro!: frf inv_set_mode [OF ok] Q)
qed

lemma inv_encrypt:
  assumes ok: "board_ok B" and inv: "rf_inv s" and key: "\<And>cs. key = Some cs \<Longrightarrow> 0 \<in> set cs"
    and Q: "\<And>r s1. rf_inv s1 \<Longrightarrow> Q (r, s1)"
  shows "safe (iRf69SetEncryptKey B key s) Q"
proof -
  have len: "\<exists>n. c_strlen cs = Inr n \<and> n \<le> length cs" if "0 \<in> set cs" for cs :: "u8 list"
    using that by (induction cs) auto
  have wblk: "safe (iRf69WriteBlock B q cs 16 s1) R"
    if "rf_inv s1" "16 \<le> length cs" "\<And>r s2. rf_inv s2 \<Longrightarrow> R (r, s2)" for q cs R and s1 :: "'a drv"
    using that by (intro safe_write_block [OF ok]) (auto intro: rf_inv_plan quiet_inv)
  have strlen: "safe (Some (c_strlen cs)) R" if "0 \<in> set cs" "\<And>n. n \<le> length cs \<Longrightarrow> R n" for cs :: "u8 list" and R
    using len [OF that(1)] that(2) by (auto simp: safe_simps)
  show ?thesis
    unfolding iRf69SetEncryptKey_def read_u8_def Let_def
    using inv key by (auto simp: safe_simps intro!: inv_set_mode [OF ok] inv_read [OF ok] inv_write [OF ok] wblk strlen Q
        split: option.split)
qed

lemma inv_measures:
  assumes ok: "board_ok B" and inv: "rf_inv s" and Q: "\<And>r s1. rf_inv s1 \<Longrightarrow> Q (r, s1)"
  shows "safe (iRf69Temperature B cal s) Q" "safe (iRf69RcCalibration B s) Q"
proof -
  have temp: "safe (wait_loop (\<lambda>(early, s). obind (iRf69ReadReg B REG_TEMP1 s) (\<lambda>(x, s).
        if x < 0 then ret (False, Some INT_MAX, s)
        else ret ((word_of_int x :: u8) AND RF_TEMP1_MEAS_RUNNING \<noteq> 0, None, s))) (None, s1)) (\<lambda>(_, s1). rf_inv s1)"
    if "rf_inv s1" for s1
    by (rule safe_wait_loop [where I = "\<lambda>(_, s1). rf_inv s1"])
      (use that in \<open>auto simp: safe_simps intro!: inv_read [OF ok]\<close>)
  have osc: "safe (wait_loop (\<lambda>(early, s). obind (as_u8 (iRf69ReadReg B REG_OSC1 s)) (\<lambda>(b, s).
        if b < 0 then ret (False, Some b, s)
        else ret ((word_of_int b :: u8) AND RF_OSC1_RCCAL_DONE = 0, None, s))) (None, s1)) (\<lambda>(_, s1). rf_inv s1)"
    if "rf_inv s1" for s1
    by (rule safe_wait_loop [where I = "\<lambda>(_, s1). rf_inv s1"])
      (use that in \<open>auto simp: safe_simps intro!: inv_read [OF ok]\<close>)
  show "safe (iRf69Temperature B cal s) Q"
    unfolding iRf69Temperature_def
    using inv by (auto simp: safe_simps intro!: inv_set_mode [OF ok] inv_write [OF ok] safe_mono [OF temp] inv_read [OF ok] Q
        split: option.split)
  show "safe (iRf69RcCalibration B s) Q"
    unfolding iRf69RcCalibration_def
    using inv by (auto simp: safe_simps intro!: inv_write [OF ok] safe_mono [OF osc] Q split: option.split)
qed

lemma inv_write_config:
  assumes ok: "board_ok B" and Q: "\<And>r s1. rf_inv s1 \<Longrightarrow> Q (r, s1)"
  shows "(255, 0) \<in> set es \<Longrightarrow> rf_inv s \<Longrightarrow> safe (write_config B es s) Q"
  by (induction es arbitrary: s)
    (auto simp: safe_simps iRf69WriteConstElmt_def intro!: inv_write [OF ok] Q)

lemma inv_open:
  assumes ok: "board_ok B" and inv: "rf_inv s" and Q: "\<And>r s1. rf_inv s1 \<Longrightarrow> Q (r, s1)"
  shows "safe (iRf69Open B band node net s) Q"
proof -
  have check: "safe (iRf69WriteRegWithCheck B q v k s1) R" "safe (iRf69WaitForReady B k s1) R"
    if "rf_inv s1" "\<And>r s2. rf_inv s2 \<Longrightarrow> R (r, s2)" for q v k R and s1 :: "'a drv"
    using that by (auto intro!: safe_quiet_op [OF ok] intro: rf_inv_plan quiet_inv)
  have cfg: "safe (write_config B xInitConfigPgm s1) R" if "rf_inv s1" "\<And>r s2. rf_inv s2 \<Longrightarrow> R (r, s2)" for R and s1 :: "'a drv"
    using that by (intro inv_write_config [OF ok]) (auto simp: xInitConfigPgm_def)
  have opened: "rf_inv (upd (\<lambda>p. p\<lparr>rf_node_id := node, rf_open := True\<rparr>) s1)" if "rf_inv s1" for s1 :: "'a drv"
    using that by (simp add: rf_inv_def)
  show ?thesis
    unfolding iRf69Open_def
    using inv by (auto simp: safe_simps intro!: check cfg inv_set_frequency [OF ok] inv_write [OF ok] inv_encrypt [OF ok]
        inv_setters [OF ok] inv_set_mode [OF ok] opened Q)
qed

section \<open>Any use of the driver\<close>

datatype rf_call =
    Interrupt
  | CallOpen eRf69Band u8 u8
  | CallSend u8 "u8 list" u8 bool
  | CallSendWithRetry u8 "u8 list" u8 u8 int
  | CallSendAck "u8 list" u8
  | CallReceiveDone
  | CallAckReceived u8
  | CallWaitAckReceived u8 int
  | CallSetEncryptKey "u8 list option"
  | CallSetNodeId u8
  | CallSetNetworkId u8
  | CallSetFrequency int
  | CallSetHighPower bool
  | CallSetPowerLevel int
  | CallSetPromiscuous bool
  | CallSetDioMapping u8 u8
  | CallTemperature int
  | CallRssi bool
  | CallCalibration
  | CallSleep

definition do_call :: "'w board \<Rightarrow> rf_call \<Rightarrow> 'w drv \<Rightarrow> 'w drv out" where
  "do_call B c s =
     (let done = (\<lambda>m. obind m (\<lambda>(_ :: int, s). ret s)) in
      case c of
        Interrupt \<Rightarrow> vRf69Isr B s
      | CallOpen band node net \<Rightarrow> done (iRf69Open B band node net s)
      | CallSend a tx n req \<Rightarrow> done (iRf69Send B a tx n req s)
      | CallSendWithRetry a tx n k wait \<Rightarrow> done (iRf69SendWithRetry B a tx n k wait s)
      | CallSendAck tx n \<Rightarrow> done (iRf69SendAck B tx n s)
      | CallReceiveDone \<Rightarrow> done (iRf69ReceiveDone B s)
      | CallAckReceived a \<Rightarrow> done (iRf69AckReceived B a s)
      | CallWaitAckReceived a wait \<Rightarrow> done (iRf69WaitAckReceived B a wait s)
      | CallSetEncryptKey key \<Rightarrow> done (iRf69SetEncryptKey B key s)
      | CallSetNodeId n \<Rightarrow> done (iRf69SetNodeId B n s)
      | CallSetNetworkId n \<Rightarrow> done (iRf69SetNetworkId B n s)
      | CallSetFrequency f \<Rightarrow> done (iRf69SetFrequency B f s)
      | CallSetHighPower on \<Rightarrow> done (iRf69SetHighPower B on s)
      | CallSetPowerLevel l \<Rightarrow> done (iRf69SetPowerLevel B l s)
      | CallSetPromiscuous on \<Rightarrow> done (iRf69SetPromiscuous B on s)
      | CallSetDioMapping dio m \<Rightarrow> done (iRf69SetDioMapping B dio m s)
      | CallTemperature cal \<Rightarrow> done (iRf69Temperature B cal s)
      | CallRssi force \<Rightarrow> done (iRf69Rssi B force s)
      | CallCalibration \<Rightarrow> done (iRf69RcCalibration B s)
      | CallSleep \<Rightarrow> done (iRf69Sleep B s))"

fun do_calls :: "'w board \<Rightarrow> rf_call list \<Rightarrow> 'w drv \<Rightarrow> 'w drv out" where
  "do_calls B [] s = ret s"
| "do_calls B (c # cs) s = obind (do_call B c s) (do_calls B cs)"

text \<open>The buffers the application passes hold what it says they hold.\<close>

fun legal :: "rf_call \<Rightarrow> bool" where
  "legal (CallSend a tx n req) \<longleftrightarrow> unat n \<le> length tx"
| "legal (CallSendWithRetry a tx n k wait) \<longleftrightarrow> unat n \<le> length tx"
| "legal (CallSendAck tx n) \<longleftrightarrow> unat n \<le> length tx"
| "legal (CallSetEncryptKey (Some cs)) \<longleftrightarrow> 0 \<in> set cs"
| "legal _ \<longleftrightarrow> True"

lemma inv_call:
  assumes ok: "board_ok B" and inv: "rf_inv s" and legal: "legal c"
  shows "safe (do_call B c s) rf_inv"
  using legal inv
  by (cases c rule: legal.cases)
    (simp_all add: do_call_def safe_obind safe_ret case_prod_unfold iRf69Sleep_def inv_isr [OF ok] inv_open [OF ok] inv_send [OF ok]
      inv_send_with_retry [OF ok] inv_send_ack [OF ok] inv_receive_done [OF ok] inv_ack_received [OF ok]
      inv_wait_ack_received [OF ok] inv_setters [OF ok] inv_set_frequency [OF ok]
      inv_measures [OF ok] inv_rssi [OF ok] inv_set_mode [OF ok], auto intro!: inv_encrypt [OF ok])

text \<open>C19. On a board whose transfers are whole or fail and which has a timer whenever the driver creates
  one, while memory does not run out: whatever the module answers and whichever transfers fail, no sequence of
  calls and interrupts that returns has made the driver leave its buffers or dereference NULL, and after it the buffer has
  66 bytes, the length of the data is at most 63, and the mode is one of the five.\<close>

theorem rf69_calls_safe:
  assumes "board_ok B" "rf_inv s" "list_all legal cs" "do_calls B cs s = Some r"
  shows "\<exists>s1. r = Inr s1 \<and> length (rf_data (rf s1)) = 66 \<and> rf_data_len (rf s1) \<le> 63 \<and> rf_mode (rf s1) \<le> 4"
proof -
  have "safe (do_calls B cs s) rf_inv"
    using assms(2,3)
  proof (induction cs arbitrary: s)
    case (Cons c cs)
    then have "safe (do_call B c s) (\<lambda>s1. safe (do_calls B cs s1) rf_inv)"
      by (intro safe_mono [OF inv_call [OF assms(1)]]) simp_all
    then show ?case by (simp add: safe_simps)
  qed (simp add: safe_simps)
  from safe_result [OF this assms(4)] show ?thesis by (auto simp: rf_inv_def)
qed

lemma ex_board_ok: "board_ok (board_of reg_message)"
  by (auto simp: board_ok_def board_of_def idle_timer_def reg_message_def split: list.split)

theorem rf69_calls_safe_witness:
  "\<exists>r s1. do_calls (board_of reg_message) [CallSetNodeId 7, CallSetNetworkId 3, Interrupt] ex_drv = Some r \<and>
     r = Inr s1 \<and> rf_mode (rf s1) \<le> 4"
proof -
  let ?B = "board_of reg_message" and ?cs = "[CallSetNodeId 7, CallSetNetworkId 3, Interrupt]"
  have "returns (do_calls ?B ?cs ex_drv) (\<lambda>_. True)"
    by (simp add: do_call_def iRf69SetNodeId_def iRf69SetNetworkId_def vRf69Isr_def returns_simps,
        rule returns_write [OF reg_board_ok], simp add: rf69_regs, simp add: rf69_regs,
        simp add: returns_simps, rule returns_write [OF reg_board_ok], simp add: rf69_regs, simp add: rf69_regs)
      (simp add: returns_simps ex_drv_def rf69_zero_def rf69_modes)
  moreover have "rf_inv ex_drv" by (simp add: rf_inv_def ex_drv_def rf69_zero_def RF_FIFO_SIZE_def)
  ultimately show ?thesis using rf69_calls_safe [OF ex_board_ok, of ex_drv ?cs] by (auto simp: returns_def ret_def)
qed

end
