(* ===== verification/Rf69_Radio.thy ===== *)
theory Rf69_Radio
  imports Rf69_Laws
begin

text \<open>
  From one RFM69 module to another: what \<open>iRf69Send\<close> puts in the FIFO of its module, and what the
  interrupt routine makes of the FIFO of the other.  The modules are known by the documented behaviour of
  the FIFO: a block written to register 0 is the frame that is sent, a block read from it comes off its
  front.
\<close>

section \<open>Waits that end at once\<close>

definition timers_keep :: "'w board \<Rightarrow> ('w \<Rightarrow> 'b) \<Rightarrow> bool" where
  "timers_keep B f \<longleftrightarrow>
     (\<forall>w. fst (t_create (b_timer B) w) \<noteq> -1 \<and> f (snd (t_create (b_timer B) w)) = f w) \<and>
     (\<forall>fd ts w. f (snd (t_settime (b_timer B) fd ts w)) = f w) \<and>
     (\<forall>fd w. f (snd (snd (t_gettime (b_timer B) fd w))) = f w) \<and>
     (\<forall>fd w. f (snd (t_close (b_timer B) fd w)) = f w)"

definition alike :: "('w \<Rightarrow> 'b) \<Rightarrow> 'w drv \<Rightarrow> 'w drv \<Rightarrow> bool" where
  "alike f s s1 \<longleftrightarrow> rf s1 = rf s \<and> mplan (heap s1) = [] \<and> f (wld s1) = f (wld s)"

lemma alike_trans: "alike f s s1 \<Longrightarrow> alike f s1 s2 \<Longrightarrow> alike f s s2"
  by (simp add: alike_def)

lemma returns_timer_new:
  assumes "timers_keep B f" "mplan (heap s) = []" and "\<And>t s1. alike f s s1 \<Longrightarrow> Q (Some t, s1)"
  shows "returns (xRf69TimerNew B s) Q"
  using assms(1,2) unfolding timers_keep_def
  by (auto simp: xRf69TimerNew_def xTimerNew_def returns_simps alike_def case_prod_unfold Let_def intro!: assms(3))

lemma returns_timer_start:
  assumes "timers_keep B f" and "\<And>t1 s1. rf s1 = rf s \<Longrightarrow> heap s1 = heap s \<Longrightarrow> f (wld s1) = f (wld s) \<Longrightarrow> Q (t1, s1)"
  shows "returns (vRf69TimerStart B (Some t) timeout s) Q"
  using assms(1) unfolding timers_keep_def
  by (auto simp: vRf69TimerStart_def iTimerStart_def iTimerStop_def vTimerSetInterval_def returns_simps case_prod_unfold Let_def
      intro!: assms(2))

lemma returns_with_timer:
  assumes T: "timers_keep B f" and m: "mplan (heap s) = []"
    and k: "\<And>t s1. alike f s s1 \<Longrightarrow> returns (k t s1) Q"
  shows "returns (with_timer B timeout s k) Q"
  unfolding with_timer_def returns_obind
  by (rule returns_timer_new [OF T m], simp only: prod.case returns_obind, rule returns_timer_start [OF T])
    (auto simp: alike_def intro!: k)

lemma timeout_same:
  "timers_keep B f \<Longrightarrow> rf (snd (bRf69TimerTimeout B t s)) = rf s \<and> f (wld (snd (bRf69TimerTimeout B t s))) = f (wld s)"
  by (auto simp: timers_keep_def bRf69TimerTimeout_def bTimerIsTimeout_def lTimerRemainingTime_def case_prod_unfold Let_def)

lemma delete_same:
  "timers_keep B f \<Longrightarrow> rf (vRf69TimerDelete B t s) = rf s \<and> f (wld (vRf69TimerDelete B t s)) = f (wld s)"
  by (auto simp: timers_keep_def vRf69TimerDelete_def iTimerDelete_def iTimerStop_def case_prod_unfold Let_def)

lemma delete_alike:
  "timers_keep B f \<Longrightarrow> mplan (heap s) = [] \<Longrightarrow> alike f s (vRf69TimerDelete B t s)"
  using delete_same [of B f t s]
  by (auto simp: alike_def vRf69TimerDelete_def iTimerDelete_def free_def case_prod_unfold Let_def)

lemma returns_timed_once:
  assumes "returns (op s) (\<lambda>(r, s1). 0 \<le> r \<and> \<not> again r \<and> Q (result r, vRf69TimerDelete B t s1))"
  shows "returns (timed B op again t s result) Q"
proof -
  from assms obtain r s1 where r: "op s = ret (r, s1)" "0 \<le> r" "\<not> again r" "Q (result r, vRf69TimerDelete B t s1)"
    by (auto simp: returns_def)
  then have "wait_loop (turn B op again t) (None, 0, s) = ret (None, r, s1)"
    by (subst wait_loop.simps) (simp add: turn_def ret_def)
  with r show ?thesis by (simp add: timed_def returns_simps)
qed

section \<open>Sending\<close>

text \<open>The module is ready, and its interrupt line tells that the frame is gone; \<open>air\<close> is the last frame
  written to the FIFO.\<close>

definition sender_ok :: "'w board \<Rightarrow> ('w \<Rightarrow> u8 \<Rightarrow> u8) \<Rightarrow> ('w \<Rightarrow> u8 list) \<Rightarrow> bool" where
  "sender_ok B reg air \<longleftrightarrow>
     access_ok B reg air \<and> timers_keep B (\<lambda>w. (reg w, air w)) \<and>
     (\<forall>w. fst (b_din_read B w) = 1 \<and> reg (snd (b_din_read B w)) = reg w \<and> air (snd (b_din_read B w)) = air w) \<and>
     (\<forall>fd bs w. bs \<noteq> [] \<longrightarrow> length bs \<le> 66 \<longrightarrow>
        (let m = s_message (b_spi B) fd (0x80 # bs) w
         in fst m = int (length bs) + 1 \<and> reg (snd (snd m)) = reg w \<and> air (snd (snd m)) = bs))"

definition frame_of :: "u8 \<Rightarrow> u8 \<Rightarrow> u8 \<Rightarrow> u8 list \<Rightarrow> u8 list" where
  "frame_of a node ctl xs = of_nat (length xs + 3) # a # node # ctl # xs"

lemma returns_ready:
  assumes ok: "sender_ok B reg air" and m: "mplan (heap s) = []" and ready: "reg (wld s) REG_IRQFLAGS1 AND 0x80 \<noteq> 0"
    and Q: "\<And>s1. alike (\<lambda>w. (reg w, air w)) s s1 \<Longrightarrow> Q (1, s1)"
  shows "returns (iRf69WaitForReady B timeout s) Q"
proof -
  have acc: "access_ok B reg air" and T: "timers_keep B (\<lambda>w. (reg w, air w))" using ok by (simp_all add: sender_ok_def)
  show ?thesis
    unfolding iRf69WaitForReady_def
  proof (rule returns_with_timer [OF T m], rule returns_timed_once, unfold returns_as)
    fix t s1
    assume a: "alike (\<lambda>w. (reg w, air w)) s s1"
    show "returns (iRf69ReadReg B REG_IRQFLAGS1 s1) (\<lambda>(r, s). case (uint (word_of_int r :: u8), s) of (r, s1) \<Rightarrow>
        0 \<le> r \<and> \<not> \<not> mode_ready r \<and> Q (if mode_ready r then 1 else 0, vRf69TimerDelete B t s1))"
    proof (rule returns_read [OF acc])
      fix w1
      assume w1: "reg w1 = reg (wld s1)" "air w1 = air (wld s1)"
      have "alike (\<lambda>w. (reg w, air w)) s (vRf69TimerDelete B t (s1\<lparr>wld := w1\<rparr>))"
        by (rule alike_trans [OF _ delete_alike [OF T]]) (use a w1 in \<open>auto simp: alike_def\<close>)
      then show "case (uint (reg (wld s1) REG_IRQFLAGS1), s1\<lparr>wld := w1\<rparr>) of (r, s) \<Rightarrow>
          case (uint (word_of_int r :: u8), s) of (r, s1) \<Rightarrow>
          0 \<le> r \<and> \<not> \<not> mode_ready r \<and> Q (if mode_ready r then 1 else 0, vRf69TimerDelete B t s1)"
        using a ready by (simp add: mode_ready_def alike_def Q RF_IRQFLAGS1_MODEREADY_def)
    qed (simp_all add: rf69_regs)
  qed
qed

lemma returns_irq:
  assumes ok: "sender_ok B reg air" and m: "mplan (heap s) = []"
    and Q: "\<And>s1. alike (\<lambda>w. (reg w, air w)) s s1 \<Longrightarrow> Q (1, s1)"
  shows "returns (iRf69WaitIrq B timeout s) Q"
proof -
  have T: "timers_keep B (\<lambda>w. (reg w, air w))" using ok by (simp add: sender_ok_def)
  show ?thesis
    unfolding iRf69WaitIrq_def
  proof (rule returns_with_timer [OF T m], rule returns_timed_once, unfold returns_as)
    fix t s1
    assume a: "alike (\<lambda>w. (reg w, air w)) s s1"
    let ?s = "s1\<lparr>wld := snd (b_din_read B (wld s1))\<rparr>"
    have "alike (\<lambda>w. (reg w, air w)) s (vRf69TimerDelete B t ?s)"
      by (rule alike_trans [OF _ delete_alike [OF T]]) (use a ok in \<open>auto simp: alike_def sender_ok_def\<close>)
    moreover have "iRf69ReadIrqPin B s1 = ret (1, ?s)"
      using ok by (simp add: iRf69ReadIrqPin_def sender_ok_def case_prod_unfold Let_def)
    ultimately show "returns (iRf69ReadIrqPin B s1) (\<lambda>(r, s). case (if r = 0 then 0 else 1, s) of (r, s1) \<Rightarrow>
        0 \<le> r \<and> \<not> r = 0 \<and> Q (r, vRf69TimerDelete B t s1))"
      by (simp add: returns_simps Q)
  qed
qed

lemma returns_fifo_write:
  assumes ok: "sender_ok B reg air" and m: "mplan (heap s) = []" and len: "0 < len" "unat len \<le> 66" "length buf = 66"
    and Q: "\<And>s1. \<lbrakk>rf s1 = rf s; mplan (heap s1) = []; reg (wld s1) = reg (wld s); air (wld s1) = take (unat len) buf\<rbrakk> \<Longrightarrow>
      Q (uint len, s1)"
  shows "returns (iRf69WriteBlock B REG_FIFO buf len s) Q"
proof -
  let ?b = "take (unat len) buf"
  let ?m = "s_message (b_spi B) (rf_fd (rf s)) (0x80 # ?b) (wld s)"
  have n: "unat (len + 1) = unat len + 1" using len(2) by (simp add: unat_word_ariths)
  have "len \<noteq> 0" using len(1) by auto
  then have "?b \<noteq> []" "length ?b \<le> 66" using len by (auto simp: unat_eq_0)
  then have msg: "fst ?m = int (unat len) + 1" "reg (snd (snd ?m)) = reg (wld s)" "air (snd (snd ?m)) = ?b"
    using ok len unfolding sender_ok_def Let_def by (auto simp: min_def)
  have "copy_into ((replicate (unat (len + 1)) 0)[0 := wr_addr REG_FIFO]) 1 buf 0 (unat len) = Inr (0x80 # ?b)"
    using len n by (simp add: copy_into_def wr_addr_def REG_FIFO_def)
  then have "iRf69WriteBlock B REG_FIFO buf len s = ret (int (unat len),
      s\<lparr>heap := free (Some ?b) (heap s\<lparr>live := live (heap s) + 1\<rparr>), wld := snd (snd ?m)\<rparr>)"
    using m len n msg(1)
    by (simp add: iRf69WriteBlock_def iSpiWriteRegBlock_def iSpiXfer_def case_prod_unfold Let_def)
  then show ?thesis using m msg by (simp add: returns_simps Q)
qed

lemma fill_frame_ok:
  assumes "length (rf_data p) = 66" "unat n \<le> 61" "unat n \<le> length tx"
  shows "\<exists>d. fill_frame a tx n False p = Inr d \<and> length d = 66 \<and>
    take (4 + unat n) d = frame_of a (rf_node_id p) RF69_ACKREQ (take (unat n) tx)"
proof -
  obtain a0 a1 a2 a3 ds where d: "rf_data p = a0 # a1 # a2 # a3 # ds" "length ds = 62"
    using assms(1) by (auto simp: numeral_eq_Suc length_Suc_conv)
  have four: "take (4 + k) (x0 # x1 # x2 # x3 # xs) = x0 # x1 # x2 # x3 # take k xs"
    "drop (4 + k) (x0 # x1 # x2 # x3 # xs) = drop k xs" for k and x0 x1 x2 x3 :: u8 and xs
    by (simp_all add: eval_nat_numeral)
  with assms d show ?thesis
    by (simp add: fill_frame_def frame_of_def copy_into_def RF69_HEADER_SIZE_def add.commute [of n 3])
qed

lemma returns_send_frame:
  assumes ok: "sender_ok B reg air" and p: "length (rf_data (rf s)) = 66" "rf_mode (rf s) = eRf69ModeStandby"
    and m: "mplan (heap s) = []" and ready: "reg (wld s) REG_IRQFLAGS1 AND 0x80 \<noteq> 0" and tx: "unat n \<le> length tx"
    and Q: "\<And>s1. \<lbrakk>air (wld s1) = frame_of a (rf_node_id (rf s)) RF69_ACKREQ (take (min (unat n) 61) tx);
      rf_mode (rf s1) = eRf69ModeStandby\<rbrakk> \<Longrightarrow> Q (1, s1)"
  shows "returns (iRf69SendFrame B a tx n req False s) Q"
proof -
  have acc: "access_ok B reg air" using ok by (simp add: sender_ok_def)
  let ?n = "min n (of_nat RF69_MAX_DATA_LEN)"
  have n: "unat ?n = min (unat n) 61" by (simp add: RF69_MAX_DATA_LEN_def RF_FIFO_SIZE_def min_def word_le_nat_alt)
  have n4: "unat (of_nat RF69_HEADER_SIZE + ?n) = 4 + min (unat n) 61"
    using n by (simp add: RF69_HEADER_SIZE_def unat_word_ariths)
  obtain d where d: "fill_frame a tx ?n False (rf s) = Inr d" "length d = 66"
      "take (4 + unat ?n) d = frame_of a (rf_node_id (rf s)) RF69_ACKREQ (take (unat ?n) tx)"
    using fill_frame_ok [OF p(1), of ?n tx a] n tx by (auto simp: min_le_iff_disj)
  have set: "returns (iRf69SetMode B k s1) R"
    if "k \<le> 4" "k \<noteq> rf_mode (rf s1)" "rf_mode (rf s1) \<noteq> eRf69ModeSleep" "k \<noteq> eRf69ModeRx"
      "\<And>s2. rf s2 = (rf s1)\<lparr>rf_mode := k\<rparr> \<Longrightarrow> heap s2 = heap s1 \<Longrightarrow> air (wld s2) = air (wld s1) \<Longrightarrow> R (0, s2)"
    for k R and s1 :: "'a drv"
    by (rule returns_set_mode [OF acc that(1-3)]) (simp add: that)
  have same: "k = rf_mode (rf s1) \<Longrightarrow> R (0, s1) \<Longrightarrow> returns (iRf69SetMode B k s1) R" for k R and s1 :: "'a drv"
    by (simp add: iRf69SetMode_def returns_simps)
  have gone: "returns (try_int (iRf69SetMode B eRf69ModeTx s1) (\<lambda>_ s.
      try_int (as_bool (iRf69WaitIrq B RF69_TX_TIMEOUT_MS s)) (\<lambda>ok s.
      try_int (iRf69SetMode B eRf69ModeStandby s) (\<lambda>_ s. ret (ok, s))))) Q"
    if s1: "rf_mode (rf s1) = eRf69ModeStandby" "mplan (heap s1) = []"
      "air (wld s1) = frame_of a (rf_node_id (rf s)) RF69_ACKREQ (take (min (unat n) 61) tx)" for s1 :: "'a drv"
    by (intro returns_tryI set; (unfold prod.case)?; (intro conjI returns_try_boolI returns_irq [OF ok])?)
      (use s1 in \<open>auto simp: rf69_modes returns_simps alike_def intro!: returns_tryI set Q\<close>)
  have fifo: "returns (iRf69WriteBlock B REG_FIFO d (of_nat RF69_HEADER_SIZE + ?n) s1) R"
    if "mplan (heap s1) = []"
      "\<And>s2. rf s2 = rf s1 \<Longrightarrow> mplan (heap s2) = [] \<Longrightarrow>
        air (wld s2) = frame_of a (rf_node_id (rf s)) RF69_ACKREQ (take (min (unat n) 61) tx) \<Longrightarrow>
        R (uint (of_nat RF69_HEADER_SIZE + ?n), s2)" for R and s1 :: "'a drv"
  proof (rule returns_fifo_write [OF ok that(1)])
    show "0 < of_nat RF69_HEADER_SIZE + ?n" by (simp add: word_less_nat_alt n4)
  qed (use n4 n d that(2) in auto)
  show ?thesis
    unfolding iRf69SendFrame_def Let_def
    apply (rule returns_tryI, rule same, simp add: p)
    apply (unfold prod.case, rule conjI, simp)
    apply (rule returns_try_boolI, rule returns_ready [OF ok m ready], simp)
    apply (rule returns_read_u8 [OF acc], simp add: rf69_regs, simp add: rf69_regs)
    apply (rule returns_try_write [OF acc], simp add: rf69_regs, simp add: rf69_regs)
    apply (simp add: alike_def d returns_obind returns_ret, rule returns_tryI, rule fifo)
     apply (auto simp: p intro!: gone [unfolded try_as_bool])
    done
qed

lemma returns_can_send:
  assumes acc: "access_ok B reg oth" and s: "rf_mode (rf s) = eRf69ModeRx" "rf_payload_len (rf s) = 0"
    and free: "reg (wld s) REG_RSSIVALUE \<ge> 182"
    and Q: "\<And>w1. reg w1 = mode_regs (rf_hw (rf s)) eRf69ModeStandby (reg (wld s)) \<Longrightarrow>
      Q (1, s\<lparr>wld := w1, rf := (rf s)\<lparr>rf_mode := eRf69ModeStandby\<rparr>\<rparr>)"
  shows "returns (iRf69CanSend B s) Q"
proof -
  let ?b = "reg (wld s) REG_RSSIVALUE"
  have b: "uint ?b \<ge> 182" "uint ?b < 256" using free uint_lt2p [of ?b] by (simp_all add: word_le_def)
  have "(\<lambda>n. - (n div 2)) (uint ?b) < RF69_CSMA_MIN_LEVEL_DBM" "- (uint ?b div 2) \<noteq> INT_MAX"
    using b by (simp_all add: RF69_CSMA_MIN_LEVEL_DBM_def INT_MAX_def)
  then show ?thesis
    unfolding iRf69CanSend_def iRf69Rssi_def Let_def
    apply (simp add: returns_obind returns_try_val returns_as)
    apply (rule returns_read [OF acc], simp add: rf69_regs, simp add: rf69_regs)
    apply (simp add: s returns_ret, rule returns_tryI, rule returns_set_mode [OF acc])
       apply (simp_all add: s rf69_modes returns_ret)
    apply (rule Q [unfolded rf69_modes], simp)
    done
qed

lemma returns_send:
  assumes ok: "sender_ok B reg air" and p: "length (rf_data (rf s)) = 66" "rf_mode (rf s) = eRf69ModeRx" "rf_payload_len (rf s) = 0"
    and m: "mplan (heap s) = []" and ready: "reg (wld s) REG_IRQFLAGS1 AND 0x80 \<noteq> 0" and tx: "unat n \<le> length tx"
    and free: "reg (wld s) REG_RSSIVALUE \<ge> 182"
    and Q: "\<And>s1. \<lbrakk>air (wld s1) = frame_of a (rf_node_id (rf s)) RF69_ACKREQ (take (min (unat n) 61) tx);
      rf_mode (rf s1) = eRf69ModeStandby\<rbrakk> \<Longrightarrow> Q (1, s1)"
  shows "returns (iRf69Send B a tx n req s) Q"
proof -
  have acc: "access_ok B reg air" and T: "timers_keep B (\<lambda>w. (reg w, air w))" using ok by (simp_all add: sender_ok_def)
  have frame: "returns (iRf69SendFrame B a tx n req False (vRf69TimerDelete B t s2)) Q"
    if "rf s2 = (rf s)\<lparr>rf_mode := eRf69ModeStandby\<rparr>" "mplan (heap s2) = []"
      "reg (wld s2) REG_IRQFLAGS1 = reg (wld s) REG_IRQFLAGS1" for s2 t
    by (rule returns_send_frame [OF ok])
      (use delete_alike [OF T that(2)] that p ready tx in \<open>simp_all add: alike_def Q\<close>)
  show ?thesis
    unfolding iRf69Send_def iRf69WaitToSend_def iRf69AvoidRxDeadLocks_def returns_obind
    apply (rule returns_with_timer [OF T m], rule returns_tryI)
    apply (rule returns_read_u8 [OF acc], simp add: rf69_regs, simp add: rf69_regs)
    apply (rule returns_try_write [OF acc], simp add: rf69_regs, simp add: rf69_regs)
    apply (simp only: returns_ret prod.case, rule conjI, simp)
    apply (rule returns_timed_once, rule returns_try_boolI)
    apply (rule returns_can_send [OF acc])
       apply (use free in \<open>auto simp: alike_def p returns_ret mode_regs_def Let_def rf69_modes rf69_regs intro!: frame\<close>)
    done
qed

section \<open>Receiving\<close>

definition receiver_ok :: "'w board \<Rightarrow> ('w \<Rightarrow> u8 \<Rightarrow> u8) \<Rightarrow> ('w \<Rightarrow> u8 list) \<Rightarrow> bool" where
  "receiver_ok B reg fifo \<longleftrightarrow>
     access_ok B reg fifo \<and>
     (\<forall>fd n w. 0 < n \<longrightarrow> n \<le> length (fifo w) \<longrightarrow>
        (let m = s_message (b_spi B) fd (0 # replicate n 0) w
         in fst m = int n + 1 \<and> (\<forall>i < n. fst (snd m) (Suc i) = fifo w ! i) \<and>
            reg (snd (snd m)) = reg w \<and> fifo (snd (snd m)) = drop n (fifo w)))"

lemma returns_fifo_byte:
  assumes ok: "receiver_ok B reg fifo" and f: "fifo (wld s) = x # xs"
    and Q: "\<And>w1. reg w1 = reg (wld s) \<Longrightarrow> fifo w1 = xs \<Longrightarrow> Q (uint x, s\<lparr>wld := w1\<rparr>)"
  shows "returns (iRf69ReadReg B REG_FIFO s) Q"
proof -
  let ?m = "s_message (b_spi B) (rf_fd (rf s)) (0 # replicate 1 0) (wld s)"
  have m: "fst ?m = 2" "fst (snd ?m) 1 = x" "reg (snd (snd ?m)) = reg (wld s)" "fifo (snd (snd ?m)) = xs"
    using ok [unfolded receiver_ok_def, THEN conjunct2, rule_format, of 1 "wld s" "rf_fd (rf s)"] f
    by (simp_all add: Let_def)
  then have "iRf69ReadReg B REG_FIFO s = ret (uint x, s\<lparr>wld := snd (snd ?m)\<rparr>)"
    by (simp add: iRf69ReadReg_def iSpiReadReg8_def iSpiXfer_def rd_addr_def REG_FIFO_def case_prod_unfold Let_def)
  with Q [OF m(3,4)] show ?thesis by (simp add: returns_simps)
qed

lemma returns_fifo_read:
  assumes ok: "receiver_ok B reg fifo" and f: "fifo (wld s) = xs @ rest" "length xs = unat n" "0 < n" "unat n < 255"
    and m: "mplan (heap s) = []" and buf: "length xs \<le> length buf"
    and Q: "\<And>s1. rf s1 = rf s \<Longrightarrow> mplan (heap s1) = [] \<Longrightarrow> reg (wld s1) = reg (wld s) \<Longrightarrow> fifo (wld s1) = rest \<Longrightarrow>
      Q (uint n, xs @ drop (unat n) buf, s1)"
  shows "returns (iRf69ReadBlock B REG_FIFO buf n s) Q"
proof -
  let ?m = "s_message (b_spi B) (rf_fd (rf s)) (0 # replicate (unat n) 0) (wld s)"
  have n: "unat (n + 1) = unat n + 1" "0 < unat n" using f(3,4) by (simp_all add: unat_word_ariths unat_gt_0)
  have msg: "fst ?m = int (unat n) + 1" "\<forall>i < unat n. fst (snd ?m) (Suc i) = fifo (wld s) ! i"
      "reg (snd (snd ?m)) = reg (wld s)" "fifo (snd (snd ?m)) = rest"
    using ok [unfolded receiver_ok_def, THEN conjunct2, rule_format, of "unat n" "wld s" "rf_fd (rf s)"] f n(2)
    by (simp_all add: Let_def)
  have nz: "uint n + 1 \<noteq> 0" using uint_ge_0 [of n] by linarith
  let ?b = "map (fst (snd ?m)) [0..<unat n + 1]"
  have b: "?b = fst (snd ?m) 0 # xs"
    using msg(2) f by (intro nth_equalityI) (auto simp: nth_append nth_Cons simp del: upt_Suc split: nat.splits)
  have "copy_into buf 0 ?b 1 (unat n) = Inr (xs @ drop (unat n) buf)"
    using buf f(2) unfolding b by (simp add: copy_into_def)
  moreover have "wr (replicate (unat n + 1) 0) 0 (rd_addr REG_FIFO) = Inr (0 # replicate (unat n) 0)"
    by (simp add: wr_def rd_addr_def REG_FIFO_def)
  ultimately have "iRf69ReadBlock B REG_FIFO buf n s = ret (int (unat n), xs @ drop (unat n) buf,
      s\<lparr>heap := free (Some ?b) (heap s\<lparr>live := live (heap s) + 1\<rparr>), wld := snd (snd ?m)\<rparr>)"
    using m n msg(1) nz
    by (simp add: iRf69ReadBlock_def iSpiReadRegBlock_def iSpiXfer_def case_prod_unfold Let_def del: upt_Suc replicate_Suc)
  then show ?thesis using m msg by (simp add: returns_simps Q)
qed

definition got :: "u8 \<Rightarrow> u8 \<Rightarrow> u8 \<Rightarrow> u8 list \<Rightarrow> int \<Rightarrow> xRf69 \<Rightarrow> bool" where
  "got dest sender ctl xs rssi p \<longleftrightarrow>
     rf_mode p = eRf69ModeRx \<and> rf_payload_len p = of_nat (length xs + 3) \<and> rf_data_len p = of_nat (length xs) \<and>
     rf_dest p = dest \<and> rf_sender p = sender \<and> rf_ctl p = ctl \<and> rf_rssi p = rssi \<and>
     length (rf_data p) = 66 \<and> take (length xs) (rf_data p) = xs \<and>
     (xs \<noteq> [] \<and> length xs < 61 \<longrightarrow> rf_data p ! length xs = 0)"

lemma returns_isr_data:
  assumes ok: "receiver_ok B reg fifo" and f: "fifo (wld s) = xs @ rest" "length xs \<le> 61"
    and p: "rf_data_len (rf s) = of_nat (length xs)" "length (rf_data (rf s)) = 66" and m: "mplan (heap s) = []"
    and Q: "\<And>s1 d. \<lbrakk>rf s1 = (rf s)\<lparr>rf_data := d\<rparr>; length d = 66; take (length xs) d = xs;
      xs \<noteq> [] \<and> length xs < 61 \<Longrightarrow> d ! length xs = 0; mplan (heap s1) = []; reg (wld s1) = reg (wld s)\<rbrakk> \<Longrightarrow> Q (True, s1)"
  shows "returns (isr_data B s) Q"
proof (cases "xs = []")
  case True
  then show ?thesis using p m Q [of s "rf_data (rf s)"] by (simp add: isr_data_def returns_simps)
next
  case False
  let ?n = "of_nat (length xs) :: u8"
  have n: "unat ?n = length xs" "0 < ?n" using f(2) False by (simp_all add: unat_of_nat word_less_nat_alt)
  show ?thesis
    unfolding isr_data_def p(1) using n(2)
    apply (simp add: returns_obind)
    apply (rule returns_fifo_read [OF ok f(1) _ _ _ m])
    using n f(2) p
        apply (auto simp: returns_simps Let_def RF69_MAX_DATA_LEN_def RF_FIFO_SIZE_def wr_def nth_append intro!: Q)
    done
qed

lemma returns_isr_accept:
  assumes ok: "receiver_ok B reg fifo" and f: "fifo (wld s) = xs @ rest" "length xs \<le> 61"
    and p: "rf_payload_len (rf s) = of_nat (length xs + 3)" "length (rf_data (rf s)) = 66" "rf_mode (rf s) = eRf69ModeStandby"
    and m: "mplan (heap s) = []"
    and Q: "\<And>s1. got (rf_dest (rf s)) (rf_sender (rf s)) (rf_ctl (rf s)) xs (- (uint (reg (wld s) REG_RSSIVALUE) div 2)) (rf s1) \<Longrightarrow>
      Q s1"
  shows "returns (isr_accept B s) Q"
proof -
  have acc: "access_ok B reg fifo" using ok by (simp add: receiver_ok_def)
  have len: "min (of_nat (length xs + 3) :: u8) (of_nat RF_FIFO_SIZE) - 3 = of_nat (length xs)"
  proof -
    have "unat (of_nat (length xs + 3) :: u8) = length xs + 3" using f(2) by (simp add: unat_of_nat del: of_nat_add)
    with f(2) have "(of_nat (length xs + 3) :: u8) \<le> of_nat RF_FIFO_SIZE" unfolding word_le_nat_alt by (simp add: RF_FIFO_SIZE_def)
    then show ?thesis by (simp add: min_def)
  qed
  have rssi: "- (uint (b :: u8) div 2) \<noteq> INT_MAX" for b
    using uint_ge_0 [of b] unfolding INT_MAX_def by linarith
  show ?thesis
    unfolding isr_accept_def returns_obind p(1) len
    apply (rule returns_isr_data [OF ok, where xs = xs and rest = rest])
          apply (simp_all add: f p m returns_try)
    apply (rule returns_set_mode [OF acc])
       apply (simp_all add: p rf69_modes returns_obind iRf69Rssi_def returns_try_val returns_as)
    apply (rule returns_read [OF acc], simp add: rf69_regs, simp add: rf69_regs)
    apply (simp add: returns_ret rssi, rule Q)
    apply (simp add: got_def p rf69_modes mode_regs_def Let_def rf69_regs)
    done
qed

lemma returns_isr_drop:
  assumes acc: "access_ok B reg oth" and p: "rf_mode (rf s) = eRf69ModeStandby"
    and Q: "\<And>s1. rf_mode (rf s1) = eRf69ModeRx \<Longrightarrow> rf_payload_len (rf s1) = 0 \<Longrightarrow> rf_data (rf s1) = rf_data (rf s) \<Longrightarrow>
      rf_data_len (rf s1) = 0 \<Longrightarrow> Q s1"
  shows "returns (isr_drop B s) Q"
  unfolding isr_drop_def iRf69StartReceiving_def iRf69AvoidRxDeadLocks_def returns_obind Let_def
  apply (rule returns_tryI)
  apply (rule returns_read_u8 [OF acc], simp add: rf69_regs, simp add: rf69_regs)
  apply (rule returns_try_write [OF acc], simp add: rf69_regs, simp add: rf69_regs)
  apply (simp only: returns_ret prod.case, rule conjI, simp)
  apply (rule returns_read_u8 [OF acc], simp add: rf69_regs, simp add: rf69_regs)
  apply (rule returns_try_write [OF acc], simp add: rf69_regs, simp add: rf69_regs)
  apply (rule returns_set_mode [OF acc])
     apply (simp_all add: p rf69_modes returns_ret)
  apply (rule Q, simp_all add: rf69_modes)
  done

lemma returns_isr:
  assumes ok: "receiver_ok B reg fifo" and p: "length (rf_data (rf s)) = 66" "rf_mode (rf s) = eRf69ModeRx"
    and m: "mplan (heap s) = []" and irq: "reg (wld s) REG_IRQFLAGS2 AND 4 \<noteq> 0"
    and f: "fifo (wld s) = frame_of a node ctl xs" "length xs \<le> 61"
    and Q: "\<And>s1. rf_mode (rf s1) = eRf69ModeRx \<Longrightarrow>
      (if rf_promiscuous (rf s) \<or> a = rf_node_id (rf s) \<or> a = RF69_BROADCAST_ADDR
       then got a node ctl xs (- (uint (reg (wld s) REG_RSSIVALUE) div 2)) (rf s1)
       else rf_payload_len (rf s1) = 0 \<and> rf_data_len (rf s1) = 0 \<and> rf_data (rf s1) = rf_data (rf s)) \<Longrightarrow> Q s1"
  shows "returns (vRf69Isr B s) Q"
proof -
  have acc: "access_ok B reg fifo" using ok by (simp add: receiver_ok_def)
  have u: "unat (of_nat (length xs + 3) :: u8) = length xs + 3" using f(2) by (simp add: unat_of_nat del: of_nat_add)
  then have n: "uint (of_nat (length xs + 3) :: u8) \<ge> 3" by (metis add.commute le_add1 nat_int_comparison(3) of_nat_numeral uint_nat)
  have accept: "returns (isr_accept B s3) Q"
    if "rf_promiscuous (rf s) \<or> a = rf_node_id (rf s) \<or> a = RF69_BROADCAST_ADDR"
      "rf s3 = (rf s)\<lparr>rf_mode := eRf69ModeStandby, rf_payload_len := of_nat (length xs + 3), rf_dest := a, rf_sender := node,
         rf_ctl := ctl\<rparr>" "mplan (heap s3) = []" "fifo (wld s3) = xs" "reg (wld s3) REG_RSSIVALUE = reg (wld s) REG_RSSIVALUE" for s3
    by (rule returns_isr_accept [OF ok, where xs = xs and rest = "[]"])
      (use that p f in \<open>auto intro!: Q simp: got_def\<close>)
  have drop: "returns (isr_drop B s3) Q"
    if "\<not> (rf_promiscuous (rf s) \<or> a = rf_node_id (rf s) \<or> a = RF69_BROADCAST_ADDR)"
      "rf_mode (rf s3) = eRf69ModeStandby" "rf_data (rf s3) = rf_data (rf s)" for s3
    by (rule returns_isr_drop [OF acc]) (use that in \<open>auto intro!: Q\<close>)
  have packet: "returns (isr_packet B s2) Q"
    if s2: "rf s2 = (rf s)\<lparr>rf_mode := eRf69ModeStandby\<rparr>" "mplan (heap s2) = []" "fifo (wld s2) = frame_of a node ctl xs"
      "reg (wld s2) REG_RSSIVALUE = reg (wld s) REG_RSSIVALUE" for s2
    unfolding isr_packet_def returns_obind
    apply (rule returns_fifo_byte [OF ok that(3) [unfolded frame_of_def]])
    apply (simp add: n RF69_HEADER_SIZE_def Let_def returns_obind del: of_nat_add)
    apply (rule returns_fifo_read [OF ok, where xs = "[a, node, ctl]" and rest = xs])
          apply (simp_all add: s2)
    apply (auto intro!: accept drop simp: s2)
    done
  show ?thesis
    unfolding vRf69Isr_def
    apply (simp add: p returns_obind returns_try returns_as)
    apply (rule returns_read [OF acc], simp add: rf69_regs, simp add: rf69_regs)
    apply (simp add: irq RF_IRQFLAGS2_PAYLOADREADY_def returns_try)
    apply (rule returns_set_mode [OF acc])
       apply (simp_all add: p rf69_modes)
    apply (rule packet)
    apply (simp_all add: m f rf69_modes mode_regs_def Let_def rf69_regs)
    done
qed

lemma returns_done:
  assumes acc: "access_ok B reg oth" and p: "rf_mode (rf s) = eRf69ModeRx" "rf_payload_len (rf s) > 0"
    and Q: "\<And>s1. rf s1 = (rf s)\<lparr>rf_mode := eRf69ModeStandby\<rparr> \<Longrightarrow> Q (1, s1)"
  shows "returns (iRf69ReceiveDone B s) Q"
  using p unfolding iRf69ReceiveDone_def
  by (simp add: returns_obind, intro returns_set_mode [OF acc]) (simp_all add: rf69_modes returns_ret Q)

text \<open>C18. A module in reception, with no packet waiting, a ready radio, a free channel and an
  interrupt that comes, sends any buffer: \<open>iRf69Send\<close> returns 1 and the FIFO has held a frame of the
  destination, the node and at most the first 61 bytes.  When the interrupt routine of another module, in
  reception and told that a payload is ready, finds this frame in its FIFO, then a frame for its node, for
  everybody, or any frame in promiscuous mode is in its buffer with the sender, an acknowledge request, its length
  and a final NUL if it is neither empty nor full, and \<open>iRf69ReceiveDone\<close> returns 1; another frame is
  dropped, the buffer is not touched and \<open>iRf69ReceiveDone\<close> returns 0.\<close>

theorem rf69_delivery:
  fixes B :: "'v board" and B' :: "'w board"
  assumes ok: "sender_ok B reg air" and p: "length (rf_data (rf s)) = 66" "rf_mode (rf s) = eRf69ModeRx" "rf_payload_len (rf s) = 0"
    and m: "mplan (heap s) = []" and ready: "reg (wld s) REG_IRQFLAGS1 AND 0x80 \<noteq> 0"
    and free: "reg (wld s) REG_RSSIVALUE \<ge> 182" and tx: "unat n \<le> length tx"
    and ok': "receiver_ok B' reg' fifo" and p': "length (rf_data (rf q)) = 66" "rf_mode (rf q) = eRf69ModeRx"
    and m': "mplan (heap q) = []" and irq: "reg' (wld q) REG_IRQFLAGS2 AND 4 \<noteq> 0"
  shows "\<exists>s1. iRf69Send B a tx n req s = ret (1, s1) \<and>
    air (wld s1) = frame_of a (rf_node_id (rf s)) RF69_ACKREQ (take (min (unat n) 61) tx) \<and>
    (fifo (wld q) = air (wld s1) \<longrightarrow> (\<exists>q1 q2 r. vRf69Isr B' q = ret q1 \<and> iRf69ReceiveDone B' q1 = ret (r, q2) \<and>
      (if rf_promiscuous (rf q) \<or> a = rf_node_id (rf q) \<or> a = RF69_BROADCAST_ADDR
       then r = 1 \<and> iRf69DataLength (rf q2) = min (uint n) 61 \<and> take (min (unat n) 61) (sRf69Data (rf q2)) = take (min (unat n) 61) tx \<and>
         (n \<noteq> 0 \<and> n < 61 \<longrightarrow> sRf69Data (rf q2) ! unat n = 0) \<and>
         iRf69SenderId (rf q2) = uint (rf_node_id (rf s)) \<and> iRf69TargetId (rf q2) = uint a \<and>
         (iRf69AckRequested (rf q2) = 1 \<longleftrightarrow> a \<noteq> RF69_BROADCAST_ADDR)
       else r = 0 \<and> iRf69DataLength (rf q2) = 0 \<and> sRf69Data (rf q2) = sRf69Data (rf q))))"
proof -
  let ?k = "min (unat n) 61"
  let ?xs = "take ?k tx"
  have xs: "length ?xs \<le> 61" "length ?xs = ?k" using tx by auto
  have acc: "access_ok B' reg' fifo" using ok' by (simp add: receiver_ok_def)
  have "returns (iRf69Send B a tx n req s) (\<lambda>(r, s1). r = 1 \<and> air (wld s1) = frame_of a (rf_node_id (rf s)) RF69_ACKREQ ?xs)"
    by (rule returns_send [OF ok p m ready tx free]) simp
  then obtain s1 where s1: "iRf69Send B a tx n req s = ret (1, s1)" "air (wld s1) = frame_of a (rf_node_id (rf s)) RF69_ACKREQ ?xs"
    by (auto simp: returns_def)
  define R where "R r q2 \<longleftrightarrow>
      (if rf_promiscuous (rf q) \<or> a = rf_node_id (rf q) \<or> a = RF69_BROADCAST_ADDR
       then r = 1 \<and> iRf69DataLength (rf q2) = min (uint n) 61 \<and> take ?k (sRf69Data (rf q2)) = ?xs \<and>
         (n \<noteq> 0 \<and> n < 61 \<longrightarrow> sRf69Data (rf q2) ! unat n = 0) \<and>
         iRf69SenderId (rf q2) = uint (rf_node_id (rf s)) \<and> iRf69TargetId (rf q2) = uint a \<and>
         (iRf69AckRequested (rf q2) = 1 \<longleftrightarrow> a \<noteq> RF69_BROADCAST_ADDR)
       else r = 0 \<and> iRf69DataLength (rf q2) = 0 \<and> sRf69Data (rf q2) = sRf69Data (rf q))" for r :: int and q2 :: "'w drv"
  have "returns (vRf69Isr B' q) (\<lambda>q1. returns (iRf69ReceiveDone B' q1) (\<lambda>(r, q2). R r q2))"
    if f: "fifo (wld q) = air (wld s1)"
  proof (rule returns_isr [OF ok' p' m' irq f [unfolded s1(2)] xs(1)])
    fix q1 :: "'w drv"
    assume mode: "rf_mode (rf q1) = eRf69ModeRx" and q1: "if rf_promiscuous (rf q) \<or> a = rf_node_id (rf q) \<or> a = RF69_BROADCAST_ADDR
       then got a (rf_node_id (rf s)) RF69_ACKREQ ?xs (- (uint (reg' (wld q) REG_RSSIVALUE) div 2)) (rf q1)
       else rf_payload_len (rf q1) = 0 \<and> rf_data_len (rf q1) = 0 \<and> rf_data (rf q1) = rf_data (rf q)"
    show "returns (iRf69ReceiveDone B' q1) (\<lambda>(r, q2). R r q2)"
    proof (cases "rf_promiscuous (rf q) \<or> a = rf_node_id (rf q) \<or> a = RF69_BROADCAST_ADDR")
      case True
      with q1 have g: "got a (rf_node_id (rf s)) RF69_ACKREQ ?xs (- (uint (reg' (wld q) REG_RSSIVALUE) div 2)) (rf q1)" by simp
      have "unat (of_nat ?k :: u8) = ?k" unfolding unat_of_nat by (rule mod_less) simp
      then have k: "uint (of_nat ?k :: u8) = min (uint n) 61" unfolding uint_nat by (simp add: of_nat_min)
      have "(of_nat (?k + 3) :: u8) > 0" by (simp add: word_less_nat_alt unat_of_nat del: of_nat_add)
      then have "rf_payload_len (rf q1) > 0" using g xs(2) by (simp add: got_def)
      then show ?thesis
      proof (rule returns_done [OF acc mode])
        fix q2 :: "'w drv"
        assume q2: "rf q2 = (rf q1)\<lparr>rf_mode := eRf69ModeStandby\<rparr>"
        have "iRf69DataLength (rf q2) = min (uint n) 61" using g xs(2) k unfolding got_def q2 iRf69DataLength_def by simp
        moreover have "take ?k (sRf69Data (rf q2)) = ?xs" using g xs(2) unfolding got_def q2 sRf69Data_def by simp
        moreover have "sRf69Data (rf q2) ! unat n = 0" if "n \<noteq> 0 \<and> n < 61"
        proof -
          have "?k = unat n" "unat n < 61" "unat n > 0" using that by (simp_all add: word_less_nat_alt unat_gt_0)
          with g xs(2) show ?thesis unfolding got_def q2 sRf69Data_def by auto
        qed
        moreover have "iRf69SenderId (rf q2) = uint (rf_node_id (rf s)) \<and> iRf69TargetId (rf q2) = uint a \<and>
            (iRf69AckRequested (rf q2) = 1 \<longleftrightarrow> a \<noteq> RF69_BROADCAST_ADDR)"
          using g unfolding got_def q2 iRf69SenderId_def iRf69TargetId_def iRf69AckRequested_def by (simp add: RF69_ACKREQ_def)
        ultimately show "case (1, q2) of (r, q2) \<Rightarrow> R r q2" using True by (simp add: R_def)
      qed
    next
      case False
      with q1 show ?thesis
        by (simp add: iRf69ReceiveDone_def mode R_def returns_ret iRf69DataLength_def sRf69Data_def)
    qed
  qed
  then have "\<exists>q1 q2 r. vRf69Isr B' q = ret q1 \<and> iRf69ReceiveDone B' q1 = ret (r, q2) \<and> R r q2"
    if "fifo (wld q) = air (wld s1)"
    using that by (auto simp: returns_def)
  with s1 show ?thesis unfolding R_def by blast
qed

text \<open>\<open>iRf69SendWithRetry\<close> with at least one try, on a module that is able to send,
  returns 1 as soon as the first frame is sent, whatever the number of tries and the time to wait: the
  module is left in standby, it has not listened for the acknowledgement.\<close>

theorem rf69_retries:
  assumes ok: "sender_ok B reg air" and p: "length (rf_data (rf s)) = 66" "rf_mode (rf s) = eRf69ModeRx" "rf_payload_len (rf s) = 0"
    and m: "mplan (heap s) = []" and ready: "reg (wld s) REG_IRQFLAGS1 AND 0x80 \<noteq> 0"
    and free: "reg (wld s) REG_RSSIVALUE \<ge> 182" and tx: "unat n \<le> length tx" and r: "retries > 0"
  shows "\<exists>s1. iRf69SendWithRetry B a tx n retries wait s = ret (1, s1) \<and>
    air (wld s1) = frame_of a (rf_node_id (rf s)) RF69_ACKREQ (take (min (unat n) 61) tx) \<and>
    rf_mode (rf s1) = eRf69ModeStandby"
proof -
  have T: "timers_keep B (\<lambda>w. (reg w, air w))" using ok by (simp add: sender_ok_def)
  obtain k where k: "unat retries = Suc k" using r by (cases "unat retries") (simp_all add: word_less_nat_alt)
  have ack: "wait_ack B a t 1 s1 = ret (1, snd (bRf69TimerTimeout B t s1))" for t s1
    unfolding wait_ack_def by (subst wait_loop.simps) (simp add: ret_def case_prod_unfold Let_def)
  have stop: "send_retries B a tx n wait t k 1 s1 = ret (1, t, s1)" for t s1
    by (cases k) simp_all
  let ?done = "\<lambda>s1. air (wld s1) = frame_of a (rf_node_id (rf s)) RF69_ACKREQ (take (min (unat n) 61) tx) \<and>
    rf_mode (rf s1) = eRf69ModeStandby"
  have send: "returns (iRf69Send B a tx n True s0) Q"
    if "alike (\<lambda>w. (reg w, air w)) s s0" "\<And>s1. ?done s1 \<Longrightarrow> Q (1, s1)" for s0 Q
    using that(1) by (intro returns_send [OF ok]) (auto simp: alike_def p m ready free tx that(2))
  have waited: "returns (vRf69TimerStart B (Some t) wait s1) (\<lambda>(t1, s2). ?done (snd (bRf69TimerTimeout B t1 s2)))"
    if "?done s1" for t s1
    by (rule returns_timer_start [OF T]) (use that timeout_same [OF T] in auto)
  have sent: "returns (send_retries B a tx n wait t (Suc k) 0 s0) (\<lambda>(r, _, s1). r = 1 \<and> ?done s1)"
    if "alike (\<lambda>w. (reg w, air w)) s s0" for t s0
  proof -
    have "returns (iRf69Send B a tx n True s0) (\<lambda>(r, s1). r = 1 \<and> ?done s1)"
      by (rule send [OF that]) simp
    then obtain s1 where s1: "iRf69Send B a tx n True s0 = ret (1, s1)" "?done s1" by (auto simp: returns_def)
    obtain t1 s2 where s2: "vRf69TimerStart B (Some t) wait s1 = ret (t1, s2)" "?done (snd (bRf69TimerTimeout B t1 s2))"
      using waited [OF s1(2), of t] by (auto simp: returns_def)
    show ?thesis using s2(2) by (simp add: s1(1) s2(1) ack stop returns_ret)
  qed
  obtain t s0 where s0: "xRf69TimerNew B s = ret (Some t, s0)" "alike (\<lambda>w. (reg w, air w)) s s0"
    using returns_timer_new [OF T m, of "\<lambda>(tp, s0). tp \<noteq> None \<and> alike (\<lambda>w. (reg w, air w)) s s0"] by (auto simp: returns_def)
  from sent [OF s0(2), of t] obtain t1 s1 where "send_retries B a tx n wait t (Suc k) 0 s0 = ret (1, t1, s1)" "?done s1"
    by (auto simp: returns_def)
  with delete_same [OF T, of t1 s1] show ?thesis by (simp add: iRf69SendWithRetry_def s0(1) k ret_def)
qed

text \<open>A module whose registers and FIFO are the world.\<close>

definition radio_message :: "int \<Rightarrow> u8 list \<Rightarrow> (u8 \<Rightarrow> u8) \<times> u8 list \<Rightarrow> int \<times> (nat \<Rightarrow> u8) \<times> (u8 \<Rightarrow> u8) \<times> u8 list" where
  "radio_message fd bs w =
     (case bs of [] \<Rightarrow> (-1, \<lambda>_. 0, w)
      | r # vs \<Rightarrow>
         let n = int (length vs) + 1 in
         if r = 0x80 then (n, \<lambda>_. 0, fst w, vs)
         else if r = 0 then (n, \<lambda>i. if i = 0 then 0 else snd w ! (i - 1), fst w, drop (length vs) (snd w))
         else if r < 0x80 then (n, \<lambda>_. fst w r, w)
         else (n, \<lambda>_. 0, (fst w)(r AND 0x7F := hd vs), snd w))"

lemma radio_board_ok:
  "access_ok (board_of radio_message) fst snd" "sender_ok (board_of radio_message) fst snd"
  "receiver_ok (board_of radio_message) fst snd"
proof -
  have addr: "r OR 0x80 \<noteq> 0x80 \<and> r OR 0x80 \<noteq> 0" if "0 < r" "r < 0x80" for r :: u8
    using that reg_write_addr [of r] by auto
  have low: "r \<noteq> 0x80 \<and> r \<noteq> 0" if "0 < r" "r < 0x80" for r :: u8
    using that by auto
  show acc: "access_ok (board_of radio_message) fst snd"
    by (simp add: access_ok_def board_of_def radio_message_def reg_write_addr addr low Let_def)
  have "timers_keep (board_of radio_message) (\<lambda>w. (fst w, snd w))"
    by (simp add: timers_keep_def board_of_def idle_timer_def)
  then show "sender_ok (board_of radio_message) fst snd"
    using acc by (simp add: sender_ok_def) (simp add: board_of_def radio_message_def Let_def)
  show "receiver_ok (board_of radio_message) fst snd"
    using acc by (simp add: receiver_ok_def) (simp add: board_of_def radio_message_def Let_def)
qed

definition ex_radio :: "u8 \<Rightarrow> u8 list \<Rightarrow> ((u8 \<Rightarrow> u8) \<times> u8 list) drv" where
  "ex_radio node f = \<lparr>rf = rf69_zero\<lparr>rf_mode := 3, rf_open := True, rf_node_id := node\<rparr>, heap = \<lparr>mplan = [], live = 0\<rparr>,
     wld = (\<lambda>_. 0xFF, f)\<rparr>"

theorem rf69_delivery_witness:
  "\<exists>s1 q1 q2. iRf69Send (board_of radio_message) 9 [104, 105] 2 True (ex_radio 7 []) = ret (1, s1) \<and>
     snd (wld s1) = [5, 9, 7, 0x40, 104, 105] \<and>
     vRf69Isr (board_of radio_message) (ex_radio 9 [5, 9, 7, 0x40, 104, 105]) = ret q1 \<and>
     iRf69ReceiveDone (board_of radio_message) q1 = ret (1, q2) \<and> take 2 (sRf69Data (rf q2)) = [104, 105] \<and>
     iRf69SenderId (rf q2) = 7"
  using rf69_delivery [OF radio_board_ok(2) _ _ _ _ _ _ _ radio_board_ok(3), of "ex_radio 7 []" 2 "[104, 105]"
      "ex_radio 9 [5, 9, 7, 0x40, 104, 105]" 9 True]
  by (auto simp: ex_radio_def rf69_zero_def rf69_modes RF_FIFO_SIZE_def frame_of_def RF69_ACKREQ_def ret_def)

theorem rf69_retries_witness:
  "\<exists>s1. iRf69SendWithRetry (board_of radio_message) 9 [104, 105] 2 5 40 (ex_radio 7 []) = ret (1, s1) \<and>
     snd (wld s1) = [5, 9, 7, 0x40, 104, 105] \<and> rf_mode (rf s1) = eRf69ModeStandby"
  using rf69_retries [OF radio_board_ok(2), of "ex_radio 7 []" 2 "[104, 105]" 5 9 40]
  by (auto simp: ex_radio_def rf69_zero_def rf69_modes RF_FIFO_SIZE_def frame_of_def RF69_ACKREQ_def)

end
