(* ===== verification/C_String.thy ===== *)
theory C_String
  imports Sysio_Prelude
begin

text \<open>
  Strings of C: the functions of the C library that the Teleinfo decoder uses, and
  \<open>src/src/string.c\<close>.  A string is given by the bytes from its address to the end of the object that
  holds it; reading past the object faults.
\<close>

section \<open>Bytes\<close>

definition ascii :: "string \<Rightarrow> u8 list" where
  "ascii s = map of_char s"

definition tolower :: "u8 \<Rightarrow> u8" where
  "tolower c = (if isupper c then c + 0x20 else c)"

definition isspace :: "u8 \<Rightarrow> bool" where
  "isspace c \<longleftrightarrow> c = 0x20 \<or> (9 \<le> c \<and> c \<le> 13)"

section \<open>The C library\<close>

text \<open>\<open>strcmp (s, lit) == 0\<close> and \<open>strncmp (s, lit, strlen (lit)) == 0\<close> for a literal without NUL.\<close>

fun c_streq :: "u8 list \<Rightarrow> u8 list \<Rightarrow> bool run" where
  "c_streq [] lit = Inl OutOfBounds"
| "c_streq (c # cs) [] = Inr (c = 0)"
| "c_streq (c # cs) (l # lit) = (if c = l then c_streq cs lit else Inr False)"

fun c_prefix :: "u8 list \<Rightarrow> u8 list \<Rightarrow> bool run" where
  "c_prefix cs [] = Inr True"
| "c_prefix [] (l # lit) = Inl OutOfBounds"
| "c_prefix (c # cs) (l # lit) = (if c = l then c_prefix cs lit else Inr False)"

text \<open>\<open>strchr\<close>: the distance to the first \<open>x\<close>, if there is one before the end of the string or \<open>x\<close> is that end.\<close>

fun c_strchr :: "u8 \<Rightarrow> u8 list \<Rightarrow> nat option run" where
  "c_strchr x [] = Inl OutOfBounds"
| "c_strchr x (c # cs) =
     (if c = x then Inr (Some 0)
      else if c = 0 then Inr None
      else cbind (c_strchr x cs) (\<lambda>r. Inr (map_option Suc r)))"

text \<open>\<open>strtol\<close>: white space, a sign, \<open>0x\<close> in base 16, digits.  The result is \<open>None\<close> when there is no digit,
  that is \<open>endptr == str\<close>; the bounds of the type are left to the callers.\<close>

definition digit_val :: "int \<Rightarrow> u8 \<Rightarrow> int option" where
  "digit_val base c =
     (let d = (if 0x30 \<le> c \<and> c \<le> 0x39 then uint (c - 0x30)
               else if isupper c then uint (c - 0x41) + 10
               else if islower c then uint (c - 0x61) + 10 else base)
      in if d < base then Some d else None)"

fun c_digits :: "int \<Rightarrow> int \<Rightarrow> u8 list \<Rightarrow> int run" where
  "c_digits base acc [] = Inl OutOfBounds"
| "c_digits base acc (c # cs) =
     (case digit_val base c of Some d \<Rightarrow> c_digits base (acc * base + d) cs | None \<Rightarrow> Inr acc)"

fun skip_space :: "u8 list \<Rightarrow> u8 list run" where
  "skip_space [] = Inl OutOfBounds"
| "skip_space (c # cs) = (if isspace c then skip_space cs else Inr (c # cs))"

definition skip_sign :: "u8 list \<Rightarrow> bool \<times> u8 list" where
  "skip_sign cs =
     (case cs of [] \<Rightarrow> (False, []) | c # r \<Rightarrow> if c = 0x2D then (True, r) else if c = 0x2B then (False, r) else (False, cs))"

definition skip_hex :: "int \<Rightarrow> u8 list \<Rightarrow> u8 list" where
  "skip_hex base cs =
     (case cs of
        z # x # h # r \<Rightarrow>
          if base = 16 \<and> z = 0x30 \<and> (x = 0x78 \<or> x = 0x58) \<and> digit_val 16 h \<noteq> None then h # r else cs
      | _ \<Rightarrow> cs)"

definition c_strtol :: "int \<Rightarrow> u8 list \<Rightarrow> int option run" where
  "c_strtol base cs =
     cbind (skip_space cs) (\<lambda>cs.
       let (neg, cs) = skip_sign cs; cs = skip_hex base cs in
       case cs of
         [] \<Rightarrow> Inl OutOfBounds
       | c # _ \<Rightarrow>
           if digit_val base c = None then Inr None
           else cbind (c_digits base 0 cs) (\<lambda>v. Inr (Some (if neg then - v else v))))"

section \<open>\<open>string.c\<close>\<close>

fun strlwr :: "u8 list \<Rightarrow> u8 list run" where
  "strlwr [] = Inl OutOfBounds"
| "strlwr (c # cs) =
     (if c = 0 then Inr (c # cs)
      else cbind (strlwr cs) (\<lambda>r. Inr ((if isupper c then tolower c else c) # r)))"

fun strupr :: "u8 list \<Rightarrow> u8 list run" where
  "strupr [] = Inl OutOfBounds"
| "strupr (c # cs) =
     (if c = 0 then Inr (c # cs)
      else cbind (strupr cs) (\<lambda>r. Inr ((if islower c then toupper c else c) # r)))"

text \<open>The copies do not write the final NUL.\<close>

fun copy_with :: "(u8 \<Rightarrow> u8) \<Rightarrow> u8 list \<Rightarrow> u8 list \<Rightarrow> u8 list run" where
  "copy_with f dst [] = Inl OutOfBounds"
| "copy_with f dst (c # src) =
     (if c = 0 then Inr dst
      else case dst of
             [] \<Rightarrow> Inl OutOfBounds
           | _ # ds \<Rightarrow> cbind (copy_with f ds src) (\<lambda>r. Inr (f c # r)))"

definition strcpyupr :: "u8 list \<Rightarrow> u8 list \<Rightarrow> u8 list run" where
  "strcpyupr dst src = copy_with (\<lambda>c. if islower c then toupper c else c) dst src"

definition strcpylwr :: "u8 list \<Rightarrow> u8 list \<Rightarrow> u8 list run" where
  "strcpylwr dst src = copy_with (\<lambda>c. if isupper c then tolower c else c) dst src"

text \<open>\<open>None\<close> is the result -1.  \<open>long\<close> and \<open>long long\<close> have 64 bits.\<close>

definition iStrToLong :: "int \<Rightarrow> u8 list \<Rightarrow> int option run" where
  "iStrToLong base cs =
     cbind (c_strtol base cs) (\<lambda>r. Inr (case r of
         None \<Rightarrow> None
       | Some v \<Rightarrow> if v < - (2 ^ 63) \<or> 2 ^ 63 \<le> v then None else Some v))"

definition iStrToLongLong :: "int \<Rightarrow> u8 list \<Rightarrow> int option run" where
  "iStrToLongLong base cs =
     cbind (c_strtol base cs) (\<lambda>r. Inr (case r of
         None \<Rightarrow> None
       | Some v \<Rightarrow> if v < - (2 ^ 63) \<or> 2 ^ 63 \<le> v then None else Some v))"

section \<open>Laws\<close>

lemma c_streq_app: "0 \<notin> set xs \<Longrightarrow> 0 \<notin> set lit \<Longrightarrow> c_streq (xs @ 0 # r) lit = Inr (xs = lit)"
proof (induction xs arbitrary: lit)
  case Nil
  then show ?case by (cases lit) auto
next
  case (Cons x xs)
  then show ?case by (cases lit) auto
qed

lemma c_prefix_app:
  "0 \<notin> set xs \<Longrightarrow> 0 \<notin> set lit \<Longrightarrow> c_prefix (xs @ 0 # r) lit = Inr (take (length lit) xs = lit)"
proof (induction xs arbitrary: lit)
  case Nil
  then show ?case by (cases lit) auto
next
  case (Cons x xs)
  then show ?case by (cases lit) auto
qed

lemma c_strchr_app: "x \<notin> set xs \<Longrightarrow> 0 \<notin> set xs \<Longrightarrow> c_strchr x (xs @ x # r) = Inr (Some (length xs))"
  by (induction xs) auto

lemma c_strchr_none: "x \<notin> set xs \<Longrightarrow> 0 \<notin> set xs \<Longrightarrow> x \<noteq> 0 \<Longrightarrow> c_strchr x (xs @ 0 # r) = Inr None"
  by (induction xs) auto

lemma c_strchr_bound: "c_strchr x cs = Inr (Some k) \<Longrightarrow> k < length cs \<and> cs ! k = x"
  by (induction cs arbitrary: k) (auto simp: cbind_Inr_iff split: if_splits)

end
