(* ===== verification/Serial.thy ===== *)
theory Serial
  imports Sysio_Prelude
begin

text \<open>
  Serial ports (\<open>src/src/unix/serial.c\<close>, \<open>src/src/serial.c\<close>, \<open>src/include/sysio/serial.h\<close>): the
  settings of a port in a \<open>termios\<close> structure, the ports themselves, and the texts of the settings.
  The terminal calls of the operating system are the parameter \<open>'w tty\<close>; the bits of \<open>termios\<close> have
  their Linux values.  The durations in floating point are left out.
\<close>

section \<open>The operating system\<close>

text \<open>The two speeds, which libc keeps behind \<open>cfsetispeed\<close> and \<open>cfgetospeed\<close>, are fields of their own.\<close>

record termios =
  c_iflag :: u32
  c_oflag :: u32
  c_cflag :: u32
  c_lflag :: u32
  c_vmin :: u8
  c_vtime :: u8
  c_ispeed :: u32
  c_ospeed :: u32

definition CSIZE :: u32 where "CSIZE = 0x30"
definition CS5 :: u32 where "CS5 = 0x00"
definition CS6 :: u32 where "CS6 = 0x10"
definition CS7 :: u32 where "CS7 = 0x20"
definition CS8 :: u32 where "CS8 = 0x30"
definition CSTOPB :: u32 where "CSTOPB = 0x40"
definition CREAD :: u32 where "CREAD = 0x80"
definition PARENB :: u32 where "PARENB = 0x100"
definition PARODD :: u32 where "PARODD = 0x200"
definition CLOCAL :: u32 where "CLOCAL = 0x800"
definition CRTSCTS :: u32 where "CRTSCTS = 0x80000000"
definition INPCK :: u32 where "INPCK = 0x10"
definition IXON :: u32 where "IXON = 0x400"
definition IXANY :: u32 where "IXANY = 0x800"
definition IXOFF :: u32 where "IXOFF = 0x1000"
definition SER_RS485_ENABLED :: u32 where "SER_RS485_ENABLED = 1"
definition SER_RS485_RTS_ON_SEND :: u32 where "SER_RS485_RTS_ON_SEND = 2"
definition SER_RS485_RTS_AFTER_SEND :: u32 where "SER_RS485_RTS_AFTER_SEND = 4"

lemmas termios_bits = CSIZE_def CS5_def CS6_def CS7_def CS8_def CSTOPB_def CREAD_def PARENB_def PARODD_def CLOCAL_def
  CRTSCTS_def INPCK_def IXON_def IXANY_def IXOFF_def SER_RS485_ENABLED_def SER_RS485_RTS_ON_SEND_def
  SER_RS485_RTS_AFTER_SEND_def

text \<open>\<open>cfmakeraw\<close> as documented.\<close>

definition cfmakeraw :: "termios \<Rightarrow> termios" where
  "cfmakeraw ts = ts\<lparr>c_iflag := c_iflag ts AND NOT 0x5EB, c_oflag := c_oflag ts AND NOT 1,
     c_lflag := c_lflag ts AND NOT 0x804B, c_cflag := (c_cflag ts AND NOT (CSIZE OR PARENB)) OR CS8\<rparr>"

record 'w tty =
  y_open :: "u8 list \<Rightarrow> 'w \<Rightarrow> int \<times> 'w"
  y_close :: "int \<Rightarrow> 'w \<Rightarrow> int \<times> 'w"
  y_setfl :: "int \<Rightarrow> 'w \<Rightarrow> 'w"
  y_getattr :: "int \<Rightarrow> 'w \<Rightarrow> int \<times> termios \<times> 'w"
  y_setattr :: "int \<Rightarrow> termios \<Rightarrow> 'w \<Rightarrow> int \<times> 'w"
  y_flush :: "int \<Rightarrow> 'w \<Rightarrow> 'w"
  y_get485 :: "int \<Rightarrow> 'w \<Rightarrow> int \<times> u32 \<times> 'w"
  y_set485 :: "int \<Rightarrow> u32 \<Rightarrow> 'w \<Rightarrow> int \<times> 'w"
  y_getm :: "int \<Rightarrow> 'w \<Rightarrow> u32 option \<times> 'w"
  y_setm :: "int \<Rightarrow> u32 \<Rightarrow> 'w \<Rightarrow> 'w"
  y_select :: "int \<Rightarrow> (int \<times> int) option \<Rightarrow> 'w \<Rightarrow> int \<times> bool \<times> bool \<times> 'w"   \<comment> \<open>result, \<open>FD_ISSET\<close>, \<open>EINTR\<close>\<close>
  y_avail :: "int \<Rightarrow> 'w \<Rightarrow> int \<times> int \<times> 'w"
  y_delay :: "int \<Rightarrow> 'w \<Rightarrow> 'w"

section \<open>Settings\<close>

definition EBADBAUD :: int where "EBADBAUD = -2"

definition SERIAL_DATABIT_5 :: int where "SERIAL_DATABIT_5 = 5"
definition SERIAL_DATABIT_6 :: int where "SERIAL_DATABIT_6 = 6"
definition SERIAL_DATABIT_7 :: int where "SERIAL_DATABIT_7 = 7"
definition SERIAL_DATABIT_8 :: int where "SERIAL_DATABIT_8 = 8"
definition SERIAL_DATABIT_UNKNOWN :: int where "SERIAL_DATABIT_UNKNOWN = -1"
definition SERIAL_PARITY_NONE :: int where "SERIAL_PARITY_NONE = 78"
definition SERIAL_PARITY_EVEN :: int where "SERIAL_PARITY_EVEN = 69"
definition SERIAL_PARITY_ODD :: int where "SERIAL_PARITY_ODD = 79"
definition SERIAL_PARITY_SPACE :: int where "SERIAL_PARITY_SPACE = 83"
definition SERIAL_PARITY_MARK :: int where "SERIAL_PARITY_MARK = 77"
definition SERIAL_PARITY_UNKNOWN :: int where "SERIAL_PARITY_UNKNOWN = -1"
definition SERIAL_STOPBIT_ONE :: int where "SERIAL_STOPBIT_ONE = 1"
definition SERIAL_STOPBIT_TWO :: int where "SERIAL_STOPBIT_TWO = 2"
definition SERIAL_STOPBIT_ONEHALF :: int where "SERIAL_STOPBIT_ONEHALF = 3"
definition SERIAL_STOPBIT_UNKNOWN :: int where "SERIAL_STOPBIT_UNKNOWN = 4"
definition SERIAL_FLOW_NONE :: int where "SERIAL_FLOW_NONE = 32"
definition SERIAL_FLOW_RTSCTS :: int where "SERIAL_FLOW_RTSCTS = 72"
definition SERIAL_FLOW_XONXOFF :: int where "SERIAL_FLOW_XONXOFF = 83"
definition SERIAL_FLOW_RS485_RTS_AFTER_SEND :: int where "SERIAL_FLOW_RS485_RTS_AFTER_SEND = 82"
definition SERIAL_FLOW_RS485_RTS_ON_SEND :: int where "SERIAL_FLOW_RS485_RTS_ON_SEND = 114"
definition SERIAL_FLOW_UNKNOWN :: int where "SERIAL_FLOW_UNKNOWN = -1"

lemmas serial_enums = SERIAL_DATABIT_5_def SERIAL_DATABIT_6_def SERIAL_DATABIT_7_def SERIAL_DATABIT_8_def SERIAL_DATABIT_UNKNOWN_def
  SERIAL_PARITY_NONE_def SERIAL_PARITY_EVEN_def SERIAL_PARITY_ODD_def SERIAL_PARITY_SPACE_def SERIAL_PARITY_MARK_def
  SERIAL_PARITY_UNKNOWN_def SERIAL_STOPBIT_ONE_def SERIAL_STOPBIT_TWO_def SERIAL_STOPBIT_ONEHALF_def
  SERIAL_STOPBIT_UNKNOWN_def SERIAL_FLOW_NONE_def SERIAL_FLOW_RTSCTS_def SERIAL_FLOW_XONXOFF_def
  SERIAL_FLOW_RS485_RTS_AFTER_SEND_def SERIAL_FLOW_RS485_RTS_ON_SEND_def SERIAL_FLOW_UNKNOWN_def EBADBAUD_def

record xSerialIos =
  sio_baud :: int
  sio_dbits :: int
  sio_parity :: int
  sio_sbits :: int
  sio_flow :: int

text \<open>The two switches over the speeds list the same pairs.  \<open>speed_t\<close> is unsigned, so that its -1 is the
  largest number.\<close>

definition serial_speeds :: "(int \<times> u32) list" where
  "serial_speeds =
     [(0, 0x0), (50, 0x1), (75, 0x2), (110, 0x3), (134, 0x4), (150, 0x5), (200, 0x6), (300, 0x7),
      (600, 0x8), (1200, 0x9), (1800, 0xA), (2400, 0xB), (4800, 0xC), (9600, 0xD), (19200, 0xE),
      (38400, 0xF), (57600, 0x1001), (115200, 0x1002), (230400, 0x1003), (460800, 0x1004), (500000,
      0x1005), (576000, 0x1006), (921600, 0x1007), (1000000, 0x1008), (1152000, 0x1009), (1500000,
      0x100A), (2000000, 0x100B), (2500000, 0x100C), (3000000, 0x100D), (3500000, 0x100E), (4000000,
      0x100F)]"

definition iSerialSpeedToInt :: "u32 \<Rightarrow> int" where
  "iSerialSpeedToInt speed =
     (case map_of (map prod.swap serial_speeds) speed of Some baud \<Rightarrow> baud | None \<Rightarrow> -1)"

definition eSerialIntToSpeed :: "int \<Rightarrow> u32" where
  "eSerialIntToSpeed baud = (case map_of serial_speeds baud of Some speed \<Rightarrow> speed | None \<Rightarrow> -1)"

section \<open>Settings in a \<open>termios\<close> structure\<close>

text \<open>A pointer to the structure may be NULL.\<close>

definition iSerialTermiosSetBaudrate :: "termios option \<Rightarrow> int \<Rightarrow> int \<times> termios option" where
  "iSerialTermiosSetBaudrate tsp iBaudrate =
     (case tsp of
        Some ts \<Rightarrow>
          (let s = eSerialIntToSpeed iBaudrate in
           if s \<noteq> -1 then (0, Some (ts\<lparr>c_ispeed := s, c_ospeed := s\<rparr>)) else (EBADBAUD, tsp))
      | None \<Rightarrow> (EBADBAUD, tsp))"

definition iSerialTermiosSetDataBits :: "termios option \<Rightarrow> int \<Rightarrow> int \<times> termios option" where
  "iSerialTermiosSetDataBits tsp eDataBits =
     (case tsp of
        Some ts \<Rightarrow>
          (let set = (\<lambda>cs. (0, Some (ts\<lparr>c_cflag := (c_cflag ts AND NOT CSIZE) OR cs\<rparr>))) in
           if eDataBits = SERIAL_DATABIT_5 then set CS5
           else if eDataBits = SERIAL_DATABIT_6 then set CS6
           else if eDataBits = SERIAL_DATABIT_7 then set CS7
           else if eDataBits = SERIAL_DATABIT_8 then set CS8
           else (-1, tsp))
      | None \<Rightarrow> (-1, tsp))"

definition iSerialTermiosSetStopBits :: "termios option \<Rightarrow> int \<Rightarrow> int \<times> termios option" where
  "iSerialTermiosSetStopBits tsp eStopBits =
     (case tsp of
        Some ts \<Rightarrow>
          (if eStopBits = SERIAL_STOPBIT_ONE then (0, Some (ts\<lparr>c_cflag := c_cflag ts AND NOT CSTOPB\<rparr>))
           else if eStopBits = SERIAL_STOPBIT_TWO then (0, Some (ts\<lparr>c_cflag := c_cflag ts OR CSTOPB\<rparr>))
           else (-1, tsp))
      | None \<Rightarrow> (-1, tsp))"

definition iSerialTermiosSetParity :: "termios option \<Rightarrow> int \<Rightarrow> int \<times> termios option" where
  "iSerialTermiosSetParity tsp eParity =
     (case tsp of
        Some ts \<Rightarrow>
          (let set = (\<lambda>c. (0, Some (ts\<lparr>c_cflag := c,
                 c_iflag := (if eParity = SERIAL_PARITY_NONE then c_iflag ts AND NOT INPCK else c_iflag ts OR INPCK)\<rparr>))) in
           if eParity = SERIAL_PARITY_NONE then set (c_cflag ts AND NOT (PARENB OR PARODD))
           else if eParity = SERIAL_PARITY_EVEN then set ((c_cflag ts AND NOT PARODD) OR PARENB)
           else if eParity = SERIAL_PARITY_ODD then set (c_cflag ts OR (PARENB OR PARODD))
           else (-1, tsp))
      | None \<Rightarrow> (-1, tsp))"

definition iSerialTermiosSetFlow :: "termios option \<Rightarrow> int \<Rightarrow> int \<times> termios option" where
  "iSerialTermiosSetFlow tsp eFlow =
     (case tsp of
        Some ts \<Rightarrow>
          (if eFlow = SERIAL_FLOW_NONE \<or> eFlow = SERIAL_FLOW_RS485_RTS_AFTER_SEND \<or> eFlow = SERIAL_FLOW_RS485_RTS_ON_SEND
           then (0, Some (ts\<lparr>c_cflag := c_cflag ts AND NOT CRTSCTS, c_iflag := c_iflag ts AND NOT (IXON OR IXOFF OR IXANY)\<rparr>))
           else if eFlow = SERIAL_FLOW_RTSCTS
           then (0, Some (ts\<lparr>c_cflag := c_cflag ts OR CRTSCTS, c_iflag := c_iflag ts AND NOT (IXON OR IXOFF OR IXANY)\<rparr>))
           else if eFlow = SERIAL_FLOW_XONXOFF
           then (0, Some (ts\<lparr>c_iflag := c_iflag ts OR (IXON OR IXOFF OR IXANY), c_cflag := c_cflag ts AND NOT CRTSCTS\<rparr>))
           else (-1, tsp))
      | None \<Rightarrow> (-1, tsp))"

definition then_ok :: "int \<times> 'a \<Rightarrow> ('a \<Rightarrow> int \<times> 'a) \<Rightarrow> int \<times> 'a" where
  "then_ok rs f = (if fst rs = 0 then f (snd rs) else rs)"

definition iSerialTermiosSetAttr :: "termios option \<Rightarrow> xSerialIos \<Rightarrow> int \<times> termios option" where
  "iSerialTermiosSetAttr tsp ios =
     (case tsp of
        Some ts \<Rightarrow>
          then_ok (iSerialTermiosSetBaudrate tsp (sio_baud ios)) (\<lambda>tsp.
          then_ok (iSerialTermiosSetDataBits tsp (sio_dbits ios)) (\<lambda>tsp.
          then_ok (iSerialTermiosSetParity tsp (sio_parity ios)) (\<lambda>tsp.
          then_ok (iSerialTermiosSetStopBits tsp (sio_sbits ios)) (\<lambda>tsp.
            iSerialTermiosSetFlow tsp (sio_flow ios)))))
      | None \<Rightarrow> (-1, tsp))"

definition iSerialTermiosGetBaudrate :: "termios option \<Rightarrow> int" where
  "iSerialTermiosGetBaudrate tsp = (case tsp of Some ts \<Rightarrow> iSerialSpeedToInt (c_ospeed ts) | None \<Rightarrow> EBADBAUD)"

definition iSerialTermiosGetDataBits :: "termios option \<Rightarrow> int" where
  "iSerialTermiosGetDataBits tsp =
     (case tsp of
        Some ts \<Rightarrow>
          (let c = c_cflag ts AND CSIZE in
           if c = CS5 then SERIAL_DATABIT_5 else if c = CS6 then SERIAL_DATABIT_6
           else if c = CS7 then SERIAL_DATABIT_7 else if c = CS8 then SERIAL_DATABIT_8 else SERIAL_DATABIT_UNKNOWN)
      | None \<Rightarrow> SERIAL_DATABIT_UNKNOWN)"

definition iSerialTermiosGetStopBits :: "termios option \<Rightarrow> int" where
  "iSerialTermiosGetStopBits tsp =
     (case tsp of
        Some ts \<Rightarrow> (if c_cflag ts AND CSTOPB \<noteq> 0 then SERIAL_STOPBIT_TWO else SERIAL_STOPBIT_ONE)
      | None \<Rightarrow> SERIAL_STOPBIT_UNKNOWN)"

definition iSerialTermiosGetParity :: "termios option \<Rightarrow> int" where
  "iSerialTermiosGetParity tsp =
     (case tsp of
        Some ts \<Rightarrow>
          (let c = c_cflag ts AND (PARENB OR PARODD) in
           if c = PARENB then SERIAL_PARITY_EVEN else if c = PARENB OR PARODD then SERIAL_PARITY_ODD
           else SERIAL_PARITY_NONE)
      | None \<Rightarrow> SERIAL_PARITY_UNKNOWN)"

definition iSerialTermiosGetFlow :: "termios option \<Rightarrow> int" where
  "iSerialTermiosGetFlow tsp =
     (case tsp of
        Some ts \<Rightarrow>
          (if c_cflag ts AND CRTSCTS \<noteq> 0 then SERIAL_FLOW_RTSCTS
           else if c_iflag ts AND (IXON OR IXOFF OR IXANY) \<noteq> 0 then SERIAL_FLOW_XONXOFF
           else SERIAL_FLOW_NONE)
      | None \<Rightarrow> SERIAL_FLOW_UNKNOWN)"

text \<open>A field is stored when its value is not negative; the first negative one is returned.\<close>

definition get_field :: "int \<Rightarrow> (int \<Rightarrow> xSerialIos) \<Rightarrow> (xSerialIos \<Rightarrow> int \<times> xSerialIos) \<Rightarrow> xSerialIos \<Rightarrow> int \<times> xSerialIos" where
  "get_field r store k ios = (if r \<ge> 0 then k (store r) else (r, ios))"

definition iSerialTermiosGetAttr :: "termios option \<Rightarrow> xSerialIos \<Rightarrow> int \<times> xSerialIos" where
  "iSerialTermiosGetAttr tsp ios =
     (case tsp of
        Some ts \<Rightarrow>
          get_field (iSerialTermiosGetBaudrate tsp) (\<lambda>r. ios\<lparr>sio_baud := r\<rparr>) (\<lambda>ios.
          get_field (iSerialTermiosGetDataBits tsp) (\<lambda>r. ios\<lparr>sio_dbits := r\<rparr>) (\<lambda>ios.
          get_field (iSerialTermiosGetParity tsp) (\<lambda>r. ios\<lparr>sio_parity := r\<rparr>) (\<lambda>ios.
          get_field (iSerialTermiosGetStopBits tsp) (\<lambda>r. ios\<lparr>sio_sbits := r\<rparr>) (\<lambda>ios.
          get_field (iSerialTermiosGetFlow tsp) (\<lambda>r. ios\<lparr>sio_flow := r\<rparr>) (\<lambda>ios. (0, ios)) ios) ios) ios) ios) ios
      | None \<Rightarrow> (-1, ios))"

section \<open>Texts\<close>

definition sUnknown :: string where "sUnknown = ''Unknown''"
definition sNone :: string where "sNone = ''none''"

text \<open>\<open>%10ld-%1d%c%1d%c\<close>, of which the buffer holds 15 characters and a NUL.\<close>

definition pad_left :: "nat \<Rightarrow> u8 list \<Rightarrow> u8 list" where
  "pad_left n cs = replicate (n - length cs) 0x20 @ cs"

definition sSerialAttrToStr :: "xSerialIos \<Rightarrow> u8 list" where
  "sSerialAttrToStr ios =
     take 15 (pad_left 10 (c_decimal (sio_baud ios)) @ [0x2D] @ c_decimal (sio_dbits ios) @ [word_of_int (sio_parity ios)] @
              c_decimal (sio_sbits ios) @ [word_of_int (sio_flow ios)]) @ [0]"

definition sSerialFlowToStr :: "int \<Rightarrow> string" where
  "sSerialFlowToStr eFlow =
     (if eFlow = SERIAL_FLOW_NONE then sNone
      else if eFlow = SERIAL_FLOW_RTSCTS then ''hardware''
      else if eFlow = SERIAL_FLOW_XONXOFF then ''software''
      else if eFlow = SERIAL_FLOW_RS485_RTS_AFTER_SEND then ''rs485 rts after send''
      else if eFlow = SERIAL_FLOW_RS485_RTS_ON_SEND then ''rs485 rts on send''
      else sUnknown)"

definition sSerialParityToStr :: "int \<Rightarrow> string" where
  "sSerialParityToStr eParity =
     (if eParity = SERIAL_PARITY_NONE then sNone
      else if eParity = SERIAL_PARITY_EVEN then ''even''
      else if eParity = SERIAL_PARITY_ODD then ''odd''
      else if eParity = SERIAL_PARITY_SPACE then ''space''
      else if eParity = SERIAL_PARITY_MARK then ''mark''
      else sUnknown)"

definition sSerialDataBitsToStr :: "int \<Rightarrow> string" where
  "sSerialDataBitsToStr eDataBits =
     (if eDataBits = SERIAL_DATABIT_5 then ''5''
      else if eDataBits = SERIAL_DATABIT_6 then ''6''
      else if eDataBits = SERIAL_DATABIT_7 then ''7''
      else if eDataBits = SERIAL_DATABIT_8 then ''8''
      else sUnknown)"

definition sSerialStopBitsToStr :: "int \<Rightarrow> string" where
  "sSerialStopBitsToStr eStopBits =
     (if eStopBits = SERIAL_STOPBIT_ONE then ''1''
      else if eStopBits = SERIAL_STOPBIT_TWO then ''2''
      else if eStopBits = SERIAL_STOPBIT_ONEHALF then ''1.5''
      else sUnknown)"

definition sSerialTermiosToStr :: "termios option \<Rightarrow> u8 list" where
  "sSerialTermiosToStr tsp =
     (case tsp of
        Some ts \<Rightarrow>
          sSerialAttrToStr \<lparr>sio_baud = iSerialTermiosGetBaudrate tsp, sio_dbits = iSerialTermiosGetDataBits tsp,
            sio_parity = iSerialTermiosGetParity tsp, sio_sbits = iSerialTermiosGetStopBits tsp,
            sio_flow = iSerialTermiosGetFlow tsp\<rparr>
      | None \<Rightarrow> map of_char sUnknown @ [0])"

section \<open>Ports\<close>

text \<open>The functions that change one setting differ only in the function on the structure.\<close>

definition port_set :: "'w tty \<Rightarrow> int \<Rightarrow> (termios option \<Rightarrow> int \<times> termios option) \<Rightarrow> 'w \<Rightarrow> int \<times> 'w" where
  "port_set Y fd edit w =
     (let (r, ts, w) = y_getattr Y fd w in
      if r = 0
      then case edit (Some ts) of
             (r, Some ts) \<Rightarrow> if r = 0 then y_setattr Y fd ts (y_flush Y fd w) else (r, w)
           | (r, None) \<Rightarrow> (r, w)
      else (r, w))"

definition iSerialSetBaudrate :: "'w tty \<Rightarrow> int \<Rightarrow> int \<Rightarrow> 'w \<Rightarrow> int \<times> 'w" where
  "iSerialSetBaudrate Y fd iBaudrate = port_set Y fd (\<lambda>ts. iSerialTermiosSetBaudrate ts iBaudrate)"

definition iSerialSetDataBits :: "'w tty \<Rightarrow> int \<Rightarrow> int \<Rightarrow> 'w \<Rightarrow> int \<times> 'w" where
  "iSerialSetDataBits Y fd eDataBits = port_set Y fd (\<lambda>ts. iSerialTermiosSetDataBits ts eDataBits)"

definition iSerialSetStopBits :: "'w tty \<Rightarrow> int \<Rightarrow> int \<Rightarrow> 'w \<Rightarrow> int \<times> 'w" where
  "iSerialSetStopBits Y fd eStopBits = port_set Y fd (\<lambda>ts. iSerialTermiosSetStopBits ts eStopBits)"

definition iSerialSetParity :: "'w tty \<Rightarrow> int \<Rightarrow> int \<Rightarrow> 'w \<Rightarrow> int \<times> 'w" where
  "iSerialSetParity Y fd eParity = port_set Y fd (\<lambda>ts. iSerialTermiosSetParity ts eParity)"

definition iSerialSetFlow :: "'w tty \<Rightarrow> int \<Rightarrow> int \<Rightarrow> 'w \<Rightarrow> int \<times> 'w" where
  "iSerialSetFlow Y fd eFlow w =
     (let (r, w) = port_set Y fd (\<lambda>ts. iSerialTermiosSetFlow ts eFlow) w in
      if r = 0
      then if eFlow = SERIAL_FLOW_RS485_RTS_AFTER_SEND \<or> eFlow = SERIAL_FLOW_RS485_RTS_ON_SEND
           then y_set485 Y fd (SER_RS485_ENABLED OR
                  (if eFlow = SERIAL_FLOW_RS485_RTS_AFTER_SEND then SER_RS485_RTS_AFTER_SEND else SER_RS485_RTS_ON_SEND)) w
           else (r, snd (y_set485 Y fd 0 w))
      else (r, w))"

definition iSerialSetAttr :: "'w tty \<Rightarrow> int \<Rightarrow> xSerialIos \<Rightarrow> 'w \<Rightarrow> int \<times> 'w" where
  "iSerialSetAttr Y fd ios w =
     (let (r, w) = port_set Y fd (\<lambda>ts. iSerialTermiosSetAttr ts ios) w in
      if r = 0 then iSerialSetFlow Y fd (sio_flow ios) w else (r, w))"

definition port_get :: "'w tty \<Rightarrow> int \<Rightarrow> (termios option \<Rightarrow> int) \<Rightarrow> 'w \<Rightarrow> int \<times> 'w" where
  "port_get Y fd get w = (let (r, ts, w) = y_getattr Y fd w in if r = 0 then (get (Some ts), w) else (-1, w))"

definition iSerialGetBaudrate :: "'w tty \<Rightarrow> int \<Rightarrow> 'w \<Rightarrow> int \<times> 'w" where
  "iSerialGetBaudrate Y fd = port_get Y fd iSerialTermiosGetBaudrate"
definition eSerialGetDataBits :: "'w tty \<Rightarrow> int \<Rightarrow> 'w \<Rightarrow> int \<times> 'w" where
  "eSerialGetDataBits Y fd = port_get Y fd iSerialTermiosGetDataBits"
definition eSerialGetStopBits :: "'w tty \<Rightarrow> int \<Rightarrow> 'w \<Rightarrow> int \<times> 'w" where
  "eSerialGetStopBits Y fd = port_get Y fd iSerialTermiosGetStopBits"
definition eSerialGetParity :: "'w tty \<Rightarrow> int \<Rightarrow> 'w \<Rightarrow> int \<times> 'w" where
  "eSerialGetParity Y fd = port_get Y fd iSerialTermiosGetParity"

definition eSerialGetFlow :: "'w tty \<Rightarrow> int \<Rightarrow> 'w \<Rightarrow> int \<times> 'w" where
  "eSerialGetFlow Y fd w =
     (let (r, ts, w) = y_getattr Y fd w in
      if r = 0 then
        let f = iSerialTermiosGetFlow (Some ts) in
        if f = SERIAL_FLOW_NONE then
          let (r, flags, w) = y_get485 Y fd w; after = flags AND SER_RS485_RTS_AFTER_SEND \<noteq> 0;
              on = flags AND SER_RS485_RTS_ON_SEND \<noteq> 0 in
          if r = 0 \<and> flags AND SER_RS485_ENABLED \<noteq> 0
          then (if after \<and> \<not> on then SERIAL_FLOW_RS485_RTS_AFTER_SEND
                else if \<not> after \<and> on then SERIAL_FLOW_RS485_RTS_ON_SEND
                else SERIAL_FLOW_UNKNOWN, w)
          else (f, w)
        else (f, w)
      else (-1, w))"

definition iSerialGetAttr :: "'w tty \<Rightarrow> int \<Rightarrow> xSerialIos \<Rightarrow> 'w \<Rightarrow> int \<times> xSerialIos \<times> 'w" where
  "iSerialGetAttr Y fd ios w =
     (let (r, ts, w) = y_getattr Y fd w in
      if r = 0 then
        let (r, ios) = iSerialTermiosGetAttr (Some ts) ios in
        if r = 0 then let (f, w) = eSerialGetFlow Y fd w in (r, ios\<lparr>sio_flow := f\<rparr>, w) else (r, ios, w)
      else (r, ios, w))"

definition sSerialGetFlowStr :: "'w tty \<Rightarrow> int \<Rightarrow> 'w \<Rightarrow> string \<times> 'w" where
  "sSerialGetFlowStr Y fd w = (let (f, w) = eSerialGetFlow Y fd w in (sSerialFlowToStr f, w))"

definition sSerialAttrStr :: "'w tty \<Rightarrow> int \<Rightarrow> xSerialIos \<Rightarrow> 'w \<Rightarrow> u8 list option \<times> 'w" where
  "sSerialAttrStr Y fd junk w =
     (let (r, ios, w) = iSerialGetAttr Y fd junk w in (if r = 0 then Some (sSerialAttrToStr ios) else None, w))"

text \<open>The results of \<open>tcgetattr\<close> and \<open>tcsetattr\<close> are not looked at.  A \<open>TIOCMGET\<close> that fails leaves the 0
  of the flow control in \<open>iRet\<close>.\<close>

definition iSerialOpen :: "'w tty \<Rightarrow> u8 list \<Rightarrow> xSerialIos \<Rightarrow> 'w \<Rightarrow> int \<times> 'w" where
  "iSerialOpen Y device ios w =
     (let (fd, w) = y_open Y device w in
      if fd = -1 then (-1, w)
      else
        let w = y_setfl Y fd w;
            (_, ts, w) = y_getattr Y fd w;
            ts = cfmakeraw ts;
            ts = ts\<lparr>c_cflag := c_cflag ts OR (CLOCAL OR CREAD), c_lflag := c_lflag ts AND NOT 0x801B,
                    c_oflag := c_oflag ts AND NOT 1\<rparr>
        in case iSerialTermiosSetAttr (Some ts) ios of
             (r, Some ts) \<Rightarrow>
               if r < 0 then (r, snd (y_close Y fd w))
               else
                 let w = y_flush Y fd w;
                     (_, w) = y_setattr Y fd (ts\<lparr>c_vmin := 0, c_vtime := 0\<rparr>) w;
                     (r, w) = iSerialSetFlow Y fd (sio_flow ios) w
                 in if r < 0 then (r, snd (y_close Y fd w))
                    else
                      let w = (if sio_flow ios \<noteq> SERIAL_FLOW_RS485_RTS_AFTER_SEND \<and>
                                  sio_flow ios \<noteq> SERIAL_FLOW_RS485_RTS_ON_SEND
                               then let (m, w) = y_getm Y fd w
                                    in y_setm Y fd ((case m of Some b \<Rightarrow> b | None \<Rightarrow> word_of_int r) OR 6) w
                               else w)
                      in (fd, y_delay Y 10 w)
           | (r, None) \<Rightarrow> (r, w))"

definition iSerialPoll :: "'w tty \<Rightarrow> int \<Rightarrow> int \<Rightarrow> 'w \<Rightarrow> int \<times> 'w" where
  "iSerialPoll Y fd timeout_ms w =
     (let (r, ready, eintr, w) =
            y_select Y fd (if timeout_ms < 0 then None
                           else let us = timeout_ms * 1000 in Some (us div 1000000, us mod 1000000)) w
      in if r = -1 then (if eintr then 0 else r, w)
         else if r > 0 \<and> ready then let (r, n, w) = y_avail Y fd w in (if r = 0 then n else r, w)
         else (r, w))"

definition bSerialFdIsValid :: "'w tty \<Rightarrow> int \<Rightarrow> 'w \<Rightarrow> bool \<times> 'w" where
  "bSerialFdIsValid Y fd w = (let (r, _, w) = y_getattr Y fd w in (r = 0, w))"

definition vSerialFlush :: "'w tty \<Rightarrow> int \<Rightarrow> 'w \<Rightarrow> 'w" where
  "vSerialFlush Y fd w = y_flush Y fd w"

definition vSerialClose :: "'w tty \<Rightarrow> int \<Rightarrow> 'w \<Rightarrow> 'w" where
  "vSerialClose Y fd w = snd (y_close Y fd w)"

definition iSerialDataAvailable :: "'w tty \<Rightarrow> int \<Rightarrow> 'w \<Rightarrow> int \<times> 'w" where
  "iSerialDataAvailable Y fd w = (let (r, n, w) = y_avail Y fd w in (if r = -1 then -1 else n, w))"

end
