(* ===== verification/Serial_Laws.thy ===== *)
theory Serial_Laws
  imports Serial
begin

text \<open>
  The settings of a serial port are read back as they were written, other bits are not touched, settings
  the port can not have are refused.
\<close>

section \<open>Settings in a \<open>termios\<close> structure\<close>

definition valid_ios :: "xSerialIos \<Rightarrow> bool" where
  "valid_ios ios \<longleftrightarrow>
     sio_baud ios \<in> fst ` set serial_speeds \<and>
     sio_dbits ios \<in> {SERIAL_DATABIT_5, SERIAL_DATABIT_6, SERIAL_DATABIT_7, SERIAL_DATABIT_8} \<and>
     sio_parity ios \<in> {SERIAL_PARITY_NONE, SERIAL_PARITY_EVEN, SERIAL_PARITY_ODD} \<and>
     sio_sbits ios \<in> {SERIAL_STOPBIT_ONE, SERIAL_STOPBIT_TWO} \<and>
     sio_flow ios \<in> {SERIAL_FLOW_NONE, SERIAL_FLOW_RTSCTS, SERIAL_FLOW_XONXOFF, SERIAL_FLOW_RS485_RTS_AFTER_SEND,
       SERIAL_FLOW_RS485_RTS_ON_SEND}"

lemma speeds_back:
  assumes "b \<in> fst ` set serial_speeds"
  shows "eSerialIntToSpeed b \<noteq> -1" "iSerialSpeedToInt (eSerialIntToSpeed b) = b"
  using assms by (auto simp: eSerialIntToSpeed_def iSerialSpeedToInt_def serial_speeds_def)

text \<open>Every setting is a field: the bits \<open>m\<close> of a word get the value \<open>v\<close>.\<close>

definition field :: "u32 \<Rightarrow> u32 \<Rightarrow> u32 \<Rightarrow> u32" where
  "field m v x = (x AND NOT m) OR v"

lemma field_get: "v AND m = v \<Longrightarrow> field m v x AND m = v"
  by (simp add: field_def bit.conj_disj_distrib2 and.assoc)

lemma field_other:
  assumes "m AND k = 0" "v AND m = v"
  shows "field m v x AND k = x AND k"
proof -
  have "v AND k = 0" using assms by (metis and.assoc and_zero_eq)
  moreover have "(x AND NOT m) AND k = x AND k"
  proof (rule bit_word_eqI)
    fix n
    have "\<not> (bit m n \<and> bit k n)" using assms(1) by (metis bit_and_iff bit_0_eq bot_apply bot_bool_def)
    moreover assume "n < LENGTH(32)"
    ultimately show "bit ((x AND NOT m) AND k) n = bit (x AND k) n" by (auto simp: bit_simps)
  qed
  ultimately show ?thesis by (simp add: field_def bit.conj_disj_distrib2)
qed

lemma field_or: "(x AND NOT a) OR b = field (a OR b) b x" "x OR b = field b b x"
  unfolding field_def by (rule bit_word_eqI, auto simp: bit_simps)+

definition dcode :: "int \<Rightarrow> u32" where "dcode b = word_of_int ((b - 5) * 16)"
definition pcode :: "int \<Rightarrow> u32" where
  "pcode p = (if p = SERIAL_PARITY_NONE then 0 else if p = SERIAL_PARITY_EVEN then 0x100 else 0x300)"
definition icode :: "int \<Rightarrow> u32" where "icode p = (if p = SERIAL_PARITY_NONE then 0 else 0x10)"
definition scode :: "int \<Rightarrow> u32" where "scode s = (if s = SERIAL_STOPBIT_ONE then 0 else 0x40)"
definition fcode :: "int \<Rightarrow> u32" where "fcode f = (if f = SERIAL_FLOW_RTSCTS then 0x80000000 else 0)"
definition xcode :: "int \<Rightarrow> u32" where "xcode f = (if f = SERIAL_FLOW_XONXOFF then 0x1C00 else 0)"

lemmas codes = dcode_def pcode_def icode_def scode_def fcode_def xcode_def

lemma set_data: "b \<in> {SERIAL_DATABIT_5, SERIAL_DATABIT_6, SERIAL_DATABIT_7, SERIAL_DATABIT_8} \<Longrightarrow>
    iSerialTermiosSetDataBits (Some ts) b = (0, Some (ts\<lparr>c_cflag := field 0x30 (dcode b) (c_cflag ts)\<rparr>))"
  by (auto simp: iSerialTermiosSetDataBits_def serial_enums termios_bits field_def dcode_def Let_def)

lemma set_parity: "p \<in> {SERIAL_PARITY_NONE, SERIAL_PARITY_EVEN, SERIAL_PARITY_ODD} \<Longrightarrow>
    iSerialTermiosSetParity (Some ts) p =
      (0, Some (ts\<lparr>c_cflag := field 0x300 (pcode p) (c_cflag ts), c_iflag := field 0x10 (icode p) (c_iflag ts)\<rparr>))"
  using field_or(1) [of "c_cflag ts" "0x200" "0x100"] field_or(2) [of "c_cflag ts" "0x300"] field_or(2) [of "c_iflag ts" "0x10"]
  by (auto simp: iSerialTermiosSetParity_def serial_enums termios_bits pcode_def icode_def Let_def field_def)

lemma set_stop: "s \<in> {SERIAL_STOPBIT_ONE, SERIAL_STOPBIT_TWO} \<Longrightarrow>
    iSerialTermiosSetStopBits (Some ts) s = (0, Some (ts\<lparr>c_cflag := field 0x40 (scode s) (c_cflag ts)\<rparr>))"
  using field_or(2) [of "c_cflag ts" "0x40"]
  by (auto simp: iSerialTermiosSetStopBits_def serial_enums termios_bits scode_def field_def)

lemma set_flow: "f \<in> {SERIAL_FLOW_NONE, SERIAL_FLOW_RTSCTS, SERIAL_FLOW_XONXOFF, SERIAL_FLOW_RS485_RTS_AFTER_SEND,
      SERIAL_FLOW_RS485_RTS_ON_SEND} \<Longrightarrow>
    iSerialTermiosSetFlow (Some ts) f =
      (0, Some (ts\<lparr>c_cflag := field 0x80000000 (fcode f) (c_cflag ts), c_iflag := field 0x1C00 (xcode f) (c_iflag ts)\<rparr>))"
  using field_or(2) [of "c_cflag ts" "0x80000000"] field_or(2) [of "c_iflag ts" "0x1C00"]
  by (auto simp: iSerialTermiosSetFlow_def serial_enums termios_bits fcode_def xcode_def field_def)

definition with_ios :: "xSerialIos \<Rightarrow> termios \<Rightarrow> termios" where
  "with_ios ios ts = ts\<lparr>
     c_cflag := field 0x80000000 (fcode (sio_flow ios)) (field 0x40 (scode (sio_sbits ios))
       (field 0x300 (pcode (sio_parity ios)) (field 0x30 (dcode (sio_dbits ios)) (c_cflag ts)))),
     c_iflag := field 0x1C00 (xcode (sio_flow ios)) (field 0x10 (icode (sio_parity ios)) (c_iflag ts)),
     c_ispeed := eSerialIntToSpeed (sio_baud ios), c_ospeed := eSerialIntToSpeed (sio_baud ios)\<rparr>"

lemma set_baud: "b \<in> fst ` set serial_speeds \<Longrightarrow>
    iSerialTermiosSetBaudrate (Some ts) b = (0, Some (ts\<lparr>c_ispeed := eSerialIntToSpeed b, c_ospeed := eSerialIntToSpeed b\<rparr>))"
  using speeds_back(1) by (simp add: iSerialTermiosSetBaudrate_def Let_def)

lemma termios_set:
  assumes "valid_ios ios"
  shows "iSerialTermiosSetAttr (Some ts) ios = (0, Some (with_ios ios ts))"
  using assms unfolding valid_ios_def
  by (simp only: iSerialTermiosSetAttr_def then_ok_def option.case fst_conv snd_conv if_True simp_thms set_baud set_data
      set_parity set_stop set_flow) (simp add: with_ios_def)

lemma code_masks:
  "dcode b AND 0x30 = dcode b \<and> pcode p AND 0x300 = pcode p \<and> scode s AND 0x40 = scode s \<and>
   fcode f AND 0x80000000 = fcode f \<and> xcode f AND 0x1C00 = xcode f \<and> icode p AND 0x10 = icode p"
  if "b \<in> {SERIAL_DATABIT_5, SERIAL_DATABIT_6, SERIAL_DATABIT_7, SERIAL_DATABIT_8}"
  using that by (auto simp: codes serial_enums)

text \<open>What the readers find, and what is kept.\<close>

lemma with_ios_fields:
  assumes "valid_ios ios"
  shows "c_cflag (with_ios ios ts) AND 0x30 = dcode (sio_dbits ios)"
    "c_cflag (with_ios ios ts) AND 0x300 = pcode (sio_parity ios)"
    "c_cflag (with_ios ios ts) AND 0x40 = scode (sio_sbits ios)"
    "c_cflag (with_ios ios ts) AND 0x80000000 = fcode (sio_flow ios)"
    "c_iflag (with_ios ios ts) AND 0x1C00 = xcode (sio_flow ios)"
    "c_cflag (with_ios ios ts) AND NOT 0x80000370 = c_cflag ts AND NOT 0x80000370"
    "c_iflag (with_ios ios ts) AND NOT 0x1C10 = c_iflag ts AND NOT 0x1C10"
  using assms code_masks [of "sio_dbits ios" "sio_parity ios" "sio_sbits ios" "sio_flow ios"]
  by (simp_all add: with_ios_def valid_ios_def field_get field_other)

definition port_flow :: "int \<Rightarrow> int" where
  "port_flow f = (if f = SERIAL_FLOW_RTSCTS \<or> f = SERIAL_FLOW_XONXOFF then f else SERIAL_FLOW_NONE)"

lemma termios_get:
  assumes v: "valid_ios ios"
  shows "iSerialTermiosGetBaudrate (Some (with_ios ios ts)) = sio_baud ios"
    "iSerialTermiosGetDataBits (Some (with_ios ios ts)) = sio_dbits ios"
    "iSerialTermiosGetParity (Some (with_ios ios ts)) = sio_parity ios"
    "iSerialTermiosGetStopBits (Some (with_ios ios ts)) = sio_sbits ios"
    "iSerialTermiosGetFlow (Some (with_ios ios ts)) = port_flow (sio_flow ios)"
proof -
  have "c_ospeed (with_ios ios ts) = eSerialIntToSpeed (sio_baud ios)" by (simp add: with_ios_def)
  then show "iSerialTermiosGetBaudrate (Some (with_ios ios ts)) = sio_baud ios"
    using v speeds_back(2) by (simp add: iSerialTermiosGetBaudrate_def valid_ios_def)
  note f = with_ios_fields [OF v, of ts]
  show "iSerialTermiosGetDataBits (Some (with_ios ios ts)) = sio_dbits ios"
    using v f(1) by (auto simp: iSerialTermiosGetDataBits_def valid_ios_def termios_bits serial_enums dcode_def)
  show "iSerialTermiosGetParity (Some (with_ios ios ts)) = sio_parity ios"
    using v f(2) by (auto simp: iSerialTermiosGetParity_def valid_ios_def termios_bits serial_enums pcode_def)
  show "iSerialTermiosGetStopBits (Some (with_ios ios ts)) = sio_sbits ios"
    using v f(3) by (auto simp: iSerialTermiosGetStopBits_def valid_ios_def termios_bits serial_enums scode_def)
  show "iSerialTermiosGetFlow (Some (with_ios ios ts)) = port_flow (sio_flow ios)"
    using v f(4,5) by (auto simp: iSerialTermiosGetFlow_def valid_ios_def termios_bits serial_enums fcode_def xcode_def port_flow_def)
qed

lemma flow_again:
  assumes "valid_ios ios"
  shows "iSerialTermiosSetFlow (Some (with_ios ios ts)) (sio_flow ios) = (0, Some (with_ios ios ts))"
proof -
  have twice: "field m v (field m v x) = field m v x" for m v x
    unfolding field_def by (rule bit_word_eqI) (auto simp: bit_simps)
  show ?thesis
    using assms set_flow [of "sio_flow ios" "with_ios ios ts"] unfolding valid_ios_def
    by (simp add: with_ios_def twice)
qed

lemma setters_refuse:
  "b \<notin> fst ` set serial_speeds \<Longrightarrow> iSerialTermiosSetBaudrate (Some ts) b = (-2, Some ts)"
  "b \<notin> {SERIAL_DATABIT_5, SERIAL_DATABIT_6, SERIAL_DATABIT_7, SERIAL_DATABIT_8} \<Longrightarrow>
    iSerialTermiosSetDataBits (Some ts) b = (-1, Some ts)"
  "p \<notin> {SERIAL_PARITY_NONE, SERIAL_PARITY_EVEN, SERIAL_PARITY_ODD} \<Longrightarrow> iSerialTermiosSetParity (Some ts) p = (-1, Some ts)"
  "s \<notin> {SERIAL_STOPBIT_ONE, SERIAL_STOPBIT_TWO} \<Longrightarrow> iSerialTermiosSetStopBits (Some ts) s = (-1, Some ts)"
  "f \<notin> {SERIAL_FLOW_NONE, SERIAL_FLOW_RTSCTS, SERIAL_FLOW_XONXOFF, SERIAL_FLOW_RS485_RTS_AFTER_SEND,
      SERIAL_FLOW_RS485_RTS_ON_SEND} \<Longrightarrow> iSerialTermiosSetFlow (Some ts) f = (-1, Some ts)"
proof -
  assume "b \<notin> fst ` set serial_speeds"
  then have "eSerialIntToSpeed b = -1" by (simp add: eSerialIntToSpeed_def map_of_eq_None_iff [THEN iffD2])
  then show "iSerialTermiosSetBaudrate (Some ts) b = (-2, Some ts)" by (simp add: iSerialTermiosSetBaudrate_def EBADBAUD_def)
qed (simp_all add: iSerialTermiosSetDataBits_def iSerialTermiosSetParity_def iSerialTermiosSetStopBits_def
    iSerialTermiosSetFlow_def Let_def)

lemma termios_refuse:
  assumes "\<not> valid_ios ios"
  shows "\<exists>r tsp. iSerialTermiosSetAttr (Some ts) ios = (r, Some tsp) \<and> r < 0"
  using assms unfolding valid_ios_def
  by (cases "sio_baud ios \<in> fst ` set serial_speeds";
      cases "sio_dbits ios \<in> {SERIAL_DATABIT_5, SERIAL_DATABIT_6, SERIAL_DATABIT_7, SERIAL_DATABIT_8}";
      cases "sio_parity ios \<in> {SERIAL_PARITY_NONE, SERIAL_PARITY_EVEN, SERIAL_PARITY_ODD}";
      cases "sio_sbits ios \<in> {SERIAL_STOPBIT_ONE, SERIAL_STOPBIT_TWO}";
      simp only: iSerialTermiosSetAttr_def option.case then_ok_def set_baud set_data set_parity set_stop setters_refuse
        fst_conv snd_conv if_True simp_thms; simp)

section \<open>Ports\<close>

text \<open>A terminal keeps the structure it is given.  Its driver may know RS485, then it keeps the flags
  of \<open>TIOCSRS485\<close>, or not, then both calls fail.\<close>

definition tty_ok :: "'w tty \<Rightarrow> int \<Rightarrow> ('w \<Rightarrow> termios) \<Rightarrow> ('w \<Rightarrow> u32 option) \<Rightarrow> bool" where
  "tty_ok Y fd att rs \<longleftrightarrow>
     (\<forall>w. \<exists>w1. y_getattr Y fd w = (0, att w, w1) \<and> att w1 = att w \<and> rs w1 = rs w) \<and>
     (\<forall>ts w. \<exists>w1. y_setattr Y fd ts w = (0, w1) \<and> att w1 = ts \<and> rs w1 = rs w) \<and>
     (\<forall>w. att (y_flush Y fd w) = att w \<and> rs (y_flush Y fd w) = rs w) \<and>
     (\<forall>w. \<exists>r v w1. y_get485 Y fd w = (r, v, w1) \<and> (case rs w of None \<Rightarrow> r = -1 | Some u \<Rightarrow> r = 0 \<and> v = u) \<and>
        att w1 = att w \<and> rs w1 = rs w) \<and>
     (\<forall>u w. \<exists>w1. y_set485 Y fd u w = (if rs w = None then -1 else 0, w1) \<and> att w1 = att w \<and>
        rs w1 = (if rs w = None then None else Some u))"

lemma tty_laws:
  assumes "tty_ok Y fd att rs"
  shows "\<exists>w1. y_getattr Y fd w = (0, att w, w1) \<and> att w1 = att w \<and> rs w1 = rs w"
    "\<exists>w1. y_setattr Y fd ts w = (0, w1) \<and> att w1 = ts \<and> rs w1 = rs w"
    "att (y_flush Y fd w) = att w" "rs (y_flush Y fd w) = rs w"
    "\<exists>r v w1. y_get485 Y fd w = (r, v, w1) \<and> (case rs w of None \<Rightarrow> r = -1 | Some u \<Rightarrow> r = 0 \<and> v = u) \<and>
        att w1 = att w \<and> rs w1 = rs w"
    "\<exists>w1. y_set485 Y fd u w = (if rs w = None then -1 else 0, w1) \<and> att w1 = att w \<and>
        rs w1 = (if rs w = None then None else Some u)"
  using assms unfolding tty_ok_def by blast+

lemma port_set_ok:
  assumes ok: "tty_ok Y fd att rs" and e: "edit (Some (att w)) = (r, Some ts)"
  shows "\<exists>w1. port_set Y fd edit w = (r, w1) \<and> att w1 = (if r = 0 then ts else att w) \<and> rs w1 = rs w"
proof -
  obtain w1 where w1: "y_getattr Y fd w = (0, att w, w1)" "att w1 = att w" "rs w1 = rs w"
    using tty_laws(1) [OF ok] by blast
  obtain w2 where w2: "y_setattr Y fd ts (y_flush Y fd w1) = (0, w2)" "att w2 = ts" "rs w2 = rs w"
    using tty_laws(2) [OF ok, of ts "y_flush Y fd w1"] w1(3) by (auto simp: tty_laws(4) [OF ok])
  show ?thesis by (simp add: port_set_def w1 w2 e)
qed

definition rs485_of :: "int \<Rightarrow> u32" where
  "rs485_of f = (if f = SERIAL_FLOW_RS485_RTS_AFTER_SEND then 5 else if f = SERIAL_FLOW_RS485_RTS_ON_SEND then 3 else 0)"

abbreviation is_rs485 :: "int \<Rightarrow> bool" where
  "is_rs485 f \<equiv> f = SERIAL_FLOW_RS485_RTS_AFTER_SEND \<or> f = SERIAL_FLOW_RS485_RTS_ON_SEND"

lemma port_set_flow:
  assumes ok: "tty_ok Y fd att rs" and v: "valid_ios ios" and a: "att w = with_ios ios ts"
  shows "\<exists>w1. iSerialSetFlow Y fd (sio_flow ios) w = (if is_rs485 (sio_flow ios) \<and> rs w = None then -1 else 0, w1) \<and>
    att w1 = with_ios ios ts \<and> rs w1 = (if rs w = None then None else Some (rs485_of (sio_flow ios)))"
proof -
  obtain w1 where w1: "port_set Y fd (\<lambda>ts. iSerialTermiosSetFlow ts (sio_flow ios)) w = (0, w1)" "att w1 = with_ios ios ts"
      "rs w1 = rs w"
    using port_set_ok [OF ok, of "\<lambda>ts. iSerialTermiosSetFlow ts (sio_flow ios)" w] a flow_again [OF v] by auto
  obtain w2 where w2: "y_set485 Y fd (rs485_of (sio_flow ios)) w1 = (if rs w = None then -1 else 0, w2)"
      "att w2 = with_ios ios ts" "rs w2 = (if rs w = None then None else Some (rs485_of (sio_flow ios)))"
    using tty_laws(6) [OF ok, of "rs485_of (sio_flow ios)" w1] w1(2,3) by auto
  have flags: "SER_RS485_ENABLED OR (if sio_flow ios = SERIAL_FLOW_RS485_RTS_AFTER_SEND then SER_RS485_RTS_AFTER_SEND
      else SER_RS485_RTS_ON_SEND) = rs485_of (sio_flow ios)" if "is_rs485 (sio_flow ios)"
    using that by (auto simp: rs485_of_def termios_bits serial_enums)
  show ?thesis
  proof (cases "is_rs485 (sio_flow ios)")
    case True
    with w2 show ?thesis by (simp add: iSerialSetFlow_def w1(1) flags [OF True])
  next
    case False
    then have "rs485_of (sio_flow ios) = 0" by (simp add: rs485_of_def)
    with False w2 show ?thesis by (simp add: iSerialSetFlow_def w1(1))
  qed
qed

lemma termios_get_attr:
  assumes "valid_ios ios"
  shows "iSerialTermiosGetAttr (Some (with_ios ios ts)) junk = (0, ios\<lparr>sio_flow := port_flow (sio_flow ios)\<rparr>)"
proof -
  have "\<forall>b \<in> fst ` set serial_speeds. 0 \<le> b" by (simp add: serial_speeds_def)
  then have "0 \<le> sio_baud ios" using assms unfolding valid_ios_def by blast
  moreover have "0 \<le> sio_dbits ios" "0 \<le> sio_parity ios" "0 \<le> sio_sbits ios" "0 \<le> port_flow (sio_flow ios)"
    using assms [unfolded valid_ios_def, THEN conjunct2] by (auto simp: serial_enums port_flow_def)
  ultimately show ?thesis
    by (simp add: iSerialTermiosGetAttr_def get_field_def termios_get [OF assms])
qed

lemma port_get_flow:
  assumes ok: "tty_ok Y fd att rs" and v: "valid_ios ios" and a: "att w = with_ios ios ts"
    and rs: "rs w = (if is_rs485 (sio_flow ios) \<or> rs w \<noteq> None then Some (rs485_of (sio_flow ios)) else None)"
  shows "\<exists>w1. eSerialGetFlow Y fd w = (sio_flow ios, w1)"
proof -
  obtain w1 where w1: "y_getattr Y fd w = (0, with_ios ios ts, w1)" "rs w1 = rs w"
    using tty_laws(1) [OF ok, of w] a by auto
  obtain r u w2 where w2: "y_get485 Y fd w1 = (r, u, w2)" "case rs w of None \<Rightarrow> r = -1 | Some v \<Rightarrow> r = 0 \<and> u = v"
    using tty_laws(5) [OF ok, of w1] w1(2) by auto
  show ?thesis
  proof (cases "is_rs485 (sio_flow ios)")
    case True
    then have "r = 0" "u = rs485_of (sio_flow ios)" using w2(2) rs by simp_all
    with True show ?thesis
      by (auto simp: eSerialGetFlow_def w1(1) w2(1) termios_get [OF v] port_flow_def rs485_of_def serial_enums termios_bits)
  next
    case False
    then have "rs485_of (sio_flow ios) = 0" by (simp add: rs485_of_def)
    then have "r = 0 \<Longrightarrow> u = 0" using w2(2) rs by (auto split: option.splits if_splits)
    moreover have "port_flow (sio_flow ios) = sio_flow ios" using v False by (auto simp: port_flow_def valid_ios_def)
    ultimately show ?thesis by (auto simp: eSerialGetFlow_def w1(1) w2(1) termios_get [OF v] Let_def)
  qed
qed

text \<open>C27. On a terminal that keeps its settings, \<open>iSerialSetAttr\<close> accepts exactly the
  settings of the documentation (the listed speeds, 5 to 8 bits, no, even or odd parity, 1 or 2 stop bits,
  five kinds of flow control, two of them only if the driver knows RS485); \<open>iSerialGetAttr\<close> then reads
  them back, and the bits of the structure that do not belong to them are unchanged.  A refused setting
  other than RS485 leaves the terminal as it was.\<close>

theorem serial_roundtrip:
  assumes ok: "tty_ok Y fd att rs"
  shows "if \<not> valid_ios ios then \<exists>r w1. iSerialSetAttr Y fd ios w = (r, w1) \<and> r < 0 \<and> att w1 = att w \<and> rs w1 = rs w
    else if is_rs485 (sio_flow ios) \<and> rs w = None then \<exists>w1. iSerialSetAttr Y fd ios w = (-1, w1)
    else \<exists>w1 w2. iSerialSetAttr Y fd ios w = (0, w1) \<and> iSerialGetAttr Y fd junk w1 = (0, ios, w2) \<and>
      c_oflag (att w1) = c_oflag (att w) \<and> c_lflag (att w1) = c_lflag (att w) \<and>
      c_cflag (att w1) AND NOT 0x80000370 = c_cflag (att w) AND NOT 0x80000370 \<and>
      c_iflag (att w1) AND NOT 0x1C10 = c_iflag (att w) AND NOT 0x1C10"
proof (cases "valid_ios ios")
  case False
  obtain r tsp where r: "iSerialTermiosSetAttr (Some (att w)) ios = (r, Some tsp)" "r < 0"
    using termios_refuse [OF False] by blast
  obtain w1 where "port_set Y fd (\<lambda>ts. iSerialTermiosSetAttr ts ios) w = (r, w1)" "att w1 = att w" "rs w1 = rs w"
    using port_set_ok [OF ok, of "\<lambda>ts. iSerialTermiosSetAttr ts ios" w r tsp] r by auto
  with False r(2) show ?thesis by (simp add: iSerialSetAttr_def)
next
  case True
  let ?ts = "with_ios ios (att w)"
  obtain w1 where w1: "port_set Y fd (\<lambda>ts. iSerialTermiosSetAttr ts ios) w = (0, w1)" "att w1 = ?ts" "rs w1 = rs w"
    using port_set_ok [OF ok, of "\<lambda>ts. iSerialTermiosSetAttr ts ios" w] termios_set [OF True] by auto
  obtain w2 where w2: "iSerialSetFlow Y fd (sio_flow ios) w1 = (if is_rs485 (sio_flow ios) \<and> rs w = None then -1 else 0, w2)"
      "att w2 = ?ts" "rs w2 = (if rs w = None then None else Some (rs485_of (sio_flow ios)))"
    using port_set_flow [OF ok True w1(2)] w1(3) by auto
  have sets: "iSerialSetAttr Y fd ios w = (if is_rs485 (sio_flow ios) \<and> rs w = None then -1 else 0, w2)"
    by (simp add: iSerialSetAttr_def w1(1) w2(1))
  show ?thesis
  proof (cases "is_rs485 (sio_flow ios) \<and> rs w = None")
    case True
    with sets \<open>valid_ios ios\<close> show ?thesis by auto
  next
    case False
    obtain w3 where w3: "y_getattr Y fd w2 = (0, ?ts, w3)" "att w3 = ?ts" "rs w3 = rs w2"
      using tty_laws(1) [OF ok, of w2] w2(2) by auto
    obtain w4 where w4: "eSerialGetFlow Y fd w3 = (sio_flow ios, w4)"
      using port_get_flow [OF ok \<open>valid_ios ios\<close> w3(2)] w3(3) w2(3) False by (auto split: if_splits)
    have "iSerialTermiosGetAttr (Some ?ts) junk = (0, ios\<lparr>sio_flow := port_flow (sio_flow ios)\<rparr>)"
      using \<open>valid_ios ios\<close> by (rule termios_get_attr)
    then have "iSerialGetAttr Y fd junk w2 = (0, ios, w4)"
      by (simp add: iSerialGetAttr_def w3(1) w4)
    moreover have "c_oflag ?ts = c_oflag (att w)" "c_lflag ?ts = c_lflag (att w)" by (simp_all add: with_ios_def)
    moreover note with_ios_fields(6,7) [OF \<open>valid_ios ios\<close>, of "att w"]
    ultimately show ?thesis using sets w2(2) False \<open>valid_ios ios\<close> by auto
  qed
qed

text \<open>A terminal whose settings are the world.\<close>

definition ex_tty :: "(termios \<times> u32 option) tty" where
  "ex_tty = \<lparr>y_open = (\<lambda>_ w. (3, w)), y_close = (\<lambda>_ w. (0, w)), y_setfl = (\<lambda>_ w. w),
     y_getattr = (\<lambda>_ w. (0, fst w, w)), y_setattr = (\<lambda>_ ts w. (0, ts, snd w)), y_flush = (\<lambda>_ w. w),
     y_get485 = (\<lambda>_ w. case snd w of None \<Rightarrow> (-1, 0, w) | Some u \<Rightarrow> (0, u, w)),
     y_set485 = (\<lambda>_ u w. if snd w = None then (-1, w) else (0, fst w, Some u)),
     y_getm = (\<lambda>_ w. (None, w)), y_setm = (\<lambda>_ _ w. w), y_select = (\<lambda>_ _ w. (0, False, False, w)),
     y_avail = (\<lambda>_ w. (0, 0, w)), y_delay = (\<lambda>_ w. w)\<rparr>"

lemma ex_tty_ok: "tty_ok ex_tty fd fst snd"
  by (auto simp: tty_ok_def ex_tty_def split: option.split)

definition ex_ios :: xSerialIos where
  "ex_ios = \<lparr>sio_baud = 19200, sio_dbits = 7, sio_parity = SERIAL_PARITY_EVEN, sio_sbits = 1,
     sio_flow = SERIAL_FLOW_RS485_RTS_ON_SEND\<rparr>"

definition ex_termios :: termios where
  "ex_termios = \<lparr>c_iflag = 0x500, c_oflag = 5, c_cflag = 0xCBD, c_lflag = 0x8A3B, c_vmin = 1, c_vtime = 0,
     c_ispeed = 13, c_ospeed = 13\<rparr>"

theorem serial_roundtrip_witness:
  "(\<exists>w1 w2. iSerialSetAttr ex_tty 3 ex_ios (ex_termios, Some 0) = (0, w1) \<and>
      iSerialGetAttr ex_tty 3 (ex_ios\<lparr>sio_baud := 0\<rparr>) w1 = (0, ex_ios, w2) \<and> c_oflag (fst w1) = 5) \<and>
   (\<exists>w1. iSerialSetAttr ex_tty 3 ex_ios (ex_termios, None) = (-1, w1))"
proof -
  have "valid_ios ex_ios" by (simp add: valid_ios_def ex_ios_def serial_enums serial_speeds_def)
  then show ?thesis
    using serial_roundtrip [OF ex_tty_ok, of ex_ios 3 "(ex_termios, Some 0)" "ex_ios\<lparr>sio_baud := 0\<rparr>"]
      serial_roundtrip [OF ex_tty_ok, of ex_ios 3 "(ex_termios, None)"]
    by (auto simp: ex_ios_def ex_termios_def serial_enums)
qed

end
