(* ===== verification/Tinfo.thy ===== *)
theory Tinfo
  imports C_String Serial
begin

text \<open>
  The receiver of the French electricity meters (\<open>src/src/tinfo.c\<close>, \<open>src/include/sysio/tinfo.h\<close>): the
  bytes of the serial line are collected from a STX to an ETX, the check sum of every group is verified,
  the groups are decoded into a frame, and the frame is given to the callbacks.  Pointers into the buffer
  are indices.  The meter's text has 7 bits, so that characters are bytes.
\<close>

section \<open>Data\<close>

definition eTinfoFrameBlue :: u32 where "eTinfoFrameBlue = 1"
definition eTinfoOpTarifUnknown :: u32 where "eTinfoOpTarifUnknown = 0"
definition eTinfoOpTarifBase :: u32 where "eTinfoOpTarifBase = 1"
definition eTinfoOpTarifHc :: u32 where "eTinfoOpTarifHc = 2"
definition eTinfoOpTarifEjp :: u32 where "eTinfoOpTarifEjp = 3"
definition eTinfoOpTarifTempo :: u32 where "eTinfoOpTarifTempo = 4"
definition eTinfoFlagShort :: u32 where "eTinfoFlagShort = 0x0001"
definition eTinfoFlagPapp :: u32 where "eTinfoFlagPapp = 0x0002"
definition eTinfoFlagAdps :: u32 where "eTinfoFlagAdps = 0x0100"
definition eTinfoFlagNewPtec :: u32 where "eTinfoFlagNewPtec = 0x0200"
definition eTinfoFlagTempoNewColor :: u32 where "eTinfoFlagTempoNewColor = 0x0400"
definition eTinfoFlagNewMotEtat :: u32 where "eTinfoFlagNewMotEtat = 0x0800"
definition eTinfoPtecUnknown :: u32 where "eTinfoPtecUnknown = 0"
definition eTinfoPtecTh :: u32 where "eTinfoPtecTh = 1"
definition eTinfoPtecHpJr :: u32 where "eTinfoPtecHpJr = 11"
definition eTinfoColorUnknown :: u32 where "eTinfoColorUnknown = 0"
definition eTinfoColorBlue :: u32 where "eTinfoColorBlue = 1"
definition eTinfoColorRed :: u32 where "eTinfoColorRed = 3"
definition eTinfoCbFrame :: nat where "eTinfoCbFrame = 0"
definition eTinfoCbAdps :: nat where "eTinfoCbAdps = 1"
definition eTinfoCbPtec :: nat where "eTinfoCbPtec = 2"
definition eTinfoCbMotEtat :: nat where "eTinfoCbMotEtat = 3"
definition eTinfoCbTempo :: nat where "eTinfoCbTempo = 4"

definition TINFO_BUFFER_SIZE :: nat where "TINFO_BUFFER_SIZE = 1024"
definition TINFO_TIMEOUT :: int where "TINFO_TIMEOUT = 17"
definition TI_STX :: u8 where "TI_STX = 0x02"
definition TI_ETX :: u8 where "TI_ETX = 0x03"
definition TI_EOT :: u8 where "TI_EOT = 0x04"
definition TI_LF :: u8 where "TI_LF = 0x0A"
definition TI_CR :: u8 where "TI_CR = 0x0D"

lemmas tinfo_chars = TI_STX_def TI_ETX_def TI_EOT_def TI_LF_def TI_CR_def

text \<open>The union \<open>uTinfoTarif\<close> by its words of 8 bytes, little-endian, and the fields behind them.\<close>

record tarif =
  tr_w :: "u64 list"
  tr_demain :: u32
  tr_pgm1 :: u8
  tr_pgm2 :: u8

text \<open>The union \<open>xTinfoFrame\<close> by the fields of its longest member, \<open>xTinfoFrameBlue\<close>.  The fields of
  \<open>xTinfoFrameBlueShort\<close> lie on them: with a \<open>long\<close> of 8 bytes, \<open>nph\<close> on \<open>optarif\<close>, \<open>iinst\<close> on \<open>ptec\<close>,
  \<open>isousc\<close> and \<open>nph\<close>, \<open>adir\<close> on \<open>iinst\<close>.\<close>

record xTinfoFrame =
  tf_frame :: u32
  tf_time :: int
  tf_flag :: u32
  tf_adco :: u64
  tf_optarif :: u32
  tf_ptec :: u32
  tf_isousc :: u32
  tf_nph :: u32
  tf_iinst :: "u32 list"
  tf_adps :: u32
  tf_imax :: "u32 list"
  tf_pmax :: u32
  tf_papp :: u32
  tf_motdetat :: u32
  tf_ppot :: u32
  tf_tarif :: tarif

definition frame_zero :: xTinfoFrame where
  "frame_zero = \<lparr>tf_frame = 0, tf_time = 0, tf_flag = 0, tf_adco = 0, tf_optarif = 0, tf_ptec = 0, tf_isousc = 0,
     tf_nph = 0, tf_iinst = [0, 0, 0], tf_adps = 0, tf_imax = [0, 0, 0], tf_pmax = 0, tf_papp = 0, tf_motdetat = 0,
     tf_ppot = 0, tf_tarif = \<lparr>tr_w = replicate 6 0, tr_demain = 0, tr_pgm1 = 0, tr_pgm2 = 0\<rparr>\<rparr>"

definition short_iinst :: "nat \<Rightarrow> u32 \<Rightarrow> xTinfoFrame \<Rightarrow> xTinfoFrame" where
  "short_iinst phi v f =
     (if phi = 0 then f\<lparr>tf_ptec := v\<rparr> else if phi = 1 then f\<lparr>tf_isousc := v\<rparr> else f\<lparr>tf_nph := v\<rparr>)"

text \<open>Callbacks are known by numbers.\<close>

record xTinfo =
  ti_cb :: "nat \<Rightarrow> nat option"
  ti_uctx :: "nat option"
  ti_serial :: int
  ti_buf :: "u8 list"          \<comment> \<open>\<open>char buf[TINFO_BUFFER_SIZE]\<close>\<close>
  ti_buflen :: nat
  ti_pchar :: u8
  ti_started :: bool
  ti_time :: int
  ti_ht :: u8
  ti_demain :: u32
  ti_ptec :: u32
  ti_motdetat :: u32

record 'w tinfo_env =
  te_call :: "nat \<Rightarrow> xTinfo \<Rightarrow> xTinfoFrame \<Rightarrow> 'w \<Rightarrow> int \<times> xTinfo \<times> xTinfoFrame \<times> 'w"
  te_time :: "'w \<Rightarrow> int \<times> 'w"
  te_tty :: "'w tty"
  te_read :: "int \<Rightarrow> int \<Rightarrow> 'w \<Rightarrow> u8 list option \<times> 'w"

definition sPtecList :: "string list" where
  "sPtecList = [''TH..'', ''HC..'', ''HP..'', ''HN..'', ''PM..'', ''HCJB'', ''HCJW'', ''HCJR'', ''HPJB'', ''HPJW'', ''HPJR'']"

definition sTempoColorList :: "string list" where
  "sTempoColorList = [''BLEU'', ''BLAN'', ''ROUG'']"

section \<open>Decoding\<close>

text \<open>Labels and data are the strings of the buffer \<open>b\<close> from the indices \<open>l\<close> and \<open>d\<close>.\<close>

definition on :: "bool run \<Rightarrow> 'a run \<Rightarrow> 'a run \<Rightarrow> 'a run" where
  "on c x y = cbind c (\<lambda>v. if v then x else y)"

definition is_str :: "u8 list \<Rightarrow> nat \<Rightarrow> string \<Rightarrow> bool run" where
  "is_str b i s = c_streq (drop i b) (ascii s)"

definition starts :: "u8 list \<Rightarrow> nat \<Rightarrow> string \<Rightarrow> bool run" where
  "starts b i s = c_prefix (drop i b) (ascii s)"

text \<open>\<open>if (iStrToLong (data, &n, base) == 0) { ... }\<close>\<close>

definition num :: "int \<Rightarrow> u8 list \<Rightarrow> nat \<Rightarrow> (int \<Rightarrow> 'f run) \<Rightarrow> 'f \<Rightarrow> 'f run" where
  "num base b d k f = cbind (iStrToLong base (drop d b)) (\<lambda>r. case r of Some n \<Rightarrow> k n | None \<Rightarrow> Inr f)"

text \<open>\<open>phi = data[i] - '1'\<close>, when it is a phase.\<close>

definition phase :: "u8 list \<Rightarrow> nat \<Rightarrow> (nat \<Rightarrow> 'f) \<Rightarrow> 'f \<Rightarrow> 'f run" where
  "phase b i k f = cbind (rd b i) (\<lambda>c. Inr (if 0x31 \<le> c \<and> c \<le> 0x33 then k (unat (c - 0x31)) else f))"

definition prvvReadBlueShortItem :: "u8 list \<Rightarrow> nat \<Rightarrow> nat \<Rightarrow> xTinfoFrame \<Rightarrow> xTinfoFrame run" where
  "prvvReadBlueShortItem b l d f =
     on (starts b l ''ADIR'')
       (num 10 b d (\<lambda>n. phase b (d + 4) (\<lambda>phi. f\<lparr>tf_iinst := (tf_iinst f)[phi := word_of_int n]\<rparr>) f) f)
    (on (is_str b l ''ADCO'')
       (cbind (iStrToLongLong 10 (drop d b)) (\<lambda>r. Inr (case r of Some n \<Rightarrow> f\<lparr>tf_adco := word_of_int n\<rparr> | None \<Rightarrow> f)))
    (on (starts b l ''IINST'')
       (num 10 b d (\<lambda>n. phase b (d + 5) (\<lambda>phi. short_iinst phi (word_of_int n) f) f) f)
       (Inr f)))"

text \<open>The fields of the tariff.\<close>

definition set_w :: "nat \<Rightarrow> int \<Rightarrow> xTinfoFrame \<Rightarrow> xTinfoFrame" where
  "set_w i n f = f\<lparr>tf_tarif := (tf_tarif f)\<lparr>tr_w := (tr_w (tf_tarif f))[i := word_of_int n]\<rparr>\<rparr>"

definition set_low :: "nat \<Rightarrow> u64 \<Rightarrow> xTinfoFrame \<Rightarrow> xTinfoFrame" where
  "set_low m v f =
     (let w = tr_w (tf_tarif f) in
      f\<lparr>tf_tarif := (tf_tarif f)\<lparr>tr_w := w[2 := (w ! 2 AND NOT (mask m)) OR v]\<rparr>\<rparr>)"

fun find_text :: "u8 list \<Rightarrow> nat \<Rightarrow> string list \<Rightarrow> u32 \<Rightarrow> u32 option run" where
  "find_text b d [] k = Inr None"
| "find_text b d (s # ss) k = on (is_str b d s) (Inr (Some k)) (find_text b d ss (k + 1))"

definition read_optarif :: "u8 list \<Rightarrow> nat \<Rightarrow> xTinfoFrame \<Rightarrow> xTinfoFrame run" where
  "read_optarif b d f =
     on (is_str b d ''BASE'') (Inr (f\<lparr>tf_optarif := eTinfoOpTarifBase\<rparr>))
    (on (is_str b d ''HC..'') (Inr (f\<lparr>tf_optarif := eTinfoOpTarifHc\<rparr>))
    (on (is_str b d ''EJP.'') (Inr (f\<lparr>tf_optarif := eTinfoOpTarifEjp\<rparr>))
    (on (starts b d ''BBR'')
       (cbind (rd b (d + 3)) (\<lambda>c. Inr (f\<lparr>tf_optarif := eTinfoOpTarifTempo, tf_tarif := (tf_tarif f)\<lparr>
          tr_pgm1 := drop_bit 3 (c AND 0x18) + 0x40, tr_pgm2 := (c AND 0x7) + 0x30\<rparr>\<rparr>)))
       (Inr f))))"

text \<open>A current with the number of its phase behind the label, or without one.\<close>

definition read_phases ::
    "u8 list \<Rightarrow> nat \<Rightarrow> nat \<Rightarrow> (nat \<Rightarrow> u32 \<Rightarrow> xTinfoFrame \<Rightarrow> xTinfoFrame) \<Rightarrow> xTinfoFrame \<Rightarrow> xTinfoFrame run" where
  "read_phases b d k set_phase f =
     num 10 b d (\<lambda>n.
       cbind (c_strlen (drop d b)) (\<lambda>len.
         if len > k
         then phase b (d + k) (\<lambda>phi. set_phase phi (word_of_int n) (f\<lparr>tf_nph := 3\<rparr>)) f
         else Inr (set_phase 0 (word_of_int n) (f\<lparr>tf_nph := 1\<rparr>)))) f"

definition read_tarif :: "u8 list \<Rightarrow> nat \<Rightarrow> nat \<Rightarrow> xTinfoFrame \<Rightarrow> xTinfoFrame run" where
  "read_tarif b l d f =
     (let word = (\<lambda>i. num 10 b d (\<lambda>n. Inr (set_w i n f)) f) in
      if tf_optarif f = eTinfoOpTarifBase then on (is_str b l ''BASE'') (word 0) (Inr f)
      else if tf_optarif f = eTinfoOpTarifHc then
        on (is_str b l ''HCHC'') (word 0)
       (on (is_str b l ''HCHP'') (word 1)
       (on (is_str b l ''HHPHC'') (cbind (rd b d) (\<lambda>c. Inr (set_low 8 (ucast c) f))) (Inr f)))
      else if tf_optarif f = eTinfoOpTarifEjp then
        on (is_str b l ''EJPHN'') (word 0)
       (on (is_str b l ''EJPHPM'') (word 1)
       (on (is_str b l ''PEJP'') (num 10 b d (\<lambda>n. Inr (set_low 32 (ucast (word_of_int n :: u32)) f)) f) (Inr f)))
      else if tf_optarif f = eTinfoOpTarifTempo then
        on (is_str b l ''BBRHCJB'') (word 0)
       (on (is_str b l ''BBRHPJB'') (word 1)
       (on (is_str b l ''BBRHCJW'') (word 2)
       (on (is_str b l ''BBRHPJW'') (word 3)
       (on (is_str b l ''BBRHCJR'') (word 4)
       (on (is_str b l ''BBRHPJR'') (word 5)
       (on (is_str b l ''DEMAIN'')
          (cbind (find_text b d sTempoColorList eTinfoColorBlue) (\<lambda>r. Inr (case r of
             Some c \<Rightarrow> f\<lparr>tf_tarif := (tf_tarif f)\<lparr>tr_demain := c\<rparr>\<rparr> | None \<Rightarrow> f)))
          (Inr f)))))))
      else Inr f)"

definition prvvReadBlueItem :: "u8 list \<Rightarrow> nat \<Rightarrow> nat \<Rightarrow> xTinfoFrame \<Rightarrow> xTinfoFrame run" where
  "prvvReadBlueItem b l d f =
     on (is_str b l ''OPTARIF'') (read_optarif b d f)
    (on (is_str b l ''ISOUSC'') (num 10 b d (\<lambda>n. Inr (f\<lparr>tf_isousc := word_of_int n\<rparr>)) f)
    (on (is_str b l ''PTEC'')
       (cbind (find_text b d sPtecList eTinfoPtecTh) (\<lambda>r. Inr (case r of Some p \<Rightarrow> f\<lparr>tf_ptec := p\<rparr> | None \<Rightarrow> f)))
    (on (is_str b l ''PAPP'')
       (num 10 b d (\<lambda>n. Inr (f\<lparr>tf_papp := word_of_int n, tf_flag := tf_flag f OR eTinfoFlagPapp\<rparr>)) f)
    (on (starts b l ''IINST'')
       (read_phases b d 5 (\<lambda>phi n f. f\<lparr>tf_iinst := (tf_iinst f)[phi := n]\<rparr>) f)
    (on (starts b l ''IMAX'')
       (read_phases b d 4 (\<lambda>phi n f. f\<lparr>tf_imax := (tf_imax f)[phi := n]\<rparr>) f)
    (on (is_str b l ''MOTDETAT'') (num 16 b d (\<lambda>n. Inr (f\<lparr>tf_motdetat := word_of_int n\<rparr>)) f)
       (if tf_nph f = 3 then
          on (is_str b l ''PMAX'') (num 10 b d (\<lambda>n. Inr (f\<lparr>tf_pmax := word_of_int n\<rparr>)) f)
         (on (is_str b l ''PPOT'') (num 16 b d (\<lambda>n. Inr (f\<lparr>tf_ppot := word_of_int n\<rparr>)) f)
            (read_tarif b l d f))
        else
          on (is_str b l ''ADPS'')
            (num 10 b d (\<lambda>n. Inr (f\<lparr>tf_adps := word_of_int n, tf_flag := tf_flag f OR eTinfoFlagAdps\<rparr>)) f)
            (read_tarif b l d f))))))))"

text \<open>A group: its separator is overwritten with NUL.  Only a group of \<open>ADCO\<close> or \<open>ADIR\<close> starts a frame.\<close>

definition prvvReadItem :: "xTinfo \<Rightarrow> u8 list \<Rightarrow> nat \<Rightarrow> xTinfoFrame \<Rightarrow> (u8 list \<times> xTinfoFrame) run" where
  "prvvReadItem t b l f =
     cbind (c_strchr (ti_ht t) (drop l b)) (\<lambda>sep. case sep of None \<Rightarrow> Inl NullPointer | Some k \<Rightarrow>
       let sep = l + k; b = b[sep := 0]; d = sep + 1 in
       cbind
         (if tf_frame f = 0 then
            on (is_str b l ''ADCO'')
              (cbind (iStrToLongLong 10 (drop d b)) (\<lambda>r. Inr (case r of
                 Some n \<Rightarrow> f\<lparr>tf_frame := eTinfoFrameBlue, tf_adco := word_of_int n, tf_time := ti_time t\<rparr> | None \<Rightarrow> f)))
           (on (starts b l ''ADIR'')
              (prvvReadBlueShortItem b l d (f\<lparr>tf_frame := eTinfoFrameBlue, tf_time := ti_time t,
                 tf_flag := tf_flag f OR (eTinfoFlagShort OR eTinfoFlagAdps), tf_optarif := 3\<rparr>))
              (Inr f))
          else if tf_frame f = eTinfoFrameBlue then
            if tf_flag f AND eTinfoFlagShort \<noteq> 0 then prvvReadBlueShortItem b l d f else prvvReadBlueItem b l d f
          else Inr f)
         (\<lambda>f. Inr (b, f)))"

lemma prvvReadItem_length: "prvvReadItem t b l f = Inr (b1, f1) \<Longrightarrow> length b1 = length b"
  by (auto simp: prvvReadItem_def cbind_Inr_iff Let_def split: option.splits)

text \<open>The groups from index \<open>g\<close> on: each starts behind a LF, ends with a CR, and has its check sum before
  it.  Without a CR, \<open>end - 2\<close> is computed from NULL.\<close>

function split_groups :: "xTinfo \<Rightarrow> u8 list \<Rightarrow> nat \<Rightarrow> xTinfoFrame \<Rightarrow> (u8 list \<times> xTinfoFrame) run" where
  "split_groups t b g f =
     cbind (c_strchr TI_LF (drop g b)) (\<lambda>lf. case lf of None \<Rightarrow> Inr (b, f) | Some k \<Rightarrow>
       let group = g + k + 1 in
       cbind (c_strchr TI_CR (drop group b)) (\<lambda>cr. case cr of None \<Rightarrow> Inl NullPointer | Some e \<Rightarrow>
         let end = group + e in
         if end < 2 then Inl OutOfBounds
         else
           cbind (wr b (end - 2) 0) (\<lambda>b1.
           cbind (prvvReadItem t b1 group f) (\<lambda>(b2, f2).
             split_groups t b2 (end + 1) f2))))"
  by pat_completeness auto

termination
  by (relation "measure (\<lambda>(t, b, g, f). length b - g)")
    (auto dest!: c_strchr_bound prvvReadItem_length simp: wr_Inr_iff)

declare split_groups.simps [simp del]

section \<open>Frames\<close>

type_synonym 'w told = "int \<times> bool \<times> xTinfo \<times> xTinfoFrame \<times> 'w"

text \<open>The callback of a kind, if there is one: the result, whether some callback has been called.\<close>

definition tell :: "'w tinfo_env \<Rightarrow> nat \<Rightarrow> 'w told \<Rightarrow> 'w told" where
  "tell E kind s =
     (case s of (ret, processed, t, f, w) \<Rightarrow>
        case ti_cb t kind of
          Some c \<Rightarrow> let (ret, t, f, w) = te_call E c t f w in (ret, True, t, f, w)
        | None \<Rightarrow> s)"

definition tell_adps :: "'w tinfo_env \<Rightarrow> 'w told \<Rightarrow> 'w told" where
  "tell_adps E s =
     (case s of (ret, processed, t, f, w) \<Rightarrow> if tf_flag f AND eTinfoFlagAdps \<noteq> 0 then tell E eTinfoCbAdps s else s)"

definition tell_ptec :: "'w tinfo_env \<Rightarrow> 'w told \<Rightarrow> 'w told" where
  "tell_ptec E s =
     (case s of (ret, processed, t, f, w) \<Rightarrow>
        if ti_ptec t \<noteq> tf_ptec f
        then tell E eTinfoCbPtec (ret, processed, t\<lparr>ti_ptec := tf_ptec f\<rparr>, f\<lparr>tf_flag := tf_flag f OR eTinfoFlagNewPtec\<rparr>, w)
        else s)"

definition tell_motdetat :: "'w tinfo_env \<Rightarrow> 'w told \<Rightarrow> 'w told" where
  "tell_motdetat E s =
     (case s of (ret, processed, t, f, w) \<Rightarrow>
        if ti_motdetat t \<noteq> tf_motdetat f
        then tell E eTinfoCbMotEtat (ret, processed, t\<lparr>ti_motdetat := tf_motdetat f\<rparr>,
               f\<lparr>tf_flag := tf_flag f OR eTinfoFlagNewMotEtat\<rparr>, w)
        else s)"

definition tell_tempo :: "'w tinfo_env \<Rightarrow> 'w told \<Rightarrow> 'w told" where
  "tell_tempo E s =
     (case s of (ret, processed, t, f, w) \<Rightarrow>
        if tf_optarif f = eTinfoOpTarifTempo \<and> ti_demain t \<noteq> tr_demain (tf_tarif f)
        then tell E eTinfoCbTempo (ret, processed, t\<lparr>ti_demain := tr_demain (tf_tarif f)\<rparr>,
               f\<lparr>tf_flag := tf_flag f OR eTinfoFlagTempoNewColor\<rparr>, w)
        else s)"

definition tell_frame :: "'w tinfo_env \<Rightarrow> 'w told \<Rightarrow> 'w told" where
  "tell_frame E s = (case s of (ret, processed, t, f, w) \<Rightarrow> if \<not> processed then tell E eTinfoCbFrame s else s)"

text \<open>The frame goes to the callbacks, and the buffer is flushed.\<close>

definition announce :: "'w tinfo_env \<Rightarrow> xTinfo \<Rightarrow> xTinfoFrame \<Rightarrow> 'w \<Rightarrow> int \<times> xTinfo \<times> 'w" where
  "announce E t f w =
     (let s = (0, False, t, f, w);
          s = (if tf_frame f = eTinfoFrameBlue then tell_tempo E (tell_motdetat E (tell_ptec E (tell_adps E s))) else s);
          (ret, _, t, f, w) = tell_frame E s
      in (ret, t\<lparr>ti_buflen := 0\<rparr>, w))"

definition prviSplitFrame :: "'w tinfo_env \<Rightarrow> xTinfo \<Rightarrow> 'w \<Rightarrow> (int \<times> xTinfo \<times> 'w) run" where
  "prviSplitFrame E t w =
     cbind (split_groups t (ti_buf t) 0 frame_zero) (\<lambda>(b, f). Inr (announce E (t\<lparr>ti_buf := b\<rparr>) f w))"

text \<open>The check sums from index \<open>i\<close> on; \<open>n\<close> turns are left, and a turn for every byte is enough.  The result
  tells whether all are right, with the separator of fields, which is taken from the first group
  that is right.\<close>

fun check_groups :: "u8 list \<Rightarrow> nat \<Rightarrow> nat \<Rightarrow> nat \<Rightarrow> u8 \<Rightarrow> u8 \<Rightarrow> (bool \<times> u8) run" where
  "check_groups b len 0 i checksum ht = Inr (True, ht)"
| "check_groups b len (Suc n) i checksum ht =
     (if i + 1 < len then
        cbind (rd b i) (\<lambda>c.
        if c = TI_LF then check_groups b len n (i + 1) 0 ht
        else
          cbind (rd b (i + 2)) (\<lambda>c2.
          if c2 \<noteq> TI_CR then check_groups b len n (i + 1) (checksum + c) ht
          else
            let checksum = (checksum AND 0x3F) + 0x20 in
            cbind (rd b (i + 1)) (\<lambda>c1.
            if c1 \<noteq> checksum then Inr (False, ht)
            else check_groups b len n (i + 3) checksum (if ht = 0 then c else ht))))
      else Inr (True, ht))"

definition prviProbeFrame :: "'w tinfo_env \<Rightarrow> xTinfo \<Rightarrow> 'w \<Rightarrow> (int \<times> xTinfo \<times> 'w) run" where
  "prviProbeFrame E t w =
     cbind (check_groups (ti_buf t) (ti_buflen t) (ti_buflen t) 1 0 (ti_ht t)) (\<lambda>(good, ht).
       if \<not> good then Inr (-1, t\<lparr>ti_ht := ht, ti_buflen := 0\<rparr>, w)
       else prviSplitFrame E (t\<lparr>ti_ht := ht\<rparr>) w)"

section \<open>Reception\<close>

definition put_byte :: "xTinfo \<Rightarrow> u8 \<Rightarrow> xTinfo run" where
  "put_byte t c = cbind (wr (ti_buf t) (ti_buflen t) c) (\<lambda>b. Inr (t\<lparr>ti_buf := b, ti_buflen := ti_buflen t + 1\<rparr>))"

text \<open>The loop that looks for a frame, and the one that collects it.\<close>

fun seek :: "'w tinfo_env \<Rightarrow> u8 list \<Rightarrow> xTinfo \<Rightarrow> 'w \<Rightarrow> (int \<times> xTinfo \<times> 'w) run" where
  "seek E [] t w = Inr (0, t, w)"
| "seek E (c # cs) t w =
     (let found = ti_pchar t = TI_ETX \<and> c = TI_STX;
          (now, w1) = te_time E w;
          w2 = (if found then w1 else w);
          t = (if found then t\<lparr>ti_time := now, ti_started := True, ti_pchar := 0\<rparr> else t)
      in if ti_started t then cbind (put_byte t c) (\<lambda>t. seek E cs t w2)
         else seek E cs (t\<lparr>ti_pchar := c\<rparr>) w2)"

fun collect :: "'w tinfo_env \<Rightarrow> u8 list \<Rightarrow> xTinfo \<Rightarrow> 'w \<Rightarrow> (int \<times> xTinfo \<times> 'w) run" where
  "collect E [] t w = Inr (0, t, w)"
| "collect E (c # cs) t w =
     cbind (put_byte t c) (\<lambda>t.
       if c = TI_ETX then prviProbeFrame E (t\<lparr>ti_pchar := TI_ETX\<rparr>) w
       else collect E cs (if c = TI_EOT then t\<lparr>ti_buflen := 0\<rparr> else t) w)"

definition prviProbeBuffer :: "'w tinfo_env \<Rightarrow> u8 list \<Rightarrow> xTinfo \<Rightarrow> 'w \<Rightarrow> (int \<times> xTinfo \<times> 'w) run" where
  "prviProbeBuffer E buffer t w =
     (if ti_buflen t = 0 then seek E buffer (t\<lparr>ti_started := False\<rparr>) w else collect E buffer t w)"

section \<open>The interface\<close>

definition tinfo_zero :: xTinfo where
  "tinfo_zero = \<lparr>ti_cb = (\<lambda>_. None), ti_uctx = None, ti_serial = 0, ti_buf = replicate TINFO_BUFFER_SIZE 0, ti_buflen = 0,
     ti_pchar = 0, ti_started = False, ti_time = 0, ti_ht = 0, ti_demain = 0, ti_ptec = 0, ti_motdetat = 0\<rparr>"

definition xTinfoOpen :: "'w tinfo_env \<Rightarrow> u8 list \<Rightarrow> int \<Rightarrow> mem \<times> 'w \<Rightarrow> (xTinfo option \<times> mem \<times> 'w) run" where
  "xTinfoOpen E port baudrate s =
     (let (ok, m) = malloc (fst s) in
      if \<not> ok then Inl AssertFailed
      else
        let (fd, w) = iSerialOpen (te_tty E) port
              \<lparr>sio_baud = baudrate, sio_dbits = SERIAL_DATABIT_7, sio_parity = SERIAL_PARITY_EVEN,
               sio_sbits = SERIAL_STOPBIT_ONE, sio_flow = SERIAL_FLOW_NONE\<rparr> (snd s);
            t = tinfo_zero\<lparr>ti_serial := fd\<rparr>
        in if fd < 0 then Inr (None, free (Some t) m, w)
           else Inr (Some t, m, vSerialFlush (te_tty E) fd w))"

text \<open>\<open>read\<close> is asked for as many bytes as there are, into a buffer of \<open>TINFO_BUFFER_SIZE\<close>.\<close>

definition iTinfoPoll :: "'w tinfo_env \<Rightarrow> xTinfo \<Rightarrow> 'w \<Rightarrow> (int \<times> xTinfo \<times> 'w) run" where
  "iTinfoPoll E t w =
     (let (ret, w) = iSerialPoll (te_tty E) (ti_serial t) TINFO_TIMEOUT w in
      if ret < 0 then Inr (-1, t, w)
      else if ret > 0 then
        let (r, w) = te_read E (ti_serial t) ret w in
        case r of
          None \<Rightarrow> Inr (-1, t, w)
        | Some buffer \<Rightarrow> if length buffer > TINFO_BUFFER_SIZE then Inl OutOfBounds else prviProbeBuffer E buffer t w
      else Inr (0, t, w))"

definition iTinfoClose :: "'w tinfo_env \<Rightarrow> xTinfo \<Rightarrow> mem \<times> 'w \<Rightarrow> int \<times> mem \<times> 'w" where
  "iTinfoClose E t s = (let (ret, w) = y_close (te_tty E) (ti_serial t) (snd s) in (ret, free (Some t) (fst s), w))"

definition vTinfoSetCB :: "nat \<Rightarrow> nat option \<Rightarrow> xTinfo \<Rightarrow> xTinfo run" where
  "vTinfoSetCB type cb t = (if type \<le> eTinfoCbTempo then Inr (t\<lparr>ti_cb := (ti_cb t)(type := cb)\<rparr>) else Inl OutOfBounds)"

definition pvTinfoGetUserContext :: "xTinfo \<Rightarrow> nat option" where
  "pvTinfoGetUserContext t = ti_uctx t"

definition vTinfoSetUserContext :: "nat option \<Rightarrow> xTinfo \<Rightarrow> xTinfo" where
  "vTinfoSetUserContext uctx t = t\<lparr>ti_uctx := uctx\<rparr>"

definition ti_sUnknown :: string where "ti_sUnknown = ''----''"
definition sTempoColorStrList :: "string list" where "sTempoColorStrList = [''bleu'', ''blanc'', ''rouge'']"
definition sOpTarifStrList :: "string list" where "sOpTarifStrList = [''base'', ''hc'', ''ejp'', ''tempo'']"
definition sPtecStrList :: "string list" where
  "sPtecStrList = [''th'', ''hc'', ''hp'', ''hn'', ''hpm'', ''hcjb'', ''hcjw'', ''hcjr'', ''hpjb'', ''hpjw'', ''hpjr'']"

definition sTinfoPtecToStr :: "u32 \<Rightarrow> string" where
  "sTinfoPtecToStr p = (if eTinfoPtecTh \<le> p \<and> p \<le> eTinfoPtecHpJr then sPtecStrList ! unat (p - 1) else ti_sUnknown)"

definition sTinfoTempoColorToStr :: "u32 \<Rightarrow> string" where
  "sTinfoTempoColorToStr c = (if eTinfoColorBlue \<le> c \<and> c \<le> eTinfoColorRed then sTempoColorStrList ! unat (c - 1) else ti_sUnknown)"

definition sTinfoOpTarifToStr :: "u32 \<Rightarrow> string" where
  "sTinfoOpTarifToStr t = (if eTinfoOpTarifBase \<le> t \<and> t \<le> eTinfoOpTarifTempo then sOpTarifStrList ! unat (t - 1) else ti_sUnknown)"

end
