(* ===== verification/Tinfo_Laws.thy ===== *)
theory Tinfo_Laws
  imports Tinfo
begin

text \<open>
  The laws of the Teleinfo receiver: the shape of its state, the room of its buffer, and what it does
  with the frames of a meter, as a reference decoder that works on labels and data instead of on the
  bytes of the buffer.
\<close>

section \<open>Shape\<close>

definition frame_shape :: "xTinfoFrame \<Rightarrow> bool" where
  "frame_shape f \<longleftrightarrow> length (tf_iinst f) = 3 \<and> length (tf_imax f) = 3 \<and> length (tr_w (tf_tarif f)) = 6"

definition tinfo_shape :: "xTinfo \<Rightarrow> bool" where
  "tinfo_shape t \<longleftrightarrow> length (ti_buf t) = TINFO_BUFFER_SIZE \<and> ti_buflen t \<le> TINFO_BUFFER_SIZE"

text \<open>Callbacks see the receiver through its interface only.\<close>

definition shapely :: "'w tinfo_env \<Rightarrow> bool" where
  "shapely E \<longleftrightarrow> (\<forall>c t f w. tinfo_shape t \<longrightarrow> frame_shape f \<longrightarrow>
     tinfo_shape (fst (snd (te_call E c t f w))) \<and> frame_shape (fst (snd (snd (te_call E c t f w)))))"

text \<open>A run that returns a frame of the right shape, if it returns.\<close>

definition gives :: "('a \<Rightarrow> bool) \<Rightarrow> 'a run \<Rightarrow> bool" where
  "gives P m \<longleftrightarrow> (case m of Inl _ \<Rightarrow> True | Inr v \<Rightarrow> P v)"

lemma gives_simps [simp]: "gives P (Inl c)" "gives P (Inr v) = P v"
  by (simp_all add: gives_def)

lemma gives_bind: "(\<And>v. m = Inr v \<Longrightarrow> gives P (k v)) \<Longrightarrow> gives P (cbind m k)"
  by (cases m) auto

lemma gives_on: "gives P x \<Longrightarrow> gives P y \<Longrightarrow> gives P (on c x y)"
  unfolding on_def by (rule gives_bind) auto

lemma gives_num: "(\<And>n. gives P (k n)) \<Longrightarrow> P f \<Longrightarrow> gives P (num base b d k f)"
  unfolding num_def by (rule gives_bind) (auto split: option.splits)

lemma gives_phase: "(\<And>p. P (k p)) \<Longrightarrow> P f \<Longrightarrow> gives P (phase b i k f)"
  unfolding phase_def by (rule gives_bind) auto

lemmas gives_rules = gives_on gives_num gives_phase gives_bind

lemma frame_shape_simps [simp]:
  "frame_shape (f\<lparr>tf_frame := x\<rparr>) = frame_shape f" "frame_shape (f\<lparr>tf_time := ti\<rparr>) = frame_shape f"
  "frame_shape (f\<lparr>tf_flag := x\<rparr>) = frame_shape f" "frame_shape (f\<lparr>tf_adco := a\<rparr>) = frame_shape f"
  "frame_shape (f\<lparr>tf_optarif := x\<rparr>) = frame_shape f" "frame_shape (f\<lparr>tf_ptec := x\<rparr>) = frame_shape f"
  "frame_shape (f\<lparr>tf_isousc := x\<rparr>) = frame_shape f" "frame_shape (f\<lparr>tf_nph := x\<rparr>) = frame_shape f"
  "frame_shape (f\<lparr>tf_adps := x\<rparr>) = frame_shape f" "frame_shape (f\<lparr>tf_pmax := x\<rparr>) = frame_shape f"
  "frame_shape (f\<lparr>tf_papp := x\<rparr>) = frame_shape f" "frame_shape (f\<lparr>tf_motdetat := x\<rparr>) = frame_shape f"
  "frame_shape (f\<lparr>tf_ppot := x\<rparr>) = frame_shape f"
  "frame_shape (f\<lparr>tf_iinst := (tf_iinst f)[i := x]\<rparr>) = frame_shape f"
  "frame_shape (f\<lparr>tf_imax := (tf_imax f)[i := x]\<rparr>) = frame_shape f"
  "frame_shape (f\<lparr>tf_tarif := (tf_tarif f)\<lparr>tr_demain := x\<rparr>\<rparr>) = frame_shape f"
  "frame_shape (f\<lparr>tf_tarif := (tf_tarif f)\<lparr>tr_pgm1 := p, tr_pgm2 := q\<rparr>\<rparr>) = frame_shape f"
  by (simp_all add: frame_shape_def)

lemma shape_set: "frame_shape (set_w i n f) = frame_shape f" "frame_shape (set_low m v f) = frame_shape f"
    "frame_shape (short_iinst p x f) = frame_shape f"
  by (simp_all add: set_w_def set_low_def short_iinst_def Let_def frame_shape_def)

lemma shape_short: "frame_shape f \<Longrightarrow> gives frame_shape (prvvReadBlueShortItem b l d f)"
  unfolding prvvReadBlueShortItem_def
  by (intro gives_rules) (auto simp: shape_set split: option.splits)

lemma shape_read_optarif: "frame_shape f \<Longrightarrow> gives frame_shape (read_optarif b d f)"
  unfolding read_optarif_def by (intro gives_rules) (auto simp: frame_shape_def)

lemma shape_read_phases:
  "frame_shape f \<Longrightarrow> (\<And>p n f. frame_shape f \<Longrightarrow> frame_shape (h p n f)) \<Longrightarrow> gives frame_shape (read_phases b d k h f)"
  unfolding read_phases_def by (intro gives_rules) (auto intro!: gives_phase)

lemma shape_read_tarif: "frame_shape f \<Longrightarrow> gives frame_shape (read_tarif b l d f)"
  unfolding read_tarif_def Let_def
  by (auto intro!: gives_on gives_num gives_bind simp: shape_set split: option.splits)

lemma shape_blue: "frame_shape f \<Longrightarrow> gives frame_shape (prvvReadBlueItem b l d f)"
  unfolding prvvReadBlueItem_def
  by (auto intro!: gives_on gives_num gives_bind shape_read_optarif shape_read_tarif shape_read_phases
      split: option.splits)

lemma gives_then: "gives Q m \<Longrightarrow> (\<And>v. Q v \<Longrightarrow> gives P (k v)) \<Longrightarrow> gives P (cbind m k)"
  by (cases m) auto

lemma gives_if: "gives P x \<Longrightarrow> gives P y \<Longrightarrow> gives P (if c then x else y)"
  by simp

lemma shape_item: "frame_shape f \<Longrightarrow> gives (\<lambda>(b', f). length b' = length b \<and> frame_shape f) (prvvReadItem t b l f)"
  unfolding prvvReadItem_def Let_def
  apply (rule gives_bind)
  subgoal for v
    apply (cases v)
     apply simp
    apply (simp only: option.case)
    apply (rule gives_then [where Q = frame_shape])
     apply (intro gives_if gives_on gives_bind shape_short shape_blue)
              apply (auto split: option.splits)
    done
  done

lemma shape_split:
  "frame_shape f \<Longrightarrow> gives (\<lambda>(b', f). length b' = length b \<and> frame_shape f) (split_groups t b g f)"
proof (induction t b g f rule: split_groups.induct)
  case (1 t b g f)
  have "length b' = length b \<and> frame_shape f'" if run: "split_groups t b g f = Inr (b', f')" for b' f'
  proof -
    from run obtain lf where lf: "c_strchr TI_LF (drop g b) = Inr lf"
      by (subst (asm) split_groups.simps) (auto simp: cbind_Inr_iff)
    show ?thesis
    proof (cases lf)
      case None
      with run lf 1(2) show ?thesis by (subst (asm) split_groups.simps) auto
    next
      case (Some k)
      define group where "group = g + k + 1"
      from run lf Some obtain e b1 b2 f2 where e: "c_strchr TI_CR (drop group b) = Inr (Some e)" "\<not> group + e < 2"
        and b1: "wr b (group + e - 2) 0 = Inr b1" and b2: "prvvReadItem t b1 group f = Inr (b2, f2)"
        and rest: "split_groups t b2 (group + e + 1) f2 = Inr (b', f')"
        by (subst (asm) split_groups.simps)
          (auto simp: cbind_Inr_iff Let_def group_def split: option.splits if_splits)
      from shape_item [OF 1(2), of b1 t group] b2 have "length b2 = length b1" "frame_shape f2" by auto
      moreover from 1(1) [OF lf Some group_def e(1) refl refl e(2) b1 b2 refl this(2)] rest
      have "length b' = length b2 \<and> frame_shape f'" by simp
      ultimately show ?thesis using b1 by (auto simp: wr_Inr_iff)
    qed
  qed
  then show ?case by (cases "split_groups t b g f") auto
qed

text \<open>What the callbacks leave.\<close>

definition told_shape :: "'w told \<Rightarrow> bool" where
  "told_shape s = (case s of (ret, processed, t, f, w) \<Rightarrow> tinfo_shape t \<and> frame_shape f)"

lemma tinfo_shape_simps [simp]:
  "tinfo_shape (t\<lparr>ti_ptec := x\<rparr>) = tinfo_shape t" "tinfo_shape (t\<lparr>ti_motdetat := x\<rparr>) = tinfo_shape t"
  "tinfo_shape (t\<lparr>ti_demain := x\<rparr>) = tinfo_shape t" "tinfo_shape (t\<lparr>ti_pchar := c\<rparr>) = tinfo_shape t"
  "tinfo_shape (t\<lparr>ti_ht := c\<rparr>) = tinfo_shape t" "tinfo_shape (t\<lparr>ti_started := s\<rparr>) = tinfo_shape t"
  "tinfo_shape (t\<lparr>ti_time := ti\<rparr>) = tinfo_shape t"
  by (simp_all add: tinfo_shape_def)

lemma told_shape_tuple: "told_shape (ret, processed, t, f, w) \<longleftrightarrow> tinfo_shape t \<and> frame_shape f"
  by (simp add: told_shape_def)

lemma told_tell:
  assumes E: "shapely E" and s: "told_shape s"
  shows "told_shape (tell E kind s)"
proof -
  obtain ret processed t f w where tup: "s = (ret, processed, t, f, w)" by (cases s)
  with s have shape: "tinfo_shape t" "frame_shape f" by (simp_all add: told_shape_tuple)
  show ?thesis
  proof (cases "ti_cb t kind")
    case None
    with s tup show ?thesis by (simp add: tell_def)
  next
    case (Some c)
    obtain r t' f' w' where call: "te_call E c t f w = (r, t', f', w')" by (cases "te_call E c t f w")
    from E [unfolded shapely_def, rule_format, OF shape, of c w] call Some tup
    show ?thesis by (simp add: tell_def told_shape_tuple)
  qed
qed

lemma told_all:
  assumes "shapely E" "told_shape s"
  shows "told_shape (tell_adps E s)" "told_shape (tell_ptec E s)" "told_shape (tell_motdetat E s)"
    "told_shape (tell_tempo E s)" "told_shape (tell_frame E s)"
proof -
  obtain ret processed t f w where s: "s = (ret, processed, t, f, w)" by (cases s)
  note [simp] = told_shape_tuple and [intro!] = told_tell
  show "told_shape (tell_adps E s)" "told_shape (tell_ptec E s)" "told_shape (tell_motdetat E s)"
    "told_shape (tell_tempo E s)" "told_shape (tell_frame E s)"
    using assms unfolding s tell_adps_def tell_ptec_def tell_motdetat_def tell_tempo_def tell_frame_def
    by auto
qed

lemma shape_frame_zero: "frame_shape frame_zero"
  by (simp add: frame_shape_def frame_zero_def)

definition state_shape :: "int \<times> xTinfo \<times> 'w \<Rightarrow> bool" where
  "state_shape s = (case s of (ret, t, w) \<Rightarrow> tinfo_shape t)"

lemma shape_announce:
  assumes E: "shapely E" and t: "tinfo_shape t" and f: "frame_shape f"
  shows "state_shape (announce E t f w)"
proof -
  define s where "s = (0 :: int, False, t, f, w)"
  have "told_shape s" using f t by (simp add: s_def told_shape_def)
  then have "told_shape (tell_frame E (if tf_frame f = eTinfoFrameBlue
      then tell_tempo E (tell_motdetat E (tell_ptec E (tell_adps E s))) else s))"
    by (simp add: told_all E)
  then show ?thesis
    unfolding announce_def s_def [symmetric] Let_def
    by (auto simp: told_shape_def state_shape_def tinfo_shape_def split: prod.splits)
qed

lemma shape_SplitFrame:
  assumes E: "shapely E" and t: "tinfo_shape t"
  shows "gives state_shape (prviSplitFrame E t w)"
  unfolding prviSplitFrame_def
  using t by (intro gives_then [OF shape_split [OF shape_frame_zero]])
    (auto intro!: shape_announce E simp: tinfo_shape_def)

lemma shape_ProbeFrame: "shapely E \<Longrightarrow> tinfo_shape t \<Longrightarrow> gives state_shape (prviProbeFrame E t w)"
  unfolding prviProbeFrame_def
  by (rule gives_bind) (auto intro!: shape_SplitFrame simp: state_shape_def tinfo_shape_def split: prod.splits)

lemma shape_put: "tinfo_shape t \<Longrightarrow> gives tinfo_shape (put_byte t c)"
  unfolding put_byte_def by (rule gives_bind) (auto simp: wr_Inr_iff tinfo_shape_def)

lemma shape_seek: "tinfo_shape t \<Longrightarrow> gives state_shape (seek E cs t w)"
proof (induction cs arbitrary: t w)
  case (Cons c cs)
  then show ?case
    by (auto simp: Let_def intro!: gives_then [OF shape_put] split: prod.splits)
qed (simp add: state_shape_def)

lemma shape_collect: "shapely E \<Longrightarrow> tinfo_shape t \<Longrightarrow> gives state_shape (collect E cs t w)"
proof (induction cs arbitrary: t w)
  case (Cons c cs)
  then have "gives state_shape (if c = TI_ETX then prviProbeFrame E (t\<lparr>ti_pchar := TI_ETX\<rparr>) w
       else collect E cs (if c = TI_EOT then t\<lparr>ti_buflen := 0\<rparr> else t) w)" if "tinfo_shape t" for t
    using that by (auto intro!: shape_ProbeFrame Cons.IH) (auto simp: tinfo_shape_def)
  with Cons.prems show ?case
    by (simp del: if_split) (rule gives_then [OF shape_put], auto)
qed (simp add: state_shape_def)

text \<open> Whatever bytes the line brings, in whatever chunks, a poll of the receiver that
  returns leaves it well formed, if the callbacks do: the buffer has its 1024 bytes and its length is within it.\<close>

theorem iTinfoPoll_shape:
  assumes "shapely E" "tinfo_shape t" "iTinfoPoll E t w = Inr (ret, t', w')"
  shows "tinfo_shape t'"
proof -
  have "gives state_shape (prviProbeBuffer E buffer t w)" for buffer w
    using assms(1,2) by (simp add: prviProbeBuffer_def shape_seek shape_collect)
  then have "gives state_shape (iTinfoPoll E t w)"
    using assms(2) unfolding iTinfoPoll_def Let_def
    by (auto simp: state_shape_def split: prod.splits option.splits)
  with assms(3) show ?thesis by (simp add: state_shape_def)
qed

section \<open>Room\<close>

definition put_bytes :: "u8 list \<Rightarrow> xTinfo \<Rightarrow> xTinfo" where
  "put_bytes cs t = t\<lparr>ti_buf := take (ti_buflen t) (ti_buf t) @ cs @ drop (ti_buflen t + length cs) (ti_buf t),
     ti_buflen := ti_buflen t + length cs\<rparr>"

lemma put_bytes_Nil [simp]: "put_bytes [] t = t"
  by (simp add: put_bytes_def)

lemma put_bytes_shape: "tinfo_shape t \<Longrightarrow> ti_buflen t + length cs \<le> TINFO_BUFFER_SIZE \<Longrightarrow> tinfo_shape (put_bytes cs t)"
  by (simp add: put_bytes_def tinfo_shape_def)

lemma put_byte_ok: "tinfo_shape t \<Longrightarrow> ti_buflen t < TINFO_BUFFER_SIZE \<Longrightarrow> put_byte t c = Inr (put_bytes [c] t)"
  by (simp add: put_byte_def put_bytes_def tinfo_shape_def upd_conv_take_nth_drop)

lemma put_byte_full: "tinfo_shape t \<Longrightarrow> \<not> ti_buflen t < TINFO_BUFFER_SIZE \<Longrightarrow> put_byte t c = Inl OutOfBounds"
  by (simp add: put_byte_def tinfo_shape_def)

lemma put_bytes_put_bytes:
  "tinfo_shape t \<Longrightarrow> ti_buflen t + length cs \<le> TINFO_BUFFER_SIZE \<Longrightarrow> put_bytes ds (put_bytes cs t) = put_bytes (cs @ ds) t"
  by (simp add: put_bytes_def tinfo_shape_def ac_simps)

lemma collect_plain:
  assumes "tinfo_shape t" "ti_buflen t + length cs \<le> TINFO_BUFFER_SIZE" "TI_ETX \<notin> set cs" "TI_EOT \<notin> set cs"
  shows "collect E (cs @ ds) t w = collect E ds (put_bytes cs t) w"
  using assms
proof (induction cs arbitrary: t)
  case (Cons c cs)
  then have "tinfo_shape (put_bytes [c] t)" by (intro put_bytes_shape) simp_all
  moreover from Cons.prems have "ti_buflen (put_bytes [c] t) + length cs \<le> TINFO_BUFFER_SIZE"
    by (simp add: put_bytes_def)
  ultimately have "collect E (cs @ ds) (put_bytes [c] t) w = collect E ds (put_bytes cs (put_bytes [c] t)) w"
    using Cons.prems by (intro Cons.IH) simp_all
  with Cons.prems show ?case
    by (auto simp: put_byte_ok put_bytes_put_bytes)
qed simp

lemma prviProbeBuffer_plain:
  assumes "tinfo_shape t" "0 < ti_buflen t" "ti_buflen t + length cs \<le> TINFO_BUFFER_SIZE" "TI_ETX \<notin> set cs" "TI_EOT \<notin> set cs"
  shows "prviProbeBuffer E cs t w = Inr (0, put_bytes cs t, w)"
  using collect_plain [OF assms(1,3-5), of E "[]" w] assms(2) by (simp add: prviProbeBuffer_def)

text \<open>C25.  While a frame is collected, a chunk without ETX and EOT is stored behind what
  the buffer holds when it fits, and nothing else changes; when it does not fit, a byte is written behind the
  buffer: nothing but the meter bounds the length of a frame.\<close>

theorem prviProbeBuffer_room:
  assumes t: "tinfo_shape t" "0 < ti_buflen t" and cs: "TI_ETX \<notin> set cs" "TI_EOT \<notin> set cs"
  shows "prviProbeBuffer E cs t w =
    (if ti_buflen t + length cs \<le> TINFO_BUFFER_SIZE then Inr (0, put_bytes cs t, w) else Inl OutOfBounds)"
proof (cases "ti_buflen t + length cs \<le> TINFO_BUFFER_SIZE")
  case True
  with prviProbeBuffer_plain [OF t True cs] show ?thesis by simp
next
  case False
  define k where "k = TINFO_BUFFER_SIZE - ti_buflen t"
  have "k < length cs" using False t unfolding k_def tinfo_shape_def by arith
  from id_take_nth_drop [OF this] obtain c ds where split: "cs = take k cs @ c # ds" by blast
  have le: "ti_buflen t + length (take k cs) = TINFO_BUFFER_SIZE"
    using t \<open>k < length cs\<close> unfolding k_def tinfo_shape_def by simp
  have "collect E (take k cs @ c # ds) t w = collect E (c # ds) (put_bytes (take k cs) t) w"
    using cs le by (intro collect_plain t) (auto dest: in_set_takeD)
  moreover have "put_byte (put_bytes (take k cs) t) c = Inl OutOfBounds"
    using le t by (intro put_byte_full put_bytes_shape) (simp_all add: put_bytes_def)
  ultimately show ?thesis using split [symmetric] False t(2) by (simp add: prviProbeBuffer_def)
qed

end
