(* ===== verification/Tinfo_Meter.thy ===== *)
theory Tinfo_Meter
  imports Tinfo_Laws
begin

text \<open>
  What the receiver makes of the frames of a meter: a reference decoder that works on the labels and data of
  the groups, the proof that the receiver, which works on the bytes of its buffer, agrees with it, and the frame of a
  single-phase meter from the values the meter sends to the callback that is given them.
\<close>

section \<open>Numbers\<close>

fun digits :: "int \<Rightarrow> int \<Rightarrow> u8 list \<Rightarrow> int" where
  "digits base acc [] = acc"
| "digits base acc (c # cs) = (case digit_val base c of Some d \<Rightarrow> digits base (acc * base + d) cs | None \<Rightarrow> acc)"

definition strnum :: "int \<Rightarrow> u8 list \<Rightarrow> int option" where
  "strnum base s =
     (let (neg, s) = skip_sign (dropWhile isspace s); s = skip_hex base s in
      case s of
        [] \<Rightarrow> None
      | c # _ \<Rightarrow>
          if digit_val base c = None then None
          else let v = (if neg then - digits base 0 s else digits base 0 s) in
               if v < - (2 ^ 63) \<or> 2 ^ 63 \<le> v then None else Some v)"

lemma digit_val_0 [simp]: "digit_val base 0 = None"
  by (simp add: digit_val_def isupper_def islower_def)

lemma c_digits_app: "c_digits base acc (cs @ 0 # r) = Inr (digits base acc cs)"
  by (induction cs arbitrary: acc) (auto split: option.splits)

lemma skip_space_app: "skip_space (cs @ 0 # r) = Inr (dropWhile isspace cs @ 0 # r)"
  by (induction cs) (auto simp: isspace_def)

lemma skip_sign_app: "skip_sign (cs @ 0 # r) = (fst (skip_sign cs), snd (skip_sign cs) @ 0 # r)"
  by (cases cs) (simp_all add: skip_sign_def)

lemma skip_hex_app: "skip_hex base (cs @ 0 # r) = skip_hex base cs @ 0 # r"
proof -
  consider "cs = []" | z where "cs = [z]" | z x where "cs = [z, x]" | z x h u where "cs = z # x # h # u"
    by (metis list.exhaust)
  then show ?thesis
    by cases (simp_all add: skip_hex_def split: list.split)
qed

lemma c_strtol_app:
  "cbind (c_strtol base (s @ 0 # r)) (\<lambda>r. Inr (case r of None \<Rightarrow> None | Some v \<Rightarrow>
     if v < - (2 ^ 63) \<or> 2 ^ 63 \<le> v then None else Some v)) = Inr (strnum base s)"
proof -
  obtain neg u where sign: "skip_sign (dropWhile isspace s) = (neg, u)" by (cases "skip_sign (dropWhile isspace s)")
  show ?thesis
  proof (cases "skip_hex base u")
    case Nil
    with sign show ?thesis by (simp add: c_strtol_def strnum_def skip_space_app skip_sign_app skip_hex_app)
  next
    case (Cons c v)
    then have "c_digits base 0 (c # v @ 0 # r) = Inr (digits base 0 (c # v))"
      using c_digits_app [of base 0 "c # v" r] by simp
    with sign Cons show ?thesis
      by (simp add: c_strtol_def strnum_def skip_space_app skip_sign_app skip_hex_app Let_def del: c_digits.simps digits.simps)
  qed
qed

lemma iStrToLong_app: "iStrToLong base (s @ 0 # r) = Inr (strnum base s)"
  unfolding iStrToLong_def by (rule c_strtol_app)

lemma iStrToLongLong_app: "iStrToLongLong base (s @ 0 # r) = Inr (strnum base s)"
  unfolding iStrToLongLong_def by (rule c_strtol_app)

section \<open>Strings in the buffer\<close>

definition str_at :: "u8 list \<Rightarrow> nat \<Rightarrow> u8 list \<Rightarrow> bool" where
  "str_at b i s \<longleftrightarrow> 0 \<notin> set s \<and> (\<exists>r. drop i b = s @ 0 # r)"

lemma str_atI: "0 \<notin> set s \<Longrightarrow> i = length p \<Longrightarrow> str_at (p @ s @ 0 # r) i s"
  by (simp add: str_at_def)

definition plain :: "string \<Rightarrow> bool" where
  "plain s \<longleftrightarrow> 0 \<notin> set (ascii s)"

lemma length_ascii [simp]: "length (ascii s) = length s"
  by (simp add: ascii_def)

lemma is_str_at: "str_at b i s \<Longrightarrow> plain lit \<Longrightarrow> is_str b i lit = Inr (s = ascii lit)"
  by (auto simp: is_str_def str_at_def plain_def c_streq_app)

definition begins :: "u8 list \<Rightarrow> string \<Rightarrow> bool" where
  "begins s lit \<longleftrightarrow> take (length lit) s = ascii lit"

lemma starts_at: "str_at b i s \<Longrightarrow> plain lit \<Longrightarrow> starts b i lit = Inr (begins s lit)"
  by (auto simp: starts_def str_at_def plain_def c_prefix_app begins_def)

lemma num_at: "str_at b i s \<Longrightarrow> num base b i k f = (case strnum base s of Some n \<Rightarrow> k n | None \<Rightarrow> Inr f)"
  by (auto simp: num_def str_at_def iStrToLong_app)

lemma strlen_at: "str_at b i s \<Longrightarrow> c_strlen (drop i b) = Inr (length s)"
  by (auto simp: str_at_def c_strlen_app)

lemma rd_at: "str_at b i s \<Longrightarrow> k \<le> length s \<Longrightarrow> rd b (i + k) = Inr ((s @ [0]) ! k)"
proof -
  assume s: "str_at b i s" and k: "k \<le> length s"
  then obtain r where r: "drop i b = s @ 0 # r" by (auto simp: str_at_def)
  then have "length s < length b - i" by (metis length_append length_drop length_Cons less_add_Suc1 add_Suc_right)
  moreover have "b ! (i + k) = drop i b ! k" using calculation k by (subst nth_drop) simp_all
  ultimately show ?thesis using k r by (auto simp: rd_def nth_append)
qed

lemma plain_lits:
  "plain ''ADIR''" "plain ''ADCO''" "plain ''IINST''" "plain ''BASE''" "plain ''HC..''" "plain ''EJP.''" "plain ''BBR''"
  "plain ''OPTARIF''" "plain ''ISOUSC''" "plain ''PTEC''" "plain ''PAPP''" "plain ''IMAX''" "plain ''MOTDETAT''"
  "plain ''PMAX''" "plain ''PPOT''" "plain ''ADPS''" "plain ''HCHC''" "plain ''HCHP''" "plain ''HHPHC''"
  "plain ''EJPHN''" "plain ''EJPHPM''" "plain ''PEJP''" "plain ''BBRHCJB''" "plain ''BBRHPJB''" "plain ''BBRHCJW''"
  "plain ''BBRHPJW''" "plain ''BBRHCJR''" "plain ''BBRHPJR''" "plain ''DEMAIN''"
  by (simp_all add: plain_def ascii_def)

lemma plain_lists: "list_all plain sPtecList" "list_all plain sTempoColorList"
  by (simp_all add: sPtecList_def sTempoColorList_def plain_def ascii_def)

section \<open>The reference decoder\<close>

text \<open>A group is its label and its data.\<close>

definition with_num :: "int \<Rightarrow> u8 list \<Rightarrow> (int \<Rightarrow> 'f) \<Rightarrow> 'f \<Rightarrow> 'f" where
  "with_num base dat k f = (case strnum base dat of Some n \<Rightarrow> k n | None \<Rightarrow> f)"

fun text_index :: "u8 list \<Rightarrow> string list \<Rightarrow> u32 \<Rightarrow> u32 option" where
  "text_index dat [] k = None"
| "text_index dat (s # ss) k = (if dat = ascii s then Some k else text_index dat ss (k + 1))"

definition option_group :: "u8 list \<Rightarrow> xTinfoFrame \<Rightarrow> xTinfoFrame" where
  "option_group dat f =
     (if dat = ascii ''BASE'' then f\<lparr>tf_optarif := eTinfoOpTarifBase\<rparr>
      else if dat = ascii ''HC..'' then f\<lparr>tf_optarif := eTinfoOpTarifHc\<rparr>
      else if dat = ascii ''EJP.'' then f\<lparr>tf_optarif := eTinfoOpTarifEjp\<rparr>
      else if begins dat ''BBR'' then
        let c = (dat @ [0]) ! 3 in
        f\<lparr>tf_optarif := eTinfoOpTarifTempo, tf_tarif := (tf_tarif f)\<lparr>
          tr_pgm1 := drop_bit 3 (c AND 0x18) + 0x40, tr_pgm2 := (c AND 0x7) + 0x30\<rparr>\<rparr>
      else f)"

definition current_group ::
    "nat \<Rightarrow> (nat \<Rightarrow> u32 \<Rightarrow> xTinfoFrame \<Rightarrow> xTinfoFrame) \<Rightarrow> u8 list \<Rightarrow> xTinfoFrame \<Rightarrow> xTinfoFrame" where
  "current_group k put dat f =
     with_num 10 dat (\<lambda>n.
       if length dat > k
       then if 0x31 \<le> dat ! k \<and> dat ! k \<le> 0x33 then put (unat (dat ! k - 0x31)) (word_of_int n) (f\<lparr>tf_nph := 3\<rparr>) else f
       else put 0 (word_of_int n) (f\<lparr>tf_nph := 1\<rparr>)) f"

definition tarif_group :: "u8 list \<Rightarrow> u8 list \<Rightarrow> xTinfoFrame \<Rightarrow> xTinfoFrame" where
  "tarif_group lab dat f =
     (let word = (\<lambda>i. with_num 10 dat (\<lambda>n. set_w i n f) f) in
      if tf_optarif f = eTinfoOpTarifBase then if lab = ascii ''BASE'' then word 0 else f
      else if tf_optarif f = eTinfoOpTarifHc then
        if lab = ascii ''HCHC'' then word 0
        else if lab = ascii ''HCHP'' then word 1
        else if lab = ascii ''HHPHC'' then set_low 8 (ucast ((dat @ [0]) ! 0)) f
        else f
      else if tf_optarif f = eTinfoOpTarifEjp then
        if lab = ascii ''EJPHN'' then word 0
        else if lab = ascii ''EJPHPM'' then word 1
        else if lab = ascii ''PEJP'' then with_num 10 dat (\<lambda>n. set_low 32 (ucast (word_of_int n :: u32)) f) f
        else f
      else if tf_optarif f = eTinfoOpTarifTempo then
        if lab = ascii ''BBRHCJB'' then word 0
        else if lab = ascii ''BBRHPJB'' then word 1
        else if lab = ascii ''BBRHCJW'' then word 2
        else if lab = ascii ''BBRHPJW'' then word 3
        else if lab = ascii ''BBRHCJR'' then word 4
        else if lab = ascii ''BBRHPJR'' then word 5
        else if lab = ascii ''DEMAIN'' then
          case text_index dat sTempoColorList eTinfoColorBlue of
            Some c \<Rightarrow> f\<lparr>tf_tarif := (tf_tarif f)\<lparr>tr_demain := c\<rparr>\<rparr> | None \<Rightarrow> f
        else f
      else f)"

definition blue_group :: "u8 list \<Rightarrow> u8 list \<Rightarrow> xTinfoFrame \<Rightarrow> xTinfoFrame" where
  "blue_group lab dat f =
     (if lab = ascii ''OPTARIF'' then option_group dat f
      else if lab = ascii ''ISOUSC'' then with_num 10 dat (\<lambda>n. f\<lparr>tf_isousc := word_of_int n\<rparr>) f
      else if lab = ascii ''PTEC'' then
        case text_index dat sPtecList eTinfoPtecTh of Some p \<Rightarrow> f\<lparr>tf_ptec := p\<rparr> | None \<Rightarrow> f
      else if lab = ascii ''PAPP'' then
        with_num 10 dat (\<lambda>n. f\<lparr>tf_papp := word_of_int n, tf_flag := tf_flag f OR eTinfoFlagPapp\<rparr>) f
      else if begins lab ''IINST'' then current_group 5 (\<lambda>p n f. f\<lparr>tf_iinst := (tf_iinst f)[p := n]\<rparr>) dat f
      else if begins lab ''IMAX'' then current_group 4 (\<lambda>p n f. f\<lparr>tf_imax := (tf_imax f)[p := n]\<rparr>) dat f
      else if lab = ascii ''MOTDETAT'' then with_num 16 dat (\<lambda>n. f\<lparr>tf_motdetat := word_of_int n\<rparr>) f
      else if tf_nph f = 3 \<and> lab = ascii ''PMAX'' then with_num 10 dat (\<lambda>n. f\<lparr>tf_pmax := word_of_int n\<rparr>) f
      else if tf_nph f = 3 \<and> lab = ascii ''PPOT'' then with_num 16 dat (\<lambda>n. f\<lparr>tf_ppot := word_of_int n\<rparr>) f
      else if tf_nph f \<noteq> 3 \<and> lab = ascii ''ADPS'' then
        with_num 10 dat (\<lambda>n. f\<lparr>tf_adps := word_of_int n, tf_flag := tf_flag f OR eTinfoFlagAdps\<rparr>) f
      else tarif_group lab dat f)"

text \<open>Groups before the one of the meter's address are skipped.\<close>

definition decode_group :: "int \<Rightarrow> u8 list \<times> u8 list \<Rightarrow> xTinfoFrame \<Rightarrow> xTinfoFrame" where
  "decode_group now g f =
     (case g of (lab, dat) \<Rightarrow>
        if tf_frame f = eTinfoFrameBlue then blue_group lab dat f
        else if lab = ascii ''ADCO''
        then with_num 10 dat (\<lambda>n. f\<lparr>tf_frame := eTinfoFrameBlue, tf_adco := word_of_int n, tf_time := now\<rparr>) f
        else f)"

section \<open>The decoder agrees with it\<close>

lemma on_run [simp]: "on (Inr c) x y = (if c then x else y)"
  by (simp add: on_def)

lemma num_Inr_at: "str_at b i s \<Longrightarrow> num base b i (\<lambda>n. Inr (k n)) f = Inr (with_num base s k f)"
  by (simp add: num_at with_num_def split: option.split)

lemma find_text_at: "str_at b i s \<Longrightarrow> list_all plain ss \<Longrightarrow> find_text b i ss k = Inr (text_index s ss k)"
  by (induction ss arbitrary: k) (simp_all add: is_str_at)

lemma phase_at:
  "str_at b i s \<Longrightarrow> k < length s \<Longrightarrow>
     phase b (i + k) h f = Inr (if 0x31 \<le> s ! k \<and> s ! k \<le> 0x33 then h (unat (s ! k - 0x31)) else f)"
  by (simp add: phase_def rd_at nth_append)

lemma read_phases_at: "str_at b d dat \<Longrightarrow> read_phases b d k put f = Inr (current_group k put dat f)"
  unfolding read_phases_def current_group_def
  by (simp add: num_at with_num_def strlen_at phase_at split: option.split)

lemma begins_length: "begins s lit \<Longrightarrow> length lit \<le> length s"
  unfolding begins_def by (metis length_ascii length_take min.absorb_iff2)

lemma Inr_if: "(if c then Inr a else Inr b) = Inr (if c then a else b)"
  by simp

lemma Inr_option: "(case x of None \<Rightarrow> Inr a | Some n \<Rightarrow> Inr (h n)) = Inr (case x of None \<Rightarrow> a | Some n \<Rightarrow> h n)"
  by (simp split: option.split)

lemma read_optarif_at:
  assumes "str_at b d dat"
  shows "read_optarif b d f = Inr (option_group dat f)"
proof -
  have "rd b (d + 3) = Inr ((dat @ [0]) ! 3)" if "begins dat ''BBR''"
    using begins_length [OF that] by (intro rd_at assms) simp
  then show ?thesis
    using assms unfolding read_optarif_def option_group_def
    by (simp add: is_str_at starts_at plain_lits Let_def)
qed

lemma read_tarif_at:
  assumes "str_at b l lab" "str_at b d dat"
  shows "read_tarif b l d f = Inr (tarif_group lab dat f)"
proof -
  note strs = is_str_at [OF assms(1)]
  note nums = num_Inr_at [OF assms(2)] find_text_at [OF assms(2)]
  have "rd b d = Inr ((dat @ [0]) ! 0)" using rd_at [OF assms(2), of 0] by simp
  then show ?thesis
    unfolding read_tarif_def tarif_group_def Let_def
    by (simp only: strs plain_lits nums plain_lists on_run cbind.simps Inr_if Inr_option)
qed

lemma prvvReadBlueItem_at:
  assumes "str_at b l lab" "str_at b d dat"
  shows "prvvReadBlueItem b l d f = Inr (blue_group lab dat f)"
proof -
  note strs = is_str_at [OF assms(1)] starts_at [OF assms(1)]
  note nums = num_Inr_at [OF assms(2)] find_text_at [OF assms(2)]
  show ?thesis
    unfolding prvvReadBlueItem_def blue_group_def
    by (cases "tf_nph f = 3")
      (simp_all only: strs plain_lits nums plain_lists on_run cbind.simps read_optarif_at [OF assms(2)]
        read_phases_at [OF assms(2)] read_tarif_at [OF assms] Inr_if Inr_option simp_thms if_True if_False)
qed

section \<open>The wire\<close>

text \<open>The text of a group does not use the bytes that structure a frame; the separator of fields is the space or the
  tabulation, the check sum is the one of the meters' first mode.\<close>

definition text_ok :: "u8 \<Rightarrow> u8 list \<Rightarrow> bool" where
  "text_ok sep s \<longleftrightarrow> 0 \<notin> set s \<and> TI_STX \<notin> set s \<and> TI_ETX \<notin> set s \<and> TI_EOT \<notin> set s \<and> TI_LF \<notin> set s \<and>
     TI_CR \<notin> set s \<and> sep \<notin> set s"

definition sep_ok :: "u8 \<Rightarrow> bool" where
  "sep_ok sep \<longleftrightarrow> sep = 0x20 \<or> sep = 0x09"

text \<open>No group is an address of the short frames, which a meter only sends to warn.\<close>

definition group_ok :: "u8 \<Rightarrow> u8 list \<times> u8 list \<Rightarrow> bool" where
  "group_ok sep g \<longleftrightarrow> text_ok sep (fst g) \<and> text_ok sep (snd g) \<and> \<not> begins (fst g) ''ADIR''"

definition group_text :: "u8 \<Rightarrow> u8 list \<times> u8 list \<Rightarrow> u8 list" where
  "group_text sep g = fst g @ sep # snd g"

definition group_sum :: "u8 \<Rightarrow> u8 list \<times> u8 list \<Rightarrow> u8" where
  "group_sum sep g = (sum_list (group_text sep g) AND 0x3F) + 0x20"

definition wire_group_with :: "u8 \<Rightarrow> u8 \<Rightarrow> u8 list \<times> u8 list \<Rightarrow> u8 list" where
  "wire_group_with sep k g = TI_LF # group_text sep g @ [sep, k, TI_CR]"

definition wire_group :: "u8 \<Rightarrow> u8 list \<times> u8 list \<Rightarrow> u8 list" where
  "wire_group sep g = wire_group_with sep (group_sum sep g) g"

definition wire_groups :: "u8 \<Rightarrow> (u8 list \<times> u8 list) list \<Rightarrow> u8 list" where
  "wire_groups sep gs = concat (map (wire_group sep) gs)"

text \<open>The group after the receiver has cut it.\<close>

definition cut_group :: "u8 \<Rightarrow> u8 list \<times> u8 list \<Rightarrow> u8 list" where
  "cut_group sep g = TI_LF # fst g @ 0 # snd g @ [0, group_sum sep g, TI_CR]"

lemma group_sum_range: "0x20 \<le> group_sum sep g" "group_sum sep g \<le> 0x5F"
proof -
  have le: "x AND 0x3F \<le> 0x3F" for x :: u8
    by (rule word_and_le1)
  have lt: "unat (x AND 0x3F) \<le> 0x3F" for x :: u8
    using le [of x] by (simp add: word_le_nat_alt)
  show "0x20 \<le> group_sum sep g" "group_sum sep g \<le> 0x5F"
    using lt [of "sum_list (group_text sep g)"]
    by (simp_all add: group_sum_def word_le_nat_alt unat_word_ariths)
qed

lemma group_sum_not: "group_sum sep g \<noteq> 0" "group_sum sep g \<noteq> TI_CR" "group_sum sep g \<noteq> TI_LF"
    "group_sum sep g \<noteq> TI_ETX" "group_sum sep g \<noteq> TI_EOT" "group_sum sep g \<noteq> TI_STX"
  using group_sum_range [of sep g] by (auto simp: tinfo_chars)

lemma sep_ok_not: "sep_ok sep \<Longrightarrow> sep \<noteq> 0 \<and> sep \<noteq> TI_CR \<and> sep \<noteq> TI_LF \<and> sep \<noteq> TI_ETX \<and> sep \<noteq> TI_EOT"
  by (auto simp: sep_ok_def tinfo_chars)

definition long_frame :: "xTinfoFrame \<Rightarrow> bool" where
  "long_frame f \<longleftrightarrow> (tf_frame f = 0 \<or> tf_frame f = eTinfoFrameBlue) \<and> tf_flag f AND eTinfoFlagShort = 0"

lemma frame_of_set [simp]:
  "tf_frame (set_w i n f) = tf_frame f" "tf_flag (set_w i n f) = tf_flag f"
  "tf_frame (set_low m v f) = tf_frame f" "tf_flag (set_low m v f) = tf_flag f"
  by (simp_all add: set_w_def set_low_def Let_def)

lemma with_num_frame: "(\<And>n. P (k n)) \<Longrightarrow> P f \<Longrightarrow> P (with_num base dat k f)"
  by (simp add: with_num_def split: option.split)

lemma long_simps:
  "long_frame f \<Longrightarrow> long_frame (f\<lparr>tf_papp := x, tf_flag := tf_flag f OR eTinfoFlagPapp\<rparr>)"
  "long_frame f \<Longrightarrow> long_frame (f\<lparr>tf_adps := x, tf_flag := tf_flag f OR eTinfoFlagAdps\<rparr>)"
  by (auto simp: long_frame_def eTinfoFlagShort_def eTinfoFlagPapp_def eTinfoFlagAdps_def bit.conj_disj_distrib2)

lemma long_updates [simp]:
  "long_frame (f\<lparr>tf_optarif := x\<rparr>) = long_frame f" "long_frame (f\<lparr>tf_ptec := x\<rparr>) = long_frame f"
  "long_frame (f\<lparr>tf_isousc := x\<rparr>) = long_frame f" "long_frame (f\<lparr>tf_nph := x\<rparr>) = long_frame f"
  "long_frame (f\<lparr>tf_iinst := xs\<rparr>) = long_frame f" "long_frame (f\<lparr>tf_imax := xs\<rparr>) = long_frame f"
  "long_frame (f\<lparr>tf_pmax := x\<rparr>) = long_frame f" "long_frame (f\<lparr>tf_motdetat := x\<rparr>) = long_frame f"
  "long_frame (f\<lparr>tf_ppot := x\<rparr>) = long_frame f" "long_frame (f\<lparr>tf_tarif := v\<rparr>) = long_frame f"
  "long_frame (set_w i n f) = long_frame f" "long_frame (set_low m w f) = long_frame f"
  by (simp_all add: long_frame_def)

lemma if_keep: "P a \<Longrightarrow> P b \<Longrightarrow> P (if c then a else b)"
  by simp

lemma option_keep: "P a \<Longrightarrow> (\<And>v. P (h v)) \<Longrightarrow> P (case x of None \<Rightarrow> a | Some v \<Rightarrow> h v)"
  by (simp split: option.split)

lemmas keep_rules = if_keep [where P = long_frame] option_keep [where P = long_frame] with_num_frame [where P = long_frame]

lemma long_option: "long_frame f \<Longrightarrow> long_frame (option_group dat f)"
  unfolding option_group_def Let_def by (intro keep_rules) simp_all

lemma long_current:
  "long_frame f \<Longrightarrow> (\<And>p n f. long_frame f \<Longrightarrow> long_frame (put p n f)) \<Longrightarrow> long_frame (current_group k put dat f)"
  unfolding current_group_def by (intro keep_rules) simp_all

lemma long_tarif: "long_frame f \<Longrightarrow> long_frame (tarif_group lab dat f)"
  unfolding tarif_group_def Let_def by (intro keep_rules) simp_all

lemma long_blue: "long_frame f \<Longrightarrow> long_frame (blue_group lab dat f)"
  unfolding blue_group_def
  by (intro keep_rules long_option long_current long_tarif long_simps) simp_all

lemma long_decode: "long_frame f \<Longrightarrow> long_frame (decode_group now g f)"
  unfolding decode_group_def split_beta
  by (intro keep_rules long_blue) (simp_all add: long_frame_def)

section \<open>Cutting a frame\<close>

lemma not_begins_adco: "lab = ascii ''ADCO'' \<Longrightarrow> \<not> begins lab ''ADIR''"
  by (simp add: begins_def ascii_def)

lemma prvvReadItem_at:
  assumes g: "group_ok sep g" and sep: "sep_ok sep" "ti_ht t = sep" and f: "long_frame f"
  shows "prvvReadItem t (pre @ fst g @ sep # snd g @ 0 # rest) (length pre) f =
    Inr (pre @ fst g @ 0 # snd g @ 0 # rest, decode_group (ti_time t) g f)"
proof -
  obtain lab dat where gd: "g = (lab, dat)" by (cases g)
  define b where "b = pre @ lab @ 0 # dat @ 0 # rest"
  define d where "d = length pre + length lab + 1"
  from g gd have chars: "0 \<notin> set lab" "0 \<notin> set dat" "sep \<notin> set lab" and noadir: "\<not> begins lab ''ADIR''"
    by (auto simp: group_ok_def text_ok_def)
  have lab: "str_at b (length pre) lab" using chars by (simp add: b_def str_atI)
  have dat: "str_at b d dat"
    using str_atI [of dat d "pre @ lab @ [0]" rest] chars by (simp add: b_def d_def)
  have search: "c_strchr sep (drop (length pre) (pre @ lab @ sep # dat @ 0 # rest)) = Inr (Some (length lab))"
    using chars c_strchr_app [of sep lab "dat @ 0 # rest"] by simp
  have upd: "(pre @ lab @ sep # dat @ 0 # rest)[length pre + length lab := 0] = b"
    by (simp add: b_def list_update_append)
  have adco: "cbind (iStrToLongLong 10 (drop d b)) (\<lambda>r. Inr (case r of Some n \<Rightarrow> h n | None \<Rightarrow> f)) = Inr (with_num 10 dat h f)"
    for h
  proof -
    from dat obtain r where "drop d b = dat @ 0 # r" by (auto simp: str_at_def)
    then show ?thesis by (simp add: iStrToLongLong_app with_num_def)
  qed
  have body: "(if tf_frame f = 0 then
            on (is_str b (length pre) ''ADCO'')
              (cbind (iStrToLongLong 10 (drop d b)) (\<lambda>r. Inr (case r of
                 Some n \<Rightarrow> f\<lparr>tf_frame := eTinfoFrameBlue, tf_adco := word_of_int n, tf_time := ti_time t\<rparr> | None \<Rightarrow> f)))
           (on (starts b (length pre) ''ADIR'')
              (prvvReadBlueShortItem b (length pre) d (f\<lparr>tf_frame := eTinfoFrameBlue, tf_time := ti_time t,
                 tf_flag := tf_flag f OR (eTinfoFlagShort OR eTinfoFlagAdps), tf_optarif := 3\<rparr>))
              (Inr f))
          else if tf_frame f = eTinfoFrameBlue then
            if tf_flag f AND eTinfoFlagShort \<noteq> 0 then prvvReadBlueShortItem b (length pre) d f
            else prvvReadBlueItem b (length pre) d f
          else Inr f) = Inr (decode_group (ti_time t) (lab, dat) f)"
    using f noadir
    by (auto simp: is_str_at [OF lab] starts_at [OF lab] plain_lits adco prvvReadBlueItem_at [OF lab dat]
        decode_group_def long_frame_def eTinfoFrameBlue_def)
  show ?thesis
    by (simp only: prvvReadItem_def gd fst_conv snd_conv sep(2) search cbind.simps option.case(2) Let_def upd
        d_def [symmetric] body b_def [symmetric])
qed

lemma split_groups_at:
  assumes "list_all (group_ok sep) gs" and sep: "sep_ok sep" "ti_ht t = sep" and "long_frame f"
    and tail: "c_strchr TI_LF tail = Inr None"
  shows "split_groups t (pre @ wire_groups sep gs @ TI_ETX # tail) (length pre) f =
    Inr (pre @ concat (map (cut_group sep) gs) @ TI_ETX # tail, fold (decode_group (ti_time t)) gs f)"
  using assms(1,4)
proof (induction gs arbitrary: pre f)
  case Nil
  from tail show ?case
    by (subst split_groups.simps) (simp add: wire_groups_def tinfo_chars)
next
  case (Cons g gs)
  define k where "k = group_sum sep g"
  define rest where "rest = wire_groups sep gs @ TI_ETX # tail"
  define b where "b = pre @ TI_LF # fst g @ sep # snd g @ sep # k # TI_CR # rest"
  define n where "n = length (fst g) + length (snd g) + 3"
  from Cons.prems have g: "group_ok sep g" by simp
  have whole: "pre @ wire_groups sep (g # gs) @ TI_ETX # tail = b"
    by (simp add: b_def wire_groups_def wire_group_def wire_group_with_def group_text_def k_def rest_def)
  have lf: "c_strchr TI_LF (drop (length pre) b) = Inr (Some 0)" by (simp add: b_def)
  have cr: "c_strchr TI_CR (drop (length pre + 0 + 1) b) = Inr (Some n)"
  proof -
    have "c_strchr TI_CR ((fst g @ sep # snd g @ [sep, k]) @ TI_CR # rest) = Inr (Some (length (fst g @ sep # snd g @ [sep, k])))"
      using g sep_ok_not [OF sep(1)] group_sum_not [of sep g]
      by (intro c_strchr_app) (auto simp: group_ok_def text_ok_def k_def)
    then show ?thesis by (simp add: b_def n_def)
  qed
  have wr: "wr b (length pre + 0 + 1 + n - 2) 0 = Inr (pre @ TI_LF # fst g @ sep # snd g @ 0 # k # TI_CR # rest)"
    by (simp add: b_def n_def list_update_append)
  have item: "prvvReadItem t (pre @ TI_LF # fst g @ sep # snd g @ 0 # k # TI_CR # rest) (length pre + 0 + 1) f =
      Inr (pre @ TI_LF # fst g @ 0 # snd g @ 0 # k # TI_CR # rest, decode_group (ti_time t) g f)"
    using prvvReadItem_at [OF g sep Cons.prems(2), of "pre @ [TI_LF]" "k # TI_CR # rest"] by simp
  have IH: "split_groups t ((pre @ cut_group sep g) @ wire_groups sep gs @ TI_ETX # tail) (length (pre @ cut_group sep g))
      (decode_group (ti_time t) g f) =
     Inr ((pre @ cut_group sep g) @ concat (map (cut_group sep) gs) @ TI_ETX # tail,
       fold (decode_group (ti_time t)) gs (decode_group (ti_time t) g f))"
    using Cons.prems by (intro Cons.IH long_decode) simp_all
  have pos: "length pre + 0 + 1 + n + 1 = length (pre @ cut_group sep g)" by (simp add: cut_group_def n_def)
  have cut: "pre @ TI_LF # fst g @ 0 # snd g @ 0 # k # TI_CR # rest = (pre @ cut_group sep g) @ wire_groups sep gs @ TI_ETX # tail"
    by (simp add: cut_group_def k_def rest_def)
  have step: "(length pre + 0 + 1 + n < 2) = False" by (simp add: n_def)
  show ?case
    unfolding whole
    by (subst split_groups.simps)
      (simp only: lf cr wr item cbind.simps option.case Let_def step if_False prod.case pos cut IH, simp)
qed

section \<open>Check sums\<close>

lemma rd_drop: "drop i b = xs @ c # r \<Longrightarrow> k = length xs \<Longrightarrow> rd b (i + k) = Inr c"
proof -
  assume d: "drop i b = xs @ c # r" and k: "k = length xs"
  have "i \<le> length b" using d by (cases "i \<le> length b") simp_all
  then have "b = take i b @ xs @ c # r" using d by (metis append_take_drop_id)
  then show ?thesis using k \<open>i \<le> length b\<close>
    by (metis append_assoc length_append length_take min.absorb2 rd_middle)
qed

lemma check_chars:
  assumes "drop i b = xs @ y # z # rest" "TI_LF \<notin> set xs" "TI_CR \<notin> set xs" "y \<noteq> TI_CR" "z \<noteq> TI_CR" "i + length xs < len"
  shows "check_groups b len (length xs + n) i s ht = check_groups b len n (i + length xs) (s + sum_list xs) ht"
  using assms
proof (induction xs arbitrary: i s)
  case (Cons c cs)
  have c: "rd b i = Inr c" using rd_drop [of i b "[]" c] Cons.prems by simp
  obtain u v r where uv: "cs @ y # z # rest = u # v # r" "v \<noteq> TI_CR"
  proof (cases cs)
    case (Cons d ds)
    then show ?thesis using Cons.prems that by (cases ds) auto
  qed (use Cons.prems that in auto)
  then have c2: "rd b (i + 2) = Inr v" using rd_drop [of i b "[c, u]" v r] Cons.prems by simp
  have "drop (Suc i) b = cs @ y # z # rest"
    using Cons.prems(1) by (metis append_Cons drop_Suc list.sel(3) tl_drop)
  then have IH: "check_groups b len (length cs + n) (Suc i) (s + c) ht =
      check_groups b len n (Suc i + length cs) (s + c + sum_list cs) ht"
    using Cons.prems by (intro Cons.IH) simp_all
  from c c2 uv(2) IH Cons.prems show ?case by (auto simp: add.assoc)
qed simp

lemma check_group:
  assumes g: "group_ok sep g" "sep_ok sep" and k: "k \<noteq> TI_CR"
    and b: "drop i b = wire_group_with sep k g @ rest" and len: "i + length (wire_group_with sep k g) < len"
  shows "check_groups b len (Suc (length (group_text sep g) + Suc n)) i s ht =
    (if k = group_sum sep g
     then check_groups b len n (i + length (wire_group_with sep k g)) (group_sum sep g) (if ht = 0 then sep else ht)
     else Inr (False, ht))"
proof -
  define xs where "xs = group_text sep g"
  define m where "m = i + 1 + length xs"
  have chars: "TI_LF \<notin> set xs" "TI_CR \<notin> set xs" "sep \<noteq> TI_CR" "sep \<noteq> TI_LF"
    using g sep_ok_not [OF g(2)] by (auto simp: xs_def group_text_def group_ok_def text_ok_def)
  have b': "drop i b = TI_LF # xs @ sep # k # TI_CR # rest" using b by (simp add: wire_group_with_def xs_def)
  then have d: "drop (i + 1) b = xs @ sep # k # TI_CR # rest"
    by (metis add.commute drop_Suc list.sel(3) plus_1_eq_Suc tl_drop)
  have sep: "rd b m = Inr sep" using rd_drop [OF d] by (simp add: m_def)
  have k1: "rd b (m + 1) = Inr k" using rd_drop [of "i + 1" b "xs @ [sep]" k "TI_CR # rest"] d by (simp add: m_def)
  have cr: "rd b (m + 2) = Inr TI_CR" using rd_drop [of "i + 1" b "xs @ [sep, k]" TI_CR rest] d by (simp add: m_def)
  have len': "m + 3 < len" using len by (simp add: m_def wire_group_with_def xs_def)
  have lf: "rd b i = Inr TI_LF" using rd_drop [of i b "[]"] b' by simp
  have "check_groups b len (Suc (length xs + Suc n)) i s ht = check_groups b len (length xs + Suc n) (i + 1) 0 ht"
    using lf len' by (simp add: m_def)
  also have "\<dots> = check_groups b len (Suc n) m (sum_list xs) ht"
    using check_chars [OF d chars(1,2,3) k, of len "Suc n" 0 ht] len' by (simp add: m_def)
  also have "\<dots> = (if k = group_sum sep g then check_groups b len n (m + 3) (group_sum sep g) (if ht = 0 then sep else ht)
      else Inr (False, ht))"
    using sep k1 cr chars len' by (simp add: group_sum_def xs_def Let_def)
  finally have run: "check_groups b len (Suc (length xs + Suc n)) i s ht =
      (if k = group_sum sep g then check_groups b len n (m + 3) (group_sum sep g) (if ht = 0 then sep else ht)
       else Inr (False, ht))" .
  have "i + length (wire_group_with sep k g) = m + 3" by (simp add: xs_def m_def wire_group_with_def)
  then show ?thesis unfolding xs_def [symmetric] by (simp only: run)
qed

definition sep_learnt :: "u8 \<Rightarrow> 'g list \<Rightarrow> u8 \<Rightarrow> u8" where
  "sep_learnt sep gs ht = (if ht = 0 \<and> gs \<noteq> [] then sep else ht)"

lemma check_prefix:
  assumes "list_all (group_ok sep) gs" "sep_ok sep" "drop i b = wire_groups sep gs @ rest"
    "i + length (wire_groups sep gs) < len" "len \<le> i + n"
  shows "\<exists>n' s'. len \<le> i + length (wire_groups sep gs) + n' \<and>
    check_groups b len n i s ht = check_groups b len n' (i + length (wire_groups sep gs)) s' (sep_learnt sep gs ht)"
  using assms
proof (induction gs arbitrary: i n s ht)
  case Nil
  then show ?case by (auto simp: wire_groups_def sep_learnt_def)
next
  case (Cons g gs)
  define w where "w = wire_group_with sep (group_sum sep g) g"
  have split_w: "wire_groups sep (g # gs) = w @ wire_groups sep gs" by (simp add: w_def wire_groups_def wire_group_def)
  have lw: "length w = length (group_text sep g) + 4" by (simp add: w_def wire_group_with_def)
  define n1 where "n1 = n - length (group_text sep g) - 2"
  from Cons.prems(4,5) have "length w < n" by (simp add: split_w)
  with lw have n: "n = Suc (length (group_text sep g) + Suc n1)" by (simp add: n1_def)
  define ht1 where "ht1 = (if ht = 0 then sep else ht)"
  have run: "check_groups b len n i s ht = check_groups b len n1 (i + length w) (group_sum sep g) ht1"
    unfolding n ht1_def
    using check_group [of sep g "group_sum sep g" i b "wire_groups sep gs @ rest" len n1 s ht] Cons.prems
    by (simp add: w_def [symmetric] group_sum_not split_w del: check_groups.simps)
  have "drop (i + length w) b = wire_groups sep gs @ rest"
    using Cons.prems(3) split_w by (metis add.commute append_assoc append_eq_conv_conj drop_drop)
  then obtain n' s' where le: "len \<le> i + length w + length (wire_groups sep gs) + n'"
      and IH: "check_groups b len n1 (i + length w) (group_sum sep g) ht1 =
        check_groups b len n' (i + length w + length (wire_groups sep gs)) s' (sep_learnt sep gs ht1)"
    using Cons.IH [of "i + length w" n1 "group_sum sep g" ht1] Cons.prems lw by (auto simp: split_w n)
  have learnt: "sep_learnt sep gs ht1 = sep_learnt sep (g # gs) ht"
    using sep_ok_not [OF Cons.prems(2)] by (simp add: sep_learnt_def ht1_def)
  have pos: "i + length (wire_groups sep (g # gs)) = i + length w + length (wire_groups sep gs)"
    by (simp add: split_w)
  from le run IH show ?case unfolding pos learnt by metis
qed

lemma check_all:
  assumes "list_all (group_ok sep) gs" "sep_ok sep" "drop i b = wire_groups sep gs @ TI_ETX # tail"
    "len = i + length (wire_groups sep gs) + 1" "len \<le> i + n"
  shows "check_groups b len n i s ht = Inr (True, sep_learnt sep gs ht)"
proof -
  obtain n' s' where "len \<le> i + length (wire_groups sep gs) + n'"
    and run: "check_groups b len n i s ht = check_groups b len n' (i + length (wire_groups sep gs)) s' (sep_learnt sep gs ht)"
    using check_prefix [OF assms(1-3), of len n s ht] assms(4,5) by auto
  then obtain m where "n' = Suc m" using assms(4) by (cases n') auto
  with run assms(4) show ?thesis by simp
qed

lemma check_wrong:
  assumes gs: "list_all (group_ok sep) gs" "sep_ok sep" "group_ok sep g" and k: "k \<noteq> group_sum sep g" "k \<noteq> TI_CR"
    and b: "drop i b = wire_groups sep gs @ wire_group_with sep k g @ rest"
    and len: "i + length (wire_groups sep gs @ wire_group_with sep k g) < len" "len \<le> i + n"
  shows "check_groups b len n i s ht = Inr (False, sep_learnt sep gs ht)"
proof -
  define j where "j = i + length (wire_groups sep gs)"
  obtain n' s' where le: "len \<le> j + n'"
    and run: "check_groups b len n i s ht = check_groups b len n' j s' (sep_learnt sep gs ht)"
    using check_prefix [OF gs(1,2) b, of len n s ht] len by (auto simp: j_def)
  define m where "m = n' - length (group_text sep g) - 2"
  have "length (wire_group_with sep k g) = length (group_text sep g) + 4" by (simp add: wire_group_with_def)
  then have n': "n' = Suc (length (group_text sep g) + Suc m)" using le len by (simp add: m_def j_def)
  have "drop j b = wire_group_with sep k g @ rest"
    using b by (metis add.commute append_eq_conv_conj drop_drop j_def)
  then show ?thesis
    unfolding run n' using check_group [of sep g k j b rest len m s' "sep_learnt sep gs ht"] gs k len
    by (simp add: j_def del: check_groups.simps)
qed

section \<open>Frames\<close>

lemma split_groups_skip:
  assumes "c \<noteq> TI_LF" "c \<noteq> 0"
  shows "split_groups t (c # r) 0 f = split_groups t (c # r) 1 f"
proof (cases "c_strchr TI_LF r")
  case (Inl e)
  with assms show ?thesis by (subst (1 2) split_groups.simps) simp
next
  case (Inr v)
  with assms show ?thesis by (subst (1 2) split_groups.simps) (cases v; simp)
qed

definition holds_frame :: "u8 \<Rightarrow> (u8 list \<times> u8 list) list \<Rightarrow> u8 list \<Rightarrow> xTinfo \<Rightarrow> bool" where
  "holds_frame sep gs tail t \<longleftrightarrow>
     ti_buf t = TI_STX # wire_groups sep gs @ TI_ETX # tail \<and> ti_buflen t = length (wire_groups sep gs) + 2"

definition decode :: "int \<Rightarrow> (u8 list \<times> u8 list) list \<Rightarrow> xTinfoFrame" where
  "decode now gs = fold (decode_group now) gs frame_zero"

definition cut_frame :: "u8 \<Rightarrow> (u8 list \<times> u8 list) list \<Rightarrow> u8 list \<Rightarrow> xTinfo \<Rightarrow> xTinfo" where
  "cut_frame sep gs tail t = t\<lparr>ti_ht := sep, ti_buf := TI_STX # concat (map (cut_group sep) gs) @ TI_ETX # tail\<rparr>"

lemma long_zero: "long_frame frame_zero"
  by (simp add: long_frame_def frame_zero_def)

lemma prviProbeFrame_split:
  assumes gs: "list_all (group_ok sep) gs" "gs \<noteq> []" and sep: "sep_ok sep" "ti_ht t = 0 \<or> ti_ht t = sep"
    and t: "holds_frame sep gs tail t" and tail: "c_strchr TI_LF tail = Inr None"
  shows "prviProbeFrame E t w = Inr (announce E (cut_frame sep gs tail t) (decode (ti_time t) gs) w)"
proof -
  have len: "ti_buflen t = 1 + length (wire_groups sep gs) + 1" using t by (simp add: holds_frame_def)
  have "drop 1 (ti_buf t) = wire_groups sep gs @ TI_ETX # tail" using t by (simp add: holds_frame_def)
  from check_all [OF gs(1) sep(1) this len, of "ti_buflen t" 0 "ti_ht t"]
  have check: "check_groups (ti_buf t) (ti_buflen t) (ti_buflen t) 1 0 (ti_ht t) = Inr (True, sep)"
    using gs(2) sep sep_ok_not [OF sep(1)] by (auto simp: sep_learnt_def)
  have "split_groups (t\<lparr>ti_ht := sep\<rparr>) (ti_buf t) 0 frame_zero = split_groups (t\<lparr>ti_ht := sep\<rparr>) (ti_buf t) 1 frame_zero"
    using t split_groups_skip [of TI_STX] by (simp add: holds_frame_def TI_STX_def TI_LF_def)
  also have "\<dots> = Inr (TI_STX # concat (map (cut_group sep) gs) @ TI_ETX # tail, decode (ti_time t) gs)"
    using split_groups_at [OF gs(1) sep(1) _ long_zero tail, of "t\<lparr>ti_ht := sep\<rparr>" "[TI_STX]"] t
    by (simp add: holds_frame_def decode_def)
  finally show ?thesis
    unfolding prviProbeFrame_def check by (simp add: prviSplitFrame_def cut_frame_def)
qed

text \<open>C23.  A complete frame of at least one group, none of them with the label of the address of the
  meter (\<open>ADIR\<close>, which the code does not decode as it should), whose check sums are right, and behind which the buffer has no
  remains of a group, is decoded as the reference decoder does, group after group on labels and data, and is
  announced; the separator of the meter is learnt from its first group.  No access faults.\<close>

theorem prviProbeFrame_decodes:
  assumes gs: "list_all (group_ok sep) gs" "gs \<noteq> []" and sep: "sep_ok sep" "ti_ht t = 0 \<or> ti_ht t = sep"
    and t: "holds_frame sep gs tail t" and tail: "c_strchr TI_LF tail = Inr None"
  shows "prviProbeFrame E t w = Inr (announce E (cut_frame sep gs tail t) (decode (ti_time t) gs) w)"
  using assms by (rule prviProbeFrame_split)

text \<open>C24.  When the check sum of some group is wrong, the frame is dropped as a whole: the
  result is -1, no callback has been called, and the buffer is empty for the next frame; the groups before it are
  not used either.\<close>

theorem prviProbeFrame_bad_checksum:
  assumes "list_all (group_ok sep) gs" "sep_ok sep" "group_ok sep g" "k \<noteq> group_sum sep g" "k \<noteq> TI_CR"
    and "ti_buf t = TI_STX # wire_groups sep gs @ wire_group_with sep k g @ rest"
    and "length (wire_groups sep gs @ wire_group_with sep k g) + 1 < ti_buflen t"
  shows "prviProbeFrame E t w = Inr (-1, t\<lparr>ti_ht := sep_learnt sep gs (ti_ht t), ti_buflen := 0\<rparr>, w)"
proof -
  have "drop 1 (ti_buf t) = wire_groups sep gs @ wire_group_with sep k g @ rest" using assms(6) by simp
  from check_wrong [OF assms(1-5) this, of "ti_buflen t" "ti_buflen t" 0 "ti_ht t"] assms(7)
  show ?thesis by (simp add: prviProbeFrame_def)
qed

section \<open>Chunks\<close>

text \<open>The chunks that polls bring one after the other; the result is the one of the last.\<close>

fun feed :: "'w tinfo_env \<Rightarrow> u8 list list \<Rightarrow> xTinfo \<Rightarrow> 'w \<Rightarrow> (int \<times> xTinfo \<times> 'w) run" where
  "feed E [] t w = Inr (0, t, w)"
| "feed E (c # cs) t w =
     cbind (prviProbeBuffer E c t w) (\<lambda>(r, t, w). if cs = [] then Inr (r, t, w) else feed E cs t w)"

lemma wire_plain:
  assumes "list_all (group_ok sep) gs" "sep_ok sep"
  shows "TI_ETX \<notin> set (wire_groups sep gs)" "TI_EOT \<notin> set (wire_groups sep gs)"
  using assms(1) sep_ok_not [OF assms(2)] group_sum_not
  by (induction gs; auto simp: wire_groups_def wire_group_def wire_group_with_def group_text_def group_ok_def text_ok_def
    tinfo_chars)+

lemma seek_noise:
  assumes "TI_STX \<notin> set noise" "ti_started t = False" "noise \<noteq> []"
  shows "seek E (noise @ r) t w = seek E r (t\<lparr>ti_pchar := last noise\<rparr>) w"
  using assms
proof (induction noise arbitrary: t)
  case (Cons c cs)
  then show ?case by (cases cs) (auto simp: Let_def split: prod.splits)
qed simp

lemma seek_started:
  assumes "tinfo_shape t" "ti_buflen t + length cs \<le> TINFO_BUFFER_SIZE" "ti_started t" "ti_pchar t \<noteq> TI_ETX"
  shows "seek E cs t w = Inr (0, put_bytes cs t, w)"
  using assms
proof (induction cs arbitrary: t)
  case (Cons c cs)
  then have "tinfo_shape (put_bytes [c] t)" by (intro put_bytes_shape) simp_all
  moreover have "ti_buflen (put_bytes [c] t) + length cs \<le> TINFO_BUFFER_SIZE"
    using Cons.prems by (simp add: put_bytes_def)
  ultimately show ?case using Cons.prems Cons.IH [of "put_bytes [c] t"]
    by (simp add: put_byte_ok put_bytes_put_bytes Let_def split: prod.splits) (simp add: put_bytes_def)
qed simp

lemma feed_mids:
  assumes "tinfo_shape t" "0 < ti_buflen t" "ti_buflen t + length (concat mids) \<le> TINFO_BUFFER_SIZE"
    "TI_ETX \<notin> set (concat mids)" "TI_EOT \<notin> set (concat mids)" "cs \<noteq> []"
  shows "feed E (mids @ cs) t w = feed E cs (put_bytes (concat mids) t) w"
  using assms
proof (induction mids arbitrary: t)
  case (Cons m mids)
  then have fits: "ti_buflen t + length m \<le> TINFO_BUFFER_SIZE" by simp
  have "prviProbeBuffer E m t w = Inr (0, put_bytes m t, w)"
    using Cons.prems fits prviProbeBuffer_plain [of t m E w] by simp
  moreover have "feed E (mids @ cs) (put_bytes m t) w = feed E cs (put_bytes (concat mids) (put_bytes m t)) w"
    using Cons.prems put_bytes_shape [OF Cons.prems(1) fits] by (intro Cons.IH) (auto simp: put_bytes_def)
  ultimately show ?case
    using Cons.prems fits by (simp add: put_bytes_put_bytes)
qed simp

lemma tinfo_feed:
  assumes gs: "list_all (group_ok sep) gs" "gs \<noteq> []" and sep: "sep_ok sep" "ti_ht t = 0 \<or> ti_ht t = sep"
    and t: "tinfo_shape t" "ti_buflen t = 0" and noise: "TI_STX \<notin> set noise"
    and pieces: "part @ concat mids @ rest = wire_groups sep gs"
    and fits: "length (wire_groups sep gs) + 2 \<le> TINFO_BUFFER_SIZE"
    and tail: "tail = drop (length (wire_groups sep gs) + 2) (ti_buf t)" "c_strchr TI_LF tail = Inr None"
    and clock: "te_time E w = (now, w1)"
  shows "feed E ((noise @ [TI_ETX, TI_STX] @ part) # mids @ [rest @ TI_ETX # junk]) t w =
    Inr (announce E (cut_frame sep gs tail (t\<lparr>ti_time := now, ti_started := True,
      ti_buflen := length (wire_groups sep gs) + 2, ti_pchar := TI_ETX\<rparr>)) (decode now gs) w1)"
proof -
  define u where "u = t\<lparr>ti_time := now, ti_started := True, ti_pchar := 0\<rparr>"
  note plain = wire_plain [OF gs(1) sep(1)]
  have body: "length (wire_groups sep gs) = length part + length (concat mids) + length rest"
    by (simp add: pieces [symmetric])
  have sets: "TI_ETX \<notin> set (concat mids)" "TI_EOT \<notin> set (concat mids)" "TI_ETX \<notin> set rest" "TI_EOT \<notin> set rest"
    using plain by (auto simp: pieces [symmetric])
  have u: "tinfo_shape u" "ti_buflen u = 0" "ti_started u" "ti_pchar u \<noteq> TI_ETX"
    using t by (simp_all add: u_def TI_ETX_def)
  have first: "prviProbeBuffer E (noise @ [TI_ETX, TI_STX] @ part) t w = Inr (0, put_bytes (TI_STX # part) u, w1)"
  proof -
    have "seek E (noise @ [TI_ETX, TI_STX] @ part) (t\<lparr>ti_started := False\<rparr>) w =
        seek E (TI_STX # part) (t\<lparr>ti_started := False, ti_pchar := TI_ETX\<rparr>) w"
      using seek_noise [of "noise @ [TI_ETX]" "t\<lparr>ti_started := False\<rparr>" E "TI_STX # part" w] noise
      by (simp add: TI_ETX_def TI_STX_def)
    also have "\<dots> = cbind (put_byte u TI_STX) (\<lambda>v. seek E part v w1)"
      by (simp add: clock u_def Let_def)
    also have "\<dots> = seek E part (put_bytes [TI_STX] u) w1"
      using u by (simp add: put_byte_ok TINFO_BUFFER_SIZE_def)
    also have "\<dots> = Inr (0, put_bytes part (put_bytes [TI_STX] u), w1)"
      using u fits body by (intro seek_started put_bytes_shape) (auto simp: put_bytes_def)
    also have "put_bytes part (put_bytes [TI_STX] u) = put_bytes (TI_STX # part) u"
      using u fits by (subst put_bytes_put_bytes) simp_all
    finally show ?thesis using t by (simp add: prviProbeBuffer_def)
  qed
  define v where "v = put_bytes (TI_STX # part) u"
  define x where "x = put_bytes (TI_STX # part @ concat mids) u"
  have v: "tinfo_shape v" "ti_buflen v = length part + 1"
    unfolding v_def by (rule put_bytes_shape; use u fits body in simp) (simp add: put_bytes_def u)
  have x: "x = put_bytes (concat mids) v" "tinfo_shape x" "ti_buflen x = length part + length (concat mids) + 1"
    unfolding x_def v_def using u fits body
      apply (simp add: put_bytes_put_bytes)
     apply (rule put_bytes_shape; use u fits body in simp)
    by (simp add: put_bytes_def u)
  have mid: "feed E (mids @ [rest @ TI_ETX # junk]) v w1 = feed E [rest @ TI_ETX # junk] x w1"
    unfolding x(1) using v fits body sets by (intro feed_mids) simp_all
  define z where "z = put_bytes (TI_STX # wire_groups sep gs @ [TI_ETX]) u"
  have z: "put_bytes [TI_ETX] (put_bytes rest x) = z"
    unfolding x_def z_def using u fits body
    by (subst put_bytes_put_bytes put_bytes_put_bytes; simp add: pieces [symmetric])+
  have "collect E (rest @ TI_ETX # junk) x w1 = collect E (TI_ETX # junk) (put_bytes rest x) w1"
    using x(2,3) fits body sets by (intro collect_plain) simp_all
  also have "\<dots> = prviProbeFrame E (z\<lparr>ti_pchar := TI_ETX\<rparr>) w1"
  proof -
    have "ti_buflen (put_bytes rest x) < TINFO_BUFFER_SIZE" using x(3) fits body by (simp add: put_bytes_def)
    moreover have "tinfo_shape (put_bytes rest x)" using x(2,3) fits body by (intro put_bytes_shape) simp_all
    ultimately show ?thesis by (simp add: put_byte_ok z)
  qed
  finally have end1: "feed E [rest @ TI_ETX # junk] x w1 = prviProbeFrame E (z\<lparr>ti_pchar := TI_ETX\<rparr>) w1"
    using x(3) by (auto simp: prviProbeBuffer_def cbind_Inr_iff split: prod.splits)
      (cases "prviProbeFrame E (z\<lparr>ti_pchar := TI_ETX\<rparr>) w1"; auto)
  have hold: "holds_frame sep gs tail (z\<lparr>ti_pchar := TI_ETX\<rparr>)"
    using u t fits by (simp add: holds_frame_def z_def put_bytes_def tail u_def)
  have "prviProbeFrame E (z\<lparr>ti_pchar := TI_ETX\<rparr>) w1 =
      Inr (announce E (cut_frame sep gs tail (z\<lparr>ti_pchar := TI_ETX\<rparr>)) (decode (ti_time (z\<lparr>ti_pchar := TI_ETX\<rparr>)) gs) w1)"
    using sep by (intro prviProbeFrame_split [OF gs sep(1) _ hold tail(2)]) (simp add: z_def put_bytes_def u_def)
  then show ?thesis
    using first mid end1
    by (simp add: v_def z_def put_bytes_def u_def cut_frame_def t)
qed

text \<open> A frame between STX and ETX that the line brings in any pieces behind the end of another
  frame is decoded and announced when its ETX arrives, with the time at which its STX arrived, when it fits into the
  buffer and the buffer has no remains of a group behind it.\<close>

theorem tinfo_delivery:
  assumes gs: "list_all (group_ok sep) gs" "gs \<noteq> []" and sep: "sep_ok sep" "ti_ht t = 0 \<or> ti_ht t = sep"
    and t: "tinfo_shape t" "ti_buflen t = 0" and noise: "TI_STX \<notin> set noise"
    and pieces: "part @ concat mids @ rest = wire_groups sep gs"
    and fits: "length (wire_groups sep gs) + 2 \<le> TINFO_BUFFER_SIZE"
    and tail: "tail = drop (length (wire_groups sep gs) + 2) (ti_buf t)" "c_strchr TI_LF tail = Inr None"
    and clock: "te_time E w = (now, w1)"
  shows "feed E ((noise @ [TI_ETX, TI_STX] @ part) # mids @ [rest @ TI_ETX # junk]) t w =
    Inr (announce E (cut_frame sep gs tail (t\<lparr>ti_time := now, ti_started := True,
      ti_buflen := length (wire_groups sep gs) + 2, ti_pchar := TI_ETX\<rparr>)) (decode now gs) w1)"
  using assms by (rule tinfo_feed)

end
