(* ===== verification/Tinfo_Values.thy ===== *)
theory Tinfo_Values
  imports Tinfo_Meter
begin

text \<open>
  The values of a meter: what a meter prints in its groups, and that the callback of frames is given these values.
\<close>

section \<open>Printed numbers\<close>

definition digit_char :: "nat \<Rightarrow> u8" where
  "digit_char d = (if d < 10 then 0x30 + of_nat d else 0x37 + of_nat d)"

fun num_text :: "nat \<Rightarrow> nat \<Rightarrow> nat \<Rightarrow> u8 list" where
  "num_text base 0 n = []"
| "num_text base (Suc k) n = num_text base k (n div base) @ [digit_char (n mod base)]"

lemma num_text_length [simp]: "length (num_text base k n) = k"
  by (induction k arbitrary: n) simp_all

lemma digit_cases: "d < 16 \<Longrightarrow> d \<in> {0, 1, 2, 3, 4, 5, 6, 7, 8, 9, 10, 11, 12, 13, 14, 15}" for d :: nat
  unfolding insert_iff empty_iff by arith

lemma digit_char_range: "d < 16 \<Longrightarrow>
    digit_char d \<in> {0x30, 0x31, 0x32, 0x33, 0x34, 0x35, 0x36, 0x37, 0x38, 0x39, 0x41, 0x42, 0x43, 0x44, 0x45, 0x46}"
  using digit_cases [of d] by (auto simp: digit_char_def)

lemma digit_val_char_if: "d < 16 \<Longrightarrow> base \<le> 16 \<Longrightarrow>
    digit_val base (digit_char d) = (if int d < base then Some (int d) else None)"
  by (drule digit_cases, elim insertE emptyE; simp add: digit_char_def digit_val_def isupper_def islower_def)

lemma digit_val_char: "d < base \<Longrightarrow> base \<le> 16 \<Longrightarrow> digit_val (int base) (digit_char d) = Some (int d)"
  by (simp add: digit_val_char_if)

definition digit_chars :: "u8 set" where
  "digit_chars = {0x30, 0x31, 0x32, 0x33, 0x34, 0x35, 0x36, 0x37, 0x38, 0x39, 0x41, 0x42, 0x43, 0x44, 0x45, 0x46}"

lemma num_text_chars: "0 < base \<Longrightarrow> base \<le> 16 \<Longrightarrow> set (num_text base k n) \<subseteq> digit_chars"
proof (induction k arbitrary: n)
  case (Suc k)
  then have "n mod base < 16" by (metis less_le_trans mod_less_divisor)
  then have "digit_char (n mod base) \<in> digit_chars" using digit_char_range by (simp add: digit_chars_def)
  with Suc show ?case by simp
qed simp

lemma digits_snoc:
  "list_all (\<lambda>c. digit_val base c \<noteq> None) xs \<Longrightarrow>
     digits base acc (xs @ [c]) = (case digit_val base c of Some d \<Rightarrow> digits base acc xs * base + d | None \<Rightarrow> digits base acc xs)"
  by (induction xs arbitrary: acc) (auto split: option.splits)

lemma num_text_digits: "0 < base \<Longrightarrow> base \<le> 16 \<Longrightarrow> list_all (\<lambda>c. digit_val (int base) c \<noteq> None) (num_text base k n)"
  by (induction k arbitrary: n) (simp_all add: digit_val_char)

lemma digits_num_text:
  assumes "0 < base" "base \<le> 16"
  shows "n < base ^ k \<Longrightarrow> digits (int base) acc (num_text base k n) = acc * int base ^ k + int n"
proof (induction k arbitrary: n)
  case (Suc k)
  have "n div base < base ^ k" using Suc.prems assms by (simp add: less_mult_imp_div_less mult.commute)
  from Suc.IH [OF this] have "digits (int base) acc (num_text base (Suc k) n) =
      (acc * int base ^ k + int (n div base)) * int base + int (n mod base)"
    using assms num_text_digits [OF assms] by (simp add: digits_snoc digit_val_char)
  also have "\<dots> = acc * int base ^ Suc k + (int (n div base) * int base + int (n mod base))"
    by (simp only: power_Suc) (simp only: algebra_simps)
  also have "int (n div base) * int base + int (n mod base) = int (n div base * base + n mod base)"
    by (simp only: of_nat_add of_nat_mult)
  finally show ?case by (simp only: div_mult_mod_eq)
qed simp

lemma strnum_num_text:
  assumes base: "0 < base" "base \<le> 16" and k: "0 < k" "n < base ^ k" "base ^ k \<le> 2 ^ 63"
  shows "strnum (int base) (num_text base k n) = Some (int n)"
proof -
  define s where "s = num_text base k n"
  have chars: "set s \<subseteq> digit_chars" and ok: "list_all (\<lambda>c. digit_val (int base) c \<noteq> None) s" and ne: "s \<noteq> []"
    and val: "digits (int base) 0 s = int n"
    using num_text_chars [OF base] num_text_digits [OF base] digits_num_text [OF base k(2)] k(1)
    by (auto simp: s_def simp flip: length_0_conv)
  obtain c r where s: "s = c # r" using ne by (cases s) auto
  have c: "c \<in> digit_chars" using chars s by simp
  then have "\<not> isspace c" "c \<noteq> 0x2D" "c \<noteq> 0x2B" by (auto simp: digit_chars_def isspace_def)
  then have "dropWhile isspace s = s" "skip_sign s = (False, s)" by (simp_all add: s skip_sign_def)
  moreover have "skip_hex (int base) s = s"
  proof (cases r)
    case (Cons x u)
    then have "x \<in> digit_chars" using chars s by simp
    then have "x \<noteq> 0x78" "x \<noteq> 0x58" by (auto simp: digit_chars_def)
    then show ?thesis using s Cons by (cases u) (simp_all add: skip_hex_def)
  qed (simp add: s skip_hex_def)
  moreover have "int n < 2 ^ 63"
  proof -
    have "n < 2 ^ 63" using k(2,3) by (rule less_le_trans)
    then have "int n < int (2 ^ 63)" by (simp only: of_nat_less_iff)
    then show ?thesis by simp
  qed
  ultimately show ?thesis
    using val ok s by (simp add: strnum_def s_def [symmetric] Let_def)
qed

lemma with_num_text:
  assumes "0 < k" "n < base ^ k" "base = 10 \<and> k \<le> 12 \<or> base = 16 \<and> k \<le> 12"
  shows "with_num (int base) (num_text base k n) h f = h (int n)"
proof -
  have "base ^ k \<le> base ^ 12" using assms by (intro power_increasing) auto
  also have "\<dots> \<le> 2 ^ 63" using assms(3) by auto
  finally have "strnum (int base) (num_text base k n) = Some (int n)"
    using assms by (intro strnum_num_text) auto
  then show ?thesis by (simp add: with_num_def)
qed

lemma num_text_ok: "0 < base \<Longrightarrow> base \<le> 16 \<Longrightarrow> sep_ok sep \<Longrightarrow> text_ok sep (num_text base k n)"
  using num_text_chars [of base k n] by (auto simp: text_ok_def digit_chars_def sep_ok_def tinfo_chars)

section \<open>A single-phase meter of the base tariff\<close>

record meter =
  m_adco :: nat
  m_isousc :: nat
  m_base :: nat
  m_iinst :: nat
  m_imax :: nat
  m_papp :: nat
  m_motdetat :: nat


text \<open>The groups in the order and with the widths that the comments of \<open>prvvReadBlueItem\<close> give.\<close>

definition meter_groups :: "meter \<Rightarrow> (u8 list \<times> u8 list) list" where
  "meter_groups m =
     [(ascii ''ADCO'', num_text 10 12 (m_adco m)),
      (ascii ''OPTARIF'', ascii ''BASE''),
      (ascii ''ISOUSC'', num_text 10 2 (m_isousc m)),
      (ascii ''BASE'', num_text 10 9 (m_base m)),
      (ascii ''PTEC'', ascii ''TH..''),
      (ascii ''IINST'', num_text 10 3 (m_iinst m)),
      (ascii ''IMAX'', num_text 10 3 (m_imax m)),
      (ascii ''PAPP'', num_text 10 5 (m_papp m)),
      (ascii ''MOTDETAT'', num_text 16 6 (m_motdetat m))]"


lemmas ten_num = with_num_text [where base = 10, simplified]


lemma current_short:
  "length dat \<le> k \<Longrightarrow> current_group k put dat f = with_num 10 dat (\<lambda>n. put 0 (word_of_int n) (f\<lparr>tf_nph := 1\<rparr>)) f"
  by (simp add: current_group_def)



lemma printed_text_ok:
  assumes "sep_ok sep" "list_all (\<lambda>c. 0x20 < c) s"
  shows "text_ok sep s"
proof -
  have "c \<notin> set s" if "c \<le> 0x20" for c
    using assms(2) that by (auto simp: list_all_iff)
  then show ?thesis using assms(1) by (auto simp: text_ok_def sep_ok_def tinfo_chars)
qed

lemma meter_groups_ok: "sep_ok sep \<Longrightarrow> list_all (group_ok sep) (meter_groups m)"
  by (simp add: meter_groups_def group_ok_def num_text_ok begins_def) (auto intro!: printed_text_ok simp: ascii_def)





section \<open>A three-phase meter\<close>

text \<open>The number of the phase stands behind the label.\<close>

definition phases_groups :: "nat \<Rightarrow> nat \<Rightarrow> nat \<Rightarrow> nat \<Rightarrow> (u8 list \<times> u8 list) list" where
  "phases_groups adco a b c =
     [(ascii ''ADCO'', num_text 10 12 adco),
      (ascii ''IINST1'', num_text 10 3 a), (ascii ''IINST2'', num_text 10 3 b), (ascii ''IINST3'', num_text 10 3 c)]"

lemma blue_iinst:
  "begins lab ''IINST'' \<Longrightarrow> blue_group lab dat f = current_group 5 (\<lambda>p n f. f\<lparr>tf_iinst := (tf_iinst f)[p := n]\<rparr>) dat f"
  unfolding begins_def blue_group_def by (auto simp: ascii_def)

lemma phases_groups_ok: "sep_ok sep \<Longrightarrow> list_all (group_ok sep) (phases_groups adco a b c)"
  by (simp add: phases_groups_def group_ok_def num_text_ok begins_def) (auto intro!: printed_text_ok simp: ascii_def)

lemma phases_decode:
  assumes "adco < 10 ^ 12" "a < 10 ^ 3" "b < 10 ^ 3" "c < 10 ^ 3"
  shows "tf_nph (decode now (phases_groups adco a b c)) = 1 \<and>
    tf_iinst (decode now (phases_groups adco a b c)) = [of_nat c, 0, 0]"
proof -
  have start: "decode_group now (ascii ''ADCO'', num_text 10 12 adco) frame_zero =
      frame_zero\<lparr>tf_frame := eTinfoFrameBlue, tf_adco := word_of_int (int adco), tf_time := now\<rparr>"
    using assms by (simp add: decode_group_def ten_num frame_zero_def eTinfoFrameBlue_def)
  have phase: "decode_group now (lab, num_text 10 3 n) f =
      f\<lparr>tf_nph := 1, tf_iinst := (tf_iinst f)[0 := of_nat n]\<rparr>"
    if "tf_frame f = eTinfoFrameBlue" "begins lab ''IINST''" "n < 10 ^ 3" for lab n f
    using that by (simp add: decode_group_def blue_iinst current_short ten_num)
  have labels: "begins (ascii ''IINST1'') ''IINST''" "begins (ascii ''IINST2'') ''IINST''" "begins (ascii ''IINST3'') ''IINST''"
    by (simp_all add: begins_def ascii_def)
  show ?thesis
    using assms by (simp add: decode_def phases_groups_def start phase labels) (simp add: frame_zero_def)
qed

text \<open> The frame of a three-phase meter is announced as the one of a single-phase meter whose
  current is the one of the third phase: the number of the phase is looked for behind the data instead of behind the
  label, where the meter puts it.\<close>

theorem three_phase_lost:
  assumes "adco < 10 ^ 12" "a < 10 ^ 3" "b < 10 ^ 3" "c < 10 ^ 3"
    and sep: "sep_ok sep" "ti_ht t = 0 \<or> ti_ht t = sep"
    and t: "holds_frame sep (phases_groups adco a b c) tail t" "c_strchr TI_LF tail = Inr None"
  shows "\<exists>f. prviProbeFrame E t w = Inr (announce E (cut_frame sep (phases_groups adco a b c) tail t) f w) \<and>
    tf_nph f = 1 \<and> tf_iinst f = [of_nat c, 0, 0]"
proof -
  have "phases_groups adco a b c \<noteq> []" by (simp add: phases_groups_def)
  note run = prviProbeFrame_split [OF phases_groups_ok [OF sep(1)] this sep t, of E w]
  show ?thesis
    by (rule exI, rule conjI, rule run, rule phases_decode [OF assms(1-4)])
qed

section \<open>Concrete runs\<close>

text \<open>The world lists the frames that were announced.\<close>

definition ex_line :: "'w tty" where
  "ex_line = \<lparr>y_open = (\<lambda>_ w. (3, w)), y_close = (\<lambda>_ w. (0, w)), y_setfl = (\<lambda>_ w. w),
     y_getattr = (\<lambda>_ w. (-1, \<lparr>c_iflag = 0, c_oflag = 0, c_cflag = 0, c_lflag = 0, c_vmin = 0, c_vtime = 0, c_ispeed = 0, c_ospeed = 0\<rparr>, w)), y_setattr = (\<lambda>_ ts w. (-1, w)), y_flush = (\<lambda>_ w. w),
     y_get485 = (\<lambda>_ w. (-1, 0, w)), y_set485 = (\<lambda>_ u w. (-1, w)), y_getm = (\<lambda>_ w. (None, w)), y_setm = (\<lambda>_ _ w. w),
     y_select = (\<lambda>_ _ w. (1, True, False, w)), y_avail = (\<lambda>_ w. (0, 3, w)), y_delay = (\<lambda>_ w. w)\<rparr>"

definition ex_meters :: "xTinfoFrame list tinfo_env" where
  "ex_meters = \<lparr>te_call = (\<lambda>c t f w. (int c, t, f, w @ [f])), te_time = (\<lambda>w. (7, w)), te_tty = ex_line,
     te_read = (\<lambda>_ n w. (Some [TI_ETX, TI_STX, TI_LF], w))\<rparr>"

definition ex_meter :: meter where
  "ex_meter = \<lparr>m_adco = 524563565245, m_isousc = 30, m_base = 2815235, m_iinst = 2, m_imax = 31, m_papp = 420, m_motdetat = 0\<rparr>"

definition ex_receiver :: xTinfo where
  "ex_receiver = tinfo_zero\<lparr>ti_cb := (\<lambda>_. None)(eTinfoCbFrame := Some 5), ti_ptec := eTinfoPtecTh\<rparr>"

lemma no_group_in_zeros: "0 < n \<Longrightarrow> c_strchr TI_LF (replicate n 0) = Inr None"
  by (cases n) (simp_all add: TI_LF_def)

lemma ex_receiver_ok: "tinfo_shape ex_receiver" "ti_buflen ex_receiver = 0" "ti_ht ex_receiver = 0"
    "ti_buf ex_receiver = replicate 1024 0"
  by (simp_all add: ex_receiver_def tinfo_shape_def tinfo_zero_def TINFO_BUFFER_SIZE_def)

lemma ex_seps: "sep_ok 0x20" "sep_ok 0x09"
  by (simp_all add: sep_ok_def)


theorem tinfo_delivery_witness:
  "feed ex_meters [[TI_ETX, TI_STX], wire_groups 0x09 [([0x41], [0x42])], [TI_ETX]] ex_receiver [] =
     Inr (announce ex_meters (cut_frame 0x09 [([0x41], [0x42])] (replicate 1015 0)
       (ex_receiver\<lparr>ti_time := 7, ti_started := True, ti_buflen := 9, ti_pchar := TI_ETX\<rparr>))
       (decode 7 [([0x41], [0x42])]) [])"
proof -
  have "list_all (group_ok 0x09) [([0x41], [0x42])]"
    by (simp add: group_ok_def text_ok_def tinfo_chars begins_def ascii_def)
  moreover have "length (wire_groups 0x09 [([0x41], [0x42])]) = 7"
    by (simp add: wire_groups_def wire_group_def wire_group_with_def group_text_def)
  ultimately show ?thesis
    using tinfo_delivery [of "0x09" "[([0x41], [0x42])]" ex_receiver "[]" "[]" "[wire_groups 0x09 [([0x41], [0x42])]]" "[]"
        "replicate 1015 0" ex_meters "[]" 7 "[]" "[]"]
    by (simp add: ex_seps ex_receiver_ok no_group_in_zeros TINFO_BUFFER_SIZE_def) (simp add: ex_meters_def)
qed

text \<open>A receiver whose buffer holds a complete frame.\<close>

definition ex_holding :: "u8 list \<Rightarrow> xTinfo" where
  "ex_holding body = ex_receiver\<lparr>ti_buf := TI_STX # body @ TI_ETX # [0], ti_buflen := length body + 2\<rparr>"

lemma ex_holding_frame: "holds_frame sep gs [0] (ex_holding (wire_groups sep gs))"
  by (simp add: holds_frame_def ex_holding_def)

lemma ex_holding_ht: "ti_ht (ex_holding body) = 0" "ti_time (ex_holding body) = 0"
  by (simp_all add: ex_holding_def ex_receiver_def tinfo_zero_def)

lemma no_group_behind: "c_strchr TI_LF [0] = Inr None"
  by (simp add: TI_LF_def)

theorem prviProbeFrame_decodes_witness:
  "prviProbeFrame ex_meters (ex_holding (wire_groups 0x20 (meter_groups ex_meter))) [] =
     Inr (announce ex_meters (cut_frame 0x20 (meter_groups ex_meter) [0] (ex_holding (wire_groups 0x20 (meter_groups ex_meter))))
       (decode 0 (meter_groups ex_meter)) [])"
proof -
  have "meter_groups ex_meter \<noteq> []" by (simp add: meter_groups_def)
  from prviProbeFrame_decodes [OF meter_groups_ok [OF ex_seps(1)] this ex_seps(1) _ ex_holding_frame no_group_behind, of ex_meters "[]"]
  show ?thesis by (simp add: ex_holding_ht)
qed

theorem prviProbeFrame_bad_checksum_witness:
  "prviProbeFrame ex_meters (ex_holding (wire_groups 0x20 (meter_groups ex_meter) @ wire_group_with 0x20 0x21 ([0x41], [0x42]))) [] =
     Inr (-1, (ex_holding (wire_groups 0x20 (meter_groups ex_meter) @ wire_group_with 0x20 0x21 ([0x41], [0x42])))
       \<lparr>ti_ht := 0x20, ti_buflen := 0\<rparr>, [])"
proof -
  have g: "group_ok 0x20 ([0x41], [0x42])" by (simp add: group_ok_def text_ok_def tinfo_chars begins_def ascii_def)
  have k: "0x21 \<noteq> group_sum 0x20 ([0x41], [0x42])" "0x21 \<noteq> TI_CR"
    by (simp_all add: group_sum_def group_text_def TI_CR_def)
  have "sep_learnt 0x20 (meter_groups ex_meter) 0 = 0x20" by (simp add: sep_learnt_def meter_groups_def)
  with prviProbeFrame_bad_checksum [OF meter_groups_ok [OF ex_seps(1)] ex_seps(1) g k,
      of "ex_holding (wire_groups 0x20 (meter_groups ex_meter) @ wire_group_with 0x20 0x21 ([0x41], [0x42]))"
        ex_meter "TI_ETX # [0]" ex_meters "[]"]
  show ?thesis by (simp add: ex_holding_ht) (simp add: ex_holding_def)
qed

theorem three_phase_lost_witness:
  "\<exists>f. prviProbeFrame ex_meters (ex_holding (wire_groups 0x20 (phases_groups 1 11 12 13))) [] =
       Inr (announce ex_meters (cut_frame 0x20 (phases_groups 1 11 12 13) [0]
         (ex_holding (wire_groups 0x20 (phases_groups 1 11 12 13)))) f []) \<and>
     tf_nph f = 1 \<and> tf_iinst f = [13, 0, 0]"
  using three_phase_lost [of 1 11 12 13 "0x20", OF _ _ _ _ ex_seps(1) _ ex_holding_frame no_group_behind, of ex_meters "[]"]
  by (simp add: ex_holding_ht)

theorem iTinfoPoll_shape_witness:
  "\<exists>t'. iTinfoPoll ex_meters ex_receiver [] = Inr (0, t', []) \<and> tinfo_shape t' \<and> ti_buflen t' = 2"
proof -
  have cb: "shapely ex_meters" by (simp add: shapely_def ex_meters_def)
  have "prviProbeBuffer ex_meters [TI_ETX, TI_STX, TI_LF] ex_receiver [] =
      seek ex_meters [TI_ETX, TI_STX, TI_LF] (ex_receiver\<lparr>ti_started := False\<rparr>) []"
    by (simp add: prviProbeBuffer_def ex_receiver_ok)
  also have "\<dots> = Inr (0, ex_receiver\<lparr>ti_started := True, ti_pchar := 0, ti_time := 7,
      ti_buf := (replicate 1024 0)[0 := TI_STX, 1 := TI_LF], ti_buflen := 2\<rparr>, [])"
    by (simp add: put_byte_def ex_receiver_def tinfo_zero_def TINFO_BUFFER_SIZE_def ex_meters_def tinfo_chars Let_def)
  finally have "iTinfoPoll ex_meters ex_receiver [] = Inr (0, ex_receiver\<lparr>ti_started := True, ti_pchar := 0, ti_time := 7,
      ti_buf := (replicate 1024 0)[0 := TI_STX, 1 := TI_LF], ti_buflen := 2\<rparr>, [])"
    by (simp add: iTinfoPoll_def iSerialPoll_def ex_meters_def ex_line_def TINFO_TIMEOUT_def TINFO_BUFFER_SIZE_def)
  with iTinfoPoll_shape [OF cb ex_receiver_ok(1) this] show ?thesis by simp
qed

theorem prviProbeBuffer_room_witness:
  "prviProbeBuffer ex_meters (replicate 1024 0x41) (tinfo_zero\<lparr>ti_buflen := 1\<rparr>) [] = Inl OutOfBounds \<and>
   prviProbeBuffer ex_meters [0x41] (tinfo_zero\<lparr>ti_buflen := 1\<rparr>) [] = Inr (0, put_bytes [0x41] (tinfo_zero\<lparr>ti_buflen := 1\<rparr>), [])"
  using prviProbeBuffer_room [of "tinfo_zero\<lparr>ti_buflen := 1\<rparr>" "replicate 1024 0x41" ex_meters "[]"]
    prviProbeBuffer_room [of "tinfo_zero\<lparr>ti_buflen := 1\<rparr>" "[0x41]" ex_meters "[]"]
  by (simp add: tinfo_shape_def tinfo_zero_def TINFO_BUFFER_SIZE_def TI_ETX_def TI_EOT_def)

end
