(* ===== verification/I2c.thy ===== *)
theory I2c
  imports Driver_Monad
begin

text \<open>
  The I2C bus (\<open>src/src/i2c/i2c.c\<close>, \<open>src/src/i2c/i2c-dev.h\<close>): the SMBus transactions over
  \<open>ioctl (I2C_SMBUS)\<close>, the functions on a bus, and the serial memories.  The operating system is the
  record \<open>i2cdev\<close>.  The message that \<open>vI2cPrintDebug\<close> prints is left out.
\<close>

section \<open>The operating system\<close>

text \<open>A message of \<open>ioctl (I2C_RDWR)\<close>: a slave is written, or read.\<close>

datatype i2c_msg = MsgWrite u16 "u8 list" | MsgRead u16 nat

text \<open>\<open>ic_smbus\<close> gets the descriptor, whether it reads, the command, the kind of the transaction and the bytes
  of the union; \<open>ic_rdwr\<close> gives the result, whether \<open>errno\<close> is \<open>EIO\<close>, and the bytes of the messages that read.\<close>

record 'w i2cdev =
  ic_open :: "u8 list \<Rightarrow> 'w \<Rightarrow> int \<times> 'w"
  ic_close :: "int \<Rightarrow> 'w \<Rightarrow> int \<times> 'w"
  ic_slave :: "int \<Rightarrow> int \<Rightarrow> 'w \<Rightarrow> int \<times> 'w"
  ic_funcs :: "int \<Rightarrow> 'w \<Rightarrow> int \<times> u64 \<times> 'w"
  ic_smbus :: "int \<Rightarrow> bool \<Rightarrow> u8 \<Rightarrow> nat \<Rightarrow> u8 list \<Rightarrow> 'w \<Rightarrow> int \<times> u8 list \<times> 'w"
  ic_read :: "int \<Rightarrow> nat \<Rightarrow> 'w \<Rightarrow> int \<times> u8 list \<times> 'w"
  ic_write :: "int \<Rightarrow> u8 list \<Rightarrow> 'w \<Rightarrow> int \<times> 'w"
  ic_rdwr :: "int \<Rightarrow> i2c_msg list \<Rightarrow> 'w \<Rightarrow> int \<times> bool \<times> u8 list \<times> 'w"
  ic_delay :: "int \<Rightarrow> 'w \<Rightarrow> 'w"

section \<open>SMBus\<close>

definition I2C_SMBUS_BLOCK_MAX :: nat where "I2C_SMBUS_BLOCK_MAX = 32"
definition I2C_SMBUS_BYTE :: nat where "I2C_SMBUS_BYTE = 1"
definition I2C_SMBUS_BYTE_DATA :: nat where "I2C_SMBUS_BYTE_DATA = 2"
definition I2C_SMBUS_WORD_DATA :: nat where "I2C_SMBUS_WORD_DATA = 3"
definition I2C_SMBUS_I2C_BLOCK_BROKEN :: nat where "I2C_SMBUS_I2C_BLOCK_BROKEN = 6"
definition I2C_SMBUS_I2C_BLOCK_DATA :: nat where "I2C_SMBUS_I2C_BLOCK_DATA = 8"
definition I2C_FUNC_I2C :: u64 where "I2C_FUNC_I2C = 1"

text \<open>\<open>union i2c_smbus_data\<close> with its first bytes; those that a transaction does not use are zero here.\<close>

definition smbus_data :: "u8 list \<Rightarrow> u8 list" where
  "smbus_data bs = bs @ replicate (I2C_SMBUS_BLOCK_MAX + 2 - length bs) 0"

definition i2c_smbus_read_byte :: "'w i2cdev \<Rightarrow> int \<Rightarrow> 'w \<Rightarrow> (int \<times> 'w) run" where
  "i2c_smbus_read_byte B fd w =
     (let (r, d, w) = ic_smbus B fd True 0 I2C_SMBUS_BYTE (smbus_data []) w
      in if r \<noteq> 0 then Inr (-1, w) else cbind (rd d 0) (\<lambda>b. Inr (uint b, w)))"

definition i2c_smbus_write_byte :: "'w i2cdev \<Rightarrow> int \<Rightarrow> u8 \<Rightarrow> 'w \<Rightarrow> int \<times> 'w" where
  "i2c_smbus_write_byte B fd v w = (let (r, _, w) = ic_smbus B fd False v I2C_SMBUS_BYTE [] w in (r, w))"

definition i2c_smbus_read_byte_data :: "'w i2cdev \<Rightarrow> int \<Rightarrow> u8 \<Rightarrow> 'w \<Rightarrow> (int \<times> 'w) run" where
  "i2c_smbus_read_byte_data B fd command w =
     (let (r, d, w) = ic_smbus B fd True command I2C_SMBUS_BYTE_DATA (smbus_data []) w
      in if r \<noteq> 0 then Inr (-1, w) else cbind (rd d 0) (\<lambda>b. Inr (uint b, w)))"

definition i2c_smbus_write_byte_data :: "'w i2cdev \<Rightarrow> int \<Rightarrow> u8 \<Rightarrow> u8 \<Rightarrow> 'w \<Rightarrow> int \<times> 'w" where
  "i2c_smbus_write_byte_data B fd command v w =
     (let (r, _, w) = ic_smbus B fd False command I2C_SMBUS_BYTE_DATA (smbus_data [v]) w in (r, w))"

definition i2c_smbus_read_word_data :: "'w i2cdev \<Rightarrow> int \<Rightarrow> u8 \<Rightarrow> 'w \<Rightarrow> (int \<times> 'w) run" where
  "i2c_smbus_read_word_data B fd command w =
     (let (r, d, w) = ic_smbus B fd True command I2C_SMBUS_WORD_DATA (smbus_data []) w
      in if r \<noteq> 0 then Inr (-1, w)
         else cbind (rd d 0) (\<lambda>b0. cbind (rd d 1) (\<lambda>b1. Inr (uint b0 + 256 * uint b1, w))))"

definition i2c_smbus_write_word_data :: "'w i2cdev \<Rightarrow> int \<Rightarrow> u8 \<Rightarrow> u16 \<Rightarrow> 'w \<Rightarrow> int \<times> 'w" where
  "i2c_smbus_write_word_data B fd command v w =
     (let (r, _, w) = ic_smbus B fd False command I2C_SMBUS_WORD_DATA (smbus_data [ucast v, ucast (drop_bit 8 v)]) w
      in (r, w))"

text \<open>The block is copied to the index \<open>i\<close> of an array, as many bytes as the driver says there are.\<close>

definition i2c_smbus_read_i2c_block_data ::
    "'w i2cdev \<Rightarrow> int \<Rightarrow> u8 \<Rightarrow> u8 \<Rightarrow> u8 list \<Rightarrow> nat \<Rightarrow> 'w \<Rightarrow> (int \<times> u8 list \<times> 'w) run" where
  "i2c_smbus_read_i2c_block_data B fd command len vals i w =
     (let len = (if len > 32 then 32 else len);
          kind = (if len = 32 then I2C_SMBUS_I2C_BLOCK_BROKEN else I2C_SMBUS_I2C_BLOCK_DATA);
          (r, d, w) = ic_smbus B fd True command kind (smbus_data [len]) w
      in if r \<noteq> 0 then Inr (-1, vals, w)
         else cbind (rd d 0) (\<lambda>n. cbind (copy_into vals i d 1 (unat n)) (\<lambda>vals. Inr (uint n, vals, w))))"

definition i2c_smbus_write_i2c_block_data ::
    "'w i2cdev \<Rightarrow> int \<Rightarrow> u8 \<Rightarrow> u8 \<Rightarrow> u8 list \<Rightarrow> nat \<Rightarrow> 'w \<Rightarrow> (int \<times> 'w) run" where
  "i2c_smbus_write_i2c_block_data B fd command len vals i w =
     (let len = (if len > 32 then 32 else len) in
      cbind (copy_into (smbus_data [len]) 1 vals i (unat len)) (\<lambda>d.
        let (r, _, w) = ic_smbus B fd False command I2C_SMBUS_I2C_BLOCK_BROKEN d w in Inr (r, w)))"

section \<open>The bus\<close>

text \<open>The descriptor stays open when the slave cannot be selected.\<close>

definition iI2cOpen :: "'w i2cdev \<Rightarrow> u8 list \<Rightarrow> int \<Rightarrow> 'w \<Rightarrow> int \<times> 'w" where
  "iI2cOpen B device i2caddr w =
     (let (fd, w) = ic_open B device w in
      if fd \<ge> 0 then let (r, w) = ic_slave B fd i2caddr w in if r = 0 then (fd, w) else (-1, w)
      else (-1, w))"

definition iI2cClose :: "'w i2cdev \<Rightarrow> int \<Rightarrow> 'w \<Rightarrow> int \<times> 'w" where
  "iI2cClose B fd w = (let (r, w) = ic_close B fd w in if r \<noteq> 0 then (-1, w) else (0, w))"

definition iI2cRead :: "'w i2cdev \<Rightarrow> int \<Rightarrow> 'w \<Rightarrow> (int \<times> 'w) run" where
  "iI2cRead = i2c_smbus_read_byte"

definition iI2cReadReg8 :: "'w i2cdev \<Rightarrow> int \<Rightarrow> u8 \<Rightarrow> 'w \<Rightarrow> (int \<times> 'w) run" where
  "iI2cReadReg8 = i2c_smbus_read_byte_data"

definition iI2cReadReg16 :: "'w i2cdev \<Rightarrow> int \<Rightarrow> u8 \<Rightarrow> 'w \<Rightarrow> (int \<times> 'w) run" where
  "iI2cReadReg16 = i2c_smbus_read_word_data"

definition iI2cReadRegBlock ::
    "'w i2cdev \<Rightarrow> int \<Rightarrow> u8 \<Rightarrow> u8 list \<Rightarrow> nat \<Rightarrow> u8 \<Rightarrow> 'w \<Rightarrow> (int \<times> u8 list \<times> 'w) run" where
  "iI2cReadRegBlock B fd reg vals i len w = i2c_smbus_read_i2c_block_data B fd reg len vals i w"

definition iI2cWrite :: "'w i2cdev \<Rightarrow> int \<Rightarrow> u8 \<Rightarrow> 'w \<Rightarrow> int \<times> 'w" where
  "iI2cWrite = i2c_smbus_write_byte"

definition iI2cWriteReg8 :: "'w i2cdev \<Rightarrow> int \<Rightarrow> u8 \<Rightarrow> u8 \<Rightarrow> 'w \<Rightarrow> int \<times> 'w" where
  "iI2cWriteReg8 = i2c_smbus_write_byte_data"

definition iI2cWriteReg16 :: "'w i2cdev \<Rightarrow> int \<Rightarrow> u8 \<Rightarrow> u16 \<Rightarrow> 'w \<Rightarrow> int \<times> 'w" where
  "iI2cWriteReg16 = i2c_smbus_write_word_data"

definition iI2cWriteRegBlock :: "'w i2cdev \<Rightarrow> int \<Rightarrow> u8 \<Rightarrow> u8 list \<Rightarrow> nat \<Rightarrow> u8 \<Rightarrow> 'w \<Rightarrow> (int \<times> 'w) run" where
  "iI2cWriteRegBlock B fd reg vals i len w = i2c_smbus_write_i2c_block_data B fd reg len vals i w"

text \<open>\<open>read\<close> puts the bytes at the start of the block.\<close>

definition iI2cReadBlock :: "'w i2cdev \<Rightarrow> int \<Rightarrow> u8 list \<Rightarrow> nat \<Rightarrow> 'w \<Rightarrow> (int \<times> u8 list \<times> 'w) run" where
  "iI2cReadBlock B fd block len w =
     (let (r, bs, w) = ic_read B fd len w in cbind (copy_into block 0 bs 0 (length bs)) (\<lambda>block. Inr (r, block, w)))"

definition iI2cWriteBlock :: "'w i2cdev \<Rightarrow> int \<Rightarrow> u8 list \<Rightarrow> 'w \<Rightarrow> int \<times> 'w" where
  "iI2cWriteBlock B fd block w = ic_write B fd block w"

section \<open>Memories\<close>

definition I2CMEM_FLAG_ADDR16 :: u8 where "I2CMEM_FLAG_ADDR16 = 0x80"
definition I2CMEM_FLAG_READONLY :: u8 where "I2CMEM_FLAG_READONLY = 0x40"
definition I2CMEM_TRY_DELAYMS :: int where "I2CMEM_TRY_DELAYMS = 5"
definition I2CMEM_TRY_MAX :: nat where "I2CMEM_TRY_MAX = 10"

text \<open>\<open>im_offset\<close> is the block that holds the offset and the data, \<open>im_data\<close> the place of the data in it.\<close>

record xI2cMem =
  im_i2caddr :: int
  im_mem_size :: u32
  im_page_size :: u16
  im_flags :: u8
  im_fd :: int
  im_offset :: "u8 list"
  im_data :: "nat option"

definition addr16 :: "u8 \<Rightarrow> bool" where
  "addr16 flags \<longleftrightarrow> flags AND I2CMEM_FLAG_ADDR16 \<noteq> 0"

definition readonly :: "u8 \<Rightarrow> bool" where
  "readonly flags \<longleftrightarrow> flags AND I2CMEM_FLAG_READONLY \<noteq> 0"

definition prviSetOffset :: "xI2cMem \<Rightarrow> u32 \<Rightarrow> (int \<times> xI2cMem) run" where
  "prviSetOffset m offset =
     (let full_mask = im_mem_size m - 1;
          offset_size = (if addr16 (im_flags m) then 16 else 8);
          lsb_mask = (if addr16 (im_flags m) then 0xFFFF else 0xFF);
          offset_msb = (ucast (drop_bit offset_size (offset AND full_mask)) :: u8);
          offset = offset AND lsb_mask
      in cbind (if addr16 (im_flags m)
                then cbind (wr (im_offset m) 0 (ucast (drop_bit 8 offset))) (\<lambda>b. wr b 1 (ucast offset))
                else wr (im_offset m) 0 (ucast offset)) (\<lambda>b.
           let m = m\<lparr>im_offset := b\<rparr> in
           if offset_msb \<noteq> 0
           then let full_mask = drop_bit offset_size full_mask in
                Inr (sint ((word_of_int (im_i2caddr m) AND NOT full_mask) OR ucast offset_msb), m)
           else Inr (im_i2caddr m, m)))"

text \<open>The bytes of new memory are given by the caller of the model.\<close>

definition xI2cMemOpen ::
    "'w i2cdev \<Rightarrow> (nat \<Rightarrow> u8 list) \<Rightarrow> u8 list \<Rightarrow> int \<Rightarrow> u32 \<Rightarrow> u16 \<Rightarrow> u8 \<Rightarrow> mem \<times> 'w \<Rightarrow> (xI2cMem option \<times> mem \<times> 'w) run" where
  "xI2cMemOpen B junk device i2caddr mem_size page_size flags s =
     (let (ok, m) = malloc (fst s) in
      if \<not> ok then Inl AssertFailed
      else
        let (fd, w) = iI2cOpen B device i2caddr (snd s) in
        if fd < 0 then Inr (None, free (Some ()) m, w)
        else
          let (r, funcs, w) = ic_funcs B fd w in
          if r < 0 \<or> funcs AND I2C_FUNC_I2C = 0 then Inr (None, free (Some ()) m, w)
          else
            let n = (if readonly flags then 0 else page_size) + (if addr16 flags then 2 else 1);
                (ok, m) = malloc m
            in if \<not> ok then Inl AssertFailed
               else Inr (Some \<lparr>im_i2caddr = i2caddr, im_mem_size = mem_size, im_page_size = page_size, im_flags = flags,
                      im_fd = fd, im_offset = junk (unat n),
                      im_data = (if readonly flags then None else Some (if addr16 flags then 2 else 1))\<rparr>, m, w))"

definition iI2cMemClose :: "'w i2cdev \<Rightarrow> xI2cMem \<Rightarrow> mem \<times> 'w \<Rightarrow> int \<times> mem \<times> 'w" where
  "iI2cMemClose B im s =
     (let (r, w) = iI2cClose B (im_fd im) (snd s);
          m = (if \<not> readonly (im_flags im) then free (Some ()) (fst s) else fst s)
      in (r, free (Some ()) m, w))"

text \<open>The same messages are sent again while the memory does not answer; \<open>n\<close> more trials are allowed.\<close>

fun rdwr_retry :: "'w i2cdev \<Rightarrow> int \<Rightarrow> i2c_msg list \<Rightarrow> nat \<Rightarrow> 'w \<Rightarrow> int \<times> u8 list \<times> 'w" where
  "rdwr_retry B fd msgs 0 w = (let (r, eio, bs, w) = ic_rdwr B fd msgs w in (r, bs, w))"
| "rdwr_retry B fd msgs (Suc n) w =
     (let (r, eio, bs, w) = ic_rdwr B fd msgs w in
      if r < 0 \<and> eio then rdwr_retry B fd msgs n (ic_delay B I2CMEM_TRY_DELAYMS w) else (r, bs, w))"

text \<open>A message has \<open>len\<close> bytes from the start of the block, which the driver reads.\<close>

definition msg_bytes :: "xI2cMem \<Rightarrow> nat \<Rightarrow> u8 list run" where
  "msg_bytes m len = (if len \<le> length (im_offset m) then Inr (take len (im_offset m)) else Inl OutOfBounds)"

text \<open>With pages of size 0 the loop does not advance.\<close>

partial_function (option) write_pages ::
    "'w i2cdev \<Rightarrow> u16 \<Rightarrow> u8 list \<Rightarrow> nat \<Rightarrow> u16 \<Rightarrow> xI2cMem \<Rightarrow> 'w \<Rightarrow> (int \<times> xI2cMem \<times> 'w) out" where
  "write_pages B addr buffer p remaining m w =
     (if remaining = 0 then ret (0, m, w)
      else
        let count = min (im_page_size m) remaining in
        obind (Some (cbind (deref (im_data m)) (\<lambda>d. copy_into (im_offset m) d buffer p (unat count)))) (\<lambda>b.
        let m = m\<lparr>im_offset := b\<rparr> in
        obind (Some (msg_bytes m (unat (count + 2)))) (\<lambda>bytes.
        let (r, _, w) = rdwr_retry B (im_fd m) [MsgWrite addr bytes] I2CMEM_TRY_MAX w in
        if r < 0 then ret (r, m, w)
        else write_pages B addr buffer (p + unat count) (remaining - count) m w)))"

definition iI2cMemWrite :: "'w i2cdev \<Rightarrow> xI2cMem \<Rightarrow> u32 \<Rightarrow> u8 list \<Rightarrow> u16 \<Rightarrow> 'w \<Rightarrow> (int \<times> xI2cMem \<times> 'w) out" where
  "iI2cMemWrite B m offset buffer sz w =
     obind (Some (prviSetOffset m offset)) (\<lambda>(addr, m). write_pages B (word_of_int addr) buffer 0 sz m w)"

definition iI2cMemRead ::
    "'w i2cdev \<Rightarrow> xI2cMem \<Rightarrow> u32 \<Rightarrow> u8 list \<Rightarrow> u16 \<Rightarrow> 'w \<Rightarrow> (int \<times> xI2cMem \<times> u8 list \<times> 'w) run" where
  "iI2cMemRead B m offset buffer sz w =
     cbind (prviSetOffset m offset) (\<lambda>(addr, m).
     cbind (msg_bytes m 2) (\<lambda>bytes.
       let (r, bs, w) = rdwr_retry B (im_fd m) [MsgWrite (word_of_int addr) bytes, MsgRead (word_of_int addr) (unat sz)]
             I2CMEM_TRY_MAX w
       in cbind (copy_into buffer 0 bs 0 (length bs)) (\<lambda>buffer.
            Inr (if r < 0 then r else uint sz, m, buffer, w))))"

definition iI2cMemAddr :: "xI2cMem \<Rightarrow> int" where "iI2cMemAddr m = im_i2caddr m"
definition ulI2cMemSize :: "xI2cMem \<Rightarrow> u32" where "ulI2cMemSize m = im_mem_size m"
definition usI2cMemPageSize :: "xI2cMem \<Rightarrow> u16" where "usI2cMemPageSize m = im_page_size m"
definition ucI2cMemFlags :: "xI2cMem \<Rightarrow> u8" where "ucI2cMemFlags m = im_flags m"

end
