(* ===== verification/I2c_Laws.thy ===== *)
theory I2c_Laws
  imports I2c
begin

text \<open>
  Serial memories with offsets of two bytes, on a memory that behaves as the data sheets of these memories
  say: it does not acknowledge while it programs, the bytes of a message go to one page, and their address wraps within it.
  What is written to a page is read back; of the pages of a longer block each is written at the same offset, so that the
  memory has the last of them.
\<close>

section \<open>The memory\<close>

text \<open>The cells after a message that writes \<open>bs\<close> at \<open>p\<close>, in pages of \<open>ps\<close> bytes.\<close>

definition page_write :: "nat \<Rightarrow> nat \<Rightarrow> u8 list \<Rightarrow> (nat \<Rightarrow> u8) \<Rightarrow> (nat \<Rightarrow> u8)" where
  "page_write ps p bs cell = foldl (\<lambda>c i. c(p div ps * ps + (p + i) mod ps := bs ! i)) cell [0..<length bs]"

definition place :: "u8 \<Rightarrow> u8 \<Rightarrow> nat" where
  "place h l = unat h * 256 + unat l"

text \<open>\<open>busy\<close> bounds the messages that the memory at the address \<open>addr\<close> will still refuse, \<open>cell\<close> gives its bytes.\<close>

definition eeprom :: "'w i2cdev \<Rightarrow> u16 \<Rightarrow> nat \<Rightarrow> ('w \<Rightarrow> nat) \<Rightarrow> ('w \<Rightarrow> nat \<Rightarrow> u8) \<Rightarrow> bool" where
  "eeprom B addr ps busy cell \<longleftrightarrow>
     (\<forall>fd msgs w. busy w > 0 \<longrightarrow> (\<exists>r bs w'. ic_rdwr B fd msgs w = (r, True, bs, w') \<and> r < 0 \<and> busy w' < busy w \<and> cell w' = cell w)) \<and>
     (\<forall>fd h l bs w. busy w = 0 \<longrightarrow> (\<exists>r e x w'. ic_rdwr B fd [MsgWrite addr (h # l # bs)] w = (r, e, x, w') \<and> 0 \<le> r \<and>
        busy w' \<le> I2CMEM_TRY_MAX \<and> cell w' = page_write ps (place h l) bs (cell w))) \<and>
     (\<forall>fd h l n w. busy w = 0 \<longrightarrow> (\<exists>r e w'. ic_rdwr B fd [MsgWrite addr [h, l], MsgRead addr n] w =
        (r, e, map (\<lambda>i. cell w (place h l + i)) [0..<n], w') \<and> 0 \<le> r \<and> busy w' = 0 \<and> cell w' = cell w)) \<and>
     (\<forall>ms w. busy (ic_delay B ms w) = busy w \<and> cell (ic_delay B ms w) = cell w)"

text \<open>The messages are tried again until the memory is ready.\<close>

lemma retry_write:
  assumes "eeprom B addr ps busy cell" "busy w \<le> n"
  shows "\<exists>r x w'. rdwr_retry B fd [MsgWrite addr (h # l # bs)] n w = (r, x, w') \<and> 0 \<le> r \<and> busy w' \<le> I2CMEM_TRY_MAX \<and>
    cell w' = page_write ps (place h l) bs (cell w)"
  using assms(2)
proof (induction n arbitrary: w)
  case 0
  with assms(1) obtain r e x w' where "ic_rdwr B fd [MsgWrite addr (h # l # bs)] w = (r, e, x, w')" "0 \<le> r"
    "busy w' \<le> I2CMEM_TRY_MAX" "cell w' = page_write ps (place h l) bs (cell w)"
    unfolding eeprom_def by (metis le_zero_eq)
  then show ?case by simp
next
  case (Suc n)
  show ?case
  proof (cases "busy w = 0")
    case True
    with assms(1) obtain r e x w' where "ic_rdwr B fd [MsgWrite addr (h # l # bs)] w = (r, e, x, w')" "0 \<le> r"
      "busy w' \<le> I2CMEM_TRY_MAX" "cell w' = page_write ps (place h l) bs (cell w)"
      unfolding eeprom_def by metis
    then show ?thesis by simp
  next
    case False
    with assms(1) obtain r x w' where "ic_rdwr B fd [MsgWrite addr (h # l # bs)] w = (r, True, x, w')" "r < 0"
      "busy w' < busy w" "cell w' = cell w"
      unfolding eeprom_def by (metis neq0_conv)
    moreover have "busy (ic_delay B I2CMEM_TRY_DELAYMS w') = busy w'" "cell (ic_delay B I2CMEM_TRY_DELAYMS w') = cell w'"
      using assms(1) by (simp_all add: eeprom_def)
    ultimately show ?thesis
      using Suc.IH [of "ic_delay B I2CMEM_TRY_DELAYMS w'"] Suc.prems by simp
  qed
qed

lemma retry_read:
  assumes "eeprom B addr ps busy cell" "busy w \<le> n"
  shows "\<exists>r w'. rdwr_retry B fd [MsgWrite addr [h, l], MsgRead addr k] n w = (r, map (\<lambda>i. cell w (place h l + i)) [0..<k], w') \<and>
    0 \<le> r \<and> cell w' = cell w"
  using assms(2)
proof (induction n arbitrary: w)
  case 0
  with assms(1) obtain r e w' where "ic_rdwr B fd [MsgWrite addr [h, l], MsgRead addr k] w =
      (r, e, map (\<lambda>i. cell w (place h l + i)) [0..<k], w')" "0 \<le> r" "cell w' = cell w"
    unfolding eeprom_def by (metis le_zero_eq)
  then show ?case by simp
next
  case (Suc n)
  show ?case
  proof (cases "busy w = 0")
    case True
    with assms(1) obtain r e w' where "ic_rdwr B fd [MsgWrite addr [h, l], MsgRead addr k] w =
        (r, e, map (\<lambda>i. cell w (place h l + i)) [0..<k], w')" "0 \<le> r" "cell w' = cell w"
      unfolding eeprom_def by metis
    then show ?thesis by simp
  next
    case False
    with assms(1) obtain r x w' where "ic_rdwr B fd [MsgWrite addr [h, l], MsgRead addr k] w = (r, True, x, w')" "r < 0"
      "busy w' < busy w" "cell w' = cell w"
      unfolding eeprom_def by (metis neq0_conv)
    moreover have "busy (ic_delay B I2CMEM_TRY_DELAYMS w') = busy w'" "cell (ic_delay B I2CMEM_TRY_DELAYMS w') = cell w'"
      using assms(1) by (simp_all add: eeprom_def)
    ultimately show ?thesis
      using Suc.IH [of "ic_delay B I2CMEM_TRY_DELAYMS w'"] Suc.prems by simp
  qed
qed

section \<open>Writing\<close>

text \<open>A memory with offsets of two bytes, as \<open>xI2cMemOpen\<close> makes it.\<close>

definition mem16 :: "xI2cMem \<Rightarrow> bool" where
  "mem16 m \<longleftrightarrow> addr16 (im_flags m) \<and> \<not> readonly (im_flags m) \<and> im_data m = Some 2 \<and>
     length (im_offset m) = unat (im_page_size m) + 2 \<and> 0 < im_page_size m \<and> im_page_size m < 0xFFFD"

fun pages :: "nat \<Rightarrow> 'a list \<Rightarrow> 'a list list" where
  "pages n xs = (if n = 0 \<or> xs = [] then [] else take n xs # pages n (drop n xs))"

declare pages.simps [simp del]

lemma pages_Nil [simp]: "pages n [] = []"
  by (simp add: pages.simps)

lemma pages_one: "xs \<noteq> [] \<Longrightarrow> length xs \<le> n \<Longrightarrow> pages n xs = [xs]"
  by (cases n) (simp_all add: pages.simps)

lemma write_pages_run:
  assumes law: "eeprom B addr ps busy cell"
  shows "\<lbrakk>mem16 m; ps = unat (im_page_size m); p + unat rem \<le> length buffer; busy w \<le> I2CMEM_TRY_MAX;
      take 2 (im_offset m) = [h, l]\<rbrakk> \<Longrightarrow>
    \<exists>b w'. write_pages B addr buffer p rem m w = ret (0, m\<lparr>im_offset := b\<rparr>, w') \<and>
      length b = length (im_offset m) \<and> busy w' \<le> I2CMEM_TRY_MAX \<and>
      cell w' = fold (page_write ps (place h l)) (pages ps (take (unat rem) (drop p buffer))) (cell w)"
proof (induction "unat rem" arbitrary: rem p m w rule: less_induct)
  case less
  show ?case
  proof (cases "rem = 0")
    case True
    then show ?thesis using less.prems(4) by (intro exI [of _ "im_offset m"] exI [of _ w]) (simp add: write_pages.simps)
  next
    case False
    define count where "count = min (im_page_size m) rem"
    have m: "addr16 (im_flags m)" "\<not> readonly (im_flags m)" "im_data m = Some 2"
      "length (im_offset m) = unat (im_page_size m) + 2" "0 < im_page_size m" "im_page_size m < 0xFFFD"
      using less.prems(1) by (simp_all add: mem16_def)
    have count: "unat count = min ps (unat rem)" "count \<noteq> 0"
      using False m(5) less.prems(2) by (auto simp: count_def min_def word_le_nat_alt)
    have rem: "unat (rem - count) = unat rem - unat count" "unat (rem - count) < unat rem"
    proof -
      show diff: "unat (rem - count) = unat rem - unat count" using count(1) by (simp add: unat_sub word_le_nat_alt)
      have "0 < unat count" using count(2) by (simp add: unat_gt_0)
      moreover have "unat count \<le> unat rem" using count(1) by simp
      ultimately show "unat (rem - count) < unat rem" unfolding diff by simp
    qed
    define chunk where "chunk = take (unat count) (drop p buffer)"
    have len: "length chunk = unat count" using less.prems(3) count by (simp add: chunk_def)
    define b where "b = [h, l] @ chunk @ drop (2 + unat count) (im_offset m)"
    have copy: "copy_into (im_offset m) 2 buffer p (unat count) = Inr b"
      using less.prems(3,5) m(4) count less.prems(2) by (simp add: copy_into_def b_def chunk_def)
    have lenb: "length b = length (im_offset m)" using copy by (rule copy_into_length)
    have "unat count \<le> unat (im_page_size m)" by (simp add: count_def word_le_nat_alt [symmetric])
    moreover have "unat (im_page_size m) < 0xFFFD" using m(6) by (simp add: word_less_nat_alt)
    ultimately have c2: "unat (count + 2) = unat count + 2"
      by (simp add: unat_word_ariths)
    have bytes: "msg_bytes (m\<lparr>im_offset := b\<rparr>) (unat (count + 2)) = Inr (h # l # chunk)"
      using len lenb m(4) count less.prems(2) by (simp add: msg_bytes_def c2) (simp add: b_def)
    obtain r x w1 where sent: "rdwr_retry B (im_fd m) [MsgWrite addr (h # l # chunk)] I2CMEM_TRY_MAX w = (r, x, w1)" "0 \<le> r"
        "busy w1 \<le> I2CMEM_TRY_MAX" "cell w1 = page_write ps (place h l) chunk (cell w)"
      using retry_write [OF law less.prems(4)] by blast
    have step: "write_pages B addr buffer p rem m w =
        write_pages B addr buffer (p + unat count) (rem - count) (m\<lparr>im_offset := b\<rparr>) w1"
      using False sent m(3) by (subst write_pages.simps) (simp add: count_def [symmetric] copy bytes Let_def)
    have m16: "mem16 (m\<lparr>im_offset := b\<rparr>)" using less.prems(1) lenb by (simp add: mem16_def)
    have split: "pages ps (take (unat rem) (drop p buffer)) =
        chunk # pages ps (take (unat (rem - count)) (drop (p + unat count) buffer))"
    proof -
      have "take ps (take (unat rem) (drop p buffer)) = chunk" by (simp add: chunk_def count)
      moreover have "drop ps (take (unat rem) (drop p buffer)) = take (unat (rem - count)) (drop (p + unat count) buffer)"
        by (simp add: rem count drop_take min_def add.commute)
      moreover have "0 < unat rem" using False by (simp add: unat_gt_0)
      then have "ps \<noteq> 0" "take (unat rem) (drop p buffer) \<noteq> []"
        using m(5) less.prems(2,3) by (auto simp: unat_eq_zero)
      ultimately show ?thesis by (subst pages.simps) simp
    qed
    have args: "ps = unat (im_page_size (m\<lparr>im_offset := b\<rparr>))" using less.prems(2) by simp
    have room: "p + unat count + unat (rem - count) \<le> length buffer" using less.prems(3) rem(1) count(1) by simp
    have "take 2 (im_offset (m\<lparr>im_offset := b\<rparr>)) = [h, l]" by (simp add: b_def)
    from less.hyps [OF rem(2) m16 args room sent(3) this] lenb obtain b1 w2 where "write_pages B addr buffer (p + unat count) (rem - count) (m\<lparr>im_offset := b\<rparr>) w1 =
        ret (0, m\<lparr>im_offset := b1\<rparr>, w2)" "length b1 = length (im_offset m)" "busy w2 \<le> I2CMEM_TRY_MAX"
        "cell w2 = fold (page_write ps (place h l)) (pages ps (take (unat (rem - count)) (drop (p + unat count) buffer))) (cell w1)"
      by auto
    then show ?thesis unfolding step split using sent(4) by auto
  qed
qed


text \<open>Setting the offset of a memory of at most 64 kbytes.\<close>

lemma set_offset:
  assumes "mem16 m" "offset < im_mem_size m" "im_mem_size m \<le> 0x10000"
  shows "\<exists>h l rest. prviSetOffset m offset = Inr (im_i2caddr m, m\<lparr>im_offset := h # l # rest\<rparr>) \<and>
    length (h # l # rest) = length (im_offset m) \<and> place h l = unat offset"
proof -
  have m: "addr16 (im_flags m)" "2 < length (im_offset m)"
    using assms(1) by (auto simp: mem16_def word_gt_0 unat_gt_0)
  then obtain x y rest where off: "im_offset m = x # y # rest"
    by (cases "im_offset m"; cases "tl (im_offset m)") auto
  have lt: "offset < 0x10000" using assms(2,3) by (rule less_le_trans)
  have msb: "(ucast (drop_bit 16 (offset AND (im_mem_size m - 1))) :: u8) = 0"
  proof -
    have "im_mem_size m \<noteq> 0" using assms(2) by auto
    then have "im_mem_size m - 1 < im_mem_size m" by (simp add: word_less_nat_alt measure_unat)
    then have "im_mem_size m - 1 < 0x10000" using assms(3) by (rule less_le_trans)
    then have "offset AND (im_mem_size m - 1) < 0x10000" using word_and_le1 by (rule le_less_trans [rotated])
    then have "unat (offset AND (im_mem_size m - 1)) < 2 ^ 16" by (simp add: word_less_nat_alt)
    then have "unat (drop_bit 16 (offset AND (im_mem_size m - 1))) = 0"
      by (simp add: drop_bit_eq_div unat_div)
    then show ?thesis by (simp add: unat_eq_zero)
  qed
  have low: "offset AND 0xFFFF = offset"
  proof -
    have "unat offset < 2 ^ 16" using lt by (simp add: word_less_nat_alt)
    then have "take_bit 16 offset = offset" by (simp add: word_unat_eq_iff take_bit_eq_mod unat_mod)
    moreover have "take_bit 16 offset = offset AND 0xFFFF" by (simp add: take_bit_eq_mask mask_eq_exp_minus_1)
    ultimately show ?thesis by simp
  qed
  have "place (ucast (drop_bit 8 offset)) (ucast offset) = unat offset"
  proof -
    have "unat offset < 65536" using lt by (simp add: word_less_nat_alt)
    then show ?thesis
      by (simp add: place_def unsigned_ucast_eq drop_bit_eq_div take_bit_eq_mod unat_div)
  qed
  moreover have "prviSetOffset m offset =
      Inr (im_i2caddr m, m\<lparr>im_offset := ucast (drop_bit 8 offset) # ucast offset # rest\<rparr>)"
    using m(1) msb low off by (simp add: prviSetOffset_def Let_def)
  ultimately show ?thesis using off by force
qed

text \<open>Bytes that stay in the page go where they should, and nothing else changes.\<close>

lemma page_write_cells:
  assumes "p mod ps + length bs \<le> ps"
  shows "page_write ps p bs cell q = (if p \<le> q \<and> q < p + length bs then bs ! (q - p) else cell q)"
proof -
  have place: "p div ps * ps + (p + j) mod ps = p + j" if "j < length bs" for j
  proof -
    have "p mod ps + j < ps" using that assms by simp
    moreover have "(p + j) mod ps = (p mod ps + j) mod ps" by (simp add: mod_add_left_eq)
    ultimately have "(p + j) mod ps = p mod ps + j" by simp
    then show ?thesis by (simp add: add.assoc [symmetric] div_mult_mod_eq)
  qed
  have "foldl (\<lambda>c i. c(p div ps * ps + (p + i) mod ps := bs ! i)) cell [0..<n] q =
      (if p \<le> q \<and> q < p + n then bs ! (q - p) else cell q)" if "n \<le> length bs" for n
    using that by (induction n) (auto simp: place)
  from this [of "length bs"] show ?thesis by (simp add: page_write_def)
qed

text \<open>What a write does: every page of the data is written at the same offset.\<close>

lemma write_run:
  assumes law: "eeprom B (word_of_int (im_i2caddr m)) ps busy cell" and m: "mem16 m" "ps = unat (im_page_size m)"
    and busy: "busy w \<le> I2CMEM_TRY_MAX" and off: "offset < im_mem_size m" "im_mem_size m \<le> 0x10000"
    and data: "unat sz \<le> length data"
  shows "\<exists>b w'. iI2cMemWrite B m offset data sz w = ret (0, m\<lparr>im_offset := b\<rparr>, w') \<and> mem16 (m\<lparr>im_offset := b\<rparr>) \<and>
    busy w' \<le> I2CMEM_TRY_MAX \<and>
    cell w' = fold (page_write ps (unat offset)) (pages ps (take (unat sz) data)) (cell w)"
proof -
  from set_offset [OF m(1) off] obtain h l rest where set: "prviSetOffset m offset = Inr (im_i2caddr m, m\<lparr>im_offset := h # l # rest\<rparr>)"
    "length (h # l # rest) = length (im_offset m)" "place h l = unat offset" by blast
  have "mem16 (m\<lparr>im_offset := h # l # rest\<rparr>)" using m(1) set(2) by (simp add: mem16_def)
  from write_pages_run [OF law this, of 0 sz data w h l] m(2) busy data set(2,3)
  obtain b w' where run: "write_pages B (word_of_int (im_i2caddr m)) data 0 sz (m\<lparr>im_offset := h # l # rest\<rparr>) w =
        ret (0, m\<lparr>im_offset := b\<rparr>, w')" "length b = length (im_offset m)" "busy w' \<le> I2CMEM_TRY_MAX"
      "cell w' = fold (page_write ps (unat offset)) (pages ps (take (unat sz) data)) (cell w)"
    by auto
  have "mem16 (m\<lparr>im_offset := b\<rparr>)" using m(1) run(2) by (simp add: mem16_def)
  with run set(1) show ?thesis by (auto simp: iI2cMemWrite_def)
qed

lemma read_run:
  assumes law: "eeprom B (word_of_int (im_i2caddr m)) ps busy cell" and m: "mem16 m"
    and busy: "busy w \<le> I2CMEM_TRY_MAX" and off: "offset < im_mem_size m" "im_mem_size m \<le> 0x10000"
    and room: "unat sz \<le> length buf"
  shows "\<exists>m' w'. iI2cMemRead B m offset buf sz w =
    Inr (uint sz, m', map (\<lambda>i. cell w (unat offset + i)) [0..<unat sz] @ drop (unat sz) buf, w') \<and> cell w' = cell w"
proof -
  from set_offset [OF m off] obtain h l rest where set: "prviSetOffset m offset = Inr (im_i2caddr m, m\<lparr>im_offset := h # l # rest\<rparr>)"
    "place h l = unat offset" by blast
  have bytes: "msg_bytes (m\<lparr>im_offset := h # l # rest\<rparr>) 2 = Inr [h, l]" by (simp add: msg_bytes_def)
  from retry_read [OF law busy, of "im_fd m" h l "unat sz"] obtain r w' where
    sent: "rdwr_retry B (im_fd m) [MsgWrite (word_of_int (im_i2caddr m)) [h, l], MsgRead (word_of_int (im_i2caddr m)) (unat sz)]
      I2CMEM_TRY_MAX w = (r, map (\<lambda>i. cell w (unat offset + i)) [0..<unat sz], w')" "0 \<le> r" "cell w' = cell w"
    unfolding set(2) by blast
  have copy: "copy_into buf 0 xs 0 (length xs) = Inr (xs @ drop (unat sz) buf)" if "length xs = unat sz" for xs
    using that room by (simp add: copy_into_def)
  show ?thesis
    using sent(2,3) copy [of "map (\<lambda>i. cell w (unat offset + i)) [0..<unat sz]"]
    by (simp add: iI2cMemRead_def set(1) bytes sent(1) Let_def)
qed

section \<open>Properties\<close>

text \<open>C31.  What is written to a memory of at most 64 kB with offsets of two bytes, within one of its pages,
  is read back, though the memory refuses up to ten messages before each of the two operations.\<close>

theorem iI2cMem_roundtrip:
  assumes "eeprom B (word_of_int (im_i2caddr m)) (unat (im_page_size m)) busy cell" "mem16 m" "busy w \<le> I2CMEM_TRY_MAX"
    and "offset < im_mem_size m" "im_mem_size m \<le> 0x10000"
    and "unat offset mod unat (im_page_size m) + unat sz \<le> unat (im_page_size m)" "unat sz \<le> length data" "unat sz \<le> length buf"
  shows "\<exists>m1 w1 m2 w2. iI2cMemWrite B m offset data sz w = ret (0, m1, w1) \<and>
    iI2cMemRead B m1 offset buf sz w1 = Inr (uint sz, m2, take (unat sz) data @ drop (unat sz) buf, w2)"
proof -
  from write_run [OF assms(1,2) refl assms(3-5) assms(7)] obtain b w1 where
    wr: "iI2cMemWrite B m offset data sz w = ret (0, m\<lparr>im_offset := b\<rparr>, w1)" "mem16 (m\<lparr>im_offset := b\<rparr>)" "busy w1 \<le> I2CMEM_TRY_MAX"
      "cell w1 = fold (page_write (unat (im_page_size m)) (unat offset)) (pages (unat (im_page_size m)) (take (unat sz) data)) (cell w)"
    by blast
  let ?ds = "take (unat sz) data"
  have "cell w1 (unat offset + i) = ?ds ! i" if "i < unat sz" for i
  proof -
    have "pages (unat (im_page_size m)) ?ds = [?ds]" using that assms(6,7) by (intro pages_one) auto
    with wr(4) assms(6,7) that show ?thesis by (simp add: page_write_cells)
  qed
  then have "map (\<lambda>i. cell w1 (unat offset + i)) [0..<unat sz] = ?ds"
    using assms(7) by (intro nth_equalityI) auto
  moreover have "eeprom B (word_of_int (im_i2caddr (m\<lparr>im_offset := b\<rparr>))) (unat (im_page_size m)) busy cell" using assms(1) by simp
  from read_run [OF this wr(2,3), of offset sz buf] assms(4,5,8) obtain m2 w2 where
    "iI2cMemRead B (m\<lparr>im_offset := b\<rparr>) offset buf sz w1 =
      Inr (uint sz, m2, map (\<lambda>i. cell w1 (unat offset + i)) [0..<unat sz] @ drop (unat sz) buf, w2)" by auto
  ultimately have "iI2cMemRead B (m\<lparr>im_offset := b\<rparr>) offset buf sz w1 = Inr (uint sz, m2, ?ds @ drop (unat sz) buf, w2)"
    by (simp only:)
  with wr(1) show ?thesis by blast
qed

text \<open> Two pages of data at the start of a page: both are written to the same page, so that the memory has
  the second one there, and the page behind it is as before, though the function reports success.\<close>

theorem iI2cMemWrite_two_pages:
  assumes "eeprom B (word_of_int (im_i2caddr m)) (unat (im_page_size m)) busy cell" "mem16 m" "busy w \<le> I2CMEM_TRY_MAX"
    and "offset < im_mem_size m" "im_mem_size m \<le> 0x10000"
    and "unat offset mod unat (im_page_size m) = 0" "unat sz = 2 * unat (im_page_size m)" "length data = unat sz"
  shows "\<exists>m1 w1. iI2cMemWrite B m offset data sz w = ret (0, m1, w1) \<and>
    (\<forall>q. cell w1 q = (if unat offset \<le> q \<and> q < unat offset + unat (im_page_size m)
       then data ! (unat (im_page_size m) + (q - unat offset)) else cell w q))"
proof -
  let ?ps = "unat (im_page_size m)"
  from write_run [OF assms(1,2) refl assms(3-5), of sz data] assms(8) obtain b w1 where
    wr: "iI2cMemWrite B m offset data sz w = ret (0, m\<lparr>im_offset := b\<rparr>, w1)"
      "cell w1 = fold (page_write ?ps (unat offset)) (pages ?ps data) (cell w)"
    by auto
  have "0 < ?ps" using assms(2) by (simp add: mem16_def unat_gt_0 word_gt_0)
  then have "pages ?ps data = [take ?ps data, drop ?ps data]"
    using assms(7,8) by (subst pages.simps) (auto simp: pages_one)
  moreover have "length (take ?ps data) = ?ps" "length (drop ?ps data) = ?ps" using assms(7,8) by simp_all
  ultimately have "cell w1 q = (if unat offset \<le> q \<and> q < unat offset + ?ps then data ! (?ps + (q - unat offset)) else cell w q)" for q
    using assms(6) by (simp add: wr(2) page_write_cells assms(7,8))
  with wr(1) show ?thesis by blast
qed


section \<open>Witnesses\<close>

text \<open>A memory with pages of 4 bytes, which refuses ten messages after each write.\<close>

definition memory4 :: "(nat \<times> (nat \<Rightarrow> u8)) i2cdev" where
  "memory4 = \<lparr>ic_open = (\<lambda>_ w. (3, w)), ic_close = (\<lambda>_ w. (0, w)), ic_slave = (\<lambda>_ _ w. (0, w)),
     ic_funcs = (\<lambda>_ w. (0, I2C_FUNC_I2C, w)), ic_smbus = (\<lambda>_ _ _ _ d w. (-1, d, w)), ic_read = (\<lambda>_ _ w. (-1, [], w)),
     ic_write = (\<lambda>_ _ w. (-1, w)),
     ic_rdwr = (\<lambda>_ msgs (b, c).
       if b > 0 then (-1, True, [], (b - 1, c))
       else case msgs of
         [MsgWrite _ (h # l # bs)] \<Rightarrow> (1, False, [], (10, page_write 4 (place h l) bs c))
       | [MsgWrite _ [h, l], MsgRead _ n] \<Rightarrow> (2, False, map (\<lambda>i. c (place h l + i)) [0..<n], (0, c))
       | _ \<Rightarrow> (-1, False, [], (b, c))),
     ic_delay = (\<lambda>_ w. w)\<rparr>"

lemma memory4_law: "eeprom memory4 addr 4 fst snd"
  unfolding eeprom_def memory4_def by (auto simp: I2CMEM_TRY_MAX_def split: list.split)

definition mem4 :: xI2cMem where
  "mem4 = \<lparr>im_i2caddr = 0x50, im_mem_size = 16, im_page_size = 4, im_flags = I2CMEM_FLAG_ADDR16, im_fd = 3,
     im_offset = [0, 0, 0, 0, 0, 0], im_data = Some 2\<rparr>"

lemma mem4_mem16: "mem16 mem4"
  by (simp add: mem16_def mem4_def addr16_def readonly_def I2CMEM_FLAG_ADDR16_def I2CMEM_FLAG_READONLY_def)

theorem iI2cMem_roundtrip_witness:
  "\<exists>m1 w1 m2 w2. iI2cMemWrite memory4 mem4 5 [1, 2, 3] 3 (10, \<lambda>_. 0xFF) = ret (0, m1, w1) \<and>
    iI2cMemRead memory4 m1 5 [0, 0, 0, 9] 3 w1 = Inr (3, m2, [1, 2, 3, 9], w2)"
  using iI2cMem_roundtrip [of memory4 mem4 fst snd "(10, \<lambda>_. 0xFF)" 5 3 "[1, 2, 3]" "[0, 0, 0, 9]"] memory4_law mem4_mem16
  by (simp add: mem4_def I2CMEM_TRY_MAX_def)

theorem iI2cMemWrite_two_pages_witness:
  "\<exists>m1 w1. iI2cMemWrite memory4 mem4 4 [1, 2, 3, 4, 5, 6, 7, 8] 8 (0, \<lambda>_. 0xFF) = ret (0, m1, w1) \<and>
    (\<forall>q. snd w1 q = (if 4 \<le> q \<and> q < 8 then [1, 2, 3, 4, 5, 6, 7, 8] ! q else 0xFF))"
  using iI2cMemWrite_two_pages [of memory4 mem4 fst snd "(0, \<lambda>_. 0xFF)" 4 8 "[1, 2, 3, 4, 5, 6, 7, 8]"] memory4_law mem4_mem16
  by (simp add: mem4_def I2CMEM_TRY_MAX_def cong: if_cong)

end
