(* ===== verification/I2c_Sensors.thy ===== *)
theory I2c_Sensors
  imports I2c
begin

text \<open>
  The sensors of the I2C bus: the air quality sensor iAQ (\<open>src/src/i2c/iaq.c\<close>), the dust sensor GP2
  (\<open>src/src/i2c/gp2.c\<close>), the humidity and temperature sensor HIH6130 (\<open>src/src/i2c/hih6130.c\<close>).  The conversion of the
  voltage of a GP2 to a density, which is floating point, is left out.  The values of a HIH6130 are multiples of 1/16384,
  which a \<open>double\<close> holds exactly, and are given by their numerators; \<open>NAN\<close> is \<open>None\<close>.
\<close>

text \<open>Opening a sensor that needs plain I2C messages: on failure the descriptor, if any, is closed.\<close>

definition sensor_open :: "'w i2cdev \<Rightarrow> (int \<Rightarrow> 's) \<Rightarrow> u8 list \<Rightarrow> int \<Rightarrow> mem \<times> 'w \<Rightarrow> ('s option \<times> mem \<times> 'w) run" where
  "sensor_open B new device i2caddr s =
     (let (ok, m) = malloc (fst s) in
      if \<not> ok then Inl AssertFailed
      else
        let (fd, w) = iI2cOpen B device i2caddr (snd s) in
        if fd < 0 then Inr (None, free (Some ()) m, w)
        else
          let (r, funcs, w) = ic_funcs B fd w in
          if r < 0 \<or> funcs AND I2C_FUNC_I2C = 0
          then let (_, w) = ic_close B fd w in Inr (None, free (Some ()) m, w)
          else Inr (Some (new fd), m, w))"

section \<open>iAQ\<close>

definition IAQ_ERROR :: u8 where "IAQ_ERROR = 0x80"

record xIaq =
  ia_fd :: int
  ia_status :: u8
  ia_co2 :: u16
  ia_resistance :: u32
  ia_tvoc :: u16

record xIaqData =
  usCo2 :: u16
  usTvoc :: u16

definition xIaqOpen :: "'w i2cdev \<Rightarrow> u8 list \<Rightarrow> int \<Rightarrow> mem \<times> 'w \<Rightarrow> (xIaq option \<times> mem \<times> 'w) run" where
  "xIaqOpen B = sensor_open B (\<lambda>fd. \<lparr>ia_fd = fd, ia_status = 0, ia_co2 = 0, ia_resistance = 0, ia_tvoc = 0\<rparr>)"

definition iIaqClose :: "'w i2cdev \<Rightarrow> xIaq \<Rightarrow> mem \<times> 'w \<Rightarrow> int \<times> mem \<times> 'w" where
  "iIaqClose B s mw = (let (r, w) = iI2cClose B (ia_fd s) (snd mw) in (r, free (Some s) (fst mw), w))"

definition iIaqRead :: "'w i2cdev \<Rightarrow> xIaq \<Rightarrow> xIaqData \<Rightarrow> 'w \<Rightarrow> (int \<times> xIaq \<times> xIaqData \<times> 'w) run" where
  "iIaqRead B s data w =
     cbind (iI2cReadBlock B (ia_fd s) (replicate 9 0) 9 w) (\<lambda>(r, buf, w).
       if r \<noteq> 9 then Inr (-1, s, data, w)
       else
         let s = s\<lparr>ia_status := buf ! 2, ia_co2 := push_bit 8 (ucast (buf ! 0)) + ucast (buf ! 1),
                   ia_resistance := push_bit 16 (ucast (buf ! 4)) + push_bit 8 (ucast (buf ! 5)) + ucast (buf ! 6),
                   ia_tvoc := push_bit 8 (ucast (buf ! 7)) + ucast (buf ! 8)\<rparr>;
             data = (if ia_status s = 0 then data\<lparr>usCo2 := ia_co2 s, usTvoc := ia_tvoc s\<rparr> else data)
         in Inr (if ia_status s \<noteq> IAQ_ERROR then uint (ia_status s) else -1, s, data, w))"

section \<open>GP2\<close>

text \<open>The settings, which are floating point, are a parameter.\<close>

record 's xG2pSensor =
  gp_fd :: int
  gp_setting :: 's

definition xGp2Open :: "'w i2cdev \<Rightarrow> u8 list \<Rightarrow> int \<Rightarrow> 's \<Rightarrow> mem \<times> 'w \<Rightarrow> ('s xG2pSensor option \<times> mem \<times> 'w) run" where
  "xGp2Open B bus slave setting s =
     (let (ok, m) = malloc (fst s) in
      if \<not> ok then Inl AssertFailed
      else
        let (fd, w) = iI2cOpen B bus slave (snd s) in
        if fd < 0 then Inr (None, free (Some ()) m, w) else Inr (Some \<lparr>gp_fd = fd, gp_setting = setting\<rparr>, m, w))"

definition iGp2Close :: "'w i2cdev \<Rightarrow> 's xG2pSensor option \<Rightarrow> mem \<times> 'w \<Rightarrow> (int \<times> mem \<times> 'w) run" where
  "iGp2Close B gp2 mw =
     (case gp2 of
        None \<Rightarrow> Inl AssertFailed
      | Some g \<Rightarrow> let (r, w) = iI2cClose B (gp_fd g) (snd mw) in Inr (r, free gp2 (fst mw), w))"

definition vGp2SetSetting :: "'s \<Rightarrow> 's xG2pSensor option \<Rightarrow> 's xG2pSensor run" where
  "vGp2SetSetting setting gp2 = (case gp2 of None \<Rightarrow> Inl AssertFailed | Some g \<Rightarrow> Inr (g\<lparr>gp_setting := setting\<rparr>))"

definition iGp2ReadVoltage :: "'w i2cdev \<Rightarrow> 's xG2pSensor option \<Rightarrow> 'w \<Rightarrow> (int \<times> 'w) run" where
  "iGp2ReadVoltage B gp2 w =
     (case gp2 of
        None \<Rightarrow> Inl AssertFailed
      | Some g \<Rightarrow>
          cbind (iI2cReadRegBlock B (gp_fd g) 0 (replicate 2 0) 0 2 w) (\<lambda>(r, buf, w).
            Inr (if r \<noteq> 2 then -1 else uint (buf ! 0) + uint (buf ! 1) * 256, w)))"

text \<open>\<open>iGp2VoltageToDensity\<close> is the parameter \<open>density\<close>.\<close>

definition iGp2Read :: "'w i2cdev \<Rightarrow> (int \<Rightarrow> 's \<Rightarrow> int) \<Rightarrow> 's xG2pSensor option \<Rightarrow> 'w \<Rightarrow> (int \<times> 'w) run" where
  "iGp2Read B density gp2 w =
     cbind (iGp2ReadVoltage B gp2 w) (\<lambda>(r, w).
       if r \<ge> 0 then cbind (deref gp2) (\<lambda>g. Inr (density r (gp_setting g), w)) else Inr (r, w))"

section \<open>HIH6130\<close>

definition HIH6130_DONE :: u8 where "HIH6130_DONE = 0x00"
definition HIH6130_STALE :: u8 where "HIH6130_STALE = 0x40"
definition HIH6130_CMD :: u8 where "HIH6130_CMD = 0x80"
definition HIH6130_DIAG :: u8 where "HIH6130_DIAG = 0xC0"
definition HIH6130_STATUS :: u8 where "HIH6130_STATUS = HIH6130_DIAG"
definition HIH6130_BUSY :: int where "HIH6130_BUSY = 1"
definition MR_PROGRESS :: u8 where "MR_PROGRESS = 0x01"
definition DATA_AVAILABLE :: u8 where "DATA_AVAILABLE = 0x02"

text \<open>Humidity and temperature, times 16384.\<close>

record xHih6130Data =
  hi_hum :: int
  hi_temp :: "int option"

record xHih6130 =
  hi_fd :: int
  hi_data :: xHih6130Data
  hi_status :: u8

definition xHih6130Open :: "'w i2cdev \<Rightarrow> u8 list \<Rightarrow> int \<Rightarrow> mem \<times> 'w \<Rightarrow> (xHih6130 option \<times> mem \<times> 'w) run" where
  "xHih6130Open B device i2caddr mw =
     cbind (sensor_open B (\<lambda>fd. \<lparr>hi_fd = fd, hi_data = \<lparr>hi_hum = 0, hi_temp = Some 0\<rparr>, hi_status = 0\<rparr>) device i2caddr mw)
       (\<lambda>(s, m, w). Inr (s, m, if s = None then w else ic_delay B 100 w))"

definition iHih6130Close :: "'w i2cdev \<Rightarrow> xHih6130 \<Rightarrow> mem \<times> 'w \<Rightarrow> int \<times> mem \<times> 'w" where
  "iHih6130Close B s mw = (let (r, w) = iI2cClose B (hi_fd s) (snd mw) in (r, free (Some s) (fst mw), w))"

definition iHih6130Start :: "'w i2cdev \<Rightarrow> xHih6130 \<Rightarrow> 'w \<Rightarrow> int \<times> xHih6130 \<times> 'w" where
  "iHih6130Start B s w =
     (let (r, w) = iI2cWriteBlock B (hi_fd s) [] w in
      if r < 0 then (-1, s\<lparr>hi_status := 0\<rparr>, w) else (0, s\<lparr>hi_status := MR_PROGRESS\<rparr>, w))"

definition hih_values :: "u8 list \<Rightarrow> int \<Rightarrow> xHih6130Data" where
  "hih_values buf r =
     \<lparr>hi_hum = (uint (buf ! 0 AND NOT HIH6130_STATUS) * 256 + uint (buf ! 1)) * 100,
      hi_temp = (if r = 4 then Some ((uint (buf ! 2) * 64 + uint (buf ! 3) div 4) * 165 - 40 * 16384) else None)\<rparr>"

definition iHih6130Read ::
    "'w i2cdev \<Rightarrow> xHih6130 \<Rightarrow> xHih6130Data \<Rightarrow> 'w \<Rightarrow> (int \<times> xHih6130 \<times> xHih6130Data \<times> 'w) run" where
  "iHih6130Read B s data w =
     (let finish = (\<lambda>s w. if hi_status s = DATA_AVAILABLE then Inr (0, s, hi_data s, w) else Inr (-1, s, data, w)) in
      if hi_status s = MR_PROGRESS then
        cbind (iI2cReadBlock B (hi_fd s) (replicate 4 0) 4 w) (\<lambda>(r, buf, w).
          if r < 2 then Inr (-1, s, data, w)
          else
            let st = buf ! 0 AND HIH6130_STATUS in
            if st = HIH6130_DONE then finish (s\<lparr>hi_status := DATA_AVAILABLE, hi_data := hih_values buf r\<rparr>) w
            else if st = HIH6130_STALE then Inr (HIH6130_BUSY, s, data, w)
            else finish s w)
      else finish s w)"

end
