(* ===== verification/Tlc59116.thy ===== *)
theory Tlc59116
  imports I2c Vector "HOL-Library.Signed_Division"
begin

text \<open>
  The controller of RGB leds TLC59116 (\<open>src/src/i2c/tlc59116.c\<close>, \<open>src/include/sysio/tlc59116.h\<close>): for every
  controller the driver keeps a copy of its registers, which it changes and writes to the bus.  The leds are blocks of memory
  that a vector points to: \<open>ledstore\<close> gives the led at an address, or nothing when the block has been freed.
\<close>

section \<open>Constants\<close>

definition TLC59116_ADDR_SUB1 :: int where "TLC59116_ADDR_SUB1 = 0x69"
definition TLC59116_ADDR_SWRST :: int where "TLC59116_ADDR_SWRST = 0x6B"
definition TLC59116_SWRST_BYTE1 :: u8 where "TLC59116_SWRST_BYTE1 = 0xA5"
definition TLC59116_SWRST_BYTE2 :: u8 where "TLC59116_SWRST_BYTE2 = 0x5A"
definition TLC_MODE1 :: u8 where "TLC_MODE1 = 0x00"
definition TLC_MODE2 :: u8 where "TLC_MODE2 = 0x01"
definition TLC_PWM0 :: u8 where "TLC_PWM0 = 0x02"
definition TLC_GRPPWM :: u8 where "TLC_GRPPWM = 0x12"
definition TLC_GRPFREQ :: u8 where "TLC_GRPFREQ = 0x13"
definition TLC_LEDOUT0 :: u8 where "TLC_LEDOUT0 = 0x14"
definition TLC_SUBADR1 :: u8 where "TLC_SUBADR1 = 0x18"
definition TLC_IREF :: u8 where "TLC_IREF = 0x1C"
definition TLC_EFLAG1 :: u8 where "TLC_EFLAG1 = 0x1D"
definition TLC_EFLAG2 :: u8 where "TLC_EFLAG2 = 0x1E"
definition REG_BLOCK_SIZE :: nat where "REG_BLOCK_SIZE = 31"
definition AI_ALL :: u8 where "AI_ALL = 0x80"
definition BV_OSC :: u8 where "BV_OSC = 0x10"
definition BV_EFCLR :: u8 where "BV_EFCLR = 0x80"
definition BV_DMBLNK :: u8 where "BV_DMBLNK = 0x20"

lemmas tlc_regs = TLC_MODE1_def TLC_MODE2_def TLC_PWM0_def TLC_GRPPWM_def TLC_GRPFREQ_def TLC_LEDOUT0_def TLC_SUBADR1_def TLC_IREF_def TLC_EFLAG1_def TLC_EFLAG2_def

definition LEDRGB_IOC_SETMODE :: int where "LEDRGB_IOC_SETMODE = 1"
definition LEDRGB_IOC_SETDIMMER :: int where "LEDRGB_IOC_SETDIMMER = 2"
definition LEDRGB_IOC_SETBLINKER :: int where "LEDRGB_IOC_SETBLINKER = 3"
definition LEDRGB_IOC_SETGAIN :: int where "LEDRGB_IOC_SETGAIN = 4"
definition LEDRGB_IOC_GETERROR :: int where "LEDRGB_IOC_GETERROR = 100"
definition LEDRGB_IOC_CLRERROR :: int where "LEDRGB_IOC_CLRERROR = 101"

section \<open>Data\<close>

record xTlc59116Pin =
  pin_out :: int
  pin_ctrl :: int

record xTlc59116Led =
  led_red :: xTlc59116Pin
  led_green :: xTlc59116Pin
  led_blue :: xTlc59116Pin

record xTlc59116Config =
  cf_bus :: "u8 list"
  cf_addr :: int

record xTlc59116Ctrl =
  ct_bus :: "u8 list option"
  ct_addr :: int
  ct_regs :: "u8 list"

type_synonym ledstore = "nat \<Rightarrow> xTlc59116Led option"

text \<open>\<open>td_next\<close> is the address of the next block for a led.\<close>

record xTlc59116Data =
  td_ctrl :: "xTlc59116Ctrl list"
  td_nof_ctrl :: int
  td_leds :: "ledstore xVector"
  td_store :: ledstore
  td_next :: nat

record xRgbColor =
  ucBlue :: u8
  ucGreen :: u8
  ucRed :: u8
  ucHue :: u8

definition vLedDestroy :: "nat \<Rightarrow> ledstore \<Rightarrow> ledstore" where
  "vLedDestroy a leds = leds(a := None)"

section \<open>Registers\<close>

text \<open>A NULL pointer as the name of the bus is a fault in \<open>open\<close>.\<close>

definition iWriteRegBlock :: "'w i2cdev \<Rightarrow> xTlc59116Ctrl \<Rightarrow> u8 \<Rightarrow> u8 \<Rightarrow> 'w \<Rightarrow> (int \<times> 'w) run" where
  "iWriteRegBlock B ctrl first_reg last_reg w =
     cbind (deref (ct_bus ctrl)) (\<lambda>bus.
       let (fd, w) = iI2cOpen B bus (ct_addr ctrl) w in
       if fd \<ge> 0 then
         let len = last_reg - first_reg + 1;
             reg = first_reg OR (if last_reg > first_reg then AI_ALL else 0)
         in cbind (iI2cWriteRegBlock B fd reg (ct_regs ctrl) (unat first_reg) len w) (\<lambda>(r, w).
              let (error, w) = iI2cClose B fd w in Inr (if error = 0 \<and> r = 0 then 0 else -1, w))
       else Inr (-1, w))"

definition iReadRegBlock :: "'w i2cdev \<Rightarrow> xTlc59116Ctrl \<Rightarrow> u8 \<Rightarrow> u8 \<Rightarrow> 'w \<Rightarrow> (int \<times> xTlc59116Ctrl \<times> 'w) run" where
  "iReadRegBlock B ctrl first_reg last_reg w =
     cbind (deref (ct_bus ctrl)) (\<lambda>bus.
       let (fd, w) = iI2cOpen B bus (ct_addr ctrl) w in
       if fd \<ge> 0 then
         let len = last_reg - first_reg + 1;
             reg = first_reg OR (if last_reg > first_reg then AI_ALL else 0)
         in cbind (iI2cReadRegBlock B fd reg (ct_regs ctrl) (unat first_reg) len w) (\<lambda>(r, regs, w).
              let (error, w) = iI2cClose B fd w in
              Inr (if error = 0 \<and> r = uint len then 0 else -1, ctrl\<lparr>ct_regs := regs\<rparr>, w))
       else Inr (-1, ctrl, w))"

definition iCheckCtrlPresence :: "'w i2cdev \<Rightarrow> xTlc59116Config \<Rightarrow> 'w \<Rightarrow> (int \<times> 'w) run" where
  "iCheckCtrlPresence B config w =
     (let (fd, w) = iI2cOpen B (cf_bus config) (cf_addr config) w in
      if fd \<ge> 0 then
        cbind (iI2cReadReg8 B fd TLC_SUBADR1 w) (\<lambda>(subadr1, w).
          let (_, w) = iI2cClose B fd w in Inr (if subadr1 = TLC59116_ADDR_SUB1 * 2 then 0 else -1, w))
      else Inr (-1, w))"

definition iSwReset :: "'w i2cdev \<Rightarrow> u8 list \<Rightarrow> 'w \<Rightarrow> int \<times> 'w" where
  "iSwReset B bus w =
     (let (fd, w) = iI2cOpen B bus TLC59116_ADDR_SWRST w in
      if fd \<ge> 0 then
        let (r, w) = iI2cWriteBlock B fd [TLC59116_SWRST_BYTE1, TLC59116_SWRST_BYTE2] w;
            (_, w) = iI2cClose B fd w
        in (if r = 2 then 0 else -1, w)
      else (-1, w))"

text \<open>A register is changed in the copy and written.\<close>

definition put_reg :: "'w i2cdev \<Rightarrow> u8 \<Rightarrow> (u8 \<Rightarrow> u8) \<Rightarrow> xTlc59116Ctrl \<Rightarrow> 'w \<Rightarrow> (int \<times> xTlc59116Ctrl \<times> 'w) run" where
  "put_reg B reg f ctrl w =
     cbind (rd (ct_regs ctrl) (unat reg)) (\<lambda>old.
       let ctrl = ctrl\<lparr>ct_regs := (ct_regs ctrl)[unat reg := f old]\<rparr> in
       cbind (iWriteRegBlock B ctrl reg reg w) (\<lambda>(r, w). Inr (r, ctrl, w)))"

text \<open>Shifting a word by its width or more is undefined.\<close>

definition iSetPinMode :: "'w i2cdev \<Rightarrow> u32 \<Rightarrow> xTlc59116Ctrl \<Rightarrow> int \<Rightarrow> 'w \<Rightarrow> (int \<times> xTlc59116Ctrl \<times> 'w) run" where
  "iSetPinMode B mode ctrl out w =
     (let reg = TLC_LEDOUT0 + word_of_int (out sdiv 4);
          ls = unat (word_of_int (out smod 4 * 2) :: u8)
      in if ls \<ge> 32 then Inl OutOfBounds
         else put_reg B reg (\<lambda>v. (v AND NOT (push_bit ls 3)) OR ucast (push_bit ls mode)) ctrl w)"

definition iSetPinPwm :: "'w i2cdev \<Rightarrow> u8 \<Rightarrow> xTlc59116Ctrl \<Rightarrow> int \<Rightarrow> 'w \<Rightarrow> (int \<times> xTlc59116Ctrl \<times> 'w) run" where
  "iSetPinPwm B dcycle ctrl out w = put_reg B (TLC_PWM0 + word_of_int out) (\<lambda>_. dcycle) ctrl w"

section \<open>The driver\<close>

text \<open>\<open>&d->ctrl[i]\<close>.\<close>

definition ctrl_at :: "xTlc59116Data \<Rightarrow> int \<Rightarrow> xTlc59116Ctrl run" where
  "ctrl_at d i = (if i < 0 then Inl OutOfBounds else rd (td_ctrl d) (nat i))"

definition on_ctrl ::
    "(xTlc59116Ctrl \<Rightarrow> 'w \<Rightarrow> (int \<times> xTlc59116Ctrl \<times> 'w) run) \<Rightarrow> int \<Rightarrow> xTlc59116Data \<Rightarrow> 'w \<Rightarrow> (int \<times> xTlc59116Data \<times> 'w) run" where
  "on_ctrl f i d w =
     cbind (ctrl_at d i) (\<lambda>c. cbind (f c w) (\<lambda>(r, c, w). Inr (r, d\<lparr>td_ctrl := (td_ctrl d)[nat i := c]\<rparr>, w)))"

text \<open>\<open>pvVectorGet\<close>, \<open>assert (led)\<close>, and the led behind the pointer.\<close>

definition led_at :: "xTlc59116Data \<Rightarrow> int \<Rightarrow> xTlc59116Led run" where
  "led_at d index =
     cbind (pvVectorGet (Some (td_leds d)) index) (\<lambda>p. case p of
        None \<Rightarrow> Inl AssertFailed
      | Some a \<Rightarrow> (case td_store d a of None \<Rightarrow> Inl UseAfterFree | Some led \<Rightarrow> Inr led))"

text \<open>The operations on the three pins, as long as they give 0.\<close>

definition and_then ::
    "(int \<times> xTlc59116Data \<times> 'w) run \<Rightarrow> (xTlc59116Data \<Rightarrow> 'w \<Rightarrow> (int \<times> xTlc59116Data \<times> 'w) run) \<Rightarrow> (int \<times> xTlc59116Data \<times> 'w) run" where
  "and_then m k = cbind m (\<lambda>(r, d, w). if r = 0 then k d w else Inr (r, d, w))"

definition iSetMode :: "'w i2cdev \<Rightarrow> xTlc59116Data \<Rightarrow> int \<Rightarrow> u32 \<Rightarrow> 'w \<Rightarrow> (int \<times> xTlc59116Data \<times> 'w) run" where
  "iSetMode B d index mode w =
     cbind (led_at d index) (\<lambda>led.
       let pin = (\<lambda>p. on_ctrl (\<lambda>c. iSetPinMode B mode c (pin_out p)) (pin_ctrl p)) in
       and_then (pin (led_red led) d w) (\<lambda>d w. and_then (pin (led_green led) d w) (pin (led_blue led))))"

definition iSetColor :: "'w i2cdev \<Rightarrow> xTlc59116Data \<Rightarrow> int \<Rightarrow> xRgbColor \<Rightarrow> 'w \<Rightarrow> (int \<times> xTlc59116Data \<times> 'w) run" where
  "iSetColor B d index color w =
     cbind (led_at d index) (\<lambda>led.
       let pin = (\<lambda>p v. on_ctrl (\<lambda>c. iSetPinPwm B v c (pin_out p)) (pin_ctrl p)) in
       and_then (pin (led_red led) (ucRed color) d w) (\<lambda>d w.
       and_then (pin (led_green led) (ucGreen color) d w) (pin (led_blue led) (ucBlue color))))"

text \<open>The operations on the controllers of a led, each once; \<open>c\<close> is the array of the controllers that are done.\<close>

fun each_ctrl ::
    "(xTlc59116Ctrl \<Rightarrow> 'w \<Rightarrow> (int \<times> xTlc59116Ctrl \<times> 'w) run) \<Rightarrow> int list \<Rightarrow> nat \<Rightarrow> xTlc59116Pin list \<Rightarrow>
     int \<Rightarrow> xTlc59116Data \<Rightarrow> 'w \<Rightarrow> (int \<times> xTlc59116Data \<times> 'w) run" where
  "each_ctrl f c i [] r d w = Inr (r, d, w)"
| "each_ctrl f c i (p # ps) r d w =
     (if pin_ctrl p \<noteq> c ! 0 \<and> pin_ctrl p \<noteq> c ! 1
      then and_then (on_ctrl f (pin_ctrl p) d w) (\<lambda>d w. each_ctrl f (c[i := pin_ctrl p]) (i + 1) ps 0 d w)
      else each_ctrl f c (i + 1) ps r d w)"

fun halve :: "nat \<Rightarrow> nat" where
  "halve n = (if n > 255 then halve (n div 2) else n)"

declare halve.simps [simp del]

definition ctrl_then ::
    "(int \<times> xTlc59116Ctrl \<times> 'w) run \<Rightarrow> (xTlc59116Ctrl \<Rightarrow> 'w \<Rightarrow> (int \<times> xTlc59116Ctrl \<times> 'w) run) \<Rightarrow> (int \<times> xTlc59116Ctrl \<times> 'w) run" where
  "ctrl_then m k = cbind m (\<lambda>(r, c, w). if r \<noteq> 0 then Inr (r, c, w) else k c w)"

definition iSetDimmer :: "'w i2cdev \<Rightarrow> xTlc59116Data \<Rightarrow> int \<Rightarrow> int \<Rightarrow> 'w \<Rightarrow> (int \<times> xTlc59116Data \<times> 'w) run" where
  "iSetDimmer B d index dimming w =
     (if dimming \<ge> 0 then
        cbind (led_at d index) (\<lambda>led.
          let dimming = halve (nat dimming) in
          each_ctrl (\<lambda>c w. ctrl_then (put_reg B TLC_GRPPWM (\<lambda>_. of_nat dimming) c w)
                             (put_reg B TLC_MODE2 (\<lambda>v. v AND NOT BV_DMBLNK)))
            [-1, -1, -1] 0 [led_red led, led_green led, led_blue led] (-1) d w)
      else Inr (-1, d, w))"

text \<open>\<open>GRPPWM\<close> and \<open>GRPFREQ\<close> are written together.\<close>

definition put_blink :: "'w i2cdev \<Rightarrow> u8 \<Rightarrow> u8 \<Rightarrow> xTlc59116Ctrl \<Rightarrow> 'w \<Rightarrow> (int \<times> xTlc59116Ctrl \<times> 'w) run" where
  "put_blink B dcycle freq c w =
     cbind (wr (ct_regs c) (unat TLC_GRPPWM) dcycle) (\<lambda>rs.
     cbind (wr rs (unat TLC_GRPFREQ) freq) (\<lambda>rs.
       let c = c\<lparr>ct_regs := rs\<rparr> in
       cbind (iWriteRegBlock B c TLC_GRPPWM TLC_GRPFREQ w) (\<lambda>(r, w). Inr (r, c, w))))"

text \<open>The product is an \<open>int\<close> of 32 bits, which wraps on the targets.\<close>

definition blink_freq :: "int \<Rightarrow> u8" where
  "blink_freq period =
     (let period = max period 42; product = sint (word_of_int (period * 3) :: 32 word) in
      word_of_int (min (product sdiv 125 - 1) 255))"

definition iSetBlinker :: "'w i2cdev \<Rightarrow> xTlc59116Data \<Rightarrow> int \<Rightarrow> int \<Rightarrow> int \<Rightarrow> 'w \<Rightarrow> (int \<times> xTlc59116Data \<times> 'w) run" where
  "iSetBlinker B d index period dcycle w =
     (if period \<ge> 0 \<and> dcycle \<ge> 0 then
        cbind (led_at d index) (\<lambda>led.
          let dcycle = halve (nat dcycle) in
          each_ctrl (\<lambda>c w. ctrl_then (put_blink B (of_nat dcycle) (blink_freq period) c w)
                             (put_reg B TLC_MODE2 (\<lambda>v. v OR BV_DMBLNK)))
            [-1, -1, -1] 0 [led_red led, led_green led, led_blue led] (-1) d w)
      else Inr (-1, d, w))"

text \<open>\<open>r\<close> is 1 when some pin has an error; an error of the bus ends the loop.\<close>

fun error_pins :: "'w i2cdev \<Rightarrow> xTlc59116Pin list \<Rightarrow> int \<Rightarrow> xTlc59116Data \<Rightarrow> 'w \<Rightarrow> (int \<times> xTlc59116Data \<times> 'w) run" where
  "error_pins B [] r d w = Inr (r, d, w)"
| "error_pins B (p # ps) r d w =
     (let reg = TLC_EFLAG1 + word_of_int (pin_out p sdiv 8);
          bit = unat (word_of_int (pin_out p smod 8) :: u8)
      in cbind (on_ctrl (\<lambda>c. iReadRegBlock B c reg reg) (pin_ctrl p) d w) (\<lambda>(e, d, w).
           if e \<noteq> 0 then Inr (e, d, w)
           else if bit \<ge> 32 then Inl OutOfBounds
           else cbind (ctrl_at d (pin_ctrl p)) (\<lambda>c. cbind (rd (ct_regs c) (unat reg)) (\<lambda>v.
             error_pins B ps (if v AND push_bit bit 1 = 0 then 1 else r) d w))))"

definition iGetError :: "'w i2cdev \<Rightarrow> xTlc59116Data \<Rightarrow> int \<Rightarrow> 'w \<Rightarrow> (int \<times> xTlc59116Data \<times> 'w) run" where
  "iGetError B d index w =
     cbind (led_at d index) (\<lambda>led. error_pins B [led_red led, led_green led, led_blue led] 0 d w)"

definition iSetGain :: "'w i2cdev \<Rightarrow> xTlc59116Data \<Rightarrow> int \<Rightarrow> int \<Rightarrow> 'w \<Rightarrow> (int \<times> xTlc59116Data \<times> 'w) run" where
  "iSetGain B d ctl gain w =
     (if ctl \<ge> 0 \<and> ctl < td_nof_ctrl d then on_ctrl (put_reg B TLC_IREF (\<lambda>_. word_of_int gain)) ctl d w
      else Inr (-1, d, w))"

fun clear_errors :: "'w i2cdev \<Rightarrow> int list \<Rightarrow> int \<Rightarrow> xTlc59116Data \<Rightarrow> 'w \<Rightarrow> (int \<times> xTlc59116Data \<times> 'w) run" where
  "clear_errors B [] r d w = Inr (r, d, w)"
| "clear_errors B (i # is) r d w =
     and_then (on_ctrl (put_reg B TLC_MODE2 (\<lambda>v. v OR BV_EFCLR)) i d w) (\<lambda>d w.
     cbind (on_ctrl (put_reg B TLC_MODE2 (\<lambda>v. v AND NOT BV_EFCLR)) i d w) (\<lambda>(r, d, w). clear_errors B is r d w))"

definition iClrError :: "'w i2cdev \<Rightarrow> xTlc59116Data \<Rightarrow> 'w \<Rightarrow> (int \<times> xTlc59116Data \<times> 'w) run" where
  "iClrError B d w = clear_errors B [0..td_nof_ctrl d - 1] (-1) d w"

text \<open>The state of the functions that allocate: the allocator and the world.\<close>

definition iAddLed ::
    "'w i2cdev \<Rightarrow> elt \<Rightarrow> xTlc59116Data \<Rightarrow> u32 \<Rightarrow> xTlc59116Led \<Rightarrow> mem \<times> 'w \<Rightarrow> (int \<times> xTlc59116Data \<times> mem \<times> 'w) run" where
  "iAddLed B junk d mode s mw =
     (if pin_ctrl (led_red s) < td_nof_ctrl d \<and> pin_ctrl (led_green s) < td_nof_ctrl d \<and>
         pin_ctrl (led_blue s) < td_nof_ctrl d \<and>
         pin_out (led_red s) < 16 \<and> pin_out (led_green s) < 16 \<and> pin_out (led_blue s) < 16
      then
        let (ok, m) = malloc (fst mw) in
        if \<not> ok then Inl AssertFailed
        else
          let a = td_next d in
          cbind (iVectorAppend junk (Some (td_leds d), m, (td_store d)(a := Some s)) (Some a)) (\<lambda>(r, vp, m, leds).
          cbind (deref vp) (\<lambda>v.
            let d = d\<lparr>td_leds := v, td_store := leds, td_next := a + 1\<rparr> in
            if r \<noteq> 0 then Inr (-1, d, m, snd mw)
            else
              let index = iVectorSize (Some v) - 1 in
              cbind (iSetMode B d index mode (snd mw)) (\<lambda>(r, d, w).
                if r = 0 then Inr (index, d, m, w)
                else
                  cbind (iVectorRemove junk (Some (td_leds d), m, td_store d) index) (\<lambda>(_, vp, m, leds).
                  cbind (deref vp) (\<lambda>v. Inr (-1, d\<lparr>td_leds := v, td_store := leds\<rparr>, m, w))))))
      else Inr (-1, d, mw))"

text \<open>Closing: the results of the bus are ignored.\<close>

fun stop_ctrls :: "'w i2cdev \<Rightarrow> int list \<Rightarrow> xTlc59116Data \<Rightarrow> 'w \<Rightarrow> (xTlc59116Data \<times> 'w) run" where
  "stop_ctrls B [] d w = Inr (d, w)"
| "stop_ctrls B (i # is) d w =
     cbind (on_ctrl (put_reg B TLC_MODE1 (\<lambda>_. BV_OSC)) i d w) (\<lambda>(_, d, w). stop_ctrls B is d w)"

definition iClose :: "'w i2cdev \<Rightarrow> xTlc59116Data \<Rightarrow> mem \<times> 'w \<Rightarrow> (int \<times> mem \<times> 'w) run" where
  "iClose B d mw =
     cbind (stop_ctrls B [0..td_nof_ctrl d - 1] d (snd mw)) (\<lambda>(d, w).
     cbind (vVectorDestroy (Some (td_leds d), fst mw, td_store d)) (\<lambda>(_, m, _).
       let m = fold (\<lambda>c m. free (ct_bus c) m) (take (nat (td_nof_ctrl d)) (td_ctrl d)) m in
       Inr (0, free (Some ()) (free (Some ()) m), w)))"

definition ctrl_zero :: xTlc59116Ctrl where
  "ctrl_zero = \<lparr>ct_bus = None, ct_addr = 0, ct_regs = replicate REG_BLOCK_SIZE 0\<rparr>"

text \<open>One turn of the loop for each controller; \<open>i\<close> is its index.  The name that a bus is compared with is always empty.
  The result is the private data, which are gone after \<open>iClose\<close>.\<close>

fun open_ctrls ::
    "'w i2cdev \<Rightarrow> xTlc59116Config list \<Rightarrow> nat \<Rightarrow> xTlc59116Data \<Rightarrow> mem \<times> 'w \<Rightarrow>
     (int \<times> xTlc59116Data option \<times> mem \<times> 'w) run" where
  "open_ctrls B [] i d mw = Inr (0, Some d, fst mw, ic_delay B 1 (snd mw))"
| "open_ctrls B (cf # cfs) i d mw =
     (let (r, w) = (if cf_bus cf \<noteq> [] then iSwReset B (cf_bus cf) (snd mw) else (0, snd mw));
          fail = (\<lambda>d m w. cbind (iClose B d (m, w)) (\<lambda>(_, m, w). Inr (-1, None, m, w)))
      in if r \<noteq> 0 then Inr (-1, Some d, fst mw, w)
         else
           cbind (iCheckCtrlPresence B cf w) (\<lambda>(r, w).
             if r \<noteq> 0 then fail d (fst mw) w
             else
               let (ok, m) = malloc (fst mw) in
               if \<not> ok then Inl AssertFailed
               else
                 cbind (on_ctrl (\<lambda>c. iReadRegBlock B (c\<lparr>ct_bus := Some (cf_bus cf), ct_addr := cf_addr cf\<rparr>) TLC_MODE1 TLC_EFLAG2)
                          (int i) d w) (\<lambda>(r, d, w).
                   if r \<noteq> 0 then fail d m w
                   else
                     cbind (on_ctrl (put_reg B TLC_MODE1 (\<lambda>v. v AND NOT BV_OSC)) (int i) d w) (\<lambda>(r, d, w).
                       if r \<noteq> 0 then fail d m w
                       else open_ctrls B cfs (i + 1) (d\<lparr>td_nof_ctrl := td_nof_ctrl d + 1\<rparr>) (m, w)))))"

text \<open>The list of the configurations ends with a NULL bus.\<close>

definition iOpen ::
    "'w i2cdev \<Rightarrow> xTlc59116Config list \<Rightarrow> mem \<times> 'w \<Rightarrow> (int \<times> xTlc59116Data option \<times> mem \<times> 'w) run" where
  "iOpen B setup mw =
     (if setup = [] then Inr (-1, None, mw)
      else
        let (ok1, m) = malloc (fst mw) in
        if \<not> ok1 then Inl AssertFailed
        else
          let (ok2, m) = malloc m in
          if \<not> ok2 then Inl AssertFailed
          else case iVectorInit (Some vector_zero) 16 None (Some vLedDestroy) of
                 (_, None) \<Rightarrow> Inl AssertFailed
               | (r, Some leds) \<Rightarrow>
                   if r \<noteq> 0 then Inl AssertFailed
                   else open_ctrls B setup 0
                     \<lparr>td_ctrl = replicate (length setup) ctrl_zero, td_nof_ctrl = 0, td_leds = leds, td_store = (\<lambda>_. None),
                      td_next = 0\<rparr> (m, snd mw))"

text \<open>The arguments of a request are read from a \<open>va_list\<close>: one that the caller did not give is undefined.  The second result
  tells whether \<open>errno\<close> is set to \<open>EINVAL\<close>.\<close>

definition iCtl :: "'w i2cdev \<Rightarrow> xTlc59116Data \<Rightarrow> int \<Rightarrow> int list \<Rightarrow> 'w \<Rightarrow> (int \<times> bool \<times> xTlc59116Data \<times> 'w) run" where
  "iCtl B d c args w =
     (let done' = (\<lambda>m. cbind m (\<lambda>(r, d, w). Inr (r, False, d, w)));
          two = (\<lambda>f. case args of i # x # _ \<Rightarrow> done' (f i x) | _ \<Rightarrow> Inl OutOfBounds)
      in if c = LEDRGB_IOC_SETMODE then two (\<lambda>led mode. iSetMode B d led (word_of_int mode) w)
         else if c = LEDRGB_IOC_SETDIMMER then two (\<lambda>led dimming. iSetDimmer B d led dimming w)
         else if c = LEDRGB_IOC_SETBLINKER then
           (case args of led # period # dcycle # _ \<Rightarrow> done' (iSetBlinker B d led period dcycle w) | _ \<Rightarrow> Inl OutOfBounds)
         else if c = LEDRGB_IOC_GETERROR then
           (case args of led # _ \<Rightarrow> done' (iGetError B d led w) | _ \<Rightarrow> Inl OutOfBounds)
         else if c = LEDRGB_IOC_CLRERROR then done' (iClrError B d w)
         else if c = LEDRGB_IOC_SETGAIN then two (\<lambda>ctl gain. iSetGain B d ctl gain w)
         else Inr (-1, True, d, w))"

end
