(* ===== verification/Tlc_Laws.thy ===== *)
theory Tlc_Laws
  imports Tlc59116
begin

text \<open>
  The driver of the TLC59116 on a bus that works: the copies of the registers that the driver keeps are the
  registers of the controllers, whatever is asked for, and what the operations change in the registers.
\<close>

section \<open>A bus that works\<close>

type_synonym chip = "u8 list \<times> int"

text \<open>The registers after a block \<open>d\<close> (its length, its bytes) has been written with a command; its low bits are the
  first register.\<close>

definition reg_of :: "u8 \<Rightarrow> nat" where
  "reg_of cmd = unat (cmd AND 0x1F)"

definition set_regs :: "u8 list \<Rightarrow> u8 \<Rightarrow> u8 list \<Rightarrow> u8 list" where
  "set_regs rs cmd d =
     take (reg_of cmd) rs @ take (unat (d ! 0)) (drop 1 d) @ drop (reg_of cmd + unat (d ! 0)) rs"

text \<open>\<open>K\<close> are the controllers that are there, \<open>hw\<close> gives their registers, \<open>sel\<close> the one that a descriptor selects.
  A block of several registers is transferred with auto-increment.\<close>

definition block_fits :: "u8 \<Rightarrow> u8 list \<Rightarrow> bool" where
  "block_fits cmd d \<longleftrightarrow> (1 < d ! 0 \<longrightarrow> cmd AND AI_ALL = AI_ALL) \<and> reg_of cmd + unat (d ! 0) \<le> REG_BLOCK_SIZE"

definition bus_opens :: "'w i2cdev \<Rightarrow> ('w \<Rightarrow> chip \<Rightarrow> u8 list) \<Rightarrow> ('w \<Rightarrow> int \<Rightarrow> chip option) \<Rightarrow> chip \<Rightarrow> bool" where
  "bus_opens B hw sel k \<longleftrightarrow> (\<forall>w. \<exists>fd w1 w2. ic_open B (fst k) w = (fd, w1) \<and> 0 \<le> fd \<and>
     ic_slave B fd (snd k) w1 = (0, w2) \<and> hw w2 = hw w \<and> sel w2 fd = Some k)"

definition bus_writes :: "'w i2cdev \<Rightarrow> ('w \<Rightarrow> chip \<Rightarrow> u8 list) \<Rightarrow> ('w \<Rightarrow> int \<Rightarrow> chip option) \<Rightarrow> chip \<Rightarrow> bool" where
  "bus_writes B hw sel k \<longleftrightarrow> (\<forall>w fd cmd d. sel w fd = Some k \<longrightarrow> block_fits cmd d \<longrightarrow>
     (\<exists>x w'. ic_smbus B fd False cmd I2C_SMBUS_I2C_BLOCK_BROKEN d w = (0, x, w') \<and> hw w' = (hw w)(k := set_regs (hw w k) cmd d)))"

definition bus_reads :: "'w i2cdev \<Rightarrow> ('w \<Rightarrow> chip \<Rightarrow> u8 list) \<Rightarrow> ('w \<Rightarrow> int \<Rightarrow> chip option) \<Rightarrow> chip \<Rightarrow> bool" where
  "bus_reads B hw sel k \<longleftrightarrow> (\<forall>w fd cmd d. sel w fd = Some k \<longrightarrow> block_fits cmd d \<longrightarrow>
     (\<exists>x w'. ic_smbus B fd True cmd I2C_SMBUS_I2C_BLOCK_DATA d w = (0, d ! 0 # take (unat (d ! 0)) (drop (reg_of cmd) (hw w k)) @ x, w')))"

text \<open>Neither a read nor \<open>close\<close> changes a register.\<close>

definition bus_keeps :: "'w i2cdev \<Rightarrow> ('w \<Rightarrow> chip \<Rightarrow> u8 list) \<Rightarrow> bool" where
  "bus_keeps B hw \<longleftrightarrow> (\<forall>w fd cmd kind d r x w'. ic_smbus B fd True cmd kind d w = (r, x, w') \<longrightarrow> hw w' = hw w) \<and>
     (\<forall>w fd. \<exists>w'. ic_close B fd w = (0, w') \<and> hw w' = hw w)"

definition tlc_bus :: "'w i2cdev \<Rightarrow> chip set \<Rightarrow> ('w \<Rightarrow> chip \<Rightarrow> u8 list) \<Rightarrow> ('w \<Rightarrow> int \<Rightarrow> chip option) \<Rightarrow> bool" where
  "tlc_bus B K hw sel \<longleftrightarrow>
     bus_keeps B hw \<and> (\<forall>k \<in> K. bus_opens B hw sel k \<and> bus_writes B hw sel k \<and> bus_reads B hw sel k)"

lemma bus_open:
  assumes "tlc_bus B K hw sel" "k \<in> K"
  obtains fd w1 where "iI2cOpen B (fst k) (snd k) w = (fd, w1)" "0 \<le> fd" "hw w1 = hw w" "sel w1 fd = Some k"
proof -
  have "bus_opens B hw sel k" using assms by (simp add: tlc_bus_def)
  then obtain fd w1 w2 where "ic_open B (fst k) w = (fd, w1)" "0 \<le> fd" "ic_slave B fd (snd k) w1 = (0, w2)"
    "hw w2 = hw w" "sel w2 fd = Some k" unfolding bus_opens_def by blast
  then show ?thesis by (intro that [of fd w2]) (simp_all add: iI2cOpen_def)
qed

lemma bus_close:
  assumes "tlc_bus B K hw sel"
  obtains w1 where "iI2cClose B fd w = (0, w1)" "hw w1 = hw w"
proof -
  have "bus_keeps B hw" using assms by (simp add: tlc_bus_def)
  then obtain w1 where "ic_close B fd w = (0, w1)" "hw w1 = hw w" unfolding bus_keeps_def by blast
  then show ?thesis by (intro that [of w1]) (simp_all add: iI2cClose_def)
qed

lemma bus_write:
  assumes "tlc_bus B K hw sel" "k \<in> K" "sel w fd = Some k" "block_fits cmd d"
  obtains x w1 where "ic_smbus B fd False cmd I2C_SMBUS_I2C_BLOCK_BROKEN d w = (0, x, w1)" "hw w1 = (hw w)(k := set_regs (hw w k) cmd d)"
proof -
  have "bus_writes B hw sel k" using assms(1,2) by (simp add: tlc_bus_def)
  with assms(3,4) show ?thesis using that unfolding bus_writes_def by blast
qed

lemma bus_read_same: "tlc_bus B K hw sel \<Longrightarrow> ic_smbus B fd True cmd kind d w = (r, x, w') \<Longrightarrow> hw w' = hw w"
  by (auto simp: tlc_bus_def bus_keeps_def)

lemma bus_read:
  assumes "tlc_bus B K hw sel" "k \<in> K" "sel w fd = Some k" "block_fits cmd d"
  obtains x w1 where "ic_smbus B fd True cmd I2C_SMBUS_I2C_BLOCK_DATA d w = (0, d ! 0 # take (unat (d ! 0)) (drop (reg_of cmd) (hw w k)) @ x, w1)"
    "hw w1 = hw w"
proof -
  have "bus_reads B hw sel k" using assms(1,2) by (simp add: tlc_bus_def)
  then obtain x w1 where "ic_smbus B fd True cmd I2C_SMBUS_I2C_BLOCK_DATA d w =
      (0, d ! 0 # take (unat (d ! 0)) (drop (reg_of cmd) (hw w k)) @ x, w1)"
    using assms(3,4) unfolding bus_reads_def by blast
  with bus_read_same [OF assms(1)] show ?thesis using that by blast
qed

text \<open>The command and the length of a block of registers.\<close>

lemma block_command:
  assumes "first \<le> last_reg" "last_reg < 0x1F"
  shows "reg_of (first OR (if last_reg > first then AI_ALL else 0)) = unat first"
    and "unat (last_reg - first + 1) = unat last_reg - unat first + 1"
    and "1 < last_reg - first + 1 \<Longrightarrow> (first OR (if last_reg > first then AI_ALL else 0)) AND AI_ALL = AI_ALL"
    and "last_reg - first + 1 \<le> 31"
proof -
  have f: "unat first \<le> unat last_reg" "unat last_reg < 31" using assms by (simp_all add: word_le_nat_alt word_less_nat_alt)
  have "take_bit 5 (unat first) = unat first" using f by (simp add: take_bit_eq_mod)
  then have mod: "first AND 0x1F = first"
  proof -
    have "take_bit 5 first = first" using f by (simp add: word_unat_eq_iff take_bit_eq_mod unat_mod)
    moreover have "take_bit 5 first = first AND 0x1F" by (simp add: take_bit_eq_mask mask_eq_exp_minus_1)
    ultimately show ?thesis by simp
  qed
  have "(first OR AI_ALL) AND 0x1F = first AND 0x1F" by (simp add: AI_ALL_def bit.conj_disj_distrib2)
  with mod show "reg_of (first OR (if last_reg > first then AI_ALL else 0)) = unat first" by (simp add: reg_of_def)
  have diff: "unat (last_reg - first) = unat last_reg - unat first" using assms(1) by (simp add: unat_sub)
  then have "unat (last_reg - first) < 31" using f by simp
  then show len: "unat (last_reg - first + 1) = unat last_reg - unat first + 1"
    by (simp add: unat_word_ariths diff)
  show "last_reg - first + 1 \<le> 31" using len f by (simp add: word_le_nat_alt)
  assume "1 < last_reg - first + 1"
  then have "1 < unat (last_reg - first + 1)" by (simp add: word_less_nat_alt)
  then have "first < last_reg" using len f by (simp add: word_less_nat_alt)
  then show "(first OR (if last_reg > first then AI_ALL else 0)) AND AI_ALL = AI_ALL" by (simp add: bit.conj_disj_distrib2)
qed

section \<open>Copies of the registers\<close>

definition ct_key :: "xTlc59116Ctrl \<Rightarrow> chip" where
  "ct_key c = (the (ct_bus c), ct_addr c)"

lemma ct_key_regs [simp]: "ct_key (c\<lparr>ct_regs := rs\<rparr>) = ct_key c"
  by (simp add: ct_key_def)

text \<open>A controller that is there, whose copy has the size of the array.\<close>

definition started :: "chip set \<Rightarrow> xTlc59116Ctrl \<Rightarrow> bool" where
  "started K c \<longleftrightarrow> ct_bus c \<noteq> None \<and> ct_key c \<in> K \<and> length (ct_regs c) = REG_BLOCK_SIZE"

lemma iWriteRegBlock_hw:
  assumes bus: "tlc_bus B K hw sel" and c: "started K c" and regs: "first \<le> last_reg" "last_reg < 0x1F"
    and hw: "length (hw w (ct_key c)) = REG_BLOCK_SIZE"
  shows "\<exists>w1. iWriteRegBlock B c first last_reg w = Inr (0, w1) \<and>
    hw w1 = (hw w)(ct_key c := take (unat first) (hw w (ct_key c)) @
       take (unat last_reg + 1 - unat first) (drop (unat first) (ct_regs c)) @ drop (unat last_reg + 1) (hw w (ct_key c)))"
proof -
  let ?len = "last_reg - first + 1" and ?cmd = "first OR (if last_reg > first then AI_ALL else 0)"
  note cmd = block_command [OF regs]
  have f: "unat first \<le> unat last_reg" "unat last_reg < 31" using regs by (simp_all add: word_le_nat_alt word_less_nat_alt)
  obtain name where name: "ct_bus c = Some name" "fst (ct_key c) = name" "snd (ct_key c) = ct_addr c"
    using c by (auto simp: started_def ct_key_def)
  have K: "ct_key c \<in> K" using c by (simp add: started_def)
  obtain fd w1 where op: "iI2cOpen B name (ct_addr c) w = (fd, w1)" "0 \<le> fd" "hw w1 = hw w" "sel w1 fd = Some (ct_key c)"
    using bus_open [OF bus K, of w] name by metis
  define d where "d = ?len # take (unat ?len) (drop (unat first) (ct_regs c)) @ drop (1 + unat ?len) (smbus_data [?len])"
  have len: "length (ct_regs c) = 31" using c by (simp add: started_def REG_BLOCK_SIZE_def)
  have copy: "copy_into (smbus_data [?len]) 1 (ct_regs c) (unat first) (unat ?len) = Inr d"
    using f len cmd(2) by (simp add: copy_into_def d_def smbus_data_def I2C_SMBUS_BLOCK_MAX_def)
  have d0: "d ! 0 = ?len" by (simp add: d_def)
  have "block_fits ?cmd d" using f cmd(3) unfolding block_fits_def d0 cmd(1,2) by (simp add: REG_BLOCK_SIZE_def)
  then obtain x w2 where wr: "ic_smbus B fd False ?cmd I2C_SMBUS_I2C_BLOCK_BROKEN d w1 = (0, x, w2)"
    "hw w2 = (hw w1)(ct_key c := set_regs (hw w1 (ct_key c)) ?cmd d)"
    using bus_write [OF bus K op(4)] by metis
  obtain w3 where cl: "iI2cClose B fd w2 = (0, w3)" "hw w3 = hw w2" using bus_close [OF bus] by metis
  have small: "\<not> 32 < ?len" using cmd(4) by (simp add: word_le_nat_alt word_less_nat_alt)
  have "set_regs (hw w (ct_key c)) ?cmd d = take (unat first) (hw w (ct_key c)) @
       take (unat last_reg + 1 - unat first) (drop (unat first) (ct_regs c)) @ drop (unat last_reg + 1) (hw w (ct_key c))"
    using f len unfolding set_regs_def d0 cmd(1,2) by (simp add: d_def cmd(2) Suc_diff_le)
  then show ?thesis
    using op wr cl small copy
    by (simp add: iWriteRegBlock_def name Let_def iI2cWriteRegBlock_def i2c_smbus_write_i2c_block_data_def)
qed

lemma iReadRegBlock_hw:
  assumes bus: "tlc_bus B K hw sel" and c: "started K c" and regs: "first \<le> last_reg" "last_reg < 0x1F"
    and hw: "length (hw w (ct_key c)) = REG_BLOCK_SIZE"
  shows "\<exists>w1. iReadRegBlock B c first last_reg w = Inr (0, c\<lparr>ct_regs := take (unat first) (ct_regs c) @
       take (unat last_reg + 1 - unat first) (drop (unat first) (hw w (ct_key c))) @ drop (unat last_reg + 1) (ct_regs c)\<rparr>, w1) \<and>
    hw w1 = hw w"
proof -
  let ?len = "last_reg - first + 1" and ?cmd = "first OR (if last_reg > first then AI_ALL else 0)"
  note cmd = block_command [OF regs]
  have f: "unat first \<le> unat last_reg" "unat last_reg < 31" using regs by (simp_all add: word_le_nat_alt word_less_nat_alt)
  obtain name where name: "ct_bus c = Some name" "fst (ct_key c) = name" "snd (ct_key c) = ct_addr c"
    using c by (auto simp: started_def ct_key_def)
  have K: "ct_key c \<in> K" using c by (simp add: started_def)
  obtain fd w1 where op: "iI2cOpen B name (ct_addr c) w = (fd, w1)" "0 \<le> fd" "hw w1 = hw w" "sel w1 fd = Some (ct_key c)"
    using bus_open [OF bus K, of w] name by metis
  have len: "length (ct_regs c) = 31" using c by (simp add: started_def REG_BLOCK_SIZE_def)
  let ?d = "smbus_data [?len]"
  have d0: "?d ! 0 = ?len" by (simp add: smbus_data_def)
  have small: "\<not> 32 < ?len" "?len \<noteq> 32" using cmd(4) by (auto simp: word_le_nat_alt word_less_nat_alt)
  have "block_fits ?cmd ?d" using f cmd(3) unfolding block_fits_def d0 cmd(1,2) by (simp add: REG_BLOCK_SIZE_def)
  then obtain x w2 where rd: "ic_smbus B fd True ?cmd I2C_SMBUS_I2C_BLOCK_DATA ?d w1 =
      (0, ?d ! 0 # take (unat (?d ! 0)) (drop (reg_of ?cmd) (hw w1 (ct_key c))) @ x, w2)" "hw w2 = hw w1"
    using bus_read [OF bus K op(4)] by metis
  obtain w3 where cl: "iI2cClose B fd w2 = (0, w3)" "hw w3 = hw w2" using bus_close [OF bus] by metis
  let ?new = "take (unat last_reg + 1 - unat first) (drop (unat first) (hw w (ct_key c)))"
  have new: "take (unat (?d ! 0)) (drop (reg_of ?cmd) (hw w1 (ct_key c))) = ?new"
    using f unfolding d0 cmd(1,2) op(3) by (simp add: Suc_diff_le)
  have "length ?new = unat ?len" using f hw unfolding cmd(2) by (simp add: REG_BLOCK_SIZE_def)
  then have copy: "copy_into (ct_regs c) (unat first) (?len # ?new @ x) 1 (unat ?len) =
      Inr (take (unat first) (ct_regs c) @ ?new @ drop (unat last_reg + 1) (ct_regs c))"
    using f len by (simp add: copy_into_def cmd(2) Suc_diff_le)
  show ?thesis
    using op rd(1) [unfolded new, unfolded d0] rd(2) cl small copy
    by (simp add: iReadRegBlock_def name Let_def iI2cReadRegBlock_def i2c_smbus_read_i2c_block_data_def)
qed


section \<open>The copies are the registers\<close>

definition mirrored :: "chip set \<Rightarrow> ('w \<Rightarrow> chip \<Rightarrow> u8 list) \<Rightarrow> xTlc59116Data \<Rightarrow> 'w \<Rightarrow> bool" where
  "mirrored K hw d w \<longleftrightarrow> td_nof_ctrl d = int (length (td_ctrl d)) \<and> distinct (map ct_key (td_ctrl d)) \<and>
     (\<forall>c \<in> set (td_ctrl d). started K c \<and> hw w (ct_key c) = ct_regs c)"

text \<open>The same for a step on one controller, which leaves the other ones alone.\<close>

definition in_step :: "chip set \<Rightarrow> ('w \<Rightarrow> chip \<Rightarrow> u8 list) \<Rightarrow> xTlc59116Ctrl \<Rightarrow> 'w \<Rightarrow> xTlc59116Ctrl \<Rightarrow> 'w \<Rightarrow> bool" where
  "in_step K hw c w c' w' \<longleftrightarrow> started K c' \<and> ct_key c' = ct_key c \<and> hw w' = (hw w)(ct_key c := ct_regs c')"

definition tracks :: "chip set \<Rightarrow> ('w \<Rightarrow> chip \<Rightarrow> u8 list) \<Rightarrow> (xTlc59116Ctrl \<Rightarrow> 'w \<Rightarrow> (int \<times> xTlc59116Ctrl \<times> 'w) run) \<Rightarrow> bool" where
  "tracks K hw f \<longleftrightarrow> (\<forall>c w r c' w'. started K c \<longrightarrow> hw w (ct_key c) = ct_regs c \<longrightarrow> f c w = Inr (r, c', w') \<longrightarrow> in_step K hw c w c' w')"

lemma put_reg_hw:
  assumes bus: "tlc_bus B K hw sel" and c: "started K c" and hw: "hw w (ct_key c) = ct_regs c" and reg: "reg < 0x1F"
  shows "\<exists>w1. put_reg B reg f c w = Inr (0, c\<lparr>ct_regs := (ct_regs c)[unat reg := f (ct_regs c ! unat reg)]\<rparr>, w1) \<and>
    hw w1 = (hw w)(ct_key c := (ct_regs c)[unat reg := f (ct_regs c ! unat reg)])"
proof -
  let ?rs = "(ct_regs c)[unat reg := f (ct_regs c ! unat reg)]"
  have r: "unat reg < length (ct_regs c)" using c reg by (simp add: started_def REG_BLOCK_SIZE_def word_less_nat_alt)
  have c1: "started K (c\<lparr>ct_regs := ?rs\<rparr>)" using c by (simp add: started_def)
  have len: "length (hw w (ct_key c)) = REG_BLOCK_SIZE" using c hw by (simp add: started_def)
  from iWriteRegBlock_hw [OF bus c1 order_refl reg, unfolded ct_key_regs, OF len] obtain w1 where
    w1: "iWriteRegBlock B (c\<lparr>ct_regs := ?rs\<rparr>) reg reg w = Inr (0, w1)"
      "hw w1 = (hw w)(ct_key c := take (unat reg) (hw w (ct_key c)) @
         take 1 (drop (unat reg) ?rs) @ drop (unat reg + 1) (hw w (ct_key c)))"
    by (auto simp del: drop_update_swap take_update_swap)
  have "take (unat reg) (ct_regs c) @ take 1 (drop (unat reg) ?rs) @ drop (unat reg + 1) (ct_regs c) = ?rs"
    using r by (simp add: Cons_nth_drop_Suc [symmetric] upd_conv_take_nth_drop)
  with w1 r show ?thesis by (simp add: put_reg_def Let_def hw)
qed

lemma put_reg_oob: "\<not> reg < 0x1F \<Longrightarrow> started K c \<Longrightarrow> put_reg B reg f c w = Inl OutOfBounds"
  by (simp add: put_reg_def started_def REG_BLOCK_SIZE_def word_less_nat_alt)

lemma put_reg_tracks: "tlc_bus B K hw sel \<Longrightarrow> tracks K hw (put_reg B reg f)"
  unfolding tracks_def
proof (intro allI impI)
  fix c w r c' w'
  assume a: "tlc_bus B K hw sel" "started K c" "hw w (ct_key c) = ct_regs c" "put_reg B reg f c w = Inr (r, c', w')"
  have "reg < 0x1F" using a(2,4) put_reg_oob [of reg K c B f w] by (cases "reg < 0x1F") auto
  with put_reg_hw [OF a(1-3), of reg f] a(4) obtain
    "c' = c\<lparr>ct_regs := (ct_regs c)[unat reg := f (ct_regs c ! unat reg)]\<rparr>" "hw w' = (hw w)(ct_key c := ct_regs c')" by auto
  with a(2) show "in_step K hw c w c' w'" by (simp add: in_step_def started_def ct_key_def)
qed

lemma in_step_trans: "in_step K hw c w c1 w1 \<Longrightarrow> in_step K hw c1 w1 c2 w2 \<Longrightarrow> in_step K hw c w c2 w2"
  by (simp add: in_step_def)

lemma in_step_hw: "in_step K hw c w c1 w1 \<Longrightarrow> started K c1 \<and> hw w1 (ct_key c1) = ct_regs c1"
  by (simp add: in_step_def)

lemma ctrl_then_tracks:
  assumes "tracks K hw f" "tracks K hw g"
  shows "tracks K hw (\<lambda>c w. ctrl_then (f c w) g)"
  unfolding tracks_def
proof (intro allI impI)
  fix c w r c' w'
  assume a: "started K c" "hw w (ct_key c) = ct_regs c" "ctrl_then (f c w) g = Inr (r, c', w')"
  from a(3) obtain r1 c1 w1 where f: "f c w = Inr (r1, c1, w1)" and
    rest: "(if r1 \<noteq> 0 then Inr (r1, c1, w1) else g c1 w1) = Inr (r, c', w')"
    by (auto simp: ctrl_then_def cbind_Inr_iff)
  from assms(1) a(1,2) f have one: "in_step K hw c w c1 w1" unfolding tracks_def by blast
  show "in_step K hw c w c' w'"
  proof (cases "r1 = 0")
    case True
    with rest in_step_hw [OF one] assms(2) have "in_step K hw c1 w1 c' w'" unfolding tracks_def by auto
    with one show ?thesis by (rule in_step_trans)
  qed (use rest one in simp)
qed

lemma put_blink_tracks:
  assumes bus: "tlc_bus B K hw sel"
  shows "tracks K hw (put_blink B dcycle freq)"
  unfolding tracks_def
proof (intro allI impI)
  fix c w r c' w'
  assume a: "started K c" "hw w (ct_key c) = ct_regs c" "put_blink B dcycle freq c w = Inr (r, c', w')"
  let ?rs = "(ct_regs c)[18 := dcycle, 19 := freq]"
  have len: "length (ct_regs c) = 31" using a(1) by (simp add: started_def REG_BLOCK_SIZE_def)
  have c1: "started K (c\<lparr>ct_regs := ?rs\<rparr>)" using a(1) by (simp add: started_def)
  have l: "length (hw w (ct_key c)) = REG_BLOCK_SIZE" using a(1,2) by (simp add: started_def)
  have "TLC_GRPPWM \<le> TLC_GRPFREQ" "TLC_GRPFREQ < 0x1F" by (simp_all add: TLC_GRPPWM_def TLC_GRPFREQ_def)
  from iWriteRegBlock_hw [OF bus c1 this, unfolded ct_key_regs, OF l] obtain w1 where
    w1: "iWriteRegBlock B (c\<lparr>ct_regs := ?rs\<rparr>) TLC_GRPPWM TLC_GRPFREQ w = Inr (0, w1)"
      "hw w1 = (hw w)(ct_key c := take 18 (ct_regs c) @ take 2 (drop 18 ?rs) @ drop 20 (ct_regs c))"
    unfolding a(2) by (auto simp: TLC_GRPPWM_def TLC_GRPFREQ_def simp del: drop_update_swap take_update_swap)
  have "take 18 (ct_regs c) @ take 2 (drop 18 ?rs) @ drop 20 (ct_regs c) = ?rs"
    using len by (intro nth_equalityI) (auto simp: nth_append nth_list_update)
  with w1 a(3) len c1 show "in_step K hw c w c' w'"
    by (auto simp: put_blink_def TLC_GRPPWM_def TLC_GRPFREQ_def Let_def in_step_def)
qed


text \<open>Reading one register changes nothing, since the copy has its value already.\<close>

lemma read_reg_tracks:
  assumes bus: "tlc_bus B K hw sel"
  shows "tracks K hw (\<lambda>c. iReadRegBlock B c reg reg)"
  unfolding tracks_def
proof (intro allI impI)
  fix c w r c' w'
  assume a: "started K c" "hw w (ct_key c) = ct_regs c" "iReadRegBlock B c reg reg w = Inr (r, c', w')"
  have len: "length (ct_regs c) = 31" using a(1) by (simp add: started_def REG_BLOCK_SIZE_def)
  have "c' = c \<and> hw w' = hw w"
  proof (cases "reg < 0x1F")
    case True
    have "length (hw w (ct_key c)) = REG_BLOCK_SIZE" using a(1,2) by (simp add: started_def)
    from iReadRegBlock_hw [OF bus a(1) order_refl True this] a(2,3)
    have "c' = c\<lparr>ct_regs := take (unat reg) (ct_regs c) @ take 1 (drop (unat reg) (ct_regs c)) @ drop (unat reg + 1) (ct_regs c)\<rparr>"
      "hw w' = hw w" by auto
    moreover have "take 1 (drop (unat reg) (ct_regs c)) @ drop (unat reg + 1) (ct_regs c) = drop (unat reg) (ct_regs c)"
      by (metis append_take_drop_id drop_drop add.commute)
    ultimately show ?thesis by simp
  next
    case False
    then have big: "31 \<le> unat reg" by (simp add: word_less_nat_alt)
    obtain name where name: "ct_bus c = Some name" "fst (ct_key c) = name" "snd (ct_key c) = ct_addr c" "ct_key c \<in> K"
      using a(1) by (auto simp: started_def ct_key_def)
    obtain fd w1 where op: "iI2cOpen B name (ct_addr c) w = (fd, w1)" "0 \<le> fd" "hw w1 = hw w"
      using bus_open [OF bus name(4), of w] name by metis
    obtain e x w2 where rd: "ic_smbus B fd True reg I2C_SMBUS_I2C_BLOCK_DATA (smbus_data [1]) w1 = (e, x, w2)"
      by (cases "ic_smbus B fd True reg I2C_SMBUS_I2C_BLOCK_DATA (smbus_data [1]) w1")
    then have w2: "hw w2 = hw w1" by (rule bus_read_same [OF bus])
    obtain w3 where cl: "iI2cClose B fd w2 = (0, w3)" "hw w3 = hw w2" using bus_close [OF bus] by metis
    have copy: "copy_into (ct_regs c) (unat reg) x (Suc 0) n = Inr v \<Longrightarrow> v = ct_regs c" for n v
      using big len by (auto simp: copy_into_Inr_iff)
    have "c\<lparr>ct_regs := ct_regs c\<rparr> = c" by simp
    with a(3) op rd w2 cl show ?thesis
      by (auto simp: iReadRegBlock_def name Let_def iI2cReadRegBlock_def i2c_smbus_read_i2c_block_data_def cbind_Inr_iff
        split: if_splits dest!: copy)
  qed
  with a(1,2) show "in_step K hw c w c' w'" by (simp add: in_step_def fun_upd_idem)
qed

section \<open>Every operation keeps the copies\<close>

definition always :: "('a \<Rightarrow> bool) \<Rightarrow> 'a run \<Rightarrow> bool" where
  "always P m \<longleftrightarrow> (\<forall>v. m = Inr v \<longrightarrow> P v)"

lemma always_simps [simp]: "always P (Inl c)" "always P (Inr v) = P v"
  by (simp_all add: always_def)

lemma always_bind: "always Q m \<Longrightarrow> (\<And>v. Q v \<Longrightarrow> always P (k v)) \<Longrightarrow> always P (cbind m k)"
  by (cases m) auto

lemma always_any: "(\<And>v. always P (k v)) \<Longrightarrow> always P (cbind m k)"
  by (cases m) auto

definition mirror :: "chip set \<Rightarrow> ('w \<Rightarrow> chip \<Rightarrow> u8 list) \<Rightarrow> int \<times> xTlc59116Data \<times> 'w \<Rightarrow> bool" where
  "mirror K hw x \<longleftrightarrow> (case x of (r, d, w) \<Rightarrow> mirrored K hw d w)"

lemma mirror_simps [simp]: "mirror K hw (r, d, w) = mirrored K hw d w"
  by (simp add: mirror_def)

lemma mirrored_update:
  assumes "mirrored K hw d w" "i < length (td_ctrl d)" "in_step K hw (td_ctrl d ! i) w c1 w1"
  shows "mirrored K hw (d\<lparr>td_ctrl := (td_ctrl d)[i := c1]\<rparr>) w1"
proof -
  have step: "started K c1" "ct_key c1 = ct_key (td_ctrl d ! i)" "hw w1 = (hw w)(ct_key c1 := ct_regs c1)"
    using assms(3) by (simp_all add: in_step_def)
  have keys: "map ct_key ((td_ctrl d)[i := c1]) = map ct_key (td_ctrl d)"
    using step(2) by (simp add: map_update list_update_same_conv assms(2))
  have "started K c \<and> hw w1 (ct_key c) = ct_regs c" if "c \<in> set ((td_ctrl d)[i := c1])" for c
  proof -
    from that obtain j where j: "j < length (td_ctrl d)" "c = (td_ctrl d)[i := c1] ! j"
      by (auto simp: in_set_conv_nth)
    show ?thesis
    proof (cases "j = i")
      case True
      with j step show ?thesis by simp
    next
      case False
      with j have c: "c = td_ctrl d ! j" by simp
      moreover have "ct_key (td_ctrl d ! j) \<noteq> ct_key (td_ctrl d ! i)"
        using assms(1,2) j(1) False by (auto simp: mirrored_def distinct_conv_nth)
      ultimately show ?thesis using assms(1) j(1) step by (auto simp: mirrored_def)
    qed
  qed
  with assms(1) keys show ?thesis by (simp add: mirrored_def)
qed

lemma on_ctrl_mirror:
  assumes "tracks K hw f" "mirrored K hw d w"
  shows "always (mirror K hw) (on_ctrl f i d w)"
  unfolding always_def
proof (intro allI impI)
  fix v assume "on_ctrl f i d w = Inr v"
  then obtain r c1 w1 where i: "0 \<le> i" "nat i < length (td_ctrl d)" and f: "f (td_ctrl d ! nat i) w = Inr (r, c1, w1)"
    and v: "v = (r, d\<lparr>td_ctrl := (td_ctrl d)[nat i := c1]\<rparr>, w1)"
    by (auto simp: on_ctrl_def ctrl_at_def cbind_Inr_iff rd_Inr_iff split: if_splits)
  have "started K (td_ctrl d ! nat i)" "hw w (ct_key (td_ctrl d ! nat i)) = ct_regs (td_ctrl d ! nat i)"
    using assms(2) i by (auto simp: mirrored_def)
  with f assms(1) have "in_step K hw (td_ctrl d ! nat i) w c1 w1" unfolding tracks_def by blast
  with mirrored_update [OF assms(2) i(2)] v show "mirror K hw v" by simp
qed

lemma and_then_mirror:
  assumes "always (mirror K hw) m" "\<And>d1 w1. mirrored K hw d1 w1 \<Longrightarrow> always (mirror K hw) (k d1 w1)"
  shows "always (mirror K hw) (and_then m k)"
  unfolding and_then_def using assms by (auto intro!: always_bind split: prod.splits)

lemma each_ctrl_mirror:
  assumes "tracks K hw f"
  shows "mirrored K hw d w \<Longrightarrow> always (mirror K hw) (each_ctrl f c i ps r d w)"
proof (induction ps arbitrary: c i r d w)
  case (Cons p ps)
  then show ?case
    unfolding each_ctrl.simps using on_ctrl_mirror [OF assms] by (auto intro!: and_then_mirror)
qed simp

lemma error_pins_mirror:
  assumes "tlc_bus B K hw sel"
  shows "mirrored K hw d w \<Longrightarrow> always (mirror K hw) (error_pins B ps r d w)"
proof (induction ps arbitrary: r d w)
  case (Cons p ps)
  show ?case
    unfolding error_pins.simps Let_def
    by (rule always_bind [OF on_ctrl_mirror [OF read_reg_tracks [OF assms] Cons.prems]])
      (auto intro!: always_any Cons.IH split: prod.splits)
qed simp

lemma clear_errors_mirror:
  assumes "tlc_bus B K hw sel"
  shows "mirrored K hw d w \<Longrightarrow> always (mirror K hw) (clear_errors B is r d w)"
proof (induction "is" arbitrary: r d w)
  case (Cons i "is")
  show ?case
    unfolding clear_errors.simps
    by (intro and_then_mirror on_ctrl_mirror put_reg_tracks [OF assms] Cons.prems
        always_bind [OF on_ctrl_mirror [OF put_reg_tracks [OF assms]]])
      (auto intro: Cons.IH split: prod.splits)
qed simp


lemma color_mirrored:
  assumes bus: "tlc_bus B K hw sel" and m: "mirrored K hw d w"
  shows "always (mirror K hw) (iSetColor B d index color w)"
  unfolding iSetColor_def iSetPinPwm_def Let_def
  by (intro always_any and_then_mirror on_ctrl_mirror put_reg_tracks [OF bus] m)

lemma ctl_mirrored:
  assumes bus: "tlc_bus B K hw sel" and m: "mirrored K hw d w"
  shows "always (\<lambda>(r, e, d', w'). mirrored K hw d' w') (iCtl B d c args w)"
proof -
  have lift: "always (\<lambda>(r, e, d', w'). mirrored K hw d' w') (cbind x (\<lambda>(r, d, w). Inr (r, False, d, w)))"
    if "always (mirror K hw) x" for x
    by (rule always_bind [OF that]) (auto split: prod.splits)
  note put = put_reg_tracks [OF bus]
  have pin: "tracks K hw (\<lambda>c. iSetPinMode B n c out)" for n out
    unfolding iSetPinMode_def Let_def by (cases "unat (word_of_int (out smod 4 * 2) :: u8) \<ge> 32") (simp_all add: tracks_def put [unfolded tracks_def])
  have mode: "always (mirror K hw) (iSetMode B d i n w)" for i n
    unfolding iSetMode_def Let_def by (intro always_any and_then_mirror on_ctrl_mirror pin m)
  have dim: "always (mirror K hw) (iSetDimmer B d i n w)" for i n
    unfolding iSetDimmer_def Let_def using m by (auto intro!: always_any each_ctrl_mirror ctrl_then_tracks put simp del: each_ctrl.simps)
  have blink: "always (mirror K hw) (iSetBlinker B d i n k w)" for i n k
    unfolding iSetBlinker_def Let_def
    using m by (auto intro!: always_any each_ctrl_mirror ctrl_then_tracks put put_blink_tracks [OF bus] simp del: each_ctrl.simps)
  have gain: "always (mirror K hw) (iSetGain B d i n w)" for i n
    unfolding iSetGain_def using m by (auto intro!: on_ctrl_mirror put)
  have err: "always (mirror K hw) (iGetError B d i w)" for i
    unfolding iGetError_def by (intro always_any error_pins_mirror [OF bus] m)
  have clr: "always (mirror K hw) (iClrError B d w)"
    unfolding iClrError_def by (rule clear_errors_mirror [OF bus m])
  note ops = lift [OF mode] lift [OF dim] lift [OF blink] lift [OF gain] lift [OF err] lift [OF clr]
  show ?thesis
    unfolding iCtl_def Let_def by (auto split: list.split simp: ops m)
qed

section \<open>Colors\<close>

definition pin_chip :: "xTlc59116Data \<Rightarrow> xTlc59116Pin \<Rightarrow> chip" where
  "pin_chip d p = ct_key (td_ctrl d ! nat (pin_ctrl p))"

definition pin_ok :: "xTlc59116Data \<Rightarrow> xTlc59116Pin \<Rightarrow> bool" where
  "pin_ok d p \<longleftrightarrow> 0 \<le> pin_ctrl p \<and> pin_ctrl p < td_nof_ctrl d \<and> 0 \<le> pin_out p \<and> pin_out p < 16"

text \<open>The duty cycle of a pin is a register of its controller.\<close>

definition set_pwm :: "chip \<Rightarrow> int \<Rightarrow> u8 \<Rightarrow> (chip \<Rightarrow> u8 list) \<Rightarrow> chip \<Rightarrow> u8 list" where
  "set_pwm k out v h = h(k := (h k)[2 + nat out := v])"

lemma pin_color:
  assumes bus: "tlc_bus B K hw sel" and m: "mirrored K hw d w" and p: "pin_ok d p"
  shows "\<exists>c1 w1. on_ctrl (\<lambda>c. iSetPinPwm B v c (pin_out p)) (pin_ctrl p) d w =
      Inr (0, d\<lparr>td_ctrl := (td_ctrl d)[nat (pin_ctrl p) := c1]\<rparr>, w1) \<and>
    mirrored K hw (d\<lparr>td_ctrl := (td_ctrl d)[nat (pin_ctrl p) := c1]\<rparr>) w1 \<and> ct_key c1 = pin_chip d p \<and>
    hw w1 = set_pwm (pin_chip d p) (pin_out p) v (hw w)"
proof -
  define i where "i = nat (pin_ctrl p)"
  define c where "c = td_ctrl d ! i"
  have i: "i < length (td_ctrl d)" using p m by (auto simp: pin_ok_def mirrored_def i_def)
  have at: "ctrl_at d (pin_ctrl p) = Inr c" using p i by (simp add: ctrl_at_def pin_ok_def i_def c_def)
  have c: "started K c" "hw w (ct_key c) = ct_regs c" using m i by (auto simp: mirrored_def c_def)
  have "unat (word_of_int (pin_out p) :: u8) = nat (pin_out p)"
    using p by (simp add: unsigned_of_int take_bit_eq_mod pin_ok_def)
  moreover have "nat (pin_out p) < 16" using p by (auto simp: pin_ok_def)
  ultimately have reg: "unat (TLC_PWM0 + word_of_int (pin_out p)) = 2 + nat (pin_out p)" "2 + nat (pin_out p) < 31"
    by (simp_all add: unat_word_ariths TLC_PWM0_def)
  then have "TLC_PWM0 + word_of_int (pin_out p) < 0x1F" by (simp add: word_less_nat_alt)
  from put_reg_hw [OF bus c this, of "\<lambda>_. v"] obtain w1 where put:
    "iSetPinPwm B v c (pin_out p) w = Inr (0, c\<lparr>ct_regs := (ct_regs c)[2 + nat (pin_out p) := v]\<rparr>, w1)"
    "hw w1 = (hw w)(ct_key c := (ct_regs c)[2 + nat (pin_out p) := v])"
    unfolding iSetPinPwm_def reg(1) by blast
  let ?c1 = "c\<lparr>ct_regs := (ct_regs c)[2 + nat (pin_out p) := v]\<rparr>"
  have "in_step K hw c w ?c1 w1" using c put(2) by (simp add: in_step_def started_def)
  then have "mirrored K hw (d\<lparr>td_ctrl := (td_ctrl d)[i := ?c1]\<rparr>) w1"
    using mirrored_update [OF m i] by (simp add: c_def)
  moreover have "on_ctrl (\<lambda>c. iSetPinPwm B v c (pin_out p)) (pin_ctrl p) d w = Inr (0, d\<lparr>td_ctrl := (td_ctrl d)[i := ?c1]\<rparr>, w1)"
    by (simp add: on_ctrl_def at put(1) i_def)
  moreover have "pin_chip d p = ct_key c" by (simp add: pin_chip_def c_def i_def)
  ultimately show ?thesis
    using put(2) c(2) unfolding i_def [symmetric] by (intro exI [of _ ?c1] exI [of _ w1]) (simp add: set_pwm_def)
qed

text \<open>A step on one pin leaves the controllers of the other pins in place.\<close>

lemma pin_moves:
  assumes "pin_ok d q" "mirrored K hw d w" "ct_key c1 = pin_chip d p" "pin_ok d p"
  shows "pin_ok (d\<lparr>td_ctrl := (td_ctrl d)[nat (pin_ctrl p) := c1]\<rparr>) q"
    and "pin_chip (d\<lparr>td_ctrl := (td_ctrl d)[nat (pin_ctrl p) := c1]\<rparr>) q = pin_chip d q"
  using assms by (auto simp: pin_ok_def pin_chip_def mirrored_def nth_list_update)

text \<open>C28.  Setting the color of a led whose pins exist succeeds and writes the registers of the duty cycles of its
  three pins: red, green and blue, one after the other; no other register of any controller changes, and the copies still are
  the registers.\<close>

theorem iSetColor_hw:
  assumes "tlc_bus B K hw sel" "mirrored K hw d w" "led_at d index = Inr led"
    and "pin_ok d (led_red led)" "pin_ok d (led_green led)" "pin_ok d (led_blue led)"
  shows "\<exists>d' w'. iSetColor B d index color w = Inr (0, d', w') \<and> mirrored K hw d' w' \<and>
    hw w' = set_pwm (pin_chip d (led_blue led)) (pin_out (led_blue led)) (ucBlue color)
      (set_pwm (pin_chip d (led_green led)) (pin_out (led_green led)) (ucGreen color)
      (set_pwm (pin_chip d (led_red led)) (pin_out (led_red led)) (ucRed color) (hw w)))"
proof -
  note bus = assms(1) and m = assms(2)
  obtain c1 w1 d1 where d1: "d1 = d\<lparr>td_ctrl := (td_ctrl d)[nat (pin_ctrl (led_red led)) := c1]\<rparr>"
    and red: "on_ctrl (\<lambda>c. iSetPinPwm B (ucRed color) c (pin_out (led_red led))) (pin_ctrl (led_red led)) d w = Inr (0, d1, w1)"
    "mirrored K hw d1 w1" "ct_key c1 = pin_chip d (led_red led)"
    "hw w1 = set_pwm (pin_chip d (led_red led)) (pin_out (led_red led)) (ucRed color) (hw w)"
    using pin_color [OF bus m assms(4)] by blast
  have pins1: "pin_ok d1 q \<and> pin_chip d1 q = pin_chip d q" if "pin_ok d q" for q
    using pin_moves [OF that m red(3) assms(4)] by (simp add: d1)
  obtain c2 w2 d2 where d2: "d2 = d1\<lparr>td_ctrl := (td_ctrl d1)[nat (pin_ctrl (led_green led)) := c2]\<rparr>"
    and green: "on_ctrl (\<lambda>c. iSetPinPwm B (ucGreen color) c (pin_out (led_green led))) (pin_ctrl (led_green led)) d1 w1 = Inr (0, d2, w2)"
    "mirrored K hw d2 w2" "ct_key c2 = pin_chip d1 (led_green led)"
    "hw w2 = set_pwm (pin_chip d1 (led_green led)) (pin_out (led_green led)) (ucGreen color) (hw w1)"
    using pin_color [OF bus red(2)] pins1 [OF assms(5)] by blast
  have pins2: "pin_ok d2 q \<and> pin_chip d2 q = pin_chip d q" if "pin_ok d q" for q
    using pin_moves [OF _ red(2) green(3), of q] pins1 [OF that] pins1 [OF assms(5)] by (simp add: d2)
  obtain d3 w3 where blue: "on_ctrl (\<lambda>c. iSetPinPwm B (ucBlue color) c (pin_out (led_blue led))) (pin_ctrl (led_blue led)) d2 w2 = Inr (0, d3, w3)"
    "mirrored K hw d3 w3" "hw w3 = set_pwm (pin_chip d2 (led_blue led)) (pin_out (led_blue led)) (ucBlue color) (hw w2)"
    using pin_color [OF bus green(2)] pins2 [OF assms(6)] by blast
  have "iSetColor B d index color w = Inr (0, d3, w3)"
    by (simp add: iSetColor_def assms(3) Let_def and_then_def red(1) green(1) blue(1))
  with blue(2,3) green(4) red(4) pins1 [OF assms(5)] pins2 [OF assms(6)] show ?thesis by auto
qed

text \<open> On a bus that works, with controllers whose registers are plain memory (the bits of the errors of a
  real one are not), no request with any arguments, and no change of a color, valid or not, makes the copies
  differ from the registers.\<close>

theorem iCtl_mirrored:
  assumes "tlc_bus B K hw sel" "mirrored K hw d w"
  shows "(iCtl B d c args w = Inr (r, e, d1, w1) \<longrightarrow> mirrored K hw d1 w1) \<and>
    (iSetColor B d index color w = Inr (r, d1, w1) \<longrightarrow> mirrored K hw d1 w1)"
  using ctl_mirrored [OF assms, of c args] color_mirrored [OF assms, of index color] by (auto simp: always_def)


section \<open>Controllers on a bus\<close>

text \<open>A bus of controllers: the name of the bus and the address that are selected, and the registers.  The message of
  the reset sets the registers of all controllers of the bus to their initial values: the oscillator is off.\<close>

definition reset_regs :: "u8 list" where
  "reset_regs = [0x11, 0] @ replicate 16 0 @ [0xFF, 0, 0, 0, 0, 0, 0xD2, 0xD4, 0xD8, 0xD0, 0xFF, 0, 0]"

definition chips :: "(chip \<times> (chip \<Rightarrow> u8 list)) i2cdev" where
  "chips = \<lparr>ic_open = (\<lambda>bus (s, h). (3, (bus, 0), h)), ic_close = (\<lambda>_ w. (0, w)),
     ic_slave = (\<lambda>_ a (s, h). (0, (fst s, a), h)), ic_funcs = (\<lambda>_ w. (0, I2C_FUNC_I2C, w)),
     ic_smbus = (\<lambda>_ rd cmd kind d (s, h).
       if rd then
         (if kind = I2C_SMBUS_BYTE_DATA then (0, take 1 (drop (reg_of cmd) (h s)), s, h)
          else (0, d ! 0 # take (unat (d ! 0)) (drop (reg_of cmd) (h s)), s, h))
       else (0, d, s, h(s := set_regs (h s) cmd d))),
     ic_read = (\<lambda>_ _ w. (-1, [], w)),
     ic_write = (\<lambda>_ bs (s, h).
       if snd s = TLC59116_ADDR_SWRST \<and> bs = [TLC59116_SWRST_BYTE1, TLC59116_SWRST_BYTE2]
       then (2, s, \<lambda>k. if fst k = fst s then reset_regs else h k) else (-1, s, h)),
     ic_rdwr = (\<lambda>_ _ w. (-1, False, [], w)), ic_delay = (\<lambda>_ w. w)\<rparr>"

lemma chips_law: "tlc_bus chips UNIV snd (\<lambda>w fd. Some (fst w))"
  by (auto simp: tlc_bus_def bus_keeps_def bus_opens_def bus_writes_def bus_reads_def chips_def I2C_SMBUS_BYTE_DATA_def
    I2C_SMBUS_I2C_BLOCK_DATA_def split: if_splits)

text \<open> Two controllers on one bus are opened without an error, but the reset that is made for the second one
  stops the oscillator of the first, which had been started, and the copy of its registers does not show it.  The second
  controller runs.\<close>

definition two_controllers :: "(int \<times> xTlc59116Data option \<times> mem \<times> chip \<times> (chip \<Rightarrow> u8 list)) run" where
  "two_controllers = iOpen chips [\<lparr>cf_bus = [0x61], cf_addr = 0x60\<rparr>, \<lparr>cf_bus = [0x61], cf_addr = 0x61\<rparr>]
     (\<lparr>mplan = [], live = 0\<rparr>, ([], 0), \<lambda>_. reset_regs)"

theorem iOpen_two_controllers:
  "case two_controllers of
     Inr (r, Some d, m, s, h) \<Rightarrow> r = 0 \<and> td_nof_ctrl d = 2 \<and>
       ct_regs (td_ctrl d ! 0) ! unat TLC_MODE1 = 0x01 \<and> h ([0x61], 0x60) ! unat TLC_MODE1 = 0x11 \<and>
       ct_regs (td_ctrl d ! 1) ! unat TLC_MODE1 = 0x01 \<and> h ([0x61], 0x61) ! unat TLC_MODE1 = 0x01
   | _ \<Rightarrow> False"
  by code_simp

end
