(* ===== verification/Ledrgb.thy ===== *)
theory Ledrgb
  imports Tlc59116
begin

text \<open>
  RGB leds (\<open>src/src/ledrgb.c\<close>, \<open>src/src/ledrgb_private.h\<close>): a device is a record of the operations of its driver with
  the driver's private data.  \<open>errno\<close> is \<open>EINVAL\<close> after a request exactly when the driver has set it.
\<close>

section \<open>Devices\<close>

definition eLedRgbDeviceNone :: u32 where "eLedRgbDeviceNone = 0"
definition eLedRgbDeviceTlc59116 :: u32 where "eLedRgbDeviceTlc59116 = 1"

record ('c, 'l, 'd, 's) xLedRgbOps =
  op_open :: "'c \<Rightarrow> 's \<Rightarrow> (int \<times> 'd option \<times> 's) run"
  op_close :: "'d \<Rightarrow> 's \<Rightarrow> (int \<times> 's) run"
  op_addled :: "'d \<Rightarrow> u32 \<Rightarrow> 'l \<Rightarrow> 's \<Rightarrow> (int \<times> 'd \<times> 's) run"
  op_setcolor :: "'d \<Rightarrow> int \<Rightarrow> xRgbColor \<Rightarrow> 's \<Rightarrow> (int \<times> 'd \<times> 's) run"
  op_ctl :: "'d \<Rightarrow> int \<Rightarrow> int list \<Rightarrow> 's \<Rightarrow> (int \<times> bool \<times> 'd \<times> 's) run"

definition xTlc59116Ops ::
    "'w i2cdev \<Rightarrow> elt \<Rightarrow> (xTlc59116Config list, xTlc59116Led, xTlc59116Data, mem \<times> 'w) xLedRgbOps" where
  "xTlc59116Ops B junk =
     \<lparr>op_open = iOpen B,
      op_close = iClose B,
      op_addled = iAddLed B junk,
      op_setcolor = (\<lambda>d led color (m, w). cbind (iSetColor B d led color w) (\<lambda>(r, d, w). Inr (r, d, m, w))),
      op_ctl = (\<lambda>d c args (m, w). cbind (iCtl B d c args w) (\<lambda>(r, e, d, w). Inr (r, e, d, m, w)))\<rparr>"

text \<open>\<open>dcb->ops\<close> and \<open>dcb->dptr\<close> may be NULL.\<close>

record ('c, 'l, 'd, 's) xLedRgbDevice =
  ld_ops :: "('c, 'l, 'd, 's) xLedRgbOps option"
  ld_dptr :: "'d option"
  ld_model :: u32
  ld_size :: int

text \<open>\<open>T\<close> is the driver of the TLC59116.  A device without a driver is returned, too.\<close>

definition xLedRgbNewDevice ::
    "('c, 'l, 'd, mem \<times> 'w) xLedRgbOps \<Rightarrow> u32 \<Rightarrow> 'c \<Rightarrow> mem \<times> 'w \<Rightarrow>
     (('c, 'l, 'd, mem \<times> 'w) xLedRgbDevice option \<times> mem \<times> 'w) run" where
  "xLedRgbNewDevice T model dev_setup mw =
     (let (ok1, m) = malloc (fst mw) in
      if \<not> ok1 then Inl AssertFailed
      else
        let (ok2, m) = malloc m in
        if \<not> ok2 then Inl AssertFailed
        else if model = eLedRgbDeviceTlc59116 then
          cbind (op_open T dev_setup (m, snd mw)) (\<lambda>(r, dptr, m, w).
            if r \<noteq> 0 then Inr (None, free (Some ()) (free (Some ()) m), w)
            else Inr (Some \<lparr>ld_ops = Some T, ld_dptr = dptr, ld_model = eLedRgbDeviceTlc59116, ld_size = 0\<rparr>, m, w))
        else Inr (Some \<lparr>ld_ops = None, ld_dptr = None, ld_model = eLedRgbDeviceNone, ld_size = 0\<rparr>, m, snd mw))"

definition iLedRgbDeleteDevice :: "('c, 'l, 'd, mem \<times> 'w) xLedRgbDevice \<Rightarrow> mem \<times> 'w \<Rightarrow> (int \<times> mem \<times> 'w) run" where
  "iLedRgbDeleteDevice dev mw =
     cbind (deref (ld_ops dev)) (\<lambda>ops. cbind (deref (ld_dptr dev)) (\<lambda>d.
     cbind (op_close ops d mw) (\<lambda>(r, m, w). Inr (r, free (Some ()) (free (Some ()) m), w))))"

definition iLedRgbSize :: "('c, 'l, 'd, 's) xLedRgbDevice \<Rightarrow> int" where
  "iLedRgbSize dev = ld_size dev"

definition iLedRgbAddLed ::
    "('c, 'l, 'd, 's) xLedRgbDevice \<Rightarrow> u32 \<Rightarrow> 'l \<Rightarrow> 's \<Rightarrow> (int \<times> ('c, 'l, 'd, 's) xLedRgbDevice \<times> 's) run" where
  "iLedRgbAddLed dev mode led_setup s =
     cbind (deref (ld_ops dev)) (\<lambda>ops. cbind (deref (ld_dptr dev)) (\<lambda>d.
     cbind (op_addled ops d mode led_setup s) (\<lambda>(r, d, s).
       Inr (r, dev\<lparr>ld_dptr := Some d, ld_size := (if r \<ge> 0 then ld_size dev + 1 else ld_size dev)\<rparr>, s))))"

text \<open>The bytes of the color from the lowest one up: blue, green, red.\<close>

definition rgb_of :: "u32 \<Rightarrow> xRgbColor" where
  "rgb_of color = \<lparr>ucBlue = ucast color, ucGreen = ucast (drop_bit 8 color), ucRed = ucast (drop_bit 16 color),
     ucHue = ucast (drop_bit 24 color)\<rparr>"

definition iLedRgbSetColor ::
    "('c, 'l, 'd, 's) xLedRgbDevice \<Rightarrow> int \<Rightarrow> u32 \<Rightarrow> 's \<Rightarrow> (int \<times> ('c, 'l, 'd, 's) xLedRgbDevice \<times> 's) run" where
  "iLedRgbSetColor dev led color s =
     cbind (deref (ld_ops dev)) (\<lambda>ops. cbind (deref (ld_dptr dev)) (\<lambda>d.
     cbind (op_setcolor ops d led (rgb_of color) s) (\<lambda>(r, d, s). Inr (r, dev\<lparr>ld_dptr := Some d\<rparr>, s))))"

text \<open>The loop over the leds of a group; \<open>n\<close> leds from \<open>led\<close> on are left.\<close>

fun grp_loop ::
    "(int \<Rightarrow> 'x \<Rightarrow> 's \<Rightarrow> (int \<times> 'x \<times> 's) run) \<Rightarrow> nat \<Rightarrow> nat \<Rightarrow> u64 \<Rightarrow> 'x \<Rightarrow> 's \<Rightarrow> (int \<times> 'x \<times> 's) run" where
  "grp_loop f 0 led leds x s = Inr (0, x, s)"
| "grp_loop f (Suc n) led leds x s =
     (if leds = 0 then Inr (0, x, s)
      else if led \<ge> 64 then Inl OutOfBounds
      else
        let msk = push_bit led (1 :: u64) in
        if leds AND msk \<noteq> 0
        then cbind (f (int led) x s) (\<lambda>(r, x, s).
               if r = 0 then grp_loop f n (led + 1) (leds AND NOT msk) x s else Inr (r, x, s))
        else grp_loop f n (led + 1) leds x s)"

definition iLedRgbSetGrpColor ::
    "('c, 'l, 'd, 's) xLedRgbDevice \<Rightarrow> u64 \<Rightarrow> u32 \<Rightarrow> 's \<Rightarrow> (int \<times> ('c, 'l, 'd, 's) xLedRgbDevice \<times> 's) run" where
  "iLedRgbSetGrpColor dev leds color s =
     grp_loop (\<lambda>led dev. iLedRgbSetColor dev led color) (nat (ld_size dev)) 0 leds dev s"

text \<open>The second result of a request tells whether \<open>errno\<close> is \<open>EINVAL\<close>.\<close>

definition iLedRgbCtl ::
    "('c, 'l, 'd, 's) xLedRgbDevice \<Rightarrow> int \<Rightarrow> int list \<Rightarrow> 's \<Rightarrow> (int \<times> bool \<times> ('c, 'l, 'd, 's) xLedRgbDevice \<times> 's) run" where
  "iLedRgbCtl dev c args s =
     cbind (deref (ld_ops dev)) (\<lambda>ops. cbind (deref (ld_dptr dev)) (\<lambda>d.
     cbind (op_ctl ops d c args s) (\<lambda>(r, e, d, s). Inr (r, e, dev\<lparr>ld_dptr := Some d\<rparr>, s))))"

definition ctl_result :: "(int \<times> bool \<times> 'x \<times> 's) run \<Rightarrow> (int \<times> 'x \<times> 's) run" where
  "ctl_result m = cbind m (\<lambda>(r, e, x, s). Inr (r, x, s))"

definition iLedRgbSetMode ::
    "('c, 'l, 'd, 's) xLedRgbDevice \<Rightarrow> int \<Rightarrow> u32 \<Rightarrow> 's \<Rightarrow> (int \<times> ('c, 'l, 'd, 's) xLedRgbDevice \<times> 's) run" where
  "iLedRgbSetMode dev led mode s = ctl_result (iLedRgbCtl dev LEDRGB_IOC_SETMODE [led, uint mode] s)"

definition iLedRgbSetGrpMode ::
    "('c, 'l, 'd, 's) xLedRgbDevice \<Rightarrow> u64 \<Rightarrow> u32 \<Rightarrow> 's \<Rightarrow> (int \<times> ('c, 'l, 'd, 's) xLedRgbDevice \<times> 's) run" where
  "iLedRgbSetGrpMode dev leds mode s =
     grp_loop (\<lambda>led dev. iLedRgbSetMode dev led mode) (nat (ld_size dev)) 0 leds dev s"

definition iLedRgbSetDimmer ::
    "('c, 'l, 'd, 's) xLedRgbDevice \<Rightarrow> int \<Rightarrow> int \<Rightarrow> 's \<Rightarrow> (int \<times> ('c, 'l, 'd, 's) xLedRgbDevice \<times> 's) run" where
  "iLedRgbSetDimmer dev item dimming s = ctl_result (iLedRgbCtl dev LEDRGB_IOC_SETDIMMER [item, dimming] s)"

definition iLedRgbSetBlinker ::
    "('c, 'l, 'd, 's) xLedRgbDevice \<Rightarrow> int \<Rightarrow> int \<Rightarrow> int \<Rightarrow> 's \<Rightarrow> (int \<times> ('c, 'l, 'd, 's) xLedRgbDevice \<times> 's) run" where
  "iLedRgbSetBlinker dev item period dcycle s = ctl_result (iLedRgbCtl dev LEDRGB_IOC_SETBLINKER [item, period, dcycle] s)"

definition iLedRgbSetGain ::
    "('c, 'l, 'd, 's) xLedRgbDevice \<Rightarrow> int \<Rightarrow> int \<Rightarrow> 's \<Rightarrow> (int \<times> ('c, 'l, 'd, 's) xLedRgbDevice \<times> 's) run" where
  "iLedRgbSetGain dev item gain s = ctl_result (iLedRgbCtl dev LEDRGB_IOC_SETGAIN [item, gain] s)"

text \<open>A driver without errors has none.\<close>

definition ctl_error :: "(int \<times> bool \<times> 'x \<times> 's) run \<Rightarrow> (int \<times> 'x \<times> 's) run" where
  "ctl_error m = cbind m (\<lambda>(r, e, x, s). Inr (if r = -1 \<and> e then 0 else r, x, s))"

definition iLedRgbGetError ::
    "('c, 'l, 'd, 's) xLedRgbDevice \<Rightarrow> int \<Rightarrow> 's \<Rightarrow> (int \<times> ('c, 'l, 'd, 's) xLedRgbDevice \<times> 's) run" where
  "iLedRgbGetError dev led s = ctl_error (iLedRgbCtl dev LEDRGB_IOC_GETERROR [led] s)"

definition iLedRgbClearError ::
    "('c, 'l, 'd, 's) xLedRgbDevice \<Rightarrow> 's \<Rightarrow> (int \<times> ('c, 'l, 'd, 's) xLedRgbDevice \<times> 's) run" where
  "iLedRgbClearError dev s = ctl_error (iLedRgbCtl dev LEDRGB_IOC_CLRERROR [] s)"

section \<open>The interface of a driver\<close>

text \<open>A driver numbers the leds in the order in which they are added, and its other operations do not change their
  number.\<close>

locale led_driver =
  fixes addled :: "'d \<Rightarrow> u32 \<Rightarrow> 'l \<Rightarrow> 's \<Rightarrow> (int \<times> 'd \<times> 's) run"
    and setcolor :: "'d \<Rightarrow> int \<Rightarrow> xRgbColor \<Rightarrow> 's \<Rightarrow> (int \<times> 'd \<times> 's) run"
    and ctl :: "'d \<Rightarrow> int \<Rightarrow> int list \<Rightarrow> 's \<Rightarrow> (int \<times> bool \<times> 'd \<times> 's) run"
    and leds :: "'d \<Rightarrow> int"
    and ok :: "'d \<Rightarrow> 's \<Rightarrow> bool"
  assumes add_law: "ok d s \<Longrightarrow> addled d mode l s = Inr (r, d', s') \<Longrightarrow>
      ok d' s' \<and> (if r \<ge> 0 then r = leds d \<and> leds d' = leds d + 1 else leds d' = leds d)"
    and color_law: "ok d s \<Longrightarrow> setcolor d i c s = Inr (r, d', s') \<Longrightarrow> ok d' s' \<and> leds d' = leds d"
    and ctl_law: "ok d s \<Longrightarrow> ctl d q args s = Inr (r, e, d', s') \<Longrightarrow> ok d' s' \<and> leds d' = leds d"
begin

definition drives :: "('c, 'l, 'd, 's) xLedRgbDevice \<Rightarrow> bool" where
  "drives dev \<longleftrightarrow> (\<exists>ops. ld_ops dev = Some ops \<and> op_addled ops = addled \<and> op_setcolor ops = setcolor \<and> op_ctl ops = ctl)"

definition counts :: "('c, 'l, 'd, 's) xLedRgbDevice \<Rightarrow> 's \<Rightarrow> bool" where
  "counts dev s \<longleftrightarrow> drives dev \<and> (\<exists>d. ld_dptr dev = Some d \<and> ok d s \<and> ld_size dev = leds d)"

lemma add_counts:
  assumes "counts dev s" "iLedRgbAddLed dev mode l s = Inr (r, dev', s')"
  shows "counts dev' s' \<and> (if r \<ge> 0 then r = iLedRgbSize dev \<and> iLedRgbSize dev' = r + 1 else iLedRgbSize dev' = iLedRgbSize dev)"
proof -
  from assms(1) obtain ops d where dev: "ld_ops dev = Some ops" "op_addled ops = addled" "ld_dptr dev = Some d"
    and "ok d s" and size: "ld_size dev = leds d"
    by (auto simp: counts_def drives_def)
  from assms(2) dev obtain d' where run: "addled d mode l s = Inr (r, d', s')"
    and dev': "dev' = dev\<lparr>ld_dptr := Some d', ld_size := (if r \<ge> 0 then ld_size dev + 1 else ld_size dev)\<rparr>"
    by (auto simp: iLedRgbAddLed_def cbind_Inr_iff)
  from add_law [OF \<open>ok d s\<close> run] assms(1) size show ?thesis
    by (auto simp: dev' counts_def drives_def iLedRgbSize_def)
qed

lemma color_counts:
  assumes "counts dev s" "iLedRgbSetColor dev i c s = Inr (r, dev', s')"
  shows "counts dev' s' \<and> iLedRgbSize dev' = iLedRgbSize dev"
proof -
  from assms(1) obtain ops d where dev: "ld_ops dev = Some ops" "op_setcolor ops = setcolor" "ld_dptr dev = Some d"
    and "ok d s" and size: "ld_size dev = leds d"
    by (auto simp: counts_def drives_def)
  from assms(2) dev obtain d' where run: "setcolor d i (rgb_of c) s = Inr (r, d', s')"
    and dev': "dev' = dev\<lparr>ld_dptr := Some d'\<rparr>"
    by (auto simp: iLedRgbSetColor_def cbind_Inr_iff)
  from color_law [OF \<open>ok d s\<close> run] assms(1) size show ?thesis
    by (auto simp: dev' counts_def drives_def iLedRgbSize_def)
qed

lemma ctl_counts:
  assumes "counts dev s" "iLedRgbCtl dev q args s = Inr (r, e, dev', s')"
  shows "counts dev' s' \<and> iLedRgbSize dev' = iLedRgbSize dev"
proof -
  from assms(1) obtain ops d where dev: "ld_ops dev = Some ops" "op_ctl ops = ctl" "ld_dptr dev = Some d"
    and "ok d s" and size: "ld_size dev = leds d"
    by (auto simp: counts_def drives_def)
  from assms(2) dev obtain d' where run: "ctl d q args s = Inr (r, e, d', s')" and dev': "dev' = dev\<lparr>ld_dptr := Some d'\<rparr>"
    by (auto simp: iLedRgbCtl_def cbind_Inr_iff)
  from ctl_law [OF \<open>ok d s\<close> run] assms(1) size show ?thesis
    by (auto simp: dev' counts_def drives_def iLedRgbSize_def)
qed

end

end
