(* ===== verification/Ledrgb_Laws.thy ===== *)
theory Ledrgb_Laws
  imports Ledrgb Vector_Laws Tlc_Laws
begin

text \<open>
  The laws of the RGB leds: the operations on groups of leds are the operations on their leds, one after the
  other; the driver of the TLC59116 numbers its leds in the order in which they are added, so that the size of a device
  is the number of its leds.
\<close>

section \<open>Groups\<close>

text \<open>The operation on the leds of a list until one gives a result other than 0.\<close>

fun run_leds :: "(int \<Rightarrow> 'x \<Rightarrow> 's \<Rightarrow> (int \<times> 'x \<times> 's) run) \<Rightarrow> nat list \<Rightarrow> 'x \<Rightarrow> 's \<Rightarrow> (int \<times> 'x \<times> 's) run" where
  "run_leds f [] x s = Inr (0, x, s)"
| "run_leds f (i # is) x s =
     cbind (f (int i) x s) (\<lambda>(r, x, s). if r = 0 then run_leds f is x s else Inr (r, x, s))"

lemma bit_test: "i < 64 \<Longrightarrow> (leds AND push_bit i (1 :: u64) \<noteq> 0) = bit leds i"
proof -
  assume i: "i < 64"
  have "bit (leds AND push_bit i 1) j \<longleftrightarrow> j = i \<and> bit leds i" for j
    using i by (auto simp: bit_simps)
  then show ?thesis
    by (metis bit_0_eq bot_apply bot_bool_def bit_word_eqI)
qed

lemma grp_loop_run:
  "\<forall>i<led. \<not> bit leds i \<Longrightarrow> grp_loop f n led leds x s = run_leds f (filter (bit leds) [led..<led + n]) x s"
proof (induction n arbitrary: led leds x s)
  case (Suc n)
  have upt: "[led..<led + Suc n] = led # [Suc led..<Suc led + n]" by (simp add: upt_conv_Cons del: upt_Suc)
  show ?case
  proof (cases "leds = 0 \<or> led \<ge> 64")
    case True
    have "\<not> bit leds i" for i
    proof (cases "i < led")
      case False
      with True show ?thesis by (auto dest: bit_imp_le_length)
    qed (use Suc.prems in simp)
    then have "leds = 0" by (auto intro: bit_word_eqI)
    then show ?thesis by (simp del: upt_Suc)
  next
    case False
    then have test: "(leds AND push_bit led 1 \<noteq> 0) = bit leds led" by (intro bit_test) simp
    show ?thesis
    proof (cases "bit leds led")
      case True
      define rest where "rest = leds AND NOT (push_bit led 1)"
      have bits: "bit rest i \<longleftrightarrow> i \<noteq> led \<and> bit leds i" for i
        using False by (auto simp: rest_def bit_simps dest: bit_imp_le_length)
      have "\<forall>i<Suc led. \<not> bit rest i" using bits Suc.prems by (auto simp: less_Suc_eq)
      from Suc.IH [OF this] have IH: "grp_loop f n (Suc led) rest x s = run_leds f (filter (bit rest) [Suc led..<Suc led + n]) x s"
        for x s .
      have "filter (bit rest) [Suc led..<Suc led + n] = filter (bit leds) [Suc led..<Suc led + n]"
        by (rule filter_cong) (auto simp: bits)
      moreover have "grp_loop f (Suc n) led leds x s = cbind (f (int led) x s) (\<lambda>(r, x, s).
          if r = 0 then grp_loop f n (led + 1) rest x s else Inr (r, x, s))"
        unfolding grp_loop.simps Let_def rest_def using False True test by (simp del: push_bit_of_1)
      ultimately show ?thesis
        unfolding upt using True by (simp only: IH run_leds.simps filter.simps if_True Suc_eq_plus1 [symmetric])
    next
      case nobit: False
      then have "\<forall>i<Suc led. \<not> bit leds i" using Suc.prems by (auto simp: less_Suc_eq)
      from Suc.IH [OF this] nobit False test show ?thesis
        unfolding upt by (simp add: Let_def del: upt_Suc)
    qed
  qed
qed simp

text \<open>C30.  Setting the color of a group sets the color of the leds whose bits are set, from the
  lowest one up, leaves out the leds the device does not have, and stops at the first error, whose code it gives; the
  same for the mode of a group.  The shift of the mask is always defined.\<close>

theorem iLedRgbSetGrpColor_run:
  "iLedRgbSetGrpColor dev leds color s =
     run_leds (\<lambda>led dev. iLedRgbSetColor dev led color) (filter (bit leds) [0..<nat (ld_size dev)]) dev s \<and>
   iLedRgbSetGrpMode dev leds mode s =
     run_leds (\<lambda>led dev. iLedRgbSetMode dev led mode) (filter (bit leds) [0..<nat (ld_size dev)]) dev s"
  by (simp add: iLedRgbSetGrpColor_def iLedRgbSetGrpMode_def grp_loop_run)

section \<open>The driver of the TLC59116 numbers its leds\<close>

definition tlc_leds :: "xTlc59116Data \<Rightarrow> int" where
  "tlc_leds d = iVectorSize (Some (td_leds d))"

definition tlc_ok :: "xTlc59116Data \<Rightarrow> mem \<times> 'w \<Rightarrow> bool" where
  "tlc_ok d s \<longleftrightarrow> v_wf (td_leds d) \<and> mplan (fst s) = []"

text \<open>The operations on the registers keep the leds.\<close>

definition same_leds :: "xTlc59116Data \<Rightarrow> int \<times> xTlc59116Data \<times> 'w \<Rightarrow> bool" where
  "same_leds d x \<longleftrightarrow> (case x of (r, d', w) \<Rightarrow> td_leds d' = td_leds d \<and> td_store d' = td_store d)"

lemma on_ctrl_leds: "always (same_leds d) (on_ctrl f i d w)"
  unfolding on_ctrl_def by (intro always_any) (auto simp: same_leds_def)

lemma and_then_leds:
  fixes m :: "(int \<times> xTlc59116Data \<times> 'w) run"
  assumes "always (same_leds d) m" "\<And>d1 w1. same_leds d (0, d1, w1) \<Longrightarrow> always (same_leds d1) (k d1 w1)"
  shows "always (same_leds d) (and_then m k)"
  unfolding and_then_def
proof (rule always_bind [OF assms(1)])
  fix v :: "int \<times> xTlc59116Data \<times> 'w" assume v: "same_leds d v"
  obtain r d1 w1 where tup: "v = (r, d1, w1)" by (cases v)
  show "always (same_leds d) (case v of (r, d, w) \<Rightarrow> if r = 0 then k d w else Inr (r, d, w))"
  proof (cases "r = 0")
    case True
    with v tup have "always (same_leds d1) (k d1 w1)" by (intro assms(2)) (simp add: same_leds_def)
    then have "always (same_leds d) (k d1 w1)" using v tup by (auto simp: always_def same_leds_def split: prod.splits)
    with True tup show ?thesis by simp
  qed (use v tup in simp)
qed

lemma iSetMode_leds: "always (same_leds d) (iSetMode B d i mode w)"
  unfolding iSetMode_def Let_def by (intro always_any and_then_leds on_ctrl_leds)

lemma iSetColor_leds: "always (same_leds d) (iSetColor B d i color w)"
  unfolding iSetColor_def Let_def by (intro always_any and_then_leds on_ctrl_leds)

lemma each_ctrl_leds: "always (same_leds d) (each_ctrl f c i ps r d w)"
proof (induction ps arbitrary: c i r d w)
  case (Cons p ps)
  then show ?case by (simp only: each_ctrl.simps split: if_split) (auto intro!: and_then_leds on_ctrl_leds)
qed (simp add: same_leds_def)

lemma error_pins_leds: "always (same_leds d) (error_pins B ps r d w)"
proof (induction ps arbitrary: r d w)
  case (Cons p ps)
  show ?case
    unfolding error_pins.simps Let_def
  proof (rule always_bind [OF on_ctrl_leds])
    fix v :: "int \<times> xTlc59116Data \<times> 'a" assume v: "same_leds d v"
    obtain e d1 w1 where tup: "v = (e, d1, w1)" by (cases v)
    have "always (same_leds d) (error_pins B ps r' d1 w1)" for r'
      using Cons.IH [of d1 r' w1] v tup by (auto simp: always_def same_leds_def split: prod.splits)
    then show "always (same_leds d) (case v of (e, d, w) \<Rightarrow>
        if e \<noteq> 0 then Inr (e, d, w)
        else if unat (word_of_int (pin_out p smod 8) :: u8) \<ge> 32 then Inl OutOfBounds
        else cbind (ctrl_at d (pin_ctrl p)) (\<lambda>c. cbind (rd (ct_regs c) (unat (TLC_EFLAG1 + word_of_int (pin_out p sdiv 8)))) (\<lambda>v.
          error_pins B ps (if v AND push_bit (unat (word_of_int (pin_out p smod 8) :: u8)) 1 = 0 then 1 else r) d w)))"
      using v tup by (auto intro!: always_any)
  qed
qed (simp add: same_leds_def)

lemma clear_errors_leds: "always (same_leds d) (clear_errors B is r d w)"
proof (induction "is" arbitrary: r d w)
  case (Cons i "is")
  have "always (same_leds d) (cbind (on_ctrl f i d w) (\<lambda>(r, d, w). clear_errors B is r d w))" for f d w
  proof (rule always_bind [OF on_ctrl_leds])
    fix v :: "int \<times> xTlc59116Data \<times> 'a" assume v: "same_leds d v"
    obtain e d1 w1 where tup: "v = (e, d1, w1)" by (cases v)
    show "always (same_leds d) (case v of (r, d, w) \<Rightarrow> clear_errors B is r d w)"
      using Cons.IH [of d1 e w1] v tup by (auto simp: always_def same_leds_def split: prod.splits)
  qed
  then show ?case unfolding clear_errors.simps by (intro and_then_leds on_ctrl_leds)
qed (simp add: same_leds_def)

lemma iCtl_leds: "always (\<lambda>(r, e, d', w'). same_leds d (r, d', w')) (iCtl B d c args w)"
proof -
  have lift: "always (\<lambda>(r, e, d', w'). same_leds d (r, d', w')) (cbind m (\<lambda>(r, d, w). Inr (r, False, d, w)))"
    if "always (same_leds d) m" for m :: "(int \<times> xTlc59116Data \<times> 'a) run"
    by (rule always_bind [OF that]) (auto split: prod.splits)
  have same: "same_leds d (r, d, w)" for r w by (simp add: same_leds_def)
  have dim: "always (same_leds d) (iSetDimmer B d i n w)" for i n
    unfolding iSetDimmer_def Let_def using same by (auto intro!: always_any each_ctrl_leds simp del: each_ctrl.simps)
  have blink: "always (same_leds d) (iSetBlinker B d i n k w)" for i n k
    unfolding iSetBlinker_def Let_def using same by (auto intro!: always_any each_ctrl_leds simp del: each_ctrl.simps)
  have gain: "always (same_leds d) (iSetGain B d i n w)" for i n
    unfolding iSetGain_def using same by (auto intro!: on_ctrl_leds)
  have err: "always (same_leds d) (iGetError B d i w)" for i
    unfolding iGetError_def by (intro always_any error_pins_leds)
  have clr: "always (same_leds d) (iClrError B d w)"
    unfolding iClrError_def by (rule clear_errors_leds)
  note ops = lift [OF iSetMode_leds] lift [OF dim] lift [OF blink] lift [OF gain] lift [OF err] lift [OF clr]
  show ?thesis
    unfolding iCtl_def Let_def
    by (auto split: list.split simp: ops same)
qed

lemma remove_last_ok:
  assumes "v_wf v" "mplan m = []" "0 < v_size v" "iVectorRemove junk (Some v, m, w) (v_size v - 1) = Inr (r, vp, m1, w1)"
  shows "\<exists>v1. vp = Some v1 \<and> v_wf v1 \<and> v_size v1 = v_size v - 1 \<and> mplan m1 = []"
proof -
  from gap_ok [OF assms(1,2), of "v_size v - 1" junk w] assms(3,4) obtain v1 where
    v1: "vp = Some v1" "v_wf v1" "elts v1 = take (nat (v_size v - 1)) (elts v) @ drop (nat (v_size v - 1) + 1) (elts v)"
    "mplan m1 = []"
    by auto
  have "length (elts v) = nat (v_size v)" using elts_length [OF assms(1)] by simp
  then have "length (elts v1) = nat (v_size v) - 1" using v1(3) assms(3) by (simp add: nat_diff_distrib)
  then have "v_size v1 = v_size v - 1" using elts_length [OF v1(2)] assms(3) by simp
  with v1 show ?thesis by simp
qed

lemma iAddLed_law:
  assumes ok: "tlc_ok d s" and run: "iAddLed B junk d mode l s = Inr (r, d', s')"
  shows "tlc_ok d' s' \<and> (if r \<ge> 0 then r = tlc_leds d \<and> tlc_leds d' = tlc_leds d + 1 else tlc_leds d' = tlc_leds d)"
proof -
  obtain m w where s: "s = (m, w)" by (cases s)
  obtain m1 where m1: "malloc m = (True, m1)" "mplan m1 = []" using ok by (simp add: tlc_ok_def s)
  have size: "0 \<le> v_size (td_leds d)" "tlc_leds d = v_size (td_leds d)"
    using ok by (simp_all add: tlc_ok_def v_wf_def tlc_leds_def iVectorSize_def)
  let ?fits = "pin_ctrl (led_red l) < td_nof_ctrl d \<and> pin_ctrl (led_green l) < td_nof_ctrl d \<and>
         pin_ctrl (led_blue l) < td_nof_ctrl d \<and>
         pin_out (led_red l) < 16 \<and> pin_out (led_green l) < 16 \<and> pin_out (led_blue l) < 16"
  show ?thesis
  proof (cases ?fits)
    case False
    then have "iAddLed B junk d mode l s = Inr (-1, d, s)" unfolding iAddLed_def by (simp only: if_False)
    with run ok show ?thesis by simp
  next
    case True
    define a where "a = td_next d"
    have wf: "v_wf (td_leds d)" using ok by (simp add: tlc_ok_def)
    obtain v m2 leds where app: "iVectorAppend junk (Some (td_leds d), m1, (td_store d)(a := Some l)) (Some a) =
        Inr (0, Some v, m2, leds)" and v: "v_wf v" "elts v = elts (td_leds d) @ [Some a]" "mplan m2 = []"
      using append_ok [OF wf m1(2), of junk "(td_store d)(a := Some l)" "Some a"] by blast
    have vs: "v_size v = v_size (td_leds d) + 1" using elts_length [OF v(1)] elts_length [OF wf] v(2) by simp
    define d1 where "d1 = d\<lparr>td_leds := v, td_store := leds, td_next := a + 1\<rparr>"
    have last_led: "iVectorSize (Some v) = v_size v" by (simp add: iVectorSize_def)
    have step0: "iAddLed B junk d mode l s =
        cbind (iSetMode B d1 (iVectorSize (Some v) - 1) mode w) (\<lambda>(r, d, w).
                if r = 0 then Inr (iVectorSize (Some v) - 1, d, m2, w)
                else
                  cbind (iVectorRemove junk (Some (td_leds d), m2, td_store d) (iVectorSize (Some v) - 1)) (\<lambda>(_, vp, m, leds).
                  cbind (deref vp) (\<lambda>v. Inr (-1, d\<lparr>td_leds := v, td_store := leds\<rparr>, m, w))))"
      unfolding iAddLed_def if_P [OF True] s fst_conv snd_conv m1(1) Let_def prod.case
      unfolding a_def [symmetric] app d1_def by simp
    note step = step0 [unfolded last_led]
    from run [unfolded step] obtain r1 d2 w2 where mode: "iSetMode B d1 (v_size v - 1) mode w = Inr (r1, d2, w2)"
      and rest: "(if r1 = 0 then Inr (v_size v - 1, d2, m2, w2)
                else
                  cbind (iVectorRemove junk (Some (td_leds d2), m2, td_store d2) (v_size v - 1)) (\<lambda>(_, vp, m, leds).
                  cbind (deref vp) (\<lambda>v. Inr (-1, d2\<lparr>td_leds := v, td_store := leds\<rparr>, m, w2)))) = Inr (r, d', s')"
      by (auto simp: cbind_Inr_iff)
    have d2: "td_leds d2 = v"
      using iSetMode_leds [of d1 B "v_size v - 1" mode w] mode by (simp add: always_def same_leds_def d1_def)
    show ?thesis
    proof (cases "r1 = 0")
      case True
      with rest have "r = v_size v - 1" "d' = d2" "s' = (m2, w2)" by simp_all
      with d2 v vs size show ?thesis by (simp add: tlc_ok_def tlc_leds_def iVectorSize_def)
    next
      case False
      with rest d2 obtain x vp m3 leds3 v3 where rm: "iVectorRemove junk (Some v, m2, td_store d2) (v_size v - 1) = Inr (x, vp, m3, leds3)"
        "vp = Some v3" and res: "r = -1" "d' = d2\<lparr>td_leds := v3, td_store := leds3\<rparr>" "s' = (m3, w2)"
        by (auto simp: cbind_Inr_iff deref_def split: option.splits)
      have "0 < v_size v" using vs size by simp
      from remove_last_ok [OF v(1,3) this rm(1)] rm(2) res vs size show ?thesis
        by (auto simp: tlc_ok_def tlc_leds_def iVectorSize_def)
    qed
  qed
qed

lemma setcolor_law:
  assumes "tlc_ok d s" "op_setcolor (xTlc59116Ops B junk) d i c s = Inr (r, d', s')"
  shows "tlc_ok d' s' \<and> tlc_leds d' = tlc_leds d"
  using assms iSetColor_leds [of d B i c "snd s"]
  by (cases s) (auto simp: xTlc59116Ops_def cbind_Inr_iff always_def same_leds_def tlc_ok_def tlc_leds_def split: prod.splits)

lemma ctl_law:
  assumes "tlc_ok d s" "op_ctl (xTlc59116Ops B junk) d q args s = Inr (r, e, d', s')"
  shows "tlc_ok d' s' \<and> tlc_leds d' = tlc_leds d"
  using assms iCtl_leds [of d B q args "snd s"]
  by (cases s) (auto simp: xTlc59116Ops_def cbind_Inr_iff always_def same_leds_def tlc_ok_def tlc_leds_def split: prod.splits)

interpretation tlc: led_driver "iAddLed B junk" "op_setcolor (xTlc59116Ops B junk)" "op_ctl (xTlc59116Ops B junk)"
    tlc_leds tlc_ok for B :: "'w i2cdev" and junk :: elt
  by unfold_locales (rule iAddLed_law setcolor_law ctl_law; assumption)+


text \<open> A led that is added to a device with the TLC59116 gets the size of the device as its index, and the device
  grows by one; when it cannot be added the device keeps its leds.  So the size of the device stays the number of leds of its
  driver; changes of colors and all other requests keep it, too.\<close>

theorem iLedRgbAddLed_index:
  assumes "ld_ops dev = Some (xTlc59116Ops B junk)" "ld_dptr dev = Some d" "tlc_ok d s" "iLedRgbSize dev = tlc_leds d"
    and "iLedRgbAddLed dev mode l s = Inr (r, dev1, s1)"
  shows "(if 0 \<le> r then r = iLedRgbSize dev \<and> iLedRgbSize dev1 = r + 1 else iLedRgbSize dev1 = iLedRgbSize dev) \<and>
    (\<exists>d1. ld_dptr dev1 = Some d1 \<and> iLedRgbSize dev1 = tlc_leds d1) \<and>
    (iLedRgbSetColor dev1 i color s1 = Inr (r2, dev2, s2) \<longrightarrow> iLedRgbSize dev2 = iLedRgbSize dev1) \<and>
    (iLedRgbCtl dev1 c args s1 = Inr (r3, e3, dev3, s3) \<longrightarrow> iLedRgbSize dev3 = iLedRgbSize dev1)"
proof -
  have "op_addled (xTlc59116Ops B junk) = iAddLed B junk" by (simp add: xTlc59116Ops_def)
  then have "tlc.counts B junk dev s"
    using assms(1-4) by (simp add: tlc.counts_def tlc.drives_def iLedRgbSize_def)
  from tlc.add_counts [OF this assms(5)] have add: "tlc.counts B junk dev1 s1"
    "if 0 \<le> r then r = iLedRgbSize dev \<and> iLedRgbSize dev1 = r + 1 else iLedRgbSize dev1 = iLedRgbSize dev" by blast+
  from add(1) obtain d1 where "ld_dptr dev1 = Some d1" "iLedRgbSize dev1 = tlc_leds d1"
    by (auto simp: tlc.counts_def iLedRgbSize_def)
  with add tlc.color_counts [OF add(1)] tlc.ctl_counts [OF add(1)] show ?thesis by blast
qed

text \<open>A device with one controller on the bus \<open>chips\<close>, and a led on its first three pins.\<close>

definition one_ctrl :: xTlc59116Data where
  "one_ctrl = \<lparr>td_ctrl = [\<lparr>ct_bus = Some [0x61], ct_addr = 0x60, ct_regs = reset_regs\<rparr>], td_nof_ctrl = 1,
     td_leds = vector_zero\<lparr>v_growth := 16, v_fdestroy := Some vLedDestroy\<rparr>, td_store = (\<lambda>_. None), td_next = 0\<rparr>"

definition one_dev ::
    "(xTlc59116Config list, xTlc59116Led, xTlc59116Data, mem \<times> chip \<times> (chip \<Rightarrow> u8 list)) xLedRgbDevice" where
  "one_dev = \<lparr>ld_ops = Some (xTlc59116Ops chips None), ld_dptr = Some one_ctrl, ld_model = eLedRgbDeviceTlc59116, ld_size = 0\<rparr>"

definition one_led :: xTlc59116Led where
  "one_led = \<lparr>led_red = \<lparr>pin_out = 0, pin_ctrl = 0\<rparr>, led_green = \<lparr>pin_out = 1, pin_ctrl = 0\<rparr>, led_blue = \<lparr>pin_out = 2, pin_ctrl = 0\<rparr>\<rparr>"

definition one_world :: "mem \<times> chip \<times> (chip \<Rightarrow> u8 list)" where
  "one_world = (\<lparr>mplan = [], live = 0\<rparr>, ([], 0), \<lambda>_. reset_regs)"

lemma one_add: "case iLedRgbAddLed one_dev 3 one_led one_world of Inr (r, dev, s) \<Rightarrow> r = 0 | _ \<Rightarrow> False"
  by code_simp

theorem iLedRgbAddLed_index_witness:
  "\<exists>dev s. iLedRgbAddLed one_dev 3 one_led one_world = Inr (0, dev, s) \<and> iLedRgbSize dev = 1"
proof -
  obtain dev s where run: "iLedRgbAddLed one_dev 3 one_led one_world = Inr (0, dev, s)"
    using one_add by (auto split: sum.splits prod.splits)
  have "tlc_ok one_ctrl one_world" by (simp add: tlc_ok_def one_ctrl_def one_world_def v_wf_def vector_zero_def)
  with iLedRgbAddLed_index [of one_dev chips None one_ctrl one_world 3 one_led 0 dev s] run
  have "iLedRgbSize dev = 1"
    by (simp add: one_dev_def one_ctrl_def tlc_leds_def iLedRgbSize_def iVectorSize_def vector_zero_def)
  with run show ?thesis by blast
qed

text \<open>The same controller with this led: its color goes to the registers 2, 3 and 4.\<close>

definition led_ctrl :: xTlc59116Data where
  "led_ctrl = one_ctrl\<lparr>td_leds := vector_zero\<lparr>v_growth := 16, v_data := Some [Some 0], v_size := 1, v_alloc := 1\<rparr>,
     td_store := [0 \<mapsto> one_led], td_next := 1\<rparr>"

lemma led_ctrl_mirrored: "mirrored UNIV snd led_ctrl (([], 0), \<lambda>_. reset_regs)"
  by (simp add: mirrored_def led_ctrl_def one_ctrl_def started_def reset_regs_def REG_BLOCK_SIZE_def)

theorem iSetColor_hw_witness:
  "\<exists>d w. iSetColor chips led_ctrl 0 \<lparr>ucBlue = 10, ucGreen = 20, ucRed = 30, ucHue = 0\<rparr> (([], 0), \<lambda>_. reset_regs) = Inr (0, d, w) \<and>
    take 6 (snd w ([0x61], 0x60)) = [0x11, 0, 30, 20, 10, 0]"
proof -
  have "led_at led_ctrl 0 = Inr one_led" by code_simp
  note at = this
  have "pin_ok led_ctrl (led_red one_led)" "pin_ok led_ctrl (led_green one_led)" "pin_ok led_ctrl (led_blue one_led)"
    by (simp_all add: pin_ok_def led_ctrl_def one_ctrl_def one_led_def)
  note pins = this
  let ?color = "\<lparr>ucBlue = 10, ucGreen = 20, ucRed = 30, ucHue = 0\<rparr>"
  from at iSetColor_hw [OF chips_law led_ctrl_mirrored, of 0 one_led ?color] pins
  obtain d w where run: "iSetColor chips led_ctrl 0 \<lparr>ucBlue = 10, ucGreen = 20, ucRed = 30, ucHue = 0\<rparr>
      (([], 0), \<lambda>_. reset_regs) = Inr (0, d, w)" and
    hw: "snd w = set_pwm (pin_chip led_ctrl (led_blue one_led)) (pin_out (led_blue one_led)) 10
      (set_pwm (pin_chip led_ctrl (led_green one_led)) (pin_out (led_green one_led)) 20
      (set_pwm (pin_chip led_ctrl (led_red one_led)) (pin_out (led_red one_led)) 30 (\<lambda>_. reset_regs)))"
    by (simp only: snd_conv xRgbColor.select_convs) blast
  have "take 6 (snd w ([0x61], 0x60)) = [0x11, 0, 30, 20, 10, 0]" unfolding hw by code_simp
  with run show ?thesis by blast
qed

text \<open>The gain of the controller.\<close>

theorem iCtl_mirrored_witness:
  "\<exists>d w. iCtl chips led_ctrl LEDRGB_IOC_SETGAIN [0, 7] (([], 0), \<lambda>_. reset_regs) = Inr (0, False, d, w) \<and> mirrored UNIV snd d w"
proof -
  have "case iCtl chips led_ctrl LEDRGB_IOC_SETGAIN [0, 7] (([], 0), \<lambda>_. reset_regs) of Inr (r, e, d, w) \<Rightarrow> r = 0 \<and> \<not> e | _ \<Rightarrow> False"
    by code_simp
  then obtain d w where "iCtl chips led_ctrl LEDRGB_IOC_SETGAIN [0, 7] (([], 0), \<lambda>_. reset_regs) = Inr (0, False, d, w)"
    by (auto split: sum.splits prod.splits)
  with iCtl_mirrored [OF chips_law led_ctrl_mirrored, of LEDRGB_IOC_SETGAIN "[0, 7]" 0 False d w] show ?thesis by blast
qed

end
