(* ===== verification/Gpio.thy ===== *)
theory Gpio
  imports Driver_Monad C_String
begin

text \<open>
  Pins of the processor: registers in memory (\<open>src/src/unix/iomap.c\<close>) and the part of the GPIO that is the same on
  all boards (\<open>src/src/gpio/gpio.c\<close>, \<open>src/src/gpio_private.h\<close>, \<open>src/include/sysio/gpio_c.h\<close>).  The part of a board is the
  record \<open>gpio_arch\<close>, the operating system the record \<open>iosys\<close>.
\<close>

section \<open>Registers in memory\<close>

text \<open>\<open>os_mmap\<close> gets a size, a descriptor and an address and gives a handle; \<open>os_get\<close> and \<open>os_put\<close> access the
  register with an index.\<close>

record 'w iosys =
  os_open :: "'w \<Rightarrow> int \<times> 'w"
  os_mmap :: "u32 \<Rightarrow> int \<Rightarrow> int \<Rightarrow> 'w \<Rightarrow> nat option \<times> 'w"
  os_munmap :: "nat \<Rightarrow> u32 \<Rightarrow> 'w \<Rightarrow> int \<times> 'w"
  os_close :: "int \<Rightarrow> 'w \<Rightarrow> int \<times> 'w"
  os_get :: "nat \<Rightarrow> nat \<Rightarrow> 'w \<Rightarrow> u32 \<times> 'w"
  os_put :: "nat \<Rightarrow> nat \<Rightarrow> u32 \<Rightarrow> 'w \<Rightarrow> 'w"
  os_delay_us :: "int \<Rightarrow> 'w \<Rightarrow> 'w"

record xIoMap =
  io_base :: int
  io_size :: u32
  io_fd :: int
  io_io :: "nat option"

text \<open>When \<open>mmap\<close> fails the descriptor stays open.\<close>

definition xIoMapOpen :: "'w iosys \<Rightarrow> int \<Rightarrow> u32 \<Rightarrow> mem \<times> 'w \<Rightarrow> xIoMap option \<times> mem \<times> 'w" where
  "xIoMapOpen K base sz s =
     (let (ok, m) = malloc (fst s) in
      if \<not> ok then (None, m, snd s)
      else
        let (fd, w) = os_open K (snd s) in
        if fd < 0 then (None, free (Some ()) m, w)
        else
          let (h, w) = os_mmap K sz fd base w in
          if h = None then (None, free (Some ()) m, w)
          else (Some \<lparr>io_base = base, io_size = sz, io_fd = fd, io_io = h\<rparr>, m, w))"

text \<open>The block of the map is not freed, and its fields stay as they are.\<close>

definition iIoMapClose :: "'w iosys \<Rightarrow> xIoMap option \<Rightarrow> 'w \<Rightarrow> (int \<times> 'w) run" where
  "iIoMapClose K p w =
     (case p of
        None \<Rightarrow> Inl AssertFailed
      | Some m \<Rightarrow>
          let (i, w) = (case io_io m of None \<Rightarrow> (-1, w) | Some h \<Rightarrow> os_munmap K h (io_size m) w);
              (r, w) = os_close K (io_fd m) w
          in Inr (if r \<noteq> 0 then -1 else i, w))"

definition bIoMapIsOpen :: "xIoMap option \<Rightarrow> bool" where
  "bIoMapIsOpen p = (case p of None \<Rightarrow> False | Some m \<Rightarrow> io_io m \<noteq> None)"

text \<open>A register behind the end of the map is no memory.\<close>

definition pIo :: "xIoMap option \<Rightarrow> nat \<Rightarrow> (nat \<times> nat) run" where
  "pIo p offset =
     (case p of
        None \<Rightarrow> Inl AssertFailed
      | Some m \<Rightarrow> cbind (deref (io_io m)) (\<lambda>h. if 4 * offset < unat (io_size m) then Inr (h, offset) else Inl OutOfBounds))"

definition ulIoMapBase :: "xIoMap option \<Rightarrow> int run" where
  "ulIoMapBase p = (case p of None \<Rightarrow> Inl AssertFailed | Some m \<Rightarrow> Inr (io_base m))"

definition uIoMapSize :: "xIoMap option \<Rightarrow> u32 run" where
  "uIoMapSize p = (case p of None \<Rightarrow> Inl AssertFailed | Some m \<Rightarrow> Inr (io_size m))"

text \<open>\<open>*pIo (p, i)\<close>, \<open>*pIo (p, i) = v\<close>, and an assignment that changes the register.\<close>

definition io_get :: "'w iosys \<Rightarrow> xIoMap option \<Rightarrow> nat \<Rightarrow> 'w \<Rightarrow> (u32 \<times> 'w) run" where
  "io_get K p i w = cbind (pIo p i) (\<lambda>(h, i). Inr (os_get K h i w))"

definition io_put :: "'w iosys \<Rightarrow> xIoMap option \<Rightarrow> nat \<Rightarrow> u32 \<Rightarrow> 'w \<Rightarrow> 'w run" where
  "io_put K p i v w = cbind (pIo p i) (\<lambda>(h, i). Inr (os_put K h i v w))"

definition io_upd :: "'w iosys \<Rightarrow> xIoMap option \<Rightarrow> nat \<Rightarrow> (u32 \<Rightarrow> u32) \<Rightarrow> 'w \<Rightarrow> 'w run" where
  "io_upd K p i f w = cbind (io_get K p i w) (\<lambda>(v, w). io_put K p i (f v) w)"

section \<open>Constants and data\<close>

definition eModeInput :: int where "eModeInput = 0"
definition eModeOutput :: int where "eModeOutput = 1"
definition eModeAlt0 :: int where "eModeAlt0 = 4"
definition eModeAlt1 :: int where "eModeAlt1 = 5"
definition eModeAlt2 :: int where "eModeAlt2 = 6"
definition eModeAlt3 :: int where "eModeAlt3 = 7"
definition eModeAlt4 :: int where "eModeAlt4 = 3"
definition eModeAlt5 :: int where "eModeAlt5 = 2"
definition eModeFunc2 :: int where "eModeFunc2 = 2"
definition eModeFunc3 :: int where "eModeFunc3 = 3"
definition eModeFunc4 :: int where "eModeFunc4 = 4"
definition eModeFunc5 :: int where "eModeFunc5 = 5"
definition eModeFunc6 :: int where "eModeFunc6 = 6"
definition eModeDisabled :: int where "eModeDisabled = 7"
definition eModePwm :: int where "eModePwm = 0x8002"
definition ePullOff :: int where "ePullOff = 0"
definition ePullDown :: int where "ePullDown = 1"
definition ePullUp :: int where "ePullUp = 2"
definition eNumberingLogical :: int where "eNumberingLogical = 0"
definition eNumberingMcu :: int where "eNumberingMcu = 1"
definition eNumberingPhysical :: int where "eNumberingPhysical = 2"
definition ITERATOR_FRONT :: int where "ITERATOR_FRONT = -1"
definition ITERATOR_BACK :: int where "ITERATOR_BACK = -2"

lemmas mode_codes = eModeInput_def eModeOutput_def eModeAlt0_def eModeAlt1_def eModeAlt2_def eModeAlt3_def eModeAlt4_def
  eModeAlt5_def eModeFunc2_def eModeFunc3_def eModeFunc4_def eModeFunc5_def eModeFunc6_def eModeDisabled_def eModePwm_def

record xPinList =
  pl_pin :: "int list"
  pl_size :: int
  pl_len :: int
  pl_first :: int
  pl_last :: int

record xConnectorList =
  cl_size :: "int list"
  cl_nb :: int

text \<open>The two maps are fields of their own.\<close>

record xGpio =
  g_map0 :: "xIoMap option"
  g_map1 :: "xIoMap option"
  g_list :: "xPinList option"
  g_i :: int
  g_j :: int
  g_pinmode :: "int list"
  g_pinmode_release :: "int list"
  g_pinpull :: "int list"
  g_pinpull_release :: "int list"
  g_link :: int
  g_roc :: bool
  g_numbering :: int

type_synonym 'w gst = "xGpio \<times> 'w"

text \<open>The functions of a board; \<open>ar_conn\<close> are its connectors.\<close>

record 'w gpio_arch =
  ar_setmode :: "int \<Rightarrow> int \<Rightarrow> 'w gst \<Rightarrow> (int \<times> 'w gst) run"
  ar_getmode :: "int \<Rightarrow> 'w gst \<Rightarrow> (int \<times> 'w gst) run"
  ar_setpull :: "int \<Rightarrow> int \<Rightarrow> 'w gst \<Rightarrow> (int \<times> 'w gst) run"
  ar_getpull :: "int \<Rightarrow> 'w gst \<Rightarrow> (int \<times> 'w gst) run"
  ar_release :: "int \<Rightarrow> 'w gst \<Rightarrow> (int \<times> 'w gst) run"
  ar_write :: "int \<Rightarrow> bool \<Rightarrow> 'w gst \<Rightarrow> (int \<times> 'w gst) run"
  ar_read :: "int \<Rightarrow> 'w gst \<Rightarrow> (int \<times> 'w gst) run"
  ar_toggle :: "int \<Rightarrow> 'w gst \<Rightarrow> (int \<times> 'w gst) run"
  ar_conn :: xConnectorList

section \<open>Numbers of pins\<close>

text \<open>An index that may be negative.\<close>

definition rd_int :: "'a list \<Rightarrow> int \<Rightarrow> 'a run" where
  "rd_int xs i = (if i < 0 then Inl OutOfBounds else rd xs (nat i))"

text \<open>The sizes of all connectors are added.\<close>

fun add_sizes :: "int list \<Rightarrow> int list \<Rightarrow> int \<Rightarrow> int run" where
  "add_sizes sizes [] n = Inr n"
| "add_sizes sizes (c # cs) n = cbind (rd_int sizes c) (\<lambda>k. add_sizes sizes cs (n + k))"

definition iGpioMcuPin :: "xConnectorList \<Rightarrow> int \<Rightarrow> xGpio \<Rightarrow> int run" where
  "iGpioMcuPin cl n gp =
     (case g_list gp of
        None \<Rightarrow> Inr (-1)
      | Some l \<Rightarrow>
          let found = (\<lambda>n. if pl_first l \<le> n \<and> n \<le> pl_last l then rd_int (pl_pin l) n else Inr (-1)) in
          if g_numbering gp = eNumberingPhysical then
            if n > 100 then
              if n div 100 + 1 > cl_nb cl then Inr (-1)
              else cbind (add_sizes (cl_size cl) [0..cl_nb cl - 1] (n mod 100)) (\<lambda>n. found (n - 1))
            else found (n - 1)
          else found n)"

text \<open>The functions on a pin: \<open>f\<close> is the function of the board on its number.\<close>

definition on_pin :: "'w gpio_arch \<Rightarrow> (int \<Rightarrow> 'w gst \<Rightarrow> (int \<times> 'w gst) run) \<Rightarrow> int \<Rightarrow> 'w gst \<Rightarrow> (int \<times> 'w gst) run" where
  "on_pin A f p s = cbind (iGpioMcuPin (ar_conn A) p (fst s)) (\<lambda>g. if g \<ge> 0 then f g s else Inr (-1, s))"

definition iGpioRelease :: "'w gpio_arch \<Rightarrow> int \<Rightarrow> 'w gst \<Rightarrow> (int \<times> 'w gst) run" where
  "iGpioRelease A p = on_pin A (ar_release A) p"

definition eGpioGetMode :: "'w gpio_arch \<Rightarrow> int \<Rightarrow> 'w gst \<Rightarrow> (int \<times> 'w gst) run" where
  "eGpioGetMode A p = on_pin A (ar_getmode A) p"

definition eGpioGetPull :: "'w gpio_arch \<Rightarrow> int \<Rightarrow> 'w gst \<Rightarrow> (int \<times> 'w gst) run" where
  "eGpioGetPull A p = on_pin A (ar_getpull A) p"

definition iGpioSetMode :: "'w gpio_arch \<Rightarrow> int \<Rightarrow> int \<Rightarrow> 'w gst \<Rightarrow> (int \<times> 'w gst) run" where
  "iGpioSetMode A p eMode = on_pin A (\<lambda>g. ar_setmode A g eMode) p"

definition iGpioSetPull :: "'w gpio_arch \<Rightarrow> int \<Rightarrow> int \<Rightarrow> 'w gst \<Rightarrow> (int \<times> 'w gst) run" where
  "iGpioSetPull A p ePull = on_pin A (\<lambda>g. ar_setpull A g ePull) p"

definition iGpioWrite :: "'w gpio_arch \<Rightarrow> int \<Rightarrow> bool \<Rightarrow> 'w gst \<Rightarrow> (int \<times> 'w gst) run" where
  "iGpioWrite A p bValue = on_pin A (\<lambda>g. ar_write A g bValue) p"

definition iGpioRead :: "'w gpio_arch \<Rightarrow> int \<Rightarrow> 'w gst \<Rightarrow> (int \<times> 'w gst) run" where
  "iGpioRead A p = on_pin A (ar_read A) p"

definition iGpioToggle :: "'w gpio_arch \<Rightarrow> int \<Rightarrow> 'w gst \<Rightarrow> (int \<times> 'w gst) run" where
  "iGpioToggle A p = on_pin A (ar_toggle A) p"

definition bGpioIsValid :: "xConnectorList \<Rightarrow> int \<Rightarrow> xGpio \<Rightarrow> bool run" where
  "bGpioIsValid cl p gp = cbind (iGpioMcuPin cl p gp) (\<lambda>g. Inr (g \<ge> 0))"

definition eGpioGetNumbering :: "xGpio \<Rightarrow> int" where "eGpioGetNumbering gp = g_numbering gp"

definition iGpioSetReleaseOnClose :: "bool \<Rightarrow> xGpio \<Rightarrow> int \<times> xGpio" where
  "iGpioSetReleaseOnClose enable gp = (0, gp\<lparr>g_roc := enable\<rparr>)"

definition bGpioGetReleaseOnClose :: "xGpio \<Rightarrow> bool" where "bGpioGetReleaseOnClose gp = g_roc gp"

definition bGpioIsOpen :: "xGpio \<Rightarrow> bool" where "bGpioIsOpen gp = bIoMapIsOpen (g_map0 gp)"

definition iGpioGetSize :: "xGpio \<Rightarrow> int run" where
  "iGpioGetSize gp = (if \<not> bGpioIsOpen gp then Inr (-1) else cbind (deref (g_list gp)) (\<lambda>l. Inr (pl_len l)))"

section \<open>All pins\<close>

text \<open>The number of pins that the loops look at.\<close>

definition loop_size :: "xGpio \<Rightarrow> nat run" where
  "loop_size gp =
     cbind (deref (g_list gp)) (\<lambda>l. Inr (nat (pl_size l + (if g_numbering gp = eNumberingPhysical then 1 else 0))))"

fun read_pins :: "'w gpio_arch \<Rightarrow> nat \<Rightarrow> int \<Rightarrow> u64 \<Rightarrow> u64 \<Rightarrow> u64 \<Rightarrow> 'w gst \<Rightarrow> (u64 \<times> 'w gst) run" where
  "read_pins A 0 p iMask iBit iValue s = Inr (iValue, s)"
| "read_pins A (Suc n) p iMask iBit iValue s =
     (if iMask = 0 then Inr (iValue, s)
      else if iMask AND iBit \<noteq> 0 then
        cbind (bGpioIsValid (ar_conn A) p (fst s)) (\<lambda>ok.
          if ok then
            cbind (iGpioRead A p s) (\<lambda>(r, s).
              if r = 1 then read_pins A n (p + 1) (iMask AND NOT iBit) (push_bit 1 iBit) (iValue OR iBit) s
              else if r = 0 then read_pins A n (p + 1) (iMask AND NOT iBit) (push_bit 1 iBit) iValue s
              else Inr (-1, s))
          else read_pins A n (p + 1) (iMask AND NOT iBit) (push_bit 1 iBit) iValue s)
      else read_pins A n (p + 1) iMask (push_bit 1 iBit) iValue s)"

definition iGpioReadAll :: "'w gpio_arch \<Rightarrow> u64 \<Rightarrow> 'w gst \<Rightarrow> (u64 \<times> 'w gst) run" where
  "iGpioReadAll A iMask s =
     (if bGpioIsOpen (fst s)
      then cbind (loop_size (fst s)) (\<lambda>n. read_pins A n 0 (if iMask = 0 then -1 else iMask) 1 0 s)
      else Inr (-1, s))"

text \<open>\<open>f\<close> is applied to the pins of the mask that are outputs, until one gives an error.\<close>

fun each_output ::
    "'w gpio_arch \<Rightarrow> (int \<Rightarrow> 'w gst \<Rightarrow> (int \<times> 'w gst) run) \<Rightarrow> nat \<Rightarrow> int \<Rightarrow> u64 \<Rightarrow> 'w gst \<Rightarrow> (int \<times> 'w gst) run" where
  "each_output A f 0 p iMask s = Inr (0, s)"
| "each_output A f (Suc n) p iMask s =
     (if iMask = 0 then Inr (0, s)
      else
        cbind (bGpioIsValid (ar_conn A) p (fst s)) (\<lambda>ok.
          if ok \<and> iMask AND 1 \<noteq> 0 then
            cbind (eGpioGetMode A p s) (\<lambda>(m, s).
              if m = eModeOutput then
                cbind (f p s) (\<lambda>(r, s).
                  if r \<noteq> 0 then Inr (r, s) else each_output A f n (p + 1) (signed_drop_bit 1 iMask) s)
              else each_output A f n (p + 1) (signed_drop_bit 1 iMask) s)
          else each_output A f n (p + 1) (signed_drop_bit 1 iMask) s))"

definition iGpioWriteAll :: "'w gpio_arch \<Rightarrow> u64 \<Rightarrow> bool \<Rightarrow> 'w gst \<Rightarrow> (int \<times> 'w gst) run" where
  "iGpioWriteAll A iMask bValue s =
     (if bGpioIsOpen (fst s)
      then cbind (loop_size (fst s)) (\<lambda>n. each_output A (\<lambda>p. iGpioWrite A p bValue) n 0 iMask s)
      else Inr (-1, s))"

definition iGpioToggleAll :: "'w gpio_arch \<Rightarrow> u64 \<Rightarrow> 'w gst \<Rightarrow> (int \<times> 'w gst) run" where
  "iGpioToggleAll A iMask s =
     (if bGpioIsOpen (fst s)
      then cbind (loop_size (fst s)) (\<lambda>n. each_output A (iGpioToggle A) n 0 iMask s)
      else Inr (-1, s))"

section \<open>The iterator\<close>

definition iGpioToFront :: "xGpio \<Rightarrow> int \<times> xGpio" where "iGpioToFront gp = (0, gp\<lparr>g_i := ITERATOR_FRONT\<rparr>)"
definition iGpioToBack :: "xGpio \<Rightarrow> int \<times> xGpio" where "iGpioToBack gp = (0, gp\<lparr>g_i := ITERATOR_BACK\<rparr>)"

definition bGpioHasNext :: "xGpio \<Rightarrow> bool" where
  "bGpioHasNext gp = (case g_list gp of None \<Rightarrow> False | Some l \<Rightarrow> g_i gp \<noteq> pl_last l)"

definition bGpioHasPrevious :: "xGpio \<Rightarrow> bool" where
  "bGpioHasPrevious gp = (case g_list gp of None \<Rightarrow> False | Some l \<Rightarrow> g_i gp \<noteq> pl_first l)"

text \<open>The number of the pin at the iterator.\<close>

definition pin_at :: "xGpio \<Rightarrow> int" where
  "pin_at gp = (if g_numbering gp = eNumberingPhysical then g_i gp + 1 else g_i gp)"

text \<open>Behind the last pin the loop goes on until the index overflows, which counts as a loop that does not end.\<close>

partial_function (option) iGpioNext :: "xConnectorList \<Rightarrow> xGpio \<Rightarrow> (int \<times> xGpio) out" where
  "iGpioNext cl gp =
     (case g_list gp of
        None \<Rightarrow> ret (-1, gp)
      | Some l \<Rightarrow>
          let gp = gp\<lparr>g_i := (if g_i gp = ITERATOR_FRONT then pl_first l else g_i gp + 1)\<rparr> in
          obind (Some (bGpioIsValid cl (pin_at gp) gp)) (\<lambda>ok.
            if ok then ret (pin_at gp, gp) else if bGpioHasNext gp then iGpioNext cl gp else ret (-1, gp)))"

partial_function (option) iGpioPrevious :: "xConnectorList \<Rightarrow> xGpio \<Rightarrow> (int \<times> xGpio) out" where
  "iGpioPrevious cl gp =
     (case g_list gp of
        None \<Rightarrow> ret (-1, gp)
      | Some l \<Rightarrow>
          let gp = gp\<lparr>g_i := (if g_i gp = ITERATOR_BACK then pl_last l else g_i gp - 1)\<rparr> in
          obind (Some (bGpioIsValid cl (pin_at gp) gp)) (\<lambda>ok.
            if ok then ret (pin_at gp, gp) else if bGpioHasPrevious gp then iGpioPrevious cl gp else ret (-1, gp)))"

definition sGpioNumberingToStr :: "u32 \<Rightarrow> u8 list" where
  "sGpioNumberingToStr num =
     (if num > 2 then ascii ''!UNK!''
      else [ascii ''Logical'', ascii ''Mcu'', ascii ''Physical''] ! unat num)"

section \<open>What the boards share\<close>

text \<open>The mode that was there first is kept for the release, and the present one is noted.\<close>

definition note_mode :: "int \<Rightarrow> int \<Rightarrow> xGpio \<Rightarrow> xGpio run" where
  "note_mode g eMode gp =
     cbind (rd_int (g_pinmode_release gp) g) (\<lambda>rel. cbind (rd_int (g_pinmode gp) g) (\<lambda>cur.
       Inr (gp\<lparr>g_pinmode_release := (if rel = -1 then (g_pinmode_release gp)[nat g := cur] else g_pinmode_release gp),
               g_pinmode := (g_pinmode gp)[nat g := eMode]\<rparr>)))"

text \<open>All pins are released; what this gives is ignored.\<close>

fun release_pins :: "(int \<Rightarrow> 'w gst \<Rightarrow> (int \<times> 'w gst) run) \<Rightarrow> nat list \<Rightarrow> 'w gst \<Rightarrow> 'w gst run" where
  "release_pins f [] s = Inr s"
| "release_pins f (g # gs) s = cbind (f (int g) s) (\<lambda>(_, s). release_pins f gs s)"

end
