(* ===== verification/Gpio_Nanopi.thy ===== *)
theory Gpio_Nanopi
  imports Gpio
begin

text \<open>
  The GPIO of the NanoPi boards (\<open>src/src/arch/arm/nanopi/gpio.c\<close>).  The registers of a port are a bank: four words of
  modes, the data, two words of drive strengths, two words of pull resistors.  The revision of the board is a parameter.
\<close>

section \<open>Tables\<close>

definition iLogToMcuNeo :: "int list" where
  "iLogToMcuNeo =
    [0, 6, 2, 3, 88, 89, 1, 91, 12, 11, 25, 17, 22, 23, 24, 86, 87, 4, 5, 10, 105, 20, 21, 19, 18, 104]"

definition iLogToMcuM1 :: "int list" where
  "iLogToMcuM1 =
    [0, 6, 2, 3, 88, 89, 1, 91, 12, 11, 25, 17, 22, 23, 24, 86, 87, 20, 21, 8, 16, 9, 7, 13, 15, 14, 19, 18]"

definition iLogToMcuM1p :: "int list" where
  "iLogToMcuM1p =
    [0, 6, 2, 3, 88, 89, 1, 91, 12, 11, 25, 17, 22, 23, 24, 86, 87, 20, 21, 8, 16, 9, 7, 13, 15, 14, 19, 18]"

definition iPhyToMcuNeo :: "int list" where
  "iPhyToMcuNeo =
    [-3, -5, 12, -5, 11, -1, 91, 86, -1, 87, 0, 6, 2, -1, 3, 88, -3, 89, 22, -1, 23, 1, 24, 25, -1, -5, 4, 5,
     10, 104, -5, -10, -11, -12, -13, 105, 17, 18, 19, 20, 21]"

definition iPhyToMcuM1 :: "int list" where
  "iPhyToMcuM1 =
    [-1, -1, 12, -1, 11, -1, 91, 86, -1, 87, 0, 6, 2, -1, 3, 88, -1, 89, 22, -1, 23, 1, 24, 25, -1, 17, 19,
     18, 20, -1, 21, 7, 8, -1, 16, 13, 9, 15, -1, 14]"

definition iPhyToMcuM1p :: "int list" where
  "iPhyToMcuM1p =
    [-1, -1, 12, -1, 11, -1, 91, 86, -1, 87, 0, 6, 2, -1, 3, 88, -1, 89, 22, -1, 23, 1, 24, 25, -1, 17, 19,
     18, 20, -1, 21, 7, 8, -1, 16, 13, 9, 15, -1, 14]"

definition iMcuPinsNeo :: "int list" where
  "iMcuPinsNeo =
    [0, 1, 2, 3, 4, 5, 6, -1, -1, -1, 10, 11, 12, -1, -1, -1, -1, 17, 18, 19, 20, 21, 22, 23, 24, 25, -1, -1,
     -1, -1, -1, -1, -1, -1, -1, -1, -1, -1, -1, -1, -1, -1, -1, -1, -1, -1, -1, -1, -1, -1, -1, -1, -1, -1,
     -1, -1, -1, -1, -1, -1, -1, -1, -1, -1, -1, -1, -1, -1, -1, -1, -1, -1, -1, -1, -1, -1, -1, -1, -1, -1,
     -1, -1, -1, -1, -1, -1, 86, 87, 88, 89, -1, 91, -1, -1, -1, -1, -1, -1, -1, -1, -1, -1, -1, -1, 104, 105]"

definition iMcuPinsM1 :: "int list" where
  "iMcuPinsM1 =
    [0, 1, 2, 3, -1, -1, 6, 7, 8, 9, -1, 11, 12, 13, 14, 15, 16, 17, 18, 19, 20, 21, 22, 23, 24, 25, -1, -1,
     -1, -1, -1, -1, -1, -1, -1, -1, -1, -1, -1, -1, -1, -1, -1, -1, -1, -1, -1, -1, -1, -1, -1, -1, -1, -1,
     -1, -1, -1, -1, -1, -1, -1, -1, -1, -1, -1, -1, -1, -1, -1, -1, -1, -1, -1, -1, -1, -1, -1, -1, -1, -1,
     -1, -1, -1, -1, -1, -1, 86, 87, 88, 89, -1, 91, -1, -1]"

definition iMcuPinsM1p :: "int list" where
  "iMcuPinsM1p =
    [0, 1, 2, 3, -1, -1, 6, 7, 8, 9, -1, 11, 12, 13, 14, 15, 16, 17, 18, 19, 20, 21, 22, 23, 24, 25, -1, -1,
     -1, -1, -1, -1, -1, -1, -1, -1, -1, -1, -1, -1, -1, -1, -1, -1, -1, -1, -1, -1, -1, -1, -1, -1, -1, -1,
     -1, -1, -1, -1, -1, -1, -1, -1, -1, -1, -1, -1, -1, -1, -1, -1, -1, -1, -1, -1, -1, -1, -1, -1, -1, -1,
     -1, -1, -1, -1, -1, -1, 86, 87, 88, 89, -1, 91, -1, -1]"

definition iPhyConnM1 :: "int list" where
  "iPhyConnM1 =
    [40, 4, 3]"

definition iPhyConnM1p :: "int list" where
  "iPhyConnM1p =
    [40, 4, 3]"

definition nanopi_pxLogToMcu :: "xPinList list" where
  "nanopi_pxLogToMcu =
    [\<lparr>pl_pin = iLogToMcuNeo, pl_size = 26, pl_len = 26, pl_first = 0, pl_last = 25\<rparr>,
     \<lparr>pl_pin = iLogToMcuM1, pl_size = 28, pl_len = 28, pl_first = 0, pl_last = 27\<rparr>,
     \<lparr>pl_pin = iLogToMcuM1p, pl_size = 28, pl_len = 28, pl_first = 0, pl_last = 27\<rparr>]"

definition nanopi_pxPhyToMcu :: "xPinList list" where
  "nanopi_pxPhyToMcu =
    [\<lparr>pl_pin = iPhyToMcuNeo, pl_size = 42, pl_len = 26, pl_first = 2, pl_last = 40\<rparr>,
     \<lparr>pl_pin = iPhyToMcuM1, pl_size = 40, pl_len = 28, pl_first = 2, pl_last = 39\<rparr>,
     \<lparr>pl_pin = iPhyToMcuM1p, pl_size = 40, pl_len = 28, pl_first = 2, pl_last = 39\<rparr>]"

definition nanopi_pxMcuPins :: "xPinList list" where
  "nanopi_pxMcuPins =
    [\<lparr>pl_pin = iMcuPinsNeo, pl_size = 106, pl_len = 26, pl_first = 0, pl_last = 105\<rparr>,
     \<lparr>pl_pin = iMcuPinsM1, pl_size = 94, pl_len = 28, pl_first = 0, pl_last = 91\<rparr>,
     \<lparr>pl_pin = iMcuPinsM1p, pl_size = 94, pl_len = 28, pl_first = 0, pl_last = 91\<rparr>]"

text \<open>The sizes of the connectors of the Neo are taken from its table of pins.\<close>

definition nanopi_pxPhyConn :: "xConnectorList list" where
  "nanopi_pxPhyConn =
    [\<lparr>cl_size = iPhyToMcuNeo, cl_nb = 4\<rparr>, \<lparr>cl_size = iPhyConnM1, cl_nb = 3\<rparr>, \<lparr>cl_size = iPhyConnM1p, cl_nb = 3\<rparr>]"

definition NANOPI_GPIO_SIZE :: nat where "NANOPI_GPIO_SIZE = 106"
definition PIO1_BASE :: nat where "PIO1_BASE = 0x800"
definition PIO2_BASE :: nat where "PIO2_BASE = 0xC00"
definition H3_IO1_BASE :: int where "H3_IO1_BASE = 0x01C20000"
definition H3_IO2_BASE :: int where "H3_IO2_BASE = 0x01F02000"
definition H3_BLOCK_SIZE :: u32 where "H3_BLOCK_SIZE = 4 * 1024"

section \<open>Banks\<close>

text \<open>The words of a bank: \<open>CFG\<close>, \<open>DAT\<close>, \<open>PUL\<close>; it has nine.\<close>

definition bk_CFG :: nat where "bk_CFG = 0"
definition bk_DAT :: nat where "bk_DAT = 4"
definition bk_PUL :: nat where "bk_PUL = 7"

text \<open>A bank is a map with the index of its first register.\<close>

definition pxGetBank :: "nat \<Rightarrow> xGpio \<Rightarrow> (xIoMap option \<times> nat) option run" where
  "pxGetBank bkindex gp =
     (let bank = (\<lambda>m i. cbind (pIo m i) (\<lambda>_. Inr (Some (m, i)))) in
      if bkindex < 7 then bank (g_map0 gp) ((PIO1_BASE + bkindex * 0x24) div 4)
      else if bkindex = 7 then bank (g_map1 gp) (PIO2_BASE div 4)
      else Inr None)"

text \<open>The number of pins of each port; port B has none and is left out.\<close>

definition port_sizes :: "int list" where "port_sizes = [22, 0, 17, 18, 16, 7, 14, 12, -1]"

fun find_port :: "int list \<Rightarrow> nat \<Rightarrow> int \<Rightarrow> nat \<times> int" where
  "find_port [] bkindex ng = (bkindex, ng)"
| "find_port (n # ns) bkindex ng =
     (if n \<ge> 0 \<and> ng \<ge> n
      then if bkindex = 0 then find_port (drop 1 ns) 2 (ng - n) else find_port ns (bkindex + 1) (ng - n)
      else (bkindex, ng))"

text \<open>The bank of a pin and the number of the pin in it.\<close>

definition pxGetPinBank :: "int \<Rightarrow> xGpio \<Rightarrow> (xIoMap option \<times> nat \<times> nat) option run" where
  "pxGetPinBank mcupin gp =
     (let (bkindex, ng) = find_port port_sizes 0 mcupin in
      if bkindex < 8
      then cbind (pxGetBank bkindex gp) (\<lambda>b. Inr (map_option (\<lambda>(m, i). (m, i, nat ng)) b))
      else Inr None)"

definition nanopi_bIsPwmPin :: "int \<Rightarrow> bool" where "nanopi_bIsPwmPin g = (g = 6)"

section \<open>Pins\<close>

text \<open>The place of a pin in the words of modes and of pull resistors.\<close>

definition cfg_word :: "nat \<Rightarrow> nat" where "cfg_word f = f div 8"
definition cfg_shift :: "nat \<Rightarrow> nat" where "cfg_shift f = (f - cfg_word f * 8) * 4"
definition pul_word :: "nat \<Rightarrow> nat" where "pul_word f = f div 16"
definition pul_shift :: "nat \<Rightarrow> nat" where "pul_shift f = (f - pul_word f * 16) * 2"

definition with_bank ::
    "int \<Rightarrow> 'w gst \<Rightarrow> (xIoMap option \<Rightarrow> nat \<Rightarrow> nat \<Rightarrow> 'w gst \<Rightarrow> (int \<times> 'w gst) run) \<Rightarrow> (int \<times> 'w gst) run" where
  "with_bank g s k =
     cbind (pxGetPinBank g (fst s)) (\<lambda>b. case b of None \<Rightarrow> Inr (-1, s) | Some (m, i, f) \<Rightarrow> k m i f s)"

definition nanopi_eArchGpioGetMode :: "'w iosys \<Rightarrow> int \<Rightarrow> 'w gst \<Rightarrow> (int \<times> 'w gst) run" where
  "nanopi_eArchGpioGetMode K g s =
     with_bank g s (\<lambda>m b f (gp, w).
       cbind (io_get K m (b + bk_CFG + cfg_word f) w) (\<lambda>(v, w). Inr (uint (drop_bit (cfg_shift f) v AND 7), gp, w)))"

text \<open>The hardware numbers pull-up and pull-down the other way round.\<close>

definition swap_pull :: "u32 \<Rightarrow> u32" where "swap_pull p = (if p \<noteq> 0 then p XOR 3 else p)"

definition nanopi_eArchGpioGetPull :: "'w iosys \<Rightarrow> int \<Rightarrow> 'w gst \<Rightarrow> (int \<times> 'w gst) run" where
  "nanopi_eArchGpioGetPull K g s =
     with_bank g s (\<lambda>m b f (gp, w).
       cbind (io_get K m (b + bk_PUL + pul_word f) w) (\<lambda>(v, w).
         Inr (uint (swap_pull (drop_bit (pul_shift f) v AND 3)), gp, w)))"

definition put_mode :: "'w iosys \<Rightarrow> xIoMap option \<Rightarrow> nat \<Rightarrow> nat \<Rightarrow> int \<Rightarrow> 'w \<Rightarrow> 'w run" where
  "put_mode K m b f eMode w =
     cbind (io_upd K m (b + bk_CFG + cfg_word f) (\<lambda>v. v AND NOT (push_bit (cfg_shift f) 0xF)) w) (\<lambda>w.
     if eMode = eModeInput then Inr w
     else io_upd K m (b + bk_CFG + cfg_word f) (\<lambda>v. v OR push_bit (cfg_shift f) (word_of_int eMode)) w)"

definition nanopi_iArchGpioSetMode :: "'w iosys \<Rightarrow> int \<Rightarrow> int \<Rightarrow> 'w gst \<Rightarrow> (int \<times> 'w gst) run" where
  "nanopi_iArchGpioSetMode K g eMode s =
     with_bank g s (\<lambda>m b f (gp, w).
       let set = (\<lambda>eMode. cbind (put_mode K m b f eMode w) (\<lambda>w. cbind (note_mode g eMode gp) (\<lambda>gp. Inr (0, gp, w)))) in
       if eMode \<in> {eModeInput, eModeOutput, eModeFunc2, eModeFunc3, eModeFunc4, eModeFunc5, eModeFunc6, eModeDisabled}
       then set eMode
       else if eMode = eModePwm then (if \<not> nanopi_bIsPwmPin g then Inr (-1, gp, w) else set eModeFunc3)
       else Inr (-1, gp, w))"

definition note_pull :: "int \<Rightarrow> int \<Rightarrow> xGpio \<Rightarrow> xGpio run" where
  "note_pull g ePull gp =
     cbind (rd_int (g_pinpull_release gp) g) (\<lambda>rel. cbind (rd_int (g_pinpull gp) g) (\<lambda>cur.
       Inr (gp\<lparr>g_pinpull_release := (if rel = -1 then (g_pinpull_release gp)[nat g := cur] else g_pinpull_release gp),
               g_pinpull := (g_pinpull gp)[nat g := ePull]\<rparr>)))"

definition nanopi_iArchGpioSetPull :: "'w iosys \<Rightarrow> int \<Rightarrow> int \<Rightarrow> 'w gst \<Rightarrow> (int \<times> 'w gst) run" where
  "nanopi_iArchGpioSetPull K g ePull s =
     with_bank g s (\<lambda>m b f (gp, w).
       cbind (note_pull g ePull gp) (\<lambda>gp.
       let p = swap_pull (word_of_int ePull) in
       cbind (io_upd K m (b + bk_PUL + pul_word f) (\<lambda>v. v AND NOT (push_bit (pul_shift f) 3)) w) (\<lambda>w.
       cbind (io_upd K m (b + bk_PUL + pul_word f) (\<lambda>v. v OR push_bit (pul_shift f) p) (os_delay_us K 10 w)) (\<lambda>w.
         Inr (0, gp, os_delay_us K 10 w)))))"

definition nanopi_iArchGpioRelease :: "'w iosys \<Rightarrow> int \<Rightarrow> 'w gst \<Rightarrow> (int \<times> 'w gst) run" where
  "nanopi_iArchGpioRelease K g s =
     cbind (rd_int (g_pinmode_release (fst s)) g) (\<lambda>rel.
     cbind (if rel \<noteq> -1
            then cbind (nanopi_iArchGpioSetMode K g rel s) (\<lambda>(i, gp, w).
                   Inr (i, gp\<lparr>g_pinmode_release := (g_pinmode_release gp)[nat g := -1]\<rparr>, w))
            else Inr (0, s)) (\<lambda>(i, s).
     cbind (rd_int (g_pinpull_release (fst s)) g) (\<lambda>rel.
       if i = 0 \<and> rel \<noteq> -1
       then cbind (nanopi_iArchGpioSetPull K g rel s) (\<lambda>(i, gp, w).
              Inr (i, gp\<lparr>g_pinpull_release := (g_pinpull_release gp)[nat g := -1]\<rparr>, w))
       else Inr (i, s))))"

definition nanopi_iArchGpioWrite :: "'w iosys \<Rightarrow> int \<Rightarrow> bool \<Rightarrow> 'w gst \<Rightarrow> (int \<times> 'w gst) run" where
  "nanopi_iArchGpioWrite K g bValue s =
     with_bank g s (\<lambda>m b f (gp, w).
       cbind (io_upd K m (b + bk_DAT) (\<lambda>v. if bValue then v OR push_bit f 1 else v AND NOT (push_bit f 1)) w) (\<lambda>w.
         Inr (0, gp, w)))"

definition nanopi_iArchGpioRead :: "'w iosys \<Rightarrow> int \<Rightarrow> 'w gst \<Rightarrow> (int \<times> 'w gst) run" where
  "nanopi_iArchGpioRead K g s =
     with_bank g s (\<lambda>m b f (gp, w).
       cbind (io_get K m (b + bk_DAT) w) (\<lambda>(v, w). Inr (if v AND push_bit f 1 \<noteq> 0 then 1 else 0, gp, w)))"

definition nanopi_iArchGpioToggle :: "'w iosys \<Rightarrow> int \<Rightarrow> 'w gst \<Rightarrow> (int \<times> 'w gst) run" where
  "nanopi_iArchGpioToggle K g s =
     with_bank g s (\<lambda>m b f (gp, w). cbind (io_upd K m (b + bk_DAT) (\<lambda>v. v XOR push_bit f 1) w) (\<lambda>w. Inr (0, gp, w)))"

text \<open>\<open>pxNanoPiInfo () -> iGpioRev\<close> is the parameter \<open>board\<close>, 1 to 3.\<close>

definition nanopi_arch :: "'w iosys \<Rightarrow> nat \<Rightarrow> 'w gpio_arch" where
  "nanopi_arch K board =
     \<lparr>ar_setmode = nanopi_iArchGpioSetMode K, ar_getmode = nanopi_eArchGpioGetMode K,
      ar_setpull = nanopi_iArchGpioSetPull K, ar_getpull = nanopi_eArchGpioGetPull K,
      ar_release = nanopi_iArchGpioRelease K, ar_write = nanopi_iArchGpioWrite K, ar_read = nanopi_iArchGpioRead K,
      ar_toggle = nanopi_iArchGpioToggle K, ar_conn = nanopi_pxPhyConn ! (board - 1)\<rparr>"

section \<open>The port\<close>

text \<open>Another numbering keeps the list.\<close>

definition nanopi_iGpioSetNumbering :: "nat \<Rightarrow> int \<Rightarrow> xGpio \<Rightarrow> (int \<times> xGpio) run" where
  "nanopi_iGpioSetNumbering board eNum gp =
     (if eNum \<noteq> g_numbering gp then
        cbind (if eNum = eNumberingLogical then cbind (rd nanopi_pxLogToMcu (board - 1)) (\<lambda>l. Inr (Some l))
               else if eNum = eNumberingMcu then cbind (rd nanopi_pxMcuPins (board - 1)) (\<lambda>l. Inr (Some l))
               else if eNum = eNumberingPhysical then cbind (rd nanopi_pxPhyToMcu (board - 1)) (\<lambda>l. Inr (Some l))
               else Inr (g_list gp)) (\<lambda>l.
          Inr (0, gp\<lparr>g_list := l, g_i := ITERATOR_FRONT, g_j := ITERATOR_FRONT, g_numbering := eNum\<rparr>))
      else Inr (0, gp))"

text \<open>The port that all links share, when it is closed.\<close>

definition nanopi_gpio :: xGpio where
  "nanopi_gpio =
     \<lparr>g_map0 = None, g_map1 = None, g_list = None, g_i = 0, g_j = 0, g_pinmode = replicate NANOPI_GPIO_SIZE 0,
      g_pinmode_release = replicate NANOPI_GPIO_SIZE 0, g_pinpull = replicate NANOPI_GPIO_SIZE 0,
      g_pinpull_release = replicate NANOPI_GPIO_SIZE 0, g_link = 0, g_roc = False, g_numbering = -1\<rparr>"

fun read_setup :: "'w iosys \<Rightarrow> nat list \<Rightarrow> 'w gst \<Rightarrow> 'w gst run" where
  "read_setup K [] s = Inr s"
| "read_setup K (g # gs) s =
     cbind (nanopi_eArchGpioGetMode K (int g)
              ((fst s)\<lparr>g_pinmode_release := (g_pinmode_release (fst s))[g := -1]\<rparr>, snd s)) (\<lambda>(m, gp, w).
     cbind (nanopi_eArchGpioGetPull K (int g)
              (gp\<lparr>g_pinmode := (g_pinmode gp)[g := m], g_pinpull_release := (g_pinpull_release gp)[g := -1]\<rparr>, w)) (\<lambda>(p, gp, w).
       read_setup K gs (gp\<lparr>g_pinpull := (g_pinpull gp)[g := p]\<rparr>, w)))"

text \<open>\<open>board\<close> is \<open>None\<close> when this is no NanoPi.  The result tells whether the port was given.\<close>

definition nanopi_xGpioOpen :: "'w iosys \<Rightarrow> nat option \<Rightarrow> xGpio \<times> mem \<times> 'w \<Rightarrow> (bool \<times> xGpio \<times> mem \<times> 'w) run" where
  "nanopi_xGpioOpen K board s =
     (let (gp, m, w) = s in
      if bGpioIsOpen gp then Inr (True, gp\<lparr>g_link := g_link gp + 1\<rparr>, m, w)
      else case board of
        None \<Rightarrow> Inr (False, gp, m, w)
      | Some board \<Rightarrow>
          cbind (nanopi_iGpioSetNumbering board eNumberingLogical gp) (\<lambda>(_, gp).
            let (m0, m, w) = xIoMapOpen K H3_IO1_BASE H3_BLOCK_SIZE (m, w);
                gp = gp\<lparr>g_map0 := m0\<rparr>
            in if m0 = None then Inr (False, gp, m, w)
               else
                 let (m1, m, w) = xIoMapOpen K H3_IO2_BASE H3_BLOCK_SIZE (m, w);
                     gp = gp\<lparr>g_map1 := m1\<rparr>
                 in if m1 = None then cbind (iIoMapClose K (g_map0 gp) w) (\<lambda>(_, w). Inr (False, gp, m, w))
                    else cbind (read_setup K [0..<NANOPI_GPIO_SIZE] (gp, w)) (\<lambda>(gp, w).
                           Inr (True, gp\<lparr>g_link := 1, g_roc := True\<rparr>, m, w))))"

text \<open>The arrays of the modes are outside of the structure and are not cleared with it.\<close>

definition nanopi_iGpioClose :: "'w iosys \<Rightarrow> 'w gst \<Rightarrow> (int \<times> 'w gst) run" where
  "nanopi_iGpioClose K s =
     (let (gp, w) = s in
      if \<not> bGpioIsOpen gp then Inr (0, s)
      else
        let gp = gp\<lparr>g_link := g_link gp - 1\<rparr> in
        if g_link gp > 0 then Inr (0, gp, w)
        else
          cbind (if g_roc gp then release_pins (nanopi_iArchGpioRelease K) [0..<NANOPI_GPIO_SIZE] (gp, w) else Inr (gp, w)) (\<lambda>(gp, w).
          cbind (iIoMapClose K (g_map0 gp) w) (\<lambda>(e0, w). cbind (iIoMapClose K (g_map1 gp) w) (\<lambda>(e1, w).
            Inr (e0 + e1, nanopi_gpio\<lparr>g_pinmode := g_pinmode gp, g_pinmode_release := g_pinmode_release gp,
              g_pinpull := g_pinpull gp, g_pinpull_release := g_pinpull_release gp\<rparr>, w)))))"

definition nanopi_sGpioModeToStr :: "int \<Rightarrow> u8 list" where
  "nanopi_sGpioModeToStr m =
     (if m = eModeInput then ascii ''IN'' else if m = eModeOutput then ascii ''OUT''
      else if m = eModeFunc2 then ascii ''FC2'' else if m = eModeFunc3 then ascii ''FC3''
      else if m = eModeFunc4 then ascii ''FC4'' else if m = eModeFunc5 then ascii ''FC5''
      else if m = eModeFunc6 then ascii ''FC6'' else if m = eModePwm then ascii ''PWM''
      else if m = eModeDisabled then ascii ''OFF'' else ascii ''!UNK!'')"

end
