(* ===== verification/Gpio_Rpi.thy ===== *)
theory Gpio_Rpi
  imports Gpio
begin

text \<open>
  The GPIO of the Raspberry Pi (\<open>src/src/arch/arm/rpi/gpio.c\<close>): three bits of mode for each pin, registers to set and to
  clear pins, a sequence for the pull resistors.  The revision of the board, and whether it has a BCM2709, are parameters.
\<close>

section \<open>Tables\<close>

definition GPSET0 :: nat where "GPSET0 = 7"
definition GPCLR0 :: nat where "GPCLR0 = 10"
definition GPLEV0 :: nat where "GPLEV0 = 13"
definition GPPUD :: nat where "GPPUD = 37"
definition GPPUDCLK0 :: nat where "GPPUDCLK0 = 38"
definition RPI_GPIO_SIZE :: nat where "RPI_GPIO_SIZE = 32"
definition BCM270X_BLOCK_SIZE :: u32 where "BCM270X_BLOCK_SIZE = 4 * 1024"

definition iLogicalPinsRev1 :: "int list" where
  "iLogicalPinsRev1 =
    [17, 18, 21, 22, 23, 24, 25, 4, 0, 1, 8, 7, 10, 9, 11, 14, 15]"

definition iLogicalPinsRev2 :: "int list" where
  "iLogicalPinsRev2 =
    [17, 18, 27, 22, 23, 24, 25, 4, 2, 3, 8, 7, 10, 9, 11, 14, 15, 28, 29, 30, 31]"

definition iLogicalPinsRev3 :: "int list" where
  "iLogicalPinsRev3 =
    [17, 18, 27, 22, 23, 24, 25, 4, 2, 3, 8, 7, 10, 9, 11, 14, 15, -1, -1, -1, -1, 5, 6, 13, 19, 26, 12, 16,
     20, 21, 0, 1]"

definition iPhysicalPinsRev1 :: "int list" where
  "iPhysicalPinsRev1 =
    [-1, -1, 0, -1, 1, -1, 4, 14, -1, 15, 17, 18, 21, -1, 22, 23, -1, 24, 10, -1, 9, 25, 11, 8, -1, 7]"

definition iPhysicalPinsRev2 :: "int list" where
  "iPhysicalPinsRev2 =
    [-1, -1, 2, -1, 3, -1, 4, 14, -1, 15, 17, 18, 27, -1, 22, 23, -1, 24, 10, -1, 9, 25, 11, 8, -1, 7, -1,
     -1, 28, 29, 30, 31, -1, -1]"

definition iPhysicalPinsRev3 :: "int list" where
  "iPhysicalPinsRev3 =
    [-1, -1, 2, -1, 3, -1, 4, 14, -1, 15, 17, 18, 27, -1, 22, 23, -1, 24, 10, -1, 9, 25, 11, 8, -1, 7, 0, 1,
     5, -1, 6, 12, 13, -1, 19, 16, 26, 20, -1, 21]"

definition iMcuPinsRev1 :: "int list" where
  "iMcuPinsRev1 =
    [0, 1, -1, -1, 4, -1, -1, 7, 8, 9, 10, 11, -1, -1, 14, 15, -1, 17, 18, -1, -1, 21, 22, 23, 24, 25, -1,
     -1, -1, -1, -1, -1]"

definition iMcuPinsRev2 :: "int list" where
  "iMcuPinsRev2 =
    [-1, -1, 2, 3, 4, -1, -1, 7, 8, 9, 10, 11, -1, -1, 14, 15, -1, 17, 18, -1, -1, -1, 22, 23, 24, 25, -1,
     27, 28, 29, 30, 31]"

definition iMcuPinsRev3 :: "int list" where
  "iMcuPinsRev3 =
    [0, 1, 2, 3, 4, 5, 6, 7, 8, 9, 10, 11, 12, 13, 14, 15, 16, 17, 18, 19, 20, 21, 22, 23, 24, 25, 26, 27,
     -1, -1, -1, -1]"

definition rpi_pxLogicalPins :: "xPinList list" where
  "rpi_pxLogicalPins =
    [\<lparr>pl_pin = iLogicalPinsRev1, pl_size = 17, pl_len = 17, pl_first = 0, pl_last = 16\<rparr>,
     \<lparr>pl_pin = iLogicalPinsRev2, pl_size = 21, pl_len = 21, pl_first = 0, pl_last = 20\<rparr>,
     \<lparr>pl_pin = iLogicalPinsRev3, pl_size = 32, pl_len = 28, pl_first = 0, pl_last = 31\<rparr>]"

definition rpi_pxPhysicalPins :: "xPinList list" where
  "rpi_pxPhysicalPins =
    [\<lparr>pl_pin = iPhysicalPinsRev1, pl_size = 26, pl_len = 17, pl_first = 2, pl_last = 25\<rparr>,
     \<lparr>pl_pin = iPhysicalPinsRev2, pl_size = 34, pl_len = 21, pl_first = 2, pl_last = 31\<rparr>,
     \<lparr>pl_pin = iPhysicalPinsRev3, pl_size = 40, pl_len = 28, pl_first = 2, pl_last = 39\<rparr>]"

definition rpi_pxMcuPins :: "xPinList list" where
  "rpi_pxMcuPins =
    [\<lparr>pl_pin = iMcuPinsRev1, pl_size = 32, pl_len = 17, pl_first = 0, pl_last = 25\<rparr>,
     \<lparr>pl_pin = iMcuPinsRev2, pl_size = 32, pl_len = 21, pl_first = 2, pl_last = 31\<rparr>,
     \<lparr>pl_pin = iMcuPinsRev3, pl_size = 32, pl_len = 28, pl_first = 0, pl_last = 27\<rparr>]"

definition rpi_pxPhyConn :: "xConnectorList list" where
  "rpi_pxPhyConn =
    [\<lparr>cl_size = [26], cl_nb = 1\<rparr>, \<lparr>cl_size = [26, 8], cl_nb = 2\<rparr>, \<lparr>cl_size = [40], cl_nb = 1\<rparr>]"

section \<open>Pins\<close>

definition GPIO_INP :: "'w iosys \<Rightarrow> nat \<Rightarrow> 'w gst \<Rightarrow> 'w run" where
  "GPIO_INP K g s = io_upd K (g_map0 (fst s)) (g div 10) (\<lambda>v. v AND NOT (push_bit (g mod 10 * 3) 7)) (snd s)"

definition GPIO_OUT :: "'w iosys \<Rightarrow> nat \<Rightarrow> 'w gst \<Rightarrow> 'w run" where
  "GPIO_OUT K g s = io_upd K (g_map0 (fst s)) (g div 10) (\<lambda>v. v OR push_bit (g mod 10 * 3) 1) (snd s)"

definition GPIO_ALT :: "'w iosys \<Rightarrow> nat \<Rightarrow> int \<Rightarrow> 'w gst \<Rightarrow> 'w run" where
  "GPIO_ALT K g a s = io_upd K (g_map0 (fst s)) (g div 10) (\<lambda>v. v OR push_bit (g mod 10 * 3) (word_of_int a)) (snd s)"

definition GPIO_MODE :: "'w iosys \<Rightarrow> nat \<Rightarrow> 'w gst \<Rightarrow> (int \<times> 'w) run" where
  "GPIO_MODE K g s =
     cbind (io_get K (g_map0 (fst s)) (g div 10) (snd s)) (\<lambda>(v, w). Inr (uint (drop_bit (g mod 10 * 3) v AND 7), w))"

definition rpi_bIsPwmPin :: "bool \<Rightarrow> int \<Rightarrow> bool" where
  "rpi_bIsPwmPin bcm2709 g \<longleftrightarrow> g = 18 \<or> bcm2709 \<and> (g = 12 \<or> g = 13)"

definition rpi_eArchGpioGetMode :: "'w iosys \<Rightarrow> int \<Rightarrow> 'w gst \<Rightarrow> (int \<times> 'w gst) run" where
  "rpi_eArchGpioGetMode K g s = cbind (GPIO_MODE K (nat g) s) (\<lambda>(m, w). Inr (m, fst s, w))"

definition rpi_eArchGpioGetPull :: "int \<Rightarrow> 'w gst \<Rightarrow> (int \<times> 'w gst) run" where
  "rpi_eArchGpioGetPull g s = Inr (0, s)"

text \<open>The alternate modes, and the call of the function by itself for the mode PWM.\<close>

definition set_alt :: "'w iosys \<Rightarrow> int \<Rightarrow> int \<Rightarrow> 'w gst \<Rightarrow> (int \<times> 'w gst) run" where
  "set_alt K g eMode s =
     cbind (GPIO_INP K (nat g) s) (\<lambda>w. cbind (GPIO_ALT K (nat g) eMode (fst s, w)) (\<lambda>w.
     cbind (note_mode g eMode (fst s)) (\<lambda>gp. Inr (0, gp, w))))"

definition rpi_iArchGpioSetMode :: "'w iosys \<Rightarrow> bool \<Rightarrow> int \<Rightarrow> int \<Rightarrow> 'w gst \<Rightarrow> (int \<times> 'w gst) run" where
  "rpi_iArchGpioSetMode K bcm2709 g eMode s =
     (let note = (\<lambda>w. cbind (note_mode g eMode (fst s)) (\<lambda>gp. Inr (0, gp, w))) in
      if eMode = eModeInput then cbind (GPIO_INP K (nat g) s) note
      else if eMode = eModeOutput then
        cbind (GPIO_INP K (nat g) s) (\<lambda>w. cbind (GPIO_OUT K (nat g) (fst s, w)) note)
      else if eMode \<in> {eModeAlt0, eModeAlt1, eModeAlt2, eModeAlt3, eModeAlt4, eModeAlt5} then set_alt K g eMode s
      else if eMode = eModePwm then
        if \<not> rpi_bIsPwmPin bcm2709 g then Inr (-1, s)
        else cbind (set_alt K g eModeAlt5 s) (\<lambda>(i, gp, w). cbind (note_mode g eMode gp) (\<lambda>gp. Inr (i, gp, w)))
      else Inr (-1, s))"

text \<open>The register of a pin above 31 is the next one.\<close>

definition bit_place :: "nat \<Rightarrow> int \<Rightarrow> nat \<times> u32" where
  "bit_place reg g = (if g > 31 then (reg + 1, push_bit (nat (g - 32)) 1) else (reg, push_bit (nat g) 1))"

definition rpi_iArchGpioSetPull :: "'w iosys \<Rightarrow> int \<Rightarrow> int \<Rightarrow> 'w gst \<Rightarrow> (int \<times> 'w gst) run" where
  "rpi_iArchGpioSetPull K g ePull s =
     (let m = g_map0 (fst s); (clk, bit) = bit_place GPPUDCLK0 g in
      cbind (io_put K m GPPUD (word_of_int ePull AND 3) (snd s)) (\<lambda>w.
      cbind (io_put K m clk bit (os_delay_us K 10 w)) (\<lambda>w.
      cbind (io_put K m GPPUD (word_of_int ePullOff) (os_delay_us K 10 w)) (\<lambda>w.
      cbind (io_put K m clk 0 w) (\<lambda>w. Inr (0, fst s, w))))))"

text \<open>Only the mode of an input is forgotten.\<close>

definition rpi_iArchGpioRelease :: "'w iosys \<Rightarrow> bool \<Rightarrow> int \<Rightarrow> 'w gst \<Rightarrow> (int \<times> 'w gst) run" where
  "rpi_iArchGpioRelease K bcm2709 g s =
     cbind (rd_int (g_pinmode_release (fst s)) g) (\<lambda>rel.
       if rel \<noteq> -1 then
         cbind (rpi_iArchGpioSetMode K bcm2709 g rel s) (\<lambda>(i, s).
         cbind (rd_int (g_pinmode_release (fst s)) g) (\<lambda>rel.
           if i = 0 \<and> rel = eModeInput then
             cbind (rpi_iArchGpioSetPull K g ePullDown s) (\<lambda>(i, gp, w).
               Inr (i, gp\<lparr>g_pinmode_release := (g_pinmode_release gp)[nat g := -1]\<rparr>, w))
           else Inr (i, s)))
       else Inr (0, s))"

definition rpi_iArchGpioWrite :: "'w iosys \<Rightarrow> int \<Rightarrow> bool \<Rightarrow> 'w gst \<Rightarrow> (int \<times> 'w gst) run" where
  "rpi_iArchGpioWrite K g bValue s =
     (let (reg, bit) = bit_place (if bValue then GPSET0 else GPCLR0) g in
      cbind (io_put K (g_map0 (fst s)) reg bit (snd s)) (\<lambda>w. Inr (0, fst s, w)))"

definition rpi_iArchGpioRead :: "'w iosys \<Rightarrow> int \<Rightarrow> 'w gst \<Rightarrow> (int \<times> 'w gst) run" where
  "rpi_iArchGpioRead K g s =
     (let (reg, bit) = bit_place GPLEV0 g in
      cbind (io_get K (g_map0 (fst s)) reg (snd s)) (\<lambda>(v, w). Inr (if v AND bit \<noteq> 0 then 1 else 0, fst s, w)))"

definition rpi_iArchGpioToggle :: "'w iosys \<Rightarrow> int \<Rightarrow> 'w gst \<Rightarrow> (int \<times> 'w gst) run" where
  "rpi_iArchGpioToggle K g s =
     cbind (rpi_iArchGpioRead K g s) (\<lambda>(r, s).
       if r < 0 then Inr (-1, s) else rpi_iArchGpioWrite K g (\<not> (r \<noteq> 0)) s)"

definition rpi_arch :: "'w iosys \<Rightarrow> nat \<Rightarrow> bool \<Rightarrow> 'w gpio_arch" where
  "rpi_arch K board bcm2709 =
     \<lparr>ar_setmode = rpi_iArchGpioSetMode K bcm2709, ar_getmode = rpi_eArchGpioGetMode K,
      ar_setpull = rpi_iArchGpioSetPull K, ar_getpull = rpi_eArchGpioGetPull,
      ar_release = rpi_iArchGpioRelease K bcm2709, ar_write = rpi_iArchGpioWrite K, ar_read = rpi_iArchGpioRead K,
      ar_toggle = rpi_iArchGpioToggle K, ar_conn = rpi_pxPhyConn ! (board - 1)\<rparr>"

section \<open>The port\<close>

definition rpi_iGpioSetNumbering :: "nat \<Rightarrow> int \<Rightarrow> xGpio \<Rightarrow> (int \<times> xGpio) run" where
  "rpi_iGpioSetNumbering board eNum gp =
     (if eNum \<noteq> g_numbering gp then
        cbind (if eNum = eNumberingLogical then cbind (rd rpi_pxLogicalPins (board - 1)) (\<lambda>l. Inr (Some l))
               else if eNum = eNumberingMcu then cbind (rd rpi_pxMcuPins (board - 1)) (\<lambda>l. Inr (Some l))
               else if eNum = eNumberingPhysical then cbind (rd rpi_pxPhysicalPins (board - 1)) (\<lambda>l. Inr (Some l))
               else Inr (g_list gp)) (\<lambda>l.
          Inr (0, gp\<lparr>g_list := l, g_i := ITERATOR_FRONT, g_j := ITERATOR_FRONT, g_numbering := eNum\<rparr>))
      else Inr (0, gp))"

definition rpi_gpio :: xGpio where
  "rpi_gpio =
     \<lparr>g_map0 = None, g_map1 = None, g_list = None, g_i = 0, g_j = 0, g_pinmode = replicate RPI_GPIO_SIZE 0,
      g_pinmode_release = replicate RPI_GPIO_SIZE 0, g_pinpull = [], g_pinpull_release = [], g_link = 0, g_roc = False,
      g_numbering = -1\<rparr>"

fun rpi_read_setup :: "'w iosys \<Rightarrow> nat list \<Rightarrow> 'w gst \<Rightarrow> 'w gst run" where
  "rpi_read_setup K [] s = Inr s"
| "rpi_read_setup K (g # gs) s =
     cbind (rpi_eArchGpioGetMode K (int g)
              ((fst s)\<lparr>g_pinmode_release := (g_pinmode_release (fst s))[g := -1]\<rparr>, snd s)) (\<lambda>(m, gp, w).
       rpi_read_setup K gs (gp\<lparr>g_pinmode := (g_pinmode gp)[g := m]\<rparr>, w))"

text \<open>\<open>board\<close> is \<open>None\<close> when this is no Raspberry Pi; \<open>iobase\<close> is the address of its registers.\<close>

definition rpi_xGpioOpen :: "'w iosys \<Rightarrow> nat option \<Rightarrow> int \<Rightarrow> xGpio \<times> mem \<times> 'w \<Rightarrow> (bool \<times> xGpio \<times> mem \<times> 'w) run" where
  "rpi_xGpioOpen K board iobase s =
     (let (gp, m, w) = s in
      if bGpioIsOpen gp then Inr (True, gp\<lparr>g_link := g_link gp + 1\<rparr>, m, w)
      else case board of
        None \<Rightarrow> Inr (False, gp, m, w)
      | Some n \<Rightarrow>
          cbind (rpi_iGpioSetNumbering n eNumberingLogical gp) (\<lambda>(_, gp).
            let (m0, m, w) = xIoMapOpen K (iobase + 0x200000) BCM270X_BLOCK_SIZE (m, w);
                gp = gp\<lparr>g_map0 := m0\<rparr>
            in if m0 = None then Inr (False, gp, m, w)
               else cbind (rpi_read_setup K [0..<RPI_GPIO_SIZE] (gp, w)) (\<lambda>(gp, w).
                      Inr (True, gp\<lparr>g_link := 1, g_roc := True\<rparr>, m, w))))"

definition rpi_iGpioClose :: "'w iosys \<Rightarrow> bool \<Rightarrow> 'w gst \<Rightarrow> (int \<times> 'w gst) run" where
  "rpi_iGpioClose K bcm2709 s =
     (let (gp, w) = s in
      if \<not> bGpioIsOpen gp then Inr (0, s)
      else
        let gp = gp\<lparr>g_link := g_link gp - 1\<rparr> in
        if g_link gp > 0 then Inr (0, gp, w)
        else
          cbind (if g_roc gp then release_pins (rpi_iArchGpioRelease K bcm2709) [0..<RPI_GPIO_SIZE] (gp, w) else Inr (gp, w)) (\<lambda>(gp, w).
          cbind (iIoMapClose K (g_map0 gp) w) (\<lambda>(e, w).
            Inr (e, rpi_gpio\<lparr>g_pinmode := g_pinmode gp, g_pinmode_release := g_pinmode_release gp\<rparr>, w))))"

definition rpi_sGpioModeToStr :: "int \<Rightarrow> u8 list" where
  "rpi_sGpioModeToStr m =
     (if m = eModeInput then ascii ''INPUT'' else if m = eModeOutput then ascii ''OUTPUT''
      else if m = eModeAlt0 then ascii ''ALT0'' else if m = eModeAlt1 then ascii ''ALT1''
      else if m = eModeAlt2 then ascii ''ALT2'' else if m = eModeAlt3 then ascii ''ALT3''
      else if m = eModeAlt4 then ascii ''ALT4'' else if m = eModeAlt5 then ascii ''ALT5'' else ascii ''!UNK!'')"

end
