(* ===== verification/Dport.thy ===== *)
theory Dport
  imports Gpio
begin

text \<open>
  Ports of inputs and outputs (\<open>src/src/gpio/doutput.c\<close>, \<open>src/src/gpio/dinput.c\<close>): some pins of the GPIO under numbers of their
  own, each with its active level.  The thread that watches the inputs is one turn of its loop, \<open>din_turn\<close>; the mutexes
  are left out: turns and calls run one after the other.
\<close>

text \<open>A board: its pins, and the opening and closing of its port.\<close>

record 'w gpio_board =
  bd_arch :: "'w gpio_arch"
  bd_open :: "xGpio \<times> mem \<times> 'w \<Rightarrow> (bool \<times> xGpio \<times> mem \<times> 'w) run"
  bd_close :: "'w gst \<Rightarrow> (int \<times> 'w gst) run"

text \<open>\<open>1 << i\<close> on 32 bits, which is undefined for larger numbers.\<close>

definition bv :: "int \<Rightarrow> u32 run" where
  "bv i = (if 0 \<le> i \<and> i < 32 then Inr (push_bit (nat i) 1) else Inl OutOfBounds)"

text \<open>The functions that have no use for the allocator.\<close>

definition no_mem :: "('w gst \<Rightarrow> ('a \<times> 'w gst) run) \<Rightarrow> xGpio \<times> mem \<times> 'w \<Rightarrow> ('a \<times> xGpio \<times> mem \<times> 'w) run" where
  "no_mem f s = cbind (f (fst s, snd (snd s))) (\<lambda>(r, gp, w). Inr (r, gp, fst (snd s), w))"

section \<open>Outputs\<close>

record xDout =
  do_num :: int
  do_act :: bool

record xDoutPort =
  do_pins :: "xDout list"
  do_set_mask :: u32
  do_clr_mask :: u32

definition iDoutPortSize :: "xDoutPort \<Rightarrow> int" where "iDoutPortSize port = int (length (do_pins port))"

text \<open>\<open>f\<close> on the pin with the number \<open>i\<close> of the port.\<close>

definition on_dout :: "(xDout \<Rightarrow> 'w gst \<Rightarrow> (int \<times> 'w gst) run) \<Rightarrow> nat \<Rightarrow> xDoutPort \<Rightarrow> 'w gst \<Rightarrow> (int \<times> 'w gst) run" where
  "on_dout f i port s = (if i \<ge> length (do_pins port) then Inr (-1, s) else f (do_pins port ! i) s)"

definition iDoutClear :: "'w gpio_arch \<Rightarrow> nat \<Rightarrow> xDoutPort \<Rightarrow> 'w gst \<Rightarrow> (int \<times> 'w gst) run" where
  "iDoutClear A = on_dout (\<lambda>d. iGpioWrite A (do_num d) (\<not> do_act d))"

definition iDoutSet :: "'w gpio_arch \<Rightarrow> nat \<Rightarrow> xDoutPort \<Rightarrow> 'w gst \<Rightarrow> (int \<times> 'w gst) run" where
  "iDoutSet A = on_dout (\<lambda>d. iGpioWrite A (do_num d) (do_act d))"

definition iDoutToggle :: "'w gpio_arch \<Rightarrow> nat \<Rightarrow> xDoutPort \<Rightarrow> 'w gst \<Rightarrow> (int \<times> 'w gst) run" where
  "iDoutToggle A = on_dout (\<lambda>d. iGpioToggle A (do_num d))"

text \<open>The masks are of type int, and those of the GPIO have 64 bits: the sign is extended.\<close>

definition iDoutSetAll :: "'w gpio_arch \<Rightarrow> xDoutPort \<Rightarrow> 'w gst \<Rightarrow> (int \<times> 'w gst) run" where
  "iDoutSetAll A port s =
     cbind (iGpioWriteAll A (scast (do_set_mask port)) True s) (\<lambda>(r, s).
       if r = 0 then iGpioWriteAll A (scast (do_clr_mask port)) False s else Inr (-1, s))"

definition iDoutClearAll :: "'w gpio_arch \<Rightarrow> xDoutPort \<Rightarrow> 'w gst \<Rightarrow> (int \<times> 'w gst) run" where
  "iDoutClearAll A port s =
     cbind (iGpioWriteAll A (scast (do_set_mask port)) False s) (\<lambda>(r, s).
       if r = 0 then iGpioWriteAll A (scast (do_clr_mask port)) True s else Inr (-1, s))"

definition iDoutToggleAll :: "'w gpio_arch \<Rightarrow> xDoutPort \<Rightarrow> 'w gst \<Rightarrow> (int \<times> 'w gst) run" where
  "iDoutToggleAll A port s = iGpioToggleAll A (scast (do_clr_mask port OR do_set_mask port)) s"

text \<open>An error of the pin counts as a level that is not active.\<close>

definition level :: "bool \<Rightarrow> int" where "level act = (if act then 1 else 0)"

definition iDoutRead :: "'w gpio_arch \<Rightarrow> nat \<Rightarrow> xDoutPort \<Rightarrow> 'w gst \<Rightarrow> (int \<times> 'w gst) run" where
  "iDoutRead A = on_dout (\<lambda>d s.
     cbind (iGpioRead A (do_num d) s) (\<lambda>(r, s). Inr (if r = level (do_act d) then 1 else 0, s)))"

text \<open>The bits of the pins that read as 1; \<open>rd1\<close> reads one pin.\<close>

fun read_bits :: "(nat \<Rightarrow> 'w gst \<Rightarrow> (int \<times> 'w gst) run) \<Rightarrow> nat list \<Rightarrow> u32 \<Rightarrow> 'w gst \<Rightarrow> (u32 \<times> 'w gst) run" where
  "read_bits rd1 [] v s = Inr (v, s)"
| "read_bits rd1 (i # is) v s =
     cbind (rd1 i s) (\<lambda>(r, s).
       if r = 1 then cbind (bv (int i)) (\<lambda>b. read_bits rd1 is (v OR b) s)
       else if r = 0 then read_bits rd1 is v s
       else Inr (-1, s))"

definition iDoutReadAll :: "'w gpio_arch \<Rightarrow> xDoutPort \<Rightarrow> 'w gst \<Rightarrow> (u32 \<times> 'w gst) run" where
  "iDoutReadAll A port s = read_bits (\<lambda>i. iDoutRead A i port) [0..<length (do_pins port)] 0 s"

text \<open>The pins become outputs, and their bits go to the masks.\<close>

fun open_douts ::
    "'w gpio_arch \<Rightarrow> xDout list \<Rightarrow> xDoutPort \<Rightarrow> 'w gst \<Rightarrow> (int \<times> xDoutPort \<times> 'w gst) run" where
  "open_douts A [] port s = Inr (0, port, s)"
| "open_douts A (d # ds) port s =
     cbind (iGpioSetMode A (do_num d) eModeOutput s) (\<lambda>(r, s).
       if r \<noteq> 0 then Inr (-1, port, s)
       else cbind (bv (do_num d)) (\<lambda>b.
         if do_act d then open_douts A ds (port\<lparr>do_set_mask := do_set_mask port OR b\<rparr>) s
         else open_douts A ds (port\<lparr>do_clr_mask := do_clr_mask port OR b\<rparr>) s))"

definition xDoutOpen ::
    "'w gpio_board \<Rightarrow> xDout list \<Rightarrow> xGpio \<times> mem \<times> 'w \<Rightarrow> (xDoutPort option \<times> xGpio \<times> mem \<times> 'w) run" where
  "xDoutOpen Bd pins s =
     (if pins = [] then Inr (None, s)
      else
        let (ok1, m) = malloc (fst (snd s)); (ok2, m) = malloc m in
        if \<not> ok1 \<or> \<not> ok2 then Inl AssertFailed
        else
          let A = bd_arch Bd;
              undo = (\<lambda>(gp, m, w). Inr (None, gp, free (Some ()) (free (Some ()) m), w));
              fail = (\<lambda>(gp, m, w). cbind (bd_close Bd (gp, w)) (\<lambda>(_, gp, w). undo (gp, m, w)))
          in cbind (bd_open Bd (fst s, m, snd (snd s))) (\<lambda>(ok, gp, m, w).
               if \<not> ok then undo (gp, m, w)
               else
                 cbind (open_douts A pins \<lparr>do_pins = pins, do_set_mask = 0, do_clr_mask = 0\<rparr> (gp, w)) (\<lambda>(r, port, gp, w).
                   if r \<noteq> 0 then fail (gp, m, w)
                   else cbind (iDoutClearAll A port (gp, w)) (\<lambda>(r, gp, w).
                     if r \<noteq> 0 then fail (gp, m, w) else Inr (Some port, gp, m, w)))))"

definition iDoutClose :: "'w gpio_board \<Rightarrow> xDoutPort \<Rightarrow> xGpio \<times> mem \<times> 'w \<Rightarrow> (int \<times> xGpio \<times> mem \<times> 'w) run" where
  "iDoutClose Bd port s =
     cbind (no_mem (bd_close Bd) s) (\<lambda>(r, gp, m, w). Inr (r, gp, free (Some ()) (free (Some ()) m), w))"

section \<open>Inputs\<close>

definition DINPUT_POLL_DELAY :: int where "DINPUT_POLL_DELAY = 20"
definition eEdgeNone :: u32 where "eEdgeNone = 0"
definition eEdgeFalling :: u32 where "eEdgeFalling = 1"
definition eEdgeRising :: u32 where "eEdgeRising = 2"

text \<open>Callbacks and user data are known by numbers; the data of the handler of a group are the block of the pin.\<close>

datatype din_callback = UserCallback nat | iDinGrpHandlerCb
datatype din_udata = UserData "nat option" | PinData nat

record xDin =
  di_num :: int
  di_act :: bool
  di_pull :: int

record xDinCbContext =
  cx_edge :: u32
  cx_callback :: "din_callback option"
  cx_udata :: din_udata
  cx_edge_occurred :: u32

text \<open>\<open>di_grp\<close> is the block that the blocks of all pins of a group point to.\<close>

record xDinGrpData =
  gd_callback :: "nat option"
  gd_udata :: "nat option"

record xDinPort =
  di_pins :: "xDin list"
  di_ctx :: "xDinCbContext list"
  di_prev_values :: u32
  di_run :: bool
  di_grouped :: bool
  di_grp :: "xDinGrpData option"

text \<open>A callback of the application acts on the world; one that changes the port itself is not modelled.\<close>

record 'w din_env =
  de_callback :: "nat \<Rightarrow> u32 \<Rightarrow> nat option \<Rightarrow> 'w \<Rightarrow> int \<times> 'w"
  de_grp_callback :: "nat \<Rightarrow> u32 \<Rightarrow> nat \<Rightarrow> u32 \<Rightarrow> nat option \<Rightarrow> 'w \<Rightarrow> int \<times> 'w"
  de_delay_ms :: "int \<Rightarrow> 'w \<Rightarrow> 'w"

definition vSetCallback :: "nat \<Rightarrow> u32 \<Rightarrow> din_callback option \<Rightarrow> din_udata \<Rightarrow> xDinPort \<Rightarrow> xDinPort" where
  "vSetCallback p edge cb udata port =
     port\<lparr>di_ctx := (di_ctx port)[p := (di_ctx port ! p)\<lparr>cx_callback := cb, cx_udata := udata, cx_edge := edge\<rparr>]\<rparr>"

definition vClearCallback :: "nat \<Rightarrow> xDinPort \<Rightarrow> xDinPort" where
  "vClearCallback p port = port\<lparr>di_ctx := (di_ctx port)[p := (di_ctx port ! p)\<lparr>cx_callback := None\<rparr>]\<rparr>"

definition vSetEdge :: "nat \<Rightarrow> u32 \<Rightarrow> xDinPort \<Rightarrow> xDinPort" where
  "vSetEdge p edge port = port\<lparr>di_ctx := (di_ctx port)[p := (di_ctx port ! p)\<lparr>cx_edge := edge\<rparr>]\<rparr>"

definition iDinRead :: "'w gpio_arch \<Rightarrow> nat \<Rightarrow> xDinPort \<Rightarrow> 'w gst \<Rightarrow> (int \<times> 'w gst) run" where
  "iDinRead A i port s =
     (if i \<ge> length (di_pins port) then Inr (-1, s)
      else cbind (iGpioRead A (di_num (di_pins port ! i)) s) (\<lambda>(r, s).
             Inr (if r = level (di_act (di_pins port ! i)) then 1 else 0, s)))"

definition iDinReadAll :: "'w gpio_arch \<Rightarrow> xDinPort \<Rightarrow> 'w gst \<Rightarrow> (u32 \<times> 'w gst) run" where
  "iDinReadAll A port s = read_bits (\<lambda>i. iDinRead A i port) [0..<length (di_pins port)] 0 s"

definition iDinPortSize :: "xDinPort \<Rightarrow> int" where "iDinPortSize port = int (length (di_pins port))"

definition iDinGrpHandler ::
    "'w din_env \<Rightarrow> 'w gpio_arch \<Rightarrow> xDinPort \<Rightarrow> u32 \<Rightarrow> nat \<Rightarrow> 'w gst \<Rightarrow> (int \<times> 'w gst) run" where
  "iDinGrpHandler E A port edge pin s =
     cbind (deref (di_grp port)) (\<lambda>grp. case gd_callback grp of
        None \<Rightarrow> Inr (0, s)
      | Some c \<Rightarrow> cbind (iDinReadAll A port s) (\<lambda>(v, gp, w).
          let (r, w) = de_grp_callback E c v pin edge (gd_udata grp) w in Inr (r, gp, w)))"

text \<open>The call of the callback of a pin.\<close>

definition din_call :: "'w din_env \<Rightarrow> 'w gpio_arch \<Rightarrow> xDinPort \<Rightarrow> xDinCbContext \<Rightarrow> u32 \<Rightarrow> 'w gst \<Rightarrow> (int \<times> 'w gst) run" where
  "din_call E A port c edge s =
     (case (cx_callback c, cx_udata c) of
        (Some (UserCallback f), UserData d) \<Rightarrow> (let (r, w) = de_callback E f edge d (snd s) in Inr (r, fst s, w))
      | (Some iDinGrpHandlerCb, PinData pin) \<Rightarrow> iDinGrpHandler E A port edge pin s
      | (None, _) \<Rightarrow> Inr (0, s)
      | _ \<Rightarrow> Inl UseAfterFree)"

text \<open>A pin that has changed: the edge is noted, and the callback is called if it wants the edge.\<close>

definition din_event ::
    "'w din_env \<Rightarrow> 'w gpio_arch \<Rightarrow> nat \<Rightarrow> u32 \<Rightarrow> xDinPort \<Rightarrow> 'w gst \<Rightarrow> (int \<times> xDinPort \<times> 'w gst) run" where
  "din_event E A p edge port s =
     cbind (rd (di_ctx port) p) (\<lambda>c.
       let port = port\<lparr>di_ctx := (di_ctx port)[p := c\<lparr>cx_edge_occurred := edge AND cx_edge c\<rparr>]\<rparr> in
       if cx_edge c AND edge \<noteq> 0 \<and> cx_callback c \<noteq> None
       then cbind (din_call E A port c edge s) (\<lambda>(r, s). Inr (r, port, s))
       else Inr (0, port, s))"

text \<open>The loop over the bits of \<open>diff\<close>, from pin \<open>p\<close> on; a callback that does not return 0 stops the thread.\<close>

fun din_edges ::
    "'w din_env \<Rightarrow> 'w gpio_arch \<Rightarrow> nat \<Rightarrow> nat \<Rightarrow> u32 \<Rightarrow> u32 \<Rightarrow> u32 \<Rightarrow> xDinPort \<Rightarrow> 'w gst \<Rightarrow> (xDinPort \<times> 'w gst) run" where
  "din_edges E A 0 p msk diff values port s = Inr (port, s)"
| "din_edges E A (Suc n) p msk diff values port s =
     (if diff = 0 then Inr (port, s)
      else if diff AND msk \<noteq> 0 then
        cbind (din_event E A p (if values AND msk \<noteq> 0 then eEdgeRising else eEdgeFalling) port s) (\<lambda>(r, port, s).
          if r \<noteq> 0 then Inr (port\<lparr>di_run := False\<rparr>, s)
          else din_edges E A n (p + 1) (push_bit 1 msk) (diff AND NOT msk) values port s)
      else din_edges E A n (p + 1) (push_bit 1 msk) diff values port s)"

text \<open>One turn of the thread: a change counts when it is still there after a delay.\<close>

definition din_turn :: "'w din_env \<Rightarrow> 'w gpio_arch \<Rightarrow> xDinPort \<Rightarrow> 'w gst \<Rightarrow> (xDinPort \<times> 'w gst) run" where
  "din_turn E A port s =
     cbind (iDinReadAll A port s) (\<lambda>(values, gp, w).
     cbind (if values \<noteq> di_prev_values port then
              cbind (iDinReadAll A port (gp, de_delay_ms E DINPUT_POLL_DELAY w)) (\<lambda>(again, s).
                if values = again then
                  cbind (din_edges E A 32 0 1 (values XOR di_prev_values port) values port s) (\<lambda>(port, s).
                    Inr (port\<lparr>di_prev_values := values\<rparr>, s))
                else Inr (port, s))
            else Inr (port, gp, w)) (\<lambda>(port, gp, w).
       Inr (port, gp, de_delay_ms E DINPUT_POLL_DELAY w)))"

fun open_dins :: "'w gpio_arch \<Rightarrow> xDin list \<Rightarrow> 'w gst \<Rightarrow> (int \<times> 'w gst) run" where
  "open_dins A [] s = Inr (0, s)"
| "open_dins A (d # ds) s =
     cbind (iGpioSetMode A (di_num d) eModeInput s) (\<lambda>(r, s).
       if r \<noteq> 0 then Inr (-1, s)
       else cbind (iGpioSetPull A (di_num d) (di_pull d) s) (\<lambda>(r, s).
         if r \<noteq> 0 then Inr (-1, s) else open_dins A ds s))"

text \<open>\<open>started\<close> tells whether \<open>pthread_create\<close> succeeds.\<close>

definition xDinOpen ::
    "'w gpio_board \<Rightarrow> bool \<Rightarrow> xDin list \<Rightarrow> xGpio \<times> mem \<times> 'w \<Rightarrow> (xDinPort option \<times> xGpio \<times> mem \<times> 'w) run" where
  "xDinOpen Bd started pins s =
     (if pins = [] then Inr (None, s)
      else
        let (ok1, m) = malloc (fst (snd s)); (ok2, m) = malloc m in
        if \<not> ok1 \<or> \<not> ok2 then Inl AssertFailed
        else
          let undo = (\<lambda>(gp, m, w). Inr (None, gp, free (Some ()) (free (Some ()) m), w));
              fail = (\<lambda>(gp, m, w). cbind (bd_close Bd (gp, w)) (\<lambda>(_, gp, w). undo (gp, m, w)))
          in cbind (bd_open Bd (fst s, m, snd (snd s))) (\<lambda>(ok, gp, m, w).
               if \<not> ok then undo (gp, m, w)
               else
                 cbind (open_dins (bd_arch Bd) pins (gp, w)) (\<lambda>(r, gp, w).
                   if r \<noteq> 0 then fail (gp, m, w)
                   else
                     let (ok3, m) = malloc m in
                     if \<not> ok3 then Inl AssertFailed
                     else if \<not> started then fail (gp, free (Some ()) m, w)
                     else Inr (Some \<lparr>di_pins = pins,
                            di_ctx = replicate (length pins)
                              \<lparr>cx_edge = 0, cx_callback = None, cx_udata = UserData None, cx_edge_occurred = 0\<rparr>,
                            di_prev_values = 0, di_run = True, di_grouped = False, di_grp = None\<rparr>, gp, m, w))))"

definition iDinSetCallback :: "nat \<Rightarrow> u32 \<Rightarrow> nat option \<Rightarrow> nat option \<Rightarrow> xDinPort \<Rightarrow> int \<times> xDinPort" where
  "iDinSetCallback p edge cb udata port =
     (if p \<ge> length (di_pins port) \<or> di_grouped port then (-1, port)
      else (0, vSetCallback p edge (map_option UserCallback cb) (UserData udata) port))"

definition iDinClearCallback :: "nat \<Rightarrow> xDinPort \<Rightarrow> int \<times> xDinPort" where
  "iDinClearCallback p port =
     (if p \<ge> length (di_pins port) \<or> di_grouped port then (-1, port) else (0, vClearCallback p port))"

definition eDinGetEdge :: "nat \<Rightarrow> xDinPort \<Rightarrow> u32 run" where
  "eDinGetEdge p port =
     (if p \<ge> length (di_pins port) then Inr eEdgeNone else cbind (rd (di_ctx port) p) (\<lambda>c. Inr (cx_edge c)))"

definition iDinSetEdge :: "nat \<Rightarrow> u32 \<Rightarrow> xDinPort \<Rightarrow> int \<times> xDinPort" where
  "iDinSetEdge p edge port =
     (if p \<ge> length (di_pins port) then (-1, port)
      else if di_grouped port then (0, fold (\<lambda>p. vSetEdge p edge) [0..<length (di_pins port)] port)
      else (0, vSetEdge p edge port))"

definition iDinEdgeOccured :: "nat \<Rightarrow> xDinPort \<Rightarrow> (int \<times> xDinPort) run" where
  "iDinEdgeOccured p port =
     (if p < length (di_pins port) then
        cbind (rd (di_ctx port) p) (\<lambda>c.
          Inr (uint (cx_edge_occurred c), port\<lparr>di_ctx := (di_ctx port)[p := c\<lparr>cx_edge_occurred := eEdgeNone\<rparr>]\<rparr>))
      else Inr (-1, port))"

text \<open>The data of the user, or the block of a pin whose group has been taken away and which is freed.\<close>

definition pDinCallbackData :: "nat \<Rightarrow> xDinPort \<Rightarrow> din_udata run" where
  "pDinCallbackData p port =
     (if p \<ge> length (di_pins port) then Inr (UserData None)
      else cbind (rd (di_ctx port) p) (\<lambda>c.
        if di_grouped port then cbind (deref (di_grp port)) (\<lambda>g. Inr (UserData (gd_udata g)))
        else Inr (cx_udata c)))"

definition iDinCallbackInstalled :: "nat \<Rightarrow> xDinPort \<Rightarrow> int run" where
  "iDinCallbackInstalled p port =
     (if p \<ge> length (di_pins port) then Inr (-1)
      else cbind (rd (di_ctx port) p) (\<lambda>c. Inr (if cx_callback c \<noteq> None then 1 else 0)))"

text \<open>Each pin of the group has a block, and the group has one.\<close>

definition iDinClearGrpCallback :: "xDinPort \<times> mem \<Rightarrow> int \<times> xDinPort \<times> mem" where
  "iDinClearGrpCallback s =
     (let (port, m) = s in
      if di_grouped port then
        (0, fold vClearCallback [0..<length (di_pins port)] port\<lparr>di_grouped := False, di_grp := None\<rparr>,
         free (Some ()) (((\<lambda>m. free (Some ()) m) ^^ length (di_pins port)) m))
      else (-1, s))"

fun new_pin_blocks :: "nat list \<Rightarrow> u32 \<Rightarrow> xDinPort \<times> mem \<Rightarrow> (xDinPort \<times> mem) run" where
  "new_pin_blocks [] edge s = Inr s"
| "new_pin_blocks (pin # pins) edge s =
     (let (ok, m) = malloc (snd s) in
      if \<not> ok then Inl AssertFailed
      else new_pin_blocks pins edge (vSetCallback pin edge (Some iDinGrpHandlerCb) (PinData pin) (fst s), m))"

definition iDinSetGrpCallback :: "u32 \<Rightarrow> nat option \<Rightarrow> nat option \<Rightarrow> xDinPort \<times> mem \<Rightarrow> (int \<times> xDinPort \<times> mem) run" where
  "iDinSetGrpCallback edge cb udata s =
     (let s = (if di_grouped (fst s) then snd (iDinClearGrpCallback s) else s);
          (ok, m) = malloc (snd s)
      in if \<not> ok then Inl AssertFailed
         else
           cbind (new_pin_blocks [0..<length (di_pins (fst s))] edge
                    ((fst s)\<lparr>di_grp := Some \<lparr>gd_callback = cb, gd_udata = udata\<rparr>\<rparr>, m)) (\<lambda>(port, m).
             Inr (0, port\<lparr>di_grouped := True\<rparr>, m)))"

text \<open>The block of the contexts is not freed.\<close>

definition iDinClose :: "'w gpio_board \<Rightarrow> xDinPort \<Rightarrow> xGpio \<times> mem \<times> 'w \<Rightarrow> (int \<times> xGpio \<times> mem \<times> 'w) run" where
  "iDinClose Bd port s =
     (let (_, _, m) = iDinClearGrpCallback (port, fst (snd s)) in
      cbind (bd_close Bd (fst s, snd (snd s))) (\<lambda>(r, gp, w). Inr (r, gp, free (Some ()) (free (Some ()) m), w)))"

end
