(* ===== verification/Gpio_Laws.thy ===== *)
theory Gpio_Laws
  imports Dport
begin

text \<open>
  The interface of the pins of a board, and what follows from it for all boards: what the loops over all pins write, and
  that a port of outputs reads back what it was set to.
\<close>

section \<open>The interface of the pins\<close>

text \<open>What the functions on pins leave in place in the port.\<close>

definition port_of :: "xGpio \<Rightarrow> xPinList option \<times> int \<times> xIoMap option \<times> xIoMap option" where
  "port_of gp = (g_list gp, g_numbering gp, g_map0 gp, g_map1 gp)"

text \<open>\<open>pins\<close> are the pins that the board has, \<open>mode\<close> and \<open>lev\<close> their modes and levels, \<open>ok\<close> tells that the port is open.\<close>

locale gpio_pins =
  fixes A :: "'w gpio_arch"
    and pins :: "int set"
    and mode :: "'w gst \<Rightarrow> int \<Rightarrow> int"
    and lev :: "'w gst \<Rightarrow> int \<Rightarrow> bool"
    and ok :: "'w gst \<Rightarrow> bool"
  assumes pins_pos: "g \<in> pins \<Longrightarrow> 0 \<le> g"
    and set_law: "ok s \<Longrightarrow> g \<in> pins \<Longrightarrow> m \<in> {eModeInput, eModeOutput} \<Longrightarrow>
      \<exists>s1. ar_setmode A g m s = Inr (0, s1) \<and> ok s1 \<and> (\<forall>x \<in> pins. mode s1 x = (if x = g then m else mode s x)) \<and>
        (\<forall>x \<in> pins. lev s1 x = lev s x) \<and> port_of (fst s1) = port_of (fst s)"
    and get_law: "ok s \<Longrightarrow> g \<in> pins \<Longrightarrow>
      \<exists>s1. ar_getmode A g s = Inr (mode s g, s1) \<and> ok s1 \<and> (\<forall>x \<in> pins. mode s1 x = mode s x) \<and>
        (\<forall>x \<in> pins. lev s1 x = lev s x) \<and> port_of (fst s1) = port_of (fst s)"
    and write_law: "ok s \<Longrightarrow> g \<in> pins \<Longrightarrow> mode s g = eModeOutput \<Longrightarrow>
      \<exists>s1. ar_write A g b s = Inr (0, s1) \<and> ok s1 \<and> (\<forall>x \<in> pins. mode s1 x = mode s x) \<and>
        (\<forall>x \<in> pins. lev s1 x = (if x = g then b else lev s x)) \<and> port_of (fst s1) = port_of (fst s)"
    and read_law: "ok s \<Longrightarrow> g \<in> pins \<Longrightarrow>
      \<exists>s1. ar_read A g s = Inr (level (lev s g), s1) \<and> ok s1 \<and> (\<forall>x \<in> pins. mode s1 x = mode s x) \<and>
        (\<forall>x \<in> pins. lev s1 x = lev s x) \<and> port_of (fst s1) = port_of (fst s)"

text \<open>The number of a pin depends on the list and the numbering only.\<close>

lemma mcu_pin_port: "port_of gp1 = port_of gp \<Longrightarrow> iGpioMcuPin cl p gp1 = iGpioMcuPin cl p gp"
  by (auto simp: iGpioMcuPin_def port_of_def split: option.split)

lemma open_port: "port_of gp1 = port_of gp \<Longrightarrow> bGpioIsOpen gp1 = bGpioIsOpen gp \<and> loop_size gp1 = loop_size gp"
  by (simp add: bGpioIsOpen_def loop_size_def port_of_def)

text \<open>The bits of a mask that is shifted with its sign.\<close>

definition sel :: "u64 \<Rightarrow> nat \<Rightarrow> bool" where
  "sel v k = bit v (min k 63)"

lemma sel_drop: "sel (signed_drop_bit 1 v) k = sel v (Suc k)"
  by (auto simp: sel_def bit_signed_drop_bit_iff min_def)

lemma sel_zero [simp]: "sel 0 k = False"
  by (simp add: sel_def)

lemma sel_first: "sel v 0 \<longleftrightarrow> v AND 1 \<noteq> 0"
  by (simp add: sel_def and_one_eq mod_2_eq_odd bit_0)

text \<open>\<open>named\<close>: the numbers of the pins of a port.\<close>

definition named :: "xConnectorList \<Rightarrow> int set \<Rightarrow> xGpio \<Rightarrow> (int \<Rightarrow> int) \<Rightarrow> nat \<Rightarrow> bool" where
  "named cl pins gp mcu n \<longleftrightarrow> (\<forall>p. 0 \<le> p \<and> p < int n \<longrightarrow> iGpioMcuPin cl p gp = Inr (mcu p) \<and> (mcu p < 0 \<or> mcu p \<in> pins))"

lemma named_port: "named cl pins gp mcu n \<Longrightarrow> port_of gp1 = port_of gp \<Longrightarrow> named cl pins gp1 mcu n"
  using mcu_pin_port [of gp1 gp cl] by (simp add: named_def)

context gpio_pins
begin

definition same :: "'w gst \<Rightarrow> 'w gst \<Rightarrow> bool" where
  "same s s1 \<longleftrightarrow> ok s1 \<and> (\<forall>x \<in> pins. mode s1 x = mode s x) \<and> port_of (fst s1) = port_of (fst s)"

lemma same_trans: "same s s1 \<Longrightarrow> same s1 s2 \<Longrightarrow> same s s2"
  by (simp add: same_def)

lemma same_pin: "same s s1 \<Longrightarrow> iGpioMcuPin cl p (fst s1) = iGpioMcuPin cl p (fst s)"
  by (rule mcu_pin_port) (simp add: same_def)

lemma same_named: "same s s1 \<Longrightarrow> named cl P (fst s) mcu n \<Longrightarrow> named cl P (fst s1) mcu n"
  by (rule named_port) (simp_all add: same_def)

lemma get_pin:
  assumes "ok s" "iGpioMcuPin (ar_conn A) p (fst s) = Inr g" "g \<in> pins"
  shows "\<exists>s1. eGpioGetMode A p s = Inr (mode s g, s1) \<and> same s s1 \<and> (\<forall>x \<in> pins. lev s1 x = lev s x)"
  using get_law [OF assms(1,3)] pins_pos [OF assms(3)] assms(2) by (auto simp: eGpioGetMode_def on_pin_def same_def)

lemma write_pin:
  assumes "ok s" "iGpioMcuPin (ar_conn A) p (fst s) = Inr g" "g \<in> pins" "mode s g = eModeOutput"
  shows "\<exists>s1. iGpioWrite A p b s = Inr (0, s1) \<and> same s s1 \<and> (\<forall>x \<in> pins. lev s1 x = (if x = g then b else lev s x))"
  using write_law [OF assms(1,3,4), of b] pins_pos [OF assms(3)] assms(2) by (auto simp: iGpioWrite_def on_pin_def same_def)

lemma read_pin:
  assumes "ok s" "iGpioMcuPin (ar_conn A) p (fst s) = Inr g" "g \<in> pins"
  shows "\<exists>s1. iGpioRead A p s = Inr (level (lev s g), s1) \<and> same s s1 \<and> (\<forall>x \<in> pins. lev s1 x = lev s x)"
  using read_law [OF assms(1,3)] pins_pos [OF assms(3)] assms(2) by (auto simp: iGpioRead_def on_pin_def same_def)

text \<open>The loop writes the outputs that the mask selects.\<close>

lemma each_output_writes:
  "\<lbrakk>ok s; named (ar_conn A) pins (fst s) mcu N; 0 \<le> p; nat p + n \<le> N\<rbrakk> \<Longrightarrow>
    \<exists>s1. each_output A (\<lambda>p. iGpioWrite A p b) n p m s = Inr (0, s1) \<and> same s s1 \<and>
      (\<forall>x \<in> pins. lev s1 x = (if (\<exists>k<n. sel m k \<and> mcu (p + int k) = x) \<and> mode s x = eModeOutput then b else lev s x))"
proof (induction n arbitrary: p m s)
  case 0
  then show ?case by (simp add: same_def)
next
  case (Suc n)
  show ?case
  proof (cases "m = 0")
    case True
    with Suc.prems show ?thesis by (simp add: same_def)
  next
    case False
    have p: "iGpioMcuPin (ar_conn A) p (fst s) = Inr (mcu p)" "mcu p < 0 \<or> mcu p \<in> pins"
      using Suc.prems(2-4) by (auto simp: named_def)
    have valid: "bGpioIsValid (ar_conn A) p (fst s) = Inr (0 \<le> mcu p)" by (simp add: bGpioIsValid_def p)
    have step: "(\<exists>k<Suc n. sel m k \<and> mcu (p + int k) = x) \<longleftrightarrow>
        (sel m 0 \<and> mcu p = x) \<or> (\<exists>k<n. sel (signed_drop_bit 1 m) k \<and> mcu (p + 1 + int k) = x)" for x
      unfolding Ex_less_Suc2 sel_drop by (simp add: ac_simps)
    have IH: "\<exists>s2. each_output A (\<lambda>p. iGpioWrite A p b) n (p + 1) (signed_drop_bit 1 m) s1 = Inr (0, s2) \<and> same s s2 \<and>
      (\<forall>x \<in> pins. lev s2 x = (if (\<exists>k<n. sel (signed_drop_bit 1 m) k \<and> mcu (p + 1 + int k) = x) \<and> mode s x = eModeOutput
         then b else lev s1 x))" if "same s s1" for s1
    proof -
      have "ok s1" "named (ar_conn A) pins (fst s1) mcu N" "\<forall>x \<in> pins. mode s1 x = mode s x"
        using that same_named [OF that Suc.prems(2)] by (simp_all add: same_def)
      moreover have "0 \<le> p + 1" "nat (p + 1) + n \<le> N" using Suc.prems(3,4) by auto
      ultimately show ?thesis using Suc.IH [of s1 "p + 1" "signed_drop_bit 1 m"] same_trans [OF that] by fastforce
    qed
    show ?thesis
    proof (cases "0 \<le> mcu p \<and> sel m 0")
      case False
      with IH [of s] Suc.prems(1) obtain s2 where
        "each_output A (\<lambda>p. iGpioWrite A p b) (Suc n) p m s = Inr (0, s2)" "same s s2"
        "\<forall>x \<in> pins. lev s2 x = (if (\<exists>k<n. sel (signed_drop_bit 1 m) k \<and> mcu (p + 1 + int k) = x) \<and> mode s x = eModeOutput
         then b else lev s x)"
        using \<open>m \<noteq> 0\<close> by (auto simp: valid sel_first same_def)
      with False pins_pos show ?thesis unfolding step by fastforce
    next
      case True
      then have pin: "mcu p \<in> pins" using p(2) by simp
      obtain s1 where get: "eGpioGetMode A p s = Inr (mode s (mcu p), s1)" "same s s1" "\<forall>x \<in> pins. lev s1 x = lev s x"
        using get_pin [OF Suc.prems(1) p(1) pin] by blast
      show ?thesis
      proof (cases "mode s (mcu p) = eModeOutput")
        case no: False
        obtain s2 where s2: "each_output A (\<lambda>p. iGpioWrite A p b) n (p + 1) (signed_drop_bit 1 m) s1 = Inr (0, s2)" "same s s2"
          "\<forall>x \<in> pins. lev s2 x = (if (\<exists>k<n. sel (signed_drop_bit 1 m) k \<and> mcu (p + 1 + int k) = x) \<and> mode s x = eModeOutput
           then b else lev s1 x)"
          using IH [OF get(2)] by blast
        then have "each_output A (\<lambda>p. iGpioWrite A p b) (Suc n) p m s = Inr (0, s2)"
          using True no \<open>m \<noteq> 0\<close> get(1) by (simp add: valid sel_first)
        with s2(2,3) no get(3) show ?thesis unfolding step by (intro exI [of _ s2]) auto
      next
        case yes: True
        have s1: "ok s1" "iGpioMcuPin (ar_conn A) p (fst s1) = Inr (mcu p)" "mode s1 (mcu p) = eModeOutput"
          using get(2) p(1) pin yes same_pin [OF get(2), of "ar_conn A" p] by (simp_all add: same_def)
        obtain s2 where wr: "iGpioWrite A p b s1 = Inr (0, s2)" "same s1 s2"
            "\<forall>x \<in> pins. lev s2 x = (if x = mcu p then b else lev s1 x)"
          using write_pin [OF s1(1,2) pin s1(3)] by blast
        obtain s3 where s3: "each_output A (\<lambda>p. iGpioWrite A p b) n (p + 1) (signed_drop_bit 1 m) s2 = Inr (0, s3)" "same s s3"
          "\<forall>x \<in> pins. lev s3 x = (if (\<exists>k<n. sel (signed_drop_bit 1 m) k \<and> mcu (p + 1 + int k) = x) \<and> mode s x = eModeOutput
           then b else lev s2 x)"
          using IH [OF same_trans [OF get(2) wr(2)]] by blast
        have "each_output A (\<lambda>p. iGpioWrite A p b) (Suc n) p m s = Inr (0, s3)"
          using True yes \<open>m \<noteq> 0\<close> get(1) wr(1) s3(1) by (simp add: valid sel_first)
        with s3(2,3) wr(3) get(3) True yes show ?thesis unfolding step by (intro exI [of _ s3]) auto
      qed
    qed
  qed
qed

lemma write_all:
  assumes "ok s" "bGpioIsOpen (fst s)" "loop_size (fst s) = Inr n" "named (ar_conn A) pins (fst s) mcu n"
  shows "\<exists>s1. iGpioWriteAll A m b s = Inr (0, s1) \<and> same s s1 \<and>
    (\<forall>x \<in> pins. lev s1 x = (if (\<exists>k<n. sel m k \<and> mcu (int k) = x) \<and> mode s x = eModeOutput then b else lev s x))"
  using each_output_writes [OF assms(1,4), where p = 0 and n = n and m = m and b = b] assms(2,3) by (simp add: iGpioWriteAll_def)

text \<open>A port of outputs on pins with numbers below 31, whose pins are different.\<close>

definition dout_pins :: "xDout list \<Rightarrow> (int \<Rightarrow> int) \<Rightarrow> nat \<Rightarrow> bool" where
  "dout_pins ds mcu n \<longleftrightarrow> (\<forall>d \<in> set ds. 0 \<le> do_num d \<and> do_num d < int n \<and> do_num d < 31 \<and> mcu (do_num d) \<in> pins) \<and>
     distinct (map (\<lambda>d. mcu (do_num d)) ds)"

definition dout_masks :: "xDoutPort \<Rightarrow> bool" where
  "dout_masks port \<longleftrightarrow> (\<forall>k. bit (do_set_mask port) k \<longleftrightarrow> (\<exists>d \<in> set (do_pins port). do_act d \<and> do_num d = int k)) \<and>
     (\<forall>k. bit (do_clr_mask port) k \<longleftrightarrow> (\<exists>d \<in> set (do_pins port). \<not> do_act d \<and> do_num d = int k))"

definition dout_ready :: "xDoutPort \<Rightarrow> (int \<Rightarrow> int) \<Rightarrow> nat \<Rightarrow> 'w gst \<Rightarrow> bool" where
  "dout_ready port mcu n s \<longleftrightarrow> ok s \<and> bGpioIsOpen (fst s) \<and> loop_size (fst s) = Inr n \<and> named (ar_conn A) pins (fst s) mcu n \<and>
     dout_pins (do_pins port) mcu n \<and> dout_masks port \<and> (\<forall>d \<in> set (do_pins port). mode s (mcu (do_num d)) = eModeOutput)"

lemma ready_same: "dout_ready port mcu n s \<Longrightarrow> same s s1 \<Longrightarrow> dout_ready port mcu n s1"
  using open_port [of "fst s1" "fst s"] same_named [of s s1 "ar_conn A" pins mcu n]
  by (auto simp: dout_ready_def dout_pins_def same_def)

text \<open>The opening of the pins sets their modes and collects the masks.\<close>

lemma open_douts_ready:
  "\<lbrakk>ok s; named (ar_conn A) pins (fst s) mcu n; dout_pins ds mcu n\<rbrakk> \<Longrightarrow>
    \<exists>a c s1. open_douts A ds port s = Inr (0, port\<lparr>do_set_mask := a, do_clr_mask := c\<rparr>, s1) \<and> ok s1 \<and>
      port_of (fst s1) = port_of (fst s) \<and>
      (\<forall>x \<in> pins. mode s1 x = (if \<exists>d \<in> set ds. mcu (do_num d) = x then eModeOutput else mode s x)) \<and>
      (\<forall>k. bit a k \<longleftrightarrow> bit (do_set_mask port) k \<or> (\<exists>d \<in> set ds. do_act d \<and> do_num d = int k)) \<and>
      (\<forall>k. bit c k \<longleftrightarrow> bit (do_clr_mask port) k \<or> (\<exists>d \<in> set ds. \<not> do_act d \<and> do_num d = int k))"
proof (induction ds arbitrary: port s)
  case Nil
  then show ?case by (intro exI [of _ "do_set_mask port"] exI [of _ "do_clr_mask port"]) simp
next
  case (Cons d ds)
  have d: "0 \<le> do_num d" "do_num d < int n" "do_num d < 31" "mcu (do_num d) \<in> pins" and ds: "dout_pins ds mcu n"
    using Cons.prems(3) by (auto simp: dout_pins_def)
  have num: "iGpioMcuPin (ar_conn A) (do_num d) (fst s) = Inr (mcu (do_num d))" using Cons.prems(2) d(1,2) by (simp add: named_def)
  obtain s1 where set: "ar_setmode A (mcu (do_num d)) eModeOutput s = Inr (0, s1)" "ok s1"
      "\<forall>x \<in> pins. mode s1 x = (if x = mcu (do_num d) then eModeOutput else mode s x)" "port_of (fst s1) = port_of (fst s)"
    using set_law [OF Cons.prems(1) d(4), of eModeOutput] by auto
  have gpio: "iGpioSetMode A (do_num d) eModeOutput s = Inr (0, s1)"
    using set(1) num pins_pos [OF d(4)] by (simp add: iGpioSetMode_def on_pin_def)
  have bv: "bv (do_num d) = Inr (push_bit (nat (do_num d)) 1)" using d(1,3) by (simp add: bv_def)
  have one: "bit (push_bit (nat (do_num d)) (1 :: u32)) k \<longleftrightarrow> do_num d = int k" for k
    using d(1,3) by (auto simp: bit_simps)
  have named1: "named (ar_conn A) pins (fst s1) mcu n" by (rule named_port [OF Cons.prems(2) set(4)])
  define port1 where "port1 = (if do_act d then port\<lparr>do_set_mask := do_set_mask port OR push_bit (nat (do_num d)) 1\<rparr>
    else port\<lparr>do_clr_mask := do_clr_mask port OR push_bit (nat (do_num d)) 1\<rparr>)"
  have step: "open_douts A (d # ds) port s = open_douts A ds port1 s1"
    by (simp add: gpio bv port1_def)
  from Cons.IH [OF set(2) named1 ds, of port1] obtain a c s2 where
    run: "open_douts A ds port1 s1 = Inr (0, port1\<lparr>do_set_mask := a, do_clr_mask := c\<rparr>, s2)" "ok s2"
      "port_of (fst s2) = port_of (fst s1)"
      "\<forall>x \<in> pins. mode s2 x = (if \<exists>d \<in> set ds. mcu (do_num d) = x then eModeOutput else mode s1 x)"
      "\<forall>k. bit a k \<longleftrightarrow> bit (do_set_mask port1) k \<or> (\<exists>d \<in> set ds. do_act d \<and> do_num d = int k)"
      "\<forall>k. bit c k \<longleftrightarrow> bit (do_clr_mask port1) k \<or> (\<exists>d \<in> set ds. \<not> do_act d \<and> do_num d = int k)"
    by blast
  have "port1\<lparr>do_set_mask := a, do_clr_mask := c\<rparr> = port\<lparr>do_set_mask := a, do_clr_mask := c\<rparr>" by (simp add: port1_def)
  moreover have "bit (do_set_mask port1) k \<longleftrightarrow> bit (do_set_mask port) k \<or> do_act d \<and> do_num d = int k" for k
    unfolding port1_def using one by (simp add: bit_or_iff)
  moreover have "bit (do_clr_mask port1) k \<longleftrightarrow> bit (do_clr_mask port) k \<or> \<not> do_act d \<and> do_num d = int k" for k
    unfolding port1_def using one by (simp add: bit_or_iff)
  ultimately show ?case
    unfolding step using run set(3,4) by (intro exI [of _ a] exI [of _ c] exI [of _ s2]) auto
qed

text \<open>Setting and clearing all outputs.\<close>

lemma sel_scast:
  assumes "\<not> bit v 31"
  shows "sel (scast (v :: u32)) k \<longleftrightarrow> bit v k"
proof (cases "k < 31")
  case False
  with assms bit_imp_le_length [of v k] have "\<not> bit v k" by (cases "k = 31") auto
  with False assms show ?thesis by (auto simp: sel_def bit_simps min_def)
qed (simp add: sel_def bit_simps)

lemma dout_level:
  assumes ready: "dout_ready port mcu n s"
  shows "\<exists>s1. cbind (iGpioWriteAll A (scast (do_set_mask port)) b s) (\<lambda>(r, s).
       if r = 0 then iGpioWriteAll A (scast (do_clr_mask port)) (\<not> b) s else Inr (-1, s)) = Inr (0, s1) \<and> same s s1 \<and>
    (\<forall>d \<in> set (do_pins port). lev s1 (mcu (do_num d)) = (do_act d = b))"
proof -
  note r = ready [unfolded dout_ready_def]
  have masks: "dout_masks port" and pins: "dout_pins (do_pins port) mcu n" using r by blast+
  have low: "\<not> bit (do_set_mask port) 31" "\<not> bit (do_clr_mask port) 31"
    using masks pins by (auto simp: dout_masks_def dout_pins_def)
  obtain s1 where w1: "iGpioWriteAll A (scast (do_set_mask port)) b s = Inr (0, s1)" "same s s1"
      "\<forall>x \<in> pins. lev s1 x = (if (\<exists>k<n. bit (do_set_mask port) k \<and> mcu (int k) = x) \<and> mode s x = eModeOutput then b else lev s x)"
    using write_all [of s n mcu "scast (do_set_mask port)" b] r low by (auto simp: sel_scast)
  note r1 = ready_same [OF ready w1(2), unfolded dout_ready_def]
  obtain s2 where w2: "iGpioWriteAll A (scast (do_clr_mask port)) (\<not> b) s1 = Inr (0, s2)" "same s1 s2"
      "\<forall>x \<in> pins. lev s2 x = (if (\<exists>k<n. bit (do_clr_mask port) k \<and> mcu (int k) = x) \<and> mode s1 x = eModeOutput then \<not> b else lev s1 x)"
    using write_all [of s1 n mcu "scast (do_clr_mask port)" "\<not> b"] r1 low by (auto simp: sel_scast)
  have "lev s2 (mcu (do_num d)) = (do_act d = b)" if d: "d \<in> set (do_pins port)" for d
  proof -
    have num: "0 \<le> do_num d" "do_num d < int n" "mcu (do_num d) \<in> pins" using pins d by (auto simp: dout_pins_def)
    have other: "e = d" if "e \<in> set (do_pins port)" "mcu (do_num e) = mcu (do_num d)" for e
      using pins that d by (auto simp: dout_pins_def distinct_map dest: inj_onD)
    have hit: "(\<exists>k<n. int k = do_num d)" using num by (intro exI [of _ "nat (do_num d)"]) auto
    have "(\<exists>k<n. bit (do_set_mask port) k \<and> mcu (int k) = mcu (do_num d)) \<longleftrightarrow> do_act d"
      using masks other d hit unfolding dout_masks_def by metis
    moreover have "(\<exists>k<n. bit (do_clr_mask port) k \<and> mcu (int k) = mcu (do_num d)) \<longleftrightarrow> \<not> do_act d"
      using masks other d hit unfolding dout_masks_def by metis
    moreover have "mode s (mcu (do_num d)) = eModeOutput" "mode s1 (mcu (do_num d)) = eModeOutput" using r r1 d by blast+
    ultimately show ?thesis using w1(3) w2(3) num(3) by auto
  qed
  with w1 w2 same_trans [OF w1(2) w2(2)] show ?thesis by auto
qed

lemma set_all: "dout_ready port mcu n s \<Longrightarrow> \<exists>s1. iDoutSetAll A port s = Inr (0, s1) \<and> same s s1 \<and>
    (\<forall>d \<in> set (do_pins port). lev s1 (mcu (do_num d)) = do_act d)"
  using dout_level [of port mcu n s True] unfolding iDoutSetAll_def not_True_eq_False by simp

lemma clear_all: "dout_ready port mcu n s \<Longrightarrow> \<exists>s1. iDoutClearAll A port s = Inr (0, s1) \<and> same s s1 \<and>
    (\<forall>d \<in> set (do_pins port). lev s1 (mcu (do_num d)) = (\<not> do_act d))"
  using dout_level [of port mcu n s False] unfolding iDoutClearAll_def not_False_eq_True by simp

text \<open>Reading them.\<close>

lemma read_one:
  assumes ready: "dout_ready port mcu n s" and i: "i < length (do_pins port)"
  shows "\<exists>s1. iDoutRead A i port s =
      Inr (if lev s (mcu (do_num (do_pins port ! i))) = do_act (do_pins port ! i) then 1 else 0, s1) \<and> same s s1 \<and>
    (\<forall>x \<in> pins. lev s1 x = lev s x)"
proof -
  let ?d = "do_pins port ! i"
  have "?d \<in> set (do_pins port)" using i by simp
  then have num: "0 \<le> do_num ?d" "do_num ?d < int n" "mcu (do_num ?d) \<in> pins" "ok s" "named (ar_conn A) pins (fst s) mcu n"
    using ready by (auto simp: dout_ready_def dout_pins_def)
  then have "iGpioMcuPin (ar_conn A) (do_num ?d) (fst s) = Inr (mcu (do_num ?d))" by (simp add: named_def)
  from read_pin [OF num(4) this num(3)] obtain s1 where
    "iGpioRead A (do_num ?d) s = Inr (level (lev s (mcu (do_num ?d))), s1)" "same s s1" "\<forall>x \<in> pins. lev s1 x = lev s x" by blast
  then show ?thesis using i by (auto simp: iDoutRead_def on_dout_def level_def)
qed

lemma read_all:
  "\<lbrakk>dout_ready port mcu n s; \<forall>i \<in> set is. i < length (do_pins port) \<and> i < 32\<rbrakk> \<Longrightarrow>
    \<exists>v1 s1. read_bits (\<lambda>i. iDoutRead A i port) is v s = Inr (v1, s1) \<and> same s s1 \<and>
      (\<forall>k. bit v1 k \<longleftrightarrow> bit v k \<or>
         k \<in> set is \<and> lev s (mcu (do_num (do_pins port ! k))) = do_act (do_pins port ! k))"
proof (induction "is" arbitrary: v s)
  case Nil
  then show ?case by (simp add: same_def dout_ready_def)
next
  case (Cons i "is")
  obtain s1 where rd: "iDoutRead A i port s =
      Inr (if lev s (mcu (do_num (do_pins port ! i))) = do_act (do_pins port ! i) then 1 else 0, s1)" "same s s1"
    "\<forall>x \<in> pins. lev s1 x = lev s x"
    using read_one [OF Cons.prems(1), of i] Cons.prems(2) by auto
  have lev: "lev s1 (mcu (do_num (do_pins port ! k))) = lev s (mcu (do_num (do_pins port ! k)))" if "k < length (do_pins port)" for k
    using rd(3) Cons.prems(1) that by (auto simp: dout_ready_def dout_pins_def)
  have i: "i < 32" using Cons.prems(2) by simp
  have bv: "bv (int i) = Inr (push_bit i 1)" using i by (simp add: bv_def)
  have one: "bit (push_bit i (1 :: u32)) k \<longleftrightarrow> k = i" for k using i by (auto simp: bit_simps)
  let ?v = "if lev s (mcu (do_num (do_pins port ! i))) = do_act (do_pins port ! i) then v OR push_bit i 1 else v"
  obtain v1 s2 where IH: "read_bits (\<lambda>i. iDoutRead A i port) is ?v s1 = Inr (v1, s2)" "same s1 s2"
    "\<forall>k. bit v1 k \<longleftrightarrow> bit ?v k \<or> k \<in> set is \<and> lev s1 (mcu (do_num (do_pins port ! k))) = do_act (do_pins port ! k)"
    using Cons.IH [OF ready_same [OF Cons.prems(1) rd(2)], of ?v] Cons.prems(2) by auto
  have "read_bits (\<lambda>i. iDoutRead A i port) (i # is) v s = Inr (v1, s2)"
    using IH(1) by (cases "lev s (mcu (do_num (do_pins port ! i))) = do_act (do_pins port ! i)")
      (simp_all add: rd(1) bv del: push_bit_of_1)
  moreover have "bit v1 k \<longleftrightarrow> bit v k \<or> k \<in> set (i # is) \<and> lev s (mcu (do_num (do_pins port ! k))) = do_act (do_pins port ! k)" for k
  proof -
    have "bit ?v k \<longleftrightarrow> bit v k \<or> k = i \<and> lev s (mcu (do_num (do_pins port ! k))) = do_act (do_pins port ! k)"
      using one by (auto simp: bit_or_iff)
    with IH(3) lev Cons.prems(2) show ?thesis by auto
  qed
  ultimately show ?case using same_trans [OF rd(2) IH(2)] by blast
qed

text \<open>A port of outputs: after its pins have been opened, all are set and read as set, and cleared and read as cleared.\<close>

lemma dout_cycle:
  assumes "ok s" "bGpioIsOpen (fst s)" "loop_size (fst s) = Inr n" "named (ar_conn A) pins (fst s) mcu n" "dout_pins ds mcu n"
    and "length ds \<le> 32"
  shows "\<exists>port s1 s2 s3 s4 s5. open_douts A ds \<lparr>do_pins = ds, do_set_mask = 0, do_clr_mask = 0\<rparr> s = Inr (0, port, s1) \<and>
    iDoutSetAll A port s1 = Inr (0, s2) \<and> iDoutReadAll A port s2 = Inr (mask (length ds), s3) \<and>
    iDoutClearAll A port s3 = Inr (0, s4) \<and> iDoutReadAll A port s4 = Inr (0, s5)"
proof -
  obtain a c s1 where op: "open_douts A ds \<lparr>do_pins = ds, do_set_mask = 0, do_clr_mask = 0\<rparr> s =
      Inr (0, \<lparr>do_pins = ds, do_set_mask = a, do_clr_mask = c\<rparr>, s1)" "ok s1" "port_of (fst s1) = port_of (fst s)"
    "\<forall>x \<in> pins. mode s1 x = (if \<exists>d \<in> set ds. mcu (do_num d) = x then eModeOutput else mode s x)"
    "\<forall>k. bit a k \<longleftrightarrow> (\<exists>d \<in> set ds. do_act d \<and> do_num d = int k)"
    "\<forall>k. bit c k \<longleftrightarrow> (\<exists>d \<in> set ds. \<not> do_act d \<and> do_num d = int k)"
    using open_douts_ready [OF assms(1,4,5), of "\<lparr>do_pins = ds, do_set_mask = 0, do_clr_mask = 0\<rparr>"] by auto
  define port where "port = \<lparr>do_pins = ds, do_set_mask = a, do_clr_mask = c\<rparr>"
  have ds: "do_pins port = ds" by (simp add: port_def)
  have ready: "dout_ready port mcu n s1"
    using op assms(2-5) open_port [OF op(3)] named_port [OF assms(4) op(3)]
    by (auto simp: dout_ready_def dout_masks_def port_def dout_pins_def)
  obtain s2 where s2: "iDoutSetAll A port s1 = Inr (0, s2)" "same s1 s2" "\<forall>d \<in> set ds. lev s2 (mcu (do_num d)) = do_act d"
    using set_all [OF ready] ds by auto
  note ready2 = ready_same [OF ready s2(2)]
  obtain v s3 where s3: "iDoutReadAll A port s2 = Inr (v, s3)" "same s2 s3"
    "\<forall>k. bit v k \<longleftrightarrow> k \<in> set [0..<length ds] \<and> lev s2 (mcu (do_num (ds ! k))) = do_act (ds ! k)"
    using read_all [OF ready2, of "[0..<length ds]" 0] assms(6) by (auto simp: iDoutReadAll_def ds)
  have "v = mask (length ds)"
    using s3(3) s2(3) assms(6) by (intro bit_word_eqI) (auto simp: bit_mask_iff)
  note ready3 = ready_same [OF ready2 s3(2)]
  obtain s4 where s4: "iDoutClearAll A port s3 = Inr (0, s4)" "same s3 s4" "\<forall>d \<in> set ds. lev s4 (mcu (do_num d)) = (\<not> do_act d)"
    using clear_all [OF ready3] ds by auto
  obtain v2 s5 where s5: "iDoutReadAll A port s4 = Inr (v2, s5)"
    "\<forall>k. bit v2 k \<longleftrightarrow> k \<in> set [0..<length ds] \<and> lev s4 (mcu (do_num (ds ! k))) = do_act (ds ! k)"
    using read_all [OF ready_same [OF ready3 s4(2)], of "[0..<length ds]" 0] assms(6) by (auto simp: iDoutReadAll_def ds)
  have "v2 = 0" using s5(2) s4(3) by (intro bit_word_eqI) auto
  with op(1) [folded port_def] s2(1) s3(1) s4(1) s5(1) \<open>v = mask (length ds)\<close> show ?thesis by blast
qed

end

end
