(* ===== verification/Gpio_Boards.thy ===== *)
theory Gpio_Boards
  imports Gpio_Laws Gpio_Nanopi Gpio_Rpi
begin

text \<open>
  The two families of boards provide the interface of the pins, on registers that behave as the manuals of their processors
  say.  On the NanoPi all registers are memory; on the Raspberry Pi the registers that set and clear pins change the
  level of the pins that are outputs.
\<close>

section \<open>Registers that are memory\<close>

definition reg_mem :: "'w iosys \<Rightarrow> ('w \<Rightarrow> nat \<Rightarrow> nat \<Rightarrow> u32) \<Rightarrow> bool" where
  "reg_mem K regs \<longleftrightarrow>
     (\<forall>h i w. \<exists>w1. os_get K h i w = (regs w h i, w1) \<and> regs w1 = regs w) \<and>
     (\<forall>h i v w. regs (os_put K h i v w) = (regs w)(h := (regs w h)(i := v))) \<and>
     (\<forall>n w. regs (os_delay_us K n w) = regs w)"

definition mapped :: "xIoMap option \<Rightarrow> bool" where
  "mapped p \<longleftrightarrow> (\<exists>m h. p = Some m \<and> io_io m = Some h \<and> io_size m = 4096)"

definition handle :: "xIoMap option \<Rightarrow> nat" where
  "handle p = the (io_io (the p))"

lemma pIo_ok: "mapped p \<Longrightarrow> i < 1024 \<Longrightarrow> pIo p i = Inr (handle p, i)"
  by (auto simp: mapped_def pIo_def handle_def)

lemma io_get_ok:
  assumes "reg_mem K regs" "mapped p" "i < 1024"
  shows "\<exists>w1. io_get K p i w = Inr (regs w (handle p) i, w1) \<and> regs w1 = regs w"
  using assms pIo_ok [OF assms(2,3)] by (auto simp: io_get_def reg_mem_def)

lemma io_upd_ok:
  assumes "reg_mem K regs" "mapped p" "i < 1024"
  shows "\<exists>w1. io_upd K p i f w = Inr w1 \<and> regs w1 = (regs w)(handle p := (regs w (handle p))(i := f (regs w (handle p) i)))"
proof -
  obtain w1 where w1: "io_get K p i w = Inr (regs w (handle p) i, w1)" "regs w1 = regs w" using io_get_ok [OF assms] by blast
  have "regs (os_put K (handle p) i v w1) = (regs w1)(handle p := (regs w1 (handle p))(i := v))" for v
    using assms(1) by (simp add: reg_mem_def)
  with w1 pIo_ok [OF assms(2,3)] show ?thesis by (simp add: io_upd_def io_put_def)
qed

text \<open>A field of some bits is replaced, the other bits stay.\<close>

lemma field_put:
  fixes v m :: u32
  assumes "m < 2 ^ k" "n + k \<le> 32"
  shows "bit ((v AND NOT (push_bit n (mask k))) OR push_bit n m) i \<longleftrightarrow> (if n \<le> i \<and> i < n + k then bit m (i - n) else bit v i)"
  using assms bit_below [OF assms(1), of "i - n"] bit_imp_le_length [of v i] bit_imp_le_length [of m "i - n"]
  by (auto simp: bit_simps)

lemma field_clear:
  fixes v :: u32
  assumes "n + k \<le> 32"
  shows "bit (v AND NOT (push_bit n (mask k))) i \<longleftrightarrow> (\<not> (n \<le> i \<and> i < n + k) \<and> bit v i)"
  using assms bit_imp_le_length [of v i] by (auto simp: bit_simps)

lemma drop_eq:
  fixes v v1 :: u32
  assumes "\<And>j. j < k \<Longrightarrow> bit v1 (n + j) = bit v (n + j)"
  shows "drop_bit n v1 AND mask k = drop_bit n v AND mask k"
  using assms by (intro bit_word_eqI) (auto simp: bit_simps)

lemma fields:
  fixes v m :: u32
  assumes "m < 2 ^ k" "n + k \<le> 32" "3 \<le> k"
  shows "drop_bit n ((v AND NOT (push_bit n (mask k))) OR push_bit n m) AND 7 = m AND 7"
    and "n1 + k \<le> n \<or> n + k \<le> n1 \<Longrightarrow> drop_bit n1 ((v AND NOT (push_bit n (mask k))) OR push_bit n m) AND 7 = drop_bit n1 v AND 7"
proof -
  have masks: "(7 :: u32) = mask 3" by (simp_all add: mask_eq_exp_minus_1)
  show "drop_bit n ((v AND NOT (push_bit n (mask k))) OR push_bit n m) AND 7 = m AND 7"
    unfolding masks using assms(2,3) by (intro bit_word_eqI)
      (auto simp: bit_and_iff bit_drop_bit_eq field_put [OF assms(1,2)] bit_mask_iff simp del: drop_bit_and drop_bit_or)
  show "drop_bit n1 ((v AND NOT (push_bit n (mask k))) OR push_bit n m) AND 7 = drop_bit n1 v AND 7"
    if "n1 + k \<le> n \<or> n + k \<le> n1" unfolding masks using that assms(3) by (intro drop_eq) (auto simp: field_put [OF assms(1,2)])
qed

section \<open>NanoPi\<close>

text \<open>The ports with the pin before their first one, and the places of the pins.\<close>

definition port_base :: "int list" where "port_base = [0, 22, 22, 39, 57, 73, 80, 94]"

definition port_of_pin :: "int \<Rightarrow> nat" where "port_of_pin g = fst (find_port port_sizes 0 g)"
definition pin_of_pin :: "int \<Rightarrow> nat" where "pin_of_pin g = nat (snd (find_port port_sizes 0 g))"

lemma port_table:
  "list_all (\<lambda>g. let (bk, ng) = find_port port_sizes 0 g in bk < 8 \<and> bk \<noteq> 1 \<and> 0 \<le> ng \<and> ng < 22 \<and> g = port_base ! bk + ng) [0..105]"
  by code_simp

lemma port_facts:
  assumes "0 \<le> g" "g < 106"
  shows "find_port port_sizes 0 g = (port_of_pin g, int (pin_of_pin g))" "port_of_pin g < 8" "port_of_pin g \<noteq> 1" "pin_of_pin g < 22"
    "g = port_base ! port_of_pin g + int (pin_of_pin g)"
proof -
  have "g \<in> set [0..105]" using assms by simp
  then have all: "let (bk, ng) = find_port port_sizes 0 g in bk < 8 \<and> bk \<noteq> 1 \<and> 0 \<le> ng \<and> ng < 22 \<and> g = port_base ! bk + ng"
    using port_table by (simp add: list_all_iff del: set_upto)
  then show "find_port port_sizes 0 g = (port_of_pin g, int (pin_of_pin g))" "port_of_pin g < 8" "port_of_pin g \<noteq> 1"
    "pin_of_pin g < 22" "g = port_base ! port_of_pin g + int (pin_of_pin g)"
    by (auto simp: port_of_pin_def pin_of_pin_def split: prod.splits)
qed

text \<open>The word \<open>k\<close> of the port of a pin.\<close>

definition bank_map :: "nat \<Rightarrow> xGpio \<Rightarrow> xIoMap option" where
  "bank_map bk gp = (if bk = 7 then g_map1 gp else g_map0 gp)"

definition bank_reg :: "nat \<Rightarrow> nat" where
  "bank_reg bk = (if bk = 7 then 0x300 else 0x200 + 9 * bk)"

definition nano_ok :: "'w iosys \<Rightarrow> ('w \<Rightarrow> nat \<Rightarrow> nat \<Rightarrow> u32) \<Rightarrow> 'w gst \<Rightarrow> bool" where
  "nano_ok K regs s \<longleftrightarrow> reg_mem K regs \<and> mapped (g_map0 (fst s)) \<and> mapped (g_map1 (fst s)) \<and>
     handle (g_map0 (fst s)) \<noteq> handle (g_map1 (fst s)) \<and>
     length (g_pinmode (fst s)) = NANOPI_GPIO_SIZE \<and> length (g_pinmode_release (fst s)) = NANOPI_GPIO_SIZE"

definition nano_word :: "('w \<Rightarrow> nat \<Rightarrow> nat \<Rightarrow> u32) \<Rightarrow> 'w gst \<Rightarrow> int \<Rightarrow> nat \<Rightarrow> u32" where
  "nano_word regs s g k = regs (snd s) (handle (bank_map (port_of_pin g) (fst s))) (bank_reg (port_of_pin g) + k)"

definition nano_mode :: "('w \<Rightarrow> nat \<Rightarrow> nat \<Rightarrow> u32) \<Rightarrow> 'w gst \<Rightarrow> int \<Rightarrow> int" where
  "nano_mode regs s g = uint (drop_bit (cfg_shift (pin_of_pin g)) (nano_word regs s g (cfg_word (pin_of_pin g))) AND 7)"

definition nano_lev :: "('w \<Rightarrow> nat \<Rightarrow> nat \<Rightarrow> u32) \<Rightarrow> 'w gst \<Rightarrow> int \<Rightarrow> bool" where
  "nano_lev regs s g \<longleftrightarrow> bit (nano_word regs s g bk_DAT) (pin_of_pin g)"

lemma bank_mapped: "nano_ok K regs s \<Longrightarrow> mapped (bank_map bk (fst s))"
  by (simp add: nano_ok_def bank_map_def)

lemma bank_reg_less: "bk < 8 \<Longrightarrow> k < 9 \<Longrightarrow> bank_reg bk + k < 1024"
  by (simp add: bank_reg_def)

lemma with_bank_ok:
  assumes "nano_ok K regs s" "0 \<le> g" "g < 106"
  shows "with_bank g s f = f (bank_map (port_of_pin g) (fst s)) (bank_reg (port_of_pin g)) (pin_of_pin g) s"
proof -
  note facts = port_facts [OF assms(2,3)]
  have "pIo (bank_map (port_of_pin g) (fst s)) (bank_reg (port_of_pin g)) = Inr (handle (bank_map (port_of_pin g) (fst s)), bank_reg (port_of_pin g))"
    using pIo_ok [OF bank_mapped [OF assms(1)]] bank_reg_less [OF facts(2), of 0] by simp
  moreover have "(0x800 + b * 0x24) div 4 = 0x200 + 9 * b" for b :: nat by simp
  ultimately have "pxGetBank (port_of_pin g) (fst s) = Inr (Some (bank_map (port_of_pin g) (fst s), bank_reg (port_of_pin g)))"
    using facts(2) by (auto simp: pxGetBank_def bank_map_def bank_reg_def PIO1_BASE_def PIO2_BASE_def)
  then show ?thesis using facts(1,2) by (simp add: with_bank_def pxGetPinBank_def)
qed

text \<open>Different words have different places.\<close>

lemma place_eq:
  assumes "nano_ok K regs s" "bk < 8" "bk1 < 8" "j < 9" "k < 9"
  shows "handle (bank_map bk (fst s)) = handle (bank_map bk1 (fst s)) \<and> bank_reg bk + j = bank_reg bk1 + k \<longleftrightarrow> bk = bk1 \<and> j = k"
proof -
  have other: "handle (g_map0 (fst s)) \<noteq> handle (g_map1 (fst s))" using assms(1) by (simp add: nano_ok_def)
  have "(9 * a + i) div 9 = a \<and> (9 * a + i) mod 9 = i" if "i < 9" for a i :: nat using that by simp
  then have same: "9 * bk + j = 9 * bk1 + k \<longleftrightarrow> bk = bk1 \<and> j = k" using assms(4,5) by metis
  show ?thesis
  proof (cases "bk = 7"; cases "bk1 = 7")
    assume "bk \<noteq> 7" "bk1 \<noteq> 7"
    then show ?thesis using same by (simp add: bank_map_def bank_reg_def add.assoc)
  qed (use other in \<open>auto simp: bank_map_def bank_reg_def\<close>)
qed

text \<open>An access to the word \<open>j\<close> of the port of a pin.\<close>

lemma nano_get:
  assumes "nano_ok K regs s" "0 \<le> g" "g < 106" "j < 9"
  shows "\<exists>w1. io_get K (bank_map (port_of_pin g) (fst s)) (bank_reg (port_of_pin g) + j) (snd s) = Inr (nano_word regs s g j, w1) \<and>
    regs w1 = regs (snd s)"
  using io_get_ok [OF _ bank_mapped [OF assms(1)] bank_reg_less [OF port_facts(2) [OF assms(2,3)] assms(4)], where w = "snd s" and regs = regs and K = K]
    assms(1) by (simp add: nano_ok_def nano_word_def)

lemma nano_upd:
  assumes ok: "nano_ok K regs s" and g: "0 \<le> g" "g < 106" and j: "j < 9"
  shows "\<exists>w1. io_upd K (bank_map (port_of_pin g) (fst s)) (bank_reg (port_of_pin g) + j) f (snd s) = Inr w1 \<and> nano_ok K regs (fst s, w1) \<and>
    (\<forall>x k. 0 \<le> x \<and> x < 106 \<and> k < 9 \<longrightarrow> nano_word regs (fst s, w1) x k =
       (if port_of_pin x = port_of_pin g \<and> k = j then f (nano_word regs s g j) else nano_word regs s x k))"
proof -
  let ?h = "handle (bank_map (port_of_pin g) (fst s))" and ?i = "bank_reg (port_of_pin g) + j"
  have mem: "reg_mem K regs" using ok by (simp add: nano_ok_def)
  obtain w1 where w1: "io_upd K (bank_map (port_of_pin g) (fst s)) ?i f (snd s) = Inr w1"
      "regs w1 = (regs (snd s))(?h := (regs (snd s) ?h)(?i := f (regs (snd s) ?h ?i)))"
    using io_upd_ok [OF mem bank_mapped [OF ok] bank_reg_less [OF port_facts(2) [OF g] j], where f = f and w = "snd s"] by blast
  have "nano_word regs (fst s, w1) x k = (if port_of_pin x = port_of_pin g \<and> k = j then f (nano_word regs s g j) else nano_word regs s x k)"
    if "0 \<le> x" "x < 106" "k < 9" for x k
    using place_eq [OF ok port_facts(2) [OF that(1,2)] port_facts(2) [OF g] that(3) j] by (auto simp: nano_word_def w1(2))
  with w1(1) ok show ?thesis by (auto simp: nano_ok_def)
qed

text \<open>The function that notes a mode.\<close>

lemma note_ok:
  assumes "0 \<le> g" "g < int n" "length (g_pinmode gp) = n" "length (g_pinmode_release gp) = n"
  shows "\<exists>gp1. note_mode g m gp = Inr gp1 \<and> port_of gp1 = port_of gp \<and> length (g_pinmode gp1) = n \<and> length (g_pinmode_release gp1) = n"
  using assms by (simp add: note_mode_def rd_int_def rd_def port_of_def)

lemma nano_same:
  assumes "nano_ok K regs s" "port_of gp1 = port_of (fst s)" "regs w1 = regs (snd s)"
    "length (g_pinmode gp1) = 106" "length (g_pinmode_release gp1) = 106"
  shows "nano_ok K regs (gp1, w1)" "nano_word regs (gp1, w1) x k = nano_word regs s x k"
  using assms by (simp_all add: nano_ok_def nano_word_def bank_map_def port_of_def NANOPI_GPIO_SIZE_def)

lemma cfg_place: "f < 22 \<Longrightarrow> cfg_word f < 3 \<and> cfg_shift f + 4 \<le> 32"
  unfolding cfg_word_def cfg_shift_def minus_div_mult_eq_mod by auto

text \<open>Two pins of a port have different fields in the words of the modes.\<close>

lemma cfg_apart: "cfg_word f = cfg_word f1 \<Longrightarrow> f \<noteq> f1 \<Longrightarrow> cfg_shift f + 4 \<le> cfg_shift f1 \<or> cfg_shift f1 + 4 \<le> cfg_shift f"
proof -
  assume "cfg_word f = cfg_word f1" "f \<noteq> f1"
  then have "f mod 8 \<noteq> f1 mod 8" unfolding cfg_word_def by (metis div_mult_mod_eq)
  then show ?thesis unfolding cfg_word_def cfg_shift_def minus_div_mult_eq_mod by (cases "f mod 8 < f1 mod 8") auto
qed

lemma nano_fields:
  assumes "m < 2 ^ 4" "n + 4 \<le> 32"
  shows "drop_bit n ((v AND NOT (push_bit n 0xF)) OR push_bit n m) AND 7 = m AND (7 :: u32)"
    and "n1 + 4 \<le> n \<or> n + 4 \<le> n1 \<Longrightarrow> drop_bit n1 ((v AND NOT (push_bit n 0xF)) OR push_bit n m) AND 7 = drop_bit n1 v AND (7 :: u32)"
  using fields(1) [OF assms(1,2), where v = v] fields(2) [OF assms(1,2), where v = v and ?n1.0 = n1] by (simp_all add: mask_eq_exp_minus_1 del: drop_bit_and drop_bit_or)

lemma nano_set_law:
  assumes ok: "nano_ok K regs s" and g: "0 \<le> g" "g < 106" and m: "m \<in> {eModeInput, eModeOutput}"
  shows "\<exists>s1. nanopi_iArchGpioSetMode K g m s = Inr (0, s1) \<and> nano_ok K regs s1 \<and>
    (\<forall>x. 0 \<le> x \<and> x < 106 \<longrightarrow> nano_mode regs s1 x = (if x = g then m else nano_mode regs s x)) \<and>
    (\<forall>x. 0 \<le> x \<and> x < 106 \<longrightarrow> nano_lev regs s1 x = nano_lev regs s x) \<and> port_of (fst s1) = port_of (fst s)"
proof -
  let ?f = "pin_of_pin g" and ?bk = "port_of_pin g"
  let ?put = "\<lambda>v. (v AND NOT (push_bit (cfg_shift ?f) 0xF)) OR push_bit (cfg_shift ?f) (word_of_int m :: u32)"
  have cfg: "cfg_word ?f < 3" "cfg_shift ?f + 4 \<le> 32" using cfg_place port_facts(4) [OF g] by auto
  obtain w1 where w1: "io_upd K (bank_map ?bk (fst s)) (bank_reg ?bk + cfg_word ?f) (\<lambda>v. v AND NOT (push_bit (cfg_shift ?f) 0xF)) (snd s) = Inr w1"
      "nano_ok K regs (fst s, w1)"
      "\<forall>x k. 0 \<le> x \<and> x < 106 \<and> k < 9 \<longrightarrow> nano_word regs (fst s, w1) x k = (if port_of_pin x = ?bk \<and> k = cfg_word ?f
         then nano_word regs s g (cfg_word ?f) AND NOT (push_bit (cfg_shift ?f) 0xF) else nano_word regs s x k)"
    using nano_upd [OF ok g, of "cfg_word ?f" "\<lambda>v. v AND NOT (push_bit (cfg_shift ?f) 0xF)"] cfg(1) by auto
  obtain w2 where w2: "io_upd K (bank_map ?bk (fst s)) (bank_reg ?bk + cfg_word ?f) (\<lambda>v. v OR push_bit (cfg_shift ?f) (word_of_int m)) w1 = Inr w2"
      "nano_ok K regs (fst s, w2)"
      "\<forall>x k. 0 \<le> x \<and> x < 106 \<and> k < 9 \<longrightarrow> nano_word regs (fst s, w2) x k = (if port_of_pin x = ?bk \<and> k = cfg_word ?f
         then nano_word regs (fst s, w1) g (cfg_word ?f) OR push_bit (cfg_shift ?f) (word_of_int m) else nano_word regs (fst s, w1) x k)"
    using nano_upd [OF w1(2) g, of "cfg_word ?f" "\<lambda>v. v OR push_bit (cfg_shift ?f) (word_of_int m)"] cfg(1) by auto
  obtain w where put: "put_mode K (bank_map ?bk (fst s)) (bank_reg ?bk) ?f m (snd s) = Inr w" and ok_w: "nano_ok K regs (fst s, w)" and
      words: "\<And>x k. 0 \<le> x \<Longrightarrow> x < 106 \<Longrightarrow> k < 9 \<Longrightarrow> nano_word regs (fst s, w) x k =
        (if port_of_pin x = ?bk \<and> k = cfg_word ?f then ?put (nano_word regs s g (cfg_word ?f)) else nano_word regs s x k)"
  proof (cases "m = eModeInput")
    case True
    have "put_mode K (bank_map ?bk (fst s)) (bank_reg ?bk) ?f m (snd s) = Inr w1" using w1(1) True by (simp add: put_mode_def bk_CFG_def)
    then show thesis using w1(2,3) True by (intro that [of w1]) (auto simp: eModeInput_def)
  next
    case False
    have "put_mode K (bank_map ?bk (fst s)) (bank_reg ?bk) ?f m (snd s) = Inr w2" using w1(1) w2(1) False by (simp add: put_mode_def bk_CFG_def)
    then show thesis using w1(3) w2(2,3) g cfg(1) by (intro that [of w2]) auto
  qed
  obtain gp1 where noted: "note_mode g m (fst s) = Inr gp1" "port_of gp1 = port_of (fst s)" "length (g_pinmode gp1) = 106"
      "length (g_pinmode_release gp1) = 106"
    using note_ok [of g 106 "fst s" m] g ok by (auto simp: nano_ok_def NANOPI_GPIO_SIZE_def)
  have same: "nano_ok K regs (gp1, w)" "\<And>x k. nano_word regs (gp1, w) x k = nano_word regs (fst s, w) x k"
    using nano_same [OF ok_w, of gp1 w] noted by simp_all
  have bits: "(word_of_int m :: u32) < 2 ^ 4" "uint ((word_of_int m :: u32) AND 7) = m" using m by (auto simp: mode_codes)
  have "nano_mode regs (gp1, w) x = (if x = g then m else nano_mode regs s x)" if x: "0 \<le> x" "x < 106" for x
  proof -
    have cx: "cfg_word (pin_of_pin x) < 3" using cfg_place port_facts(4) [OF x] by blast
    have w_x: "nano_word regs (gp1, w) x (cfg_word (pin_of_pin x)) = (if port_of_pin x = ?bk \<and> cfg_word (pin_of_pin x) = cfg_word ?f
        then ?put (nano_word regs s g (cfg_word ?f)) else nano_word regs s x (cfg_word (pin_of_pin x)))"
      unfolding same(2) using words [OF x, of "cfg_word (pin_of_pin x)"] cx by simp
    have base: "nano_word regs s x k = nano_word regs s g k" if "port_of_pin x = ?bk" for k using that by (simp add: nano_word_def)
    show ?thesis
    proof (cases "x = g")
      case True
      have "nano_mode regs (gp1, w) g = uint (drop_bit (cfg_shift ?f) (?put (nano_word regs s g (cfg_word ?f))) AND 7)"
        using w_x unfolding nano_mode_def True by simp
      then show ?thesis unfolding nano_fields(1) [OF bits(1) cfg(2)] bits(2) using True by simp
    next
      case other: False
      then have "port_of_pin x \<noteq> ?bk \<or> pin_of_pin x \<noteq> ?f" using port_facts(5) [OF x] port_facts(5) [OF g] by metis
      then have "drop_bit (cfg_shift (pin_of_pin x)) (nano_word regs (gp1, w) x (cfg_word (pin_of_pin x))) AND 7 =
          drop_bit (cfg_shift (pin_of_pin x)) (nano_word regs s x (cfg_word (pin_of_pin x))) AND 7"
        unfolding w_x using nano_fields(2) [OF bits(1) cfg(2)] cfg_apart [of "pin_of_pin x" ?f] base by (simp split: if_split del: drop_bit_and drop_bit_or)
      then show ?thesis unfolding nano_mode_def using other by simp
    qed
  qed
  moreover have "nano_lev regs (gp1, w) x = nano_lev regs s x" if x: "0 \<le> x" "x < 106" for x
    using cfg(1) words [OF x, of 4] by (simp add: nano_lev_def same(2) bk_DAT_def)
  moreover have "nanopi_iArchGpioSetMode K g m s = Inr (0, gp1, w)"
    using m put noted(1) unfolding nanopi_iArchGpioSetMode_def with_bank_ok [OF ok g]
    by (auto simp: case_prod_beta)
  ultimately show ?thesis using same(1) noted(2) by fastforce
qed

lemma nano_same_world:
  assumes "nano_ok K regs s" "regs w1 = regs (snd s)"
  shows "nano_ok K regs (fst s, w1)" "nano_mode regs (fst s, w1) x = nano_mode regs s x" "nano_lev regs (fst s, w1) x = nano_lev regs s x"
  using assms by (simp_all add: nano_ok_def nano_mode_def nano_lev_def nano_word_def)

lemma nano_get_law:
  assumes ok: "nano_ok K regs s" and g: "0 \<le> g" "g < 106"
  shows "\<exists>w1. nanopi_eArchGpioGetMode K g s = Inr (nano_mode regs s g, fst s, w1) \<and> regs w1 = regs (snd s)"
proof -
  have "cfg_word (pin_of_pin g) < 9" using cfg_place [OF port_facts(4) [OF g]] by simp
  from nano_get [OF ok g this] show ?thesis
    unfolding nanopi_eArchGpioGetMode_def with_bank_ok [OF ok g] by (auto simp: case_prod_beta bk_CFG_def nano_mode_def)
qed

lemma and_bit: "(v AND push_bit n 1 \<noteq> 0) \<longleftrightarrow> bit (v :: u32) n"
  by (simp only: bit_iff_and_push_bit_not_eq_0)

lemma nano_read_law:
  assumes ok: "nano_ok K regs s" and g: "0 \<le> g" "g < 106"
  shows "\<exists>w1. nanopi_iArchGpioRead K g s = Inr (level (nano_lev regs s g), fst s, w1) \<and> regs w1 = regs (snd s)"
  using nano_get [OF ok g, of bk_DAT]
  unfolding nanopi_iArchGpioRead_def with_bank_ok [OF ok g] and_bit
  by (auto simp: case_prod_beta nano_lev_def level_def bk_DAT_def)

lemma nano_write_law:
  assumes ok: "nano_ok K regs s" and g: "0 \<le> g" "g < 106"
  shows "\<exists>s1. nanopi_iArchGpioWrite K g b s = Inr (0, s1) \<and> nano_ok K regs s1 \<and>
    (\<forall>x. 0 \<le> x \<and> x < 106 \<longrightarrow> nano_mode regs s1 x = nano_mode regs s x) \<and>
    (\<forall>x. 0 \<le> x \<and> x < 106 \<longrightarrow> nano_lev regs s1 x = (if x = g then b else nano_lev regs s x)) \<and> port_of (fst s1) = port_of (fst s)"
proof -
  let ?f = "pin_of_pin g" and ?bk = "port_of_pin g"
  let ?put = "\<lambda>v :: u32. if b then v OR push_bit ?f 1 else v AND NOT (push_bit ?f 1)"
  obtain w1 where w1: "io_upd K (bank_map ?bk (fst s)) (bank_reg ?bk + bk_DAT) ?put (snd s) = Inr w1" "nano_ok K regs (fst s, w1)"
      "\<forall>x k. 0 \<le> x \<and> x < 106 \<and> k < 9 \<longrightarrow> nano_word regs (fst s, w1) x k =
         (if port_of_pin x = ?bk \<and> k = bk_DAT then ?put (nano_word regs s g bk_DAT) else nano_word regs s x k)"
    using nano_upd [OF ok g, of bk_DAT ?put] by (auto simp: bk_DAT_def)
  have bits: "bit (?put v) k = (if k = ?f then b else bit v k)" for v k
    using port_facts(4) [OF g] bit_imp_le_length [of v k] by (auto simp: bit_simps)
  have "nano_mode regs (fst s, w1) x = nano_mode regs s x" if x: "0 \<le> x" "x < 106" for x
    using w1(3) x cfg_place [OF port_facts(4) [OF x]] by (simp add: nano_mode_def bk_DAT_def)
  moreover have "nano_lev regs (fst s, w1) x = (if x = g then b else nano_lev regs s x)" if x: "0 \<le> x" "x < 106" for x
  proof -
    have "x = g" if "port_of_pin x = ?bk" "pin_of_pin x = ?f" using that port_facts(5) [OF x] port_facts(5) [OF g] by metis
    moreover have "nano_word regs s x k = nano_word regs s g k" if "port_of_pin x = ?bk" for k using that by (simp add: nano_word_def)
    moreover have "nano_word regs (fst s, w1) x bk_DAT = (if port_of_pin x = ?bk then ?put (nano_word regs s g bk_DAT) else nano_word regs s x bk_DAT)"
      using w1(3) x by (simp add: bk_DAT_def)
    ultimately show ?thesis unfolding nano_lev_def using bits by auto
  qed
  moreover have "nanopi_iArchGpioWrite K g b s = Inr (0, fst s, w1)"
    using w1(1) unfolding nanopi_iArchGpioWrite_def with_bank_ok [OF ok g] by (simp add: case_prod_beta)
  ultimately show ?thesis using w1(2) by fastforce
qed

interpretation nanopi: gpio_pins "nanopi_arch K board" "{0..<106}" "nano_mode regs" "nano_lev regs" "nano_ok K regs"
  for K :: "'w iosys" and board :: nat and regs :: "'w \<Rightarrow> nat \<Rightarrow> nat \<Rightarrow> u32"
proof (unfold_locales, goal_cases)
  case 1
  then show ?case by simp
next
  case (2 s g m)
  then show ?case using nano_set_law [of K regs s g m] by (simp add: nanopi_arch_def Ball_def)
next
  case (3 s g)
  then show ?case using nano_get_law [of K regs s g] nano_same_world [of K regs s] by (fastforce simp: nanopi_arch_def)
next
  case (4 s g b)
  then show ?case using nano_write_law [of K regs s g b] by (simp add: nanopi_arch_def Ball_def)
next
  case (5 s g)
  then show ?case using nano_read_law [of K regs s g] nano_same_world [of K regs s] by (fastforce simp: nanopi_arch_def)
qed

section \<open>Raspberry Pi\<close>

text \<open>\<open>fs\<close> are the words of the modes, which are memory, and \<open>lv\<close> the levels of the pins.  A one that is written to the
  register that sets or clears changes the level of a pin that is an output.\<close>

definition rpi_field :: "(nat \<Rightarrow> u32) \<Rightarrow> nat \<Rightarrow> u32" where
  "rpi_field f k = drop_bit (k mod 10 * 3) (f (k div 10)) AND 7"

definition rpi_drives :: "('w \<Rightarrow> nat \<Rightarrow> nat \<Rightarrow> u32) \<Rightarrow> ('w \<Rightarrow> nat \<Rightarrow> u32) \<Rightarrow> bool \<Rightarrow> nat \<Rightarrow> u32 \<Rightarrow> 'w \<Rightarrow> 'w \<Rightarrow> bool" where
  "rpi_drives fs lv b h v w w1 \<longleftrightarrow> fs w1 = fs w \<and>
     (\<forall>x k. k < 32 \<longrightarrow> bit (lv w1 x) k = (if x = h \<and> bit v k \<and> rpi_field (fs w h) k = 1 then b else bit (lv w x) k))"

definition rpi_mem :: "'w iosys \<Rightarrow> ('w \<Rightarrow> nat \<Rightarrow> nat \<Rightarrow> u32) \<Rightarrow> ('w \<Rightarrow> nat \<Rightarrow> u32) \<Rightarrow> bool" where
  "rpi_mem K fs lv \<longleftrightarrow>
     (\<forall>h i w. i < 4 \<longrightarrow> (\<exists>w1. os_get K h i w = (fs w h i, w1) \<and> fs w1 = fs w \<and> lv w1 = lv w)) \<and>
     (\<forall>h w. \<exists>w1. os_get K h GPLEV0 w = (lv w h, w1) \<and> fs w1 = fs w \<and> lv w1 = lv w) \<and>
     (\<forall>h i v w. i < 4 \<longrightarrow> fs (os_put K h i v w) = (fs w)(h := (fs w h)(i := v)) \<and> lv (os_put K h i v w) = lv w) \<and>
     (\<forall>h v w. rpi_drives fs lv True h v w (os_put K h GPSET0 v w) \<and> rpi_drives fs lv False h v w (os_put K h GPCLR0 v w))"

definition rpi_ok :: "'w iosys \<Rightarrow> ('w \<Rightarrow> nat \<Rightarrow> nat \<Rightarrow> u32) \<Rightarrow> ('w \<Rightarrow> nat \<Rightarrow> u32) \<Rightarrow> 'w gst \<Rightarrow> bool" where
  "rpi_ok K fs lv s \<longleftrightarrow> rpi_mem K fs lv \<and> mapped (g_map0 (fst s)) \<and> length (g_pinmode (fst s)) = RPI_GPIO_SIZE \<and>
     length (g_pinmode_release (fst s)) = RPI_GPIO_SIZE"

definition rpi_mode :: "('w \<Rightarrow> nat \<Rightarrow> nat \<Rightarrow> u32) \<Rightarrow> 'w gst \<Rightarrow> int \<Rightarrow> int" where
  "rpi_mode fs s g = uint (rpi_field (fs (snd s) (handle (g_map0 (fst s)))) (nat g))"

definition rpi_lev :: "('w \<Rightarrow> nat \<Rightarrow> u32) \<Rightarrow> 'w gst \<Rightarrow> int \<Rightarrow> bool" where
  "rpi_lev lv s g \<longleftrightarrow> bit (lv (snd s) (handle (g_map0 (fst s)))) (nat g)"

lemma rpi_get_word:
  assumes "rpi_ok K fs lv s" "i < 4 \<or> i = GPLEV0"
  shows "\<exists>w1. io_get K (g_map0 (fst s)) i (snd s) =
      Inr (if i < 4 then fs (snd s) (handle (g_map0 (fst s))) i else lv (snd s) (handle (g_map0 (fst s))), w1) \<and>
    fs w1 = fs (snd s) \<and> lv w1 = lv (snd s)"
  using assms pIo_ok [of "g_map0 (fst s)" i] by (auto simp: rpi_ok_def rpi_mem_def io_get_def GPLEV0_def)

lemma rpi_put_word:
  assumes ok: "rpi_ok K fs lv s" and i: "i < 4"
  shows "\<exists>w1. io_upd K (g_map0 (fst s)) i f (snd s) = Inr w1 \<and> rpi_ok K fs lv (fst s, w1) \<and> lv w1 = lv (snd s) \<and>
    fs w1 (handle (g_map0 (fst s))) = (fs (snd s) (handle (g_map0 (fst s))))(i := f (fs (snd s) (handle (g_map0 (fst s))) i))"
proof -
  obtain w1 where w1: "io_get K (g_map0 (fst s)) i (snd s) = Inr (fs (snd s) (handle (g_map0 (fst s))) i, w1)"
      "fs w1 = fs (snd s)" "lv w1 = lv (snd s)"
    using rpi_get_word [OF ok, of i] i by auto
  have "mapped (g_map0 (fst s))" "rpi_mem K fs lv" using ok by (simp_all add: rpi_ok_def)
  then show ?thesis using w1 i ok pIo_ok [of "g_map0 (fst s)" i] by (auto simp: io_upd_def io_put_def rpi_mem_def rpi_ok_def)
qed

lemma rpi_fields:
  assumes "m < 2 ^ 3" "i < 32"
  shows "rpi_field (f(i div 10 := (f (i div 10) AND NOT (push_bit (i mod 10 * 3) 7)) OR push_bit (i mod 10 * 3) m)) k =
    (if k = i then m AND 7 else rpi_field f k)"
proof -
  have mask: "(7 :: u32) = mask 3" by (simp add: mask_eq_exp_minus_1)
  have n: "i mod 10 * 3 + 3 \<le> 32" by simp
  show ?thesis
  proof (cases "k div 10 = i div 10 \<and> k \<noteq> i")
    case True
    then have "k mod 10 \<noteq> i mod 10" by (metis div_mult_mod_eq)
    then have "k mod 10 * 3 + 3 \<le> i mod 10 * 3 \<or> i mod 10 * 3 + 3 \<le> k mod 10 * 3" by auto
    from fields(2) [OF assms(1) n _ this, of "f (i div 10)"] True show ?thesis by (simp add: rpi_field_def mask del: drop_bit_and drop_bit_or)
  next
    case False
    then show ?thesis using fields(1) [OF assms(1) n, of "f (i div 10)"] by (auto simp: rpi_field_def mask simp del: drop_bit_and drop_bit_or)
  qed
qed

lemma rpi_set_law:
  assumes ok: "rpi_ok K fs lv s" and g: "0 \<le> g" "g < 32" and m: "m \<in> {eModeInput, eModeOutput}"
  shows "\<exists>s1. rpi_iArchGpioSetMode K bcm2709 g m s = Inr (0, s1) \<and> rpi_ok K fs lv s1 \<and>
    (\<forall>x. 0 \<le> x \<and> x < 32 \<longrightarrow> rpi_mode fs s1 x = (if x = g then m else rpi_mode fs s x)) \<and>
    (\<forall>x. 0 \<le> x \<and> x < 32 \<longrightarrow> rpi_lev lv s1 x = rpi_lev lv s x) \<and> port_of (fst s1) = port_of (fst s)"
proof -
  let ?h = "handle (g_map0 (fst s))" and ?i = "nat g" and ?n = "nat g mod 10 * 3"
  have i: "?i div 10 < 4" "?i < 32" using g by auto
  obtain w1 where w1: "GPIO_INP K ?i s = Inr w1" "rpi_ok K fs lv (fst s, w1)" "lv w1 = lv (snd s)"
      "fs w1 ?h = (fs (snd s) ?h)(?i div 10 := fs (snd s) ?h (?i div 10) AND NOT (push_bit ?n 7))"
    using rpi_put_word [OF ok i(1), of "\<lambda>v. v AND NOT (push_bit ?n 7)"] unfolding GPIO_INP_def by blast
  obtain w2 where w2: "GPIO_OUT K ?i (fst s, w1) = Inr w2" "rpi_ok K fs lv (fst s, w2)" "lv w2 = lv w1"
      "fs w2 ?h = (fs w1 ?h)(?i div 10 := fs w1 ?h (?i div 10) OR push_bit ?n 1)"
    using rpi_put_word [OF w1(2) i(1), of "\<lambda>v. v OR push_bit ?n 1"] unfolding GPIO_OUT_def fst_conv snd_conv by blast
  obtain gp1 where noted: "note_mode g m (fst s) = Inr gp1" "port_of gp1 = port_of (fst s)" "length (g_pinmode gp1) = 32"
      "length (g_pinmode_release gp1) = 32"
    using note_ok [of g 32 "fst s" m] g ok by (auto simp: rpi_ok_def RPI_GPIO_SIZE_def)
  define w where "w = (if m = eModeInput then w1 else w2)"
  have run: "rpi_iArchGpioSetMode K bcm2709 g m s = Inr (0, gp1, w)"
    using m w1(1) w2(1) noted(1) by (auto simp: rpi_iArchGpioSetMode_def w_def mode_codes)
  have map0: "g_map0 gp1 = g_map0 (fst s)" using noted(2) by (simp add: port_of_def)
  have ok1: "rpi_ok K fs lv (gp1, w)" using w1(2) w2(2) noted(3,4) by (simp add: rpi_ok_def w_def map0 RPI_GPIO_SIZE_def)
  have lv: "lv w = lv (snd s)" using w1(3) w2(3) by (simp add: w_def)
  have fs: "fs w ?h = (fs (snd s) ?h)(?i div 10 := (fs (snd s) ?h (?i div 10) AND NOT (push_bit ?n 7)) OR push_bit ?n (word_of_int m))"
    using m w1(4) w2(4) by (auto simp: w_def mode_codes)
  have bits: "(word_of_int m :: u32) < 2 ^ 3" "uint ((word_of_int m :: u32) AND 7) = m" using m by (auto simp: mode_codes)
  have "rpi_mode fs (gp1, w) x = (if x = g then m else rpi_mode fs s x)" if "0 \<le> x" "x < 32" for x
    unfolding rpi_mode_def fst_conv snd_conv map0 fs rpi_fields [OF bits(1) i(2)] using bits(2) that g by (auto simp: nat_eq_iff)
  moreover have "rpi_lev lv (gp1, w) x = rpi_lev lv s x" for x by (simp add: rpi_lev_def map0 lv)
  ultimately show ?thesis using run ok1 noted(2) by fastforce
qed

lemma rpi_same_world:
  assumes "rpi_ok K fs lv s" "fs w1 = fs (snd s)" "lv w1 = lv (snd s)"
  shows "rpi_ok K fs lv (fst s, w1)" "rpi_mode fs (fst s, w1) x = rpi_mode fs s x" "rpi_lev lv (fst s, w1) x = rpi_lev lv s x"
  using assms by (simp_all add: rpi_ok_def rpi_mode_def rpi_lev_def)

lemma rpi_get_law:
  assumes ok: "rpi_ok K fs lv s" and g: "0 \<le> g" "g < 32"
  shows "\<exists>w1. rpi_eArchGpioGetMode K g s = Inr (rpi_mode fs s g, fst s, w1) \<and> fs w1 = fs (snd s) \<and> lv w1 = lv (snd s)"
proof -
  have "nat g div 10 < 4" using g by auto
  with rpi_get_word [OF ok, of "nat g div 10"] show ?thesis
    by (auto simp: rpi_eArchGpioGetMode_def GPIO_MODE_def rpi_mode_def rpi_field_def)
qed

lemma rpi_read_law:
  assumes ok: "rpi_ok K fs lv s" and g: "0 \<le> g" "g < 32"
  shows "\<exists>w1. rpi_iArchGpioRead K g s = Inr (level (rpi_lev lv s g), fst s, w1) \<and> fs w1 = fs (snd s) \<and> lv w1 = lv (snd s)"
proof -
  have "bit_place GPLEV0 g = (GPLEV0, push_bit (nat g) 1)" using g by (simp add: bit_place_def)
  with rpi_get_word [OF ok, of GPLEV0] show ?thesis
    unfolding rpi_iArchGpioRead_def by (auto simp: rpi_lev_def level_def and_bit GPLEV0_def simp del: push_bit_of_1)
qed

lemma rpi_write_law:
  assumes ok: "rpi_ok K fs lv s" and g: "0 \<le> g" "g < 32" and out: "rpi_mode fs s g = eModeOutput"
  shows "\<exists>w1. rpi_iArchGpioWrite K g b s = Inr (0, fst s, w1) \<and> rpi_ok K fs lv (fst s, w1) \<and> fs w1 = fs (snd s) \<and>
    (\<forall>x. 0 \<le> x \<and> x < 32 \<longrightarrow> rpi_lev lv (fst s, w1) x = (if x = g then b else rpi_lev lv s x))"
proof -
  let ?h = "handle (g_map0 (fst s))" and ?reg = "if b then GPSET0 else GPCLR0"
  define w1 where "w1 = os_put K ?h ?reg (push_bit (nat g) 1) (snd s)"
  have "bit_place ?reg g = (?reg, push_bit (nat g) 1)" using g by (simp add: bit_place_def)
  moreover have "pIo (g_map0 (fst s)) ?reg = Inr (?h, ?reg)" using ok by (intro pIo_ok) (auto simp: rpi_ok_def GPSET0_def GPCLR0_def)
  ultimately have run: "rpi_iArchGpioWrite K g b s = Inr (0, fst s, w1)"
    unfolding rpi_iArchGpioWrite_def by (simp add: io_put_def w1_def del: push_bit_of_1)
  have drives: "rpi_drives fs lv b ?h (push_bit (nat g) 1) (snd s) w1" using ok by (auto simp: w1_def rpi_ok_def rpi_mem_def)
  have "rpi_field (fs (snd s) ?h) (nat g) = 1" using out by (simp add: rpi_mode_def eModeOutput_def uint_1_eq word_uint_eq_iff)
  moreover have "bit (push_bit (nat g) (1 :: u32)) (nat x) \<longleftrightarrow> x = g" if "0 \<le> x" "x < 32" for x
    using that g by (auto simp: bit_simps)
  ultimately have "rpi_lev lv (fst s, w1) x = (if x = g then b else rpi_lev lv s x)" if "0 \<le> x" "x < 32" for x
    using that drives unfolding rpi_drives_def rpi_lev_def fst_conv snd_conv by (auto simp: nat_less_iff)
  moreover have "fs w1 = fs (snd s)" using drives by (simp add: rpi_drives_def)
  ultimately show ?thesis using run ok by (auto simp: rpi_ok_def)
qed

interpretation rpi: gpio_pins "rpi_arch K board bcm2709" "{0..<32}" "rpi_mode fs" "rpi_lev lv" "rpi_ok K fs lv"
  for K :: "'w iosys" and board :: nat and bcm2709 :: bool and fs :: "'w \<Rightarrow> nat \<Rightarrow> nat \<Rightarrow> u32" and lv :: "'w \<Rightarrow> nat \<Rightarrow> u32"
proof (unfold_locales, goal_cases)
  case 1
  then show ?case by simp
next
  case (2 s g m)
  then show ?case using rpi_set_law [of K fs lv s g m bcm2709] by (simp add: rpi_arch_def Ball_def)
next
  case (3 s g)
  then show ?case using rpi_get_law [of K fs lv s g] rpi_same_world [of K fs lv s] by (fastforce simp: rpi_arch_def)
next
  case (4 s g b)
  then obtain w1 where "rpi_iArchGpioWrite K g b s = Inr (0, fst s, w1)" "rpi_ok K fs lv (fst s, w1)" "fs w1 = fs (snd s)"
      "\<forall>x. 0 \<le> x \<and> x < 32 \<longrightarrow> rpi_lev lv (fst s, w1) x = (if x = g then b else rpi_lev lv s x)"
    using rpi_write_law [of K fs lv s g b] by auto
  then show ?case by (intro exI [of _ "(fst s, w1)"]) (simp add: rpi_arch_def rpi_mode_def)
next
  case (5 s g)
  then show ?case using rpi_read_law [of K fs lv s g] rpi_same_world [of K fs lv s] by (fastforce simp: rpi_arch_def)
qed

text \<open> The pins 0 to 105 are placed in the ports A and C to L, each in a place of its own; all places fit the
  registers of a port.\<close>

theorem nanopi_pins:
  assumes "0 \<le> g" "g < 106"
  shows "find_port port_sizes 0 g = (port_of_pin g, int (pin_of_pin g)) \<and> port_of_pin g \<in> {0, 2, 3, 4, 5, 6, 7} \<and>
    int (pin_of_pin g) < port_sizes ! port_of_pin g \<and>
    (\<forall>x. 0 \<le> x \<and> x < 106 \<and> port_of_pin x = port_of_pin g \<and> pin_of_pin x = pin_of_pin g \<longrightarrow> x = g)"
proof -
  have "list_all (\<lambda>g. let (bk, ng) = find_port port_sizes 0 g in ng < port_sizes ! bk) [0..105]" by code_simp
  moreover have "g \<in> set [0..105]" using assms by simp
  ultimately have "let (bk, ng) = find_port port_sizes 0 g in ng < port_sizes ! bk" by (simp add: list_all_iff del: set_upto)
  with port_facts [OF assms] port_facts(5) show ?thesis by fastforce
qed

theorem nanopi_pins_witness: "find_port port_sizes 0 25 = (port_of_pin 25, int (pin_of_pin 25)) \<and> port_of_pin 25 \<in> {0, 2, 3, 4, 5, 6, 7}"
  using nanopi_pins [of 25] by simp

end
