(* ===== verification/Gpio_Ports.thy ===== *)
theory Gpio_Ports
  imports Gpio_Boards
begin

text \<open>
  What the boards give to the ports: a port of outputs on a Raspberry Pi and on a NanoPi reads back what it was set to, the
  thread of the inputs calls the callbacks of the pins that have changed, in order, and the iterator visits the pins that exist
  but does not come back behind the last one.
\<close>

section \<open>Lists of pins\<close>

text \<open>A list whose pins are below \<open>n\<close> and different, without a hole at its ends.\<close>

definition pin_table :: "int \<Rightarrow> xPinList \<Rightarrow> bool" where
  "pin_table n l \<longleftrightarrow> pl_first l = 0 \<and> pl_last l = pl_size l - 1 \<and> int (length (pl_pin l)) = pl_size l \<and>
     list_all (\<lambda>g. g < n) (pl_pin l) \<and> distinct (filter (\<lambda>g. g \<ge> 0) (pl_pin l))"

lemma rpi_tables: "list_all (pin_table 32) rpi_pxLogicalPins"
  by code_simp

lemma nanopi_tables: "list_all (pin_table 106) nanopi_pxLogToMcu"
  by code_simp

text \<open>The pins that exist in a list, from its first to its last index.\<close>

definition list_pins :: "xPinList \<Rightarrow> int list" where
  "list_pins l = sort (filter (\<lambda>g. g \<ge> 0) (map (\<lambda>i. pl_pin l ! nat i) [pl_first l..pl_last l]))"

definition same_pins :: "xPinList \<Rightarrow> xPinList \<Rightarrow> xPinList \<Rightarrow> bool" where
  "same_pins lo ph mc \<longleftrightarrow> distinct (list_pins lo) \<and> list_pins ph = list_pins lo \<and> list_pins mc = list_pins lo \<and>
     int (length (list_pins lo)) = pl_len lo \<and> pl_len ph = pl_len lo \<and> pl_len mc = pl_len lo \<and>
     list_all (\<lambda>g. pl_pin mc ! nat g = g) (list_pins lo)"

text \<open> On every board the logical, the physical and the MCU numbering reach the same pins, each once, as
  many as the lists say, and the MCU numbering is the numbers of the pins.\<close>

theorem numberings_agree:
  "list_all (\<lambda>i. same_pins (nanopi_pxLogToMcu ! i) (nanopi_pxPhyToMcu ! i) (nanopi_pxMcuPins ! i) \<and>
     same_pins (rpi_pxLogicalPins ! i) (rpi_pxPhysicalPins ! i) (rpi_pxMcuPins ! i)) [0, 1, 2]"
  by code_simp

text \<open>A number of a second connector is moved by the sizes of all connectors, not of those before it: on the second revision
  of the Raspberry Pi the pin 3 of the connector P5, which is entry 28 of the list, is not found.\<close>

lemma iGpioMcuPin_second:
  "iGpioMcuPin (rpi_pxPhyConn ! 1) 103 (rpi_gpio\<lparr>g_list := Some (rpi_pxPhysicalPins ! 1), g_numbering := eNumberingPhysical\<rparr>) = Inr (-1) \<and>
   pl_pin (rpi_pxPhysicalPins ! 1) ! 28 = 28"
  by code_simp

text \<open>The pins under their logical numbers.\<close>

definition logical :: "xGpio \<Rightarrow> xPinList \<Rightarrow> bool" where
  "logical gp l \<longleftrightarrow> g_list gp = Some l \<and> g_numbering gp = eNumberingLogical"

lemma logical_pin:
  assumes "logical gp l" "pin_table n l" "0 \<le> p" "p < pl_size l"
  shows "iGpioMcuPin cl p gp = Inr (pl_pin l ! nat p)" "pl_pin l ! nat p < n"
proof -
  have "nat p < length (pl_pin l)" using assms by (simp add: pin_table_def nat_less_iff)
  then show "iGpioMcuPin cl p gp = Inr (pl_pin l ! nat p)" "pl_pin l ! nat p < n"
    using assms by (simp_all add: logical_def pin_table_def iGpioMcuPin_def rd_int_def rd_def eNumberingLogical_def
      eNumberingPhysical_def list_all_length)
qed

lemma logical_size: "logical gp l \<Longrightarrow> loop_size gp = Inr (nat (pl_size l))"
  by (simp add: logical_def loop_size_def eNumberingLogical_def eNumberingPhysical_def)

lemma logical_named:
  assumes "logical gp l" "pin_table n l"
  shows "named cl {0..<n} gp (\<lambda>p. pl_pin l ! nat p) (nat (pl_size l))"
  using logical_pin [OF assms] by (auto simp: named_def)

text \<open>Different entries of a list are different pins.\<close>

lemma filter_nth_inj:
  "\<lbrakk>distinct (filter P xs); i < length xs; j < length xs; xs ! i = xs ! j; P (xs ! i)\<rbrakk> \<Longrightarrow> i = j"
proof (induction xs arbitrary: i j)
  case (Cons x xs)
  show ?case
  proof (cases i; cases j)
    fix j' assume "i = 0" "j = Suc j'"
    then show ?thesis using Cons.prems by (auto simp: in_set_conv_nth)
  next
    fix i' assume "i = Suc i'" "j = 0"
    then show ?thesis using Cons.prems by (auto simp: in_set_conv_nth)
  next
    fix i' j' assume "i = Suc i'" "j = Suc j'"
    then show ?thesis using Cons.prems Cons.IH [of i' j'] by (auto split: if_split_asm)
  qed (use Cons.prems in simp)
qed simp

text \<open>Outputs on pins that exist, below 31.\<close>

definition dout_list :: "xGpio \<Rightarrow> xConnectorList \<Rightarrow> xDout list \<Rightarrow> bool" where
  "dout_list gp cl ds \<longleftrightarrow> distinct (map do_num ds) \<and>
     list_all (\<lambda>d. 0 \<le> do_num d \<and> do_num d < 31 \<and> bGpioIsValid cl (do_num d) gp = Inr True) ds"

lemma dout_list_place:
  assumes l: "logical gp l" "pin_table n l" and ds: "dout_list gp cl ds" and d: "d \<in> set ds"
  shows "0 \<le> do_num d" "do_num d < 31" "do_num d < pl_size l" "0 \<le> pl_pin l ! nat (do_num d)" "pl_pin l ! nat (do_num d) < n"
proof -
  have num: "0 \<le> do_num d" "do_num d < 31" "bGpioIsValid cl (do_num d) gp = Inr True" using ds d by (auto simp: dout_list_def list_all_iff)
  have "do_num d < pl_size l"
  proof (rule ccontr)
    assume "\<not> do_num d < pl_size l"
    then have "iGpioMcuPin cl (do_num d) gp = Inr (-1)"
      using l by (simp add: logical_def pin_table_def iGpioMcuPin_def eNumberingLogical_def eNumberingPhysical_def)
    with num(3) show False by (simp add: bGpioIsValid_def)
  qed
  with logical_pin(1) [OF l num(1) this, of cl] logical_pin(2) [OF l num(1) this] num
  show "0 \<le> do_num d" "do_num d < 31" "do_num d < pl_size l" "0 \<le> pl_pin l ! nat (do_num d)" "pl_pin l ! nat (do_num d) < n"
    by (simp_all add: bGpioIsValid_def)
qed

lemma dout_list_inj:
  assumes l: "logical gp l" "pin_table n l" and ds: "dout_list gp cl ds"
  shows "distinct (map (\<lambda>d. pl_pin l ! nat (do_num d)) ds)"
proof -
  have "d = e" if "d \<in> set ds" "e \<in> set ds" "pl_pin l ! nat (do_num d) = pl_pin l ! nat (do_num e)" for d e
  proof -
    note places = dout_list_place [OF l ds that(1)] dout_list_place [OF l ds that(2)]
    have len: "int (length (pl_pin l)) = pl_size l" "distinct (filter (\<lambda>g. g \<ge> 0) (pl_pin l))" using l(2) by (simp_all add: pin_table_def)
    have "nat (do_num d) = nat (do_num e)"
      using filter_nth_inj [OF len(2), of "nat (do_num d)" "nat (do_num e)"] places len(1) that(3) by (simp add: nat_less_iff)
    then have "do_num d = do_num e" using places by simp
    then show ?thesis using ds that(1,2) by (auto simp: dout_list_def distinct_map dest: inj_onD)
  qed
  moreover have "distinct ds" using ds by (simp add: dout_list_def distinct_map)
  ultimately show ?thesis by (auto simp: distinct_map inj_on_def)
qed

lemma dout_list_length:
  assumes "dout_list gp cl ds"
  shows "length ds \<le> 32"
proof -
  have "set (map do_num ds) \<subseteq> {0..<31}" using assms by (auto simp: dout_list_def list_all_iff)
  then have "card (set (map do_num ds)) \<le> card {0..<31 :: int}" by (intro card_mono) simp_all
  moreover have "card (set (map do_num ds)) = length ds" using assms distinct_card [of "map do_num ds"] by (simp add: dout_list_def)
  ultimately show ?thesis by simp
qed

text \<open>What a port of outputs does, all calls in order.\<close>

definition dout_works :: "'w gpio_arch \<Rightarrow> xDout list \<Rightarrow> 'w gst \<Rightarrow> bool" where
  "dout_works A ds s \<longleftrightarrow> (\<exists>port s1 s2 s3 s4 s5. open_douts A ds \<lparr>do_pins = ds, do_set_mask = 0, do_clr_mask = 0\<rparr> s = Inr (0, port, s1) \<and>
    iDoutSetAll A port s1 = Inr (0, s2) \<and> iDoutReadAll A port s2 = Inr (mask (length ds), s3) \<and>
    iDoutClearAll A port s3 = Inr (0, s4) \<and> iDoutReadAll A port s4 = Inr (0, s5))"

lemma dout_ports:
  assumes "logical gp l" "pin_table n l" "dout_list gp cl ds"
  shows "(\<forall>d \<in> set ds. 0 \<le> do_num d \<and> do_num d < int (nat (pl_size l)) \<and> do_num d < 31 \<and> pl_pin l ! nat (do_num d) \<in> {0..<n}) \<and>
    distinct (map (\<lambda>d. pl_pin l ! nat (do_num d)) ds)"
  using dout_list_place [OF assms] dout_list_inj [OF assms] by fastforce

text \<open>C33.  On a Raspberry Pi of any revision, a port of outputs that is opened on different existing pins with
  logical numbers below 31 works: after all have been set, all read as set, whatever their active levels, and after all have
  been cleared, all read as cleared.\<close>

theorem rpi_dout_cycle:
  assumes "rpi_ok K fs lv s" "logical (fst s) l" "l \<in> set rpi_pxLogicalPins" "dout_list (fst s) (ar_conn (rpi_arch K board bcm2709)) ds"
  shows "dout_works (rpi_arch K board bcm2709) ds s"
proof -
  have table: "pin_table 32 l" using rpi_tables assms(3) by (simp add: list_all_iff)
  have "bGpioIsOpen (fst s)" using assms(1) by (auto simp: bGpioIsOpen_def bIoMapIsOpen_def rpi_ok_def mapped_def)
  moreover have "rpi.dout_pins ds (\<lambda>p. pl_pin l ! nat p) (nat (pl_size l))"
    unfolding rpi.dout_pins_def using dout_ports [OF assms(2) table assms(4)] by blast
  ultimately show ?thesis unfolding dout_works_def
    by (intro rpi.dout_cycle [OF assms(1) _ logical_size [OF assms(2)] logical_named [OF assms(2) table]] dout_list_length [OF assms(4)])
qed

text \<open>C32.  The same on all NanoPi, whose pins are in eight ports behind two maps.\<close>

theorem nanopi_dout_cycle:
  assumes "nano_ok K regs s" "logical (fst s) l" "l \<in> set nanopi_pxLogToMcu" "dout_list (fst s) (ar_conn (nanopi_arch K board)) ds"
  shows "dout_works (nanopi_arch K board) ds s"
proof -
  have table: "pin_table 106 l" using nanopi_tables assms(3) by (simp add: list_all_iff)
  have "bGpioIsOpen (fst s)" using assms(1) by (auto simp: bGpioIsOpen_def bIoMapIsOpen_def nano_ok_def mapped_def)
  moreover have "nanopi.dout_pins ds (\<lambda>p. pl_pin l ! nat p) (nat (pl_size l))"
    unfolding nanopi.dout_pins_def using dout_ports [OF assms(2) table assms(4)] by blast
  ultimately show ?thesis unfolding dout_works_def
    by (intro nanopi.dout_cycle [OF assms(1) _ logical_size [OF assms(2)] logical_named [OF assms(2) table]] dout_list_length [OF assms(4)])
qed

text \<open>Boards whose registers are functions, with pins 0 to 2 of a list as outputs.\<close>

definition mem_os :: "(nat \<Rightarrow> nat \<Rightarrow> u32) iosys" where
  "mem_os = \<lparr>os_open = \<lambda>w. (3, w), os_mmap = \<lambda>size fd base w. (Some (if base = H3_IO1_BASE then 0 else 1), w),
     os_munmap = \<lambda>h size w. (0, w), os_close = \<lambda>fd w. (0, w), os_get = \<lambda>h i w. (w h i, w),
     os_put = \<lambda>h i v w. w(h := (w h)(i := v)), os_delay_us = \<lambda>n w. w\<rparr>"

definition some_map :: "int \<Rightarrow> nat \<Rightarrow> xIoMap option" where
  "some_map base h = Some \<lparr>io_base = base, io_size = 4096, io_fd = 3, io_io = Some h\<rparr>"

definition some_outputs :: "xDout list" where
  "some_outputs = [\<lparr>do_num = 2, do_act = True\<rparr>, \<lparr>do_num = 0, do_act = False\<rparr>, \<lparr>do_num = 1, do_act = True\<rparr>]"

definition nano_start :: "(nat \<Rightarrow> nat \<Rightarrow> u32) gst" where
  "nano_start = (nanopi_gpio\<lparr>g_map0 := some_map H3_IO1_BASE 0, g_map1 := some_map H3_IO2_BASE 1,
     g_list := Some (hd nanopi_pxLogToMcu), g_numbering := eNumberingLogical, g_link := 1\<rparr>, \<lambda>h i. 0x77777777)"

lemma nano_start_ok: "nano_ok mem_os (\<lambda>w. w) nano_start" "logical (fst nano_start) (hd nanopi_pxLogToMcu)"
  "dout_list (fst nano_start) (ar_conn (nanopi_arch mem_os 1)) some_outputs"
proof -
  show "nano_ok mem_os (\<lambda>w. w) nano_start"
    by (simp add: nano_ok_def reg_mem_def mem_os_def nano_start_def some_map_def mapped_def handle_def nanopi_gpio_def)
  show "logical (fst nano_start) (hd nanopi_pxLogToMcu)"
    by (simp add: logical_def nano_start_def)
  show "dout_list (fst nano_start) (ar_conn (nanopi_arch mem_os 1)) some_outputs"
    by code_simp
qed

theorem nanopi_dout_cycle_witness: "dout_works (nanopi_arch mem_os 1) some_outputs nano_start"
  by (rule nanopi_dout_cycle [OF nano_start_ok(1,2) _ nano_start_ok(3)]) (simp add: nanopi_pxLogToMcu_def)

text \<open>The Raspberry Pi: a write to the registers that set and clear changes the levels of the outputs.\<close>

type_synonym pi_world = "(nat \<Rightarrow> nat \<Rightarrow> u32) \<times> (nat \<Rightarrow> u32)"

definition out_bits :: "(nat \<Rightarrow> u32) \<Rightarrow> u32" where
  "out_bits f = horner_sum of_bool 2 (map (\<lambda>k. rpi_field f k = 1) [0..<32])"

lemma bit_out_bits: "k < 32 \<Longrightarrow> bit (out_bits f) k \<longleftrightarrow> rpi_field f k = 1"
  by (simp add: out_bits_def bit_horner_sum_bit_word_iff del: upt_Suc)

definition pi_os :: "pi_world iosys" where
  "pi_os = \<lparr>os_open = \<lambda>w. (3, w), os_mmap = \<lambda>size fd base w. (Some 0, w), os_munmap = \<lambda>h size w. (0, w), os_close = \<lambda>fd w. (0, w),
     os_get = \<lambda>h i w. (if i = GPLEV0 then snd w h else fst w h i, w),
     os_put = \<lambda>h i v w.
       if i = GPSET0 then (fst w, (snd w)(h := snd w h OR (v AND out_bits (fst w h))))
       else if i = GPCLR0 then (fst w, (snd w)(h := snd w h AND NOT (v AND out_bits (fst w h))))
       else ((fst w)(h := (fst w h)(i := v)), snd w),
     os_delay_us = \<lambda>n w. w\<rparr>"

definition pi_start :: "pi_world gst" where
  "pi_start = (rpi_gpio\<lparr>g_map0 := some_map 0x3F200000 0, g_list := Some (hd (tl rpi_pxLogicalPins)), g_numbering := eNumberingLogical,
     g_link := 1\<rparr>, \<lambda>h i. 0, \<lambda>h. 0)"

lemma pi_start_ok: "rpi_ok pi_os fst snd pi_start" "logical (fst pi_start) (hd (tl rpi_pxLogicalPins))"
  "dout_list (fst pi_start) (ar_conn (rpi_arch pi_os 2 False)) some_outputs"
proof -
  show "rpi_ok pi_os fst snd pi_start"
    by (auto simp: rpi_ok_def rpi_mem_def rpi_drives_def pi_os_def pi_start_def some_map_def mapped_def rpi_gpio_def bit_out_bits
      GPLEV0_def GPSET0_def GPCLR0_def bit_or_iff bit_and_iff bit_not_iff)
  show "logical (fst pi_start) (hd (tl rpi_pxLogicalPins))"
    by (simp add: logical_def pi_start_def)
  show "dout_list (fst pi_start) (ar_conn (rpi_arch pi_os 2 False)) some_outputs"
    by code_simp
qed

theorem rpi_dout_cycle_witness: "dout_works (rpi_arch pi_os 2 False) some_outputs pi_start"
  by (rule rpi_dout_cycle [OF pi_start_ok(1,2) _ pi_start_ok(3)]) (simp add: rpi_pxLogicalPins_def)

section \<open>The thread of the inputs\<close>

text \<open>The edge of a pin, and the pins that have changed, in order.\<close>

definition edge_of :: "u32 \<Rightarrow> nat \<Rightarrow> u32" where
  "edge_of values p = (if bit values p then eEdgeRising else eEdgeFalling)"

definition changed_pins :: "u32 \<Rightarrow> u32 \<Rightarrow> nat list" where
  "changed_pins old values = filter (\<lambda>p. bit values p \<noteq> bit old p) [0..<32]"

fun run_edges :: "'w din_env \<Rightarrow> 'w gpio_arch \<Rightarrow> u32 \<Rightarrow> nat list \<Rightarrow> xDinPort \<Rightarrow> 'w gst \<Rightarrow> (xDinPort \<times> 'w gst) run" where
  "run_edges E A values [] port s = Inr (port, s)"
| "run_edges E A values (p # ps) port s =
     cbind (din_event E A p (edge_of values p) port s) (\<lambda>(r, port, s).
       if r \<noteq> 0 then Inr (port\<lparr>di_run := False\<rparr>, s) else run_edges E A values ps port s)"

lemma edges_run:
  "\<lbrakk>p + n \<le> 32; \<forall>i<p. \<not> bit diff i\<rbrakk> \<Longrightarrow>
    din_edges E A n p (push_bit p 1) diff values port s = run_edges E A values (filter (bit diff) [p..<p + n]) port s"
proof (induction n arbitrary: p diff port s)
  case (Suc n)
  have upt: "[p..<p + Suc n] = p # [Suc p..<Suc p + n]" by (simp add: upt_conv_Cons del: upt_Suc)
  have shift: "push_bit 1 (push_bit p 1) = push_bit (Suc p) (1 :: u32)" by simp
  have fit: "Suc p + n \<le> 32" using Suc.prems(1) by simp
  show ?case
  proof (cases "bit diff p")
    case True
    define rest where "rest = diff AND NOT (push_bit p 1)"
    have bits: "bit rest i \<longleftrightarrow> i \<noteq> p \<and> bit diff i" for i
      using Suc.prems(1) by (auto simp: rest_def bit_simps dest: bit_imp_le_length)
    have "\<forall>i<Suc p. \<not> bit rest i" using bits Suc.prems(2) by (auto simp: less_Suc_eq)
    note IH = Suc.IH [OF fit this]
    have filt: "filter (bit rest) [Suc p..<Suc p + n] = filter (bit diff) [Suc p..<Suc p + n]"
      by (rule filter_cong) (auto simp: bits)
    have "diff \<noteq> 0" using True by auto
    then have step: "din_edges E A (Suc n) p (push_bit p 1) diff values port s = cbind (din_event E A p (edge_of values p) port s)
        (\<lambda>(r, port, s). if r \<noteq> 0 then Inr (port\<lparr>di_run := False\<rparr>, s) else din_edges E A n (Suc p) (push_bit (Suc p) 1) rest values port s)"
      using True unfolding din_edges.simps shift rest_def edge_of_def and_bit Suc_eq_plus1 [symmetric] by simp
    show ?thesis unfolding upt step IH filt using True by (simp only: filter.simps if_True run_edges.simps)
  next
    case False
    then have "\<forall>i<Suc p. \<not> bit diff i" using Suc.prems(2) by (auto simp: less_Suc_eq)
    note IH = Suc.IH [OF fit this]
    have none: "filter (bit diff) [Suc p..<Suc p + n] = []" if "diff = 0" using that by simp
    show ?thesis
      unfolding upt din_edges.simps shift and_bit Suc_eq_plus1 [symmetric] IH using False none by (simp del: upt_Suc)
  qed
qed simp

lemma din_edges_changed: "din_edges E A 32 0 1 (values XOR old) values port s = run_edges E A values (changed_pins old values) port s"
proof -
  have "filter (bit (values XOR old)) [0..<32] = changed_pins old values"
    unfolding changed_pins_def by (rule filter_cong) (auto simp: bit_xor_iff)
  with edges_run [of 0 32 "values XOR old" E A "values" port s] show ?thesis by simp
qed

text \<open>C34.  A turn of the thread reads the inputs, waits and reads them again.  If both agree and differ from
  the ones before, the pins that have changed are handled, from the lowest one up, with the edge from the old level to the new
  one, until a callback gives something else than 0, and the new levels are kept; the loop over the bits needs no more than
  32 rounds.  If the second reading differs, nothing happens.\<close>

theorem din_turn_edges:
  "din_turn E A port s =
     cbind (iDinReadAll A port s) (\<lambda>(v, gp, w).
       if v = di_prev_values port then Inr (port, gp, de_delay_ms E 20 w)
       else cbind (iDinReadAll A port (gp, de_delay_ms E 20 w)) (\<lambda>(v1, s1).
         if v1 = v
         then cbind (run_edges E A v (changed_pins (di_prev_values port) v) port s1) (\<lambda>(port1, gp1, w1).
                Inr (port1\<lparr>di_prev_values := v\<rparr>, gp1, de_delay_ms E 20 w1))
         else Inr (port, fst s1, de_delay_ms E 20 (snd s1))))"
  unfolding din_turn_def din_edges_changed DINPUT_POLL_DELAY_def
proof (rule cbind_cong [OF refl], clarify, goal_cases)
  case (1 v gp w)
  show ?case
  proof (cases "v = di_prev_values port")
    case False
    then show ?thesis
      unfolding cbind_assoc if_P [OF False] if_not_P [OF False]
      by (intro cbind_cong [OF refl]) (auto simp: cbind_assoc case_prod_beta intro!: cbind_cong)
  qed simp
qed

text \<open>What is noted at the pins.\<close>

definition noted_edge :: "u32 \<Rightarrow> nat list \<Rightarrow> nat \<Rightarrow> xDinCbContext \<Rightarrow> xDinCbContext" where
  "noted_edge v ps p c = (if p \<in> set ps then c\<lparr>cx_edge_occurred := edge_of v p AND cx_edge c\<rparr> else c)"

lemma din_event_ctx:
  assumes "din_event E A p e port s = Inr (r, port1, s1)"
  shows "p < length (di_ctx port)" "port1 = port\<lparr>di_ctx := (di_ctx port)[p := (di_ctx port ! p)\<lparr>cx_edge_occurred := e AND cx_edge (di_ctx port ! p)\<rparr>]\<rparr>"
  using assms by (auto simp: din_event_def rd_def Let_def cbind_Inr_iff split: if_splits)

lemma run_edges_notes:
  "\<lbrakk>run_edges E A v ps port s = Inr (port1, s1); di_run port1; distinct ps\<rbrakk> \<Longrightarrow>
    set ps \<subseteq> {0..<length (di_ctx port)} \<and> length (di_ctx port1) = length (di_ctx port) \<and>
    (\<forall>p < length (di_ctx port). di_ctx port1 ! p = noted_edge v ps p (di_ctx port ! p))"
proof (induction ps arbitrary: port s)
  case (Cons p ps)
  then obtain r port2 s2 where ev: "din_event E A p (edge_of v p) port s = Inr (r, port2, s2)"
      and r: "r = 0" and run: "run_edges E A v ps port2 s2 = Inr (port1, s1)"
    by (auto simp: cbind_Inr_iff split: if_splits)
  note ctx = din_event_ctx [OF ev]
  have IH: "set ps \<subseteq> {0..<length (di_ctx port2)} \<and> length (di_ctx port1) = length (di_ctx port2) \<and>
    (\<forall>q < length (di_ctx port2). di_ctx port1 ! q = noted_edge v ps q (di_ctx port2 ! q))"
    using Cons.IH [OF run] Cons.prems(2,3) by simp
  have "di_ctx port1 ! q = noted_edge v (p # ps) q (di_ctx port ! q)" if "q < length (di_ctx port)" for q
    using IH that ctx Cons.prems(3) by (cases "q = p") (auto simp: noted_edge_def)
  with IH ctx show ?case by simp
qed (simp add: noted_edge_def)

text \<open> When no callback stops the thread, each pin that has changed keeps the edge it has seen if its
  callback is for this edge, and none otherwise; the other pins keep theirs; no callback, edge or data of a pin changes.  A
  change of a pin that the port does not have would be an access behind the contexts.\<close>

theorem din_edges_notes:
  assumes "din_edges E A 32 0 1 (v XOR di_prev_values port) v port s = Inr (port1, s1)" "di_run port1"
  shows "set (changed_pins (di_prev_values port) v) \<subseteq> {0..<length (di_ctx port)} \<and> length (di_ctx port1) = length (di_ctx port) \<and>
    (\<forall>p < length (di_ctx port). di_ctx port1 ! p = noted_edge v (changed_pins (di_prev_values port) v) p (di_ctx port ! p))"
  using run_edges_notes [OF assms(1) [unfolded din_edges_changed] assms(2)] by (simp add: changed_pins_def)

definition din_example :: "pi_world din_env" where
  "din_example = \<lparr>de_callback = \<lambda>f edge d w. (0, w), de_grp_callback = \<lambda>f v pin edge d w. (0, w), de_delay_ms = \<lambda>n w. w\<rparr>"

definition din_port :: xDinPort where
  "din_port = \<lparr>di_pins = [\<lparr>di_num = 0, di_act = True, di_pull = 0\<rparr>, \<lparr>di_num = 1, di_act = True, di_pull = 0\<rparr>],
     di_ctx = [\<lparr>cx_edge = 2, cx_callback = Some (UserCallback 5), cx_udata = UserData None, cx_edge_occurred = 0\<rparr>,
               \<lparr>cx_edge = 2, cx_callback = None, cx_udata = UserData None, cx_edge_occurred = 0\<rparr>],
     di_prev_values = 2, di_run = True, di_grouped = False, di_grp = None\<rparr>"

definition din_seen :: xDinPort where
  "din_seen = din_port\<lparr>di_ctx := [\<lparr>cx_edge = 2, cx_callback = Some (UserCallback 5), cx_udata = UserData None, cx_edge_occurred = 2\<rparr>,
               \<lparr>cx_edge = 2, cx_callback = None, cx_udata = UserData None, cx_edge_occurred = 0\<rparr>]\<rparr>"

theorem din_edges_notes_witness:
  "cx_edge_occurred (di_ctx din_seen ! 0) = 2 \<and>
   di_ctx din_seen ! 0 = noted_edge 1 (changed_pins (di_prev_values din_port) 1) 0 (di_ctx din_port ! 0)"
proof -
  have run: "din_edges din_example (rpi_arch pi_os 2 False) 32 0 1 (1 XOR di_prev_values din_port) 1 din_port pi_start = Inr (din_seen, pi_start)"
    unfolding din_edges_changed by (simp add: changed_pins_def upt_rec din_port_def din_seen_def din_event_def rd_def din_call_def din_example_def
      edge_of_def eEdgeRising_def eEdgeFalling_def pi_start_def)
  have "di_run din_seen" by (simp add: din_seen_def din_port_def)
  moreover have "0 < length (di_ctx din_port)" by (simp add: din_port_def)
  ultimately have "di_ctx din_seen ! 0 = noted_edge 1 (changed_pins (di_prev_values din_port) 1) 0 (di_ctx din_port ! 0)"
    using din_edges_notes [OF run] by blast
  moreover have "cx_edge_occurred (di_ctx din_seen ! 0) = 2" by (simp add: din_seen_def)
  ultimately show ?thesis by blast
qed

section \<open>The iterator\<close>

text \<open>The lists whose indexes are the numbers that the iterator asks for.\<close>

definition plain_numbers :: "xGpio \<Rightarrow> xPinList \<Rightarrow> bool" where
  "plain_numbers gp l \<longleftrightarrow> g_list gp = Some l \<and> 0 \<le> pl_first l \<and> pl_last l < int (length (pl_pin l)) \<and>
     (g_numbering gp = eNumberingPhysical \<longrightarrow> pl_last l < 100)"

lemma pin_at_valid:
  assumes "plain_numbers gp l" "g_i gp \<le> pl_last l" "0 \<le> g_i gp"
  shows "bGpioIsValid cl (pin_at gp) gp = Inr (pl_first l \<le> g_i gp \<and> 0 \<le> pl_pin l ! nat (g_i gp))"
  using assms by (auto simp: plain_numbers_def bGpioIsValid_def iGpioMcuPin_def pin_at_def rd_int_def rd_def nat_less_iff)

lemma next_finds:
  "\<lbrakk>plain_numbers gp l; j = (if g_i gp = ITERATOR_FRONT then pl_first l else g_i gp + 1); pl_first l \<le> j; k = j + int n;
    k \<le> pl_last l; \<forall>i. j \<le> i \<and> i < k \<longrightarrow> pl_pin l ! nat i < 0; 0 \<le> pl_pin l ! nat k\<rbrakk> \<Longrightarrow>
    iGpioNext cl gp = ret (pin_at (gp\<lparr>g_i := k\<rparr>), gp\<lparr>g_i := k\<rparr>)"
proof (induction n arbitrary: gp j)
  case 0
  have plain: "plain_numbers (gp\<lparr>g_i := j\<rparr>) l" using 0 by (simp add: plain_numbers_def)
  have "bGpioIsValid cl (pin_at (gp\<lparr>g_i := j\<rparr>)) (gp\<lparr>g_i := j\<rparr>) = Inr True"
    using pin_at_valid [OF plain, of cl] 0 by (auto simp: plain_numbers_def)
  then show ?case using 0 by (subst iGpioNext.simps) (auto simp: plain_numbers_def Let_def)
next
  case (Suc n)
  have plain: "plain_numbers (gp\<lparr>g_i := j\<rparr>) l" using Suc.prems by (simp add: plain_numbers_def)
  have j: "0 \<le> j" "j < k" using Suc.prems by (auto simp: plain_numbers_def)
  have "bGpioIsValid cl (pin_at (gp\<lparr>g_i := j\<rparr>)) (gp\<lparr>g_i := j\<rparr>) = Inr False"
    using pin_at_valid [OF plain, of cl] Suc.prems j by force
  moreover have "bGpioHasNext (gp\<lparr>g_i := j\<rparr>)" using Suc.prems j by (auto simp: bGpioHasNext_def plain_numbers_def)
  ultimately have "iGpioNext cl gp = iGpioNext cl (gp\<lparr>g_i := j\<rparr>)"
    using Suc.prems by (subst iGpioNext.simps) (auto simp: plain_numbers_def Let_def)
  also have "\<dots> = ret (pin_at (gp\<lparr>g_i := j, g_i := k\<rparr>), gp\<lparr>g_i := j, g_i := k\<rparr>)"
    using Suc.prems j by (intro Suc.IH [OF plain, of "j + 1"]) (auto simp: ITERATOR_FRONT_def)
  finally show ?case by simp
qed

lemma next_lost:
  assumes "iGpioNext cl gp = Some y" "g_list gp = Some l" "g_numbering gp \<noteq> eNumberingPhysical" "pl_last l \<le> g_i gp" "0 \<le> pl_last l"
  shows False
proof -
  have "g_list gp = Some l \<and> g_numbering gp \<noteq> eNumberingPhysical \<and> pl_last l \<le> g_i gp \<longrightarrow> False"
  proof (rule iGpioNext.raw_induct [OF _ assms(1)])
    fix f :: "xConnectorList \<Rightarrow> xGpio \<Rightarrow> (int \<times> xGpio) out" and cl gp y
    assume IH: "\<And>cl gp y. f cl gp = Some y \<Longrightarrow> g_list gp = Some l \<and> g_numbering gp \<noteq> eNumberingPhysical \<and> pl_last l \<le> g_i gp \<longrightarrow> False"
      and eq: "(case g_list gp of None \<Rightarrow> ret (- 1, gp)
        | Some l \<Rightarrow> let gp = gp\<lparr>g_i := if g_i gp = ITERATOR_FRONT then pl_first l else g_i gp + 1\<rparr> in
            obind (Some (bGpioIsValid cl (pin_at gp) gp)) (\<lambda>ok.
              if ok then ret (pin_at gp, gp) else if bGpioHasNext gp then f cl gp else ret (- 1, gp))) = Some y"
    show "g_list gp = Some l \<and> g_numbering gp \<noteq> eNumberingPhysical \<and> pl_last l \<le> g_i gp \<longrightarrow> False"
    proof
      assume st: "g_list gp = Some l \<and> g_numbering gp \<noteq> eNumberingPhysical \<and> pl_last l \<le> g_i gp"
      let ?gp = "gp\<lparr>g_i := g_i gp + 1\<rparr>"
      have "bGpioIsValid cl (pin_at ?gp) ?gp = Inr False" using st by (simp add: bGpioIsValid_def iGpioMcuPin_def pin_at_def)
      moreover have "bGpioHasNext ?gp" using st by (simp add: bGpioHasNext_def)
      ultimately have "f cl ?gp = Some y" using eq st assms(5) by (simp add: ITERATOR_FRONT_def Let_def)
      from IH [OF this] st show False by simp
    qed
  qed
  with assms show False by blast
qed

text \<open> The iterator gives the next pin that exists and leaves out the holes of the list, from the front
  or from the pin it has given before, in any numbering.\<close>

theorem iGpioNext_finds:
  assumes "plain_numbers gp l" "j = (if g_i gp = ITERATOR_FRONT then pl_first l else g_i gp + 1)" "pl_first l \<le> j"
    and "j \<le> k" "k \<le> pl_last l" "\<forall>i. j \<le> i \<and> i < k \<longrightarrow> pl_pin l ! nat i < 0" "0 \<le> pl_pin l ! nat k"
  shows "iGpioNext cl gp = ret (pin_at (gp\<lparr>g_i := k\<rparr>), gp\<lparr>g_i := k\<rparr>)"
  by (rule next_finds [OF assms(1-3) _ assms(5-7), of "nat (k - j)"]) (use assms(4) in simp)

definition phys_port :: xGpio where
  "phys_port = nanopi_gpio\<lparr>g_list := Some (hd nanopi_pxPhyToMcu), g_numbering := eNumberingPhysical, g_i := 4\<rparr>"

theorem iGpioNext_finds_witness:
  "iGpioNext (hd nanopi_pxPhyConn) phys_port = ret (pin_at (phys_port\<lparr>g_i := 6\<rparr>), phys_port\<lparr>g_i := 6\<rparr>)"
proof (rule iGpioNext_finds [where l = "hd nanopi_pxPhyToMcu" and j = 5])
  show "plain_numbers phys_port (hd nanopi_pxPhyToMcu)" unfolding plain_numbers_def by code_simp
  show "5 = (if g_i phys_port = ITERATOR_FRONT then pl_first (hd nanopi_pxPhyToMcu) else g_i phys_port + 1)" by code_simp
  have hole: "pl_pin (hd nanopi_pxPhyToMcu) ! nat 5 < 0" by code_simp
  have "i = 5" if "5 \<le> i \<and> i < 6" for i :: int using that by simp
  with hole show "\<forall>i. 5 \<le> i \<and> i < 6 \<longrightarrow> pl_pin (hd nanopi_pxPhyToMcu) ! nat i < 0" by blast
qed code_simp+

text \<open> Behind the last pin the iterator does not return: it asks for ever higher indexes and compares the index with the last
  one for equality.\<close>

theorem iGpioNext_lost:
  assumes "g_list gp = Some l" "g_numbering gp \<noteq> eNumberingPhysical" "pl_last l \<le> g_i gp" "0 \<le> pl_last l"
  shows "iGpioNext cl gp = None"
  using next_lost [OF _ assms, of cl] by (cases "iGpioNext cl gp") auto

theorem iGpioNext_lost_witness: "iGpioNext (hd rpi_pxPhyConn) ((fst pi_start)\<lparr>g_i := 20\<rparr>) = None"
  by (rule iGpioNext_lost [where l = "hd (tl rpi_pxLogicalPins)"])
    (simp_all add: pi_start_def rpi_pxLogicalPins_def eNumberingLogical_def eNumberingPhysical_def)

section \<open>A failed opening\<close>

text \<open>A system that maps the first block of registers and not the second; it remembers the blocks that are mapped.\<close>

definition half_os :: "nat list iosys" where
  "half_os = \<lparr>os_open = \<lambda>w. (3, w), os_mmap = \<lambda>size fd base w. if base = H3_IO1_BASE then (Some 7, 7 # w) else (None, w),
     os_munmap = \<lambda>h size w. (0, remove1 h w), os_close = \<lambda>fd w. (0, w), os_get = \<lambda>h i w. (0, w), os_put = \<lambda>h i v w. w,
     os_delay_us = \<lambda>n w. w\<rparr>"

text \<open> When the second block of registers of a NanoPi cannot be mapped, the opening gives nothing
  and unmaps the first block, but the port keeps it: the next opening succeeds and gives a port on memory that is not
  mapped, whose pins are then read from there.\<close>

theorem nanopi_xGpioOpen_stale:
  "(case nanopi_xGpioOpen half_os (Some 1) (nanopi_gpio, \<lparr>mplan = [], live = 0\<rparr>, []) of
      Inl c \<Rightarrow> False
    | Inr (ok, gp, m, w) \<Rightarrow> \<not> ok \<and> w = [] \<and> map_option io_io (g_map0 gp) = Some (Some 7) \<and>
        (case nanopi_xGpioOpen half_os (Some 1) (gp, m, w) of
           Inl c \<Rightarrow> False
         | Inr (ok, gp, m, w) \<Rightarrow> ok \<and> w = [] \<and> bGpioIsOpen gp))"
  by code_simp

end
