(* ===== verification/Blyss.thy ===== *)
theory Blyss
  imports Dport
begin

text \<open>
  Blyss remote controls (\<open>src/src/gpio/blyss.c\<close>, \<open>src/include/sysio/blyss.h\<close>): frames of 52 bits in seven bytes, whose fields
  are made of digits of four bits, and their transmission by pulses on an output.
\<close>

section \<open>Constants and data\<close>

definition BLYSS_FLAG :: u8 where "BLYSS_FLAG = 0xFE"
definition BLYSS_NOF_BITS :: nat where "BLYSS_NOF_BITS = 52"
definition BLYSS_IDX_FLAG :: nat where "BLYSS_IDX_FLAG = 0"
definition BLYSS_IDX_GCHAN :: nat where "BLYSS_IDX_GCHAN = 8"
definition BLYSS_IDX_ADDR :: nat where "BLYSS_IDX_ADDR = 12"
definition BLYSS_IDX_CHAN :: nat where "BLYSS_IDX_CHAN = 28"
definition BLYSS_IDX_STATE :: nat where "BLYSS_IDX_STATE = 32"
definition BLYSS_IDX_ROLL :: nat where "BLYSS_IDX_ROLL = 36"
definition BLYSS_IDX_TOKEN :: nat where "BLYSS_IDX_TOKEN = 44"

definition HEADER_TIME :: int where "HEADER_TIME = 2400"
definition BLYSS_T1 :: int where "BLYSS_T1 = 400"
definition BLYSS_T2 :: int where "BLYSS_T2 = 800"
definition FOOTER_TIME :: int where "FOOTER_TIME = 24"

definition barrel :: "u8 list" where "barrel = [0x98, 0xDA, 0x1E, 0xE6, 0x67]"
definition channels :: "u8 list" where "channels = [0, 8, 4, 2, 1, 3, 5, 6, 7]"

text \<open>A frame is its seven bytes.\<close>

type_synonym xBlyssFrame = "u8 list"

record xBlyss =
  bl_out :: "xDoutPort option"
  bl_in :: "xDinPort option"
  bl_last_token :: u8
  bl_roll_idx :: nat

section \<open>Fields\<close>

text \<open>\<open>c\<close> bits of the \<open>len\<close> are done, \<open>index\<close> is the next bit of the frame and \<open>i\<close> its byte.  The digit in the lower half of a byte is
  not masked.\<close>

function set_bits :: "nat \<Rightarrow> nat \<Rightarrow> nat \<Rightarrow> nat \<Rightarrow> u16 \<Rightarrow> xBlyssFrame \<Rightarrow> xBlyssFrame run" where
  "set_bits c index i len value f =
     (if c \<ge> len then Inr f
      else if index mod 8 = 0 \<and> len - c \<ge> 8 then
        cbind (wr f i (ucast (drop_bit c value))) (set_bits (c + 8) (index + 8) (i + 1) len value)
      else
        let (msk, ls) = (if index mod 8 = 0 then (0x0F, 4) else (0xF0, 0)) in
        cbind (rd f i) (\<lambda>b.
        cbind (wr f i ((b AND msk) OR push_bit ls (ucast (drop_bit (len - c - 4) value)))) (set_bits (c + 4) (index + 4) (i + 1) len value)))"
  by pat_completeness auto
termination by (relation "measure (\<lambda>(c, _, _, len, _, _). len - c)") auto

definition vSetBits :: "xBlyssFrame \<Rightarrow> nat \<Rightarrow> nat \<Rightarrow> u16 \<Rightarrow> xBlyssFrame run" where
  "vSetBits f index len value = set_bits 0 index (index div 8) len value f"

function get_bits :: "nat \<Rightarrow> nat \<Rightarrow> nat \<Rightarrow> nat \<Rightarrow> u16 \<Rightarrow> xBlyssFrame \<Rightarrow> u16 run" where
  "get_bits c index i len value f =
     (if c \<ge> len then Inr value
      else
        cbind (rd f i) (\<lambda>b.
          if index \<noteq> 4 \<and> index mod 8 = 0 \<and> len - c \<ge> 8 then
            get_bits (c + 8) (index + 8) (i + 1) len (value OR push_bit (len - c - 8) (ucast b)) f
          else
            let nibble = (if index \<noteq> 4 \<and> index mod 8 = 0 then drop_bit 4 b else b AND 0x0F) in
            get_bits (c + 4) (index + 4) (i + 1) len (value OR push_bit (len - c - 4) (ucast nibble)) f))"
  by pat_completeness auto
termination by (relation "measure (\<lambda>(c, _, _, len, _, _). len - c)") auto

declare set_bits.simps [simp del] get_bits.simps [simp del]

definition usGetBits :: "xBlyssFrame \<Rightarrow> nat \<Rightarrow> nat \<Rightarrow> u16 run" where
  "usGetBits f index len = get_bits 0 index (index div 8) len 0 f"

definition get8 :: "xBlyssFrame \<Rightarrow> nat \<Rightarrow> nat \<Rightarrow> u8 run" where
  "get8 f index len = cbind (usGetBits f index len) (\<lambda>v. Inr (ucast v))"

definition vSetFlag :: "xBlyssFrame \<Rightarrow> xBlyssFrame run" where
  "vSetFlag f = vSetBits f BLYSS_IDX_FLAG 8 (ucast BLYSS_FLAG)"

definition ucFlag :: "xBlyssFrame \<Rightarrow> u8 run" where "ucFlag f = get8 f BLYSS_IDX_FLAG 8"
definition ucToken :: "xBlyssFrame \<Rightarrow> u8 run" where "ucToken f = get8 f BLYSS_IDX_TOKEN 8"

definition vSetToken :: "xBlyss \<Rightarrow> xBlyssFrame \<Rightarrow> (xBlyss \<times> xBlyssFrame) run" where
  "vSetToken b f =
     cbind (vSetBits f BLYSS_IDX_TOKEN 8 (ucast (bl_last_token b))) (\<lambda>f. Inr (b\<lparr>bl_last_token := bl_last_token b + 10\<rparr>, f))"

definition ucRollingCode :: "xBlyssFrame \<Rightarrow> u8 run" where "ucRollingCode f = get8 f BLYSS_IDX_ROLL 8"

definition vSetRollingCode :: "xBlyss \<Rightarrow> xBlyssFrame \<Rightarrow> (xBlyss \<times> xBlyssFrame) run" where
  "vSetRollingCode b f =
     cbind (rd barrel (bl_roll_idx b)) (\<lambda>code. cbind (vSetBits f BLYSS_IDX_ROLL 8 (ucast code)) (\<lambda>f.
       let k = bl_roll_idx b + 1 in Inr (b\<lparr>bl_roll_idx := (if k \<ge> length barrel then 0 else k)\<rparr>, f)))"

definition bIsValidRollingCode :: "u8 \<Rightarrow> bool" where "bIsValidRollingCode code \<longleftrightarrow> code \<in> set barrel"

fun find_channel :: "u8 list \<Rightarrow> u8 \<Rightarrow> u8 \<Rightarrow> u8" where
  "find_channel [] c field = -1"
| "find_channel (ch # chs) c field = (if field = ch then c else find_channel chs (c + 1) field)"

definition ucDecodeChannel :: "u8 \<Rightarrow> u8" where "ucDecodeChannel field = find_channel channels 0 field"

definition vBlyssFrameSetGlobalChannel :: "xBlyssFrame \<Rightarrow> u8 \<Rightarrow> xBlyssFrame run" where
  "vBlyssFrameSetGlobalChannel f g = vSetBits f BLYSS_IDX_GCHAN 4 (ucast g)"

definition vBlyssFrameSetAddress :: "xBlyssFrame \<Rightarrow> u16 \<Rightarrow> xBlyssFrame run" where
  "vBlyssFrameSetAddress f addr = vSetBits f BLYSS_IDX_ADDR 16 addr"

definition vBlyssFrameSetTxId :: "xBlyssFrame \<Rightarrow> u8 list \<Rightarrow> xBlyssFrame run" where
  "vBlyssFrameSetTxId f tx_id =
     cbind (rd tx_id 0) (\<lambda>b0. cbind (vBlyssFrameSetGlobalChannel f b0) (\<lambda>f. cbind (rd tx_id 1) (\<lambda>b1. cbind (rd tx_id 2) (\<lambda>b2.
       vBlyssFrameSetAddress f (push_bit 8 (ucast b1) OR ucast b2)))))"

text \<open>The last channel is left out.\<close>

definition vBlyssFrameSetChannel :: "xBlyssFrame \<Rightarrow> u8 \<Rightarrow> xBlyssFrame run" where
  "vBlyssFrameSetChannel f channel =
     (if unat channel < length channels - 1
      then cbind (rd channels (unat channel)) (\<lambda>ch. vSetBits f BLYSS_IDX_CHAN 4 (ucast ch))
      else Inr f)"

definition vBlyssFrameSetState :: "xBlyssFrame \<Rightarrow> bool \<Rightarrow> xBlyssFrame run" where
  "vBlyssFrameSetState f st = vSetBits f BLYSS_IDX_STATE 4 (if st then 0 else 1)"

definition ucBlyssFrameGlobalChannel :: "xBlyssFrame \<Rightarrow> u8 run" where
  "ucBlyssFrameGlobalChannel f = get8 f BLYSS_IDX_GCHAN 4"

definition ucBlyssFrameChannel :: "xBlyssFrame \<Rightarrow> u8 run" where
  "ucBlyssFrameChannel f = cbind (get8 f BLYSS_IDX_CHAN 4) (\<lambda>v. Inr (ucDecodeChannel v))"

definition usBlyssFrameAddress :: "xBlyssFrame \<Rightarrow> u16 run" where
  "usBlyssFrameAddress f = usGetBits f BLYSS_IDX_ADDR 16"

definition bBlyssFrameState :: "xBlyssFrame \<Rightarrow> bool run" where
  "bBlyssFrameState f = cbind (usGetBits f BLYSS_IDX_STATE 4) (\<lambda>v. Inr (v = 0))"

definition bBlyssFrameIsValid :: "xBlyssFrame \<Rightarrow> bool run" where
  "bBlyssFrameIsValid f =
     cbind (rd f 0) (\<lambda>b. if b = BLYSS_FLAG then cbind (ucRollingCode f) (\<lambda>c. Inr (bIsValidRollingCode c)) else Inr False)"

text \<open>The channel is taken for the field of a frame.\<close>

definition bBlyssChannelIsValid :: "u8 \<Rightarrow> bool" where
  "bBlyssChannelIsValid channel \<longleftrightarrow> ucDecodeChannel channel \<noteq> -1"

definition xBlyssFrameNew :: "u8 list \<Rightarrow> mem \<Rightarrow> (xBlyssFrame \<times> mem) run" where
  "xBlyssFrameNew tx_id m =
     (let (ok, m) = malloc m in
      if \<not> ok then Inl AssertFailed
      else cbind (vSetFlag (replicate 7 0)) (\<lambda>f. cbind (vBlyssFrameSetTxId f tx_id) (\<lambda>f. Inr (f, m))))"

section \<open>Sending\<close>

text \<open>The delays, and the first token, which is random.\<close>

record 'w bl_env =
  be_delay_us :: "int \<Rightarrow> 'w \<Rightarrow> 'w"
  be_delay_ms :: "int \<Rightarrow> 'w \<Rightarrow> 'w"
  be_seed :: "'w \<Rightarrow> u8 \<times> 'w"

definition wait_us :: "'w bl_env \<Rightarrow> int \<Rightarrow> 'w gst \<Rightarrow> 'w gst" where
  "wait_us E n s = (fst s, be_delay_us E n (snd s))"

definition iSetOut :: "'w gpio_arch \<Rightarrow> xBlyss \<Rightarrow> 'w gst \<Rightarrow> (int \<times> 'w gst) run" where
  "iSetOut A b s = cbind (deref (bl_out b)) (\<lambda>port. iDoutSet A 0 port s)"

definition iClearOut :: "'w gpio_arch \<Rightarrow> xBlyss \<Rightarrow> 'w gst \<Rightarrow> (int \<times> 'w gst) run" where
  "iClearOut A b s = cbind (deref (bl_out b)) (\<lambda>port. iDoutClear A 0 port s)"

definition iSendBit :: "'w bl_env \<Rightarrow> 'w gpio_arch \<Rightarrow> xBlyss \<Rightarrow> bool \<Rightarrow> 'w gst \<Rightarrow> (int \<times> 'w gst) run" where
  "iSendBit E A b one s =
     cbind (iClearOut A b s) (\<lambda>(r, s).
       if r = 0 then
         cbind (iSetOut A b (wait_us E (if one then BLYSS_T1 else BLYSS_T2) s)) (\<lambda>(r, s).
           if r = 0 then Inr (0, wait_us E (if one then BLYSS_T2 else BLYSS_T1) s) else Inr (-1, s))
       else Inr (-1, s))"

definition iSendHeader :: "'w bl_env \<Rightarrow> 'w gpio_arch \<Rightarrow> xBlyss \<Rightarrow> 'w gst \<Rightarrow> (int \<times> 'w gst) run" where
  "iSendHeader E A b s = cbind (iSetOut A b s) (\<lambda>(r, s). if r = 0 then Inr (0, wait_us E HEADER_TIME s) else Inr (-1, s))"

definition iSendFooter :: "'w bl_env \<Rightarrow> 'w gpio_arch \<Rightarrow> xBlyss \<Rightarrow> 'w gst \<Rightarrow> (int \<times> 'w gst) run" where
  "iSendFooter E A b s =
     cbind (iClearOut A b s) (\<lambda>(r, s). if r = 0 then Inr (0, fst s, be_delay_ms E FOOTER_TIME (snd s)) else Inr (-1, s))"

text \<open>The loop over the bits: \<open>n\<close> are left, \<open>i\<close> is the next one, in \<open>byte\<close> under \<open>msk\<close>.\<close>

fun send_bits ::
    "'w bl_env \<Rightarrow> 'w gpio_arch \<Rightarrow> xBlyss \<Rightarrow> xBlyssFrame \<Rightarrow> nat \<Rightarrow> nat \<Rightarrow> u8 \<Rightarrow> u8 \<Rightarrow> 'w gst \<Rightarrow> (int \<times> 'w gst) run" where
  "send_bits E A b f 0 i msk byte s = Inr (0, s)"
| "send_bits E A b f (Suc n) i msk byte s =
     cbind (if msk = 0 then cbind (rd f (i div 8)) (\<lambda>x. Inr (0x80, x)) else Inr (msk, byte)) (\<lambda>(msk, byte).
     cbind (iSendBit E A b (byte AND msk \<noteq> 0) s) (\<lambda>(r, s).
       if r \<noteq> 0 then Inr (-1, s) else send_bits E A b f n (i + 1) (drop_bit 1 msk) byte s))"

definition iSendFrame :: "'w bl_env \<Rightarrow> 'w gpio_arch \<Rightarrow> xBlyss \<Rightarrow> xBlyssFrame \<Rightarrow> 'w gst \<Rightarrow> (int \<times> 'w gst) run" where
  "iSendFrame E A b f s =
     cbind (iSendHeader E A b s) (\<lambda>(r, s).
       if r \<noteq> 0 then Inr (-1, s)
       else cbind (send_bits E A b f BLYSS_NOF_BITS 0 0 0 s) (\<lambda>(r, s).
         if r \<noteq> 0 then Inr (-1, s) else iSendFooter E A b s))"

fun send_frames :: "'w bl_env \<Rightarrow> 'w gpio_arch \<Rightarrow> xBlyss \<Rightarrow> xBlyssFrame \<Rightarrow> nat \<Rightarrow> 'w gst \<Rightarrow> (int \<times> 'w gst) run" where
  "send_frames E A b f 0 s = Inr (0, s)"
| "send_frames E A b f (Suc n) s =
     cbind (iSendFrame E A b f s) (\<lambda>(r, s). if r \<noteq> 0 then Inr (-1, s) else send_frames E A b f n s)"

text \<open>The code and the token move on once for all repetitions.\<close>

definition iBlyssSend ::
    "'w bl_env \<Rightarrow> 'w gpio_arch \<Rightarrow> xBlyss \<Rightarrow> xBlyssFrame \<Rightarrow> u8 \<Rightarrow> 'w gst \<Rightarrow> (int \<times> xBlyss \<times> xBlyssFrame \<times> 'w gst) run" where
  "iBlyssSend E A b f repeat s =
     (if bl_out b = None then Inr (0, b, f, s)
      else
        cbind (vSetRollingCode b f) (\<lambda>(b, f). cbind (vSetToken b f) (\<lambda>(b, f).
        cbind (send_frames E A b f (unat repeat) s) (\<lambda>(r, s). Inr (r, b, f, s)))))"

section \<open>Creation and printing\<close>

text \<open>When the input cannot be opened the output stays open.\<close>

definition xBlyssNew ::
    "'w bl_env \<Rightarrow> 'w gpio_board \<Rightarrow> bool \<Rightarrow> int \<Rightarrow> int \<Rightarrow> xGpio \<times> mem \<times> 'w \<Rightarrow> (xBlyss option \<times> xGpio \<times> mem \<times> 'w) run" where
  "xBlyssNew E Bd started iOutPin iInPin s =
     (let (gp, m, w) = s; (ok, m) = malloc m in
      if \<not> ok then Inl AssertFailed
      else
        cbind (if iOutPin \<ge> 0 then xDoutOpen Bd [\<lparr>do_num = iOutPin, do_act = True\<rparr>] (gp, m, w) else Inr (None, gp, m, w)) (\<lambda>(out, gp, m, w).
          if iOutPin \<ge> 0 \<and> out = None then Inr (None, gp, free (Some ()) m, w)
          else
            cbind (if iInPin \<ge> 0 then xDinOpen Bd started [\<lparr>di_num = iInPin, di_act = True, di_pull = 0\<rparr>] (gp, m, w)
                   else Inr (None, gp, m, w)) (\<lambda>(inp, gp, m, w).
              if iInPin \<ge> 0 \<and> inp = None then Inr (None, gp, free (Some ()) m, w)
              else let (token, w) = be_seed E w in
                Inr (Some \<lparr>bl_out = out, bl_in = inp, bl_last_token = token, bl_roll_idx = 0\<rparr>, gp, m, w))))"

definition iBlyssDelete :: "'w gpio_board \<Rightarrow> xBlyss \<Rightarrow> xGpio \<times> mem \<times> 'w \<Rightarrow> (int \<times> xGpio \<times> mem \<times> 'w) run" where
  "iBlyssDelete Bd b s =
     cbind (case bl_out b of None \<Rightarrow> Inr (0, s) | Some port \<Rightarrow> iDoutClose Bd port s) (\<lambda>(r, s).
     cbind (case bl_in b of None \<Rightarrow> Inr (r, s) | Some port \<Rightarrow> iDinClose Bd port s) (\<lambda>(r, gp, m, w).
       Inr (r, gp, free (Some ()) m, w)))"

text \<open>The digits of the frame, and its text.\<close>

fun frame_digits :: "xBlyssFrame \<Rightarrow> nat list \<Rightarrow> u8 list run" where
  "frame_digits f [] = Inr []"
| "frame_digits f (i # is) = cbind (usGetBits f i 4) (\<lambda>v. cbind (frame_digits f is) (\<lambda>ds. Inr (hex_digit (unat v) # ds)))"

definition ok_text :: "bool \<Rightarrow> u8 list" where "ok_text b = (if b then ascii ''Ok'' else ascii ''Error'')"

definition line :: "string \<Rightarrow> u8 list \<Rightarrow> u8 list" where "line title cs = ascii title @ cs @ [10]"

definition vBlyssFramePrintToFile :: "xBlyssFrame \<Rightarrow> u8 list run" where
  "vBlyssFramePrintToFile f =
     cbind (frame_digits f (map (\<lambda>k. 4 * k) [0..<BLYSS_NOF_BITS div 4])) (\<lambda>ds.
     cbind (ucFlag f) (\<lambda>flag. cbind (ucBlyssFrameGlobalChannel f) (\<lambda>g. cbind (usBlyssFrameAddress f) (\<lambda>addr.
     cbind (ucBlyssFrameChannel f) (\<lambda>ch. cbind (bBlyssFrameState f) (\<lambda>st. cbind (ucRollingCode f) (\<lambda>roll. cbind (ucToken f) (\<lambda>token.
       Inr (line ''RF frame          : '' ds @
            line ''RF footprint      : '' (hex2 flag @ ascii '' - '' @ ok_text (flag = BLYSS_FLAG)) @
            line ''RF global channel : '' [hex_digit (unat g)] @
            line ''RF adress         : '' (hex4 addr) @
            line ''RF channel        : '' (c_decimal (uint ch)) @
            line ''Light status      : '' (if st then ascii ''On'' else ascii ''Off'') @
            line ''Rolling code      : '' (hex2 roll @ ascii '' - '' @ ok_text (bIsValidRollingCode roll)) @
            line ''Token             : '' (hex2 token))))))))))"

end
