(* ===== verification/Blyss_Laws.thy ===== *)
theory Blyss_Laws
  imports Blyss Gpio_Ports
begin

text \<open>
  Frames of the remote control: each function that sets a field changes this field and no other, and what goes out of the pin is the
  frame in the pulses of the protocol, whatever the board.
\<close>

section \<open>Fields\<close>

text \<open>The fields as the functions that read a frame give them.\<close>

record frame_fields =
  ff_flag :: u8
  ff_gchan :: u8
  ff_addr :: u16
  ff_chan :: u8
  ff_state :: u16
  ff_roll :: u8
  ff_token :: u8

definition blyss_view :: "xBlyssFrame \<Rightarrow> frame_fields run" where
  "blyss_view f =
     cbind (ucFlag f) (\<lambda>flag. cbind (ucBlyssFrameGlobalChannel f) (\<lambda>g. cbind (usBlyssFrameAddress f) (\<lambda>addr.
     cbind (get8 f BLYSS_IDX_CHAN 4) (\<lambda>ch. cbind (usGetBits f BLYSS_IDX_STATE 4) (\<lambda>st. cbind (ucRollingCode f) (\<lambda>roll. cbind (ucToken f) (\<lambda>token.
       Inr \<lparr>ff_flag = flag, ff_gchan = g, ff_addr = addr, ff_chan = ch, ff_state = st, ff_roll = roll, ff_token = token\<rparr>)))))))"

lemmas blyss_index = BLYSS_IDX_FLAG_def BLYSS_IDX_GCHAN_def BLYSS_IDX_ADDR_def BLYSS_IDX_CHAN_def BLYSS_IDX_STATE_def
  BLYSS_IDX_ROLL_def BLYSS_IDX_TOKEN_def

definition hi :: "u8 \<Rightarrow> u8" where "hi b = drop_bit 4 b"
definition lo :: "u8 \<Rightarrow> u8" where "lo b = b AND 0x0F"
definition byte_of :: "u8 \<Rightarrow> u8 \<Rightarrow> u8" where "byte_of h l = push_bit 4 h OR (l AND 0x0F)"

lemma nibble_words:
  fixes x y :: u8
  shows "ucast (ucast x :: u16) = x" "ucast (drop_bit 4 (ucast x :: u16)) = hi x" "hi x AND 0x0F = hi x" "lo x AND 0x0F = lo x"
    "ucast (push_bit 4 (ucast x :: u16) OR ucast y) = push_bit 4 x OR y"
    "hi (byte_of x y) = lo x" "lo (byte_of x y) = lo y" "lo (lo x) = lo x" "lo (hi x) = hi x" "byte_of (hi x) (lo x) = x"
proof -
  have top: "bit x (4 + n) \<Longrightarrow> n < 4" for n using bit_imp_le_length [of x "4 + n"] by simp
  show "hi x AND 0x0F = hi x" "hi (byte_of x y) = lo x" "lo (byte_of x y) = lo y" "lo (hi x) = hi x" "byte_of (hi x) (lo x) = x"
    "lo x AND 0x0F = lo x" "lo (lo x) = lo x"
    unfolding hi_def lo_def byte_of_def mask_eq_exp_minus_1 [of 4, where ?'a = "8 word", simplified, symmetric]
    by (auto intro!: bit_word_eqI simp: bit_simps dest: bit_imp_le_length intro: top)
  show "ucast (ucast x :: u16) = x" by (auto intro!: bit_word_eqI simp: bit_simps)
  show "ucast (push_bit 4 (ucast x :: u16) OR ucast y) = push_bit 4 x OR y"
    by (auto intro!: bit_word_eqI simp: bit_simps)
  show "ucast (drop_bit 4 (ucast x :: u16)) = hi x"
    unfolding hi_def by (auto intro!: bit_word_eqI simp: bit_simps dest: bit_imp_le_length)
qed

lemma view_bytes:
  "blyss_view [a, b, c, d, e, g, h] = Inr \<lparr>ff_flag = a, ff_gchan = hi b,
     ff_addr = push_bit 12 (ucast (lo b)) OR push_bit 4 (ucast c) OR ucast (hi d), ff_chan = lo d, ff_state = ucast (hi e),
     ff_roll = byte_of (lo e) (hi g), ff_token = byte_of (lo g) (hi h)\<rparr>"
  by (simp add: blyss_view_def ucFlag_def ucBlyssFrameGlobalChannel_def usBlyssFrameAddress_def ucRollingCode_def ucToken_def get8_def
    usGetBits_def blyss_index get_bits.simps rd_def hi_def [symmetric] lo_def [symmetric] nibble_words byte_of_def or.assoc)

lemma seven: "length (f :: u8 list) = 7 \<Longrightarrow> \<exists>a b c d e g h. f = [a, b, c, d, e, g, h]"
  by (auto simp: numeral_eq_Suc length_Suc_conv)

text \<open>The functions that write, on bytes.\<close>

lemma half_masks: "(15 :: u8) = mask 4" "(240 :: u8) = push_bit 4 (mask 4)"
  by (simp_all add: mask_eq_exp_minus_1)

lemma put_hi: "b AND 15 OR push_bit 4 x = byte_of x (lo b)"
  unfolding byte_of_def lo_def by (simp add: and.assoc or.commute)

lemma put_lo: "b AND 240 OR y = byte_of (hi b) y" if "y < 16" for y :: u8
proof -
  have "y < 2 ^ 4" using that by simp
  from bit_below [OF this] show ?thesis
    unfolding byte_of_def hi_def half_masks by (auto intro!: bit_word_eqI simp: bit_simps dest: bit_imp_le_length)
qed

lemma small_parts: "(ucast (drop_bit 12 (v :: u16)) :: u8) < 16" "hi x < 16"
proof -
  have "unat (drop_bit 12 v) < 16" "unat (hi x) < 16"
    using unsigned_less [of v, where ?'a = nat] unsigned_less [of x, where ?'a = nat] by (simp_all add: hi_def unat_drop_bit_eq drop_bit_eq_div [where ?'a = nat])
  then show "(ucast (drop_bit 12 v) :: u8) < 16" "hi x < 16"
    by (simp_all add: word_less_nat_alt unsigned_ucast_eq take_bit_eq_mod)
qed

lemma byte_of_lo: "byte_of x y = byte_of x (lo y)" "byte_of x y = byte_of (lo x) y"
  unfolding byte_of_def lo_def half_masks by (auto intro!: bit_word_eqI simp: bit_simps)

text \<open>The functions that write, on bytes.\<close>

lemma set_bytes:
  "vBlyssFrameSetGlobalChannel [a, b, c, d, e, g, h] x = Inr [a, byte_of x (lo b), c, d, e, g, h]"
  "vBlyssFrameSetAddress [a, b, c, d, e, g, h] v =
     Inr [a, byte_of (hi b) (ucast (drop_bit 12 v)), ucast (drop_bit 4 v), byte_of (ucast v) (lo d), e, g, h]"
  "y < 16 \<Longrightarrow> vSetBits [a, b, c, d, e, g, h] BLYSS_IDX_CHAN 4 (ucast y) = Inr [a, b, c, byte_of (hi d) y, e, g, h]"
  "vBlyssFrameSetState [a, b, c, d, e, g, h] st = Inr [a, b, c, d, byte_of (if st then 0 else 1) (lo e), g, h]"
  "vSetBits [a, b, c, d, e, g, h] BLYSS_IDX_ROLL 8 (ucast x) = Inr [a, b, c, d, byte_of (hi e) (hi x), byte_of (lo x) (lo g), h]"
  "vSetBits [a, b, c, d, e, g, h] BLYSS_IDX_TOKEN 8 (ucast x) = Inr [a, b, c, d, e, byte_of (hi g) (hi x), byte_of (lo x) (lo h)]"
  "vSetBits [a, b, c, d, e, g, h] BLYSS_IDX_FLAG 8 (ucast x) = Inr [x, b, c, d, e, g, h]"
  using byte_of_lo(2) [of x "lo g"] byte_of_lo(2) [of x "lo h"]
  by (simp_all add: vBlyssFrameSetGlobalChannel_def vBlyssFrameSetAddress_def vBlyssFrameSetState_def vSetBits_def
    blyss_index set_bits.simps rd_def wr_def put_hi put_lo small_parts nibble_words)

text \<open>The parts of the values.\<close>

lemma address_parts:
  fixes v :: u16
  shows "push_bit 12 (ucast (lo (ucast (drop_bit 12 v)))) OR push_bit 4 (ucast (ucast (drop_bit 4 v) :: u8)) OR ucast (lo (ucast v)) = v"
  unfolding lo_def half_masks by (auto intro!: bit_word_eqI simp: bit_simps dest: bit_imp_le_length)

text \<open>The rolling code goes around its table, the token moves on by ten.\<close>

lemma seven_view:
  assumes "length f = 7" "blyss_view f = Inr v"
  obtains a b c d e g h where "f = [a, b, c, d, e, g, h]" "v = \<lparr>ff_flag = a, ff_gchan = hi b,
    ff_addr = push_bit 12 (ucast (lo b)) OR push_bit 4 (ucast c) OR ucast (hi d), ff_chan = lo d, ff_state = ucast (hi e),
    ff_roll = byte_of (lo e) (hi g), ff_token = byte_of (lo g) (hi h)\<rparr>"
  using assms seven [OF assms(1)] by (auto simp: view_bytes)

lemma roll_field:
  assumes "length f = 7" "blyss_view f = Inr v" "bl_roll_idx b < 5"
  shows "\<exists>f1. vSetRollingCode b f = Inr (b\<lparr>bl_roll_idx := (bl_roll_idx b + 1) mod 5\<rparr>, f1) \<and> length f1 = 7 \<and>
    blyss_view f1 = Inr (v\<lparr>ff_roll := barrel ! bl_roll_idx b\<rparr>)"
proof -
  obtain b0 b1 b2 b3 b4 b5 b6 where f7: "f = [b0, b1, b2, b3, b4, b5, b6]" and v7: "v = \<lparr>ff_flag = b0, ff_gchan = hi b1,
      ff_addr = push_bit 12 (ucast (lo b1)) OR push_bit 4 (ucast b2) OR ucast (hi b3), ff_chan = lo b3, ff_state = ucast (hi b4),
      ff_roll = byte_of (lo b4) (hi b5), ff_token = byte_of (lo b5) (hi b6)\<rparr>"
    by (rule seven_view [OF assms(1,2)])
  have roll: "rd barrel (bl_roll_idx b) = Inr (barrel ! bl_roll_idx b)" using assms(3) by (simp add: rd_def barrel_def)
  have "(if bl_roll_idx b + 1 \<ge> length barrel then 0 else bl_roll_idx b + 1) = (bl_roll_idx b + 1) mod 5"
    using assms(3) by (cases "bl_roll_idx b = 4") (simp_all add: barrel_def)
  then show ?thesis unfolding vSetRollingCode_def roll f7 by (simp add: Let_def set_bytes view_bytes v7 nibble_words del: One_nat_def)
qed

lemma token_field:
  assumes "length f = 7" "blyss_view f = Inr v"
  shows "\<exists>f1. vSetToken b f = Inr (b\<lparr>bl_last_token := bl_last_token b + 10\<rparr>, f1) \<and> length f1 = 7 \<and>
    blyss_view f1 = Inr (v\<lparr>ff_token := bl_last_token b\<rparr>)"
  by (rule seven_view [OF assms]) (simp add: vSetToken_def set_bytes view_bytes nibble_words)

text \<open>C36.  Each function that sets a field of a frame changes this field and no other one: the global channel gets the
  four lower bits, the address its 16 bits, a channel from 0 to 7 the code that the tables give it, the state 0 for on and 1 for off.
  Sending gives the rolling code and the token, and moves both on, the code around its table of five.\<close>

theorem blyss_fields:
  assumes f: "length f = 7" and v: "blyss_view f = Inr v" and idx: "bl_roll_idx b < 5"
  shows "(\<exists>f1. vBlyssFrameSetGlobalChannel f g = Inr f1 \<and> length f1 = 7 \<and> blyss_view f1 = Inr (v\<lparr>ff_gchan := g AND 0x0F\<rparr>)) \<and>
    (\<exists>f1. vBlyssFrameSetAddress f addr = Inr f1 \<and> length f1 = 7 \<and> blyss_view f1 = Inr (v\<lparr>ff_addr := addr\<rparr>)) \<and>
    (ch < 8 \<longrightarrow> (\<exists>f1. vBlyssFrameSetChannel f ch = Inr f1 \<and> length f1 = 7 \<and> blyss_view f1 = Inr (v\<lparr>ff_chan := channels ! unat ch\<rparr>))) \<and>
    (\<exists>f1. vBlyssFrameSetState f st = Inr f1 \<and> length f1 = 7 \<and> blyss_view f1 = Inr (v\<lparr>ff_state := (if st then 0 else 1)\<rparr>)) \<and>
    (\<exists>f1. vSetRollingCode b f = Inr (b\<lparr>bl_roll_idx := (bl_roll_idx b + 1) mod 5\<rparr>, f1) \<and> length f1 = 7 \<and>
       blyss_view f1 = Inr (v\<lparr>ff_roll := barrel ! bl_roll_idx b\<rparr>)) \<and>
    (\<exists>f1. vSetToken b f = Inr (b\<lparr>bl_last_token := bl_last_token b + 10\<rparr>, f1) \<and> length f1 = 7 \<and>
       blyss_view f1 = Inr (v\<lparr>ff_token := bl_last_token b\<rparr>))"
proof -
  obtain b0 b1 b2 b3 b4 b5 b6 where f7: "f = [b0, b1, b2, b3, b4, b5, b6]" and v7: "v = \<lparr>ff_flag = b0, ff_gchan = hi b1,
      ff_addr = push_bit 12 (ucast (lo b1)) OR push_bit 4 (ucast b2) OR ucast (hi b3), ff_chan = lo b3, ff_state = ucast (hi b4),
      ff_roll = byte_of (lo b4) (hi b5), ff_token = byte_of (lo b5) (hi b6)\<rparr>"
    by (rule seven_view [OF f v])
  have "\<exists>f1. vBlyssFrameSetChannel f ch = Inr f1 \<and> length f1 = 7 \<and> blyss_view f1 = Inr (v\<lparr>ff_chan := channels ! unat ch\<rparr>)" if "ch < 8"
  proof -
    from that have i: "unat ch < 8" by (simp add: word_less_nat_alt)
    have codes: "list_all (\<lambda>i. channels ! i < 16 \<and> lo (channels ! i) = channels ! i) [0..<8]" by code_simp
    then have code: "channels ! unat ch < 16" "lo (channels ! unat ch) = channels ! unat ch"
      using codes i by (simp_all add: list_all_iff)
    have "vBlyssFrameSetChannel f ch = vSetBits f BLYSS_IDX_CHAN 4 (ucast (channels ! unat ch))"
      using i by (simp add: vBlyssFrameSetChannel_def rd_def channels_def)
    then show ?thesis unfolding f7 set_bytes(3) [OF code(1)] by (simp add: view_bytes v7 nibble_words code)
  qed
  moreover have "\<exists>f1. vBlyssFrameSetGlobalChannel f g = Inr f1 \<and> length f1 = 7 \<and> blyss_view f1 = Inr (v\<lparr>ff_gchan := g AND 0x0F\<rparr>)"
    unfolding f7 set_bytes by (simp add: view_bytes v7 nibble_words) (simp add: lo_def)
  moreover have "\<exists>f1. vBlyssFrameSetAddress f addr = Inr f1 \<and> length f1 = 7 \<and> blyss_view f1 = Inr (v\<lparr>ff_addr := addr\<rparr>)"
    unfolding f7 set_bytes by (simp add: view_bytes v7 nibble_words address_parts)
  moreover have "\<exists>f1. vBlyssFrameSetState f st = Inr f1 \<and> length f1 = 7 \<and> blyss_view f1 = Inr (v\<lparr>ff_state := (if st then 0 else 1)\<rparr>)"
    unfolding f7 set_bytes by (simp add: view_bytes v7 nibble_words) (simp add: lo_def)
  moreover note roll_field [OF f v idx] token_field [OF f v, of b]
  ultimately show ?thesis by blast
qed

text \<open>The documentation has channels up to 8, and \<open>channels\<close> has a code for it, but the setter leaves the frame as it is.\<close>

theorem blyss_channel_8:
  assumes "8 \<le> ch"
  shows "vBlyssFrameSetChannel f ch = Inr f"
  using assms by (simp add: vBlyssFrameSetChannel_def channels_def word_le_nat_alt)

theorem blyss_channel_8_witness: "vBlyssFrameSetChannel [0xFE, 0, 0, 0, 0, 0, 0] 8 = Inr [0xFE, 0, 0, 0, 0, 0, 0]"
  by (rule blyss_channel_8) simp

text \<open>A frame of the documentation: transmitter 5 08 24, channel 4, on, rolling code 98, token E9.\<close>

definition some_frame :: xBlyssFrame where
  "some_frame = [0xFE, 0x50, 0x82, 0x41, 0x09, 0x8E, 0x90]"

lemma some_frame_view:
  "blyss_view some_frame = Inr \<lparr>ff_flag = 0xFE, ff_gchan = 5, ff_addr = 0x0824, ff_chan = 1, ff_state = 0, ff_roll = 0x98, ff_token = 0xE9\<rparr>"
  "length some_frame = 7"
  by code_simp+

definition some_link :: "xDoutPort option \<Rightarrow> xBlyss" where
  "some_link out = \<lparr>bl_out = out, bl_in = None, bl_last_token = 0x10, bl_roll_idx = 4\<rparr>"

lemma some_frame_text:
  "frame_digits some_frame (map (\<lambda>k. 4 * k) [0..<BLYSS_NOF_BITS div 4]) = Inr (ascii ''FE508241098E9'') \<and> ucBlyssFrameChannel some_frame = Inr 4 \<and>
   bBlyssFrameState some_frame = Inr True \<and> bBlyssFrameIsValid some_frame = Inr True"
  by code_simp

theorem blyss_fields_witness:
  "(\<exists>f1. vBlyssFrameSetAddress some_frame 0x1234 = Inr f1 \<and> blyss_view f1 = Inr \<lparr>ff_flag = 0xFE, ff_gchan = 5, ff_addr = 0x1234,
      ff_chan = 1, ff_state = 0, ff_roll = 0x98, ff_token = 0xE9\<rparr>) \<and>
   (\<exists>f1. vBlyssFrameSetChannel some_frame 7 = Inr f1 \<and> blyss_view f1 = Inr \<lparr>ff_flag = 0xFE, ff_gchan = 5, ff_addr = 0x0824,
      ff_chan = channels ! 7, ff_state = 0, ff_roll = 0x98, ff_token = 0xE9\<rparr>) \<and>
   (\<exists>f1. vSetToken (some_link None) some_frame = Inr ((some_link None)\<lparr>bl_last_token := 0x1A\<rparr>, f1) \<and>
      blyss_view f1 = Inr \<lparr>ff_flag = 0xFE, ff_gchan = 5, ff_addr = 0x0824, ff_chan = 1, ff_state = 0, ff_roll = 0x98, ff_token = 0x10\<rparr>)"
  using blyss_fields [OF some_frame_view(2,1), where b = "some_link None" and g = 0 and addr = "0x1234" and ch = 7 and st = True]
  by (auto simp: some_link_def)

end
