(* ===== verification/Blyss_Wire.thy ===== *)
theory Blyss_Wire
  imports Blyss_Laws
begin

text \<open>
  The pulses that a frame makes on the pin of the transmitter.  The interface \<open>pulse_pin\<close> is a board on which the delays are recorded with
  the level of the pin; the NanoPi and the Raspberry Pi give it.
\<close>

section \<open>The protocol\<close>

type_synonym pulses = "(bool \<times> int) list"

text \<open>A frame starts with a high level of 2.4 ms and ends with a low level of 24 ms; a bit is a low level and a high level, 400 and 800
  microseconds for a one, 800 and 400 for a zero; the bits of a byte come from the highest one down.\<close>

definition bit_pulses :: "bool \<Rightarrow> pulses" where
  "bit_pulses one = (if one then [(False, 400), (True, 800)] else [(False, 800), (True, 400)])"

definition frame_bit :: "xBlyssFrame \<Rightarrow> nat \<Rightarrow> bool" where
  "frame_bit f i = bit (f ! (i div 8)) (7 - i mod 8)"

definition frame_pulses :: "xBlyssFrame \<Rightarrow> pulses" where
  "frame_pulses f = (True, 2400) # concat (map (\<lambda>i. bit_pulses (frame_bit f i)) [0..<52]) @ [(False, 24000)]"

locale pulse_pin = gpio_pins A pins mode lev ok
  for A :: "'w gpio_arch" and pins :: "int set" and mode :: "'w gst \<Rightarrow> int \<Rightarrow> int" and lev :: "'w gst \<Rightarrow> int \<Rightarrow> bool"
    and ok :: "'w gst \<Rightarrow> bool" +
  fixes E :: "'w bl_env" and g0 :: int and pulses_of :: "'w \<Rightarrow> pulses"
  assumes g0: "ok s \<Longrightarrow> g0 \<in> pins"
    and write_quiet: "ok s \<Longrightarrow> ar_write A g b s = Inr (r, s1) \<Longrightarrow> pulses_of (snd s1) = pulses_of (snd s)"
    and us_law: "ok s \<Longrightarrow> ok (wait_us E n s) \<and> mode (wait_us E n s) g0 = mode s g0 \<and> lev (wait_us E n s) g0 = lev s g0 \<and>
      pulses_of (snd (wait_us E n s)) = pulses_of (snd s) @ [(lev s g0, n)]"
    and ms_law: "ok s \<Longrightarrow> ok (fst s, be_delay_ms E n (snd s)) \<and> mode (fst s, be_delay_ms E n (snd s)) g0 = mode s g0 \<and>
      pulses_of (be_delay_ms E n (snd s)) = pulses_of (snd s) @ [(lev s g0, 1000 * n)]"

text \<open>The link has an active-high output on the pin, which is an output.\<close>

definition has_output :: "xConnectorList \<Rightarrow> int \<Rightarrow> xBlyss \<Rightarrow> xGpio \<Rightarrow> bool" where
  "has_output cl g b gp \<longleftrightarrow> (case bl_out b of None \<Rightarrow> False | Some port \<Rightarrow>
     do_pins port \<noteq> [] \<and> do_act (hd (do_pins port)) \<and> iGpioMcuPin cl (do_num (hd (do_pins port))) gp = Inr g)"

lemma has_output_port: "has_output cl g b gp \<Longrightarrow> port_of gp1 = port_of gp \<Longrightarrow> has_output cl g b gp1"
  using mcu_pin_port [of gp1 gp cl] by (auto simp: has_output_def split: option.splits)

context pulse_pin
begin

definition ready :: "xBlyss \<Rightarrow> 'w gst \<Rightarrow> bool" where
  "ready b s \<longleftrightarrow> ok s \<and> mode s g0 = eModeOutput \<and> has_output (ar_conn A) g0 b (fst s)"

lemma drive:
  assumes "ready b s"
  shows "\<exists>s1. (if v then iSetOut A b s else iClearOut A b s) = Inr (0, s1) \<and> ready b s1 \<and> lev s1 g0 = v \<and> pulses_of (snd s1) = pulses_of (snd s)"
proof -
  have s: "ok s" "mode s g0 = eModeOutput" "has_output (ar_conn A) g0 b (fst s)" using assms by (simp_all add: ready_def)
  note g0 = g0 [OF s(1)]
  obtain port where port: "bl_out b = Some port" "do_pins port \<noteq> []" "do_act (hd (do_pins port))"
      "iGpioMcuPin (ar_conn A) (do_num (hd (do_pins port))) (fst s) = Inr g0"
    using assms by (auto simp: ready_def has_output_def split: option.splits)
  obtain s1 where s1: "ar_write A g0 v s = Inr (0, s1)" "ok s1" "\<forall>x \<in> pins. mode s1 x = mode s x"
      "\<forall>x \<in> pins. lev s1 x = (if x = g0 then v else lev s x)" "port_of (fst s1) = port_of (fst s)"
    using write_law [OF s(1) g0 s(2), of v] by blast
  have "(if v then iSetOut A b s else iClearOut A b s) = Inr (0, s1)"
    using port s1(1) pins_pos [OF g0]
    by (cases v) (simp_all add: iSetOut_def iClearOut_def deref_def iDoutSet_def iDoutClear_def on_dout_def iGpioWrite_def on_pin_def hd_conv_nth)
  moreover have "ready b s1" using s s1 g0 has_output_port [OF s(3) s1(5)] by (simp add: ready_def)
  ultimately show ?thesis using s1 g0 write_quiet [OF s(1) s1(1)] by auto
qed

lemma set_out: "ready b s \<Longrightarrow> \<exists>s1. iSetOut A b s = Inr (0, s1) \<and> ready b s1 \<and> lev s1 g0 \<and> pulses_of (snd s1) = pulses_of (snd s)"
  using drive [of b s True] by simp

lemma clear_out: "ready b s \<Longrightarrow> \<exists>s1. iClearOut A b s = Inr (0, s1) \<and> ready b s1 \<and> \<not> lev s1 g0 \<and> pulses_of (snd s1) = pulses_of (snd s)"
  using drive [of b s False] by simp

lemma wait: "ready b s \<Longrightarrow> ready b (wait_us E n s) \<and> lev (wait_us E n s) g0 = lev s g0 \<and>
    pulses_of (snd (wait_us E n s)) = pulses_of (snd s) @ [(lev s g0, n)]"
  using us_law [of s n] by (simp add: ready_def wait_us_def)

lemma send_bit:
  assumes "ready b s"
  shows "\<exists>s1. iSendBit E A b one s = Inr (0, s1) \<and> ready b s1 \<and> pulses_of (snd s1) = pulses_of (snd s) @ bit_pulses one"
proof -
  obtain s1 where s1: "iClearOut A b s = Inr (0, s1)" "ready b s1" "\<not> lev s1 g0" "pulses_of (snd s1) = pulses_of (snd s)"
    using clear_out [OF assms] by blast
  note w1 = wait [OF s1(2), of "if one then BLYSS_T1 else BLYSS_T2"]
  obtain s2 where s2: "iSetOut A b (wait_us E (if one then BLYSS_T1 else BLYSS_T2) s1) = Inr (0, s2)" "ready b s2" "lev s2 g0"
      "pulses_of (snd s2) = pulses_of (snd (wait_us E (if one then BLYSS_T1 else BLYSS_T2) s1))"
    using set_out w1 by blast
  note w2 = wait [OF s2(2), of "if one then BLYSS_T2 else BLYSS_T1"]
  have "iSendBit E A b one s = Inr (0, wait_us E (if one then BLYSS_T2 else BLYSS_T1) s2)"
    unfolding iSendBit_def s1(1) by (simp add: s2(1))
  then show ?thesis using s1 s2 w1 w2 by (auto simp: bit_pulses_def BLYSS_T1_def BLYSS_T2_def)
qed

lemma send_bits_pulses:
  "\<lbrakk>ready b s; length f = 7; i + n \<le> 56; msk = (if i mod 8 = 0 then 0 else push_bit (7 - i mod 8) 1); i mod 8 \<noteq> 0 \<longrightarrow> byte = f ! (i div 8)\<rbrakk> \<Longrightarrow>
    \<exists>s1. send_bits E A b f n i msk byte s = Inr (0, s1) \<and> ready b s1 \<and>
      pulses_of (snd s1) = pulses_of (snd s) @ concat (map (\<lambda>j. bit_pulses (frame_bit f j)) [i..<i + n])"
proof (induction n arbitrary: i msk byte s)
  case (Suc n)
  let ?k = "i mod 8" and ?x = "f ! (i div 8)"
  have rd: "rd f (i div 8) = Inr ?x" using Suc.prems(2,3) by (simp add: rd_def)
  have cur: "(if msk = 0 then cbind (rd f (i div 8)) (\<lambda>x. Inr (0x80, x)) else Inr (msk, byte)) = Inr (push_bit (7 - ?k) 1, ?x)"
  proof (cases "?k = 0")
    case True
    then show ?thesis using Suc.prems(4) rd by (simp add: push_bit_eq_mult)
  next
    case False
    have "bit (push_bit (7 - ?k) (1 :: u8)) (7 - ?k)" by (simp add: bit_simps)
    then have "push_bit (7 - ?k) (1 :: u8) \<noteq> 0" by (metis bit_0_eq bot_apply bot_bool_def)
    with False show ?thesis using Suc.prems(4,5) by (simp del: push_bit_of_1)
  qed
  have one: "(?x AND push_bit (7 - ?k) 1 \<noteq> 0) = frame_bit f i" unfolding frame_bit_def by (simp only: bit_iff_and_push_bit_not_eq_0)
  obtain s1 where s1: "iSendBit E A b (frame_bit f i) s = Inr (0, s1)" "ready b s1"
      "pulses_of (snd s1) = pulses_of (snd s) @ bit_pulses (frame_bit f i)"
    using send_bit [OF Suc.prems(1)] by blast
  have step: "send_bits E A b f (Suc n) i msk byte s = send_bits E A b f n (i + 1) (drop_bit 1 (push_bit (7 - ?k) 1)) ?x s1"
    unfolding send_bits.simps cur using one s1(1) by (simp del: push_bit_of_1)
  have mask: "drop_bit 1 (push_bit (7 - ?k) 1) = (if (i + 1) mod 8 = 0 then 0 else push_bit (7 - (i + 1) mod 8) (1 :: u8))"
  proof (cases "?k = 7")
    case True
    then show ?thesis by (simp add: mod_Suc)
  next
    case False
    then have "?k < 7" using mod_less_divisor [of 8 i] by linarith
    then obtain d where d: "7 - ?k = Suc d" "7 - (i + 1) mod 8 = d" "(i + 1) mod 8 \<noteq> 0"
      by (intro that [of "6 - ?k"]) (auto simp: mod_Suc)
    have "drop_bit 1 (push_bit (Suc d) 1) = push_bit d (1 :: u8)"
      using \<open>?k < 7\<close> d(1) by (auto intro!: bit_word_eqI simp: bit_simps)
    with d show ?thesis by simp
  qed
  have "(i + 1) mod 8 \<noteq> 0 \<longrightarrow> ?x = f ! ((i + 1) div 8)" by (simp add: div_Suc mod_Suc)
  from Suc.IH [OF s1(2) Suc.prems(2) _ mask this] Suc.prems(3) obtain s2 where
    "send_bits E A b f n (i + 1) (drop_bit 1 (push_bit (7 - ?k) 1)) ?x s1 = Inr (0, s2)" "ready b s2"
    "pulses_of (snd s2) = pulses_of (snd s1) @ concat (map (\<lambda>j. bit_pulses (frame_bit f j)) [i + 1..<i + 1 + n])" by auto
  moreover have "[i..<i + Suc n] = i # [i + 1..<i + 1 + n]" by (simp add: upt_conv_Cons del: upt_Suc)
  ultimately show ?case unfolding step using s1(3) by (simp del: upt_Suc)
qed simp

lemma send_frame:
  assumes "ready b s" "length f = 7"
  shows "\<exists>s1. iSendFrame E A b f s = Inr (0, s1) \<and> ready b s1 \<and> pulses_of (snd s1) = pulses_of (snd s) @ frame_pulses f"
proof -
  obtain s1 where s1: "iSetOut A b s = Inr (0, s1)" "ready b s1" "lev s1 g0" "pulses_of (snd s1) = pulses_of (snd s)"
    using set_out [OF assms(1)] by blast
  note w1 = wait [OF s1(2), of HEADER_TIME]
  have head: "iSendHeader E A b s = Inr (0, wait_us E HEADER_TIME s1)" by (simp add: iSendHeader_def s1(1))
  obtain s2 where s2: "send_bits E A b f 52 0 0 0 (wait_us E HEADER_TIME s1) = Inr (0, s2)" "ready b s2"
      "pulses_of (snd s2) = pulses_of (snd s) @ [(True, 2400)] @ concat (map (\<lambda>j. bit_pulses (frame_bit f j)) [0..<52])"
    using send_bits_pulses [of b "wait_us E HEADER_TIME s1" f 0 52 0 0] w1 s1 assms(2) by (auto simp: HEADER_TIME_def simp del: upt_Suc)
  obtain s3 where s3: "iClearOut A b s2 = Inr (0, s3)" "ready b s3" "\<not> lev s3 g0" "pulses_of (snd s3) = pulses_of (snd s2)"
    using clear_out [OF s2(2)] by blast
  have foot: "iSendFooter E A b s2 = Inr (0, fst s3, be_delay_ms E FOOTER_TIME (snd s3))" by (simp add: iSendFooter_def s3(1))
  have run: "iSendFrame E A b f s = Inr (0, fst s3, be_delay_ms E FOOTER_TIME (snd s3))"
    unfolding iSendFrame_def head BLYSS_NOF_BITS_def by (simp add: s2(1) foot)
  have "ok s3" using s3(2) by (simp add: ready_def)
  from ms_law [OF this, of FOOTER_TIME] s3 s2(3) show ?thesis
    unfolding run by (intro exI [of _ "(fst s3, be_delay_ms E FOOTER_TIME (snd s3))"])
      (simp add: ready_def frame_pulses_def FOOTER_TIME_def del: upt_Suc)
qed

lemma send_frames:
  "\<lbrakk>ready b s; length f = 7\<rbrakk> \<Longrightarrow> \<exists>s1. send_frames E A b f n s = Inr (0, s1) \<and>
    pulses_of (snd s1) = pulses_of (snd s) @ concat (replicate n (frame_pulses f))"
proof (induction n arbitrary: s)
  case (Suc n)
  obtain s1 where s1: "iSendFrame E A b f s = Inr (0, s1)" "ready b s1" "pulses_of (snd s1) = pulses_of (snd s) @ frame_pulses f"
    using send_frame [OF Suc.prems] by blast
  with Suc.IH [OF s1(2) Suc.prems(2)] show ?case by auto
qed simp

text \<open>What is sent is the frame with the next rolling code and the next token.\<close>

lemma send:
  assumes ready: "ready b s" and f: "length f = 7" "blyss_view f = Inr v" "bl_roll_idx b < 5"
  shows "\<exists>f1 s1. iBlyssSend E A b f n s =
      Inr (0, b\<lparr>bl_roll_idx := (bl_roll_idx b + 1) mod 5, bl_last_token := bl_last_token b + 10\<rparr>, f1, s1) \<and>
    blyss_view f1 = Inr (v\<lparr>ff_roll := barrel ! bl_roll_idx b, ff_token := bl_last_token b\<rparr>) \<and>
    pulses_of (snd s1) = pulses_of (snd s) @ concat (replicate (unat n) (frame_pulses f1))"
proof -
  let ?b1 = "b\<lparr>bl_roll_idx := (bl_roll_idx b + 1) mod 5\<rparr>"
  obtain f1 where f1: "vSetRollingCode b f = Inr (?b1, f1)" "length f1 = 7" "blyss_view f1 = Inr (v\<lparr>ff_roll := barrel ! bl_roll_idx b\<rparr>)"
    using roll_field [OF f] by blast
  obtain f2 where f2: "vSetToken ?b1 f1 = Inr (?b1\<lparr>bl_last_token := bl_last_token ?b1 + 10\<rparr>, f2)" "length f2 = 7"
      "blyss_view f2 = Inr (v\<lparr>ff_roll := barrel ! bl_roll_idx b, ff_token := bl_last_token ?b1\<rparr>)"
    using token_field [OF f1(2,3)] by blast
  have out: "bl_out b \<noteq> None" "ready (?b1\<lparr>bl_last_token := bl_last_token ?b1 + 10\<rparr>) s"
    using ready by (auto simp: ready_def has_output_def split: option.splits)
  obtain s1 where "send_frames E A (?b1\<lparr>bl_last_token := bl_last_token ?b1 + 10\<rparr>) f2 (unat n) s = Inr (0, s1)"
      "pulses_of (snd s1) = pulses_of (snd s) @ concat (replicate (unat n) (frame_pulses f2))"
    using send_frames [OF out(2) f2(2)] by blast
  with f1(1) f2(1,3) out(1) show ?thesis by (cases s1) (auto simp: iBlyssSend_def)
qed

end

section \<open>The boards\<close>

text \<open>The delays are recorded with the level of the pin, and leave the registers as they are.\<close>

definition records :: "'w iosys \<Rightarrow> 'w bl_env \<Rightarrow> ('w \<Rightarrow> 'r) \<Rightarrow> ('w \<Rightarrow> pulses) \<Rightarrow> ('w \<Rightarrow> bool) \<Rightarrow> bool" where
  "records K E regs pulses_of high \<longleftrightarrow>
     (\<forall>h i v w. pulses_of (os_put K h i v w) = pulses_of w) \<and> (\<forall>h i w. pulses_of (snd (os_get K h i w)) = pulses_of w) \<and>
     (\<forall>n w. regs (be_delay_us E n w) = regs w \<and> pulses_of (be_delay_us E n w) = pulses_of w @ [(high w, n)]) \<and>
     (\<forall>n w. regs (be_delay_ms E n w) = regs w \<and> pulses_of (be_delay_ms E n w) = pulses_of w @ [(high w, 1000 * n)])"

text \<open>A condition on the lists and maps of the port stays true.\<close>

context gpio_pins
begin

lemma port_condition:
  assumes "\<And>gp gp1. port_of gp1 = port_of gp \<Longrightarrow> P gp1 = P gp"
  shows "gpio_pins A pins mode lev (\<lambda>s. ok s \<and> P (fst s))"
proof (unfold_locales, goal_cases)
  case (2 s g m)
  then show ?case using set_law [of s g m] assms by blast
next
  case (3 s g)
  then show ?case using get_law [of s g] assms by blast
next
  case (4 s g b)
  then show ?case using write_law [of s g b] assms by blast
next
  case (5 s g)
  then show ?case using read_law [of s g] assms by blast
qed (rule pins_pos)

end

definition rpi_records :: "'w iosys \<Rightarrow> 'w bl_env \<Rightarrow> ('w \<Rightarrow> nat \<Rightarrow> nat \<Rightarrow> u32) \<Rightarrow> ('w \<Rightarrow> nat \<Rightarrow> u32) \<Rightarrow> ('w \<Rightarrow> pulses) \<Rightarrow> int \<Rightarrow> xGpio \<Rightarrow> bool" where
  "rpi_records K E fs lv pulses_of g gp \<longleftrightarrow> 0 \<le> g \<and> g < 32 \<and> records K E (\<lambda>w. (fs w, lv w)) pulses_of (\<lambda>w. rpi_lev lv (gp, w) g)"

definition nano_records :: "'w iosys \<Rightarrow> 'w bl_env \<Rightarrow> ('w \<Rightarrow> nat \<Rightarrow> nat \<Rightarrow> u32) \<Rightarrow> ('w \<Rightarrow> pulses) \<Rightarrow> int \<Rightarrow> xGpio \<Rightarrow> bool" where
  "nano_records K E regs pulses_of g gp \<longleftrightarrow> 0 \<le> g \<and> g < 106 \<and> records K E regs pulses_of (\<lambda>w. nano_lev regs (gp, w) g)"

lemma records_port:
  "port_of gp1 = port_of gp \<Longrightarrow> rpi_records K E fs lv P g gp1 = rpi_records K E fs lv P g gp"
  "port_of gp1 = port_of gp \<Longrightarrow> nano_records K E regs P g gp1 = nano_records K E regs P g gp"
  by (simp_all add: port_of_def rpi_records_def rpi_lev_def nano_records_def nano_lev_def nano_word_def bank_map_def)

text \<open>The registers are written through the operating system.\<close>

lemma io_quiet:
  assumes "records K E regs P high"
  shows "io_put K m i v w = Inr w1 \<Longrightarrow> P w1 = P w" "io_upd K m i f w = Inr w1 \<Longrightarrow> P w1 = P w"
proof -
  have quiet: "P (os_put K h i v w) = P w" "P (snd (os_get K h i w)) = P w" for h i v w using assms by (simp_all add: records_def)
  show "io_put K m i v w = Inr w1 \<Longrightarrow> P w1 = P w" using quiet(1) by (auto simp: io_put_def cbind_Inr_iff)
  show "io_upd K m i f w = Inr w1 \<Longrightarrow> P w1 = P w"
    by (auto simp: io_upd_def io_put_def io_get_def cbind_Inr_iff quiet(1)) (metis quiet(2) snd_conv)
qed

interpretation rpi_wire: pulse_pin "rpi_arch K board bcm2709" "{0..<32}" "rpi_mode fs" "rpi_lev lv"
    "\<lambda>s. rpi_ok K fs lv s \<and> rpi_records K E fs lv pulses_of g (fst s)" E g pulses_of
  for K :: "'w iosys" and board :: nat and bcm2709 :: bool and fs :: "'w \<Rightarrow> nat \<Rightarrow> nat \<Rightarrow> u32" and lv :: "'w \<Rightarrow> nat \<Rightarrow> u32"
    and E :: "'w bl_env" and g :: int and pulses_of :: "'w \<Rightarrow> pulses"
proof (intro pulse_pin.intro rpi.port_condition records_port pulse_pin_axioms.intro, goal_cases)
  case (2 s)
  then show ?case by (simp add: rpi_records_def)
next
  case (3 s x b r s1)
  then show ?case using io_quiet(1) [of K E _ pulses_of _ _ _ _ "snd s" "snd s1"]
    by (auto simp: rpi_records_def rpi_arch_def rpi_iArchGpioWrite_def cbind_Inr_iff split: prod.splits)
next
  case (4 s n)
  then show ?case by (simp add: rpi_records_def records_def wait_us_def rpi_ok_def rpi_mode_def rpi_lev_def)
next
  case (5 s n)
  then show ?case by (simp add: rpi_records_def records_def rpi_ok_def rpi_mode_def rpi_lev_def)
qed

interpretation nano_wire: pulse_pin "nanopi_arch K board" "{0..<106}" "nano_mode regs" "nano_lev regs"
    "\<lambda>s. nano_ok K regs s \<and> nano_records K E regs pulses_of g (fst s)" E g pulses_of
  for K :: "'w iosys" and board :: nat and regs :: "'w \<Rightarrow> nat \<Rightarrow> nat \<Rightarrow> u32" and E :: "'w bl_env" and g :: int and pulses_of :: "'w \<Rightarrow> pulses"
proof (intro pulse_pin.intro nanopi.port_condition records_port pulse_pin_axioms.intro, goal_cases)
  case (2 s)
  then show ?case by (simp add: nano_records_def)
next
  case (3 s x b r s1)
  then show ?case using io_quiet(2) [of K E _ pulses_of _ _ _ _ "snd s" "snd s1"]
    by (cases s; cases s1) (auto simp: nano_records_def nanopi_arch_def nanopi_iArchGpioWrite_def with_bank_def cbind_Inr_iff split: prod.splits option.splits)
next
  case (4 s n)
  then show ?case by (simp add: nano_records_def records_def wait_us_def nano_ok_def nano_mode_def nano_lev_def nano_word_def)
next
  case (5 s n)
  then show ?case by (simp add: nano_records_def records_def nano_ok_def nano_mode_def nano_lev_def nano_word_def)
qed

text \<open>What a sending does: the pulses follow those that were there, the frame has the code and the token of the link, and both move on.\<close>

definition blyss_sent :: "'w bl_env \<Rightarrow> 'w gpio_arch \<Rightarrow> ('w \<Rightarrow> pulses) \<Rightarrow> xBlyss \<Rightarrow> xBlyssFrame \<Rightarrow> u8 \<Rightarrow> 'w gst \<Rightarrow> bool" where
  "blyss_sent E A pulses_of b f n s \<longleftrightarrow> (\<exists>v f1 s1. blyss_view f = Inr v \<and> iBlyssSend E A b f n s =
       Inr (0, b\<lparr>bl_roll_idx := (bl_roll_idx b + 1) mod 5, bl_last_token := bl_last_token b + 10\<rparr>, f1, s1) \<and>
     blyss_view f1 = Inr (v\<lparr>ff_roll := barrel ! bl_roll_idx b, ff_token := bl_last_token b\<rparr>) \<and>
     pulses_of (snd s1) = pulses_of (snd s) @ concat (replicate (unat n) (frame_pulses f1)))"

lemma seven_fields: "length (f :: u8 list) = 7 \<Longrightarrow> \<exists>v. blyss_view f = Inr v"
  using seven [of f] by (auto simp: view_bytes)

text \<open>C35.  On a Raspberry Pi with an output on a pin below 32, sending a frame some times makes its pulses that many times
  on this pin: 2.4 ms high, the 52 bits, 24 ms low, with the next rolling code and token.\<close>

theorem rpi_blyss_send:
  assumes "rpi_ok K fs lv s" "rpi_records K E fs lv pulses_of g (fst s)" "rpi_mode fs s g = eModeOutput"
    "has_output (ar_conn (rpi_arch K board bcm2709)) g b (fst s)" "length f = 7" "bl_roll_idx b < 5"
  shows "blyss_sent E (rpi_arch K board bcm2709) pulses_of b f n s"
proof -
  obtain v where v: "blyss_view f = Inr v" using seven_fields [OF assms(5)] by blast
  have "rpi_wire.ready K board bcm2709 fs lv E pulses_of g b s" using assms(1-4) by (simp add: rpi_wire.ready_def)
  from rpi_wire.send [OF this assms(5) v assms(6), of n] v show ?thesis unfolding blyss_sent_def by blast
qed

text \<open> The same on a NanoPi, on each of its pins.\<close>

theorem nanopi_blyss_send:
  assumes "nano_ok K regs s" "nano_records K E regs pulses_of g (fst s)" "nano_mode regs s g = eModeOutput"
    "has_output (ar_conn (nanopi_arch K board)) g b (fst s)" "length f = 7" "bl_roll_idx b < 5"
  shows "blyss_sent E (nanopi_arch K board) pulses_of b f n s"
proof -
  obtain v where v: "blyss_view f = Inr v" using seven_fields [OF assms(5)] by blast
  have "nano_wire.ready K board regs E pulses_of g b s" using assms(1-4) by (simp add: nano_wire.ready_def)
  from nano_wire.send [OF this assms(5) v assms(6), of n] v show ?thesis unfolding blyss_sent_def by blast
qed

text \<open>Boards that keep a record of the pulses, with an output on the logical pin 2.\<close>

definition record_os :: "'w iosys \<Rightarrow> ('w \<times> pulses) iosys" where
  "record_os K = \<lparr>os_open = \<lambda>w. (3, w), os_mmap = \<lambda>size fd base w. (None, w),
     os_munmap = \<lambda>h size w. (0, w), os_close = \<lambda>fd w. (0, w),
     os_get = \<lambda>h i w. (fst (os_get K h i (fst w)), snd (os_get K h i (fst w)), snd w),
     os_put = \<lambda>h i v w. (os_put K h i v (fst w), snd w), os_delay_us = \<lambda>n w. w\<rparr>"

definition record_env :: "('w \<Rightarrow> bool) \<Rightarrow> ('w \<times> pulses) bl_env" where
  "record_env high = \<lparr>be_delay_us = \<lambda>n w. (fst w, snd w @ [(high (fst w), n)]), be_delay_ms = \<lambda>n w. (fst w, snd w @ [(high (fst w), 1000 * n)]),
     be_seed = \<lambda>w. (0, w)\<rparr>"

definition out2 :: "xDoutPort option" where
  "out2 = Some \<lparr>do_pins = [\<lparr>do_num = 2, do_act = True\<rparr>], do_set_mask = 0, do_clr_mask = 0\<rparr>"

definition pi_wire :: "(pi_world \<times> pulses) gst" where
  "pi_wire = (fst pi_start, ((\<lambda>h i. 0x49249249, \<lambda>h. 0), []))"

definition nano_wired :: "((nat \<Rightarrow> nat \<Rightarrow> u32) \<times> pulses) gst" where
  "nano_wired = (fst nano_start, ((\<lambda>h i. 0x11111111), []))"

lemma records_record:
  "records (record_os K) (record_env high) (\<lambda>w. regs (fst w)) snd (\<lambda>w. high (fst w))"
  by (simp add: records_def record_os_def record_env_def)

theorem rpi_blyss_send_witness:
  "blyss_sent (record_env (\<lambda>w. bit (snd w 0) 27)) (rpi_arch (record_os pi_os) 2 False) snd (some_link out2) some_frame 2 pi_wire"
proof (rule rpi_blyss_send [where fs = "\<lambda>w. fst (fst w)" and lv = "\<lambda>w. snd (fst w)" and g = 27])
  show "rpi_ok (record_os pi_os) (\<lambda>w. fst (fst w)) (\<lambda>w. snd (fst w)) pi_wire"
    by (auto simp: rpi_ok_def rpi_mem_def rpi_drives_def record_os_def pi_os_def pi_wire_def pi_start_def some_map_def mapped_def rpi_gpio_def
      bit_out_bits GPLEV0_def GPSET0_def GPCLR0_def bit_or_iff bit_and_iff bit_not_iff)
  show "rpi_records (record_os pi_os) (record_env (\<lambda>w. bit (snd w 0) 27)) (\<lambda>w. fst (fst w)) (\<lambda>w. snd (fst w)) snd 27 (fst pi_wire)"
    using records_record [where regs = "\<lambda>w. (fst w, snd w)"] by (simp add: rpi_records_def rpi_lev_def pi_wire_def pi_start_def some_map_def handle_def)
  show "rpi_mode (\<lambda>w. fst (fst w)) pi_wire 27 = eModeOutput"
    by (simp add: rpi_mode_def rpi_field_def pi_wire_def eModeOutput_def)
  show "has_output (ar_conn (rpi_arch (record_os pi_os) 2 False)) 27 (some_link out2) (fst pi_wire)"
    by code_simp
qed (simp_all add: some_frame_def some_link_def)

theorem nanopi_blyss_send_witness:
  "blyss_sent (record_env (\<lambda>w. bit (w 0 (0x200 + 4)) 2)) (nanopi_arch (record_os mem_os) 1) snd (some_link out2) some_frame 2 nano_wired"
proof (rule nanopi_blyss_send [where regs = fst and g = 2])
  have place: "port_of_pin 2 = 0" "pin_of_pin 2 = 2" "bank_reg 0 + bk_DAT = 516" by code_simp+
  show "nano_ok (record_os mem_os) fst nano_wired"
    by (simp add: nano_ok_def reg_mem_def record_os_def mem_os_def nano_wired_def nano_start_def some_map_def mapped_def handle_def nanopi_gpio_def)
  show "nano_records (record_os mem_os) (record_env (\<lambda>w. bit (w 0 (0x200 + 4)) 2)) fst snd 2 (fst nano_wired)"
    using records_record [where regs = "\<lambda>w. w"] place
    by (simp add: nano_records_def nano_lev_def nano_word_def nano_wired_def nano_start_def some_map_def handle_def bank_map_def)
  show "nano_mode fst nano_wired 2 = eModeOutput"
    by code_simp
  show "has_output (ar_conn (nanopi_arch (record_os mem_os) 1)) 2 (some_link out2) (fst nano_wired)"
    by code_simp
qed (simp_all add: some_frame_def some_link_def)

end
