(* ===== verification/ChipIo.thy ===== *)
theory ChipIo
  imports Dport I2c Serial "HOL-Library.Signed_Division"
begin

text \<open>
  The ChipIo circuit (\<open>src/chipio\<close>): a microcontroller on the I2C bus with analog inputs and a serial port that shows up as a
  pseudo-terminal.  Bytes are moved between both by a thread, of which a turn is modelled.  The mutex of the bus is left out:
  functions run one after the other.
\<close>

section \<open>Registers\<close>

definition CHIPIO_RA :: u8 where "CHIPIO_RA = 0x20"
definition CHIPIO_CF :: u8 where "CHIPIO_CF = 0x10"

definition eRegOptAv :: u8 where "eRegOptAv = CHIPIO_RA"
definition eRegRev :: u8 where "eRegRev = CHIPIO_RA + 1"
definition eRegAdc0 :: u8 where "eRegAdc0 = CHIPIO_RA + 2"
definition eRegAdc1 :: u8 where "eRegAdc1 = CHIPIO_RA + 4"
definition eRegAdc2 :: u8 where "eRegAdc2 = CHIPIO_RA + 6"
definition eRegAdc3 :: u8 where "eRegAdc3 = CHIPIO_RA + 8"
definition eRegSerSr :: u8 where "eRegSerSr = CHIPIO_RA + 0x0A"
definition eRegSerTx :: u8 where "eRegSerTx = CHIPIO_RA + 0x0B"
definition eRegSerRxSr :: u8 where "eRegSerRxSr = CHIPIO_RA + 0x0C"
definition eRegSerRx :: u8 where "eRegSerRx = CHIPIO_RA + 0x0D"
definition eRegSerCr :: u8 where "eRegSerCr = CHIPIO_RA + CHIPIO_CF + 1"
definition eRegSerBaud :: u8 where "eRegSerBaud = CHIPIO_RA + CHIPIO_CF + 3"
definition eRegAdcCr :: u8 where "eRegAdcCr = CHIPIO_RA + CHIPIO_CF + 5"
definition eRegAdcDiv :: u8 where "eRegAdcDiv = CHIPIO_RA + CHIPIO_CF + 6"

lemmas chip_registers = CHIPIO_RA_def CHIPIO_CF_def eRegOptAv_def eRegRev_def eRegAdc0_def eRegAdc1_def eRegAdc2_def eRegAdc3_def
  eRegSerSr_def eRegSerTx_def eRegSerRxSr_def eRegSerRx_def eRegSerCr_def eRegSerBaud_def eRegAdcCr_def eRegAdcDiv_def

definition eOptionAdc :: u8 where "eOptionAdc = 0x02"
definition eOptionSerial :: u8 where "eOptionSerial = 0x04"
definition eOptionSerialIrq :: u8 where "eOptionSerialIrq = 0x40"
definition eStatusBusy :: u8 where "eStatusBusy = 0x80"

definition eDataBitMask :: u32 where "eDataBitMask = 0x0007"
definition eStopBitMask :: u32 where "eStopBitMask = 0x0008"
definition eParityMask :: u32 where "eParityMask = 0x0030"
definition eFlowMask :: u32 where "eFlowMask = 0x0600"

text \<open>The values of the fields of the control register with the settings they stand for.\<close>

definition eChipIoDataBit :: "(u32 \<times> int) list" where
  "eChipIoDataBit = [(0x0000, SERIAL_DATABIT_5), (0x0002, SERIAL_DATABIT_6), (0x0004, SERIAL_DATABIT_7), (0x0006, SERIAL_DATABIT_8)]"

definition eChipIoStopBit :: "(u32 \<times> int) list" where
  "eChipIoStopBit = [(0x0000, SERIAL_STOPBIT_ONE), (0x0008, SERIAL_STOPBIT_TWO)]"

definition eChipIoParity :: "(u32 \<times> int) list" where
  "eChipIoParity = [(0x0000, SERIAL_PARITY_NONE), (0x0020, SERIAL_PARITY_EVEN), (0x0030, SERIAL_PARITY_ODD)]"

definition eChipIoFlowControl :: "(u32 \<times> int) list" where
  "eChipIoFlowControl = [(0x0000, SERIAL_FLOW_NONE), (0x0200, SERIAL_FLOW_RTSCTS), (0x0400, SERIAL_FLOW_XONXOFF)]"

section \<open>The circuit\<close>

record xChipIo =
  ci_fd :: int
  ci_ucRev :: u8
  ci_ucOptAv :: u8

definition iChipIoReadReg8 :: "'w i2cdev \<Rightarrow> xChipIo \<Rightarrow> u8 \<Rightarrow> 'w \<Rightarrow> (int \<times> 'w) run" where
  "iChipIoReadReg8 B chip reg w = iI2cReadReg8 B (ci_fd chip) reg w"

definition iChipIoReadReg16 :: "'w i2cdev \<Rightarrow> xChipIo \<Rightarrow> u8 \<Rightarrow> 'w \<Rightarrow> (int \<times> 'w) run" where
  "iChipIoReadReg16 B chip reg w = iI2cReadReg16 B (ci_fd chip) reg w"

definition iChipIoReadRegBlock :: "'w i2cdev \<Rightarrow> xChipIo \<Rightarrow> u8 \<Rightarrow> u8 list \<Rightarrow> nat \<Rightarrow> u8 \<Rightarrow> 'w \<Rightarrow> (int \<times> u8 list \<times> 'w) run" where
  "iChipIoReadRegBlock B chip reg buffer i len w = iI2cReadRegBlock B (ci_fd chip) reg buffer i len w"

definition iChipIoWriteReg8 :: "'w i2cdev \<Rightarrow> xChipIo \<Rightarrow> u8 \<Rightarrow> u8 \<Rightarrow> 'w \<Rightarrow> int \<times> 'w" where
  "iChipIoWriteReg8 B chip reg v w = iI2cWriteReg8 B (ci_fd chip) reg v w"

definition iChipIoWriteReg16 :: "'w i2cdev \<Rightarrow> xChipIo \<Rightarrow> u8 \<Rightarrow> u16 \<Rightarrow> 'w \<Rightarrow> int \<times> 'w" where
  "iChipIoWriteReg16 B chip reg v w = iI2cWriteReg16 B (ci_fd chip) reg v w"

definition iChipIoWriteRegBlock :: "'w i2cdev \<Rightarrow> xChipIo \<Rightarrow> u8 \<Rightarrow> u8 list \<Rightarrow> nat \<Rightarrow> u8 \<Rightarrow> 'w \<Rightarrow> (int \<times> 'w) run" where
  "iChipIoWriteRegBlock B chip reg buffer i len w = iI2cWriteRegBlock B (ci_fd chip) reg buffer i len w"

text \<open>A register that cannot be read leaves its field at 0.\<close>

definition xChipIoOpen :: "'w i2cdev \<Rightarrow> u8 list \<Rightarrow> int \<Rightarrow> mem \<times> 'w \<Rightarrow> (xChipIo option \<times> mem \<times> 'w) run" where
  "xChipIoOpen B bus addr s =
     (let (ok, m) = malloc (fst s) in
      if \<not> ok then Inr (None, m, snd s)
      else
        let (fd, w) = iI2cOpen B bus addr (snd s); chip = \<lparr>ci_fd = fd, ci_ucRev = 0, ci_ucOptAv = 0\<rparr> in
        if fd < 0 then Inr (None, free (Some ()) m, w)
        else
          cbind (iChipIoReadReg8 B chip eRegRev w) (\<lambda>(r, w).
            let chip = (if r \<ge> 0 then chip\<lparr>ci_ucRev := word_of_int r\<rparr> else chip) in
            cbind (iChipIoReadReg8 B chip eRegOptAv w) (\<lambda>(r, w).
              Inr (Some (if r \<ge> 0 then chip\<lparr>ci_ucOptAv := word_of_int r\<rparr> else chip), m, w))))"

definition iChipIoRevisionMajor :: "xChipIo \<Rightarrow> int" where "iChipIoRevisionMajor chip = uint (drop_bit 4 (ci_ucRev chip))"
definition iChipIoRevisionMinor :: "xChipIo \<Rightarrow> int" where "iChipIoRevisionMinor chip = uint (ci_ucRev chip AND 0x0F)"
definition iChipIoAvailableOptions :: "xChipIo \<Rightarrow> u8" where "iChipIoAvailableOptions chip = ci_ucOptAv chip"

definition iChipIoClose :: "'w i2cdev \<Rightarrow> xChipIo option \<Rightarrow> mem \<times> 'w \<Rightarrow> int \<times> mem \<times> 'w" where
  "iChipIoClose B chip s =
     (case chip of
        None \<Rightarrow> (0, s)
      | Some c \<Rightarrow> let (r, w) = iI2cClose B (ci_fd c) (snd s) in (r, free (Some ()) (fst s), w))"

section \<open>Analog inputs\<close>

text \<open>A converter is the circuit it belongs to.\<close>

record xChipIoAdc =
  ad_chipio :: xChipIo

definition eAdcRefExternal :: int where "eAdcRefExternal = 0"
definition eAdcRefVcc :: int where "eAdcRefVcc = 1"
definition eAdcRefInternal :: int where "eAdcRefInternal = 3"
definition eAdcRefUnknown :: int where "eAdcRefUnknown = -1"
definition eAdcDivs :: "int list" where "eAdcDivs = [2, 4, 8, 16, 32, 64, 128]"
definition eAdcDivUnknown :: int where "eAdcDivUnknown = -1"

definition assert_ptr :: "'a option \<Rightarrow> 'a run" where
  "assert_ptr p = (case p of None \<Rightarrow> Inl AssertFailed | Some x \<Rightarrow> Inr x)"

definition xChipIoAdcOpen :: "xChipIo \<Rightarrow> mem \<Rightarrow> (xChipIoAdc option \<times> mem) run" where
  "xChipIoAdcOpen chip m =
     (if iChipIoAvailableOptions chip AND eOptionAdc = 0 then Inr (None, m)
      else let (ok, m) = malloc m in if \<not> ok then Inl AssertFailed else Inr (Some \<lparr>ad_chipio = chip\<rparr>, m))"

definition vChipIoAdcClose :: "xChipIoAdc option \<Rightarrow> mem \<Rightarrow> mem run" where
  "vChipIoAdcClose adc m = cbind (assert_ptr adc) (\<lambda>_. Inr (free (Some ()) m))"

definition iChipIoAdcRead :: "'w i2cdev \<Rightarrow> nat \<Rightarrow> xChipIoAdc option \<Rightarrow> 'w \<Rightarrow> (int \<times> 'w) run" where
  "iChipIoAdcRead B input adc w =
     cbind (assert_ptr adc) (\<lambda>a.
       if input \<le> 3
       then cbind (rd [eRegAdc0, eRegAdc1, eRegAdc2, eRegAdc3] input) (\<lambda>reg. iChipIoReadReg16 B (ad_chipio a) reg w)
       else Inr (-1, w))"

definition eChipIoAdcRef :: "'w i2cdev \<Rightarrow> xChipIoAdc option \<Rightarrow> 'w \<Rightarrow> (int \<times> 'w) run" where
  "eChipIoAdcRef B adc w = cbind (assert_ptr adc) (\<lambda>a. iChipIoReadReg8 B (ad_chipio a) eRegAdcCr w)"

definition eChipIoAdcSetRef :: "'w i2cdev \<Rightarrow> int \<Rightarrow> xChipIoAdc option \<Rightarrow> 'w \<Rightarrow> (int \<times> 'w) run" where
  "eChipIoAdcSetRef B eRef adc w =
     cbind (assert_ptr adc) (\<lambda>a.
       if eRef \<in> {eAdcRefExternal, eAdcRefVcc, eAdcRefInternal}
       then let (r, w) = iChipIoWriteReg8 B (ad_chipio a) eRegAdcCr (word_of_int eRef) w in
            Inr (if r = 0 then eRef else eAdcRefUnknown, w)
       else Inr (eAdcRefUnknown, w))"

definition eChipIoAdcDiv :: "'w i2cdev \<Rightarrow> xChipIoAdc option \<Rightarrow> 'w \<Rightarrow> (int \<times> 'w) run" where
  "eChipIoAdcDiv B adc w = cbind (assert_ptr adc) (\<lambda>a. iChipIoReadReg8 B (ad_chipio a) eRegAdcDiv w)"

definition eChipIoAdcSetDiv :: "'w i2cdev \<Rightarrow> int \<Rightarrow> xChipIoAdc option \<Rightarrow> 'w \<Rightarrow> (int \<times> 'w) run" where
  "eChipIoAdcSetDiv B eDiv adc w =
     cbind (assert_ptr adc) (\<lambda>a.
       if eDiv \<in> set eAdcDivs
       then let (r, w) = iChipIoWriteReg8 B (ad_chipio a) eRegAdcDiv (word_of_int eDiv) w in
            Inr (if r = 0 then eDiv else eAdcDivUnknown, w)
       else Inr (eAdcDivUnknown, w))"

section \<open>The serial port\<close>

definition I2C_BLOCK_MAX :: nat where "I2C_BLOCK_MAX = 32"
definition THREAD_POLL_DELAY :: int where "THREAD_POLL_DELAY = 10"

text \<open>The calls of the system: the bus, the terminal calls, the pins, the pseudo-terminal and the thread.  The duration of a frame in
  milliseconds is floating point, and a parameter.\<close>

record 'w chip_env =
  ce_bus :: "'w i2cdev"
  ce_tty :: "'w tty"
  ce_board :: "'w gpio_board"
  ce_getpt :: "'w \<Rightarrow> int \<times> 'w"
  ce_grantpt :: "int \<Rightarrow> 'w \<Rightarrow> int \<times> 'w"
  ce_unlockpt :: "int \<Rightarrow> 'w \<Rightarrow> int \<times> 'w"
  ce_ptsname :: "int \<Rightarrow> 'w \<Rightarrow> u8 list option \<times> 'w"
  ce_read :: "int \<Rightarrow> nat \<Rightarrow> 'w \<Rightarrow> int \<times> u8 list \<times> 'w"
  ce_write :: "int \<Rightarrow> u8 list \<Rightarrow> 'w \<Rightarrow> int \<times> 'w"
  ce_frame_ms :: "int \<Rightarrow> int \<Rightarrow> 'w \<Rightarrow> int \<times> 'w"
  ce_delay_ms :: "int \<Rightarrow> 'w \<Rightarrow> 'w"
  ce_create :: "'w \<Rightarrow> int \<times> 'w"
  ce_cancel :: "'w \<Rightarrow> int \<times> 'w"
  ce_join :: "'w \<Rightarrow> int \<times> 'w"

record xChipIoSerial =
  cs_chipio :: xChipIo
  cs_fdm :: int
  cs_irq :: "xDinPort option"

text \<open>An error counts as busy.\<close>

definition iChipIsBusy :: "'w chip_env \<Rightarrow> xChipIoSerial \<Rightarrow> 'w \<Rightarrow> (bool \<times> 'w) run" where
  "iChipIsBusy E port w =
     cbind (iChipIoReadReg8 (ce_bus E) (cs_chipio port) eRegSerSr w) (\<lambda>(r, w).
       Inr (if r \<ge> 0 then (word_of_int r :: u8) AND eStatusBusy \<noteq> 0 else True, w))"

definition bIrqIsSet :: "'w chip_env \<Rightarrow> xChipIoSerial \<Rightarrow> 'w gst \<Rightarrow> (bool \<times> 'w gst) run" where
  "bIrqIsSet E port s =
     (case cs_irq port of
        None \<Rightarrow> Inr (True, s)
      | Some irq \<Rightarrow> cbind (iDinRead (bd_arch (ce_board E)) 0 irq s) (\<lambda>(r, s). Inr (if r \<ge> 0 then r \<noteq> 0 else False, s)))"

text \<open>The loop of the reception: a block goes behind the bytes that the buffer has, of which there are \<open>n\<close>.\<close>

definition chip_rx :: "'w chip_env \<Rightarrow> xChipIoSerial \<Rightarrow> nat \<times> u8 list \<times> 'w gst \<Rightarrow> (bool \<times> nat \<times> u8 list \<times> 'w gst) out" where
  "chip_rx E port st =
     (let (n, buffer, s) = st in
      obind (Some (bIrqIsSet E port s)) (\<lambda>(on, gp, w).
        if \<not> on then ret (False, n, buffer, gp, w)
        else obind (Some (iChipIoReadReg8 (ce_bus E) (cs_chipio port) eRegSerRxSr w)) (\<lambda>(avail, w).
          if avail \<le> 0 then ret (False, n, buffer, gp, w)
          else
            obind (Some (iChipIoReadRegBlock (ce_bus E) (cs_chipio port) eRegSerRx buffer n
                           (word_of_int (min (int I2C_BLOCK_MAX) avail)) w)) (\<lambda>(r, buffer, w).
              ret (True, if r > 0 then n + nat r else n, buffer, gp, ce_delay_ms E THREAD_POLL_DELAY w)))))"

definition chip_receive :: "'w chip_env \<Rightarrow> xChipIoSerial \<Rightarrow> u8 list \<Rightarrow> 'w gst \<Rightarrow> (u8 list \<times> 'w gst) out" where
  "chip_receive E port buffer s =
     obind (Some (bIrqIsSet E port s)) (\<lambda>(on, gp, w).
       if \<not> on then ret (buffer, gp, w)
       else obind (Some (iChipIsBusy E port w)) (\<lambda>(busy, w).
         if busy then ret (buffer, gp, w)
         else obind (wait_loop (chip_rx E port) (0, buffer, gp, w)) (\<lambda>(n, buffer, gp, w).
           if n > 0 then ret (buffer, gp, snd (ce_write E (cs_fdm port) (take n buffer) w)) else ret (buffer, gp, w))))"

text \<open>The loop of the transmission.\<close>

definition chip_wait :: "'w chip_env \<Rightarrow> xChipIoSerial \<Rightarrow> int \<Rightarrow> 'w \<Rightarrow> 'w" where
  "chip_wait E port len w = (let (ms, w) = ce_frame_ms E (cs_fdm port) len w in ce_delay_ms E ms w)"

definition chip_tx :: "'w chip_env \<Rightarrow> xChipIoSerial \<Rightarrow> int \<times> u8 list \<times> 'w \<Rightarrow> (bool \<times> int \<times> u8 list \<times> 'w) out" where
  "chip_tx E port st =
     (let (len, buffer, w) = st; (avail, w) = iSerialDataAvailable (ce_tty E) (cs_fdm port) w in
      if avail \<le> 0 then ret (False, len, buffer, w)
      else obind (Some (iChipIsBusy E port w)) (\<lambda>(busy, w).
        if busy then ret (True, len, buffer, chip_wait E port (max len (int I2C_BLOCK_MAX)) w)
        else
          let (len, bytes, w) = ce_read E (cs_fdm port) (nat (min (int I2C_BLOCK_MAX) avail)) w in
          obind (Some (copy_into buffer 0 bytes 0 (length bytes))) (\<lambda>buffer.
            if len > 0
            then obind (Some (iChipIoWriteRegBlock (ce_bus E) (cs_chipio port) eRegSerTx buffer 0 (word_of_int len) w)) (\<lambda>(_, w).
                   ret (True, len, buffer, chip_wait E port len w))
            else ret (True, len, buffer, w))))"

definition pvSerialThread_turn :: "'w chip_env \<Rightarrow> xChipIoSerial \<Rightarrow> u8 list \<Rightarrow> 'w gst \<Rightarrow> (u8 list \<times> 'w gst) out" where
  "pvSerialThread_turn E port buffer s =
     obind (chip_receive E port buffer s) (\<lambda>(buffer, gp, w).
     obind (wait_loop (chip_tx E port) (0, buffer, w)) (\<lambda>(_, buffer, w).
       ret (buffer, gp, ce_delay_ms E THREAD_POLL_DELAY w)))"

definition iChipIoSerialFlush :: "'w chip_env \<Rightarrow> xChipIoSerial \<Rightarrow> 'w \<Rightarrow> int \<times> 'w" where
  "iChipIoSerialFlush E port w = iChipIoWriteReg8 (ce_bus E) (cs_chipio port) eRegSerSr eStatusBusy w"

text \<open>What is open stays open when the creation fails.\<close>

definition xChipIoSerialNew ::
    "'w chip_env \<Rightarrow> bool \<Rightarrow> xChipIo \<Rightarrow> xDin option \<Rightarrow> xGpio \<times> mem \<times> 'w \<Rightarrow> (xChipIoSerial option \<times> xGpio \<times> mem \<times> 'w) run" where
  "xChipIoSerialNew E started chip irq s =
     (let opts = iChipIoAvailableOptions chip in
      if opts AND eOptionSerial = 0 then Inr (None, s)
      else if opts AND eOptionSerialIrq = 0 \<and> irq \<noteq> None then Inr (None, s)
      else
        let (gp, m, w) = s; (ok, m) = malloc m in
        if \<not> ok then Inl AssertFailed
        else
          let (fdm, w) = ce_getpt E w in
          if fdm < 0 then Inr (None, gp, free (Some ()) m, w)
          else let (r, w) = ce_grantpt E fdm w in
          if r \<noteq> 0 then Inr (None, gp, free (Some ()) m, w)
          else let (r, w) = ce_unlockpt E fdm w in
          if r \<noteq> 0 then Inr (None, gp, free (Some ()) m, w)
          else let (r, ts, w) = y_getattr (ce_tty E) fdm w in
          if r \<noteq> 0 then Inr (None, gp, free (Some ()) m, w)
          else
            let w = y_flush (ce_tty E) fdm w;
                (_, w) = y_setattr (ce_tty E) fdm ((cfmakeraw ts)\<lparr>c_vmin := 0, c_vtime := 0\<rparr>) w in
            cbind (case irq of None \<Rightarrow> Inr (None, gp, m, w) | Some pin \<Rightarrow> xDinOpen (ce_board E) started [pin] (gp, m, w)) (\<lambda>(din, gp, m, w).
              if irq \<noteq> None \<and> din = None then Inr (None, gp, free (Some ()) m, w)
              else
                let port = \<lparr>cs_chipio = chip, cs_fdm = fdm, cs_irq = din\<rparr>;
                    (_, w) = iChipIoSerialFlush E port w;
                    (r, w) = ce_create E w in
                if r \<noteq> 0 then Inr (None, gp, free (Some ()) m, w) else Inr (Some port, gp, m, w)))"

definition vChipIoSerialDelete :: "'w chip_env \<Rightarrow> xChipIoSerial option \<Rightarrow> xGpio \<times> mem \<times> 'w \<Rightarrow> (xGpio \<times> mem \<times> 'w) run" where
  "vChipIoSerialDelete E port s =
     (case port of
        None \<Rightarrow> Inr s
      | Some p \<Rightarrow>
          let (gp, m, w) = s; (r, w) = ce_cancel E w in
          if r \<noteq> 0 then Inl AssertFailed
          else let (r, w) = ce_join E w in
          if r \<noteq> 0 then Inl AssertFailed
          else
            let (_, w) = iChipIoSerialFlush E p w in
            cbind (case cs_irq p of None \<Rightarrow> Inr (0, gp, m, w) | Some irq \<Rightarrow> iDinClose (ce_board E) irq (gp, m, w)) (\<lambda>(r, gp, m, w).
              if r \<noteq> 0 then Inl AssertFailed
              else let (r, w) = y_close (ce_tty E) (cs_fdm p) w in
                   if r \<noteq> 0 then Inl AssertFailed else Inr (gp, free (Some ()) m, w)))"

definition sChipIoSerialPortName :: "'w chip_env \<Rightarrow> xChipIoSerial option \<Rightarrow> 'w \<Rightarrow> (u8 list option \<times> 'w) run" where
  "sChipIoSerialPortName E port w = cbind (assert_ptr port) (\<lambda>p. Inr (ce_ptsname E (cs_fdm p) w))"

section \<open>Settings of the serial port\<close>

definition chip_field :: "(u32 \<times> int) list \<Rightarrow> int \<Rightarrow> u32 \<Rightarrow> int" where
  "chip_field codes unknown v = (case map_of codes v of Some x \<Rightarrow> x | None \<Rightarrow> unknown)"

definition iChipIoSerialGetAttr :: "'w chip_env \<Rightarrow> xChipIoSerial \<Rightarrow> xSerialIos \<Rightarrow> 'w \<Rightarrow> (int \<times> xSerialIos \<times> 'w) run" where
  "iChipIoSerialGetAttr E port ios w =
     cbind (iChipIoReadReg16 (ce_bus E) (cs_chipio port) eRegSerBaud w) (\<lambda>(r, w).
       if r < 0 then Inr (r, ios, w)
       else
         let ios = ios\<lparr>sio_baud := r * 100\<rparr> in
         cbind (iChipIoReadReg16 (ce_bus E) (cs_chipio port) eRegSerCr w) (\<lambda>(r, w).
           if r < 0 then Inr (r, ios, w)
           else
             let cr = (word_of_int r :: u32) in
             Inr (0, ios\<lparr>sio_dbits := chip_field eChipIoDataBit SERIAL_DATABIT_UNKNOWN (cr AND eDataBitMask),
                         sio_sbits := chip_field eChipIoStopBit SERIAL_STOPBIT_UNKNOWN (cr AND eStopBitMask),
                         sio_parity := chip_field eChipIoParity SERIAL_PARITY_UNKNOWN (cr AND eParityMask),
                         sio_flow := chip_field eChipIoFlowControl SERIAL_FLOW_UNKNOWN (cr AND eFlowMask)\<rparr>, w)))"

text \<open>A field that is to change: its bits are replaced by the code of the setting; a setting without a code is an error.\<close>

definition chip_put :: "(u32 \<times> int) list \<Rightarrow> u32 \<Rightarrow> int \<Rightarrow> int \<Rightarrow> u32 \<Rightarrow> u32 option" where
  "chip_put codes msk old new cr =
     (if new = old then Some cr
      else case map_of (map (\<lambda>(c, v). (v, c)) codes) new of
             Some c \<Rightarrow> Some ((cr AND NOT msk) OR c)
           | None \<Rightarrow> None)"

definition chip_control :: "xSerialIos \<Rightarrow> xSerialIos \<Rightarrow> u32 \<Rightarrow> u32 option" where
  "chip_control old ios cr =
     Option.bind (chip_put eChipIoDataBit eDataBitMask (sio_dbits old) (sio_dbits ios) cr) (\<lambda>cr.
     Option.bind (chip_put eChipIoStopBit eStopBitMask (sio_sbits old) (sio_sbits ios) cr) (\<lambda>cr.
     Option.bind (chip_put eChipIoParity eParityMask (sio_parity old) (sio_parity ios) cr) (\<lambda>cr.
       chip_put eChipIoFlowControl eFlowMask (sio_flow old) (sio_flow ios) cr)))"

definition chip_settled :: "'w chip_env \<Rightarrow> xChipIoSerial \<Rightarrow> 'w \<Rightarrow> (bool \<times> 'w) out" where
  "chip_settled E port w = Some (iChipIsBusy E port (ce_delay_ms E THREAD_POLL_DELAY w))"

text \<open>\<open>rest\<close> tells whether \<open>memcmp\<close> finds a difference in the reserved flag, which is 0 in the settings that are read, or in the
  padding.  A speed has been written before a setting is found to be illegal.\<close>

definition iChipIoSerialSetAttr :: "'w chip_env \<Rightarrow> xChipIoSerial \<Rightarrow> bool \<Rightarrow> xSerialIos \<Rightarrow> xSerialIos \<Rightarrow> 'w \<Rightarrow> (int \<times> 'w) out" where
  "iChipIoSerialSetAttr E port rest junk ios w =
     obind (Some (iChipIoSerialGetAttr E port junk w)) (\<lambda>(r, old, w).
       if r \<noteq> 0 then ret (r, w)
       else
         let changed = (sio_baud old \<noteq> sio_baud ios);
             (r, w) = (if changed then iChipIoWriteReg16 (ce_bus E) (cs_chipio port) eRegSerBaud (word_of_int (sio_baud ios sdiv 100)) w
                       else (r, w)) in
         if changed \<and> r \<noteq> 0 then ret (r, w)
         else
           let old = old\<lparr>sio_baud := sio_baud ios\<rparr> in
           if ios = old \<and> \<not> rest
           then if changed then obind (wait_loop (chip_settled E port) w) (\<lambda>w. ret (r, w)) else ret (r, w)
           else
             obind (Some (iChipIoReadReg16 (ce_bus E) (cs_chipio port) eRegSerCr w)) (\<lambda>(cr, w).
               if cr < 0 then ret (cr, w)
               else case chip_control old ios (word_of_int cr) of
                      None \<Rightarrow> ret (-1, w)
                    | Some cr \<Rightarrow>
                        let (r, w) = iChipIoWriteReg16 (ce_bus E) (cs_chipio port) eRegSerCr (ucast cr) w in
                        obind (wait_loop (chip_settled E port) w) (\<lambda>w. ret (r, w))))"

end
