(* ===== verification/Chip_Laws.thy ===== *)
theory Chip_Laws
  imports ChipIo
begin

text \<open>
  The serial port of a ChipIo circuit on a bus that works: settings are read back as they were written, and a turn of the thread moves
  the bytes in both directions, unless more than 32 are waiting.
\<close>

section \<open>A circuit that works\<close>

text \<open>What the circuit and the pseudo-terminal hold: the registers, how many more delays it is busy, and the bytes on both sides.\<close>

record chip_view =
  cv_cr :: u16
  cv_baud :: u16
  cv_busy :: nat
  cv_rx :: "u8 list"
  cv_tx :: "u8 list"
  cv_in :: "u8 list"
  cv_out :: "u8 list"

definition word_bytes :: "u16 \<Rightarrow> u8 list" where
  "word_bytes v = [ucast v, ucast (drop_bit 8 v)]"

text \<open>A register of 16 bits is read and written; after a write the circuit is busy for some time.\<close>

definition chip_words :: "'w i2cdev \<Rightarrow> int \<Rightarrow> ('w \<Rightarrow> chip_view) \<Rightarrow> bool" where
  "chip_words B fd view \<longleftrightarrow>
     (\<forall>d w. \<exists>x w1. ic_smbus B fd True eRegSerBaud I2C_SMBUS_WORD_DATA d w = (0, word_bytes (cv_baud (view w)) @ x, w1) \<and> view w1 = view w) \<and>
     (\<forall>d w. \<exists>x w1. ic_smbus B fd True eRegSerCr I2C_SMBUS_WORD_DATA d w = (0, word_bytes (cv_cr (view w)) @ x, w1) \<and> view w1 = view w) \<and>
     (\<forall>v d w. \<exists>x w1 n. ic_smbus B fd False eRegSerBaud I2C_SMBUS_WORD_DATA (word_bytes v @ d) w = (0, x, w1) \<and>
        view w1 = (view w)\<lparr>cv_baud := v, cv_busy := n\<rparr>) \<and>
     (\<forall>v d w. \<exists>x w1 n. ic_smbus B fd False eRegSerCr I2C_SMBUS_WORD_DATA (word_bytes v @ d) w = (0, x, w1) \<and>
        view w1 = (view w)\<lparr>cv_cr := v, cv_busy := n\<rparr>)"

text \<open>The status registers, and the bytes that are received and sent in blocks; after a transmission the circuit is busy for
  some time.\<close>

definition chip_bytes :: "'w i2cdev \<Rightarrow> int \<Rightarrow> ('w \<Rightarrow> chip_view) \<Rightarrow> bool" where
  "chip_bytes B fd view \<longleftrightarrow>
     (\<forall>d w. \<exists>b x w1. ic_smbus B fd True eRegSerSr I2C_SMBUS_BYTE_DATA d w = (0, b # x, w1) \<and> view w1 = view w \<and>
        (b AND eStatusBusy \<noteq> 0 \<longleftrightarrow> cv_busy (view w) > 0)) \<and>
     (\<forall>d w. \<exists>x w1. ic_smbus B fd True eRegSerRxSr I2C_SMBUS_BYTE_DATA d w =
        (0, word_of_nat (min 255 (length (cv_rx (view w)))) # x, w1) \<and> view w1 = view w) \<and>
     (\<forall>n d w. n \<le> 32 \<and> n \<le> length (cv_rx (view w)) \<longrightarrow>
        (\<exists>x w1. ic_smbus B fd True eRegSerRx (if n = 32 then I2C_SMBUS_I2C_BLOCK_BROKEN else I2C_SMBUS_I2C_BLOCK_DATA) (word_of_nat n # d) w =
           (0, word_of_nat n # take n (cv_rx (view w)) @ x, w1) \<and> view w1 = (view w)\<lparr>cv_rx := drop n (cv_rx (view w))\<rparr>)) \<and>
     (\<forall>bs d w. length bs \<le> 32 \<longrightarrow>
        (\<exists>x w1 k. ic_smbus B fd False eRegSerTx I2C_SMBUS_I2C_BLOCK_BROKEN (word_of_nat (length bs) # bs @ d) w = (0, x, w1) \<and>
           view w1 = (view w)\<lparr>cv_tx := cv_tx (view w) @ bs, cv_busy := k\<rparr>))"

text \<open>The pseudo-terminal and the delays.\<close>

definition chip_terminal :: "'w chip_env \<Rightarrow> int \<Rightarrow> ('w \<Rightarrow> chip_view) \<Rightarrow> bool" where
  "chip_terminal E fdm view \<longleftrightarrow>
     (\<forall>w. \<exists>w1. y_avail (ce_tty E) fdm w = (0, int (length (cv_in (view w))), w1) \<and> view w1 = view w) \<and>
     (\<forall>n w. n \<le> length (cv_in (view w)) \<longrightarrow>
        (\<exists>w1. ce_read E fdm n w = (int n, take n (cv_in (view w)), w1) \<and> view w1 = (view w)\<lparr>cv_in := drop n (cv_in (view w))\<rparr>)) \<and>
     (\<forall>bs w. view (snd (ce_write E fdm bs w)) = (view w)\<lparr>cv_out := cv_out (view w) @ bs\<rparr>) \<and>
     (\<forall>n w. view (snd (ce_frame_ms E fdm n w)) = view w) \<and>
     (\<forall>n w. view (ce_delay_ms E n w) = (view w)\<lparr>cv_busy := cv_busy (view w) - 1\<rparr>)"

definition chip_works :: "'w chip_env \<Rightarrow> xChipIoSerial \<Rightarrow> ('w \<Rightarrow> chip_view) \<Rightarrow> bool" where
  "chip_works E port view \<longleftrightarrow> chip_words (ce_bus E) (ci_fd (cs_chipio port)) view \<and>
     chip_bytes (ce_bus E) (ci_fd (cs_chipio port)) view \<and> chip_terminal E (cs_fdm port) view"

section \<open>The functions on the registers\<close>

lemma word_bytes_uint: "uint (ucast v :: u8) + 256 * uint (ucast (drop_bit 8 v) :: u8) = uint (v :: u16)"
proof -
  have "uint v = uint v mod 256 + 256 * (uint v div 256)" by simp
  moreover have "uint v div 256 mod 256 = uint v div 256"
    using unsigned_less [of v, where ?'a = int] by (intro mod_pos_pos_trivial) (simp_all add: pos_imp_zdiv_nonneg_iff)
  ultimately show ?thesis
    by (simp add: unsigned_ucast_eq take_bit_eq_mod unsigned_drop_bit_eq drop_bit_eq_div uint_div)
qed

lemma chip_read16:
  assumes "chip_works E port view"
  shows "\<exists>w1. iChipIoReadReg16 (ce_bus E) (cs_chipio port) eRegSerBaud w = Inr (uint (cv_baud (view w)), w1) \<and> view w1 = view w"
    and "\<exists>w1. iChipIoReadReg16 (ce_bus E) (cs_chipio port) eRegSerCr w = Inr (uint (cv_cr (view w)), w1) \<and> view w1 = view w"
proof -
  let ?fd = "ci_fd (cs_chipio port)"
  obtain x w1 where 1: "ic_smbus (ce_bus E) ?fd True eRegSerBaud I2C_SMBUS_WORD_DATA (smbus_data []) w = (0, word_bytes (cv_baud (view w)) @ x, w1)"
      "view w1 = view w" using assms unfolding chip_works_def chip_words_def by blast
  obtain y w2 where 2: "ic_smbus (ce_bus E) ?fd True eRegSerCr I2C_SMBUS_WORD_DATA (smbus_data []) w = (0, word_bytes (cv_cr (view w)) @ y, w2)"
      "view w2 = view w" using assms unfolding chip_works_def chip_words_def by blast
  show "\<exists>w1. iChipIoReadReg16 (ce_bus E) (cs_chipio port) eRegSerBaud w = Inr (uint (cv_baud (view w)), w1) \<and> view w1 = view w"
    and "\<exists>w1. iChipIoReadReg16 (ce_bus E) (cs_chipio port) eRegSerCr w = Inr (uint (cv_cr (view w)), w1) \<and> view w1 = view w"
    using 1 2 by (simp_all add: iChipIoReadReg16_def iI2cReadReg16_def i2c_smbus_read_word_data_def word_bytes_def rd_def word_bytes_uint)
qed

lemma chip_write16:
  assumes "chip_works E port view"
  shows "\<exists>w1 n. iChipIoWriteReg16 (ce_bus E) (cs_chipio port) eRegSerBaud v w = (0, w1) \<and> view w1 = (view w)\<lparr>cv_baud := v, cv_busy := n\<rparr>"
    and "\<exists>w1 n. iChipIoWriteReg16 (ce_bus E) (cs_chipio port) eRegSerCr v w = (0, w1) \<and> view w1 = (view w)\<lparr>cv_cr := v, cv_busy := n\<rparr>"
proof -
  let ?fd = "ci_fd (cs_chipio port)"
  have data: "smbus_data [ucast v, ucast (drop_bit 8 v)] = word_bytes v @ replicate 32 0"
    by (simp add: smbus_data_def I2C_SMBUS_BLOCK_MAX_def word_bytes_def)
  obtain x w1 n where 1: "ic_smbus (ce_bus E) ?fd False eRegSerBaud I2C_SMBUS_WORD_DATA (word_bytes v @ replicate 32 0) w = (0, x, w1)"
      "view w1 = (view w)\<lparr>cv_baud := v, cv_busy := n\<rparr>" using assms unfolding chip_works_def chip_words_def by blast
  obtain y w2 k where 2: "ic_smbus (ce_bus E) ?fd False eRegSerCr I2C_SMBUS_WORD_DATA (word_bytes v @ replicate 32 0) w = (0, y, w2)"
      "view w2 = (view w)\<lparr>cv_cr := v, cv_busy := k\<rparr>" using assms unfolding chip_works_def chip_words_def by blast
  show "\<exists>w1 n. iChipIoWriteReg16 (ce_bus E) (cs_chipio port) eRegSerBaud v w = (0, w1) \<and> view w1 = (view w)\<lparr>cv_baud := v, cv_busy := n\<rparr>"
    and "\<exists>w1 n. iChipIoWriteReg16 (ce_bus E) (cs_chipio port) eRegSerCr v w = (0, w1) \<and> view w1 = (view w)\<lparr>cv_cr := v, cv_busy := n\<rparr>"
    using 1 2 by (auto simp: iChipIoWriteReg16_def iI2cWriteReg16_def i2c_smbus_write_word_data_def data)
qed

lemma chip_is_busy:
  assumes "chip_works E port view"
  shows "\<exists>w1. iChipIsBusy E port w = Inr (cv_busy (view w) > 0, w1) \<and> view w1 = view w"
proof -
  have "\<forall>d w. \<exists>b x w1. ic_smbus (ce_bus E) (ci_fd (cs_chipio port)) True eRegSerSr I2C_SMBUS_BYTE_DATA d w = (0, b # x, w1) \<and> view w1 = view w \<and>
      (b AND eStatusBusy \<noteq> 0 \<longleftrightarrow> cv_busy (view w) > 0)"
    using assms unfolding chip_works_def chip_bytes_def by (elim conjE)
  then obtain b x w1 where "ic_smbus (ce_bus E) (ci_fd (cs_chipio port)) True eRegSerSr I2C_SMBUS_BYTE_DATA (smbus_data []) w = (0, b # x, w1)"
      "view w1 = view w" "(b AND eStatusBusy \<noteq> 0) = (cv_busy (view w) > 0)"
    by metis
  then show ?thesis
    by (simp add: iChipIsBusy_def iChipIoReadReg8_def iI2cReadReg8_def i2c_smbus_read_byte_data_def rd_def)
qed

lemma chip_delay: "chip_works E port view \<Longrightarrow> view (ce_delay_ms E n w) = (view w)\<lparr>cv_busy := cv_busy (view w) - 1\<rparr>"
  by (simp add: chip_works_def chip_terminal_def)

text \<open>The wait for the end of a configuration.\<close>

lemma chip_settles:
  assumes "chip_works E port view"
  shows "\<exists>w1. wait_loop (chip_settled E port) w = ret w1 \<and> view w1 = (view w)\<lparr>cv_busy := 0\<rparr>"
proof (induction "cv_busy (view w)" arbitrary: w rule: less_induct)
  case less
  let ?w = "ce_delay_ms E THREAD_POLL_DELAY w"
  obtain w1 where w1: "iChipIsBusy E port ?w = Inr (cv_busy (view w) - 1 > 0, w1)" "view w1 = (view w)\<lparr>cv_busy := cv_busy (view w) - 1\<rparr>"
    using chip_is_busy [OF assms, of ?w] chip_delay [OF assms, of THREAD_POLL_DELAY w] by auto
  show ?case
  proof (cases "cv_busy (view w) - 1 > 0")
    case True
    then obtain w2 where "wait_loop (chip_settled E port) w1 = ret w2" "view w2 = (view w1)\<lparr>cv_busy := 0\<rparr>"
      using less [of w1] w1(2) by auto
    with True w1 show ?thesis by (subst wait_loop.simps) (auto simp: chip_settled_def)
  next
    case False
    with w1 show ?thesis by (subst wait_loop.simps) (auto simp: chip_settled_def)
  qed
qed

section \<open>Settings\<close>

text \<open>Settings that the circuit has: a speed in hundreds, and fields with a code.\<close>

definition chip_ios :: "xSerialIos \<Rightarrow> bool" where
  "chip_ios ios \<longleftrightarrow> 0 \<le> sio_baud ios \<and> sio_baud ios < 6553600 \<and> sio_baud ios mod 100 = 0 \<and>
     sio_dbits ios \<in> snd ` set eChipIoDataBit \<and> sio_sbits ios \<in> snd ` set eChipIoStopBit \<and>
     sio_parity ios \<in> snd ` set eChipIoParity \<and> sio_flow ios \<in> snd ` set eChipIoFlowControl"

definition read_ios :: "u16 \<Rightarrow> u32 \<Rightarrow> xSerialIos" where
  "read_ios baud cr = \<lparr>sio_baud = uint baud * 100, sio_dbits = chip_field eChipIoDataBit SERIAL_DATABIT_UNKNOWN (cr AND eDataBitMask),
     sio_parity = chip_field eChipIoParity SERIAL_PARITY_UNKNOWN (cr AND eParityMask),
     sio_sbits = chip_field eChipIoStopBit SERIAL_STOPBIT_UNKNOWN (cr AND eStopBitMask),
     sio_flow = chip_field eChipIoFlowControl SERIAL_FLOW_UNKNOWN (cr AND eFlowMask)\<rparr>"

lemma chip_get_attr:
  assumes "chip_works E port view"
  shows "\<exists>w1. iChipIoSerialGetAttr E port junk w = Inr (0, read_ios (cv_baud (view w)) (ucast (cv_cr (view w))), w1) \<and> view w1 = view w"
proof -
  obtain w1 where 1: "iChipIoReadReg16 (ce_bus E) (cs_chipio port) eRegSerBaud w = Inr (uint (cv_baud (view w)), w1)" "view w1 = view w"
    using chip_read16(1) [OF assms] by blast
  obtain w2 where 2: "iChipIoReadReg16 (ce_bus E) (cs_chipio port) eRegSerCr w1 = Inr (uint (cv_cr (view w1)), w2)" "view w2 = view w1"
    using chip_read16(2) [OF assms] by blast
  have "word_of_int (uint (cv_cr (view w))) = (ucast (cv_cr (view w)) :: u32)" by (simp add: unsigned_of_int)
  with 1 2 show ?thesis by (simp add: iChipIoSerialGetAttr_def read_ios_def Let_def)
qed

text \<open>Replacing a field gives this field, and leaves the others.\<close>

definition field_table :: "(u32 \<times> int) list \<Rightarrow> u32 \<Rightarrow> bool" where
  "field_table codes msk \<longleftrightarrow> distinct (map fst codes) \<and> distinct (map snd codes) \<and> list_all (\<lambda>(c, v). c AND msk = c) codes"

lemma field_tables:
  "field_table eChipIoDataBit eDataBitMask" "field_table eChipIoStopBit eStopBitMask" "field_table eChipIoParity eParityMask"
  "field_table eChipIoFlowControl eFlowMask"
  by code_simp+

lemma chip_put_ok:
  assumes "field_table codes msk" "new \<in> snd ` set codes"
    and "old = chip_field codes unknown (cr AND msk)" "unknown \<notin> snd ` set codes"
  shows "\<exists>cr1. chip_put codes msk old new cr = Some cr1 \<and> chip_field codes unknown (cr1 AND msk) = new \<and> cr1 AND NOT msk = cr AND NOT msk"
proof (cases "new = old")
  case True
  then show ?thesis using assms(3) by (simp add: chip_put_def)
next
  case False
  obtain c where c: "(c, new) \<in> set codes" using assms(2) by auto
  have "distinct (map fst (map (\<lambda>(c, v). (v, c)) codes))" "(new, c) \<in> set (map (\<lambda>(c, v). (v, c)) codes)"
    using assms(1) c by (force simp: field_table_def comp_def case_prod_beta)+
  then have "map_of (map (\<lambda>(c, v). (v, c)) codes) new = Some c" by (rule map_of_is_SomeI)
  then have put: "chip_put codes msk old new cr = Some ((cr AND NOT msk) OR c)" using False by (simp add: chip_put_def)
  have cm: "c AND msk = c" using assms(1) c by (auto simp: field_table_def list_all_iff)
  have "map_of codes c = Some new" using assms(1) c by (simp add: field_table_def)
  moreover have "((cr AND NOT msk) OR c) AND msk = c"
  proof (rule bit_word_eqI)
    fix n assume "n < LENGTH(32)"
    then show "bit (((cr AND NOT msk) OR c) AND msk) n = bit c n"
      using arg_cong [OF cm, of "\<lambda>v. bit v n"] by (auto simp: bit_simps)
  qed
  moreover have "((cr AND NOT msk) OR c) AND NOT msk = cr AND NOT msk"
  proof (rule bit_word_eqI)
    fix n assume "n < LENGTH(32)"
    then show "bit (((cr AND NOT msk) OR c) AND NOT msk) n = bit (cr AND NOT msk) n"
      using arg_cong [OF cm, of "\<lambda>v. bit v n"] by (auto simp: bit_simps)
  qed
  ultimately show ?thesis using put by (simp add: chip_field_def)
qed

text \<open>Fields apart from each other.\<close>

lemma other_field: "cr1 AND NOT m = cr AND NOT m \<Longrightarrow> m AND k = 0 \<Longrightarrow> cr1 AND k = cr AND k" for cr cr1 m k :: u32
proof (rule bit_word_eqI)
  fix n assume eq: "cr1 AND NOT m = cr AND NOT m" "m AND k = 0" and n: "n < LENGTH(32)"
  show "bit (cr1 AND k) n = bit (cr AND k) n"
    using arg_cong [OF eq(1), of "\<lambda>v. bit v n"] arg_cong [OF eq(2), of "\<lambda>v. bit v n"] n by (auto simp: bit_simps)
qed

definition cr_fields :: u32 where "cr_fields = eDataBitMask OR eStopBitMask OR eParityMask OR eFlowMask"

lemma chip_control_ok:
  assumes ios: "chip_ios ios"
  shows "\<exists>cr1. chip_control ((read_ios b0 cr)\<lparr>sio_baud := x\<rparr>) ios cr = Some cr1 \<and> read_ios b cr1 = ios\<lparr>sio_baud := uint b * 100\<rparr> \<and>
    cr1 AND NOT cr_fields = cr AND NOT cr_fields"
proof -
  note tables = field_tables
  have unknown: "SERIAL_DATABIT_UNKNOWN \<notin> snd ` set eChipIoDataBit" "SERIAL_STOPBIT_UNKNOWN \<notin> snd ` set eChipIoStopBit"
    "SERIAL_PARITY_UNKNOWN \<notin> snd ` set eChipIoParity" "SERIAL_FLOW_UNKNOWN \<notin> snd ` set eChipIoFlowControl"
    by (simp_all add: eChipIoDataBit_def eChipIoStopBit_def eChipIoParity_def eChipIoFlowControl_def serial_enums)
  have apart: "eDataBitMask AND eStopBitMask = 0" "eDataBitMask AND eParityMask = 0" "eDataBitMask AND eFlowMask = 0"
    "eStopBitMask AND eDataBitMask = 0" "eStopBitMask AND eParityMask = 0" "eStopBitMask AND eFlowMask = 0"
    "eParityMask AND eDataBitMask = 0" "eParityMask AND eStopBitMask = 0" "eParityMask AND eFlowMask = 0"
    "eFlowMask AND eDataBitMask = 0" "eFlowMask AND eStopBitMask = 0" "eFlowMask AND eParityMask = 0"
    by (simp_all add: eDataBitMask_def eStopBitMask_def eParityMask_def eFlowMask_def)
  have ok: "sio_dbits ios \<in> snd ` set eChipIoDataBit" "sio_sbits ios \<in> snd ` set eChipIoStopBit"
    "sio_parity ios \<in> snd ` set eChipIoParity" "sio_flow ios \<in> snd ` set eChipIoFlowControl"
    using ios by (simp_all add: chip_ios_def)
  let ?old = "(read_ios b0 cr)\<lparr>sio_baud := x\<rparr>"
  obtain c1 where c1: "chip_put eChipIoDataBit eDataBitMask (sio_dbits ?old) (sio_dbits ios) cr = Some c1"
      "chip_field eChipIoDataBit SERIAL_DATABIT_UNKNOWN (c1 AND eDataBitMask) = sio_dbits ios" "c1 AND NOT eDataBitMask = cr AND NOT eDataBitMask"
    using chip_put_ok [OF tables(1) ok(1) _ unknown(1), of "sio_dbits ?old" cr] by (auto simp: read_ios_def)
  note o1 = other_field [OF c1(3)]
  obtain c2 where c2: "chip_put eChipIoStopBit eStopBitMask (sio_sbits ?old) (sio_sbits ios) c1 = Some c2"
      "chip_field eChipIoStopBit SERIAL_STOPBIT_UNKNOWN (c2 AND eStopBitMask) = sio_sbits ios" "c2 AND NOT eStopBitMask = c1 AND NOT eStopBitMask"
    using chip_put_ok [OF tables(2) ok(2) _ unknown(2), of "sio_sbits ?old" c1] o1 [OF apart(1)] by (auto simp: read_ios_def)
  note o2 = other_field [OF c2(3)]
  obtain c3 where c3: "chip_put eChipIoParity eParityMask (sio_parity ?old) (sio_parity ios) c2 = Some c3"
      "chip_field eChipIoParity SERIAL_PARITY_UNKNOWN (c3 AND eParityMask) = sio_parity ios" "c3 AND NOT eParityMask = c2 AND NOT eParityMask"
    using chip_put_ok [OF tables(3) ok(3) _ unknown(3), of "sio_parity ?old" c2] o1 [OF apart(2)] o2 [OF apart(5)] by (auto simp: read_ios_def)
  note o3 = other_field [OF c3(3)]
  obtain c4 where c4: "chip_put eChipIoFlowControl eFlowMask (sio_flow ?old) (sio_flow ios) c3 = Some c4"
      "chip_field eChipIoFlowControl SERIAL_FLOW_UNKNOWN (c4 AND eFlowMask) = sio_flow ios" "c4 AND NOT eFlowMask = c3 AND NOT eFlowMask"
    using chip_put_ok [OF tables(4) ok(4) _ unknown(4), of "sio_flow ?old" c3] o1 [OF apart(3)] o2 [OF apart(6)] o3 [OF apart(9)]
    by (auto simp: read_ios_def)
  note o4 = other_field [OF c4(3)]
  have outside: "eDataBitMask AND NOT cr_fields = 0" "eStopBitMask AND NOT cr_fields = 0" "eParityMask AND NOT cr_fields = 0" "eFlowMask AND NOT cr_fields = 0"
    by (simp_all add: cr_fields_def eDataBitMask_def eStopBitMask_def eParityMask_def eFlowMask_def)
  have "c4 AND eDataBitMask = c1 AND eDataBitMask" "c4 AND eStopBitMask = c2 AND eStopBitMask" "c4 AND eParityMask = c3 AND eParityMask"
    using o2 [OF apart(4)] o3 [OF apart(7)] o4 [OF apart(10)] o3 [OF apart(8)] o4 [OF apart(11)] o4 [OF apart(12)] by simp_all
  then have "read_ios b c4 = ios\<lparr>sio_baud := uint b * 100\<rparr>"
    using c1(2) c2(2) c3(2) c4(2) by (simp add: read_ios_def)
  moreover have "c4 AND NOT cr_fields = cr AND NOT cr_fields"
    using o1 [OF outside(1)] o2 [OF outside(2)] o3 [OF outside(3)] o4 [OF outside(4)] by simp
  moreover have "chip_control ?old ios cr = Some c4"
    using c1(1) c2(1) c3(1) c4(1) by (simp add: chip_control_def)
  ultimately show ?thesis by blast
qed

text \<open>The word that is written has 16 bits.\<close>

lemma control_16:
  fixes cr1 :: u32 and v :: u16
  assumes "cr1 AND NOT cr_fields = ucast v AND NOT cr_fields"
  shows "ucast (ucast cr1 :: u16) = cr1"
proof (rule bit_word_eqI)
  fix n assume n: "n < LENGTH(32)"
  have "cr_fields < 2 ^ 11" by (simp add: cr_fields_def eDataBitMask_def eStopBitMask_def eParityMask_def eFlowMask_def)
  then have "bit cr_fields n \<longrightarrow> n < 16" using bit_below by fastforce
  with arg_cong [OF assms, of "\<lambda>v. bit v n"] n show "bit (ucast (ucast cr1 :: u16) :: u32) n = bit cr1 n"
    using bit_imp_le_length [of v n] by (auto simp: bit_simps)
qed

text \<open>C37.  On a circuit that works, settings with a speed that is a multiple of 100 and fields that the circuit knows are
  written, the function returns 0 when the circuit is no longer busy or nothing had to change, and reading gives the same settings.  The other bits of
  the control register stay as they were.\<close>

theorem chip_settings:
  assumes works: "chip_works E port view" and ios: "chip_ios ios"
  shows "\<exists>w1 w2. iChipIoSerialSetAttr E port rest junk ios w = ret (0, w1) \<and> iChipIoSerialGetAttr E port junk1 w1 = Inr (0, ios, w2) \<and>
    view w2 = view w1 \<and> (cv_busy (view w1) = 0 \<or> view w1 = view w) \<and>
    (ucast (cv_cr (view w1)) :: u32) AND NOT cr_fields = ucast (cv_cr (view w)) AND NOT cr_fields \<and>
    cv_rx (view w1) = cv_rx (view w) \<and> cv_tx (view w1) = cv_tx (view w)"
proof -
  let ?cr = "ucast (cv_cr (view w)) :: u32" and ?baud = "word_of_int (sio_baud ios sdiv 100) :: u16"
  let ?old = "(read_ios (cv_baud (view w)) ?cr)\<lparr>sio_baud := sio_baud ios\<rparr>"
  have baud: "uint ?baud * 100 = sio_baud ios"
    using ios by (auto simp: chip_ios_def signed_divide_int_def uint_word_of_int sgn_if)
  obtain w1 where w1: "iChipIoSerialGetAttr E port junk w = Inr (0, read_ios (cv_baud (view w)) ?cr, w1)" "view w1 = view w"
    using chip_get_attr [OF works] by blast
  define changed where "changed = (sio_baud (read_ios (cv_baud (view w)) ?cr) \<noteq> sio_baud ios)"
  obtain w2 n where w2: "(if changed then iChipIoWriteReg16 (ce_bus E) (cs_chipio port) eRegSerBaud ?baud w1 else (0, w1)) = (0, w2)"
      "view w2 = (view w)\<lparr>cv_baud := ?baud, cv_busy := n\<rparr>" "\<not> changed \<longrightarrow> view w2 = view w"
  proof (cases changed)
    case True
    with chip_write16(1) [OF works, of ?baud w1] that w1(2) show ?thesis by auto
  next
    case False
    then have "uint (cv_baud (view w)) = uint ?baud" using baud by (simp only: changed_def read_ios_def) simp
    then have "cv_baud (view w) = ?baud" by (simp only: word_uint_eq_iff)
    with False that [of w1 "cv_busy (view w)"] w1(2) show ?thesis by simp
  qed
  have final: ?thesis if run: "iChipIoSerialSetAttr E port rest junk ios w = ret (0, w4)" and view: "cv_busy (view w4) = 0 \<or> view w4 = view w"
      "read_ios (cv_baud (view w4)) (ucast (cv_cr (view w4))) = ios" "(ucast (cv_cr (view w4)) :: u32) AND NOT cr_fields = ?cr AND NOT cr_fields"
      "cv_rx (view w4) = cv_rx (view w)" "cv_tx (view w4) = cv_tx (view w)" for w4
    using chip_get_attr [OF works, of junk1 w4] run view by auto
  show ?thesis
  proof (cases "ios = ?old \<and> \<not> rest")
    case same: True
    have read: "read_ios ?baud ?cr = ios" using same baud by (auto simp: read_ios_def)
    show ?thesis
    proof (cases changed)
      case True
      obtain w3 where w3: "wait_loop (chip_settled E port) w2 = ret w3" "view w3 = (view w2)\<lparr>cv_busy := 0\<rparr>" using chip_settles [OF works] by blast
      have "iChipIoSerialSetAttr E port rest junk ios w = ret (0, w3)"
        using w1(1) w2(1) w3(1) same True by (simp add: iChipIoSerialSetAttr_def changed_def [symmetric] Let_def)
      then show ?thesis using final w3(2) w2(2) read by simp
    next
      case False
      have "iChipIoSerialSetAttr E port rest junk ios w = ret (0, w2)"
        using w1(1) w2(1) same False by (simp add: iChipIoSerialSetAttr_def changed_def [symmetric] Let_def)
      moreover have "cv_baud (view w) = ?baud" using False w2(2,3) by (metis chip_view.select_convs(2) chip_view.surjective chip_view.update_convs(2,3))
      ultimately show ?thesis using final w2(3) False read by simp
    qed
  next
    case other: False
    obtain w3 where w3: "iChipIoReadReg16 (ce_bus E) (cs_chipio port) eRegSerCr w2 = Inr (uint (cv_cr (view w)), w3)" "view w3 = view w2"
      using chip_read16(2) [OF works, of w2] w2(2) by auto
    obtain cr1 where cr1: "chip_control ?old ios ?cr = Some cr1" "read_ios ?baud cr1 = ios\<lparr>sio_baud := uint ?baud * 100\<rparr>"
        "cr1 AND NOT cr_fields = ?cr AND NOT cr_fields"
      using chip_control_ok [OF ios] by blast
    obtain w4 k where w4: "iChipIoWriteReg16 (ce_bus E) (cs_chipio port) eRegSerCr (ucast cr1) w3 = (0, w4)"
        "view w4 = (view w3)\<lparr>cv_cr := ucast cr1, cv_busy := k\<rparr>" using chip_write16(2) [OF works] by blast
    obtain w5 where w5: "wait_loop (chip_settled E port) w4 = ret w5" "view w5 = (view w4)\<lparr>cv_busy := 0\<rparr>" using chip_settles [OF works] by blast
    have cr: "word_of_int (uint (cv_cr (view w))) = ?cr" by (simp add: unsigned_of_int)
    have "iChipIoSerialSetAttr E port rest junk ios w = ret (0, w5)"
      using w1(1) w2(1) w3(1) cr1(1) w4(1) w5(1) other
      by (auto simp: iChipIoSerialSetAttr_def changed_def [symmetric] Let_def cr)
    then show ?thesis using final w5(2) w4(2) w3(2) w2(2) cr1(2,3) baud control_16 [OF cr1(3)] by simp
  qed
qed

section \<open>Moving bytes\<close>

lemma chip_read_status:
  assumes "chip_works E port view" "length (cv_rx (view w)) < 256"
  shows "\<exists>w1. iChipIoReadReg8 (ce_bus E) (cs_chipio port) eRegSerRxSr w = Inr (int (length (cv_rx (view w))), w1) \<and> view w1 = view w"
proof -
  have "\<forall>d w. \<exists>x w1. ic_smbus (ce_bus E) (ci_fd (cs_chipio port)) True eRegSerRxSr I2C_SMBUS_BYTE_DATA d w =
      (0, word_of_nat (min 255 (length (cv_rx (view w)))) # x, w1) \<and> view w1 = view w"
    using assms(1) unfolding chip_works_def chip_bytes_def by (elim conjE)
  then obtain x w1 where "ic_smbus (ce_bus E) (ci_fd (cs_chipio port)) True eRegSerRxSr I2C_SMBUS_BYTE_DATA (smbus_data []) w =
      (0, word_of_nat (min 255 (length (cv_rx (view w)))) # x, w1)" "view w1 = view w" by blast
  with assms(2) show ?thesis
    by (simp add: iChipIoReadReg8_def iI2cReadReg8_def i2c_smbus_read_byte_data_def rd_def unsigned_of_nat take_bit_eq_mod min_absorb2)
qed

lemma chip_read_block:
  assumes works: "chip_works E port view" and n: "n \<le> 32" "n \<le> length (cv_rx (view w))"
  shows "\<exists>w1. view w1 = (view w)\<lparr>cv_rx := drop n (cv_rx (view w))\<rparr> \<and>
    iChipIoReadRegBlock (ce_bus E) (cs_chipio port) eRegSerRx buffer i (word_of_nat n) w =
      (if i + n \<le> length buffer then Inr (int n, take i buffer @ take n (cv_rx (view w)) @ drop (i + n) buffer, w1) else Inl OutOfBounds)"
proof -
  let ?n = "word_of_nat n :: u8"
  have "\<forall>n d w. n \<le> 32 \<and> n \<le> length (cv_rx (view w)) \<longrightarrow>
      (\<exists>x w1. ic_smbus (ce_bus E) (ci_fd (cs_chipio port)) True eRegSerRx (if n = 32 then I2C_SMBUS_I2C_BLOCK_BROKEN else I2C_SMBUS_I2C_BLOCK_DATA)
         (word_of_nat n # d) w = (0, word_of_nat n # take n (cv_rx (view w)) @ x, w1) \<and> view w1 = (view w)\<lparr>cv_rx := drop n (cv_rx (view w))\<rparr>)"
    using works unfolding chip_works_def chip_bytes_def by (elim conjE)
  then obtain x w1 where tr: "ic_smbus (ce_bus E) (ci_fd (cs_chipio port)) True eRegSerRx
        (if n = 32 then I2C_SMBUS_I2C_BLOCK_BROKEN else I2C_SMBUS_I2C_BLOCK_DATA) (?n # replicate 33 0) w =
        (0, ?n # take n (cv_rx (view w)) @ x, w1)" "view w1 = (view w)\<lparr>cv_rx := drop n (cv_rx (view w))\<rparr>" using n by meson
  have un: "unat ?n = n" "uint ?n = int n" using n by (simp_all add: unat_of_nat uint_nat)
  have "\<not> ?n > 32" "(?n = 32) = (n = 32)" using n un(1) by (simp_all add: word_less_nat_alt word_unat_eq_iff)
  moreover have "smbus_data [?n] = ?n # replicate 33 0" by (simp add: smbus_data_def I2C_SMBUS_BLOCK_MAX_def)
  ultimately show ?thesis using tr n
    by (intro exI [of _ w1]) (simp add: iChipIoReadRegBlock_def iI2cReadRegBlock_def i2c_smbus_read_i2c_block_data_def rd_def copy_into_def un Let_def)
qed

lemma chip_write_block:
  assumes works: "chip_works E port view" and n: "n \<le> 32" "n \<le> length buffer"
  shows "\<exists>w1 b. iChipIoWriteRegBlock (ce_bus E) (cs_chipio port) eRegSerTx buffer 0 (word_of_nat n) w = Inr (0, w1) \<and>
    view w1 = (view w)\<lparr>cv_tx := cv_tx (view w) @ take n buffer, cv_busy := b\<rparr>"
proof -
  let ?n = "word_of_nat n :: u8"
  have "\<forall>bs d w. length bs \<le> 32 \<longrightarrow>
      (\<exists>x w1 k. ic_smbus (ce_bus E) (ci_fd (cs_chipio port)) False eRegSerTx I2C_SMBUS_I2C_BLOCK_BROKEN (word_of_nat (length bs) # bs @ d) w = (0, x, w1) \<and>
         view w1 = (view w)\<lparr>cv_tx := cv_tx (view w) @ bs, cv_busy := k\<rparr>)"
    using works unfolding chip_works_def chip_bytes_def by (elim conjE)
  moreover have len: "length (take n buffer) = n" using n by simp
  ultimately obtain x w1 b where tr: "ic_smbus (ce_bus E) (ci_fd (cs_chipio port)) False eRegSerTx I2C_SMBUS_I2C_BLOCK_BROKEN
      (?n # take n buffer @ replicate (33 - n) 0) w = (0, x, w1)" "view w1 = (view w)\<lparr>cv_tx := cv_tx (view w) @ take n buffer, cv_busy := b\<rparr>"
    using n(1) by metis
  have un: "unat ?n = n" using n by (simp add: unat_of_nat)
  have "\<not> ?n > 32" using n un by (simp add: word_less_nat_alt)
  moreover have "smbus_data [?n] = ?n # replicate 33 0" by (simp add: smbus_data_def I2C_SMBUS_BLOCK_MAX_def)
  ultimately show ?thesis using tr n
    by (intro exI [of _ w1] exI [of _ b]) (simp add: iChipIoWriteRegBlock_def iI2cWriteRegBlock_def i2c_smbus_write_i2c_block_data_def copy_into_def un Let_def)
qed

text \<open>Without an interrupt pin the thread reads until nothing is left, block after block behind each other.\<close>

lemma chip_rx_loop:
  assumes works: "chip_works E port view" and irq: "cs_irq port = None"
  shows "length (cv_rx (view w)) < 256 \<Longrightarrow> length buffer = 32 \<Longrightarrow> n \<le> 32 \<Longrightarrow>
    (if n + length (cv_rx (view w)) \<le> 32
     then \<exists>buffer1 w1. wait_loop (chip_rx E port) (n, buffer, gp, w) = ret (n + length (cv_rx (view w)), buffer1, gp, w1) \<and>
       length buffer1 = 32 \<and> take (n + length (cv_rx (view w))) buffer1 = take n buffer @ cv_rx (view w) \<and>
       (\<exists>b. view w1 = (view w)\<lparr>cv_rx := [], cv_busy := b\<rparr>)
     else wait_loop (chip_rx E port) (n, buffer, gp, w) = Some (Inl OutOfBounds))"
proof (induction "length (cv_rx (view w))" arbitrary: n buffer w rule: less_induct)
  case less
  let ?rx = "cv_rx (view w)"
  obtain w1 where w1: "iChipIoReadReg8 (ce_bus E) (cs_chipio port) eRegSerRxSr w = Inr (int (length ?rx), w1)" "view w1 = view w"
    using chip_read_status [OF works less.prems(1)] by blast
  show ?case
  proof (cases "?rx = []")
    case True
    with w1 have "wait_loop (chip_rx E port) (n, buffer, gp, w) = ret (n, buffer, gp, w1)"
      by (subst wait_loop.simps) (simp add: chip_rx_def bIrqIsSet_def irq)
    moreover have "\<exists>b. view w1 = (view w)\<lparr>cv_rx := [], cv_busy := b\<rparr>" using True w1(2) by (intro exI [of _ "cv_busy (view w)"]) simp
    moreover have "n + length ?rx \<le> 32" "n + length ?rx = n" "take n buffer = take n buffer @ ?rx" using True less.prems by simp_all
    ultimately show ?thesis unfolding if_P [OF \<open>n + length ?rx \<le> 32\<close>] using less.prems(2) by metis
  next
    case False
    define k where "k = min 32 (length ?rx)"
    have k: "k \<le> 32" "k \<le> length ?rx" "0 < k" "min 32 (int (length ?rx)) = int k" using False by (auto simp: k_def)
    obtain w2 where w2: "view w2 = (view w)\<lparr>cv_rx := drop k ?rx\<rparr>"
        "iChipIoReadRegBlock (ce_bus E) (cs_chipio port) eRegSerRx buffer n (word_of_nat k) w1 =
          (if n + k \<le> 32 then Inr (int k, take n buffer @ take k ?rx @ drop (n + k) buffer, w2) else Inl OutOfBounds)"
      using chip_read_block [OF works k(1), of w1 buffer n] k(2) w1(2) less.prems(2) by auto
    show ?thesis
    proof (cases "n + k \<le> 32")
      case over: False
      have "wait_loop (chip_rx E port) (n, buffer, gp, w) = Some (Inl OutOfBounds)"
        using over w1(1) w2(2) False k(4) by (subst wait_loop.simps) (simp add: chip_rx_def bIrqIsSet_def irq I2C_BLOCK_MAX_def)
      then show ?thesis using over k(2) by simp
    next
      case fits: True
      let ?w3 = "ce_delay_ms E THREAD_POLL_DELAY w2" and ?b = "take n buffer @ take k ?rx @ drop (n + k) buffer"
      have step: "wait_loop (chip_rx E port) (n, buffer, gp, w) = wait_loop (chip_rx E port) (n + k, ?b, gp, ?w3)"
        using fits w1(1) w2(2) False k(3,4) by (subst wait_loop.simps) (simp add: chip_rx_def bIrqIsSet_def irq I2C_BLOCK_MAX_def)
      have w3: "view ?w3 = (view w)\<lparr>cv_rx := drop k ?rx, cv_busy := cv_busy (view w) - 1\<rparr>" using chip_delay [OF works] w2(1) by simp
      have "length (cv_rx (view ?w3)) < length ?rx" "length (cv_rx (view ?w3)) < 256" "length ?b = 32" "n + k \<le> 32"
        using w3 k(2,3) less.prems fits by simp_all
      note IH = less.hyps [OF this]
      have tb: "take (n + k) ?b = take n buffer @ take k ?rx" using fits less.prems(2) k(2) by simp
      have sum: "n + k + length (cv_rx (view ?w3)) = n + length ?rx" using w3 k(2) by simp
      have "take n buffer @ take k ?rx @ cv_rx (view ?w3) = take n buffer @ ?rx" using w3 by simp
      with IH show ?thesis unfolding step sum tb append_assoc using w3 by (auto split: if_split_asm)
    qed
  qed
qed

text \<open>Without an interrupt pin, a thread that finds the circuit ready writes all the bytes that are waiting, in
  order, to the pseudo-terminal if there are at most 32; with more of them it writes beyond the end of its buffer of 32 bytes.\<close>

lemma chip_receive_all:
  assumes works: "chip_works E port view" and irq: "cs_irq port = None" and buffer: "length buffer = 32"
    and ready: "cv_busy (view w) = 0" and few: "length (cv_rx (view w)) < 256"
  shows "if length (cv_rx (view w)) \<le> 32
    then \<exists>buffer1 w1 b. chip_receive E port buffer (gp, w) = ret (buffer1, gp, w1) \<and> length buffer1 = 32 \<and>
      view w1 = (view w)\<lparr>cv_rx := [], cv_out := cv_out (view w) @ cv_rx (view w), cv_busy := b\<rparr>
    else chip_receive E port buffer (gp, w) = Some (Inl OutOfBounds)"
proof -
  obtain w1 where w1: "iChipIsBusy E port w = Inr (False, w1)" "view w1 = view w" using chip_is_busy [OF works, of w] ready by auto
  have start: "chip_receive E port buffer (gp, w) = obind (wait_loop (chip_rx E port) (0, buffer, gp, w1)) (\<lambda>(n, buffer, gp, w).
      if n > 0 then ret (buffer, gp, snd (ce_write E (cs_fdm port) (take n buffer) w)) else ret (buffer, gp, w))"
    using w1(1) by (simp add: chip_receive_def bIrqIsSet_def irq)
  have out: "view (snd (ce_write E (cs_fdm port) bs v)) = (view v)\<lparr>cv_out := cv_out (view v) @ bs\<rparr>" for bs v
    using works by (simp add: chip_works_def chip_terminal_def)
  have few1: "length (cv_rx (view w1)) < 256" using few w1(2) by simp
  have loop: "if 0 + length (cv_rx (view w)) \<le> 32
     then \<exists>buffer1 w2. wait_loop (chip_rx E port) (0, buffer, gp, w1) = ret (0 + length (cv_rx (view w)), buffer1, gp, w2) \<and>
       length buffer1 = 32 \<and> take (0 + length (cv_rx (view w))) buffer1 = take 0 buffer @ cv_rx (view w) \<and>
       (\<exists>b. view w2 = (view w)\<lparr>cv_rx := [], cv_busy := b\<rparr>)
     else wait_loop (chip_rx E port) (0, buffer, gp, w1) = Some (Inl OutOfBounds)"
    using chip_rx_loop [OF works irq few1 buffer le0] unfolding w1(2) .
  show ?thesis
  proof (cases "length (cv_rx (view w)) \<le> 32")
    case True
    then obtain buffer1 w2 b where w2: "wait_loop (chip_rx E port) (0, buffer, gp, w1) = ret (length (cv_rx (view w)), buffer1, gp, w2)"
        "length buffer1 = 32" "take (length (cv_rx (view w))) buffer1 = cv_rx (view w)" "view w2 = (view w)\<lparr>cv_rx := [], cv_busy := b\<rparr>"
      using loop by auto
    show ?thesis
    proof (cases "cv_rx (view w) = []")
      case True
      with w2 have "chip_receive E port buffer (gp, w) = ret (buffer1, gp, w2)"
          "view w2 = (view w)\<lparr>cv_rx := [], cv_out := cv_out (view w) @ cv_rx (view w), cv_busy := b\<rparr>"
        by (simp_all add: start)
      then show ?thesis using True w2(2) by auto
    next
      case False
      let ?w3 = "snd (ce_write E (cs_fdm port) (cv_rx (view w)) w2)"
      have "chip_receive E port buffer (gp, w) = ret (buffer1, gp, ?w3)" using False w2(1,3) by (simp add: start)
      moreover have "view ?w3 = (view w)\<lparr>cv_rx := [], cv_out := cv_out (view w) @ cv_rx (view w), cv_busy := b\<rparr>" using out w2(4) by simp
      ultimately show ?thesis using True w2(2) by auto
    qed
  next
    case False
    with loop show ?thesis by (simp add: start)
  qed
qed

text \<open>The bytes of the pseudo-terminal go out in blocks, when the circuit is ready.\<close>

lemma chip_tx_loop:
  assumes works: "chip_works E port view"
  shows "length buffer = 32 \<Longrightarrow> \<exists>len1 buffer1 w1 b. wait_loop (chip_tx E port) (len, buffer, w) = ret (len1, buffer1, w1) \<and> length buffer1 = 32 \<and>
    view w1 = (view w)\<lparr>cv_in := [], cv_tx := cv_tx (view w) @ cv_in (view w), cv_busy := b\<rparr>"
proof (induction "(length (cv_in (view w)), cv_busy (view w))" arbitrary: len buffer w
    rule: wf_induct_rule [OF wf_lex_prod [OF wf_less_than wf_less_than]])
  case less: 1
  let ?in = "cv_in (view w)"
  note tty = works [unfolded chip_works_def chip_terminal_def]
  have wait: "view (chip_wait E port n v) = (view v)\<lparr>cv_busy := cv_busy (view v) - 1\<rparr>" for n v
    using works by (simp add: chip_wait_def chip_works_def chip_terminal_def case_prod_beta)
  obtain w1 where w1: "iSerialDataAvailable (ce_tty E) (cs_fdm port) w = (int (length ?in), w1)" "view w1 = view w"
  proof -
    obtain w1 where "y_avail (ce_tty E) (cs_fdm port) w = (0, int (length ?in), w1)" "view w1 = view w" using tty by blast
    then show ?thesis using that by (simp add: iSerialDataAvailable_def)
  qed
  show ?case
  proof (cases "?in = []")
    case True
    with w1(1) have "wait_loop (chip_tx E port) (len, buffer, w) = ret (len, buffer, w1)" by (subst wait_loop.simps) (simp add: chip_tx_def)
    moreover have "view w1 = (view w)\<lparr>cv_in := [], cv_tx := cv_tx (view w) @ ?in, cv_busy := cv_busy (view w)\<rparr>" using True w1(2) by simp
    ultimately show ?thesis using less.prems by blast
  next
    case False
    obtain w2 where w2: "iChipIsBusy E port w1 = Inr (cv_busy (view w) > 0, w2)" "view w2 = view w" using chip_is_busy [OF works, of w1] w1(2) by auto
    show ?thesis
    proof (cases "cv_busy (view w) > 0")
      case True
      let ?w3 = "chip_wait E port (max len 32) w2"
      have step: "wait_loop (chip_tx E port) (len, buffer, w) = wait_loop (chip_tx E port) (len, buffer, ?w3)"
        using w1(1) w2(1) False True by (subst wait_loop.simps) (simp add: chip_tx_def I2C_BLOCK_MAX_def)
      have view: "view ?w3 = (view w)\<lparr>cv_busy := cv_busy (view w) - 1\<rparr>" using wait w2(2) by simp
      then have "((length (cv_in (view ?w3)), cv_busy (view ?w3)), (length ?in, cv_busy (view w))) \<in> less_than <*lex*> less_than"
        using True by simp
      from less.hyps [OF this less.prems, of len] show ?thesis unfolding step using view by auto
    next
      case ready: False
      define k where "k = min 32 (length ?in)"
      have k: "k \<le> 32" "k \<le> length ?in" "0 < k" "nat (min 32 (int (length ?in))) = k" using False by (auto simp: k_def)
      obtain w3 where w3: "ce_read E (cs_fdm port) k w2 = (int k, take k ?in, w3)" "view w3 = (view w)\<lparr>cv_in := drop k ?in\<rparr>"
        using tty k(2) w2(2) by metis
      let ?b = "take k ?in @ drop k buffer"
      have b: "copy_into buffer 0 (take k ?in) 0 (length (take k ?in)) = Inr ?b" "length ?b = 32" "take k ?b = take k ?in"
        using less.prems k by (simp_all add: copy_into_def min_absorb2)
      obtain w4 n4 where w4: "iChipIoWriteRegBlock (ce_bus E) (cs_chipio port) eRegSerTx ?b 0 (word_of_nat k) w3 = Inr (0, w4)"
          "view w4 = (view w3)\<lparr>cv_tx := cv_tx (view w3) @ take k ?in, cv_busy := n4\<rparr>"
        using chip_write_block [OF works k(1), of ?b w3] b(2,3) k(1) by auto
      let ?w5 = "chip_wait E port (int k) w4"
      have step: "wait_loop (chip_tx E port) (len, buffer, w) = wait_loop (chip_tx E port) (int k, ?b, ?w5)"
        using w1(1) w2(1) w3(1) b(1) w4(1) False ready k(3,4) by (subst wait_loop.simps) (simp add: chip_tx_def I2C_BLOCK_MAX_def)
      have view: "view ?w5 = (view w)\<lparr>cv_in := drop k ?in, cv_tx := cv_tx (view w) @ take k ?in, cv_busy := n4 - 1\<rparr>"
        using wait w4(2) w3(2) by simp
      then have "((length (cv_in (view ?w5)), cv_busy (view ?w5)), (length ?in, cv_busy (view w))) \<in> less_than <*lex*> less_than"
        using False k(2,3) by (auto simp: diff_less)
      from less.hyps [OF this b(2), of "int k"] show ?thesis unfolding step using view by auto
    qed
  qed
qed

text \<open>C38.  For a port without an interrupt line, on a bus and a circuit that work (the circuit is busy for a
  bounded number of delays after each transmission): when the circuit is ready and at most 32 bytes are waiting in it, a turn
  of the thread ends, all these bytes have gone to the pseudo-terminal, and all that the pseudo-terminal had has gone to the
  circuit, in order.\<close>

theorem chip_turn:
  assumes works: "chip_works E port view" and irq: "cs_irq port = None" and buffer: "length buffer = 32"
    and ready: "cv_busy (view w) = 0" and few: "length (cv_rx (view w)) \<le> 32"
  shows "\<exists>buffer1 w1 b. pvSerialThread_turn E port buffer (gp, w) = ret (buffer1, gp, w1) \<and> length buffer1 = 32 \<and>
    view w1 = (view w)\<lparr>cv_rx := [], cv_out := cv_out (view w) @ cv_rx (view w), cv_in := [], cv_tx := cv_tx (view w) @ cv_in (view w),
      cv_busy := b\<rparr>"
proof -
  have few1: "length (cv_rx (view w)) < 256" using few by simp
  obtain buffer1 w1 b where 1: "chip_receive E port buffer (gp, w) = ret (buffer1, gp, w1)" "length buffer1 = 32"
      "view w1 = (view w)\<lparr>cv_rx := [], cv_out := cv_out (view w) @ cv_rx (view w), cv_busy := b\<rparr>"
    using chip_receive_all [OF works irq buffer ready few1, of gp, unfolded if_P [OF few]] by blast
  obtain len2 buffer2 w2 b2 where 2: "wait_loop (chip_tx E port) (0, buffer1, w1) = ret (len2, buffer2, w2)" "length buffer2 = 32"
      "view w2 = (view w1)\<lparr>cv_in := [], cv_tx := cv_tx (view w1) @ cv_in (view w1), cv_busy := b2\<rparr>"
    using chip_tx_loop [OF works 1(2)] by blast
  let ?w3 = "ce_delay_ms E THREAD_POLL_DELAY w2"
  have "pvSerialThread_turn E port buffer (gp, w) = ret (buffer2, gp, ?w3)" using 1(1) 2(1) by (simp add: pvSerialThread_turn_def)
  moreover have "view ?w3 = (view w)\<lparr>cv_rx := [], cv_out := cv_out (view w) @ cv_rx (view w), cv_in := [], cv_tx := cv_tx (view w) @ cv_in (view w),
      cv_busy := b2 - 1\<rparr>" using chip_delay [OF works] 1(3) 2(3) by simp
  ultimately show ?thesis using 2(2) by blast
qed

text \<open> When more than 32 bytes are waiting, the reception writes beyond its buffer.\<close>

theorem chip_overflow:
  assumes works: "chip_works E port view" and irq: "cs_irq port = None" and buffer: "length buffer = 32"
    and ready: "cv_busy (view w) = 0" and many: "32 < length (cv_rx (view w))" "length (cv_rx (view w)) < 256"
  shows "pvSerialThread_turn E port buffer (gp, w) = Some (Inl OutOfBounds)"
  using chip_receive_all [OF works irq buffer ready many(2), of gp] many(1) by (simp add: pvSerialThread_turn_def)

section \<open>A circuit\<close>

text \<open>A bus, a terminal and delays that do what is expected; after a write of the settings the circuit is busy for three delays, after a transmission for two.\<close>

definition sim_bus :: "chip_view i2cdev" where
  "sim_bus = \<lparr>ic_open = \<lambda>n w. (3, w), ic_close = \<lambda>fd w. (0, w), ic_slave = \<lambda>fd a w. (0, w), ic_funcs = \<lambda>fd w. (0, 1, w),
     ic_smbus = (\<lambda>fd r cmd kind d w.
       if r then
         (if cmd = eRegSerBaud then (0, word_bytes (cv_baud w), w)
          else if cmd = eRegSerCr then (0, word_bytes (cv_cr w), w)
          else if cmd = eRegSerSr then (0, [if cv_busy w > 0 then 0x80 else 0], w)
          else if cmd = eRegSerRxSr then (0, [word_of_nat (min 255 (length (cv_rx w)))], w)
          else if cmd = eRegSerRx then (0, hd d # take (unat (hd d)) (cv_rx w), w\<lparr>cv_rx := drop (unat (hd d)) (cv_rx w)\<rparr>)
          else (-1, [], w))
       else
         (if cmd = eRegSerBaud then (0, [], w\<lparr>cv_baud := ucast (d ! 0) OR push_bit 8 (ucast (d ! 1)), cv_busy := 3\<rparr>)
          else if cmd = eRegSerCr then (0, [], w\<lparr>cv_cr := ucast (d ! 0) OR push_bit 8 (ucast (d ! 1)), cv_busy := 3\<rparr>)
          else if cmd = eRegSerTx then (0, [], w\<lparr>cv_tx := cv_tx w @ take (unat (hd d)) (tl d), cv_busy := 2\<rparr>)
          else (-1, [], w))),
     ic_read = \<lambda>fd n w. (-1, [], w), ic_write = \<lambda>fd bs w. (-1, w), ic_rdwr = \<lambda>fd ms w. (-1, False, [], w), ic_delay = \<lambda>n w. w\<rparr>"

definition sim_tty :: "chip_view tty" where
  "sim_tty = \<lparr>y_open = \<lambda>n w. (-1, w), y_close = \<lambda>fd w. (0, w), y_setfl = \<lambda>fd w. w,
     y_getattr = \<lambda>fd w. (0, \<lparr>c_iflag = 0, c_oflag = 0, c_cflag = 0, c_lflag = 0, c_vmin = 0, c_vtime = 0, c_ispeed = 0, c_ospeed = 0\<rparr>, w),
     y_setattr = \<lambda>fd ts w. (0, w), y_flush = \<lambda>fd w. w, y_get485 = \<lambda>fd w. (0, 0, w), y_set485 = \<lambda>fd v w. (0, w), y_getm = \<lambda>fd w. (None, w),
     y_setm = \<lambda>fd v w. w, y_select = \<lambda>fd t w. (0, False, False, w), y_avail = \<lambda>fd w. (0, int (length (cv_in w)), w), y_delay = \<lambda>n w. w\<rparr>"

definition sim_env :: "chip_view gpio_board \<Rightarrow> chip_view chip_env" where
  "sim_env Bd = \<lparr>ce_bus = sim_bus, ce_tty = sim_tty, ce_board = Bd, ce_getpt = \<lambda>w. (4, w), ce_grantpt = \<lambda>fd w. (0, w), ce_unlockpt = \<lambda>fd w. (0, w),
     ce_ptsname = \<lambda>fd w. (None, w), ce_read = \<lambda>fd n w. (int (length (take n (cv_in w))), take n (cv_in w), w\<lparr>cv_in := drop n (cv_in w)\<rparr>),
     ce_write = \<lambda>fd bs w. (int (length bs), w\<lparr>cv_out := cv_out w @ bs\<rparr>), ce_frame_ms = \<lambda>fd n w. (1, w),
     ce_delay_ms = \<lambda>n w. w\<lparr>cv_busy := cv_busy w - 1\<rparr>, ce_create = \<lambda>w. (0, w), ce_cancel = \<lambda>w. (0, w), ce_join = \<lambda>w. (0, w)\<rparr>"

definition sim_port :: xChipIoSerial where
  "sim_port = \<lparr>cs_chipio = \<lparr>ci_fd = 3, ci_ucRev = 0x11, ci_ucOptAv = 0x04\<rparr>, cs_fdm = 4, cs_irq = None\<rparr>"

lemma joined: "ucast (ucast v :: u8) OR push_bit 8 (ucast (ucast (drop_bit 8 v) :: u8)) = (v :: u16)"
  by (auto intro!: bit_word_eqI simp: bit_simps)

lemma sim_works: "chip_works (sim_env Bd) sim_port (\<lambda>w. w)"
proof -
  have words: "chip_words sim_bus 3 (\<lambda>w. w)"
    by (auto simp: chip_words_def sim_bus_def chip_registers word_bytes_def joined)
  have bytes: "chip_bytes sim_bus 3 (\<lambda>w. w)"
    by (auto simp: chip_bytes_def sim_bus_def chip_registers eStatusBusy_def unat_of_nat)
  have "chip_terminal (sim_env Bd) 4 (\<lambda>w. w)"
    by (auto simp: chip_terminal_def sim_env_def sim_tty_def)
  with words bytes show ?thesis by (simp add: chip_works_def sim_port_def sim_env_def)
qed

definition sim_view :: "u8 list \<Rightarrow> u8 list \<Rightarrow> chip_view" where
  "sim_view rx inp = \<lparr>cv_cr = 0xF006, cv_baud = 96, cv_busy = 0, cv_rx = rx, cv_tx = [], cv_in = inp, cv_out = []\<rparr>"

definition some_ios :: xSerialIos where
  "some_ios = \<lparr>sio_baud = 115200, sio_dbits = SERIAL_DATABIT_7, sio_parity = SERIAL_PARITY_ODD, sio_sbits = SERIAL_STOPBIT_TWO,
     sio_flow = SERIAL_FLOW_XONXOFF\<rparr>"

theorem chip_settings_witness:
  "\<exists>w1. iChipIoSerialSetAttr (sim_env undefined) sim_port False some_ios some_ios (sim_view [] []) = ret (0, w1) \<and>
     (\<exists>w2. iChipIoSerialGetAttr (sim_env undefined) sim_port some_ios w1 = Inr (0, some_ios, w2))"
proof -
  have "chip_ios some_ios"
    by (simp add: chip_ios_def some_ios_def eChipIoDataBit_def eChipIoStopBit_def eChipIoParity_def eChipIoFlowControl_def)
  from chip_settings [OF sim_works this, of undefined False some_ios "sim_view [] []" some_ios] show ?thesis by blast
qed

theorem chip_turn_witness:
  "\<exists>buffer1 w1. pvSerialThread_turn (sim_env undefined) sim_port (replicate 32 0) (undefined, sim_view [1, 2, 3] [4, 5]) = ret (buffer1, undefined, w1) \<and>
     cv_out w1 = [1, 2, 3] \<and> cv_tx w1 = [4, 5]"
proof -
  have "cs_irq sim_port = None" "length (replicate 32 (0 :: u8)) = 32" "cv_busy (sim_view [1, 2, 3] [4, 5]) = 0"
    "length (cv_rx (sim_view [1, 2, 3] [4, 5])) \<le> 32" by (simp_all add: sim_port_def sim_view_def)
  from chip_turn [OF sim_works this, of undefined] show ?thesis by (fastforce simp: sim_view_def)
qed

theorem chip_overflow_witness:
  "pvSerialThread_turn (sim_env undefined) sim_port (replicate 32 0) (undefined, sim_view (replicate 33 7) []) = Some (Inl OutOfBounds)"
  by (rule chip_overflow [OF sim_works]) (simp_all add: sim_port_def sim_view_def)

end
