(* ===== verification/Pwm.thy ===== *)
theory Pwm
  imports Gpio_Boards
begin

text \<open>
  The pulse width modulator of the Raspberry Pi (\<open>src/src/arch/arm/rpi/pwm.c\<close>): two blocks of registers, those of the modulator and
  those of its clock, and a pin.  The object is static; it is part of the state.  Frequencies are floating point: the function that gives the
  divisor of a frequency is a parameter.
\<close>

section \<open>Constants and data\<close>

definition CLK_DIVISOR_DEFAULT :: int where "CLK_DIVISOR_DEFAULT = 32"
definition CLK_DIVISOR_MIN :: int where "CLK_DIVISOR_MIN = 2"
definition CLK_DIVISOR_MAX :: int where "CLK_DIVISOR_MAX = 4095"
definition PASSWD :: u32 where "PASSWD = 0x5A000000"
definition KILL :: u32 where "KILL = push_bit 5 1"
definition ENAB :: u32 where "ENAB = push_bit 4 1"
definition SRC_OSC :: u32 where "SRC_OSC = 1"
definition PWEN1 :: u32 where "PWEN1 = push_bit 0 1"
definition MSEN1 :: u32 where "MSEN1 = push_bit 7 1"
definition PWM_CTL :: nat where "PWM_CTL = 0"
definition PWM_RNG1 :: nat where "PWM_RNG1 = 4"
definition PWM_DAT1 :: nat where "PWM_DAT1 = 5"
definition PWMCLK_CNTL :: nat where "PWMCLK_CNTL = 40"
definition PWMCLK_DIV :: nat where "PWMCLK_DIV = 41"

definition PWM_BASE :: "int \<Rightarrow> int" where "PWM_BASE iobase = iobase + 0x20C000"
definition CLK_BASE :: "int \<Rightarrow> int" where "CLK_BASE iobase = iobase + 0x101000"

record xPwm =
  pw_pmap :: "xIoMap option"
  pw_cmap :: "xIoMap option"
  pw_gpio :: bool
  pw_pin :: int

definition no_pwm :: xPwm where
  "no_pwm = \<lparr>pw_pmap = None, pw_cmap = None, pw_gpio = False, pw_pin = 0\<rparr>"

definition pwm_bIsOpen :: "xPwm \<Rightarrow> bool" where
  "pwm_bIsOpen p \<longleftrightarrow> bIoMapIsOpen (pw_pmap p) \<and> bIoMapIsOpen (pw_cmap p)"

section \<open>The modulator\<close>

definition iPwmStop :: "'w iosys \<Rightarrow> xPwm \<Rightarrow> 'w \<Rightarrow> (int \<times> 'w) run" where
  "iPwmStop K p w =
     (if \<not> pwm_bIsOpen p then Inr (-1, w)
      else cbind (io_put K (pw_pmap p) PWM_CTL 0 w) (\<lambda>w. Inr (0, os_delay_us K 10 w)))"

definition bPwmIsRunning :: "'w iosys \<Rightarrow> xPwm \<Rightarrow> 'w \<Rightarrow> (bool \<times> 'w) run" where
  "bPwmIsRunning K p w =
     (if \<not> pwm_bIsOpen p then Inr (False, w) else cbind (io_get K (pw_pmap p) PWM_CTL w) (\<lambda>(v, w). Inr (v \<noteq> 0, w)))"

definition bPwmIsOpen :: "xPwm \<Rightarrow> bool" where "bPwmIsOpen p = pwm_bIsOpen p"

text \<open>A register of the modulator is written, or read as an int.\<close>

definition pwm_put :: "'w iosys \<Rightarrow> nat \<Rightarrow> int \<Rightarrow> xPwm \<Rightarrow> 'w \<Rightarrow> (int \<times> 'w) run" where
  "pwm_put K reg v p w =
     (if \<not> pwm_bIsOpen p then Inr (-1, w) else cbind (io_put K (pw_pmap p) reg (word_of_int v) w) (\<lambda>w. Inr (0, w)))"

definition pwm_get :: "'w iosys \<Rightarrow> nat \<Rightarrow> xPwm \<Rightarrow> 'w \<Rightarrow> (int \<times> 'w) run" where
  "pwm_get K reg p w =
     (if \<not> pwm_bIsOpen p then Inr (-1, w) else cbind (io_get K (pw_pmap p) reg w) (\<lambda>(v, w). Inr (sint v, w)))"

definition iPwmSetRange :: "'w iosys \<Rightarrow> int \<Rightarrow> xPwm \<Rightarrow> 'w \<Rightarrow> (int \<times> 'w) run" where "iPwmSetRange K r = pwm_put K PWM_RNG1 r"
definition iPwmSetValue :: "'w iosys \<Rightarrow> int \<Rightarrow> xPwm \<Rightarrow> 'w \<Rightarrow> (int \<times> 'w) run" where "iPwmSetValue K v = pwm_put K PWM_DAT1 v"
definition iPwmRange :: "'w iosys \<Rightarrow> xPwm \<Rightarrow> 'w \<Rightarrow> (int \<times> 'w) run" where "iPwmRange K = pwm_get K PWM_RNG1"
definition iPwmValue :: "'w iosys \<Rightarrow> xPwm \<Rightarrow> 'w \<Rightarrow> (int \<times> 'w) run" where "iPwmValue K = pwm_get K PWM_DAT1"

section \<open>The clock\<close>

definition iPwmClockDiv :: "'w iosys \<Rightarrow> xPwm \<Rightarrow> 'w \<Rightarrow> (int \<times> 'w) run" where
  "iPwmClockDiv K p w =
     (if \<not> pwm_bIsOpen p then Inr (-1, w)
      else cbind (io_get K (pw_cmap p) PWMCLK_DIV w) (\<lambda>(v, w). Inr (uint (drop_bit 12 v), w)))"

definition iPwmSetClockDiv :: "'w iosys \<Rightarrow> int \<Rightarrow> xPwm \<Rightarrow> 'w \<Rightarrow> (int \<times> 'w) run" where
  "iPwmSetClockDiv K d p w =
     (if \<not> pwm_bIsOpen p then Inr (-1, w)
      else
        let d = (if d < CLK_DIVISOR_MIN then CLK_DIVISOR_MIN else if d > CLK_DIVISOR_MAX then CLK_DIVISOR_MAX else d) in
        cbind (io_get K (pw_pmap p) PWM_CTL w) (\<lambda>(backupctl, w).
        cbind (io_put K (pw_pmap p) PWM_CTL 0 w) (\<lambda>w.
        cbind (io_put K (pw_cmap p) PWMCLK_CNTL (PASSWD OR KILL) (os_delay_us K 10 w)) (\<lambda>w.
        cbind (io_put K (pw_cmap p) PWMCLK_DIV (PASSWD OR push_bit 12 (word_of_int d)) (os_delay_us K 10 w)) (\<lambda>w.
        cbind (io_put K (pw_cmap p) PWMCLK_CNTL (PASSWD OR ENAB OR SRC_OSC) w) (\<lambda>w.
        cbind (io_put K (pw_pmap p) PWM_CTL backupctl w) (\<lambda>w. Inr (d, w))))))))"

definition iPwmSetClockFreq :: "'w iosys \<Rightarrow> ('f \<Rightarrow> int) \<Rightarrow> 'f \<Rightarrow> xPwm \<Rightarrow> 'w \<Rightarrow> (int \<times> 'w) run" where
  "iPwmSetClockFreq K iPwmDivisor dFreq p w = iPwmSetClockDiv K (iPwmDivisor dFreq) p w"

definition iPwmRun :: "'w iosys \<Rightarrow> xPwm \<Rightarrow> 'w \<Rightarrow> (int \<times> 'w) run" where
  "iPwmRun K p w =
     (if \<not> pwm_bIsOpen p then Inr (-1, w)
      else
        cbind (iPwmClockDiv K p w) (\<lambda>(d, w).
        cbind (if d < 2 then iPwmSetClockDiv K CLK_DIVISOR_DEFAULT p w else Inr (0, w)) (\<lambda>(r, w).
          if d < 2 \<and> r < 0 then Inr (-1, w)
          else cbind (io_put K (pw_pmap p) PWM_CTL (MSEN1 OR PWEN1) w) (\<lambda>w. Inr (0, w)))))"

section \<open>Opening and closing\<close>

type_synonym 'w pwm_state = "xPwm \<times> xGpio \<times> mem \<times> 'w"

text \<open>The modulator is closed and forgotten; the blocks of its maps are not freed.\<close>

definition pwm_undo :: "'w gpio_board \<Rightarrow> int \<Rightarrow> 'w pwm_state \<Rightarrow> (bool \<times> 'w pwm_state) run" where
  "pwm_undo Bd pin s =
     (let (p, gp, m, w) = s in
      cbind (iGpioRelease (bd_arch Bd) pin (gp, w)) (\<lambda>(_, gp, w).
      cbind (bd_close Bd (gp, w)) (\<lambda>(_, gp, w). Inr (False, no_pwm, gp, m, w))))"

definition xPwmOpen :: "'w iosys \<Rightarrow> 'w gpio_board \<Rightarrow> int \<Rightarrow> int \<Rightarrow> 'w pwm_state \<Rightarrow> (bool \<times> 'w pwm_state) run" where
  "xPwmOpen K Bd iobase pin s =
     (let (p, gp, m, w) = s in
      if pwm_bIsOpen p then Inr (True, s)
      else
        cbind (bd_open Bd (gp, m, w)) (\<lambda>(ok, gp, m, w).
          let p = p\<lparr>pw_gpio := ok\<rparr> in
          if \<not> ok then Inr (False, p, gp, m, w)
          else
            cbind (iGpioSetMode (bd_arch Bd) pin eModePwm (gp, w)) (\<lambda>(r, gp, w).
              if r \<noteq> 0 then cbind (bd_close Bd (gp, w)) (\<lambda>(_, gp, w). Inr (False, p, gp, m, w))
              else
                let (pmap, m, w) = xIoMapOpen K (PWM_BASE iobase) BCM270X_BLOCK_SIZE (m, w);
                    p = p\<lparr>pw_pin := pin, pw_pmap := pmap\<rparr> in
                if pmap = None then pwm_undo Bd pin (p, gp, m, w)
                else
                  let (cmap, m, w) = xIoMapOpen K (CLK_BASE iobase) BCM270X_BLOCK_SIZE (m, w); p = p\<lparr>pw_cmap := cmap\<rparr> in
                  if cmap \<noteq> None then Inr (True, p, gp, m, w)
                  else cbind (iIoMapClose K pmap w) (\<lambda>(_, w). pwm_undo Bd pin (p, gp, m, w)))))"

definition iPwmClose :: "'w iosys \<Rightarrow> 'w gpio_board \<Rightarrow> 'w pwm_state \<Rightarrow> (int \<times> 'w pwm_state) run" where
  "iPwmClose K Bd s =
     (let (p, gp, m, w) = s in
      if \<not> pwm_bIsOpen p then Inr (0, s)
      else
        cbind (iPwmStop K p w) (\<lambda>(_, w).
        cbind (iGpioRelease (bd_arch Bd) (pw_pin p) (gp, w)) (\<lambda>(i, gp, w).
        cbind (iIoMapClose K (pw_pmap p) w) (\<lambda>(r1, w).
        cbind (iIoMapClose K (pw_cmap p) w) (\<lambda>(r2, w).
        cbind (bd_close Bd (gp, w)) (\<lambda>(r3, gp, w).
          Inr (if r1 = 0 \<and> r2 = 0 \<and> r3 = 0 then i else -1, no_pwm, gp, m, w)))))))"

section \<open>The registers\<close>

text \<open>A modulator that is open, on registers that are memory; the divisor of the clock is read without the password.  The accesses that
  write are recorded.\<close>

definition pwm_mem :: "'w iosys \<Rightarrow> nat \<Rightarrow> ('w \<Rightarrow> nat \<Rightarrow> nat \<Rightarrow> u32) \<Rightarrow> ('w \<Rightarrow> (nat \<times> nat \<times> u32) list) \<Rightarrow> bool" where
  "pwm_mem K clk regs trace \<longleftrightarrow>
     (\<forall>h i w. \<exists>w1. os_get K h i w = (regs w h i, w1) \<and> regs w1 = regs w \<and> trace w1 = trace w) \<and>
     (\<forall>h i v w. regs (os_put K h i v w) =
          (regs w)(h := (regs w h)(i := if h = clk \<and> i = PWMCLK_DIV then v AND 0xFFFFFF else v)) \<and>
        trace (os_put K h i v w) = trace w @ [(h, i, v)]) \<and>
     (\<forall>n w. regs (os_delay_us K n w) = regs w \<and> trace (os_delay_us K n w) = trace w)"

definition pwm_ready :: "'w iosys \<Rightarrow> ('w \<Rightarrow> nat \<Rightarrow> nat \<Rightarrow> u32) \<Rightarrow> ('w \<Rightarrow> (nat \<times> nat \<times> u32) list) \<Rightarrow> xPwm \<Rightarrow> bool" where
  "pwm_ready K regs trace p \<longleftrightarrow> mapped (pw_pmap p) \<and> mapped (pw_cmap p) \<and> handle (pw_pmap p) \<noteq> handle (pw_cmap p) \<and>
     pwm_mem K (handle (pw_cmap p)) regs trace"

lemma pwm_get_ok:
  assumes "pwm_ready K regs trace p" "m \<in> {pw_pmap p, pw_cmap p}" "i < 1024"
  shows "\<exists>w1. io_get K m i w = Inr (regs w (handle m) i, w1) \<and> regs w1 = regs w \<and> trace w1 = trace w"
proof -
  have "mapped m" using assms(1,2) by (auto simp: pwm_ready_def)
  moreover obtain w1 where "os_get K (handle m) i w = (regs w (handle m) i, w1)" "regs w1 = regs w" "trace w1 = trace w"
    using assms(1) unfolding pwm_ready_def pwm_mem_def by blast
  ultimately show ?thesis using pIo_ok [OF _ assms(3)] by (simp add: io_get_def)
qed

lemma pwm_put_ok:
  assumes "pwm_ready K regs trace p" "m \<in> {pw_pmap p, pw_cmap p}" "i < 1024"
  shows "\<exists>w1. io_put K m i v w = Inr w1 \<and> trace w1 = trace w @ [(handle m, i, v)] \<and>
    regs w1 = (regs w)(handle m := (regs w (handle m))(i := if m = pw_cmap p \<and> i = PWMCLK_DIV then v AND 0xFFFFFF else v))"
proof -
  have "mapped m" using assms(1,2) by (auto simp: pwm_ready_def)
  moreover have "handle m = handle (pw_cmap p) \<longleftrightarrow> m = pw_cmap p" using assms(1,2) by (auto simp: pwm_ready_def)
  ultimately show ?thesis using pIo_ok [OF _ assms(3)] assms(1) by (simp add: io_put_def pwm_ready_def pwm_mem_def)
qed

lemma pwm_delay: "pwm_ready K regs trace p \<Longrightarrow> regs (os_delay_us K n w) = regs w \<and> trace (os_delay_us K n w) = trace w"
  by (simp add: pwm_ready_def pwm_mem_def)

lemma pwm_ready_open: "pwm_ready K regs trace p \<Longrightarrow> pwm_bIsOpen p"
  by (auto simp: pwm_ready_def mapped_def pwm_bIsOpen_def bIoMapIsOpen_def)

definition clamp :: "int \<Rightarrow> int" where "clamp d = max 2 (min 4095 d)"

lemma divisor_bits: "drop_bit 12 ((PASSWD OR push_bit 12 x) AND 0xFFFFFF) = x" if small: "x < 2 ^ 12" for x :: u32
proof -
  obtain k where "PASSWD = push_bit 24 k" using that [of "0x5A"] by (simp add: PASSWD_def push_bit_eq_mult)
  moreover have "(0xFFFFFF :: u32) = mask 24" by (simp add: mask_eq_exp_minus_1)
  ultimately have masks: "(PASSWD OR push_bit 12 x) AND 0xFFFFFF = (push_bit 24 k OR push_bit 12 x) AND mask 24" by simp
  have below: "i < 12" "i < 20" "i < 32" if "bit x i" for i using bit_below [OF small that] by simp_all
  show ?thesis
    unfolding masks by (rule bit_word_eqI) (auto simp: bit_simps simp del: drop_bit_and drop_bit_or dest: below)
qed

lemma divisor_read:
  assumes "2 \<le> d" "d \<le> 4095"
  shows "uint (drop_bit 12 ((PASSWD OR push_bit 12 (word_of_int d)) AND 0xFFFFFF)) = d"
proof -
  obtain n where n: "d = int n" "n \<le> 4095" using assms by (metis nat_0_le nat_le_iff of_nat_numeral order_trans zero_le_numeral)
  have "(word_of_nat n :: u32) < 2 ^ 12" using n(2) by (simp add: word_less_nat_alt unat_of_nat)
  moreover have "uint (word_of_nat n :: u32) = int n" using n(2) by (simp add: uint_nat unat_of_nat)
  ultimately show ?thesis using n(1) divisor_bits by simp
qed

text \<open>C39.  Setting the divisor of the clock brings it between 2 and 4095 and returns it: the modulator is stopped, the clock is
  stopped, gets the divisor and runs again, and the modulator gets the control word it had.  The divisor is then read back, and no register of the
  modulator has changed.\<close>

theorem pwm_clock:
  assumes ready: "pwm_ready K regs trace p"
  shows "\<exists>w1 w2. iPwmSetClockDiv K d p w = Inr (clamp d, w1) \<and> iPwmClockDiv K p w1 = Inr (clamp d, w2) \<and>
    regs w1 (handle (pw_pmap p)) = regs w (handle (pw_pmap p)) \<and>
    trace w1 = trace w @ [(handle (pw_pmap p), PWM_CTL, 0), (handle (pw_cmap p), PWMCLK_CNTL, 0x5A000020),
      (handle (pw_cmap p), PWMCLK_DIV, 0x5A000000 OR push_bit 12 (word_of_int (clamp d))), (handle (pw_cmap p), PWMCLK_CNTL, 0x5A000011),
      (handle (pw_pmap p), PWM_CTL, regs w (handle (pw_pmap p)) PWM_CTL)]"
proof -
  let ?P = "pw_pmap p" and ?C = "pw_cmap p" and ?d = "clamp d"
  have op: "pwm_bIsOpen p" by (rule pwm_ready_open [OF ready])
  have apart: "handle ?P \<noteq> handle ?C" using ready by (simp add: pwm_ready_def)
  have small: "PWM_CTL < 1024" "PWMCLK_CNTL < 1024" "PWMCLK_DIV < 1024" by (simp_all add: PWM_CTL_def PWMCLK_CNTL_def PWMCLK_DIV_def)
  note put = pwm_put_ok [OF ready] and delay = pwm_delay [OF ready]
  have d: "(if d < CLK_DIVISOR_MIN then CLK_DIVISOR_MIN else if d > CLK_DIVISOR_MAX then CLK_DIVISOR_MAX else d) = ?d"
    by (simp add: CLK_DIVISOR_MIN_def CLK_DIVISOR_MAX_def clamp_def)
  obtain w1 where w1: "io_get K ?P PWM_CTL w = Inr (regs w (handle ?P) PWM_CTL, w1)" "regs w1 = regs w" "trace w1 = trace w"
    using pwm_get_ok [OF ready _ small(1)] by blast
  obtain w2 where w2: "io_put K ?P PWM_CTL 0 w1 = Inr w2" "trace w2 = trace w1 @ [(handle ?P, PWM_CTL, 0)]"
      "regs w2 = (regs w1)(handle ?P := (regs w1 (handle ?P))(PWM_CTL := 0))"
    using put [of ?P PWM_CTL 0 w1] small(1) by (auto simp: PWM_CTL_def PWMCLK_DIV_def)
  obtain w3 where w3: "io_put K ?C PWMCLK_CNTL (PASSWD OR KILL) (os_delay_us K 10 w2) = Inr w3"
      "trace w3 = trace w2 @ [(handle ?C, PWMCLK_CNTL, PASSWD OR KILL)]"
      "regs w3 (handle ?P) = regs w2 (handle ?P)"
    using put [of ?C PWMCLK_CNTL "PASSWD OR KILL" "os_delay_us K 10 w2"] small(2) delay apart by (auto simp: PWMCLK_CNTL_def PWMCLK_DIV_def)
  obtain w4 where w4: "io_put K ?C PWMCLK_DIV (PASSWD OR push_bit 12 (word_of_int ?d)) (os_delay_us K 10 w3) = Inr w4"
      "trace w4 = trace w3 @ [(handle ?C, PWMCLK_DIV, PASSWD OR push_bit 12 (word_of_int ?d))]"
      "regs w4 (handle ?P) = regs w3 (handle ?P)" "regs w4 (handle ?C) PWMCLK_DIV = (PASSWD OR push_bit 12 (word_of_int ?d)) AND 0xFFFFFF"
    using put [of ?C PWMCLK_DIV "PASSWD OR push_bit 12 (word_of_int ?d)" "os_delay_us K 10 w3"] small(3) delay apart by auto
  obtain w5 where w5: "io_put K ?C PWMCLK_CNTL (PASSWD OR ENAB OR SRC_OSC) w4 = Inr w5"
      "trace w5 = trace w4 @ [(handle ?C, PWMCLK_CNTL, PASSWD OR ENAB OR SRC_OSC)]"
      "regs w5 (handle ?P) = regs w4 (handle ?P)" "regs w5 (handle ?C) PWMCLK_DIV = regs w4 (handle ?C) PWMCLK_DIV"
    using put [of ?C PWMCLK_CNTL "PASSWD OR ENAB OR SRC_OSC" w4] small(2) apart by (auto simp: PWMCLK_CNTL_def PWMCLK_DIV_def)
  obtain w6 where w6: "io_put K ?P PWM_CTL (regs w (handle ?P) PWM_CTL) w5 = Inr w6"
      "trace w6 = trace w5 @ [(handle ?P, PWM_CTL, regs w (handle ?P) PWM_CTL)]"
      "regs w6 (handle ?P) = (regs w5 (handle ?P))(PWM_CTL := regs w (handle ?P) PWM_CTL)"
      "regs w6 (handle ?C) PWMCLK_DIV = regs w5 (handle ?C) PWMCLK_DIV"
    using put [of ?P PWM_CTL "regs w (handle ?P) PWM_CTL" w5] small(1) apart by (auto simp: PWM_CTL_def PWMCLK_DIV_def)
  have run: "iPwmSetClockDiv K d p w = Inr (?d, w6)"
    unfolding iPwmSetClockDiv_def d by (simp add: op w1(1) w2(1) w3(1) w4(1) w5(1) w6(1))
  have same: "regs w6 (handle ?P) = regs w (handle ?P)" using w1(2) w2(3) w3(3) w4(3) w5(3) w6(3) by simp
  have bounds: "2 \<le> ?d" "?d \<le> 4095" by (auto simp: clamp_def)
  have "regs w6 (handle ?C) PWMCLK_DIV = (PASSWD OR push_bit 12 (word_of_int ?d)) AND 0xFFFFFF" using w4(4) w5(4) w6(4) by simp
  moreover obtain w7 where "io_get K ?C PWMCLK_DIV w6 = Inr (regs w6 (handle ?C) PWMCLK_DIV, w7)"
    using pwm_get_ok [OF ready _ small(3)] by blast
  ultimately have read: "iPwmClockDiv K p w6 = Inr (?d, w7)" using op divisor_read [OF bounds] by (simp add: iPwmClockDiv_def)
  have words: "PASSWD OR KILL = 0x5A000020" "PASSWD OR ENAB OR SRC_OSC = 0x5A000011" "PASSWD = 0x5A000000"
    by (simp_all add: PASSWD_def KILL_def ENAB_def SRC_OSC_def)
  have "trace w6 = trace w @ [(handle ?P, PWM_CTL, 0), (handle ?C, PWMCLK_CNTL, 0x5A000020),
      (handle ?C, PWMCLK_DIV, 0x5A000000 OR push_bit 12 (word_of_int ?d)), (handle ?C, PWMCLK_CNTL, 0x5A000011),
      (handle ?P, PWM_CTL, regs w (handle ?P) PWM_CTL)]"
    using w1(3) w2(2) w3(2) [unfolded words(1)] w4(2) [unfolded words(3)] w5(2) [unfolded words(2)] w6(2) delay by simp
  with run same read show ?thesis by blast
qed

definition trace_os :: "((nat \<Rightarrow> nat \<Rightarrow> u32) \<times> (nat \<times> nat \<times> u32) list) iosys" where
  "trace_os = \<lparr>os_open = \<lambda>w. (3, w), os_mmap = \<lambda>size fd base w. (Some (if base mod 0x200000 = 0x101000 then 1 else 0), w),
     os_munmap = \<lambda>h size w. (0, w), os_close = \<lambda>fd w. (0, w), os_get = \<lambda>h i w. (fst w h i, w),
     os_put = \<lambda>h i v w. ((fst w)(h := (fst w h)(i := if h = 1 \<and> i = PWMCLK_DIV then v AND 0xFFFFFF else v)), snd w @ [(h, i, v)]),
     os_delay_us = \<lambda>n w. w\<rparr>"

definition some_pwm :: xPwm where
  "some_pwm = \<lparr>pw_pmap = Some \<lparr>io_base = 0x3F20C000, io_size = 4096, io_fd = 3, io_io = Some 0\<rparr>,
     pw_cmap = Some \<lparr>io_base = 0x3F101000, io_size = 4096, io_fd = 3, io_io = Some 1\<rparr>, pw_gpio = True, pw_pin = 1\<rparr>"

theorem pwm_clock_witness:
  "\<exists>w1 w2. iPwmSetClockDiv trace_os 5000 some_pwm (\<lambda>h i. 0x81, []) = Inr (4095, w1) \<and> iPwmClockDiv trace_os some_pwm w1 = Inr (4095, w2)"
proof -
  have "pwm_ready trace_os fst snd some_pwm"
    by (auto simp: pwm_ready_def pwm_mem_def trace_os_def some_pwm_def mapped_def handle_def)
  from pwm_clock [OF this, of 5000 "(\<lambda>h i. 0x81, [])"] show ?thesis by (auto simp: clamp_def)
qed

end
