(* ===== verification/Boards.thy ===== *)
theory Boards
  imports C_String
begin

text \<open>
  How the library finds out which board it runs on: \<open>src/src/arch/arm/rpi/rpi.c\<close> reads the revision of a Raspberry Pi
  from \<open>/proc/cpuinfo\<close>, \<open>src/src/arch/arm/nanopi/nanopi.c\<close> the name of a NanoPi from \<open>/etc/armbian-release\<close>.  A file is
  \<open>None\<close> when it cannot be opened, else its bytes.
\<close>

section \<open>Lines of a file\<close>

text \<open>\<open>fgets\<close> with a buffer of 1024 bytes: up to 1023 bytes, and no further than the end of a line.\<close>

fun fgets :: "nat \<Rightarrow> u8 list \<Rightarrow> u8 list \<times> u8 list" where
  "fgets 0 cs = ([], cs)"
| "fgets (Suc n) [] = ([], [])"
| "fgets (Suc n) (c # cs) = (if c = 10 then ([c], cs) else let (l, r) = fgets n cs in (c # l, r))"

lemma fgets_rest: "length (snd (fgets n cs)) \<le> length cs"
  by (induction n cs rule: fgets.induct) (auto simp: case_prod_beta)

lemma fgets_less: "cs \<noteq> [] \<Longrightarrow> length (snd (fgets (Suc n) cs)) < length cs"
  using fgets_rest [of n "tl cs"] by (cases cs) (auto simp: case_prod_beta less_Suc_eq_le)

function file_lines :: "u8 list \<Rightarrow> u8 list list" where
  "file_lines cs = (if cs = [] then [] else fst (fgets 1023 cs) # file_lines (snd (fgets 1023 cs)))"
  by pat_completeness auto
termination by (relation "measure length") (use fgets_less [of _ 1022] in \<open>auto simp: eval_nat_numeral\<close>)

declare file_lines.simps [simp del]

text \<open>The string in the buffer, and \<open>strstr\<close>, which gives the rest of the string from the place where the text was found.\<close>

definition buffer_text :: "u8 list \<Rightarrow> u8 list" where
  "buffer_text l = takeWhile (\<lambda>c. c \<noteq> 0) l"

fun strstr :: "u8 list \<Rightarrow> u8 list \<Rightarrow> u8 list option" where
  "strstr [] w = (if w = [] then Some [] else None)"
| "strstr (c # cs) w = (if take (length w) (c # cs) = w then Some (c # cs) else strstr cs w)"

definition iStartWith :: "u8 list \<Rightarrow> u8 list \<Rightarrow> bool" where
  "iStartWith text w \<longleftrightarrow> (let t = dropWhile (\<lambda>c. c = 0x20) text in strstr t w = Some t)"

section \<open>Raspberry Pi\<close>

definition eRpiModelA :: int where "eRpiModelA = 0"
definition eRpiModelB :: int where "eRpiModelB = 1"
definition eRpiModelAPlus :: int where "eRpiModelAPlus = 2"
definition eRpiModelBPlus :: int where "eRpiModelBPlus = 3"
definition eRpiModelComputeModule :: int where "eRpiModelComputeModule = 4"
definition eRpiModel2B :: int where "eRpiModel2B = 5"
definition eRpiModelZero :: int where "eRpiModelZero = 6"
definition eRpiModel3B :: int where "eRpiModel3B = 7"
definition eRpiModelZeroW :: int where "eRpiModelZeroW = 8"
definition eRpiModelComputeModule3 :: int where "eRpiModelComputeModule3 = 9"
definition eRpiModelUnknown :: int where "eRpiModelUnknown = -1"
definition eRpiMcuBcm2708 :: int where "eRpiMcuBcm2708 = 0"
definition eRpiMcuBcm2709 :: int where "eRpiMcuBcm2709 = 1"
definition eRpiMcuBcm2710 :: int where "eRpiMcuBcm2710 = 2"
definition eRpiMcuUnknown :: int where "eRpiMcuUnknown = -1"

definition sManSony :: string where "sManSony = ''Sony''"
definition sManQisda :: string where "sManQisda = ''Qisda''"
definition sManEgoman :: string where "sManEgoman = ''Egoman''"
definition sManEmbest :: string where "sManEmbest = ''Embest''"
definition sUnknownBoard :: string where "sUnknownBoard = ''Unknown''"

record xRpi =
  rp_iRev :: int
  rp_eModel :: int
  rp_iGpioRev :: int
  rp_eMcu :: int
  rp_iMemMB :: int
  rp_iPcbMajor :: int
  rp_iPcbMinor :: int
  rp_sManufacturer :: string

definition xRpiDb :: "xRpi list" where
  "xRpiDb =
   [\<lparr>rp_iRev = 0x2, rp_eModel = eRpiModelB, rp_iGpioRev = 1, rp_eMcu = eRpiMcuBcm2708, rp_iMemMB = 256, rp_iPcbMajor = 1, rp_iPcbMinor = 0, rp_sManufacturer = sUnknownBoard\<rparr>,
    \<lparr>rp_iRev = 0x3, rp_eModel = eRpiModelB, rp_iGpioRev = 1, rp_eMcu = eRpiMcuBcm2708, rp_iMemMB = 256, rp_iPcbMajor = 1, rp_iPcbMinor = 0, rp_sManufacturer = sUnknownBoard\<rparr>,
    \<lparr>rp_iRev = 0x4, rp_eModel = eRpiModelB, rp_iGpioRev = 2, rp_eMcu = eRpiMcuBcm2708, rp_iMemMB = 256, rp_iPcbMajor = 2, rp_iPcbMinor = 0, rp_sManufacturer = sManSony\<rparr>,
    \<lparr>rp_iRev = 0x5, rp_eModel = eRpiModelB, rp_iGpioRev = 2, rp_eMcu = eRpiMcuBcm2708, rp_iMemMB = 256, rp_iPcbMajor = 2, rp_iPcbMinor = 0, rp_sManufacturer = sManQisda\<rparr>,
    \<lparr>rp_iRev = 0x6, rp_eModel = eRpiModelB, rp_iGpioRev = 2, rp_eMcu = eRpiMcuBcm2708, rp_iMemMB = 256, rp_iPcbMajor = 2, rp_iPcbMinor = 0, rp_sManufacturer = sManEgoman\<rparr>,
    \<lparr>rp_iRev = 0x7, rp_eModel = eRpiModelA, rp_iGpioRev = 2, rp_eMcu = eRpiMcuBcm2708, rp_iMemMB = 256, rp_iPcbMajor = 2, rp_iPcbMinor = 0, rp_sManufacturer = sManEgoman\<rparr>,
    \<lparr>rp_iRev = 0x8, rp_eModel = eRpiModelA, rp_iGpioRev = 2, rp_eMcu = eRpiMcuBcm2708, rp_iMemMB = 256, rp_iPcbMajor = 2, rp_iPcbMinor = 0, rp_sManufacturer = sManSony\<rparr>,
    \<lparr>rp_iRev = 0x9, rp_eModel = eRpiModelA, rp_iGpioRev = 2, rp_eMcu = eRpiMcuBcm2708, rp_iMemMB = 256, rp_iPcbMajor = 2, rp_iPcbMinor = 0, rp_sManufacturer = sManQisda\<rparr>,
    \<lparr>rp_iRev = 0xD, rp_eModel = eRpiModelB, rp_iGpioRev = 2, rp_eMcu = eRpiMcuBcm2708, rp_iMemMB = 512, rp_iPcbMajor = 2, rp_iPcbMinor = 0, rp_sManufacturer = sManEgoman\<rparr>,
    \<lparr>rp_iRev = 0xE, rp_eModel = eRpiModelB, rp_iGpioRev = 2, rp_eMcu = eRpiMcuBcm2708, rp_iMemMB = 512, rp_iPcbMajor = 2, rp_iPcbMinor = 0, rp_sManufacturer = sManSony\<rparr>,
    \<lparr>rp_iRev = 0xF, rp_eModel = eRpiModelB, rp_iGpioRev = 2, rp_eMcu = eRpiMcuBcm2708, rp_iMemMB = 512, rp_iPcbMajor = 2, rp_iPcbMinor = 0, rp_sManufacturer = sManQisda\<rparr>,
    \<lparr>rp_iRev = 0x10, rp_eModel = eRpiModelBPlus, rp_iGpioRev = 3, rp_eMcu = eRpiMcuBcm2708, rp_iMemMB = 512, rp_iPcbMajor = 1, rp_iPcbMinor = 0, rp_sManufacturer = sManSony\<rparr>,
    \<lparr>rp_iRev = 0x11, rp_eModel = eRpiModelComputeModule, rp_iGpioRev = 3, rp_eMcu = eRpiMcuBcm2708, rp_iMemMB = 512, rp_iPcbMajor = 1, rp_iPcbMinor = 0, rp_sManufacturer = sManSony\<rparr>,
    \<lparr>rp_iRev = 0x12, rp_eModel = eRpiModelAPlus, rp_iGpioRev = 3, rp_eMcu = eRpiMcuBcm2708, rp_iMemMB = 256, rp_iPcbMajor = 1, rp_iPcbMinor = 0, rp_sManufacturer = sManSony\<rparr>,
    \<lparr>rp_iRev = 0x13, rp_eModel = eRpiModelBPlus, rp_iGpioRev = 3, rp_eMcu = eRpiMcuBcm2708, rp_iMemMB = 512, rp_iPcbMajor = 1, rp_iPcbMinor = 2, rp_sManufacturer = sUnknownBoard\<rparr>,
    \<lparr>rp_iRev = 0x14, rp_eModel = eRpiModelComputeModule, rp_iGpioRev = 3, rp_eMcu = eRpiMcuBcm2708, rp_iMemMB = 512, rp_iPcbMajor = 1, rp_iPcbMinor = 0, rp_sManufacturer = sManEmbest\<rparr>,
    \<lparr>rp_iRev = 0x15, rp_eModel = eRpiModelAPlus, rp_iGpioRev = 3, rp_eMcu = eRpiMcuBcm2708, rp_iMemMB = 512, rp_iPcbMajor = 1, rp_iPcbMinor = 1, rp_sManufacturer = sManEmbest\<rparr>,
    \<lparr>rp_iRev = 0x900021, rp_eModel = eRpiModelAPlus, rp_iGpioRev = 3, rp_eMcu = eRpiMcuBcm2708, rp_iMemMB = 512, rp_iPcbMajor = 1, rp_iPcbMinor = 1, rp_sManufacturer = sManSony\<rparr>,
    \<lparr>rp_iRev = 0x900032, rp_eModel = eRpiModelBPlus, rp_iGpioRev = 3, rp_eMcu = eRpiMcuBcm2708, rp_iMemMB = 512, rp_iPcbMajor = 1, rp_iPcbMinor = 2, rp_sManufacturer = sManSony\<rparr>,
    \<lparr>rp_iRev = 0xA01040, rp_eModel = eRpiModel2B, rp_iGpioRev = 3, rp_eMcu = eRpiMcuBcm2709, rp_iMemMB = 1024, rp_iPcbMajor = 1, rp_iPcbMinor = 0, rp_sManufacturer = sUnknownBoard\<rparr>,
    \<lparr>rp_iRev = 0xA01041, rp_eModel = eRpiModel2B, rp_iGpioRev = 3, rp_eMcu = eRpiMcuBcm2709, rp_iMemMB = 1024, rp_iPcbMajor = 1, rp_iPcbMinor = 1, rp_sManufacturer = sManSony\<rparr>,
    \<lparr>rp_iRev = 0xA21041, rp_eModel = eRpiModel2B, rp_iGpioRev = 3, rp_eMcu = eRpiMcuBcm2709, rp_iMemMB = 1024, rp_iPcbMajor = 1, rp_iPcbMinor = 1, rp_sManufacturer = sManEmbest\<rparr>,
    \<lparr>rp_iRev = 0xA22042, rp_eModel = eRpiModel2B, rp_iGpioRev = 3, rp_eMcu = eRpiMcuBcm2709, rp_iMemMB = 1024, rp_iPcbMajor = 1, rp_iPcbMinor = 2, rp_sManufacturer = sManEmbest\<rparr>,
    \<lparr>rp_iRev = 0x900092, rp_eModel = eRpiModelZero, rp_iGpioRev = 3, rp_eMcu = eRpiMcuBcm2708, rp_iMemMB = 512, rp_iPcbMajor = 1, rp_iPcbMinor = 2, rp_sManufacturer = sManSony\<rparr>,
    \<lparr>rp_iRev = 0x900093, rp_eModel = eRpiModelZero, rp_iGpioRev = 3, rp_eMcu = eRpiMcuBcm2708, rp_iMemMB = 512, rp_iPcbMajor = 1, rp_iPcbMinor = 3, rp_sManufacturer = sManSony\<rparr>,
    \<lparr>rp_iRev = 0x920093, rp_eModel = eRpiModelZero, rp_iGpioRev = 3, rp_eMcu = eRpiMcuBcm2708, rp_iMemMB = 512, rp_iPcbMajor = 1, rp_iPcbMinor = 3, rp_sManufacturer = sManEmbest\<rparr>,
    \<lparr>rp_iRev = 0x9000C1, rp_eModel = eRpiModelZeroW, rp_iGpioRev = 3, rp_eMcu = eRpiMcuBcm2708, rp_iMemMB = 512, rp_iPcbMajor = 1, rp_iPcbMinor = 1, rp_sManufacturer = sManSony\<rparr>,
    \<lparr>rp_iRev = 0xA02082, rp_eModel = eRpiModel3B, rp_iGpioRev = 3, rp_eMcu = eRpiMcuBcm2710, rp_iMemMB = 1024, rp_iPcbMajor = 1, rp_iPcbMinor = 2, rp_sManufacturer = sManSony\<rparr>,
    \<lparr>rp_iRev = 0xA020A0, rp_eModel = eRpiModelComputeModule3, rp_iGpioRev = 3, rp_eMcu = eRpiMcuBcm2710, rp_iMemMB = 1024, rp_iPcbMajor = 1, rp_iPcbMinor = 0, rp_sManufacturer = sManSony\<rparr>,
    \<lparr>rp_iRev = 0xA22082, rp_eModel = eRpiModel3B, rp_iGpioRev = 3, rp_eMcu = eRpiMcuBcm2710, rp_iMemMB = 1024, rp_iPcbMajor = 1, rp_iPcbMinor = 2, rp_sManufacturer = sUnknownBoard\<rparr>,
    \<lparr>rp_iRev = 0xA32082, rp_eModel = eRpiModel3B, rp_iGpioRev = 3, rp_eMcu = eRpiMcuBcm2710, rp_iMemMB = 1024, rp_iPcbMajor = 1, rp_iPcbMinor = 2, rp_sManufacturer = sManSony\<rparr>,
    \<lparr>rp_iRev = -1, rp_eModel = eRpiModelUnknown, rp_iGpioRev = -1, rp_eMcu = eRpiMcuUnknown, rp_iMemMB = -1, rp_iPcbMajor = -1, rp_iPcbMinor = -1, rp_sManufacturer = sUnknownBoard\<rparr>]"

definition rpi_sModelList :: "string list" where
  "rpi_sModelList = [''Pi1 Model A'', ''Pi1 Model B'', ''Pi1 Model A+'', ''Pi1 Model B+'', ''Compute Module'', ''Pi2 Model B'',
     ''Pi Zero'', ''Pi3 Model B'', ''Pi ZeroW'', ''Compute Module 3'']"

definition rpi_sMcuList :: "string list" where "rpi_sMcuList = [''bcm2708'', ''bcm2709'', ''bcm2710'']"

text \<open>\<open>sscanf (p, "Revision  : %x", &revision)\<close>: white space in the format stands for any white space.\<close>

definition scan_hex :: "u8 list \<Rightarrow> u32 option" where
  "scan_hex cs =
     (case c_strtol 16 (cs @ [0]) of
        Inr (Some v) \<Rightarrow> Some (if \<bar>v\<bar> < 2 ^ 64 then word_of_int v else -1)
      | _ \<Rightarrow> None)"

definition scan_revision :: "u8 list \<Rightarrow> u32 option" where
  "scan_revision p =
     (if take 8 p = ascii ''Revision'' then
        case dropWhile isspace (drop 8 p) of
          c # cs \<Rightarrow> if c = 0x3A then scan_hex cs else None
        | [] \<Rightarrow> None
      else None)"

definition has_text :: "u8 list \<Rightarrow> string \<Rightarrow> bool" where
  "has_text p w \<longleftrightarrow> strstr p (ascii w) \<noteq> None"

text \<open>The loop over the lines; the first result tells that the function returned inside the loop.  Only a line that names all the
  processors at once counts as one of another computer.\<close>

fun rpi_scan :: "u8 list list \<Rightarrow> bool \<Rightarrow> u32 \<Rightarrow> int \<Rightarrow> bool \<times> u32 \<times> int" where
  "rpi_scan [] bisBcm revision iRev = (False, revision, iRev)"
| "rpi_scan (l # ls) bisBcm revision iRev =
     (let p = buffer_text l in
      if iStartWith p (ascii ''Hardware'') then
        if has_text p ''BCM2710'' \<and> has_text p ''BCM2709'' \<and> has_text p ''BCM2708'' \<and> has_text p ''BCM2837'' \<and> has_text p ''BCM2836''
        then (True, revision, iRev)
        else rpi_scan ls True revision iRev
      else if iStartWith p (ascii ''Revision'') \<and> bisBcm then
        case Option.bind (strstr p (ascii ''Revision'')) scan_revision of
          Some r \<Rightarrow> rpi_scan ls bisBcm r (sint r)
        | None \<Rightarrow> rpi_scan ls bisBcm revision iRev
      else rpi_scan ls bisBcm revision iRev)"

text \<open>The static variables \<open>iRev\<close> and \<open>pxRpi\<close>.\<close>

record rpi_board =
  rb_iRev :: int
  rb_pxRpi :: "xRpi option"

definition iRpiRev :: "u8 list option \<Rightarrow> rpi_board \<Rightarrow> int \<times> rpi_board" where
  "iRpiRev file st =
     (if rb_iRev st = -1 then
        case file of
          None \<Rightarrow> (-1, st)
        | Some cs \<Rightarrow>
            let (early, revision, iRev) = rpi_scan (file_lines cs) False 0 (rb_iRev st); st = st\<lparr>rb_iRev := iRev\<rparr>
            in if early then (0, st) else (sint revision, st)
      else (rb_iRev st, st))"

fun find_rpi :: "xRpi list \<Rightarrow> int \<Rightarrow> xRpi run" where
  "find_rpi [] r = Inl OutOfBounds"
| "find_rpi (p # ps) r = (if rp_iRev p \<noteq> -1 \<and> rp_iRev p \<noteq> r then find_rpi ps r else Inr p)"

definition pxRpiInfo :: "u8 list option \<Rightarrow> rpi_board \<Rightarrow> (xRpi option \<times> rpi_board) run" where
  "pxRpiInfo file st =
     (if rb_pxRpi st = None then
        let (r, st) = iRpiRev file st in
        if r > 0 then cbind (find_rpi xRpiDb r) (\<lambda>p. Inr (Some p, st\<lparr>rb_pxRpi := Some p\<rparr>))
        else Inr (None, st)
      else Inr (rb_pxRpi st, st))"

text \<open>The names of the last two models are not reached.\<close>

definition sRpiModelToStr :: "int \<Rightarrow> string run" where
  "sRpiModelToStr eModel =
     (if eModel \<ge> eRpiModelA \<and> eModel \<le> eRpiModel3B then rd rpi_sModelList (nat eModel) else Inr sUnknownBoard)"

definition sRpiMcuToStr :: "int \<Rightarrow> string run" where
  "sRpiMcuToStr eMcu = (if eMcu \<ge> eRpiMcuBcm2708 \<and> eMcu \<le> eRpiMcuBcm2710 then rd rpi_sMcuList (nat eMcu) else Inr sUnknownBoard)"

definition BCM2708_IO_BASE :: int where "BCM2708_IO_BASE = 0x20000000"
definition BCM2709_IO_BASE :: int where "BCM2709_IO_BASE = 0x3F000000"

definition ulRpiIoBase :: "u8 list option \<Rightarrow> rpi_board \<Rightarrow> (int \<times> rpi_board) run" where
  "ulRpiIoBase file st =
     cbind (pxRpiInfo file st) (\<lambda>(p, st). cbind (deref p) (\<lambda>i.
       Inr (if rp_eMcu i = eRpiMcuBcm2708 then BCM2708_IO_BASE else BCM2709_IO_BASE, st)))"

section \<open>NanoPi\<close>

definition eNanoPiModelNeo :: int where "eNanoPiModelNeo = 0"
definition eNanoPiModelNeoAir :: int where "eNanoPiModelNeoAir = 1"
definition eNanoPiModelNeoM1 :: int where "eNanoPiModelNeoM1 = 2"
definition eNanoPiModelNeoM1Plus :: int where "eNanoPiModelNeoM1Plus = 3"
definition eNanoPiModelNeo2 :: int where "eNanoPiModelNeo2 = 4"
definition eNanoPiModelNeoPlus2 :: int where "eNanoPiModelNeoPlus2 = 5"
definition eNanoPiModelUnknown :: int where "eNanoPiModelUnknown = -1"
definition eNanoPiMcuH3 :: int where "eNanoPiMcuH3 = 0"
definition eNanoPiMcuH5 :: int where "eNanoPiMcuH5 = 1"
definition eNanoPiMcuUnknown :: int where "eNanoPiMcuUnknown = -1"

definition sManFriendlyARM :: string where "sManFriendlyARM = ''FriendlyARM''"

record xNanoPi =
  np_eModel :: int
  np_iGpioRev :: int
  np_eMcu :: int
  np_iMemMB :: int
  np_sManufacturer :: string

text \<open>The entries are in another order than the numbers of the models.\<close>

definition xNpiDb :: "xNanoPi list" where
  "xNpiDb =
   [\<lparr>np_eModel = eNanoPiModelNeo, np_iGpioRev = 1, np_eMcu = eNanoPiMcuH3, np_iMemMB = -1, np_sManufacturer = sManFriendlyARM\<rparr>,
    \<lparr>np_eModel = eNanoPiModelNeo2, np_iGpioRev = 1, np_eMcu = eNanoPiMcuH5, np_iMemMB = -1, np_sManufacturer = sManFriendlyARM\<rparr>,
    \<lparr>np_eModel = eNanoPiModelNeoPlus2, np_iGpioRev = 1, np_eMcu = eNanoPiMcuH5, np_iMemMB = -1, np_sManufacturer = sManFriendlyARM\<rparr>,
    \<lparr>np_eModel = eNanoPiModelNeoAir, np_iGpioRev = 1, np_eMcu = eNanoPiMcuH3, np_iMemMB = -1, np_sManufacturer = sManFriendlyARM\<rparr>,
    \<lparr>np_eModel = eNanoPiModelNeoM1, np_iGpioRev = 2, np_eMcu = eNanoPiMcuH3, np_iMemMB = -1, np_sManufacturer = sManFriendlyARM\<rparr>,
    \<lparr>np_eModel = eNanoPiModelNeoM1Plus, np_iGpioRev = 3, np_eMcu = eNanoPiMcuH3, np_iMemMB = -1, np_sManufacturer = sManFriendlyARM\<rparr>,
    \<lparr>np_eModel = eNanoPiModelUnknown, np_iGpioRev = -1, np_eMcu = eNanoPiMcuUnknown, np_iMemMB = -1, np_sManufacturer = sUnknownBoard\<rparr>]"

definition nanopi_sModelList :: "string list" where
  "nanopi_sModelList = [''NanoPi Neo'', ''NanoPi Neo2'', ''NanoPi Neo Plus2'', ''NanoPi Neo Air'', ''NanoPi M1'', ''NanoPi M1 Plus'']"

definition nanopi_sMcuList :: "string list" where "nanopi_sMcuList = [''Allwinner H3'', ''Allwinner H5'']"

text \<open>The parameter is looked for in the value, behind the sign =.\<close>

definition sGetParam :: "u8 list \<Rightarrow> u8 list \<Rightarrow> u8 list option" where
  "sGetParam line param =
     (case strstr line [0x3D] of
        None \<Rightarrow> None
      | Some p \<Rightarrow> if length p > 1 then strstr (tl p) param else None)"

definition strcasecmp :: "u8 list \<Rightarrow> string \<Rightarrow> bool" where
  "strcasecmp s t \<longleftrightarrow> map tolower s = map tolower (ascii t)"

text \<open>The names of the models in the order in which they are compared.\<close>

definition nanopi_names :: "(string \<times> int) list" where
  "nanopi_names = [(''nanopineo'', eNanoPiModelNeo), (''nanopineo2'', eNanoPiModelNeo2), (''nanopineoplus2'', eNanoPiModelNeoPlus2),
     (''nanopineoair'', eNanoPiModelNeoAir), (''nanopim1'', eNanoPiModelNeoM1), (''nanopim1plus'', eNanoPiModelNeoM1Plus)]"

fun nanopi_scan :: "u8 list list \<Rightarrow> int" where
  "nanopi_scan [] = eNanoPiModelUnknown"
| "nanopi_scan (l # ls) =
     (case sGetParam (buffer_text l) (ascii ''BOARD'') of
        None \<Rightarrow> nanopi_scan ls
      | Some value \<Rightarrow>
          case find (\<lambda>(name, m). strcasecmp value name) nanopi_names of
            Some (name, m) \<Rightarrow> m
          | None \<Rightarrow> nanopi_scan ls)"

text \<open>The static variables; \<open>NANOPI_MODEL\<close>, the model the library was built for, is a parameter.\<close>

record nanopi_board =
  nb_eNpiBoard :: int
  nb_pxNpi :: "nat option"
  nb_xNpiDb :: "xNanoPi list"

definition eNanoPiBoard :: "int \<Rightarrow> u8 list option \<Rightarrow> nanopi_board \<Rightarrow> int \<times> nanopi_board" where
  "eNanoPiBoard NANOPI_MODEL file st =
     (let b = (if nb_eNpiBoard st = eNanoPiModelUnknown then
                 case file of None \<Rightarrow> nb_eNpiBoard st | Some cs \<Rightarrow> nanopi_scan (file_lines cs)
               else nb_eNpiBoard st);
          b = (if b = eNanoPiModelUnknown then NANOPI_MODEL else b)
      in (b, st\<lparr>nb_eNpiBoard := b\<rparr>))"

text \<open>The memory is rounded up to a power of two, \<open>2 ^ k\<close>; a shift into the sign is undefined.\<close>

function roundram :: "nat \<Rightarrow> nat \<Rightarrow> int run" where
  "roundram k totalram = (if 2 ^ k < totalram then if k \<ge> 30 then Inl OutOfBounds else roundram (k + 1) totalram else Inr (2 ^ k))"
  by pat_completeness auto
termination by (relation "measure (\<lambda>(k, _). 30 - k)") auto

declare roundram.simps [simp del]

text \<open>\<open>ram\<close> is what \<open>sysinfo\<close> says in megabytes, if it succeeds.\<close>

definition pxNanoPiInfo :: "int \<Rightarrow> u8 list option \<Rightarrow> nat option \<Rightarrow> nanopi_board \<Rightarrow> (xNanoPi option \<times> nanopi_board) run" where
  "pxNanoPiInfo NANOPI_MODEL file ram st =
     (case nb_pxNpi st of
        Some i \<Rightarrow> cbind (rd (nb_xNpiDb st) i) (\<lambda>e. Inr (Some e, st))
      | None \<Rightarrow>
          let (b, st) = eNanoPiBoard NANOPI_MODEL file st in
          if b = eNanoPiModelUnknown then Inr (None, st)
          else
            let st = st\<lparr>nb_pxNpi := Some (nat b)\<rparr> in
            cbind (rd (nb_xNpiDb st) (nat b)) (\<lambda>e.
              case ram of
                None \<Rightarrow> Inr (Some e, st)
              | Some mb \<Rightarrow> cbind (roundram 0 mb) (\<lambda>r.
                  let e = e\<lparr>np_iMemMB := r\<rparr> in Inr (Some e, st\<lparr>nb_xNpiDb := (nb_xNpiDb st)[nat b := e]\<rparr>))))"

definition sNanoPiModelToStr :: "int \<Rightarrow> string run" where
  "sNanoPiModelToStr eModel =
     (if eModel \<ge> eNanoPiModelNeo \<and> eModel \<le> eNanoPiModelNeoM1 then rd nanopi_sModelList (nat eModel) else Inr sUnknownBoard)"

definition sNanoPiMcuToStr :: "int \<Rightarrow> string run" where
  "sNanoPiMcuToStr eMcu = (if eMcu \<ge> eNanoPiMcuH3 \<and> eMcu \<le> eNanoPiMcuH3 then rd nanopi_sMcuList (nat eMcu) else Inr sUnknownBoard)"

end
