(* ===== verification/Boards_Laws.thy ===== *)
theory Boards_Laws
  imports Boards
begin

text \<open>
  What the detection of boards finds: the revision that a Raspberry Pi prints, on any kind of hardware; never the name of a NanoPi.
\<close>

section \<open>Lines\<close>

lemma fgets_line: "length l < n \<Longrightarrow> 10 \<notin> set l \<Longrightarrow> fgets n (l @ 10 # cs) = (l @ [10], cs)"
proof (induction l arbitrary: n)
  case Nil
  then show ?case by (cases n) auto
next
  case (Cons c l)
  then show ?case by (cases n) auto
qed

text \<open>Lines that fit into the buffer.\<close>

definition text_line :: "u8 list \<Rightarrow> bool" where
  "text_line l \<longleftrightarrow> length l < 1023 \<and> 10 \<notin> set l \<and> 0 \<notin> set l"

lemma lines_of_text:
  assumes "\<forall>l \<in> set ls. text_line l"
  shows "file_lines (concat (map (\<lambda>l. l @ [10]) ls)) = map (\<lambda>l. l @ [10]) ls"
  using assms
proof (induction ls)
  case Nil
  then show ?case by (simp add: file_lines.simps)
next
  case (Cons l ls)
  then have "fgets 1023 (l @ 10 # concat (map (\<lambda>l. l @ [10]) ls)) = (l @ [10], concat (map (\<lambda>l. l @ [10]) ls))"
    by (intro fgets_line) (auto simp: text_line_def)
  with Cons show ?case by (subst file_lines.simps) simp
qed

lemma buffer_line: "0 \<notin> set l \<Longrightarrow> buffer_text (l @ [10]) = l @ [10]"
  by (auto simp: buffer_text_def takeWhile_eq_all_conv)

lemma strstr_take: "strstr cs w = Some r \<Longrightarrow> take (length w) r = w"
  by (induction cs w rule: strstr.induct) (auto split: if_split_asm)

lemma strstr_here: "take (length w) cs = w \<Longrightarrow> strstr cs w = Some cs"
  by (cases cs) auto

lemma start_with: "iStartWith text w \<longleftrightarrow> take (length w) (dropWhile (\<lambda>c. c = 0x20) text) = w"
  using strstr_take [of "dropWhile (\<lambda>c. c = 0x20) text" w] strstr_here [of w "dropWhile (\<lambda>c. c = 0x20) text"]
  by (auto simp: iStartWith_def Let_def)

section \<open>The revision of a Raspberry Pi\<close>

text \<open>Lines about other things, which the loop passes over.\<close>

definition other_line :: "u8 list \<Rightarrow> bool" where
  "other_line l \<longleftrightarrow> text_line l \<and> \<not> iStartWith (l @ [10]) (ascii ''Hardware'') \<and> \<not> iStartWith (l @ [10]) (ascii ''Revision'')"

lemma scan_other:
  assumes "\<forall>l \<in> set ls. other_line l"
  shows "rpi_scan (map (\<lambda>l. l @ [10]) ls @ rest) bcm revision r = rpi_scan rest bcm revision r"
  using assms by (induction ls) (auto simp: other_line_def text_line_def buffer_line Let_def)

text \<open>The value of hexadecimal digits.\<close>

definition hex_value :: "u8 list \<Rightarrow> int" where
  "hex_value ds = foldl (\<lambda>a d. a * 16 + the (digit_val 16 d)) 0 ds"

lemma digit_low: "digit_val 16 c \<noteq> None \<Longrightarrow> 0x30 \<le> c"
  by (auto simp: digit_val_def isupper_def islower_def Let_def word_le_nat_alt split: if_split_asm)

lemma digits_value:
  "list_all (\<lambda>d. digit_val 16 d \<noteq> None) ds \<Longrightarrow> c_digits 16 acc (ds @ 10 # r) = Inr (foldl (\<lambda>a d. a * 16 + the (digit_val 16 d)) acc ds)"
  by (induction ds arbitrary: acc) (auto simp: digit_val_def isupper_def islower_def)

text \<open>The line as the kernel prints it, without a digit 0 followed by an x, which is no digit.\<close>

lemma scan_digits:
  assumes "ds \<noteq> []" "list_all (\<lambda>d. digit_val 16 d \<noteq> None) ds" "hex_value ds < 2 ^ 64"
  shows "scan_hex (0x20 # ds @ [10]) = Some (word_of_int (hex_value ds))"
proof -
  obtain d ds1 where ds: "ds = d # ds1" "digit_val 16 d \<noteq> None" using assms(1,2) by (cases ds) auto
  have val: "digit_val 16 c \<noteq> None \<Longrightarrow> 0 \<le> the (digit_val 16 c)" for c by (auto simp: digit_val_def Let_def split: if_split_asm)
  have "0 \<le> foldl (\<lambda>a d. a * 16 + the (digit_val 16 d)) acc ds" if "0 \<le> acc" for acc
    using that assms(2) by (induction ds arbitrary: acc) (auto simp: val)
  then have pos: "0 \<le> hex_value ds" by (simp add: hex_value_def)
  have no_space: "\<not> isspace d" "d \<noteq> 0x2D" "d \<noteq> 0x2B" using digit_low [OF ds(2)] by (auto simp: isspace_def word_le_nat_alt)
  have skip: "skip_hex 16 (ds @ [10, 0]) = ds @ [10, 0]"
  proof (cases ds1)
    case Nil
    then show ?thesis by (simp add: ds skip_hex_def)
  next
    case (Cons x r)
    then have "digit_val 16 x \<noteq> None" using assms(2) ds by simp
    then have "x \<noteq> 0x78" "x \<noteq> 0x58" by (auto simp: digit_val_def isupper_def islower_def)
    with Cons show ?thesis by (auto simp: ds skip_hex_def split: list.split)
  qed
  have "c_strtol 16 (0x20 # ds @ [10, 0]) = Inr (Some (hex_value ds))"
    using no_space skip digits_value [OF assms(2), of 0 "[0]"] ds(2)
    by (auto simp: c_strtol_def skip_sign_def ds(1) isspace_def hex_value_def)
  with pos assms(3) show ?thesis by (simp add: scan_hex_def)
qed

lemma hex_value_pos: "list_all (\<lambda>d. digit_val 16 d \<noteq> None) ds \<Longrightarrow> 0 \<le> hex_value ds"
proof -
  have val: "digit_val 16 c \<noteq> None \<Longrightarrow> 0 \<le> the (digit_val 16 c)" for c by (auto simp: digit_val_def Let_def split: if_split_asm)
  have "list_all (\<lambda>d. digit_val 16 d \<noteq> None) ds \<Longrightarrow> 0 \<le> acc \<Longrightarrow> 0 \<le> foldl (\<lambda>a d. a * 16 + the (digit_val 16 d)) acc ds" for acc
    by (induction ds arbitrary: acc) (auto simp: val)
  then show "list_all (\<lambda>d. digit_val 16 d \<noteq> None) ds \<Longrightarrow> 0 \<le> hex_value ds" by (simp add: hex_value_def)
qed

text \<open>A line of the hardware that does not name the BCM2710, and a line of the revision as the kernel prints it.\<close>

definition hardware_line :: "u8 list \<Rightarrow> bool" where
  "hardware_line l \<longleftrightarrow> text_line l \<and> take 8 l = ascii ''Hardware'' \<and> \<not> has_text (l @ [10]) ''BCM2710''"

definition revision_line :: "u8 list \<Rightarrow> u8 list \<Rightarrow> u8 list \<Rightarrow> bool" where
  "revision_line tab ds l \<longleftrightarrow> l = ascii ''Revision'' @ tab @ [0x3A, 0x20] @ ds \<and> text_line l \<and> list_all isspace tab \<and>
     ds \<noteq> [] \<and> list_all (\<lambda>d. digit_val 16 d \<noteq> None) ds"

lemma revision_scan:
  assumes "revision_line tab ds l" "hex_value ds < 2 ^ 64"
  shows "iStartWith (l @ [10]) (ascii ''Revision'')" "\<not> iStartWith (l @ [10]) (ascii ''Hardware'')"
    "Option.bind (strstr (l @ [10]) (ascii ''Revision'')) scan_revision = Some (word_of_int (hex_value ds))"
proof -
  have l: "l @ [10] = ascii ''Revision'' @ tab @ [0x3A, 0x20] @ ds @ [10]" using assms(1) by (simp add: revision_line_def)
  show "iStartWith (l @ [10]) (ascii ''Revision'')" "\<not> iStartWith (l @ [10]) (ascii ''Hardware'')"
    unfolding l by (simp_all add: start_with ascii_def)
  have found: "strstr (l @ [10]) (ascii ''Revision'') = Some (l @ [10])" unfolding l by (rule strstr_here) (simp add: ascii_def)
  have "list_all isspace tab \<Longrightarrow> dropWhile isspace (tab @ 0x3A # 0x20 # ds @ [10]) = 0x3A # 0x20 # ds @ [10]"
    by (induction tab) (auto simp: isspace_def)
  with assms scan_digits [of ds] have "scan_revision (l @ [10]) = Some (word_of_int (hex_value ds))"
    unfolding l by (simp add: scan_revision_def ascii_def revision_line_def)
  with found show "Option.bind (strstr (l @ [10]) (ascii ''Revision'')) scan_revision = Some (word_of_int (hex_value ds))" by simp
qed

text \<open> When the text of \<open>/proc/cpuinfo\<close> has a line of the hardware and a line of the revision behind it, the revision is
  the number of this line, whatever the hardware is.\<close>

theorem rpi_revision:
  assumes other: "\<forall>l \<in> set (pre @ mid @ post). other_line l" and hw: "hardware_line hw"
    and revision: "revision_line tab ds l" "hex_value ds < 2 ^ 31" and first: "rb_iRev st = -1"
  shows "iRpiRev (Some (concat (map (\<lambda>l. l @ [10]) (pre @ hw # mid @ l # post)))) st = (hex_value ds, st\<lparr>rb_iRev := hex_value ds\<rparr>)"
proof -
  let ?nl = "map (\<lambda>l. l @ [10 :: u8])"
  have fits: "text_line hw" "text_line l" using hw revision by (auto simp: hardware_line_def revision_line_def)
  have lines: "file_lines (concat (?nl (pre @ hw # mid @ l # post))) = ?nl pre @ (hw @ [10]) # ?nl mid @ (l @ [10]) # ?nl post"
    using other fits by (subst lines_of_text) (auto simp: other_line_def)
  have "hw = ascii ''Hardware'' @ drop 8 hw" using hw append_take_drop_id [of 8 hw] by (simp add: hardware_line_def)
  then obtain r where r: "hw @ [10] = ascii ''Hardware'' @ r" by (metis append_assoc)
  have start: "iStartWith (hw @ [10]) (ascii ''Hardware'')" unfolding r by (simp add: start_with ascii_def)
  have "hex_value ds < 2 ^ 64" using revision(2) by simp
  note scan = revision_scan [OF revision(1) this]
  have signed: "sint (word_of_int (hex_value ds) :: u32) = hex_value ds"
    using hex_value_pos [of ds] revision by (simp add: revision_line_def sint_sbintrunc' signed_take_bit_int_eq_self)
  have after: "rpi_scan ((l @ [10]) # ?nl post) True 0 r = (False, word_of_int (hex_value ds), hex_value ds)" for r
    using scan signed fits scan_other [of post "[]"] other by (simp add: Let_def buffer_line text_line_def)
  have middle: "rpi_scan (?nl mid @ (l @ [10]) # ?nl post) True 0 r = (False, word_of_int (hex_value ds), hex_value ds)" for r
    using scan_other [of mid] other after by simp
  have "rpi_scan ((hw @ [10]) # ?nl mid @ (l @ [10]) # ?nl post) False 0 r = (False, word_of_int (hex_value ds), hex_value ds)" for r
    using start middle fits hw by (simp add: Let_def buffer_line text_line_def hardware_line_def)
  then have "rpi_scan (file_lines (concat (?nl (pre @ hw # mid @ l # post)))) False 0 (rb_iRev st) =
      (False, word_of_int (hex_value ds), hex_value ds)"
    unfolding lines using scan_other [of pre] other by simp
  then show ?thesis using first signed by (simp add: iRpiRev_def)
qed

text \<open>A computer with an Allwinner processor.\<close>

definition sun8i_info :: "u8 list list" where
  "sun8i_info = [ascii ''processor : 0'', ascii ''Hardware  : Allwinner sun8i'', ascii ''Revision  : 000e'', ascii ''Serial    : 0'']"

theorem rpi_revision_witness:
  "fst (iRpiRev (Some (concat (map (\<lambda>l. l @ [10]) sun8i_info))) \<lparr>rb_iRev = -1, rb_pxRpi = None\<rparr>) = 14"
proof -
  have "\<forall>l \<in> set ([ascii ''processor : 0''] @ [] @ [ascii ''Serial    : 0'']). other_line l"
    by (simp add: other_line_def text_line_def start_with ascii_def)
  moreover have "hardware_line (ascii ''Hardware  : Allwinner sun8i'')"
    by (simp add: hardware_line_def text_line_def has_text_def ascii_def)
  moreover have "revision_line (ascii ''  '') (ascii ''000e'') (ascii ''Revision  : 000e'')"
    by (simp add: revision_line_def text_line_def ascii_def isspace_def digit_val_def isupper_def islower_def)
  moreover have "hex_value (ascii ''000e'') < 2 ^ 31" "hex_value (ascii ''000e'') = 14" by code_simp+
  ultimately show ?thesis
    using rpi_revision [of "[ascii ''processor : 0'']" "[]" "[ascii ''Serial    : 0'']" "ascii ''Hardware  : Allwinner sun8i''" "ascii ''  ''"
        "ascii ''000e''" "ascii ''Revision  : 000e''" "\<lparr>rb_iRev = -1, rb_pxRpi = None\<rparr>"] by (simp add: sun8i_info_def)
qed

text \<open> Each revision of the table is found, and its entry has a model and a processor whose names are in the lists; the names of
  the models Zero W and Compute Module 3 are not given out.\<close>

theorem rpi_database:
  "list_all (\<lambda>e. find_rpi xRpiDb (rp_iRev e) = Inr e \<and> (rp_iRev e = -1 \<or>
       rp_iGpioRev e \<in> {1, 2, 3} \<and> sRpiMcuToStr (rp_eMcu e) = rd rpi_sMcuList (nat (rp_eMcu e)) \<and>
       sRpiModelToStr (rp_eModel e) = (if rp_eModel e \<in> {eRpiModelZeroW, eRpiModelComputeModule3} then Inr ''Unknown''
         else rd rpi_sModelList (nat (rp_eModel e))))) xRpiDb"
  by code_simp

section \<open>The name of a NanoPi\<close>

lemma board_value: "sGetParam l (ascii ''BOARD'') = Some v \<Longrightarrow> take 5 v = ascii ''BOARD''"
proof -
  have "length (ascii ''BOARD'') = 5" by code_simp
  then have "strstr cs (ascii ''BOARD'') = Some v \<Longrightarrow> take 5 v = ascii ''BOARD''" for cs using strstr_take by metis
  then show "sGetParam l (ascii ''BOARD'') = Some v \<Longrightarrow> take 5 v = ascii ''BOARD''"
    by (auto simp: sGetParam_def split: option.splits if_splits)
qed

lemma no_name: "take 5 v = ascii ''BOARD'' \<Longrightarrow> find (\<lambda>(name, m). strcasecmp v name) nanopi_names = None"
proof -
  assume "take 5 v = ascii ''BOARD''"
  then have "v = ascii ''BOARD'' @ drop 5 v" using append_take_drop_id [of 5 v] by simp
  then obtain r where v: "v = ascii ''BOARD'' @ r" by blast
  show ?thesis by (simp add: v nanopi_names_def strcasecmp_def ascii_def tolower_def isupper_def)
qed

lemma scan_finds_nothing: "nanopi_scan ls = eNanoPiModelUnknown"
  by (induction ls) (auto simp: no_name board_value split: option.split)

text \<open> Whatever the file says, the board is the one the library was built for: the name is looked for in the value
  and not in the name of the parameter.\<close>

theorem nanopi_board_ignored:
  "fst (eNanoPiBoard NANOPI_MODEL file \<lparr>nb_eNpiBoard = eNanoPiModelUnknown, nb_pxNpi = None, nb_xNpiDb = xNpiDb\<rparr>) = NANOPI_MODEL"
  by (simp add: eNanoPiBoard_def scan_finds_nothing split: option.split)

text \<open> The numbers of the models are taken for places in the table, whose order is another one: all boards but the first
  are given the entry of another board, and the NanoPi M1 and M1 Plus another revision of the GPIO.\<close>

theorem nanopi_database:
  "map (\<lambda>m. case pxNanoPiInfo m None (Some 500) \<lparr>nb_eNpiBoard = eNanoPiModelUnknown, nb_pxNpi = None, nb_xNpiDb = xNpiDb\<rparr> of
       Inr (Some e, _) \<Rightarrow> (np_eModel e, np_iGpioRev e, np_iMemMB e) | _ \<Rightarrow> (-1, -1, -1))
     [eNanoPiModelNeo, eNanoPiModelNeoAir, eNanoPiModelNeoM1, eNanoPiModelNeoM1Plus, eNanoPiModelNeo2, eNanoPiModelNeoPlus2] =
   [(eNanoPiModelNeo, 1, 512), (eNanoPiModelNeo2, 1, 512), (eNanoPiModelNeoPlus2, 1, 512), (eNanoPiModelNeoAir, 1, 512),
    (eNanoPiModelNeoM1, 2, 512), (eNanoPiModelNeoM1Plus, 3, 512)]"
  by code_simp

text \<open>The memory is rounded up to the next power of two.\<close>

lemma roundram_next:
  assumes "n \<le> 2 ^ 30" "k = 0 \<or> 2 ^ (k - 1) < n" "k \<le> 30"
  shows "\<exists>j. roundram k n = Inr (2 ^ j) \<and> n \<le> 2 ^ j \<and> (j = 0 \<or> 2 ^ (j - 1) < n)"
  using assms
proof (induction k n rule: roundram.induct)
  case (1 k n)
  show ?case
  proof (cases "2 ^ k < n")
    case True
    then have "(2 :: nat) ^ k < 2 ^ 30" using 1(2) by linarith
    then have "k < 30" by (simp only: power_strict_increasing_iff) 
    with True 1 show ?thesis by (subst roundram.simps) simp
  next
    case False
    with 1 show ?thesis by (subst roundram.simps) auto
  qed
qed

end
