(* ===== verification/Gps.thy ===== *)
theory Gps
  imports Serial C_String
begin

text \<open>
  The client of the GPS server \<open>gpsd\<close> (\<open>src/src/libgps/gps.c\<close>, \<open>src/include/sysio/gps.h\<close>).  The library of \<open>gpsd\<close>, the clock of the C
  library and the arithmetic on \<open>double\<close> are parameters; a turn of the thread is a function.  The two mutexes are never waited for: they are used as
  flags, which the thread raises and the application takes down.
\<close>

section \<open>Parameters\<close>

text \<open>What the data of a fix have, and the data; \<open>gd_set\<close> are the fields that are valid.\<close>

datatype gps_field = TIME_SET | TIMERR_SET | LATLON_SET | ALTITUDE_SET | SPEED_SET | TRACK_SET | CLIMB_SET | MODE_SET | HERR_SET | VERR_SET
  | SPEEDERR_SET | TRACKERR_SET | CLIMBERR_SET | OTHER_SET

record ('t, 'd) gps_data =
  gd_set :: "gps_field list"
  gd_status :: int
  gd_satellites_used :: int
  gd_mode :: int
  gd_time :: 't
  gd_ept :: 'd
  gd_latitude :: 'd
  gd_epy :: 'd
  gd_longitude :: 'd
  gd_epx :: 'd
  gd_altitude :: 'd
  gd_epv :: 'd
  gd_track :: 'd
  gd_epd :: 'd
  gd_speed :: 'd
  gd_eps :: 'd
  gd_climb :: 'd
  gd_epc :: 'd

text \<open>The broken-down time, the arithmetic, and the library.  \<open>gl_no_time\<close> is \<open>-1llu\<close> as a time.\<close>

record broken_time =
  tm_mday :: int
  tm_hour :: int
  tm_min :: int
  tm_asctime :: "u8 list"

record 'd gps_float =
  gf_neg :: "'d \<Rightarrow> bool"
  gf_fabs :: "'d \<Rightarrow> 'd"
  gf_gt360 :: "'d \<Rightarrow> bool"
  gf_modf :: "'d \<Rightarrow> 'd \<times> 'd"
  gf_mul :: "'d \<Rightarrow> nat \<Rightarrow> 'd"
  gf_round :: "'d \<Rightarrow> int"
  gf_trunc :: "'d \<Rightarrow> int"
  gf_isnan :: "'d \<Rightarrow> bool"
  gf_nan :: 'd
  gf_text :: "'d \<Rightarrow> u8 list"

record ('w, 't, 'd) gps_lib =
  gl_open :: "u8 list \<Rightarrow> u8 list \<Rightarrow> 'w \<Rightarrow> int \<times> ('t, 'd) gps_data \<times> 'w"
  gl_close :: "'w \<Rightarrow> 'w"
  gl_stream :: "bool \<Rightarrow> 'w \<Rightarrow> 'w"
  gl_waiting :: "'w \<Rightarrow> bool \<times> 'w"
  gl_read :: "('t, 'd) gps_data \<Rightarrow> 'w \<Rightarrow> int \<times> ('t, 'd) gps_data \<times> 'w"
  gl_create :: "'w \<Rightarrow> int \<times> 'w"
  gl_join :: "'w \<Rightarrow> 'w"
  gl_fix_callback :: "nat \<Rightarrow> 'w \<Rightarrow> 'w"
  gl_error_callback :: "nat \<Rightarrow> int \<Rightarrow> 'w \<Rightarrow> 'w"
  gl_STATUS_NO_FIX :: int
  gl_STATUS_FIX :: int
  gl_MODE_NOT_SEEN :: int
  gl_MODE_NO_FIX :: int
  gl_MODE_2D :: int
  gl_MODE_3D :: int
  gl_no_time :: 't
  gl_localtime :: "'t \<Rightarrow> broken_time"
  gl_gmtime :: "'t \<Rightarrow> broken_time"
  gl_float :: "'d gps_float"

section \<open>Constants and data\<close>

definition eGpsNoError :: int where "eGpsNoError = 0"
definition eGpsArgumentError :: int where "eGpsArgumentError = -1"
definition eGpsReadError :: int where "eGpsReadError = -2"
definition eGpsFixError :: int where "eGpsFixError = -3"
definition eGpsMemoryError :: int where "eGpsMemoryError = -4"
definition eGpsServerError :: int where "eGpsServerError = -5"
definition eGpsThreadError :: int where "eGpsThreadError = -6"
definition STATUS_DGPS_FIX :: int where "STATUS_DGPS_FIX = 2"
definition eDegDd :: u32 where "eDegDd = 0"
definition eDegDdMmSs :: u32 where "eDegDdMmSs = push_bit 0 1"
definition eDegDdMm :: u32 where "eDegDdMm = push_bit 1 1"
definition eDegAprsLat :: u32 where "eDegAprsLat = push_bit 2 1"
definition eDegAprsLong :: u32 where "eDegAprsLong = push_bit 3 1"
definition eTimeLocal :: int where "eTimeLocal = 0"
definition eTimeUtc :: int where "eTimeUtc = 1"
definition eTimeAprs :: int where "eTimeAprs = 2"

definition gps_cErrorMsg :: "string list" where
  "gps_cErrorMsg = [''Illegal argument'', ''gps_read() error'', ''Unable to get a fix'', ''Not enough memory'',
     ''Unable to connect to server'', ''Can not create a thread'']"

text \<open>A raised flag is a mutex that is not locked.  Callbacks are known by numbers.\<close>

record ('t, 'd) xGps =
  gp_xData :: "('t, 'd) gps_data"
  gp_fix_flag :: bool
  gp_error_flag :: bool
  gp_vFixCallback :: "nat option"
  gp_vErrorCallback :: "nat option"
  gp_ulFixCount :: u64
  gp_iError :: int

section \<open>The thread\<close>

definition vRaiseError :: "('w, 't, 'd) gps_lib \<Rightarrow> int \<Rightarrow> ('t, 'd) xGps \<times> 'w \<Rightarrow> ('t, 'd) xGps \<times> 'w" where
  "vRaiseError L iError s =
     (let (g, w) = s; g = g\<lparr>gp_iError := iError, gp_error_flag := True\<rparr> in
      (g, case gp_vErrorCallback g of None \<Rightarrow> w | Some f \<Rightarrow> gl_error_callback L f iError w))"

text \<open>One turn of the loop.\<close>

definition pvFixLoop_turn :: "('w, 't, 'd) gps_lib \<Rightarrow> ('t, 'd) xGps \<times> 'w \<Rightarrow> ('t, 'd) xGps \<times> 'w" where
  "pvFixLoop_turn L s =
     (let (g, w) = s; (waiting, w) = gl_waiting L w in
      if waiting then
        let (r, x, w) = gl_read L (gp_xData g) w; g = g\<lparr>gp_xData := x\<rparr> in
        if r = -1 then vRaiseError L eGpsReadError (g, w)
        else if gd_status x > gl_STATUS_NO_FIX L \<and> (gd_mode x = gl_MODE_2D L \<or> gd_mode x = gl_MODE_3D L) then
          let g = g\<lparr>gp_ulFixCount := gp_ulFixCount g + 1, gp_fix_flag := True\<rparr> in
          (g, case gp_vFixCallback g of None \<Rightarrow> w | Some f \<Rightarrow> gl_fix_callback L f w)
        else (g, w)
      else (g, gl_stream L True w))"

section \<open>Creation\<close>

text \<open>\<open>iNewError\<close> is a static variable.  A thread that could not be created is cancelled and joined by the deletion.\<close>

definition vGpsDelete :: "('w, 't, 'd) gps_lib \<Rightarrow> ('t, 'd) xGps option \<Rightarrow> mem \<times> 'w \<Rightarrow> mem \<times> 'w" where
  "vGpsDelete L gps s =
     (case gps of
        None \<Rightarrow> s
      | Some g \<Rightarrow>
          let (m, w) = s; w = gl_join L w; w = gl_stream L False w; w = gl_close L w in (free (Some ()) (free (Some ()) m), w))"

definition xGpsNew ::
    "('w, 't, 'd) gps_lib \<Rightarrow> u8 list \<Rightarrow> u8 list \<Rightarrow> int \<times> mem \<times> 'w \<Rightarrow> (('t, 'd) xGps option \<times> int \<times> mem \<times> 'w) run" where
  "xGpsNew L server port s =
     (let (iNewError, m, w) = s; (ok1, m) = malloc m in
      if \<not> ok1 then Inl AssertFailed
      else let (ok2, m) = malloc m in
      if \<not> ok2 then Inl AssertFailed
      else
        let (err, x, w) = gl_open L server port w in
        if err \<noteq> 0 then Inr (None, eGpsServerError, free (Some ()) (free (Some ()) m), w)
        else
          let w = gl_stream L True w;
              g = \<lparr>gp_xData = x, gp_fix_flag = False, gp_error_flag = False, gp_vFixCallback = None, gp_vErrorCallback = None,
                   gp_ulFixCount = 0, gp_iError = 0\<rparr>;
              (r, w) = gl_create L w in
          if r \<noteq> 0 then let (m, w) = vGpsDelete L (Some g) (m, w) in Inr (None, eGpsThreadError, m, w)
          else Inr (Some g, iNewError, m, w))"

section \<open>Reading\<close>

definition iGpsRead :: "('t, 'd) xGps option \<Rightarrow> ('t, 'd) gps_data \<Rightarrow> int \<times> ('t, 'd) gps_data" where
  "iGpsRead gps x = (case gps of None \<Rightarrow> (eGpsArgumentError, x) | Some g \<Rightarrow> (0, gp_xData g))"

text \<open>A flag that is raised is taken down.\<close>

definition bGpsDataAvailable :: "('t, 'd) xGps option \<Rightarrow> bool \<times> ('t, 'd) xGps option" where
  "bGpsDataAvailable gps =
     (case gps of None \<Rightarrow> (False, None) | Some g \<Rightarrow> if gp_fix_flag g then (True, Some (g\<lparr>gp_fix_flag := False\<rparr>)) else (False, Some g))"

definition iGpsError :: "int \<Rightarrow> ('t, 'd) xGps option \<Rightarrow> int \<times> ('t, 'd) xGps option" where
  "iGpsError iNewError gps =
     (case gps of
        None \<Rightarrow> (iNewError, None)
      | Some g \<Rightarrow> if gp_error_flag g then (gp_iError g, Some (g\<lparr>gp_error_flag := False\<rparr>)) else (0, Some g))"

text \<open>The index is compared with a \<open>size_t\<close>, as which a negative one is large.\<close>

definition cGpsStrError :: "int \<Rightarrow> ('t, 'd) xGps option \<Rightarrow> string option \<times> ('t, 'd) xGps option" where
  "cGpsStrError iNewError gps =
     (let (iError, gps) = iGpsError iNewError gps; iIndex = - (iError + 1) in
      (if 0 \<le> iIndex \<and> iIndex < int (length gps_cErrorMsg) then Some (gps_cErrorMsg ! nat iIndex) else None, gps))"

definition iGpsSetFixCallback :: "('t, 'd) xGps option \<Rightarrow> nat option \<Rightarrow> int \<times> ('t, 'd) xGps option" where
  "iGpsSetFixCallback gps cb = (case gps of None \<Rightarrow> (eGpsArgumentError, None) | Some g \<Rightarrow> (0, Some (g\<lparr>gp_vFixCallback := cb\<rparr>)))"

definition vGpsClearFixCallback :: "('t, 'd) xGps option \<Rightarrow> ('t, 'd) xGps option" where
  "vGpsClearFixCallback gps = map_option (\<lambda>g. g\<lparr>gp_vFixCallback := None\<rparr>) gps"

definition iGpsSetErrorCallback :: "('t, 'd) xGps option \<Rightarrow> nat option \<Rightarrow> int \<times> ('t, 'd) xGps option" where
  "iGpsSetErrorCallback gps cb = (case gps of None \<Rightarrow> (eGpsArgumentError, None) | Some g \<Rightarrow> (0, Some (g\<lparr>gp_vErrorCallback := cb\<rparr>)))"

definition vGpsClearErrorCallback :: "('t, 'd) xGps option \<Rightarrow> ('t, 'd) xGps option" where
  "vGpsClearErrorCallback gps = map_option (\<lambda>g. g\<lparr>gp_vErrorCallback := None\<rparr>) gps"

definition eGpsFixStatus :: "('w, 't, 'd) gps_lib \<Rightarrow> ('t, 'd) xGps option \<Rightarrow> int" where
  "eGpsFixStatus L gps = (case gps of None \<Rightarrow> gl_STATUS_NO_FIX L | Some g \<Rightarrow> gd_status (gp_xData g))"

text \<open>A field if it is valid, else a value that stands for none.\<close>

definition gps_get :: "gps_field \<Rightarrow> (('t, 'd) gps_data \<Rightarrow> 'x) \<Rightarrow> 'x \<Rightarrow> ('t, 'd) xGps option \<Rightarrow> 'x" where
  "gps_get field get none gps =
     (case gps of None \<Rightarrow> none | Some g \<Rightarrow> if field \<in> set (gd_set (gp_xData g)) then get (gp_xData g) else none)"

definition eGpsFixMode :: "('w, 't, 'd) gps_lib \<Rightarrow> ('t, 'd) xGps option \<Rightarrow> int" where
  "eGpsFixMode L = gps_get MODE_SET gd_mode (gl_MODE_NOT_SEEN L)"

definition bGpsIsFix :: "('w, 't, 'd) gps_lib \<Rightarrow> ('t, 'd) xGps option \<Rightarrow> bool" where
  "bGpsIsFix L gps \<longleftrightarrow> eGpsFixStatus L gps \<noteq> gl_STATUS_NO_FIX L \<and> (eGpsFixMode L gps = gl_MODE_2D L \<or> eGpsFixMode L gps = gl_MODE_3D L)"

definition tGpsTime :: "('w, 't, 'd) gps_lib \<Rightarrow> ('t, 'd) xGps option \<Rightarrow> 't" where "tGpsTime L = gps_get TIME_SET gd_time (gl_no_time L)"

definition gps_double :: "gps_field \<Rightarrow> (('t, 'd) gps_data \<Rightarrow> 'd) \<Rightarrow> ('w, 't, 'd) gps_lib \<Rightarrow> ('t, 'd) xGps option \<Rightarrow> 'd" where
  "gps_double field get L = gps_get field get (gf_nan (gl_float L))"

definition dGpsTimeError :: "('w, 't, 'd) gps_lib \<Rightarrow> ('t, 'd) xGps option \<Rightarrow> 'd" where "dGpsTimeError = gps_double TIMERR_SET gd_ept"
definition dGpsLatitude :: "('w, 't, 'd) gps_lib \<Rightarrow> ('t, 'd) xGps option \<Rightarrow> 'd" where "dGpsLatitude = gps_double LATLON_SET gd_latitude"
definition dGpsLatitudeError :: "('w, 't, 'd) gps_lib \<Rightarrow> ('t, 'd) xGps option \<Rightarrow> 'd" where "dGpsLatitudeError = gps_double HERR_SET gd_epy"
definition dGpsLongitude :: "('w, 't, 'd) gps_lib \<Rightarrow> ('t, 'd) xGps option \<Rightarrow> 'd" where "dGpsLongitude = gps_double LATLON_SET gd_longitude"
definition dGpsLongitudeError :: "('w, 't, 'd) gps_lib \<Rightarrow> ('t, 'd) xGps option \<Rightarrow> 'd" where "dGpsLongitudeError = gps_double HERR_SET gd_epx"
definition dGpsAltitude :: "('w, 't, 'd) gps_lib \<Rightarrow> ('t, 'd) xGps option \<Rightarrow> 'd" where "dGpsAltitude = gps_double ALTITUDE_SET gd_altitude"
definition dGpsAltitudeError :: "('w, 't, 'd) gps_lib \<Rightarrow> ('t, 'd) xGps option \<Rightarrow> 'd" where "dGpsAltitudeError = gps_double VERR_SET gd_epv"
definition dGpsTrack :: "('w, 't, 'd) gps_lib \<Rightarrow> ('t, 'd) xGps option \<Rightarrow> 'd" where "dGpsTrack = gps_double TRACK_SET gd_track"
definition dGpsTrackError :: "('w, 't, 'd) gps_lib \<Rightarrow> ('t, 'd) xGps option \<Rightarrow> 'd" where "dGpsTrackError = gps_double TRACKERR_SET gd_epd"
definition dGpsSpeed :: "('w, 't, 'd) gps_lib \<Rightarrow> ('t, 'd) xGps option \<Rightarrow> 'd" where "dGpsSpeed = gps_double SPEED_SET gd_speed"
definition dGpsSpeedError :: "('w, 't, 'd) gps_lib \<Rightarrow> ('t, 'd) xGps option \<Rightarrow> 'd" where "dGpsSpeedError = gps_double SPEEDERR_SET gd_eps"
definition dGpsClimb :: "('w, 't, 'd) gps_lib \<Rightarrow> ('t, 'd) xGps option \<Rightarrow> 'd" where "dGpsClimb = gps_double CLIMB_SET gd_climb"
definition dGpsClimbError :: "('w, 't, 'd) gps_lib \<Rightarrow> ('t, 'd) xGps option \<Rightarrow> 'd" where "dGpsClimbError = gps_double CLIMBERR_SET gd_epc"

section \<open>Texts\<close>

text \<open>\<open>%0nd\<close>.\<close>

definition zeros :: "nat \<Rightarrow> int \<Rightarrow> u8 list" where
  "zeros n v =
     (if v < 0 then 0x2D # replicate (n - 1 - length (c_decimal (- v))) 0x30 @ c_decimal (- v)
      else replicate (n - length (c_decimal v)) 0x30 @ c_decimal v)"

definition cGpsTimeToStr :: "('w, 't, 'd) gps_lib \<Rightarrow> int \<Rightarrow> 't \<Rightarrow> u8 list" where
  "cGpsTimeToStr L type ts =
     (let t = (if type = eTimeLocal then gl_localtime L ts else gl_gmtime L ts) in
      if type = eTimeAprs then take 25 (zeros 2 (tm_mday t) @ zeros 2 (tm_hour t) @ zeros 2 (tm_min t) @ ascii ''Z'')
      else butlast (tm_asctime t))"

text \<open>The text that goes to the string; the sign shows in the formats of APRS only.\<close>

definition cGpsAngleToStr :: "'d gps_float \<Rightarrow> u32 \<Rightarrow> 'd \<Rightarrow> nat \<Rightarrow> u8 list" where
  "cGpsAngleToStr F type f strsize =
     (let neg = gf_neg F f; f = (if neg then gf_fabs F f else f) in
      if gf_gt360 F f then take strsize (ascii ''nan'')
      else
        let (fmin, fdeg) = gf_modf F f; deg = gf_trunc F fdeg; frac_deg = gf_round F (gf_mul F fmin 1000000) in
        if type = eDegDd then take (strsize - 1) (pad_left 3 (c_decimal deg) @ ascii ''.'' @ zeros 6 frac_deg)
        else
          let (fsec, fmin) = gf_modf F (gf_mul F fmin 60); mins = gf_trunc F fmin; sec = gf_round F (gf_mul F fsec 10000) in
          if type = eDegDdMm then
            take (strsize - 1) (pad_left 3 (c_decimal deg) @ ascii '' '' @ zeros 2 mins @ ascii ''.'' @ zeros 4 sec @ [0x27])
          else
            let sec = gf_round F (gf_mul F fsec 100) in
            if type = eDegAprsLat then
              take (strsize - 1) (zeros 2 deg @ zeros 2 mins @ ascii ''.'' @ zeros 2 sec @ ascii (if neg then ''S'' else ''N''))
            else if type = eDegAprsLong then
              take (strsize - 1) (zeros 3 deg @ zeros 2 mins @ ascii ''.'' @ zeros 2 sec @ ascii (if neg then ''W'' else ''E''))
            else
              let (fdsec, fsec) = gf_modf F (gf_mul F fsec 60); sec = gf_trunc F fsec; dsec = gf_round F (gf_mul F fdsec 1000) in
              take (strsize - 1) (pad_left 3 (c_decimal deg) @ ascii '' '' @ zeros 2 mins @ [0x27] @ ascii '' '' @ zeros 2 sec @
                ascii ''.'' @ zeros 3 dsec @ [0x22]))"

definition gps_number :: "'d gps_float \<Rightarrow> 'd \<Rightarrow> u8 list" where
  "gps_number F d = (if gf_isnan F d then ascii ''-----'' else gf_text F d)"

definition gps_title :: "u8 list" where
  "gps_title = [10] @ ascii ''#'' @ [9] @ ascii ''Fix'' @ [9] @ ascii ''Mode'' @ [9] @ ascii ''#Sat'' @ [9] @ ascii ''Date/Time'' @ [9, 9, 9] @
     ascii ''Lat.'' @ [9, 9] @ ascii ''Long.'' @ [9, 9] @ ascii ''Alt.'' @ [9] @ ascii ''Track'' @ [9] @ ascii ''Speed'' @ [9] @ ascii ''Climb'' @ [10]"

text \<open>The line that is printed.\<close>

definition iGpsPrintData :: "('w, 't, 'd) gps_lib \<Rightarrow> ('t, 'd) xGps option \<Rightarrow> int \<Rightarrow> u32 \<Rightarrow> int \<times> u8 list" where
  "iGpsPrintData L gps eTime eDeg =
     (case gps of
        None \<Rightarrow> (eGpsArgumentError, [])
      | Some g \<Rightarrow>
          if gd_set (gp_xData g) = [] then (0, [])
          else
            let F = gl_float L; st = eGpsFixStatus L gps; md = eGpsFixMode L gps; sat = gd_satellites_used (gp_xData g);
                t = tGpsTime L gps; lat = dGpsLatitude L gps; climb = dGpsClimb L gps in
            (0, (if gp_ulFixCount g mod 24 = 1 then gps_title else []) @ zeros 4 (sint (gp_ulFixCount g)) @ [9] @
              ascii (if st = gl_STATUS_NO_FIX L then ''OFF'' else if st = gl_STATUS_FIX L then ''ON'' else if st = STATUS_DGPS_FIX then ''DGPS'' else ''UN'') @ [9] @
              ascii (if md = gl_MODE_NO_FIX L then ''NO'' else if md = gl_MODE_2D L then ''2D'' else if md = gl_MODE_3D L then ''3D'' else ''UN'') @ [9] @
              (if sat > 0 then c_decimal sat else ascii ''--'') @ [9] @
              (if t \<noteq> gl_no_time L then cGpsTimeToStr L eTime t
               else ascii (if eTime \<noteq> eTimeAprs then ''-------'' else ''--------------------------'')) @ [9] @
              (if eTime = eTimeAprs then [9, 9, 9] else []) @
              (if \<not> gf_isnan F lat
               then cGpsAngleToStr F (eDeg AND NOT eDegAprsLong) lat 40 @ [9] @ cGpsAngleToStr F (eDeg AND NOT eDegAprsLat) (dGpsLongitude L gps) 40 @ [9]
               else ascii ''-------'' @ [9] @ ascii ''-------'' @ [9]) @
              gps_number F (dGpsAltitude L gps) @ [9] @ gps_number F (dGpsTrack L gps) @ [9] @ gps_number F (dGpsSpeed L gps) @ [9] @
              (if gf_isnan F climb then ascii ''-----'' @ [9] else gf_text F climb) @ [10]))"

section \<open>Laws\<close>

text \<open>C40.  A turn of the thread that has data and reads a fix counts it and calls the callback of the application,
  which is then told once that data are available; one that reads data without a fix keeps them and does nothing else; one
  that cannot read raises the error, whatever the data show: it calls the callback of errors, counts nothing, and the error
  is told once, with its text.\<close>

theorem gps_fix_once:
  assumes waiting: "gl_waiting L w = (True, w1)" and read: "gl_read L (gp_xData g) w1 = (r, x, w2)"
  shows "\<exists>g1 w3. pvFixLoop_turn L (g, w) = (g1, w3) \<and> iGpsRead (Some g1) junk = (0, x) \<and>
    (r \<noteq> -1 \<and> gd_status x > gl_STATUS_NO_FIX L \<and> gd_mode x \<in> {gl_MODE_2D L, gl_MODE_3D L} \<longrightarrow>
       gp_ulFixCount g1 = gp_ulFixCount g + 1 \<and> w3 = (case gp_vFixCallback g of None \<Rightarrow> w2 | Some f \<Rightarrow> gl_fix_callback L f w2) \<and>
       (\<exists>g2. bGpsDataAvailable (Some g1) = (True, Some g2) \<and> fst (bGpsDataAvailable (Some g2)) = False)) \<and>
    (r \<noteq> -1 \<and> \<not> (gd_status x > gl_STATUS_NO_FIX L \<and> gd_mode x \<in> {gl_MODE_2D L, gl_MODE_3D L}) \<longrightarrow>
       g1 = g\<lparr>gp_xData := x\<rparr> \<and> w3 = w2) \<and>
    (r = -1 \<longrightarrow> gp_ulFixCount g1 = gp_ulFixCount g \<and> fst (bGpsDataAvailable (Some g1)) = fst (bGpsDataAvailable (Some g)) \<and>
       w3 = (case gp_vErrorCallback g of None \<Rightarrow> w2 | Some f \<Rightarrow> gl_error_callback L f eGpsReadError w2) \<and>
       (\<exists>g2. cGpsStrError e (Some g1) = (Some ''gps_read() error'', Some g2) \<and> fst (cGpsStrError e (Some g2)) = None))"
proof (cases "r = -1")
  case True
  then show ?thesis using waiting read
    by (simp add: pvFixLoop_turn_def vRaiseError_def cGpsStrError_def iGpsError_def gps_cErrorMsg_def eGpsReadError_def iGpsRead_def
      bGpsDataAvailable_def split: option.split)
next
  case False
  then show ?thesis using waiting read
    by (cases "gd_status x > gl_STATUS_NO_FIX L \<and> gd_mode x \<in> {gl_MODE_2D L, gl_MODE_3D L}")
      (auto simp: pvFixLoop_turn_def bGpsDataAvailable_def iGpsRead_def Let_def split: option.splits)
qed

text \<open> In the formats that are not those of APRS a negative angle has the text of the positive one.\<close>

theorem gps_sign_lost:
  assumes "gf_neg F f" "\<not> gf_neg F (gf_fabs F f)" "type \<notin> {eDegAprsLat, eDegAprsLong}"
  shows "cGpsAngleToStr F type f n = cGpsAngleToStr F type (gf_fabs F f) n"
  using assms by (simp add: cGpsAngleToStr_def Let_def case_prod_beta)

text \<open>Millionths of a degree as numbers.\<close>

definition micro :: "int gps_float" where
  "micro = \<lparr>gf_neg = \<lambda>d. d < 0, gf_fabs = abs, gf_gt360 = \<lambda>d. d > 360000000, gf_modf = \<lambda>d. (d mod 1000000, d - d mod 1000000),
     gf_mul = \<lambda>d n. d * int n, gf_round = \<lambda>d. (d + 500000) div 1000000, gf_trunc = \<lambda>d. d div 1000000, gf_isnan = \<lambda>d. False, gf_nan = 0,
     gf_text = \<lambda>d. c_decimal d\<rparr>"

theorem gps_sign_lost_witness:
  "cGpsAngleToStr micro eDegDd (- 43161500) 40 = cGpsAngleToStr micro eDegDd 43161500 40"
proof -
  have "gf_neg micro (- 43161500)" "\<not> gf_neg micro (gf_fabs micro (- 43161500))" "eDegDd \<notin> {eDegAprsLat, eDegAprsLong}" "gf_fabs micro (- 43161500) = 43161500"
    by (simp_all add: micro_def eDegDd_def eDegAprsLat_def eDegAprsLong_def)
  then show ?thesis using gps_sign_lost [of micro "- 43161500" eDegDd 40] by metis
qed

text \<open>The fraction of a degree is rounded by itself: just below 44 degrees it becomes a whole degree, and the text is that of 43 degrees and
  seven digits; the hundredths of a minute of an APRS latitude get three digits.  Angles are in billionths of a degree.\<close>

definition nano :: "int gps_float" where
  "nano = micro\<lparr>gf_gt360 := \<lambda>d. d > 360000000000, gf_modf := \<lambda>d. (d mod 1000000000, d - d mod 1000000000),
     gf_round := \<lambda>d. (d + 500000000) div 1000000000, gf_trunc := \<lambda>d. d div 1000000000\<rparr>"

lemma carry_digits:
  "c_decimal 43 = ascii ''43''" "c_decimal 59 = ascii ''59''" "c_decimal 100 = ascii ''100''" "c_decimal 1000000 = ascii ''1000000''"
  by (simp_all add: c_decimal_def ascii_def dec_digits.simps [of 43] dec_digits.simps [of 4] dec_digits.simps [of 59] dec_digits.simps [of 5]
    dec_digits.simps [of 100] dec_digits.simps [of 10] dec_digits.simps [of 1, simplified] dec_digits.simps [of 1000000] dec_digits.simps [of 100000]
    dec_digits.simps [of 10000] dec_digits.simps [of 1000])

lemma gps_carry:
  "cGpsAngleToStr nano eDegDd 43999999600 40 = ascii '' 43.1000000''"
  "cGpsAngleToStr nano eDegAprsLat 43999999600 40 = ascii ''4359.100N''"
   apply (simp add: cGpsAngleToStr_def nano_def micro_def eDegDd_def Let_def)
   apply (simp add: zeros_def carry_digits pad_left_def)
   apply (simp add: ascii_def)
  apply (simp add: cGpsAngleToStr_def nano_def micro_def eDegDd_def eDegDdMm_def eDegAprsLat_def Let_def)
  apply (simp add: zeros_def carry_digits)
  apply (simp add: ascii_def)
  done

definition sim_gps :: "(nat, int, int) gps_lib" where
  "sim_gps = \<lparr>gl_open = \<lambda>s p w. (0, undefined, w), gl_close = \<lambda>w. w, gl_stream = \<lambda>b w. w, gl_waiting = \<lambda>w. (True, w),
     gl_read = \<lambda>x w. (0, x\<lparr>gd_status := 1, gd_mode := 3\<rparr>, w), gl_create = \<lambda>w. (0, w), gl_join = \<lambda>w. w, gl_fix_callback = \<lambda>f w. w + f,
     gl_error_callback = \<lambda>f e w. w, gl_STATUS_NO_FIX = 0, gl_STATUS_FIX = 1, gl_MODE_NOT_SEEN = 0, gl_MODE_NO_FIX = 1, gl_MODE_2D = 2,
     gl_MODE_3D = 3, gl_no_time = -1, gl_localtime = \<lambda>t. undefined, gl_gmtime = \<lambda>t. undefined, gl_float = micro\<rparr>"

definition some_gps :: "(int, int) xGps" where
  "some_gps = \<lparr>gp_xData = \<lparr>gd_set = [], gd_status = 0, gd_satellites_used = 0, gd_mode = 0, gd_time = 0, gd_ept = 0, gd_latitude = 0, gd_epy = 0,
       gd_longitude = 0, gd_epx = 0, gd_altitude = 0, gd_epv = 0, gd_track = 0, gd_epd = 0, gd_speed = 0, gd_eps = 0, gd_climb = 0, gd_epc = 0\<rparr>,
     gp_fix_flag = False, gp_error_flag = False, gp_vFixCallback = Some 7, gp_vErrorCallback = None, gp_ulFixCount = 41, gp_iError = 0\<rparr>"

theorem gps_fix_once_witness:
  "(\<exists>g1. pvFixLoop_turn sim_gps (some_gps, 0) = (g1, 7) \<and> gp_ulFixCount g1 = 42 \<and> fst (bGpsDataAvailable (Some g1))) \<and>
   (\<exists>g1 w3. pvFixLoop_turn (sim_gps\<lparr>gl_read := \<lambda>d w. (-1, d\<lparr>gd_status := 0\<rparr>, w)\<rparr>) (some_gps, 0) = (g1, w3) \<and>
      fst (cGpsStrError 0 (Some g1)) = Some ''gps_read() error'')"
proof -
  have "gl_waiting sim_gps 0 = (True, 0)" "gl_read sim_gps (gp_xData some_gps) 0 = (0, (gp_xData some_gps)\<lparr>gd_status := 1, gd_mode := 3\<rparr>, 0)"
    by (simp_all add: sim_gps_def)
  note found = gps_fix_once [OF this, where junk = "gp_xData some_gps" and e = 0]
  let ?L = "sim_gps\<lparr>gl_read := \<lambda>d w. (-1, d\<lparr>gd_status := 0\<rparr>, w)\<rparr>"
  have "gl_waiting ?L 0 = (True, 0)" "gl_read ?L (gp_xData some_gps) 0 = (-1, (gp_xData some_gps)\<lparr>gd_status := 0\<rparr>, 0)"
    by (simp_all add: sim_gps_def)
  note fails = gps_fix_once [OF this, where junk = "gp_xData some_gps" and e = 0]
  have "\<exists>g1. pvFixLoop_turn sim_gps (some_gps, 0) = (g1, 7) \<and> gp_ulFixCount g1 = 42 \<and> fst (bGpsDataAvailable (Some g1))"
    using found by (force simp: some_gps_def sim_gps_def)
  with fails show ?thesis by fastforce
qed

end
