(* ===== verification/Runtime.thy ===== *)
theory Runtime
  imports Driver_Monad C_String Serial
begin

text \<open>
  Small services: the log (\<open>src/src/unix/log.c\<close>), delays (\<open>src/src/unix/delay.c\<close>), the terminal (\<open>src/src/unix/term.c\<close>) and
  the version (\<open>src/src/version.c\<close>).
\<close>

section \<open>The log\<close>

text \<open>The daemon of the system, the standard error, and the table of the names of priorities in \<open>syslog.h\<close>.  A formatted text is given as a
  whole.\<close>

record 'w log_env =
  le_progname :: "u8 list"
  le_names :: "(string \<times> int) list"
  le_setlogmask :: "u32 \<Rightarrow> 'w \<Rightarrow> 'w"
  le_openlog :: "u8 list \<Rightarrow> 'w \<Rightarrow> 'w"
  le_syslog :: "int \<Rightarrow> u8 list \<Rightarrow> 'w \<Rightarrow> 'w"
  le_stderr :: "u8 list \<Rightarrow> 'w \<Rightarrow> 'w"

definition ERROR_BUFFER_SIZE :: nat where "ERROR_BUFFER_SIZE = 256"

text \<open>The static variables \<open>xMyLog\<close> and \<open>sError\<close>.\<close>

record xLog =
  lg_bIsDaemon :: bool
  lg_bIsInit :: bool
  lg_iMask :: u32
  lg_sError :: "u8 list"

definition get_priority_name :: "'w log_env \<Rightarrow> int \<Rightarrow> string option" where
  "get_priority_name E pri = map_option fst (find (\<lambda>(name, v). v = pri) (le_names E))"

definition sLogPriorityStr :: "'w log_env \<Rightarrow> int \<Rightarrow> string option" where "sLogPriorityStr E pri = get_priority_name E pri"

definition vLogInit :: "u32 \<Rightarrow> xLog \<Rightarrow> xLog" where "vLogInit msk lg = lg\<lparr>lg_iMask := msk, lg_bIsInit := True\<rparr>"

definition vLogDaemonize :: "'w log_env \<Rightarrow> bool \<Rightarrow> xLog \<times> 'w \<Rightarrow> xLog \<times> 'w" where
  "vLogDaemonize E daemonize s =
     (let (lg, w) = s in
      if lg_bIsInit lg then
        (lg\<lparr>lg_bIsDaemon := daemonize\<rparr>, if daemonize then le_openlog E (le_progname E) (le_setlogmask E (lg_iMask lg) w) else w)
      else (lg, le_stderr E (ascii ''Error: xMyLog is not initialized, you must call first vLogInit()'' @ [10]) w))"

definition bLogIsDaemonized :: "xLog \<Rightarrow> bool" where "bLogIsDaemonized lg = lg_bIsDaemon lg"
definition vLogSetMask :: "u32 \<Rightarrow> xLog \<Rightarrow> xLog" where "vLogSetMask msk lg = lg\<lparr>lg_iMask := msk\<rparr>"
definition iLogMask :: "xLog \<Rightarrow> u32" where "iLogMask lg = lg_iMask lg"

text \<open>A priority without a name is a NULL for \<open>%s\<close>; the shift by a priority that is no shift of an int is undefined.\<close>

definition log_line :: "'w log_env \<Rightarrow> int \<Rightarrow> u8 list \<Rightarrow> 'w \<Rightarrow> 'w run" where
  "log_line E priority text w =
     cbind (deref (get_priority_name E priority)) (\<lambda>name.
       Inr (le_stderr E (le_progname E @ ascii ''('' @ ascii name @ ascii ''): '' @ text @ [10]) w))"

definition LOG_MASK :: "int \<Rightarrow> u32 run" where
  "LOG_MASK p = (if 0 \<le> p \<and> p < 32 then Inr (push_bit (nat p) 1) else Inl OutOfBounds)"

definition vLog :: "'w log_env \<Rightarrow> int \<Rightarrow> u8 list \<Rightarrow> xLog \<times> 'w \<Rightarrow> (xLog \<times> 'w) run" where
  "vLog E priority text s =
     (let (lg, w) = s in
      if lg_bIsInit lg then
        if lg_bIsDaemon lg then Inr (lg, le_syslog E priority text w)
        else cbind (LOG_MASK priority) (\<lambda>b.
               if lg_iMask lg AND b \<noteq> 0 then cbind (log_line E priority text w) (\<lambda>w. Inr (lg, w)) else Inr (lg, w))
      else cbind (log_line E priority text w) (\<lambda>w. Inr (lg, w)))"

definition sSysIoStrError :: "xLog \<Rightarrow> u8 list" where "sSysIoStrError lg = lg_sError lg"

text \<open>The size that is returned is that of the whole text.\<close>

definition iSysIoSetStrError :: "u8 list \<Rightarrow> xLog \<Rightarrow> int \<times> xLog" where
  "iSysIoSetStrError text lg = (int (length text), lg\<lparr>lg_sError := take (ERROR_BUFFER_SIZE - 2) text\<rparr>)"

text \<open> On the standard error a text appears exactly when the bit of its priority is in the mask, with the name of the program
  and the name of the priority; a daemon passes all texts on.  An error text is kept up to 254 bytes.\<close>

theorem log_filter:
  assumes name: "get_priority_name E p = Some name" and p: "0 \<le> p" "p < 32"
  shows "vLog E p text (lg\<lparr>lg_bIsInit := True, lg_bIsDaemon := False\<rparr>, w) =
      Inr (lg\<lparr>lg_bIsInit := True, lg_bIsDaemon := False\<rparr>,
        if bit (iLogMask lg) (nat p) then le_stderr E (le_progname E @ ascii ''('' @ ascii name @ ascii ''): '' @ text @ [10]) w else w) \<and>
    vLog E p text (vLogDaemonize E True (lg\<lparr>lg_bIsInit := True\<rparr>, w)) =
      Inr (lg\<lparr>lg_bIsInit := True, lg_bIsDaemon := True\<rparr>, le_syslog E p text (le_openlog E (le_progname E) (le_setlogmask E (iLogMask lg) w))) \<and>
    sSysIoStrError (snd (iSysIoSetStrError text lg)) = take 254 text"
proof -
  have "lg_iMask lg AND push_bit (nat p) 1 \<noteq> 0 \<longleftrightarrow> bit (lg_iMask lg) (nat p)"
    using bit_iff_and_push_bit_not_eq_0 [of "lg_iMask lg" "nat p"] by simp
  then show ?thesis using name p
    by (simp add: vLog_def LOG_MASK_def log_line_def vLogDaemonize_def iLogMask_def sSysIoStrError_def iSysIoSetStrError_def ERROR_BUFFER_SIZE_def
      del: push_bit_of_1)
qed

definition sim_log :: "u8 list log_env" where
  "sim_log = \<lparr>le_progname = ascii ''demo'', le_names = [(''alert'', 1), (''crit'', 2), (''err'', 3)], le_setlogmask = \<lambda>m w. w,
     le_openlog = \<lambda>n w. w, le_syslog = \<lambda>p t w. w, le_stderr = \<lambda>t w. w @ t\<rparr>"

definition some_log :: xLog where
  "some_log = \<lparr>lg_bIsDaemon = False, lg_bIsInit = True, lg_iMask = 0x0F, lg_sError = []\<rparr>"

theorem log_filter_witness:
  "\<exists>lg. vLog sim_log 3 (ascii ''no bus'') (some_log, []) = Inr (lg, ascii ''demo(err): no bus'' @ [10])"
proof -
  have "get_priority_name sim_log 3 = Some ''err''" by code_simp
  from log_filter [OF this, of "ascii ''no bus''" some_log "[]"]
  have "vLog sim_log 3 (ascii ''no bus'') (some_log\<lparr>lg_bIsInit := True, lg_bIsDaemon := False\<rparr>, []) =
      Inr (some_log\<lparr>lg_bIsInit := True, lg_bIsDaemon := False\<rparr>, ascii ''demo(err): no bus'' @ [10])"
    by (simp add: iLogMask_def some_log_def sim_log_def ascii_def bit_numeral_rec)
  then show ?thesis by (simp add: some_log_def)
qed

section \<open>Delays\<close>

text \<open>\<open>nanosleep\<close> with seconds and nanoseconds, \<open>sleep\<close>, and \<open>gettimeofday\<close> with seconds and microseconds.  A signal that cuts the sleep short
  is not looked at.\<close>

record 'w clock_env =
  cl_nanosleep :: "int \<Rightarrow> int \<Rightarrow> 'w \<Rightarrow> 'w"
  cl_sleep :: "u32 \<Rightarrow> 'w \<Rightarrow> 'w"
  cl_gettimeofday :: "'w \<Rightarrow> (int \<times> int) \<times> 'w"

definition delay_ms :: "'w clock_env \<Rightarrow> u64 \<Rightarrow> 'w \<Rightarrow> 'w" where
  "delay_ms E lMs w =
     (if lMs = 0 then w
      else if lMs = -1 then cl_sleep E (-1) w
      else cl_nanosleep E (sint (lMs div 1000)) (sint ((lMs mod 1000) * 1000000)) w)"

definition timeradd :: "int \<times> int \<Rightarrow> int \<times> int \<Rightarrow> int \<times> int" where
  "timeradd a b =
     (let s = fst a + fst b; us = snd a + snd b in if us \<ge> 1000000 then (s + 1, us - 1000000) else (s, us))"

definition timer_less :: "int \<times> int \<Rightarrow> int \<times> int \<Rightarrow> bool" where
  "timer_less a b \<longleftrightarrow> (if fst a = fst b then snd a < snd b else fst a < fst b)"

text \<open>Short delays watch the clock.\<close>

definition watch_clock :: "'w clock_env \<Rightarrow> int \<times> int \<Rightarrow> (int \<times> int) \<times> 'w \<Rightarrow> (bool \<times> (int \<times> int) \<times> 'w) out" where
  "watch_clock E t2 s =
     (let (t1, w) = s in
      if timer_less t1 t2 then let (t1, w) = cl_gettimeofday E w in ret (True, t1, w) else ret (False, t1, w))"

definition delay_us :: "'w clock_env \<Rightarrow> u64 \<Rightarrow> 'w \<Rightarrow> 'w out" where
  "delay_us E lUs w =
     (if lUs = 0 then ret w
      else if lUs = -1 then ret (cl_sleep E (-1) w)
      else
        let (t1, w) = cl_gettimeofday E w; s = sint (lUs div 1000000); us = sint (lUs mod 1000000) in
        if sint lUs < 100 then
          obind (wait_loop (watch_clock E (timeradd t1 (s, us))) (t1, w)) (\<lambda>(_, w). ret w)
        else ret (cl_nanosleep E s (us * 1000) w))"

text \<open>A clock that goes on, read in microseconds.\<close>

definition ticks :: "'w clock_env \<Rightarrow> ('w \<Rightarrow> int) \<Rightarrow> bool" where
  "ticks E now \<longleftrightarrow> (\<forall>w. let ((s, us), w1) = cl_gettimeofday E w in now w < now w1 \<and> s * 1000000 + us = now w1 \<and> 0 \<le> us \<and> us < 1000000) \<and>
     (\<forall>s ns w. 0 \<le> s \<and> 0 \<le> ns \<and> ns < 1000000000 \<longrightarrow> now w + s * 1000000 + ns div 1000 \<le> now (cl_nanosleep E s ns w))"

lemma ticks_read:
  assumes "ticks E now"
  obtains s us w1 where "cl_gettimeofday E w = ((s, us), w1)" "now w < now w1" "s * 1000000 + us = now w1" "0 \<le> us" "us < 1000000"
  using assms that by (auto simp: ticks_def split: prod.splits) (metis prod.collapse)

lemma ticks_sleep:
  assumes "ticks E now" "0 \<le> s" "0 \<le> ns" "ns < 1000000000"
  shows "now w + s * 1000000 + ns div 1000 \<le> now (cl_nanosleep E s ns w)"
  using assms by (simp add: ticks_def)

text \<open>The order of two readings is that of the times in microseconds.\<close>

lemma timer_less_us:
  assumes "0 \<le> us" "us < 1000000" "0 \<le> us1" "us1 < 1000000"
  shows "timer_less (s, us) (s1, us1) \<longleftrightarrow> s * 1000000 + us < s1 * 1000000 + (us1 :: int)"
  using assms by (auto simp: timer_less_def)

lemma watch_ends:
  assumes clock: "ticks E now" and t2: "t2 = (s2, us2)" "0 \<le> us2" "us2 < 1000000"
  shows "0 \<le> us \<Longrightarrow> us < 1000000 \<Longrightarrow> now w = s * 1000000 + us \<Longrightarrow>
    \<exists>t w1. wait_loop (watch_clock E t2) ((s, us), w) = ret (t, w1) \<and> s2 * 1000000 + us2 \<le> now w1 \<and> now w \<le> now w1"
proof (induction "nat (s2 * 1000000 + us2 - now w)" arbitrary: s us w rule: less_induct)
  case less
  show ?case
  proof (cases "timer_less (s, us) t2")
    case False
    then have "s2 * 1000000 + us2 \<le> now w" using timer_less_us [OF less.prems(1,2) t2(2,3)] less.prems(3) t2(1) by simp
    with False show ?thesis by (subst wait_loop.simps) (auto simp: watch_clock_def)
  next
    case True
    obtain s1 us1 w1 where w1: "cl_gettimeofday E w = ((s1, us1), w1)" "now w < now w1" "s1 * 1000000 + us1 = now w1" "0 \<le> us1" "us1 < 1000000"
      by (rule ticks_read [OF clock])
    have "now w < s2 * 1000000 + us2" using True timer_less_us [OF less.prems(1,2) t2(2,3)] less.prems(3) t2(1) by simp
    then have "nat (s2 * 1000000 + us2 - now w1) < nat (s2 * 1000000 + us2 - now w)" using w1(2) by simp
    from less.hyps [OF this w1(4,5) w1(3) [symmetric]] obtain t w2 where w2: "wait_loop (watch_clock E t2) ((s1, us1), w1) = ret (t, w2)"
        "s2 * 1000000 + us2 \<le> now w2" "now w1 \<le> now w2" by blast
    have "wait_loop (watch_clock E t2) ((s, us), w) = ret (t, w2)"
      using True w1(1) w2(1) by (subst wait_loop.simps) (simp add: watch_clock_def)
    moreover have "now w \<le> now w2" using w1(2) w2(3) by simp
    ultimately show ?thesis using w2(2) by blast
  qed
qed

text \<open> A delay of some microseconds, short or long, ends, and lasts at least as long as asked for.\<close>

theorem delay_us_lasts:
  assumes clock: "ticks E now" and us: "0 < n" "n < 2 ^ 62"
  shows "\<exists>w1. delay_us E (word_of_int n) w = ret w1 \<and> now w + n \<le> now w1"
proof -
  let ?n = "word_of_int n :: u64"
  have un: "uint ?n = n" "sint ?n = n" using us by (simp_all add: uint_word_of_int sint_sbintrunc' signed_take_bit_int_eq_self)
  have sd: "sint (?n div 1000000) = n div 1000000"
  proof -
    have "uint (?n div 1000000) = n div 1000000" by (simp add: uint_div un(1))
    moreover have "n div 1000000 < 2 ^ 62" "0 \<le> n div 1000000" using us by (simp_all add: pos_imp_zdiv_nonneg_iff) 
    ultimately show ?thesis by (simp add: sint_uint signed_take_bit_int_eq_self)
  qed
  have sm: "sint (?n mod 1000000) = n mod 1000000"
  proof -
    have "uint (?n mod 1000000) = n mod 1000000" by (simp add: uint_mod un(1))
    then show ?thesis by (simp add: sint_uint signed_take_bit_int_eq_self)
  qed
  have nz: "?n \<noteq> 0" "?n \<noteq> -1" using un(2) us by auto
  obtain s us w1 where w1: "cl_gettimeofday E w = ((s, us), w1)" "now w < now w1" "s * 1000000 + us = now w1" "0 \<le> us" "us < 1000000"
    by (rule ticks_read [OF clock])
  show ?thesis
  proof (cases "n < 100")
    case True
    let ?t2 = "timeradd (s, us) (n div 1000000, n mod 1000000)"
    have t2: "?t2 = (fst ?t2, snd ?t2)" "0 \<le> snd ?t2" "snd ?t2 < 1000000" "fst ?t2 * 1000000 + snd ?t2 = now w1 + n"
      using True \<open>0 < n\<close> w1(3,4,5) by (auto simp: timeradd_def Let_def)
    obtain t w2 where "wait_loop (watch_clock E ?t2) ((s, us), w1) = ret (t, w2)" "fst ?t2 * 1000000 + snd ?t2 \<le> now w2"
      using watch_ends [OF clock t2(1-3) w1(4,5) w1(3) [symmetric]] by blast
    with t2(4) w1(1,2) True un sd sm nz show ?thesis by (cases t) (auto simp: delay_us_def)
  next
    case False
    have "now w1 + n div 1000000 * 1000000 + n mod 1000000 * 1000 div 1000 \<le> now (cl_nanosleep E (n div 1000000) (n mod 1000000 * 1000) w1)"
      by (rule ticks_sleep [OF clock]) (use \<open>0 < n\<close> in \<open>auto simp: pos_imp_zdiv_nonneg_iff\<close>)
    then have "now w + n \<le> now (cl_nanosleep E (n div 1000000) (n mod 1000000 * 1000) w1)" using w1(2) by simp
    with w1(1) False un sd sm nz show ?thesis by (auto simp: delay_us_def)
  qed
qed

definition sim_clock :: "int clock_env" where
  "sim_clock = \<lparr>cl_nanosleep = \<lambda>s ns w. w + s * 1000000 + ns div 1000, cl_sleep = \<lambda>n w. w,
     cl_gettimeofday = \<lambda>w. (((w + 7) div 1000000, (w + 7) mod 1000000), w + 7)\<rparr>"

theorem delay_us_lasts_witness: "\<exists>w1. delay_us sim_clock 50 5 = ret w1 \<and> 55 \<le> w1"
proof -
  have "ticks sim_clock (\<lambda>w. w)" by (simp add: ticks_def sim_clock_def)
  from delay_us_lasts [OF this, of 50 5] show ?thesis by simp
qed

section \<open>The terminal\<close>

text \<open>The standard input is a terminal.\<close>

definition ECHO :: u32 where "ECHO = 8"
definition ICANON :: u32 where "ICANON = 2"

definition kbhit :: "'w tty \<Rightarrow> 'w \<Rightarrow> bool \<times> 'w" where
  "kbhit Y w = (let (_, hit, _, w) = y_select Y 0 (Some (0, 0)) w in (hit, w))"

definition term_bits :: "u32 \<Rightarrow> 'w tty \<Rightarrow> bool \<Rightarrow> 'w \<Rightarrow> int \<times> 'w" where
  "term_bits bits Y off w =
     (let (r, ts, w) = y_getattr Y 0 w in
      if r = 0 then
        y_setattr Y 0 (if off then ts\<lparr>c_lflag := c_lflag ts AND NOT bits, c_vmin := 1\<rparr> else ts\<lparr>c_lflag := c_lflag ts OR bits\<rparr>) w
      else (r, w))"

definition noecho :: "'w tty \<Rightarrow> bool \<Rightarrow> 'w \<Rightarrow> int \<times> 'w" where "noecho = term_bits ECHO"
definition raw :: "'w tty \<Rightarrow> bool \<Rightarrow> 'w \<Rightarrow> int \<times> 'w" where "raw = term_bits (ICANON OR ECHO)"

section \<open>The version\<close>

text \<open>\<open>strtol\<close> with the base 0; \<open>iGetInt\<close> gives -1 when there is no number.  The text of the version comes from the build.\<close>

definition number_base :: "u8 list \<Rightarrow> int" where
  "number_base cs =
     (case cs of
        z # x # h # _ \<Rightarrow>
          if z = 0x30 then if (x = 0x78 \<or> x = 0x58) \<and> digit_val 16 h \<noteq> None then 16 else 8 else 10
      | z # _ \<Rightarrow> if z = 0x30 then 8 else 10
      | [] \<Rightarrow> 10)"

definition iGetInt :: "u8 list \<Rightarrow> int run" where
  "iGetInt cs =
     cbind (skip_space cs) (\<lambda>d.
     cbind (c_strtol (number_base (snd (skip_sign d))) cs) (\<lambda>r. Inr (case r of None \<Rightarrow> -1 | Some v \<Rightarrow> v)))"

definition sSysIoVersion :: "u8 list \<Rightarrow> u8 list" where "sSysIoVersion VERSION = VERSION"

definition sSysIoGitCommit :: "u8 list \<Rightarrow> u8 list option run" where
  "sSysIoGitCommit VERSION = cbind (c_strchr 0x67 VERSION) (\<lambda>r. Inr (map_option (\<lambda>k. drop k VERSION) r))"

definition iSysIoMajor :: "u8 list \<Rightarrow> int run" where "iSysIoMajor VERSION = iGetInt VERSION"

definition number_behind :: "u8 \<Rightarrow> int \<Rightarrow> u8 list \<Rightarrow> int run" where
  "number_behind c none VERSION =
     cbind (c_strchr c VERSION) (\<lambda>r. case r of None \<Rightarrow> Inr none | Some k \<Rightarrow> iGetInt (drop (k + 1) VERSION))"

definition iSysIoMinor :: "u8 list \<Rightarrow> int run" where "iSysIoMinor = number_behind 0x2E (-1)"
definition iSysIoBuild :: "u8 list \<Rightarrow> int run" where "iSysIoBuild = number_behind 0x2D 0"

lemma version_example:
  "let v = ascii ''1.2-3-g06d9610'' @ [0] in iSysIoMajor v = Inr 1 \<and> iSysIoMinor v = Inr 2 \<and> iSysIoBuild v = Inr 3 \<and>
     sSysIoGitCommit v = Inr (Some (ascii ''g06d9610'' @ [0]))"
  by code_simp

text \<open>A number with a leading zero is read in base 8: the minor number of version 1.08 is 0.\<close>

lemma version_octal: "iSysIoMinor (ascii ''1.08-3'' @ [0]) = Inr 0"
  by code_simp

end
