(* ===== verification/Cxx_Monad.thy ===== *)
theory Cxx_Monad
  imports Sysio_Prelude
begin

text \<open>
  The functions of the C++ classes: they change the state of their object and of the world, and may throw.  What was changed before
  an exception stays changed.
\<close>

section \<open>Exceptions\<close>

text \<open>\<open>std::system_error\<close> with its code, and the exceptions of the containers and of the streams.\<close>

datatype cxx_exc = system_error int | invalid_argument | out_of_range | ios_failure

type_synonym ('s, 'a) cxx = "'s \<Rightarrow> ((cxx_exc + 'a) \<times> 's) run"

definition xret :: "'a \<Rightarrow> ('s, 'a) cxx" where "xret a s = Inr (Inr a, s)"
definition xthrow :: "cxx_exc \<Rightarrow> ('s, 'a) cxx" where "xthrow e s = Inr (Inl e, s)"
definition xcrash :: "crash \<Rightarrow> ('s, 'a) cxx" where "xcrash c s = Inl c"

definition xbind :: "('s, 'a) cxx \<Rightarrow> ('a \<Rightarrow> ('s, 'b) cxx) \<Rightarrow> ('s, 'b) cxx" where
  "xbind m f s = cbind (m s) (\<lambda>(r, s). case r of Inl e \<Rightarrow> Inr (Inl e, s) | Inr a \<Rightarrow> f a s)"

definition xseq :: "('s, unit) cxx \<Rightarrow> ('s, 'b) cxx \<Rightarrow> ('s, 'b) cxx" where "xseq m n = xbind m (\<lambda>_. n)"

text \<open>\<open>catch (...)\<close>.\<close>

definition xcatch :: "('s, 'a) cxx \<Rightarrow> ('s, 'a) cxx \<Rightarrow> ('s, 'a) cxx" where
  "xcatch m h s = cbind (m s) (\<lambda>(r, s). case r of Inl e \<Rightarrow> h s | Inr a \<Rightarrow> Inr (Inr a, s))"

definition xwhen :: "bool \<Rightarrow> ('s, unit) cxx \<Rightarrow> ('s, unit) cxx" where "xwhen b m = (if b then m else xret ())"

text \<open>A function of the state decides what is done.\<close>

definition xwith :: "('s \<Rightarrow> ('s, 'a) cxx) \<Rightarrow> ('s, 'a) cxx" where "xwith f s = f s s"

text \<open>\<open>std::map::at\<close>.\<close>

definition map_at :: "('k \<times> 'v) list \<Rightarrow> 'k \<Rightarrow> ('s, 'v) cxx" where
  "map_at m k = (case map_of m k of None \<Rightarrow> xthrow out_of_range | Some v \<Rightarrow> xret v)"

section \<open>Runs without exception\<close>

definition runs :: "('s, 'a) cxx \<Rightarrow> 's \<Rightarrow> 'a \<Rightarrow> 's \<Rightarrow> bool" where
  "runs m s a s1 \<longleftrightarrow> m s = Inr (Inr a, s1)"

named_theorems runs_rules

lemma runs_ret [runs_rules]: "runs (xret a) s a s"
  by (simp add: runs_def xret_def)

lemma runs_bind [runs_rules]: "runs m s a s1 \<Longrightarrow> runs (f a) s1 b s2 \<Longrightarrow> runs (xbind m f) s b s2"
  by (simp add: runs_def xbind_def)

lemma runs_seq [runs_rules]: "runs m s () s1 \<Longrightarrow> runs n s1 b s2 \<Longrightarrow> runs (xseq m n) s b s2"
  by (simp add: runs_def xseq_def xbind_def)

lemma runs_catch [runs_rules]: "runs m s a s1 \<Longrightarrow> runs (xcatch m h) s a s1"
  by (simp add: runs_def xcatch_def)

lemma runs_when: "(b \<Longrightarrow> runs m s () s1) \<Longrightarrow> (\<not> b \<Longrightarrow> s1 = s) \<Longrightarrow> runs (xwhen b m) s () s1"
  by (simp add: runs_def xwhen_def xret_def)

lemma runs_with [runs_rules]: "runs (f s) s a s1 \<Longrightarrow> runs (xwith f) s a s1"
  by (simp add: runs_def xwith_def)

lemma runs_at [runs_rules]: "map_of m k = Some v \<Longrightarrow> runs (map_at m k) s v s"
  by (simp add: runs_def map_at_def xret_def)

lemma runs_det: "runs m s a s1 \<Longrightarrow> runs m s b s2 \<Longrightarrow> a = b \<and> s1 = s2"
  by (simp add: runs_def)

lemma xbind_simps [simp]:
  "m s = Inl c \<Longrightarrow> xbind m f s = Inl c"
  "m s = Inr (Inl e, s1) \<Longrightarrow> xbind m f s = Inr (Inl e, s1)"
  "m s = Inr (Inr a, s1) \<Longrightarrow> xbind m f s = f a s1"
  by (simp_all add: xbind_def)

lemma xseq_simps [simp]:
  "m s = Inl c \<Longrightarrow> xseq m n s = Inl c"
  "m s = Inr (Inl e, s1) \<Longrightarrow> xseq m n s = Inr (Inl e, s1)"
  "m s = Inr (Inr a, s1) \<Longrightarrow> xseq m n s = n s1"
  by (simp_all add: xseq_def)

end
