(* ===== verification/Gpio_Pin.thy ===== *)
theory Gpio_Pin
  imports Cxx_Monad C_String
begin

text \<open>
  The class \<open>Pin\<close> of the C++ interface of the GPIO (\<open>src/src/gpio/gpiopin.cpp\<close>, \<open>src/include/sysio/gpiopin.h\<close>), over a device
  (\<open>src/src/gpio/gpiodevice.cpp\<close>) and the files of \<open>/sys/class/gpio\<close>.  A pin reaches its connector and its port only for their
  device, their layer of access and the flag that releases pins; these are the environment \<open>pin_env\<close>.  The thread of the interrupts
  is one turn of its loop.
\<close>

section \<open>Types\<close>

datatype Mode = ModeInput | ModeOutput | ModeDisabled | ModePwm | ModeAlt0 | ModeAlt1 | ModeAlt2 | ModeAlt3 | ModeAlt4 | ModeAlt5
  | ModeAlt6 | ModeAlt7 | ModeAlt8 | ModeAlt9 | ModeUnknown

datatype Pull = PullOff | PullDown | PullUp | PullUnknown
datatype Edge = EdgeNone | EdgeRising | EdgeFalling | EdgeBoth | EdgeUnknown
datatype Numbering = NumberingLogical | NumberingMcu | NumberingSystem | NumberingUnknown
datatype PinType = TypeGpio | TypePower | TypeUsb | TypeSound | TypeVideo | TypeNotConnected | TypeUnknown

definition AccessLayerAuto :: u32 where "AccessLayerAuto = 0"
definition AccessLayerIoMap :: u32 where "AccessLayerIoMap = 1"
definition AccessLayerSysFs :: u32 where "AccessLayerSysFs = 2"
definition AccessLayerAll :: u32 where "AccessLayerAll = AccessLayerIoMap + AccessLayerSysFs"

record Number =
  nm_logical :: int
  nm_mcu :: int
  nm_system :: int
  nm_row :: int
  nm_column :: int

record Descriptor =
  ds_type :: PinType
  ds_num :: Number
  ds_name :: "(Mode \<times> string) list"

record ConnectorDescriptor =
  cd_name :: string
  cd_number :: int
  cd_rows :: int
  cd_columns :: int
  cd_pinNumber :: "int \<Rightarrow> int \<Rightarrow> int \<Rightarrow> int"
  cd_pin :: "Descriptor list"

record GpioDescriptor =
  gd_name :: string
  gd_connector :: "ConnectorDescriptor list"

section \<open>Devices\<close>

definition hasToggle :: u32 where "hasToggle = 1"
definition hasPullRead :: u32 where "hasPullRead = 2"
definition hasAltRead :: u32 where "hasAltRead = 4"

text \<open>The methods of a device; of a pin they use the number in the processor only.\<close>

record 'w Device =
  dv_flags :: u32
  dv_descriptor :: GpioDescriptor
  dv_preferedAccessLayer :: u32
  dv_modes :: "(Mode \<times> string) list"
  dv_open :: "('w, bool) cxx"
  dv_close :: "('w, unit) cxx"
  dv_setMode :: "int \<Rightarrow> Mode \<Rightarrow> ('w, unit) cxx"
  dv_setPull :: "int \<Rightarrow> Pull \<Rightarrow> ('w, unit) cxx"
  dv_write :: "int \<Rightarrow> bool \<Rightarrow> ('w, unit) cxx"
  dv_toggle :: "int \<Rightarrow> ('w, unit) cxx"
  dv_read :: "int \<Rightarrow> ('w, bool) cxx"
  dv_mode :: "int \<Rightarrow> ('w, Mode) cxx"
  dv_pull :: "int \<Rightarrow> ('w, Pull) cxx"

text \<open>What a device does that has no method of its own.\<close>

definition Device_toggle :: "int \<Rightarrow> ('w, unit) cxx" where "Device_toggle g = xret ()"
definition Device_pull :: "int \<Rightarrow> ('w, Pull) cxx" where "Device_pull g = xret PullUnknown"
definition Device_flags :: u32 where "Device_flags = 0"

section \<open>The files of the system\<close>

text \<open>\<open>stat\<close> for directories and for files, streams that read or write one line (without success when a bit of failure is set), the
  file of a level, and \<open>errno\<close>.\<close>

record 'w sysfs =
  sf_isdir :: "u8 list \<Rightarrow> 'w \<Rightarrow> bool \<times> 'w"
  sf_isreg :: "u8 list \<Rightarrow> 'w \<Rightarrow> bool \<times> 'w"
  sf_getline :: "u8 list \<Rightarrow> 'w \<Rightarrow> u8 list option \<times> 'w"
  sf_putline :: "u8 list \<Rightarrow> u8 list \<Rightarrow> 'w \<Rightarrow> bool \<times> 'w"
  sf_open :: "u8 list \<Rightarrow> 'w \<Rightarrow> int \<times> 'w"
  sf_close :: "int \<Rightarrow> 'w \<Rightarrow> int \<times> 'w"
  sf_poll :: "int \<Rightarrow> int \<Rightarrow> 'w \<Rightarrow> int \<times> 'w"
  sf_lseek :: "int \<Rightarrow> 'w \<Rightarrow> int \<times> 'w"
  sf_read :: "int \<Rightarrow> nat \<Rightarrow> 'w \<Rightarrow> int \<times> u8 list \<times> 'w"
  sf_write :: "int \<Rightarrow> u8 list \<Rightarrow> 'w \<Rightarrow> int \<times> 'w"
  sf_errno :: "'w \<Rightarrow> int"

definition ENOTSUP :: int where "ENOTSUP = 95"
definition ETIME :: int where "ETIME = 62"

section \<open>Pins\<close>

record Pin =
  pn_isopen :: bool
  pn_descriptor :: Descriptor
  pn_holdMode :: Mode
  pn_holdPull :: Pull
  pn_holdState :: bool
  pn_useSysFs :: bool
  pn_valueFd :: int
  pn_firstPolling :: bool
  pn_edge :: Edge
  pn_mode :: Mode
  pn_pull :: Pull
  pn_run :: bool
  pn_thread :: bool

record 'w pin_env =
  pe_device :: "'w Device option"
  pe_sysfs :: "'w sysfs"
  pe_layer :: u32
  pe_roc :: bool

type_synonym ('w, 'a) pin = "(Pin \<times> 'w, 'a) cxx"

text \<open>The fields of the pin, calls of the device and of the system.\<close>

definition pin_get :: "(Pin \<Rightarrow> ('w, 'a) pin) \<Rightarrow> ('w, 'a) pin" where "pin_get f s = f (fst s) s"
definition pin_put :: "(Pin \<Rightarrow> Pin) \<Rightarrow> ('w, unit) pin" where "pin_put f s = Inr (Inr (), f (fst s), snd s)"

definition on_device :: "'w pin_env \<Rightarrow> ('w Device \<Rightarrow> ('w, 'a) cxx) \<Rightarrow> ('w, 'a) pin" where
  "on_device E f s = cbind (deref (pe_device E)) (\<lambda>D. cbind (f D (snd s)) (\<lambda>(r, w). Inr (r, fst s, w)))"

definition sys_call :: "('w \<Rightarrow> 'a \<times> 'w) \<Rightarrow> ('w, 'a) pin" where
  "sys_call f s = (let (r, w) = f (snd s) in Inr (Inr r, fst s, w))"

definition throw_errno :: "'w pin_env \<Rightarrow> ('w, 'a) pin" where
  "throw_errno E s = Inr (Inl (system_error (sf_errno (pe_sysfs E) (snd s))), s)"

subsection \<open>Numbers and names\<close>

definition Pin_types :: "(PinType \<times> string) list" where
  "Pin_types = [(TypeGpio, ''Gpio''), (TypePower, ''Power''), (TypeUsb, ''Usb''), (TypeSound, ''Sound''), (TypeVideo, ''Video''),
     (TypeNotConnected, ''Not Connected''), (TypeUnknown, ''Unknown'')]"

definition Pin_numberings :: "(Numbering \<times> string) list" where
  "Pin_numberings = [(NumberingLogical, ''Logical''), (NumberingMcu, ''Mcu''), (NumberingSystem, ''System''), (NumberingUnknown, ''Unknown'')]"

definition Pin_pulls :: "(Pull \<times> string) list" where
  "Pin_pulls = [(PullOff, ''off''), (PullDown, ''down''), (PullUp, ''up''), (PullUnknown, ''unk'')]"

definition Pin_edges :: "(Edge \<times> string) list" where
  "Pin_edges = [(EdgeNone, ''none''), (EdgeRising, ''rising''), (EdgeFalling, ''falling''), (EdgeBoth, ''both''), (EdgeUnknown, ''unk'')]"

definition Pin_sysfsmodes :: "(Mode \<times> string) list" where
  "Pin_sysfsmodes = [(ModeInput, ''in''), (ModeOutput, ''out''), (ModeUnknown, ''unk'')]"

definition Pin_str2edge :: "(u8 list \<times> Edge) list" where
  "Pin_str2edge = [(ascii ''none'', EdgeNone), (ascii ''rising'', EdgeRising), (ascii ''falling'', EdgeFalling), (ascii ''both'', EdgeBoth)]"

definition Pin_str2mode :: "(u8 list \<times> Mode) list" where
  "Pin_str2mode = [(ascii ''in'', ModeInput), (ascii ''out'', ModeOutput)]"

definition Pin_isOpen :: "Pin \<Rightarrow> bool" where "Pin_isOpen p = pn_isopen p"
definition Pin_useSysFs :: "Pin \<Rightarrow> bool" where "Pin_useSysFs p = pn_useSysFs p"
definition Pin_type :: "Pin \<Rightarrow> PinType" where "Pin_type p = ds_type (pn_descriptor p)"
definition Pin_logicalNumber :: "Pin \<Rightarrow> int" where "Pin_logicalNumber p = nm_logical (ds_num (pn_descriptor p))"
definition Pin_mcuNumber :: "Pin \<Rightarrow> int" where "Pin_mcuNumber p = nm_mcu (ds_num (pn_descriptor p))"
definition Pin_systemNumber :: "Pin \<Rightarrow> int" where "Pin_systemNumber p = nm_system (ds_num (pn_descriptor p))"
definition Pin_row :: "Pin \<Rightarrow> int" where "Pin_row p = nm_row (ds_num (pn_descriptor p))"
definition Pin_column :: "Pin \<Rightarrow> int" where "Pin_column p = nm_column (ds_num (pn_descriptor p))"

definition Pin_number :: "Numbering \<Rightarrow> Pin \<Rightarrow> ('s, int) cxx" where
  "Pin_number n p =
     (case n of
        NumberingLogical \<Rightarrow> xret (Pin_logicalNumber p)
      | NumberingMcu \<Rightarrow> xret (Pin_mcuNumber p)
      | NumberingSystem \<Rightarrow> xret (Pin_systemNumber p)
      | NumberingUnknown \<Rightarrow> xthrow invalid_argument)"

definition Pin_name_of :: "Mode \<Rightarrow> Pin \<Rightarrow> ('s, string) cxx" where "Pin_name_of m p = map_at (ds_name (pn_descriptor p)) m"

definition Pin_numberingName :: "Numbering \<Rightarrow> ('s, string) cxx" where "Pin_numberingName n = map_at Pin_numberings n"
definition Pin_typeName_of :: "PinType \<Rightarrow> ('s, string) cxx" where "Pin_typeName_of t = map_at Pin_types t"
definition Pin_typeName :: "Pin \<Rightarrow> ('s, string) cxx" where "Pin_typeName p = Pin_typeName_of (Pin_type p)"
definition Pin_edgeName :: "Edge \<Rightarrow> ('s, string) cxx" where "Pin_edgeName e = map_at Pin_edges e"
definition Pin_pullName_of :: "Pull \<Rightarrow> ('s, string) cxx" where "Pin_pullName_of q = map_at Pin_pulls q"

definition Pin_modes :: "'w pin_env \<Rightarrow> (Mode \<times> string) list" where
  "Pin_modes E = (case pe_device E of Some D \<Rightarrow> dv_modes D | None \<Rightarrow> Pin_sysfsmodes)"

definition Pin_modeName_of :: "'w pin_env \<Rightarrow> Mode \<Rightarrow> ('s, string) cxx" where "Pin_modeName_of E m = map_at (Pin_modes E) m"

text \<open>The function has no \<open>return\<close>.\<close>

definition Pin_accessLayer :: "Pin \<Rightarrow> ('s, u32) cxx" where "Pin_accessLayer p = xcrash MissingReturn"

text \<open>A port without registers uses the files.\<close>

definition Pin_new :: "'w pin_env \<Rightarrow> Descriptor \<Rightarrow> Pin" where
  "Pin_new E desc =
     \<lparr>pn_isopen = False, pn_descriptor = desc, pn_holdMode = ModeUnknown, pn_holdPull = PullUnknown, pn_holdState = False,
      pn_useSysFs = (pe_layer E AND AccessLayerIoMap \<noteq> AccessLayerIoMap), pn_valueFd = -1, pn_firstPolling = True,
      pn_edge = EdgeUnknown, pn_mode = ModeUnknown, pn_pull = PullUnknown, pn_run = False, pn_thread = False\<rparr>"

subsection \<open>Files of a pin\<close>

definition Pin_syspath :: "u8 list" where "Pin_syspath = ascii ''/sys/class/gpio''"

definition pin_dir :: "Pin \<Rightarrow> u8 list" where "pin_dir p = Pin_syspath @ ascii ''/gpio'' @ c_decimal (Pin_systemNumber p)"
definition pin_file :: "string \<Rightarrow> Pin \<Rightarrow> u8 list" where "pin_file n p = pin_dir p @ ascii ''/'' @ ascii n"

definition Pin_sysFsIsExport :: "'w pin_env \<Rightarrow> ('w, bool) pin" where
  "Pin_sysFsIsExport E = pin_get (\<lambda>p. sys_call (sf_isdir (pe_sysfs E) (pin_dir p)))"

definition Pin_sysFsFileExist :: "'w pin_env \<Rightarrow> string \<Rightarrow> ('w, bool) pin" where
  "Pin_sysFsFileExist E n = pin_get (\<lambda>p. sys_call (sf_isreg (pe_sysfs E) (pin_file n p)))"

text \<open>A line that was read has no end of line in it.\<close>

definition Pin_sysFsReadFile :: "'w pin_env \<Rightarrow> string \<Rightarrow> ('w, u8 list) pin" where
  "Pin_sysFsReadFile E n =
     pin_get (\<lambda>p. xbind (sys_call (sf_getline (pe_sysfs E) (pin_file n p))) (\<lambda>v. case v of None \<Rightarrow> xthrow ios_failure | Some l \<Rightarrow> xret l))"

definition put_line :: "'w pin_env \<Rightarrow> u8 list \<Rightarrow> u8 list \<Rightarrow> ('w, unit) pin" where
  "put_line E file l = xbind (sys_call (sf_putline (pe_sysfs E) file l)) (\<lambda>ok. if ok then xret () else xthrow ios_failure)"

definition Pin_sysFsWriteFile :: "'w pin_env \<Rightarrow> string \<Rightarrow> string \<Rightarrow> ('w, unit) pin" where
  "Pin_sysFsWriteFile E n v = pin_get (\<lambda>p. put_line E (pin_file n p) (ascii v))"

definition Pin_sysFsWrite :: "'w pin_env \<Rightarrow> int \<Rightarrow> bool \<Rightarrow> ('w, int) pin" where
  "Pin_sysFsWrite E fd v = sys_call (sf_write (pe_sysfs E) fd (if v then [0x31, 10] else [0x30, 10]))"

definition Pin_sysFsRead :: "'w pin_env \<Rightarrow> int \<Rightarrow> ('w, int) pin" where
  "Pin_sysFsRead E fd =
     xbind (sys_call (sf_lseek (pe_sysfs E) fd)) (\<lambda>r.
       if r \<ge> 0 then
         xbind (sys_call (\<lambda>w. let (r, b, w) = sf_read (pe_sysfs E) fd 2 w in ((r, b), w))) (\<lambda>(r, b).
           if r > 0 then (case b of c # _ \<Rightarrow> xret (if c \<noteq> 0x30 then 1 else 0) | [] \<Rightarrow> xcrash OutOfBounds) else xret (-1))
       else xret r)"

definition Pin_sysFsPoll :: "'w pin_env \<Rightarrow> int \<Rightarrow> int \<Rightarrow> ('w, int) pin" where
  "Pin_sysFsPoll E fd timeout_ms = sys_call (sf_poll (pe_sysfs E) fd timeout_ms)"

definition Pin_sysFsSetMode :: "'w pin_env \<Rightarrow> ('w, unit) pin" where
  "Pin_sysFsSetMode E =
     xbind (Pin_sysFsFileExist E ''direction'') (\<lambda>ex. pin_get (\<lambda>p.
       xwhen (ex \<and> pn_mode p \<in> {ModeInput, ModeOutput})
         (xbind (Pin_modeName_of E (pn_mode p)) (\<lambda>v. Pin_sysFsWriteFile E ''direction'' v))))"

definition Pin_sysFsGetMode :: "'w pin_env \<Rightarrow> ('w, unit) pin" where
  "Pin_sysFsGetMode E =
     xbind (Pin_sysFsFileExist E ''direction'') (\<lambda>ex.
       if ex then xbind (Pin_sysFsReadFile E ''direction'') (\<lambda>v. xbind (map_at Pin_str2mode v) (\<lambda>m. pin_put (\<lambda>p. p\<lparr>pn_mode := m\<rparr>)))
       else pin_put (\<lambda>p. p\<lparr>pn_mode := ModeUnknown\<rparr>))"

text \<open>The text of the message needs a name of the pin.\<close>

definition Pin_sysFsSetEdge :: "'w pin_env \<Rightarrow> ('w, unit) pin" where
  "Pin_sysFsSetEdge E =
     xbind (Pin_sysFsFileExist E ''edge'') (\<lambda>ex. pin_get (\<lambda>p.
       if ex then xbind (Pin_edgeName (pn_edge p)) (\<lambda>v. Pin_sysFsWriteFile E ''edge'' v)
       else xbind (Pin_name_of ModeInput p) (\<lambda>_. xthrow (system_error ENOTSUP))))"

definition Pin_sysFsGetEdge :: "'w pin_env \<Rightarrow> ('w, unit) pin" where
  "Pin_sysFsGetEdge E =
     xbind (Pin_sysFsFileExist E ''edge'') (\<lambda>ex.
       if ex then xbind (Pin_sysFsReadFile E ''edge'') (\<lambda>v. xbind (map_at Pin_str2edge v) (\<lambda>e. pin_put (\<lambda>p. p\<lparr>pn_edge := e\<rparr>)))
       else pin_put (\<lambda>p. p\<lparr>pn_edge := EdgeUnknown\<rparr>))"

definition Pin_sysFsClose :: "'w pin_env \<Rightarrow> ('w, unit) pin" where
  "Pin_sysFsClose E =
     pin_get (\<lambda>p. xwhen (pn_valueFd p \<ge> 0)
       (xbind (sys_call (sf_close (pe_sysfs E) (pn_valueFd p))) (\<lambda>r.
          if r < 0 then throw_errno E else pin_put (\<lambda>p. p\<lparr>pn_valueFd := -1\<rparr>))))"

definition Pin_sysFsOpen :: "'w pin_env \<Rightarrow> ('w, bool) pin" where
  "Pin_sysFsOpen E =
     xseq (pin_get (\<lambda>p. xwhen (pn_valueFd p < 0)
       (xbind (sys_call (sf_open (pe_sysfs E) (pin_file ''value'' p))) (\<lambda>fd.
        xseq (pin_put (\<lambda>p. p\<lparr>pn_valueFd := fd\<rparr>))
        (if fd < 0 then throw_errno E
         else xseq (if pn_mode p \<noteq> ModeUnknown then Pin_sysFsSetMode E else Pin_sysFsGetMode E)
                   (pin_get (\<lambda>p. if pn_edge p \<noteq> EdgeUnknown then Pin_sysFsSetEdge E else Pin_sysFsGetEdge E)))))))
     (pin_get (\<lambda>p. xret (pn_valueFd p \<ge> 0)))"

text \<open>\<open>setEdge\<close> comes before, as the unexport needs it.\<close>

definition Pin_setEdge :: "'w pin_env \<Rightarrow> Edge \<Rightarrow> ('w, unit) pin" where
  "Pin_setEdge E e =
     pin_get (\<lambda>p. xwhen (Pin_type p = TypeGpio)
       (xseq (pin_put (\<lambda>p. p\<lparr>pn_edge := e\<rparr>)) (xwhen (Pin_isOpen p \<and> pn_useSysFs p) (Pin_sysFsSetEdge E))))"

definition Pin_edge :: "'w pin_env \<Rightarrow> ('w, Edge) pin" where
  "Pin_edge E =
     xseq (pin_get (\<lambda>p. xwhen (Pin_isOpen p \<and> Pin_type p = TypeGpio \<and> pn_useSysFs p) (Pin_sysFsGetEdge E)))
          (pin_get (\<lambda>p. xret (pn_edge p)))"

definition Pin_sysFsExport :: "'w pin_env \<Rightarrow> bool \<Rightarrow> ('w, unit) pin" where
  "Pin_sysFsExport E enable =
     pin_get (\<lambda>p. xwhen (Pin_type p = TypeGpio)
       (xbind (Pin_sysFsIsExport E) (\<lambda>ex. xwhen (enable \<noteq> ex)
         (if Pin_systemNumber p < 0 then xbind (Pin_name_of ModeInput p) (\<lambda>_. xthrow invalid_argument)
          else if enable then put_line E (Pin_syspath @ ascii ''/export'') (c_decimal (Pin_systemNumber p))
          else xbind (Pin_sysFsFileExist E ''edge'') (\<lambda>ex.
                 xseq (xwhen ex (Pin_setEdge E EdgeNone))
                      (put_line E (Pin_syspath @ ascii ''/unexport'') (c_decimal (Pin_systemNumber p))))))))"

subsection \<open>Mode, pull resistor, level\<close>

text \<open>What the pin was when it was first changed.\<close>

definition Pin_holdPull :: "'w pin_env \<Rightarrow> ('w, unit) pin" where
  "Pin_holdPull E =
     pin_get (\<lambda>p. xwhen (pn_holdPull p = PullUnknown \<and> pe_device E \<noteq> None)
       (xbind (on_device E (\<lambda>D. dv_pull D (Pin_mcuNumber p))) (\<lambda>q. pin_put (\<lambda>p. p\<lparr>pn_holdPull := q\<rparr>))))"

definition Pin_holdMode :: "'w pin_env \<Rightarrow> ('w, unit) pin" where
  "Pin_holdMode E =
     pin_get (\<lambda>p. xwhen (pn_holdMode p = ModeUnknown \<and> pe_device E \<noteq> None)
       (xbind (on_device E (\<lambda>D. dv_mode D (Pin_mcuNumber p))) (\<lambda>m.
        xseq (pin_put (\<lambda>p. p\<lparr>pn_holdMode := m\<rparr>))
        (xwhen (m = ModeOutput)
          (xbind (on_device E (\<lambda>D. dv_read D (Pin_mcuNumber p))) (\<lambda>b. pin_put (\<lambda>p. p\<lparr>pn_holdState := b\<rparr>)))))))"

definition Pin_writePull :: "'w pin_env \<Rightarrow> ('w, unit) pin" where
  "Pin_writePull E =
     xwhen (pe_device E \<noteq> None)
       (xseq (Pin_holdPull E) (pin_get (\<lambda>p. on_device E (\<lambda>D. dv_setPull D (Pin_mcuNumber p) (pn_pull p)))))"

definition Pin_readPull :: "'w pin_env \<Rightarrow> ('w, unit) pin" where
  "Pin_readPull E =
     (case pe_device E of
        Some D \<Rightarrow>
          if dv_flags D AND hasPullRead \<noteq> 0
          then pin_get (\<lambda>p. xbind (on_device E (\<lambda>D. dv_pull D (Pin_mcuNumber p))) (\<lambda>q. pin_put (\<lambda>p. p\<lparr>pn_pull := q\<rparr>)))
          else pin_put (\<lambda>p. p\<lparr>pn_pull := PullUnknown\<rparr>)
      | None \<Rightarrow> pin_put (\<lambda>p. p\<lparr>pn_pull := PullUnknown\<rparr>))"

definition Pin_readMode :: "'w pin_env \<Rightarrow> ('w, unit) pin" where
  "Pin_readMode E =
     pin_get (\<lambda>p. if pn_useSysFs p then Pin_sysFsGetMode E
       else xbind (on_device E (\<lambda>D. dv_mode D (Pin_mcuNumber p))) (\<lambda>m. pin_put (\<lambda>p. p\<lparr>pn_mode := m\<rparr>)))"

definition Pin_writeMode :: "'w pin_env \<Rightarrow> ('w, unit) pin" where
  "Pin_writeMode E =
     xseq (Pin_holdMode E)
       (pin_get (\<lambda>p. if pn_useSysFs p then Pin_sysFsSetMode E else on_device E (\<lambda>D. dv_setMode D (Pin_mcuNumber p) (pn_mode p))))"

definition Pin_readEdge :: "'w pin_env \<Rightarrow> ('w, unit) pin" where
  "Pin_readEdge E =
     pin_get (\<lambda>p. if pn_useSysFs p then Pin_sysFsGetEdge E else pin_put (\<lambda>p. p\<lparr>pn_edge := EdgeUnknown\<rparr>))"

definition Pin_writeEdge :: "'w pin_env \<Rightarrow> ('w, unit) pin" where
  "Pin_writeEdge E = pin_get (\<lambda>p. xwhen (pn_useSysFs p) (Pin_sysFsSetEdge E))"

definition Pin_pull :: "'w pin_env \<Rightarrow> ('w, Pull) pin" where
  "Pin_pull E =
     xseq (pin_get (\<lambda>p. xwhen (Pin_isOpen p \<and> Pin_type p = TypeGpio) (Pin_readPull E))) (pin_get (\<lambda>p. xret (pn_pull p)))"

definition Pin_setPull :: "'w pin_env \<Rightarrow> Pull \<Rightarrow> ('w, unit) pin" where
  "Pin_setPull E q =
     pin_get (\<lambda>p. xwhen (Pin_type p = TypeGpio)
       (xseq (pin_put (\<lambda>p. p\<lparr>pn_pull := q\<rparr>)) (xwhen (Pin_isOpen p) (Pin_writePull E))))"

definition Pin_mode :: "'w pin_env \<Rightarrow> ('w, Mode) pin" where
  "Pin_mode E =
     xseq (pin_get (\<lambda>p. xwhen (Pin_isOpen p \<and> Pin_type p = TypeGpio) (Pin_readMode E))) (pin_get (\<lambda>p. xret (pn_mode p)))"

definition Pin_setMode :: "'w pin_env \<Rightarrow> Mode \<Rightarrow> ('w, unit) pin" where
  "Pin_setMode E m =
     pin_get (\<lambda>p. xwhen (Pin_type p = TypeGpio)
       (xseq (pin_put (\<lambda>p. p\<lparr>pn_mode := m\<rparr>)) (xwhen (Pin_isOpen p) (Pin_writeMode E))))"

definition Pin_modeName :: "'w pin_env \<Rightarrow> ('w, string) pin" where "Pin_modeName E = xbind (Pin_mode E) (Pin_modeName_of E)"
definition Pin_pullName :: "'w pin_env \<Rightarrow> ('w, string) pin" where "Pin_pullName E = xbind (Pin_pull E) Pin_pullName_of"

text \<open>A mode without a name has that of an input.\<close>

definition Pin_name :: "'w pin_env \<Rightarrow> ('w, string) pin" where
  "Pin_name E =
     pin_get (\<lambda>p.
       if Pin_isOpen p \<and> Pin_type p = TypeGpio
       then xcatch (xbind (Pin_mode E) (\<lambda>m. Pin_name_of m p)) (Pin_name_of ModeInput p)
       else Pin_name_of ModeInput p)"

definition Pin_write :: "'w pin_env \<Rightarrow> bool \<Rightarrow> ('w, unit) pin" where
  "Pin_write E value =
     pin_get (\<lambda>p. xwhen (Pin_isOpen p \<and> Pin_type p = TypeGpio)
       (if pn_useSysFs p then xbind (Pin_sysFsWrite E (pn_valueFd p) value) (\<lambda>r. if r < 0 then throw_errno E else xret ())
        else on_device E (\<lambda>D. dv_write D (Pin_mcuNumber p) value)))"

text \<open>A pin that is closed, or no GPIO, has no \<open>return\<close> to end with.\<close>

definition Pin_read :: "'w pin_env \<Rightarrow> ('w, bool) pin" where
  "Pin_read E =
     pin_get (\<lambda>p.
       if Pin_isOpen p \<and> Pin_type p = TypeGpio then
         if pn_useSysFs p then xbind (Pin_sysFsRead E (pn_valueFd p)) (\<lambda>r. if r < 0 then throw_errno E else xret (r > 0))
         else on_device E (\<lambda>D. dv_read D (Pin_mcuNumber p))
       else xcrash MissingReturn)"

definition Pin_toggle :: "'w pin_env \<Rightarrow> ('w, unit) pin" where
  "Pin_toggle E =
     pin_get (\<lambda>p. xwhen (Pin_isOpen p \<and> Pin_type p = TypeGpio)
       (xbind (if pn_useSysFs p then xret False else on_device E (\<lambda>D. xret (dv_flags D AND hasToggle \<noteq> 0))) (\<lambda>has.
          if has then on_device E (\<lambda>D. dv_toggle D (Pin_mcuNumber p)) else xbind (Pin_read E) (\<lambda>b. Pin_write E (\<not> b)))))"

definition Pin_release :: "'w pin_env \<Rightarrow> ('w, unit) pin" where
  "Pin_release E =
     pin_get (\<lambda>p. xwhen (Pin_isOpen p \<and> Pin_type p = TypeGpio)
       (xseq
         (xwhen (pn_holdMode p \<noteq> ModeUnknown)
           (xseq (Pin_setMode E (pn_holdMode p))
           (xseq (xwhen (pn_holdMode p = ModeOutput) (Pin_write E (pn_holdState p)))
                 (pin_put (\<lambda>p. p\<lparr>pn_holdMode := ModeUnknown\<rparr>)))))
         (pin_get (\<lambda>p. xwhen (pn_holdPull p \<noteq> PullUnknown)
           (xseq (Pin_setPull E (pn_holdPull p)) (pin_put (\<lambda>p. p\<lparr>pn_holdPull := PullUnknown\<rparr>)))))))"

subsection \<open>Opening and closing\<close>

definition Pin_sysFsEnable :: "'w pin_env \<Rightarrow> bool \<Rightarrow> ('w, bool) pin" where
  "Pin_sysFsEnable E enable =
     (if enable
      then xseq (Pin_holdMode E) (xseq (Pin_holdPull E) (xseq (Pin_sysFsExport E True) (Pin_sysFsOpen E)))
      else xseq (Pin_sysFsClose E) (xseq (Pin_sysFsExport E False) (xret False)))"

definition Pin_forceUseSysFs :: "'w pin_env \<Rightarrow> bool \<Rightarrow> ('w, bool) pin" where
  "Pin_forceUseSysFs E enable =
     xseq (pin_get (\<lambda>p. xbind (if Pin_isOpen p \<and> pn_useSysFs p \<noteq> enable then Pin_sysFsEnable E enable else xret enable) (\<lambda>b.
             pin_put (\<lambda>p. p\<lparr>pn_useSysFs := b\<rparr>))))
          (pin_get (\<lambda>p. xret (Pin_useSysFs p)))"

definition Pin_open :: "'w pin_env \<Rightarrow> ('w, bool) pin" where
  "Pin_open E =
     xseq (pin_get (\<lambda>p. xwhen (\<not> Pin_isOpen p)
       (if Pin_type p = TypeGpio then
          xseq (xbind (if pn_useSysFs p then Pin_sysFsEnable E True else xret True) (\<lambda>b. pin_put (\<lambda>p. p\<lparr>pn_isopen := b\<rparr>)))
          (pin_get (\<lambda>p. xwhen (pn_isopen p)
            (xseq (if pn_mode p \<noteq> ModeUnknown then Pin_writeMode E else Pin_readMode E)
            (xseq (xwhen (pe_device E \<noteq> None) (pin_get (\<lambda>p. if pn_pull p \<noteq> PullUnknown then Pin_writePull E else Pin_readPull E)))
                  (pin_get (\<lambda>p. if pn_edge p \<noteq> EdgeUnknown then Pin_writeEdge E else Pin_readEdge E))))))
        else pin_put (\<lambda>p. p\<lparr>pn_isopen := True\<rparr>))))
     (pin_get (\<lambda>p. xret (Pin_isOpen p)))"

definition Pin_close :: "'w pin_env \<Rightarrow> ('w, unit) pin" where
  "Pin_close E =
     pin_get (\<lambda>p. xwhen (Pin_isOpen p)
       (xseq (xwhen (Pin_type p = TypeGpio)
               (xbind (Pin_forceUseSysFs E False) (\<lambda>_. xwhen (pe_roc E) (Pin_release E))))
             (pin_put (\<lambda>p. p\<lparr>pn_isopen := False\<rparr>))))"

subsection \<open>Interrupts\<close>

text \<open>The start of an interrupt: the files are used, and what is pending is read.\<close>

definition start_edge :: "'w pin_env \<Rightarrow> Edge \<Rightarrow> ('w, unit) pin" where
  "start_edge E e =
     xseq (Pin_setEdge E EdgeNone)
     (xbind (Pin_forceUseSysFs E True) (\<lambda>_.
      xseq (Pin_setEdge E e)
      (pin_get (\<lambda>p. xbind (Pin_sysFsPoll E (pn_valueFd p) 1) (\<lambda>r.
         xwhen (r > 0) (xbind (Pin_sysFsRead E (pn_valueFd p)) (\<lambda>_. xret ())))))))"

definition Pin_waitForInterrupt :: "'w pin_env \<Rightarrow> Edge \<Rightarrow> int \<Rightarrow> ('w, unit) pin" where
  "Pin_waitForInterrupt E e timeout_ms =
     pin_get (\<lambda>p. xwhen (Pin_isOpen p)
       (xseq (xwhen (pn_firstPolling p) (xseq (start_edge E e) (pin_put (\<lambda>p. p\<lparr>pn_firstPolling := False\<rparr>))))
       (xseq (pin_get (\<lambda>p. xwhen (e \<noteq> pn_edge p) (Pin_setEdge E e)))
       (pin_get (\<lambda>p. xbind (Pin_sysFsPoll E (pn_valueFd p) timeout_ms) (\<lambda>r.
          if r < 0 then throw_errno E else if r = 0 then xthrow (system_error ETIME) else xret ()))))))"

definition Pin_attachInterrupt :: "'w pin_env \<Rightarrow> Edge \<Rightarrow> ('w, unit) pin" where
  "Pin_attachInterrupt E e =
     pin_get (\<lambda>p. xwhen (\<not> pn_thread p) (xseq (start_edge E e) (pin_put (\<lambda>p. p\<lparr>pn_run := True, pn_thread := True\<rparr>))))"

definition Pin_detachInterrupt :: "('w, unit) pin" where
  "Pin_detachInterrupt = pin_get (\<lambda>p. xwhen (pn_thread p) (pin_put (\<lambda>p. p\<lparr>pn_run := False, pn_thread := False\<rparr>)))"

text \<open>A turn of the thread, and whether it goes on; an error ends the program.\<close>

definition Pin_irqThread_turn :: "'w pin_env \<Rightarrow> ('w \<Rightarrow> 'w) \<Rightarrow> bool \<Rightarrow> int \<Rightarrow> 'w \<Rightarrow> (bool \<times> 'w) run" where
  "Pin_irqThread_turn E isr run fd w =
     (if \<not> run then Inr (False, w)
      else let (r, w) = sf_poll (pe_sysfs E) fd 100 w in
           if r > 0 then Inr (True, isr w) else if r < 0 then Inl AssertFailed else Inr (True, w))"

text \<open>The destructor.\<close>

definition Pin_delete :: "'w pin_env \<Rightarrow> ('w, unit) pin" where
  "Pin_delete E = xseq Pin_detachInterrupt (Pin_close E)"

end
