(* ===== verification/Gpio_Descriptors.thy ===== *)
theory Gpio_Descriptors
  imports Gpio_Pin
begin

text \<open>
  The tables of connectors and pins of the boards (\<open>src/src/arch/arm/nanopi/gpiodevice_nanopi_descriptor.cpp\<close>,
  \<open>src/src/arch/arm/rpi/gpiodevice_bcm2835_descriptor.cpp\<close>), with the numbers of a pin in the order of the source: logical, processor, system,
  row and column.
\<close>

definition pin_desc :: "PinType \<Rightarrow> int \<Rightarrow> int \<Rightarrow> int \<Rightarrow> int \<Rightarrow> int \<Rightarrow> (Mode \<times> string) list \<Rightarrow> Descriptor" where
  "pin_desc t l m s r c names =
     \<lparr>ds_type = t, ds_num = \<lparr>nm_logical = l, nm_mcu = m, nm_system = s, nm_row = r, nm_column = c\<rparr>, ds_name = names\<rparr>"

section \<open>NanoPi\<close>

definition nanopi_dilConnector :: "int \<Rightarrow> int \<Rightarrow> int \<Rightarrow> int" where "nanopi_dilConnector row column columns = (row - 1) * columns + column"
definition nanopi_silConnector :: "int \<Rightarrow> int \<Rightarrow> int \<Rightarrow> int" where "nanopi_silConnector row column columns = row"

definition nanopi_1_con1 :: ConnectorDescriptor where
  "nanopi_1_con1 = \<lparr>cd_name = ''con1'', cd_number = 1, cd_rows = 12, cd_columns = 2, cd_pinNumber = nanopi_dilConnector,
     cd_pin =
      [pin_desc TypePower (-1) (-1) (-1) 1 1
       [(ModeInput, ''3.3V'')],
      pin_desc TypePower (-1) (-1) (-1) 1 2
       [(ModeInput, ''5V'')],
      pin_desc TypeGpio 8 12 12 2 1
       [(ModeInput, ''GPIOA12''), (ModeOutput, ''GPIOA12''), (ModeAlt2, ''I2C0SDA''), (ModeAlt3, ''DIRX''), (ModeAlt6, ''PAEINT12'')],
      pin_desc TypePower (-1) (-1) (-1) 2 2
       [(ModeInput, ''5V'')],
      pin_desc TypeGpio 9 11 11 3 1
       [(ModeInput, ''GPIOA11''), (ModeOutput, ''GPIOA11''), (ModeAlt2, ''I2C0SCK''), (ModeAlt3, ''DITX''), (ModeAlt6, ''PAEINT11'')],
      pin_desc TypePower (-1) (-1) (-1) 3 2
       [(ModeInput, ''GND'')],
      pin_desc TypeGpio 7 91 203 4 1
       [(ModeInput, ''GPIOG11''), (ModeOutput, ''GPIOG11''), (ModeAlt2, ''PCM1CLK''), (ModeAlt6, ''PGEINT11'')],
      pin_desc TypeGpio 15 86 198 4 2
       [(ModeInput, ''GPIOG6''), (ModeOutput, ''GPIOG6''), (ModeAlt2, ''UART1TX''), (ModeAlt6, ''PGEINT6'')],
      pin_desc TypePower (-1) (-1) (-1) 5 1
       [(ModeInput, ''GND'')],
      pin_desc TypeGpio 16 87 199 5 2
       [(ModeInput, ''GPIOG7''), (ModeOutput, ''GPIOG7''), (ModeAlt2, ''UART1RX''), (ModeAlt6, ''PGEINT7'')],
      pin_desc TypeGpio 0 0 0 6 1
       [(ModeInput, ''GPIOA0''), (ModeOutput, ''GPIOA0''), (ModeAlt2, ''UART2TX''), (ModeAlt3, ''JTAGMS''), (ModeAlt6, ''PAEINT0'')],
      pin_desc TypeGpio 1 6 6 6 2
       [(ModeInput, ''GPIOA6''), (ModeOutput, ''GPIOA6''), (ModeAlt2, ''SIMPWREN''), (ModeAlt3, ''PWM1''), (ModeAlt6, ''PAEINT6'')],
      pin_desc TypeGpio 2 2 2 7 1
       [(ModeInput, ''GPIOA2''), (ModeOutput, ''GPIOA2''), (ModeAlt2, ''UART2RTS''), (ModeAlt3, ''JTAGDO''), (ModeAlt6, ''PAEINT2'')],
      pin_desc TypePower (-1) (-1) (-1) 7 2
       [(ModeInput, ''GND'')],
      pin_desc TypeGpio 3 3 3 8 1
       [(ModeInput, ''GPIOA3''), (ModeOutput, ''GPIOA3''), (ModeAlt2, ''UART2CTS''), (ModeAlt3, ''JTAGDI''), (ModeAlt6, ''PAEINT3'')],
      pin_desc TypeGpio 4 88 200 8 2
       [(ModeInput, ''GPIOG8''), (ModeOutput, ''GPIOG8''), (ModeAlt2, ''UART1RTS''), (ModeAlt6, ''PGEINT8'')],
      pin_desc TypePower (-1) (-1) (-1) 9 1
       [(ModeInput, ''3.3V'')],
      pin_desc TypeGpio 5 89 201 9 2
       [(ModeInput, ''GPIOG9''), (ModeOutput, ''GPIOG9''), (ModeAlt2, ''UART1CTS''), (ModeAlt6, ''PGEINT9'')],
      pin_desc TypeGpio 12 22 64 10 1
       [(ModeInput, ''GPIOC0''), (ModeOutput, ''GPIOC0''), (ModeAlt2, ''NANDWE''), (ModeAlt3, ''SPI0MOSI'')],
      pin_desc TypePower (-1) (-1) (-1) 10 2
       [(ModeInput, ''GND'')],
      pin_desc TypeGpio 13 23 65 11 1
       [(ModeInput, ''GPIOC1''), (ModeOutput, ''GPIOC1''), (ModeAlt2, ''NANDALE''), (ModeAlt3, ''SPI0MISO'')],
      pin_desc TypeGpio 6 1 1 11 2
       [(ModeInput, ''GPIOA1''), (ModeOutput, ''GPIOA1''), (ModeAlt2, ''UART2RX''), (ModeAlt3, ''JTAGCK''), (ModeAlt6, ''PAEINT1'')],
      pin_desc TypeGpio 14 24 66 12 1
       [(ModeInput, ''GPIOC2''), (ModeOutput, ''GPIOC2''), (ModeAlt2, ''NANDCLE''), (ModeAlt3, ''SPI0CLK'')],
      pin_desc TypeGpio 10 25 67 12 2
       [(ModeInput, ''GPIOC3''), (ModeOutput, ''GPIOC3''), (ModeAlt2, ''NANDCE1''), (ModeAlt3, ''SPI0CS'')]]\<rparr>"

definition nanopi_1_dbg_uart :: ConnectorDescriptor where
  "nanopi_1_dbg_uart = \<lparr>cd_name = ''dbg_uart'', cd_number = 2, cd_rows = 4, cd_columns = 1, cd_pinNumber = nanopi_silConnector,
     cd_pin =
      [pin_desc TypePower (-1) (-1) (-1) 1 1
       [(ModeInput, ''GND'')],
      pin_desc TypePower (-1) (-1) (-1) 2 1
       [(ModeInput, ''5V'')],
      pin_desc TypeGpio 17 4 4 3 1
       [(ModeInput, ''GPIOA4''), (ModeOutput, ''GPIOA4''), (ModeAlt2, ''UART0TX''), (ModeAlt6, ''PAEINT4'')],
      pin_desc TypeGpio 18 5 5 4 1
       [(ModeInput, ''GPIOA5''), (ModeOutput, ''GPIOA5''), (ModeAlt2, ''UART0RX''), (ModeAlt3, ''PWM0''), (ModeAlt6, ''PAEINT5'')]]\<rparr>"

definition nanopi_1_inner :: ConnectorDescriptor where
  "nanopi_1_inner = \<lparr>cd_name = ''inner'', cd_number = 3, cd_rows = 2, cd_columns = 1, cd_pinNumber = nanopi_silConnector,
     cd_pin =
      [pin_desc TypeGpio 19 10 10 1 1
       [(ModeInput, ''GPIOA10''), (ModeOutput, ''STAT_LED''), (ModeAlt2, ''SIMDET''), (ModeAlt6, ''PAEINT10'')],
      pin_desc TypeGpio 32 104 362 2 1
       [(ModeInput, ''GPIOL10''), (ModeOutput, ''PWR_LED''), (ModeAlt2, ''SPWM''), (ModeAlt6, ''PLEINT10'')]]\<rparr>"

definition nanopi_1_con2 :: ConnectorDescriptor where
  "nanopi_1_con2 = \<lparr>cd_name = ''con2'', cd_number = 4, cd_rows = 12, cd_columns = 1, cd_pinNumber = nanopi_silConnector,
     cd_pin =
      [pin_desc TypePower (-1) (-1) (-1) 1 1
       [(ModeInput, ''5V'')],
      pin_desc TypeUsb (-1) (-1) (-1) 2 1
       [(ModeInput, ''USB-DP1'')],
      pin_desc TypeUsb (-1) (-1) (-1) 3 1
       [(ModeInput, ''USB-DM1'')],
      pin_desc TypeUsb (-1) (-1) (-1) 4 1
       [(ModeInput, ''USB-DP2'')],
      pin_desc TypeUsb (-1) (-1) (-1) 5 1
       [(ModeInput, ''USB-DM2'')],
      pin_desc TypeGpio 20 105 363 6 1
       [(ModeInput, ''GPIOL11''), (ModeOutput, ''GPIOL11''), (ModeAlt2, ''SCIRRX''), (ModeAlt6, ''PLEINT11'')],
      pin_desc TypeGpio 11 17 17 7 1
       [(ModeInput, ''GPIOA17''), (ModeOutput, ''GPIOA17''), (ModeAlt2, ''OWAOUT''), (ModeAlt6, ''PAEINT17'')],
      pin_desc TypeGpio 31 18 18 8 1
       [(ModeInput, ''GPIOA18''), (ModeOutput, ''GPIOA18''), (ModeAlt2, ''PCM0SYNC''), (ModeAlt3, ''I2C1SCK''), (ModeAlt6, ''PAEINT18'')],
      pin_desc TypeGpio 30 19 19 9 1
       [(ModeInput, ''GPIOA19''), (ModeOutput, ''GPIOA19''), (ModeAlt2, ''PCM0CLK''), (ModeAlt3, ''I2C1SDA''), (ModeAlt6, ''PAEINT19'')],
      pin_desc TypeGpio 21 20 20 10 1
       [(ModeInput, ''GPIOA20''), (ModeOutput, ''GPIOA20''), (ModeAlt2, ''PCM0DOUT''), (ModeAlt3, ''SIMVPPEN''), (ModeAlt6, ''PAEINT20'')],
      pin_desc TypeGpio 22 21 21 11 1
       [(ModeInput, ''GPIOA21''), (ModeOutput, ''GPIOA21''), (ModeAlt2, ''PCM0DIN''), (ModeAlt3, ''SIMVPPPP''), (ModeAlt6, ''PAEINT21'')],
      pin_desc TypePower (-1) (-1) (-1) 12 1
       [(ModeInput, ''GND'')]]\<rparr>"

definition nanopi_2_con1 :: ConnectorDescriptor where
  "nanopi_2_con1 = \<lparr>cd_name = ''con1'', cd_number = 1, cd_rows = 20, cd_columns = 2, cd_pinNumber = nanopi_dilConnector,
     cd_pin =
      [pin_desc TypePower (-1) (-1) (-1) 1 1
       [(ModeInput, ''3.3V'')],
      pin_desc TypePower (-1) (-1) (-1) 1 2
       [(ModeInput, ''5V'')],
      pin_desc TypeGpio 8 12 12 2 1
       [(ModeInput, ''GPIOA12''), (ModeOutput, ''GPIOA12''), (ModeAlt2, ''I2C0SDA''), (ModeAlt3, ''DIRX''), (ModeAlt6, ''PAEINT12'')],
      pin_desc TypePower (-1) (-1) (-1) 2 2
       [(ModeInput, ''5V'')],
      pin_desc TypeGpio 9 11 11 3 1
       [(ModeInput, ''GPIOA11''), (ModeOutput, ''GPIOA11''), (ModeAlt2, ''I2C0SCK''), (ModeAlt3, ''DITX''), (ModeAlt6, ''PAEINT11'')],
      pin_desc TypePower (-1) (-1) (-1) 3 2
       [(ModeInput, ''GND'')],
      pin_desc TypeGpio 7 91 203 4 1
       [(ModeInput, ''GPIOG11''), (ModeOutput, ''GPIOG11''), (ModeAlt2, ''PCM1CLK''), (ModeAlt6, ''PGEINT11'')],
      pin_desc TypeGpio 15 86 198 4 2
       [(ModeInput, ''GPIOG6''), (ModeOutput, ''GPIOG6''), (ModeAlt2, ''UART1TX''), (ModeAlt6, ''PGEINT6'')],
      pin_desc TypePower (-1) (-1) (-1) 5 1
       [(ModeInput, ''GND'')],
      pin_desc TypeGpio 16 87 199 5 2
       [(ModeInput, ''GPIOG7''), (ModeOutput, ''GPIOG7''), (ModeAlt2, ''UART1RX''), (ModeAlt6, ''PGEINT7'')],
      pin_desc TypeGpio 0 0 0 6 1
       [(ModeInput, ''GPIOA0''), (ModeOutput, ''GPIOA0''), (ModeAlt2, ''UART2TX''), (ModeAlt3, ''JTAGMS''), (ModeAlt6, ''PAEINT0'')],
      pin_desc TypeGpio 1 6 6 6 2
       [(ModeInput, ''GPIOA6''), (ModeOutput, ''GPIOA6''), (ModeAlt2, ''SIMPWREN''), (ModeAlt3, ''PWM1''), (ModeAlt6, ''PAEINT6'')],
      pin_desc TypeGpio 2 2 2 7 1
       [(ModeInput, ''GPIOA2''), (ModeOutput, ''GPIOA2''), (ModeAlt2, ''UART2RTS''), (ModeAlt3, ''JTAGDO''), (ModeAlt6, ''PAEINT2'')],
      pin_desc TypePower (-1) (-1) (-1) 7 2
       [(ModeInput, ''GND'')],
      pin_desc TypeGpio 3 3 3 8 1
       [(ModeInput, ''GPIOA3''), (ModeOutput, ''GPIOA3''), (ModeAlt2, ''UART2CTS''), (ModeAlt3, ''JTAGDI''), (ModeAlt6, ''PAEINT3'')],
      pin_desc TypeGpio 4 88 200 8 2
       [(ModeInput, ''GPIOG8''), (ModeOutput, ''GPIOG8''), (ModeAlt2, ''UART1RTS''), (ModeAlt6, ''PGEINT8'')],
      pin_desc TypePower (-1) (-1) (-1) 9 1
       [(ModeInput, ''3.3V'')],
      pin_desc TypeGpio 5 89 201 9 2
       [(ModeInput, ''GPIOG9''), (ModeOutput, ''GPIOG9''), (ModeAlt2, ''UART1CTS''), (ModeAlt6, ''PGEINT9'')],
      pin_desc TypeGpio 12 22 64 10 1
       [(ModeInput, ''GPIOC0''), (ModeOutput, ''GPIOC0''), (ModeAlt2, ''NANDWE''), (ModeAlt3, ''SPI0MOSI'')],
      pin_desc TypePower (-1) (-1) (-1) 10 2
       [(ModeInput, ''GND'')],
      pin_desc TypeGpio 13 23 65 11 1
       [(ModeInput, ''GPIOC1''), (ModeOutput, ''GPIOC1''), (ModeAlt2, ''NANDALE''), (ModeAlt3, ''SPI0MISO'')],
      pin_desc TypeGpio 6 1 1 11 2
       [(ModeInput, ''GPIOA1''), (ModeOutput, ''GPIOA1''), (ModeAlt2, ''UART2RX''), (ModeAlt3, ''JTAGCK''), (ModeAlt6, ''PAEINT1'')],
      pin_desc TypeGpio 14 24 66 12 1
       [(ModeInput, ''GPIOC2''), (ModeOutput, ''GPIOC2''), (ModeAlt2, ''NANDCLE''), (ModeAlt3, ''SPI0CLK'')],
      pin_desc TypeGpio 10 25 67 12 2
       [(ModeInput, ''GPIOC3''), (ModeOutput, ''GPIOC3''), (ModeAlt2, ''NANDCE1''), (ModeAlt3, ''SPI0CS'')],
      pin_desc TypePower (-1) (-1) (-1) 13 1
       [(ModeInput, ''GND'')],
      pin_desc TypeGpio 11 17 17 13 2
       [(ModeInput, ''GPIOA17''), (ModeOutput, ''GPIOA17''), (ModeAlt2, ''OWAOUT''), (ModeAlt6, ''PAEINT17'')],
      pin_desc TypeGpio 30 19 19 14 1
       [(ModeInput, ''GPIOA19''), (ModeOutput, ''GPIOA19''), (ModeAlt2, ''PCM0CLK''), (ModeAlt3, ''I2C1SDA''), (ModeAlt6, ''PAEINT19'')],
      pin_desc TypeGpio 31 18 18 14 2
       [(ModeInput, ''GPIOA18''), (ModeOutput, ''GPIOA18''), (ModeAlt2, ''PCM0SYNC''), (ModeAlt3, ''I2C1SCK''), (ModeAlt6, ''PAEINT18'')],
      pin_desc TypeGpio 21 20 20 15 1
       [(ModeInput, ''GPIOA20''), (ModeOutput, ''GPIOA20''), (ModeAlt2, ''PCM0DOUT''), (ModeAlt3, ''SIMVPPEN''), (ModeAlt6, ''PAEINT20'')],
      pin_desc TypePower (-1) (-1) (-1) 15 2
       [(ModeInput, ''GND'')],
      pin_desc TypeGpio 22 21 21 16 1
       [(ModeInput, ''GPIOA21''), (ModeOutput, ''GPIOA21''), (ModeAlt2, ''PCM0DIN''), (ModeAlt3, ''SIMVPPPP''), (ModeAlt6, ''PAEINT21'')],
      pin_desc TypeGpio 26 7 7 16 2
       [(ModeInput, ''GPIOA7''), (ModeOutput, ''GPIOA7''), (ModeAlt2, ''SIMCLK''), (ModeAlt6, ''PAEINT7'')],
      pin_desc TypeGpio 23 8 8 17 1
       [(ModeInput, ''GPIOA8''), (ModeOutput, ''GPIOA8''), (ModeAlt2, ''SIMDATA''), (ModeAlt6, ''PAEINT8'')],
      pin_desc TypePower (-1) (-1) (-1) 17 2
       [(ModeInput, ''GND'')],
      pin_desc TypeGpio 24 16 16 18 1
       [(ModeInput, ''GPIOA16''), (ModeOutput, ''GPIOA16''), (ModeAlt2, ''SPI1MISO''), (ModeAlt3, ''UART3CTS''), (ModeAlt6, ''PAEINT16'')],
      pin_desc TypeGpio 27 13 13 18 2
       [(ModeInput, ''GPIOA13''), (ModeOutput, ''GPIOA13''), (ModeAlt2, ''SPI1CS''), (ModeAlt3, ''UART3TX''), (ModeAlt6, ''PAEINT13'')],
      pin_desc TypeGpio 25 9 9 19 1
       [(ModeInput, ''GPIOA9''), (ModeOutput, ''GPIOA9''), (ModeAlt2, ''SIMRST''), (ModeAlt6, ''PAEINT9'')],
      pin_desc TypeGpio 28 15 15 19 2
       [(ModeInput, ''GPIOA15''), (ModeOutput, ''GPIOA15''), (ModeAlt2, ''SPI1MOSI''), (ModeAlt3, ''UART3RTS''), (ModeAlt6, ''PAEINT15'')],
      pin_desc TypePower (-1) (-1) (-1) 20 1
       [(ModeInput, ''GND'')],
      pin_desc TypeGpio 29 14 14 20 2
       [(ModeInput, ''GPIOA14''), (ModeOutput, ''GPIOA14''), (ModeAlt2, ''SPI1CLK''), (ModeAlt3, ''UART3RX''), (ModeAlt6, ''PAEINT14'')]]\<rparr>"

definition nanopi_2_dbg_uart :: ConnectorDescriptor where
  "nanopi_2_dbg_uart = \<lparr>cd_name = ''dbg_uart'', cd_number = 2, cd_rows = 4, cd_columns = 1, cd_pinNumber = nanopi_silConnector,
     cd_pin =
      [pin_desc TypePower (-1) (-1) (-1) 1 1
       [(ModeInput, ''GND'')],
      pin_desc TypePower (-1) (-1) (-1) 2 1
       [(ModeInput, ''5V'')],
      pin_desc TypeGpio 17 4 4 3 1
       [(ModeInput, ''GPIOA4''), (ModeOutput, ''GPIOA4''), (ModeAlt2, ''UART0TX''), (ModeAlt6, ''PAEINT4'')],
      pin_desc TypeGpio 18 5 5 4 1
       [(ModeInput, ''GPIOA5''), (ModeOutput, ''GPIOA5''), (ModeAlt2, ''UART0RX''), (ModeAlt3, ''PWM0''), (ModeAlt6, ''PAEINT5'')]]\<rparr>"

definition nanopi_2_inner :: ConnectorDescriptor where
  "nanopi_2_inner = \<lparr>cd_name = ''inner'', cd_number = 3, cd_rows = 2, cd_columns = 1, cd_pinNumber = nanopi_silConnector,
     cd_pin =
      [pin_desc TypeGpio 19 10 10 1 1
       [(ModeInput, ''GPIOA10''), (ModeOutput, ''STAT_LED''), (ModeAlt2, ''SIMDET''), (ModeAlt6, ''PAEINT10'')],
      pin_desc TypeGpio 32 104 362 2 1
       [(ModeInput, ''GPIOL10''), (ModeOutput, ''PWR_LED''), (ModeAlt2, ''SPWM''), (ModeAlt6, ''PLEINT10'')],
      pin_desc TypeGpio 33 97 355 3 1
       [(ModeInput, ''BUT_K1''), (ModeOutput, ''GPIOL3''), (ModeAlt2, ''SUARTRX''), (ModeAlt6, ''PLEINT3'')],
      pin_desc TypeGpio 20 105 363 4 1
       [(ModeInput, ''IR_RX''), (ModeOutput, ''GPIOL11''), (ModeAlt2, ''SCIRRX''), (ModeAlt6, ''PLEINT11'')]]\<rparr>"

definition nanopi_3_con1 :: ConnectorDescriptor where
  "nanopi_3_con1 = \<lparr>cd_name = ''con1'', cd_number = 1, cd_rows = 20, cd_columns = 2, cd_pinNumber = nanopi_dilConnector,
     cd_pin =
      [pin_desc TypePower (-1) (-1) (-1) 1 1
       [(ModeInput, ''3.3V'')],
      pin_desc TypePower (-1) (-1) (-1) 1 2
       [(ModeInput, ''5V'')],
      pin_desc TypeGpio 8 12 12 2 1
       [(ModeInput, ''GPIOA12''), (ModeOutput, ''GPIOA12''), (ModeAlt2, ''I2C0SDA''), (ModeAlt3, ''DIRX''), (ModeAlt6, ''PAEINT12'')],
      pin_desc TypePower (-1) (-1) (-1) 2 2
       [(ModeInput, ''5V'')],
      pin_desc TypeGpio 9 11 11 3 1
       [(ModeInput, ''GPIOA11''), (ModeOutput, ''GPIOA11''), (ModeAlt2, ''I2C0SCK''), (ModeAlt3, ''DITX''), (ModeAlt6, ''PAEINT11'')],
      pin_desc TypePower (-1) (-1) (-1) 3 2
       [(ModeInput, ''GND'')],
      pin_desc TypeGpio 7 91 203 4 1
       [(ModeInput, ''GPIOG11''), (ModeOutput, ''GPIOG11''), (ModeAlt2, ''PCM1CLK''), (ModeAlt6, ''PGEINT11'')],
      pin_desc TypeGpio 15 86 198 4 2
       [(ModeInput, ''GPIOG6''), (ModeOutput, ''GPIOG6''), (ModeAlt2, ''UART1TX''), (ModeAlt6, ''PGEINT6'')],
      pin_desc TypePower (-1) (-1) (-1) 5 1
       [(ModeInput, ''GND'')],
      pin_desc TypeGpio 16 87 199 5 2
       [(ModeInput, ''GPIOG7''), (ModeOutput, ''GPIOG7''), (ModeAlt2, ''UART1RX''), (ModeAlt6, ''PGEINT7'')],
      pin_desc TypeGpio 0 0 0 6 1
       [(ModeInput, ''GPIOA0''), (ModeOutput, ''GPIOA0''), (ModeAlt2, ''UART2TX''), (ModeAlt3, ''JTAGMS''), (ModeAlt6, ''PAEINT0'')],
      pin_desc TypeGpio 1 6 6 6 2
       [(ModeInput, ''GPIOA6''), (ModeOutput, ''GPIOA6''), (ModeAlt2, ''SIMPWREN''), (ModeAlt3, ''PWM1''), (ModeAlt6, ''PAEINT6'')],
      pin_desc TypeGpio 2 2 2 7 1
       [(ModeInput, ''GPIOA2''), (ModeOutput, ''GPIOA2''), (ModeAlt2, ''UART2RTS''), (ModeAlt3, ''JTAGDO''), (ModeAlt6, ''PAEINT2'')],
      pin_desc TypePower (-1) (-1) (-1) 7 2
       [(ModeInput, ''GND'')],
      pin_desc TypeGpio 3 3 3 8 1
       [(ModeInput, ''GPIOA3''), (ModeOutput, ''GPIOA3''), (ModeAlt2, ''UART2CTS''), (ModeAlt3, ''JTAGDI''), (ModeAlt6, ''PAEINT3'')],
      pin_desc TypeGpio 4 88 200 8 2
       [(ModeInput, ''GPIOG8''), (ModeOutput, ''GPIOG8''), (ModeAlt2, ''UART1RTS''), (ModeAlt6, ''PGEINT8'')],
      pin_desc TypePower (-1) (-1) (-1) 9 1
       [(ModeInput, ''3.3V'')],
      pin_desc TypeGpio 5 89 201 9 2
       [(ModeInput, ''GPIOG9''), (ModeOutput, ''GPIOG9''), (ModeAlt2, ''UART1CTS''), (ModeAlt6, ''PGEINT9'')],
      pin_desc TypeGpio 12 22 64 10 1
       [(ModeInput, ''GPIOC0''), (ModeOutput, ''GPIOC0''), (ModeAlt2, ''NANDWE''), (ModeAlt3, ''SPI0MOSI'')],
      pin_desc TypePower (-1) (-1) (-1) 10 2
       [(ModeInput, ''GND'')],
      pin_desc TypeGpio 13 23 65 11 1
       [(ModeInput, ''GPIOC1''), (ModeOutput, ''GPIOC1''), (ModeAlt2, ''NANDALE''), (ModeAlt3, ''SPI0MISO'')],
      pin_desc TypeGpio 6 1 1 11 2
       [(ModeInput, ''GPIOA1''), (ModeOutput, ''GPIOA1''), (ModeAlt2, ''UART2RX''), (ModeAlt3, ''JTAGCK''), (ModeAlt6, ''PAEINT1'')],
      pin_desc TypeGpio 14 24 66 12 1
       [(ModeInput, ''GPIOC2''), (ModeOutput, ''GPIOC2''), (ModeAlt2, ''NANDCLE''), (ModeAlt3, ''SPI0CLK'')],
      pin_desc TypeGpio 10 25 67 12 2
       [(ModeInput, ''GPIOC3''), (ModeOutput, ''GPIOC3''), (ModeAlt2, ''NANDCE1''), (ModeAlt3, ''SPI0CS'')],
      pin_desc TypePower (-1) (-1) (-1) 13 1
       [(ModeInput, ''GND'')],
      pin_desc TypeGpio 11 17 17 13 2
       [(ModeInput, ''GPIOA17''), (ModeOutput, ''GPIOA17''), (ModeAlt2, ''OWAOUT''), (ModeAlt6, ''PAEINT17'')],
      pin_desc TypeGpio 30 19 19 14 1
       [(ModeInput, ''GPIOA19''), (ModeOutput, ''GPIOA19''), (ModeAlt2, ''PCM0CLK''), (ModeAlt3, ''I2C1SDA''), (ModeAlt6, ''PAEINT19'')],
      pin_desc TypeGpio 31 18 18 14 2
       [(ModeInput, ''GPIOA18''), (ModeOutput, ''GPIOA18''), (ModeAlt2, ''PCM0SYNC''), (ModeAlt3, ''I2C1SCK''), (ModeAlt6, ''PAEINT18'')],
      pin_desc TypeGpio 21 20 20 15 1
       [(ModeInput, ''GPIOA20''), (ModeOutput, ''GPIOA20''), (ModeAlt2, ''PCM0DOUT''), (ModeAlt3, ''SIMVPPEN''), (ModeAlt6, ''PAEINT20'')],
      pin_desc TypePower (-1) (-1) (-1) 15 2
       [(ModeInput, ''GND'')],
      pin_desc TypeGpio 22 21 21 16 1
       [(ModeInput, ''GPIOA21''), (ModeOutput, ''GPIOA21''), (ModeAlt2, ''PCM0DIN''), (ModeAlt3, ''SIMVPPPP''), (ModeAlt6, ''PAEINT21'')],
      pin_desc TypeNotConnected (-1) (-1) (-1) 16 2
       [(ModeInput, ''NC'')],
      pin_desc TypeNotConnected (-1) (-1) (-1) 17 1
       [(ModeInput, ''NC'')],
      pin_desc TypePower (-1) (-1) (-1) 17 2
       [(ModeInput, ''GND'')],
      pin_desc TypeNotConnected (-1) (-1) (-1) 18 1
       [(ModeInput, ''NC'')],
      pin_desc TypeNotConnected (-1) (-1) (-1) 18 2
       [(ModeInput, ''NC'')],
      pin_desc TypeGpio 25 9 9 19 1
       [(ModeInput, ''GPIOA9''), (ModeOutput, ''GPIOA9''), (ModeAlt2, ''SIMRST''), (ModeAlt6, ''PAEINT9'')],
      pin_desc TypeNotConnected (-1) (-1) (-1) 19 2
       [(ModeInput, ''NC'')],
      pin_desc TypePower (-1) (-1) (-1) 20 1
       [(ModeInput, ''GND'')],
      pin_desc TypeNotConnected (-1) (-1) (-1) 20 2
       [(ModeInput, ''NC'')]]\<rparr>"

definition nanopi_3_dbg_uart :: ConnectorDescriptor where
  "nanopi_3_dbg_uart = \<lparr>cd_name = ''dbg_uart'', cd_number = 2, cd_rows = 4, cd_columns = 1, cd_pinNumber = nanopi_silConnector,
     cd_pin =
      [pin_desc TypePower (-1) (-1) (-1) 1 1
       [(ModeInput, ''GND'')],
      pin_desc TypePower (-1) (-1) (-1) 2 1
       [(ModeInput, ''5V'')],
      pin_desc TypeGpio 17 4 4 3 1
       [(ModeInput, ''GPIOA4''), (ModeOutput, ''GPIOA4''), (ModeAlt2, ''UART0TX''), (ModeAlt6, ''PAEINT4'')],
      pin_desc TypeGpio 18 5 5 4 1
       [(ModeInput, ''GPIOA5''), (ModeOutput, ''GPIOA5''), (ModeAlt2, ''UART0RX''), (ModeAlt3, ''PWM0''), (ModeAlt6, ''PAEINT5'')]]\<rparr>"

definition nanopi_3_inner :: ConnectorDescriptor where
  "nanopi_3_inner = \<lparr>cd_name = ''inner'', cd_number = 3, cd_rows = 2, cd_columns = 1, cd_pinNumber = nanopi_silConnector,
     cd_pin =
      [pin_desc TypeGpio 19 10 10 1 1
       [(ModeInput, ''GPIOA10''), (ModeOutput, ''STAT_LED''), (ModeAlt2, ''SIMDET''), (ModeAlt6, ''PAEINT10'')],
      pin_desc TypeGpio 32 104 362 2 1
       [(ModeInput, ''GPIOL10''), (ModeOutput, ''PWR_LED''), (ModeAlt2, ''SPWM''), (ModeAlt6, ''PLEINT10'')],
      pin_desc TypeGpio 33 97 355 3 1
       [(ModeInput, ''BUT_K1''), (ModeOutput, ''GPIOL3''), (ModeAlt2, ''SUARTRX''), (ModeAlt6, ''PLEINT3'')],
      pin_desc TypeGpio 20 105 363 4 1
       [(ModeInput, ''IR_RX''), (ModeOutput, ''GPIOL11''), (ModeAlt2, ''SCIRRX''), (ModeAlt6, ''PLEINT11'')]]\<rparr>"

definition nanopi_gpioDescriptors :: "(int \<times> GpioDescriptor) list" where
  "nanopi_gpioDescriptors =
    [(1, \<lparr>gd_name = ''nanopineo'', gd_connector = [nanopi_1_con1, nanopi_1_dbg_uart, nanopi_1_inner, nanopi_1_con2]\<rparr>),
     (2, \<lparr>gd_name = ''nanopim1'', gd_connector = [nanopi_2_con1, nanopi_2_dbg_uart, nanopi_2_inner]\<rparr>),
     (3, \<lparr>gd_name = ''nanopim1plus'', gd_connector = [nanopi_3_con1, nanopi_3_dbg_uart, nanopi_3_inner]\<rparr>)]"

section \<open>Raspberry Pi\<close>

definition bcm2835_dilConnector :: "int \<Rightarrow> int \<Rightarrow> int \<Rightarrow> int" where "bcm2835_dilConnector row column columns = (row - 1) * columns + column"

definition bcm2835_1_p1 :: ConnectorDescriptor where
  "bcm2835_1_p1 = \<lparr>cd_name = ''p1'', cd_number = 1, cd_rows = 13, cd_columns = 2, cd_pinNumber = bcm2835_dilConnector,
     cd_pin =
      [pin_desc TypePower (-1) (-1) (-1) 1 1
       [(ModeInput, ''3.3V'')],
      pin_desc TypePower (-1) (-1) (-1) 1 2
       [(ModeInput, ''5V'')],
      pin_desc TypeGpio 8 0 0 2 1
       [(ModeInput, ''GPIO0''), (ModeOutput, ''GPIO0''), (ModeAlt0, ''SDA0''), (ModeAlt1, ''SA5'')],
      pin_desc TypePower (-1) (-1) (-1) 2 2
       [(ModeInput, ''5V'')],
      pin_desc TypeGpio 9 1 1 3 1
       [(ModeInput, ''GPIO1''), (ModeOutput, ''GPIO1''), (ModeAlt0, ''SCL0''), (ModeAlt1, ''SA4'')],
      pin_desc TypePower (-1) (-1) (-1) 3 2
       [(ModeInput, ''GND'')],
      pin_desc TypeGpio 7 4 4 4 1
       [(ModeInput, ''GPIO4''), (ModeOutput, ''GPIO4''), (ModeAlt0, ''GPCLK0''), (ModeAlt1, ''SA1''), (ModeAlt5, ''ARMTDI'')],
      pin_desc TypeGpio 15 14 14 4 2
       [(ModeInput, ''GPIO14''), (ModeOutput, ''GPIO14''), (ModeAlt0, ''TXD0''), (ModeAlt1, ''SD6''), (ModeAlt5, ''TXD1'')],
      pin_desc TypePower (-1) (-1) (-1) 5 1
       [(ModeInput, ''GND'')],
      pin_desc TypeGpio 16 15 15 5 2
       [(ModeInput, ''GPIO15''), (ModeOutput, ''GPIO15''), (ModeAlt0, ''RXD0''), (ModeAlt1, ''SD7''), (ModeAlt5, ''RXD1'')],
      pin_desc TypeGpio 0 17 17 6 1
       [(ModeInput, ''GPIO17''), (ModeOutput, ''GPIO17''), (ModeAlt1, ''SD9''), (ModeAlt3, ''RTS0''), (ModeAlt4, ''SPI1CE1''), (ModeAlt5, ''RTS1'')],
      pin_desc TypeGpio 1 18 18 6 2
       [(ModeInput, ''GPIO18''), (ModeOutput, ''GPIO18''), (ModeAlt0, ''PCMCLK''), (ModeAlt1, ''SD10''), (ModeAlt3, ''BSMOSI''), (ModeAlt4, ''SPI1CE0''), (ModeAlt5, ''PWM0'')],
      pin_desc TypeGpio 2 21 21 7 1
       [(ModeInput, ''GPIO21''), (ModeOutput, ''GPIO21''), (ModeAlt0, ''PCMDOUT''), (ModeAlt1, ''SD13''), (ModeAlt3, ''BSCE''), (ModeAlt4, ''SPI1SCLK''), (ModeAlt5, ''GPCLK1'')],
      pin_desc TypePower (-1) (-1) (-1) 7 2
       [(ModeInput, ''GND'')],
      pin_desc TypeGpio 3 22 22 8 1
       [(ModeInput, ''GPIO22''), (ModeOutput, ''GPIO22''), (ModeAlt1, ''SD14''), (ModeAlt3, ''SD1CLK''), (ModeAlt4, ''ARMTRST'')],
      pin_desc TypeGpio 4 23 23 8 2
       [(ModeInput, ''GPIO23''), (ModeOutput, ''GPIO23''), (ModeAlt1, ''SD15''), (ModeAlt3, ''SD1CMD''), (ModeAlt4, ''ARMRTCK'')],
      pin_desc TypePower (-1) (-1) (-1) 9 1
       [(ModeInput, ''3.3V'')],
      pin_desc TypeGpio 5 24 24 9 2
       [(ModeInput, ''GPIO24''), (ModeOutput, ''GPIO24''), (ModeAlt1, ''SD16''), (ModeAlt3, ''SD1DAT0''), (ModeAlt4, ''ARMTDO'')],
      pin_desc TypeGpio 12 10 10 10 1
       [(ModeInput, ''GPIO10''), (ModeOutput, ''GPIO10''), (ModeAlt0, ''SPI0MOSI''), (ModeAlt1, ''SD2'')],
      pin_desc TypePower (-1) (-1) (-1) 10 2
       [(ModeInput, ''GND'')],
      pin_desc TypeGpio 13 9 9 11 1
       [(ModeInput, ''GPIO9''), (ModeOutput, ''GPIO9''), (ModeAlt0, ''SPI0MISO''), (ModeAlt1, ''SD1'')],
      pin_desc TypeGpio 6 25 25 11 2
       [(ModeInput, ''GPIO25''), (ModeOutput, ''GPIO25''), (ModeAlt1, ''SD17''), (ModeAlt3, ''SD1DAT1''), (ModeAlt4, ''ARMTCK'')],
      pin_desc TypeGpio 14 11 11 12 1
       [(ModeInput, ''GPIO11''), (ModeOutput, ''GPIO11''), (ModeAlt0, ''SPI0SCLK''), (ModeAlt1, ''SD3'')],
      pin_desc TypeGpio 10 8 8 12 2
       [(ModeInput, ''GPIO8''), (ModeOutput, ''GPIO8''), (ModeAlt0, ''SPI0CE0''), (ModeAlt1, ''SD0'')],
      pin_desc TypePower (-1) (-1) (-1) 13 1
       [(ModeInput, ''GND'')],
      pin_desc TypeGpio 11 7 7 13 2
       [(ModeInput, ''GPIO7''), (ModeOutput, ''GPIO7''), (ModeAlt0, ''SPI0CE1''), (ModeAlt1, ''SWE'')]]\<rparr>"

definition bcm2835_2_p1 :: ConnectorDescriptor where
  "bcm2835_2_p1 = \<lparr>cd_name = ''p1'', cd_number = 1, cd_rows = 23, cd_columns = 2, cd_pinNumber = bcm2835_dilConnector,
     cd_pin =
      [pin_desc TypePower (-1) (-1) (-1) 1 1
       [(ModeInput, ''3.3V'')],
      pin_desc TypePower (-1) (-1) (-1) 1 2
       [(ModeInput, ''5V'')],
      pin_desc TypeGpio 8 2 2 2 1
       [(ModeInput, ''GPIO2''), (ModeOutput, ''GPIO2''), (ModeAlt0, ''SDA1''), (ModeAlt1, ''SA3'')],
      pin_desc TypePower (-1) (-1) (-1) 2 2
       [(ModeInput, ''5V'')],
      pin_desc TypeGpio 9 3 3 3 1
       [(ModeInput, ''GPIO3''), (ModeOutput, ''GPIO3''), (ModeAlt0, ''SCL1''), (ModeAlt1, ''SA2'')],
      pin_desc TypePower (-1) (-1) (-1) 3 2
       [(ModeInput, ''GND'')],
      pin_desc TypeGpio 7 4 4 4 1
       [(ModeInput, ''GPIO4''), (ModeOutput, ''GPIO4''), (ModeAlt0, ''GPCLK0''), (ModeAlt1, ''SA1''), (ModeAlt5, ''ARMTDI'')],
      pin_desc TypeGpio 15 14 14 4 2
       [(ModeInput, ''GPIO14''), (ModeOutput, ''GPIO14''), (ModeAlt0, ''TXD0''), (ModeAlt1, ''SD6''), (ModeAlt5, ''TXD1'')],
      pin_desc TypePower (-1) (-1) (-1) 5 1
       [(ModeInput, ''GND'')],
      pin_desc TypeGpio 16 15 15 5 2
       [(ModeInput, ''GPIO15''), (ModeOutput, ''GPIO15''), (ModeAlt0, ''RXD0''), (ModeAlt1, ''SD7''), (ModeAlt5, ''RXD1'')],
      pin_desc TypeGpio 0 17 17 6 1
       [(ModeInput, ''GPIO17''), (ModeOutput, ''GPIO17''), (ModeAlt1, ''SD9''), (ModeAlt3, ''RTS0''), (ModeAlt4, ''SPI1CE1''), (ModeAlt5, ''RTS1'')],
      pin_desc TypeGpio 1 18 18 6 2
       [(ModeInput, ''GPIO18''), (ModeOutput, ''GPIO18''), (ModeAlt0, ''PCMCLK''), (ModeAlt1, ''SD10''), (ModeAlt3, ''BSMOSI''), (ModeAlt4, ''SPI1CE0''), (ModeAlt5, ''PWM0'')],
      pin_desc TypeGpio 2 27 27 7 1
       [(ModeInput, ''GPIO27''), (ModeOutput, ''GPIO27''), (ModeAlt3, ''SD1DAT3''), (ModeAlt4, ''ARMTMS'')],
      pin_desc TypePower (-1) (-1) (-1) 7 2
       [(ModeInput, ''GND'')],
      pin_desc TypeGpio 3 22 22 8 1
       [(ModeInput, ''GPIO22''), (ModeOutput, ''GPIO22''), (ModeAlt1, ''SD14''), (ModeAlt3, ''SD1CLK''), (ModeAlt4, ''ARMTRST'')],
      pin_desc TypeGpio 4 23 23 8 2
       [(ModeInput, ''GPIO23''), (ModeOutput, ''GPIO23''), (ModeAlt1, ''SD15''), (ModeAlt3, ''SD1CMD''), (ModeAlt4, ''ARMRTCK'')],
      pin_desc TypePower (-1) (-1) (-1) 9 1
       [(ModeInput, ''3.3V'')],
      pin_desc TypeGpio 5 24 24 9 2
       [(ModeInput, ''GPIO24''), (ModeOutput, ''GPIO24''), (ModeAlt1, ''SD16''), (ModeAlt3, ''SD1DAT0''), (ModeAlt4, ''ARMTDO'')],
      pin_desc TypeGpio 12 10 10 10 1
       [(ModeInput, ''GPIO10''), (ModeOutput, ''GPIO10''), (ModeAlt0, ''SPI0MOSI''), (ModeAlt1, ''SD2'')],
      pin_desc TypePower (-1) (-1) (-1) 10 2
       [(ModeInput, ''GND'')],
      pin_desc TypeGpio 13 9 9 11 1
       [(ModeInput, ''GPIO9''), (ModeOutput, ''GPIO9''), (ModeAlt0, ''SPI0MISO''), (ModeAlt1, ''SD1'')],
      pin_desc TypeGpio 6 25 25 11 2
       [(ModeInput, ''GPIO25''), (ModeOutput, ''GPIO25''), (ModeAlt1, ''SD17''), (ModeAlt3, ''SD1DAT1''), (ModeAlt4, ''ARMTCK'')],
      pin_desc TypeGpio 14 11 11 12 1
       [(ModeInput, ''GPIO11''), (ModeOutput, ''GPIO11''), (ModeAlt0, ''SPI0SCLK''), (ModeAlt1, ''SD3'')],
      pin_desc TypeGpio 10 8 8 12 2
       [(ModeInput, ''GPIO8''), (ModeOutput, ''GPIO8''), (ModeAlt0, ''SPI0CE0''), (ModeAlt1, ''SD0'')],
      pin_desc TypePower (-1) (-1) (-1) 13 1
       [(ModeInput, ''GND'')],
      pin_desc TypeGpio 11 7 7 13 2
       [(ModeInput, ''GPIO7''), (ModeOutput, ''GPIO7''), (ModeAlt0, ''SPI0CE1''), (ModeAlt1, ''SWE'')]]\<rparr>"

definition bcm2835_2_p5 :: ConnectorDescriptor where
  "bcm2835_2_p5 = \<lparr>cd_name = ''p5'', cd_number = 2, cd_rows = 4, cd_columns = 2, cd_pinNumber = bcm2835_dilConnector,
     cd_pin =
      [pin_desc TypePower (-1) (-1) (-1) 1 1
       [(ModeInput, ''5V '')],
      pin_desc TypePower (-1) (-1) (-1) 1 2
       [(ModeInput, ''3.3V'')],
      pin_desc TypeGpio 17 28 28 2 1
       [(ModeInput, ''GPIO28''), (ModeOutput, ''GPIO28'')],
      pin_desc TypeGpio 18 29 29 2 2
       [(ModeInput, ''GPIO29''), (ModeOutput, ''GPIO29'')],
      pin_desc TypeGpio 19 30 30 3 1
       [(ModeInput, ''GPIO30''), (ModeOutput, ''GPIO30'')],
      pin_desc TypeGpio 20 31 31 3 2
       [(ModeInput, ''GPIO31''), (ModeOutput, ''GPIO31'')],
      pin_desc TypePower (-1) (-1) (-1) 4 1
       [(ModeInput, ''GND '')],
      pin_desc TypePower (-1) (-1) (-1) 4 2
       [(ModeInput, ''GND '')]]\<rparr>"

definition bcm2835_3_j8 :: ConnectorDescriptor where
  "bcm2835_3_j8 = \<lparr>cd_name = ''j8'', cd_number = 1, cd_rows = 20, cd_columns = 2, cd_pinNumber = bcm2835_dilConnector,
     cd_pin =
      [pin_desc TypePower (-1) (-1) (-1) 1 1
       [(ModeInput, ''3.3V'')],
      pin_desc TypePower (-1) (-1) (-1) 1 2
       [(ModeInput, ''5V'')],
      pin_desc TypeGpio 8 2 2 2 1
       [(ModeInput, ''GPIO2''), (ModeOutput, ''GPIO2''), (ModeAlt0, ''SDA1''), (ModeAlt1, ''SA3'')],
      pin_desc TypePower (-1) (-1) (-1) 2 2
       [(ModeInput, ''5V'')],
      pin_desc TypeGpio 9 3 3 3 1
       [(ModeInput, ''GPIO3''), (ModeOutput, ''GPIO3''), (ModeAlt0, ''SCL1''), (ModeAlt1, ''SA2'')],
      pin_desc TypePower (-1) (-1) (-1) 3 2
       [(ModeInput, ''GND'')],
      pin_desc TypeGpio 7 4 4 4 1
       [(ModeInput, ''GPIO4''), (ModeOutput, ''GPIO4''), (ModeAlt0, ''GPCLK0''), (ModeAlt1, ''SA1''), (ModeAlt5, ''ARMTDI'')],
      pin_desc TypeGpio 15 14 14 4 2
       [(ModeInput, ''GPIO14''), (ModeOutput, ''GPIO14''), (ModeAlt0, ''TXD0''), (ModeAlt1, ''SD6''), (ModeAlt5, ''TXD1'')],
      pin_desc TypePower (-1) (-1) (-1) 5 1
       [(ModeInput, ''GND'')],
      pin_desc TypeGpio 16 15 15 5 2
       [(ModeInput, ''GPIO15''), (ModeOutput, ''GPIO15''), (ModeAlt0, ''RXD0''), (ModeAlt1, ''SD7''), (ModeAlt5, ''RXD1'')],
      pin_desc TypeGpio 0 17 17 6 1
       [(ModeInput, ''GPIO17''), (ModeOutput, ''GPIO17''), (ModeAlt1, ''SD9''), (ModeAlt3, ''RTS0''), (ModeAlt4, ''SPI1CE1''), (ModeAlt5, ''RTS1'')],
      pin_desc TypeGpio 1 18 18 6 2
       [(ModeInput, ''GPIO18''), (ModeOutput, ''GPIO18''), (ModeAlt0, ''PCMCLK''), (ModeAlt1, ''SD10''), (ModeAlt3, ''BSMOSI''), (ModeAlt4, ''SPI1CE0''), (ModeAlt5, ''PWM0'')],
      pin_desc TypeGpio 2 27 27 7 1
       [(ModeInput, ''GPIO27''), (ModeOutput, ''GPIO27''), (ModeAlt3, ''SD1DAT3''), (ModeAlt4, ''ARMTMS'')],
      pin_desc TypePower (-1) (-1) (-1) 7 2
       [(ModeInput, ''GND'')],
      pin_desc TypeGpio 3 22 22 8 1
       [(ModeInput, ''GPIO22''), (ModeOutput, ''GPIO22''), (ModeAlt1, ''SD14''), (ModeAlt3, ''SD1CLK''), (ModeAlt4, ''ARMTRST'')],
      pin_desc TypeGpio 4 23 23 8 2
       [(ModeInput, ''GPIO23''), (ModeOutput, ''GPIO23''), (ModeAlt1, ''SD15''), (ModeAlt3, ''SD1CMD''), (ModeAlt4, ''ARMRTCK'')],
      pin_desc TypePower (-1) (-1) (-1) 9 1
       [(ModeInput, ''3.3V'')],
      pin_desc TypeGpio 5 24 24 9 2
       [(ModeInput, ''GPIO24''), (ModeOutput, ''GPIO24''), (ModeAlt1, ''SD16''), (ModeAlt3, ''SD1DAT0''), (ModeAlt4, ''ARMTDO'')],
      pin_desc TypeGpio 12 10 10 10 1
       [(ModeInput, ''GPIO10''), (ModeOutput, ''GPIO10''), (ModeAlt0, ''SPI0MOSI''), (ModeAlt1, ''SD2'')],
      pin_desc TypePower (-1) (-1) (-1) 10 2
       [(ModeInput, ''GND'')],
      pin_desc TypeGpio 13 9 9 11 1
       [(ModeInput, ''GPIO9''), (ModeOutput, ''GPIO9''), (ModeAlt0, ''SPI0MISO''), (ModeAlt1, ''SD1'')],
      pin_desc TypeGpio 6 25 25 11 2
       [(ModeInput, ''GPIO25''), (ModeOutput, ''GPIO25''), (ModeAlt1, ''SD17''), (ModeAlt3, ''SD1DAT1''), (ModeAlt4, ''ARMTCK'')],
      pin_desc TypeGpio 14 11 11 12 1
       [(ModeInput, ''GPIO11''), (ModeOutput, ''GPIO11''), (ModeAlt0, ''SPI0SCLK''), (ModeAlt1, ''SD3'')],
      pin_desc TypeGpio 10 8 8 12 2
       [(ModeInput, ''GPIO8''), (ModeOutput, ''GPIO8''), (ModeAlt0, ''SPI0CE0''), (ModeAlt1, ''SD0'')],
      pin_desc TypePower (-1) (-1) (-1) 13 1
       [(ModeInput, ''GND'')],
      pin_desc TypeGpio 11 7 7 13 2
       [(ModeInput, ''GPIO7''), (ModeOutput, ''GPIO7''), (ModeAlt0, ''SPI0CE1''), (ModeAlt1, ''SWE'')],
      pin_desc TypeGpio 30 0 0 14 1
       [(ModeInput, ''GPIO0''), (ModeOutput, ''GPIO0''), (ModeAlt0, ''SDA0''), (ModeAlt1, ''SA5'')],
      pin_desc TypeGpio 31 1 1 14 2
       [(ModeInput, ''GPIO1''), (ModeOutput, ''GPIO1''), (ModeAlt0, ''SCL0''), (ModeAlt1, ''SA4'')],
      pin_desc TypeGpio 21 5 5 15 1
       [(ModeInput, ''GPIO5''), (ModeOutput, ''GPIO5''), (ModeAlt0, ''GPCLK1''), (ModeAlt1, ''SA0''), (ModeAlt5, ''ARMTDO'')],
      pin_desc TypePower (-1) (-1) (-1) 15 2
       [(ModeInput, ''GND'')],
      pin_desc TypeGpio 22 6 6 16 1
       [(ModeInput, ''GPIO6''), (ModeOutput, ''LAN_RUN''), (ModeAlt0, ''GPCLK2''), (ModeAlt1, ''SOE''), (ModeAlt5, ''ARMRTCK'')],
      pin_desc TypeGpio 26 12 12 16 2
       [(ModeInput, ''GPIO12''), (ModeOutput, ''GPIO12''), (ModeAlt0, ''PWM0''), (ModeAlt1, ''SD4''), (ModeAlt5, ''ARMTMS'')],
      pin_desc TypeGpio 23 13 13 17 1
       [(ModeInput, ''GPIO13''), (ModeOutput, ''GPIO13''), (ModeAlt0, ''PWM1''), (ModeAlt1, ''SD5''), (ModeAlt5, ''ARMTCK'')],
      pin_desc TypePower (-1) (-1) (-1) 17 2
       [(ModeInput, ''GND'')],
      pin_desc TypeGpio 24 19 19 18 1
       [(ModeInput, ''GPIO19''), (ModeOutput, ''GPIO19''), (ModeAlt0, ''PCMFS''), (ModeAlt1, ''SD11''), (ModeAlt3, ''BSSCLK''), (ModeAlt4, ''SPI1MISO''), (ModeAlt5, ''PWM1'')],
      pin_desc TypeGpio 27 16 16 18 2
       [(ModeInput, ''GPIO16''), (ModeOutput, ''STAT_LED''), (ModeAlt1, ''SD8''), (ModeAlt3, ''CTS0''), (ModeAlt4, ''SPI1CE2''), (ModeAlt5, ''CTS1'')],
      pin_desc TypeGpio 25 26 26 19 1
       [(ModeInput, ''GPIO26''), (ModeOutput, ''GPIO26''), (ModeAlt3, ''SD1DAT2''), (ModeAlt4, ''ARMTDI'')],
      pin_desc TypeGpio 28 20 20 19 2
       [(ModeInput, ''GPIO20''), (ModeOutput, ''GPIO20''), (ModeAlt0, ''PCMDIN''), (ModeAlt1, ''SD12''), (ModeAlt3, ''BSMISO''), (ModeAlt4, ''SPI1MOSI''), (ModeAlt5, ''GPCLK0'')],
      pin_desc TypePower (-1) (-1) (-1) 20 1
       [(ModeInput, ''GND'')],
      pin_desc TypeGpio 29 21 21 20 2
       [(ModeInput, ''GPIO21''), (ModeOutput, ''GPIO21''), (ModeAlt0, ''PCMDOUT''), (ModeAlt1, ''SD13''), (ModeAlt3, ''BSCE''), (ModeAlt4, ''SPI1SCLK''), (ModeAlt5, ''GPCLK1'')]]\<rparr>"

definition bcm2835_gpioDescriptors :: "(int \<times> GpioDescriptor) list" where
  "bcm2835_gpioDescriptors =
    [(1, \<lparr>gd_name = ''rpi-rev1'', gd_connector = [bcm2835_1_p1]\<rparr>),
     (2, \<lparr>gd_name = ''rpi-rev2'', gd_connector = [bcm2835_2_p1, bcm2835_2_p5]\<rparr>),
     (3, \<lparr>gd_name = ''rpi-rev3'', gd_connector = [bcm2835_3_j8]\<rparr>)]"

end
