(* ===== verification/Gpio_Devices.thy ===== *)
theory Gpio_Devices
  imports Gpio_Descriptors Gpio Boards Gpio_Boards
begin

text \<open>
  The two devices of the C++ interface of the GPIO: \<open>src/src/arch/arm/nanopi/gpiodevice_nanopi.cpp\<close> and
  \<open>src/src/arch/arm/rpi/gpiodevice_bcm2835.cpp\<close> with their headers, over maps of registers.  The world of a device has its own
  fields, the allocator and the registers.
\<close>

definition ENODEV :: int where "ENODEV = 19"
definition EACCES :: int where "EACCES = 13"

text \<open>Accesses to registers; \<open>Clock::delayMicroseconds\<close> is the delay of the system.\<close>

definition reg_get :: "'w iosys \<Rightarrow> xIoMap option \<Rightarrow> nat \<Rightarrow> ('d \<times> mem \<times> 'w, u32) cxx" where
  "reg_get K p i s = (let (d, m, w) = s in cbind (io_get K p i w) (\<lambda>(v, w). Inr (Inr v, d, m, w)))"

definition reg_put :: "'w iosys \<Rightarrow> xIoMap option \<Rightarrow> nat \<Rightarrow> u32 \<Rightarrow> ('d \<times> mem \<times> 'w, unit) cxx" where
  "reg_put K p i v s = (let (d, m, w) = s in cbind (io_put K p i v w) (\<lambda>w. Inr (Inr (), d, m, w)))"

definition reg_upd :: "'w iosys \<Rightarrow> xIoMap option \<Rightarrow> nat \<Rightarrow> (u32 \<Rightarrow> u32) \<Rightarrow> ('d \<times> mem \<times> 'w, unit) cxx" where
  "reg_upd K p i f s = (let (d, m, w) = s in cbind (io_upd K p i f w) (\<lambda>w. Inr (Inr (), d, m, w)))"

definition dev_delay_us :: "'w iosys \<Rightarrow> int \<Rightarrow> ('d \<times> mem \<times> 'w, unit) cxx" where
  "dev_delay_us K n s = (let (d, m, w) = s in Inr (Inr (), d, m, os_delay_us K n w))"

section \<open>NanoPi\<close>

record DeviceNanoPi =
  dn_isopen :: bool
  dn_iomap0 :: "xIoMap option"
  dn_iomap1 :: "xIoMap option"

type_synonym 'w nano_dev = "DeviceNanoPi \<times> mem \<times> 'w"

definition Pio1Offset :: nat where "Pio1Offset = 0x800"
definition Pio2Offset :: nat where "Pio2Offset = 0xC00"

definition DeviceNanoPi_modes :: "(Mode \<times> string) list" where
  "DeviceNanoPi_modes = [(ModeInput, ''in''), (ModeOutput, ''out''), (ModeAlt2, ''alt2''), (ModeAlt3, ''alt3''), (ModeAlt4, ''alt4''),
     (ModeAlt5, ''alt5''), (ModeAlt6, ''alt6''), (ModeDisabled, ''off''), (ModePwm, ''pwm'')]"

definition DeviceNanoPi_int2mode :: "(u32 \<times> Mode) list" where
  "DeviceNanoPi_int2mode = [(0, ModeInput), (1, ModeOutput), (2, ModeAlt2), (3, ModeAlt3), (4, ModeAlt4), (5, ModeAlt5), (6, ModeAlt6),
     (7, ModeDisabled)]"

definition DeviceNanoPi_mode2int :: "(Mode \<times> u32) list" where
  "DeviceNanoPi_mode2int = [(ModeInput, 0), (ModeOutput, 1), (ModeAlt2, 2), (ModeAlt3, 3), (ModeAlt4, 4), (ModeAlt5, 5), (ModeAlt6, 6),
     (ModeDisabled, 7)]"

definition DeviceNanoPi_portSize :: "int list" where "DeviceNanoPi_portSize = [22, 0, 17, 18, 16, 7, 14, 12, -1]"

text \<open>The bank of a port: its map and the index of its first register.  An index above 7 gives no bank.\<close>

definition DeviceNanoPi_bank :: "nat \<Rightarrow> ('w nano_dev, (xIoMap option \<times> nat) option) cxx" where
  "DeviceNanoPi_bank bkindex s =
     (let d = fst s; at = (\<lambda>p i. cbind (pIo p i) (\<lambda>_. Inr (Inr (Some (p, i)), s))) in
      if dn_isopen d then
        if bkindex < 7 then at (dn_iomap0 d) ((Pio1Offset + bkindex * 0x24) div 4)
        else if bkindex = 7 then at (dn_iomap1 d) (Pio2Offset div 4)
        else Inr (Inr None, s)
      else Inr (Inl (system_error ENODEV), s))"

text \<open>The bank of a pin and its number there.  The loop over the ports is that of the C interface.  A negative number would be an index
  before the registers.\<close>

definition DeviceNanoPi_pinBank :: "int \<Rightarrow> ('w nano_dev, xIoMap option \<times> nat \<times> nat) cxx" where
  "DeviceNanoPi_pinBank mcupin =
     (let (bkindex, ng) = find_port DeviceNanoPi_portSize 0 mcupin in
      if bkindex < 8
      then xbind (DeviceNanoPi_bank bkindex) (\<lambda>b. case b of
             None \<Rightarrow> xcrash NullPointer
           | Some (p, i) \<Rightarrow> if ng < 0 then xcrash OutOfBounds else xret (p, i, nat ng))
      else xthrow out_of_range)"

definition DeviceNanoPi_mode :: "'w iosys \<Rightarrow> int \<Rightarrow> ('w nano_dev, Mode) cxx" where
  "DeviceNanoPi_mode K g =
     xbind (DeviceNanoPi_pinBank g) (\<lambda>(p, b, f). let r = f div 8; i = (f - r * 8) * 4 in
     xbind (reg_get K p (b + bk_CFG + r)) (\<lambda>v.
     xbind (map_at DeviceNanoPi_int2mode (drop_bit i v AND 7)) (\<lambda>ret.
       xret (if ret = ModeAlt3 \<and> (g = 5 \<or> g = 6) \<or> ret = ModeAlt2 \<and> g = 104 then ModePwm else ret))))"

definition DeviceNanoPi_setMode :: "'w iosys \<Rightarrow> int \<Rightarrow> Mode \<Rightarrow> ('w nano_dev, unit) cxx" where
  "DeviceNanoPi_setMode K g m =
     xbind (DeviceNanoPi_pinBank g) (\<lambda>(p, b, f). let r = f div 8; i = (f - r * 8) * 4 in
     xbind (if m = ModePwm then
              if g = 5 \<or> g = 6 then xret ModeAlt3 else if g = 104 then xret ModeAlt2 else xthrow invalid_argument
            else xret m) (\<lambda>m.
     xbind (map_at DeviceNanoPi_mode2int m) (\<lambda>v.
     xseq (reg_upd K p (b + bk_CFG + r) (\<lambda>x. x AND NOT (push_bit i 0xF)))
          (reg_upd K p (b + bk_CFG + r) (\<lambda>x. x OR push_bit i v)))))"

definition DeviceNanoPi_pull :: "'w iosys \<Rightarrow> int \<Rightarrow> ('w nano_dev, Pull) cxx" where
  "DeviceNanoPi_pull K g =
     xbind (DeviceNanoPi_pinBank g) (\<lambda>(p, b, f). let r = f div 16; i = (f - r * 16) * 2 in
     xbind (reg_get K p (b + bk_PUL + r)) (\<lambda>x. let v = drop_bit i x AND 3 in
       xret (if v = 0 then PullOff else if v = 2 then PullDown else if v = 1 then PullUp else PullUnknown)))"

definition DeviceNanoPi_setPull :: "'w iosys \<Rightarrow> int \<Rightarrow> Pull \<Rightarrow> ('w nano_dev, unit) cxx" where
  "DeviceNanoPi_setPull K g q =
     xbind (DeviceNanoPi_pinBank g) (\<lambda>(p, b, f).
       case (case q of PullOff \<Rightarrow> Some 0 | PullDown \<Rightarrow> Some 2 | PullUp \<Rightarrow> Some (1 :: u32) | PullUnknown \<Rightarrow> None) of
         None \<Rightarrow> xret ()
       | Some v \<Rightarrow>
           let r = f div 16; i = (f - r * 16) * 2 in
           xseq (reg_upd K p (b + bk_PUL + r) (\<lambda>x. x AND NOT (push_bit i 3)))
           (xseq (dev_delay_us K 10)
           (xseq (reg_upd K p (b + bk_PUL + r) (\<lambda>x. x OR push_bit i v)) (dev_delay_us K 10))))"

definition DeviceNanoPi_write :: "'w iosys \<Rightarrow> int \<Rightarrow> bool \<Rightarrow> ('w nano_dev, unit) cxx" where
  "DeviceNanoPi_write K g v =
     xbind (DeviceNanoPi_pinBank g) (\<lambda>(p, b, f).
       reg_upd K p (b + bk_DAT) (\<lambda>x. if v then x OR push_bit f 1 else x AND NOT (push_bit f 1)))"

definition DeviceNanoPi_toggle :: "'w iosys \<Rightarrow> int \<Rightarrow> ('w nano_dev, unit) cxx" where
  "DeviceNanoPi_toggle K g =
     xbind (DeviceNanoPi_pinBank g) (\<lambda>(p, b, f). reg_upd K p (b + bk_DAT) (\<lambda>x. x XOR push_bit f 1))"

definition DeviceNanoPi_read :: "'w iosys \<Rightarrow> int \<Rightarrow> ('w nano_dev, bool) cxx" where
  "DeviceNanoPi_read K g =
     xbind (DeviceNanoPi_pinBank g) (\<lambda>(p, b, f). xbind (reg_get K p (b + bk_DAT)) (\<lambda>x. xret (x AND push_bit f 1 \<noteq> 0)))"

text \<open>When the second map cannot be opened the first one is closed.\<close>

definition DeviceNanoPi_open :: "'w iosys \<Rightarrow> ('w nano_dev, bool) cxx" where
  "DeviceNanoPi_open K s =
     (let (d, m, w) = s in
      if dn_isopen d then Inr (Inr True, s)
      else
        let (p0, m, w) = xIoMapOpen K H3_IO1_BASE H3_BLOCK_SIZE (m, w); d = d\<lparr>dn_iomap0 := p0\<rparr> in
        if p0 = None then Inr (Inl (system_error EACCES), d, m, w)
        else
          let (p1, m, w) = xIoMapOpen K H3_IO2_BASE H3_BLOCK_SIZE (m, w); d = d\<lparr>dn_iomap1 := p1\<rparr> in
          if p1 \<noteq> None then Inr (Inr True, d\<lparr>dn_isopen := True\<rparr>, m, w)
          else cbind (iIoMapClose K p0 w) (\<lambda>(_, w). Inr (Inl (system_error EACCES), d, m, w)))"

definition DeviceNanoPi_close :: "'w iosys \<Rightarrow> ('w nano_dev, unit) cxx" where
  "DeviceNanoPi_close K s =
     (let (d, m, w) = s in
      if dn_isopen d then
        cbind (iIoMapClose K (dn_iomap0 d) w) (\<lambda>(_, w). cbind (iIoMapClose K (dn_iomap1 d) w) (\<lambda>(_, w).
          Inr (Inr (), d\<lparr>dn_isopen := False\<rparr>, m, w)))
      else Inr (Inr (), s))"

definition DeviceNanoPi_flags :: u32 where "DeviceNanoPi_flags = hasPullRead OR hasToggle"
definition DeviceNanoPi_preferedAccessLayer :: u32 where "DeviceNanoPi_preferedAccessLayer = AccessLayerAll"

text \<open>The methods as a device.  The constructor gives the descriptor of the board that was found.\<close>

definition nanopi_device :: "'w iosys \<Rightarrow> GpioDescriptor \<Rightarrow> 'w nano_dev Device" where
  "nanopi_device K desc =
     \<lparr>dv_flags = DeviceNanoPi_flags, dv_descriptor = desc, dv_preferedAccessLayer = DeviceNanoPi_preferedAccessLayer,
      dv_modes = DeviceNanoPi_modes, dv_open = DeviceNanoPi_open K, dv_close = DeviceNanoPi_close K, dv_setMode = DeviceNanoPi_setMode K,
      dv_setPull = DeviceNanoPi_setPull K, dv_write = DeviceNanoPi_write K, dv_toggle = DeviceNanoPi_toggle K, dv_read = DeviceNanoPi_read K,
      dv_mode = DeviceNanoPi_mode K, dv_pull = DeviceNanoPi_pull K\<rparr>"

definition DeviceNanoPi_new :: "xNanoPi option \<Rightarrow> ('s, GpioDescriptor) cxx" where
  "DeviceNanoPi_new info =
     (case info of None \<Rightarrow> xthrow (system_error ENOTSUP) | Some i \<Rightarrow> map_at nanopi_gpioDescriptors (np_iGpioRev i))"

section \<open>Raspberry Pi\<close>

record DeviceBcm2835 =
  db_isopen :: bool
  db_iomap :: "xIoMap option"

type_synonym 'w bcm_dev = "DeviceBcm2835 \<times> mem \<times> 'w"

definition PioOffset :: int where "PioOffset = 0x200000"
definition GFPSEL0 :: nat where "GFPSEL0 = 0"
definition BCM_GPSET0 :: nat where "BCM_GPSET0 = 7"
definition BCM_GPCLR0 :: nat where "BCM_GPCLR0 = 10"
definition BCM_GPLEV0 :: nat where "BCM_GPLEV0 = 13"
definition BCM_GPPUD :: nat where "BCM_GPPUD = 37"
definition BCM_GPPUDCLK0 :: nat where "BCM_GPPUDCLK0 = 38"

definition DeviceBcm2835_iobase :: "(int \<times> int) list" where
  "DeviceBcm2835_iobase = [(eRpiMcuBcm2708, BCM2708_IO_BASE), (eRpiMcuBcm2709, BCM2709_IO_BASE), (eRpiMcuBcm2710, BCM2709_IO_BASE)]"

definition DeviceBcm2835_modes :: "(Mode \<times> string) list" where
  "DeviceBcm2835_modes = [(ModeInput, ''in''), (ModeOutput, ''out''), (ModeAlt0, ''alt0''), (ModeAlt1, ''alt1''), (ModeAlt2, ''alt2''),
     (ModeAlt3, ''alt3''), (ModeAlt4, ''alt4''), (ModeAlt5, ''alt5''), (ModePwm, ''pwm'')]"

definition DeviceBcm2835_int2mode :: "(u32 \<times> Mode) list" where
  "DeviceBcm2835_int2mode = [(0, ModeInput), (1, ModeOutput), (4, ModeAlt0), (5, ModeAlt1), (6, ModeAlt2), (7, ModeAlt3), (3, ModeAlt4), (2, ModeAlt5)]"

definition DeviceBcm2835_mode2int :: "(Mode \<times> u32) list" where
  "DeviceBcm2835_mode2int = [(ModeInput, 0), (ModeOutput, 1), (ModeAlt0, 4), (ModeAlt1, 5), (ModeAlt2, 6), (ModeAlt3, 7), (ModeAlt4, 3), (ModeAlt5, 2)]"

text \<open>\<open>readReg\<close> and \<open>writeReg\<close>: before the first opening the map is not initialised.\<close>

definition DeviceBcm2835_readReg :: "'w iosys \<Rightarrow> nat \<Rightarrow> ('w bcm_dev, u32) cxx" where
  "DeviceBcm2835_readReg K offset s = reg_get K (db_iomap (fst s)) offset s"

definition DeviceBcm2835_writeReg :: "'w iosys \<Rightarrow> nat \<Rightarrow> u32 \<Rightarrow> ('w bcm_dev, unit) cxx" where
  "DeviceBcm2835_writeReg K offset value s = reg_put K (db_iomap (fst s)) offset value s"

text \<open>A negative number would shift by a negative count.\<close>

definition bcm_pin :: "int \<Rightarrow> ('s, nat) cxx" where "bcm_pin g = (if g < 0 then xcrash OutOfBounds else xret (nat g))"

definition DeviceBcm2835_mode :: "'w iosys \<Rightarrow> int \<Rightarrow> ('w bcm_dev, Mode) cxx" where
  "DeviceBcm2835_mode K mcu =
     xbind (bcm_pin mcu) (\<lambda>g.
     xbind (DeviceBcm2835_readReg K (GFPSEL0 + g div 10)) (\<lambda>v.
     xbind (map_at DeviceBcm2835_int2mode (drop_bit (g mod 10 * 3) v AND 7)) (\<lambda>m.
       xret (if m = ModeAlt0 \<and> (g = 12 \<or> g = 13) \<or> m = ModeAlt5 \<and> (g = 18 \<or> g = 19) then ModePwm else m))))"

definition DeviceBcm2835_setMode :: "'w iosys \<Rightarrow> int \<Rightarrow> Mode \<Rightarrow> ('w bcm_dev, unit) cxx" where
  "DeviceBcm2835_setMode K mcu m =
     xbind (if m = ModePwm then
              if mcu = 12 \<or> mcu = 13 then xret ModeAlt0 else if mcu = 18 \<or> mcu = 19 then xret ModeAlt5 else xthrow invalid_argument
            else xret m) (\<lambda>m.
     xbind (bcm_pin mcu) (\<lambda>g. let offset = GFPSEL0 + g div 10; lsr = g mod 10 * 3 in
     xbind (DeviceBcm2835_readReg K offset) (\<lambda>rval.
     xbind (map_at DeviceBcm2835_mode2int m) (\<lambda>mval.
       DeviceBcm2835_writeReg K offset ((rval AND NOT (push_bit lsr 7)) OR push_bit lsr mval)))))"

text \<open>The register of a pin above 31 is the next one.\<close>

definition bcm_place :: "nat \<Rightarrow> nat \<Rightarrow> nat \<times> nat" where "bcm_place reg g = (if g > 31 then (reg + 1, g - 32) else (reg, g))"

definition DeviceBcm2835_setPull :: "'w iosys \<Rightarrow> int \<Rightarrow> Pull \<Rightarrow> ('w bcm_dev, unit) cxx" where
  "DeviceBcm2835_setPull K mcu q =
     xbind (bcm_pin mcu) (\<lambda>g. let (pclk, g) = bcm_place BCM_GPPUDCLK0 g in
       case (case q of PullOff \<Rightarrow> Some 0 | PullDown \<Rightarrow> Some 1 | PullUp \<Rightarrow> Some 2 | PullUnknown \<Rightarrow> None) of
         None \<Rightarrow> xret ()
       | Some pval \<Rightarrow>
           xseq (DeviceBcm2835_writeReg K BCM_GPPUD pval) (xseq (dev_delay_us K 10)
           (xseq (DeviceBcm2835_writeReg K pclk (push_bit g 1)) (xseq (dev_delay_us K 10)
           (xseq (DeviceBcm2835_writeReg K BCM_GPPUD 0) (DeviceBcm2835_writeReg K pclk 0))))))"

definition DeviceBcm2835_write :: "'w iosys \<Rightarrow> int \<Rightarrow> bool \<Rightarrow> ('w bcm_dev, unit) cxx" where
  "DeviceBcm2835_write K mcu v =
     xbind (bcm_pin mcu) (\<lambda>g. let (offset, g) = bcm_place (if v then BCM_GPSET0 else BCM_GPCLR0) g in
       DeviceBcm2835_writeReg K offset (push_bit g 1))"

definition DeviceBcm2835_read :: "'w iosys \<Rightarrow> int \<Rightarrow> ('w bcm_dev, bool) cxx" where
  "DeviceBcm2835_read K mcu =
     xbind (bcm_pin mcu) (\<lambda>g. let (offset, g) = bcm_place BCM_GPLEV0 g in
       xbind (DeviceBcm2835_readReg K offset) (\<lambda>v. xret (v AND push_bit g 1 \<noteq> 0)))"

definition DeviceBcm2835_open :: "'w iosys \<Rightarrow> ('w \<Rightarrow> int) \<Rightarrow> int \<Rightarrow> ('w bcm_dev, bool) cxx" where
  "DeviceBcm2835_open K errno piobase s =
     (let (d, m, w) = s in
      if db_isopen d then Inr (Inr True, s)
      else
        let (p, m, w) = xIoMapOpen K piobase BCM270X_BLOCK_SIZE (m, w); d = d\<lparr>db_iomap := p\<rparr> in
        if p \<noteq> None then Inr (Inr True, d\<lparr>db_isopen := True\<rparr>, m, w) else Inr (Inl (system_error (errno w)), d, m, w))"

definition DeviceBcm2835_close :: "'w iosys \<Rightarrow> ('w bcm_dev, unit) cxx" where
  "DeviceBcm2835_close K s =
     (let (d, m, w) = s in
      if db_isopen d then cbind (iIoMapClose K (db_iomap d) w) (\<lambda>(_, w). Inr (Inr (), d\<lparr>db_isopen := False\<rparr>, m, w))
      else Inr (Inr (), s))"

definition DeviceBcm2835_flags :: u32 where "DeviceBcm2835_flags = hasAltRead"
definition DeviceBcm2835_preferedAccessLayer :: u32 where "DeviceBcm2835_preferedAccessLayer = AccessLayerAll"

definition bcm_device :: "'w iosys \<Rightarrow> ('w \<Rightarrow> int) \<Rightarrow> int \<Rightarrow> GpioDescriptor \<Rightarrow> 'w bcm_dev Device" where
  "bcm_device K errno piobase desc =
     \<lparr>dv_flags = DeviceBcm2835_flags, dv_descriptor = desc, dv_preferedAccessLayer = DeviceBcm2835_preferedAccessLayer,
      dv_modes = DeviceBcm2835_modes, dv_open = DeviceBcm2835_open K errno piobase, dv_close = DeviceBcm2835_close K,
      dv_setMode = DeviceBcm2835_setMode K, dv_setPull = DeviceBcm2835_setPull K, dv_write = DeviceBcm2835_write K,
      dv_toggle = Device_toggle, dv_read = DeviceBcm2835_read K, dv_mode = DeviceBcm2835_mode K, dv_pull = Device_pull\<rparr>"

definition DeviceBcm2835_new :: "xRpi option \<Rightarrow> ('s, int \<times> GpioDescriptor) cxx" where
  "DeviceBcm2835_new info =
     (case info of
        None \<Rightarrow> xthrow (system_error ENOTSUP)
      | Some i \<Rightarrow> xbind (map_at DeviceBcm2835_iobase (rp_eMcu i)) (\<lambda>iobase.
          xbind (map_at bcm2835_gpioDescriptors (rp_iGpioRev i)) (\<lambda>desc. xret (iobase + PioOffset, desc))))"

end
