(* ===== verification/Gpio_Classes.thy ===== *)
theory Gpio_Classes
  imports Gpio_Pin Serial
begin

text \<open>
  The classes \<open>Connector\<close> (\<open>src/src/gpio/gpioconnector.cpp\<close>) and \<open>Gpio\<close> (\<open>src/src/gpio/gpio.cpp\<close>).  A map is a list of pairs in the order of
  its keys; a pin belongs to its connector, and the port refers to it by the numbers of the connector and of the pin there.  Connectors have at
  least one column, and what a stream got before an exception is left out.
\<close>

section \<open>Maps\<close>

fun map_put :: "int \<Rightarrow> 'v \<Rightarrow> (int \<times> 'v) list \<Rightarrow> (int \<times> 'v) list" where
  "map_put k v [] = [(k, v)]"
| "map_put k v ((k1, v1) # m) = (if k < k1 then (k, v) # (k1, v1) # m else if k = k1 then (k, v) # m else (k1, v1) # map_put k v m)"

lemma map_put_keys [simp]: "fst ` set (map_put k v m) = insert k (fst ` set m)"
  by (induction k v m rule: map_put.induct) auto

lemma map_put_sorted: "sorted (map fst m) \<Longrightarrow> distinct (map fst m) \<Longrightarrow> sorted (map fst (map_put k v m)) \<and> distinct (map fst (map_put k v m))"
proof (induction k v m rule: map_put.induct)
  case (2 k v k1 v1 m)
  show ?case
  proof (cases "k \<le> k1")
    case False
    with 2 show ?thesis by auto
  next
    case True
    with "2.prems" show ?thesis by (force simp: order_le_less)
  qed
qed simp

lemma map_put_of: "sorted (map fst m) \<Longrightarrow> map_of (map_put k v m) x = (if x = k then Some v else map_of m x)"
proof (induction k v m rule: map_put.induct)
  case (2 k v k1 v1 m)
  have "map_of m k = None" if "k < k1" using 2(2) that by (auto simp: map_of_eq_None_iff)
  with 2 show ?case by auto
qed simp

text \<open>A function on the object of a key; the loop over keys stops when the function says so.\<close>

definition at_key :: "int \<Rightarrow> ('o \<times> 'w, 'a) cxx \<Rightarrow> ((int \<times> 'o) list \<times> 'w, 'a) cxx" where
  "at_key k f s =
     (case map_of (fst s) k of
        None \<Rightarrow> Inr (Inl out_of_range, s)
      | Some x \<Rightarrow> cbind (f (x, snd s)) (\<lambda>(r, x1, w). Inr (r, map_put k x1 (fst s), w)))"

fun each_while :: "int list \<Rightarrow> ('o \<times> 'w, bool) cxx \<Rightarrow> ((int \<times> 'o) list \<times> 'w, bool) cxx" where
  "each_while [] f = xret True"
| "each_while (k # ks) f = xbind (at_key k f) (\<lambda>go. if go then each_while ks f else xret False)"

section \<open>Connectors\<close>

record Connector =
  cn_isopen :: bool
  cn_descriptor :: ConnectorDescriptor
  cn_pin :: "(int \<times> Pin) list"

definition Connector_name :: "Connector \<Rightarrow> string" where "Connector_name c = cd_name (cn_descriptor c)"
definition Connector_number :: "Connector \<Rightarrow> int" where "Connector_number c = cd_number (cn_descriptor c)"
definition Connector_rows :: "Connector \<Rightarrow> int" where "Connector_rows c = cd_rows (cn_descriptor c)"
definition Connector_columns :: "Connector \<Rightarrow> int" where "Connector_columns c = cd_columns (cn_descriptor c)"
definition Connector_size :: "Connector \<Rightarrow> int" where "Connector_size c = int (length (cn_pin c))"
definition Connector_isOpen :: "Connector \<Rightarrow> bool" where "Connector_isOpen c = cn_isopen c"

definition Connector_pinNumber :: "int \<Rightarrow> int \<Rightarrow> Connector \<Rightarrow> int" where
  "Connector_pinNumber row column c = cd_pinNumber (cn_descriptor c) row column (Connector_columns c)"

definition Pin_physicalNumber :: "Connector \<Rightarrow> Pin \<Rightarrow> int" where
  "Pin_physicalNumber c p = Connector_pinNumber (Pin_row p) (Pin_column p) c"

definition Connector_new :: "'w pin_env \<Rightarrow> ConnectorDescriptor \<Rightarrow> Connector" where
  "Connector_new E desc =
     (let c = \<lparr>cn_isopen = False, cn_descriptor = desc, cn_pin = []\<rparr> in
      c\<lparr>cn_pin := fold (\<lambda>d. map_put (Connector_pinNumber (nm_row (ds_num d)) (nm_column (ds_num d)) c) (Pin_new E d)) (cd_pin desc) []\<rparr>)"

text \<open>A function on the pins of a connector.\<close>

definition on_pins :: "((int \<times> Pin) list \<times> 'w, 'a) cxx \<Rightarrow> (Connector \<times> 'w, 'a) cxx" where
  "on_pins f s = cbind (f (cn_pin (fst s), snd s)) (\<lambda>(r, m, w). Inr (r, (fst s)\<lparr>cn_pin := m\<rparr>, w))"

definition Connector_open :: "'w pin_env \<Rightarrow> (Connector \<times> 'w, bool) cxx" where
  "Connector_open E s =
     (if Connector_isOpen (fst s) then Inr (Inr True, s)
      else xbind (on_pins (each_while (map fst (cn_pin (fst s))) (Pin_open E))) (\<lambda>ok (c, w).
             if ok then Inr (Inr True, c\<lparr>cn_isopen := True\<rparr>, w) else Inr (Inr False, c, w)) s)"

definition Connector_close :: "'w pin_env \<Rightarrow> (Connector \<times> 'w, unit) cxx" where
  "Connector_close E s =
     (if Connector_isOpen (fst s)
      then xbind (on_pins (each_while (map fst (cn_pin (fst s))) (xbind (Pin_close E) (\<lambda>_. xret True)))) (\<lambda>_ (c, w).
             Inr (Inr (), c\<lparr>cn_isopen := False\<rparr>, w)) s
      else Inr (Inr (), s))"

definition Connector_pin :: "int \<Rightarrow> ('w, 'a) pin \<Rightarrow> (Connector \<times> 'w, 'a) cxx" where
  "Connector_pin number f = on_pins (at_key number f)"

section \<open>Ports\<close>

record Gpio =
  gp_roc :: bool
  gp_isopen :: bool
  gp_accesslayer :: u32
  gp_numbering :: Numbering
  gp_pin :: "(int \<times> int \<times> int) list"
  gp_connector :: "(int \<times> Connector) list"

definition gpio_env :: "'w Device \<Rightarrow> 'w sysfs \<Rightarrow> Gpio \<Rightarrow> 'w pin_env" where
  "gpio_env D F g = \<lparr>pe_device = Some D, pe_sysfs = F, pe_layer = gp_accesslayer g, pe_roc = gp_roc g\<rparr>"

definition Gpio_accessLayer :: "Gpio \<Rightarrow> u32" where "Gpio_accessLayer g = gp_accesslayer g"
definition Gpio_isOpen :: "Gpio \<Rightarrow> bool" where "Gpio_isOpen g = gp_isopen g"
definition Gpio_numbering :: "Gpio \<Rightarrow> Numbering" where "Gpio_numbering g = gp_numbering g"
definition Gpio_releaseOnClose :: "Gpio \<Rightarrow> bool" where "Gpio_releaseOnClose g = gp_roc g"
definition Gpio_setReleaseOnClose :: "bool \<Rightarrow> Gpio \<Rightarrow> Gpio" where "Gpio_setReleaseOnClose enable g = g\<lparr>gp_roc := enable\<rparr>"
definition Gpio_size :: "Gpio \<Rightarrow> int" where "Gpio_size g = int (length (gp_pin g))"
definition Gpio_connectors :: "Gpio \<Rightarrow> int" where "Gpio_connectors g = int (length (gp_connector g))"
definition Gpio_name :: "'w Device \<Rightarrow> string" where "Gpio_name D = gd_name (dv_descriptor D)"
definition Gpio_numberingName :: "Gpio \<Rightarrow> ('s, string) cxx" where "Gpio_numberingName g = Pin_numberingName (Gpio_numbering g)"
definition Gpio_connector :: "int \<Rightarrow> Gpio \<Rightarrow> ('s, Connector) cxx" where "Gpio_connector num g = map_at (gp_connector g) num"

text \<open>The loops over the connectors and their pins.\<close>

fun number_pins :: "Numbering \<Rightarrow> (int \<times> int \<times> Pin) list \<Rightarrow> (Gpio, unit) cxx" where
  "number_pins nb [] = xret ()"
| "number_pins nb ((c, k, p) # ps) =
     xseq (if Pin_type p = TypeGpio
           then xbind (Pin_number nb p) (\<lambda>num g. Inr (Inr (), g\<lparr>gp_pin := map_put num (c, k) (gp_pin g)\<rparr>))
           else xret ())
          (number_pins nb ps)"

definition all_pins :: "Gpio \<Rightarrow> (int \<times> int \<times> Pin) list" where
  "all_pins g = concat (map (\<lambda>(c, conn). map (\<lambda>(k, p). (c, k, p)) (cn_pin conn)) (gp_connector g))"

definition Gpio_setNumbering :: "Numbering \<Rightarrow> (Gpio, unit) cxx" where
  "Gpio_setNumbering nb g =
     (if nb \<noteq> Gpio_numbering g
      then xseq (number_pins nb (all_pins g)) (\<lambda>g. Inr (Inr (), g\<lparr>gp_numbering := nb\<rparr>)) (g\<lparr>gp_pin := []\<rparr>)
      else Inr (Inr (), g))"

definition Gpio_new :: "'w Device \<Rightarrow> 'w sysfs \<Rightarrow> u32 \<Rightarrow> ((cxx_exc + unit) \<times> Gpio) run" where
  "Gpio_new D F layer =
     (let g = \<lparr>gp_roc = True, gp_isopen = False, gp_accesslayer = (if layer = AccessLayerAuto then dv_preferedAccessLayer D else layer),
               gp_numbering = NumberingUnknown, gp_pin = [], gp_connector = []\<rparr>;
          g = g\<lparr>gp_connector := fold (\<lambda>d. map_put (cd_number d) (Connector_new (gpio_env D F g) d)) (gd_connector (dv_descriptor D)) []\<rparr>
      in Gpio_setNumbering NumberingLogical g)"

definition on_connectors :: "((int \<times> Connector) list \<times> 'w, 'a) cxx \<Rightarrow> (Gpio \<times> 'w, 'a) cxx" where
  "on_connectors f s = cbind (f (gp_connector (fst s), snd s)) (\<lambda>(r, m, w). Inr (r, (fst s)\<lparr>gp_connector := m\<rparr>, w))"

definition on_port :: "('w, 'a) cxx \<Rightarrow> (Gpio \<times> 'w, 'a) cxx" where
  "on_port f s = cbind (f (snd s)) (\<lambda>(r, w). Inr (r, fst s, w))"

definition Gpio_open :: "'w Device \<Rightarrow> 'w sysfs \<Rightarrow> (Gpio \<times> 'w, bool) cxx" where
  "Gpio_open D F s =
     (let g = fst s in
      if Gpio_isOpen g then Inr (Inr True, s)
      else
        xbind (if gp_accesslayer g AND AccessLayerIoMap \<noteq> 0 then on_port (dv_open D) else xret True) (\<lambda>ok.
          if \<not> ok then xret False
          else xbind (on_connectors (each_while (map fst (gp_connector g)) (Connector_open (gpio_env D F g)))) (\<lambda>ok (g, w).
                 if ok then Inr (Inr True, g\<lparr>gp_isopen := True\<rparr>, w) else Inr (Inr False, g, w))) s)"

definition Gpio_close :: "'w Device \<Rightarrow> 'w sysfs \<Rightarrow> (Gpio \<times> 'w, unit) cxx" where
  "Gpio_close D F s =
     (let g = fst s in
      if Gpio_isOpen g then
        xbind (on_connectors (each_while (map fst (gp_connector g)) (xbind (Connector_close (gpio_env D F g)) (\<lambda>_. xret True)))) (\<lambda>_.
          xseq (on_port (dv_close D)) (\<lambda>(g, w). Inr (Inr (), g\<lparr>gp_isopen := False\<rparr>, w))) s
      else Inr (Inr (), s))"

text \<open>A function on the pin with a number.\<close>

definition Gpio_pin :: "'w Device \<Rightarrow> 'w sysfs \<Rightarrow> int \<Rightarrow> ('w pin_env \<Rightarrow> ('w, 'a) pin) \<Rightarrow> (Gpio \<times> 'w, 'a) cxx" where
  "Gpio_pin D F number f =
     xwith (\<lambda>(g, _). xbind (map_at (gp_pin g) number) (\<lambda>(c, k). on_connectors (at_key c (Connector_pin k (f (gpio_env D F g))))))"

section \<open>Printing a connector\<close>

datatype Alignment = LeftAl | RightAl | Center

record Field =
  fl_size :: int
  fl_name :: string

definition fields_of_row :: "Field list" where
  "fields_of_row = [\<lparr>fl_size = 5, fl_name = ''sOc''\<rparr>, \<lparr>fl_size = 5, fl_name = ''sIo''\<rparr>, \<lparr>fl_size = 10, fl_name = ''Name''\<rparr>,
     \<lparr>fl_size = 6, fl_name = ''Mode''\<rparr>, \<lparr>fl_size = 6, fl_name = ''Pull''\<rparr>, \<lparr>fl_size = 3, fl_name = ''V''\<rparr>, \<lparr>fl_size = 4, fl_name = ''Ph''\<rparr>]"

definition toUpper :: "u8 list \<Rightarrow> u8 list" where "toUpper s = map toupper s"

text \<open>The place is found with the text that was cut, but the whole text is put there.\<close>

definition format_field :: "u8 list \<Rightarrow> int \<Rightarrow> Alignment \<Rightarrow> ('s, u8 list) cxx" where
  "format_field s w a =
     (let out = replicate (nat w) 0x20; w1 = (if w < 3 then 3 else w); len = min (int (length s)) (w1 - 2);
          pos = (case a of LeftAl \<Rightarrow> 1 | RightAl \<Rightarrow> w - len - 1 | Center \<Rightarrow> (w - len) div 2) in
      if pos < 0 \<or> pos > w then xthrow out_of_range
      else xret (take (nat pos) out @ s @ drop (nat (pos + len)) out))"

fun format_fields :: "(u8 list \<times> int \<times> Alignment) list \<Rightarrow> ('s, u8 list) cxx" where
  "format_fields [] = xret []"
| "format_fields ((s, w, a) # fs) = xbind (format_field s w a) (\<lambda>t. xbind (format_fields fs) (\<lambda>ts. xret (t @ [0x7C] @ ts)))"

text \<open>The fields that are shown, and those of both columns.\<close>

definition shown_fields :: "'w Device \<Rightarrow> Field list" where
  "shown_fields D = filter (\<lambda>f. fl_name f \<noteq> ''Pull'' \<or> dv_flags D AND hasPullRead \<noteq> 0) fields_of_row"

definition hline_fields :: "Field list \<Rightarrow> u8 list" where
  "hline_fields fs = concat (map (\<lambda>f. replicate (nat (fl_size f)) 0x2D @ ascii ''+'') fs)"

definition Connector_printHline :: "'w Device \<Rightarrow> Connector \<Rightarrow> u8 list" where
  "Connector_printHline D c =
     ascii ''+'' @ hline_fields (shown_fields D) @
     (if Connector_columns c > 1 then ascii ''+'' @ hline_fields (rev (shown_fields D)) else []) @ [10]"

definition Connector_printTitle :: "'w Device \<Rightarrow> Connector \<Rightarrow> ('s, u8 list) cxx" where
  "Connector_printTitle D c =
     (let titles = (\<lambda>fs. format_fields (map (\<lambda>f. (ascii (fl_name f), fl_size f, Center)) fs)) in
      xbind (titles (shown_fields D)) (\<lambda>t.
      xbind (if Connector_columns c > 1 then xbind (titles (rev (shown_fields D))) (\<lambda>u. xret (ascii ''|'' @ u)) else xret []) (\<lambda>u.
        xret (Connector_printHline D c @ ascii ''|'' @ t @ u @ [10] @ Connector_printHline D c))))"

text \<open>The level of a pin, shown for inputs, outputs, and modes in which it can be read.\<close>

definition pin_level :: "'w pin_env \<Rightarrow> 'w Device \<Rightarrow> ('w, u8 list) pin" where
  "pin_level E D =
     (let shown = xbind (Pin_read E) (\<lambda>b. xret (c_decimal (if b then 1 else 0))) in
      xbind (Pin_mode E) (\<lambda>m. if m = ModeDisabled then xret [] else
      xbind (Pin_mode E) (\<lambda>m. if m = ModeInput then shown else
      xbind (Pin_mode E) (\<lambda>m. if m = ModeOutput then shown else
        if dv_flags D AND hasAltRead \<noteq> 0 then shown else xret []))))"

text \<open>The texts of the fields of a pin: numbers, name, mode, pull resistor, level and place.\<close>

definition pin_texts :: "'w pin_env \<Rightarrow> 'w Device \<Rightarrow> Connector \<Rightarrow> ('w, u8 list list) pin" where
  "pin_texts E D c =
     (let pulls = (dv_flags D AND hasPullRead \<noteq> 0) in
      pin_get (\<lambda>p.
        xbind (if Pin_type p = TypeGpio then
                 xbind (Pin_modeName E) (\<lambda>m.
                 xbind (if pulls then xbind (Pin_pullName E) (\<lambda>q. xret (toUpper (ascii q))) else xret []) (\<lambda>q.
                 xbind (pin_level E D) (\<lambda>v.
                   xret [c_decimal (Pin_mcuNumber p), c_decimal (Pin_logicalNumber p), toUpper (ascii m), q, v])))
               else xret [[], [], [], [], []]) (\<lambda>s.
        xbind (Pin_name E) (\<lambda>n.
          xret ([s ! 0, s ! 1, ascii n, s ! 2] @ (if pulls then [s ! 3] else []) @ [s ! 4, c_decimal (Pin_physicalNumber c p)])))))"

definition Connector_printRow :: "'w pin_env \<Rightarrow> 'w Device \<Rightarrow> int \<Rightarrow> (Connector \<times> 'w, u8 list) cxx" where
  "Connector_printRow E D number =
     xwith (\<lambda>(c, _).
       let sizes = map fl_size (shown_fields D);
           texts = (\<lambda>k. Connector_pin k (pin_texts E D c));
           cells = (\<lambda>ts a. map (\<lambda>(t, w). (t, w, a)) (zip ts sizes)) in
       xbind (texts number) (\<lambda>s. xbind (format_fields (cells s RightAl)) (\<lambda>l.
       if Connector_columns c > 1
       then xbind (texts (number + 1)) (\<lambda>s. xbind (format_fields (rev (cells s LeftAl))) (\<lambda>r.
              xret (ascii ''|'' @ l @ ascii ''|'' @ r @ [10])))
       else xret (ascii ''|'' @ l @ [10]))))"

fun print_rows :: "'w pin_env \<Rightarrow> 'w Device \<Rightarrow> int list \<Rightarrow> (Connector \<times> 'w, u8 list) cxx" where
  "print_rows E D [] = xret []"
| "print_rows E D (i # is) = xbind (Connector_printRow E D i) (\<lambda>l. xbind (print_rows E D is) (\<lambda>ls. xret (l @ ls)))"

definition Connector_print :: "'w pin_env \<Rightarrow> 'w Device \<Rightarrow> (Connector \<times> 'w, u8 list) cxx" where
  "Connector_print E D =
     xwith (\<lambda>(c, _).
       if Connector_columns c > 2 then xthrow out_of_range
       else
         let fields = sum_list (map fl_size (shown_fields D));
             width = (fields + int (length fields_of_row) - (if dv_flags D AND hasPullRead \<noteq> 0 then 0 else 1)) * Connector_columns c;
             name = ascii (Connector_name c) @ ascii '' (#'' @ c_decimal (Connector_number c) @ ascii '')'';
             title = pad_left (nat ((width + int (length name)) div 2 + 1)) (toUpper name) @ [10] in
         xbind (Connector_printTitle D c) (\<lambda>t.
         xbind (print_rows E D (filter (\<lambda>i. (i - 1) mod Connector_columns c = 0) [1..Connector_size c])) (\<lambda>rows.
         xbind (if Connector_rows c > 6 then Connector_printTitle D c else xret (Connector_printHline D c)) (\<lambda>foot.
           xret (title @ t @ rows @ foot)))))"

end
