(* ===== verification/Pin_Laws.thy ===== *)
theory Pin_Laws
  imports Gpio_Pin
begin

text \<open>
  What a device promises to the pins of the C++ interface, and what a pin promises to its users: that it is restored when it is
  closed, whatever was done with it, and that the other pins never notice.
\<close>

section \<open>The interface of the devices\<close>

text \<open>\<open>mode\<close>, \<open>lev\<close> and \<open>pull\<close> are what the methods of the device read.  The level of a pin that is no output comes from outside.\<close>

definition pin_kept :: "('w \<Rightarrow> int \<Rightarrow> Mode) \<Rightarrow> ('w \<Rightarrow> int \<Rightarrow> bool) \<Rightarrow> ('w \<Rightarrow> int \<Rightarrow> Pull) \<Rightarrow> 'w \<Rightarrow> 'w \<Rightarrow> int \<Rightarrow> bool" where
  "pin_kept mode lev pull w w1 x \<longleftrightarrow> mode w1 x = mode w x \<and> pull w1 x = pull w x \<and> (mode w x = ModeOutput \<longrightarrow> lev w1 x = lev w x)"

definition readable_pull :: "'w Device \<Rightarrow> bool" where "readable_pull D \<longleftrightarrow> dv_flags D AND hasPullRead \<noteq> 0"

locale gpio_device =
  fixes D :: "'w Device"
    and pins :: "int set"
    and valid :: "int \<Rightarrow> Mode set"
    and mode :: "'w \<Rightarrow> int \<Rightarrow> Mode"
    and lev :: "'w \<Rightarrow> int \<Rightarrow> bool"
    and pull :: "'w \<Rightarrow> int \<Rightarrow> Pull"
    and ok :: "'w \<Rightarrow> bool"
  assumes mode_valid: "ok w \<Longrightarrow> g \<in> pins \<Longrightarrow> mode w g \<in> valid g"
    and known: "g \<in> pins \<Longrightarrow> ModeUnknown \<notin> valid g"
    and mode_law: "ok w \<Longrightarrow> g \<in> pins \<Longrightarrow>
      \<exists>w1. runs (dv_mode D g) w (mode w g) w1 \<and> ok w1 \<and> (\<forall>x \<in> pins. pin_kept mode lev pull w w1 x)"
    and read_law: "ok w \<Longrightarrow> g \<in> pins \<Longrightarrow>
      \<exists>w1. runs (dv_read D g) w (lev w g) w1 \<and> ok w1 \<and> (\<forall>x \<in> pins. pin_kept mode lev pull w w1 x)"
    and pull_law: "ok w \<Longrightarrow> g \<in> pins \<Longrightarrow>
      \<exists>w1. runs (dv_pull D g) w (pull w g) w1 \<and> ok w1 \<and> (\<forall>x \<in> pins. pin_kept mode lev pull w w1 x)"
    and set_mode_law: "ok w \<Longrightarrow> g \<in> pins \<Longrightarrow> m \<in> valid g \<Longrightarrow>
      \<exists>w1. runs (dv_setMode D g m) w () w1 \<and> ok w1 \<and> (\<forall>x \<in> pins - {g}. pin_kept mode lev pull w w1 x) \<and>
        mode w1 g = m \<and> pull w1 g = pull w g"
    and set_pull_law: "ok w \<Longrightarrow> g \<in> pins \<Longrightarrow> q \<noteq> PullUnknown \<Longrightarrow>
      \<exists>w1. runs (dv_setPull D g q) w () w1 \<and> ok w1 \<and> (\<forall>x \<in> pins - {g}. pin_kept mode lev pull w w1 x) \<and>
        mode w1 g = mode w g \<and> (mode w g = ModeOutput \<longrightarrow> lev w1 g = lev w g) \<and> (readable_pull D \<longrightarrow> pull w1 g = q)"
    and write_law: "ok w \<Longrightarrow> g \<in> pins \<Longrightarrow>
      \<exists>w1. runs (dv_write D g b) w () w1 \<and> ok w1 \<and> (\<forall>x \<in> pins - {g}. pin_kept mode lev pull w w1 x) \<and>
        mode w1 g = mode w g \<and> pull w1 g = pull w g \<and> (mode w g = ModeOutput \<longrightarrow> lev w1 g = b)"
    and toggle_law: "dv_flags D AND hasToggle \<noteq> 0 \<Longrightarrow> ok w \<Longrightarrow> g \<in> pins \<Longrightarrow>
      \<exists>w1. runs (dv_toggle D g) w () w1 \<and> ok w1 \<and> (\<forall>x \<in> pins - {g}. pin_kept mode lev pull w w1 x) \<and>
        mode w1 g = mode w g \<and> pull w1 g = pull w g \<and> (mode w g = ModeOutput \<longrightarrow> lev w1 g = (\<not> lev w g))"

section \<open>What is done with a pin\<close>

datatype pin_op = DoMode Mode | DoPull Pull | DoWrite bool | DoToggle | DoRead | AskMode | AskPull

definition pin_do :: "'w pin_env \<Rightarrow> pin_op \<Rightarrow> ('w, unit) pin" where
  "pin_do E op =
     (case op of
        DoMode m \<Rightarrow> Pin_setMode E m
      | DoPull q \<Rightarrow> Pin_setPull E q
      | DoWrite b \<Rightarrow> Pin_write E b
      | DoToggle \<Rightarrow> Pin_toggle E
      | DoRead \<Rightarrow> xbind (Pin_read E) (\<lambda>_. xret ())
      | AskMode \<Rightarrow> xbind (Pin_mode E) (\<lambda>_. xret ())
      | AskPull \<Rightarrow> xbind (Pin_pull E) (\<lambda>_. xret ()))"

fun pin_dos :: "'w pin_env \<Rightarrow> pin_op list \<Rightarrow> ('w, unit) pin" where
  "pin_dos E [] = xret ()"
| "pin_dos E (op # ops) = xseq (pin_do E op) (pin_dos E ops)"

text \<open>The modes are those of the pin, and pull resistors are known.\<close>

definition op_valid :: "Mode set \<Rightarrow> pin_op \<Rightarrow> bool" where
  "op_valid M op \<longleftrightarrow> (case op of DoMode m \<Rightarrow> m \<in> M | DoPull q \<Rightarrow> q \<noteq> PullUnknown | _ \<Rightarrow> True)"

definition sets_level :: "pin_op \<Rightarrow> bool" where
  "sets_level op \<longleftrightarrow> (case op of DoWrite b \<Rightarrow> True | DoToggle \<Rightarrow> True | _ \<Rightarrow> False)"

text \<open>The level is not changed before the mode is set.\<close>

fun mode_first :: "pin_op list \<Rightarrow> bool" where
  "mode_first [] = True"
| "mode_first (DoMode m # ops) = True"
| "mode_first (DoWrite b # ops) = False"
| "mode_first (DoToggle # ops) = False"
| "mode_first (op # ops) = mode_first ops"

text \<open>The whole session.\<close>

definition pin_session :: "'w pin_env \<Rightarrow> pin_op list \<Rightarrow> ('w, unit) pin" where
  "pin_session E ops = xbind (Pin_open E) (\<lambda>_. xseq (pin_dos E ops) (Pin_close E))"

text \<open>A pin that is closed, over registers, and holds nothing; it may have a mode for the next opening.\<close>

definition pin_idle :: "Mode set \<Rightarrow> int \<Rightarrow> Pin \<Rightarrow> bool" where
  "pin_idle M g p \<longleftrightarrow> \<not> Pin_isOpen p \<and> Pin_type p = TypeGpio \<and> Pin_mcuNumber p = g \<and> \<not> pn_useSysFs p \<and>
     pn_holdMode p = ModeUnknown \<and> pn_holdPull p = PullUnknown \<and> pn_mode p \<in> insert ModeUnknown M"

lemma new_idle:
  "pe_layer E AND AccessLayerIoMap = AccessLayerIoMap \<Longrightarrow> ds_type desc = TypeGpio \<Longrightarrow> pin_idle M (nm_mcu (ds_num desc)) (Pin_new E desc)"
  by (simp add: pin_idle_def Pin_new_def Pin_isOpen_def Pin_type_def Pin_mcuNumber_def)

section \<open>Runs of a pin\<close>

lemma pin_get_eq [simp]: "pin_get f (p, w) = f p (p, w)"
  by (simp add: pin_get_def)

lemma pin_put_eq [simp]: "pin_put f (p, w) = Inr (Inr (), f p, w)"
  by (simp add: pin_put_def)

lemma xret_eq [simp]: "xret a s = Inr (Inr a, s)"
  by (simp add: xret_def)

lemma xwhen_eq [simp]: "xwhen b m s = (if b then m s else Inr (Inr (), s))"
  by (simp add: xwhen_def)

lemma on_device_eq: "pe_device E = Some D \<Longrightarrow> runs (f D) w a w1 \<Longrightarrow> on_device E f (p, w) = Inr (Inr a, p, w1)"
  by (simp add: on_device_def runs_def deref_def)


section \<open>A pin is restored\<close>

context gpio_device
begin

abbreviation kept :: "'w \<Rightarrow> 'w \<Rightarrow> int \<Rightarrow> bool" where "kept \<equiv> pin_kept mode lev pull"

lemma kept_refl: "kept w w x"
  by (simp add: pin_kept_def)

lemma kept_trans: "kept w w1 x \<Longrightarrow> kept w1 w2 x \<Longrightarrow> kept w w2 x"
  by (simp add: pin_kept_def)

lemma kept_all: "\<forall>x \<in> X. kept w w1 x \<Longrightarrow> \<forall>x \<in> X. kept w1 w2 x \<Longrightarrow> \<forall>x \<in> X. kept w w2 x"
  using kept_trans by blast

text \<open>An open pin that uses the registers of the device.\<close>

definition on_regs :: "'w pin_env \<Rightarrow> int \<Rightarrow> Pin \<Rightarrow> bool" where
  "on_regs E g p \<longleftrightarrow> pe_device E = Some D \<and> g \<in> pins \<and> Pin_isOpen p \<and> Pin_type p = TypeGpio \<and> Pin_mcuNumber p = g \<and>
     \<not> pn_useSysFs p \<and> pn_mode p \<in> valid g"

text \<open>What is remembered of the pin as it was in \<open>w0\<close>; \<open>c\<close> tells that the level is.\<close>

definition remembers :: "bool \<Rightarrow> int \<Rightarrow> 'w \<Rightarrow> Pin \<Rightarrow> 'w \<Rightarrow> bool" where
  "remembers c g w0 p w \<longleftrightarrow> ok w \<and> (\<forall>x \<in> pins - {g}. kept w0 w x) \<and>
     (if pn_holdMode p = ModeUnknown then mode w g = mode w0 g \<and> (c \<and> mode w0 g = ModeOutput \<longrightarrow> lev w g = lev w0 g)
      else pn_holdMode p = mode w0 g \<and> (c \<and> mode w0 g = ModeOutput \<longrightarrow> pn_holdState p = lev w0 g)) \<and>
     (readable_pull D \<and> pull w0 g \<noteq> PullUnknown \<longrightarrow>
        (if pn_holdPull p = PullUnknown then pull w g = pull w0 g else pn_holdPull p = pull w0 g))"

lemma remembers_kept:
  assumes "remembers c g w0 p w" "ok w1" "\<forall>x \<in> pins. kept w w1 x" "g \<in> pins"
  shows "remembers c g w0 p w1"
proof -
  have "\<forall>x \<in> pins - {g}. kept w0 w1 x" using assms(1,3) kept_trans by (fastforce simp: remembers_def)
  moreover have "mode w1 g = mode w g" "pull w1 g = pull w g" "mode w g = ModeOutput \<longrightarrow> lev w1 g = lev w g"
    using assms(3,4) by (simp_all add: pin_kept_def)
  ultimately show ?thesis using assms(1,2) unfolding remembers_def by (simp split: if_splits)
qed

lemma remembers_fields:
  assumes "pn_holdMode p1 = pn_holdMode p" "pn_holdPull p1 = pn_holdPull p" "pn_holdState p1 = pn_holdState p"
  shows "remembers c g w0 p1 w = remembers c g w0 p w"
  using assms by (simp add: remembers_def)

lemma hold_mode:
  assumes "pe_device E = Some D" "g \<in> pins" "Pin_mcuNumber p = g" "remembers c g w0 p w"
  shows "\<exists>m b w1. Pin_holdMode E (p, w) = Inr (Inr (), p\<lparr>pn_holdMode := m, pn_holdState := b\<rparr>, w1) \<and>
    m \<noteq> ModeUnknown \<and> remembers c g w0 (p\<lparr>pn_holdMode := m, pn_holdState := b\<rparr>) w1"
proof (cases "pn_holdMode p = ModeUnknown")
  case False
  then have "Pin_holdMode E (p, w) = Inr (Inr (), p, w)" by (simp add: Pin_holdMode_def)
  with False assms(4) show ?thesis by (intro exI [of _ "pn_holdMode p"] exI [of _ "pn_holdState p"] exI [of _ w]) simp
next
  case True
  have w: "ok w" "mode w g = mode w0 g" using assms(4) True by (simp_all add: remembers_def)
  obtain w1 where w1: "runs (dv_mode D g) w (mode w g) w1" "ok w1" "\<forall>x \<in> pins. kept w w1 x"
    using mode_law [OF w(1) assms(2)] by blast
  have rem1: "remembers c g w0 p w1" by (rule remembers_kept [OF assms(4) w1(2,3) assms(2)])
  have unk: "mode w0 g \<noteq> ModeUnknown" using mode_valid [OF w(1) assms(2)] known [OF assms(2)] w(2) by auto
  have run1: "on_device E (\<lambda>D. dv_mode D (Pin_mcuNumber p)) (p, w) = Inr (Inr (mode w0 g), p, w1)"
    using on_device_eq [OF assms(1), of "\<lambda>D. dv_mode D g" w _ w1] w1(1) assms(3) w(2) by simp
  show ?thesis
  proof (cases "mode w0 g = ModeOutput")
    case False
    then have "Pin_holdMode E (p, w) = Inr (Inr (), p\<lparr>pn_holdMode := mode w0 g, pn_holdState := pn_holdState p\<rparr>, w1)"
      using True assms(1) run1 by (simp add: Pin_holdMode_def)
    moreover have "remembers c g w0 (p\<lparr>pn_holdMode := mode w0 g, pn_holdState := pn_holdState p\<rparr>) w1"
      using rem1 True False unk by (simp add: remembers_def)
    ultimately show ?thesis using unk by blast
  next
    case out: True
    obtain w2 where w2: "runs (dv_read D g) w1 (lev w1 g) w2" "ok w2" "\<forall>x \<in> pins. kept w1 w2 x"
      using read_law [OF w1(2) assms(2)] by blast
    have rem2: "remembers c g w0 p w2" by (rule remembers_kept [OF rem1 w2(2,3) assms(2)])
    have "on_device E (\<lambda>D. dv_read D g) (q, w1) = Inr (Inr (lev w1 g), q, w2)" for q
      using on_device_eq [OF assms(1), of "\<lambda>D. dv_read D g" w1 _ w2] w2(1) by simp
    moreover have "Pin_mcuNumber (p\<lparr>pn_holdMode := ModeOutput\<rparr>) = g" using assms(3) by (simp add: Pin_mcuNumber_def)
    ultimately have "Pin_holdMode E (p, w) = Inr (Inr (), p\<lparr>pn_holdMode := mode w0 g, pn_holdState := lev w1 g\<rparr>, w2)"
      using True out assms(1,3) run1 by (simp add: Pin_holdMode_def)
    moreover have "remembers c g w0 (p\<lparr>pn_holdMode := mode w0 g, pn_holdState := lev w1 g\<rparr>) w2"
      using rem2 rem1 True out by (simp add: remembers_def)
    ultimately show ?thesis using unk by blast
  qed
qed

lemma hold_pull:
  assumes "pe_device E = Some D" "g \<in> pins" "Pin_mcuNumber p = g" "remembers c g w0 p w"
  shows "\<exists>q w1. Pin_holdPull E (p, w) = Inr (Inr (), p\<lparr>pn_holdPull := q\<rparr>, w1) \<and> remembers c g w0 (p\<lparr>pn_holdPull := q\<rparr>) w1 \<and>
    (readable_pull D \<and> pull w0 g \<noteq> PullUnknown \<longrightarrow> q \<noteq> PullUnknown) \<and> mode w1 g = mode w g"
proof (cases "pn_holdPull p = PullUnknown")
  case False
  then have "Pin_holdPull E (p, w) = Inr (Inr (), p, w)" by (simp add: Pin_holdPull_def)
  with False assms(4) show ?thesis by (intro exI [of _ "pn_holdPull p"] exI [of _ w]) simp
next
  case True
  have w: "ok w" using assms(4) by (simp add: remembers_def)
  obtain w1 where w1: "runs (dv_pull D g) w (pull w g) w1" "ok w1" "\<forall>x \<in> pins. kept w w1 x"
    using pull_law [OF w assms(2)] by blast
  have rem1: "remembers c g w0 p w1" by (rule remembers_kept [OF assms(4) w1(2,3) assms(2)])
  have "on_device E (\<lambda>D. dv_pull D (Pin_mcuNumber p)) (p, w) = Inr (Inr (pull w g), p, w1)"
    using on_device_eq [OF assms(1), of "\<lambda>D. dv_pull D g" w _ w1] w1(1) assms(3) by simp
  then have "Pin_holdPull E (p, w) = Inr (Inr (), p\<lparr>pn_holdPull := pull w g\<rparr>, w1)"
    using True assms(1) by (simp add: Pin_holdPull_def)
  moreover have "readable_pull D \<and> pull w0 g \<noteq> PullUnknown \<longrightarrow> pull w g = pull w0 g"
    using assms(4) True by (simp add: remembers_def)
  moreover from this have "remembers c g w0 (p\<lparr>pn_holdPull := pull w g\<rparr>) w1"
    using rem1 True by (auto simp: remembers_def)
  moreover have "mode w1 g = mode w g" using w1(3) assms(2) by (simp add: pin_kept_def)
  ultimately show ?thesis by fastforce
qed

lemma write_mode:
  assumes "pe_device E = Some D" "g \<in> pins" "Pin_mcuNumber p = g" "\<not> pn_useSysFs p" "pn_mode p \<in> valid g" "remembers c g w0 p w"
  shows "\<exists>m b w1. Pin_writeMode E (p, w) = Inr (Inr (), p\<lparr>pn_holdMode := m, pn_holdState := b\<rparr>, w1) \<and>
    m \<noteq> ModeUnknown \<and> remembers c g w0 (p\<lparr>pn_holdMode := m, pn_holdState := b\<rparr>) w1 \<and> mode w1 g = pn_mode p"
proof -
  obtain m b w1 where w1: "Pin_holdMode E (p, w) = Inr (Inr (), p\<lparr>pn_holdMode := m, pn_holdState := b\<rparr>, w1)" "m \<noteq> ModeUnknown"
      "remembers c g w0 (p\<lparr>pn_holdMode := m, pn_holdState := b\<rparr>) w1"
    using hold_mode [OF assms(1-3,6)] by blast
  let ?p = "p\<lparr>pn_holdMode := m, pn_holdState := b\<rparr>"
  have "ok w1" using w1(3) by (simp add: remembers_def)
  then obtain w2 where w2: "runs (dv_setMode D g (pn_mode p)) w1 () w2" "ok w2" "\<forall>x \<in> pins - {g}. kept w1 w2 x"
      "mode w2 g = pn_mode p" "pull w2 g = pull w1 g"
    using set_mode_law [OF _ assms(2,5)] by blast
  have "on_device E (\<lambda>D. dv_setMode D g (pn_mode p)) (?p, w1) = Inr (Inr (), ?p, w2)"
    by (rule on_device_eq [OF assms(1)]) (rule w2(1))
  then have "Pin_writeMode E (p, w) = Inr (Inr (), ?p, w2)"
    using w1(1) assms(3,4) by (simp add: Pin_writeMode_def Pin_mcuNumber_def)
  moreover have "remembers c g w0 ?p w2"
  proof -
    have "\<forall>x \<in> pins - {g}. kept w0 w2 x" using w1(3) w2(3) kept_all unfolding remembers_def by blast
    with w1(2,3) w2(2,5) show ?thesis unfolding remembers_def by (simp split: if_splits)
  qed
  ultimately show ?thesis using w1(2) w2(4) by blast
qed

lemma write_pull:
  assumes "pe_device E = Some D" "g \<in> pins" "Pin_mcuNumber p = g" "pn_pull p \<noteq> PullUnknown" "remembers c g w0 p w"
  shows "\<exists>q w1. Pin_writePull E (p, w) = Inr (Inr (), p\<lparr>pn_holdPull := q\<rparr>, w1) \<and> remembers c g w0 (p\<lparr>pn_holdPull := q\<rparr>) w1 \<and>
    mode w1 g = mode w g"
proof -
  obtain q w1 where w1: "Pin_holdPull E (p, w) = Inr (Inr (), p\<lparr>pn_holdPull := q\<rparr>, w1)" "remembers c g w0 (p\<lparr>pn_holdPull := q\<rparr>) w1"
      "readable_pull D \<and> pull w0 g \<noteq> PullUnknown \<longrightarrow> q \<noteq> PullUnknown" "mode w1 g = mode w g"
    using hold_pull [OF assms(1-3,5)] by blast
  let ?p = "p\<lparr>pn_holdPull := q\<rparr>"
  have "ok w1" using w1(2) by (simp add: remembers_def)
  then obtain w2 where w2: "runs (dv_setPull D g (pn_pull p)) w1 () w2" "ok w2" "\<forall>x \<in> pins - {g}. kept w1 w2 x"
      "mode w2 g = mode w1 g" "mode w1 g = ModeOutput \<longrightarrow> lev w2 g = lev w1 g"
    using set_pull_law [OF _ assms(2,4)] by blast
  have "on_device E (\<lambda>D. dv_setPull D g (pn_pull p)) (?p, w1) = Inr (Inr (), ?p, w2)"
    by (rule on_device_eq [OF assms(1)]) (rule w2(1))
  then have "Pin_writePull E (p, w) = Inr (Inr (), ?p, w2)"
    using w1(1) assms(1,3) by (simp add: Pin_writePull_def Pin_mcuNumber_def)
  moreover have "remembers c g w0 ?p w2"
  proof -
    have "\<forall>x \<in> pins - {g}. kept w0 w2 x" using w1(2) w2(3) kept_all unfolding remembers_def by blast
    with w1(2,3) w2(2,4,5) show ?thesis unfolding remembers_def by (simp split: if_splits)
  qed
  moreover have "mode w2 g = mode w g" using w1(4) w2(4) by simp
  ultimately show ?thesis by blast
qed

text \<open>One operation on an open pin.\<close>

definition goes :: "'w pin_env \<Rightarrow> int \<Rightarrow> 'w \<Rightarrow> bool \<Rightarrow> bool \<Rightarrow> ('w, unit) pin \<Rightarrow> Pin \<Rightarrow> 'w \<Rightarrow> bool" where
  "goes E g w0 c h f p w \<longleftrightarrow> (\<exists>p1 w1. f (p, w) = Inr (Inr (), p1, w1) \<and> on_regs E g p1 \<and> remembers c g w0 p1 w1 \<and>
     (h \<longrightarrow> pn_holdMode p1 \<noteq> ModeUnknown) \<and> (pn_holdMode p \<noteq> ModeUnknown \<longrightarrow> pn_holdMode p1 \<noteq> ModeUnknown))"

lemma set_mode_runs:
  assumes "on_regs E g p" "remembers c g w0 p w" "m \<in> valid g"
  shows "\<exists>p1 w1. Pin_setMode E m (p, w) = Inr (Inr (), p1, w1) \<and> on_regs E g p1 \<and> remembers c g w0 p1 w1 \<and>
    pn_holdMode p1 \<noteq> ModeUnknown \<and> mode w1 g = m"
proof -
  let ?p = "p\<lparr>pn_mode := m\<rparr>"
  have p: "pe_device E = Some D" "g \<in> pins" "Pin_mcuNumber ?p = g" "\<not> pn_useSysFs ?p" "pn_mode ?p \<in> valid g" "Pin_type p = TypeGpio" "Pin_isOpen ?p"
    using assms(1,3) by (simp_all add: on_regs_def Pin_mcuNumber_def Pin_isOpen_def)
  have "remembers c g w0 ?p w" using assms(2) remembers_fields [of ?p p] by simp
  from write_mode [OF p(1-5) this] obtain h b w1 where w1: "Pin_writeMode E (?p, w) = Inr (Inr (), ?p\<lparr>pn_holdMode := h, pn_holdState := b\<rparr>, w1)"
      "h \<noteq> ModeUnknown" "remembers c g w0 (?p\<lparr>pn_holdMode := h, pn_holdState := b\<rparr>) w1" "mode w1 g = pn_mode ?p" by blast
  have "Pin_setMode E m (p, w) = Inr (Inr (), ?p\<lparr>pn_holdMode := h, pn_holdState := b\<rparr>, w1)"
    using w1(1) p(6,7) by (simp add: Pin_setMode_def Pin_isOpen_def)
  moreover have "on_regs E g (?p\<lparr>pn_holdMode := h, pn_holdState := b\<rparr>)"
    using assms(1,3) by (simp add: on_regs_def Pin_mcuNumber_def Pin_isOpen_def Pin_type_def)
  ultimately show ?thesis using w1(2-4) by (intro exI [of _ "?p\<lparr>pn_holdMode := h, pn_holdState := b\<rparr>"] exI [of _ w1]) simp
qed

lemma set_mode_goes: "on_regs E g p \<Longrightarrow> remembers c g w0 p w \<Longrightarrow> m \<in> valid g \<Longrightarrow> goes E g w0 c True (Pin_setMode E m) p w"
  using set_mode_runs unfolding goes_def by blast

lemma set_pull_runs:
  assumes "on_regs E g p" "remembers c g w0 p w" "q \<noteq> PullUnknown"
  shows "\<exists>p1 w1. Pin_setPull E q (p, w) = Inr (Inr (), p1, w1) \<and> on_regs E g p1 \<and> remembers c g w0 p1 w1 \<and>
    pn_holdMode p1 = pn_holdMode p \<and> mode w1 g = mode w g"
proof -
  let ?p = "p\<lparr>pn_pull := q\<rparr>"
  have p: "pe_device E = Some D" "g \<in> pins" "Pin_mcuNumber ?p = g" "pn_pull ?p \<noteq> PullUnknown" "Pin_type p = TypeGpio" "Pin_isOpen ?p"
    using assms(1,3) by (simp_all add: on_regs_def Pin_mcuNumber_def Pin_isOpen_def)
  have "remembers c g w0 ?p w" using assms(2) remembers_fields [of ?p p] by simp
  from write_pull [OF p(1-4) this] obtain h w1 where w1: "Pin_writePull E (?p, w) = Inr (Inr (), ?p\<lparr>pn_holdPull := h\<rparr>, w1)"
      "remembers c g w0 (?p\<lparr>pn_holdPull := h\<rparr>) w1" "mode w1 g = mode w g" by blast
  have "Pin_setPull E q (p, w) = Inr (Inr (), ?p\<lparr>pn_holdPull := h\<rparr>, w1)"
    using w1(1) p(5,6) by (simp add: Pin_setPull_def Pin_isOpen_def)
  moreover have "on_regs E g (?p\<lparr>pn_holdPull := h\<rparr>)"
    using assms(1) by (simp add: on_regs_def Pin_mcuNumber_def Pin_isOpen_def Pin_type_def)
  ultimately show ?thesis using w1(2,3) by (intro exI [of _ "?p\<lparr>pn_holdPull := h\<rparr>"] exI [of _ w1]) simp
qed

lemma set_pull_goes: "on_regs E g p \<Longrightarrow> remembers c g w0 p w \<Longrightarrow> q \<noteq> PullUnknown \<Longrightarrow> goes E g w0 c False (Pin_setPull E q) p w"
  using set_pull_runs unfolding goes_def by metis

text \<open>The level is written.\<close>

lemma remembers_level:
  assumes "remembers c g w0 p w" "ok w1" "\<forall>x \<in> pins - {g}. kept w w1 x" "mode w1 g = mode w g" "pull w1 g = pull w g"
  shows "remembers (c \<and> pn_holdMode p \<noteq> ModeUnknown) g w0 p w1"
proof -
  have "\<forall>x \<in> pins - {g}. kept w0 w1 x" using assms(1,3) kept_all unfolding remembers_def by blast
  with assms(1,2,4,5) show ?thesis unfolding remembers_def by (simp split: if_splits)
qed

lemma write_goes:
  assumes "on_regs E g p" "remembers c g w0 p w"
  shows "goes E g w0 (c \<and> pn_holdMode p \<noteq> ModeUnknown) False (Pin_write E b) p w"
proof -
  have p: "pe_device E = Some D" "g \<in> pins" "Pin_mcuNumber p = g" "\<not> pn_useSysFs p" "Pin_type p = TypeGpio" "Pin_isOpen p" "ok w"
    using assms by (simp_all add: on_regs_def remembers_def)
  obtain w1 where w1: "runs (dv_write D g b) w () w1" "ok w1" "\<forall>x \<in> pins - {g}. kept w w1 x" "mode w1 g = mode w g" "pull w1 g = pull w g"
    using write_law [OF p(7,2)] by blast
  have "Pin_write E b (p, w) = Inr (Inr (), p, w1)"
    using on_device_eq [OF p(1), of "\<lambda>D. dv_write D g b" w "()" w1] w1(1) p(3-6) by (simp add: Pin_write_def)
  with assms(1) remembers_level [OF assms(2) w1(2-5)] show ?thesis by (auto simp: goes_def)
qed

text \<open>What only reads.\<close>

lemma read_runs:
  assumes "on_regs E g p" "ok w"
  shows "\<exists>w1. Pin_read E (p, w) = Inr (Inr (lev w g), p, w1) \<and> ok w1 \<and> (\<forall>x \<in> pins. kept w w1 x)"
proof -
  have p: "pe_device E = Some D" "g \<in> pins" "Pin_mcuNumber p = g" "\<not> pn_useSysFs p" "Pin_type p = TypeGpio" "Pin_isOpen p"
    using assms by (simp_all add: on_regs_def)
  obtain w1 where w1: "runs (dv_read D g) w (lev w g) w1" "ok w1" "\<forall>x \<in> pins. kept w w1 x"
    using read_law [OF assms(2) p(2)] by blast
  have "Pin_read E (p, w) = Inr (Inr (lev w g), p, w1)"
    using on_device_eq [OF p(1), of "\<lambda>D. dv_read D g" w _ w1] w1(1) p(3-6) by (simp add: Pin_read_def)
  with w1(2,3) show ?thesis by blast
qed

lemma mode_runs:
  assumes "on_regs E g p" "ok w"
  shows "\<exists>w1. Pin_mode E (p, w) = Inr (Inr (mode w g), p\<lparr>pn_mode := mode w g\<rparr>, w1) \<and> ok w1 \<and> (\<forall>x \<in> pins. kept w w1 x)"
proof -
  have p: "pe_device E = Some D" "g \<in> pins" "Pin_mcuNumber p = g" "\<not> pn_useSysFs p" "Pin_type p = TypeGpio" "Pin_isOpen p"
    using assms by (simp_all add: on_regs_def)
  obtain w1 where w1: "runs (dv_mode D g) w (mode w g) w1" "ok w1" "\<forall>x \<in> pins. kept w w1 x"
    using mode_law [OF assms(2) p(2)] by blast
  have "Pin_mode E (p, w) = Inr (Inr (mode w g), p\<lparr>pn_mode := mode w g\<rparr>, w1)"
    using on_device_eq [OF p(1), of "\<lambda>D. dv_mode D g" w _ w1] w1(1) p(3-6) by (simp add: Pin_mode_def Pin_readMode_def)
  with w1(2,3) show ?thesis by blast
qed

lemma pull_runs:
  assumes "on_regs E g p" "ok w"
  shows "\<exists>q w1. Pin_pull E (p, w) = Inr (Inr q, p\<lparr>pn_pull := q\<rparr>, w1) \<and> ok w1 \<and> (\<forall>x \<in> pins. kept w w1 x) \<and> (readable_pull D \<longrightarrow> q = pull w g)"
proof -
  have p: "pe_device E = Some D" "g \<in> pins" "Pin_mcuNumber p = g" "Pin_type p = TypeGpio" "Pin_isOpen p"
    using assms by (simp_all add: on_regs_def)
  show ?thesis
  proof (cases "readable_pull D")
    case False
    then have "Pin_pull E (p, w) = Inr (Inr PullUnknown, p\<lparr>pn_pull := PullUnknown\<rparr>, w)"
      using p by (simp add: Pin_pull_def Pin_readPull_def readable_pull_def)
    with False assms(2) kept_refl show ?thesis by blast
  next
    case True
    obtain w1 where w1: "runs (dv_pull D g) w (pull w g) w1" "ok w1" "\<forall>x \<in> pins. kept w w1 x"
      using pull_law [OF assms(2) p(2)] by blast
    have "Pin_pull E (p, w) = Inr (Inr (pull w g), p\<lparr>pn_pull := pull w g\<rparr>, w1)"
      using on_device_eq [OF p(1), of "\<lambda>D. dv_pull D g" w _ w1] w1(1) p True by (simp add: Pin_pull_def Pin_readPull_def readable_pull_def)
    with w1(2,3) show ?thesis by blast
  qed
qed

text \<open>With a method of the device, or in two steps.\<close>

lemma toggle_runs:
  assumes "on_regs E g p" "ok w"
  shows "\<exists>w1. Pin_toggle E (p, w) = Inr (Inr (), p, w1) \<and> ok w1 \<and> (\<forall>x \<in> pins - {g}. kept w w1 x) \<and>
    mode w1 g = mode w g \<and> pull w1 g = pull w g \<and> (mode w g = ModeOutput \<longrightarrow> lev w1 g = (\<not> lev w g))"
proof -
  have p: "pe_device E = Some D" "g \<in> pins" "Pin_mcuNumber p = g" "\<not> pn_useSysFs p" "Pin_type p = TypeGpio" "Pin_isOpen p"
    using assms by (simp_all add: on_regs_def)
  have flag: "on_device E (\<lambda>D. xret (dv_flags D AND hasToggle \<noteq> 0)) (p, w) = Inr (Inr (dv_flags D AND hasToggle \<noteq> 0), p, w)"
    by (rule on_device_eq [OF p(1)]) (simp add: runs_def)
  show ?thesis
  proof (cases "dv_flags D AND hasToggle \<noteq> 0")
    case True
    obtain w1 where w1: "runs (dv_toggle D g) w () w1" "ok w1" "\<forall>x \<in> pins - {g}. kept w w1 x"
        "mode w1 g = mode w g" "pull w1 g = pull w g" "mode w g = ModeOutput \<longrightarrow> lev w1 g = (\<not> lev w g)"
      using toggle_law [OF True assms(2) p(2)] by blast
    have "Pin_toggle E (p, w) = Inr (Inr (), p, w1)"
      using on_device_eq [OF p(1), of "\<lambda>D. dv_toggle D g" w _ w1] w1(1) p(3-6) flag True by (simp add: Pin_toggle_def)
    with w1(2-6) show ?thesis by blast
  next
    case False
    obtain w1 where w1: "Pin_read E (p, w) = Inr (Inr (lev w g), p, w1)" "ok w1" "\<forall>x \<in> pins. kept w w1 x"
      using read_runs [OF assms] by blast
    obtain w2 where w2: "runs (dv_write D g (\<not> lev w g)) w1 () w2" "ok w2" "\<forall>x \<in> pins - {g}. kept w1 w2 x"
        "mode w2 g = mode w1 g" "pull w2 g = pull w1 g" "mode w1 g = ModeOutput \<longrightarrow> lev w2 g = (\<not> lev w g)"
      using write_law [OF w1(2) p(2)] by blast
    have "on_device E (\<lambda>D. dv_write D g (\<not> lev w g)) (p, w1) = Inr (Inr (), p, w2)"
      by (rule on_device_eq [OF p(1)]) (rule w2(1))
    then have "Pin_toggle E (p, w) = Inr (Inr (), p, w2)"
      using w1(1) p(3-6) flag False by (simp add: Pin_toggle_def Pin_write_def)
    moreover have "mode w1 g = mode w g" "pull w1 g = pull w g" using w1(3) p(2) by (simp_all add: pin_kept_def)
    moreover have "\<forall>x \<in> pins - {g}. kept w w2 x" using w1(3) w2(3) kept_trans by blast
    ultimately show ?thesis using w2(2,4-6) by simp
  qed
qed

lemma toggle_goes:
  assumes "on_regs E g p" "remembers c g w0 p w"
  shows "goes E g w0 (c \<and> pn_holdMode p \<noteq> ModeUnknown) False (Pin_toggle E) p w"
proof -
  have "ok w" using assms(2) by (simp add: remembers_def)
  from toggle_runs [OF assms(1) this] obtain w1 where w1: "Pin_toggle E (p, w) = Inr (Inr (), p, w1)" "ok w1"
      "\<forall>x \<in> pins - {g}. kept w w1 x" "mode w1 g = mode w g" "pull w1 g = pull w g" by blast
  with assms(1) remembers_level [OF assms(2) w1(2-5)] show ?thesis by (auto simp: goes_def)
qed

lemma ask_goes:
  assumes "on_regs E g p" "remembers c g w0 p w"
    and "f (p, w) = Inr (Inr a, p1, w1)" "ok w1" "\<forall>x \<in> pins. kept w w1 x" "on_regs E g p1"
    and "pn_holdMode p1 = pn_holdMode p" "pn_holdPull p1 = pn_holdPull p" "pn_holdState p1 = pn_holdState p"
  shows "goes E g w0 c False (xbind f (\<lambda>_. xret ())) p w"
proof -
  have "g \<in> pins" using assms(1) by (simp add: on_regs_def)
  from remembers_kept [OF assms(2,4,5) this] have "remembers c g w0 p1 w1" unfolding remembers_fields [OF assms(7-9)] .
  then show ?thesis unfolding goes_def using assms(3,6,7) by simp
qed

lemma do_goes:
  assumes "on_regs E g p" "remembers c g w0 p w" "op_valid (valid g) op"
  shows "goes E g w0 (c \<and> (pn_holdMode p \<noteq> ModeUnknown \<or> \<not> sets_level op)) (\<exists>m. op = DoMode m) (pin_do E op) p w"
proof -
  have w: "ok w" using assms(2) by (simp add: remembers_def)
  have g: "g \<in> pins" using assms(1) by (simp add: on_regs_def)
  show ?thesis
  proof (cases op)
    case DoRead
    obtain w1 where "Pin_read E (p, w) = Inr (Inr (lev w g), p, w1)" "ok w1" "\<forall>x \<in> pins. kept w w1 x"
      using read_runs [OF assms(1) w] by blast
    from ask_goes [where f = "Pin_read E", OF assms(1,2) this assms(1)] DoRead show ?thesis by (simp add: pin_do_def sets_level_def)
  next
    case AskMode
    obtain w1 where w1: "Pin_mode E (p, w) = Inr (Inr (mode w g), p\<lparr>pn_mode := mode w g\<rparr>, w1)" "ok w1" "\<forall>x \<in> pins. kept w w1 x"
      using mode_runs [OF assms(1) w] by blast
    have "on_regs E g (p\<lparr>pn_mode := mode w g\<rparr>)"
      using assms(1) mode_valid [OF w g] by (simp add: on_regs_def Pin_isOpen_def Pin_type_def Pin_mcuNumber_def)
    from ask_goes [where f = "Pin_mode E", OF assms(1,2) w1 this] AskMode show ?thesis by (simp add: pin_do_def sets_level_def)
  next
    case AskPull
    obtain q w1 where w1: "Pin_pull E (p, w) = Inr (Inr q, p\<lparr>pn_pull := q\<rparr>, w1)" "ok w1" "\<forall>x \<in> pins. kept w w1 x"
      using pull_runs [OF assms(1) w] by blast
    have "on_regs E g (p\<lparr>pn_pull := q\<rparr>)"
      using assms(1) by (simp add: on_regs_def Pin_isOpen_def Pin_type_def Pin_mcuNumber_def)
    from ask_goes [where f = "Pin_pull E", OF assms(1,2) w1 this] AskPull show ?thesis by (simp add: pin_do_def sets_level_def)
  qed (use assms set_mode_goes set_pull_goes write_goes toggle_goes in \<open>auto simp: pin_do_def op_valid_def sets_level_def\<close>)
qed

lemma dos_go:
  "\<lbrakk>on_regs E g p; remembers c g w0 p w; \<forall>op \<in> set ops. op_valid (valid g) op\<rbrakk> \<Longrightarrow>
    goes E g w0 (c \<and> (pn_holdMode p \<noteq> ModeUnknown \<or> mode_first ops)) False (pin_dos E ops) p w"
proof (induction ops arbitrary: p c w)
  case Nil
  then show ?case by (simp add: goes_def)
next
  case (Cons op ops)
  let ?c = "c \<and> (pn_holdMode p \<noteq> ModeUnknown \<or> \<not> sets_level op)"
  have "goes E g w0 ?c (\<exists>m. op = DoMode m) (pin_do E op) p w" using do_goes [OF Cons.prems(1,2)] Cons.prems(3) by simp
  then obtain p1 w1 where w1: "pin_do E op (p, w) = Inr (Inr (), p1, w1)" "on_regs E g p1" "remembers ?c g w0 p1 w1"
      "(\<exists>m. op = DoMode m) \<longrightarrow> pn_holdMode p1 \<noteq> ModeUnknown" "pn_holdMode p \<noteq> ModeUnknown \<longrightarrow> pn_holdMode p1 \<noteq> ModeUnknown"
    unfolding goes_def by blast
  have "goes E g w0 (?c \<and> (pn_holdMode p1 \<noteq> ModeUnknown \<or> mode_first ops)) False (pin_dos E ops) p1 w1"
    using Cons.IH [OF w1(2,3)] Cons.prems(3) by simp
  then obtain p2 w2 where w2: "pin_dos E ops (p1, w1) = Inr (Inr (), p2, w2)" "on_regs E g p2"
      "remembers (?c \<and> (pn_holdMode p1 \<noteq> ModeUnknown \<or> mode_first ops)) g w0 p2 w2"
      "pn_holdMode p1 \<noteq> ModeUnknown \<longrightarrow> pn_holdMode p2 \<noteq> ModeUnknown"
    unfolding goes_def by blast
  have "c \<and> (pn_holdMode p \<noteq> ModeUnknown \<or> mode_first (op # ops)) \<Longrightarrow> ?c \<and> (pn_holdMode p1 \<noteq> ModeUnknown \<or> mode_first ops)"
    using w1(4,5) by (cases op) (auto simp: sets_level_def)
  then have "remembers (c \<and> (pn_holdMode p \<noteq> ModeUnknown \<or> mode_first (op # ops))) g w0 p2 w2"
    using w2(3) unfolding remembers_def by (auto split: if_splits)
  with w1(1,5) w2(1,2,4) show ?case unfolding goes_def by (intro exI [of _ p2] exI [of _ w2]) simp
qed

text \<open>The release gives back what is remembered.\<close>

definition restored :: "bool \<Rightarrow> int \<Rightarrow> 'w \<Rightarrow> 'w \<Rightarrow> bool" where
  "restored c g w0 w \<longleftrightarrow> ok w \<and> (\<forall>x \<in> pins - {g}. kept w0 w x) \<and> mode w g = mode w0 g \<and>
     (c \<and> mode w0 g = ModeOutput \<longrightarrow> lev w g = lev w0 g) \<and>
     (readable_pull D \<and> pull w0 g \<noteq> PullUnknown \<longrightarrow> pull w g = pull w0 g)"

lemma set_held_mode:
  assumes "on_regs E g p" "ok w" "pn_holdMode p \<in> valid g"
  shows "\<exists>w1. Pin_setMode E (pn_holdMode p) (p, w) = Inr (Inr (), p\<lparr>pn_mode := pn_holdMode p\<rparr>, w1) \<and> ok w1 \<and>
    (\<forall>x \<in> pins - {g}. kept w w1 x) \<and> mode w1 g = pn_holdMode p \<and> pull w1 g = pull w g"
proof -
  have p: "pe_device E = Some D" "g \<in> pins" "Pin_mcuNumber p = g" "\<not> pn_useSysFs p" "Pin_type p = TypeGpio" "Pin_isOpen p"
    using assms by (simp_all add: on_regs_def)
  obtain w1 where w1: "runs (dv_setMode D g (pn_holdMode p)) w () w1" "ok w1" "\<forall>x \<in> pins - {g}. kept w w1 x"
      "mode w1 g = pn_holdMode p" "pull w1 g = pull w g"
    using set_mode_law [OF assms(2) p(2) assms(3)] by blast
  let ?p = "p\<lparr>pn_mode := pn_holdMode p\<rparr>"
  have "pn_holdMode p \<noteq> ModeUnknown" using assms(3) known [OF p(2)] by auto
  then have "Pin_holdMode E (?p, w) = Inr (Inr (), ?p, w)" by (simp add: Pin_holdMode_def)
  moreover have "on_device E (\<lambda>D. dv_setMode D g (pn_holdMode p)) (?p, w) = Inr (Inr (), ?p, w1)"
    by (rule on_device_eq [OF p(1)]) (rule w1(1))
  ultimately have "Pin_setMode E (pn_holdMode p) (p, w) = Inr (Inr (), ?p, w1)"
    using p(3-6) by (simp add: Pin_setMode_def Pin_writeMode_def Pin_isOpen_def Pin_mcuNumber_def)
  with w1(2-5) show ?thesis by blast
qed

lemma set_held_pull:
  assumes "on_regs E g p" "ok w" "pn_holdPull p \<noteq> PullUnknown"
  shows "\<exists>w1. Pin_setPull E (pn_holdPull p) (p, w) = Inr (Inr (), p\<lparr>pn_pull := pn_holdPull p\<rparr>, w1) \<and> ok w1 \<and>
    (\<forall>x \<in> pins - {g}. kept w w1 x) \<and> mode w1 g = mode w g \<and> (mode w g = ModeOutput \<longrightarrow> lev w1 g = lev w g) \<and>
    (readable_pull D \<longrightarrow> pull w1 g = pn_holdPull p)"
proof -
  have p: "pe_device E = Some D" "g \<in> pins" "Pin_mcuNumber p = g" "Pin_type p = TypeGpio" "Pin_isOpen p"
    using assms by (simp_all add: on_regs_def)
  obtain w1 where w1: "runs (dv_setPull D g (pn_holdPull p)) w () w1" "ok w1" "\<forall>x \<in> pins - {g}. kept w w1 x"
      "mode w1 g = mode w g" "mode w g = ModeOutput \<longrightarrow> lev w1 g = lev w g" "readable_pull D \<longrightarrow> pull w1 g = pn_holdPull p"
    using set_pull_law [OF assms(2) p(2) assms(3)] by blast
  let ?p = "p\<lparr>pn_pull := pn_holdPull p\<rparr>"
  have "Pin_holdPull E (?p, w) = Inr (Inr (), ?p, w)" using assms(3) by (simp add: Pin_holdPull_def)
  moreover have "on_device E (\<lambda>D. dv_setPull D g (pn_holdPull p)) (?p, w) = Inr (Inr (), ?p, w1)"
    by (rule on_device_eq [OF p(1)]) (rule w1(1))
  ultimately have "Pin_setPull E (pn_holdPull p) (p, w) = Inr (Inr (), ?p, w1)"
    using p by (simp add: Pin_setPull_def Pin_writePull_def Pin_isOpen_def Pin_mcuNumber_def)
  with w1(2-6) show ?thesis by blast
qed

text \<open>The mode first, with the level of an output.\<close>

lemma release_mode:
  assumes "on_regs E g p" "remembers c g w0 p w" "ok w0"
  shows "\<exists>p1 w1. xwhen (pn_holdMode p \<noteq> ModeUnknown)
        (xseq (Pin_setMode E (pn_holdMode p))
        (xseq (xwhen (pn_holdMode p = ModeOutput) (Pin_write E (pn_holdState p))) (pin_put (\<lambda>p. p\<lparr>pn_holdMode := ModeUnknown\<rparr>)))) (p, w) =
      Inr (Inr (), p1, w1) \<and> on_regs E g p1 \<and> pn_holdMode p1 = ModeUnknown \<and> pn_holdPull p1 = pn_holdPull p \<and>
    ok w1 \<and> (\<forall>x \<in> pins - {g}. kept w0 w1 x) \<and> mode w1 g = mode w0 g \<and>
    (c \<and> mode w0 g = ModeOutput \<longrightarrow> lev w1 g = lev w0 g) \<and> pull w1 g = pull w g"
proof (cases "pn_holdMode p = ModeUnknown")
  case True
  with assms show ?thesis by (intro exI [of _ p] exI [of _ w]) (simp add: remembers_def)
next
  case False
  have w: "ok w" "pn_holdMode p = mode w0 g" "c \<and> mode w0 g = ModeOutput \<longrightarrow> pn_holdState p = lev w0 g" "\<forall>x \<in> pins - {g}. kept w0 w x"
    using False assms(2) by (auto simp: remembers_def)
  have p: "pe_device E = Some D" "g \<in> pins" "Pin_mcuNumber p = g" "\<not> pn_useSysFs p" "Pin_type p = TypeGpio" "Pin_isOpen p"
    using assms(1) by (simp_all add: on_regs_def)
  have valid: "pn_holdMode p \<in> valid g" unfolding w(2) by (rule mode_valid [OF assms(3) p(2)])
  obtain w1 where w1: "Pin_setMode E (pn_holdMode p) (p, w) = Inr (Inr (), p\<lparr>pn_mode := pn_holdMode p\<rparr>, w1)" "ok w1"
      "\<forall>x \<in> pins - {g}. kept w w1 x" "mode w1 g = pn_holdMode p" "pull w1 g = pull w g"
    using set_held_mode [OF assms(1) w(1) valid] by blast
  let ?p = "p\<lparr>pn_mode := pn_holdMode p\<rparr>" and ?q = "p\<lparr>pn_mode := pn_holdMode p, pn_holdMode := ModeUnknown\<rparr>"
  have regs: "on_regs E g ?q" using assms(1) valid by (simp add: on_regs_def Pin_isOpen_def Pin_type_def Pin_mcuNumber_def)
  have k1: "\<forall>x \<in> pins - {g}. kept w0 w1 x" by (rule kept_all [OF w(4) w1(3)])
  show ?thesis
  proof (cases "pn_holdMode p = ModeOutput")
    case False
    with \<open>pn_holdMode p \<noteq> ModeUnknown\<close> w1 w(2) regs k1 show ?thesis by (intro exI [of _ ?q] exI [of _ w1]) simp
  next
    case True
    obtain w2 where w2: "runs (dv_write D g (pn_holdState p)) w1 () w2" "ok w2" "\<forall>x \<in> pins - {g}. kept w1 w2 x"
        "mode w2 g = mode w1 g" "pull w2 g = pull w1 g" "mode w1 g = ModeOutput \<longrightarrow> lev w2 g = pn_holdState p"
      using write_law [OF w1(2) p(2)] by blast
    have "on_device E (\<lambda>D. dv_write D g (pn_holdState p)) (?p, w1) = Inr (Inr (), ?p, w2)"
      by (rule on_device_eq [OF p(1)]) (rule w2(1))
    then have "Pin_write E (pn_holdState p) (?p, w1) = Inr (Inr (), ?p, w2)"
      using p(3-6) by (simp add: Pin_write_def Pin_isOpen_def Pin_type_def Pin_mcuNumber_def)
    with True w1 w2(2,4-6) w(2,3) regs kept_all [OF k1 w2(3)] show ?thesis by (intro exI [of _ ?q] exI [of _ w2]) simp
  qed
qed

lemma release_restores:
  assumes "on_regs E g p" "remembers c g w0 p w" "ok w0"
  shows "\<exists>p1 w1. Pin_release E (p, w) = Inr (Inr (), p1, w1) \<and> on_regs E g p1 \<and> pn_holdMode p1 = ModeUnknown \<and>
    pn_holdPull p1 = PullUnknown \<and> restored c g w0 w1"
proof -
  have p: "Pin_type p = TypeGpio" "Pin_isOpen p" using assms(1) by (simp_all add: on_regs_def)
  obtain p1 w1 where w1: "xwhen (pn_holdMode p \<noteq> ModeUnknown)
        (xseq (Pin_setMode E (pn_holdMode p))
        (xseq (xwhen (pn_holdMode p = ModeOutput) (Pin_write E (pn_holdState p))) (pin_put (\<lambda>p. p\<lparr>pn_holdMode := ModeUnknown\<rparr>)))) (p, w) =
      Inr (Inr (), p1, w1)" "on_regs E g p1" "pn_holdMode p1 = ModeUnknown" "pn_holdPull p1 = pn_holdPull p"
    "ok w1" "\<forall>x \<in> pins - {g}. kept w0 w1 x" "mode w1 g = mode w0 g" "c \<and> mode w0 g = ModeOutput \<longrightarrow> lev w1 g = lev w0 g"
    "pull w1 g = pull w g"
    using release_mode [OF assms] by blast
  have rd: "readable_pull D \<and> pull w0 g \<noteq> PullUnknown \<longrightarrow>
      (if pn_holdPull p = PullUnknown then pull w g = pull w0 g else pn_holdPull p = pull w0 g)"
    using assms(2) by (simp add: remembers_def)
  have rel: "Pin_release E (p, w) = xseq (\<lambda>_. Inr (Inr (), p1, w1)) (pin_get (\<lambda>p. xwhen (pn_holdPull p \<noteq> PullUnknown)
           (xseq (Pin_setPull E (pn_holdPull p)) (pin_put (\<lambda>p. p\<lparr>pn_holdPull := PullUnknown\<rparr>))))) (p, w)"
    unfolding Pin_release_def using p w1(1) by (simp add: xseq_def xbind_def del: xwhen_eq) simp
  show ?thesis
  proof (cases "pn_holdPull p = PullUnknown")
    case True
    then have "Pin_release E (p, w) = Inr (Inr (), p1, w1)" unfolding rel using w1(4) by simp
    with True w1(2-9) rd show ?thesis unfolding restored_def by (intro exI [of _ p1] exI [of _ w1]) simp
  next
    case False
    have "pn_holdPull p1 \<noteq> PullUnknown" using False w1(4) by simp
    from set_held_pull [OF w1(2,5) this] obtain w2 where w2:
        "Pin_setPull E (pn_holdPull p1) (p1, w1) = Inr (Inr (), p1\<lparr>pn_pull := pn_holdPull p1\<rparr>, w2)" "ok w2"
        "\<forall>x \<in> pins - {g}. kept w1 w2 x" "mode w2 g = mode w1 g" "mode w1 g = ModeOutput \<longrightarrow> lev w2 g = lev w1 g"
        "readable_pull D \<longrightarrow> pull w2 g = pn_holdPull p1" by blast
    let ?q = "p1\<lparr>pn_pull := pn_holdPull p1, pn_holdPull := PullUnknown\<rparr>"
    have "Pin_release E (p, w) = Inr (Inr (), ?q, w2)" unfolding rel using w2(1) False w1(4) by simp
    moreover have "on_regs E g ?q" using w1(2) by (simp add: on_regs_def Pin_isOpen_def Pin_type_def Pin_mcuNumber_def)
    moreover have "restored c g w0 w2"
      using w1(4,7,8) w2(2,4-6) rd False kept_all [OF w1(6) w2(3)] by (auto simp: restored_def)
    ultimately show ?thesis using w1(3) by (intro exI [of _ ?q] exI [of _ w2]) simp
  qed
qed

abbreviation idle :: "int \<Rightarrow> Pin \<Rightarrow> bool" where "idle g p \<equiv> pin_idle (valid g) g p"

lemma close_restores:
  assumes "on_regs E g p" "remembers c g w0 p w" "ok w0" "pe_roc E"
  shows "\<exists>p1 w1. Pin_close E (p, w) = Inr (Inr (), p1, w1) \<and> idle g p1 \<and> restored c g w0 w1"
proof -
  have p: "Pin_type p = TypeGpio" "Pin_isOpen p" "\<not> pn_useSysFs p" using assms(1) by (simp_all add: on_regs_def)
  have "p\<lparr>pn_useSysFs := False\<rparr> = p" using p(3) by (cases p) simp
  then have "Pin_forceUseSysFs E False (p, w) = Inr (Inr False, p, w)" using p by (simp add: Pin_forceUseSysFs_def Pin_useSysFs_def)
  moreover obtain p1 w1 where w1: "Pin_release E (p, w) = Inr (Inr (), p1, w1)" "on_regs E g p1" "pn_holdMode p1 = ModeUnknown"
      "pn_holdPull p1 = PullUnknown" "restored c g w0 w1"
    using release_restores [OF assms(1-3)] by blast
  ultimately have "Pin_close E (p, w) = Inr (Inr (), p1\<lparr>pn_isopen := False\<rparr>, w1)"
    using p assms(4) by (simp add: Pin_close_def)
  moreover have "idle g (p1\<lparr>pn_isopen := False\<rparr>)"
    using w1(2-4) by (simp add: pin_idle_def on_regs_def Pin_isOpen_def Pin_type_def Pin_mcuNumber_def)
  ultimately show ?thesis using w1(5) by blast
qed

lemma remembers_start: "idle g p \<Longrightarrow> ok w \<Longrightarrow> remembers True g w (p\<lparr>pn_isopen := b\<rparr>) w"
  by (simp add: pin_idle_def remembers_def kept_refl)

text \<open>The opening: the mode, the pull resistor, the edge.\<close>

lemma open_mode:
  assumes "idle g p" "pe_device E = Some D" "g \<in> pins" "ok w"
  shows "\<exists>p1 w1. (if pn_mode p \<noteq> ModeUnknown then Pin_writeMode E else Pin_readMode E) (p\<lparr>pn_isopen := True\<rparr>, w) = Inr (Inr (), p1, w1) \<and>
    on_regs E g p1 \<and> remembers True g w p1 w1 \<and> pn_pull p1 = pn_pull p \<and> pn_holdPull p1 = PullUnknown \<and>
    (pn_mode p \<noteq> ModeUnknown \<longleftrightarrow> pn_holdMode p1 \<noteq> ModeUnknown)"
proof -
  let ?p = "p\<lparr>pn_isopen := True\<rparr>"
  have held: "pn_holdMode p = ModeUnknown" "pn_holdPull p = PullUnknown" using assms(1) by (simp_all add: pin_idle_def)
  have p: "Pin_mcuNumber ?p = g" "\<not> pn_useSysFs ?p" using assms(1) by (simp_all add: pin_idle_def Pin_mcuNumber_def)
  note start = remembers_start [OF assms(1,4), of True]
  show ?thesis
  proof (cases "pn_mode p = ModeUnknown")
    case True
    obtain w1 where w1: "runs (dv_mode D g) w (mode w g) w1" "ok w1" "\<forall>x \<in> pins. kept w w1 x"
      using mode_law [OF assms(4,3)] by blast
    let ?q = "p\<lparr>pn_isopen := True, pn_mode := mode w g\<rparr>"
    have "on_device E (\<lambda>D. dv_mode D g) (?p, w) = Inr (Inr (mode w g), ?p, w1)"
      by (rule on_device_eq [OF assms(2)]) (rule w1(1))
    then have "Pin_readMode E (?p, w) = Inr (Inr (), ?q, w1)" using p by (simp add: Pin_readMode_def)
    moreover have "on_regs E g ?q"
      using assms(1-3) mode_valid [OF assms(4,3)] by (simp add: pin_idle_def on_regs_def Pin_isOpen_def Pin_type_def Pin_mcuNumber_def)
    moreover have "remembers True g w ?q w1"
      using remembers_kept [OF start w1(2,3) assms(3)] remembers_fields [of ?q ?p] by simp
    ultimately show ?thesis using True held by (intro exI [of _ ?q] exI [of _ w1]) simp
  next
    case False
    then have m: "pn_mode ?p \<in> valid g" using assms(1) by (simp add: pin_idle_def)
    from write_mode [OF assms(2,3) p m start] obtain h b w1 where w1:
        "Pin_writeMode E (?p, w) = Inr (Inr (), ?p\<lparr>pn_holdMode := h, pn_holdState := b\<rparr>, w1)" "h \<noteq> ModeUnknown"
        "remembers True g w (?p\<lparr>pn_holdMode := h, pn_holdState := b\<rparr>) w1" by blast
    moreover have "on_regs E g (?p\<lparr>pn_holdMode := h, pn_holdState := b\<rparr>)"
      using assms(1-3) m by (simp add: pin_idle_def on_regs_def Pin_isOpen_def Pin_type_def Pin_mcuNumber_def)
    ultimately show ?thesis using False held by (intro exI [of _ "?p\<lparr>pn_holdMode := h, pn_holdState := b\<rparr>"] exI [of _ w1]) simp
  qed
qed

lemma open_pull:
  assumes "on_regs E g p" "remembers c g w0 p w"
  shows "\<exists>p1 w1. (if pn_pull p \<noteq> PullUnknown then Pin_writePull E else Pin_readPull E) (p, w) = Inr (Inr (), p1, w1) \<and>
    on_regs E g p1 \<and> remembers c g w0 p1 w1 \<and> pn_holdMode p1 = pn_holdMode p \<and> (pn_pull p = PullUnknown \<longrightarrow> pn_holdPull p1 = pn_holdPull p)"
proof (cases "pn_pull p = PullUnknown")
  case False
  have p: "pe_device E = Some D" "g \<in> pins" "Pin_mcuNumber p = g" using assms(1) by (simp_all add: on_regs_def)
  from write_pull [OF p False assms(2)] obtain q w1 where w1: "Pin_writePull E (p, w) = Inr (Inr (), p\<lparr>pn_holdPull := q\<rparr>, w1)"
      "remembers c g w0 (p\<lparr>pn_holdPull := q\<rparr>) w1" by blast
  moreover have "on_regs E g (p\<lparr>pn_holdPull := q\<rparr>)"
    using assms(1) by (simp add: on_regs_def Pin_isOpen_def Pin_type_def Pin_mcuNumber_def)
  ultimately show ?thesis using False by (intro exI [of _ "p\<lparr>pn_holdPull := q\<rparr>"] exI [of _ w1]) simp
next
  case True
  have g: "g \<in> pins" "Pin_type p = TypeGpio" "Pin_isOpen p" using assms(1) by (simp_all add: on_regs_def)
  have w: "ok w" using assms(2) by (simp add: remembers_def)
  from pull_runs [OF assms(1) w] obtain q w1 where w1: "Pin_pull E (p, w) = Inr (Inr q, p\<lparr>pn_pull := q\<rparr>, w1)" "ok w1" "\<forall>x \<in> pins. kept w w1 x"
    by blast
  obtain r p1 w2 where rd: "Pin_readPull E (p, w) = Inr (r, p1, w2)"
    using w1(1) g by (cases "Pin_readPull E (p, w)") (auto simp: Pin_pull_def xseq_def xbind_def)
  have "Pin_readPull E (p, w) = Inr (Inr (), p\<lparr>pn_pull := q\<rparr>, w1)"
    using w1(1) g rd by (cases r) (auto simp: Pin_pull_def xseq_def xbind_def)
  moreover have "on_regs E g (p\<lparr>pn_pull := q\<rparr>)"
    using assms(1) by (simp add: on_regs_def Pin_isOpen_def Pin_type_def Pin_mcuNumber_def)
  moreover have "remembers c g w0 (p\<lparr>pn_pull := q\<rparr>) w1"
    using remembers_kept [OF assms(2) w1(2,3) g(1)] remembers_fields [of "p\<lparr>pn_pull := q\<rparr>" p] by simp
  ultimately show ?thesis using True by (intro exI [of _ "p\<lparr>pn_pull := q\<rparr>"] exI [of _ w1]) simp
qed

lemma open_goes:
  assumes "idle g p" "pe_device E = Some D" "g \<in> pins" "ok w"
  shows "\<exists>p1 w1. Pin_open E (p, w) = Inr (Inr True, p1, w1) \<and> on_regs E g p1 \<and> remembers True g w p1 w1 \<and>
    (pn_mode p \<noteq> ModeUnknown \<longleftrightarrow> pn_holdMode p1 \<noteq> ModeUnknown) \<and> (pn_pull p = PullUnknown \<longrightarrow> pn_holdPull p1 = PullUnknown)"
proof -
  let ?p = "p\<lparr>pn_isopen := True\<rparr>"
  have p: "\<not> Pin_isOpen p" "Pin_type p = TypeGpio" "\<not> pn_useSysFs p" "pn_mode ?p = pn_mode p"
    using assms(1) by (simp_all add: pin_idle_def)
  obtain p1 w1 where w1: "(if pn_mode p \<noteq> ModeUnknown then Pin_writeMode E else Pin_readMode E) (?p, w) = Inr (Inr (), p1, w1)"
      "on_regs E g p1" "remembers True g w p1 w1" "pn_pull p1 = pn_pull p" "pn_holdPull p1 = PullUnknown"
      "pn_mode p \<noteq> ModeUnknown \<longleftrightarrow> pn_holdMode p1 \<noteq> ModeUnknown"
    using open_mode [OF assms] by blast
  obtain p2 w2 where w2: "(if pn_pull p1 \<noteq> PullUnknown then Pin_writePull E else Pin_readPull E) (p1, w1) = Inr (Inr (), p2, w2)"
      "on_regs E g p2" "remembers True g w p2 w2" "pn_holdMode p2 = pn_holdMode p1"
      "pn_pull p1 = PullUnknown \<longrightarrow> pn_holdPull p2 = pn_holdPull p1"
    using open_pull [OF w1(2,3)] by blast
  have edge: "\<exists>e. (if pn_edge p2 \<noteq> EdgeUnknown then Pin_writeEdge E else Pin_readEdge E) (p2, w2) = Inr (Inr (), p2\<lparr>pn_edge := e\<rparr>, w2)"
  proof (cases "pn_edge p2 = EdgeUnknown")
    case True
    then show ?thesis using w2(2) by (auto simp: Pin_readEdge_def on_regs_def)
  next
    case False
    then have "Pin_writeEdge E (p2, w2) = Inr (Inr (), p2\<lparr>pn_edge := pn_edge p2\<rparr>, w2)"
      using w2(2) by (simp add: Pin_writeEdge_def on_regs_def)
    with False show ?thesis by (intro exI [of _ "pn_edge p2"]) simp
  qed
  then obtain e where e: "(if pn_edge p2 \<noteq> EdgeUnknown then Pin_writeEdge E else Pin_readEdge E) (p2, w2) = Inr (Inr (), p2\<lparr>pn_edge := e\<rparr>, w2)"
    by blast
  have regs: "on_regs E g (p2\<lparr>pn_edge := e\<rparr>)" using w2(2) by (simp add: on_regs_def Pin_isOpen_def Pin_type_def Pin_mcuNumber_def)
  then have "Pin_isOpen (p2\<lparr>pn_edge := e\<rparr>)" by (simp add: on_regs_def)
  then have "Pin_open E (p, w) = Inr (Inr True, p2\<lparr>pn_edge := e\<rparr>, w2)"
    using w1(1) w2(1) e p assms(2) by (simp add: Pin_open_def xseq_def xbind_def)
  moreover have "remembers True g w (p2\<lparr>pn_edge := e\<rparr>) w2" using w2(3) remembers_fields [of "p2\<lparr>pn_edge := e\<rparr>" p2] by simp
  ultimately show ?thesis using regs w1(4-6) w2(4,5) by (intro exI [of _ "p2\<lparr>pn_edge := e\<rparr>"] exI [of _ w2]) simp
qed

theorem session_restores:
  assumes "idle g p" "pe_device E = Some D" "pe_roc E" "g \<in> pins" "ok w" "\<forall>op \<in> set ops. op_valid (valid g) op"
  shows "\<exists>p1 w1. pin_session E ops (p, w) = Inr (Inr (), p1, w1) \<and> idle g p1 \<and>
    restored (mode_first ops \<or> pn_mode p \<noteq> ModeUnknown) g w w1"
proof -
  obtain p1 w1 where w1: "Pin_open E (p, w) = Inr (Inr True, p1, w1)" "on_regs E g p1" "remembers True g w p1 w1"
      "pn_mode p \<noteq> ModeUnknown \<longleftrightarrow> pn_holdMode p1 \<noteq> ModeUnknown"
    using open_goes [OF assms(1,2,4,5)] by blast
  obtain p2 w2 where w2: "pin_dos E ops (p1, w1) = Inr (Inr (), p2, w2)" "on_regs E g p2"
      "remembers (pn_holdMode p1 \<noteq> ModeUnknown \<or> mode_first ops) g w p2 w2"
    using dos_go [OF w1(2,3) assms(6)] unfolding goes_def by auto
  obtain p3 w3 where w3: "Pin_close E (p2, w2) = Inr (Inr (), p3, w3)" "idle g p3"
      "restored (pn_holdMode p1 \<noteq> ModeUnknown \<or> mode_first ops) g w w3"
    using close_restores [OF w2(2,3) assms(5,3)] by blast
  have "pin_session E ops (p, w) = Inr (Inr (), p3, w3)" using w1(1) w2(1) w3(1) by (simp add: pin_session_def)
  moreover have "restored (mode_first ops \<or> pn_mode p \<noteq> ModeUnknown) g w w3" using w3(3) w1(4) by (auto simp: restored_def)
  ultimately show ?thesis using w3(2) by blast
qed

text \<open>A pin that has no mode of its own, is an output and is only written keeps the new level.\<close>

theorem level_stays:
  assumes "idle g p" "pe_device E = Some D" "pe_roc E" "g \<in> pins" "ok w"
    and "pn_mode p = ModeUnknown" "pn_pull p = PullUnknown" "mode w g = ModeOutput"
  shows "\<exists>p1 w1. pin_session E [DoWrite b] (p, w) = Inr (Inr (), p1, w1) \<and> idle g p1 \<and> mode w1 g = ModeOutput \<and> lev w1 g = b"
proof -
  obtain p1 w1 where w1: "Pin_open E (p, w) = Inr (Inr True, p1, w1)" "on_regs E g p1" "remembers True g w p1 w1"
      "pn_holdMode p1 = ModeUnknown" "pn_holdPull p1 = PullUnknown"
    using open_goes [OF assms(1,2,4,5)] assms(6,7) by blast
  have p: "pe_device E = Some D" "Pin_mcuNumber p1 = g" "\<not> pn_useSysFs p1" "Pin_type p1 = TypeGpio" "Pin_isOpen p1" "ok w1"
      "mode w1 g = ModeOutput"
    using w1(2-4) assms(8) by (simp_all add: on_regs_def remembers_def)
  obtain w2 where w2: "runs (dv_write D g b) w1 () w2" "ok w2" "mode w2 g = mode w1 g" "mode w1 g = ModeOutput \<longrightarrow> lev w2 g = b"
    using write_law [OF p(6) assms(4)] by blast
  have put: "Pin_write E b (p1, w1) = Inr (Inr (), p1, w2)"
    using on_device_eq [OF p(1), of "\<lambda>D. dv_write D g b" w1 "()" w2] w2(1) p(2-5) by (simp add: Pin_write_def)
  have "remembers True g w2 p1 w2" using w1(4,5) w2(2) by (simp add: remembers_def kept_refl)
  from close_restores [OF w1(2) this w2(2) assms(3)] obtain p3 w3 where w3: "Pin_close E (p1, w2) = Inr (Inr (), p3, w3)" "idle g p3"
      "restored True g w2 w3" by blast
  have "pin_session E [DoWrite b] (p, w) = Inr (Inr (), p3, w3)"
    using w1(1) put w3(1) by (simp add: pin_session_def pin_do_def)
  moreover have "mode w3 g = ModeOutput" "lev w3 g = b" using w3(3) w2(3,4) p(7) by (simp_all add: restored_def)
  ultimately show ?thesis using w3(2) by blast
qed

end

end
