(* ===== verification/Device_Laws.thy ===== *)
theory Device_Laws
  imports Gpio_Devices Pin_Laws
begin

text \<open>
  The two devices of the C++ interface keep what the pins rely on, on registers that behave as the manuals of their processors say;
  so the pins of both are restored when they are closed.
\<close>

section \<open>Fields of registers\<close>

lemma field_read:
  fixes v m :: u32
  assumes "m < 2 ^ k" "n + k \<le> 32"
  shows "drop_bit n ((v AND NOT (push_bit n (mask k))) OR push_bit n m) AND mask k = m"
proof (rule bit_word_eqI)
  fix i
  show "bit (drop_bit n ((v AND NOT (push_bit n (mask k))) OR push_bit n m) AND mask k) i \<longleftrightarrow> bit m i"
    using bit_below [OF assms(1), of i] bit_imp_le_length [of m i] by (auto simp: bit_and_iff bit_drop_bit_eq field_put [OF assms] bit_mask_iff simp del: drop_bit_and drop_bit_or)
qed

lemma field_apart:
  fixes v m :: u32
  assumes "m < 2 ^ k" "n + k \<le> 32" "n1 + k1 \<le> n \<or> n + k \<le> n1"
  shows "drop_bit n1 ((v AND NOT (push_bit n (mask k))) OR push_bit n m) AND mask k1 = drop_bit n1 v AND mask k1"
  using assms(3) by (intro drop_eq) (auto simp: field_put [OF assms(1,2)])

text \<open>Codes of three bits.\<close>

lemma code_cases: "(v :: u32) AND 7 \<in> {0, 1, 2, 3, 4, 5, 6, 7}"
proof -
  have "v AND 7 = v AND mask 3" by (simp add: mask_eq_exp_minus_1)
  then have "v AND 7 < 8" using and_mask_less_size [of 3 v] by (simp add: word_size)
  then have "unat (v AND 7) < 8" by (simp add: word_less_nat_alt)
  moreover define n where "n = unat (v AND 7)"
  ultimately have "n = 0 \<or> n = 1 \<or> n = 2 \<or> n = 3 \<or> n = 4 \<or> n = 5 \<or> n = 6 \<or> n = 7" by auto
  moreover have "v AND 7 = word_of_nat n" by (simp add: n_def)
  ultimately show ?thesis by (elim disjE) simp_all
qed

section \<open>NanoPi\<close>

text \<open>The maps of the device as those of a port, so that the words are those of the C interface.\<close>

definition nano_gp :: "DeviceNanoPi \<Rightarrow> xGpio" where
  "nano_gp d = \<lparr>g_map0 = dn_iomap0 d, g_map1 = dn_iomap1 d, g_list = None, g_i = 0, g_j = 0, g_pinmode = replicate 106 0,
     g_pinmode_release = replicate 106 0, g_pinpull = [], g_pinpull_release = [], g_link = 0, g_roc = True, g_numbering = 0\<rparr>"

definition nano_st :: "'w nano_dev \<Rightarrow> 'w gst" where "nano_st s = (nano_gp (fst s), snd (snd s))"

definition nano_dev_ok :: "'w iosys \<Rightarrow> ('w \<Rightarrow> nat \<Rightarrow> nat \<Rightarrow> u32) \<Rightarrow> 'w nano_dev \<Rightarrow> bool" where
  "nano_dev_ok K regs s \<longleftrightarrow> dn_isopen (fst s) \<and> nano_ok K regs (nano_st s)"

definition nano_mode_of :: "int \<Rightarrow> u32 \<Rightarrow> Mode" where
  "nano_mode_of g v =
     (let m = the (map_of DeviceNanoPi_int2mode v) in if m = ModeAlt3 \<and> (g = 5 \<or> g = 6) \<or> m = ModeAlt2 \<and> g = 104 then ModePwm else m)"

definition nano_pull_of :: "u32 \<Rightarrow> Pull" where
  "nano_pull_of v = (if v = 0 then PullOff else if v = 2 then PullDown else if v = 1 then PullUp else PullUnknown)"

definition nano_dev_mode :: "('w \<Rightarrow> nat \<Rightarrow> nat \<Rightarrow> u32) \<Rightarrow> 'w nano_dev \<Rightarrow> int \<Rightarrow> Mode" where
  "nano_dev_mode regs s g =
     nano_mode_of g (drop_bit (cfg_shift (pin_of_pin g)) (nano_word regs (nano_st s) g (cfg_word (pin_of_pin g))) AND mask 3)"

definition nano_dev_lev :: "('w \<Rightarrow> nat \<Rightarrow> nat \<Rightarrow> u32) \<Rightarrow> 'w nano_dev \<Rightarrow> int \<Rightarrow> bool" where
  "nano_dev_lev regs s g = nano_lev regs (nano_st s) g"

definition nano_dev_pull :: "('w \<Rightarrow> nat \<Rightarrow> nat \<Rightarrow> u32) \<Rightarrow> 'w nano_dev \<Rightarrow> int \<Rightarrow> Pull" where
  "nano_dev_pull regs s g =
     nano_pull_of (drop_bit (pul_shift (pin_of_pin g)) (nano_word regs (nano_st s) g (bk_PUL + pul_word (pin_of_pin g))) AND mask 2)"

text \<open>The modes that a pin can have.\<close>

definition nano_modes :: "int \<Rightarrow> Mode set" where
  "nano_modes g = {ModeInput, ModeOutput, ModeAlt4, ModeAlt5, ModeAlt6, ModeDisabled} \<union>
     (if g = 104 then {ModePwm} else {ModeAlt2}) \<union> (if g = 5 \<or> g = 6 then {ModePwm} else {ModeAlt3})"

lemma nano_mode_of_valid: "nano_mode_of g (v AND mask 3) \<in> nano_modes g"
proof -
  have "v AND mask 3 \<in> {0, 1, 2, 3, 4, 5, 6, 7}" using code_cases [of v] by (simp add: mask_eq_exp_minus_1)
  then show ?thesis by (auto simp: nano_mode_of_def DeviceNanoPi_int2mode_def nano_modes_def)
qed

text \<open>The code of a mode of a pin.\<close>

definition nano_code :: "int \<Rightarrow> Mode \<Rightarrow> u32" where
  "nano_code g m = (if m = ModePwm then if g = 104 then 2 else 3 else the (map_of DeviceNanoPi_mode2int m))"

lemma nano_code: "m \<in> nano_modes g \<Longrightarrow> nano_mode_of g (nano_code g m) = m \<and> nano_code g m < 2 ^ 3"
  by (auto simp: nano_modes_def nano_code_def nano_mode_of_def DeviceNanoPi_mode2int_def DeviceNanoPi_int2mode_def split: if_splits)

text \<open>The bank of a pin.\<close>

lemma pinBank_ok:
  assumes "nano_dev_ok K regs s" "0 \<le> g" "g < 106"
  shows "DeviceNanoPi_pinBank g s =
    Inr (Inr (bank_map (port_of_pin g) (nano_gp (fst s)), bank_reg (port_of_pin g), pin_of_pin g), s)"
proof -
  note facts = port_facts [OF assms(2,3)]
  have ok: "nano_ok K regs (nano_st s)" "dn_isopen (fst s)" using assms(1) by (simp_all add: nano_dev_ok_def)
  have "mapped (dn_iomap0 (fst s))" "mapped (dn_iomap1 (fst s))" using ok(1) by (simp_all add: nano_ok_def nano_st_def nano_gp_def)
  note ios = pIo_ok [OF this(1)] pIo_ok [OF this(2)]
  have b: "(0x800 + b * 0x24) div 4 = 0x200 + 9 * b" for b :: nat by simp
  have "DeviceNanoPi_bank (port_of_pin g) s = Inr (Inr (Some (bank_map (port_of_pin g) (nano_gp (fst s)), bank_reg (port_of_pin g))), s)"
    using facts(2) ok(2) ios by (auto simp: DeviceNanoPi_bank_def bank_map_def bank_reg_def nano_gp_def Pio1Offset_def Pio2Offset_def b)
  moreover have "DeviceNanoPi_portSize = port_sizes" by (simp add: DeviceNanoPi_portSize_def port_sizes_def)
  ultimately show ?thesis using facts(1,2) by (simp add: DeviceNanoPi_pinBank_def)
qed

text \<open>A word of the port of a pin is changed.\<close>

definition nano_put :: "('w \<Rightarrow> nat \<Rightarrow> nat \<Rightarrow> u32) \<Rightarrow> 'w nano_dev \<Rightarrow> 'w nano_dev \<Rightarrow> int \<Rightarrow> nat \<Rightarrow> (u32 \<Rightarrow> u32) \<Rightarrow> bool" where
  "nano_put regs s s1 g j f \<longleftrightarrow> fst s1 = fst s \<and>
     (\<forall>x k. 0 \<le> x \<and> x < 106 \<and> k < 9 \<longrightarrow> nano_word regs (nano_st s1) x k =
        (if port_of_pin x = port_of_pin g \<and> k = j then f (nano_word regs (nano_st s) g j) else nano_word regs (nano_st s) x k))"

lemma reg_upd_ok:
  assumes "nano_dev_ok K regs s" "0 \<le> g" "g < 106" "j < 9"
  shows "\<exists>s1. reg_upd K (bank_map (port_of_pin g) (nano_gp (fst s))) (bank_reg (port_of_pin g) + j) f s = Inr (Inr (), s1) \<and>
    nano_dev_ok K regs s1 \<and> nano_put regs s s1 g j f"
proof -
  obtain d m w where s: "s = (d, m, w)" by (cases s)
  have "nano_ok K regs (nano_gp d, w)" using assms(1) by (simp add: nano_dev_ok_def nano_st_def s)
  from nano_upd [OF this assms(2-4), of f] obtain w1 where w1:
      "io_upd K (bank_map (port_of_pin g) (nano_gp d)) (bank_reg (port_of_pin g) + j) f w = Inr w1" "nano_ok K regs (nano_gp d, w1)"
      "\<forall>x k. 0 \<le> x \<and> x < 106 \<and> k < 9 \<longrightarrow> nano_word regs (nano_gp d, w1) x k =
       (if port_of_pin x = port_of_pin g \<and> k = j then f (nano_word regs (nano_gp d, w) g j) else nano_word regs (nano_gp d, w) x k)"
    by auto
  then show ?thesis using assms(1)
    by (intro exI [of _ "(d, m, w1)"]) (simp add: reg_upd_def nano_dev_ok_def nano_put_def nano_st_def s)
qed

lemma reg_get_ok:
  assumes "nano_dev_ok K regs s" "0 \<le> g" "g < 106" "j < 9"
  shows "\<exists>s1. reg_get K (bank_map (port_of_pin g) (nano_gp (fst s))) (bank_reg (port_of_pin g) + j) s =
      Inr (Inr (nano_word regs (nano_st s) g j), s1) \<and> nano_dev_ok K regs s1 \<and> (\<forall>x k. nano_word regs (nano_st s1) x k = nano_word regs (nano_st s) x k)"
proof -
  obtain d m w where s: "s = (d, m, w)" by (cases s)
  have ok: "nano_ok K regs (nano_gp d, w)" using assms(1) by (simp add: nano_dev_ok_def nano_st_def s)
  from nano_get [OF this assms(2-4)] obtain w1 where w1:
      "io_get K (bank_map (port_of_pin g) (nano_gp d)) (bank_reg (port_of_pin g) + j) w = Inr (nano_word regs (nano_gp d, w) g j, w1)"
      "regs w1 = regs w" by auto
  then have "nano_ok K regs (nano_gp d, w1)" using ok by (simp add: nano_ok_def)
  with w1 assms(1) show ?thesis
    by (intro exI [of _ "(d, m, w1)"]) (simp add: reg_get_def nano_dev_ok_def nano_word_def nano_st_def s)
qed

lemma delay_ok:
  assumes "nano_dev_ok K regs s"
  shows "\<exists>s1. dev_delay_us K n s = Inr (Inr (), s1) \<and> nano_dev_ok K regs s1 \<and> fst s1 = fst s \<and>
    (\<forall>x k. nano_word regs (nano_st s1) x k = nano_word regs (nano_st s) x k)"
proof -
  obtain d m w where s: "s = (d, m, w)" by (cases s)
  have "regs (os_delay_us K n w) = regs w" using assms by (simp add: nano_dev_ok_def nano_ok_def reg_mem_def)
  with assms show ?thesis
    by (intro exI [of _ "(d, m, os_delay_us K n w)"]) (simp add: dev_delay_us_def nano_dev_ok_def nano_ok_def nano_word_def nano_st_def s)
qed

lemma nano_put_put:
  assumes "nano_put regs s s1 g j f" "nano_put regs s1 s2 g j h" "0 \<le> g" "g < 106" "j < 9"
  shows "nano_put regs s s2 g j (\<lambda>v. h (f v))"
  using assms by (simp add: nano_put_def)

lemma nano_put_same:
  assumes "nano_put regs s s1 g j f" "fst s2 = fst s1" "\<forall>x k. nano_word regs (nano_st s2) x k = nano_word regs (nano_st s1) x k"
  shows "nano_put regs s s2 g j f"
  using assms by (simp add: nano_put_def)

text \<open>What a change of a word does to the modes, the levels and the pull resistors.\<close>

definition put_field :: "nat \<Rightarrow> nat \<Rightarrow> u32 \<Rightarrow> u32 \<Rightarrow> u32" where
  "put_field n k m v = (v AND NOT (push_bit n (mask k))) OR push_bit n m"

lemma pin_apart:
  assumes "0 \<le> g" "g < 106" "0 \<le> x" "x < 106" "x \<noteq> g" "port_of_pin x = port_of_pin g"
  shows "pin_of_pin x \<noteq> pin_of_pin g"
  using assms port_facts(5) [OF assms(1,2)] port_facts(5) [OF assms(3,4)] by metis

lemma word_of_port: "port_of_pin x = port_of_pin g \<Longrightarrow> nano_word regs s x k = nano_word regs s g k"
  by (simp add: nano_word_def)

lemma pul_place: "f < 22 \<Longrightarrow> pul_word f < 2 \<and> pul_shift f + 2 \<le> 32"
  unfolding pul_word_def pul_shift_def minus_div_mult_eq_mod by auto

lemma pul_apart: "pul_word f = pul_word f1 \<Longrightarrow> f \<noteq> f1 \<Longrightarrow> pul_shift f + 2 \<le> pul_shift f1 \<or> pul_shift f1 + 2 \<le> pul_shift f"
proof -
  assume "pul_word f = pul_word f1" "f \<noteq> f1"
  then have "f mod 16 \<noteq> f1 mod 16" unfolding pul_word_def by (metis div_mult_mod_eq)
  then show ?thesis unfolding pul_word_def pul_shift_def minus_div_mult_eq_mod by (cases "f mod 16 < f1 mod 16") auto
qed

lemma mode_put:
  assumes put: "nano_put regs s s1 g (cfg_word (pin_of_pin g)) (put_field (cfg_shift (pin_of_pin g)) 4 m)" and m: "m < 2 ^ 3"
    and g: "0 \<le> g" "g < 106" and x: "0 \<le> x" "x < 106"
  shows "nano_dev_mode regs s1 x = (if x = g then nano_mode_of g m else nano_dev_mode regs s x)"
    and "nano_dev_lev regs s1 x = nano_dev_lev regs s x" "nano_dev_pull regs s1 x = nano_dev_pull regs s x"
proof -
  let ?f = "pin_of_pin g" and ?e = "pin_of_pin x"
  have c: "cfg_word ?f < 3" "cfg_shift ?f + 4 \<le> 32" "cfg_word ?e < 3" "pul_word ?e < 2"
    using cfg_place [OF port_facts(4) [OF g]] cfg_place [OF port_facts(4) [OF x]] pul_place [OF port_facts(4) [OF x]] by auto
  have m4: "m < 2 ^ 4" by (rule less_trans [OF m]) simp
  have words: "nano_word regs (nano_st s1) x k = (if port_of_pin x = port_of_pin g \<and> k = cfg_word ?f
      then put_field (cfg_shift ?f) 4 m (nano_word regs (nano_st s) g (cfg_word ?f)) else nano_word regs (nano_st s) x k)" if "k < 9" for k
    using put x that by (simp add: nano_put_def)
  show "nano_dev_lev regs s1 x = nano_dev_lev regs s x"
    using words [of 4] c(1) by (simp add: nano_dev_lev_def nano_lev_def bk_DAT_def)
  show "nano_dev_pull regs s1 x = nano_dev_pull regs s x"
    using words [of "7 + pul_word ?e"] c(1,4) by (simp add: nano_dev_pull_def bk_PUL_def)
  show "nano_dev_mode regs s1 x = (if x = g then nano_mode_of g m else nano_dev_mode regs s x)"
  proof (cases "x = g")
    case True
    have "drop_bit (cfg_shift ?f) (put_field (cfg_shift ?f) 4 m v) AND mask 3 = m" for v
    proof -
      have "drop_bit (cfg_shift ?f) (put_field (cfg_shift ?f) 4 m v) AND mask 4 = m"
        unfolding put_field_def by (rule field_read [OF m4 c(2)])
      then have "(drop_bit (cfg_shift ?f) (put_field (cfg_shift ?f) 4 m v) AND mask 4) AND mask 3 = m AND mask 3" by simp
      moreover have "(mask 4 :: u32) AND mask 3 = mask 3" by (simp add: mask_eq_exp_minus_1)
      moreover have "m AND mask 3 = m" using m by (simp add: less_mask_eq)
      ultimately show ?thesis by (simp add: and.assoc)
    qed
    then show ?thesis using True words [of "cfg_word ?f"] c(1) by (simp add: nano_dev_mode_def)
  next
    case False
    have "drop_bit (cfg_shift ?e) (nano_word regs (nano_st s1) x (cfg_word ?e)) AND mask 3 =
        drop_bit (cfg_shift ?e) (nano_word regs (nano_st s) x (cfg_word ?e)) AND mask 3"
    proof (cases "port_of_pin x = port_of_pin g \<and> cfg_word ?e = cfg_word ?f")
      case True
      then have "cfg_shift ?e + 4 \<le> cfg_shift ?f \<or> cfg_shift ?f + 4 \<le> cfg_shift ?e"
        using cfg_apart [of ?e ?f] pin_apart [OF g x False] by auto
      then have "cfg_shift ?e + 3 \<le> cfg_shift ?f \<or> cfg_shift ?f + 4 \<le> cfg_shift ?e" by auto
      from field_apart [OF m4 c(2) this] show ?thesis
        using words [of "cfg_word ?e"] c(3) True word_of_port [of x g regs "nano_st s"] by (simp add: put_field_def)
    next
      case False
      then show ?thesis using words [of "cfg_word ?e"] c(3) by auto
    qed
    then show ?thesis using False by (simp add: nano_dev_mode_def)
  qed
qed

lemma pull_put:
  assumes put: "nano_put regs s s1 g (bk_PUL + pul_word (pin_of_pin g)) (put_field (pul_shift (pin_of_pin g)) 2 m)" and m: "m < 2 ^ 2"
    and g: "0 \<le> g" "g < 106" and x: "0 \<le> x" "x < 106"
  shows "nano_dev_pull regs s1 x = (if x = g then nano_pull_of m else nano_dev_pull regs s x)"
    and "nano_dev_lev regs s1 x = nano_dev_lev regs s x" "nano_dev_mode regs s1 x = nano_dev_mode regs s x"
proof -
  let ?f = "pin_of_pin g" and ?e = "pin_of_pin x"
  have c: "pul_word ?f < 2" "pul_shift ?f + 2 \<le> 32" "pul_word ?e < 2" "cfg_word ?e < 3"
    using pul_place [OF port_facts(4) [OF g]] cfg_place [OF port_facts(4) [OF x]] pul_place [OF port_facts(4) [OF x]] by auto
  have words: "nano_word regs (nano_st s1) x k = (if port_of_pin x = port_of_pin g \<and> k = bk_PUL + pul_word ?f
      then put_field (pul_shift ?f) 2 m (nano_word regs (nano_st s) g (bk_PUL + pul_word ?f)) else nano_word regs (nano_st s) x k)" if "k < 9" for k
    using put x that by (simp add: nano_put_def)
  show "nano_dev_lev regs s1 x = nano_dev_lev regs s x"
    using words [of 4] by (simp add: nano_dev_lev_def nano_lev_def bk_DAT_def bk_PUL_def)
  show "nano_dev_mode regs s1 x = nano_dev_mode regs s x"
    using words [of "cfg_word ?e"] c(4) by (simp add: nano_dev_mode_def bk_PUL_def)
  show "nano_dev_pull regs s1 x = (if x = g then nano_pull_of m else nano_dev_pull regs s x)"
  proof (cases "x = g")
    case True
    have "drop_bit (pul_shift ?f) (put_field (pul_shift ?f) 2 m v) AND mask 2 = m" for v
      unfolding put_field_def by (rule field_read [OF m c(2)])
    then show ?thesis using True words [of "bk_PUL + pul_word ?f"] c(1) by (simp add: nano_dev_pull_def bk_PUL_def)
  next
    case False
    have "drop_bit (pul_shift ?e) (nano_word regs (nano_st s1) x (bk_PUL + pul_word ?e)) AND mask 2 =
        drop_bit (pul_shift ?e) (nano_word regs (nano_st s) x (bk_PUL + pul_word ?e)) AND mask 2"
    proof (cases "port_of_pin x = port_of_pin g \<and> pul_word ?e = pul_word ?f")
      case True
      then have "pul_shift ?e + 2 \<le> pul_shift ?f \<or> pul_shift ?f + 2 \<le> pul_shift ?e"
        using pul_apart [of ?e ?f] pin_apart [OF g x False] by auto
      from field_apart [OF m c(2) this] show ?thesis
        using words [of "bk_PUL + pul_word ?e"] c(3) True word_of_port [of x g regs "nano_st s"] by (simp add: put_field_def bk_PUL_def)
    next
      case False
      then show ?thesis using words [of "bk_PUL + pul_word ?e"] c(3) by (auto simp: bk_PUL_def)
    qed
    then show ?thesis using False by (simp add: nano_dev_pull_def)
  qed
qed

lemma data_put:
  assumes put: "nano_put regs s s1 g bk_DAT f" and bits: "\<And>v k. bit (f v) k = (if k = pin_of_pin g then b v else bit v k)"
    and g: "0 \<le> g" "g < 106" and x: "0 \<le> x" "x < 106"
  shows "nano_dev_lev regs s1 x = (if x = g then b (nano_word regs (nano_st s) g bk_DAT) else nano_dev_lev regs s x)"
    and "nano_dev_pull regs s1 x = nano_dev_pull regs s x" "nano_dev_mode regs s1 x = nano_dev_mode regs s x"
proof -
  have c: "pul_word (pin_of_pin x) < 2" "cfg_word (pin_of_pin x) < 3"
    using cfg_place [OF port_facts(4) [OF x]] pul_place [OF port_facts(4) [OF x]] by auto
  have words: "nano_word regs (nano_st s1) x k = (if port_of_pin x = port_of_pin g \<and> k = bk_DAT
      then f (nano_word regs (nano_st s) g bk_DAT) else nano_word regs (nano_st s) x k)" if "k < 9" for k
    using put x that by (simp add: nano_put_def)
  show "nano_dev_pull regs s1 x = nano_dev_pull regs s x"
    using words [of "bk_PUL + pul_word (pin_of_pin x)"] c(1) by (simp add: nano_dev_pull_def bk_PUL_def bk_DAT_def)
  show "nano_dev_mode regs s1 x = nano_dev_mode regs s x"
    using words [of "cfg_word (pin_of_pin x)"] c(2) by (simp add: nano_dev_mode_def bk_DAT_def)
  show "nano_dev_lev regs s1 x = (if x = g then b (nano_word regs (nano_st s) g bk_DAT) else nano_dev_lev regs s x)"
    using words [of bk_DAT] bits pin_apart [OF g x] word_of_port [of x g regs "nano_st s"]
    by (auto simp: nano_dev_lev_def nano_lev_def bk_DAT_def)
qed

text \<open>The methods.\<close>

lemma int2mode_at: "map_at DeviceNanoPi_int2mode (v AND 7) s = Inr (Inr (the (map_of DeviceNanoPi_int2mode (v AND 7))), s)"
  using code_cases [of v] by (auto simp: map_at_def DeviceNanoPi_int2mode_def)

lemma place_folds:
  "f div 8 = cfg_word f" "(f - cfg_word f * 8) * 4 = cfg_shift f" "f div 16 = pul_word f" "(f - pul_word f * 16) * 2 = pul_shift f"
  by (simp_all add: cfg_shift_def cfg_word_def pul_shift_def pul_word_def)

lemma masks: "(7 :: u32) = mask 3" "(3 :: u32) = mask 2" "(0xF :: u32) = mask 4"
  by (simp_all add: mask_eq_exp_minus_1)

lemma nano_same_words:
  assumes "\<forall>x k. nano_word regs (nano_st s1) x k = nano_word regs (nano_st s) x k"
  shows "nano_dev_mode regs s1 x = nano_dev_mode regs s x" "nano_dev_lev regs s1 x = nano_dev_lev regs s x"
    "nano_dev_pull regs s1 x = nano_dev_pull regs s x"
  using assms by (simp_all add: nano_dev_mode_def nano_dev_lev_def nano_lev_def nano_dev_pull_def)

lemma nano_mode_run:
  assumes "nano_dev_ok K regs s" "0 \<le> g" "g < 106"
  shows "\<exists>s1. runs (DeviceNanoPi_mode K g) s (nano_dev_mode regs s g) s1 \<and> nano_dev_ok K regs s1 \<and>
    (\<forall>x k. nano_word regs (nano_st s1) x k = nano_word regs (nano_st s) x k)"
proof -
  have "cfg_word (pin_of_pin g) < 9" using cfg_place [OF port_facts(4) [OF assms(2,3)]] by simp
  from reg_get_ok [OF assms this] obtain s1 where s1:
      "reg_get K (bank_map (port_of_pin g) (nano_gp (fst s))) (bank_reg (port_of_pin g) + cfg_word (pin_of_pin g)) s =
        Inr (Inr (nano_word regs (nano_st s) g (cfg_word (pin_of_pin g))), s1)" "nano_dev_ok K regs s1"
      "\<forall>x k. nano_word regs (nano_st s1) x k = nano_word regs (nano_st s) x k" by blast
  have "DeviceNanoPi_mode K g s = Inr (Inr (nano_dev_mode regs s g), s1)"
    using pinBank_ok [OF assms] s1(1)
    by (simp add: DeviceNanoPi_mode_def int2mode_at bk_CFG_def Let_def place_folds nano_dev_mode_def nano_mode_of_def masks [symmetric])
  with s1(2,3) show ?thesis unfolding runs_def by blast
qed

lemma nano_pull_run:
  assumes "nano_dev_ok K regs s" "0 \<le> g" "g < 106"
  shows "\<exists>s1. runs (DeviceNanoPi_pull K g) s (nano_dev_pull regs s g) s1 \<and> nano_dev_ok K regs s1 \<and>
    (\<forall>x k. nano_word regs (nano_st s1) x k = nano_word regs (nano_st s) x k)"
proof -
  have "bk_PUL + pul_word (pin_of_pin g) < 9" using pul_place [OF port_facts(4) [OF assms(2,3)]] by (simp add: bk_PUL_def)
  from reg_get_ok [OF assms this] obtain s1 where s1:
      "reg_get K (bank_map (port_of_pin g) (nano_gp (fst s))) (bank_reg (port_of_pin g) + (bk_PUL + pul_word (pin_of_pin g))) s =
        Inr (Inr (nano_word regs (nano_st s) g (bk_PUL + pul_word (pin_of_pin g))), s1)" "nano_dev_ok K regs s1"
      "\<forall>x k. nano_word regs (nano_st s1) x k = nano_word regs (nano_st s) x k" by blast
  have "DeviceNanoPi_pull K g s = Inr (Inr (nano_dev_pull regs s g), s1)"
    using pinBank_ok [OF assms] s1(1)
    by (simp add: DeviceNanoPi_pull_def Let_def place_folds nano_dev_pull_def nano_pull_of_def masks [symmetric] add.assoc)
  with s1(2,3) show ?thesis unfolding runs_def by blast
qed

lemma nano_read_run:
  assumes "nano_dev_ok K regs s" "0 \<le> g" "g < 106"
  shows "\<exists>s1. runs (DeviceNanoPi_read K g) s (nano_dev_lev regs s g) s1 \<and> nano_dev_ok K regs s1 \<and>
    (\<forall>x k. nano_word regs (nano_st s1) x k = nano_word regs (nano_st s) x k)"
proof -
  have "bk_DAT < 9" by (simp add: bk_DAT_def)
  from reg_get_ok [OF assms this] obtain s1 where s1:
      "reg_get K (bank_map (port_of_pin g) (nano_gp (fst s))) (bank_reg (port_of_pin g) + bk_DAT) s =
        Inr (Inr (nano_word regs (nano_st s) g bk_DAT), s1)" "nano_dev_ok K regs s1"
      "\<forall>x k. nano_word regs (nano_st s1) x k = nano_word regs (nano_st s) x k" by blast
  have "DeviceNanoPi_read K g s = Inr (Inr (nano_dev_lev regs s g), s1)"
    using pinBank_ok [OF assms] s1(1) by (simp add: DeviceNanoPi_read_def nano_dev_lev_def nano_lev_def and_bit del: push_bit_of_1)
  with s1(2,3) show ?thesis unfolding runs_def by blast
qed

lemma nano_setMode_run:
  assumes ok: "nano_dev_ok K regs s" and g: "0 \<le> g" "g < 106" and m: "m \<in> nano_modes g"
  shows "\<exists>s1. runs (DeviceNanoPi_setMode K g m) s () s1 \<and> nano_dev_ok K regs s1 \<and>
    nano_put regs s s1 g (cfg_word (pin_of_pin g)) (put_field (cfg_shift (pin_of_pin g)) 4 (nano_code g m))"
proof -
  let ?c = "cfg_shift (pin_of_pin g)" and ?i = "bank_reg (port_of_pin g) + cfg_word (pin_of_pin g)"
  have j: "cfg_word (pin_of_pin g) < 9" using cfg_place [OF port_facts(4) [OF g]] by simp
  from reg_upd_ok [OF ok g this, of "\<lambda>v. v AND NOT (push_bit ?c (mask 4))"] obtain s1 where s1:
      "reg_upd K (bank_map (port_of_pin g) (nano_gp (fst s))) ?i (\<lambda>v. v AND NOT (push_bit ?c (mask 4))) s = Inr (Inr (), s1)"
      "nano_dev_ok K regs s1" "nano_put regs s s1 g (cfg_word (pin_of_pin g)) (\<lambda>v. v AND NOT (push_bit ?c (mask 4)))" by blast
  have d: "fst s1 = fst s" using s1(3) by (simp add: nano_put_def)
  from reg_upd_ok [OF s1(2) g j, of "\<lambda>v. v OR push_bit ?c (nano_code g m)"] d obtain s2 where s2:
      "reg_upd K (bank_map (port_of_pin g) (nano_gp (fst s))) ?i (\<lambda>v. v OR push_bit ?c (nano_code g m)) s1 = Inr (Inr (), s2)"
      "nano_dev_ok K regs s2" "nano_put regs s1 s2 g (cfg_word (pin_of_pin g)) (\<lambda>v. v OR push_bit ?c (nano_code g m))" by auto
  define m1 where "m1 = (if m = ModePwm then if g = 104 then ModeAlt2 else ModeAlt3 else m)"
  have pwm: "(if m = ModePwm then if g = 5 \<or> g = 6 then xret ModeAlt3 else if g = 104 then xret ModeAlt2 else xthrow invalid_argument
      else xret m) s = Inr (Inr m1, s)"
    (is "?pwm s = _") using m by (auto simp: nano_modes_def m1_def split: if_splits)
  have code: "map_at DeviceNanoPi_mode2int m1 s = Inr (Inr (nano_code g m), s)"
    using m by (auto simp: nano_modes_def m1_def nano_code_def map_at_def DeviceNanoPi_mode2int_def split: if_splits)
  have bind: "xbind ?pwm f s = f m1 s" for f :: "Mode \<Rightarrow> ('a nano_dev, unit) cxx" by (rule xbind_simps(3)) (rule pwm)
  have "DeviceNanoPi_setMode K g m s = Inr (Inr (), s2)"
    using pinBank_ok [OF ok g] s1(1) s2(1)
    by (simp add: DeviceNanoPi_setMode_def Let_def bk_CFG_def place_folds masks bind code del: push_bit_of_1)
  moreover have "nano_put regs s s2 g (cfg_word (pin_of_pin g)) (put_field ?c 4 (nano_code g m))"
    using nano_put_put [OF s1(3) s2(3) g j] by (simp add: put_field_def [abs_def])
  ultimately show ?thesis using s2(2) unfolding runs_def by blast
qed

definition nano_pull_code :: "Pull \<Rightarrow> u32" where
  "nano_pull_code q = (case q of PullOff \<Rightarrow> 0 | PullDown \<Rightarrow> 2 | PullUp \<Rightarrow> 1 | PullUnknown \<Rightarrow> 0)"

lemma nano_pull_code: "nano_pull_code q < 2 ^ 2" "q \<noteq> PullUnknown \<Longrightarrow> nano_pull_of (nano_pull_code q) = q"
  by (cases q; simp add: nano_pull_code_def nano_pull_of_def)+

text \<open>The field is cleared, and the new code put there later.\<close>

lemma nano_setPull_run:
  assumes ok: "nano_dev_ok K regs s" and g: "0 \<le> g" "g < 106" and q: "q \<noteq> PullUnknown"
  shows "\<exists>s1. runs (DeviceNanoPi_setPull K g q) s () s1 \<and> nano_dev_ok K regs s1 \<and>
    nano_put regs s s1 g (bk_PUL + pul_word (pin_of_pin g)) (put_field (pul_shift (pin_of_pin g)) 2 (nano_pull_code q))"
proof -
  let ?c = "pul_shift (pin_of_pin g)" and ?j = "bk_PUL + pul_word (pin_of_pin g)"
  let ?i = "bank_reg (port_of_pin g) + ?j" and ?p = "bank_map (port_of_pin g) (nano_gp (fst s))"
  have j: "?j < 9" using pul_place [OF port_facts(4) [OF g]] by (simp add: bk_PUL_def)
  from reg_upd_ok [OF ok g this, of "\<lambda>v. v AND NOT (push_bit ?c (mask 2))"] obtain s1 where s1:
      "reg_upd K ?p ?i (\<lambda>v. v AND NOT (push_bit ?c (mask 2))) s = Inr (Inr (), s1)"
      "nano_dev_ok K regs s1" "nano_put regs s s1 g ?j (\<lambda>v. v AND NOT (push_bit ?c (mask 2)))" by blast
  from delay_ok [OF s1(2), of 10] obtain s2 where s2: "dev_delay_us K 10 s1 = Inr (Inr (), s2)" "nano_dev_ok K regs s2"
      "fst s2 = fst s1" "\<forall>x k. nano_word regs (nano_st s2) x k = nano_word regs (nano_st s1) x k" by blast
  note put2 = nano_put_same [OF s1(3) s2(3,4)]
  have d: "fst s2 = fst s" using put2 by (simp add: nano_put_def)
  from reg_upd_ok [OF s2(2) g j, of "\<lambda>v. v OR push_bit ?c (nano_pull_code q)"] d obtain s3 where s3:
      "reg_upd K ?p ?i (\<lambda>v. v OR push_bit ?c (nano_pull_code q)) s2 = Inr (Inr (), s3)"
      "nano_dev_ok K regs s3" "nano_put regs s2 s3 g ?j (\<lambda>v. v OR push_bit ?c (nano_pull_code q))" by auto
  from delay_ok [OF s3(2), of 10] obtain s4 where s4: "dev_delay_us K 10 s3 = Inr (Inr (), s4)" "nano_dev_ok K regs s4"
      "fst s4 = fst s3" "\<forall>x k. nano_word regs (nano_st s4) x k = nano_word regs (nano_st s3) x k" by blast
  have code: "(case q of PullOff \<Rightarrow> Some 0 | PullDown \<Rightarrow> Some 2 | PullUp \<Rightarrow> Some (1 :: u32) | PullUnknown \<Rightarrow> None) = Some (nano_pull_code q)"
    using q by (cases q) (simp_all add: nano_pull_code_def)
  have "DeviceNanoPi_setPull K g q s = Inr (Inr (), s4)"
    using pinBank_ok [OF ok g] s1(1) s2(1) s3(1) s4(1)
    by (simp add: DeviceNanoPi_setPull_def code Let_def place_folds masks add.assoc del: push_bit_of_1)
  moreover have "nano_put regs s s3 g ?j (put_field ?c 2 (nano_pull_code q))"
    using nano_put_put [OF put2 s3(3) g j] by (simp add: put_field_def [abs_def])
  ultimately show ?thesis using s4(2) nano_put_same [OF _ s4(3,4)] unfolding runs_def by blast
qed

lemma nano_write_run:
  assumes ok: "nano_dev_ok K regs s" and g: "0 \<le> g" "g < 106"
  shows "\<exists>s1. runs (DeviceNanoPi_write K g b) s () s1 \<and> nano_dev_ok K regs s1 \<and>
    nano_put regs s s1 g bk_DAT (\<lambda>x. if b then x OR push_bit (pin_of_pin g) 1 else x AND NOT (push_bit (pin_of_pin g) 1))"
proof -
  have "bk_DAT < 9" by (simp add: bk_DAT_def)
  from reg_upd_ok [OF ok g this, of "\<lambda>x. if b then x OR push_bit (pin_of_pin g) 1 else x AND NOT (push_bit (pin_of_pin g) 1)"]
  show ?thesis using pinBank_ok [OF ok g] by (auto simp: DeviceNanoPi_write_def runs_def simp del: push_bit_of_1)
qed

lemma nano_toggle_run:
  assumes ok: "nano_dev_ok K regs s" and g: "0 \<le> g" "g < 106"
  shows "\<exists>s1. runs (DeviceNanoPi_toggle K g) s () s1 \<and> nano_dev_ok K regs s1 \<and>
    nano_put regs s s1 g bk_DAT (\<lambda>x. x XOR push_bit (pin_of_pin g) 1)"
proof -
  have "bk_DAT < 9" by (simp add: bk_DAT_def)
  from reg_upd_ok [OF ok g this, of "\<lambda>x. x XOR push_bit (pin_of_pin g) 1"]
  show ?thesis using pinBank_ok [OF ok g] by (auto simp: DeviceNanoPi_toggle_def runs_def simp del: push_bit_of_1)
qed

lemma data_bits:
  assumes "0 \<le> g" "g < 106"
  shows "bit (if b then v OR push_bit (pin_of_pin g) 1 else v AND NOT (push_bit (pin_of_pin g) (1 :: u32))) k = (if k = pin_of_pin g then b else bit v k)"
    and "bit (v XOR push_bit (pin_of_pin g) (1 :: u32)) k = (if k = pin_of_pin g then \<not> bit v k else bit v k)"
  using port_facts(4) [OF assms] bit_imp_le_length [of v k] by (auto simp: bit_simps)

lemma nano_kept:
  "\<forall>x k. nano_word regs (nano_st s1) x k = nano_word regs (nano_st s) x k \<Longrightarrow>
    pin_kept (nano_dev_mode regs) (nano_dev_lev regs) (nano_dev_pull regs) s s1 x"
  by (simp add: pin_kept_def nano_same_words)

lemma nanopi_methods [simp]:
  "dv_mode (nanopi_device K desc) = DeviceNanoPi_mode K" "dv_read (nanopi_device K desc) = DeviceNanoPi_read K"
  "dv_pull (nanopi_device K desc) = DeviceNanoPi_pull K" "dv_setMode (nanopi_device K desc) = DeviceNanoPi_setMode K"
  "dv_setPull (nanopi_device K desc) = DeviceNanoPi_setPull K" "dv_write (nanopi_device K desc) = DeviceNanoPi_write K"
  "dv_toggle (nanopi_device K desc) = DeviceNanoPi_toggle K"
  by (simp_all add: nanopi_device_def)

interpretation nano_dev: gpio_device "nanopi_device K desc" "{0..<106}" nano_modes "nano_dev_mode regs" "nano_dev_lev regs" "nano_dev_pull regs"
    "nano_dev_ok K regs"
  for K :: "'w iosys" and desc :: GpioDescriptor and regs :: "'w \<Rightarrow> nat \<Rightarrow> nat \<Rightarrow> u32"
proof (unfold_locales, goal_cases)
  case (1 s g)
  then show ?case using nano_mode_of_valid by (simp add: nano_dev_mode_def)
next
  case (2 g)
  then show ?case by (auto simp: nano_modes_def)
next
  case (3 s g)
  then have g: "0 \<le> g" "g < 106" by auto
  show ?case unfolding nanopi_methods using nano_mode_run [OF 3(1) g] nano_kept by blast
next
  case (4 s g)
  then have g: "0 \<le> g" "g < 106" by auto
  show ?case unfolding nanopi_methods using nano_read_run [OF 4(1) g] nano_kept by blast
next
  case (5 s g)
  then have g: "0 \<le> g" "g < 106" by auto
  show ?case unfolding nanopi_methods using nano_pull_run [OF 5(1) g] nano_kept by blast
next
  case (6 s g m)
  then have g: "0 \<le> g" "g < 106" by auto
  obtain s1 where s1: "runs (DeviceNanoPi_setMode K g m) s () s1" "nano_dev_ok K regs s1"
      "nano_put regs s s1 g (cfg_word (pin_of_pin g)) (put_field (cfg_shift (pin_of_pin g)) 4 (nano_code g m))"
    using nano_setMode_run [OF 6(1) g 6(3)] by blast
  note fx = mode_put [OF s1(3) conjunct2 [OF nano_code [OF 6(3)]] g]
  have "pin_kept (nano_dev_mode regs) (nano_dev_lev regs) (nano_dev_pull regs) s s1 x" if "x \<in> {0..<106} - {g}" for x
    using fx [of x] that by (simp add: pin_kept_def)
  moreover have "nano_dev_mode regs s1 g = m" "nano_dev_pull regs s1 g = nano_dev_pull regs s g"
    using fx [OF g] nano_code [OF 6(3)] by simp_all
  ultimately show ?case unfolding nanopi_methods using s1(1,2) by blast
next
  case (7 s g q)
  then have g: "0 \<le> g" "g < 106" by auto
  obtain s1 where s1: "runs (DeviceNanoPi_setPull K g q) s () s1" "nano_dev_ok K regs s1"
      "nano_put regs s s1 g (bk_PUL + pul_word (pin_of_pin g)) (put_field (pul_shift (pin_of_pin g)) 2 (nano_pull_code q))"
    using nano_setPull_run [OF 7(1) g 7(3)] by blast
  note fx = pull_put [OF s1(3) nano_pull_code(1) g]
  have "pin_kept (nano_dev_mode regs) (nano_dev_lev regs) (nano_dev_pull regs) s s1 x" if "x \<in> {0..<106} - {g}" for x
    using fx [of x] that by (simp add: pin_kept_def)
  moreover have "nano_dev_mode regs s1 g = nano_dev_mode regs s g" "nano_dev_lev regs s1 g = nano_dev_lev regs s g" "nano_dev_pull regs s1 g = q"
    using fx [OF g] nano_pull_code(2) [OF 7(3)] by simp_all
  ultimately show ?case unfolding nanopi_methods using s1(1,2) by blast
next
  case (8 s g b)
  then have g: "0 \<le> g" "g < 106" by auto
  obtain s1 where s1: "runs (DeviceNanoPi_write K g b) s () s1" "nano_dev_ok K regs s1"
      "nano_put regs s s1 g bk_DAT (\<lambda>x. if b then x OR push_bit (pin_of_pin g) 1 else x AND NOT (push_bit (pin_of_pin g) 1))"
    using nano_write_run [OF 8(1) g, of b] by blast
  note fx = data_put [where b = "\<lambda>_. b", OF s1(3) data_bits(1) [OF g] g]
  have "pin_kept (nano_dev_mode regs) (nano_dev_lev regs) (nano_dev_pull regs) s s1 x" if "x \<in> {0..<106} - {g}" for x
    using fx [of x] that by (simp add: pin_kept_def)
  moreover have "nano_dev_mode regs s1 g = nano_dev_mode regs s g" "nano_dev_lev regs s1 g = b" "nano_dev_pull regs s1 g = nano_dev_pull regs s g"
    using fx [OF g] by simp_all
  ultimately show ?case unfolding nanopi_methods using s1(1,2) by blast
next
  case (9 s g)
  then have g: "0 \<le> g" "g < 106" by auto
  obtain s1 where s1: "runs (DeviceNanoPi_toggle K g) s () s1" "nano_dev_ok K regs s1"
      "nano_put regs s s1 g bk_DAT (\<lambda>x. x XOR push_bit (pin_of_pin g) 1)"
    using nano_toggle_run [OF 9(2) g] by blast
  have bits: "bit (v XOR push_bit (pin_of_pin g) 1) k = (if k = pin_of_pin g then \<not> bit v (pin_of_pin g) else bit v k)" for v :: u32 and k
    using data_bits(2) [OF g, of v k] by auto
  note fx = data_put [where b = "\<lambda>v. \<not> bit v (pin_of_pin g)", OF s1(3) bits g]
  have "pin_kept (nano_dev_mode regs) (nano_dev_lev regs) (nano_dev_pull regs) s s1 x" if "x \<in> {0..<106} - {g}" for x
    using fx [of x] that by (simp add: pin_kept_def)
  moreover have "nano_dev_mode regs s1 g = nano_dev_mode regs s g" "nano_dev_lev regs s1 g = (\<not> nano_dev_lev regs s g)"
      "nano_dev_pull regs s1 g = nano_dev_pull regs s g"
    using fx [OF g] by (simp_all add: nano_dev_lev_def nano_lev_def)
  ultimately show ?case unfolding nanopi_methods using s1(1,2) by blast
qed

section \<open>Raspberry Pi\<close>

text \<open>The registers of the pull resistors and the delays leave the words of the modes and the levels of the outputs.\<close>

definition bcm_quiet :: "('w \<Rightarrow> nat \<Rightarrow> nat \<Rightarrow> u32) \<Rightarrow> ('w \<Rightarrow> nat \<Rightarrow> u32) \<Rightarrow> 'w \<Rightarrow> 'w \<Rightarrow> bool" where
  "bcm_quiet fs lv w w1 \<longleftrightarrow> fs w1 = fs w \<and> (\<forall>x k. k < 32 \<and> rpi_field (fs w x) k = 1 \<longrightarrow> bit (lv w1 x) k = bit (lv w x) k)"

definition bcm_mem :: "'w iosys \<Rightarrow> ('w \<Rightarrow> nat \<Rightarrow> nat \<Rightarrow> u32) \<Rightarrow> ('w \<Rightarrow> nat \<Rightarrow> u32) \<Rightarrow> bool" where
  "bcm_mem K fs lv \<longleftrightarrow> rpi_mem K fs lv \<and> (\<forall>h i v w. i = BCM_GPPUD \<or> i = BCM_GPPUDCLK0 \<longrightarrow> bcm_quiet fs lv w (os_put K h i v w)) \<and>
     (\<forall>n w. bcm_quiet fs lv w (os_delay_us K n w))"

definition bcm_gp :: "DeviceBcm2835 \<Rightarrow> xGpio" where
  "bcm_gp d = \<lparr>g_map0 = db_iomap d, g_map1 = None, g_list = None, g_i = 0, g_j = 0, g_pinmode = replicate 32 0,
     g_pinmode_release = replicate 32 0, g_pinpull = [], g_pinpull_release = [], g_link = 0, g_roc = True, g_numbering = 0\<rparr>"

definition bcm_dev_ok :: "'w iosys \<Rightarrow> ('w \<Rightarrow> nat \<Rightarrow> nat \<Rightarrow> u32) \<Rightarrow> ('w \<Rightarrow> nat \<Rightarrow> u32) \<Rightarrow> 'w bcm_dev \<Rightarrow> bool" where
  "bcm_dev_ok K fs lv s \<longleftrightarrow> bcm_mem K fs lv \<and> mapped (db_iomap (fst s))"

definition bcm_mode_of :: "int \<Rightarrow> u32 \<Rightarrow> Mode" where
  "bcm_mode_of g v =
     (let m = the (map_of DeviceBcm2835_int2mode v)
      in if m = ModeAlt0 \<and> (g = 12 \<or> g = 13) \<or> m = ModeAlt5 \<and> (g = 18 \<or> g = 19) then ModePwm else m)"

definition bcm_h :: "'w bcm_dev \<Rightarrow> nat" where "bcm_h s = handle (db_iomap (fst s))"

definition bcm_dev_mode :: "('w \<Rightarrow> nat \<Rightarrow> nat \<Rightarrow> u32) \<Rightarrow> 'w bcm_dev \<Rightarrow> int \<Rightarrow> Mode" where
  "bcm_dev_mode fs s g = bcm_mode_of g (rpi_field (fs (snd (snd s)) (bcm_h s)) (nat g))"

definition bcm_dev_lev :: "('w \<Rightarrow> nat \<Rightarrow> u32) \<Rightarrow> 'w bcm_dev \<Rightarrow> int \<Rightarrow> bool" where
  "bcm_dev_lev lv s g \<longleftrightarrow> bit (lv (snd (snd s)) (bcm_h s)) (nat g)"

definition bcm_dev_pull :: "'w bcm_dev \<Rightarrow> int \<Rightarrow> Pull" where "bcm_dev_pull s g = PullUnknown"

definition bcm_modes :: "int \<Rightarrow> Mode set" where
  "bcm_modes g = {ModeInput, ModeOutput, ModeAlt1, ModeAlt2, ModeAlt3, ModeAlt4} \<union>
     (if g = 12 \<or> g = 13 then {ModePwm} else {ModeAlt0}) \<union> (if g = 18 \<or> g = 19 then {ModePwm} else {ModeAlt5})"

definition bcm_code :: "int \<Rightarrow> Mode \<Rightarrow> u32" where
  "bcm_code g m = (if m = ModePwm then if g = 12 \<or> g = 13 then 4 else 2 else the (map_of DeviceBcm2835_mode2int m))"

lemma bcm_code: "m \<in> bcm_modes g \<Longrightarrow> bcm_mode_of g (bcm_code g m) = m \<and> bcm_code g m < 2 ^ 3 \<and> bcm_code g m AND 7 = bcm_code g m"
  by (auto simp: bcm_modes_def bcm_code_def bcm_mode_of_def DeviceBcm2835_mode2int_def DeviceBcm2835_int2mode_def split: if_splits)

lemma bcm_mode_of_valid: "bcm_mode_of g (v AND 7) \<in> bcm_modes g"
  using code_cases [of v] by (auto simp: bcm_mode_of_def DeviceBcm2835_int2mode_def bcm_modes_def)

lemma bcm_output: "bcm_mode_of g (v AND 7) = ModeOutput \<longleftrightarrow> v AND 7 = 1"
  using code_cases [of v] by (auto simp: bcm_mode_of_def DeviceBcm2835_int2mode_def)

lemma bcm_int2mode_at: "map_at DeviceBcm2835_int2mode (v AND 7) s = Inr (Inr (the (map_of DeviceBcm2835_int2mode (v AND 7))), s)"
  using code_cases [of v] by (auto simp: map_at_def DeviceBcm2835_int2mode_def)

lemma bcm_rpi: "bcm_dev_ok K fs lv (d, m, w) \<Longrightarrow> rpi_ok K fs lv (bcm_gp d, w)"
  by (simp add: bcm_dev_ok_def bcm_mem_def rpi_ok_def bcm_gp_def RPI_GPIO_SIZE_def)

text \<open>Reading of the words of the modes and of the levels; writing.\<close>

lemma bcm_get:
  assumes "bcm_dev_ok K fs lv s" "i < 4 \<or> i = BCM_GPLEV0"
  shows "\<exists>w1. DeviceBcm2835_readReg K i s =
      Inr (Inr (if i < 4 then fs (snd (snd s)) (bcm_h s) i else lv (snd (snd s)) (bcm_h s)), fst s, fst (snd s), w1) \<and>
    fs w1 = fs (snd (snd s)) \<and> lv w1 = lv (snd (snd s))"
proof -
  obtain d m w where s: "s = (d, m, w)" by (cases s)
  have "i < 4 \<or> i = GPLEV0" using assms(2) by (simp add: BCM_GPLEV0_def GPLEV0_def)
  from rpi_get_word [OF bcm_rpi [OF assms(1) [unfolded s]] this] show ?thesis
    by (auto simp: DeviceBcm2835_readReg_def reg_get_def bcm_gp_def bcm_h_def s)
qed

lemma bcm_put:
  assumes "bcm_dev_ok K fs lv s" "i < 1024"
  shows "DeviceBcm2835_writeReg K i v s = Inr (Inr (), fst s, fst (snd s), os_put K (bcm_h s) i v (snd (snd s)))"
proof -
  obtain d m w where s: "s = (d, m, w)" by (cases s)
  show ?thesis using pIo_ok [of "db_iomap d" i] assms
    by (simp add: DeviceBcm2835_writeReg_def reg_put_def io_put_def bcm_dev_ok_def bcm_h_def s)
qed

lemma bcm_same:
  assumes "bcm_dev_ok K fs lv s" "bcm_quiet fs lv (snd (snd s)) w1" "0 \<le> x" "x < 32"
  shows "bcm_dev_ok K fs lv (fst s, m, w1)" "pin_kept (bcm_dev_mode fs) (bcm_dev_lev lv) bcm_dev_pull s (fst s, m, w1) x"
proof -
  show "bcm_dev_ok K fs lv (fst s, m, w1)" using assms(1) by (simp add: bcm_dev_ok_def)
  have "rpi_field f k = rpi_field f k AND 7" for f k by (simp add: rpi_field_def and.assoc)
  then have "bcm_dev_mode fs s x = ModeOutput \<longleftrightarrow> rpi_field (fs (snd (snd s)) (bcm_h s)) (nat x) = 1"
    unfolding bcm_dev_mode_def using bcm_output by metis
  with assms(2-4) show "pin_kept (bcm_dev_mode fs) (bcm_dev_lev lv) bcm_dev_pull s (fst s, m, w1) x"
    by (simp add: pin_kept_def bcm_dev_mode_def bcm_dev_lev_def bcm_dev_pull_def bcm_quiet_def bcm_h_def)
qed

lemma bcm_quiet_same: "fs w1 = fs w \<Longrightarrow> lv w1 = lv w \<Longrightarrow> bcm_quiet fs lv w w1"
  by (simp add: bcm_quiet_def)

lemma bcm_quiet_trans: "bcm_quiet fs lv w w1 \<Longrightarrow> bcm_quiet fs lv w1 w2 \<Longrightarrow> bcm_quiet fs lv w w2"
  by (simp add: bcm_quiet_def)

text \<open>The methods.\<close>

lemma bcm_mode_run:
  assumes "bcm_dev_ok K fs lv s" "0 \<le> g" "g < 32"
  shows "\<exists>w1. runs (DeviceBcm2835_mode K g) s (bcm_dev_mode fs s g) (fst s, fst (snd s), w1) \<and> bcm_quiet fs lv (snd (snd s)) w1"
proof -
  have i: "GFPSEL0 + nat g div 10 < 4" using assms(3) by (auto simp: GFPSEL0_def)
  from bcm_get [OF assms(1) disjI1 [OF this]] obtain w1 where w1: "DeviceBcm2835_readReg K (GFPSEL0 + nat g div 10) s =
      Inr (Inr (fs (snd (snd s)) (bcm_h s) (nat g div 10)), fst s, fst (snd s), w1)" "fs w1 = fs (snd (snd s))" "lv w1 = lv (snd (snd s))"
    using i by (auto simp: GFPSEL0_def)
  have "bcm_pin g s = Inr (Inr (nat g), s)" using assms(2) by (simp add: bcm_pin_def)
  moreover have "nat g = 12 \<longleftrightarrow> g = 12" "nat g = 13 \<longleftrightarrow> g = 13" "nat g = 18 \<longleftrightarrow> g = 18" "nat g = 19 \<longleftrightarrow> g = 19"
    using assms(2) by auto
  ultimately have "DeviceBcm2835_mode K g s = Inr (Inr (bcm_dev_mode fs s g), fst s, fst (snd s), w1)"
    using w1(1) by (simp add: DeviceBcm2835_mode_def bcm_int2mode_at bcm_dev_mode_def bcm_mode_of_def rpi_field_def Let_def)
  with bcm_quiet_same [OF w1(2,3)] show ?thesis unfolding runs_def by blast
qed

lemma bcm_read_run:
  assumes "bcm_dev_ok K fs lv s" "0 \<le> g" "g < 32"
  shows "\<exists>w1. runs (DeviceBcm2835_read K g) s (bcm_dev_lev lv s g) (fst s, fst (snd s), w1) \<and> bcm_quiet fs lv (snd (snd s)) w1"
proof -
  from bcm_get [OF assms(1), of BCM_GPLEV0] obtain w1 where w1: "DeviceBcm2835_readReg K BCM_GPLEV0 s =
      Inr (Inr (lv (snd (snd s)) (bcm_h s)), fst s, fst (snd s), w1)" "fs w1 = fs (snd (snd s))" "lv w1 = lv (snd (snd s))"
    by (auto simp: BCM_GPLEV0_def)
  have "bcm_pin g s = Inr (Inr (nat g), s)" using assms(2) by (simp add: bcm_pin_def)
  moreover have "bcm_place BCM_GPLEV0 (nat g) = (BCM_GPLEV0, nat g)" using assms(3) by (simp add: bcm_place_def)
  ultimately have "DeviceBcm2835_read K g s = Inr (Inr (bcm_dev_lev lv s g), fst s, fst (snd s), w1)"
    using w1(1) by (simp add: DeviceBcm2835_read_def bcm_dev_lev_def and_bit del: push_bit_of_1)
  with bcm_quiet_same [OF w1(2,3)] show ?thesis unfolding runs_def by blast
qed

lemma bcm_setMode_run:
  assumes ok: "bcm_dev_ok K fs lv s" and g: "0 \<le> g" "g < 32" and m: "m \<in> bcm_modes g"
  shows "\<exists>w1. runs (DeviceBcm2835_setMode K g m) s () (fst s, fst (snd s), w1) \<and> lv w1 = lv (snd (snd s)) \<and>
    (\<forall>k. rpi_field (fs w1 (bcm_h s)) k = (if k = nat g then bcm_code g m else rpi_field (fs (snd (snd s)) (bcm_h s)) k))"
proof -
  let ?i = "nat g div 10" and ?n = "nat g mod 10 * 3" and ?h = "bcm_h s"
  have i: "?i < 4" "nat g < 32" using g by auto
  from bcm_get [OF ok, of ?i] i(1) obtain w1 where w1: "DeviceBcm2835_readReg K ?i s = Inr (Inr (fs (snd (snd s)) ?h ?i), fst s, fst (snd s), w1)"
      "fs w1 = fs (snd (snd s))" "lv w1 = lv (snd (snd s))" by auto
  let ?s1 = "(fst s, fst (snd s), w1)" and ?v = "(fs (snd (snd s)) ?h ?i AND NOT (push_bit ?n 7)) OR push_bit ?n (bcm_code g m)"
  have ok1: "bcm_dev_ok K fs lv ?s1" using ok by (simp add: bcm_dev_ok_def)
  have h: "bcm_h ?s1 = ?h" by (simp add: bcm_h_def)
  define w2 where "w2 = os_put K ?h ?i ?v w1"
  have put: "DeviceBcm2835_writeReg K ?i ?v ?s1 = Inr (Inr (), fst s, fst (snd s), w2)"
    using bcm_put [OF ok1, of ?i ?v] i(1) h by (simp add: w2_def)
  have w2: "fs w2 = (fs w1)(?h := (fs w1 ?h)(?i := ?v))" "lv w2 = lv w1"
    using ok i(1) by (simp_all add: w2_def bcm_dev_ok_def bcm_mem_def rpi_mem_def)
  define m1 where "m1 = (if m = ModePwm then if g = 12 \<or> g = 13 then ModeAlt0 else ModeAlt5 else m)"
  have pwm: "(if m = ModePwm then if g = 12 \<or> g = 13 then xret ModeAlt0 else if g = 18 \<or> g = 19 then xret ModeAlt5 else xthrow invalid_argument
      else xret m) s = Inr (Inr m1, s)" (is "?pwm s = _")
    using m by (auto simp: bcm_modes_def m1_def split: if_splits)
  have bind: "xbind ?pwm f s = f m1 s" for f :: "Mode \<Rightarrow> ('a bcm_dev, unit) cxx" by (rule xbind_simps(3)) (rule pwm)
  have code: "map_at DeviceBcm2835_mode2int m1 ?s1 = Inr (Inr (bcm_code g m), ?s1)"
    using m by (auto simp: bcm_modes_def m1_def bcm_code_def map_at_def DeviceBcm2835_mode2int_def split: if_splits)
  have "bcm_pin g s = Inr (Inr (nat g), s)" using g by (simp add: bcm_pin_def)
  then have "DeviceBcm2835_setMode K g m s = Inr (Inr (), fst s, fst (snd s), w2)"
    using w1(1) put by (simp add: DeviceBcm2835_setMode_def bind code GFPSEL0_def Let_def)
  moreover have "rpi_field (fs w2 ?h) k = (if k = nat g then bcm_code g m else rpi_field (fs (snd (snd s)) ?h) k)" for k
  proof -
    have "fs w2 ?h = (fs (snd (snd s)) ?h)(?i := ?v)" by (simp add: w2(1) w1(2))
    then show ?thesis using rpi_fields [OF _ i(2), of "bcm_code g m" "fs (snd (snd s)) ?h" k] bcm_code [OF m] by simp
  qed
  ultimately show ?thesis using w2(2) w1(3) unfolding runs_def by auto
qed

lemma bcm_write_run:
  assumes ok: "bcm_dev_ok K fs lv s" and g: "0 \<le> g" "g < 32"
  shows "\<exists>w1. runs (DeviceBcm2835_write K g b) s () (fst s, fst (snd s), w1) \<and>
    rpi_drives fs lv b (bcm_h s) (push_bit (nat g) 1) (snd (snd s)) w1"
proof -
  let ?r = "if b then BCM_GPSET0 else BCM_GPCLR0"
  have "bcm_pin g s = Inr (Inr (nat g), s)" using g by (simp add: bcm_pin_def)
  moreover have "bcm_place ?r (nat g) = (?r, nat g)" using g by (simp add: bcm_place_def)
  moreover have "?r < 1024" by (simp add: BCM_GPSET0_def BCM_GPCLR0_def)
  ultimately have "DeviceBcm2835_write K g b s =
      Inr (Inr (), fst s, fst (snd s), os_put K (bcm_h s) ?r (push_bit (nat g) 1) (snd (snd s)))"
    using bcm_put [OF ok, of ?r "push_bit (nat g) 1"] by (simp add: DeviceBcm2835_write_def del: push_bit_of_1)
  moreover have "rpi_drives fs lv b (bcm_h s) (push_bit (nat g) 1) (snd (snd s)) (os_put K (bcm_h s) ?r (push_bit (nat g) 1) (snd (snd s)))"
    using ok by (auto simp: bcm_dev_ok_def bcm_mem_def rpi_mem_def BCM_GPSET0_def BCM_GPCLR0_def GPSET0_def GPCLR0_def)
  ultimately show ?thesis unfolding runs_def by blast
qed

lemma bcm_quiet_reg: "bcm_dev_ok K fs lv s \<Longrightarrow> i = BCM_GPPUD \<or> i = BCM_GPPUDCLK0 \<Longrightarrow> bcm_quiet fs lv w (os_put K h i v w)"
  by (auto simp: bcm_dev_ok_def bcm_mem_def)

lemma bcm_quiet_delay: "bcm_dev_ok K fs lv s \<Longrightarrow> bcm_quiet fs lv w (os_delay_us K n w)"
  by (simp add: bcm_dev_ok_def bcm_mem_def)

lemma bcm_setPull_run:
  assumes ok: "bcm_dev_ok K fs lv s" and g: "0 \<le> g" "g < 32" and q: "q \<noteq> PullUnknown"
  shows "\<exists>w1. runs (DeviceBcm2835_setPull K g q) s () (fst s, fst (snd s), w1) \<and> bcm_quiet fs lv (snd (snd s)) w1"
proof -
  obtain d m w where s: "s = (d, m, w)" by (cases s)
  obtain v where v: "(case q of PullOff \<Rightarrow> Some 0 | PullDown \<Rightarrow> Some 1 | PullUp \<Rightarrow> Some 2 | PullUnknown \<Rightarrow> None) = Some (v :: u32)"
    using q by (cases q) auto
  define w1 where "w1 = os_delay_us K 10 (os_put K (handle (db_iomap d)) BCM_GPPUD v w)"
  define w2 where "w2 = os_delay_us K 10 (os_put K (handle (db_iomap d)) BCM_GPPUDCLK0 (push_bit (nat g) 1) w1)"
  define w3 where "w3 = os_put K (handle (db_iomap d)) BCM_GPPUDCLK0 0 (os_put K (handle (db_iomap d)) BCM_GPPUD 0 w2)"
  have put: "DeviceBcm2835_writeReg K i x (d, m, u) = Inr (Inr (), d, m, os_put K (handle (db_iomap d)) i x u)" if "i < 1024" for i x u
    using bcm_put [of K fs lv "(d, m, u)" i x] ok that by (simp add: bcm_dev_ok_def bcm_h_def s)
  have regs: "BCM_GPPUD < 1024" "BCM_GPPUDCLK0 < 1024" by (simp_all add: BCM_GPPUD_def BCM_GPPUDCLK0_def)
  have "bcm_pin g (d, m, w) = Inr (Inr (nat g), d, m, w)" using g by (simp add: bcm_pin_def)
  moreover have "bcm_place BCM_GPPUDCLK0 (nat g) = (BCM_GPPUDCLK0, nat g)" using g by (simp add: bcm_place_def)
  ultimately have "DeviceBcm2835_setPull K g q s = Inr (Inr (), d, m, w3)"
    by (simp add: DeviceBcm2835_setPull_def v s put [OF regs(1)] put [OF regs(2)] dev_delay_us_def w1_def w2_def w3_def del: push_bit_of_1)
  moreover have q1: "bcm_quiet fs lv w w1" unfolding w1_def
    by (rule bcm_quiet_trans [OF bcm_quiet_reg [OF ok] bcm_quiet_delay [OF ok]]) simp
  moreover have q2: "bcm_quiet fs lv w1 w2" unfolding w2_def
    by (rule bcm_quiet_trans [OF bcm_quiet_reg [OF ok] bcm_quiet_delay [OF ok]]) simp
  moreover have q3: "bcm_quiet fs lv w2 w3" unfolding w3_def
    by (rule bcm_quiet_trans [OF bcm_quiet_reg [OF ok] bcm_quiet_reg [OF ok]]) simp_all
  moreover note bcm_quiet_trans [OF bcm_quiet_trans [OF q1 q2] q3]
  ultimately show ?thesis unfolding runs_def s by (intro exI [of _ w3]) simp
qed

lemma bcm_methods [simp]:
  "dv_mode (bcm_device K e b desc) = DeviceBcm2835_mode K" "dv_read (bcm_device K e b desc) = DeviceBcm2835_read K"
  "dv_pull (bcm_device K e b desc) = Device_pull" "dv_setMode (bcm_device K e b desc) = DeviceBcm2835_setMode K"
  "dv_setPull (bcm_device K e b desc) = DeviceBcm2835_setPull K" "dv_write (bcm_device K e b desc) = DeviceBcm2835_write K"
  "dv_flags (bcm_device K e b desc) = hasAltRead"
  by (simp_all add: bcm_device_def DeviceBcm2835_flags_def)

lemma bcm_flags: "hasAltRead AND hasPullRead = 0" "hasAltRead AND hasToggle = 0"
  by (simp_all add: hasAltRead_def hasPullRead_def hasToggle_def)

lemma bcm_field7: "rpi_field f k AND 7 = rpi_field f k"
  by (simp add: rpi_field_def and.assoc)

interpretation bcm_dev: gpio_device "bcm_device K errno piobase desc" "{0..<32}" bcm_modes "bcm_dev_mode fs" "bcm_dev_lev lv" bcm_dev_pull
    "bcm_dev_ok K fs lv"
  for K :: "'w iosys" and errno :: "'w \<Rightarrow> int" and piobase :: int and desc :: GpioDescriptor and fs :: "'w \<Rightarrow> nat \<Rightarrow> nat \<Rightarrow> u32"
    and lv :: "'w \<Rightarrow> nat \<Rightarrow> u32"
proof (unfold_locales, goal_cases)
  case (1 s g)
  then show ?case using bcm_mode_of_valid bcm_field7 unfolding bcm_dev_mode_def by metis
next
  case (2 g)
  then show ?case by (auto simp: bcm_modes_def)
next
  case (3 s g)
  then have g: "0 \<le> g" "g < 32" by auto
  obtain w1 where w1: "runs (DeviceBcm2835_mode K g) s (bcm_dev_mode fs s g) (fst s, fst (snd s), w1)" "bcm_quiet fs lv (snd (snd s)) w1"
    using bcm_mode_run [OF 3(1) g] by blast
  with bcm_same [OF 3(1) w1(2)] g show ?case unfolding bcm_methods by (intro exI [of _ "(fst s, fst (snd s), w1)"]) auto
next
  case (4 s g)
  then have g: "0 \<le> g" "g < 32" by auto
  obtain w1 where w1: "runs (DeviceBcm2835_read K g) s (bcm_dev_lev lv s g) (fst s, fst (snd s), w1)" "bcm_quiet fs lv (snd (snd s)) w1"
    using bcm_read_run [OF 4(1) g] by blast
  with bcm_same [OF 4(1) w1(2)] g show ?case unfolding bcm_methods by (intro exI [of _ "(fst s, fst (snd s), w1)"]) auto
next
  case (5 s g)
  then show ?case unfolding bcm_methods
    by (intro exI [of _ s]) (simp add: runs_def Device_pull_def bcm_dev_pull_def pin_kept_def)
next
  case (6 s g m)
  then have g: "0 \<le> g" "g < 32" by auto
  obtain w1 where w1: "runs (DeviceBcm2835_setMode K g m) s () (fst s, fst (snd s), w1)" "lv w1 = lv (snd (snd s))"
      "\<forall>k. rpi_field (fs w1 (bcm_h s)) k = (if k = nat g then bcm_code g m else rpi_field (fs (snd (snd s)) (bcm_h s)) k)"
    using bcm_setMode_run [OF 6(1) g 6(3)] by blast
  let ?s1 = "(fst s, fst (snd s), w1)"
  have h: "bcm_h ?s1 = bcm_h s" by (simp add: bcm_h_def)
  have "bcm_dev_ok K fs lv ?s1" using 6(1) by (simp add: bcm_dev_ok_def)
  moreover have "bcm_dev_mode fs ?s1 g = m" using w1(3) bcm_code [OF 6(3)] by (simp add: bcm_dev_mode_def h)
  moreover have "pin_kept (bcm_dev_mode fs) (bcm_dev_lev lv) bcm_dev_pull s ?s1 x" if "x \<in> {0..<32} - {g}" for x
    using that g w1(2,3) by (simp add: pin_kept_def bcm_dev_mode_def bcm_dev_lev_def bcm_dev_pull_def h eq_nat_nat_iff)
  ultimately show ?case unfolding bcm_methods using w1(1) by (intro exI [of _ ?s1]) (simp add: bcm_dev_pull_def)
next
  case (7 s g q)
  then have g: "0 \<le> g" "g < 32" by auto
  obtain w1 where w1: "runs (DeviceBcm2835_setPull K g q) s () (fst s, fst (snd s), w1)" "bcm_quiet fs lv (snd (snd s)) w1"
    using bcm_setPull_run [OF 7(1) g 7(3)] by blast
  let ?s1 = "(fst s, fst (snd s), w1)"
  have "pin_kept (bcm_dev_mode fs) (bcm_dev_lev lv) bcm_dev_pull s ?s1 x" if "0 \<le> x" "x < 32" for x
    using bcm_same(2) [OF 7(1) w1(2) that] .
  then show ?case unfolding bcm_methods readable_pull_def bcm_flags
    using w1(1) bcm_same(1) [OF 7(1) w1(2) g] g by (intro exI [of _ ?s1]) (auto simp: pin_kept_def)
next
  case (8 s g b)
  then have g: "0 \<le> g" "g < 32" by auto
  obtain w1 where w1: "runs (DeviceBcm2835_write K g b) s () (fst s, fst (snd s), w1)"
      "rpi_drives fs lv b (bcm_h s) (push_bit (nat g) 1) (snd (snd s)) w1"
    using bcm_write_run [OF 8(1) g, of b] by blast
  let ?s1 = "(fst s, fst (snd s), w1)"
  have h: "bcm_h ?s1 = bcm_h s" by (simp add: bcm_h_def)
  have fs: "fs w1 = fs (snd (snd s))" using w1(2) by (simp add: rpi_drives_def)
  have bits: "bit (push_bit (nat g) (1 :: u32)) (nat x) \<longleftrightarrow> x = g" if "0 \<le> x" "x < 32" for x
    using that g by (auto simp: bit_simps)
  have lev: "bcm_dev_lev lv ?s1 x = (if x = g \<and> rpi_field (fs (snd (snd s)) (bcm_h s)) (nat x) = 1 then b else bcm_dev_lev lv s x)"
    if "0 \<le> x" "x < 32" for x
    using that w1(2) bits [OF that] unfolding rpi_drives_def bcm_dev_lev_def h snd_conv by (auto simp: nat_less_iff)
  have modes: "bcm_dev_mode fs ?s1 x = bcm_dev_mode fs s x" for x by (simp add: bcm_dev_mode_def h fs)
  have "bcm_dev_ok K fs lv ?s1" using 8(1) by (simp add: bcm_dev_ok_def)
  moreover have "pin_kept (bcm_dev_mode fs) (bcm_dev_lev lv) bcm_dev_pull s ?s1 x" if "x \<in> {0..<32} - {g}" for x
    using that lev [of x] modes by (simp add: pin_kept_def bcm_dev_pull_def)
  moreover have "bcm_dev_lev lv ?s1 g = b" if "bcm_dev_mode fs s g = ModeOutput"
  proof -
    have "rpi_field (fs (snd (snd s)) (bcm_h s)) (nat g) = 1"
      using that bcm_output bcm_field7 unfolding bcm_dev_mode_def by metis
    then show ?thesis using lev [OF g] by simp
  qed
  ultimately show ?case unfolding bcm_methods using w1(1) modes by (intro exI [of _ ?s1]) (simp add: bcm_dev_pull_def)
next
  case (9 s g)
  then show ?case by (simp add: bcm_flags)
qed

end
