(* ===== verification/Gpio_Tables.thy ===== *)
theory Gpio_Tables
  imports Gpio_Classes Gpio_Devices Gpio_Ports
begin

text \<open>
  The numbers of the pins in the C++ interface: the map that \<open>setNumbering\<close> builds, the tables of the boards beside those of the C
  interface, and the fields of a printed connector.
\<close>

section \<open>Numberings\<close>

definition num_of :: "Numbering \<Rightarrow> Pin \<Rightarrow> int" where
  "num_of nb p = (case nb of NumberingLogical \<Rightarrow> Pin_logicalNumber p | NumberingMcu \<Rightarrow> Pin_mcuNumber p | _ \<Rightarrow> Pin_systemNumber p)"

definition gpio_pins_of :: "(int \<times> int \<times> Pin) list \<Rightarrow> (int \<times> int \<times> Pin) list" where
  "gpio_pins_of ps = filter (\<lambda>(c, k, p). Pin_type p = TypeGpio) ps"

definition put_pins :: "Numbering \<Rightarrow> (int \<times> int \<times> Pin) list \<Rightarrow> (int \<times> int \<times> int) list \<Rightarrow> (int \<times> int \<times> int) list" where
  "put_pins nb ps m = fold (\<lambda>(c, k, p). map_put (num_of nb p) (c, k)) ps m"

lemma Pin_number_known: "nb \<noteq> NumberingUnknown \<Longrightarrow> Pin_number nb p s = Inr (Inr (num_of nb p), s)"
  by (cases nb) (simp_all add: Pin_number_def num_of_def xret_def)

lemma number_pins_run:
  "nb \<noteq> NumberingUnknown \<Longrightarrow> number_pins nb ps g = Inr (Inr (), g\<lparr>gp_pin := put_pins nb (gpio_pins_of ps) (gp_pin g)\<rparr>)"
proof (induction ps arbitrary: g)
  case Nil
  then show ?case by (simp add: xret_def put_pins_def gpio_pins_of_def)
next
  case (Cons x ps)
  obtain c k p where x: "x = (c, k, p)" by (cases x)
  show ?case using Cons by (simp add: x xseq_def xbind_def xret_def Pin_number_known put_pins_def gpio_pins_of_def)
qed

text \<open>The map is sorted, and gives for a number the pin that was put there.\<close>

lemma put_pins_sorted:
  "sorted (map fst m) \<Longrightarrow> distinct (map fst m) \<Longrightarrow> sorted (map fst (put_pins nb ps m)) \<and> distinct (map fst (put_pins nb ps m))"
proof (induction ps arbitrary: m)
  case (Cons x ps)
  obtain c k p where x: "x = (c, k, p)" by (cases x)
  show ?case using Cons.IH [of "map_put (num_of nb p) (c, k) m"] map_put_sorted [OF Cons.prems] by (simp add: put_pins_def x)
qed (simp add: put_pins_def)

lemma put_pins_of:
  "\<lbrakk>sorted (map fst m); distinct (map fst m); distinct (map (\<lambda>(c, k, p). num_of nb p) ps)\<rbrakk> \<Longrightarrow>
    map_of (put_pins nb ps m) n = (if \<exists>(c, k, p) \<in> set ps. num_of nb p = n then map_of (map (\<lambda>(c, k, p). (num_of nb p, c, k)) ps) n else map_of m n)"
proof (induction ps arbitrary: m)
  case (Cons x ps)
  obtain c k p where x: "x = (c, k, p)" by (cases x)
  have "put_pins nb (x # ps) m = put_pins nb ps (map_put (num_of nb p) (c, k) m)" by (simp add: put_pins_def x)
  moreover have "map_of (put_pins nb ps (map_put (num_of nb p) (c, k) m)) n =
      (if \<exists>(c, k, p) \<in> set ps. num_of nb p = n then map_of (map (\<lambda>(c, k, p). (num_of nb p, c, k)) ps) n
       else map_of (map_put (num_of nb p) (c, k) m) n)"
    using Cons.IH [of "map_put (num_of nb p) (c, k) m"] map_put_sorted [OF Cons.prems(1,2)] Cons.prems(3) by (simp add: x)
  moreover have "\<not> (\<exists>(c1, k1, p1) \<in> set ps. num_of nb p1 = num_of nb p)" using Cons.prems(3) by (force simp: x)
  ultimately show ?case using map_put_of [OF Cons.prems(1)] by (auto simp: x)
qed (simp add: put_pins_def)

text \<open>After a change of the numbering to that of the library, of the processor or of the system, when no
  two pins of the connectors have the same number, the port finds under a number the pin of a connector that has it, and nothing else:
  power pins have no number.  The pins are in the order of their numbers, and the connectors are not touched.\<close>

theorem setNumbering_maps:
  assumes "nb \<noteq> Gpio_numbering g" "nb \<noteq> NumberingUnknown"
    and "distinct (map (\<lambda>(c, k, p). num_of nb p) (gpio_pins_of (all_pins g)))"
  shows "\<exists>g1. Gpio_setNumbering nb g = Inr (Inr (), g1) \<and> Gpio_numbering g1 = nb \<and> gp_connector g1 = gp_connector g \<and>
    sorted (map fst (gp_pin g1)) \<and>
    (\<forall>n c k. map_of (gp_pin g1) n = Some (c, k) \<longleftrightarrow> (\<exists>p. (c, k, p) \<in> set (all_pins g) \<and> Pin_type p = TypeGpio \<and> num_of nb p = n))"
proof -
  let ?ps = "gpio_pins_of (all_pins g)"
  have pins: "all_pins (g\<lparr>gp_pin := []\<rparr>) = all_pins g" by (simp add: all_pins_def)
  let ?g1 = "g\<lparr>gp_pin := put_pins nb ?ps [], gp_numbering := nb\<rparr>"
  have run: "Gpio_setNumbering nb g = Inr (Inr (), ?g1)"
    using assms(1) number_pins_run [OF assms(2), of "all_pins g" "g\<lparr>gp_pin := []\<rparr>"] by (simp add: Gpio_setNumbering_def)
  have keys: "distinct (map fst (map (\<lambda>(c, k, p). (num_of nb p, c, k)) ?ps))"
    using assms(3) by (simp add: case_prod_unfold comp_def)
  have "map_of (put_pins nb ?ps []) n = Some (c, k) \<longleftrightarrow> (\<exists>p. (c, k, p) \<in> set ?ps \<and> num_of nb p = n)" for n c k
  proof -
    have "map_of (put_pins nb ?ps []) n = map_of (map (\<lambda>(c, k, p). (num_of nb p, c, k)) ?ps) n"
    proof (cases "\<exists>(c, k, p) \<in> set ?ps. num_of nb p = n")
      case True
      then show ?thesis using put_pins_of [of "[]" nb ?ps n] assms(3) by simp
    next
      case False
      then have "map_of (map (\<lambda>(c, k, p). (num_of nb p, c, k)) ?ps) n = None" by (force simp: map_of_eq_None_iff)
      with False show ?thesis using put_pins_of [of "[]" nb ?ps n] assms(3) by simp
    qed
    also have "\<dots> = Some (c, k) \<longleftrightarrow> (n, c, k) \<in> set (map (\<lambda>(c, k, p). (num_of nb p, c, k)) ?ps)"
      by (rule map_of_eq_Some_iff [OF keys])
    finally show ?thesis by force
  qed
  moreover have "sorted (map fst (put_pins nb ?ps []))" using put_pins_sorted [of "[]"] by simp
  ultimately show ?thesis using run by (intro exI [of _ ?g1]) (simp add: Gpio_numbering_def gpio_pins_of_def conj_commute conj_left_commute)
qed

text \<open>An unknown numbering throws; the pins of the port are lost, and the old numbering is still noted.\<close>

theorem Gpio_setNumbering_unknown:
  assumes "Gpio_numbering g \<noteq> NumberingUnknown" "gpio_pins_of (all_pins g) \<noteq> []"
  shows "Gpio_setNumbering NumberingUnknown g = Inr (Inl invalid_argument, g\<lparr>gp_pin := []\<rparr>)"
proof -
  have throws: "gpio_pins_of ps \<noteq> [] \<Longrightarrow> number_pins NumberingUnknown ps h = Inr (Inl invalid_argument, h)" for ps h
  proof (induction ps)
    case (Cons x ps)
    obtain c k p where "x = (c, k, p)" by (cases x)
    with Cons show ?case
      by (cases "Pin_type p = TypeGpio") (simp_all add: gpio_pins_of_def xseq_def xbind_def xret_def Pin_number_def xthrow_def)
  qed (simp add: gpio_pins_of_def)
  show ?thesis using assms throws [OF assms(2)] by (simp add: Gpio_setNumbering_def)
qed

section \<open>The ports of the boards\<close>

text \<open>The descriptors of the pins of a board, with the numbers of their connectors and their places.\<close>

definition desc_pins :: "GpioDescriptor \<Rightarrow> (int \<times> int \<times> Descriptor) list" where
  "desc_pins desc = concat (map (\<lambda>(c, ds). map (\<lambda>(k, d). (c, k, d)) ds)
     (fold (\<lambda>cd. map_put (cd_number cd)
        (fold (\<lambda>d. map_put (cd_pinNumber cd (nm_row (ds_num d)) (nm_column (ds_num d)) (cd_columns cd)) d) (cd_pin cd) [])) (gd_connector desc) []))"

definition desc_numbers :: "Numbering \<Rightarrow> GpioDescriptor \<Rightarrow> int list" where
  "desc_numbers nb desc =
     map (\<lambda>(c, k, d). case nb of NumberingLogical \<Rightarrow> nm_logical (ds_num d) | NumberingMcu \<Rightarrow> nm_mcu (ds_num d) | _ \<Rightarrow> nm_system (ds_num d))
       (filter (\<lambda>(c, k, d). ds_type d = TypeGpio) (desc_pins desc))"

lemma map_put_map: "map (\<lambda>(k, v). (k, f v)) (map_put k v m) = map_put k (f v) (map (\<lambda>(k, v). (k, f v)) m)"
  by (induction k v m rule: map_put.induct) auto

lemma fold_put_map:
  "map (\<lambda>(k, v). (k, f v)) (fold (\<lambda>d. map_put (n d) (h d)) ds m) = fold (\<lambda>d. map_put (n d) (f (h d))) ds (map (\<lambda>(k, v). (k, f v)) m)"
  by (induction ds arbitrary: m) (simp_all add: map_put_map)

lemma connector_pins:
  "map (\<lambda>(k, p). (k, pn_descriptor p)) (cn_pin (Connector_new E cd)) =
    fold (\<lambda>d. map_put (cd_pinNumber cd (nm_row (ds_num d)) (nm_column (ds_num d)) (cd_columns cd)) d) (cd_pin cd) []"
  by (simp add: Connector_new_def Let_def fold_put_map Connector_pinNumber_def Connector_columns_def Pin_new_def)

lemma new_pins:
  assumes "gp_connector g = fold (\<lambda>d. map_put (cd_number d) (Connector_new E d)) (gd_connector desc) []"
  shows "map (\<lambda>(c, k, p). (c, k, pn_descriptor p)) (all_pins g) = desc_pins desc"
proof -
  let ?f = "\<lambda>conn. map (\<lambda>(k, p). (k, pn_descriptor p)) (cn_pin conn)"
  have "map (\<lambda>(c, k, p). (c, k, pn_descriptor p)) (all_pins g) =
      concat (map (\<lambda>(c, ds). map (\<lambda>(k, d). (c, k, d)) ds) (map (\<lambda>(c, conn). (c, ?f conn)) (gp_connector g)))"
    by (simp add: all_pins_def map_concat comp_def case_prod_unfold)
  then show ?thesis by (simp add: assms fold_put_map desc_pins_def connector_pins)
qed

lemma gpio_pins_desc:
  assumes "map (\<lambda>(c, k, p). (c, k, pn_descriptor p)) (all_pins g) = desc_pins desc"
  shows "map (\<lambda>(c, k, p). num_of nb p) (gpio_pins_of (all_pins g)) = desc_numbers nb desc"
proof -
  have "desc_numbers nb desc = map (\<lambda>(c, k, p). num_of nb p) (filter (\<lambda>(c, k, p). Pin_type p = TypeGpio) (all_pins g))"
    unfolding desc_numbers_def assms [symmetric] filter_map map_map
    by (intro map_cong filter_cong) (auto simp: Pin_type_def num_of_def Pin_logicalNumber_def Pin_mcuNumber_def Pin_systemNumber_def
      split: Numbering.splits)
  then show ?thesis by (simp add: gpio_pins_of_def)
qed

definition boards :: "GpioDescriptor list" where
  "boards = map snd nanopi_gpioDescriptors @ map snd bcm2835_gpioDescriptors"

lemma boards_numbers: "list_all (\<lambda>desc. distinct (desc_numbers NumberingLogical desc)) boards"
  by code_simp

text \<open> On every supported board, a new port is numbered as the library does: it finds under a logical number
  the connector and the place of the one pin that the table of the board gives this number, and under any other number nothing.\<close>

theorem Gpio_new_finds:
  assumes "dv_descriptor D \<in> set boards"
  shows "\<exists>g. Gpio_new D F layer = Inr (Inr (), g) \<and> Gpio_numbering g = NumberingLogical \<and> \<not> Gpio_isOpen g \<and> Gpio_releaseOnClose g \<and>
    (\<forall>n c k. map_of (gp_pin g) n = Some (c, k) \<longleftrightarrow>
       (\<exists>d. (c, k, d) \<in> set (desc_pins (dv_descriptor D)) \<and> ds_type d = TypeGpio \<and> nm_logical (ds_num d) = n))"
proof -
  define g0 where "g0 = \<lparr>gp_roc = True, gp_isopen = False, gp_accesslayer = (if layer = AccessLayerAuto then dv_preferedAccessLayer D else layer),
               gp_numbering = NumberingUnknown, gp_pin = [], gp_connector = []\<rparr>"
  define g1 where "g1 = g0\<lparr>gp_connector := fold (\<lambda>d. map_put (cd_number d) (Connector_new (gpio_env D F g0) d)) (gd_connector (dv_descriptor D)) []\<rparr>"
  have new: "Gpio_new D F layer = Gpio_setNumbering NumberingLogical g1" by (simp add: Gpio_new_def g1_def g0_def)
  have pins: "map (\<lambda>(c, k, p). (c, k, pn_descriptor p)) (all_pins g1) = desc_pins (dv_descriptor D)"
    by (rule new_pins [where E = "gpio_env D F g0"]) (simp add: g1_def)
  have "distinct (desc_numbers NumberingLogical (dv_descriptor D))" using boards_numbers assms by (simp add: list_all_iff)
  then have "distinct (map (\<lambda>(c, k, p). num_of NumberingLogical p) (gpio_pins_of (all_pins g1)))" unfolding gpio_pins_desc [OF pins] .
  moreover have "NumberingLogical \<noteq> Gpio_numbering g1" by (simp add: g1_def g0_def Gpio_numbering_def)
  ultimately obtain g2 where g2: "Gpio_setNumbering NumberingLogical g1 = Inr (Inr (), g2)" "Gpio_numbering g2 = NumberingLogical"
      "\<forall>n c k. map_of (gp_pin g2) n = Some (c, k) \<longleftrightarrow> (\<exists>p. (c, k, p) \<in> set (all_pins g1) \<and> Pin_type p = TypeGpio \<and> num_of NumberingLogical p = n)"
    using setNumbering_maps [of NumberingLogical g1] by blast
  have same: "(\<exists>p. (c, k, p) \<in> set (all_pins g1) \<and> Pin_type p = TypeGpio \<and> num_of NumberingLogical p = n) \<longleftrightarrow>
      (\<exists>d. (c, k, d) \<in> set (desc_pins (dv_descriptor D)) \<and> ds_type d = TypeGpio \<and> nm_logical (ds_num d) = n)" for n c k
    unfolding pins [symmetric] by (force simp: num_of_def Pin_type_def Pin_logicalNumber_def)
  have "gp_isopen g2 = gp_isopen g1 \<and> gp_roc g2 = gp_roc g1"
    using g2(1) number_pins_run [of NumberingLogical "all_pins g1" "g1\<lparr>gp_pin := []\<rparr>"]
    by (auto simp: Gpio_setNumbering_def split: if_splits)
  then show ?thesis using g2 same by (intro exI [of _ g2]) (simp add: new Gpio_isOpen_def Gpio_releaseOnClose_def g1_def g0_def)
qed

text \<open>On the NanoPi Neo the number 8 is the pin 3 of the first connector.\<close>

definition neo_device :: "(nat \<Rightarrow> nat \<Rightarrow> u32) nano_dev Device" where "neo_device = nanopi_device mem_os (hd boards)"

lemma neo_pins:
  "let ps = desc_pins (hd boards) in list_ex (\<lambda>(c, k, d). c = 1 \<and> k = 3 \<and> ds_type d = TypeGpio \<and> nm_logical (ds_num d) = 8) ps \<and>
    list_all (\<lambda>(c, k, d). \<not> (ds_type d = TypeGpio \<and> nm_logical (ds_num d) = -1)) ps"
  by code_simp

definition some_sysfs :: "'w sysfs" where
  "some_sysfs = \<lparr>sf_isdir = \<lambda>f w. (False, w), sf_isreg = \<lambda>f w. (False, w), sf_getline = \<lambda>f w. (None, w), sf_putline = \<lambda>f l w. (False, w),
     sf_open = \<lambda>f w. (-1, w), sf_close = \<lambda>fd w. (0, w), sf_poll = \<lambda>fd t w. (0, w), sf_lseek = \<lambda>fd w. (0, w),
     sf_read = \<lambda>fd n w. (-1, [], w), sf_write = \<lambda>fd bs w. (-1, w), sf_errno = \<lambda>w. 2\<rparr>"

theorem Gpio_new_finds_witness:
  "\<exists>g. Gpio_new neo_device some_sysfs AccessLayerAuto = Inr (Inr (), g) \<and> map_of (gp_pin g) 8 = Some (1, 3) \<and> map_of (gp_pin g) (-1) = None"
proof -
  have desc: "dv_descriptor neo_device = hd boards" by (simp add: neo_device_def nanopi_device_def)
  have "dv_descriptor neo_device \<in> set boards" by (simp add: desc boards_def nanopi_gpioDescriptors_def)
  from Gpio_new_finds [OF this, of some_sysfs AccessLayerAuto] obtain g where g: "Gpio_new neo_device some_sysfs AccessLayerAuto = Inr (Inr (), g)"
      "\<forall>n c k. map_of (gp_pin g) n = Some (c, k) \<longleftrightarrow>
         (\<exists>d. (c, k, d) \<in> set (desc_pins (hd boards)) \<and> ds_type d = TypeGpio \<and> nm_logical (ds_num d) = n)"
    unfolding desc by blast
  have "map_of (gp_pin g) 8 = Some (1, 3)" unfolding g(2) [rule_format] using neo_pins by (auto simp: Let_def list_ex_iff)
  moreover have "map_of (gp_pin g) (-1) \<noteq> Some (c, k)" for c k
    unfolding g(2) [rule_format] using neo_pins by (auto simp: Let_def list_all_iff)
  then have "map_of (gp_pin g) (-1) = None" by (cases "map_of (gp_pin g) (-1)") auto
  ultimately show ?thesis using g(1) by blast
qed

section \<open>Tables of both interfaces\<close>

text \<open>The logical and the processor numbers of the pins of a board.\<close>

definition logical_mcu :: "GpioDescriptor \<Rightarrow> (int \<times> int) list" where
  "logical_mcu desc = map (\<lambda>d. (nm_logical (ds_num d), nm_mcu (ds_num d))) (filter (\<lambda>d. ds_type d = TypeGpio) (concat (map cd_pin (gd_connector desc))))"

definition same_number :: "int list \<Rightarrow> int \<times> int \<Rightarrow> bool" where
  "same_number table lm = (0 \<le> fst lm \<and> nat (fst lm) < length table \<and> table ! nat (fst lm) = snd lm)"

text \<open>On all revisions of the Raspberry Pi both interfaces give the same pin to a logical number.\<close>

theorem rpi_numbers_agree:
  "list_all (\<lambda>(desc, l). list_all (same_number (pl_pin l)) (logical_mcu desc)) (zip (map snd bcm2835_gpioDescriptors) rpi_pxLogicalPins)"
  by code_simp

text \<open>On the NanoPi they do not: the Neo numbers three pins from 30 on, and the M1 has other pins from 17 on.\<close>

theorem nanopi_numbers_differ:
  "map (\<lambda>(desc, l). filter (\<lambda>x. \<not> same_number (pl_pin l) x) (logical_mcu desc)) (zip (map snd nanopi_gpioDescriptors) nanopi_pxLogToMcu) =
    [[(32, 104), (31, 18), (30, 19)],
     [(30, 19), (31, 18), (21, 20), (22, 21), (26, 7), (23, 8), (24, 16), (27, 13), (25, 9), (28, 15), (29, 14), (17, 4), (18, 5), (19, 10),
      (32, 104), (33, 97), (20, 105)],
     [(30, 19), (31, 18), (21, 20), (22, 21), (25, 9), (17, 4), (18, 5), (19, 10), (32, 104), (33, 97), (20, 105)]]"
  by code_simp

text \<open>The number of a pin of the NanoPi in the system has its port and its place there.\<close>

theorem nanopi_system_numbers:
  "list_all (\<lambda>desc. list_all (\<lambda>d. ds_type d = TypeGpio \<longrightarrow>
      (let (bk, n) = find_port port_sizes 0 (nm_mcu (ds_num d)) in nm_system (ds_num d) = (if bk = 7 then 352 else 32 * int bk) + n))
    (concat (map cd_pin (gd_connector desc)))) (map snd nanopi_gpioDescriptors)"
  by code_simp

text \<open>Connectors whose rows and columns are not as many as their pins.\<close>

theorem connectors_sizes:
  "map (\<lambda>desc. map cd_name (filter (\<lambda>cd. cd_rows cd * cd_columns cd \<noteq> int (length (cd_pin cd))) (gd_connector desc))) boards =
    [[], [''inner''], [''inner''], [], [''p1''], []]"
  by code_simp

section \<open>Fields of a printed connector\<close>

text \<open>A field keeps its width when the text leaves two places; a longer text is written in full, and widens the line.\<close>

theorem format_field_width:
  assumes "3 \<le> w"
  shows "\<exists>t. format_field s w a st = Inr (Inr t, st) \<and> length t = nat w + (length s - nat (w - 2)) \<and> (\<exists>l r. t = l @ s @ r)"
proof -
  define len where "len = min (int (length s)) (w - 2)"
  define pos where "pos = (case a of LeftAl \<Rightarrow> 1 | RightAl \<Rightarrow> w - len - 1 | Center \<Rightarrow> (w - len) div 2)"
  have len: "0 \<le> len" "len \<le> w - 2" "len \<le> int (length s)" using assms by (auto simp: len_def)
  then have half: "0 \<le> (w - len) div 2" "(w - len) div 2 + len \<le> w" using assms by presburger+
  have pos: "0 \<le> pos" "pos + len \<le> w" using assms len half by (auto simp: pos_def split: Alignment.split)
  define t where "t = take (nat pos) (replicate (nat w) 0x20) @ s @ drop (nat (pos + len)) (replicate (nat w) (0x20 :: u8))"
  have "format_field s w a st = (if pos < 0 \<or> pos > w then xthrow out_of_range else xret t) st"
    unfolding format_field_def Let_def pos_def len_def t_def using assms by simp
  then have "format_field s w a st = Inr (Inr t, st)" using pos len by (simp add: xret_def)
  moreover have "length t = nat w + (length s - nat (w - 2))"
    using assms pos len by (auto simp: t_def len_def min_def)
  ultimately show ?thesis unfolding t_def by blast
qed

end
