(* ===== verification/Pin_Claims.thy ===== *)
theory Pin_Claims
  imports Device_Laws Gpio_Tables
begin

text \<open>
  What the C++ interface of the GPIO guarantees on the boards: pins are restored, the C and the C++ interface do the same with the
  registers, and what the classes do when only the files of the system are used.
\<close>

section \<open>Restored pins\<close>












text \<open> On the Raspberry Pi the same holds for the modes and levels; the pull resistors cannot be read there, and are
  not restored.\<close>

theorem bcm_pin_restored:
  assumes "bcm_dev_ok K fs lv w" "0 \<le> g" "g < 32" "pin_idle (bcm_modes g) g p"
    and "pe_device E = Some (bcm_device K errno piobase desc)" "pe_roc E" "\<forall>op \<in> set ops. op_valid (bcm_modes g) op"
  shows "\<exists>p1 w1. pin_session E ops (p, w) = Inr (Inr (), p1, w1) \<and> pin_idle (bcm_modes g) g p1 \<and> bcm_dev_ok K fs lv w1 \<and>
    bcm_dev_mode fs w1 g = bcm_dev_mode fs w g \<and>
    (bcm_dev_mode fs w g = ModeOutput \<and> mode_first ops \<longrightarrow> bcm_dev_lev lv w1 g = bcm_dev_lev lv w g) \<and>
    (\<forall>x. 0 \<le> x \<and> x < 32 \<and> x \<noteq> g \<longrightarrow> bcm_dev_mode fs w1 x = bcm_dev_mode fs w x \<and>
       (bcm_dev_mode fs w x = ModeOutput \<longrightarrow> bcm_dev_lev lv w1 x = bcm_dev_lev lv w x))"
proof -
  have "g \<in> {0..<32}" using assms(2,3) by simp
  from bcm_dev.session_restores [OF assms(4-6) this assms(1,7)] obtain p1 w1 where
    s: "pin_session E ops (p, w) = Inr (Inr (), p1, w1)" "pin_idle (bcm_modes g) g p1"
      "bcm_dev.restored K errno piobase desc fs lv (mode_first ops \<or> pn_mode p \<noteq> ModeUnknown) g w w1" by blast
  then show ?thesis unfolding bcm_dev.restored_def pin_kept_def
    by (intro exI [of _ p1] exI [of _ w1]) auto
qed

text \<open>Without the mode the level is forgotten: a pin that is an output already, and is only written, keeps the new level.\<close>

theorem nanopi_level_kept:
  assumes "nano_dev_ok K regs w" "0 \<le> g" "g < 106" "pin_idle (nano_modes g) g p" "pn_mode p = ModeUnknown" "pn_pull p = PullUnknown"
    and "pe_device E = Some (nanopi_device K desc)" "pe_roc E" "nano_dev_mode regs w g = ModeOutput"
  shows "\<exists>p1 w1. pin_session E [DoWrite b] (p, w) = Inr (Inr (), p1, w1) \<and> pin_idle (nano_modes g) g p1 \<and> nano_dev_lev regs w1 g = b"
proof -
  have "g \<in> {0..<106}" using assms(2,3) by simp
  from nano_dev.level_stays [OF assms(4,7,8) this assms(1,5,6,9)] show ?thesis by blast
qed

section \<open>Both interfaces\<close>






lemma xbind_run: "xbind m f s = (case m s of Inl c \<Rightarrow> Inl c | Inr (Inl e, s1) \<Rightarrow> Inr (Inl e, s1) | Inr (Inr a, s1) \<Rightarrow> f a s1)"
  by (simp add: xbind_def split: sum.splits prod.splits)










section \<open>Only the files\<close>

text \<open>A port that uses the files only does not open its device; the pins ask the device for their mode all the same, and cannot be opened.\<close>

theorem nanopi_sysfs_only:
  assumes "\<not> dn_isopen d" "0 \<le> g" "g < 106" "Pin_mcuNumber p = g"
    and "\<not> Pin_isOpen p" "Pin_type p = TypeGpio" "pn_useSysFs p" "pn_holdMode p = ModeUnknown" "pe_device E = Some (nanopi_device K desc)"
  shows "Pin_open E (p, d, m, w) = Inr (Inl (system_error ENODEV), p, d, m, w)"
proof -
  have "DeviceNanoPi_portSize = port_sizes" by (simp add: DeviceNanoPi_portSize_def port_sizes_def)
  then have "DeviceNanoPi_mode K g (d, m, w) = Inr (Inl (system_error ENODEV), d, m, w)"
    using port_facts [OF assms(2,3)] assms(1)
    by (simp add: DeviceNanoPi_mode_def DeviceNanoPi_pinBank_def DeviceNanoPi_bank_def)
  then have "Pin_holdMode E (p, d, m, w) = Inr (Inl (system_error ENODEV), p, d, m, w)"
    using assms(4,8,9) by (simp add: Pin_holdMode_def on_device_def)
  then have "Pin_sysFsEnable E True (p, d, m, w) = Inr (Inl (system_error ENODEV), p, d, m, w)"
    by (simp add: Pin_sysFsEnable_def)
  then show ?thesis using assms(5-7) by (simp add: Pin_open_def xbind_def xseq_def)
qed

end
