(* ===== verification/Arduino.thy ===== *)
theory Arduino
  imports Gpio_Tables Device_Laws Runtime
begin

text \<open>
  The clock and the scheduler of the C++ interface (\<open>src/src/unix/clock.cpp\<close>, \<open>src/src/unix/scheduler.cpp\<close>), and the functions with the
  names of Arduino over one global port (\<open>src/src/gpio/arduino.cpp\<close>).
\<close>

section \<open>The clock\<close>

text \<open>\<open>clock_gettime\<close> gives the seconds and nanoseconds of a clock that is not adjusted.\<close>

record 'w clock_sys = "'w clock_env" +
  cs_gettime :: "'w \<Rightarrow> (int \<times> int) \<times> 'w"

record Clock =
  ck_us :: u64
  ck_ms :: u64

definition raw_ms :: "int \<times> int \<Rightarrow> u64" where "raw_ms t = word_of_int (fst t) * 1000 + word_of_int (snd t) div 1000000"
definition raw_us :: "int \<times> int \<Rightarrow> u64" where "raw_us t = word_of_int (fst t) * 1000000 + word_of_int (snd t) div 1000"

definition Clock_new :: "'w clock_sys \<Rightarrow> 'w \<Rightarrow> Clock \<times> 'w" where
  "Clock_new E w = (let (t, w) = cs_gettime E w in (\<lparr>ck_us = raw_us t, ck_ms = raw_ms t\<rparr>, w))"

definition Clock_millis :: "'w clock_sys \<Rightarrow> Clock \<Rightarrow> 'w \<Rightarrow> u64 \<times> 'w" where
  "Clock_millis E ck w = (let (t, w) = cs_gettime E w in (raw_ms t - ck_ms ck, w))"

definition Clock_micros :: "'w clock_sys \<Rightarrow> Clock \<Rightarrow> 'w \<Rightarrow> u64 \<times> 'w" where
  "Clock_micros E ck w = (let (t, w) = cs_gettime E w in (raw_us t - ck_us ck, w))"

text \<open>Seconds and nanoseconds are signed, the number that is divided is not.\<close>

definition Clock_delay :: "'w clock_sys \<Rightarrow> u64 \<Rightarrow> 'w \<Rightarrow> 'w" where
  "Clock_delay E d w =
     (if d = 0 then w
      else if d = -1 then cl_sleep E (-1) w
      else cl_nanosleep E (sint (d div 1000)) (sint ((d mod 1000) * 1000000)) w)"

definition Clock_delayMicroseconds :: "'w clock_sys \<Rightarrow> u64 \<Rightarrow> 'w \<Rightarrow> 'w out" where
  "Clock_delayMicroseconds E d w =
     (if d = 0 then ret w
      else if d = -1 then ret (cl_sleep E (-1) w)
      else
        let (t1, w) = cl_gettimeofday E w; s = d div 1000000; us = d mod 1000000 in
        if d < 100 then obind (wait_loop (watch_clock (clock_env.truncate E) (timeradd t1 (sint s, sint us))) (t1, w)) (\<lambda>(_, w). ret w)
        else ret (cl_nanosleep E (sint s) (sint (us * 1000)) w))"

text \<open>The time since the clock was made, in whole units of the raw clock.\<close>

lemma raw_us_value:
  assumes "0 \<le> ns" "ns < 1000000000"
  shows "raw_us (s, ns) = word_of_int ((s * 1000000000 + ns) div 1000)"
proof -
  have "uint (word_of_int ns :: u64) = ns" using assms by (simp add: uint_word_of_int)
  then have "(word_of_int ns :: u64) div 1000 = word_of_int (ns div 1000)"
    by (simp add: word_uint_eq_iff uint_div uint_word_of_int)
  moreover have "(s * 1000000000 + ns) div 1000 = s * 1000000 + ns div 1000" by simp
  ultimately show ?thesis by (simp add: raw_us_def)
qed

lemma raw_ms_value:
  assumes "0 \<le> ns" "ns < 1000000000"
  shows "raw_ms (s, ns) = word_of_int ((s * 1000000000 + ns) div 1000000)"
proof -
  have "uint (word_of_int ns :: u64) = ns" using assms by (simp add: uint_word_of_int)
  then have "(word_of_int ns :: u64) div 1000000 = word_of_int (ns div 1000000)"
    by (simp add: word_uint_eq_iff uint_div uint_word_of_int)
  moreover have "(s * 1000000000 + ns) div 1000000 = s * 1000 + ns div 1000000" by simp
  ultimately show ?thesis by (simp add: raw_ms_def)
qed

theorem Clock_elapsed:
  assumes "cs_gettime E w = ((s, ns), w1)" "0 \<le> ns" "ns < 1000000000"
    and "cs_gettime E w2 = ((s1, ns1), w3)" "0 \<le> ns1" "ns1 < 1000000000"
  shows "fst (Clock_micros E (fst (Clock_new E w)) w2) = word_of_int ((s1 * 1000000000 + ns1) div 1000 - (s * 1000000000 + ns) div 1000)"
    and "fst (Clock_millis E (fst (Clock_new E w)) w2) = word_of_int ((s1 * 1000000000 + ns1) div 1000000 - (s * 1000000000 + ns) div 1000000)"
  using assms by (simp_all add: Clock_micros_def Clock_millis_def Clock_new_def raw_us_value raw_ms_value)

section \<open>The scheduler\<close>

text \<open>\<open>sched_setscheduler\<close> with a priority, \<open>None\<close> for one that was never set.\<close>

record 'w sched_sys =
  sd_set :: "int option \<Rightarrow> 'w \<Rightarrow> int \<times> 'w"
  sd_min :: int
  sd_max :: int
  sd_errno :: "'w \<Rightarrow> int"

definition Scheduler_setRtPriority :: "'w sched_sys \<Rightarrow> int \<Rightarrow> ('w, unit) cxx" where
  "Scheduler_setRtPriority S priority w =
     (let (_, w) = sd_set S None w;
          sparam = (if priority < sd_min S then Some (sd_min S) else None);
          sparam = (if priority > sd_max S then Some (sd_max S) else Some priority);
          (r, w) = sd_set S sparam w
      in if r < 0 then Inr (Inl (system_error (sd_errno S w)), w) else Inr (Inr (), w))"

text \<open>A priority that is too high is lowered, one that is too low is asked for as it is.\<close>

theorem setRtPriority_asks:
  "Scheduler_setRtPriority S priority w =
     (let (r, w) = sd_set S (Some (min priority (sd_max S))) (snd (sd_set S None w))
      in if r < 0 then Inr (Inl (system_error (sd_errno S w)), w) else Inr (Inr (), w))"
  by (simp add: Scheduler_setRtPriority_def Let_def case_prod_beta min_def)

section \<open>Arduino\<close>

datatype ArduinoPinMode = INPUT | OUTPUT | INPUT_PULLUP | INPUT_PULLDOWN

datatype ArduinoIntEdge = CHANGE | RISING | FALLING

definition edge_of_mode :: "ArduinoIntEdge \<Rightarrow> Edge" where
  "edge_of_mode e = (case e of CHANGE \<Rightarrow> EdgeBoth | RISING \<Rightarrow> EdgeRising | FALLING \<Rightarrow> EdgeFalling)"

text \<open>The global pointer to the port.\<close>

definition on_gpio :: "(Gpio \<times> 'w, 'a) cxx \<Rightarrow> (Gpio option \<times> 'w, 'a) cxx" where
  "on_gpio f s = cbind (deref (fst s)) (\<lambda>g. cbind (f (g, snd s)) (\<lambda>(r, g, w). Inr (r, Some g, w)))"

definition pinMode :: "'w Device \<Rightarrow> 'w sysfs \<Rightarrow> int \<Rightarrow> ArduinoPinMode \<Rightarrow> (Gpio option \<times> 'w, unit) cxx" where
  "pinMode D F n mode =
     (let m = (if mode \<noteq> OUTPUT then ModeInput else ModeOutput);
          p = (if mode = INPUT_PULLUP then PullUp else if mode = INPUT_PULLDOWN then PullDown else PullOff)
      in xseq (on_gpio (Gpio_pin D F n (\<lambda>E. Pin_setMode E m))) (on_gpio (Gpio_pin D F n (\<lambda>E. Pin_setPull E p))))"

definition digitalWrite :: "'w Device \<Rightarrow> 'w sysfs \<Rightarrow> int \<Rightarrow> int \<Rightarrow> (Gpio option \<times> 'w, unit) cxx" where
  "digitalWrite D F n value = on_gpio (Gpio_pin D F n (\<lambda>E. Pin_write E (value \<noteq> 0)))"

definition digitalToggle :: "'w Device \<Rightarrow> 'w sysfs \<Rightarrow> int \<Rightarrow> (Gpio option \<times> 'w, unit) cxx" where
  "digitalToggle D F n = on_gpio (Gpio_pin D F n Pin_toggle)"

definition digitalRead :: "'w Device \<Rightarrow> 'w sysfs \<Rightarrow> int \<Rightarrow> (Gpio option \<times> 'w, int) cxx" where
  "digitalRead D F n = on_gpio (xbind (Gpio_pin D F n Pin_read) (\<lambda>b. xret (if b then 1 else 0)))"

definition ar_attachInterrupt :: "'w Device \<Rightarrow> 'w sysfs \<Rightarrow> int \<Rightarrow> ArduinoIntEdge \<Rightarrow> (Gpio option \<times> 'w, unit) cxx" where
  "ar_attachInterrupt D F n mode = on_gpio (Gpio_pin D F n (\<lambda>E. Pin_attachInterrupt E (edge_of_mode mode)))"

definition ar_detachInterrupt :: "'w Device \<Rightarrow> 'w sysfs \<Rightarrow> int \<Rightarrow> (Gpio option \<times> 'w, unit) cxx" where
  "ar_detachInterrupt D F n = on_gpio (Gpio_pin D F n (\<lambda>_. Pin_detachInterrupt))"

text \<open>Before and after \<open>main\<close>.  An exception of \<open>begin\<close> ends the program.\<close>

definition ar_begin :: "'w Device \<Rightarrow> 'w sysfs \<Rightarrow> 'w clock_sys \<Rightarrow> 'w \<Rightarrow> ((cxx_exc + Clock) \<times> Gpio option \<times> 'w) run" where
  "ar_begin D F E w =
     cbind (Gpio_new D F AccessLayerAuto) (\<lambda>(r, g). case r of
        Inl e \<Rightarrow> Inr (Inl e, None, w)
      | Inr _ \<Rightarrow>
          let (ck, w) = Clock_new E w in
          cbind (Gpio_open D F (g, w)) (\<lambda>(r, g, w). Inr (case r of Inl e \<Rightarrow> Inl e | Inr _ \<Rightarrow> Inr ck, Some g, w)))"

text \<open>The port is closed and deleted; the destructor closes it once more.\<close>

definition closeall :: "'w Device \<Rightarrow> 'w sysfs \<Rightarrow> (Gpio option \<times> 'w, unit) cxx" where
  "closeall D F s =
     (if fst s = None then Inr (Inr (), s)
      else xseq (on_gpio (Gpio_close D F)) (xseq (on_gpio (Gpio_close D F)) (\<lambda>(_, w). Inr (Inr (), None, w))) s)"

section \<open>A pin through the port\<close>

text \<open>The pin that a port finds under a number.\<close>

definition maps_sorted :: "Gpio \<Rightarrow> bool" where
  "maps_sorted g \<longleftrightarrow> sorted (map fst (gp_connector g)) \<and> (\<forall>x \<in> set (gp_connector g). sorted (map fst (cn_pin (snd x))))"

definition pin_at :: "Gpio \<Rightarrow> int \<Rightarrow> Pin \<Rightarrow> bool" where
  "pin_at g n p \<longleftrightarrow> maps_sorted g \<and> (\<exists>c k conn. map_of (gp_pin g) n = Some (c, k) \<and> map_of (gp_connector g) c = Some conn \<and> map_of (cn_pin conn) k = Some p)"

lemma map_put_set: "set (map_put k v m) \<subseteq> insert (k, v) (set m)"
  by (induction k v m rule: map_put.induct) auto

lemma map_put_keys_sorted: "sorted (map fst m) \<Longrightarrow> sorted (map fst (map_put k v m))"
proof (induction k v m rule: map_put.induct)
  case (2 k v k1 v1 m)
  then show ?case by (cases "k < k1"; cases "k = k1") (auto intro: less_imp_le order_trans)
qed simp

lemma Gpio_pin_run:
  assumes "pin_at g n p" "f (gpio_env D F g) (p, w) = Inr (r, p1, w1)"
  shows "\<exists>g1. Gpio_pin D F n f (g, w) = Inr (r, g1, w1) \<and> pin_at g1 n p1 \<and> gpio_env D F g1 = gpio_env D F g"
proof -
  obtain c k conn where at: "map_of (gp_pin g) n = Some (c, k)" "map_of (gp_connector g) c = Some conn" "map_of (cn_pin conn) k = Some p"
    using assms(1) by (auto simp: pin_at_def)
  have sorted: "sorted (map fst (gp_connector g))" "sorted (map fst (cn_pin conn))"
    using assms(1) map_of_SomeD [OF at(2)] by (auto simp: pin_at_def maps_sorted_def)
  let ?conn = "conn\<lparr>cn_pin := map_put k p1 (cn_pin conn)\<rparr>"
  let ?g = "g\<lparr>gp_connector := map_put c ?conn (gp_connector g)\<rparr>"
  have "Gpio_pin D F n f (g, w) = Inr (r, ?g, w1)"
    using at assms(2) by (cases r) (simp_all add: Gpio_pin_def xwith_def map_at_def xret_def xbind_def on_connectors_def at_key_def
      Connector_pin_def on_pins_def)
  moreover have "maps_sorted ?g"
    using assms(1) map_put_set [of c ?conn "gp_connector g"] map_put_keys_sorted [OF sorted(1)] map_put_keys_sorted [OF sorted(2)]
    by (auto simp: pin_at_def maps_sorted_def)
  then have "pin_at ?g n p1"
    unfolding pin_at_def using at map_put_of [OF sorted(1), of c ?conn c] map_put_of [OF sorted(2), of k p1 k]
    by (intro conjI exI [of _ c] exI [of _ k] exI [of _ ?conn]) simp_all
  moreover have "gpio_env D F ?g = gpio_env D F g" by (simp add: gpio_env_def)
  ultimately show ?thesis by blast
qed

lemma on_gpio_run: "f (g, w) = Inr (r, g1, w1) \<Longrightarrow> on_gpio f (Some g, w) = Inr (r, Some g1, w1)"
  by (simp add: on_gpio_def)

text \<open> On the NanoPi, for a pin of an open port that was not used yet, \<open>pinMode (n, OUTPUT)\<close>,
  \<open>digitalWrite (n, v)\<close> and \<open>digitalRead (n)\<close> do not throw and read 1 when \<open>v\<close> is not 0, and 0 otherwise.\<close>

theorem digital_roundtrip:
  assumes "pin_at g n p" "Pin_mcuNumber p = m" "0 \<le> m" "m < 106" "Pin_isOpen p" "Pin_type p = TypeGpio" "\<not> pn_useSysFs p"
    and "pn_mode p \<in> nano_modes m" "pn_holdMode p = ModeUnknown" "pn_holdPull p = PullUnknown" "nano_dev_ok K regs w"
  shows "\<exists>s. xseq (pinMode (nanopi_device K desc) F n OUTPUT) (xseq (digitalWrite (nanopi_device K desc) F n v)
      (digitalRead (nanopi_device K desc) F n)) (Some g, w) = Inr (Inr (if v \<noteq> 0 then 1 else 0), s)"
proof -
  let ?D = "nanopi_device K desc" and ?E = "gpio_env (nanopi_device K desc) F g"
  have E: "pe_device ?E = Some ?D" by (simp add: gpio_env_def)
  have regs: "nano_dev.on_regs K desc ?E m p" using assms(2-8) E by (simp add: nano_dev.on_regs_def)
  have out: "ModeOutput \<in> nano_modes m" by (simp add: nano_modes_def)
  have rem: "nano_dev.remembers K desc regs True m w p w"
    using assms(9-11) by (simp add: nano_dev.remembers_def nano_dev.kept_refl)
  obtain p1 w1 where s1: "Pin_setMode ?E ModeOutput (p, w) = Inr (Inr (), p1, w1)" "nano_dev.on_regs K desc ?E m p1"
      "nano_dev.remembers K desc regs True m w p1 w1" "nano_dev_mode regs w1 m = ModeOutput"
    using nano_dev.set_mode_runs [OF regs rem out] by blast
  obtain p2 w2 where s2: "Pin_setPull ?E PullOff (p1, w1) = Inr (Inr (), p2, w2)" "nano_dev.on_regs K desc ?E m p2"
      "nano_dev.remembers K desc regs True m w p2 w2" "nano_dev_mode regs w2 m = ModeOutput"
    using nano_dev.set_pull_runs [OF s1(2,3), of PullOff] s1(4) by auto
  have p2: "Pin_mcuNumber p2 = m" "\<not> pn_useSysFs p2" "Pin_type p2 = TypeGpio" "Pin_isOpen p2" "nano_dev_ok K regs w2"
    using s2(2,3) by (simp_all add: nano_dev.on_regs_def nano_dev.remembers_def)
  have "m \<in> {0..<106}" using assms(3,4) by simp
  from nano_dev.write_law [OF p2(5) this, where b = "v \<noteq> 0" and desc = desc] obtain w3 where s3: "runs (dv_write ?D m (v \<noteq> 0)) w2 () w3" "nano_dev_ok K regs w3"
      "nano_dev_lev regs w3 m = (v \<noteq> 0)" using s2(4) by blast
  have wr: "Pin_write ?E (v \<noteq> 0) (p2, w2) = Inr (Inr (), p2, w3)"
    using on_device_eq [OF E, of "\<lambda>D. dv_write D m (v \<noteq> 0)" w2 "()" w3] s3(1) p2(1-4) by (simp add: Pin_write_def)
  obtain w4 where rd: "Pin_read ?E (p2, w3) = Inr (Inr (v \<noteq> 0), p2, w4)"
    using nano_dev.read_runs [OF s2(2) s3(2)] s3(3) by auto
  obtain g1 where g1: "Gpio_pin ?D F n (\<lambda>E. Pin_setMode E ModeOutput) (g, w) = Inr (Inr (), g1, w1)" "pin_at g1 n p1" "gpio_env ?D F g1 = ?E"
    using Gpio_pin_run [OF assms(1), of "\<lambda>E. Pin_setMode E ModeOutput" ?D F w] s1(1) by blast
  obtain g2 where g2: "Gpio_pin ?D F n (\<lambda>E. Pin_setPull E PullOff) (g1, w1) = Inr (Inr (), g2, w2)" "pin_at g2 n p2" "gpio_env ?D F g2 = ?E"
    using Gpio_pin_run [OF g1(2), of "\<lambda>E. Pin_setPull E PullOff" ?D F w1] s2(1) unfolding g1(3) by blast
  obtain g3 where g3: "Gpio_pin ?D F n (\<lambda>E. Pin_write E (v \<noteq> 0)) (g2, w2) = Inr (Inr (), g3, w3)" "pin_at g3 n p2" "gpio_env ?D F g3 = ?E"
    using Gpio_pin_run [OF g2(2), of "\<lambda>E. Pin_write E (v \<noteq> 0)" ?D F w2] wr unfolding g2(3) by blast
  obtain g4 where g4: "Gpio_pin ?D F n Pin_read (g3, w3) = Inr (Inr (v \<noteq> 0), g4, w4)"
    using Gpio_pin_run [OF g3(2), of Pin_read ?D F w3] rd unfolding g3(3) by blast
  have "pinMode ?D F n OUTPUT (Some g, w) = Inr (Inr (), Some g2, w2)"
    unfolding pinMode_def by (simp add: on_gpio_run [of "Gpio_pin ?D F n (\<lambda>E. Pin_setMode E ModeOutput)", OF g1(1)]
      on_gpio_run [of "Gpio_pin ?D F n (\<lambda>E. Pin_setPull E PullOff)", OF g2(1)])
  moreover have "digitalWrite ?D F n v (Some g2, w2) = Inr (Inr (), Some g3, w3)"
    unfolding digitalWrite_def by (rule on_gpio_run) (rule g3(1))
  moreover have "digitalRead ?D F n (Some g3, w3) = Inr (Inr (if v \<noteq> 0 then 1 else 0), Some g4, w4)"
    unfolding digitalRead_def by (rule on_gpio_run) (simp add: g4)
  ultimately show ?thesis by (cases w4) simp
qed

end
