(* ===== verification/Spec2Isabelle.thy ===== *)
theory Spec2Isabelle
  imports Sysio_Prelude Crc Byte_Receiver Ax25_Frame Ax25_Link Ax25_Wire Ax25_Roundtrip Tnc Tnc_Wire
    Xbee_Packet Xbee_Link Xbee_Recv Xbee_Delivery Xbee_Send Xbee_Access Sequence Vector Vector_Laws DList
    Driver_Monad Spi Timer Rf69_Registers Rf69 Rf69_Api Rf69_Laws Rf69_Settings Rf69_Safe Rf69_Radio
    C_String Serial Serial_Laws Tinfo Tinfo_Laws Tinfo_Meter Tinfo_Values
    I2c I2c_Laws I2c_Sensors Tlc59116 Tlc_Laws Ledrgb Ledrgb_Laws
    Gpio Gpio_Nanopi Gpio_Rpi Dport Gpio_Laws Gpio_Boards Gpio_Ports
    Blyss Blyss_Laws Blyss_Wire ChipIo Chip_Laws Pwm Boards Boards_Laws Gps Runtime
    Cxx_Monad Gpio_Pin Gpio_Descriptors Gpio_Devices Gpio_Classes Pin_Laws Device_Laws Gpio_Tables Pin_Claims Arduino
begin

text \<open>
  SysIO is a C library for small Linux computers (\<open>src\<close> and \<open>include/sysio\<close>) with a companion
  library for amateur radio (\<open>radio\<close>).  This development models the parts that carry logic of their
  own: the radio protocols, the XBee protocol, the two containers, the RFM69 radio with the drivers it
  stands on, the serial ports, the Teleinfo receiver, the devices of the I2C bus, the GPIO with its C and its C++ interface and
  what stands on it, the GPS receiver and the small services.  Paths are relative to the root of
  the repository.

  \<^bold>\<open>Common ground\<close> (\<open>Sysio_Prelude\<close>).  A computation that may leave defined C is a value of
  \<open>crash + 'a\<close>: \<open>Inl\<close> tells what went wrong (NULL dereferenced, access out of bounds, \<open>memcpy\<close> of
  overlapping ranges, an \<open>assert\<close>), \<open>Inr\<close> carries the result.  Every access to an array is checked
  (\<open>rd\<close>, \<open>wr\<close>, \<open>copy_into\<close>).  \<open>malloc\<close> takes its outcome from a plan, a list of flags; past its end
  it succeeds.  \<open>live\<close> counts the blocks allocated and not freed, so leaks are visible.  \<open>write\<close>
  takes its results from a plan that may be without end (\<open>wdev\<close>, \<open>answers\<close>): a device that answers 0 for ever is
  \<open>always 0\<close>.  \<open>errno\<close>, messages on the standard error
  and threads are left out.  Machine integers are words of their C width; \<open>int\<close> stands for the type
  int where the values stay small.

  \<^bold>\<open>CRC\<close> (\<open>Crc\<close>; \<open>radio/src/crc.c\<close>).  The table-driven update is proved equal to the bit-serial
  shift register; linearity of the register gives the detection results of the two protocols.

  \<^bold>\<open>AX.25\<close> (\<open>radio/src/ax25.c\<close>).  \<open>Ax25_Frame\<close>: nodes and frames, each operation with its NULL and
  out-of-memory branches; an ownership invariant shows that every sequence of operations keeps the frame
  well formed and that deleting it frees all its blocks.  \<open>Ax25_Link\<close>: the link object, the sender, the
  byte receiver and the decoder.  \<open>Ax25_Wire\<close>: what the sender puts on the line; the receiver stays in
  its buffer (\<open>Byte_Receiver\<close> has the loop lemmas and the interface it shares with the TNC).
  \<open>Ax25_Roundtrip\<close>: what is sent is received; corrupted frames are refused; the two ways in which a
  received frame breaks \<open>iAx25Read\<close>.

  \<^bold>\<open>TNC\<close> (\<open>Tnc\<close>, \<open>Tnc_Wire\<close>; \<open>radio/src/tnc.c\<close>).  The writer is a state machine driven by the
  results of \<open>write\<close>; a measure on its state shows that it ends after finitely many bytes, unless \<open>write\<close> answers one of
  them with 0 for ever: the loop that repeats it is a \<open>partial_function (option)\<close>, and then the result is \<open>None\<close>.  Round trip, error detection, and the overflow of the receive buffer.

  \<^bold>\<open>XBee\<close> (\<open>src/xbee.c\<close>, \<open>src/xbee1.c\<close>, \<open>src/xbee2.c\<close>, \<open>src/xbee_private.h\<close>).  \<open>Xbee_Packet\<close>: packets
  as lists of bytes with the offsets of the packed structures, and the accessors.  \<open>Xbee_Link\<close>: the XBee
  object, the receiver \<open>vXBeeIn\<close> with its switch that falls through (\<open>rx_case0\<close> to \<open>rx_check\<close>, chained by
  \<open>thru\<close>), the dispatch to the callbacks, the write loop and the transmit functions.  The loop of
  \<open>vXBeeIn\<close> ends because a turn takes a byte or moves the switch on; the write loop is a \<open>partial_function (option)\<close>, since it
  does not end on a device that takes nothing for ever.  Callbacks are functions on the state of the application that tell whether they
  keep the packet or have freed it, and what they return.  \<open>Xbee_Recv\<close>: the outcome does not depend on how the input is cut.
  \<open>Xbee_Delivery\<close>: delivery of correct packets, refusal of damaged ones, the crash on a bad length.
  \<open>Xbee_Send\<close>: what each transmit function puts on the line, and its failures.  \<open>Xbee_Access\<close>: the
  accessors applied to received packets.

  \<^bold>\<open>Containers\<close>.  \<open>Vector\<close> and \<open>Vector_Laws\<close> (\<open>src/vector.c\<close>): the array of pointers, with an
  abstraction \<open>elts\<close> to the list of its elements.  \<open>DList\<close> (\<open>src/dlist.c\<close>): cells in a heap from
  addresses to records; \<open>dl_inv\<close> relates the heap to the list of addresses in order.  Both containers
  interpret the interface \<open>sequence\<close> (\<open>Sequence\<close>), whose lemmas give the contents after a series of
  insertions.

  \<^bold>\<open>Drivers\<close>.  \<open>Driver_Monad\<close>: the functions of a driver are values of \<open>'a out\<close>, where \<open>None\<close> is a
  function that never returns (its waiting loop, \<open>wait_loop\<close>, does not end); \<open>try_int\<close> is the macro \<open>TRY_INT\<close>.
  \<open>safe\<close> says that no fault happens and the result satisfies a predicate, \<open>returns\<close> says in addition that
  the function returns.  The operating system is a record of functions on a world \<open>'w\<close>: \<open>spidev\<close> in \<open>Spi\<close>
  (\<open>src/spi/spi.c\<close>), \<open>timerfd\<close> in \<open>Timer\<close> (\<open>src/unix/timer.c\<close>), \<open>board\<close> with the digital input in \<open>Rf69\<close>.

  \<^bold>\<open>RFM69\<close> (\<open>src/spi/rf69.c\<close>, \<open>src/spi/rf69_sysio.c\<close>, \<open>src/spi/rf69_private.h\<close>,
  \<open>src/spi/rf69_registers.h\<close>).  \<open>Rf69_Registers\<close>: the constants.  \<open>Rf69\<close>: the object, the access to
  registers, the waits bounded by timers, modes, reception and the interrupt routine.  \<open>Rf69_Api\<close>: the
  functions the application calls.  The mutexes are left out: functions run one after the other and the
  interrupt routine between two of them.  \<open>Rf69_Laws\<close>, \<open>Rf69_Settings\<close>: on a module whose registers
  behave as documented (\<open>access_ok\<close>) the settings write the right fields and are read back; what a bus
  that fails looks like.  \<open>Rf69_Safe\<close>: whatever the module answers, as long as
  timers and memory are to be had, no sequence of calls and interrupts leaves defined C.
  \<open>Rf69_Radio\<close>: what is sent by one module is received by another.

  \<^bold>\<open>Strings and serial ports\<close>.  \<open>C_String\<close>: the functions of the C library on strings and numbers that are
  used, and \<open>src/string.c\<close>; a string is the bytes up to the end of the object that holds it.  \<open>Serial\<close>,
  \<open>Serial_Laws\<close> (\<open>src/unix/serial.c\<close>, \<open>src/serial.c\<close>): the settings of a \<open>termios\<close> structure with the bits
  Linux gives them, and the functions on a port, whose terminal calls are the record \<open>tty\<close>; the settings
  that a port is given are read back.  Durations of frames, which are floating point, are left out.

  \<^bold>\<open>Teleinfo\<close> (\<open>src/tinfo.c\<close>, \<open>include/sysio/tinfo.h\<close>).  \<open>Tinfo\<close>: the receiver of the French electricity meters;
  pointers into its buffer are indices, the frame union is laid out as on a machine with a \<open>long\<close> of 8 bytes, callbacks
  are functions of the environment \<open>tinfo_env\<close>.  The loop over the groups ends because each group starts behind
  the one before; the loop of the check sums has a turn for every byte.  \<open>Tinfo_Laws\<close>: the shape of the state and the room of the buffer.
  \<open>Tinfo_Meter\<close>: a reference decoder on labels and data, to which the code is proved equal; wrong check sums;
  frames in pieces.  \<open>Tinfo_Values\<close>: the numbers a meter prints are the numbers the callback is given, and what
  becomes of the frame of a three-phase meter.

  \<^bold>\<open>I2C\<close> (\<open>src/i2c\<close>).  \<open>I2c\<close>: the SMBus transactions, the bus and the serial memories over the record
  \<open>i2cdev\<close>; the loop over the pages is a \<open>partial_function (option)\<close>, since pages of size 0 never end.  \<open>I2c_Laws\<close>: on
  a memory that behaves as documented (\<open>eeprom\<close>) a page is read back, and the pages of a longer block overwrite each
  other.  \<open>I2c_Sensors\<close>: three sensors.

  \<^bold>\<open>RGB leds\<close> (\<open>src/ledrgb.c\<close>, \<open>src/i2c/tlc59116.c\<close>).  \<open>Tlc59116\<close>: the driver, with a copy of the registers of each
  controller and a vector of pointers to leds.  \<open>Tlc_Laws\<close>: on a bus that works, with controllers whose registers are plain memory (\<open>tlc_bus\<close>), the copies stay equal to the
  registers, and what a color writes; two controllers on one bus.  \<open>Ledrgb\<close>: devices over the interface \<open>led_driver\<close>, which
  \<open>Ledrgb_Laws\<close> interprets for the TLC59116; the operations on groups.

  \<^bold>\<open>GPIO\<close> (\<open>src/gpio\<close>, \<open>src/arch/arm\<close>, \<open>src/unix/iomap.c\<close>).  \<open>Gpio\<close>: registers in memory over the record \<open>iosys\<close>, the
  numbers of pins, the functions on pins and the iterator, a \<open>partial_function (option)\<close> since it may not come back; the
  functions of a board are the record \<open>gpio_arch\<close>, given by \<open>Gpio_Nanopi\<close> and \<open>Gpio_Rpi\<close>.  \<open>Dport\<close>: ports of outputs and inputs;
  the thread of the inputs is one turn of its loop, and a callback of the application acts on the world and not on the port.  \<open>Gpio_Laws\<close>: the interface \<open>gpio_pins\<close> of pins with modes and
  levels, and what follows for ports.  \<open>Gpio_Boards\<close>: both boards provide it on registers as their manuals say, with inputs
  whose levels do not change meanwhile.  \<open>Gpio_Ports\<close>: the results for the boards, the edges of the inputs, the iterator.

  \<^bold>\<open>Blyss\<close> (\<open>src/gpio/blyss.c\<close>).  \<open>Blyss\<close>: the frame of 52 bits, its fields, the rolling code, and sending as pulses on an output;
  the delays are the record \<open>bl_env\<close>.  \<open>Blyss_Laws\<close>: a setter changes its field and no other.  \<open>Blyss_Wire\<close>: the interface
  \<open>pulse_pin\<close>, a pin whose level a delay records; both boards provide it, and the pulses of a frame follow for both.

  \<^bold>\<open>ChipIo\<close> (\<open>chipio/src\<close>).  \<open>ChipIo\<close>: an I2C circuit with a converter and a serial port; the thread that moves bytes between the
  circuit and a pseudo-terminal is one turn of its loop, whose inner loops are \<open>wait_loop\<close>.  \<open>Chip_Laws\<close>: on a circuit that works
  (\<open>chip_works\<close>, with an abstract view of its registers and queues) settings are read back, a turn moves all bytes when the port
  has no interrupt line, and more than 32 waiting bytes overflow the buffer.

  \<^bold>\<open>Boards\<close> (\<open>src/arch/arm\<close>).  \<open>Pwm\<close>: the modulator of the Raspberry Pi over maps of registers.  \<open>Boards\<close>, \<open>Boards_Laws\<close>: how a
  Raspberry Pi and a NanoPi are recognised from files of the system, given as their bytes, and the tables of boards.

  \<^bold>\<open>GPS\<close> (\<open>Gps\<close>; \<open>src/libgps/gps.c\<close>).  One turn of the thread, callbacks, getters and texts over the record \<open>gps_lib\<close>, which holds
  the calls of libgps, the clock and the operations on doubles (\<open>gps_float\<close>).

  \<^bold>\<open>Services\<close> (\<open>Runtime\<close>; \<open>src/unix/log.c\<close>, \<open>src/unix/delay.c\<close>, \<open>src/unix/term.c\<close>, \<open>src/version.c\<close>).  The log and its mask, delays over a
  clock that goes on (\<open>ticks\<close>), the modes of the terminal, the numbers of the version.

  \<^bold>\<open>C++ classes of the GPIO\<close> (\<open>src/gpio/*.cpp\<close>, \<open>src/arch/arm/*/gpiodevice_*.cpp\<close>, their headers).  \<open>Cxx_Monad\<close>: a method may leave
  defined C++, throw an exception, or return; an exception keeps the state it leaves behind.  \<open>Gpio_Pin\<close>: the class \<open>Pin\<close>
  over registers or over the files of the system (\<open>sysfs\<close>), with the thread of the interrupts as one turn of its loop.
  \<open>Gpio_Devices\<close>: the devices of the NanoPi and of the Raspberry Pi, as records of functions (\<open>Device\<close>) as their virtual methods are.
  \<open>Gpio_Descriptors\<close>: the tables of connectors and pins.  \<open>Gpio_Classes\<close>: connectors, with their printing, and ports; connectors have at
  least one column, and what a stream got before an exception is left out.  \<open>Pin_Laws\<close>: the interface \<open>gpio_device\<close> of a
  device whose registers keep what they are given, and what pins do over it: a pin that was opened, used and closed is as it was
  before.  \<open>Device_Laws\<close>: both devices provide the interface on registers as their manuals say.  \<open>Gpio_Tables\<close>: what a port
  makes of the tables, and where they differ from those of the C interface.  \<open>Pin_Claims\<close>: the results for the boards; the C and the C++ interface
  make the same accesses.  \<open>Arduino\<close>: the clock, the priority of the process, and the functions with the names of Arduino over
  one global port (\<open>src/unix/clock.cpp\<close>, \<open>src/unix/scheduler.cpp\<close>, \<open>src/gpio/arduino.cpp\<close>).

  \<^bold>\<open>Not modelled\<close>.  Values of type double are parameters or left out.  The other C++ classes forward to the C functions.  The
  vendored libraries under \<open>3rdparty\<close>, the demonstrations, the tests and the utilities are left out.
\<close>

end
